(* ===== verification/Prelude.thy ===== *)
theory Prelude
  imports Complex_Main "HOL-Library.Sublist" "HOL-Library.Multiset"
begin

text \<open>
  The shared part of the development: the collections of rewrite rules the component
  theories fill, list and option lemmas they all use, and the three generic interfaces
  (as locales) that several components implement:
  \<^item> \<open>inductive_invariant\<close>: a step relation with a property that holds at the start and
    that every step keeps; the conclusion is that it holds in every reachable state;
  \<^item> \<open>prefix_code\<close>: an encoder that replaces one character at a time by a non-empty
    code word, no code word being the beginning of another; the conclusion is that the
    encoding of a whole string can be decoded in one way only;
  \<^item> \<open>clean_code\<close>: an encoder whose output avoids a set of characters.
\<close>

named_theorems store_simps \<open>read-over-write equations of the stores\<close>

type_synonym 'a result = "string + 'a"

section \<open>Options and lists\<close>

definition or_else :: "'a option \<Rightarrow> 'a \<Rightarrow> 'a" where
  "or_else x d = (case x of None \<Rightarrow> d | Some v \<Rightarrow> v)"

lemma or_else_simps [simp]: "or_else None d = d" "or_else (Some v) d = v"
  by (simp_all add: or_else_def)

lemma concat_map_set: "c \<in> set (concat (map f xs)) \<longleftrightarrow> (\<exists>x \<in> set xs. c \<in> set (f x))"
  by auto

lemma dropWhile_rev_id: "xs = [] \<or> \<not> P (last xs) \<Longrightarrow> dropWhile P (rev xs) = rev xs"
  by (cases xs rule: rev_cases) auto

lemma dropWhile_id: "xs = [] \<or> \<not> P (hd xs) \<Longrightarrow> dropWhile P xs = xs"
  by (cases xs) auto

lemma takeWhile_all: "(\<And>x. x \<in> set xs \<Longrightarrow> P x) \<Longrightarrow> takeWhile P (xs @ ys) = xs @ takeWhile P ys"
  by (induction xs) auto

lemma dropWhile_all: "(\<And>x. x \<in> set xs \<Longrightarrow> P x) \<Longrightarrow> dropWhile P (xs @ ys) = dropWhile P ys"
  by (induction xs) auto

section \<open>Interfaces\<close>

locale inductive_invariant =
  fixes start :: "'s \<Rightarrow> bool" and step :: "'s \<Rightarrow> 's \<Rightarrow> bool" and inv :: "'s \<Rightarrow> bool"
  assumes inv_start: "start s \<Longrightarrow> inv s"
    and inv_step: "step s t \<Longrightarrow> inv s \<Longrightarrow> inv t"
begin

lemma inv_run: "step\<^sup>*\<^sup>* s t \<Longrightarrow> inv s \<Longrightarrow> inv t"
  by (induction rule: rtranclp_induct) (auto intro: inv_step)

lemma inv_reachable: "start s \<Longrightarrow> step\<^sup>*\<^sup>* s t \<Longrightarrow> inv t"
  by (blast intro: inv_run inv_start)

end

locale prefix_code =
  fixes code :: "'a \<Rightarrow> 'b list"
  assumes code_nonempty: "code x \<noteq> []"
    and code_prefix_free: "prefix (code x) (code y @ u) \<Longrightarrow> x = y"
begin

lemma code_concat_inj: "concat (map code s) = concat (map code t) \<Longrightarrow> s = t"
proof (induction s arbitrary: t)
  case Nil
  then show ?case by (cases t) (auto simp: code_nonempty)
next
  case (Cons x s)
  then obtain y t' where t: "t = y # t'"
    by (cases t) (auto simp: code_nonempty)
  with Cons.prems have eq: "code x @ concat (map code s) = code y @ concat (map code t')"
    by simp
  then have "prefix (code x) (code y @ concat (map code t'))"
    by (metis prefixI)
  then have "x = y" by (rule code_prefix_free)
  with eq t Cons.IH show ?case by simp
qed

end

locale clean_code =
  fixes code :: "'a \<Rightarrow> 'b list" and bad :: "'b \<Rightarrow> bool"
  assumes code_clean: "c \<in> set (code x) \<Longrightarrow> \<not> bad c"
begin

lemma code_concat_clean: "c \<in> set (concat (map code s)) \<Longrightarrow> \<not> bad c"
  by (auto dest: code_clean)

end

end
