(* ===== verification/Js_Text.thy ===== *)
theory Js_Text
  imports Prelude
begin

text \<open>
  The part of JavaScript's String and Number built-ins that the front end uses, as
  functions on \<open>string\<close>. A modelled string is the text's UTF-8 bytes; on ASCII, which
  is what tokens, keys, paths and RouterOS identifiers are made of, one \<open>char\<close> is one
  UTF-16 code unit, and every function below is exact there.

  Lemmas: \<open>join\<close> undoes \<open>split\<close>; a decimal rendering is read back by \<open>parseInt\<close>; and
  \<open>encodeURIComponent\<close> is a prefix code (so it loses nothing) whose output has none of
  the characters that delimit a path or a query string.
\<close>

section \<open>Case, white space, substrings\<close>

definition code_of :: "char \<Rightarrow> nat" where
  "code_of c = of_char c"

definition is_ws :: "char \<Rightarrow> bool" where
  "is_ws c = (code_of c = 32 \<or> (9 \<le> code_of c \<and> code_of c \<le> 13))"

definition js_trim :: "string \<Rightarrow> string" where
  "js_trim s = rev (dropWhile is_ws (rev (dropWhile is_ws s)))"

definition lower_char :: "char \<Rightarrow> char" where
  "lower_char c = (if 65 \<le> code_of c \<and> code_of c \<le> 90 then char_of (code_of c + 32) else c)"

definition upper_char :: "char \<Rightarrow> char" where
  "upper_char c = (if 97 \<le> code_of c \<and> code_of c \<le> 122 then char_of (code_of c - 32) else c)"

definition toLowerCase :: "string \<Rightarrow> string" where
  "toLowerCase s = map lower_char s"

definition toUpperCase :: "string \<Rightarrow> string" where
  "toUpperCase s = map upper_char s"

text \<open>\<open>haystack.includes(needle)\<close>, by the search the language specifies.\<close>

fun js_includes :: "string \<Rightarrow> string \<Rightarrow> bool" where
  "js_includes [] needle = (needle = [])"
| "js_includes (c # cs) needle = (prefix needle (c # cs) \<or> js_includes cs needle)"

lemma js_includes_iff: "js_includes s n \<longleftrightarrow> (\<exists>u v. s = u @ n @ v)"
proof (induction s)
  case Nil
  then show ?case by auto
next
  case (Cons c cs)
  note Cons_IH = Cons.IH
  show ?case
  proof
    assume "js_includes (c # cs) n"
    then consider "prefix n (c # cs)" | "js_includes cs n" by auto
    then show "\<exists>u v. c # cs = u @ n @ v"
    proof cases
      case 1
      then obtain v where "c # cs = [] @ n @ v" by (auto simp: prefix_def)
      then show ?thesis by blast
    next
      case 2
      then obtain u v where "cs = u @ n @ v" using Cons.IH by blast
      then have "c # cs = (c # u) @ n @ v" by simp
      then show ?thesis by blast
    qed
  next
    assume "\<exists>u v. c # cs = u @ n @ v"
    then obtain u v where uv: "c # cs = u @ n @ v" by blast
    show "js_includes (c # cs) n"
    proof (cases u)
      case Nil
      with uv have "prefix n (c # cs)" by simp
      then show ?thesis by simp
    next
      case (Cons a u')
      with uv have "cs = u' @ n @ v" by simp
      then have "js_includes cs n" using Cons_IH by blast
      then show ?thesis by simp
    qed
  qed
qed

section \<open>Splitting and joining\<close>

text \<open>
  \<open>s.split(sep)\<close> for a non-empty separator: the accumulator holds the current piece in
  reverse. The source never splits by the empty string.
\<close>

function split_acc :: "string \<Rightarrow> string \<Rightarrow> string \<Rightarrow> string list" where
  "split_acc sep acc [] = [rev acc]"
| "split_acc sep acc (c # cs) =
     (if prefix sep (c # cs) then rev acc # split_acc sep [] (drop (length sep - 1) cs)
      else split_acc sep (c # acc) cs)"
  by pat_completeness auto
termination
  by (relation "measure (\<lambda>(sep, acc, s). length s)") auto

definition js_split :: "string \<Rightarrow> string \<Rightarrow> string list" where
  "js_split sep s = split_acc sep [] s"

fun js_join :: "string \<Rightarrow> string list \<Rightarrow> string" where
  "js_join sep [] = []"
| "js_join sep [x] = x"
| "js_join sep (x # y # xs) = x @ sep @ js_join sep (y # xs)"

lemma split_acc_nonempty [simp]: "split_acc sep acc s \<noteq> []"
  by (induction sep acc s rule: split_acc.induct) auto

lemma js_split_nonempty [simp]: "js_split sep s \<noteq> []"
  by (simp add: js_split_def)

lemma js_join_Cons: "xs \<noteq> [] \<Longrightarrow> js_join sep (x # xs) = x @ sep @ js_join sep xs"
  by (cases xs) auto

lemma split_acc_sep:
  assumes "sep \<noteq> []"
  shows "split_acc sep acc (sep @ v) = rev acc # split_acc sep [] v"
proof -
  obtain c cs where sep: "sep = c # cs" using assms by (cases sep) auto
  then show ?thesis by simp
qed

lemma js_join_split_acc: "sep \<noteq> [] \<Longrightarrow> js_join sep (split_acc sep acc s) = rev acc @ s"
proof (induction sep acc s rule: split_acc.induct)
  case (1 sep acc)
  then show ?case by simp
next
  case (2 sep acc c cs)
  show ?case
  proof (cases "prefix sep (c # cs)")
    case True
    then obtain v where v: "c # cs = sep @ v" by (auto simp: prefix_def)
    with "2.prems" have "drop (length sep - 1) cs = v"
      by (cases sep) auto
    with "2.IH"(1) [OF True "2.prems"] have "js_join sep (split_acc sep [] v) = v" by simp
    then show ?thesis
      unfolding v using "2.prems" by (simp add: split_acc_sep js_join_Cons)
  next
    case False
    with 2 show ?thesis by simp
  qed
qed

lemma js_join_split: "sep \<noteq> [] \<Longrightarrow> js_join sep (js_split sep s) = s"
  by (simp add: js_split_def js_join_split_acc)

text \<open>A piece in which the separator's first character does not occur is passed over whole.\<close>

lemma split_acc_skip:
  "sep \<noteq> [] \<Longrightarrow> hd sep \<notin> set u \<Longrightarrow> split_acc sep acc (u @ v) = split_acc sep (rev u @ acc) v"
proof (induction u arbitrary: acc)
  case Nil
  then show ?case by simp
next
  case (Cons c u)
  then have "\<not> prefix sep (c # u @ v)" by (cases sep) auto
  with Cons show ?case by simp
qed

lemma split_acc_miss:
  "\<not> prefix sep (c # v) \<Longrightarrow> split_acc sep acc (c # v) = split_acc sep (c # acc) v"
  by simp

lemma js_split_clean: "sep \<noteq> [] \<Longrightarrow> hd sep \<notin> set s \<Longrightarrow> js_split sep s = [s]"
  using split_acc_skip [of sep s "[]" "[]"] by (simp add: js_split_def)

lemma js_split_first:
  "sep \<noteq> [] \<Longrightarrow> hd sep \<notin> set u \<Longrightarrow> js_split sep (u @ sep @ v) = u # js_split sep v"
  by (simp add: js_split_def split_acc_skip split_acc_sep)

lemma js_split_join:
  "sep \<noteq> [] \<Longrightarrow> xs \<noteq> [] \<Longrightarrow> (\<And>x. x \<in> set xs \<Longrightarrow> hd sep \<notin> set x) \<Longrightarrow>
   js_split sep (js_join sep xs) = xs"
proof (induction sep xs rule: js_join.induct)
  case (1 sep)
  then show ?case by simp
next
  case (2 sep x)
  then show ?case by (simp add: js_split_clean)
next
  case (3 sep x y xs)
  then show ?case by (simp add: js_split_first)
qed

section \<open>Numbers as text\<close>

definition digit_char :: "nat \<Rightarrow> char" where
  "digit_char d = (if d < 10 then char_of (48 + d) else char_of (87 + d))"

text \<open>\<open>n.toString(radix)\<close> for a non-negative integer; \<open>String(n)\<close> is radix 10.\<close>

function show_radix :: "nat \<Rightarrow> nat \<Rightarrow> string" where
  "show_radix b n =
     (if n < b \<or> b < 2 then [digit_char n] else show_radix b (n div b) @ [digit_char (n mod b)])"
  by pat_completeness auto
termination
  by (relation "measure (\<lambda>(b, n). n)") (auto intro: div_less_dividend)

declare show_radix.simps [simp del]

definition show_nat :: "nat \<Rightarrow> string" where
  "show_nat n = show_radix 10 n"

definition show_int :: "int \<Rightarrow> string" where
  "show_int i = (if i < 0 then CHR ''-'' # show_nat (nat (- i)) else show_nat (nat i))"

definition padStart :: "nat \<Rightarrow> char \<Rightarrow> string \<Rightarrow> string" where
  "padStart n c s = replicate (n - length s) c @ s"

definition is_digit :: "char \<Rightarrow> bool" where
  "is_digit c = (48 \<le> code_of c \<and> code_of c \<le> 57)"

definition digit_val :: "char \<Rightarrow> nat" where
  "digit_val c = code_of c - 48"

definition read_digits :: "string \<Rightarrow> nat" where
  "read_digits ds = foldl (\<lambda>a c. 10 * a + digit_val c) 0 ds"

text \<open>
  \<open>Number.parseInt(s, 10)\<close>: leading white space and an optional sign, then the longest
  run of digits, \<open>None\<close> being \<open>NaN\<close>. The result is exact, as the language's is up to
  \<open>2 ^ 53\<close>.
\<close>

definition parseInt :: "string \<Rightarrow> int option" where
  "parseInt s =
     (let t = dropWhile is_ws s;
          neg = (t \<noteq> [] \<and> hd t = CHR ''-'');
          u = (if t \<noteq> [] \<and> (hd t = CHR ''-'' \<or> hd t = CHR ''+'') then tl t else t);
          ds = takeWhile is_digit u
      in if ds = [] then None
         else Some (if neg then - int (read_digits ds) else int (read_digits ds)))"

lemma of_digit_char [simp]: "d < 10 \<Longrightarrow> code_of (digit_char d) = 48 + d"
  by (simp add: code_of_def digit_char_def)

lemma is_digit_char [simp]: "d < 10 \<Longrightarrow> is_digit (digit_char d)"
  by (simp add: is_digit_def)

lemma digit_val_char [simp]: "d < 10 \<Longrightarrow> digit_val (digit_char d) = d"
  by (simp add: digit_val_def)

lemma read_digits_append: "read_digits (u @ [c]) = 10 * read_digits u + digit_val c"
  by (simp add: read_digits_def)

lemma show_nat_unfold:
  "show_nat n = (if n < 10 then [digit_char n] else show_nat (n div 10) @ [digit_char (n mod 10)])"
  unfolding show_nat_def by (subst show_radix.simps) simp

lemma show_nat_digits:
  "(\<forall>c \<in> set (show_nat n). is_digit c) \<and> show_nat n \<noteq> [] \<and> read_digits (show_nat n) = n"
proof (induction n rule: less_induct)
  case (less n)
  show ?case
  proof (cases "n < 10")
    case True
    then show ?thesis by (subst (1 2 3) show_nat_unfold) (simp add: read_digits_def)
  next
    case False
    then have "n div 10 < n" by simp
    from less.IH [OF this] False show ?thesis
      by (subst (1 2 3) show_nat_unfold) (auto simp: read_digits_append)
  qed
qed

lemma show_nat_nonempty [simp]: "show_nat n \<noteq> []"
  and show_nat_is_digit: "c \<in> set (show_nat n) \<Longrightarrow> is_digit c"
  and read_show_nat [simp]: "read_digits (show_nat n) = n"
  using show_nat_digits by auto

lemma digit_not_ws: "is_digit c \<Longrightarrow> \<not> is_ws c"
  by (auto simp: is_digit_def is_ws_def)

lemma sign_not_digit [simp]: "\<not> is_digit CHR ''-''" "\<not> is_digit CHR ''+''" "\<not> is_ws CHR ''-''"
  by (simp_all add: is_digit_def is_ws_def code_of_def)

lemma takeWhile_show_nat:
  "r = [] \<or> \<not> is_digit (hd r) \<Longrightarrow> takeWhile is_digit (show_nat n @ r) = show_nat n"
  using takeWhile_all [of "show_nat n" is_digit r] show_nat_is_digit by (cases r) auto

lemma hd_show_nat: "is_digit (hd (show_nat n @ r))"
  using show_nat_is_digit [of "hd (show_nat n)" n] by simp

lemma parseInt_show:
  assumes "r = [] \<or> \<not> is_digit (hd r)"
  shows "parseInt (show_int i @ r) = Some i"
proof (cases "i < 0")
  case True
  then show ?thesis
    using takeWhile_show_nat [OF assms]
    by (simp add: parseInt_def show_int_def Let_def)
next
  case False
  let ?t = "show_nat (nat i) @ r"
  have d: "is_digit (hd ?t)" by (rule hd_show_nat)
  then have "dropWhile is_ws ?t = ?t"
    by (intro dropWhile_id) (simp add: digit_not_ws)
  moreover have "hd ?t \<noteq> CHR ''-''" "hd ?t \<noteq> CHR ''+''"
    using d by (metis sign_not_digit(1), metis sign_not_digit(2))
  ultimately show ?thesis
    using False takeWhile_show_nat [OF assms]
    by (simp add: parseInt_def show_int_def Let_def)
qed

lemma show_nat_inj [simp]: "show_nat m = show_nat n \<longleftrightarrow> m = n"
  by (metis read_show_nat)

lemma show_int_inj [simp]: "show_int i = show_int j \<longleftrightarrow> i = j"
  using parseInt_show [of "[]"] by (metis append_Nil2 option.inject)

lemma show_int_nonempty [simp]: "show_int i \<noteq> []"
  by (simp add: show_int_def)

lemma show_int_chars: "c \<in> set (show_int i) \<Longrightarrow> is_digit c \<or> c = CHR ''-''"
  by (auto simp: show_int_def dest: show_nat_is_digit split: if_splits)

lemma length_padStart: "length (padStart n c s) = max n (length s)"
  by (simp add: padStart_def)

section \<open>Percent encoding\<close>

definition is_alnum :: "char \<Rightarrow> bool" where
  "is_alnum c = (is_digit c \<or> (65 \<le> code_of c \<and> code_of c \<le> 90) \<or> (97 \<le> code_of c \<and> code_of c \<le> 122))"

definition is_unreserved :: "char \<Rightarrow> bool" where
  "is_unreserved c = (is_alnum c \<or> c \<in> set ''-_.!~*'' \<or> code_of c = 39 \<or> code_of c = 40 \<or> code_of c = 41)"

definition hex_upper :: "nat \<Rightarrow> char" where
  "hex_upper d = (if d < 10 then char_of (48 + d) else char_of (55 + d))"

definition uri_char :: "char \<Rightarrow> string" where
  "uri_char c =
     (if is_unreserved c then [c]
      else [CHR ''%'', hex_upper (code_of c div 16), hex_upper (code_of c mod 16)])"

definition encodeURIComponent :: "string \<Rightarrow> string" where
  "encodeURIComponent s = concat (map uri_char s)"

text \<open>The characters that end a path segment, a query parameter or the whole reference.\<close>

definition url_delimiter :: "char \<Rightarrow> bool" where
  "url_delimiter c = (c \<in> set ''/?&#=;, :@+'')"

lemma code_of_less: "code_of c < 256"
  by (simp add: code_of_def)

lemma code_of_inj [simp]: "code_of c = code_of d \<longleftrightarrow> c = d"
  by (simp add: code_of_def)

lemma code_hex_upper: "d < 16 \<Longrightarrow> code_of (hex_upper d) = (if d < 10 then 48 + d else 55 + d)"
  by (simp add: hex_upper_def code_of_def)

lemma hex_upper_inj:
  assumes "a < 16" "b < 16" and eq: "hex_upper a = hex_upper b"
  shows "a = b"
proof -
  have "code_of (hex_upper a) = code_of (hex_upper b)" by (simp add: eq)
  then show ?thesis using assms(1,2) by (auto simp: code_hex_upper split: if_splits)
qed

lemma hex_upper_alnum: "d < 16 \<Longrightarrow> is_alnum (hex_upper d)"
  by (auto simp: is_alnum_def is_digit_def code_hex_upper)

lemma percent_reserved: "\<not> is_unreserved CHR ''%''"
  by (simp add: is_unreserved_def is_alnum_def is_digit_def code_of_def)

lemma unreserved_no_delimiter: "is_unreserved c \<Longrightarrow> \<not> url_delimiter c"
  by (auto simp: is_unreserved_def is_alnum_def is_digit_def url_delimiter_def code_of_def)

lemma nibbles: "code_of c div 16 < 16" "code_of c mod 16 < 16"
  using code_of_less [of c] by auto

lemma nibbles_eq: "code_of c div 16 = code_of d div 16 \<Longrightarrow> code_of c mod 16 = code_of d mod 16 \<Longrightarrow> c = d"
  by (metis code_of_inj div_mult_mod_eq)

interpretation uri: prefix_code uri_char
proof
  fix x show "uri_char x \<noteq> []" by (simp add: uri_char_def)
next
  fix x y u assume "prefix (uri_char x) (uri_char y @ u)"
  then show "x = y"
    using percent_reserved
    by (auto simp: uri_char_def split: if_splits dest!: hex_upper_inj [rotated 2] intro: nibbles nibbles_eq)
qed

interpretation uri: clean_code uri_char url_delimiter
proof
  fix c x assume "c \<in> set (uri_char x)"
  moreover have "is_unreserved (hex_upper (code_of x div 16))" "is_unreserved (hex_upper (code_of x mod 16))"
    using hex_upper_alnum nibbles by (auto simp: is_unreserved_def)
  moreover have "\<not> url_delimiter CHR ''%''" by (simp add: url_delimiter_def)
  ultimately show "\<not> url_delimiter c"
    by (auto simp: uri_char_def split: if_splits dest: unreserved_no_delimiter)
qed

lemma encodeURIComponent_inj [simp]: "encodeURIComponent s = encodeURIComponent t \<longleftrightarrow> s = t"
  unfolding encodeURIComponent_def by (auto dest: uri.code_concat_inj)

lemma encodeURIComponent_clean: "c \<in> set (encodeURIComponent s) \<Longrightarrow> \<not> url_delimiter c"
  unfolding encodeURIComponent_def by (rule uri.code_concat_clean)

lemma encodeURIComponent_no_slash: "CHR ''/'' \<notin> set (encodeURIComponent s)"
  using encodeURIComponent_clean [of "CHR ''/''" s] by (auto simp: url_delimiter_def)

end
