(* ===== verification/Js_Json.thy ===== *)
theory Js_Json
  imports Js_Text
begin

text \<open>
  JavaScript values as the front end meets them at its borders (response bodies, search
  parameters, decoded tokens), with property access, truthiness, \<open>JSON.stringify\<close> of a
  string, \<open>JSON.parse\<close> and \<open>atob\<close>. Numbers are exact rationals: the text of a JSON number
  is read without the rounding of a 64-bit float.

  Lemmas: the text \<open>JSON.stringify\<close> gives for a string is read back by \<open>JSON.parse\<close>, and
  the escaping is a prefix code.
\<close>

section \<open>Values\<close>

datatype js =
    JUndef
  | JNull
  | JBool bool
  | JNum rat
  | JStr string
  | JArr "js list"
  | JObj "(string \<times> js) list"

fun truthy :: "js \<Rightarrow> bool" where
  "truthy JUndef = False"
| "truthy JNull = False"
| "truthy (JBool b) = b"
| "truthy (JNum n) = (n \<noteq> 0)"
| "truthy (JStr s) = (s \<noteq> [])"
| "truthy (JArr _) = True"
| "truthy (JObj _) = True"

text \<open>\<open>v == null\<close> and the operators \<open>??\<close> and \<open>||\<close>.\<close>

fun nullish :: "js \<Rightarrow> bool" where
  "nullish JUndef = True"
| "nullish JNull = True"
| "nullish _ = False"

definition js_coalesce :: "js \<Rightarrow> js \<Rightarrow> js" where
  "js_coalesce a b = (if nullish a then b else a)"

definition js_or :: "js \<Rightarrow> js \<Rightarrow> js" where
  "js_or a b = (if truthy a then a else b)"

text \<open>
  Property access \<open>v.k\<close>. On \<open>undefined\<close> and \<open>null\<close> it throws (\<open>None\<close>); on a value with no
  such own property it gives \<open>undefined\<close>. The optional form \<open>v?.k\<close> never throws.
\<close>

fun js_get :: "js \<Rightarrow> string \<Rightarrow> js option" where
  "js_get JUndef k = None"
| "js_get JNull k = None"
| "js_get (JObj fs) k = Some (case map_of fs k of None \<Rightarrow> JUndef | Some v \<Rightarrow> v)"
| "js_get _ k = Some JUndef"

definition js_optget :: "js \<Rightarrow> string \<Rightarrow> js" where
  "js_optget v k = (case js_get v k of None \<Rightarrow> JUndef | Some w \<Rightarrow> w)"

lemma js_optget_simps [simp]:
  "js_optget JUndef k = JUndef" "js_optget JNull k = JUndef"
  "js_optget (JBool b) k = JUndef" "js_optget (JNum n) k = JUndef"
  "js_optget (JStr s) k = JUndef" "js_optget (JArr xs) k = JUndef"
  "js_optget (JObj fs) k = (case map_of fs k of None \<Rightarrow> JUndef | Some v \<Rightarrow> v)"
  by (simp_all add: js_optget_def)

text \<open>Assignment of a property (or entry of a \<open>Map\<close>), and the spread \<open>{...a, ...b}\<close>: later keys win.\<close>

fun obj_put :: "('k \<times> 'v) list \<Rightarrow> 'k \<Rightarrow> 'v \<Rightarrow> ('k \<times> 'v) list" where
  "obj_put [] k v = [(k, v)]"
| "obj_put ((k', v') # fs) k v = (if k' = k then (k, v) # fs else (k', v') # obj_put fs k v)"

definition obj_spread :: "('k \<times> 'v) list \<Rightarrow> ('k \<times> 'v) list \<Rightarrow> ('k \<times> 'v) list" where
  "obj_spread a b = foldl (\<lambda>fs (k, v). obj_put fs k v) a b"

lemma map_of_obj_put [store_simps]: "map_of (obj_put fs k v) = (map_of fs)(k \<mapsto> v)"
  by (induction fs) auto

lemma obj_put_keys: "fst ` set (obj_put fs k v) = insert k (fst ` set fs)"
  by (induction fs k v rule: obj_put.induct) (simp_all add: insert_commute)

lemma obj_put_distinct: "distinct (map fst fs) \<Longrightarrow> distinct (map fst (obj_put fs k v))"
proof (induction fs)
  case Nil
  then show ?case by simp
next
  case (Cons f fs)
  then show ?case using obj_put_keys [of fs k v] by (cases f) auto
qed

lemma map_of_obj_spread [store_simps]:
  "map_of (obj_spread a b) k = (case map_of (rev b) k of None \<Rightarrow> map_of a k | Some v \<Rightarrow> Some v)"
  unfolding obj_spread_def
  by (induction b arbitrary: a) (auto simp: store_simps map_add_def split: option.splits)

lemma obj_spread_distinct: "distinct (map fst a) \<Longrightarrow> distinct (map fst (obj_spread a b))"
  unfolding obj_spread_def by (induction b arbitrary: a) (auto simp: obj_put_distinct)

lemma obj_spread_keys: "fst ` set (obj_spread a b) = fst ` set a \<union> fst ` set b"
  unfolding obj_spread_def by (induction b arbitrary: a) (simp_all add: obj_put_keys split_def)

lemma map_of_rev: "distinct (map fst xs) \<Longrightarrow> map_of (rev xs) = map_of xs"
  using map_of_inject_set [of "rev xs" xs] by (simp flip: rev_map)

section \<open>JSON text\<close>

definition hex_lower :: "nat \<Rightarrow> char" where
  "hex_lower d = digit_char d"

definition json_char :: "char \<Rightarrow> string" where
  "json_char c =
     (let n = code_of c in
      if n = 34 then [char_of (92::nat), char_of (34::nat)]
      else if n = 92 then [char_of (92::nat), char_of (92::nat)]
      else if n = 8 then [char_of (92::nat), CHR ''b'']
      else if n = 12 then [char_of (92::nat), CHR ''f'']
      else if n = 10 then [char_of (92::nat), CHR ''n'']
      else if n = 13 then [char_of (92::nat), CHR ''r'']
      else if n = 9 then [char_of (92::nat), CHR ''t'']
      else if n < 32 then
        [char_of (92::nat), CHR ''u'', CHR ''0'', CHR ''0'', hex_lower (n div 16), hex_lower (n mod 16)]
      else [c])"

text \<open>\<open>JSON.stringify(s)\<close> for a string \<open>s\<close>.\<close>

definition json_quote :: "string \<Rightarrow> string" where
  "json_quote s = char_of (34::nat) # concat (map json_char s) @ [char_of (34::nat)]"

definition hex_val :: "char \<Rightarrow> nat option" where
  "hex_val c =
     (let n = code_of c in
      if 48 \<le> n \<and> n \<le> 57 then Some (n - 48)
      else if 97 \<le> n \<and> n \<le> 102 then Some (n - 87)
      else if 65 \<le> n \<and> n \<le> 70 then Some (n - 55)
      else None)"

text \<open>A code unit given by \<open>\u\<close> outside ASCII becomes its UTF-8 bytes.\<close>

definition utf8_unit :: "nat \<Rightarrow> string" where
  "utf8_unit n =
     (if n < 128 then [char_of n]
      else if n < 2048 then [char_of (192 + n div 64), char_of (128 + n mod 64)]
      else [char_of (224 + n div 4096), char_of (128 + (n div 64) mod 64), char_of (128 + n mod 64)])"

definition simple_escape :: "nat \<Rightarrow> string option" where
  "simple_escape n =
     (if n = 34 \<or> n = 92 \<or> n = 47 then Some [char_of n]
      else if n = 98 then Some [char_of (8::nat)]
      else if n = 102 then Some [char_of (12::nat)]
      else if n = 110 then Some [char_of (10::nat)]
      else if n = 114 then Some [char_of (13::nat)]
      else if n = 116 then Some [char_of (9::nat)]
      else None)"

text \<open>The rest of a string literal, after its opening quote.\<close>

fun json_string_body :: "string \<Rightarrow> (string \<times> string) option" where
  "json_string_body [] = None"
| "json_string_body (c # cs) =
     (if code_of c = 34 then Some ([], cs)
      else if code_of c < 32 then None
      else if code_of c = 92 then
        (case cs of
           [] \<Rightarrow> None
         | e # r \<Rightarrow>
             (if code_of e = 117 then
                (case r of
                   h1 # h2 # h3 # h4 # r' \<Rightarrow>
                     (case (hex_val h1, hex_val h2, hex_val h3, hex_val h4) of
                        (Some a, Some b, Some d, Some f) \<Rightarrow>
                          map_option (\<lambda>(s, t). (utf8_unit (4096 * a + 256 * b + 16 * d + f) @ s, t))
                            (json_string_body r')
                      | _ \<Rightarrow> None)
                 | _ \<Rightarrow> None)
              else
                (case simple_escape (code_of e) of
                   None \<Rightarrow> None
                 | Some x \<Rightarrow> map_option (\<lambda>(s, t). (x @ s, t)) (json_string_body r))))
      else map_option (\<lambda>(s, t). (c # s, t)) (json_string_body cs))"

definition json_ws :: "char \<Rightarrow> bool" where
  "json_ws c = (code_of c \<in> {32, 9, 10, 13})"

definition skip_ws :: "string \<Rightarrow> string" where
  "skip_ws s = dropWhile json_ws s"

text \<open>
  A number: an optional minus, an integer part without leading zeros, then an optional
  fraction and exponent.
\<close>

definition json_int_part :: "string \<Rightarrow> (string \<times> string) option" where
  "json_int_part s =
     (let ds = takeWhile is_digit s; r = dropWhile is_digit s in
      if ds = [] then None
      else if hd ds = CHR ''0'' then Some (''0'', tl s)
      else Some (ds, r))"

definition json_frac :: "string \<Rightarrow> (rat \<times> string) option" where
  "json_frac s =
     (if s \<noteq> [] \<and> hd s = CHR ''.'' then
        (let ds = takeWhile is_digit (tl s) in
         if ds = [] then None
         else Some (of_nat (read_digits ds) / 10 ^ length ds, dropWhile is_digit (tl s)))
      else Some (0, s))"

definition json_exp :: "string \<Rightarrow> (rat \<times> string) option" where
  "json_exp s =
     (if s \<noteq> [] \<and> (hd s = CHR ''e'' \<or> hd s = CHR ''E'') then
        (let t = tl s;
             neg = (t \<noteq> [] \<and> hd t = CHR ''-'');
             u = (if t \<noteq> [] \<and> (hd t = CHR ''-'' \<or> hd t = CHR ''+'') then tl t else t);
             ds = takeWhile is_digit u
         in if ds = [] then None
            else Some (if neg then 1 / 10 ^ read_digits ds else 10 ^ read_digits ds,
                       dropWhile is_digit u))
      else Some (1, s))"

definition json_number :: "string \<Rightarrow> (rat \<times> string) option" where
  "json_number s =
     (let neg = (s \<noteq> [] \<and> hd s = CHR ''-''); t = (if neg then tl s else s) in
      case json_int_part t of
        None \<Rightarrow> None
      | Some (ds, r1) \<Rightarrow>
          (case json_frac r1 of
             None \<Rightarrow> None
           | Some (f, r2) \<Rightarrow>
               (case json_exp r2 of
                  None \<Rightarrow> None
                | Some (e, r3) \<Rightarrow>
                    let v = (of_nat (read_digits ds) + f) * e in Some (if neg then - v else v, r3))))"

text \<open>
  Values. Each call spends one unit of fuel and consumes input before it recurs, so the
  length of the text is enough.
\<close>

fun json_value :: "nat \<Rightarrow> string \<Rightarrow> (js \<times> string) option"
  and json_elements :: "nat \<Rightarrow> string \<Rightarrow> (js list \<times> string) option"
  and json_members :: "nat \<Rightarrow> string \<Rightarrow> ((string \<times> js) list \<times> string) option"
where
  "json_value 0 s = None"
| "json_value (Suc n) s =
     (case skip_ws s of
        [] \<Rightarrow> None
      | c # cs \<Rightarrow>
          (if code_of c = 34 then map_option (\<lambda>(t, r). (JStr t, r)) (json_string_body cs)
           else if c = CHR ''{'' then
             (case skip_ws cs of
                [] \<Rightarrow> None
              | d # ds \<Rightarrow>
                  (if d = CHR ''}'' then Some (JObj [], ds)
                   else map_option (\<lambda>(fs, r). (JObj (obj_spread [] fs), r)) (json_members n (d # ds))))
           else if c = CHR ''['' then
             (case skip_ws cs of
                [] \<Rightarrow> None
              | d # ds \<Rightarrow>
                  (if d = CHR '']'' then Some (JArr [], ds)
                   else map_option (\<lambda>(xs, r). (JArr xs, r)) (json_elements n (d # ds))))
           else if prefix ''true'' (c # cs) then Some (JBool True, drop 4 (c # cs))
           else if prefix ''false'' (c # cs) then Some (JBool False, drop 5 (c # cs))
           else if prefix ''null'' (c # cs) then Some (JNull, drop 4 (c # cs))
           else map_option (\<lambda>(v, r). (JNum v, r)) (json_number (c # cs))))"
| "json_elements 0 s = None"
| "json_elements (Suc n) s =
     (case json_value n s of
        None \<Rightarrow> None
      | Some (v, r) \<Rightarrow>
          (case skip_ws r of
             [] \<Rightarrow> None
           | d # ds \<Rightarrow>
               (if d = CHR '']'' then Some ([v], ds)
                else if d = CHR '','' then map_option (\<lambda>(xs, t). (v # xs, t)) (json_elements n ds)
                else None)))"
| "json_members 0 s = None"
| "json_members (Suc n) s =
     (case skip_ws s of
        [] \<Rightarrow> None
      | q # qs \<Rightarrow>
          (if code_of q \<noteq> 34 then None
           else
             (case json_string_body qs of
                None \<Rightarrow> None
              | Some (k, r) \<Rightarrow>
                  (case skip_ws r of
                     [] \<Rightarrow> None
                   | d # ds \<Rightarrow>
                       (if d \<noteq> CHR '':'' then None
                        else
                          (case json_value n ds of
                             None \<Rightarrow> None
                           | Some (v, t) \<Rightarrow>
                               (case skip_ws t of
                                  [] \<Rightarrow> None
                                | e # es \<Rightarrow>
                                    (if e = CHR ''}'' then Some ([(k, v)], es)
                                     else if e = CHR '','' then
                                       map_option (\<lambda>(fs, u). ((k, v) # fs, u)) (json_members n es)
                                     else None))))))))"

text \<open>\<open>JSON.parse(text)\<close>: \<open>None\<close> is a thrown \<open>SyntaxError\<close>.\<close>

definition JSON_parse :: "string \<Rightarrow> js option" where
  "JSON_parse s =
     (case json_value (2 * length s + 2) s of
        None \<Rightarrow> None
      | Some (v, r) \<Rightarrow> (if skip_ws r = [] then Some v else None))"

section \<open>A quoted string is read back\<close>

lemma code_char_of [simp]: "n < 256 \<Longrightarrow> code_of (char_of n) = n"
  by (simp add: code_of_def)

lemma hex_val_digit [simp]: "d < 16 \<Longrightarrow> hex_val (hex_lower d) = Some d"
  by (auto simp: hex_val_def hex_lower_def digit_char_def Let_def)

lemma char_of_code [simp]: "char_of (code_of c) = c"
  by (simp add: code_of_def)

lemma code_eqD: "code_of c = n \<Longrightarrow> c = char_of n"
  by auto

lemma json_body_char:
  "json_string_body (json_char c @ r) = map_option (\<lambda>(s, t). (c # s, t)) (json_string_body r)"
proof -
  have c: "c = char_of (code_of c)" by simp
  have low: "4096 * 0 + 256 * 0 + 16 * (code_of c div 16) + code_of c mod 16 = code_of c" by simp
  consider "code_of c = 34" | "code_of c = 92" | "code_of c = 8" | "code_of c = 12"
    | "code_of c = 10" | "code_of c = 13" | "code_of c = 9"
    | "code_of c < 32" "code_of c \<notin> {8, 9, 10, 12, 13}"
    | "32 \<le> code_of c" "code_of c \<noteq> 34" "code_of c \<noteq> 92"
    by (cases "code_of c < 32") auto
  then show ?thesis
  proof cases
    case 8
    have z: "hex_val CHR ''0'' = Some 0" by (simp add: hex_val_def code_of_def)
    have u: "code_of CHR ''u'' = 117" by (simp add: code_of_def)
    have "code_of c div 16 < 16" "code_of c mod 16 < 16" using 8 by auto
    with 8 z u low c show ?thesis
      by (simp add: json_char_def Let_def utf8_unit_def)
  qed (auto simp: json_char_def Let_def simple_escape_def code_of_def [of "CHR ''b''"]
        code_of_def [of "CHR ''f''"] code_of_def [of "CHR ''n''"] code_of_def [of "CHR ''r''"]
        code_of_def [of "CHR ''t''"] dest!: code_eqD)
qed

lemma json_body_chars:
  "json_string_body (concat (map json_char s) @ char_of (34::nat) # r) = Some (s, r)"
  by (induction s) (simp_all add: json_body_char)

declare json_value.simps [simp del] json_elements.simps [simp del] json_members.simps [simp del]
  json_string_body.simps [simp del]

lemma json_value_quote: "json_value (Suc n) (json_quote s @ r) = Some (JStr s, r)"
proof -
  have "skip_ws (json_quote s @ r) = char_of (34::nat) # concat (map json_char s) @ char_of (34::nat) # r"
    by (simp add: skip_ws_def json_quote_def json_ws_def)
  then show ?thesis by (simp add: json_body_chars json_value.simps)
qed

theorem JSON_parse_quote: "JSON_parse (json_quote s) = Some (JStr s)"
proof -
  have "2 * length (json_quote s) + 2 = Suc (2 * length (json_quote s) + 1)" by simp
  then have "json_value (2 * length (json_quote s) + 2) (json_quote s) = Some (JStr s, [])"
    by (metis append_Nil2 json_value_quote)
  then show ?thesis unfolding JSON_parse_def by (simp add: skip_ws_def)
qed

lemma json_quote_inj: "json_quote s = json_quote t \<Longrightarrow> s = t"
  by (metis JSON_parse_quote js.inject(3) option.inject)

text \<open>Text made only of printable characters without quote and backslash is quoted as it stands.\<close>

definition json_plain :: "char \<Rightarrow> bool" where
  "json_plain c = (32 \<le> code_of c \<and> code_of c \<noteq> 34 \<and> code_of c \<noteq> 92)"

lemma json_char_plain: "json_plain c \<Longrightarrow> json_char c = [c]"
  by (auto simp: json_char_def json_plain_def Let_def)

lemma json_quote_plain:
  assumes "\<And>c. c \<in> set s \<Longrightarrow> json_plain c"
  shows "json_quote s = char_of (34::nat) # s @ [char_of (34::nat)]"
proof -
  have "concat (map json_char s) = s"
    using assms by (induction s) (simp_all add: json_char_plain)
  then show ?thesis by (simp add: json_quote_def)
qed

section \<open>Base 64\<close>

text \<open>
  \<open>atob\<close>: white space is dropped, up to two padding characters are accepted at the end of
  a text whose length is a multiple of four, and anything else outside the alphabet, or a
  length of the form \<open>4 * k + 1\<close>, throws (\<open>None\<close>).
\<close>

definition b64_val :: "char \<Rightarrow> nat option" where
  "b64_val c =
     (let n = code_of c in
      if 65 \<le> n \<and> n \<le> 90 then Some (n - 65)
      else if 97 \<le> n \<and> n \<le> 122 then Some (n - 71)
      else if 48 \<le> n \<and> n \<le> 57 then Some (n + 4)
      else if n = 43 then Some 62
      else if n = 47 then Some 63
      else None)"

fun b64_bytes :: "nat list \<Rightarrow> nat list" where
  "b64_bytes (a # b # c # d # r) =
     (4 * a + b div 16) # (16 * (b mod 16) + c div 4) # (64 * (c mod 4) + d) # b64_bytes r"
| "b64_bytes [a, b, c] = [4 * a + b div 16, 16 * (b mod 16) + c div 4]"
| "b64_bytes [a, b] = [4 * a + b div 16]"
| "b64_bytes _ = []"

definition b64_strip :: "string \<Rightarrow> string" where
  "b64_strip s =
     (if length s mod 4 = 0 \<and> length s \<ge> 2 \<and> last s = CHR ''='' then
        (if last (butlast s) = CHR ''='' then butlast (butlast s) else butlast s)
      else s)"

fun all_some :: "'a option list \<Rightarrow> 'a list option" where
  "all_some [] = Some []"
| "all_some (None # xs) = None"
| "all_some (Some x # xs) = map_option ((#) x) (all_some xs)"

definition atob :: "string \<Rightarrow> string option" where
  "atob s =
     (let t = b64_strip (filter (\<lambda>c. \<not> is_ws c) s) in
      if length t mod 4 = 1 then None
      else map_option (\<lambda>vs. map char_of (b64_bytes vs)) (all_some (map b64_val t)))"

lemma atob_example: "atob ''aGk='' = Some ''hi''" "atob ''aGkh'' = Some ''hi!''" "atob ''a'' = None"
  by code_simp+

lemma JSON_parse_example:
  "JSON_parse ''{ 'uid': 7 }'' = None"
  "JSON_parse ''[true, null, -12.50e1]'' = Some (JArr [JBool True, JNull, JNum (- 125)])"
  by code_simp+

section \<open>Number\<close>

text \<open>
  \<open>Number(s)\<close> for a string: white space is trimmed, the empty text is 0, then a radix
  literal or a signed decimal literal. \<open>None\<close> stands for \<open>NaN\<close> and for the infinities.
\<close>

definition read_decimal :: "string \<Rightarrow> rat option" where
  "read_decimal s =
     (let ds = takeWhile is_digit s; r = dropWhile is_digit s;
          fs = (if r \<noteq> [] \<and> hd r = CHR ''.'' then takeWhile is_digit (tl r) else []);
          r2 = (if r \<noteq> [] \<and> hd r = CHR ''.'' then dropWhile is_digit (tl r) else r)
      in if ds = [] \<and> fs = [] then None
         else
           (case json_exp r2 of
              Some (e, []) \<Rightarrow> Some ((of_nat (read_digits ds) + of_nat (read_digits fs) / 10 ^ length fs) * e)
            | _ \<Rightarrow> None))"

definition read_radix :: "nat \<Rightarrow> string \<Rightarrow> rat option" where
  "read_radix b s =
     (if s = [] \<or> list_ex (\<lambda>c. case hex_val c of None \<Rightarrow> True | Some d \<Rightarrow> b \<le> d) s then None
      else Some (of_nat (foldl (\<lambda>n c. b * n + or_else (hex_val c) 0) 0 s)))"

definition StringToNumber :: "string \<Rightarrow> rat option" where
  "StringToNumber str =
     (let s = js_trim str; p = toLowerCase (take 2 s) in
      if s = [] then Some 0
      else if p = ''0x'' then read_radix 16 (drop 2 s)
      else if p = ''0o'' then read_radix 8 (drop 2 s)
      else if p = ''0b'' then read_radix 2 (drop 2 s)
      else if hd s = CHR ''-'' then map_option uminus (read_decimal (tl s))
      else if hd s = CHR ''+'' then read_decimal (tl s)
      else read_decimal s)"

text \<open>
  \<open>Number(v)\<close>. An array is first joined to a string: empty for no element or one nullish
  element, the text of its only element (a number then reads back as itself, a Boolean as
  \<open>NaN\<close>), and with a comma, hence \<open>NaN\<close>, for more.
\<close>

fun js_Number :: "js \<Rightarrow> rat option" where
  "js_Number JUndef = None"
| "js_Number JNull = Some 0"
| "js_Number (JBool b) = Some (if b then 1 else 0)"
| "js_Number (JNum n) = Some n"
| "js_Number (JStr s) = StringToNumber s"
| "js_Number (JArr []) = Some 0"
| "js_Number (JArr [v]) =
     (case v of JUndef \<Rightarrow> Some 0 | JBool _ \<Rightarrow> None | _ \<Rightarrow> js_Number v)"
| "js_Number (JArr (v # w # vs)) = None"
| "js_Number (JObj _) = None"

lemma js_Number_example:
  "js_Number (JStr '' 204 '') = Some 204" "js_Number (JStr ''2.5e1'') = Some 25"
  "js_Number (JStr ''0x1F'') = Some 31" "js_Number (JStr ''12px'') = None" "js_Number (JArr [JStr ''7'']) = Some 7"
  by code_simp+

section \<open>String\<close>

text \<open>
  \<open>String(n)\<close> for a number: integers are printed in decimal, other numbers with the digits of
  their decimal expansion (at most twenty are looked for; the values of the program have a
  few). The exponent form JavaScript uses from \<open>1e21\<close> on is not modelled.
\<close>

definition show_digits :: "nat \<Rightarrow> rat \<Rightarrow> string" where
  "show_digits k r =
     (let n = nat \<lfloor>r * 10 ^ k\<rfloor> in show_nat (n div 10 ^ k) @ ''.'' @ padStart k CHR ''0'' (show_nat (n mod 10 ^ k)))"

definition show_rat :: "rat \<Rightarrow> string" where
  "show_rat r =
     (if of_int \<lfloor>r\<rfloor> = r then show_int \<lfloor>r\<rfloor>
      else
        (let k = length (takeWhile (\<lambda>k. of_int \<lfloor>\<bar>r\<bar> * 10 ^ k\<rfloor> \<noteq> \<bar>r\<bar> * 10 ^ k) [0..<20])
         in (if r < 0 then ''-'' else []) @ show_digits k \<bar>r\<bar>))"

fun js_String :: "js \<Rightarrow> string" where
  "js_String JUndef = ''undefined''"
| "js_String JNull = ''null''"
| "js_String (JBool b) = (if b then ''true'' else ''false'')"
| "js_String (JNum n) = show_rat n"
| "js_String (JStr s) = s"
| "js_String (JArr vs) = js_join '','' (map (\<lambda>v. if nullish v then [] else js_String v) vs)"
| "js_String (JObj _) = ''[object Object]''"

lemma js_String_example:
  "js_String (JNum 42) = ''42''" "js_String (JNum (- 5 / 2)) = ''-2.5''"
  "js_String (JArr [JNum 1, JNull, JStr ''x'']) = ''1,,x''"
  by code_simp+

lemma show_rat_int [simp]: "show_rat (of_int i) = show_int i"
  by (simp add: show_rat_def)

text \<open>
  An optional string as a value, \<open>Number(v)\<close> as a field of a JSON body (where \<open>NaN\<close> becomes
  null), and \<open>s.startsWith(p)\<close>.
\<close>

definition opt_str :: "string option \<Rightarrow> js" where
  "opt_str x = (case x of None \<Rightarrow> JUndef | Some s \<Rightarrow> JStr s)"

definition js_num :: "js \<Rightarrow> js" where
  "js_num v = (case js_Number v of None \<Rightarrow> JNull | Some n \<Rightarrow> JNum n)"

lemma opt_str_simps [simp]: "opt_str None = JUndef" "opt_str (Some s) = JStr s"
  by (simp_all add: opt_str_def)

lemma truthy_opt_str [simp]: "truthy (opt_str x) \<longleftrightarrow> or_else x [] \<noteq> []"
  by (cases x) simp_all

end
