(* ===== verification/Browser.thy ===== *)
theory Browser
  imports Js_Json
begin

text \<open>
  The browser state the stores persist into: the cookie jar behind \<open>document.cookie\<close> and
  \<open>localStorage\<close>, with the three functions of \<^verbatim>\<open>web/src/lib/cookies.ts\<close>. The setter of
  \<open>document.cookie\<close> follows the cookie standard: the text up to the first semicolon is the
  name and value, the rest are attributes, of which only \<open>Max-Age\<close> matters here. A
  positive age is not counted down.

  The interface \<open>kv_store\<close> (what a read gives after a write or a removal) is interpreted
  for both; that \<open>getCookie\<close>, which searches the rendered text, is a lookup in the jar is
  the main lemma.
\<close>

section \<open>The interface\<close>

locale kv_store =
  fixes get :: "'k \<Rightarrow> 's \<Rightarrow> 'v option" and put :: "'k \<Rightarrow> 'v \<Rightarrow> 's \<Rightarrow> 's" and del :: "'k \<Rightarrow> 's \<Rightarrow> 's"
    and wf :: "'s \<Rightarrow> bool" and ok_key :: "'k \<Rightarrow> bool" and ok_val :: "'v \<Rightarrow> bool"
  assumes wf_put: "wf s \<Longrightarrow> ok_key k \<Longrightarrow> ok_val v \<Longrightarrow> wf (put k v s)"
    and wf_del: "wf s \<Longrightarrow> ok_key k \<Longrightarrow> wf (del k s)"
    and get_put: "wf s \<Longrightarrow> ok_key k \<Longrightarrow> ok_val v \<Longrightarrow> ok_key j \<Longrightarrow>
      get j (put k v s) = (if j = k then Some v else get j s)"
    and get_del: "wf s \<Longrightarrow> ok_key k \<Longrightarrow> ok_key j \<Longrightarrow> get j (del k s) = (if j = k then None else get j s)"
begin

lemma get_put_same: "wf s \<Longrightarrow> ok_key k \<Longrightarrow> ok_val v \<Longrightarrow> get k (put k v s) = Some v"
  by (simp add: get_put)

lemma get_del_same: "wf s \<Longrightarrow> ok_key k \<Longrightarrow> get k (del k s) = None"
  by (simp add: get_del)

lemma put_put: "wf s \<Longrightarrow> ok_key k \<Longrightarrow> ok_val v \<Longrightarrow> ok_val w \<Longrightarrow> ok_key j \<Longrightarrow>
  get j (put k w (put k v s)) = get j (put k w s)"
  by (simp add: get_put wf_put)

lemma put_del: "wf s \<Longrightarrow> ok_key k \<Longrightarrow> ok_val v \<Longrightarrow> ok_key j \<Longrightarrow>
  get j (del k (put k v s)) = get j (del k s)"
  by (simp add: get_put get_del wf_put)

end

section \<open>The cookie jar\<close>

type_synonym jar = "(string \<times> string) list"

definition cookie_text :: "string \<times> string \<Rightarrow> string" where
  "cookie_text c = fst c @ ''='' @ snd c"

text \<open>Reading \<open>document.cookie\<close>.\<close>

definition document_cookie :: "jar \<Rightarrow> string" where
  "document_cookie j = js_join ''; '' (map cookie_text j)"

definition is_wsp :: "char \<Rightarrow> bool" where
  "is_wsp c = (code_of c = 32 \<or> code_of c = 9)"

definition cookie_trim :: "string \<Rightarrow> string" where
  "cookie_trim s = rev (dropWhile is_wsp (rev (dropWhile is_wsp s)))"

definition is_ctl :: "char \<Rightarrow> bool" where
  "is_ctl c = (code_of c < 32 \<and> code_of c \<noteq> 9 \<or> code_of c = 127)"

definition not_semi :: "char \<Rightarrow> bool" where
  "not_semi c = (c \<noteq> CHR '';'')"

definition not_eq :: "char \<Rightarrow> bool" where
  "not_eq c = (c \<noteq> CHR ''='')"

text \<open>A \<open>name=value\<close> text; without an equals sign the name is empty.\<close>

definition name_value :: "string \<Rightarrow> string \<times> string" where
  "name_value p =
     (if CHR ''='' \<in> set p
      then (cookie_trim (takeWhile not_eq p), cookie_trim (tl (dropWhile not_eq p)))
      else ([], cookie_trim p))"

definition attribute :: "string \<Rightarrow> string \<times> string" where
  "attribute p =
     (toLowerCase (cookie_trim (takeWhile not_eq p)), cookie_trim (tl (dropWhile not_eq p)))"

definition attributes :: "string \<Rightarrow> (string \<times> string) list" where
  "attributes s = map attribute (tl (js_split '';'' s))"

text \<open>The value of the last valid \<open>Max-Age\<close>.\<close>

definition delta_seconds :: "string \<Rightarrow> int option" where
  "delta_seconds v =
     (if v \<noteq> [] \<and> (is_digit (hd v) \<or> hd v = CHR ''-'') \<and> list_all is_digit (tl v)
      then parseInt v else None)"

definition max_age :: "string \<Rightarrow> int option" where
  "max_age s =
     foldl (\<lambda>acc (k, v). if k = ''max-age'' then
              (case delta_seconds v of None \<Rightarrow> acc | Some d \<Rightarrow> Some d) else acc)
       None (attributes s)"

definition jar_del :: "string \<Rightarrow> jar \<Rightarrow> jar" where
  "jar_del n j = filter (\<lambda>c. fst c \<noteq> n) j"

text \<open>Assigning to \<open>document.cookie\<close>.\<close>

definition cookie_assign :: "string \<Rightarrow> jar \<Rightarrow> jar" where
  "cookie_assign s j =
     (let (n, v) = name_value (takeWhile not_semi s) in
      if list_ex is_ctl s \<or> (n = [] \<and> v = []) then j
      else (case max_age s of
              Some d \<Rightarrow> (if d \<le> 0 then jar_del n j else obj_put j n v)
            | None \<Rightarrow> obj_put j n v))"

section \<open>cookies.ts\<close>

definition DEFAULT_MAX_AGE :: nat where
  "DEFAULT_MAX_AGE = 60 * 60 * 24 * 7"

text \<open>\<open>None\<close> for the document is \<open>typeof document === 'undefined'\<close>.\<close>

definition getCookie :: "string \<Rightarrow> jar option \<Rightarrow> string option" where
  "getCookie name doc =
     (case doc of
        None \<Rightarrow> None
      | Some j \<Rightarrow>
          (let value = ''; '' @ document_cookie j;
               parts = js_split (''; '' @ name @ ''='') value
           in if length parts = 2 then Some (hd (js_split '';'' (last parts))) else None))"

definition setCookie :: "string \<Rightarrow> string \<Rightarrow> nat \<Rightarrow> jar option \<Rightarrow> jar option" where
  "setCookie name value maxAge doc =
     map_option (cookie_assign (name @ ''='' @ value @ ''; path=/; max-age='' @ show_nat maxAge)) doc"

definition removeCookie :: "string \<Rightarrow> jar option \<Rightarrow> jar option" where
  "removeCookie name doc = map_option (cookie_assign (name @ ''=; path=/; max-age=0'')) doc"

lemma cookie_example:
  "getCookie ''b'' (setCookie ''b'' ''2'' 60 (Some [(''a'', ''1'')])) = Some ''2''"
  "removeCookie ''a'' (setCookie ''b'' ''2'' 60 (Some [(''a'', ''1'')])) = Some [(''b'', ''2'')]"
  by code_simp+

section \<open>Lookup in the rendered jar\<close>

definition ok_name :: "string \<Rightarrow> bool" where
  "ok_name n = (n \<noteq> [] \<and> CHR '';'' \<notin> set n \<and> CHR ''='' \<notin> set n \<and> \<not> list_ex is_ctl n
     \<and> \<not> is_wsp (hd n) \<and> \<not> is_wsp (last n))"

definition ok_value :: "string \<Rightarrow> bool" where
  "ok_value v = (CHR '';'' \<notin> set v \<and> \<not> list_ex is_ctl v
     \<and> (v \<noteq> [] \<longrightarrow> \<not> is_wsp (hd v) \<and> \<not> is_wsp (last v)))"

text \<open>What a browser keeps: distinct names without delimiters, values without semicolons.\<close>

definition wf_jar :: "jar \<Rightarrow> bool" where
  "wf_jar j = (distinct (map fst j) \<and>
     (\<forall>(n, v) \<in> set j. CHR '';'' \<notin> set n \<and> CHR ''='' \<notin> set n \<and> CHR '';'' \<notin> set v))"

definition jar_body :: "jar \<Rightarrow> string" where
  "jar_body j = concat (map (\<lambda>c. ''; '' @ cookie_text c) j)"

lemma jar_body_simps [simp]:
  "jar_body [] = []" "jar_body (c # j) = ''; '' @ cookie_text c @ jar_body j"
  "jar_body (xs @ ys) = jar_body xs @ jar_body ys"
  by (simp_all add: jar_body_def)

lemma document_cookie_body: "''; '' @ document_cookie j = (if j = [] then ''; '' else jar_body j)"
proof (cases j)
  case Nil
  then show ?thesis by (simp add: document_cookie_def)
next
  case (Cons c cs)
  have "''; '' @ js_join ''; '' (map cookie_text (c # cs)) = jar_body (c # cs)"
    by (induction cs arbitrary: c) (simp_all add: js_join_Cons)
  with Cons show ?thesis by (simp add: document_cookie_def)
qed

lemma name_prefix:
  assumes "CHR ''='' \<notin> set a" "CHR ''='' \<notin> set b" "prefix (a @ ''='') (b @ ''='' @ z)"
  shows "a = b"
proof -
  obtain w where "a @ ''='' @ w = b @ ''='' @ z" using assms(3) by (auto simp: prefix_def)
  then have "takeWhile not_eq (a @ ''='' @ w) = takeWhile not_eq (b @ ''='' @ z)" by simp
  moreover have "takeWhile not_eq (x @ ''='' @ y) = x" if "CHR ''='' \<notin> set x" for x y
  proof -
    have "\<And>c. c \<in> set x \<Longrightarrow> not_eq c" using that by (auto simp: not_eq_def)
    then show ?thesis by (subst takeWhile_all) (auto simp: not_eq_def)
  qed
  ultimately show ?thesis using assms(1,2) by simp
qed

lemma split_other_cookies:
  assumes "CHR ''='' \<notin> set name"
  shows "(\<And>n v. (n, v) \<in> set j \<Longrightarrow> n \<noteq> name \<and> CHR '';'' \<notin> set n \<and> CHR ''='' \<notin> set n \<and> CHR '';'' \<notin> set v) \<Longrightarrow>
    split_acc (''; '' @ name @ ''='') acc (jar_body j @ t)
      = split_acc (''; '' @ name @ ''='') (rev (jar_body j) @ acc) t"
proof (induction j arbitrary: acc)
  case Nil
  then show ?case by simp
next
  case (Cons c j)
  obtain n v where c: "c = (n, v)" by (cases c)
  then have nv: "n \<noteq> name" "CHR '';'' \<notin> set n" "CHR ''='' \<notin> set n" "CHR '';'' \<notin> set v"
    using Cons.prems by auto
  let ?sep = "''; '' @ name @ ''=''" and ?r = "jar_body j @ t"
  let ?u = "'' '' @ n @ ''='' @ v"
  have "\<not> prefix (name @ ''='') (n @ ''='' @ v @ ?r)"
    using name_prefix [OF assms nv(3)] nv(1) by auto
  then have "\<not> prefix ?sep (CHR '';'' # ?u @ ?r)" by simp
  then have "split_acc ?sep acc (CHR '';'' # ?u @ ?r) = split_acc ?sep (CHR '';'' # acc) (?u @ ?r)"
    by (rule split_acc_miss)
  also have "\<dots> = split_acc ?sep (rev ?u @ CHR '';'' # acc) ?r"
    using nv by (intro split_acc_skip) auto
  also have "\<dots> = split_acc ?sep (rev (jar_body j) @ rev ?u @ CHR '';'' # acc) t"
    using Cons.prems by (intro Cons.IH) auto
  finally show ?case using c by (simp add: cookie_text_def)
qed

lemma getCookie_lookup:
  assumes wf: "wf_jar j" and name: "CHR ''='' \<notin> set name" "name \<noteq> []"
  shows "getCookie name (Some j) = map_of j name"
proof (cases "map_of j name")
  case None
  let ?sep = "''; '' @ name @ ''=''"
  have other: "(n, v) \<in> set j \<Longrightarrow> n \<noteq> name \<and> CHR '';'' \<notin> set n \<and> CHR ''='' \<notin> set n \<and> CHR '';'' \<notin> set v" for n v
    using None wf by (auto simp: wf_jar_def map_of_eq_None_iff image_iff)
  have "js_split ?sep (jar_body j) = [jar_body j]"
    using split_other_cookies [OF name(1) other, of j "[]" "[]"] by (simp add: js_split_def)
  moreover have "js_split ?sep ''; '' = [''; '']"
    using name by (cases name) (simp_all add: js_split_def)
  ultimately show ?thesis using None
    by (auto simp: getCookie_def document_cookie_body simp del: append.simps)
next
  case (Some v)
  then have "(name, v) \<in> set j" by (rule map_of_SomeD)
  then obtain xs ys where j: "j = xs @ (name, v) # ys" by (blast dest: split_list)
  then have xs: "name \<notin> fst ` set xs" using wf by (auto simp: wf_jar_def)
  let ?sep = "''; '' @ name @ ''=''"
  have ys: "name \<notin> fst ` set ys" using wf j by (simp add: wf_jar_def)
  have ok: "(n, w) \<in> set j \<Longrightarrow> CHR '';'' \<notin> set n \<and> CHR ''='' \<notin> set n \<and> CHR '';'' \<notin> set w" for n w
    using wf by (auto simp: wf_jar_def)
  have sep: "jar_body j = jar_body xs @ ?sep @ v @ jar_body ys"
    by (simp add: j cookie_text_def)
  have v: "CHR '';'' \<notin> set v" using ok j by auto
  have "split_acc ?sep [] (jar_body j) = split_acc ?sep (rev (jar_body xs) @ []) (?sep @ v @ jar_body ys)"
    unfolding sep by (rule split_other_cookies) (use name xs ok j in \<open>auto simp: image_iff\<close>)
  also have "\<dots> = jar_body xs # split_acc ?sep [] (v @ jar_body ys)"
    by (subst split_acc_sep) simp_all
  also have "split_acc ?sep [] (v @ jar_body ys) = split_acc ?sep (rev v) (jar_body ys @ [])"
    by (subst split_acc_skip) (use v in simp_all)
  also have "\<dots> = split_acc ?sep (rev (jar_body ys) @ rev v) []"
    by (rule split_other_cookies) (use name ys ok j in \<open>auto simp: image_iff\<close>)
  finally have parts: "js_split ?sep (jar_body j) = [jar_body xs, v @ jar_body ys]"
    by (simp add: js_split_def)
  have "hd (js_split '';'' (v @ jar_body ys)) = v"
  proof (cases ys)
    case Nil
    then show ?thesis using v by (simp add: js_split_clean)
  next
    case (Cons c cs)
    then have "v @ jar_body ys = v @ '';'' @ ('' '' @ cookie_text c @ jar_body cs)" by simp
    moreover have "js_split '';'' (v @ '';'' @ w) = v # js_split '';'' w" for w
      using v by (intro js_split_first) simp_all
    ultimately show ?thesis by (simp only: list.sel)
  qed
  then show ?thesis using Some parts j
    by (simp add: getCookie_def document_cookie_body del: append.simps)
qed

section \<open>Writing and removing\<close>

lemma takeWhile_eq_char:
  "CHR ''='' \<notin> set n \<Longrightarrow> takeWhile not_eq (n @ CHR ''='' # v) = n"
  "CHR ''='' \<notin> set n \<Longrightarrow> dropWhile not_eq (n @ CHR ''='' # v) = CHR ''='' # v"
  by (induction n) (auto simp: not_eq_def)

lemma takeWhile_semi_char: "CHR '';'' \<notin> set p \<Longrightarrow> takeWhile not_semi (p @ CHR '';'' # r) = p"
  by (induction p) (auto simp: not_semi_def)

lemma cookie_trim_id: "s = [] \<or> (\<not> is_wsp (hd s) \<and> \<not> is_wsp (last s)) \<Longrightarrow> cookie_trim s = s"
  by (auto simp: cookie_trim_def dropWhile_id dropWhile_rev_id)

lemma name_value_ok: "ok_name n \<Longrightarrow> ok_value v \<Longrightarrow> name_value (n @ CHR ''='' # v) = (n, v)"
  by (auto simp: name_value_def ok_name_def ok_value_def takeWhile_eq_char cookie_trim_id)

lemma digit_not_wsp: "is_digit c \<Longrightarrow> \<not> is_wsp c" "is_digit c \<Longrightarrow> \<not> is_ctl c" "is_digit c \<Longrightarrow> c \<noteq> CHR '';''"
  by (auto simp: is_digit_def is_wsp_def is_ctl_def code_of_def)

lemma show_nat_ends: "is_digit (hd (show_nat a))" "is_digit (last (show_nat a))"
  using show_nat_is_digit [of "hd (show_nat a)" a] show_nat_is_digit [of "last (show_nat a)" a] by auto

lemma show_nat_no_ctl: "\<not> list_ex is_ctl (show_nat a)" "CHR '';'' \<notin> set (show_nat a)"
  by (auto simp: list_ex_iff dest: show_nat_is_digit digit_not_wsp(2,3))

lemma delta_seconds_show: "delta_seconds (show_nat a) = Some (int a)"
proof -
  have "list_all is_digit (tl (show_nat a))"
    by (auto simp: list_all_iff dest!: list.set_sel(2) [OF show_nat_nonempty] dest: show_nat_is_digit)
  moreover have "parseInt (show_nat a) = Some (int a)"
    using parseInt_show [of "[]" "int a"] by (simp add: show_int_def)
  ultimately show ?thesis by (simp add: delta_seconds_def show_nat_ends)
qed

lemma max_age_text:
  assumes "CHR '';'' \<notin> set p"
  shows "max_age (p @ ''; path=/; max-age='' @ show_nat a) = Some (int a)"
proof -
  let ?t = "p @ '';'' @ '' path=/'' @ '';'' @ '' max-age='' @ show_nat a"
  have "js_split '';'' ?t = [p, '' path=/'', '' max-age='' @ show_nat a]"
    using assms show_nat_no_ctl(2) [of a]
    by (subst js_split_first, simp_all del: append.simps add: assms)
       (subst js_split_first, simp_all add: js_split_clean)
  then have "attributes ?t = [attribute '' path=/'', attribute ('' max-age='' @ show_nat a)]"
    by (simp add: attributes_def)
  moreover have "attribute '' path=/'' = (''path'', ''/'')"
    by code_simp
  moreover have "attribute ('' max-age='' @ show_nat a) = (''max-age'', show_nat a)"
  proof -
    have "takeWhile not_eq ('' max-age'' @ CHR ''='' # show_nat a) = '' max-age''"
      "dropWhile not_eq ('' max-age'' @ CHR ''='' # show_nat a) = CHR ''='' # show_nat a"
      by (rule takeWhile_eq_char; simp)+
    moreover have "toLowerCase (cookie_trim '' max-age'') = ''max-age''" by code_simp
    moreover have "cookie_trim (show_nat a) = show_nat a"
      by (rule cookie_trim_id) (simp add: digit_not_wsp show_nat_ends)
    ultimately show ?thesis by (simp add: attribute_def)
  qed
  ultimately show ?thesis by (simp add: max_age_def delta_seconds_show)
qed

lemma cookie_assign_ok:
  assumes n: "ok_name n" and v: "ok_value v"
  shows "cookie_assign (n @ ''='' @ v @ ''; path=/; max-age='' @ show_nat a) j
    = (if a = 0 then jar_del n j else obj_put j n v)"
proof -
  let ?p = "n @ CHR ''='' # v"
  have semi: "CHR '';'' \<notin> set ?p" using n v by (simp add: ok_name_def ok_value_def)
  have "takeWhile not_semi (?p @ CHR '';'' # '' path=/; max-age='' @ show_nat a) = ?p"
    by (rule takeWhile_semi_char [OF semi])
  moreover have "\<not> list_ex is_ctl (?p @ ''; path=/; max-age='' @ show_nat a)"
    using n v by (simp add: ok_name_def ok_value_def show_nat_no_ctl is_ctl_def code_of_def)
  moreover have "n \<noteq> []" using n by (simp add: ok_name_def)
  ultimately show ?thesis
    using max_age_text [OF semi, of a] name_value_ok [OF n v]
    by (simp add: cookie_assign_def)
qed

lemma setCookie_ok:
  "ok_name n \<Longrightarrow> ok_value v \<Longrightarrow> 0 < a \<Longrightarrow> setCookie n v a (Some j) = Some (obj_put j n v)"
  unfolding setCookie_def using cookie_assign_ok [of n v a j] by (simp only: option.map) simp

lemma removeCookie_ok: "ok_name n \<Longrightarrow> removeCookie n (Some j) = Some (jar_del n j)"
proof -
  assume "ok_name n"
  moreover have "show_nat 0 = ''0''" by code_simp
  ultimately show ?thesis
    using cookie_assign_ok [of n "[]" 0 j] by (simp add: removeCookie_def ok_value_def)
qed

lemma wf_obj_put:
  "wf_jar j \<Longrightarrow> ok_name n \<Longrightarrow> ok_value v \<Longrightarrow> wf_jar (obj_put j n v)"
proof -
  assume wf: "wf_jar j" and ok: "ok_name n" "ok_value v"
  have "x \<in> set (obj_put j n v) \<Longrightarrow> x = (n, v) \<or> x \<in> set j" for x
    by (induction j n v rule: obj_put.induct) (auto split: if_splits)
  then show ?thesis
    using wf ok obj_put_distinct [of j n v] by (fastforce simp: wf_jar_def ok_name_def ok_value_def)
qed

lemma wf_jar_del: "wf_jar j \<Longrightarrow> wf_jar (jar_del n j)"
  by (auto simp: wf_jar_def jar_del_def distinct_map_filter)

lemma map_of_jar_del: "map_of (jar_del n j) m = (if m = n then None else map_of j m)"
  by (induction j) (auto simp: jar_del_def)

definition wf_document :: "jar option \<Rightarrow> bool" where
  "wf_document doc = (case doc of None \<Rightarrow> False | Some j \<Rightarrow> wf_jar j)"

text \<open>A store keeps a session cookie for \<open>DEFAULT_MAX_AGE\<close>.\<close>

interpretation cookies: kv_store getCookie "\<lambda>n v. setCookie n v DEFAULT_MAX_AGE" removeCookie
  wf_document ok_name ok_value
proof
  fix s k v j
  have age: "0 < DEFAULT_MAX_AGE" by (simp add: DEFAULT_MAX_AGE_def)
  have ok: "ok_name n \<Longrightarrow> CHR ''='' \<notin> set n \<and> n \<noteq> []" for n by (simp add: ok_name_def)
  {
    assume "wf_document s" "ok_name k" "ok_value v"
    then show "wf_document (setCookie k v DEFAULT_MAX_AGE s)"
      using age by (auto simp: wf_document_def setCookie_ok wf_obj_put split: option.splits)
  next
    assume "wf_document s" "ok_name k"
    then show "wf_document (removeCookie k s)"
      by (auto simp: wf_document_def removeCookie_ok wf_jar_del split: option.splits)
  next
    assume "wf_document s" "ok_name k" "ok_value v" "ok_name j"
    then show "getCookie j (setCookie k v DEFAULT_MAX_AGE s) = (if j = k then Some v else getCookie j s)"
      using age ok by (auto simp: wf_document_def setCookie_ok getCookie_lookup wf_obj_put store_simps
          split: option.splits)
  next
    assume "wf_document s" "ok_name k" "ok_name j"
    then show "getCookie j (removeCookie k s) = (if j = k then None else getCookie j s)"
      using ok by (auto simp: wf_document_def removeCookie_ok getCookie_lookup wf_jar_del map_of_jar_del
          split: option.splits)
  }
qed

section \<open>localStorage\<close>

type_synonym storage = "(string \<times> string) list"

definition getItem :: "string \<Rightarrow> storage \<Rightarrow> string option" where
  "getItem k st = map_of st k"

definition setItem :: "string \<Rightarrow> string \<Rightarrow> storage \<Rightarrow> storage" where
  "setItem k v st = obj_put st k v"

definition removeItem :: "string \<Rightarrow> storage \<Rightarrow> storage" where
  "removeItem k st = filter (\<lambda>e. fst e \<noteq> k) st"

lemma getItem_removeItem: "getItem j (removeItem k st) = (if j = k then None else getItem j st)"
  by (induction st) (auto simp: getItem_def removeItem_def)

interpretation local: kv_store getItem setItem removeItem "\<lambda>_. True" "\<lambda>_. True" "\<lambda>_. True"
  by unfold_locales (simp_all add: getItem_removeItem, simp add: getItem_def setItem_def store_simps)

lemmas local_simps [store_simps] = local.get_put [OF TrueI TrueI TrueI TrueI] local.get_del [OF TrueI TrueI TrueI]

end
