(* ===== verification/Auth_Store.thy ===== *)
theory Auth_Store
  imports Browser
begin

text \<open>
  The staff session store \<^verbatim>\<open>web/src/stores/auth-store.ts\<close> and the customer portal's
  \<^verbatim>\<open>web/src/stores/portal-auth-store.ts\<close>. A store is the record of its data fields next to
  the browser state its actions write to; an action is the updater the source hands to
  \<open>set\<close>, with the cookie and \<open>localStorage\<close> writes it makes on the way.

  The interface \<open>mirrored_cell\<close> (a value kept in memory and, encoded, in a key-value
  store) is interpreted for the access token, the refresh token and the portal token. The
  theorems: a reload of the page finds the tokens of any sequence of store operations,
  a reset leaves nothing behind, and only a customer token makes a portal user.
\<close>

section \<open>A value mirrored in a key-value store\<close>

locale mirrored_cell = kv_store get put del wf ok_key ok_val
  for get :: "'k \<Rightarrow> 's \<Rightarrow> 'v option" and put :: "'k \<Rightarrow> 'v \<Rightarrow> 's \<Rightarrow> 's" and del :: "'k \<Rightarrow> 's \<Rightarrow> 's"
    and wf :: "'s \<Rightarrow> bool" and ok_key :: "'k \<Rightarrow> bool" and ok_val :: "'v \<Rightarrow> bool" +
  fixes key :: 'k and enc :: "'a \<Rightarrow> 'v" and dec :: "'v \<Rightarrow> 'a option" and ok :: "'a \<Rightarrow> bool"
  assumes key_ok: "ok_key key"
    and enc_ok: "ok x \<Longrightarrow> ok_val (enc x)"
    and dec_enc: "ok x \<Longrightarrow> dec (enc x) = Some x"
begin

lemma load_save: "wf s \<Longrightarrow> ok x \<Longrightarrow> Option.bind (get key (put key (enc x) s)) dec = Some x"
  by (simp add: get_put key_ok enc_ok dec_enc)

lemma load_clear: "wf s \<Longrightarrow> Option.bind (get key (del key s)) dec = None"
  by (simp add: get_del key_ok)

lemma wf_save: "wf s \<Longrightarrow> ok x \<Longrightarrow> wf (put key (enc x) s)"
  by (simp add: wf_put key_ok enc_ok)

lemma wf_clear: "wf s \<Longrightarrow> wf (del key s)"
  by (simp add: wf_del key_ok)

lemma other_save: "wf s \<Longrightarrow> ok x \<Longrightarrow> ok_key j \<Longrightarrow> j \<noteq> key \<Longrightarrow> get j (put key (enc x) s) = get j s"
  by (simp add: get_put key_ok enc_ok)

end

section \<open>Tokens\<close>

record auth_user =
  user_id :: js
  username :: js
  role :: js

definition b64url_to_b64 :: "string \<Rightarrow> string" where
  "b64url_to_b64 s =
     map (\<lambda>c. if c = CHR ''_'' then CHR ''/'' else c) (map (\<lambda>c. if c = CHR ''-'' then CHR ''+'' else c) s)"

text \<open>
  The claims of a token: \<open>None\<close> when the payload is missing or empty, or when \<open>atob\<close> or
  \<open>JSON.parse\<close> throws. A token that is not a string has no \<open>split\<close>, which throws too.
\<close>

definition token_claims :: "js \<Rightarrow> js option" where
  "token_claims token =
     (case token of
        JStr t \<Rightarrow>
          (case js_split ''.'' t of
             _ # payload # _ \<Rightarrow>
               (if payload = [] then None
                else Option.bind (atob (b64url_to_b64 payload)) JSON_parse)
           | _ \<Rightarrow> None)
      | _ \<Rightarrow> None)"

definition decodeUserFromToken :: "js \<Rightarrow> auth_user option" where
  "decodeUserFromToken token =
     (case token_claims token of
        None \<Rightarrow> None
      | Some claims \<Rightarrow>
          (case (js_get claims ''usr'', js_get claims ''rol'', js_get claims ''uid'') of
             (Some usr, Some rol, Some uid) \<Rightarrow>
               (if \<not> truthy usr \<or> \<not> truthy rol then None
                else Some \<lparr>user_id = js_coalesce uid (JNum 0), username = usr, role = rol\<rparr>)
           | _ \<Rightarrow> None))"

section \<open>The staff session\<close>

definition ACCESS_TOKEN :: string where
  "ACCESS_TOKEN = ''roskit-access-token''"

definition REFRESH_TOKEN_KEY :: string where
  "REFRESH_TOKEN_KEY = ''roskit-refresh-token''"

record auth_state =
  doc :: "jar option"
  ls :: storage
  user :: "auth_user option"
  accessToken :: js
  refreshToken :: string

text \<open>
  Creating the store when the page loads. \<open>None\<close>: the access-token cookie is not JSON and
  \<open>JSON.parse\<close> throws out of the initialiser.
\<close>

definition initToken :: "jar option \<Rightarrow> js option" where
  "initToken d =
     (let cookieState = or_else (getCookie ACCESS_TOKEN d) []
      in if cookieState \<noteq> [] then JSON_parse cookieState else Some (JStr []))"

definition createAuthStore :: "jar option \<Rightarrow> storage \<Rightarrow> auth_state option" where
  "createAuthStore d st =
     map_option
       (\<lambda>tok.
          \<lparr>doc = d, ls = st,
           user = (if truthy tok then decodeUserFromToken tok else None),
           accessToken = tok,
           refreshToken = or_else (getItem REFRESH_TOKEN_KEY st) []\<rparr>)
       (initToken d)"

definition setUser :: "auth_user option \<Rightarrow> auth_state \<Rightarrow> auth_state" where
  "setUser u s = s\<lparr>user := u\<rparr>"

definition setAccessToken :: "string \<Rightarrow> auth_state \<Rightarrow> auth_state" where
  "setAccessToken t s =
     s\<lparr>doc := setCookie ACCESS_TOKEN (json_quote t) DEFAULT_MAX_AGE (doc s), accessToken := JStr t\<rparr>"

definition setRefreshToken :: "string \<Rightarrow> auth_state \<Rightarrow> auth_state" where
  "setRefreshToken t s = s\<lparr>ls := setItem REFRESH_TOKEN_KEY t (ls s), refreshToken := t\<rparr>"

definition resetAccessToken :: "auth_state \<Rightarrow> auth_state" where
  "resetAccessToken s = s\<lparr>doc := removeCookie ACCESS_TOKEN (doc s), accessToken := JStr []\<rparr>"

definition resetRefreshToken :: "auth_state \<Rightarrow> auth_state" where
  "resetRefreshToken s = s\<lparr>ls := removeItem REFRESH_TOKEN_KEY (ls s), refreshToken := []\<rparr>"

definition reset :: "auth_state \<Rightarrow> auth_state" where
  "reset s =
     s\<lparr>doc := removeCookie ACCESS_TOKEN (doc s), ls := removeItem REFRESH_TOKEN_KEY (ls s),
       user := None, accessToken := JStr [], refreshToken := []\<rparr>"

section \<open>The portal session\<close>

definition PORTAL_TOKEN_KEY :: string where
  "PORTAL_TOKEN_KEY = ''rosmon-portal-token''"

record portal_user =
  customer_id :: js
  phone :: js

definition decodePortalUser :: "string \<Rightarrow> portal_user option" where
  "decodePortalUser token =
     (case token_claims (JStr token) of
        None \<Rightarrow> None
      | Some claims \<Rightarrow>
          (case (js_get claims ''typ'', js_get claims ''cid'', js_get claims ''phn'') of
             (Some typ, Some cid, Some phn) \<Rightarrow>
               (if typ \<noteq> JStr ''customer_access'' \<or> \<not> truthy cid \<or> \<not> truthy phn then None
                else Some \<lparr>customer_id = cid, phone = phn\<rparr>)
           | _ \<Rightarrow> None))"

record portal_state =
  portal_ls :: storage
  customerToken :: string
  customerUser :: "portal_user option"

definition createPortalStore :: "storage \<Rightarrow> portal_state" where
  "createPortalStore st =
     (let stored = or_else (getItem PORTAL_TOKEN_KEY st) []
      in \<lparr>portal_ls = st, customerToken = stored,
          customerUser = (if stored \<noteq> [] then decodePortalUser stored else None)\<rparr>)"

definition portalSetToken :: "string \<Rightarrow> portal_state \<Rightarrow> portal_state" where
  "portalSetToken t s =
     s\<lparr>portal_ls := setItem PORTAL_TOKEN_KEY t (portal_ls s),
       customerToken := t, customerUser := decodePortalUser t\<rparr>"

definition portalReset :: "portal_state \<Rightarrow> portal_state" where
  "portalReset s =
     s\<lparr>portal_ls := removeItem PORTAL_TOKEN_KEY (portal_ls s), customerToken := [], customerUser := None\<rparr>"

section \<open>The stores agree with the browser\<close>

text \<open>Tokens the cookie can hold: no semicolon and no \<open>DEL\<close> (the quoting escapes the rest).\<close>

definition token_ok :: "string \<Rightarrow> bool" where
  "token_ok t = (CHR '';'' \<notin> set t \<and> char_of (127::nat) \<notin> set t)"

definition token_of_json :: "string \<Rightarrow> string option" where
  "token_of_json v = (case JSON_parse v of Some (JStr t) \<Rightarrow> Some t | _ \<Rightarrow> None)"

lemma code_semi: "c = CHR '';'' \<longleftrightarrow> code_of c = 59"
  using code_of_inj [of c "CHR '';''"] by (simp add: code_of_def)

lemma code_letters [simp]:
  "code_of CHR ''b'' = 98" "code_of CHR ''f'' = 102" "code_of CHR ''n'' = 110"
  "code_of CHR ''r'' = 114" "code_of CHR ''t'' = 116" "code_of CHR ''u'' = 117" "code_of CHR ''0'' = 48"
  by (simp_all add: code_of_def)

lemma code_hex_lower: "d < 16 \<Longrightarrow> code_of (hex_lower d) = (if d < 10 then 48 + d else 87 + d)"
  by (simp add: hex_lower_def digit_char_def)

lemma json_char_cases:
  obtains (escape) e where "json_char c = [char_of (92::nat), e]" "code_of e \<in> {34, 92, 98, 102, 110, 114, 116}"
  | (plain) "json_char c = [c]" "32 \<le> code_of c"
  | (unicode) "json_char c = [char_of (92::nat), CHR ''u'', CHR ''0'', CHR ''0'',
      hex_lower (code_of c div 16), hex_lower (code_of c mod 16)]"
  unfolding json_char_def Let_def
  by (cases "code_of c \<in> {34, 92, 8, 12, 10, 13, 9}"; cases "code_of c < 32") auto

lemma json_char_no_semi:
  assumes "code_of c \<noteq> 59" "code_of c \<noteq> 127" "d \<in> set (json_char c)"
  shows "code_of d \<noteq> 59 \<and> \<not> is_ctl d"
proof (cases c rule: json_char_cases)
  case (escape e)
  then show ?thesis using assms(3) by (auto simp: is_ctl_def)
next
  case plain
  then show ?thesis using assms by (auto simp: is_ctl_def)
next
  case unicode
  have "code_of (hex_lower k) \<noteq> 59 \<and> \<not> is_ctl (hex_lower k)" if "k < 16" for k
    using that by (simp add: is_ctl_def code_hex_lower)
  with unicode assms(3) nibbles [of c] show ?thesis by (auto simp: is_ctl_def)
qed

lemma token_cookie_ok: "token_ok t \<Longrightarrow> ok_value (json_quote t)"
proof -
  assume ok: "token_ok t"
  have "d \<in> set (concat (map json_char t)) \<Longrightarrow> d \<noteq> CHR '';'' \<and> \<not> is_ctl d" for d
  proof -
    assume "d \<in> set (concat (map json_char t))"
    then obtain c where c: "c \<in> set t" "d \<in> set (json_char c)" by auto
    then have "code_of c \<noteq> 59" "code_of c \<noteq> 127"
      using ok by (auto simp: token_ok_def simp flip: code_semi dest: code_eqD)
    then show ?thesis using json_char_no_semi c(2) by (simp add: code_semi)
  qed
  moreover have "\<not> is_wsp (char_of (34::nat))" "\<not> is_ctl (char_of (34::nat))" "char_of (34::nat) \<noteq> CHR '';''"
    by (simp_all add: is_wsp_def is_ctl_def code_semi)
  ultimately show ?thesis by (auto simp: ok_value_def json_quote_def list_ex_iff)
qed

interpretation access: mirrored_cell getCookie "\<lambda>n v. setCookie n v DEFAULT_MAX_AGE" removeCookie
  wf_document ok_name ok_value ACCESS_TOKEN json_quote token_of_json token_ok
proof unfold_locales
  show "ok_name ACCESS_TOKEN" by code_simp
qed (simp_all add: token_cookie_ok token_of_json_def JSON_parse_quote)

interpretation refresh: mirrored_cell getItem setItem removeItem "\<lambda>_. True" "\<lambda>_. True" "\<lambda>_. True"
  REFRESH_TOKEN_KEY "\<lambda>t. t" Some "\<lambda>_. True"
  by unfold_locales simp_all

interpretation portal: mirrored_cell getItem setItem removeItem "\<lambda>_. True" "\<lambda>_. True" "\<lambda>_. True"
  PORTAL_TOKEN_KEY "\<lambda>t. t" Some "\<lambda>_. True"
  by unfold_locales simp_all

text \<open>Any action the rest of the program can run on the store.\<close>

inductive auth_step :: "auth_state \<Rightarrow> auth_state \<Rightarrow> bool" where
  set_user: "auth_step s (setUser u s)"
| set_access: "token_ok t \<Longrightarrow> auth_step s (setAccessToken t s)"
| set_refresh: "auth_step s (setRefreshToken t s)"
| reset_access: "auth_step s (resetAccessToken s)"
| reset_refresh: "auth_step s (resetRefreshToken s)"
| reset_all: "auth_step s (reset s)"

inductive portal_step :: "portal_state \<Rightarrow> portal_state \<Rightarrow> bool" where
  portal_set: "portal_step s (portalSetToken t s)"
| portal_reset: "portal_step s (portalReset s)"

text \<open>The tokens in memory are what a new store would read from the browser.\<close>

definition persisted :: "auth_state \<Rightarrow> bool" where
  "persisted s = (wf_document (doc s) \<and>
     (\<exists>r. createAuthStore (doc s) (ls s) = Some r \<and>
       accessToken r = accessToken s \<and> refreshToken r = refreshToken s))"

lemma json_quote_nonempty [simp]: "json_quote t \<noteq> []"
  by (simp add: json_quote_def)

lemma persisted_iff:
  "persisted s = (wf_document (doc s) \<and> initToken (doc s) = Some (accessToken s) \<and>
     refreshToken s = or_else (getItem REFRESH_TOKEN_KEY (ls s)) [])"
  by (cases "initToken (doc s)") (auto simp: persisted_def createAuthStore_def)

lemma access_simps [store_simps]:
  "wf_document d \<Longrightarrow> token_ok t \<Longrightarrow>
     getCookie ACCESS_TOKEN (setCookie ACCESS_TOKEN (json_quote t) DEFAULT_MAX_AGE d) = Some (json_quote t)"
  "wf_document d \<Longrightarrow> getCookie ACCESS_TOKEN (removeCookie ACCESS_TOKEN d) = None"
  "wf_document d \<Longrightarrow> token_ok t \<Longrightarrow> wf_document (setCookie ACCESS_TOKEN (json_quote t) DEFAULT_MAX_AGE d)"
  "wf_document d \<Longrightarrow> wf_document (removeCookie ACCESS_TOKEN d)"
  using access.key_ok token_cookie_ok
  by (simp_all add: cookies.get_put_same cookies.get_del_same cookies.wf_put cookies.wf_del)

lemmas auth_defs = setUser_def setAccessToken_def setRefreshToken_def resetAccessToken_def
  resetRefreshToken_def reset_def

lemma initToken_simps [store_simps]:
  "wf_document d \<Longrightarrow> token_ok t \<Longrightarrow>
     initToken (setCookie ACCESS_TOKEN (json_quote t) DEFAULT_MAX_AGE d) = Some (JStr t)"
  "wf_document d \<Longrightarrow> initToken (removeCookie ACCESS_TOKEN d) = Some (JStr [])"
  by (simp_all add: initToken_def access_simps JSON_parse_quote)

lemma auth_step_persisted: "auth_step s t \<Longrightarrow> persisted s \<Longrightarrow> persisted t"
  by (induction rule: auth_step.induct) (auto simp: persisted_iff auth_defs store_simps)

lemma createAuthStore_persisted: "wf_document d \<Longrightarrow> createAuthStore d st = Some s \<Longrightarrow> persisted s"
  by (auto simp: createAuthStore_def persisted_iff)

interpretation auth: inductive_invariant
  "\<lambda>s. \<exists>d st. wf_document d \<and> createAuthStore d st = Some s" auth_step persisted
  by unfold_locales (blast intro: createAuthStore_persisted, rule auth_step_persisted)

text \<open>
  C10. A page reload keeps the session: after any sequence of store actions from a store
  created at page load, a store created anew from the browser state has the same access
  token and the same refresh token (the tokens being free of \<open>;\<close> and \<open>DEL\<close>, as JWTs are).
\<close>

theorem session_survives_reload:
  assumes "wf_document d" "createAuthStore d st = Some s" "auth_step\<^sup>*\<^sup>* s t"
  shows "\<exists>r. createAuthStore (doc t) (ls t) = Some r \<and>
    accessToken r = accessToken t \<and> refreshToken r = refreshToken t"
  using auth.inv_reachable [of s t] assms unfolding persisted_def by blast

theorem session_survives_reload_witness:
  "\<exists>s r. createAuthStore (Some []) [] = Some s \<and>
     (let t = setRefreshToken ''rt'' (setAccessToken ''at'' s) in
      createAuthStore (doc t) (ls t) = Some r \<and> accessToken r = JStr ''at'' \<and> refreshToken r = ''rt'')"
proof -
  let ?s = "\<lparr>doc = Some [], ls = [], user = None, accessToken = JStr [], refreshToken = []\<rparr>"
  let ?m = "setAccessToken ''at'' ?s" and ?t = "setRefreshToken ''rt'' (setAccessToken ''at'' ?s)"
  have s: "createAuthStore (Some []) [] = Some ?s" by code_simp
  have "wf_document (Some [])" by code_simp
  moreover have "auth_step ?s ?m" by (rule auth_step.set_access) code_simp
  then have "auth_step\<^sup>*\<^sup>* ?s ?t"
    by (meson auth_step.set_refresh r_into_rtranclp rtranclp.rtrancl_into_rtrancl)
  ultimately show ?thesis
    using session_survives_reload [OF _ s, of ?t] s by (auto simp: Let_def setAccessToken_def setRefreshToken_def)
qed

text \<open>
  C13. Signing out leaves nothing behind: after \<open>reset\<close> a reload finds exactly the empty
  session (no user, no tokens), and no other cookie or storage entry has changed.
\<close>

theorem reset_leaves_no_session:
  assumes "wf_document (doc s)"
  shows "createAuthStore (doc (reset s)) (ls (reset s)) = Some (reset s)
    \<and> user (reset s) = None \<and> accessToken (reset s) = JStr [] \<and> refreshToken (reset s) = []
    \<and> (\<forall>n. ok_name n \<and> n \<noteq> ACCESS_TOKEN \<longrightarrow> getCookie n (doc (reset s)) = getCookie n (doc s))
    \<and> (\<forall>k. k \<noteq> REFRESH_TOKEN_KEY \<longrightarrow> getItem k (ls (reset s)) = getItem k (ls s))"
  using assms access.key_ok
  by (auto simp: createAuthStore_def reset_def store_simps cookies.get_del)

theorem reset_leaves_no_session_witness:
  "getCookie ''theme'' (doc (reset \<lparr>doc = Some [(''theme'', ''dark''), (ACCESS_TOKEN, ''1'')], ls = [],
     user = None, accessToken = JNum 1, refreshToken = []\<rparr>)) = Some ''dark''"
proof -
  let ?s = "\<lparr>doc = Some [(''theme'', ''dark''), (ACCESS_TOKEN, ''1'')], ls = [],
     user = None, accessToken = JNum 1, refreshToken = []\<rparr>"
  have "wf_document (doc ?s)" by code_simp
  from reset_leaves_no_session [OF this]
  have "ok_name ''theme'' \<and> ''theme'' \<noteq> ACCESS_TOKEN \<longrightarrow> getCookie ''theme'' (doc (reset ?s)) = getCookie ''theme'' (doc ?s)"
    by blast
  moreover have "ok_name ''theme''" "''theme'' \<noteq> ACCESS_TOKEN" "getCookie ''theme'' (doc ?s) = Some ''dark''"
    by code_simp+
  ultimately show ?thesis by simp
qed

text \<open>
  C21. The user a page load derives from a token, exactly: the payload is base64url JSON, and
  both \<open>usr\<close> and \<open>rol\<close> are truthy; the identifier defaults to 0. Nothing else is checked, in
  particular not that \<open>rol\<close> is one of the three roles of the type \<open>UserRole\<close>.
\<close>

theorem decode_user_iff:
  "decodeUserFromToken (JStr t) = Some u \<longleftrightarrow>
     (\<exists>h payload r body fs. js_split ''.'' t = h # payload # r \<and> payload \<noteq> [] \<and>
        atob (b64url_to_b64 payload) = Some body \<and> JSON_parse body = Some (JObj fs) \<and>
        js_optget (JObj fs) ''usr'' = username u \<and> truthy (username u) \<and>
        js_optget (JObj fs) ''rol'' = role u \<and> truthy (role u) \<and>
        user_id u = js_coalesce (js_optget (JObj fs) ''uid'') (JNum 0))"
    (is "_ \<longleftrightarrow> ?claims")
proof
  assume "decodeUserFromToken (JStr t) = Some u"
  then obtain claims usr rol uid where c: "token_claims (JStr t) = Some claims"
      "js_get claims ''usr'' = Some usr" "js_get claims ''rol'' = Some rol" "js_get claims ''uid'' = Some uid"
      "truthy usr" "truthy rol" "u = \<lparr>user_id = js_coalesce uid (JNum 0), username = usr, role = rol\<rparr>"
    by (auto simp: decodeUserFromToken_def split: option.splits if_splits)
  from c(2,5) obtain fs where fs: "claims = JObj fs" by (cases claims) auto
  from c(1) obtain h payload r body where "js_split ''.'' t = h # payload # r" "payload \<noteq> []"
      "atob (b64url_to_b64 payload) = Some body" "JSON_parse body = Some claims"
    by (auto simp: token_claims_def split: list.splits if_splits simp: bind_eq_Some_conv)
  with c fs show ?claims by (fastforce simp: js_optget_def)
next
  assume ?claims
  then show "decodeUserFromToken (JStr t) = Some u"
    by (cases u) (auto simp: decodeUserFromToken_def token_claims_def)
qed

section \<open>The portal\<close>

lemma decodePortalUser_Nil [simp]: "decodePortalUser [] = None"
  by (simp add: decodePortalUser_def token_claims_def js_split_def)

lemmas portal_defs = createPortalStore_def portalSetToken_def portalReset_def

lemma createPortalStore_user:
  "customerUser (createPortalStore st) =
     (if customerToken (createPortalStore st) \<noteq> [] then decodePortalUser (customerToken (createPortalStore st)) else None)"
  by (simp add: createPortalStore_def Let_def)

interpretation portal_inv: inductive_invariant
  "\<lambda>s. \<exists>st. s = createPortalStore st" portal_step "\<lambda>s. createPortalStore (portal_ls s) = s"
proof
  fix s t assume "portal_step s t" and inv: "createPortalStore (portal_ls s) = s"
  then show "createPortalStore (portal_ls t) = t"
    by (induction rule: portal_step.induct) (simp_all add: portal_defs store_simps)
qed (auto simp: portal_defs Let_def)

text \<open>
  C22. In every state the portal store can reach, a reload reproduces the state exactly, and
  a portal user exists only for a token whose claims have \<open>typ = 'customer_access'\<close> and
  truthy \<open>cid\<close> and \<open>phn\<close>: a staff token never makes a portal session.
\<close>

theorem portal_session_sound:
  assumes "portal_step\<^sup>*\<^sup>* (createPortalStore st) s"
  shows "createPortalStore (portal_ls s) = s \<and>
    (\<forall>u. customerUser s = Some u \<longrightarrow>
      (\<exists>claims. token_claims (JStr (customerToken s)) = Some claims \<and>
        js_get claims ''typ'' = Some (JStr ''customer_access'') \<and>
        js_get claims ''cid'' = Some (customer_id u) \<and> truthy (customer_id u) \<and>
        js_get claims ''phn'' = Some (phone u) \<and> truthy (phone u)))"
proof -
  have inv: "createPortalStore (portal_ls s) = s"
    using portal_inv.inv_reachable assms by blast
  then have "customerUser s = (if customerToken s \<noteq> [] then decodePortalUser (customerToken s) else None)"
    using createPortalStore_user [of "portal_ls s"] by simp
  with inv show ?thesis
    by (auto simp: decodePortalUser_def split: option.splits if_splits)
qed

abbreviation sample_portal_token :: string where
  "sample_portal_token \<equiv> ''h.eyJ0eXAiOiJjdXN0b21lcl9hY2Nlc3MiLCJjaWQiOjUsInBobiI6IjA4In0.s''"

theorem portal_session_sound_witness:
  "portal_step\<^sup>*\<^sup>* (createPortalStore []) (portalSetToken sample_portal_token (createPortalStore [])) \<and>
   customerUser (portalSetToken sample_portal_token (createPortalStore []))
     = Some \<lparr>customer_id = JNum 5, phone = JStr ''08''\<rparr> \<and>
   (\<exists>claims. token_claims (JStr sample_portal_token) = Some claims \<and>
      js_get claims ''typ'' = Some (JStr ''customer_access''))"
proof -
  let ?s = "portalSetToken sample_portal_token (createPortalStore [])"
  have step: "portal_step\<^sup>*\<^sup>* (createPortalStore []) ?s"
    by (rule r_into_rtranclp) (rule portal_step.portal_set)
  have u: "customerUser ?s = Some \<lparr>customer_id = JNum 5, phone = JStr ''08''\<rparr>" by code_simp
  have "customerToken ?s = sample_portal_token" by (simp add: portalSetToken_def)
  with portal_session_sound [OF step] step u show ?thesis by auto
qed

end
