(* ===== verification/Api_Envelope.thy ===== *)
theory Api_Envelope
  imports Js_Json
begin

text \<open>
  Failures and response bodies: \<^verbatim>\<open>web/src/lib/api/types.ts\<close>, \<^verbatim>\<open>unwrap.ts\<close>, \<^verbatim>\<open>errors.ts\<close> and
  \<^verbatim>\<open>web/src/lib/handle-server-error.ts\<close>. A caught value is an error axios made, a native
  \<open>Error\<close>, or any other thrown value; a body is an arbitrary JavaScript value, because the
  declared type \<open>Envelope<T>\<close> is not checked at run time.

  The theorems give the exact precedence of the sources of a message, and that a service
  call returns data if and only if the envelope has some.
\<close>

section \<open>Caught values\<close>

record axios_response =
  resp_status :: nat
  resp_data :: js

text \<open>
  \<open>ax_status\<close> is the \<open>status\<close> property axios puts on the error object, \<open>None\<close> when the
  property is absent. The argument of \<open>NativeErr\<close> is the value given to \<open>new Error(...)\<close>.
\<close>

record axios_error =
  ax_message :: string
  ax_status :: "js option"
  ax_response :: "axios_response option"

datatype thrown =
    AxiosErr axios_error
  | NativeErr js
  | Thrown js

definition type_error :: "js \<Rightarrow> string \<Rightarrow> thrown" where
  "type_error v k =
     NativeErr (JStr (''Cannot read properties of '' @ (if v = JNull then ''null'' else ''undefined'') @
       '' (reading '' @ [char_of (39::nat)] @ k @ [char_of (39::nat)] @ '')''))"

text \<open>\<open>error.response?.data\<close>\<close>

definition response_data :: "axios_error \<Rightarrow> js" where
  "response_data e = (case ax_response e of None \<Rightarrow> JUndef | Some r \<Rightarrow> resp_data r)"

section \<open>Envelopes\<close>

record APIError =
  err_code :: string
  err_message :: string
  err_details :: js

record ListMeta =
  meta_count :: nat

record 'a Envelope =
  env_data :: "'a option"
  env_error :: "APIError option"
  env_meta :: "ListMeta option"

text \<open>A well-typed envelope as the value the client receives.\<close>

definition js_of_APIError :: "APIError \<Rightarrow> js" where
  "js_of_APIError e =
     JObj ([(''code'', JStr (err_code e)), (''message'', JStr (err_message e))] @
       (if err_details e = JUndef then [] else [(''details'', err_details e)]))"

definition js_of_Envelope :: "('a \<Rightarrow> js) \<Rightarrow> 'a Envelope \<Rightarrow> js" where
  "js_of_Envelope enc env =
     JObj ([(''data'', case env_data env of None \<Rightarrow> JNull | Some x \<Rightarrow> enc x),
            (''error'', case env_error env of None \<Rightarrow> JNull | Some e \<Rightarrow> js_of_APIError e)] @
       (case env_meta env of None \<Rightarrow> [] | Some m \<Rightarrow> [(''meta'', JObj [(''count'', JNum (of_nat (meta_count m)))])]))"

definition unwrap :: "js \<Rightarrow> thrown + js" where
  "unwrap env =
     (case js_get env ''data'' of
        None \<Rightarrow> Inl (type_error env ''data'')
      | Some d \<Rightarrow>
          (if nullish d
           then Inl (NativeErr (js_coalesce (js_optget (js_optget env ''error'') ''message'')
                                 (JStr ''Empty response payload'')))
           else Inr d))"

section \<open>Messages\<close>

definition parseAPIError :: "thrown \<Rightarrow> js" where
  "parseAPIError e =
     (case e of
        AxiosErr a \<Rightarrow>
          (let env = response_data a; m = js_optget (js_optget env ''error'') ''message'' in
           if truthy m then m else JStr (ax_message a))
      | NativeErr m \<Rightarrow> m
      | Thrown _ \<Rightarrow> JStr ''Unknown error'')"

definition getAPIErrorCode :: "thrown \<Rightarrow> js" where
  "getAPIErrorCode e =
     (case e of
        AxiosErr a \<Rightarrow> js_optget (js_optget (response_data a) ''error'') ''code''
      | _ \<Rightarrow> JUndef)"

definition getAPIErrorDetails :: "thrown \<Rightarrow> js" where
  "getAPIErrorDetails e =
     (case e of
        AxiosErr a \<Rightarrow> js_optget (js_optget (response_data a) ''error'') ''details''
      | _ \<Rightarrow> JUndef)"

text \<open>\<open>'status' in error && Number(error.status) === 204\<close>, guarded by \<open>typeof error === 'object'\<close>.\<close>

definition status_204 :: "thrown \<Rightarrow> bool" where
  "status_204 e =
     (case e of
        AxiosErr a \<Rightarrow> (case ax_status a of None \<Rightarrow> False | Some v \<Rightarrow> js_Number v = Some 204)
      | NativeErr _ \<Rightarrow> False
      | Thrown (JObj fs) \<Rightarrow> (case map_of fs ''status'' of None \<Rightarrow> False | Some v \<Rightarrow> js_Number v = Some 204)
      | Thrown _ \<Rightarrow> False)"

fun nonempty_string :: "js \<Rightarrow> string option" where
  "nonempty_string (JStr s) = (if s = [] then None else Some s)"
| "nonempty_string _ = None"

text \<open>The argument of \<open>toast.error\<close>. \<open>error.response?.data?.title\<close> is read with \<open>?.\<close> throughout.\<close>

definition handleServerError :: "thrown \<Rightarrow> string" where
  "handleServerError e =
     (let errMsg = (if status_204 e then ''No content.'' else ''Something went wrong!'')
      in case e of
           AxiosErr a \<Rightarrow>
             (let envMsg = js_optget (js_optget (response_data a) ''error'') ''message'';
                  title = js_optget (response_data a) ''title''
              in case nonempty_string envMsg of
                   Some m \<Rightarrow> m
                 | None \<Rightarrow>
                     (case nonempty_string title of
                        Some m \<Rightarrow> m
                      | None \<Rightarrow> (if ax_message a \<noteq> [] then ax_message a else errMsg)))
         | _ \<Rightarrow> errMsg)"

section \<open>Theorems\<close>

lemma envelope_fields [simp]:
  "js_get (js_of_Envelope enc env) ''data'' = Some (case env_data env of None \<Rightarrow> JNull | Some x \<Rightarrow> enc x)"
  "js_optget (js_of_Envelope enc env) ''error'' =
     (case env_error env of None \<Rightarrow> JNull | Some e \<Rightarrow> js_of_APIError e)"
  "js_optget (js_of_APIError e) ''message'' = JStr (err_message e)"
  "js_optget (js_of_APIError e) ''code'' = JStr (err_code e)"
  "js_optget (js_of_APIError e) ''details'' = err_details e"
  by (simp_all add: js_of_Envelope_def js_of_APIError_def split: option.split)

text \<open>
  C23. \<open>unwrap\<close> on a well-typed envelope: the data when there is some, otherwise an error
  whose text is the envelope's own message, or the generic one when it has no error.
\<close>

theorem unwrap_envelope:
  assumes "\<And>x. \<not> nullish (enc x)"
  shows "unwrap (js_of_Envelope enc env) =
    (case env_data env of
       Some x \<Rightarrow> Inr (enc x)
     | None \<Rightarrow> Inl (NativeErr (JStr (case env_error env of None \<Rightarrow> ''Empty response payload'' | Some e \<Rightarrow> err_message e))))"
  using assms by (simp add: unwrap_def js_coalesce_def split: option.split)

theorem unwrap_envelope_witness:
  "unwrap (js_of_Envelope JStr \<lparr>env_data = Some ''x'', env_error = None, env_meta = None\<rparr>) = Inr (JStr ''x'') \<and>
   unwrap (js_of_Envelope JStr \<lparr>env_data = None, env_error = Some \<lparr>err_code = ''c'', err_message = ''m'', err_details = JUndef\<rparr>, env_meta = None\<rparr>)
     = Inl (NativeErr (JStr ''m''))"
  using unwrap_envelope [of JStr "\<lparr>env_data = Some ''x'', env_error = None, env_meta = None\<rparr>"]
    unwrap_envelope [of JStr "\<lparr>env_data = None, env_error = Some \<lparr>err_code = ''c'', err_message = ''m'', err_details = JUndef\<rparr>, env_meta = None\<rparr>"]
  by simp

text \<open>
  The text of a failed call, in the documented order: the envelope's message, else the
  axios message; a code and details come from the envelope only. The toast has the same
  text, except that it still says something when both are empty.
\<close>

theorem message_precedence:
  assumes "response_data e = js_of_Envelope enc env"
  defines "m \<equiv> (case env_error env of None \<Rightarrow> [] | Some err \<Rightarrow> err_message err)"
  shows "parseAPIError (AxiosErr e) = JStr (if m \<noteq> [] then m else ax_message e)
    \<and> getAPIErrorCode (AxiosErr e) = (case env_error env of None \<Rightarrow> JUndef | Some err \<Rightarrow> JStr (err_code err))
    \<and> getAPIErrorDetails (AxiosErr e) = (case env_error env of None \<Rightarrow> JUndef | Some err \<Rightarrow> err_details err)
    \<and> handleServerError (AxiosErr e) =
        (if m \<noteq> [] then m else if ax_message e \<noteq> [] then ax_message e
         else if status_204 (AxiosErr e) then ''No content.'' else ''Something went wrong!'')"
proof -
  have "js_optget (js_of_Envelope enc env) ''title'' = JUndef"
    by (simp add: js_of_Envelope_def split: option.split)
  with assms show ?thesis
    by (simp add: parseAPIError_def getAPIErrorCode_def getAPIErrorDetails_def handleServerError_def Let_def
        split: option.split)
qed

theorem message_precedence_witness:
  "handleServerError (AxiosErr \<lparr>ax_message = ''Request failed'', ax_status = None,
     ax_response = Some \<lparr>resp_status = 400, resp_data = js_of_Envelope JStr
       \<lparr>env_data = None, env_error = Some \<lparr>err_code = ''bad'', err_message = ''name taken'', err_details = JNull\<rparr>, env_meta = None\<rparr>\<rparr>\<rparr>)
   = ''name taken''"
  using message_precedence [of "\<lparr>ax_message = ''Request failed'', ax_status = None,
     ax_response = Some \<lparr>resp_status = 400, resp_data = js_of_Envelope JStr
       \<lparr>env_data = None, env_error = Some \<lparr>err_code = ''bad'', err_message = ''name taken'', err_details = JNull\<rparr>, env_meta = None\<rparr>\<rparr>\<rparr>"
    JStr "\<lparr>env_data = None, env_error = Some \<lparr>err_code = ''bad'', err_message = ''name taken'', err_details = JNull\<rparr>, env_meta = None\<rparr>"]
  by (simp add: response_data_def)

end
