(* ===== verification/Api_Client.thy ===== *)
theory Api_Client
  imports Auth_Store Api_Envelope
begin

text \<open>
  The HTTP clients: \<^verbatim>\<open>web/src/lib/api/client.ts\<close> (the staff client, whose response interceptor
  refreshes the access token on a 401 and replays the requests that failed meanwhile) and
  \<^verbatim>\<open>web/src/lib/api/portal-client.ts\<close>.

  The state of the staff client has the module variables \<open>isRefreshing\<close> and \<open>failedQueue\<close>, the
  auth store, and the control state JavaScript keeps implicitly: the requests on the wire,
  the handler suspended at \<open>await apiClient.post('/auth/refresh')\<close>, the continuations of resolved
  promises (\<open>woken\<close>, run before the next event) and the calls already settled. One step is
  one event of the event loop: the application issues a call, a reply arrives, or some other
  code runs an action of the store.

  Axios itself is not modelled beyond its documented contract: it passes a request through
  the request interceptor, and gives a 2xx reply to the caller and any other outcome to the
  response interceptor together with the request's configuration, custom fields included.
\<close>

section \<open>State\<close>

datatype caller = App nat | Refresher

text \<open>
  A request configuration. \<open>cfg_auth\<close> is the value interpolated into the header
  \<open>Authorization: Bearer ...\<close>; \<open>cfg_caller\<close> is the promise the configuration belongs to.
\<close>

record config =
  cfg_caller :: caller
  cfg_url :: "string option"
  cfg_body :: js
  cfg_retry :: bool
  cfg_auth :: "js option"

datatype outcome = Resolved js | Rejected thrown

record client =
  store :: auth_state
  isRefreshing :: bool
  failedQueue :: "config list"
  refresher :: "config option"
  inflight :: "config list"
  woken :: "config list"
  settled :: "(nat \<times> outcome) list"

section \<open>Operations\<close>

definition request_interceptor :: "auth_state \<Rightarrow> config \<Rightarrow> config" where
  "request_interceptor a c = (if truthy (accessToken a) then c\<lparr>cfg_auth := Some (accessToken a)\<rparr> else c)"

definition send :: "config \<Rightarrow> client \<Rightarrow> client" where
  "send c s = s\<lparr>inflight := inflight s @ [request_interceptor (store s) c]\<rparr>"

text \<open>Settling the promise of a call; the refresh request's own promise is consumed by the handler.\<close>

definition settle :: "config \<Rightarrow> outcome \<Rightarrow> client \<Rightarrow> client" where
  "settle c r s = (case cfg_caller c of App n \<Rightarrow> s\<lparr>settled := settled s @ [(n, r)]\<rparr> | Refresher \<Rightarrow> s)"

text \<open>
  One entry of the queue. Resolving a waiter makes its continuation ready, which sets the
  header and issues the request again; with neither an error nor a truthy token the entry
  is dropped.
\<close>

definition wake :: "thrown option \<Rightarrow> string \<Rightarrow> config \<Rightarrow> client \<Rightarrow> client" where
  "wake err token c s =
     (case err of
        Some e \<Rightarrow> settle c (Rejected e) s
      | None \<Rightarrow> (if token \<noteq> [] then s\<lparr>woken := woken s @ [c\<lparr>cfg_auth := Some (JStr token)\<rparr>]\<rparr> else s))"

definition processQueue :: "thrown option \<Rightarrow> string \<Rightarrow> client \<Rightarrow> client" where
  "processQueue err token s = (fold (wake err token) (failedQueue s) s)\<lparr>failedQueue := []\<rparr>"

definition run_woken :: "client \<Rightarrow> client" where
  "run_woken s = fold send (woken s) (s\<lparr>woken := []\<rparr>)"

definition refresh_request :: "string \<Rightarrow> config" where
  "refresh_request rt =
     \<lparr>cfg_caller = Refresher, cfg_url = Some ''/auth/refresh'',
      cfg_body = JObj [(''refresh_token'', JStr rt)], cfg_retry = False, cfg_auth = None\<rparr>"

text \<open>The \<open>catch\<close> and \<open>finally\<close> blocks.\<close>

definition refresh_failed :: "config \<Rightarrow> thrown \<Rightarrow> client \<Rightarrow> client" where
  "refresh_failed c e s =
     (let s1 = processQueue (Some e) [] s;
          s2 = s1\<lparr>store := reset (store s1)\<rparr>
      in (settle c (Rejected e) s2)\<lparr>isRefreshing := False, refresher := None\<rparr>)"

text \<open>
  The rest of the \<open>try\<close> block after the \<open>await\<close>, then \<open>finally\<close>; the woken continuations run
  after the handler has returned.
\<close>

definition refresh_done :: "config \<Rightarrow> string \<Rightarrow> string \<Rightarrow> client \<Rightarrow> client" where
  "refresh_done c access_token refresh_token s =
     (let s1 = s\<lparr>store := setRefreshToken refresh_token (setAccessToken access_token (store s))\<rparr>;
          s2 = processQueue None access_token s1;
          s3 = send (c\<lparr>cfg_auth := Some (JStr access_token)\<rparr>) s2
      in run_woken (s3\<lparr>isRefreshing := False, refresher := None\<rparr>))"

text \<open>
  \<open>const { access_token, refresh_token } = res.data.data\<close>. The outer \<open>None\<close> is a body outside the
  declared type (fields that are not strings), on which the model says nothing.
\<close>

definition tokens_of :: "js \<Rightarrow> (thrown + string \<times> string) option" where
  "tokens_of body =
     (case js_get body ''data'' of
        None \<Rightarrow> Some (Inl (type_error body ''data''))
      | Some d \<Rightarrow>
          (case (js_get d ''access_token'', js_get d ''refresh_token'') of
             (None, _) \<Rightarrow> Some (Inl (type_error d ''access_token''))
           | (Some (JStr a), Some (JStr r)) \<Rightarrow> Some (Inr (a, r))
           | _ \<Rightarrow> None))"

definition begin_refresh :: "config \<Rightarrow> client \<Rightarrow> client" where
  "begin_refresh c s =
     (let rt = refreshToken (store s) in
      if rt = [] then refresh_failed c (NativeErr (JStr ''No refresh token'')) s
      else send (refresh_request rt) (s\<lparr>refresher := Some c\<rparr>))"

definition not_refreshable :: "config \<Rightarrow> axios_error \<Rightarrow> bool" where
  "not_refreshable c e =
     (map_option resp_status (ax_response e) \<noteq> Some 401 \<or> cfg_retry c \<or>
      (case cfg_url c of None \<Rightarrow> False | Some u \<Rightarrow> js_includes u ''/auth/refresh''))"

text \<open>\<open>Promise.reject(error)\<close> out of the interceptor: the caller's promise, or the suspended handler.\<close>

definition reject :: "config \<Rightarrow> thrown \<Rightarrow> client \<Rightarrow> client" where
  "reject c e s =
     (case (cfg_caller c, refresher s) of
        (Refresher, Some c0) \<Rightarrow> refresh_failed c0 e s
      | _ \<Rightarrow> settle c (Rejected e) s)"

definition on_error :: "config \<Rightarrow> axios_error \<Rightarrow> client \<Rightarrow> client" where
  "on_error c e s =
     (if not_refreshable c e then reject c (AxiosErr e) s
      else if isRefreshing s then s\<lparr>failedQueue := failedQueue s @ [c]\<rparr>
      else begin_refresh (c\<lparr>cfg_retry := True\<rparr>) (s\<lparr>isRefreshing := True\<rparr>))"

definition on_success :: "config \<Rightarrow> js \<Rightarrow> client \<Rightarrow> client option" where
  "on_success c body s =
     (case (cfg_caller c, refresher s) of
        (Refresher, Some c0) \<Rightarrow>
          (case tokens_of body of
             None \<Rightarrow> None
           | Some (Inl e) \<Rightarrow> Some (refresh_failed c0 e s)
           | Some (Inr (a, r)) \<Rightarrow> Some (refresh_done c0 a r s))
      | _ \<Rightarrow> Some (settle c (Resolved body) s))"

section \<open>Events\<close>

definition remove_nth :: "nat \<Rightarrow> 'a list \<Rightarrow> 'a list" where
  "remove_nth i xs = take i xs @ drop (Suc i) xs"

definition received :: "nat \<Rightarrow> client \<Rightarrow> client" where
  "received i s = s\<lparr>inflight := remove_nth i (inflight s)\<rparr>"

definition app_of :: "config \<Rightarrow> nat list" where
  "app_of c = (case cfg_caller c of App n \<Rightarrow> [n] | Refresher \<Rightarrow> [])"

definition app_ids :: "config list \<Rightarrow> nat list" where
  "app_ids cs = concat (map app_of cs)"

definition pending :: "client \<Rightarrow> config list" where
  "pending s = inflight s @ woken s @ failedQueue s @ (case refresher s of None \<Rightarrow> [] | Some c \<Rightarrow> [c])"

definition calls :: "client \<Rightarrow> nat list" where
  "calls s = app_ids (pending s) @ map fst (settled s)"

text \<open>A reply to some request. The backend never hands out an empty access token.\<close>

inductive reply_step :: "client \<Rightarrow> client \<Rightarrow> bool" where
  reply_ok: "i < length (inflight s) \<Longrightarrow> (\<forall>r. tokens_of body \<noteq> Some (Inr ([], r))) \<Longrightarrow>
    on_success (inflight s ! i) body (received i s) = Some t \<Longrightarrow> reply_step s t"
| reply_error: "i < length (inflight s) \<Longrightarrow> reply_step s (on_error (inflight s ! i) e (received i s))"

inductive client_step :: "client \<Rightarrow> client \<Rightarrow> bool" where
  issue: "n \<notin> set (calls s) \<Longrightarrow>
    client_step s (send \<lparr>cfg_caller = App n, cfg_url = u, cfg_body = b, cfg_retry = False, cfg_auth = None\<rparr> s)"
| reply: "reply_step s t \<Longrightarrow> client_step s t"
| action: "auth_step (store s) a \<Longrightarrow> client_step s (s\<lparr>store := a\<rparr>)"

definition client_start :: "client \<Rightarrow> bool" where
  "client_start s = (\<not> isRefreshing s \<and> pending s = [] \<and> settled s = [])"

section \<open>Closed forms of the handlers\<close>

lemma app_ids_simps [simp]:
  "app_ids [] = []" "app_ids (c # cs) = app_of c @ app_ids cs" "app_ids (cs @ ds) = app_ids cs @ app_ids ds"
  by (simp_all add: app_ids_def)

lemma app_of_simps [simp]:
  "app_of (c\<lparr>cfg_auth := x\<rparr>) = app_of c" "app_of (c\<lparr>cfg_retry := b\<rparr>) = app_of c"
  "app_of (request_interceptor a c) = app_of c" "app_of (refresh_request rt) = []"
  by (simp_all add: app_of_def request_interceptor_def refresh_request_def)

lemma app_ids_auth [simp]: "app_ids (map (\<lambda>c. c\<lparr>cfg_auth := x\<rparr>) cs) = app_ids cs"
  by (induction cs) simp_all

lemma settle_form: "settle c r s = s\<lparr>settled := settled s @ map (\<lambda>n. (n, r)) (app_of c)\<rparr>"
  by (simp add: settle_def app_of_def split: caller.split)

lemma fold_wake_error:
  "fold (wake (Some e) t) cs s = s\<lparr>settled := settled s @ map (\<lambda>n. (n, Rejected e)) (app_ids cs)\<rparr>"
  by (induction cs arbitrary: s) (simp_all add: wake_def settle_form)

lemma fold_wake_token:
  "t \<noteq> [] \<Longrightarrow>
     fold (wake None t) cs s = s\<lparr>woken := woken s @ map (\<lambda>c. c\<lparr>cfg_auth := Some (JStr t)\<rparr>) cs\<rparr>"
  by (induction cs arbitrary: s) (simp_all add: wake_def)

lemma fold_wake_empty: "fold (wake None []) cs s = s"
  by (induction cs arbitrary: s) (simp_all add: wake_def)

lemma fold_send: "fold send cs s = s\<lparr>inflight := inflight s @ map (request_interceptor (store s)) cs\<rparr>"
  by (induction cs arbitrary: s) (simp_all add: send_def)

lemma processQueue_error:
  "processQueue (Some e) t s =
     s\<lparr>settled := settled s @ map (\<lambda>n. (n, Rejected e)) (app_ids (failedQueue s)), failedQueue := []\<rparr>"
  by (simp add: processQueue_def fold_wake_error)

lemma processQueue_token:
  "t \<noteq> [] \<Longrightarrow> processQueue None t s =
     s\<lparr>woken := woken s @ map (\<lambda>c. c\<lparr>cfg_auth := Some (JStr t)\<rparr>) (failedQueue s), failedQueue := []\<rparr>"
  by (simp add: processQueue_def fold_wake_token)

lemma processQueue_empty: "processQueue None [] s = s\<lparr>failedQueue := []\<rparr>"
  by (simp add: processQueue_def fold_wake_empty)

lemma refresh_failed_form:
  "refresh_failed c e s =
     s\<lparr>store := reset (store s), failedQueue := [], isRefreshing := False, refresher := None,
       settled := settled s @ map (\<lambda>n. (n, Rejected e)) (app_ids (failedQueue s @ [c]))\<rparr>"
  by (simp add: refresh_failed_def processQueue_error settle_form Let_def)

lemma accessToken_refreshed [simp]: "accessToken (setRefreshToken r (setAccessToken a st)) = JStr a"
  by (simp add: setRefreshToken_def setAccessToken_def)

lemma interceptor_same [simp]:
  "accessToken st = JStr a \<Longrightarrow>
     request_interceptor st (c\<lparr>cfg_auth := Some (JStr a)\<rparr>) = c\<lparr>cfg_auth := Some (JStr a)\<rparr>"
  by (simp add: request_interceptor_def)

lemma map_interceptor_same [simp]:
  "accessToken st = JStr a \<Longrightarrow>
     map (request_interceptor st) (map (\<lambda>c. c\<lparr>cfg_auth := Some (JStr a)\<rparr>) cs) =
     map (\<lambda>c. c\<lparr>cfg_auth := Some (JStr a)\<rparr>) cs"
  by simp

lemma refresh_done_form:
  "a \<noteq> [] \<Longrightarrow> woken s = [] \<Longrightarrow> refresh_done c a r s =
     s\<lparr>store := setRefreshToken r (setAccessToken a (store s)), failedQueue := [],
       isRefreshing := False, refresher := None,
       inflight := inflight s @ map (\<lambda>c. c\<lparr>cfg_auth := Some (JStr a)\<rparr>) (c # failedQueue s)\<rparr>"
  by (simp add: refresh_done_def Let_def processQueue_token run_woken_def send_def fold_send del: map_map)

section \<open>The invariant\<close>

definition refreshers :: "config list \<Rightarrow> config list" where
  "refreshers cs = filter (\<lambda>c. cfg_caller c = Refresher) cs"

definition control_inv :: "client \<Rightarrow> bool" where
  "control_inv s =
     (woken s = [] \<and> (isRefreshing s \<longleftrightarrow> refresher s \<noteq> None) \<and>
      length (refreshers (inflight s)) = (if isRefreshing s then 1 else 0) \<and>
      (\<forall>c \<in> set (refreshers (inflight s)). cfg_url c = Some ''/auth/refresh'') \<and>
      refreshers (failedQueue s) = [] \<and>
      (\<forall>c. refresher s = Some c \<longrightarrow> cfg_retry c \<and> cfg_caller c \<noteq> Refresher) \<and>
      (isRefreshing s \<or> failedQueue s = []))"

definition client_inv :: "client \<Rightarrow> bool" where
  "client_inv s = (control_inv s \<and> distinct (calls s))"

lemmas inv_defs = client_inv_def control_inv_def

lemma refreshers_simps [simp]:
  "refreshers [] = []" "refreshers (c # cs) = (if cfg_caller c = Refresher then c # refreshers cs else refreshers cs)"
  "refreshers (cs @ ds) = refreshers cs @ refreshers ds"
  by (simp_all add: refreshers_def)

lemma caller_interceptor [simp]:
  "cfg_caller (request_interceptor a c) = cfg_caller c" "cfg_url (request_interceptor a c) = cfg_url c"
  "cfg_retry (request_interceptor a c) = cfg_retry c"
  by (simp_all add: request_interceptor_def)

lemma refreshers_auth: "refreshers cs = [] \<Longrightarrow> refreshers (map (\<lambda>c. c\<lparr>cfg_auth := x\<rparr>) cs) = []"
  by (induction cs) (simp_all split: if_splits)

lemma split_nth:
  assumes "i < length xs"
  obtains us vs where "xs = us @ xs ! i # vs" "remove_nth i xs = us @ vs"
  using id_take_nth_drop [OF assms] by (auto simp: remove_nth_def)

lemma refresh_url [simp]: "js_includes ''/auth/refresh'' ''/auth/refresh''"
  by code_simp

text \<open>
  What a reply can do in a state that satisfies the invariant: settle a call, queue it,
  make it the initiator of a refresh (or fail for want of a refresh token), or end the
  refresh one way or the other.
\<close>

lemma reply_cases [consumes 2, case_names settles queues begins no_token failed refreshed]:
  assumes inv: "client_inv s" and step: "reply_step s t"
  obtains us c vs n r where "inflight s = us @ c # vs" "cfg_caller c = App n"
      "t = s\<lparr>inflight := us @ vs, settled := settled s @ [(n, r)]\<rparr>"
  | us c vs n where "inflight s = us @ c # vs" "cfg_caller c = App n" "isRefreshing s" "\<not> cfg_retry c"
      "t = s\<lparr>inflight := us @ vs, failedQueue := failedQueue s @ [c]\<rparr>"
  | us c vs n where "inflight s = us @ c # vs" "cfg_caller c = App n" "\<not> isRefreshing s" "\<not> cfg_retry c"
      "refreshToken (store s) \<noteq> []"
      "t = s\<lparr>inflight := us @ vs @ [request_interceptor (store s) (refresh_request (refreshToken (store s)))],
             isRefreshing := True, refresher := Some (c\<lparr>cfg_retry := True\<rparr>)\<rparr>"
  | us c vs n where "inflight s = us @ c # vs" "cfg_caller c = App n" "\<not> isRefreshing s" "\<not> cfg_retry c"
      "refreshToken (store s) = []"
      "t = refresh_failed (c\<lparr>cfg_retry := True\<rparr>) (NativeErr (JStr ''No refresh token''))
             (s\<lparr>inflight := us @ vs, isRefreshing := True\<rparr>)"
  | us c vs c0 e where "inflight s = us @ c # vs" "cfg_caller c = Refresher" "refresher s = Some c0"
      "t = refresh_failed c0 e (s\<lparr>inflight := us @ vs\<rparr>)"
  | us c vs c0 a r where "inflight s = us @ c # vs" "cfg_caller c = Refresher" "refresher s = Some c0" "a \<noteq> []"
      "t = refresh_done c0 a r (s\<lparr>inflight := us @ vs\<rparr>)"
proof -
  have resp: "cfg_caller c = Refresher \<Longrightarrow> cfg_url c = Some ''/auth/refresh'' \<and> refresher s \<noteq> None"
    if "inflight s = us @ c # vs" for us c vs
    using inv that by (auto simp: inv_defs split: if_splits)
  from step show thesis
  proof cases
    case (reply_ok i body)
    obtain us vs where i: "inflight s = us @ inflight s ! i # vs" "received i s = s\<lparr>inflight := us @ vs\<rparr>"
      using split_nth [OF reply_ok(1)] by (metis received_def)
    show thesis
    proof (cases "cfg_caller (inflight s ! i)")
      case (App n)
      with reply_ok(3) i(2) that(1) [OF i(1) App] show thesis by (auto simp: on_success_def settle_def)
    next
      case Refresher
      then obtain c0 where c0: "refresher s = Some c0" using resp i(1) by blast
      consider e where "tokens_of body = Some (Inl e)" | a r where "tokens_of body = Some (Inr (a, r))" "a \<noteq> []"
        using reply_ok Refresher c0 i(2)
        by (cases "tokens_of body") (auto simp: on_success_def split: sum.splits)
      then show thesis
        using reply_ok(3) Refresher c0 i(2) that(5) [OF i(1) Refresher c0] that(6) [OF i(1) Refresher c0]
        by cases (auto simp: on_success_def)
    qed
  next
    case (reply_error i e)
    obtain us vs where i: "inflight s = us @ inflight s ! i # vs" "received i s = s\<lparr>inflight := us @ vs\<rparr>"
      using split_nth [OF reply_error(2)] by (metis received_def)
    show thesis
    proof (cases "cfg_caller (inflight s ! i)")
      case (App n)
      consider "not_refreshable (inflight s ! i) e"
        | "\<not> not_refreshable (inflight s ! i) e" "\<not> cfg_retry (inflight s ! i)"
        by (auto simp: not_refreshable_def)
      then show thesis
        using reply_error(1) i(2) App that(1) [OF i(1) App] that(2) [OF i(1) App]
          that(3) [OF i(1) App] that(4) [OF i(1) App]
        by cases (auto simp: on_error_def reject_def settle_def begin_refresh_def send_def Let_def split: if_splits)
    next
      case Refresher
      then obtain c0 where c0: "refresher s = Some c0" and "cfg_url (inflight s ! i) = Some ''/auth/refresh''"
        using resp i(1) by blast
      then have "not_refreshable (inflight s ! i) e" by (simp add: not_refreshable_def)
      with reply_error(1) i(2) Refresher c0 that(5) [OF i(1) Refresher c0] show thesis
        by (auto simp: on_error_def reject_def)
    qed
  qed
qed

lemma app_of_caller: "cfg_caller c = App n \<Longrightarrow> app_of c = [n]" "cfg_caller c = Refresher \<Longrightarrow> app_of c = []"
  by (simp_all add: app_of_def)

lemmas call_simps = calls_def pending_def refresh_failed_form refresh_done_form app_of_caller

lemma inv_woken: "client_inv s \<Longrightarrow> woken s = []"
  by (simp add: inv_defs)

lemma inv_idle: "client_inv s \<Longrightarrow> \<not> isRefreshing s \<Longrightarrow> refresher s = None \<and> failedQueue s = []"
  by (auto simp: inv_defs)

lemma reply_calls:
  assumes "client_inv s" "reply_step s t"
  shows "mset (calls t) = mset (calls s)"
  using assms
proof (cases rule: reply_cases)
  case (settles us c vs n r)
  then show ?thesis by (simp add: call_simps)
next
  case (queues us c vs n)
  then show ?thesis by (simp add: call_simps)
next
  case (begins us c vs n)
  then show ?thesis using inv_idle [OF assms(1)] by (simp add: call_simps)
next
  case (no_token us c vs n)
  then show ?thesis using inv_idle [OF assms(1)] by (simp add: call_simps)
next
  case (failed us c vs c0 e)
  then show ?thesis by (simp add: call_simps comp_def)
next
  case (refreshed us c vs c0 a r)
  then show ?thesis using inv_woken [OF assms(1)] by (simp add: call_simps)
qed

lemma reply_control:
  assumes "client_inv s" "reply_step s t"
  shows "control_inv t"
  using assms
proof (cases rule: reply_cases)
  case (settles us c vs n r)
  then show ?thesis using assms(1) by (auto simp: inv_defs)
next
  case (queues us c vs n)
  then show ?thesis using assms(1) by (simp add: inv_defs)
next
  case (begins us c vs n)
  then show ?thesis using assms(1) inv_idle [OF assms(1)]
    by (simp add: inv_defs refresh_request_def)
next
  case (no_token us c vs n)
  then show ?thesis using assms(1) by (simp add: inv_defs refresh_failed_form)
next
  case (failed us c vs c0 e)
  then show ?thesis using assms(1) by (auto simp: inv_defs refresh_failed_form split: if_splits)
next
  case (refreshed us c vs c0 a r)
  then show ?thesis using assms(1)
    by (auto simp: inv_defs refresh_done_form refreshers_auth split: if_splits)
qed

lemma reply_inv: "client_inv s \<Longrightarrow> reply_step s t \<Longrightarrow> client_inv t"
  using reply_control reply_calls client_inv_def mset_eq_imp_distinct_iff by metis

lemma issue_calls:
  "mset (calls (send c s)) = mset (calls s) + mset (app_of c)"
  by (simp add: call_simps send_def)

lemma step_inv: "client_step s t \<Longrightarrow> client_inv s \<Longrightarrow> client_inv t"
proof (induction rule: client_step.induct)
  case (issue n s u b)
  let ?c = "\<lparr>cfg_caller = App n, cfg_url = u, cfg_body = b, cfg_retry = False, cfg_auth = None\<rparr>"
  have "mset (calls (send ?c s)) = mset (n # calls s)" by (simp add: issue_calls app_of_def)
  then have "distinct (calls (send ?c s))"
    using issue by (metis client_inv_def distinct.simps(2) mset_eq_imp_distinct_iff)
  with issue show ?case by (auto simp: inv_defs send_def)
next
  case (reply s t)
  then show ?case by (blast intro: reply_inv)
next
  case (action s a)
  moreover have "calls (s\<lparr>store := a\<rparr>) = calls s" by (simp add: calls_def pending_def)
  ultimately show ?case by (auto simp: inv_defs)
qed

lemma start_inv: "client_start s \<Longrightarrow> client_inv s"
  by (auto simp: client_start_def inv_defs calls_def pending_def split: option.splits)

interpretation client: inductive_invariant client_start client_step client_inv
  by unfold_locales (fact start_inv, fact step_inv)

section \<open>A sample run\<close>

text \<open>Two calls receive a 401: the first starts a refresh, the second is queued.\<close>

definition sample_store :: auth_state where
  "sample_store = \<lparr>doc = Some [], ls = [(REFRESH_TOKEN_KEY, ''rt'')], user = None, accessToken = JStr [], refreshToken = ''rt''\<rparr>"

definition sample_idle :: client where
  "sample_idle = \<lparr>store = sample_store, isRefreshing = False, failedQueue = [], refresher = None,
     inflight = [], woken = [], settled = []\<rparr>"

definition sample_call :: "nat \<Rightarrow> string \<Rightarrow> config" where
  "sample_call n u = \<lparr>cfg_caller = App n, cfg_url = Some u, cfg_body = JUndef, cfg_retry = False, cfg_auth = None\<rparr>"

definition sample_401 :: axios_error where
  "sample_401 = \<lparr>ax_message = ''Unauthorized'', ax_status = None,
     ax_response = Some \<lparr>resp_status = 401, resp_data = JUndef\<rparr>\<rparr>"

definition sample_sent :: client where
  "sample_sent = send (sample_call 2 ''/b'') (send (sample_call 1 ''/a'') sample_idle)"

definition sample_refreshing :: client where
  "sample_refreshing = on_error (inflight sample_sent ! 0) sample_401 (received 0 sample_sent)"

definition sample_queued :: client where
  "sample_queued = on_error (inflight sample_refreshing ! 0) sample_401 (received 0 sample_refreshing)"

definition sample_tokens :: "string \<Rightarrow> string \<Rightarrow> js" where
  "sample_tokens a r = JObj [(''data'', JObj [(''access_token'', JStr a), (''refresh_token'', JStr r)])]"

lemma sample_tokens_of: "tokens_of (sample_tokens a r) = Some (Inr (a, r))"
  by (simp add: tokens_of_def sample_tokens_def)

lemma sample_start: "client_start sample_idle"
  by code_simp

lemma sample_run_sent: "client_step\<^sup>*\<^sup>* sample_idle sample_sent"
proof -
  have "client_step sample_idle (send (sample_call 1 ''/a'') sample_idle)"
    unfolding sample_call_def by (rule client_step.issue) code_simp
  moreover have "client_step (send (sample_call 1 ''/a'') sample_idle) sample_sent"
    unfolding sample_sent_def sample_call_def by (rule client_step.issue) code_simp
  ultimately show ?thesis by (meson r_into_rtranclp rtranclp.rtrancl_into_rtrancl)
qed

lemma sample_run_queued: "client_step\<^sup>*\<^sup>* sample_sent sample_queued"
proof -
  have "client_step sample_sent sample_refreshing"
    unfolding sample_refreshing_def by (rule client_step.reply, rule reply_step.reply_error) code_simp
  moreover have "client_step sample_refreshing sample_queued"
    unfolding sample_queued_def by (rule client_step.reply, rule reply_step.reply_error) code_simp
  ultimately show ?thesis by (meson r_into_rtranclp rtranclp.rtrancl_into_rtrancl)
qed

lemma sample_queued_simps:
  "refresher (received i sample_queued) = Some ((sample_call 1 ''/a'')\<lparr>cfg_retry := True\<rparr>)"
  "woken (received i sample_queued) = []"
proof -
  have "refresher sample_queued = Some ((sample_call 1 ''/a'')\<lparr>cfg_retry := True\<rparr>)" "woken sample_queued = []"
    by code_simp+
  then show "refresher (received i sample_queued) = Some ((sample_call 1 ''/a'')\<lparr>cfg_retry := True\<rparr>)"
    "woken (received i sample_queued) = []" by (simp_all add: received_def)
qed

section \<open>Every call settles once\<close>

lemma reply_settled:
  assumes "client_inv s" "reply_step s t"
  shows "prefix (settled s) (settled t)"
  using assms
proof (cases rule: reply_cases)
  case (refreshed us c vs c0 a r)
  then show ?thesis using inv_woken [OF assms(1)] by (simp add: refresh_done_form)
qed (simp_all add: refresh_failed_form)

lemma step_keeps:
  assumes "client_step s t" "client_inv s"
  shows "set (calls s) \<subseteq> set (calls t) \<and> prefix (settled s) (settled t)"
  using assms
proof (induction rule: client_step.induct)
  case (issue n s u b)
  let ?c = "\<lparr>cfg_caller = App n, cfg_url = u, cfg_body = b, cfg_retry = False, cfg_auth = None\<rparr>"
  have "set (calls (send ?c s)) = set (calls s) \<union> set (app_of ?c)"
    using issue_calls [of ?c s] by (metis set_mset_mset set_mset_union)
  then show ?case by (simp add: send_def)
next
  case (reply s t)
  then show ?case using reply_settled reply_calls by (metis mset_eq_setD order_refl)
next
  case (action s a)
  then show ?case by (simp add: calls_def pending_def)
qed

lemma run_keeps:
  "client_step\<^sup>*\<^sup>* s t \<Longrightarrow> client_inv s \<Longrightarrow> set (calls s) \<subseteq> set (calls t) \<and> prefix (settled s) (settled t)"
proof (induction rule: rtranclp_induct)
  case (step t u)
  with client.inv_run [OF step.hyps(1)] step_keeps [OF step.hyps(2)] show ?case
    by (meson prefix_order.trans subset_trans)
qed simp

lemma quiet_settled: "client_inv s \<Longrightarrow> inflight s = [] \<Longrightarrow> calls s = map fst (settled s)"
  by (auto simp: inv_defs calls_def pending_def split: if_splits)

text \<open>
  C3. At most one refresh at a time: in every reachable state the number of refresh requests
  on the wire is one while \<open>isRefreshing\<close> is set and zero otherwise, the flag is set exactly
  while a handler waits for the reply, and requests are queued only meanwhile.
\<close>

theorem refresh_single_flight:
  assumes "client_start s0" "client_step\<^sup>*\<^sup>* s0 s"
  shows "length (refreshers (inflight s)) = (if isRefreshing s then 1 else 0)
    \<and> (isRefreshing s \<longleftrightarrow> refresher s \<noteq> None) \<and> (failedQueue s \<noteq> [] \<longrightarrow> isRefreshing s)"
  using client.inv_reachable [OF assms] by (auto simp: inv_defs)

theorem refresh_single_flight_witness:
  "isRefreshing sample_queued \<and> length (refreshers (inflight sample_queued)) = 1"
proof -
  have "isRefreshing sample_queued" by code_simp
  with refresh_single_flight [OF sample_start rtranclp_trans [OF sample_run_sent sample_run_queued]]
  show ?thesis by simp
qed

text \<open>
  C2. No call is lost and none settles twice: along every run the calls issued stay accounted
  for, each in one place only (on the wire, in the queue, suspended, or settled), an outcome
  once delivered never changes, and when nothing is on the wire every call has settled.
\<close>

theorem calls_conserved:
  assumes "client_start s0" "client_step\<^sup>*\<^sup>* s0 s" "client_step\<^sup>*\<^sup>* s t"
  shows "set (calls s) \<subseteq> set (calls t) \<and> distinct (calls t) \<and> prefix (settled s) (settled t)
    \<and> (inflight t = [] \<longrightarrow> calls t = map fst (settled t))"
proof -
  have s: "client_inv s" using client.inv_reachable assms by blast
  then have t: "client_inv t" using client.inv_run assms(3) by blast
  from run_keeps [OF assms(3) s] t quiet_settled [OF t] show ?thesis
    by (simp add: client_inv_def)
qed

theorem calls_conserved_witness:
  "{1, 2} \<subseteq> set (calls sample_queued) \<and> distinct (calls sample_queued)"
proof -
  have "set (calls sample_sent) = {1, 2}" by code_simp
  with calls_conserved [OF sample_start sample_run_sent sample_run_queued] show ?thesis by auto
qed

section \<open>Replies run out\<close>

definition weight :: "config \<Rightarrow> nat" where
  "weight c = (case cfg_caller c of App _ \<Rightarrow> (if cfg_retry c then 1 else 2) | Refresher \<Rightarrow> 0)"

definition load :: "client \<Rightarrow> nat" where
  "load s = sum_list (map weight (pending s))"

lemma weight_simps [simp]:
  "weight (c\<lparr>cfg_auth := x\<rparr>) = weight c" "weight (request_interceptor a c) = weight c"
  "weight (refresh_request rt) = 0"
  by (simp_all add: weight_def request_interceptor_def refresh_request_def)

lemma weight_caller:
  "cfg_caller c = App n \<Longrightarrow> weight c = (if cfg_retry c then 1 else 2)"
  "cfg_caller c = Refresher \<Longrightarrow> weight c = 0"
  by (simp_all add: weight_def)

lemma weight_auths [simp]: "map weight (map (\<lambda>c. c\<lparr>cfg_auth := x\<rparr>) cs) = map weight cs"
  by simp

text \<open>
  Every reply makes progress: it settles a call or uses up the only retry of one (the load
  falls), or ends the refresh, or moves a call from the wire to the queue.
\<close>

lemma reply_progress:
  assumes "client_inv s" "reply_step s t"
  shows "(t, s) \<in> measures [load, \<lambda>s. of_bool (isRefreshing s), \<lambda>s. length (inflight s)]"
  using assms
proof (cases rule: reply_cases)
  case (settles us c vs n r)
  then show ?thesis by (simp add: load_def pending_def weight_caller)
next
  case (queues us c vs n)
  then show ?thesis by (simp add: load_def pending_def)
next
  case (begins us c vs n)
  then show ?thesis using inv_idle [OF assms(1)]
    by (simp add: load_def pending_def weight_caller weight_def [of "c\<lparr>cfg_retry := True\<rparr>"])
next
  case (no_token us c vs n)
  then show ?thesis using inv_idle [OF assms(1)]
    by (simp add: load_def pending_def refresh_failed_form weight_caller)
next
  case (failed us c vs c0 e)
  then have "0 < weight c0" using assms(1) by (auto simp: inv_defs weight_def split: caller.split)
  with failed show ?thesis by (simp add: load_def pending_def refresh_failed_form weight_caller)
next
  case (refreshed us c vs c0 a r)
  then show ?thesis using assms(1) inv_woken [OF assms(1)]
    by (simp add: load_def pending_def refresh_done_form weight_caller inv_defs comp_def)
qed

lemma reply_enabled: "inflight s \<noteq> [] \<Longrightarrow> \<exists>t. reply_step s t"
  using reply_step.reply_error [of 0 s] by blast

text \<open>
  C1. The client always comes to rest: from any reachable state there is no infinite sequence
  of replies (a request is replayed after a refresh, but each refresh uses up the only retry
  of the call that started it), and when no reply is outstanding every call has settled, so
  no request waits in the queue for ever.
\<close>

theorem client_comes_to_rest:
  "wf {(t, s). (\<exists>s0. client_start s0 \<and> client_step\<^sup>*\<^sup>* s0 s) \<and> reply_step s t} \<and>
   (client_start s0 \<and> client_step\<^sup>*\<^sup>* s0 s \<and> (\<nexists>t. reply_step s t) \<longrightarrow>
      calls s = map fst (settled s) \<and> failedQueue s = [] \<and> \<not> isRefreshing s)"
proof
  show "wf {(t, s). (\<exists>s0. client_start s0 \<and> client_step\<^sup>*\<^sup>* s0 s) \<and> reply_step s t}"
    by (rule wf_subset [OF wf_measures [of "[load, \<lambda>s. of_bool (isRefreshing s), \<lambda>s. length (inflight s)]"]])
      (use reply_progress client.inv_reachable in blast)
  show "client_start s0 \<and> client_step\<^sup>*\<^sup>* s0 s \<and> (\<nexists>t. reply_step s t) \<longrightarrow>
      calls s = map fst (settled s) \<and> failedQueue s = [] \<and> \<not> isRefreshing s"
  proof (intro impI, elim conjE)
    assume r: "client_start s0" "client_step\<^sup>*\<^sup>* s0 s" and stuck: "\<nexists>t. reply_step s t"
    have inv: "client_inv s" using client.inv_reachable r by blast
    have quiet: "inflight s = []" using stuck reply_enabled by blast
    with quiet_settled [OF inv quiet] inv show "calls s = map fst (settled s) \<and> failedQueue s = [] \<and> \<not> isRefreshing s"
      by (auto simp: inv_defs split: if_splits)
  qed
qed

theorem client_comes_to_rest_witness:
  "(\<nexists>t. reply_step sample_idle t) \<and> calls sample_idle = map fst (settled sample_idle)"
proof -
  have "\<not> reply_step sample_idle t" for t
    by (auto elim!: reply_step.cases simp: sample_idle_def)
  with client_comes_to_rest [of sample_idle sample_idle] sample_start show ?thesis by blast
qed

section \<open>The outcome of a refresh\<close>

text \<open>
  C4. A successful refresh: both tokens are stored and survive a reload (the access token
  being one a cookie can hold), the call that started the refresh and every queued call go
  back on the wire in that order with the new access token, nothing is settled, and the next
  401 may refresh again.
\<close>

theorem refresh_replays_all:
  assumes "cfg_caller c = Refresher" "refresher s = Some c0" "woken s = []"
    and "tokens_of body = Some (Inr (a, r))" "a \<noteq> []"
    and "persisted (store s)" "token_ok a"
  shows "\<exists>t. on_success c body s = Some t
    \<and> accessToken (store t) = JStr a \<and> refreshToken (store t) = r \<and> persisted (store t)
    \<and> inflight t = inflight s @ map (\<lambda>c. c\<lparr>cfg_auth := Some (JStr a)\<rparr>) (c0 # failedQueue s)
    \<and> failedQueue t = [] \<and> \<not> isRefreshing t \<and> refresher t = None \<and> settled t = settled s"
proof -
  have "auth_step (store s) (setAccessToken a (store s))"
    and "auth_step (setAccessToken a (store s)) (setRefreshToken r (setAccessToken a (store s)))"
    using assms(7) auth_step.intros by blast+
  then have "persisted (setRefreshToken r (setAccessToken a (store s)))"
    using auth_step_persisted assms(6) by blast
  with assms show ?thesis
    by (simp add: on_success_def refresh_done_form) (simp add: setRefreshToken_def)
qed

theorem refresh_replays_all_witness:
  "\<exists>t. on_success (refresh_request ''rt'') (sample_tokens ''a'' ''r'') (received 0 sample_queued) = Some t \<and>
     app_ids (inflight t) = [1, 2] \<and> accessToken (store t) = JStr ''a'' \<and> failedQueue t = []"
proof -
  let ?s = "received 0 sample_queued"
  have "wf_document (doc (store ?s))" "initToken (doc (store ?s)) = Some (accessToken (store ?s))"
    "refreshToken (store ?s) = or_else (getItem REFRESH_TOKEN_KEY (ls (store ?s))) []" by code_simp+
  then have p: "persisted (store ?s)" by (simp add: persisted_iff)
  have "cfg_caller (refresh_request ''rt'') = Refresher" "token_ok ''a''" "''a'' \<noteq> []"
    "app_ids (inflight ?s) = []" "app_ids (failedQueue ?s) = [2]"  by code_simp+
  with refresh_replays_all [OF _ sample_queued_simps sample_tokens_of _ p, of "refresh_request ''rt''" "''a''" "''r''"]
  show ?thesis by (auto simp: sample_call_def app_of_def)
qed

text \<open>
  C5. A failed refresh, whatever the reason: the session is reset, every queued call and
  then the call that started the refresh are rejected with the refresh's own error, nothing
  is replayed, and the client is ready for the next login.
\<close>

theorem refresh_failure_rejects_all:
  assumes "cfg_caller c = Refresher" "cfg_url c = Some ''/auth/refresh''" "refresher s = Some c0"
  shows "on_error c e s =
    s\<lparr>store := reset (store s), failedQueue := [], isRefreshing := False, refresher := None,
      settled := settled s @ map (\<lambda>n. (n, Rejected (AxiosErr e))) (app_ids (failedQueue s @ [c0]))\<rparr>"
  using assms by (simp add: on_error_def not_refreshable_def reject_def refresh_failed_form)

theorem refresh_failure_rejects_all_witness:
  "settled (on_error (refresh_request ''rt'') sample_401 (received 0 sample_queued)) =
     [(2, Rejected (AxiosErr sample_401)), (1, Rejected (AxiosErr sample_401))]"
proof -
  have "app_ids (failedQueue (received 0 sample_queued)) = [2]" "settled (received 0 sample_queued) = []"
    by code_simp+
  with refresh_failure_rejects_all [OF _ _ sample_queued_simps(1), of "refresh_request ''rt''" sample_401 0]
  show ?thesis by (simp add: refresh_request_def sample_call_def app_of_def)
qed

text \<open>
  Failures that a new token cannot cure reach the caller unchanged: a status other
  than 401 (or no response at all), a second 401 after a replay, and any failure of the
  refresh endpoint are handed over as they are, and no other part of the state changes.
\<close>

theorem other_failures_pass_through:
  assumes "cfg_caller c = App n"
    and "map_option resp_status (ax_response e) \<noteq> Some 401 \<or> cfg_retry c \<or>
      (\<exists>u. cfg_url c = Some u \<and> js_includes u ''/auth/refresh'')"
  shows "on_error c e s = s\<lparr>settled := settled s @ [(n, Rejected (AxiosErr e))]\<rparr>"
  using assms by (auto simp: on_error_def not_refreshable_def reject_def settle_def)

theorem other_failures_pass_through_witness:
  "on_error (sample_call 1 ''/a'') (sample_401\<lparr>ax_response := None\<rparr>) sample_idle =
     sample_idle\<lparr>settled := [(1, Rejected (AxiosErr (sample_401\<lparr>ax_response := None\<rparr>)))]\<rparr>"
  using other_failures_pass_through [of "sample_call 1 ''/a''" 1 "sample_401\<lparr>ax_response := None\<rparr>" sample_idle]
  by (simp add: sample_call_def sample_idle_def)

text \<open>
  Without a refresh token a 401 does not bubble up: the caller receives the error
  \<open>No refresh token\<close> made by the handler in place of the backend's own, and the session is reset.
\<close>

lemma no_refresh_token:
  assumes "cfg_caller c = App n" "\<not> cfg_retry c" "\<forall>u. cfg_url c = Some u \<longrightarrow> \<not> js_includes u ''/auth/refresh''"
    and "map_option resp_status (ax_response e) = Some 401"
    and "\<not> isRefreshing s" "failedQueue s = []" "refreshToken (store s) = []" "refresher s = None"
  shows "on_error c e s =
    s\<lparr>store := reset (store s), settled := settled s @ [(n, Rejected (NativeErr (JStr ''No refresh token'')))]\<rparr>"
  using assms
  by (simp add: on_error_def not_refreshable_def begin_refresh_def refresh_failed_form app_of_def split: option.split)

text \<open>
  An empty access token in the refresh reply strands the queue: the queued calls are
  neither settled nor anywhere else in the client afterwards, so their promises stay pending.
\<close>

theorem empty_token_strands_queue:
  assumes "cfg_caller c = Refresher" "refresher s = Some c0" "woken s = []"
    and "tokens_of body = Some (Inr ([], r))" "distinct (calls s)"
  shows "\<exists>t. on_success c body s = Some t \<and> set (calls t) = set (calls s) - set (app_ids (failedQueue s))"
proof -
  have "on_success c body s = Some (refresh_done c0 [] r s)"
    using assms by (simp add: on_success_def)
  moreover have "calls (refresh_done c0 [] r s) = app_ids (inflight s) @ app_of c0 @ map fst (settled s)"
    using assms by (simp add: refresh_done_def processQueue_empty run_woken_def send_def calls_def pending_def)
  moreover have "calls s = app_ids (inflight s) @ app_ids (failedQueue s) @ app_of c0 @ map fst (settled s)"
    using assms by (simp add: calls_def pending_def)
  ultimately show ?thesis using assms(5) by auto
qed

theorem empty_token_strands_queue_witness:
  "\<exists>t. on_success (refresh_request ''rt'') (sample_tokens [] ''r'') (received 0 sample_queued) = Some t \<and>
     2 \<notin> set (calls t) \<and> 2 \<in> set (calls (received 0 sample_queued))"
proof -
  let ?s = "received 0 sample_queued"
  have d: "distinct (calls ?s)" by code_simp
  have "app_ids (failedQueue ?s) = [2]" "2 \<in> set (calls ?s)" by code_simp+
  moreover have "cfg_caller (refresh_request ''rt'') = Refresher" by (simp add: refresh_request_def)
  ultimately show ?thesis
    using empty_token_strands_queue [OF _ sample_queued_simps(1,2) sample_tokens_of d, of "refresh_request ''rt''" "''r''"]
    by auto
qed

text \<open>
  A logout while a refresh is on the wire is undone by its reply: although the store
  was reset, the reply's tokens are written back, so the session exists again.
\<close>

theorem logout_undone_by_refresh:
  assumes "cfg_caller c = Refresher" "refresher s = Some c0" "woken s = []"
    and "tokens_of body = Some (Inr (a, r))" "a \<noteq> []"
  shows "\<exists>t. on_success c body (s\<lparr>store := reset (store s)\<rparr>) = Some t
    \<and> accessToken (store t) = JStr a \<and> refreshToken (store t) = r \<and> user (store t) = None"
  using assms
  by (simp add: on_success_def refresh_done_form) (simp add: setRefreshToken_def setAccessToken_def reset_def)

theorem logout_undone_by_refresh_witness:
  "\<exists>t. on_success (refresh_request ''rt'') (sample_tokens ''a'' ''r'')
      (sample_queued\<lparr>inflight := [], store := reset sample_store\<rparr>) = Some t \<and> accessToken (store t) = JStr ''a''"
proof -
  let ?s = "received 0 sample_queued"
  have "?s\<lparr>store := reset (store ?s)\<rparr> = sample_queued\<lparr>inflight := [], store := reset sample_store\<rparr>" by code_simp
  with logout_undone_by_refresh [OF _ sample_queued_simps(1) [of 0] sample_queued_simps(2) [of 0] sample_tokens_of, of "refresh_request ''rt''" "''a''" "''r''"]
  show ?thesis by (auto simp: refresh_request_def)
qed

section \<open>The portal client\<close>

text \<open>
  The portal client has no refresh: its first 401 ends the session and replaces the page.
  \<open>navigations\<close> are the arguments of \<open>window.location.replace\<close>, in order.
\<close>

record portal_client =
  portal_store :: portal_state
  redirecting :: bool
  navigations :: "string list"

definition portal_request_interceptor :: "portal_state \<Rightarrow> config \<Rightarrow> config" where
  "portal_request_interceptor p c =
     (if customerToken p \<noteq> [] then c\<lparr>cfg_auth := Some (JStr (customerToken p))\<rparr> else c)"

text \<open>The response interceptor: the new state; the error is always passed on to the caller.\<close>

definition portal_on_error :: "axios_error \<Rightarrow> portal_client \<Rightarrow> portal_client \<times> thrown" where
  "portal_on_error e s =
     (if map_option resp_status (ax_response e) = Some 401 \<and> \<not> redirecting s
      then s\<lparr>redirecting := True, portal_store := portalReset (portal_store s),
             navigations := navigations s @ [''/portal/login'']\<rparr>
      else s, AxiosErr e)"

text \<open>
  The portal redirects once: whatever sequence of failures arrives while a page is
  loaded, the first 401 ends the session and goes to the portal's login page, and no later
  failure navigates again; failures other than 401 change nothing.
\<close>

theorem portal_redirects_once:
  assumes "\<not> redirecting s"
  shows "fold (\<lambda>e s. fst (portal_on_error e s)) es s =
   (if \<exists>e \<in> set es. map_option resp_status (ax_response e) = Some 401
    then s\<lparr>redirecting := True, portal_store := portalReset (portal_store s),
           navigations := navigations s @ [''/portal/login'']\<rparr>
    else s)"
proof -
  have stay: "fold (\<lambda>e s. fst (portal_on_error e s)) es s = s" if "redirecting s" for es s
    using that by (induction es) (simp_all add: portal_on_error_def)
  show ?thesis
    using assms
  proof (induction es)
    case (Cons e es)
    then show ?case
      by (cases "map_option resp_status (ax_response e) = Some 401")
        (simp_all add: portal_on_error_def [of e s] stay del: map_option_eq_Some)
  qed simp
qed

theorem portal_redirects_once_witness:
  "navigations (fold (\<lambda>e s. fst (portal_on_error e s)) [sample_401, sample_401]
     \<lparr>portal_store = createPortalStore [], redirecting = False, navigations = []\<rparr>) = [''/portal/login'']"
  using portal_redirects_once [of "\<lparr>portal_store = createPortalStore [], redirecting = False, navigations = []\<rparr>"
      "[sample_401, sample_401]"]
  by (simp add: sample_401_def)

end
