(* ===== verification/Sse_Client.thy ===== *)
theory Sse_Client
  imports Js_Json
begin

text \<open>
  The hook \<open>useSSE\<close> of \<^verbatim>\<open>web/src/lib/api/sse.ts\<close>: one server-sent-event connection with
  exponential reconnection. Every run of the effect has its own closure variables
  (\<open>cancelled\<close>, \<open>attempt\<close>, \<open>es\<close>, \<open>reconnectTimer\<close>), a record \<open>effect\<close>; the hook's React state and
  all closures made so far are the record \<open>sse\<close>. Events are the dependencies changing,
  unmounting, the callbacks of an \<open>EventSource\<close> and a timer; callbacks that were already
  queued when a closure was cancelled may still run.

  The theorems: never more than one connection or pending timer, nothing is delivered from
  a cancelled closure, and the exact sequence of reconnection delays.
\<close>

section \<open>State\<close>

datatype SSEStatus = Idle | Connecting | Open | Closed

text \<open>
  \<open>es\<close> is the open \<open>EventSource\<close> (its URL and the event names listened to); \<open>timer\<close> is the delay of the pending
  timer. The program never sets \<open>reconnectTimer\<close> back to null, but clearing a timer that has
  fired does nothing, so only the pending timer is kept.
\<close>

record effect =
  cancelled :: bool
  attempt :: nat
  es :: "(string \<times> string list) option"
  timer :: "nat option"
  ef_path :: string
  maxBackoffMs :: nat

record sse =
  sse_status :: SSEStatus
  sse_error :: "string option"
  effects :: "effect list"
  delivered :: "js list"

text \<open>
  What a closure reads from outside when it connects: the build-time variable
  \<open>VITE_API_URL\<close>, the option \<open>getToken\<close>, the access token of the store and the option \<open>events\<close>.
\<close>

record sse_env =
  VITE_API_URL :: "string option"
  getToken :: "string option"
  storeToken :: "string option"
  events :: "string list"

section \<open>Operations\<close>

text \<open>\<open>url.replace(/\/+$/, '')\<close>\<close>

definition strip_slashes :: "string \<Rightarrow> string" where
  "strip_slashes s = rev (dropWhile (\<lambda>c. c = CHR ''/'') (rev s))"

definition sse_base :: "sse_env \<Rightarrow> string" where
  "sse_base env = strip_slashes (or_else (VITE_API_URL env) ''http://localhost:8080'')"

definition sse_token :: "sse_env \<Rightarrow> string" where
  "sse_token env = or_else (getToken env) (or_else (storeToken env) [])"

definition sse_url :: "sse_env \<Rightarrow> string \<Rightarrow> string" where
  "sse_url env path =
     (let sep = (if js_includes path ''?'' then ''&'' else ''?'')
      in sse_base env @ ''/api/v1'' @ path @ sep @ ''access_token='' @ encodeURIComponent (sse_token env))"

definition upd_effect :: "nat \<Rightarrow> (effect \<Rightarrow> effect) \<Rightarrow> sse \<Rightarrow> sse" where
  "upd_effect i f s = s\<lparr>effects := (effects s)[i := f (effects s ! i)]\<rparr>"

definition connect :: "sse_env \<Rightarrow> nat \<Rightarrow> sse \<Rightarrow> sse" where
  "connect env i s =
     (let e = effects s ! i in
      if cancelled e then s
      else upd_effect i (\<lambda>e. e\<lparr>es := Some (sse_url env (ef_path e), ''message'' # events env)\<rparr>)
             (s\<lparr>sse_status := Connecting\<rparr>))"

definition onopen :: "nat \<Rightarrow> sse \<Rightarrow> sse" where
  "onopen i s =
     (if cancelled (effects s ! i) then s
      else upd_effect i (\<lambda>e. e\<lparr>attempt := 0\<rparr>) (s\<lparr>sse_status := Open, sse_error := None\<rparr>))"

definition handle_frame :: "nat \<Rightarrow> string \<Rightarrow> sse \<Rightarrow> sse" where
  "handle_frame i d s =
     (if cancelled (effects s ! i) then s
      else
        (case JSON_parse d of
           Some v \<Rightarrow> s\<lparr>delivered := delivered s @ [v]\<rparr>
         | None \<Rightarrow> s))"

definition backoff :: "nat \<Rightarrow> nat \<Rightarrow> nat" where
  "backoff limit n = min (1000 * 2 ^ n) limit"

definition onerror :: "nat \<Rightarrow> sse \<Rightarrow> sse" where
  "onerror i s =
     (if cancelled (effects s ! i) then s
      else upd_effect i
             (\<lambda>e. e\<lparr>es := None, timer := Some (backoff (maxBackoffMs e) (attempt e)), attempt := attempt e + 1\<rparr>)
             (s\<lparr>sse_status := Closed, sse_error := Some ''SSE connection lost''\<rparr>))"

text \<open>The clean-up function, and the effect itself for a new \<open>path\<close> (\<open>''\<close> and null park the connection).\<close>

definition cleanup :: "nat \<Rightarrow> sse \<Rightarrow> sse" where
  "cleanup i s = upd_effect i (\<lambda>e. e\<lparr>cancelled := True, timer := None, es := None\<rparr>) s"

definition run_effect :: "sse_env \<Rightarrow> string option \<Rightarrow> nat \<Rightarrow> sse \<Rightarrow> sse" where
  "run_effect env path maxMs s =
     (if or_else path [] = [] then s\<lparr>sse_status := Idle, sse_error := None\<rparr>
      else
        (let e = \<lparr>cancelled = False, attempt = 0, es = None, timer = None,
                  ef_path = the path, maxBackoffMs = maxMs\<rparr>
         in connect env (length (effects s)) (s\<lparr>effects := effects s @ [e]\<rparr>)))"

text \<open>React runs the clean-up of the previous run (if it made a closure) before the next run.\<close>

definition cleanup_last :: "sse \<Rightarrow> sse" where
  "cleanup_last s = (if effects s = [] then s else cleanup (length (effects s) - 1) s)"

definition deps_change :: "sse_env \<Rightarrow> string option \<Rightarrow> nat option \<Rightarrow> sse \<Rightarrow> sse" where
  "deps_change env path maxMs s = run_effect env path (or_else maxMs 30000) (cleanup_last s)"

definition timer_fires :: "sse_env \<Rightarrow> nat \<Rightarrow> sse \<Rightarrow> sse" where
  "timer_fires env i s = connect env i (upd_effect i (\<lambda>e. e\<lparr>timer := None\<rparr>) s)"

section \<open>Events\<close>

definition may_fire :: "nat \<Rightarrow> sse \<Rightarrow> bool" where
  "may_fire i s = (i < length (effects s) \<and> (es (effects s ! i) \<noteq> None \<or> cancelled (effects s ! i)))"

text \<open>A frame reaches the handler when its event name has a listener.\<close>

definition listens :: "nat \<Rightarrow> string \<Rightarrow> sse \<Rightarrow> bool" where
  "listens i name s =
     (case es (effects s ! i) of None \<Rightarrow> cancelled (effects s ! i) | Some (_, names) \<Rightarrow> name \<in> set names)"

inductive sse_step :: "sse \<Rightarrow> sse \<Rightarrow> bool" where
  deps: "sse_step s (deps_change env path maxMs s)"
| unmount: "sse_step s (cleanup_last s)"
| opens: "may_fire i s \<Longrightarrow> sse_step s (onopen i s)"
| frame: "may_fire i s \<Longrightarrow> listens i name s \<Longrightarrow> sse_step s (handle_frame i d s)"
| fails: "may_fire i s \<Longrightarrow> sse_step s (onerror i s)"
| fires: "i < length (effects s) \<Longrightarrow> timer (effects s ! i) \<noteq> None \<Longrightarrow> sse_step s (timer_fires env i s)"

definition sse_start :: "sse \<Rightarrow> bool" where
  "sse_start s = (sse_status s = Idle \<and> sse_error s = None \<and> effects s = [] \<and> delivered s = [])"

section \<open>One connection\<close>

definition effect_ok :: "effect \<Rightarrow> bool" where
  "effect_ok e =
     ((cancelled e \<longrightarrow> es e = None \<and> timer e = None) \<and>
      (\<not> cancelled e \<longrightarrow> (es e = None) \<noteq> (timer e = None)) \<and>
      (\<forall>d. timer e = Some d \<longrightarrow> 0 < attempt e \<and> d = backoff (maxBackoffMs e) (attempt e - 1)))"

definition live :: "effect list \<Rightarrow> effect list" where
  "live xs = filter (\<lambda>e. \<not> cancelled e) xs"

text \<open>What the status tells about the one live closure.\<close>

definition status_ok :: "sse \<Rightarrow> bool" where
  "status_ok s = (\<forall>e \<in> set (live (effects s)).
     (es e \<noteq> None \<longleftrightarrow> sse_status s \<in> {Connecting, Open}) \<and> (timer e \<noteq> None \<longleftrightarrow> sse_status s = Closed))"

definition sse_inv :: "sse \<Rightarrow> bool" where
  "sse_inv s = (list_all effect_ok (effects s) \<and> list_all cancelled (butlast (effects s)) \<and> status_ok s)"

lemma live_split:
  assumes "list_all cancelled (butlast xs)" "i < length xs" "\<not> cancelled (xs ! i)"
  obtains ys e where "xs = ys @ [e]" "i = length ys" "list_all cancelled ys" "\<not> cancelled e"
proof (cases xs rule: rev_cases)
  case (snoc ys e)
  have "\<not> i < length ys"
    using assms snoc by (metis butlast_snoc list_all_length nth_append)
  then have "i = length ys" using assms(2) snoc by simp
  with snoc assms that [of ys e] show ?thesis by simp
qed (use assms in simp)

lemma live_simps [simp]:
  "live [] = []" "live (xs @ ys) = live xs @ live ys" "live (e # xs) = (if cancelled e then live xs else e # live xs)"
  by (simp_all add: live_def)

lemma live_cancelled [simp]: "list_all cancelled xs \<Longrightarrow> live xs = []"
  by (induction xs) simp_all

lemmas handler_defs = connect_def onopen_def handle_frame_def onerror_def cleanup_def upd_effect_def timer_fires_def Let_def

text \<open>A handler does nothing to a cancelled closure.\<close>

lemma handler_cancelled:
  assumes "cancelled (effects s ! i)"
  shows "onopen i s = s" "handle_frame i d s = s" "onerror i s = s" "connect env i s = s"
  using assms by (simp_all add: handler_defs)

lemma cleanup_last_inv: "sse_inv s \<Longrightarrow> list_all effect_ok (effects (cleanup_last s)) \<and> list_all cancelled (effects (cleanup_last s))"
proof (cases "effects s" rule: rev_cases)
  case (snoc ys e)
  then show "sse_inv s \<Longrightarrow> ?thesis"
    by (simp add: sse_inv_def cleanup_last_def cleanup_def upd_effect_def list_update_append effect_ok_def)
qed (simp add: sse_inv_def cleanup_last_def)

lemma cancelled_inv: "list_all effect_ok (effects s) \<Longrightarrow> list_all cancelled (effects s) \<Longrightarrow> sse_inv s"
  by (simp add: sse_inv_def status_ok_def list_all_iff in_set_butlastD)

lemma run_effect_inv:
  assumes "list_all effect_ok (effects s)" "list_all cancelled (effects s)"
  shows "sse_inv (run_effect env path m s)"
proof (cases "or_else path [] = []")
  case True
  with assms show ?thesis by (simp add: run_effect_def cancelled_inv)
next
  case False
  with assms show ?thesis
    by (simp add: run_effect_def handler_defs sse_inv_def status_ok_def effect_ok_def list_update_append)
qed

text \<open>A handler run on the live closure, in a state of the shape the invariant gives.\<close>

lemma handler_inv:
  assumes inv: "sse_inv s" and i: "i < length (effects s)" and f: "\<not> cancelled (effects s ! i)"
  shows "es (effects s ! i) \<noteq> None \<Longrightarrow> sse_inv (onopen i s)"
    and "es (effects s ! i) \<noteq> None \<Longrightarrow> sse_inv (onerror i s)"
    and "sse_inv (handle_frame i d s)"
    and "timer (effects s ! i) \<noteq> None \<Longrightarrow> sse_inv (timer_fires env i s)"
proof -
  obtain ys e where s: "effects s = ys @ [e]" "i = length ys" "list_all cancelled ys" "\<not> cancelled e"
    using live_split inv i f unfolding sse_inv_def by metis
  note simps = sse_inv_def status_ok_def handler_defs list_update_append effect_ok_def
  show "es (effects s ! i) \<noteq> None \<Longrightarrow> sse_inv (onopen i s)" using inv s by (auto simp: simps)
  show "es (effects s ! i) \<noteq> None \<Longrightarrow> sse_inv (onerror i s)" using inv s by (simp add: simps)
  show "sse_inv (handle_frame i d s)" using inv s by (simp add: simps split: option.split)
  show "timer (effects s ! i) \<noteq> None \<Longrightarrow> sse_inv (timer_fires env i s)" using inv s by (simp add: simps)
qed

lemma sse_step_inv: "sse_step s t \<Longrightarrow> sse_inv s \<Longrightarrow> sse_inv t"
proof (induction rule: sse_step.induct)
  case (deps s env path maxMs)
  then show ?case unfolding deps_change_def using cleanup_last_inv run_effect_inv by blast
next
  case (unmount s)
  then show ?case using cleanup_last_inv cancelled_inv by blast
next
  case (opens i s)
  then show ?case using handler_inv(1) handler_cancelled(1) unfolding may_fire_def by metis
next
  case (frame i s name d)
  then show ?case using handler_inv(3) handler_cancelled(2) unfolding may_fire_def by metis
next
  case (fails i s)
  then show ?case using handler_inv(2) handler_cancelled(3) unfolding may_fire_def by metis
next
  case (fires i s env)
  then have "effect_ok (effects s ! i)" by (simp add: sse_inv_def list_all_length)
  then have "\<not> cancelled (effects s ! i)" using fires by (auto simp: effect_ok_def)
  then show ?case using handler_inv(4) fires by blast
qed

interpretation sse: inductive_invariant sse_start sse_step sse_inv
  by unfold_locales (simp add: sse_start_def cancelled_inv, rule sse_step_inv)

text \<open>
  C25. In every state the hook can reach there is at most one open connection or pending
  reconnection, never both, and a closure that was cleaned up holds neither.
\<close>

theorem sse_single_connection:
  assumes "sse_start s0" "sse_step\<^sup>*\<^sup>* s0 s"
  shows "length (filter (\<lambda>e. es e \<noteq> None \<or> timer e \<noteq> None) (effects s)) \<le> 1
    \<and> (\<forall>e \<in> set (effects s). cancelled e \<longrightarrow> es e = None \<and> timer e = None)
    \<and> (\<forall>e \<in> set (effects s). es e = None \<or> timer e = None)"
proof -
  have inv: "sse_inv s" using sse.inv_reachable assms by blast
  then have ok: "\<forall>e \<in> set (effects s). effect_ok e" by (simp add: sse_inv_def list_all_iff)
  have "length (filter (\<lambda>e. es e \<noteq> None \<or> timer e \<noteq> None) (effects s)) \<le> 1"
  proof (cases "effects s" rule: rev_cases)
    case (snoc ys e)
    with inv have "\<forall>e \<in> set ys. cancelled e" by (simp add: sse_inv_def list_all_iff)
    with ok snoc have "filter (\<lambda>e. es e \<noteq> None \<or> timer e \<noteq> None) ys = []"
      by (auto simp: filter_empty_conv effect_ok_def)
    with snoc show ?thesis by simp
  qed simp
  with ok show ?thesis by (auto simp: effect_ok_def)
qed

definition sample_env :: sse_env where
  "sample_env = \<lparr>VITE_API_URL = Some ''http://h/'', getToken = None, storeToken = Some ''a&b'', events = [''log'']\<rparr>"

definition sample_sse :: sse where
  "sample_sse = \<lparr>sse_status = Idle, sse_error = None, effects = [], delivered = []\<rparr>"

definition sample_connected :: sse where
  "sample_connected = deps_change sample_env (Some ''/logs'') (Some 5) sample_sse"

lemma sample_connected_run: "sse_start sample_sse \<and> sse_step\<^sup>*\<^sup>* sample_sse sample_connected"
  unfolding sample_connected_def
  by (rule conjI) (code_simp, rule r_into_rtranclp, rule sse_step.deps)

lemma sample_connected_es:
  "map es (effects sample_connected) = [Some (''http://h/api/v1/logs?access_token=a%26b'', [''message'', ''log''])]"
  by code_simp

theorem sse_single_connection_witness:
  "length (effects sample_connected) = 1 \<and>
   length (filter (\<lambda>e. es e \<noteq> None \<or> timer e \<noteq> None) (effects sample_connected)) \<le> 1"
proof -
  have "length (effects sample_connected) = 1" by code_simp
  with sse_single_connection [of sample_sse sample_connected] sample_connected_run show ?thesis by blast
qed

section \<open>Clean-up and reconnection\<close>

text \<open>
  C26. After the clean-up (unmount, or just before the next path is used) every callback still
  queued does nothing, for every closure ever made, and no timer is left to reconnect.
\<close>

theorem sse_silent_after_cleanup:
  assumes "sse_start s0" "sse_step\<^sup>*\<^sup>* s0 s" "i < length (effects s)"
  shows "onopen i (cleanup_last s) = cleanup_last s \<and> handle_frame i d (cleanup_last s) = cleanup_last s
    \<and> onerror i (cleanup_last s) = cleanup_last s \<and> connect env i (cleanup_last s) = cleanup_last s
    \<and> es (effects (cleanup_last s) ! i) = None \<and> timer (effects (cleanup_last s) ! i) = None"
proof -
  have "sse_inv s" using sse.inv_reachable assms by blast
  note inv = cleanup_last_inv [OF this]
  have "i < length (effects (cleanup_last s))"
    using assms(3) by (auto simp: cleanup_last_def cleanup_def upd_effect_def)
  with inv have "cancelled (effects (cleanup_last s) ! i)" "effect_ok (effects (cleanup_last s) ! i)"
    by (simp_all add: list_all_length)
  then show ?thesis by (simp add: handler_cancelled effect_ok_def)
qed

theorem sse_silent_after_cleanup_witness:
  "handle_frame 0 ''1'' (cleanup_last sample_connected) = cleanup_last sample_connected"
proof -
  have "0 < length (effects sample_connected)" by code_simp
  with sse_silent_after_cleanup sample_connected_run show ?thesis by blast
qed

text \<open>One round of failure and reconnection of the closure \<open>i\<close>.\<close>

definition failing_round :: "sse_env \<Rightarrow> nat \<Rightarrow> sse \<Rightarrow> sse" where
  "failing_round env i s = timer_fires env i (onerror i s)"

lemma failing_rounds:
  fixes env :: sse_env and n :: nat
  assumes "i < length (effects s)" "\<not> cancelled (effects s ! i)"
  defines "t \<equiv> (failing_round env i ^^ n) s"
  shows "length (effects t) = length (effects s) \<and> \<not> cancelled (effects t ! i)
    \<and> attempt (effects t ! i) = attempt (effects s ! i) + n \<and> maxBackoffMs (effects t ! i) = maxBackoffMs (effects s ! i)"
  unfolding t_def using assms(1,2) by (induction n) (simp_all add: failing_round_def handler_defs)

text \<open>
  C27. Reconnection backs off exponentially: after a connection that had opened, the delay of
  the (n+1)-st failure in a row is \<open>min(1000 * 2^n, maxBackoffMs)\<close> milliseconds, so it never
  exceeds the cap and never shrinks, and the hook reports the connection as closed meanwhile.
\<close>

theorem sse_backoff:
  assumes "i < length (effects s)" "\<not> cancelled (effects s ! i)"
  shows "let t = onerror i ((failing_round env i ^^ n) (onopen i s)) in
    timer (effects t ! i) = Some (min (1000 * 2 ^ n) (maxBackoffMs (effects s ! i)))
    \<and> es (effects t ! i) = None \<and> sse_status t = Closed \<and> sse_error t = Some ''SSE connection lost''
    \<and> (\<forall>m \<le> n. min (1000 * 2 ^ m) (maxBackoffMs (effects s ! i))
          \<le> min (1000 * 2 ^ n) (maxBackoffMs (effects s ! i)))"
proof -
  let ?o = "onopen i s"
  have o: "i < length (effects ?o)" "\<not> cancelled (effects ?o ! i)" "attempt (effects ?o ! i) = 0"
    "maxBackoffMs (effects ?o ! i) = maxBackoffMs (effects s ! i)"
    using assms by (simp_all add: handler_defs)
  have mono: "1000 * 2 ^ m \<le> (1000 * 2 ^ n :: nat)" if "m \<le> n" for m
    using that by (simp add: power_increasing)
  from failing_rounds [OF o(1,2), of n env] o assms mono show ?thesis
    by (simp add: handler_defs backoff_def min.coboundedI1)
qed

theorem sse_backoff_witness:
  "timer (effects (onerror 0 ((failing_round sample_env 0 ^^ 2) (onopen 0 sample_connected))) ! 0) = Some 5"
proof -
  have c: "0 < length (effects sample_connected)" "\<not> cancelled (effects sample_connected ! 0)"
    and m: "maxBackoffMs (effects sample_connected ! 0) = 5"
    by (simp_all add: sample_connected_def sample_sse_def deps_change_def run_effect_def cleanup_last_def handler_defs)
  have "timer (effects (onerror 0 ((failing_round sample_env 0 ^^ 2) (onopen 0 sample_connected))) ! 0)
      = Some (min (1000 * 2 ^ 2) (maxBackoffMs (effects sample_connected ! 0)))"
    using sse_backoff [OF c, of 2 sample_env] unfolding Let_def by blast
  also have "min (1000 * 2 ^ 2) (maxBackoffMs (effects sample_connected ! 0)) = (5 :: nat)"
    unfolding m by simp
  finally show ?thesis .
qed

end
