(* ===== verification/Query_Keys.thy ===== *)
theory Query_Keys
  imports Js_Json
begin

text \<open>
  The query keys of \<^verbatim>\<open>web/src/lib/api/query-keys.ts\<close>: every cached query of the front end is
  identified by one of these lists. Filter objects are the lists of their properties.

  The theorems: two queries share a key only if they are the same query up to the defaults the
  key functions fill in, and the prefix an invalidation uses covers the queries it is meant for.
\<close>

section \<open>Keys\<close>

type_synonym filters = "(string \<times> js) list"

datatype kpart = KS string | KN int | KO filters | KNull

type_synonym qkey = "kpart list"

definition qk_currentUser :: "qkey" where
  "qk_currentUser = [KS ''auth'', KS ''me'']"

definition qk_userStatus :: "string \<Rightarrow> string \<Rightarrow> qkey" where
  "qk_userStatus router_name mac = [KS ''status'', KS router_name, KS mac]"

definition qk_settings :: "qkey" where
  "qk_settings = [KS ''settings'']"

definition qk_settingsLogo :: "qkey" where
  "qk_settingsLogo = [KS ''settings'', KS ''logo'']"

definition qk_users :: "filters option \<Rightarrow> qkey" where
  "qk_users filters = [KS ''users'', KO (or_else filters [])]"

definition qk_user :: "string \<Rightarrow> qkey" where
  "qk_user ident = [KS ''users'', KS ident]"

definition qk_routers :: "qkey" where
  "qk_routers = [KS ''routers'']"

definition qk_router :: "int \<Rightarrow> qkey" where
  "qk_router rid = [KS ''routers'', KN rid]"

definition qk_hotspotUsers :: "int \<Rightarrow> filters option \<Rightarrow> qkey" where
  "qk_hotspotUsers rid filters = [KS ''hotspot'', KS ''users'', KN rid, KO (or_else filters [])]"

definition qk_hotspotUser :: "int \<Rightarrow> string \<Rightarrow> qkey" where
  "qk_hotspotUser rid uid = [KS ''hotspot'', KS ''users'', KN rid, KS uid]"

definition qk_hotspotUserCount :: "int \<Rightarrow> string option \<Rightarrow> qkey" where
  "qk_hotspotUserCount rid profile = [KS ''hotspot'', KS ''users'', KS ''count'', KN rid, (case profile of None \<Rightarrow> KNull | Some v \<Rightarrow> KS v)]"

definition qk_hotspotProfiles :: "int \<Rightarrow> qkey" where
  "qk_hotspotProfiles rid = [KS ''hotspot'', KS ''profiles'', KN rid]"

definition qk_hotspotProfile :: "int \<Rightarrow> string \<Rightarrow> qkey" where
  "qk_hotspotProfile rid pid = [KS ''hotspot'', KS ''profiles'', KN rid, KS pid]"

definition qk_hotspotActive :: "int \<Rightarrow> qkey" where
  "qk_hotspotActive rid = [KS ''hotspot'', KS ''active'', KN rid]"

definition qk_hotspotInactive :: "int \<Rightarrow> qkey" where
  "qk_hotspotInactive rid = [KS ''hotspot'', KS ''inactive'', KN rid]"

definition qk_hotspotInactiveCount :: "int \<Rightarrow> qkey" where
  "qk_hotspotInactiveCount rid = [KS ''hotspot'', KS ''inactive'', KS ''count'', KN rid]"

definition qk_hotspotHosts :: "int \<Rightarrow> qkey" where
  "qk_hotspotHosts rid = [KS ''hotspot'', KS ''hosts'', KN rid]"

definition qk_hotspotServers :: "int \<Rightarrow> qkey" where
  "qk_hotspotServers rid = [KS ''hotspot'', KS ''servers'', KN rid]"

definition qk_hotspotCookies :: "int \<Rightarrow> qkey" where
  "qk_hotspotCookies rid = [KS ''hotspot'', KS ''cookies'', KN rid]"

definition qk_hotspotBindings :: "int \<Rightarrow> qkey" where
  "qk_hotspotBindings rid = [KS ''hotspot'', KS ''bindings'', KN rid]"

definition qk_pppSecrets :: "int \<Rightarrow> qkey" where
  "qk_pppSecrets rid = [KS ''ppp'', KS ''secrets'', KN rid]"

definition qk_pppActive :: "int \<Rightarrow> qkey" where
  "qk_pppActive rid = [KS ''ppp'', KS ''active'', KN rid]"

definition qk_pppInactive :: "int \<Rightarrow> qkey" where
  "qk_pppInactive rid = [KS ''ppp'', KS ''inactive'', KN rid]"

definition qk_pppInactiveCount :: "int \<Rightarrow> qkey" where
  "qk_pppInactiveCount rid = [KS ''ppp'', KS ''inactive'', KS ''count'', KN rid]"

definition qk_pppProfiles :: "int \<Rightarrow> qkey" where
  "qk_pppProfiles rid = [KS ''ppp'', KS ''profiles'', KN rid]"

definition qk_networkInterfaces :: "int \<Rightarrow> qkey" where
  "qk_networkInterfaces rid = [KS ''network'', KS ''interfaces'', KN rid]"

definition qk_interfaceTraffic :: "int \<Rightarrow> string \<Rightarrow> qkey" where
  "qk_interfaceTraffic rid iface = [KS ''network'', KS ''traffic'', KN rid, KS iface]"

definition qk_networkPools :: "int \<Rightarrow> qkey" where
  "qk_networkPools rid = [KS ''network'', KS ''pools'', KN rid]"

definition qk_networkQueues :: "int \<Rightarrow> qkey" where
  "qk_networkQueues rid = [KS ''network'', KS ''queues'', KN rid]"

definition qk_natRules :: "int \<Rightarrow> qkey" where
  "qk_natRules rid = [KS ''network'', KS ''nat'', KN rid]"

definition qk_dhcpLeases :: "int \<Rightarrow> qkey" where
  "qk_dhcpLeases rid = [KS ''network'', KS ''dhcp'', KS ''leases'', KN rid]"

definition qk_systemResource :: "int \<Rightarrow> qkey" where
  "qk_systemResource rid = [KS ''system'', KS ''resource'', KN rid]"

definition qk_systemResourceHistory :: "int \<Rightarrow> qkey" where
  "qk_systemResourceHistory rid = [KS ''system'', KS ''resource'', KS ''history'', KN rid]"

definition qk_systemLog :: "int \<Rightarrow> qkey" where
  "qk_systemLog rid = [KS ''system'', KS ''log'', KN rid]"

definition qk_systemClock :: "int \<Rightarrow> qkey" where
  "qk_systemClock rid = [KS ''system'', KS ''clock'', KN rid]"

definition qk_systemIdentity :: "int \<Rightarrow> qkey" where
  "qk_systemIdentity rid = [KS ''system'', KS ''identity'', KN rid]"

definition qk_routerboard :: "int \<Rightarrow> qkey" where
  "qk_routerboard rid = [KS ''system'', KS ''routerboard'', KN rid]"

definition qk_expireMonitor :: "int \<Rightarrow> qkey" where
  "qk_expireMonitor rid = [KS ''system'', KS ''expire-monitor'', KN rid]"

definition qk_schedulers :: "int \<Rightarrow> qkey" where
  "qk_schedulers rid = [KS ''system'', KS ''schedulers'', KN rid]"

definition qk_scripts :: "int \<Rightarrow> qkey" where
  "qk_scripts rid = [KS ''system'', KS ''scripts'', KN rid]"

definition qk_systemDashboard :: "int \<Rightarrow> qkey" where
  "qk_systemDashboard rid = [KS ''system'', KS ''dashboard'', KN rid]"

definition qk_adminUsers :: "qkey" where
  "qk_adminUsers = [KS ''admin'', KS ''users'']"

definition qk_adminUser :: "int \<Rightarrow> qkey" where
  "qk_adminUser ident = [KS ''admin'', KS ''users'', KN ident]"

definition qk_voucherPrintData :: "int \<Rightarrow> string \<Rightarrow> qkey" where
  "qk_voucherPrintData rid gencode = [KS ''voucher'', KS ''print-data'', KN rid, KS gencode]"

definition qk_voucherSession :: "int \<Rightarrow> string \<Rightarrow> qkey" where
  "qk_voucherSession rid gencode = [KS ''voucher'', KS ''session'', KN rid, KS gencode]"

definition qk_salesList :: "int \<Rightarrow> filters option \<Rightarrow> qkey" where
  "qk_salesList rid params = [KS ''voucher'', KS ''sales'', KN rid, KO (or_else params [])]"

definition qk_templates :: "filters option \<Rightarrow> qkey" where
  "qk_templates filters = [KS ''templates'', KO (or_else filters [])]"

definition qk_template :: "string \<Rightarrow> qkey" where
  "qk_template ident = [KS ''templates'', KS ident]"

definition qk_reportDaily :: "int \<Rightarrow> string \<Rightarrow> filters option \<Rightarrow> qkey" where
  "qk_reportDaily rid date filters = [KS ''report'', KS ''daily'', KN rid, KS date, KO (or_else filters [])]"

definition qk_reportMonthly :: "int \<Rightarrow> int \<Rightarrow> int \<Rightarrow> qkey" where
  "qk_reportMonthly rid year month = [KS ''report'', KS ''monthly'', KN rid, KN year, KN month]"

definition qk_reportResume :: "int \<Rightarrow> int \<Rightarrow> qkey" where
  "qk_reportResume rid year = [KS ''report'', KS ''resume'', KN rid, KN year]"

definition qk_reportSummary :: "int \<Rightarrow> qkey" where
  "qk_reportSummary rid = [KS ''report'', KS ''summary'', KN rid]"

definition qk_interfaceHistory :: "int \<Rightarrow> string \<Rightarrow> qkey" where
  "qk_interfaceHistory rid rng = [KS ''history'', KS ''interfaces'', KN rid, KS rng]"

definition qk_queueHistory :: "int \<Rightarrow> string \<Rightarrow> qkey" where
  "qk_queueHistory rid rng = [KS ''history'', KS ''queues'', KN rid, KS rng]"

definition qk_quickPrintPackages :: "int \<Rightarrow> qkey" where
  "qk_quickPrintPackages rid = [KS ''quick-print'', KS ''packages'', KN rid]"

definition qk_quickPrintPackage :: "int \<Rightarrow> string \<Rightarrow> qkey" where
  "qk_quickPrintPackage rid name = [KS ''quick-print'', KS ''packages'', KN rid, KS name]"

definition qk_hotspotProfilesDB :: "int \<Rightarrow> filters option \<Rightarrow> qkey" where
  "qk_hotspotProfilesDB rid filters = [KS ''hotspot'', KS ''profiles-db'', KN rid, KO (or_else filters [])]"

definition qk_hotspotProfileDB :: "int \<Rightarrow> int \<Rightarrow> qkey" where
  "qk_hotspotProfileDB rid ident = [KS ''hotspot'', KS ''profiles-db'', KN rid, KN ident]"

definition qk_profileConfigs :: "int \<Rightarrow> qkey" where
  "qk_profileConfigs rid = [KS ''hotspot'', KS ''profile-configs'', KN rid]"

definition qk_profileConfig :: "int \<Rightarrow> string \<Rightarrow> qkey" where
  "qk_profileConfig rid name = [KS ''hotspot'', KS ''profile-configs'', KN rid, KS name]"

definition qk_pppProfile :: "int \<Rightarrow> string \<Rightarrow> qkey" where
  "qk_pppProfile rid pid = [KS ''ppp'', KS ''profiles'', KN rid, KS pid]"

definition qk_pppProfilesDB :: "int \<Rightarrow> qkey" where
  "qk_pppProfilesDB rid = [KS ''ppp'', KS ''profiles-db'', KN rid]"

definition qk_pppProfileDB :: "int \<Rightarrow> int \<Rightarrow> qkey" where
  "qk_pppProfileDB rid ident = [KS ''ppp'', KS ''profiles-db'', KN rid, KN ident]"

definition qk_networkArp :: "int \<Rightarrow> string option \<Rightarrow> qkey" where
  "qk_networkArp rid mac = [KS ''network'', KS ''arp'', KN rid, (case mac of None \<Rightarrow> KNull | Some v \<Rightarrow> KS v)]"

definition qk_poolByName :: "int \<Rightarrow> string \<Rightarrow> qkey" where
  "qk_poolByName rid name = [KS ''network'', KS ''pools'', KN rid, KS name]"

definition qk_systemLicense :: "int \<Rightarrow> qkey" where
  "qk_systemLicense rid = [KS ''system'', KS ''license'', KN rid]"

definition qk_customers :: "filters option \<Rightarrow> qkey" where
  "qk_customers filters = [KS ''customers'', KO (or_else filters [])]"

definition qk_customer :: "int \<Rightarrow> qkey" where
  "qk_customer ident = [KS ''customers'', KN ident]"

definition qk_subscriptions :: "filters option \<Rightarrow> qkey" where
  "qk_subscriptions filters = [KS ''subscriptions'', KO (or_else filters [])]"

definition qk_subscription :: "int \<Rightarrow> qkey" where
  "qk_subscription ident = [KS ''subscriptions'', KN ident]"

definition qk_subscriptionsByDevice :: "int \<Rightarrow> qkey" where
  "qk_subscriptionsByDevice deviceId = [KS ''subscriptions'', KS ''device'', KN deviceId]"

definition qk_reportSelling :: "int \<Rightarrow> filters option \<Rightarrow> qkey" where
  "qk_reportSelling rid filters = [KS ''report'', KS ''selling'', KN rid, KO (or_else filters [])]"

definition qk_reportSellingToday :: "int \<Rightarrow> qkey" where
  "qk_reportSellingToday rid = [KS ''report'', KS ''selling'', KS ''today'', KN rid]"

definition qk_reportSellingSummary :: "int \<Rightarrow> filters option \<Rightarrow> qkey" where
  "qk_reportSellingSummary rid filters = [KS ''report'', KS ''selling'', KS ''summary'', KN rid, KO (or_else filters [])]"

definition qk_messageTemplates :: "qkey" where
  "qk_messageTemplates = [KS ''message-templates'']"

definition qk_messageTemplate :: "string \<Rightarrow> qkey" where
  "qk_messageTemplate slug = [KS ''message-templates'', KS slug]"

definition qk_auditLogs :: "filters option \<Rightarrow> qkey" where
  "qk_auditLogs filters = [KS ''audit-logs'', KO (or_else filters [])]"

definition qk_notificationsLog :: "filters option \<Rightarrow> qkey" where
  "qk_notificationsLog filters = [KS ''notifications'', KO (or_else filters [])]"

definition qk_whatsappStatus :: "qkey" where
  "qk_whatsappStatus = [KS ''whatsapp'', KS ''status'']"

definition qk_whatsappQR :: "qkey" where
  "qk_whatsappQR = [KS ''whatsapp'', KS ''qr'']"

definition qk_whatsappContacts :: "qkey" where
  "qk_whatsappContacts = [KS ''whatsapp'', KS ''contacts'']"

definition qk_whatsappGroups :: "qkey" where
  "qk_whatsappGroups = [KS ''whatsapp'', KS ''groups'']"

definition qk_notifEvents :: "qkey" where
  "qk_notifEvents = [KS ''notification-events'']"

definition qk_registrations :: "filters option \<Rightarrow> qkey" where
  "qk_registrations filters = [KS ''registrations'', KO (or_else filters [])]"

definition qk_registration :: "int \<Rightarrow> qkey" where
  "qk_registration ident = [KS ''registrations'', KN ident]"

definition qk_publicPackages :: "string option \<Rightarrow> qkey" where
  "qk_publicPackages serviceType = [KS ''public-packages'', KS (or_else serviceType ''all'')]"

definition qk_invoices :: "filters option \<Rightarrow> qkey" where
  "qk_invoices filters = [KS ''invoices'', KO (or_else filters [])]"

definition qk_invoice :: "int \<Rightarrow> qkey" where
  "qk_invoice ident = [KS ''invoices'', KN ident]"

definition qk_invoicePayments :: "int \<Rightarrow> qkey" where
  "qk_invoicePayments invoiceId = [KS ''invoices'', KN invoiceId, KS ''payments'']"

definition qk_payments :: "filters option \<Rightarrow> qkey" where
  "qk_payments filters = [KS ''payments'', KO (or_else filters [])]"

definition qk_payment :: "int \<Rightarrow> qkey" where
  "qk_payment ident = [KS ''payments'', KN ident]"

definition qk_portalMe :: "qkey" where
  "qk_portalMe = [KS ''portal'', KS ''me'']"

definition qk_portalSubscriptions :: "qkey" where
  "qk_portalSubscriptions = [KS ''portal'', KS ''subscriptions'']"

definition qk_portalSubscription :: "int \<Rightarrow> qkey" where
  "qk_portalSubscription ident = [KS ''portal'', KS ''subscriptions'', KN ident]"

definition qk_portalInvoices :: "filters option \<Rightarrow> qkey" where
  "qk_portalInvoices filters = [KS ''portal'', KS ''invoices'', KO (or_else filters [])]"

definition qk_portalInvoice :: "int \<Rightarrow> qkey" where
  "qk_portalInvoice ident = [KS ''portal'', KS ''invoices'', KN ident]"

definition qk_portalPayments :: "qkey" where
  "qk_portalPayments = [KS ''portal'', KS ''payments'']"

lemmas qk_defs = qk_currentUser_def qk_userStatus_def qk_settings_def qk_settingsLogo_def qk_users_def qk_user_def qk_routers_def qk_router_def qk_hotspotUsers_def qk_hotspotUser_def qk_hotspotUserCount_def qk_hotspotProfiles_def qk_hotspotProfile_def qk_hotspotActive_def qk_hotspotInactive_def qk_hotspotInactiveCount_def qk_hotspotHosts_def qk_hotspotServers_def qk_hotspotCookies_def qk_hotspotBindings_def qk_pppSecrets_def qk_pppActive_def qk_pppInactive_def qk_pppInactiveCount_def qk_pppProfiles_def qk_networkInterfaces_def qk_interfaceTraffic_def qk_networkPools_def qk_networkQueues_def qk_natRules_def qk_dhcpLeases_def qk_systemResource_def qk_systemResourceHistory_def qk_systemLog_def qk_systemClock_def qk_systemIdentity_def qk_routerboard_def qk_expireMonitor_def qk_schedulers_def qk_scripts_def qk_systemDashboard_def qk_adminUsers_def qk_adminUser_def qk_voucherPrintData_def qk_voucherSession_def qk_salesList_def qk_templates_def qk_template_def qk_reportDaily_def qk_reportMonthly_def qk_reportResume_def qk_reportSummary_def qk_interfaceHistory_def qk_queueHistory_def qk_quickPrintPackages_def qk_quickPrintPackage_def qk_hotspotProfilesDB_def qk_hotspotProfileDB_def qk_profileConfigs_def qk_profileConfig_def qk_pppProfile_def qk_pppProfilesDB_def qk_pppProfileDB_def qk_networkArp_def qk_poolByName_def qk_systemLicense_def qk_customers_def qk_customer_def qk_subscriptions_def qk_subscription_def qk_subscriptionsByDevice_def qk_reportSelling_def qk_reportSellingToday_def qk_reportSellingSummary_def qk_messageTemplates_def qk_messageTemplate_def qk_auditLogs_def qk_notificationsLog_def qk_whatsappStatus_def qk_whatsappQR_def qk_whatsappContacts_def qk_whatsappGroups_def qk_notifEvents_def qk_registrations_def qk_registration_def qk_publicPackages_def qk_invoices_def qk_invoice_def qk_invoicePayments_def qk_payments_def qk_payment_def qk_portalMe_def qk_portalSubscriptions_def qk_portalSubscription_def qk_portalInvoices_def qk_portalInvoice_def qk_portalPayments_def

section \<open>Distinct queries have distinct keys\<close>

text \<open>
  \<open>query f xs k\<close>: the function \<open>qk.f\<close> gives the key \<open>k\<close>, its arguments being \<open>xs\<close> with the
  defaults written out (no filters are empty filters, no service type is \<open>all\<close>).
\<close>

inductive query :: "string \<Rightarrow> kpart list \<Rightarrow> qkey \<Rightarrow> bool" where
  "query ''currentUser'' [] (qk_currentUser)"
| "query ''userStatus'' [KS router_name, KS mac] (qk_userStatus router_name mac)"
| "query ''settings'' [] (qk_settings)"
| "query ''settingsLogo'' [] (qk_settingsLogo)"
| "query ''users'' [KO (or_else filters [])] (qk_users filters)"
| "query ''user'' [KS ident] (qk_user ident)"
| "query ''routers'' [] (qk_routers)"
| "query ''router'' [KN rid] (qk_router rid)"
| "query ''hotspotUsers'' [KN rid, KO (or_else filters [])] (qk_hotspotUsers rid filters)"
| "query ''hotspotUser'' [KN rid, KS uid] (qk_hotspotUser rid uid)"
| "query ''hotspotUserCount'' [KN rid, (case profile of None \<Rightarrow> KNull | Some v \<Rightarrow> KS v)] (qk_hotspotUserCount rid profile)"
| "query ''hotspotProfiles'' [KN rid] (qk_hotspotProfiles rid)"
| "query ''hotspotProfile'' [KN rid, KS pid] (qk_hotspotProfile rid pid)"
| "query ''hotspotActive'' [KN rid] (qk_hotspotActive rid)"
| "query ''hotspotInactive'' [KN rid] (qk_hotspotInactive rid)"
| "query ''hotspotInactiveCount'' [KN rid] (qk_hotspotInactiveCount rid)"
| "query ''hotspotHosts'' [KN rid] (qk_hotspotHosts rid)"
| "query ''hotspotServers'' [KN rid] (qk_hotspotServers rid)"
| "query ''hotspotCookies'' [KN rid] (qk_hotspotCookies rid)"
| "query ''hotspotBindings'' [KN rid] (qk_hotspotBindings rid)"
| "query ''pppSecrets'' [KN rid] (qk_pppSecrets rid)"
| "query ''pppActive'' [KN rid] (qk_pppActive rid)"
| "query ''pppInactive'' [KN rid] (qk_pppInactive rid)"
| "query ''pppInactiveCount'' [KN rid] (qk_pppInactiveCount rid)"
| "query ''pppProfiles'' [KN rid] (qk_pppProfiles rid)"
| "query ''networkInterfaces'' [KN rid] (qk_networkInterfaces rid)"
| "query ''interfaceTraffic'' [KN rid, KS iface] (qk_interfaceTraffic rid iface)"
| "query ''networkPools'' [KN rid] (qk_networkPools rid)"
| "query ''networkQueues'' [KN rid] (qk_networkQueues rid)"
| "query ''natRules'' [KN rid] (qk_natRules rid)"
| "query ''dhcpLeases'' [KN rid] (qk_dhcpLeases rid)"
| "query ''systemResource'' [KN rid] (qk_systemResource rid)"
| "query ''systemResourceHistory'' [KN rid] (qk_systemResourceHistory rid)"
| "query ''systemLog'' [KN rid] (qk_systemLog rid)"
| "query ''systemClock'' [KN rid] (qk_systemClock rid)"
| "query ''systemIdentity'' [KN rid] (qk_systemIdentity rid)"
| "query ''routerboard'' [KN rid] (qk_routerboard rid)"
| "query ''expireMonitor'' [KN rid] (qk_expireMonitor rid)"
| "query ''schedulers'' [KN rid] (qk_schedulers rid)"
| "query ''scripts'' [KN rid] (qk_scripts rid)"
| "query ''systemDashboard'' [KN rid] (qk_systemDashboard rid)"
| "query ''adminUsers'' [] (qk_adminUsers)"
| "query ''adminUser'' [KN ident] (qk_adminUser ident)"
| "query ''voucherPrintData'' [KN rid, KS gencode] (qk_voucherPrintData rid gencode)"
| "query ''voucherSession'' [KN rid, KS gencode] (qk_voucherSession rid gencode)"
| "query ''salesList'' [KN rid, KO (or_else params [])] (qk_salesList rid params)"
| "query ''templates'' [KO (or_else filters [])] (qk_templates filters)"
| "query ''template'' [KS ident] (qk_template ident)"
| "query ''reportDaily'' [KN rid, KS date, KO (or_else filters [])] (qk_reportDaily rid date filters)"
| "query ''reportMonthly'' [KN rid, KN year, KN month] (qk_reportMonthly rid year month)"
| "query ''reportResume'' [KN rid, KN year] (qk_reportResume rid year)"
| "query ''reportSummary'' [KN rid] (qk_reportSummary rid)"
| "query ''interfaceHistory'' [KN rid, KS rng] (qk_interfaceHistory rid rng)"
| "query ''queueHistory'' [KN rid, KS rng] (qk_queueHistory rid rng)"
| "query ''quickPrintPackages'' [KN rid] (qk_quickPrintPackages rid)"
| "query ''quickPrintPackage'' [KN rid, KS name] (qk_quickPrintPackage rid name)"
| "query ''hotspotProfilesDB'' [KN rid, KO (or_else filters [])] (qk_hotspotProfilesDB rid filters)"
| "query ''hotspotProfileDB'' [KN rid, KN ident] (qk_hotspotProfileDB rid ident)"
| "query ''profileConfigs'' [KN rid] (qk_profileConfigs rid)"
| "query ''profileConfig'' [KN rid, KS name] (qk_profileConfig rid name)"
| "query ''pppProfile'' [KN rid, KS pid] (qk_pppProfile rid pid)"
| "query ''pppProfilesDB'' [KN rid] (qk_pppProfilesDB rid)"
| "query ''pppProfileDB'' [KN rid, KN ident] (qk_pppProfileDB rid ident)"
| "query ''networkArp'' [KN rid, (case mac of None \<Rightarrow> KNull | Some v \<Rightarrow> KS v)] (qk_networkArp rid mac)"
| "query ''poolByName'' [KN rid, KS name] (qk_poolByName rid name)"
| "query ''systemLicense'' [KN rid] (qk_systemLicense rid)"
| "query ''customers'' [KO (or_else filters [])] (qk_customers filters)"
| "query ''customer'' [KN ident] (qk_customer ident)"
| "query ''subscriptions'' [KO (or_else filters [])] (qk_subscriptions filters)"
| "query ''subscription'' [KN ident] (qk_subscription ident)"
| "query ''subscriptionsByDevice'' [KN deviceId] (qk_subscriptionsByDevice deviceId)"
| "query ''reportSelling'' [KN rid, KO (or_else filters [])] (qk_reportSelling rid filters)"
| "query ''reportSellingToday'' [KN rid] (qk_reportSellingToday rid)"
| "query ''reportSellingSummary'' [KN rid, KO (or_else filters [])] (qk_reportSellingSummary rid filters)"
| "query ''messageTemplates'' [] (qk_messageTemplates)"
| "query ''messageTemplate'' [KS slug] (qk_messageTemplate slug)"
| "query ''auditLogs'' [KO (or_else filters [])] (qk_auditLogs filters)"
| "query ''notificationsLog'' [KO (or_else filters [])] (qk_notificationsLog filters)"
| "query ''whatsappStatus'' [] (qk_whatsappStatus)"
| "query ''whatsappQR'' [] (qk_whatsappQR)"
| "query ''whatsappContacts'' [] (qk_whatsappContacts)"
| "query ''whatsappGroups'' [] (qk_whatsappGroups)"
| "query ''notifEvents'' [] (qk_notifEvents)"
| "query ''registrations'' [KO (or_else filters [])] (qk_registrations filters)"
| "query ''registration'' [KN ident] (qk_registration ident)"
| "query ''publicPackages'' [KS (or_else serviceType ''all'')] (qk_publicPackages serviceType)"
| "query ''invoices'' [KO (or_else filters [])] (qk_invoices filters)"
| "query ''invoice'' [KN ident] (qk_invoice ident)"
| "query ''invoicePayments'' [KN invoiceId] (qk_invoicePayments invoiceId)"
| "query ''payments'' [KO (or_else filters [])] (qk_payments filters)"
| "query ''payment'' [KN ident] (qk_payment ident)"
| "query ''portalMe'' [] (qk_portalMe)"
| "query ''portalSubscriptions'' [] (qk_portalSubscriptions)"
| "query ''portalSubscription'' [KN ident] (qk_portalSubscription ident)"
| "query ''portalInvoices'' [KO (or_else filters [])] (qk_portalInvoices filters)"
| "query ''portalInvoice'' [KN ident] (qk_portalInvoice ident)"
| "query ''portalPayments'' [] (qk_portalPayments)"

text \<open>Reading a key back: literals are compared, the longest list of literals first.\<close>

definition query_of :: "qkey \<Rightarrow> (string \<times> kpart list) option" where
  "query_of k =
     (case k of
        [KS a0, KS a1] \<Rightarrow>
        if a0 = ''auth'' \<and> a1 = ''me'' then Some (''currentUser'', []) else
        if a0 = ''settings'' \<and> a1 = ''logo'' then Some (''settingsLogo'', []) else
        if a0 = ''admin'' \<and> a1 = ''users'' then Some (''adminUsers'', []) else
        if a0 = ''whatsapp'' \<and> a1 = ''status'' then Some (''whatsappStatus'', []) else
        if a0 = ''whatsapp'' \<and> a1 = ''qr'' then Some (''whatsappQR'', []) else
        if a0 = ''whatsapp'' \<and> a1 = ''contacts'' then Some (''whatsappContacts'', []) else
        if a0 = ''whatsapp'' \<and> a1 = ''groups'' then Some (''whatsappGroups'', []) else
        if a0 = ''portal'' \<and> a1 = ''me'' then Some (''portalMe'', []) else
        if a0 = ''portal'' \<and> a1 = ''subscriptions'' then Some (''portalSubscriptions'', []) else
        if a0 = ''portal'' \<and> a1 = ''payments'' then Some (''portalPayments'', []) else
        if a0 = ''users'' then Some (''user'', [KS a1]) else
        if a0 = ''templates'' then Some (''template'', [KS a1]) else
        if a0 = ''message-templates'' then Some (''messageTemplate'', [KS a1]) else
        if a0 = ''public-packages'' then Some (''publicPackages'', [KS a1]) else None
      | [KS a0, KS a1, KS a2] \<Rightarrow>
        if a0 = ''status'' then Some (''userStatus'', [KS a1, KS a2]) else None
      | [KS a0] \<Rightarrow>
        if a0 = ''settings'' then Some (''settings'', []) else
        if a0 = ''routers'' then Some (''routers'', []) else
        if a0 = ''message-templates'' then Some (''messageTemplates'', []) else
        if a0 = ''notification-events'' then Some (''notifEvents'', []) else None
      | [KS a0, KO a1] \<Rightarrow>
        if a0 = ''users'' then Some (''users'', [KO a1]) else
        if a0 = ''templates'' then Some (''templates'', [KO a1]) else
        if a0 = ''customers'' then Some (''customers'', [KO a1]) else
        if a0 = ''subscriptions'' then Some (''subscriptions'', [KO a1]) else
        if a0 = ''audit-logs'' then Some (''auditLogs'', [KO a1]) else
        if a0 = ''notifications'' then Some (''notificationsLog'', [KO a1]) else
        if a0 = ''registrations'' then Some (''registrations'', [KO a1]) else
        if a0 = ''invoices'' then Some (''invoices'', [KO a1]) else
        if a0 = ''payments'' then Some (''payments'', [KO a1]) else None
      | [KS a0, KN a1] \<Rightarrow>
        if a0 = ''routers'' then Some (''router'', [KN a1]) else
        if a0 = ''customers'' then Some (''customer'', [KN a1]) else
        if a0 = ''subscriptions'' then Some (''subscription'', [KN a1]) else
        if a0 = ''registrations'' then Some (''registration'', [KN a1]) else
        if a0 = ''invoices'' then Some (''invoice'', [KN a1]) else
        if a0 = ''payments'' then Some (''payment'', [KN a1]) else None
      | [KS a0, KS a1, KN a2, KO a3] \<Rightarrow>
        if a0 = ''hotspot'' \<and> a1 = ''users'' then Some (''hotspotUsers'', [KN a2, KO a3]) else
        if a0 = ''voucher'' \<and> a1 = ''sales'' then Some (''salesList'', [KN a2, KO a3]) else
        if a0 = ''hotspot'' \<and> a1 = ''profiles-db'' then Some (''hotspotProfilesDB'', [KN a2, KO a3]) else
        if a0 = ''report'' \<and> a1 = ''selling'' then Some (''reportSelling'', [KN a2, KO a3]) else None
      | [KS a0, KS a1, KN a2, KS a3] \<Rightarrow>
        if a0 = ''hotspot'' \<and> a1 = ''users'' then Some (''hotspotUser'', [KN a2, KS a3]) else
        if a0 = ''hotspot'' \<and> a1 = ''profiles'' then Some (''hotspotProfile'', [KN a2, KS a3]) else
        if a0 = ''network'' \<and> a1 = ''traffic'' then Some (''interfaceTraffic'', [KN a2, KS a3]) else
        if a0 = ''voucher'' \<and> a1 = ''print-data'' then Some (''voucherPrintData'', [KN a2, KS a3]) else
        if a0 = ''voucher'' \<and> a1 = ''session'' then Some (''voucherSession'', [KN a2, KS a3]) else
        if a0 = ''history'' \<and> a1 = ''interfaces'' then Some (''interfaceHistory'', [KN a2, KS a3]) else
        if a0 = ''history'' \<and> a1 = ''queues'' then Some (''queueHistory'', [KN a2, KS a3]) else
        if a0 = ''quick-print'' \<and> a1 = ''packages'' then Some (''quickPrintPackage'', [KN a2, KS a3]) else
        if a0 = ''hotspot'' \<and> a1 = ''profile-configs'' then Some (''profileConfig'', [KN a2, KS a3]) else
        if a0 = ''ppp'' \<and> a1 = ''profiles'' then Some (''pppProfile'', [KN a2, KS a3]) else
        if a0 = ''network'' \<and> a1 = ''arp'' then Some (''networkArp'', [KN a2, KS a3]) else
        if a0 = ''network'' \<and> a1 = ''pools'' then Some (''poolByName'', [KN a2, KS a3]) else None
      | [KS a0, KS a1, KS a2, KN a3, KS a4] \<Rightarrow>
        if a0 = ''hotspot'' \<and> a1 = ''users'' \<and> a2 = ''count'' then Some (''hotspotUserCount'', [KN a3, KS a4]) else None
      | [KS a0, KS a1, KS a2, KN a3, KNull] \<Rightarrow>
        if a0 = ''hotspot'' \<and> a1 = ''users'' \<and> a2 = ''count'' then Some (''hotspotUserCount'', [KN a3, KNull]) else None
      | [KS a0, KS a1, KN a2] \<Rightarrow>
        if a0 = ''hotspot'' \<and> a1 = ''profiles'' then Some (''hotspotProfiles'', [KN a2]) else
        if a0 = ''hotspot'' \<and> a1 = ''active'' then Some (''hotspotActive'', [KN a2]) else
        if a0 = ''hotspot'' \<and> a1 = ''inactive'' then Some (''hotspotInactive'', [KN a2]) else
        if a0 = ''hotspot'' \<and> a1 = ''hosts'' then Some (''hotspotHosts'', [KN a2]) else
        if a0 = ''hotspot'' \<and> a1 = ''servers'' then Some (''hotspotServers'', [KN a2]) else
        if a0 = ''hotspot'' \<and> a1 = ''cookies'' then Some (''hotspotCookies'', [KN a2]) else
        if a0 = ''hotspot'' \<and> a1 = ''bindings'' then Some (''hotspotBindings'', [KN a2]) else
        if a0 = ''ppp'' \<and> a1 = ''secrets'' then Some (''pppSecrets'', [KN a2]) else
        if a0 = ''ppp'' \<and> a1 = ''active'' then Some (''pppActive'', [KN a2]) else
        if a0 = ''ppp'' \<and> a1 = ''inactive'' then Some (''pppInactive'', [KN a2]) else
        if a0 = ''ppp'' \<and> a1 = ''profiles'' then Some (''pppProfiles'', [KN a2]) else
        if a0 = ''network'' \<and> a1 = ''interfaces'' then Some (''networkInterfaces'', [KN a2]) else
        if a0 = ''network'' \<and> a1 = ''pools'' then Some (''networkPools'', [KN a2]) else
        if a0 = ''network'' \<and> a1 = ''queues'' then Some (''networkQueues'', [KN a2]) else
        if a0 = ''network'' \<and> a1 = ''nat'' then Some (''natRules'', [KN a2]) else
        if a0 = ''system'' \<and> a1 = ''resource'' then Some (''systemResource'', [KN a2]) else
        if a0 = ''system'' \<and> a1 = ''log'' then Some (''systemLog'', [KN a2]) else
        if a0 = ''system'' \<and> a1 = ''clock'' then Some (''systemClock'', [KN a2]) else
        if a0 = ''system'' \<and> a1 = ''identity'' then Some (''systemIdentity'', [KN a2]) else
        if a0 = ''system'' \<and> a1 = ''routerboard'' then Some (''routerboard'', [KN a2]) else
        if a0 = ''system'' \<and> a1 = ''expire-monitor'' then Some (''expireMonitor'', [KN a2]) else
        if a0 = ''system'' \<and> a1 = ''schedulers'' then Some (''schedulers'', [KN a2]) else
        if a0 = ''system'' \<and> a1 = ''scripts'' then Some (''scripts'', [KN a2]) else
        if a0 = ''system'' \<and> a1 = ''dashboard'' then Some (''systemDashboard'', [KN a2]) else
        if a0 = ''admin'' \<and> a1 = ''users'' then Some (''adminUser'', [KN a2]) else
        if a0 = ''report'' \<and> a1 = ''summary'' then Some (''reportSummary'', [KN a2]) else
        if a0 = ''quick-print'' \<and> a1 = ''packages'' then Some (''quickPrintPackages'', [KN a2]) else
        if a0 = ''hotspot'' \<and> a1 = ''profile-configs'' then Some (''profileConfigs'', [KN a2]) else
        if a0 = ''ppp'' \<and> a1 = ''profiles-db'' then Some (''pppProfilesDB'', [KN a2]) else
        if a0 = ''system'' \<and> a1 = ''license'' then Some (''systemLicense'', [KN a2]) else
        if a0 = ''subscriptions'' \<and> a1 = ''device'' then Some (''subscriptionsByDevice'', [KN a2]) else
        if a0 = ''portal'' \<and> a1 = ''subscriptions'' then Some (''portalSubscription'', [KN a2]) else
        if a0 = ''portal'' \<and> a1 = ''invoices'' then Some (''portalInvoice'', [KN a2]) else None
      | [KS a0, KS a1, KS a2, KN a3] \<Rightarrow>
        if a0 = ''hotspot'' \<and> a1 = ''inactive'' \<and> a2 = ''count'' then Some (''hotspotInactiveCount'', [KN a3]) else
        if a0 = ''ppp'' \<and> a1 = ''inactive'' \<and> a2 = ''count'' then Some (''pppInactiveCount'', [KN a3]) else
        if a0 = ''network'' \<and> a1 = ''dhcp'' \<and> a2 = ''leases'' then Some (''dhcpLeases'', [KN a3]) else
        if a0 = ''system'' \<and> a1 = ''resource'' \<and> a2 = ''history'' then Some (''systemResourceHistory'', [KN a3]) else
        if a0 = ''report'' \<and> a1 = ''selling'' \<and> a2 = ''today'' then Some (''reportSellingToday'', [KN a3]) else None
      | [KS a0, KS a1, KN a2, KS a3, KO a4] \<Rightarrow>
        if a0 = ''report'' \<and> a1 = ''daily'' then Some (''reportDaily'', [KN a2, KS a3, KO a4]) else None
      | [KS a0, KS a1, KN a2, KN a3, KN a4] \<Rightarrow>
        if a0 = ''report'' \<and> a1 = ''monthly'' then Some (''reportMonthly'', [KN a2, KN a3, KN a4]) else None
      | [KS a0, KS a1, KN a2, KN a3] \<Rightarrow>
        if a0 = ''report'' \<and> a1 = ''resume'' then Some (''reportResume'', [KN a2, KN a3]) else
        if a0 = ''hotspot'' \<and> a1 = ''profiles-db'' then Some (''hotspotProfileDB'', [KN a2, KN a3]) else
        if a0 = ''ppp'' \<and> a1 = ''profiles-db'' then Some (''pppProfileDB'', [KN a2, KN a3]) else None
      | [KS a0, KS a1, KN a2, KNull] \<Rightarrow>
        if a0 = ''network'' \<and> a1 = ''arp'' then Some (''networkArp'', [KN a2, KNull]) else None
      | [KS a0, KS a1, KS a2, KN a3, KO a4] \<Rightarrow>
        if a0 = ''report'' \<and> a1 = ''selling'' \<and> a2 = ''summary'' then Some (''reportSellingSummary'', [KN a3, KO a4]) else None
      | [KS a0, KN a1, KS a2] \<Rightarrow>
        if a0 = ''invoices'' \<and> a2 = ''payments'' then Some (''invoicePayments'', [KN a1]) else None
      | [KS a0, KS a1, KO a2] \<Rightarrow>
        if a0 = ''portal'' \<and> a1 = ''invoices'' then Some (''portalInvoices'', [KO a2]) else None
      | _ \<Rightarrow> None)"

lemma query_of_key: "query f xs k \<Longrightarrow> query_of k = Some (f, xs)"
  by (induction rule: query.induct) (simp_all add: qk_defs query_of_def split: option.split)



section \<open>Invalidation\<close>

text \<open>
  The cache: the keys it holds, each with its data and whether it is stale. Which keys a partial key selects is
  decided by the query library; it is a parameter \<open>m\<close> of the model, with the two documented
  facts: a beginning of a key selects it, and parts that are strings or numbers are compared
  by equality position by position.
\<close>

type_synonym cache = "(qkey \<times> js \<times> bool) list"

definition invalidateQueries :: "(qkey \<Rightarrow> qkey \<Rightarrow> bool) \<Rightarrow> qkey \<Rightarrow> cache \<Rightarrow> cache" where
  "invalidateQueries m p c = map (\<lambda>(k, d, stale). (k, d, stale \<or> m p k)) c"

definition prefix_matching :: "(qkey \<Rightarrow> qkey \<Rightarrow> bool) \<Rightarrow> bool" where
  "prefix_matching m = (\<forall>p k. prefix p k \<longrightarrow> m p k)"

fun primitive :: "kpart \<Rightarrow> bool" where
  "primitive (KO _) = False"
| "primitive _ = True"

definition primitive_matching :: "(qkey \<Rightarrow> qkey \<Rightarrow> bool) \<Rightarrow> bool" where
  "primitive_matching m =
     (\<forall>p k i. m p k \<and> i < length p \<and> primitive (p ! i) \<longrightarrow> i < length k \<and> k ! i = p ! i)"

lemma prefix_selects: "prefix_matching m \<Longrightarrow> prefix p k \<Longrightarrow> m p k"
  by (simp add: prefix_matching_def)

lemma primitive_spares:
  assumes "primitive_matching m" "i < length p" "primitive (p ! i)" "length k \<le> i \<or> k ! i \<noteq> p ! i"
  shows "\<not> m p k"
  using assms unfolding primitive_matching_def by (meson not_le)

lemma prefix_is_matching: "prefix_matching prefix" "primitive_matching prefix"
  by (auto simp: prefix_matching_def primitive_matching_def prefix_def nth_append)

end
