(* ===== verification/Api_Request.thy ===== *)
theory Api_Request
  imports Api_Envelope Query_Keys
begin

text \<open>
  The common shape of the functions in \<^verbatim>\<open>web/src/features/*/api/service.ts\<close> and of the hooks in
  \<^verbatim>\<open>web/src/features/*/api/queries.ts\<close>. A service function is the request it sends (method,
  path, query parameters, body, further axios options) with what it makes of a reply and of a failure; a
  query hook is its cache key, the service call, its \<open>enabled\<close> condition and further options; a
  mutation hook is the service call with the cache operations of its \<open>onSuccess\<close>; a stream
  hook is the path it gives to \<open>useSSE\<close> with the cache operations of its callback.

  Query parameters that are \<open>undefined\<close> and an empty object of parameters mean the same to
  axios (no query string), so both are the empty list.
\<close>

section \<open>Requests\<close>

datatype http_client = ApiClient | PortalClient | PublicClient

datatype http_method = GET | POST | PUT | PATCH | DELETE

record service =
  rq_client :: http_client
  rq_method :: http_method
  rq_url :: string
  rq_params :: "(string \<times> js) list"
  rq_body :: js
  rq_config :: "(string \<times> js) list"
  rq_result :: "js \<Rightarrow> thrown + js"
  rq_failure :: "thrown \<Rightarrow> thrown + js"

text \<open>\<open>unwrap(res.data).k\<close>, \<open>unwrap(res.data) ?? []\<close>, and a function that returns nothing.\<close>

definition unwrap_get :: "string \<Rightarrow> js \<Rightarrow> thrown + js" where
  "unwrap_get k b =
     (case unwrap b of
        Inl e \<Rightarrow> Inl e
      | Inr v \<Rightarrow> (case js_get v k of None \<Rightarrow> Inl (type_error v k) | Some w \<Rightarrow> Inr w))"

definition unwrap_or_empty :: "js \<Rightarrow> thrown + js" where
  "unwrap_or_empty b = (case unwrap b of Inl e \<Rightarrow> Inl e | Inr v \<Rightarrow> Inr (js_coalesce v (JArr [])))"

definition no_result :: "js \<Rightarrow> thrown + js" where
  "no_result _ = Inr JUndef"

lemma unwrap_Inr: "unwrap b = Inr v \<Longrightarrow> \<not> nullish v"
  by (auto simp: unwrap_def split: option.splits if_splits)

text \<open>The default of \<open>unwrap(res.data) ?? []\<close> is never used: an envelope without data throws.\<close>

lemma unwrap_or_empty_eq: "unwrap_or_empty b = unwrap b"
  using unwrap_Inr by (auto simp: unwrap_or_empty_def js_coalesce_def split: sum.split)

text \<open>\<open>xs.map(f)\<close> and \<open>xs.filter(f)\<close> where \<open>f\<close> may throw; on anything but an array the call itself throws.\<close>

fun traverse :: "('a \<Rightarrow> thrown + 'b) \<Rightarrow> 'a list \<Rightarrow> thrown + 'b list" where
  "traverse f [] = Inr []"
| "traverse f (x # xs) =
     (case f x of
        Inl e \<Rightarrow> Inl e
      | Inr y \<Rightarrow> (case traverse f xs of Inl e \<Rightarrow> Inl e | Inr ys \<Rightarrow> Inr (y # ys)))"

definition array_of :: "string \<Rightarrow> js \<Rightarrow> thrown + js list" where
  "array_of what v =
     (case v of JArr xs \<Rightarrow> Inr xs | _ \<Rightarrow> Inl (NativeErr (JStr (what @ '' is not a function''))))"

definition array_map :: "string \<Rightarrow> (js \<Rightarrow> thrown + js) \<Rightarrow> js \<Rightarrow> thrown + js" where
  "array_map what f v =
     (case array_of what v of
        Inl e \<Rightarrow> Inl e
      | Inr xs \<Rightarrow> (case traverse f xs of Inl e \<Rightarrow> Inl e | Inr ys \<Rightarrow> Inr (JArr ys)))"

definition array_filter :: "string \<Rightarrow> (js \<Rightarrow> thrown + bool) \<Rightarrow> js \<Rightarrow> thrown + js" where
  "array_filter what f v =
     (case array_of what v of
        Inl e \<Rightarrow> Inl e
      | Inr xs \<Rightarrow>
          (case traverse f xs of
             Inl e \<Rightarrow> Inl e
           | Inr bs \<Rightarrow> Inr (JArr (map fst (filter snd (zip xs bs))))))"

definition then_result :: "(js \<Rightarrow> thrown + js) \<Rightarrow> (js \<Rightarrow> thrown + js) \<Rightarrow> js \<Rightarrow> thrown + js" where
  "then_result f g b = (case f b of Inl e \<Rightarrow> Inl e | Inr v \<Rightarrow> g v)"

lemma traverse_length: "traverse f xs = Inr ys \<Longrightarrow> length ys = length xs"
  by (induction xs arbitrary: ys) (auto split: sum.splits)

lemma traverse_nth: "traverse f xs = Inr ys \<Longrightarrow> i < length xs \<Longrightarrow> f (xs ! i) = Inr (ys ! i)"
proof (induction xs arbitrary: ys i)
  case (Cons x xs)
  then show ?case by (cases i) (auto split: sum.splits)
qed simp

section \<open>Hooks\<close>

record query_hook =
  q_key :: qkey
  q_fn :: service
  q_enabled :: bool
  q_options :: "(string \<times> js) list"

datatype cache_op = Invalidate qkey | Remove qkey | SetQueryData qkey js

record mutation =
  m_fn :: service
  m_success :: "js \<Rightarrow> cache_op list"

record stream_hook =
  s_path :: "string option"
  s_events :: "string list"
  s_event :: "cache_op list"

text \<open>
  Fields of typed data used as key parts: the declared types promise an integer and a string.
\<close>

fun num_of :: "js \<Rightarrow> int" where
  "num_of (JNum n) = \<lfloor>n\<rfloor>"
| "num_of _ = 0"

fun str_of :: "js \<Rightarrow> string" where
  "str_of (JStr s) = s"
| "str_of _ = []"

text \<open>\<open>v.length > 0\<close> for a string and \<open>v > 0\<close> for a number.\<close>

fun string_nonempty :: "js \<Rightarrow> bool" where
  "string_nonempty (JStr s) = (s \<noteq> [])"
| "string_nonempty _ = False"

fun num_positive :: "js \<Rightarrow> bool" where
  "num_positive (JNum n) = (0 < n)"
| "num_positive _ = False"

section \<open>The cache\<close>

definition removeQueries :: "(qkey \<Rightarrow> qkey \<Rightarrow> bool) \<Rightarrow> qkey \<Rightarrow> cache \<Rightarrow> cache" where
  "removeQueries m p c = filter (\<lambda>(k, _). \<not> m p k) c"

definition setQueryData :: "qkey \<Rightarrow> js \<Rightarrow> cache \<Rightarrow> cache" where
  "setQueryData k d c = (k, d, False) # filter (\<lambda>(k', _). k' \<noteq> k) c"

fun run_op :: "(qkey \<Rightarrow> qkey \<Rightarrow> bool) \<Rightarrow> cache_op \<Rightarrow> cache \<Rightarrow> cache" where
  "run_op m (Invalidate p) c = invalidateQueries m p c"
| "run_op m (Remove p) c = removeQueries m p c"
| "run_op m (SetQueryData k d) c = setQueryData k d c"

definition run_ops :: "(qkey \<Rightarrow> qkey \<Rightarrow> bool) \<Rightarrow> cache_op list \<Rightarrow> cache \<Rightarrow> cache" where
  "run_ops m os c = fold (run_op m) os c"

text \<open>An entry is served from the cache without a new request when it is there and not stale.\<close>

definition fresh :: "qkey \<Rightarrow> cache \<Rightarrow> bool" where
  "fresh k c = (\<exists>d. (k, d, False) \<in> set c)"

lemma fresh_invalidate: "fresh k (invalidateQueries m p c) \<longleftrightarrow> fresh k c \<and> \<not> m p k"
  by (force simp: fresh_def invalidateQueries_def)

lemma fresh_remove: "fresh k (removeQueries m p c) \<longleftrightarrow> fresh k c \<and> \<not> m p k"
  by (force simp: fresh_def removeQueries_def)

lemma fresh_set: "fresh k (setQueryData k' d c) \<longleftrightarrow> k = k' \<or> fresh k c"
  by (auto simp: fresh_def setQueryData_def)

text \<open>Whether a list of operations leaves the entry of a key to be fetched again.\<close>

fun sets_key :: "qkey \<Rightarrow> cache_op \<Rightarrow> bool" where
  "sets_key k (SetQueryData j d) = (j = k)"
| "sets_key k _ = False"

fun drops_key :: "(qkey \<Rightarrow> qkey \<Rightarrow> bool) \<Rightarrow> qkey \<Rightarrow> cache_op \<Rightarrow> bool" where
  "drops_key m k (Invalidate p) = m p k"
| "drops_key m k (Remove p) = m p k"
| "drops_key m k (SetQueryData j d) = False"

fun refetches :: "(qkey \<Rightarrow> qkey \<Rightarrow> bool) \<Rightarrow> qkey \<Rightarrow> cache_op list \<Rightarrow> bool" where
  "refetches m k [] = False"
| "refetches m k (a # os) = ((drops_key m k a \<and> \<not> list_ex (sets_key k) os) \<or> refetches m k os)"

lemma fresh_run_op: "fresh k (run_op m a c) \<longleftrightarrow> sets_key k a \<or> (fresh k c \<and> \<not> drops_key m k a)"
  by (cases a) (auto simp: fresh_invalidate fresh_remove fresh_set)

lemma run_ops_stays: "\<not> fresh k c \<Longrightarrow> \<not> list_ex (sets_key k) os \<Longrightarrow> \<not> fresh k (run_ops m os c)"
  by (induction os arbitrary: c) (simp_all add: run_ops_def fresh_run_op)

lemma refetches_sound: "refetches m k os \<Longrightarrow> \<not> fresh k (run_ops m os c)"
proof (induction os arbitrary: c)
  case (Cons a os)
  have "drops_key m k a \<Longrightarrow> \<not> fresh k (run_op m a c)"
    by (cases a) (auto simp: fresh_invalidate fresh_remove)
  with Cons run_ops_stays [of k "run_op m a c" os m] show ?case by (auto simp: run_ops_def)
qed simp

lemma untouched:
  "\<not> list_ex (\<lambda>a. sets_key k a \<or> drops_key m k a) os \<Longrightarrow> fresh k (run_ops m os c) \<longleftrightarrow> fresh k c"
  by (induction os arbitrary: c) (simp_all add: run_ops_def fresh_run_op)

section \<open>Paths\<close>

text \<open>
  The segments of a path. A path built from segments that have no slash of their own splits
  into exactly those, so an identifier that went through \<open>encodeURIComponent\<close> stays in its place.
\<close>

definition segments :: "string \<Rightarrow> string list" where
  "segments u = js_split ''/'' u"

lemma segments_Cons: "CHR ''/'' \<notin> set x \<Longrightarrow> segments (x @ CHR ''/'' # u) = x # segments u"
  unfolding segments_def using js_split_first [of "''/''" x u] by simp

lemma segments_last: "CHR ''/'' \<notin> set x \<Longrightarrow> segments x = [x]"
  unfolding segments_def by (simp add: js_split_clean)

lemma no_slash_show_int [simp]: "CHR ''/'' \<notin> set (show_int i)"
  using show_int_chars by (fastforce simp: is_digit_def code_of_def)

end
