(* ===== verification/Hotspot_Api.thy ===== *)
theory Hotspot_Api
  imports Api_Request
begin

text \<open>
  The service functions and hooks of the hotspot and voucher features
  (\<^verbatim>\<open>web/src/features/hotspot/*/api\<close> and \<^verbatim>\<open>web/src/features/voucher/*/api\<close>).
\<close>

section \<open>Hotspot users\<close>

definition hotspot_users_base :: "int \<Rightarrow> string" where
  "hotspot_users_base rid = ''/devices/'' @ show_int rid @ ''/hotspot/users''"

definition listHotspotUsers :: "int \<Rightarrow> filters option \<Rightarrow> service" where
  "listHotspotUsers routerId filters =
     \<lparr>rq_client = ApiClient, rq_method = GET,
      rq_url = hotspot_users_base routerId,
      rq_params = or_else filters [],
      rq_body = JUndef, rq_config = [], rq_result = unwrap, rq_failure = Inl\<rparr>"

definition getHotspotUserCount :: "int \<Rightarrow> string option \<Rightarrow> service" where
  "getHotspotUserCount routerId profile =
     \<lparr>rq_client = ApiClient, rq_method = GET,
      rq_url = hotspot_users_base routerId @ ''/count'',
      rq_params = (if or_else profile [] \<noteq> [] then [(''profile'', opt_str profile)] else []),
      rq_body = JUndef, rq_config = [], rq_result = unwrap_get ''count'', rq_failure = Inl\<rparr>"

definition exportHotspotUsersCSV :: "int \<Rightarrow> string option \<Rightarrow> service" where
  "exportHotspotUsersCSV routerId profile =
     \<lparr>rq_client = ApiClient, rq_method = GET,
      rq_url = hotspot_users_base routerId @ ''/export'',
      rq_params = (if or_else profile [] \<noteq> [] then [(''profile'', opt_str profile)] else []),
      rq_body = JUndef, rq_config = [(''responseType'', JStr ''blob'')], rq_result = Inr, rq_failure = Inl\<rparr>"

definition getHotspotUser :: "int \<Rightarrow> string \<Rightarrow> service" where
  "getHotspotUser routerId ident =
     \<lparr>rq_client = ApiClient, rq_method = GET,
      rq_url = hotspot_users_base routerId @ ''/'' @ encodeURIComponent ident,
      rq_params = [],
      rq_body = JUndef, rq_config = [], rq_result = unwrap, rq_failure = Inl\<rparr>"

definition addHotspotUser :: "int \<Rightarrow> js \<Rightarrow> service" where
  "addHotspotUser routerId payload =
     \<lparr>rq_client = ApiClient, rq_method = POST,
      rq_url = hotspot_users_base routerId,
      rq_params = [],
      rq_body = payload, rq_config = [], rq_result = unwrap, rq_failure = Inl\<rparr>"

definition updateHotspotUser :: "int \<Rightarrow> string \<Rightarrow> js \<Rightarrow> service" where
  "updateHotspotUser routerId ident patch =
     \<lparr>rq_client = ApiClient, rq_method = PUT,
      rq_url = hotspot_users_base routerId @ ''/'' @ encodeURIComponent ident,
      rq_params = [],
      rq_body = patch, rq_config = [], rq_result = no_result, rq_failure = Inl\<rparr>"

definition removeHotspotUser :: "int \<Rightarrow> string \<Rightarrow> service" where
  "removeHotspotUser routerId ident =
     \<lparr>rq_client = ApiClient, rq_method = DELETE,
      rq_url = hotspot_users_base routerId @ ''/'' @ encodeURIComponent ident,
      rq_params = [],
      rq_body = JUndef, rq_config = [], rq_result = no_result, rq_failure = Inl\<rparr>"

definition resetHotspotUserCounters :: "int \<Rightarrow> string \<Rightarrow> service" where
  "resetHotspotUserCounters routerId ident =
     \<lparr>rq_client = ApiClient, rq_method = POST,
      rq_url = hotspot_users_base routerId @ ''/'' @ encodeURIComponent ident @ ''/reset-counters'',
      rq_params = [],
      rq_body = JUndef, rq_config = [], rq_result = no_result, rq_failure = Inl\<rparr>"

definition revealHotspotUserPassword :: "int \<Rightarrow> string \<Rightarrow> service" where
  "revealHotspotUserPassword routerId ident =
     \<lparr>rq_client = ApiClient, rq_method = GET,
      rq_url = hotspot_users_base routerId @ ''/'' @ encodeURIComponent ident @ ''/password'',
      rq_params = [],
      rq_body = JUndef, rq_config = [], rq_result = unwrap_get ''password'', rq_failure = Inl\<rparr>"

definition hotspot_users_usersPrefix :: "int \<Rightarrow> qkey" where
  "hotspot_users_usersPrefix routerId = [KS ''hotspot'', KS ''users'', KN routerId]"

definition useHotspotUsers :: "int \<Rightarrow> filters option \<Rightarrow> query_hook" where
  "useHotspotUsers routerId filters =
     \<lparr>q_key = qk_hotspotUsers routerId filters, q_fn = listHotspotUsers routerId filters,
      q_enabled = (0 < routerId), q_options = []\<rparr>"

definition useHotspotUserCount :: "int \<Rightarrow> string option \<Rightarrow> query_hook" where
  "useHotspotUserCount routerId profile =
     \<lparr>q_key = qk_hotspotUserCount routerId profile, q_fn = getHotspotUserCount routerId profile,
      q_enabled = (0 < routerId), q_options = []\<rparr>"

definition useHotspotUser :: "int \<Rightarrow> string \<Rightarrow> query_hook" where
  "useHotspotUser routerId ident =
     \<lparr>q_key = qk_hotspotUser routerId ident, q_fn = getHotspotUser routerId ident,
      q_enabled = (0 < routerId \<and> ident \<noteq> []), q_options = []\<rparr>"

definition useAddHotspotUser :: "int \<Rightarrow> js \<Rightarrow> mutation" where
  "useAddHotspotUser routerId payload =
     \<lparr>m_fn = addHotspotUser routerId payload,
      m_success = (\<lambda>result. [Invalidate (hotspot_users_usersPrefix routerId)])\<rparr>"

definition useUpdateHotspotUser :: "int \<Rightarrow> string \<Rightarrow> js \<Rightarrow> mutation" where
  "useUpdateHotspotUser routerId ident patch =
     \<lparr>m_fn = updateHotspotUser routerId ident patch,
      m_success = (\<lambda>result. [Invalidate (hotspot_users_usersPrefix routerId)])\<rparr>"

definition useRemoveHotspotUser :: "int \<Rightarrow> string \<Rightarrow> mutation" where
  "useRemoveHotspotUser routerId ident =
     \<lparr>m_fn = removeHotspotUser routerId ident,
      m_success = (\<lambda>result. [Invalidate (hotspot_users_usersPrefix routerId)])\<rparr>"

definition useResetHotspotUserCounters :: "int \<Rightarrow> string \<Rightarrow> mutation" where
  "useResetHotspotUserCounters routerId ident =
     \<lparr>m_fn = resetHotspotUserCounters routerId ident,
      m_success = (\<lambda>result. [Invalidate (qk_hotspotUser routerId ident), Invalidate (hotspot_users_usersPrefix routerId)])\<rparr>"

definition useHotspotUsersStream :: "int \<Rightarrow> stream_hook" where
  "useHotspotUsersStream routerId =
     \<lparr>s_path = (if 0 < routerId then Some (''/devices/'' @ show_int routerId @ ''/stream/hotspot/users'') else None),
      s_events = [], s_event = [Invalidate (hotspot_users_usersPrefix routerId)]\<rparr>"

section \<open>Hotspot profiles\<close>

definition hotspot_profiles_base :: "int \<Rightarrow> string" where
  "hotspot_profiles_base rid = ''/devices/'' @ show_int rid @ ''/hotspot-profiles''"

definition getHotspotProfile :: "int \<Rightarrow> string \<Rightarrow> service" where
  "getHotspotProfile routerId ident =
     \<lparr>rq_client = ApiClient, rq_method = GET,
      rq_url = hotspot_profiles_base routerId @ ''/'' @ encodeURIComponent ident,
      rq_params = [],
      rq_body = JUndef, rq_config = [], rq_result = unwrap, rq_failure = Inl\<rparr>"

definition removeHotspotProfile :: "int \<Rightarrow> string \<Rightarrow> service" where
  "removeHotspotProfile routerId ident =
     \<lparr>rq_client = ApiClient, rq_method = DELETE,
      rq_url = hotspot_profiles_base routerId @ ''/'' @ encodeURIComponent ident,
      rq_params = [],
      rq_body = JUndef, rq_config = [], rq_result = no_result, rq_failure = Inl\<rparr>"

definition syncHotspotProfiles :: "int \<Rightarrow> service" where
  "syncHotspotProfiles routerId =
     \<lparr>rq_client = ApiClient, rq_method = POST,
      rq_url = ''/devices/'' @ show_int routerId @ ''/hotspot-profiles/sync'',
      rq_params = [],
      rq_body = JUndef, rq_config = [], rq_result = unwrap, rq_failure = Inl\<rparr>"

text \<open>
  The list endpoint's rows are renamed and partly turned into strings. A row that is null or
  undefined throws at its first property.
\<close>

definition profile_row :: "js \<Rightarrow> thrown + js" where
  "profile_row p =
     (if nullish p then Inl (type_error p ''id'')
      else
        (let g = js_optget p in
         Inr (JObj
           [(''id'', JStr (js_String (g ''id''))),
            (''name'', g ''name''),
            (''address_pool'', g ''address_pool''),
            (''rate_limit'', g ''rate_limit''),
            (''shared_users'',
               if g ''shared_users'' = JNum 0 then JStr ''unlimited'' else JStr (js_String (g ''shared_users''))),
            (''status_autorefresh'', g ''status_autorefresh''),
            (''on_login'', g ''on_login''),
            (''on_logout'', g ''on_logout''),
            (''parent_queue'', g ''parent_queue''),
            (''exp_mode'', g ''expiry_mode''),
            (''price'', if nullish (g ''price'') then JUndef else JStr (js_String (g ''price''))),
            (''selling_price'', if nullish (g ''sell_price'') then JUndef else JStr (js_String (g ''sell_price''))),
            (''validity'', g ''validity''),
            (''no_expiry'', JBool (g ''expiry_mode'' = JStr ''0'')),
            (''lock_user'', if truthy (g ''lock_mac'') then JStr ''enable'' else JStr ''disable'')])))"

definition listHotspotProfiles :: "int \<Rightarrow> service" where
  "listHotspotProfiles routerId =
     \<lparr>rq_client = ApiClient, rq_method = GET, rq_url = hotspot_profiles_base routerId,
      rq_params = [], rq_body = JUndef, rq_config = [],
      rq_result = then_result unwrap (array_map ''data.map'' profile_row), rq_failure = Inl\<rparr>"

text \<open>The body of a create or update; \<open>role\<close> is the one field the two treat differently.\<close>

definition profile_payload :: "js \<Rightarrow> js \<Rightarrow> js" where
  "profile_payload role_field params =
     (let g = js_optget params in
      JObj
        [(''name'', g ''name''),
         (''role'', role_field),
         (''rate_limit'', g ''rate_limit''),
         (''address_pool'', g ''address_pool''),
         (''shared_users'',
            if g ''shared_users'' = JStr ''unlimited'' then JNum 0
            else if truthy (g ''shared_users'') then js_num (g ''shared_users'')
            else JUndef),
         (''parent_queue'', g ''parent_queue''),
         (''price_monthly'', g ''price''),
         (''price'', g ''price''),
         (''sell_price'', g ''selling_price''),
         (''validity'', g ''validity''),
         (''expiry_mode'', g ''expire_mode''),
         (''lock_mac'',
            if g ''lock_user'' = JStr ''enable'' then JBool True
            else if g ''lock_user'' = JStr ''disable'' then JBool False
            else JUndef)])"

definition new_profile_id :: "js \<Rightarrow> thrown + js" where
  "new_profile_id d =
     (case js_get (js_optget d ''profile'') ''id'' of
        None \<Rightarrow> Inl (type_error (js_optget d ''profile'') ''id'')
      | Some i \<Rightarrow> Inr (JObj [(''id'', JStr (js_String i))]))"

definition addHotspotProfile :: "int \<Rightarrow> js \<Rightarrow> service" where
  "addHotspotProfile routerId params =
     \<lparr>rq_client = ApiClient, rq_method = POST, rq_url = hotspot_profiles_base routerId,
      rq_params = [], rq_body = profile_payload (js_coalesce (js_optget params ''role'') (JStr ''voucher'')) params,
      rq_config = [], rq_result = then_result unwrap new_profile_id, rq_failure = Inl\<rparr>"

definition updateHotspotProfile :: "int \<Rightarrow> string \<Rightarrow> js \<Rightarrow> service" where
  "updateHotspotProfile routerId ident params =
     \<lparr>rq_client = ApiClient, rq_method = PUT, rq_url = hotspot_profiles_base routerId @ ''/'' @ encodeURIComponent ident,
      rq_params = [], rq_body = profile_payload (js_optget params ''role'') params,
      rq_config = [], rq_result = no_result, rq_failure = Inl\<rparr>"

definition hotspot_profiles_profilesPrefix :: "int \<Rightarrow> qkey" where
  "hotspot_profiles_profilesPrefix routerId = [KS ''hotspot'', KS ''profiles'', KN routerId]"

definition useHotspotProfiles :: "int \<Rightarrow> query_hook" where
  "useHotspotProfiles routerId =
     \<lparr>q_key = qk_hotspotProfiles routerId, q_fn = listHotspotProfiles routerId,
      q_enabled = (0 < routerId), q_options = []\<rparr>"

definition useHotspotProfile :: "int \<Rightarrow> string \<Rightarrow> query_hook" where
  "useHotspotProfile routerId ident =
     \<lparr>q_key = qk_hotspotProfile routerId ident, q_fn = getHotspotProfile routerId ident,
      q_enabled = (0 < routerId \<and> ident \<noteq> []), q_options = []\<rparr>"

definition useAddHotspotProfile :: "int \<Rightarrow> js \<Rightarrow> mutation" where
  "useAddHotspotProfile routerId params =
     \<lparr>m_fn = addHotspotProfile routerId params,
      m_success = (\<lambda>result. [Invalidate (hotspot_profiles_profilesPrefix routerId)])\<rparr>"

definition useUpdateHotspotProfile :: "int \<Rightarrow> string \<Rightarrow> js \<Rightarrow> mutation" where
  "useUpdateHotspotProfile routerId ident params =
     \<lparr>m_fn = updateHotspotProfile routerId ident params,
      m_success = (\<lambda>result. [Invalidate (hotspot_profiles_profilesPrefix routerId)])\<rparr>"

definition useRemoveHotspotProfile :: "int \<Rightarrow> string \<Rightarrow> mutation" where
  "useRemoveHotspotProfile routerId ident =
     \<lparr>m_fn = removeHotspotProfile routerId ident,
      m_success = (\<lambda>result. [Invalidate (hotspot_profiles_profilesPrefix routerId)])\<rparr>"

definition useSyncHotspotProfiles :: "int \<Rightarrow> mutation" where
  "useSyncHotspotProfiles routerId =
     \<lparr>m_fn = syncHotspotProfiles routerId,
      m_success = (\<lambda>result. [Invalidate (hotspot_profiles_profilesPrefix routerId)])\<rparr>"

section \<open>Hotspot sessions\<close>

definition hotspot_active_base :: "int \<Rightarrow> string" where
  "hotspot_active_base rid = ''/devices/'' @ show_int rid @ ''/hotspot/active''"

definition listHotspotActive :: "int \<Rightarrow> service" where
  "listHotspotActive routerId =
     \<lparr>rq_client = ApiClient, rq_method = GET,
      rq_url = hotspot_active_base routerId,
      rq_params = [],
      rq_body = JUndef, rq_config = [], rq_result = unwrap, rq_failure = Inl\<rparr>"

definition removeHotspotActive :: "int \<Rightarrow> string \<Rightarrow> service" where
  "removeHotspotActive routerId ident =
     \<lparr>rq_client = ApiClient, rq_method = DELETE,
      rq_url = hotspot_active_base routerId @ ''/'' @ encodeURIComponent ident,
      rq_params = [],
      rq_body = JUndef, rq_config = [], rq_result = no_result, rq_failure = Inl\<rparr>"

definition disconnectHotspotUser :: "int \<Rightarrow> string \<Rightarrow> service" where
  "disconnectHotspotUser routerId ident =
     \<lparr>rq_client = ApiClient, rq_method = POST,
      rq_url = hotspot_active_base routerId @ ''/'' @ encodeURIComponent ident @ ''/disconnect'',
      rq_params = [],
      rq_body = JUndef, rq_config = [], rq_result = no_result, rq_failure = Inl\<rparr>"

definition hotspot_active_activePrefix :: "int \<Rightarrow> qkey" where
  "hotspot_active_activePrefix routerId = [KS ''hotspot'', KS ''active'', KN routerId]"

definition hotspot_active_cookiesPrefix :: "int \<Rightarrow> qkey" where
  "hotspot_active_cookiesPrefix routerId = [KS ''hotspot'', KS ''cookies'', KN routerId]"

definition useHotspotActive :: "int \<Rightarrow> query_hook" where
  "useHotspotActive routerId =
     \<lparr>q_key = qk_hotspotActive routerId, q_fn = listHotspotActive routerId,
      q_enabled = (0 < routerId), q_options = []\<rparr>"

definition useRemoveHotspotActive :: "int \<Rightarrow> string \<Rightarrow> mutation" where
  "useRemoveHotspotActive routerId ident =
     \<lparr>m_fn = removeHotspotActive routerId ident,
      m_success = (\<lambda>result. [Invalidate (hotspot_active_activePrefix routerId)])\<rparr>"

definition useDisconnectHotspotUser :: "int \<Rightarrow> string \<Rightarrow> mutation" where
  "useDisconnectHotspotUser routerId ident =
     \<lparr>m_fn = disconnectHotspotUser routerId ident,
      m_success = (\<lambda>result. [Invalidate (hotspot_active_activePrefix routerId), Invalidate (hotspot_active_cookiesPrefix routerId)])\<rparr>"

definition useHotspotActiveStream :: "int \<Rightarrow> stream_hook" where
  "useHotspotActiveStream routerId =
     \<lparr>s_path = (if 0 < routerId then Some (''/devices/'' @ show_int routerId @ ''/stream/hotspot/active'') else None),
      s_events = [], s_event = [Invalidate (hotspot_active_activePrefix routerId)]\<rparr>"

section \<open>Hotspot users without a session\<close>

definition hotspot_inactive_base :: "int \<Rightarrow> string" where
  "hotspot_inactive_base rid = ''/devices/'' @ show_int rid @ ''/hotspot/inactive''"

definition listInactiveHotspotUsers :: "int \<Rightarrow> service" where
  "listInactiveHotspotUsers routerId =
     \<lparr>rq_client = ApiClient, rq_method = GET,
      rq_url = hotspot_inactive_base routerId,
      rq_params = [],
      rq_body = JUndef, rq_config = [], rq_result = unwrap, rq_failure = Inl\<rparr>"

definition getInactiveHotspotUserCount :: "int \<Rightarrow> service" where
  "getInactiveHotspotUserCount routerId =
     \<lparr>rq_client = ApiClient, rq_method = GET,
      rq_url = hotspot_inactive_base routerId @ ''/count'',
      rq_params = [],
      rq_body = JUndef, rq_config = [], rq_result = unwrap_get ''count'', rq_failure = Inl\<rparr>"

definition useHotspotInactive :: "int \<Rightarrow> query_hook" where
  "useHotspotInactive routerId =
     \<lparr>q_key = qk_hotspotInactive routerId, q_fn = listInactiveHotspotUsers routerId,
      q_enabled = (0 < routerId), q_options = []\<rparr>"

definition useHotspotInactiveCount :: "int \<Rightarrow> query_hook" where
  "useHotspotInactiveCount routerId =
     \<lparr>q_key = qk_hotspotInactiveCount routerId, q_fn = getInactiveHotspotUserCount routerId,
      q_enabled = (0 < routerId), q_options = []\<rparr>"

section \<open>Hotspot hosts\<close>

definition hotspot_hosts_base :: "int \<Rightarrow> string" where
  "hotspot_hosts_base rid = ''/devices/'' @ show_int rid @ ''/hotspot/hosts''"

definition listHotspotHosts :: "int \<Rightarrow> service" where
  "listHotspotHosts routerId =
     \<lparr>rq_client = ApiClient, rq_method = GET,
      rq_url = hotspot_hosts_base routerId,
      rq_params = [],
      rq_body = JUndef, rq_config = [], rq_result = unwrap, rq_failure = Inl\<rparr>"

definition removeHotspotHost :: "int \<Rightarrow> string \<Rightarrow> service" where
  "removeHotspotHost routerId ident =
     \<lparr>rq_client = ApiClient, rq_method = DELETE,
      rq_url = hotspot_hosts_base routerId @ ''/'' @ encodeURIComponent ident,
      rq_params = [],
      rq_body = JUndef, rq_config = [], rq_result = no_result, rq_failure = Inl\<rparr>"

definition hotspot_hosts_hostsPrefix :: "int \<Rightarrow> qkey" where
  "hotspot_hosts_hostsPrefix routerId = [KS ''hotspot'', KS ''hosts'', KN routerId]"

definition useHotspotHosts :: "int \<Rightarrow> query_hook" where
  "useHotspotHosts routerId =
     \<lparr>q_key = qk_hotspotHosts routerId, q_fn = listHotspotHosts routerId,
      q_enabled = (0 < routerId), q_options = []\<rparr>"

definition useRemoveHotspotHost :: "int \<Rightarrow> string \<Rightarrow> mutation" where
  "useRemoveHotspotHost routerId ident =
     \<lparr>m_fn = removeHotspotHost routerId ident,
      m_success = (\<lambda>result. [Invalidate (hotspot_hosts_hostsPrefix routerId)])\<rparr>"

section \<open>Hotspot cookies\<close>

definition hotspot_cookies_base :: "int \<Rightarrow> string" where
  "hotspot_cookies_base rid = ''/devices/'' @ show_int rid @ ''/hotspot/cookies''"

definition listHotspotCookies :: "int \<Rightarrow> service" where
  "listHotspotCookies routerId =
     \<lparr>rq_client = ApiClient, rq_method = GET,
      rq_url = hotspot_cookies_base routerId,
      rq_params = [],
      rq_body = JUndef, rq_config = [], rq_result = unwrap, rq_failure = Inl\<rparr>"

definition removeHotspotCookie :: "int \<Rightarrow> string \<Rightarrow> service" where
  "removeHotspotCookie routerId ident =
     \<lparr>rq_client = ApiClient, rq_method = DELETE,
      rq_url = hotspot_cookies_base routerId @ ''/'' @ encodeURIComponent ident,
      rq_params = [],
      rq_body = JUndef, rq_config = [], rq_result = no_result, rq_failure = Inl\<rparr>"

definition hotspot_cookies_cookiesPrefix :: "int \<Rightarrow> qkey" where
  "hotspot_cookies_cookiesPrefix routerId = [KS ''hotspot'', KS ''cookies'', KN routerId]"

definition useHotspotCookies :: "int \<Rightarrow> query_hook" where
  "useHotspotCookies routerId =
     \<lparr>q_key = qk_hotspotCookies routerId, q_fn = listHotspotCookies routerId,
      q_enabled = (0 < routerId), q_options = []\<rparr>"

definition useRemoveHotspotCookie :: "int \<Rightarrow> string \<Rightarrow> mutation" where
  "useRemoveHotspotCookie routerId ident =
     \<lparr>m_fn = removeHotspotCookie routerId ident,
      m_success = (\<lambda>result. [Invalidate (hotspot_cookies_cookiesPrefix routerId)])\<rparr>"

section \<open>Hotspot servers\<close>

definition hotspot_servers_base :: "int \<Rightarrow> string" where
  "hotspot_servers_base rid = ''/devices/'' @ show_int rid @ ''/hotspot/servers''"

definition listHotspotServers :: "int \<Rightarrow> service" where
  "listHotspotServers routerId =
     \<lparr>rq_client = ApiClient, rq_method = GET,
      rq_url = hotspot_servers_base routerId,
      rq_params = [],
      rq_body = JUndef, rq_config = [], rq_result = unwrap, rq_failure = Inl\<rparr>"

definition useHotspotServers :: "int \<Rightarrow> query_hook" where
  "useHotspotServers routerId =
     \<lparr>q_key = qk_hotspotServers routerId, q_fn = listHotspotServers routerId,
      q_enabled = (0 < routerId), q_options = []\<rparr>"

section \<open>Hotspot IP bindings\<close>

definition hotspot_bindings_base :: "int \<Rightarrow> string" where
  "hotspot_bindings_base rid = ''/devices/'' @ show_int rid @ ''/hotspot/bindings''"

definition listIPBindings :: "int \<Rightarrow> service" where
  "listIPBindings routerId =
     \<lparr>rq_client = ApiClient, rq_method = GET,
      rq_url = hotspot_bindings_base routerId,
      rq_params = [],
      rq_body = JUndef, rq_config = [], rq_result = unwrap, rq_failure = Inl\<rparr>"

definition addIPBinding :: "int \<Rightarrow> js \<Rightarrow> service" where
  "addIPBinding routerId payload =
     \<lparr>rq_client = ApiClient, rq_method = POST,
      rq_url = hotspot_bindings_base routerId,
      rq_params = [],
      rq_body = payload, rq_config = [], rq_result = unwrap, rq_failure = Inl\<rparr>"

definition updateIPBinding :: "int \<Rightarrow> string \<Rightarrow> js \<Rightarrow> service" where
  "updateIPBinding routerId ident patch =
     \<lparr>rq_client = ApiClient, rq_method = PUT,
      rq_url = hotspot_bindings_base routerId @ ''/'' @ encodeURIComponent ident,
      rq_params = [],
      rq_body = patch, rq_config = [], rq_result = no_result, rq_failure = Inl\<rparr>"

definition removeIPBinding :: "int \<Rightarrow> string \<Rightarrow> service" where
  "removeIPBinding routerId ident =
     \<lparr>rq_client = ApiClient, rq_method = DELETE,
      rq_url = hotspot_bindings_base routerId @ ''/'' @ encodeURIComponent ident,
      rq_params = [],
      rq_body = JUndef, rq_config = [], rq_result = no_result, rq_failure = Inl\<rparr>"

definition enableIPBinding :: "int \<Rightarrow> string \<Rightarrow> service" where
  "enableIPBinding routerId ident =
     \<lparr>rq_client = ApiClient, rq_method = POST,
      rq_url = hotspot_bindings_base routerId @ ''/'' @ encodeURIComponent ident @ ''/enable'',
      rq_params = [],
      rq_body = JUndef, rq_config = [], rq_result = no_result, rq_failure = Inl\<rparr>"

definition disableIPBinding :: "int \<Rightarrow> string \<Rightarrow> service" where
  "disableIPBinding routerId ident =
     \<lparr>rq_client = ApiClient, rq_method = POST,
      rq_url = hotspot_bindings_base routerId @ ''/'' @ encodeURIComponent ident @ ''/disable'',
      rq_params = [],
      rq_body = JUndef, rq_config = [], rq_result = no_result, rq_failure = Inl\<rparr>"

definition hotspot_bindings_bindingsPrefix :: "int \<Rightarrow> qkey" where
  "hotspot_bindings_bindingsPrefix routerId = [KS ''hotspot'', KS ''bindings'', KN routerId]"

definition useHotspotBindings :: "int \<Rightarrow> query_hook" where
  "useHotspotBindings routerId =
     \<lparr>q_key = qk_hotspotBindings routerId, q_fn = listIPBindings routerId,
      q_enabled = (0 < routerId), q_options = []\<rparr>"

definition useAddIPBinding :: "int \<Rightarrow> js \<Rightarrow> mutation" where
  "useAddIPBinding routerId payload =
     \<lparr>m_fn = addIPBinding routerId payload,
      m_success = (\<lambda>result. [Invalidate (hotspot_bindings_bindingsPrefix routerId)])\<rparr>"

definition useUpdateIPBinding :: "int \<Rightarrow> string \<Rightarrow> js \<Rightarrow> mutation" where
  "useUpdateIPBinding routerId ident patch =
     \<lparr>m_fn = updateIPBinding routerId ident patch,
      m_success = (\<lambda>result. [Invalidate (hotspot_bindings_bindingsPrefix routerId)])\<rparr>"

definition useRemoveIPBinding :: "int \<Rightarrow> string \<Rightarrow> mutation" where
  "useRemoveIPBinding routerId ident =
     \<lparr>m_fn = removeIPBinding routerId ident,
      m_success = (\<lambda>result. [Invalidate (hotspot_bindings_bindingsPrefix routerId)])\<rparr>"

definition useEnableIPBinding :: "int \<Rightarrow> string \<Rightarrow> mutation" where
  "useEnableIPBinding routerId ident =
     \<lparr>m_fn = enableIPBinding routerId ident,
      m_success = (\<lambda>result. [Invalidate (hotspot_bindings_bindingsPrefix routerId)])\<rparr>"

definition useDisableIPBinding :: "int \<Rightarrow> string \<Rightarrow> mutation" where
  "useDisableIPBinding routerId ident =
     \<lparr>m_fn = disableIPBinding routerId ident,
      m_success = (\<lambda>result. [Invalidate (hotspot_bindings_bindingsPrefix routerId)])\<rparr>"

section \<open>Hotspot profiles in the database\<close>

definition hotspot_billing_base :: "int \<Rightarrow> string" where
  "hotspot_billing_base rid = ''/devices/'' @ show_int rid @ ''/hotspot-profiles''"

definition listHotspotDbProfiles :: "int \<Rightarrow> filters option \<Rightarrow> service" where
  "listHotspotDbProfiles routerId filters =
     \<lparr>rq_client = ApiClient, rq_method = GET,
      rq_url = hotspot_billing_base routerId,
      rq_params = or_else filters [],
      rq_body = JUndef, rq_config = [], rq_result = unwrap, rq_failure = Inl\<rparr>"

definition createHotspotDbProfile :: "int \<Rightarrow> js \<Rightarrow> service" where
  "createHotspotDbProfile routerId payload =
     \<lparr>rq_client = ApiClient, rq_method = POST,
      rq_url = hotspot_billing_base routerId,
      rq_params = [],
      rq_body = payload, rq_config = [], rq_result = unwrap, rq_failure = Inl\<rparr>"

definition updateHotspotDbProfile :: "int \<Rightarrow> int \<Rightarrow> js \<Rightarrow> service" where
  "updateHotspotDbProfile routerId ident payload =
     \<lparr>rq_client = ApiClient, rq_method = PUT,
      rq_url = hotspot_billing_base routerId @ ''/'' @ show_int ident,
      rq_params = [],
      rq_body = payload, rq_config = [], rq_result = unwrap, rq_failure = Inl\<rparr>"

definition removeHotspotDbProfile :: "int \<Rightarrow> int \<Rightarrow> service" where
  "removeHotspotDbProfile routerId ident =
     \<lparr>rq_client = ApiClient, rq_method = DELETE,
      rq_url = hotspot_billing_base routerId @ ''/'' @ show_int ident,
      rq_params = [],
      rq_body = JUndef, rq_config = [], rq_result = no_result, rq_failure = Inl\<rparr>"

definition syncHotspotDbProfiles :: "int \<Rightarrow> string option \<Rightarrow> service" where
  "syncHotspotDbProfiles routerId role =
     \<lparr>rq_client = ApiClient, rq_method = POST,
      rq_url = hotspot_billing_base routerId @ ''/sync'',
      rq_params = (if or_else role [] \<noteq> [] then [(''role'', opt_str role)] else []),
      rq_body = JUndef, rq_config = [], rq_result = unwrap, rq_failure = Inl\<rparr>"

definition hotspot_billing_dbPrefix :: "int \<Rightarrow> qkey" where
  "hotspot_billing_dbPrefix rid = [KS ''hotspot'', KS ''profiles-db'', KN rid]"

definition useHotspotDbProfiles :: "int \<Rightarrow> filters option \<Rightarrow> query_hook" where
  "useHotspotDbProfiles routerId filters =
     \<lparr>q_key = qk_hotspotProfilesDB routerId filters, q_fn = listHotspotDbProfiles routerId filters,
      q_enabled = (0 < routerId), q_options = []\<rparr>"

definition useCreateHotspotDbProfile :: "int \<Rightarrow> js \<Rightarrow> mutation" where
  "useCreateHotspotDbProfile routerId payload =
     \<lparr>m_fn = createHotspotDbProfile routerId payload,
      m_success = (\<lambda>result. [Invalidate (hotspot_billing_dbPrefix routerId)])\<rparr>"

definition useUpdateHotspotDbProfile :: "int \<Rightarrow> int \<Rightarrow> js \<Rightarrow> mutation" where
  "useUpdateHotspotDbProfile routerId ident payload =
     \<lparr>m_fn = updateHotspotDbProfile routerId ident payload,
      m_success = (\<lambda>result. [Invalidate (hotspot_billing_dbPrefix routerId)])\<rparr>"

definition useRemoveHotspotDbProfile :: "int \<Rightarrow> int \<Rightarrow> mutation" where
  "useRemoveHotspotDbProfile routerId ident =
     \<lparr>m_fn = removeHotspotDbProfile routerId ident,
      m_success = (\<lambda>result. [Invalidate (hotspot_billing_dbPrefix routerId)])\<rparr>"

definition useSyncHotspotDbProfiles :: "int \<Rightarrow> string option \<Rightarrow> mutation" where
  "useSyncHotspotDbProfiles routerId role =
     \<lparr>m_fn = syncHotspotDbProfiles routerId role,
      m_success = (\<lambda>result. [Invalidate (hotspot_billing_dbPrefix routerId)])\<rparr>"

section \<open>Voucher generation\<close>

definition voucher_generate_base :: "int \<Rightarrow> string" where
  "voucher_generate_base rid = ''/devices/'' @ show_int rid @ ''/hotspot/vouchers''"

definition voucher_generate_listHotspotServers :: "int \<Rightarrow> service" where
  "voucher_generate_listHotspotServers routerId =
     \<lparr>rq_client = ApiClient, rq_method = GET,
      rq_url = ''/devices/'' @ show_int routerId @ ''/hotspot/servers'',
      rq_params = [],
      rq_body = JUndef, rq_config = [], rq_result = unwrap, rq_failure = Inl\<rparr>"

definition generateVoucher :: "int \<Rightarrow> js \<Rightarrow> service" where
  "generateVoucher routerId params =
     \<lparr>rq_client = ApiClient, rq_method = POST,
      rq_url = voucher_generate_base routerId @ ''/generate'',
      rq_params = [],
      rq_body = params, rq_config = [], rq_result = unwrap, rq_failure = Inl\<rparr>"

definition getCachedVouchers :: "int \<Rightarrow> string \<Rightarrow> service" where
  "getCachedVouchers routerId gencode =
     \<lparr>rq_client = ApiClient, rq_method = POST,
      rq_url = voucher_generate_base routerId @ ''/cache'',
      rq_params = [],
      rq_body = JObj ([(''gencode'', JStr gencode)]), rq_config = [], rq_result = unwrap, rq_failure = Inl\<rparr>"

definition voucher_generate_voucherSessionPrefix :: "int \<Rightarrow> qkey" where
  "voucher_generate_voucherSessionPrefix routerId = [KS ''voucher'', KS ''session'', KN routerId]"

definition voucher_generate_useHotspotServers :: "int \<Rightarrow> query_hook" where
  "voucher_generate_useHotspotServers routerId =
     \<lparr>q_key = [KS ''hotspot'', KS ''servers'', KN routerId], q_fn = voucher_generate_listHotspotServers routerId,
      q_enabled = (0 < routerId), q_options = [(''staleTime'', JNum 60000)]\<rparr>"

definition useCachedVouchers :: "int \<Rightarrow> string \<Rightarrow> query_hook" where
  "useCachedVouchers routerId gencode =
     \<lparr>q_key = qk_voucherSession routerId gencode, q_fn = getCachedVouchers routerId gencode,
      q_enabled = (0 < routerId \<and> gencode \<noteq> []), q_options = []\<rparr>"

definition useGenerateVoucher :: "int \<Rightarrow> js \<Rightarrow> mutation" where
  "useGenerateVoucher routerId params =
     \<lparr>m_fn = generateVoucher routerId params,
      m_success = (\<lambda>result. [SetQueryData (qk_voucherSession routerId (str_of (js_optget result ''gencode''))) result, Invalidate (voucher_generate_voucherSessionPrefix routerId)])\<rparr>"

section \<open>Quick-print packages\<close>

definition voucher_print_base :: "int \<Rightarrow> string" where
  "voucher_print_base rid = ''/devices/'' @ show_int rid @ ''/quick-print''"

definition listQuickPrintPackages :: "int \<Rightarrow> service" where
  "listQuickPrintPackages routerId =
     \<lparr>rq_client = ApiClient, rq_method = GET,
      rq_url = voucher_print_base routerId,
      rq_params = [],
      rq_body = JUndef, rq_config = [], rq_result = unwrap, rq_failure = Inl\<rparr>"

definition getQuickPrintPackage :: "int \<Rightarrow> string \<Rightarrow> service" where
  "getQuickPrintPackage routerId name =
     \<lparr>rq_client = ApiClient, rq_method = GET,
      rq_url = voucher_print_base routerId @ ''/'' @ encodeURIComponent name,
      rq_params = [],
      rq_body = JUndef, rq_config = [], rq_result = unwrap, rq_failure = Inl\<rparr>"

definition createQuickPrintPackage :: "int \<Rightarrow> js \<Rightarrow> service" where
  "createQuickPrintPackage routerId body =
     \<lparr>rq_client = ApiClient, rq_method = POST,
      rq_url = voucher_print_base routerId,
      rq_params = [],
      rq_body = body, rq_config = [], rq_result = no_result, rq_failure = Inl\<rparr>"

definition updateQuickPrintPackage :: "int \<Rightarrow> string \<Rightarrow> js \<Rightarrow> service" where
  "updateQuickPrintPackage routerId name body =
     \<lparr>rq_client = ApiClient, rq_method = PUT,
      rq_url = voucher_print_base routerId @ ''/'' @ encodeURIComponent name,
      rq_params = [],
      rq_body = body, rq_config = [], rq_result = no_result, rq_failure = Inl\<rparr>"

definition removeQuickPrintPackage :: "int \<Rightarrow> string \<Rightarrow> service" where
  "removeQuickPrintPackage routerId name =
     \<lparr>rq_client = ApiClient, rq_method = DELETE,
      rq_url = voucher_print_base routerId @ ''/'' @ encodeURIComponent name,
      rq_params = [],
      rq_body = JUndef, rq_config = [], rq_result = no_result, rq_failure = Inl\<rparr>"

definition voucher_print_packagesPrefix :: "int \<Rightarrow> qkey" where
  "voucher_print_packagesPrefix routerId = [KS ''quick-print'', KS ''packages'', KN routerId]"

definition useQuickPrintPackages :: "int \<Rightarrow> query_hook" where
  "useQuickPrintPackages routerId =
     \<lparr>q_key = qk_quickPrintPackages routerId, q_fn = listQuickPrintPackages routerId,
      q_enabled = (0 < routerId), q_options = []\<rparr>"

definition useQuickPrintPackage :: "int \<Rightarrow> string \<Rightarrow> query_hook" where
  "useQuickPrintPackage routerId name =
     \<lparr>q_key = qk_quickPrintPackage routerId name, q_fn = getQuickPrintPackage routerId name,
      q_enabled = (0 < routerId \<and> name \<noteq> []), q_options = []\<rparr>"

definition useCreateQuickPrintPackage :: "int \<Rightarrow> js \<Rightarrow> mutation" where
  "useCreateQuickPrintPackage routerId body =
     \<lparr>m_fn = createQuickPrintPackage routerId body,
      m_success = (\<lambda>result. [Invalidate (voucher_print_packagesPrefix routerId)])\<rparr>"

definition useUpdateQuickPrintPackage :: "int \<Rightarrow> string \<Rightarrow> js \<Rightarrow> mutation" where
  "useUpdateQuickPrintPackage routerId name body =
     \<lparr>m_fn = updateQuickPrintPackage routerId name body,
      m_success = (\<lambda>result. [Invalidate (voucher_print_packagesPrefix routerId)])\<rparr>"

definition useRemoveQuickPrintPackage :: "int \<Rightarrow> string \<Rightarrow> mutation" where
  "useRemoveQuickPrintPackage routerId name =
     \<lparr>m_fn = removeQuickPrintPackage routerId name,
      m_success = (\<lambda>result. [Invalidate (voucher_print_packagesPrefix routerId)])\<rparr>"

section \<open>Voucher printing\<close>

definition voucher_render_voucherBase :: "int \<Rightarrow> string" where
  "voucher_render_voucherBase rid = ''/devices/'' @ show_int rid @ ''/vouchers''"

definition getPrintData :: "int \<Rightarrow> string \<Rightarrow> service" where
  "getPrintData routerId gencode =
     \<lparr>rq_client = ApiClient, rq_method = GET,
      rq_url = voucher_render_voucherBase routerId @ ''/print-data'',
      rq_params = [(''gencode'', JStr gencode)],
      rq_body = JUndef, rq_config = [], rq_result = unwrap, rq_failure = Inl\<rparr>"

definition printVouchers :: "int \<Rightarrow> js \<Rightarrow> service" where
  "printVouchers routerId body =
     \<lparr>rq_client = ApiClient, rq_method = POST,
      rq_url = voucher_render_voucherBase routerId @ ''/print'',
      rq_params = [],
      rq_body = body, rq_config = [(''responseType'', JStr ''text'')], rq_result = Inr, rq_failure = Inl\<rparr>"

definition renderTemplate :: "js \<Rightarrow> service" where
  "renderTemplate body =
     \<lparr>rq_client = ApiClient, rq_method = POST,
      rq_url = ''/templates/render'',
      rq_params = [],
      rq_body = body, rq_config = [(''responseType'', JStr ''text'')], rq_result = Inr, rq_failure = Inl\<rparr>"

definition usePrintData :: "int \<Rightarrow> string \<Rightarrow> query_hook" where
  "usePrintData routerId gencode =
     \<lparr>q_key = qk_voucherPrintData routerId gencode, q_fn = getPrintData routerId gencode,
      q_enabled = (0 < routerId \<and> gencode \<noteq> []), q_options = []\<rparr>"

definition usePrintVouchers :: "int \<Rightarrow> js \<Rightarrow> mutation" where
  "usePrintVouchers routerId body =
     \<lparr>m_fn = printVouchers routerId body,
      m_success = (\<lambda>result. [])\<rparr>"

definition useRenderTemplate :: "js \<Rightarrow> mutation" where
  "useRenderTemplate body =
     \<lparr>m_fn = renderTemplate body,
      m_success = (\<lambda>result. [])\<rparr>"

section \<open>Sales and reports\<close>

definition voucher_sales_reportsBase :: "int \<Rightarrow> string" where
  "voucher_sales_reportsBase rid = ''/devices/'' @ show_int rid @ ''/reports''"

definition recordSale :: "int \<Rightarrow> js \<Rightarrow> service" where
  "recordSale routerId params =
     \<lparr>rq_client = ApiClient, rq_method = POST,
      rq_url = voucher_sales_reportsBase routerId @ ''/sales'',
      rq_params = [],
      rq_body = params, rq_config = [], rq_result = no_result, rq_failure = Inl\<rparr>"

definition importSales :: "int \<Rightarrow> service" where
  "importSales routerId =
     \<lparr>rq_client = ApiClient, rq_method = POST,
      rq_url = voucher_sales_reportsBase routerId @ ''/import'',
      rq_params = [],
      rq_body = JUndef, rq_config = [], rq_result = unwrap, rq_failure = Inl\<rparr>"

definition getDailyReport :: "int \<Rightarrow> string \<Rightarrow> filters option \<Rightarrow> service" where
  "getDailyReport routerId date filters =
     \<lparr>rq_client = ApiClient, rq_method = GET,
      rq_url = voucher_sales_reportsBase routerId @ ''/daily'',
      rq_params = obj_spread [(''date'', JStr date)] (or_else filters []),
      rq_body = JUndef, rq_config = [], rq_result = unwrap, rq_failure = Inl\<rparr>"

definition getMonthlyReport :: "int \<Rightarrow> int \<Rightarrow> int \<Rightarrow> service" where
  "getMonthlyReport routerId year month =
     \<lparr>rq_client = ApiClient, rq_method = GET,
      rq_url = voucher_sales_reportsBase routerId @ ''/monthly'',
      rq_params = [(''year'', JNum (of_int year)), (''month'', JNum (of_int month))],
      rq_body = JUndef, rq_config = [], rq_result = unwrap, rq_failure = Inl\<rparr>"

definition getResumeReport :: "int \<Rightarrow> int \<Rightarrow> service" where
  "getResumeReport routerId year =
     \<lparr>rq_client = ApiClient, rq_method = GET,
      rq_url = voucher_sales_reportsBase routerId @ ''/resume'',
      rq_params = [(''year'', JNum (of_int year))],
      rq_body = JUndef, rq_config = [], rq_result = unwrap, rq_failure = Inl\<rparr>"

definition getDashboardSummary :: "int \<Rightarrow> service" where
  "getDashboardSummary routerId =
     \<lparr>rq_client = ApiClient, rq_method = GET,
      rq_url = voucher_sales_reportsBase routerId @ ''/summary'',
      rq_params = [],
      rq_body = JUndef, rq_config = [], rq_result = unwrap, rq_failure = Inl\<rparr>"

definition exportSalesCSV :: "int \<Rightarrow> string \<Rightarrow> string \<Rightarrow> filters option \<Rightarrow> service" where
  "exportSalesCSV routerId from_date to_date filters =
     \<lparr>rq_client = ApiClient, rq_method = GET,
      rq_url = voucher_sales_reportsBase routerId @ ''/export/csv'',
      rq_params = obj_spread [(''from'', JStr from_date), (''to'', JStr to_date)] (or_else filters []),
      rq_body = JUndef, rq_config = [(''responseType'', JStr ''blob'')], rq_result = Inr, rq_failure = Inl\<rparr>"

definition exportSalesExcel :: "int \<Rightarrow> string \<Rightarrow> string \<Rightarrow> filters option \<Rightarrow> service" where
  "exportSalesExcel routerId from_date to_date filters =
     \<lparr>rq_client = ApiClient, rq_method = GET,
      rq_url = voucher_sales_reportsBase routerId @ ''/export/excel'',
      rq_params = obj_spread [(''from'', JStr from_date), (''to'', JStr to_date)] (or_else filters []),
      rq_body = JUndef, rq_config = [(''responseType'', JStr ''blob'')], rq_result = Inr, rq_failure = Inl\<rparr>"

definition listSales :: "int \<Rightarrow> filters \<Rightarrow> service" where
  "listSales routerId params =
     \<lparr>rq_client = ApiClient, rq_method = GET,
      rq_url = voucher_sales_reportsBase routerId @ ''/sales'',
      rq_params = params,
      rq_body = JUndef, rq_config = [], rq_result = unwrap, rq_failure = Inl\<rparr>"

definition voucher_sales_reportPrefix :: "qkey" where
  "voucher_sales_reportPrefix = [KS ''report'']"

definition voucher_sales_voucherSessionPrefix :: "int \<Rightarrow> qkey" where
  "voucher_sales_voucherSessionPrefix rid = [KS ''voucher'', KS ''session'', KN rid]"

definition voucher_sales_salesListPrefix :: "int \<Rightarrow> qkey" where
  "voucher_sales_salesListPrefix rid = [KS ''voucher'', KS ''sales'', KN rid]"

definition voucher_sales_invalidateReports :: "int \<Rightarrow> cache_op list" where
  "voucher_sales_invalidateReports routerId = [Invalidate (voucher_sales_reportPrefix), Invalidate (voucher_sales_voucherSessionPrefix routerId), Invalidate (voucher_sales_salesListPrefix routerId)]"

definition useDailyReport :: "int \<Rightarrow> string \<Rightarrow> filters option \<Rightarrow> query_hook" where
  "useDailyReport routerId date filters =
     \<lparr>q_key = qk_reportDaily routerId date filters, q_fn = getDailyReport routerId date filters,
      q_enabled = (0 < routerId \<and> date \<noteq> []), q_options = []\<rparr>"

definition useMonthlyReport :: "int \<Rightarrow> int \<Rightarrow> int \<Rightarrow> query_hook" where
  "useMonthlyReport routerId year month =
     \<lparr>q_key = qk_reportMonthly routerId year month, q_fn = getMonthlyReport routerId year month,
      q_enabled = (0 < routerId \<and> 0 < year \<and> 1 \<le> month \<and> month \<le> 12), q_options = []\<rparr>"

definition useResumeReport :: "int \<Rightarrow> int \<Rightarrow> query_hook" where
  "useResumeReport routerId year =
     \<lparr>q_key = qk_reportResume routerId year, q_fn = getResumeReport routerId year,
      q_enabled = (0 < routerId \<and> 0 < year), q_options = []\<rparr>"

definition useDashboardSummary :: "int \<Rightarrow> query_hook" where
  "useDashboardSummary routerId =
     \<lparr>q_key = qk_reportSummary routerId, q_fn = getDashboardSummary routerId,
      q_enabled = (0 < routerId), q_options = []\<rparr>"

definition useSalesList :: "int \<Rightarrow> filters \<Rightarrow> query_hook" where
  "useSalesList routerId params =
     \<lparr>q_key = qk_salesList routerId (Some params), q_fn = listSales routerId params,
      q_enabled = (0 < routerId \<and> string_nonempty (js_optget (JObj params) ''from'') \<and> string_nonempty (js_optget (JObj params) ''to'') \<and> num_positive (js_optget (JObj params) ''page'') \<and> num_positive (js_optget (JObj params) ''page_size'')), q_options = []\<rparr>"

definition useRecordSale :: "int \<Rightarrow> js \<Rightarrow> mutation" where
  "useRecordSale routerId params =
     \<lparr>m_fn = recordSale routerId params,
      m_success = (\<lambda>result. voucher_sales_invalidateReports routerId)\<rparr>"

definition useImportSales :: "int \<Rightarrow> mutation" where
  "useImportSales routerId =
     \<lparr>m_fn = importSales routerId,
      m_success = (\<lambda>result. voucher_sales_invalidateReports routerId)\<rparr>"


end
