(* ===== verification/Device_Api.thy ===== *)
theory Device_Api
  imports Api_Request
begin

text \<open>
  The service functions and hooks of the other features that talk to one router (PPP, network,
  traffic, log, system, selling reports) and of the router list itself.
\<close>

section \<open>PPP secrets\<close>

definition ppp_secrets_base :: "int \<Rightarrow> string" where
  "ppp_secrets_base rid = ''/devices/'' @ show_int rid @ ''/ppp/secrets''"

definition listPPPSecrets :: "int \<Rightarrow> service" where
  "listPPPSecrets routerId =
     \<lparr>rq_client = ApiClient, rq_method = GET,
      rq_url = ppp_secrets_base routerId,
      rq_params = [],
      rq_body = JUndef, rq_config = [], rq_result = unwrap, rq_failure = Inl\<rparr>"

definition addPPPSecret :: "int \<Rightarrow> js \<Rightarrow> service" where
  "addPPPSecret routerId payload =
     \<lparr>rq_client = ApiClient, rq_method = POST,
      rq_url = ppp_secrets_base routerId,
      rq_params = [],
      rq_body = payload, rq_config = [], rq_result = unwrap, rq_failure = Inl\<rparr>"

definition updatePPPSecret :: "int \<Rightarrow> string \<Rightarrow> js \<Rightarrow> service" where
  "updatePPPSecret routerId ident patch =
     \<lparr>rq_client = ApiClient, rq_method = PUT,
      rq_url = ppp_secrets_base routerId @ ''/'' @ encodeURIComponent ident,
      rq_params = [],
      rq_body = patch, rq_config = [], rq_result = no_result, rq_failure = Inl\<rparr>"

definition setPPPSecretDisabled :: "int \<Rightarrow> string \<Rightarrow> bool \<Rightarrow> service" where
  "setPPPSecretDisabled routerId ident disabled =
     \<lparr>rq_client = ApiClient, rq_method = PATCH,
      rq_url = ppp_secrets_base routerId @ ''/'' @ encodeURIComponent ident @ ''/disabled'',
      rq_params = [],
      rq_body = JObj ([(''disabled'', JBool disabled)]), rq_config = [], rq_result = no_result, rq_failure = Inl\<rparr>"

definition removePPPSecret :: "int \<Rightarrow> string \<Rightarrow> service" where
  "removePPPSecret routerId ident =
     \<lparr>rq_client = ApiClient, rq_method = DELETE,
      rq_url = ppp_secrets_base routerId @ ''/'' @ encodeURIComponent ident,
      rq_params = [],
      rq_body = JUndef, rq_config = [], rq_result = no_result, rq_failure = Inl\<rparr>"

definition batchRemovePPPSecrets :: "int \<Rightarrow> string list \<Rightarrow> service" where
  "batchRemovePPPSecrets routerId ids =
     \<lparr>rq_client = ApiClient, rq_method = POST,
      rq_url = ppp_secrets_base routerId @ ''/batch-delete'',
      rq_params = [],
      rq_body = JObj ([(''ids'', JArr (map JStr ids))]), rq_config = [], rq_result = unwrap_get ''deleted'', rq_failure = Inl\<rparr>"

definition revealPPPSecretPassword :: "int \<Rightarrow> string \<Rightarrow> service" where
  "revealPPPSecretPassword routerId ident =
     \<lparr>rq_client = ApiClient, rq_method = GET,
      rq_url = ppp_secrets_base routerId @ ''/'' @ encodeURIComponent ident @ ''/password'',
      rq_params = [],
      rq_body = JUndef, rq_config = [], rq_result = unwrap_get ''password'', rq_failure = Inl\<rparr>"

definition ppp_secrets_secretsPrefix :: "int \<Rightarrow> qkey" where
  "ppp_secrets_secretsPrefix routerId = [KS ''ppp'', KS ''secrets'', KN routerId]"

definition usePPPSecrets :: "int \<Rightarrow> query_hook" where
  "usePPPSecrets routerId =
     \<lparr>q_key = qk_pppSecrets routerId, q_fn = listPPPSecrets routerId,
      q_enabled = (0 < routerId), q_options = []\<rparr>"

definition useAddPPPSecret :: "int \<Rightarrow> js \<Rightarrow> mutation" where
  "useAddPPPSecret routerId payload =
     \<lparr>m_fn = addPPPSecret routerId payload,
      m_success = (\<lambda>result. [Invalidate (ppp_secrets_secretsPrefix routerId)])\<rparr>"

definition useUpdatePPPSecret :: "int \<Rightarrow> string \<Rightarrow> js \<Rightarrow> mutation" where
  "useUpdatePPPSecret routerId ident patch =
     \<lparr>m_fn = updatePPPSecret routerId ident patch,
      m_success = (\<lambda>result. [Invalidate (ppp_secrets_secretsPrefix routerId)])\<rparr>"

definition useSetPPPSecretDisabled :: "int \<Rightarrow> string \<Rightarrow> bool \<Rightarrow> mutation" where
  "useSetPPPSecretDisabled routerId ident disabled =
     \<lparr>m_fn = setPPPSecretDisabled routerId ident disabled,
      m_success = (\<lambda>result. [Invalidate (ppp_secrets_secretsPrefix routerId)])\<rparr>"

definition useRemovePPPSecret :: "int \<Rightarrow> string \<Rightarrow> mutation" where
  "useRemovePPPSecret routerId ident =
     \<lparr>m_fn = removePPPSecret routerId ident,
      m_success = (\<lambda>result. [Invalidate (ppp_secrets_secretsPrefix routerId)])\<rparr>"

definition useBatchRemovePPPSecrets :: "int \<Rightarrow> string list \<Rightarrow> mutation" where
  "useBatchRemovePPPSecrets routerId ids =
     \<lparr>m_fn = batchRemovePPPSecrets routerId ids,
      m_success = (\<lambda>result. [Invalidate (ppp_secrets_secretsPrefix routerId)])\<rparr>"

section \<open>PPP sessions\<close>

definition ppp_active_base :: "int \<Rightarrow> string" where
  "ppp_active_base rid = ''/devices/'' @ show_int rid @ ''/ppp/active''"

definition listPPPActive :: "int \<Rightarrow> service" where
  "listPPPActive routerId =
     \<lparr>rq_client = ApiClient, rq_method = GET,
      rq_url = ppp_active_base routerId,
      rq_params = [],
      rq_body = JUndef, rq_config = [], rq_result = unwrap, rq_failure = Inl\<rparr>"

definition disconnectPPPActive :: "int \<Rightarrow> string \<Rightarrow> service" where
  "disconnectPPPActive routerId ident =
     \<lparr>rq_client = ApiClient, rq_method = DELETE,
      rq_url = ppp_active_base routerId @ ''/'' @ encodeURIComponent ident,
      rq_params = [],
      rq_body = JUndef, rq_config = [], rq_result = no_result, rq_failure = Inl\<rparr>"

definition ppp_active_activePrefix :: "int \<Rightarrow> qkey" where
  "ppp_active_activePrefix routerId = [KS ''ppp'', KS ''active'', KN routerId]"

definition usePPPActive :: "int \<Rightarrow> query_hook" where
  "usePPPActive routerId =
     \<lparr>q_key = qk_pppActive routerId, q_fn = listPPPActive routerId,
      q_enabled = (0 < routerId), q_options = []\<rparr>"

definition useDisconnectPPPActive :: "int \<Rightarrow> string \<Rightarrow> mutation" where
  "useDisconnectPPPActive routerId ident =
     \<lparr>m_fn = disconnectPPPActive routerId ident,
      m_success = (\<lambda>result. [Invalidate (ppp_active_activePrefix routerId)])\<rparr>"

definition usePPPActiveStream :: "int \<Rightarrow> stream_hook" where
  "usePPPActiveStream routerId =
     \<lparr>s_path = (if 0 < routerId then Some (''/devices/'' @ show_int routerId @ ''/stream/ppp/active'') else None),
      s_events = [], s_event = [Invalidate (ppp_active_activePrefix routerId)]\<rparr>"

section \<open>PPP profiles\<close>

definition ppp_profiles_base :: "int \<Rightarrow> string" where
  "ppp_profiles_base rid = ''/devices/'' @ show_int rid @ ''/ppp/profiles''"

definition listPPPProfiles :: "int \<Rightarrow> service" where
  "listPPPProfiles routerId =
     \<lparr>rq_client = ApiClient, rq_method = GET,
      rq_url = ppp_profiles_base routerId,
      rq_params = [],
      rq_body = JUndef, rq_config = [], rq_result = unwrap, rq_failure = Inl\<rparr>"

definition addPPPProfile :: "int \<Rightarrow> js \<Rightarrow> service" where
  "addPPPProfile routerId payload =
     \<lparr>rq_client = ApiClient, rq_method = POST,
      rq_url = ppp_profiles_base routerId,
      rq_params = [],
      rq_body = payload, rq_config = [], rq_result = unwrap, rq_failure = Inl\<rparr>"

definition updatePPPProfile :: "int \<Rightarrow> string \<Rightarrow> js \<Rightarrow> service" where
  "updatePPPProfile routerId ident patch =
     \<lparr>rq_client = ApiClient, rq_method = PUT,
      rq_url = ppp_profiles_base routerId @ ''/'' @ encodeURIComponent ident,
      rq_params = [],
      rq_body = patch, rq_config = [], rq_result = no_result, rq_failure = Inl\<rparr>"

definition removePPPProfile :: "int \<Rightarrow> string \<Rightarrow> service" where
  "removePPPProfile routerId ident =
     \<lparr>rq_client = ApiClient, rq_method = DELETE,
      rq_url = ppp_profiles_base routerId @ ''/'' @ encodeURIComponent ident,
      rq_params = [],
      rq_body = JUndef, rq_config = [], rq_result = no_result, rq_failure = Inl\<rparr>"

definition ppp_profiles_profilesPrefix :: "int \<Rightarrow> qkey" where
  "ppp_profiles_profilesPrefix routerId = [KS ''ppp'', KS ''profiles'', KN routerId]"

definition usePPPProfiles :: "int \<Rightarrow> query_hook" where
  "usePPPProfiles routerId =
     \<lparr>q_key = qk_pppProfiles routerId, q_fn = listPPPProfiles routerId,
      q_enabled = (0 < routerId), q_options = []\<rparr>"

definition useAddPPPProfile :: "int \<Rightarrow> js \<Rightarrow> mutation" where
  "useAddPPPProfile routerId payload =
     \<lparr>m_fn = addPPPProfile routerId payload,
      m_success = (\<lambda>result. [Invalidate (ppp_profiles_profilesPrefix routerId)])\<rparr>"

definition useUpdatePPPProfile :: "int \<Rightarrow> string \<Rightarrow> js \<Rightarrow> mutation" where
  "useUpdatePPPProfile routerId ident patch =
     \<lparr>m_fn = updatePPPProfile routerId ident patch,
      m_success = (\<lambda>result. [Invalidate (ppp_profiles_profilesPrefix routerId)])\<rparr>"

definition useRemovePPPProfile :: "int \<Rightarrow> string \<Rightarrow> mutation" where
  "useRemovePPPProfile routerId ident =
     \<lparr>m_fn = removePPPProfile routerId ident,
      m_success = (\<lambda>result. [Invalidate (ppp_profiles_profilesPrefix routerId)])\<rparr>"

section \<open>PPP profiles in the database\<close>

definition ppp_billing_base :: "int \<Rightarrow> string" where
  "ppp_billing_base rid = ''/devices/'' @ show_int rid @ ''/ppp-profiles''"

definition listPPPDbProfiles :: "int \<Rightarrow> service" where
  "listPPPDbProfiles routerId =
     \<lparr>rq_client = ApiClient, rq_method = GET,
      rq_url = ppp_billing_base routerId,
      rq_params = [],
      rq_body = JUndef, rq_config = [], rq_result = unwrap, rq_failure = Inl\<rparr>"

definition createPPPDbProfile :: "int \<Rightarrow> js \<Rightarrow> service" where
  "createPPPDbProfile routerId payload =
     \<lparr>rq_client = ApiClient, rq_method = POST,
      rq_url = ppp_billing_base routerId,
      rq_params = [],
      rq_body = payload, rq_config = [], rq_result = unwrap, rq_failure = Inl\<rparr>"

definition updatePPPDbProfile :: "int \<Rightarrow> int \<Rightarrow> js \<Rightarrow> service" where
  "updatePPPDbProfile routerId ident payload =
     \<lparr>rq_client = ApiClient, rq_method = PUT,
      rq_url = ppp_billing_base routerId @ ''/'' @ show_int ident,
      rq_params = [],
      rq_body = payload, rq_config = [], rq_result = unwrap, rq_failure = Inl\<rparr>"

definition removePPPDbProfile :: "int \<Rightarrow> int \<Rightarrow> service" where
  "removePPPDbProfile routerId ident =
     \<lparr>rq_client = ApiClient, rq_method = DELETE,
      rq_url = ppp_billing_base routerId @ ''/'' @ show_int ident,
      rq_params = [],
      rq_body = JUndef, rq_config = [], rq_result = no_result, rq_failure = Inl\<rparr>"

definition syncPPPDbProfiles :: "int \<Rightarrow> service" where
  "syncPPPDbProfiles routerId =
     \<lparr>rq_client = ApiClient, rq_method = POST,
      rq_url = ppp_billing_base routerId @ ''/sync'',
      rq_params = [],
      rq_body = JUndef, rq_config = [], rq_result = unwrap, rq_failure = Inl\<rparr>"

definition ppp_billing_dbPrefix :: "int \<Rightarrow> qkey" where
  "ppp_billing_dbPrefix routerId = [KS ''ppp'', KS ''profiles-db'', KN routerId]"

definition usePPPDbProfiles :: "int \<Rightarrow> query_hook" where
  "usePPPDbProfiles routerId =
     \<lparr>q_key = qk_pppProfilesDB routerId, q_fn = listPPPDbProfiles routerId,
      q_enabled = (0 < routerId), q_options = []\<rparr>"

definition useCreatePPPDbProfile :: "int \<Rightarrow> js \<Rightarrow> mutation" where
  "useCreatePPPDbProfile routerId payload =
     \<lparr>m_fn = createPPPDbProfile routerId payload,
      m_success = (\<lambda>result. [Invalidate (ppp_billing_dbPrefix routerId)])\<rparr>"

definition useUpdatePPPDbProfile :: "int \<Rightarrow> int \<Rightarrow> js \<Rightarrow> mutation" where
  "useUpdatePPPDbProfile routerId ident payload =
     \<lparr>m_fn = updatePPPDbProfile routerId ident payload,
      m_success = (\<lambda>result. [Invalidate (ppp_billing_dbPrefix routerId)])\<rparr>"

definition useRemovePPPDbProfile :: "int \<Rightarrow> int \<Rightarrow> mutation" where
  "useRemovePPPDbProfile routerId ident =
     \<lparr>m_fn = removePPPDbProfile routerId ident,
      m_success = (\<lambda>result. [Invalidate (ppp_billing_dbPrefix routerId)])\<rparr>"

definition useSyncPPPDbProfiles :: "int \<Rightarrow> mutation" where
  "useSyncPPPDbProfiles routerId =
     \<lparr>m_fn = syncPPPDbProfiles routerId,
      m_success = (\<lambda>result. [Invalidate (ppp_billing_dbPrefix routerId)])\<rparr>"

section \<open>Pools, queues, leases\<close>

definition network_base :: "int \<Rightarrow> string" where
  "network_base rid = ''/devices/'' @ show_int rid @ ''/network''"

definition listPools :: "int \<Rightarrow> service" where
  "listPools routerId =
     \<lparr>rq_client = ApiClient, rq_method = GET,
      rq_url = network_base routerId @ ''/pools'',
      rq_params = [],
      rq_body = JUndef, rq_config = [], rq_result = unwrap, rq_failure = Inl\<rparr>"

definition createPool :: "int \<Rightarrow> js \<Rightarrow> service" where
  "createPool routerId payload =
     \<lparr>rq_client = ApiClient, rq_method = POST,
      rq_url = network_base routerId @ ''/pools'',
      rq_params = [],
      rq_body = payload, rq_config = [], rq_result = no_result, rq_failure = Inl\<rparr>"

definition deletePool :: "int \<Rightarrow> string \<Rightarrow> service" where
  "deletePool routerId ident =
     \<lparr>rq_client = ApiClient, rq_method = DELETE,
      rq_url = network_base routerId @ ''/pools/'' @ encodeURIComponent ident,
      rq_params = [],
      rq_body = JUndef, rq_config = [], rq_result = no_result, rq_failure = Inl\<rparr>"

definition listQueues :: "int \<Rightarrow> service" where
  "listQueues routerId =
     \<lparr>rq_client = ApiClient, rq_method = GET,
      rq_url = network_base routerId @ ''/queues'',
      rq_params = [(''dynamic'', JStr ''false'')],
      rq_body = JUndef, rq_config = [], rq_result = unwrap, rq_failure = Inl\<rparr>"

definition deleteQueue :: "int \<Rightarrow> string \<Rightarrow> service" where
  "deleteQueue routerId ident =
     \<lparr>rq_client = ApiClient, rq_method = DELETE,
      rq_url = network_base routerId @ ''/queues/'' @ encodeURIComponent ident,
      rq_params = [],
      rq_body = JUndef, rq_config = [], rq_result = no_result, rq_failure = Inl\<rparr>"

definition listDHCPLeases :: "int \<Rightarrow> service" where
  "listDHCPLeases routerId =
     \<lparr>rq_client = ApiClient, rq_method = GET,
      rq_url = network_base routerId @ ''/dhcp-leases'',
      rq_params = [],
      rq_body = JUndef, rq_config = [], rq_result = unwrap, rq_failure = Inl\<rparr>"

definition deleteDHCPLease :: "int \<Rightarrow> string \<Rightarrow> service" where
  "deleteDHCPLease routerId ident =
     \<lparr>rq_client = ApiClient, rq_method = DELETE,
      rq_url = network_base routerId @ ''/dhcp-leases/'' @ encodeURIComponent ident,
      rq_params = [],
      rq_body = JUndef, rq_config = [], rq_result = no_result, rq_failure = Inl\<rparr>"

definition arpByMac :: "int \<Rightarrow> string \<Rightarrow> service" where
  "arpByMac routerId mac_addr =
     \<lparr>rq_client = ApiClient, rq_method = GET,
      rq_url = network_base routerId @ ''/arp'',
      rq_params = [(''mac'', JStr mac_addr)],
      rq_body = JUndef, rq_config = [], rq_result = unwrap, rq_failure = Inl\<rparr>"

definition usePools :: "int \<Rightarrow> query_hook" where
  "usePools routerId =
     \<lparr>q_key = qk_networkPools routerId, q_fn = listPools routerId,
      q_enabled = (0 < routerId), q_options = []\<rparr>"

definition useCreatePool :: "int \<Rightarrow> js \<Rightarrow> mutation" where
  "useCreatePool routerId payload =
     \<lparr>m_fn = createPool routerId payload,
      m_success = (\<lambda>result. [Invalidate (qk_networkPools routerId)])\<rparr>"

definition useDeletePool :: "int \<Rightarrow> string \<Rightarrow> mutation" where
  "useDeletePool routerId ident =
     \<lparr>m_fn = deletePool routerId ident,
      m_success = (\<lambda>result. [Invalidate (qk_networkPools routerId)])\<rparr>"

definition useQueues :: "int \<Rightarrow> query_hook" where
  "useQueues routerId =
     \<lparr>q_key = qk_networkQueues routerId, q_fn = listQueues routerId,
      q_enabled = (0 < routerId), q_options = []\<rparr>"

definition useDeleteQueue :: "int \<Rightarrow> string \<Rightarrow> mutation" where
  "useDeleteQueue routerId ident =
     \<lparr>m_fn = deleteQueue routerId ident,
      m_success = (\<lambda>result. [Invalidate (qk_networkQueues routerId)])\<rparr>"

definition useDHCPLeases :: "int \<Rightarrow> query_hook" where
  "useDHCPLeases routerId =
     \<lparr>q_key = qk_dhcpLeases routerId, q_fn = listDHCPLeases routerId,
      q_enabled = (0 < routerId), q_options = []\<rparr>"

definition useDeleteDHCPLease :: "int \<Rightarrow> string \<Rightarrow> mutation" where
  "useDeleteDHCPLease routerId ident =
     \<lparr>m_fn = deleteDHCPLease routerId ident,
      m_success = (\<lambda>result. [Invalidate (qk_dhcpLeases routerId)])\<rparr>"

definition useArpByMac :: "int \<Rightarrow> string \<Rightarrow> query_hook" where
  "useArpByMac routerId mac_addr =
     \<lparr>q_key = qk_networkArp routerId (Some mac_addr), q_fn = arpByMac routerId mac_addr,
      q_enabled = (0 < routerId \<and> js_trim mac_addr \<noteq> []), q_options = []\<rparr>"

section \<open>Interfaces and traffic\<close>

definition traffic_base :: "int \<Rightarrow> string" where
  "traffic_base rid = ''/devices/'' @ show_int rid @ ''/network''"

definition traffic_historyBase :: "int \<Rightarrow> string" where
  "traffic_historyBase rid = ''/devices/'' @ show_int rid @ ''/history''"

definition getInterfaceHistory :: "int \<Rightarrow> js \<Rightarrow> service" where
  "getInterfaceHistory routerId rng =
     \<lparr>rq_client = ApiClient, rq_method = GET,
      rq_url = traffic_historyBase routerId @ ''/interfaces'',
      rq_params = [(''from'', js_optget rng ''from''), (''to'', js_optget rng ''to''), (''interval'', js_optget rng ''interval'')],
      rq_body = JUndef, rq_config = [], rq_result = unwrap, rq_failure = Inl\<rparr>"

definition getQueueHistory :: "int \<Rightarrow> js \<Rightarrow> service" where
  "getQueueHistory routerId rng =
     \<lparr>rq_client = ApiClient, rq_method = GET,
      rq_url = traffic_historyBase routerId @ ''/queues'',
      rq_params = [(''from'', js_optget rng ''from''), (''to'', js_optget rng ''to''), (''interval'', js_optget rng ''interval'')],
      rq_body = JUndef, rq_config = [], rq_result = unwrap, rq_failure = Inl\<rparr>"

definition listInterfaces :: "int \<Rightarrow> service" where
  "listInterfaces routerId =
     \<lparr>rq_client = ApiClient, rq_method = GET,
      rq_url = traffic_base routerId @ ''/interfaces'',
      rq_params = [],
      rq_body = JUndef, rq_config = [], rq_result = unwrap, rq_failure = Inl\<rparr>"

definition getInterfaceTraffic :: "int \<Rightarrow> string \<Rightarrow> service" where
  "getInterfaceTraffic routerId iface =
     \<lparr>rq_client = ApiClient, rq_method = GET,
      rq_url = traffic_base routerId @ ''/traffic/'' @ encodeURIComponent iface,
      rq_params = [],
      rq_body = JUndef, rq_config = [], rq_result = unwrap, rq_failure = Inl\<rparr>"

definition traffic_listQueues :: "int \<Rightarrow> service" where
  "traffic_listQueues routerId =
     \<lparr>rq_client = ApiClient, rq_method = GET,
      rq_url = traffic_base routerId @ ''/queues'',
      rq_params = [],
      rq_body = JUndef, rq_config = [], rq_result = unwrap, rq_failure = Inl\<rparr>"

definition listNATRules :: "int \<Rightarrow> service" where
  "listNATRules routerId =
     \<lparr>rq_client = ApiClient, rq_method = GET,
      rq_url = traffic_base routerId @ ''/nat'',
      rq_params = [],
      rq_body = JUndef, rq_config = [], rq_result = unwrap, rq_failure = Inl\<rparr>"

definition traffic_listDHCPLeases :: "int \<Rightarrow> service" where
  "traffic_listDHCPLeases routerId =
     \<lparr>rq_client = ApiClient, rq_method = GET,
      rq_url = traffic_base routerId @ ''/dhcp/leases'',
      rq_params = [],
      rq_body = JUndef, rq_config = [], rq_result = unwrap, rq_failure = Inl\<rparr>"

definition listIPPools :: "int \<Rightarrow> service" where
  "listIPPools routerId =
     \<lparr>rq_client = ApiClient, rq_method = GET,
      rq_url = traffic_base routerId @ ''/pools'',
      rq_params = [],
      rq_body = JUndef, rq_config = [], rq_result = unwrap, rq_failure = Inl\<rparr>"

definition rangeKey :: "js option \<Rightarrow> string" where
  "rangeKey r =
     (case r of
        None \<Rightarrow> []
      | Some v \<Rightarrow>
          js_String (js_optget v ''from'') @ ''|'' @ js_String (js_optget v ''to'') @ ''|'' @
          js_String (js_optget v ''interval''))"

definition useInterfaces :: "int \<Rightarrow> query_hook" where
  "useInterfaces routerId =
     \<lparr>q_key = qk_networkInterfaces routerId, q_fn = listInterfaces routerId,
      q_enabled = (0 < routerId), q_options = []\<rparr>"

definition traffic_useQueues :: "int \<Rightarrow> query_hook" where
  "traffic_useQueues routerId =
     \<lparr>q_key = qk_networkQueues routerId, q_fn = traffic_listQueues routerId,
      q_enabled = (0 < routerId), q_options = []\<rparr>"

definition useInterfaceHistory :: "int \<Rightarrow> js option \<Rightarrow> query_hook" where
  "useInterfaceHistory routerId rng =
     \<lparr>q_key = qk_interfaceHistory routerId (rangeKey rng), q_fn = getInterfaceHistory routerId (the rng),
      q_enabled = (0 < routerId \<and> rng \<noteq> None), q_options = [(''retry'', JBool False)]\<rparr>"

definition useQueueHistory :: "int \<Rightarrow> js option \<Rightarrow> query_hook" where
  "useQueueHistory routerId rng =
     \<lparr>q_key = qk_queueHistory routerId (rangeKey rng), q_fn = getQueueHistory routerId (the rng),
      q_enabled = (0 < routerId \<and> rng \<noteq> None), q_options = [(''retry'', JBool False)]\<rparr>"

section \<open>Router log\<close>

definition listLogEntries :: "int \<Rightarrow> service" where
  "listLogEntries routerId =
     \<lparr>rq_client = ApiClient, rq_method = GET,
      rq_url = ''/devices/'' @ show_int routerId @ ''/log'',
      rq_params = [],
      rq_body = JUndef, rq_config = [], rq_result = unwrap, rq_failure = Inl\<rparr>"

definition useLogBacklog :: "int \<Rightarrow> query_hook" where
  "useLogBacklog routerId =
     \<lparr>q_key = [KS ''log'', KS ''backlog'', KN routerId], q_fn = listLogEntries routerId,
      q_enabled = (0 < routerId), q_options = []\<rparr>"

section \<open>Router system\<close>

definition system_base :: "int \<Rightarrow> string" where
  "system_base rid = ''/devices/'' @ show_int rid @ ''/system''"

definition getIdentity :: "int \<Rightarrow> service" where
  "getIdentity rid =
     \<lparr>rq_client = ApiClient, rq_method = GET,
      rq_url = system_base rid @ ''/identity'',
      rq_params = [],
      rq_body = JUndef, rq_config = [], rq_result = unwrap, rq_failure = Inl\<rparr>"

definition getResource :: "int \<Rightarrow> service" where
  "getResource rid =
     \<lparr>rq_client = ApiClient, rq_method = GET,
      rq_url = system_base rid @ ''/resource'',
      rq_params = [],
      rq_body = JUndef, rq_config = [], rq_result = unwrap, rq_failure = Inl\<rparr>"

definition getRouterboard :: "int \<Rightarrow> service" where
  "getRouterboard rid =
     \<lparr>rq_client = ApiClient, rq_method = GET,
      rq_url = system_base rid @ ''/routerboard'',
      rq_params = [],
      rq_body = JUndef, rq_config = [], rq_result = unwrap, rq_failure = Inl\<rparr>"

definition getClock :: "int \<Rightarrow> service" where
  "getClock rid =
     \<lparr>rq_client = ApiClient, rq_method = GET,
      rq_url = system_base rid @ ''/clock'',
      rq_params = [],
      rq_body = JUndef, rq_config = [], rq_result = unwrap, rq_failure = Inl\<rparr>"

definition getLicense :: "int \<Rightarrow> service" where
  "getLicense rid =
     \<lparr>rq_client = ApiClient, rq_method = GET,
      rq_url = system_base rid @ ''/license'',
      rq_params = [],
      rq_body = JUndef, rq_config = [], rq_result = unwrap, rq_failure = Inl\<rparr>"

definition reboot :: "int \<Rightarrow> service" where
  "reboot rid =
     \<lparr>rq_client = ApiClient, rq_method = POST,
      rq_url = system_base rid @ ''/reboot'',
      rq_params = [],
      rq_body = JUndef, rq_config = [], rq_result = no_result, rq_failure = Inl\<rparr>"

definition shutdown :: "int \<Rightarrow> service" where
  "shutdown rid =
     \<lparr>rq_client = ApiClient, rq_method = POST,
      rq_url = system_base rid @ ''/shutdown'',
      rq_params = [],
      rq_body = JUndef, rq_config = [], rq_result = no_result, rq_failure = Inl\<rparr>"

definition listScripts :: "int \<Rightarrow> service" where
  "listScripts rid =
     \<lparr>rq_client = ApiClient, rq_method = GET,
      rq_url = system_base rid @ ''/scripts'',
      rq_params = [],
      rq_body = JUndef, rq_config = [], rq_result = unwrap, rq_failure = Inl\<rparr>"

definition createScript :: "int \<Rightarrow> js \<Rightarrow> service" where
  "createScript rid payload =
     \<lparr>rq_client = ApiClient, rq_method = POST,
      rq_url = system_base rid @ ''/scripts'',
      rq_params = [],
      rq_body = payload, rq_config = [], rq_result = no_result, rq_failure = Inl\<rparr>"

definition deleteScript :: "int \<Rightarrow> string \<Rightarrow> service" where
  "deleteScript rid ident =
     \<lparr>rq_client = ApiClient, rq_method = DELETE,
      rq_url = system_base rid @ ''/scripts/'' @ encodeURIComponent ident,
      rq_params = [],
      rq_body = JUndef, rq_config = [], rq_result = no_result, rq_failure = Inl\<rparr>"

definition listSchedulers :: "int \<Rightarrow> service" where
  "listSchedulers rid =
     \<lparr>rq_client = ApiClient, rq_method = GET,
      rq_url = system_base rid @ ''/schedulers'',
      rq_params = [],
      rq_body = JUndef, rq_config = [], rq_result = unwrap, rq_failure = Inl\<rparr>"

definition createScheduler :: "int \<Rightarrow> js \<Rightarrow> service" where
  "createScheduler rid payload =
     \<lparr>rq_client = ApiClient, rq_method = POST,
      rq_url = system_base rid @ ''/schedulers'',
      rq_params = [],
      rq_body = payload, rq_config = [], rq_result = no_result, rq_failure = Inl\<rparr>"

definition deleteScheduler :: "int \<Rightarrow> string \<Rightarrow> service" where
  "deleteScheduler rid ident =
     \<lparr>rq_client = ApiClient, rq_method = DELETE,
      rq_url = system_base rid @ ''/schedulers/'' @ encodeURIComponent ident,
      rq_params = [],
      rq_body = JUndef, rq_config = [], rq_result = no_result, rq_failure = Inl\<rparr>"

definition useSystemIdentity :: "int \<Rightarrow> query_hook" where
  "useSystemIdentity rid =
     \<lparr>q_key = qk_systemIdentity rid, q_fn = getIdentity rid,
      q_enabled = (0 < rid), q_options = []\<rparr>"

definition useSystemResource :: "int \<Rightarrow> query_hook" where
  "useSystemResource rid =
     \<lparr>q_key = qk_systemResource rid, q_fn = getResource rid,
      q_enabled = (0 < rid), q_options = [(''refetchInterval'', JNum 5000)]\<rparr>"

definition useSystemRouterboard :: "int \<Rightarrow> query_hook" where
  "useSystemRouterboard rid =
     \<lparr>q_key = qk_routerboard rid, q_fn = getRouterboard rid,
      q_enabled = (0 < rid), q_options = []\<rparr>"

definition useSystemClock :: "int \<Rightarrow> query_hook" where
  "useSystemClock rid =
     \<lparr>q_key = qk_systemClock rid, q_fn = getClock rid,
      q_enabled = (0 < rid), q_options = []\<rparr>"

definition useSystemLicense :: "int \<Rightarrow> query_hook" where
  "useSystemLicense rid =
     \<lparr>q_key = qk_systemLicense rid, q_fn = getLicense rid,
      q_enabled = (0 < rid), q_options = []\<rparr>"

definition useReboot :: "int \<Rightarrow> mutation" where
  "useReboot rid =
     \<lparr>m_fn = reboot rid,
      m_success = (\<lambda>result. [])\<rparr>"

definition useShutdown :: "int \<Rightarrow> mutation" where
  "useShutdown rid =
     \<lparr>m_fn = shutdown rid,
      m_success = (\<lambda>result. [])\<rparr>"

definition useScripts :: "int \<Rightarrow> query_hook" where
  "useScripts rid =
     \<lparr>q_key = qk_scripts rid, q_fn = listScripts rid,
      q_enabled = (0 < rid), q_options = []\<rparr>"

definition useCreateScript :: "int \<Rightarrow> js \<Rightarrow> mutation" where
  "useCreateScript rid payload =
     \<lparr>m_fn = createScript rid payload,
      m_success = (\<lambda>result. [Invalidate (qk_scripts rid)])\<rparr>"

definition useDeleteScript :: "int \<Rightarrow> string \<Rightarrow> mutation" where
  "useDeleteScript rid ident =
     \<lparr>m_fn = deleteScript rid ident,
      m_success = (\<lambda>result. [Invalidate (qk_scripts rid)])\<rparr>"

definition useSchedulers :: "int \<Rightarrow> query_hook" where
  "useSchedulers rid =
     \<lparr>q_key = qk_schedulers rid, q_fn = listSchedulers rid,
      q_enabled = (0 < rid), q_options = []\<rparr>"

definition useCreateScheduler :: "int \<Rightarrow> js \<Rightarrow> mutation" where
  "useCreateScheduler rid payload =
     \<lparr>m_fn = createScheduler rid payload,
      m_success = (\<lambda>result. [Invalidate (qk_schedulers rid)])\<rparr>"

definition useDeleteScheduler :: "int \<Rightarrow> string \<Rightarrow> mutation" where
  "useDeleteScheduler rid ident =
     \<lparr>m_fn = deleteScheduler rid ident,
      m_success = (\<lambda>result. [Invalidate (qk_schedulers rid)])\<rparr>"

section \<open>Selling reports\<close>

definition reports_base :: "int \<Rightarrow> string" where
  "reports_base rid = ''/devices/'' @ show_int rid @ ''/reports/selling''"

definition getSellingToday :: "int \<Rightarrow> service" where
  "getSellingToday rid =
     \<lparr>rq_client = ApiClient, rq_method = GET,
      rq_url = reports_base rid @ ''/today'',
      rq_params = [],
      rq_body = JUndef, rq_config = [], rq_result = unwrap, rq_failure = Inl\<rparr>"

definition getSellingSummary :: "int \<Rightarrow> string option \<Rightarrow> service" where
  "getSellingSummary rid month =
     \<lparr>rq_client = ApiClient, rq_method = GET,
      rq_url = reports_base rid @ ''/summary'',
      rq_params = [(''month'', opt_str month), (''include_transactions'', JBool True)],
      rq_body = JUndef, rq_config = [], rq_result = unwrap, rq_failure = Inl\<rparr>"

definition getSelling :: "int \<Rightarrow> string option \<Rightarrow> service" where
  "getSelling rid month =
     \<lparr>rq_client = ApiClient, rq_method = GET,
      rq_url = reports_base rid,
      rq_params = [(''month'', opt_str month)],
      rq_body = JUndef, rq_config = [], rq_result = unwrap, rq_failure = Inl\<rparr>"

definition useSellingToday :: "int \<Rightarrow> query_hook" where
  "useSellingToday rid =
     \<lparr>q_key = qk_reportSellingToday rid, q_fn = getSellingToday rid,
      q_enabled = (0 < rid), q_options = []\<rparr>"

definition useSellingSummary :: "int \<Rightarrow> string option \<Rightarrow> query_hook" where
  "useSellingSummary rid month =
     \<lparr>q_key = qk_reportSellingSummary rid (Some ([(''month'', opt_str month)])), q_fn = getSellingSummary rid month,
      q_enabled = (0 < rid), q_options = []\<rparr>"

definition useSelling :: "int \<Rightarrow> string option \<Rightarrow> query_hook" where
  "useSelling rid month =
     \<lparr>q_key = qk_reportSelling rid (Some ([(''month'', opt_str month)])), q_fn = getSelling rid month,
      q_enabled = (0 < rid), q_options = []\<rparr>"

section \<open>Routers\<close>

definition routers_base :: string where
  "routers_base = ''/devices''"

definition listRouters :: "service" where
  "listRouters =
     \<lparr>rq_client = ApiClient, rq_method = GET,
      rq_url = routers_base,
      rq_params = [],
      rq_body = JUndef, rq_config = [], rq_result = unwrap, rq_failure = Inl\<rparr>"

definition getRouter :: "int \<Rightarrow> service" where
  "getRouter ident =
     \<lparr>rq_client = ApiClient, rq_method = GET,
      rq_url = routers_base @ ''/'' @ show_int ident,
      rq_params = [],
      rq_body = JUndef, rq_config = [], rq_result = unwrap, rq_failure = Inl\<rparr>"

definition createRouter :: "js \<Rightarrow> service" where
  "createRouter body =
     \<lparr>rq_client = ApiClient, rq_method = POST,
      rq_url = routers_base,
      rq_params = [],
      rq_body = body, rq_config = [], rq_result = unwrap, rq_failure = Inl\<rparr>"

definition updateRouter :: "int \<Rightarrow> js \<Rightarrow> service" where
  "updateRouter ident body =
     \<lparr>rq_client = ApiClient, rq_method = PUT,
      rq_url = routers_base @ ''/'' @ show_int ident,
      rq_params = [],
      rq_body = body, rq_config = [], rq_result = unwrap, rq_failure = Inl\<rparr>"

definition deleteRouter :: "int \<Rightarrow> service" where
  "deleteRouter ident =
     \<lparr>rq_client = ApiClient, rq_method = DELETE,
      rq_url = routers_base @ ''/'' @ show_int ident,
      rq_params = [],
      rq_body = JUndef, rq_config = [], rq_result = no_result, rq_failure = Inl\<rparr>"

definition useRouters :: "query_hook" where
  "useRouters =
     \<lparr>q_key = qk_routers, q_fn = listRouters,
      q_enabled = (True), q_options = [(''refetchInterval'', JNum 30000)]\<rparr>"

definition useRouter :: "int \<Rightarrow> query_hook" where
  "useRouter ident =
     \<lparr>q_key = qk_router ident, q_fn = getRouter ident,
      q_enabled = (0 < ident), q_options = []\<rparr>"

definition useCreateRouter :: "js \<Rightarrow> mutation" where
  "useCreateRouter body =
     \<lparr>m_fn = createRouter body,
      m_success = (\<lambda>result. [SetQueryData (qk_router (num_of (js_optget result ''id''))) result, Invalidate (qk_routers)])\<rparr>"

definition useUpdateRouter :: "int \<Rightarrow> js \<Rightarrow> mutation" where
  "useUpdateRouter ident body =
     \<lparr>m_fn = updateRouter ident body,
      m_success = (\<lambda>result. [SetQueryData (qk_router (num_of (js_optget result ''id''))) result, Invalidate (qk_routers)])\<rparr>"

definition useDeleteRouter :: "int \<Rightarrow> mutation" where
  "useDeleteRouter ident =
     \<lparr>m_fn = deleteRouter ident,
      m_success = (\<lambda>result. [Remove (qk_router ident), Invalidate (qk_routers)])\<rparr>"


end
