(* ===== verification/Billing_Api.thy ===== *)
theory Billing_Api
  imports Api_Request
begin

text \<open>
  The service functions and hooks of the features on the billing database (customers,
  subscriptions, invoices, payments, registrations), of the public registration page and of
  the customer portal.
\<close>

section \<open>Customers\<close>

definition customers_base :: string where
  "customers_base = ''/customers''"

definition listCustomers :: "filters option \<Rightarrow> service" where
  "listCustomers filters =
     \<lparr>rq_client = ApiClient, rq_method = GET,
      rq_url = customers_base,
      rq_params = or_else filters [],
      rq_body = JUndef, rq_config = [], rq_result = unwrap, rq_failure = Inl\<rparr>"

definition createCustomer :: "js \<Rightarrow> service" where
  "createCustomer payload =
     \<lparr>rq_client = ApiClient, rq_method = POST,
      rq_url = customers_base,
      rq_params = [],
      rq_body = payload, rq_config = [], rq_result = unwrap, rq_failure = Inl\<rparr>"

definition updateCustomer :: "int \<Rightarrow> js \<Rightarrow> service" where
  "updateCustomer ident payload =
     \<lparr>rq_client = ApiClient, rq_method = PUT,
      rq_url = customers_base @ ''/'' @ show_int ident,
      rq_params = [],
      rq_body = payload, rq_config = [], rq_result = unwrap, rq_failure = Inl\<rparr>"

definition removeCustomer :: "int \<Rightarrow> service" where
  "removeCustomer ident =
     \<lparr>rq_client = ApiClient, rq_method = DELETE,
      rq_url = customers_base @ ''/'' @ show_int ident,
      rq_params = [],
      rq_body = JUndef, rq_config = [], rq_result = no_result, rq_failure = Inl\<rparr>"

definition batchRemoveCustomers :: "int list \<Rightarrow> service" where
  "batchRemoveCustomers ids =
     \<lparr>rq_client = ApiClient, rq_method = POST,
      rq_url = customers_base @ ''/batch-delete'',
      rq_params = [],
      rq_body = JObj ([(''ids'', JArr (map (\<lambda>i. JNum (of_int i)) ids))]), rq_config = [], rq_result = unwrap_get ''deleted'', rq_failure = Inl\<rparr>"

definition revealPortalPassword :: "int \<Rightarrow> service" where
  "revealPortalPassword ident =
     \<lparr>rq_client = ApiClient, rq_method = GET,
      rq_url = customers_base @ ''/'' @ show_int ident @ ''/portal-password'',
      rq_params = [],
      rq_body = JUndef, rq_config = [], rq_result = unwrap_get ''password'', rq_failure = Inl\<rparr>"

definition resetPortalPassword :: "int \<Rightarrow> service" where
  "resetPortalPassword ident =
     \<lparr>rq_client = ApiClient, rq_method = POST,
      rq_url = customers_base @ ''/'' @ show_int ident @ ''/portal-password/reset'',
      rq_params = [],
      rq_body = JUndef, rq_config = [], rq_result = unwrap_get ''password'', rq_failure = Inl\<rparr>"

definition useCustomers :: "filters option \<Rightarrow> query_hook" where
  "useCustomers filters =
     \<lparr>q_key = qk_customers filters, q_fn = listCustomers filters,
      q_enabled = (True), q_options = []\<rparr>"

definition useCreateCustomer :: "js \<Rightarrow> mutation" where
  "useCreateCustomer payload =
     \<lparr>m_fn = createCustomer payload,
      m_success = (\<lambda>result. [Invalidate ([KS ''customers''])])\<rparr>"

definition useUpdateCustomer :: "int \<Rightarrow> js \<Rightarrow> mutation" where
  "useUpdateCustomer ident payload =
     \<lparr>m_fn = updateCustomer ident payload,
      m_success = (\<lambda>result. [Invalidate ([KS ''customers''])])\<rparr>"

definition useRemoveCustomer :: "int \<Rightarrow> mutation" where
  "useRemoveCustomer ident =
     \<lparr>m_fn = removeCustomer ident,
      m_success = (\<lambda>result. [Invalidate ([KS ''customers''])])\<rparr>"

definition useBatchRemoveCustomers :: "int list \<Rightarrow> mutation" where
  "useBatchRemoveCustomers ids =
     \<lparr>m_fn = batchRemoveCustomers ids,
      m_success = (\<lambda>result. [Invalidate ([KS ''customers''])])\<rparr>"

section \<open>Subscriptions\<close>

definition subscriptions_base :: string where
  "subscriptions_base = ''/subscriptions''"

definition listSubscriptions :: "filters option \<Rightarrow> service" where
  "listSubscriptions filters =
     \<lparr>rq_client = ApiClient, rq_method = GET,
      rq_url = subscriptions_base,
      rq_params = or_else filters [],
      rq_body = JUndef, rq_config = [], rq_result = unwrap, rq_failure = Inl\<rparr>"

definition createSubscription :: "js \<Rightarrow> service" where
  "createSubscription payload =
     \<lparr>rq_client = ApiClient, rq_method = POST,
      rq_url = subscriptions_base,
      rq_params = [],
      rq_body = payload, rq_config = [], rq_result = unwrap, rq_failure = Inl\<rparr>"

definition updateSubscription :: "int \<Rightarrow> js \<Rightarrow> service" where
  "updateSubscription ident payload =
     \<lparr>rq_client = ApiClient, rq_method = PUT,
      rq_url = subscriptions_base @ ''/'' @ show_int ident,
      rq_params = [],
      rq_body = payload, rq_config = [], rq_result = unwrap, rq_failure = Inl\<rparr>"

definition patchSubscriptionStatus :: "int \<Rightarrow> string \<Rightarrow> service" where
  "patchSubscriptionStatus ident status =
     \<lparr>rq_client = ApiClient, rq_method = PATCH,
      rq_url = subscriptions_base @ ''/'' @ show_int ident @ ''/status'',
      rq_params = [],
      rq_body = JObj ([(''status'', JStr status)]), rq_config = [], rq_result = unwrap, rq_failure = Inl\<rparr>"

definition reconcileSubscription :: "int \<Rightarrow> service" where
  "reconcileSubscription ident =
     \<lparr>rq_client = ApiClient, rq_method = POST,
      rq_url = subscriptions_base @ ''/'' @ show_int ident @ ''/reconcile'',
      rq_params = [],
      rq_body = JUndef, rq_config = [], rq_result = unwrap, rq_failure = Inl\<rparr>"

definition removeSubscription :: "int \<Rightarrow> service" where
  "removeSubscription ident =
     \<lparr>rq_client = ApiClient, rq_method = DELETE,
      rq_url = subscriptions_base @ ''/'' @ show_int ident,
      rq_params = [],
      rq_body = JUndef, rq_config = [], rq_result = no_result, rq_failure = Inl\<rparr>"

definition batchRemoveSubscriptions :: "int list \<Rightarrow> service" where
  "batchRemoveSubscriptions ids =
     \<lparr>rq_client = ApiClient, rq_method = POST,
      rq_url = subscriptions_base @ ''/batch-delete'',
      rq_params = [],
      rq_body = JObj ([(''ids'', JArr (map (\<lambda>i. JNum (of_int i)) ids))]), rq_config = [], rq_result = unwrap_get ''deleted'', rq_failure = Inl\<rparr>"

definition revealSubscriptionPassword :: "int \<Rightarrow> service" where
  "revealSubscriptionPassword ident =
     \<lparr>rq_client = ApiClient, rq_method = GET,
      rq_url = subscriptions_base @ ''/'' @ show_int ident @ ''/password'',
      rq_params = [],
      rq_body = JUndef, rq_config = [], rq_result = unwrap_get ''password'', rq_failure = Inl\<rparr>"

definition listSubscriptionsByDevice :: "int \<Rightarrow> service" where
  "listSubscriptionsByDevice deviceId =
     \<lparr>rq_client = ApiClient, rq_method = GET,
      rq_url = ''/devices/'' @ show_int deviceId @ ''/subscriptions'',
      rq_params = [],
      rq_body = JUndef, rq_config = [], rq_result = unwrap, rq_failure = Inl\<rparr>"

definition useSubscriptions :: "filters option \<Rightarrow> query_hook" where
  "useSubscriptions filters =
     \<lparr>q_key = qk_subscriptions filters, q_fn = listSubscriptions filters,
      q_enabled = (True), q_options = []\<rparr>"

definition useCreateSubscription :: "js \<Rightarrow> mutation" where
  "useCreateSubscription payload =
     \<lparr>m_fn = createSubscription payload,
      m_success = (\<lambda>result. [Invalidate ([KS ''subscriptions''])])\<rparr>"

definition useUpdateSubscription :: "int \<Rightarrow> js \<Rightarrow> mutation" where
  "useUpdateSubscription ident payload =
     \<lparr>m_fn = updateSubscription ident payload,
      m_success = (\<lambda>result. [Invalidate ([KS ''subscriptions''])])\<rparr>"

definition usePatchSubscriptionStatus :: "int \<Rightarrow> string \<Rightarrow> mutation" where
  "usePatchSubscriptionStatus ident status =
     \<lparr>m_fn = patchSubscriptionStatus ident status,
      m_success = (\<lambda>result. [Invalidate ([KS ''subscriptions''])])\<rparr>"

definition useReconcileSubscription :: "int \<Rightarrow> mutation" where
  "useReconcileSubscription ident =
     \<lparr>m_fn = reconcileSubscription ident,
      m_success = (\<lambda>result. [Invalidate ([KS ''subscriptions''])])\<rparr>"

definition useRemoveSubscription :: "int \<Rightarrow> mutation" where
  "useRemoveSubscription ident =
     \<lparr>m_fn = removeSubscription ident,
      m_success = (\<lambda>result. [Invalidate ([KS ''subscriptions''])])\<rparr>"

definition useBatchRemoveSubscriptions :: "int list \<Rightarrow> mutation" where
  "useBatchRemoveSubscriptions ids =
     \<lparr>m_fn = batchRemoveSubscriptions ids,
      m_success = (\<lambda>result. [Invalidate ([KS ''subscriptions''])])\<rparr>"

definition useSubscriptionsByDevice :: "int \<Rightarrow> query_hook" where
  "useSubscriptionsByDevice deviceId =
     \<lparr>q_key = qk_subscriptionsByDevice deviceId, q_fn = listSubscriptionsByDevice deviceId,
      q_enabled = (0 < deviceId), q_options = [(''refetchInterval'', JNum 30000), (''staleTime'', JNum 15000)]\<rparr>"

section \<open>Invoices\<close>

definition invoices_base :: string where
  "invoices_base = ''/invoices''"

definition listInvoices :: "filters option \<Rightarrow> service" where
  "listInvoices filters =
     \<lparr>rq_client = ApiClient, rq_method = GET,
      rq_url = invoices_base,
      rq_params = or_else filters [],
      rq_body = JUndef, rq_config = [], rq_result = unwrap, rq_failure = Inl\<rparr>"

definition getInvoice :: "int \<Rightarrow> service" where
  "getInvoice ident =
     \<lparr>rq_client = ApiClient, rq_method = GET,
      rq_url = invoices_base @ ''/'' @ show_int ident,
      rq_params = [],
      rq_body = JUndef, rq_config = [], rq_result = unwrap, rq_failure = Inl\<rparr>"

definition generateInvoice :: "js \<Rightarrow> service" where
  "generateInvoice payload =
     \<lparr>rq_client = ApiClient, rq_method = POST,
      rq_url = invoices_base @ ''/generate'',
      rq_params = [],
      rq_body = payload, rq_config = [], rq_result = unwrap, rq_failure = Inl\<rparr>"

definition cancelInvoice :: "int \<Rightarrow> service" where
  "cancelInvoice ident =
     \<lparr>rq_client = ApiClient, rq_method = POST,
      rq_url = invoices_base @ ''/'' @ show_int ident @ ''/cancel'',
      rq_params = [],
      rq_body = JUndef, rq_config = [], rq_result = unwrap, rq_failure = Inl\<rparr>"

definition useInvoices :: "filters option \<Rightarrow> query_hook" where
  "useInvoices filters =
     \<lparr>q_key = qk_invoices filters, q_fn = listInvoices filters,
      q_enabled = (True), q_options = []\<rparr>"

definition useInvoice :: "int \<Rightarrow> query_hook" where
  "useInvoice ident =
     \<lparr>q_key = qk_invoice ident, q_fn = getInvoice ident,
      q_enabled = (0 < ident), q_options = []\<rparr>"

definition useGenerateInvoice :: "js \<Rightarrow> mutation" where
  "useGenerateInvoice payload =
     \<lparr>m_fn = generateInvoice payload,
      m_success = (\<lambda>result. [Invalidate ([KS ''invoices''])])\<rparr>"

definition useCancelInvoice :: "int \<Rightarrow> mutation" where
  "useCancelInvoice ident =
     \<lparr>m_fn = cancelInvoice ident,
      m_success = (\<lambda>result. [Invalidate ([KS ''invoices'']), Invalidate ([KS ''payments''])])\<rparr>"

section \<open>Payments\<close>

definition payments_base :: string where
  "payments_base = ''/payments''"

definition listPayments :: "filters option \<Rightarrow> service" where
  "listPayments filters =
     \<lparr>rq_client = ApiClient, rq_method = GET,
      rq_url = payments_base,
      rq_params = or_else filters [],
      rq_body = JUndef, rq_config = [], rq_result = unwrap, rq_failure = Inl\<rparr>"

definition getPayment :: "int \<Rightarrow> service" where
  "getPayment ident =
     \<lparr>rq_client = ApiClient, rq_method = GET,
      rq_url = payments_base @ ''/'' @ show_int ident,
      rq_params = [],
      rq_body = JUndef, rq_config = [], rq_result = unwrap, rq_failure = Inl\<rparr>"

definition createPayment :: "js \<Rightarrow> service" where
  "createPayment payload =
     \<lparr>rq_client = ApiClient, rq_method = POST,
      rq_url = payments_base,
      rq_params = [],
      rq_body = payload, rq_config = [], rq_result = unwrap, rq_failure = Inl\<rparr>"

definition confirmPayment :: "int \<Rightarrow> service" where
  "confirmPayment ident =
     \<lparr>rq_client = ApiClient, rq_method = POST,
      rq_url = payments_base @ ''/'' @ show_int ident @ ''/confirm'',
      rq_params = [],
      rq_body = JUndef, rq_config = [], rq_result = unwrap, rq_failure = Inl\<rparr>"

definition rejectPayment :: "int \<Rightarrow> string option \<Rightarrow> service" where
  "rejectPayment ident reason =
     \<lparr>rq_client = ApiClient, rq_method = POST,
      rq_url = payments_base @ ''/'' @ show_int ident @ ''/reject'',
      rq_params = [],
      rq_body = JObj ([(''reason'', JStr (or_else reason ''''))]), rq_config = [], rq_result = unwrap, rq_failure = Inl\<rparr>"

definition collectByCode :: "js \<Rightarrow> service" where
  "collectByCode payload =
     \<lparr>rq_client = ApiClient, rq_method = POST,
      rq_url = payments_base @ ''/collect'',
      rq_params = [],
      rq_body = payload, rq_config = [], rq_result = unwrap, rq_failure = Inl\<rparr>"

definition usePayments :: "filters option \<Rightarrow> query_hook" where
  "usePayments filters =
     \<lparr>q_key = qk_payments filters, q_fn = listPayments filters,
      q_enabled = (True), q_options = []\<rparr>"

definition useInvoicePayments :: "int \<Rightarrow> query_hook" where
  "useInvoicePayments invoiceId =
     \<lparr>q_key = qk_invoicePayments invoiceId, q_fn = listPayments (Some ([(''invoice_id'', JNum (of_int invoiceId))])),
      q_enabled = (0 < invoiceId), q_options = []\<rparr>"

definition useCreatePayment :: "js \<Rightarrow> mutation" where
  "useCreatePayment payload =
     \<lparr>m_fn = createPayment payload,
      m_success = (\<lambda>result. [Invalidate ([KS ''payments'']), Invalidate ([KS ''invoices''])])\<rparr>"

definition useConfirmPayment :: "int \<Rightarrow> mutation" where
  "useConfirmPayment ident =
     \<lparr>m_fn = confirmPayment ident,
      m_success = (\<lambda>result. [Invalidate ([KS ''payments'']), Invalidate ([KS ''invoices'']), Invalidate ([KS ''subscriptions''])])\<rparr>"

definition useRejectPayment :: "int \<Rightarrow> string option \<Rightarrow> mutation" where
  "useRejectPayment ident reason =
     \<lparr>m_fn = rejectPayment ident reason,
      m_success = (\<lambda>result. [Invalidate ([KS ''payments'']), Invalidate ([KS ''invoices''])])\<rparr>"

definition useCollectByCode :: "js \<Rightarrow> mutation" where
  "useCollectByCode payload =
     \<lparr>m_fn = collectByCode payload,
      m_success = (\<lambda>result. [Invalidate ([KS ''payments'']), Invalidate ([KS ''invoices'']), Invalidate ([KS ''subscriptions''])])\<rparr>"

section \<open>Registrations\<close>

definition registrations_base :: string where
  "registrations_base = ''/registrations''"

definition listRegistrations :: "filters option \<Rightarrow> service" where
  "listRegistrations filters =
     \<lparr>rq_client = ApiClient, rq_method = GET,
      rq_url = registrations_base,
      rq_params = or_else filters [],
      rq_body = JUndef, rq_config = [], rq_result = unwrap, rq_failure = Inl\<rparr>"

definition approveRegistration :: "int \<Rightarrow> js \<Rightarrow> service" where
  "approveRegistration ident payload =
     \<lparr>rq_client = ApiClient, rq_method = POST,
      rq_url = registrations_base @ ''/'' @ show_int ident @ ''/approve'',
      rq_params = [],
      rq_body = payload, rq_config = [], rq_result = unwrap, rq_failure = Inl\<rparr>"

definition rejectRegistration :: "int \<Rightarrow> js \<Rightarrow> service" where
  "rejectRegistration ident payload =
     \<lparr>rq_client = ApiClient, rq_method = POST,
      rq_url = registrations_base @ ''/'' @ show_int ident @ ''/reject'',
      rq_params = [],
      rq_body = payload, rq_config = [], rq_result = unwrap, rq_failure = Inl\<rparr>"

definition assignRegistration :: "int \<Rightarrow> js \<Rightarrow> service" where
  "assignRegistration ident payload =
     \<lparr>rq_client = ApiClient, rq_method = PUT,
      rq_url = registrations_base @ ''/'' @ show_int ident @ ''/assign'',
      rq_params = [],
      rq_body = payload, rq_config = [], rq_result = unwrap, rq_failure = Inl\<rparr>"

definition completeInstall :: "int \<Rightarrow> js \<Rightarrow> service" where
  "completeInstall ident payload =
     \<lparr>rq_client = ApiClient, rq_method = POST,
      rq_url = registrations_base @ ''/'' @ show_int ident @ ''/complete-install'',
      rq_params = [],
      rq_body = payload, rq_config = [], rq_result = unwrap, rq_failure = Inl\<rparr>"

definition registrations_useInvalidate :: "cache_op list" where
  "registrations_useInvalidate = [Invalidate ([KS ''registrations'']), Invalidate ([KS ''customers'']), Invalidate ([KS ''subscriptions''])]"

definition useRegistrations :: "filters option \<Rightarrow> query_hook" where
  "useRegistrations filters =
     \<lparr>q_key = qk_registrations filters, q_fn = listRegistrations filters,
      q_enabled = (True), q_options = []\<rparr>"

definition useApproveRegistration :: "int \<Rightarrow> js \<Rightarrow> mutation" where
  "useApproveRegistration ident payload =
     \<lparr>m_fn = approveRegistration ident payload,
      m_success = (\<lambda>result. registrations_useInvalidate)\<rparr>"

definition useRejectRegistration :: "int \<Rightarrow> js \<Rightarrow> mutation" where
  "useRejectRegistration ident payload =
     \<lparr>m_fn = rejectRegistration ident payload,
      m_success = (\<lambda>result. registrations_useInvalidate)\<rparr>"

definition useAssignRegistration :: "int \<Rightarrow> js \<Rightarrow> mutation" where
  "useAssignRegistration ident payload =
     \<lparr>m_fn = assignRegistration ident payload,
      m_success = (\<lambda>result. registrations_useInvalidate)\<rparr>"

definition useCompleteInstall :: "int \<Rightarrow> js \<Rightarrow> mutation" where
  "useCompleteInstall ident payload =
     \<lparr>m_fn = completeInstall ident payload,
      m_success = (\<lambda>result. registrations_useInvalidate)\<rparr>"

section \<open>Public registration\<close>

definition submitRegistration :: "js \<Rightarrow> service" where
  "submitRegistration payload =
     \<lparr>rq_client = PublicClient, rq_method = POST,
      rq_url = ''/public/registrations'',
      rq_params = [],
      rq_body = payload, rq_config = [], rq_result = unwrap, rq_failure = Inl\<rparr>"

definition service_type_is :: "string \<Rightarrow> js \<Rightarrow> thrown + bool" where
  "service_type_is t p =
     (case js_get p ''service_type'' of
        None \<Rightarrow> Inl (type_error p ''service_type'')
      | Some v \<Rightarrow> Inr (v = JStr t))"

definition getPublicPackages :: "string option \<Rightarrow> service" where
  "getPublicPackages serviceType =
     \<lparr>rq_client = PublicClient, rq_method = GET, rq_url = ''/public/packages'',
      rq_params = [], rq_body = JUndef, rq_config = [],
      rq_result =
        (if or_else serviceType [] \<noteq> []
         then then_result unwrap (array_filter ''all.filter'' (service_type_is (the serviceType)))
         else unwrap),
      rq_failure = Inl\<rparr>"

definition usePublicPackages :: "query_hook" where
  "usePublicPackages =
     \<lparr>q_key = qk_publicPackages None, q_fn = getPublicPackages None,
      q_enabled = (True), q_options = [(''staleTime'', JNum 60000)]\<rparr>"

definition useSubmitRegistration :: "js \<Rightarrow> mutation" where
  "useSubmitRegistration payload =
     \<lparr>m_fn = submitRegistration payload,
      m_success = (\<lambda>result. [])\<rparr>"

section \<open>Portal login\<close>

definition customerLogin :: "js \<Rightarrow> service" where
  "customerLogin payload =
     \<lparr>rq_client = PublicClient, rq_method = POST,
      rq_url = ''/customer/login'',
      rq_params = [],
      rq_body = payload, rq_config = [], rq_result = unwrap, rq_failure = Inl\<rparr>"

definition useCustomerLogin :: "js \<Rightarrow> mutation" where
  "useCustomerLogin payload =
     \<lparr>m_fn = customerLogin payload,
      m_success = (\<lambda>result. [])\<rparr>"

section \<open>Portal home\<close>

definition getPortalMe :: "service" where
  "getPortalMe =
     \<lparr>rq_client = PortalClient, rq_method = GET,
      rq_url = ''/customer/me'',
      rq_params = [],
      rq_body = JUndef, rq_config = [], rq_result = unwrap, rq_failure = Inl\<rparr>"

definition usePortalMe :: "query_hook" where
  "usePortalMe =
     \<lparr>q_key = qk_portalMe, q_fn = getPortalMe,
      q_enabled = (True), q_options = [(''staleTime'', JNum 60000)]\<rparr>"

section \<open>Portal profile\<close>

definition getPortalProfile :: "service" where
  "getPortalProfile =
     \<lparr>rq_client = PortalClient, rq_method = GET,
      rq_url = ''/customer/me'',
      rq_params = [],
      rq_body = JUndef, rq_config = [], rq_result = unwrap, rq_failure = Inl\<rparr>"

definition changePortalPassword :: "js \<Rightarrow> service" where
  "changePortalPassword payload =
     \<lparr>rq_client = PortalClient, rq_method = POST,
      rq_url = ''/customer/change-password'',
      rq_params = [],
      rq_body = payload, rq_config = [], rq_result = no_result, rq_failure = Inl\<rparr>"

definition useChangePortalPassword :: "js \<Rightarrow> mutation" where
  "useChangePortalPassword payload =
     \<lparr>m_fn = changePortalPassword payload,
      m_success = (\<lambda>result. [Invalidate (qk_portalMe)])\<rparr>"

section \<open>Portal subscriptions\<close>

definition listPortalSubscriptions :: "service" where
  "listPortalSubscriptions =
     \<lparr>rq_client = PortalClient, rq_method = GET,
      rq_url = ''/customer/subscriptions'',
      rq_params = [],
      rq_body = JUndef, rq_config = [], rq_result = unwrap, rq_failure = Inl\<rparr>"

definition getPortalSubscriptionStatus :: "int \<Rightarrow> service" where
  "getPortalSubscriptionStatus ident =
     \<lparr>rq_client = PortalClient, rq_method = GET,
      rq_url = ''/customer/subscriptions/'' @ show_int ident @ ''/status'',
      rq_params = [],
      rq_body = JUndef, rq_config = [], rq_result = unwrap, rq_failure = Inl\<rparr>"

definition usePortalSubscriptions :: "query_hook" where
  "usePortalSubscriptions =
     \<lparr>q_key = qk_portalSubscriptions, q_fn = listPortalSubscriptions,
      q_enabled = (True), q_options = [(''staleTime'', JNum 60000)]\<rparr>"

definition usePortalSubscriptionStatus :: "int \<Rightarrow> query_hook" where
  "usePortalSubscriptionStatus ident =
     \<lparr>q_key = qk_portalSubscription ident, q_fn = getPortalSubscriptionStatus ident,
      q_enabled = (0 < ident), q_options = [(''refetchInterval'', JNum 30000)]\<rparr>"

section \<open>Portal invoices\<close>

definition listPortalInvoices :: "filters option \<Rightarrow> service" where
  "listPortalInvoices filters =
     \<lparr>rq_client = PortalClient, rq_method = GET,
      rq_url = ''/customer/invoices'',
      rq_params = or_else filters [],
      rq_body = JUndef, rq_config = [], rq_result = unwrap, rq_failure = Inl\<rparr>"

definition getPortalInvoice :: "int \<Rightarrow> service" where
  "getPortalInvoice ident =
     \<lparr>rq_client = PortalClient, rq_method = GET,
      rq_url = ''/customer/invoices/'' @ show_int ident,
      rq_params = [],
      rq_body = JUndef, rq_config = [], rq_result = unwrap, rq_failure = Inl\<rparr>"

definition initiateOnlinePayment :: "int \<Rightarrow> service" where
  "initiateOnlinePayment invoiceId =
     \<lparr>rq_client = PortalClient, rq_method = POST,
      rq_url = ''/customer/invoices/'' @ show_int invoiceId @ ''/pay'',
      rq_params = [],
      rq_body = JUndef, rq_config = [], rq_result = unwrap, rq_failure = Inl\<rparr>"

definition getPaymentGatewayStatus :: "service" where
  "getPaymentGatewayStatus =
     \<lparr>rq_client = PortalClient, rq_method = GET,
      rq_url = ''/customer/payment-gateway/status'',
      rq_params = [],
      rq_body = JUndef, rq_config = [], rq_result = unwrap, rq_failure = Inl\<rparr>"

definition createPortalPayment :: "int \<Rightarrow> js \<Rightarrow> service" where
  "createPortalPayment invoiceId inp =
     \<lparr>rq_client = PortalClient, rq_method = POST,
      rq_url = ''/customer/invoices/'' @ show_int invoiceId @ ''/pay'',
      rq_params = [],
      rq_body = inp, rq_config = [], rq_result = unwrap, rq_failure = Inl\<rparr>"

text \<open>The form data is modelled as the object of its entries.\<close>

definition uploadProof :: "js \<Rightarrow> service" where
  "uploadProof file_obj =
     \<lparr>rq_client = PortalClient, rq_method = POST, rq_url = ''/customer/upload'',
      rq_params = [], rq_body = JObj [(''file'', file_obj)],
      rq_config = [(''headers'', JObj [(''Content-Type'', JStr ''multipart/form-data'')])],
      rq_result = unwrap, rq_failure = Inl\<rparr>"

definition usePortalInvoices :: "filters option \<Rightarrow> query_hook" where
  "usePortalInvoices filters =
     \<lparr>q_key = qk_portalInvoices filters, q_fn = listPortalInvoices filters,
      q_enabled = (True), q_options = [(''staleTime'', JNum 30000)]\<rparr>"

definition usePortalInvoice :: "int \<Rightarrow> query_hook" where
  "usePortalInvoice ident =
     \<lparr>q_key = qk_portalInvoice ident, q_fn = getPortalInvoice ident,
      q_enabled = (0 < ident), q_options = []\<rparr>"

definition useInitiateOnlinePayment :: "int \<Rightarrow> mutation" where
  "useInitiateOnlinePayment invoiceId =
     \<lparr>m_fn = initiateOnlinePayment invoiceId,
      m_success = (\<lambda>result. [])\<rparr>"

definition usePaymentGatewayStatus :: "query_hook" where
  "usePaymentGatewayStatus =
     \<lparr>q_key = [KS ''portal'', KS ''payment-gateway'', KS ''status''], q_fn = getPaymentGatewayStatus,
      q_enabled = (True), q_options = [(''staleTime'', JNum 60000)]\<rparr>"

definition useUploadProof :: "js \<Rightarrow> mutation" where
  "useUploadProof file_obj =
     \<lparr>m_fn = uploadProof file_obj,
      m_success = (\<lambda>result. [])\<rparr>"

definition useCreatePortalPayment :: "int \<Rightarrow> js \<Rightarrow> mutation" where
  "useCreatePortalPayment invoiceId inp =
     \<lparr>m_fn = createPortalPayment invoiceId inp,
      m_success = (\<lambda>result. [])\<rparr>"

section \<open>Portal payments\<close>

definition listPortalPayments :: "service" where
  "listPortalPayments =
     \<lparr>rq_client = PortalClient, rq_method = GET,
      rq_url = ''/customer/payments'',
      rq_params = [],
      rq_body = JUndef, rq_config = [], rq_result = unwrap, rq_failure = Inl\<rparr>"

definition usePortalPayments :: "query_hook" where
  "usePortalPayments =
     \<lparr>q_key = qk_portalPayments, q_fn = listPortalPayments,
      q_enabled = (True), q_options = [(''staleTime'', JNum 30000)]\<rparr>"


end
