(* ===== verification/Admin_Api.thy ===== *)
theory Admin_Api
  imports Api_Request
begin

text \<open>
  The service functions and hooks of the administrative features: sign-in, staff users, account,
  settings, message templates, logs, notifications and the WhatsApp gateway.
\<close>

section \<open>Staff sign-in\<close>

definition login :: "js \<Rightarrow> service" where
  "login payload =
     \<lparr>rq_client = ApiClient, rq_method = POST,
      rq_url = ''/auth/login'',
      rq_params = [],
      rq_body = payload, rq_config = [], rq_result = unwrap, rq_failure = Inl\<rparr>"

definition refreshToken :: "js \<Rightarrow> service" where
  "refreshToken payload =
     \<lparr>rq_client = ApiClient, rq_method = POST,
      rq_url = ''/auth/refresh'',
      rq_params = [],
      rq_body = payload, rq_config = [], rq_result = unwrap, rq_failure = Inl\<rparr>"

definition getMe :: "service" where
  "getMe =
     \<lparr>rq_client = ApiClient, rq_method = GET,
      rq_url = ''/auth/me'',
      rq_params = [],
      rq_body = JUndef, rq_config = [], rq_result = unwrap, rq_failure = Inl\<rparr>"

definition logout :: "string option \<Rightarrow> service" where
  "logout refresh_token =
     \<lparr>rq_client = ApiClient, rq_method = POST, rq_url = ''/auth/logout'', rq_params = [],
      rq_body = JObj (if or_else refresh_token [] \<noteq> [] then [(''refresh_token'', opt_str refresh_token)] else []),
      rq_config = [], rq_result = no_result, rq_failure = Inl\<rparr>"

section \<open>Staff users\<close>

definition admin_users_base :: string where
  "admin_users_base = ''/auth/users''"

definition listAdminUsers :: "service" where
  "listAdminUsers =
     \<lparr>rq_client = ApiClient, rq_method = GET,
      rq_url = admin_users_base,
      rq_params = [],
      rq_body = JUndef, rq_config = [], rq_result = unwrap, rq_failure = Inl\<rparr>"

definition getAdminUser :: "int \<Rightarrow> service" where
  "getAdminUser ident =
     \<lparr>rq_client = ApiClient, rq_method = GET,
      rq_url = admin_users_base @ ''/'' @ show_int ident,
      rq_params = [],
      rq_body = JUndef, rq_config = [], rq_result = unwrap, rq_failure = Inl\<rparr>"

definition createAdminUser :: "js \<Rightarrow> service" where
  "createAdminUser body =
     \<lparr>rq_client = ApiClient, rq_method = POST,
      rq_url = admin_users_base,
      rq_params = [],
      rq_body = body, rq_config = [], rq_result = unwrap, rq_failure = Inl\<rparr>"

definition updateAdminUser :: "int \<Rightarrow> js \<Rightarrow> service" where
  "updateAdminUser ident body =
     \<lparr>rq_client = ApiClient, rq_method = PUT,
      rq_url = admin_users_base @ ''/'' @ show_int ident,
      rq_params = [],
      rq_body = body, rq_config = [], rq_result = unwrap, rq_failure = Inl\<rparr>"

definition deleteAdminUser :: "int \<Rightarrow> service" where
  "deleteAdminUser ident =
     \<lparr>rq_client = ApiClient, rq_method = DELETE,
      rq_url = admin_users_base @ ''/'' @ show_int ident,
      rq_params = [],
      rq_body = JUndef, rq_config = [], rq_result = no_result, rq_failure = Inl\<rparr>"

definition batchDeleteAdminUsers :: "int list \<Rightarrow> service" where
  "batchDeleteAdminUsers ids =
     \<lparr>rq_client = ApiClient, rq_method = POST,
      rq_url = admin_users_base @ ''/batch-delete'',
      rq_params = [],
      rq_body = JObj ([(''ids'', JArr (map (\<lambda>i. JNum (of_int i)) ids))]), rq_config = [], rq_result = unwrap_get ''deleted'', rq_failure = Inl\<rparr>"

definition useAdminUsers :: "query_hook" where
  "useAdminUsers =
     \<lparr>q_key = qk_adminUsers, q_fn = listAdminUsers,
      q_enabled = (True), q_options = []\<rparr>"

definition useAdminUser :: "int \<Rightarrow> query_hook" where
  "useAdminUser ident =
     \<lparr>q_key = qk_adminUser ident, q_fn = getAdminUser ident,
      q_enabled = (0 < ident), q_options = []\<rparr>"

definition useCreateAdminUser :: "js \<Rightarrow> mutation" where
  "useCreateAdminUser body =
     \<lparr>m_fn = createAdminUser body,
      m_success = (\<lambda>result. [SetQueryData (qk_adminUser (num_of (js_optget result ''id''))) result, Invalidate (qk_adminUsers)])\<rparr>"

definition useUpdateAdminUser :: "int \<Rightarrow> js \<Rightarrow> mutation" where
  "useUpdateAdminUser ident body =
     \<lparr>m_fn = updateAdminUser ident body,
      m_success = (\<lambda>result. [SetQueryData (qk_adminUser (num_of (js_optget result ''id''))) result, Invalidate (qk_adminUsers)])\<rparr>"

definition useDeleteAdminUser :: "int \<Rightarrow> mutation" where
  "useDeleteAdminUser ident =
     \<lparr>m_fn = deleteAdminUser ident,
      m_success = (\<lambda>result. [Remove (qk_adminUser ident), Invalidate (qk_adminUsers)])\<rparr>"

definition useBatchDeleteAdminUsers :: "int list \<Rightarrow> mutation" where
  "useBatchDeleteAdminUsers ids =
     \<lparr>m_fn = batchDeleteAdminUsers ids,
      m_success = (\<lambda>result. [Invalidate (qk_adminUsers)])\<rparr>"

section \<open>Own account\<close>

definition account_getMe :: "service" where
  "account_getMe =
     \<lparr>rq_client = ApiClient, rq_method = GET,
      rq_url = ''/auth/me'',
      rq_params = [],
      rq_body = JUndef, rq_config = [], rq_result = unwrap, rq_failure = Inl\<rparr>"

definition updateMe :: "js \<Rightarrow> service" where
  "updateMe payload =
     \<lparr>rq_client = ApiClient, rq_method = PUT,
      rq_url = ''/auth/me'',
      rq_params = [],
      rq_body = payload, rq_config = [], rq_result = unwrap, rq_failure = Inl\<rparr>"

definition account_meKey :: "qkey" where
  "account_meKey = [KS ''me'']"

definition useMe :: "query_hook" where
  "useMe =
     \<lparr>q_key = account_meKey, q_fn = account_getMe,
      q_enabled = (True), q_options = []\<rparr>"

definition useUpdateMe :: "js \<Rightarrow> mutation" where
  "useUpdateMe payload =
     \<lparr>m_fn = updateMe payload,
      m_success = (\<lambda>result. [Invalidate (account_meKey)])\<rparr>"

section \<open>System settings\<close>

definition listSettings :: "service" where
  "listSettings =
     \<lparr>rq_client = ApiClient, rq_method = GET,
      rq_url = ''/settings'',
      rq_params = [],
      rq_body = JUndef, rq_config = [], rq_result = unwrap, rq_failure = Inl\<rparr>"

definition updateSetting :: "string \<Rightarrow> string \<Rightarrow> service" where
  "updateSetting key value =
     \<lparr>rq_client = ApiClient, rq_method = PUT,
      rq_url = ''/settings/'' @ encodeURIComponent key,
      rq_params = [],
      rq_body = JObj ([(''value'', JStr value)]), rq_config = [], rq_result = no_result, rq_failure = Inl\<rparr>"

definition useSystemSettings :: "query_hook" where
  "useSystemSettings =
     \<lparr>q_key = qk_settings, q_fn = listSettings,
      q_enabled = (True), q_options = [(''staleTime'', JNum 60000)]\<rparr>"

definition useUpdateSetting :: "string \<Rightarrow> string \<Rightarrow> mutation" where
  "useUpdateSetting key value =
     \<lparr>m_fn = updateSetting key value,
      m_success = (\<lambda>result. [Invalidate (qk_settings)])\<rparr>"

section \<open>Payment gateway\<close>

definition testPaymentGateway :: "service" where
  "testPaymentGateway =
     \<lparr>rq_client = ApiClient, rq_method = POST,
      rq_url = ''/settings/payment-gateway/test'',
      rq_params = [],
      rq_body = JUndef, rq_config = [], rq_result = Inr, rq_failure = Inl\<rparr>"

definition useTestPaymentGateway :: "mutation" where
  "useTestPaymentGateway =
     \<lparr>m_fn = testPaymentGateway,
      m_success = (\<lambda>result. [])\<rparr>"

section \<open>Message templates\<close>

definition message_templates_base :: string where
  "message_templates_base = ''/message-templates''"

definition listMessageTemplates :: "service" where
  "listMessageTemplates =
     \<lparr>rq_client = ApiClient, rq_method = GET,
      rq_url = message_templates_base,
      rq_params = [],
      rq_body = JUndef, rq_config = [], rq_result = unwrap, rq_failure = Inl\<rparr>"

definition updateMessageTemplate :: "string \<Rightarrow> js \<Rightarrow> service" where
  "updateMessageTemplate slug payload =
     \<lparr>rq_client = ApiClient, rq_method = PUT,
      rq_url = message_templates_base @ ''/'' @ slug,
      rq_params = [],
      rq_body = payload, rq_config = [], rq_result = unwrap, rq_failure = Inl\<rparr>"

definition useMessageTemplates :: "query_hook" where
  "useMessageTemplates =
     \<lparr>q_key = qk_messageTemplates, q_fn = listMessageTemplates,
      q_enabled = (True), q_options = []\<rparr>"

definition useUpdateMessageTemplate :: "string \<Rightarrow> js \<Rightarrow> mutation" where
  "useUpdateMessageTemplate slug payload =
     \<lparr>m_fn = updateMessageTemplate slug payload,
      m_success = (\<lambda>result. [Invalidate ([KS ''message-templates''])])\<rparr>"

section \<open>Notification log\<close>

definition notifications_base :: string where
  "notifications_base = ''/notifications''"

definition listNotifications :: "filters option \<Rightarrow> service" where
  "listNotifications filters =
     \<lparr>rq_client = ApiClient, rq_method = GET,
      rq_url = notifications_base,
      rq_params = or_else filters [],
      rq_body = JUndef, rq_config = [], rq_result = unwrap, rq_failure = Inl\<rparr>"

definition useNotifications :: "filters option \<Rightarrow> query_hook" where
  "useNotifications filters =
     \<lparr>q_key = qk_notificationsLog filters, q_fn = listNotifications filters,
      q_enabled = (True), q_options = []\<rparr>"

section \<open>Audit log\<close>

definition audit_logs_base :: string where
  "audit_logs_base = ''/audit-logs''"

definition listAuditLogs :: "filters option \<Rightarrow> service" where
  "listAuditLogs filters =
     \<lparr>rq_client = ApiClient, rq_method = GET,
      rq_url = audit_logs_base,
      rq_params = or_else filters [],
      rq_body = JUndef, rq_config = [], rq_result = unwrap, rq_failure = Inl\<rparr>"

definition useAuditLogs :: "filters option \<Rightarrow> query_hook" where
  "useAuditLogs filters =
     \<lparr>q_key = qk_auditLogs filters, q_fn = listAuditLogs filters,
      q_enabled = (True), q_options = []\<rparr>"

section \<open>Notification center\<close>

definition getWhatsAppStatus :: "service" where
  "getWhatsAppStatus =
     \<lparr>rq_client = ApiClient, rq_method = GET,
      rq_url = ''/whatsapp/status'',
      rq_params = [],
      rq_body = JUndef, rq_config = [], rq_result = unwrap, rq_failure = Inl\<rparr>"

definition pairWhatsAppPhone :: "string \<Rightarrow> service" where
  "pairWhatsAppPhone phoneNo =
     \<lparr>rq_client = ApiClient, rq_method = POST,
      rq_url = ''/whatsapp/pair-phone'',
      rq_params = [],
      rq_body = JObj ([(''phone'', JStr phoneNo)]), rq_config = [], rq_result = unwrap, rq_failure = Inl\<rparr>"

definition logoutWhatsApp :: "service" where
  "logoutWhatsApp =
     \<lparr>rq_client = ApiClient, rq_method = POST,
      rq_url = ''/whatsapp/logout'',
      rq_params = [],
      rq_body = JUndef, rq_config = [], rq_result = no_result, rq_failure = Inl\<rparr>"

definition getWhatsAppContacts :: "service" where
  "getWhatsAppContacts =
     \<lparr>rq_client = ApiClient, rq_method = GET,
      rq_url = ''/whatsapp/contacts'',
      rq_params = [],
      rq_body = JUndef, rq_config = [], rq_result = unwrap_or_empty, rq_failure = Inl\<rparr>"

definition getWhatsAppGroups :: "service" where
  "getWhatsAppGroups =
     \<lparr>rq_client = ApiClient, rq_method = GET,
      rq_url = ''/whatsapp/groups'',
      rq_params = [],
      rq_body = JUndef, rq_config = [], rq_result = unwrap_or_empty, rq_failure = Inl\<rparr>"

definition sendWhatsAppTest :: "js \<Rightarrow> service" where
  "sendWhatsAppTest payload =
     \<lparr>rq_client = ApiClient, rq_method = POST,
      rq_url = ''/whatsapp/test'',
      rq_params = [],
      rq_body = payload, rq_config = [], rq_result = unwrap, rq_failure = Inl\<rparr>"

definition listNotifEvents :: "service" where
  "listNotifEvents =
     \<lparr>rq_client = ApiClient, rq_method = GET,
      rq_url = ''/notification-events'',
      rq_params = [],
      rq_body = JUndef, rq_config = [], rq_result = unwrap_or_empty, rq_failure = Inl\<rparr>"

definition updateNotifEvent :: "string \<Rightarrow> js \<Rightarrow> service" where
  "updateNotifEvent event_name payload =
     \<lparr>rq_client = ApiClient, rq_method = PUT,
      rq_url = ''/notification-events/'' @ event_name,
      rq_params = [],
      rq_body = payload, rq_config = [], rq_result = no_result, rq_failure = Inl\<rparr>"

definition notification_center_updateSetting :: "string \<Rightarrow> string \<Rightarrow> service" where
  "notification_center_updateSetting key value =
     \<lparr>rq_client = ApiClient, rq_method = PUT,
      rq_url = ''/settings/'' @ key,
      rq_params = [],
      rq_body = JObj ([(''value'', JStr value)]), rq_config = [], rq_result = no_result, rq_failure = Inl\<rparr>"

definition sendTelegramTest :: "js \<Rightarrow> service" where
  "sendTelegramTest payload =
     \<lparr>rq_client = ApiClient, rq_method = POST,
      rq_url = ''/telegram/test'',
      rq_params = [],
      rq_body = payload, rq_config = [], rq_result = unwrap, rq_failure = Inl\<rparr>"

text \<open>
  A 409 means the phone is already connected and is turned into null; other failures are
  thrown again.
\<close>

definition already_connected :: "thrown \<Rightarrow> thrown + js" where
  "already_connected e =
     (case e of
        AxiosErr a \<Rightarrow> (if map_option resp_status (ax_response a) = Some 409 then Inr JNull else Inl e)
      | _ \<Rightarrow> Inl e)"

definition getWhatsAppQR :: service where
  "getWhatsAppQR =
     \<lparr>rq_client = ApiClient, rq_method = GET, rq_url = ''/whatsapp/qr'',
      rq_params = [], rq_body = JUndef, rq_config = [],
      rq_result = unwrap, rq_failure = already_connected\<rparr>"

text \<open>\<open>s.key.startsWith(p)\<close> throws when \<open>s\<close> is null or undefined or its key is not a string.\<close>

definition setting_key :: "js \<Rightarrow> thrown + string" where
  "setting_key s =
     (case js_get s ''key'' of
        None \<Rightarrow> Inl (type_error s ''key'')
      | Some k \<Rightarrow>
          (case k of
             JStr t \<Rightarrow> Inr t
           | _ \<Rightarrow> Inl (if nullish k then type_error k ''startsWith''
                        else NativeErr (JStr ''s.key.startsWith is not a function''))))"

definition key_where :: "(string \<Rightarrow> bool) \<Rightarrow> js \<Rightarrow> thrown + bool" where
  "key_where q s = (case setting_key s of Inl e \<Rightarrow> Inl e | Inr k \<Rightarrow> Inr (q k))"

definition getNotifSettings :: service where
  "getNotifSettings =
     \<lparr>rq_client = ApiClient, rq_method = GET, rq_url = ''/settings'',
      rq_params = [], rq_body = JUndef, rq_config = [],
      rq_result = then_result unwrap_or_empty
        (array_filter ''all.filter''
          (key_where (\<lambda>k. prefix ''notification.'' k \<and> \<not> prefix ''notification.event.'' k))),
      rq_failure = Inl\<rparr>"

definition useWhatsAppStatus :: "query_hook" where
  "useWhatsAppStatus =
     \<lparr>q_key = qk_whatsappStatus, q_fn = getWhatsAppStatus,
      q_enabled = (True), q_options = [(''refetchInterval'', JNum 3000)]\<rparr>"

definition useWhatsAppQR :: "bool \<Rightarrow> query_hook" where
  "useWhatsAppQR enabled =
     \<lparr>q_key = qk_whatsappQR, q_fn = getWhatsAppQR,
      q_enabled = (enabled), q_options = [(''refetchInterval'', if enabled then JNum 20000 else JBool False), (''gcTime'', JNum 0)]\<rparr>"

definition usePairWhatsAppPhone :: "string \<Rightarrow> mutation" where
  "usePairWhatsAppPhone phoneNo =
     \<lparr>m_fn = pairWhatsAppPhone phoneNo,
      m_success = (\<lambda>result. [])\<rparr>"

definition useLogoutWhatsApp :: "mutation" where
  "useLogoutWhatsApp =
     \<lparr>m_fn = logoutWhatsApp,
      m_success = (\<lambda>result. [Invalidate ([KS ''whatsapp''])])\<rparr>"

definition useWhatsAppContacts :: "bool \<Rightarrow> query_hook" where
  "useWhatsAppContacts enabled =
     \<lparr>q_key = qk_whatsappContacts, q_fn = getWhatsAppContacts,
      q_enabled = (enabled), q_options = [(''staleTime'', JNum 60000)]\<rparr>"

definition useWhatsAppGroups :: "bool \<Rightarrow> query_hook" where
  "useWhatsAppGroups enabled =
     \<lparr>q_key = qk_whatsappGroups, q_fn = getWhatsAppGroups,
      q_enabled = (enabled), q_options = [(''staleTime'', JNum 60000)]\<rparr>"

definition useSendWhatsAppTest :: "js \<Rightarrow> mutation" where
  "useSendWhatsAppTest payload =
     \<lparr>m_fn = sendWhatsAppTest payload,
      m_success = (\<lambda>result. [])\<rparr>"

definition useNotifEvents :: "query_hook" where
  "useNotifEvents =
     \<lparr>q_key = qk_notifEvents, q_fn = listNotifEvents,
      q_enabled = (True), q_options = []\<rparr>"

definition useUpdateNotifEvent :: "string \<Rightarrow> js \<Rightarrow> mutation" where
  "useUpdateNotifEvent event_name payload =
     \<lparr>m_fn = updateNotifEvent event_name payload,
      m_success = (\<lambda>result. [Invalidate (qk_notifEvents)])\<rparr>"

definition useNotifSettings :: "query_hook" where
  "useNotifSettings =
     \<lparr>q_key = qk_settings @ [KS ''notification-group''], q_fn = getNotifSettings,
      q_enabled = (True), q_options = []\<rparr>"

definition notification_center_useUpdateSetting :: "string \<Rightarrow> string \<Rightarrow> mutation" where
  "notification_center_useUpdateSetting key value =
     \<lparr>m_fn = notification_center_updateSetting key value,
      m_success = (\<lambda>result. [Invalidate ([KS ''settings''])])\<rparr>"

definition useSendTelegramTest :: "js \<Rightarrow> mutation" where
  "useSendTelegramTest payload =
     \<lparr>m_fn = sendTelegramTest payload,
      m_success = (\<lambda>result. [])\<rparr>"

section \<open>WhatsApp page\<close>

definition whatsapp_getWhatsAppStatus :: "service" where
  "whatsapp_getWhatsAppStatus =
     \<lparr>rq_client = ApiClient, rq_method = GET,
      rq_url = ''/whatsapp/status'',
      rq_params = [],
      rq_body = JUndef, rq_config = [], rq_result = unwrap, rq_failure = Inl\<rparr>"

definition whatsapp_logoutWhatsApp :: "service" where
  "whatsapp_logoutWhatsApp =
     \<lparr>rq_client = ApiClient, rq_method = POST,
      rq_url = ''/whatsapp/logout'',
      rq_params = [],
      rq_body = JUndef, rq_config = [], rq_result = no_result, rq_failure = Inl\<rparr>"

definition whatsapp_sendWhatsAppTest :: "js \<Rightarrow> service" where
  "whatsapp_sendWhatsAppTest payload =
     \<lparr>rq_client = ApiClient, rq_method = POST,
      rq_url = ''/whatsapp/test'',
      rq_params = [],
      rq_body = payload, rq_config = [], rq_result = unwrap, rq_failure = Inl\<rparr>"

definition whatsapp_updateSetting :: "string \<Rightarrow> string \<Rightarrow> service" where
  "whatsapp_updateSetting key value =
     \<lparr>rq_client = ApiClient, rq_method = PUT,
      rq_url = ''/settings/'' @ key,
      rq_params = [],
      rq_body = JObj ([(''value'', JStr value)]), rq_config = [], rq_result = no_result, rq_failure = Inl\<rparr>"

definition whatsapp_getWhatsAppQR :: service where
  "whatsapp_getWhatsAppQR =
     \<lparr>rq_client = ApiClient, rq_method = GET, rq_url = ''/whatsapp/qr'',
      rq_params = [], rq_body = JUndef, rq_config = [],
      rq_result = unwrap, rq_failure = already_connected\<rparr>"

definition NOTIF_PREFIX :: string where
  "NOTIF_PREFIX = ''notification.''"

definition getNotificationSettings :: service where
  "getNotificationSettings =
     \<lparr>rq_client = ApiClient, rq_method = GET, rq_url = ''/settings'',
      rq_params = [], rq_body = JUndef, rq_config = [],
      rq_result = then_result unwrap (array_filter ''all.filter'' (key_where (prefix NOTIF_PREFIX))),
      rq_failure = Inl\<rparr>"

definition whatsapp_useWhatsAppStatus :: "query_hook" where
  "whatsapp_useWhatsAppStatus =
     \<lparr>q_key = qk_whatsappStatus, q_fn = whatsapp_getWhatsAppStatus,
      q_enabled = (True), q_options = [(''refetchInterval'', JNum 3000)]\<rparr>"

definition whatsapp_useWhatsAppQR :: "bool \<Rightarrow> query_hook" where
  "whatsapp_useWhatsAppQR enabled =
     \<lparr>q_key = qk_whatsappQR, q_fn = whatsapp_getWhatsAppQR,
      q_enabled = (enabled), q_options = [(''refetchInterval'', if enabled then JNum 20000 else JBool False), (''gcTime'', JNum 0)]\<rparr>"

definition whatsapp_useLogoutWhatsApp :: "mutation" where
  "whatsapp_useLogoutWhatsApp =
     \<lparr>m_fn = whatsapp_logoutWhatsApp,
      m_success = (\<lambda>result. [Invalidate ([KS ''whatsapp''])])\<rparr>"

definition whatsapp_useSendWhatsAppTest :: "js \<Rightarrow> mutation" where
  "whatsapp_useSendWhatsAppTest payload =
     \<lparr>m_fn = whatsapp_sendWhatsAppTest payload,
      m_success = (\<lambda>result. [])\<rparr>"

definition useNotificationSettings :: "query_hook" where
  "useNotificationSettings =
     \<lparr>q_key = qk_settings, q_fn = getNotificationSettings,
      q_enabled = (True), q_options = []\<rparr>"

definition whatsapp_useUpdateSetting :: "string \<Rightarrow> string \<Rightarrow> mutation" where
  "whatsapp_useUpdateSetting key value =
     \<lparr>m_fn = whatsapp_updateSetting key value,
      m_success = (\<lambda>result. [Invalidate ([KS ''settings''])])\<rparr>"


end
