(* ===== verification/Api_Laws.thy ===== *)
theory Api_Laws
  imports Hotspot_Api Device_Api Billing_Api Admin_Api
begin

text \<open>
  Laws that all service functions and hooks obey together:
  \<^item> every request of a router-scoped function goes to that router, and an identifier stays inside
    its own segment of the path, whatever characters it has;
  \<^item> no router-scoped query runs before a router is selected;
  \<^item> hooks that share a cache key fetch the same thing (with the two exceptions found);
  \<^item> after a successful write, the queries that show what was written are fetched again.
\<close>

section \<open>Paths\<close>

text \<open>The functions that take a router, with the router they take.\<close>

inductive device_call :: "int \<Rightarrow> service \<Rightarrow> bool" where
  "device_call routerId (listHotspotUsers routerId filters)"
| "device_call routerId (getHotspotUserCount routerId profile)"
| "device_call routerId (exportHotspotUsersCSV routerId profile)"
| "device_call routerId (getHotspotUser routerId ident)"
| "device_call routerId (addHotspotUser routerId payload)"
| "device_call routerId (updateHotspotUser routerId ident patch)"
| "device_call routerId (removeHotspotUser routerId ident)"
| "device_call routerId (resetHotspotUserCounters routerId ident)"
| "device_call routerId (revealHotspotUserPassword routerId ident)"
| "device_call routerId (getHotspotProfile routerId ident)"
| "device_call routerId (removeHotspotProfile routerId ident)"
| "device_call routerId (syncHotspotProfiles routerId)"
| "device_call routerId (listHotspotProfiles routerId)"
| "device_call routerId (addHotspotProfile routerId params)"
| "device_call routerId (updateHotspotProfile routerId ident params)"
| "device_call routerId (listHotspotActive routerId)"
| "device_call routerId (removeHotspotActive routerId ident)"
| "device_call routerId (disconnectHotspotUser routerId ident)"
| "device_call routerId (listInactiveHotspotUsers routerId)"
| "device_call routerId (getInactiveHotspotUserCount routerId)"
| "device_call routerId (listHotspotHosts routerId)"
| "device_call routerId (removeHotspotHost routerId ident)"
| "device_call routerId (listHotspotCookies routerId)"
| "device_call routerId (removeHotspotCookie routerId ident)"
| "device_call routerId (listHotspotServers routerId)"
| "device_call routerId (listIPBindings routerId)"
| "device_call routerId (addIPBinding routerId payload)"
| "device_call routerId (updateIPBinding routerId ident patch)"
| "device_call routerId (removeIPBinding routerId ident)"
| "device_call routerId (enableIPBinding routerId ident)"
| "device_call routerId (disableIPBinding routerId ident)"
| "device_call routerId (listHotspotDbProfiles routerId filters)"
| "device_call routerId (createHotspotDbProfile routerId payload)"
| "device_call routerId (updateHotspotDbProfile routerId ident payload)"
| "device_call routerId (removeHotspotDbProfile routerId ident)"
| "device_call routerId (syncHotspotDbProfiles routerId role)"
| "device_call routerId (voucher_generate_listHotspotServers routerId)"
| "device_call routerId (generateVoucher routerId params)"
| "device_call routerId (getCachedVouchers routerId gencode)"
| "device_call routerId (listQuickPrintPackages routerId)"
| "device_call routerId (getQuickPrintPackage routerId name)"
| "device_call routerId (createQuickPrintPackage routerId body)"
| "device_call routerId (updateQuickPrintPackage routerId name body)"
| "device_call routerId (removeQuickPrintPackage routerId name)"
| "device_call routerId (getPrintData routerId gencode)"
| "device_call routerId (printVouchers routerId body)"
| "device_call routerId (recordSale routerId params)"
| "device_call routerId (importSales routerId)"
| "device_call routerId (getDailyReport routerId date filters)"
| "device_call routerId (getMonthlyReport routerId year month)"
| "device_call routerId (getResumeReport routerId year)"
| "device_call routerId (getDashboardSummary routerId)"
| "device_call routerId (exportSalesCSV routerId from_date to_date filters)"
| "device_call routerId (exportSalesExcel routerId from_date to_date filters)"
| "device_call routerId (listSales routerId params)"
| "device_call routerId (listPPPSecrets routerId)"
| "device_call routerId (addPPPSecret routerId payload)"
| "device_call routerId (updatePPPSecret routerId ident patch)"
| "device_call routerId (setPPPSecretDisabled routerId ident disabled)"
| "device_call routerId (removePPPSecret routerId ident)"
| "device_call routerId (batchRemovePPPSecrets routerId ids)"
| "device_call routerId (revealPPPSecretPassword routerId ident)"
| "device_call routerId (listPPPActive routerId)"
| "device_call routerId (disconnectPPPActive routerId ident)"
| "device_call routerId (listPPPProfiles routerId)"
| "device_call routerId (addPPPProfile routerId payload)"
| "device_call routerId (updatePPPProfile routerId ident patch)"
| "device_call routerId (removePPPProfile routerId ident)"
| "device_call routerId (listPPPDbProfiles routerId)"
| "device_call routerId (createPPPDbProfile routerId payload)"
| "device_call routerId (updatePPPDbProfile routerId ident payload)"
| "device_call routerId (removePPPDbProfile routerId ident)"
| "device_call routerId (syncPPPDbProfiles routerId)"
| "device_call routerId (listPools routerId)"
| "device_call routerId (createPool routerId payload)"
| "device_call routerId (deletePool routerId ident)"
| "device_call routerId (listQueues routerId)"
| "device_call routerId (deleteQueue routerId ident)"
| "device_call routerId (listDHCPLeases routerId)"
| "device_call routerId (deleteDHCPLease routerId ident)"
| "device_call routerId (arpByMac routerId mac_addr)"
| "device_call routerId (getInterfaceHistory routerId rng)"
| "device_call routerId (getQueueHistory routerId rng)"
| "device_call routerId (listInterfaces routerId)"
| "device_call routerId (getInterfaceTraffic routerId iface)"
| "device_call routerId (traffic_listQueues routerId)"
| "device_call routerId (listNATRules routerId)"
| "device_call routerId (traffic_listDHCPLeases routerId)"
| "device_call routerId (listIPPools routerId)"
| "device_call routerId (listLogEntries routerId)"
| "device_call rid (getIdentity rid)"
| "device_call rid (getResource rid)"
| "device_call rid (getRouterboard rid)"
| "device_call rid (getClock rid)"
| "device_call rid (getLicense rid)"
| "device_call rid (reboot rid)"
| "device_call rid (shutdown rid)"
| "device_call rid (listScripts rid)"
| "device_call rid (createScript rid payload)"
| "device_call rid (deleteScript rid ident)"
| "device_call rid (listSchedulers rid)"
| "device_call rid (createScheduler rid payload)"
| "device_call rid (deleteScheduler rid ident)"
| "device_call rid (getSellingToday rid)"
| "device_call rid (getSellingSummary rid month)"
| "device_call rid (getSelling rid month)"
| "device_call deviceId (listSubscriptionsByDevice deviceId)"

text \<open>The functions that put an identifier into the path, as functions of that identifier.\<close>

inductive item_call :: "(string \<Rightarrow> service) \<Rightarrow> bool" where
  "item_call (\<lambda>ident. getHotspotUser routerId ident)"
| "item_call (\<lambda>ident. updateHotspotUser routerId ident patch)"
| "item_call (\<lambda>ident. removeHotspotUser routerId ident)"
| "item_call (\<lambda>ident. resetHotspotUserCounters routerId ident)"
| "item_call (\<lambda>ident. revealHotspotUserPassword routerId ident)"
| "item_call (\<lambda>ident. getHotspotProfile routerId ident)"
| "item_call (\<lambda>ident. removeHotspotProfile routerId ident)"
| "item_call (\<lambda>ident. updateHotspotProfile routerId ident params)"
| "item_call (\<lambda>ident. removeHotspotActive routerId ident)"
| "item_call (\<lambda>ident. disconnectHotspotUser routerId ident)"
| "item_call (\<lambda>ident. removeHotspotHost routerId ident)"
| "item_call (\<lambda>ident. removeHotspotCookie routerId ident)"
| "item_call (\<lambda>ident. updateIPBinding routerId ident patch)"
| "item_call (\<lambda>ident. removeIPBinding routerId ident)"
| "item_call (\<lambda>ident. enableIPBinding routerId ident)"
| "item_call (\<lambda>ident. disableIPBinding routerId ident)"
| "item_call (\<lambda>name. getQuickPrintPackage routerId name)"
| "item_call (\<lambda>name. updateQuickPrintPackage routerId name body)"
| "item_call (\<lambda>name. removeQuickPrintPackage routerId name)"
| "item_call (\<lambda>ident. updatePPPSecret routerId ident patch)"
| "item_call (\<lambda>ident. setPPPSecretDisabled routerId ident disabled)"
| "item_call (\<lambda>ident. removePPPSecret routerId ident)"
| "item_call (\<lambda>ident. revealPPPSecretPassword routerId ident)"
| "item_call (\<lambda>ident. disconnectPPPActive routerId ident)"
| "item_call (\<lambda>ident. updatePPPProfile routerId ident patch)"
| "item_call (\<lambda>ident. removePPPProfile routerId ident)"
| "item_call (\<lambda>ident. deletePool routerId ident)"
| "item_call (\<lambda>ident. deleteQueue routerId ident)"
| "item_call (\<lambda>ident. deleteDHCPLease routerId ident)"
| "item_call (\<lambda>iface. getInterfaceTraffic routerId iface)"
| "item_call (\<lambda>ident. deleteScript rid ident)"
| "item_call (\<lambda>ident. deleteScheduler rid ident)"
| "item_call (\<lambda>key. updateSetting key value)"

lemmas base_defs =
  hotspot_users_base_def hotspot_profiles_base_def hotspot_active_base_def
  hotspot_inactive_base_def hotspot_hosts_base_def hotspot_cookies_base_def
  hotspot_servers_base_def hotspot_bindings_base_def hotspot_billing_base_def
  voucher_generate_base_def voucher_print_base_def voucher_render_voucherBase_def
  voucher_sales_reportsBase_def ppp_secrets_base_def ppp_active_base_def ppp_profiles_base_def
  ppp_billing_base_def network_base_def traffic_base_def traffic_historyBase_def system_base_def
  reports_base_def routers_base_def customers_base_def subscriptions_base_def invoices_base_def
  payments_base_def registrations_base_def admin_users_base_def message_templates_base_def
  notifications_base_def audit_logs_base_def

lemmas device_service_defs =
  addHotspotProfile_def addHotspotUser_def addIPBinding_def addPPPProfile_def addPPPSecret_def
  arpByMac_def batchRemovePPPSecrets_def createHotspotDbProfile_def createPPPDbProfile_def
  createPool_def createQuickPrintPackage_def createScheduler_def createScript_def
  deleteDHCPLease_def deletePool_def deleteQueue_def deleteScheduler_def deleteScript_def
  disableIPBinding_def disconnectHotspotUser_def disconnectPPPActive_def enableIPBinding_def
  exportHotspotUsersCSV_def exportSalesCSV_def exportSalesExcel_def generateVoucher_def
  getCachedVouchers_def getClock_def getDailyReport_def getDashboardSummary_def
  getHotspotProfile_def getHotspotUser_def getHotspotUserCount_def getIdentity_def
  getInactiveHotspotUserCount_def getInterfaceHistory_def getInterfaceTraffic_def getLicense_def
  getMonthlyReport_def getPrintData_def getQueueHistory_def getQuickPrintPackage_def
  getResource_def getResumeReport_def getRouterboard_def getSelling_def getSellingSummary_def
  getSellingToday_def importSales_def listDHCPLeases_def listHotspotActive_def
  listHotspotCookies_def listHotspotDbProfiles_def listHotspotHosts_def listHotspotProfiles_def
  listHotspotServers_def listHotspotUsers_def listIPBindings_def listIPPools_def
  listInactiveHotspotUsers_def listInterfaces_def listLogEntries_def listNATRules_def
  listPPPActive_def listPPPDbProfiles_def listPPPProfiles_def listPPPSecrets_def listPools_def
  listQueues_def listQuickPrintPackages_def listSales_def listSchedulers_def listScripts_def
  listSubscriptionsByDevice_def printVouchers_def reboot_def recordSale_def
  removeHotspotActive_def removeHotspotCookie_def removeHotspotDbProfile_def
  removeHotspotHost_def removeHotspotProfile_def removeHotspotUser_def removeIPBinding_def
  removePPPDbProfile_def removePPPProfile_def removePPPSecret_def removeQuickPrintPackage_def
  resetHotspotUserCounters_def revealHotspotUserPassword_def revealPPPSecretPassword_def
  setPPPSecretDisabled_def shutdown_def syncHotspotDbProfiles_def syncHotspotProfiles_def
  syncPPPDbProfiles_def traffic_listDHCPLeases_def traffic_listQueues_def
  updateHotspotDbProfile_def updateHotspotProfile_def updateHotspotUser_def updateIPBinding_def
  updatePPPDbProfile_def updatePPPProfile_def updatePPPSecret_def updateQuickPrintPackage_def
  updateSetting_def voucher_generate_listHotspotServers_def


text \<open>Splitting at slashes, as rewrite rules over a path made of literals and slash-free pieces.\<close>

lemma split_slash:
  "split_acc ''/'' acc [] = [rev acc]"
  "split_acc ''/'' acc (CHR ''/'' # s) = rev acc # split_acc ''/'' [] s"
  "c \<noteq> CHR ''/'' \<Longrightarrow> split_acc ''/'' acc (c # s) = split_acc ''/'' (c # acc) s"
  by simp_all

lemma split_slash_piece:
  "CHR ''/'' \<notin> set x \<Longrightarrow> split_acc ''/'' acc (x @ s) = split_acc ''/'' (rev x @ acc) s"
  "CHR ''/'' \<notin> set x \<Longrightarrow> split_acc ''/'' acc x = [rev acc @ x]"
  using split_acc_skip [of "''/''" x acc s] split_acc_skip [of "''/''" x acc "[]"] by simp_all

lemmas segment_simps = segments_def js_split_def split_slash split_slash_piece [of "show_int i" for i]
  split_slash_piece [of "encodeURIComponent t" for t] encodeURIComponent_no_slash

lemma device_url: "segments (''/devices/'' @ show_int rid @ ''/'' @ r) = [] # ''devices'' # show_int rid # segments r"
  by (simp add: segment_simps)

lemmas device_urls = device_url [simplified]

text \<open>
  C23. Requests stay with their router: every router-scoped function sends through the
  authenticated client a path whose first segments are \<open>devices\<close> and the number of that router.
\<close>

theorem device_calls_scoped:
  assumes "device_call rid s"
  shows "rq_client s = ApiClient \<and> (\<exists>r. segments (rq_url s) = [] # ''devices'' # show_int rid # r)"
  using assms
  by (induction rule: device_call.induct) (simp_all add: device_service_defs base_defs device_urls)

theorem device_calls_scoped_witness:
  "\<exists>r. segments (rq_url (removeHotspotUser 7 ''../8'')) = [] # ''devices'' # show_int 7 # r"
  using device_calls_scoped [of 7 "removeHotspotUser 7 ''../8''"] device_call.intros by blast



section \<open>Guards\<close>

text \<open>The query hooks that take a router.\<close>

inductive device_query :: "int \<Rightarrow> query_hook \<Rightarrow> bool" where
  "device_query routerId (useHotspotUsers routerId filters)"
| "device_query routerId (useHotspotUserCount routerId profile)"
| "device_query routerId (useHotspotUser routerId ident)"
| "device_query routerId (useHotspotProfiles routerId)"
| "device_query routerId (useHotspotProfile routerId ident)"
| "device_query routerId (useHotspotActive routerId)"
| "device_query routerId (useHotspotInactive routerId)"
| "device_query routerId (useHotspotInactiveCount routerId)"
| "device_query routerId (useHotspotHosts routerId)"
| "device_query routerId (useHotspotCookies routerId)"
| "device_query routerId (useHotspotServers routerId)"
| "device_query routerId (useHotspotBindings routerId)"
| "device_query routerId (useHotspotDbProfiles routerId filters)"
| "device_query routerId (voucher_generate_useHotspotServers routerId)"
| "device_query routerId (useCachedVouchers routerId gencode)"
| "device_query routerId (useQuickPrintPackages routerId)"
| "device_query routerId (useQuickPrintPackage routerId name)"
| "device_query routerId (usePrintData routerId gencode)"
| "device_query routerId (useDailyReport routerId date filters)"
| "device_query routerId (useMonthlyReport routerId year month)"
| "device_query routerId (useResumeReport routerId year)"
| "device_query routerId (useDashboardSummary routerId)"
| "device_query routerId (useSalesList routerId params)"
| "device_query routerId (usePPPSecrets routerId)"
| "device_query routerId (usePPPActive routerId)"
| "device_query routerId (usePPPProfiles routerId)"
| "device_query routerId (usePPPDbProfiles routerId)"
| "device_query routerId (usePools routerId)"
| "device_query routerId (useQueues routerId)"
| "device_query routerId (useDHCPLeases routerId)"
| "device_query routerId (useArpByMac routerId mac_addr)"
| "device_query routerId (useInterfaces routerId)"
| "device_query routerId (traffic_useQueues routerId)"
| "device_query routerId (useInterfaceHistory routerId rng)"
| "device_query routerId (useQueueHistory routerId rng)"
| "device_query routerId (useLogBacklog routerId)"
| "device_query rid (useSystemIdentity rid)"
| "device_query rid (useSystemResource rid)"
| "device_query rid (useSystemRouterboard rid)"
| "device_query rid (useSystemClock rid)"
| "device_query rid (useSystemLicense rid)"
| "device_query rid (useScripts rid)"
| "device_query rid (useSchedulers rid)"
| "device_query rid (useSellingToday rid)"
| "device_query rid (useSellingSummary rid month)"
| "device_query rid (useSelling rid month)"
| "device_query deviceId (useSubscriptionsByDevice deviceId)"

lemmas hook_defs =
  useHotspotUsers_def useHotspotUserCount_def useHotspotUser_def useHotspotProfiles_def
  useHotspotProfile_def useHotspotActive_def useHotspotInactive_def useHotspotInactiveCount_def
  useHotspotHosts_def useHotspotCookies_def useHotspotServers_def useHotspotBindings_def
  useHotspotDbProfiles_def voucher_generate_useHotspotServers_def useCachedVouchers_def
  useQuickPrintPackages_def useQuickPrintPackage_def usePrintData_def useDailyReport_def
  useMonthlyReport_def useResumeReport_def useDashboardSummary_def useSalesList_def
  usePPPSecrets_def usePPPActive_def usePPPProfiles_def usePPPDbProfiles_def usePools_def
  useQueues_def useDHCPLeases_def useArpByMac_def useInterfaces_def traffic_useQueues_def
  useLogBacklog_def useSystemIdentity_def useSystemResource_def useSystemRouterboard_def
  useSystemClock_def useSystemLicense_def useScripts_def useSchedulers_def useSellingToday_def
  useSellingSummary_def useSelling_def useRouters_def useRouter_def useCustomers_def
  useSubscriptions_def useSubscriptionsByDevice_def useInvoices_def useInvoice_def
  usePayments_def useInvoicePayments_def useRegistrations_def usePublicPackages_def
  usePortalMe_def usePortalSubscriptions_def usePortalSubscriptionStatus_def
  usePortalInvoices_def usePortalInvoice_def usePaymentGatewayStatus_def usePortalPayments_def
  useAdminUsers_def useAdminUser_def useMe_def useSystemSettings_def useMessageTemplates_def
  useNotifications_def useAuditLogs_def useWhatsAppStatus_def useWhatsAppQR_def
  useWhatsAppContacts_def useWhatsAppGroups_def useNotifEvents_def useNotifSettings_def
  whatsapp_useWhatsAppStatus_def whatsapp_useWhatsAppQR_def useNotificationSettings_def

text \<open>
  No query runs before a router is selected: a router-scoped hook is enabled only for a
  positive router number, and then it asks that router.
\<close>

theorem device_queries_guarded:
  assumes "device_query rid q" "q_enabled q"
  shows "0 < rid \<and> (\<exists>r. segments (rq_url (q_fn q)) = [] # ''devices'' # show_int rid # r)"
  using assms
  by (induction rule: device_query.induct)
    (simp_all add: hook_defs useInterfaceHistory_def useQueueHistory_def device_service_defs base_defs device_urls)

theorem device_queries_guarded_witness: "q_enabled (usePools 3) \<and> (0::int) < 3"
proof -
  have "device_query 3 (usePools 3)" by (rule device_query.intros)
  moreover have "q_enabled (usePools 3)" by (simp add: usePools_def)
  ultimately show ?thesis using device_queries_guarded by blast
qed

section \<open>Hooks that share a key\<close>

text \<open>
  All query hooks but the two history hooks, whose key contains the range only as a text.
\<close>

inductive hook :: "query_hook \<Rightarrow> bool" where
  "hook (useHotspotUsers routerId filters)"
| "hook (useHotspotUserCount routerId profile)"
| "hook (useHotspotUser routerId ident)"
| "hook (useHotspotProfiles routerId)"
| "hook (useHotspotProfile routerId ident)"
| "hook (useHotspotActive routerId)"
| "hook (useHotspotInactive routerId)"
| "hook (useHotspotInactiveCount routerId)"
| "hook (useHotspotHosts routerId)"
| "hook (useHotspotCookies routerId)"
| "hook (useHotspotServers routerId)"
| "hook (useHotspotBindings routerId)"
| "hook (useHotspotDbProfiles routerId filters)"
| "hook (voucher_generate_useHotspotServers routerId)"
| "hook (useCachedVouchers routerId gencode)"
| "hook (useQuickPrintPackages routerId)"
| "hook (useQuickPrintPackage routerId name)"
| "hook (usePrintData routerId gencode)"
| "hook (useDailyReport routerId date filters)"
| "hook (useMonthlyReport routerId year month)"
| "hook (useResumeReport routerId year)"
| "hook (useDashboardSummary routerId)"
| "hook (useSalesList routerId params)"
| "hook (usePPPSecrets routerId)"
| "hook (usePPPActive routerId)"
| "hook (usePPPProfiles routerId)"
| "hook (usePPPDbProfiles routerId)"
| "hook (usePools routerId)"
| "hook (useQueues routerId)"
| "hook (useDHCPLeases routerId)"
| "hook (useArpByMac routerId mac_addr)"
| "hook (useInterfaces routerId)"
| "hook (traffic_useQueues routerId)"
| "hook (useLogBacklog routerId)"
| "hook (useSystemIdentity rid)"
| "hook (useSystemResource rid)"
| "hook (useSystemRouterboard rid)"
| "hook (useSystemClock rid)"
| "hook (useSystemLicense rid)"
| "hook (useScripts rid)"
| "hook (useSchedulers rid)"
| "hook (useSellingToday rid)"
| "hook (useSellingSummary rid month)"
| "hook (useSelling rid month)"
| "hook (useRouters)"
| "hook (useRouter ident)"
| "hook (useCustomers filters)"
| "hook (useSubscriptions filters)"
| "hook (useSubscriptionsByDevice deviceId)"
| "hook (useInvoices filters)"
| "hook (useInvoice ident)"
| "hook (usePayments filters)"
| "hook (useInvoicePayments invoiceId)"
| "hook (useRegistrations filters)"
| "hook (usePublicPackages)"
| "hook (usePortalMe)"
| "hook (usePortalSubscriptions)"
| "hook (usePortalSubscriptionStatus ident)"
| "hook (usePortalInvoices filters)"
| "hook (usePortalInvoice ident)"
| "hook (usePaymentGatewayStatus)"
| "hook (usePortalPayments)"
| "hook (useAdminUsers)"
| "hook (useAdminUser ident)"
| "hook (useMe)"
| "hook (useSystemSettings)"
| "hook (useMessageTemplates)"
| "hook (useNotifications filters)"
| "hook (useAuditLogs filters)"
| "hook (useWhatsAppStatus)"
| "hook (useWhatsAppQR enabled)"
| "hook (useWhatsAppContacts enabled)"
| "hook (useWhatsAppGroups enabled)"
| "hook (useNotifEvents)"
| "hook (useNotifSettings)"
| "hook (whatsapp_useWhatsAppStatus)"
| "hook (whatsapp_useWhatsAppQR enabled)"
| "hook (useNotificationSettings)"

text \<open>
  What a key stands for: the function to call is determined by the key alone. The two keys
  that two different fetches share are left out.
\<close>

definition month_of :: "filters \<Rightarrow> string option" where
  "month_of f = (case map_of f ''month'' of Some (JStr s) \<Rightarrow> Some s | _ \<Rightarrow> None)"

lemma month_of_opt [simp]: "month_of [(''month'', opt_str x)] = x"
  by (cases x) (simp_all add: month_of_def)

definition service_of :: "string \<Rightarrow> kpart list \<Rightarrow> service option" where
  "service_of f xs =
     (case xs of
        [KN a0, KO a1] \<Rightarrow>
        if f = ''hotspotUsers'' then Some (listHotspotUsers a0 (Some a1)) else
        if f = ''hotspotProfilesDB'' then Some (listHotspotDbProfiles a0 (Some a1)) else
        if f = ''salesList'' then Some (listSales a0 a1) else
        if f = ''reportSellingSummary'' then Some (getSellingSummary a0 (month_of a1)) else
        if f = ''reportSelling'' then Some (getSelling a0 (month_of a1)) else None
      | [KN a0, KNull] \<Rightarrow>
        if f = ''hotspotUserCount'' then Some (getHotspotUserCount a0 None) else None
      | [KN a0, KS a1] \<Rightarrow>
        if f = ''hotspotUserCount'' then Some (getHotspotUserCount a0 (Some a1)) else
        if f = ''hotspotUser'' then Some (getHotspotUser a0 a1) else
        if f = ''hotspotProfile'' then Some (getHotspotProfile a0 a1) else
        if f = ''voucherSession'' then Some (getCachedVouchers a0 a1) else
        if f = ''quickPrintPackage'' then Some (getQuickPrintPackage a0 a1) else
        if f = ''voucherPrintData'' then Some (getPrintData a0 a1) else
        if f = ''networkArp'' then Some (arpByMac a0 a1) else None
      | [KN a0] \<Rightarrow>
        if f = ''hotspotProfiles'' then Some (listHotspotProfiles a0) else
        if f = ''hotspotActive'' then Some (listHotspotActive a0) else
        if f = ''hotspotInactive'' then Some (listInactiveHotspotUsers a0) else
        if f = ''hotspotInactiveCount'' then Some (getInactiveHotspotUserCount a0) else
        if f = ''hotspotHosts'' then Some (listHotspotHosts a0) else
        if f = ''hotspotCookies'' then Some (listHotspotCookies a0) else
        if f = ''hotspotServers'' then Some (listHotspotServers a0) else
        if f = ''hotspotBindings'' then Some (listIPBindings a0) else
        if f = ''quickPrintPackages'' then Some (listQuickPrintPackages a0) else
        if f = ''reportSummary'' then Some (getDashboardSummary a0) else
        if f = ''pppSecrets'' then Some (listPPPSecrets a0) else
        if f = ''pppActive'' then Some (listPPPActive a0) else
        if f = ''pppProfiles'' then Some (listPPPProfiles a0) else
        if f = ''pppProfilesDB'' then Some (listPPPDbProfiles a0) else
        if f = ''networkPools'' then Some (listPools a0) else
        if f = ''dhcpLeases'' then Some (listDHCPLeases a0) else
        if f = ''networkInterfaces'' then Some (listInterfaces a0) else
        if f = ''systemIdentity'' then Some (getIdentity a0) else
        if f = ''systemResource'' then Some (getResource a0) else
        if f = ''routerboard'' then Some (getRouterboard a0) else
        if f = ''systemClock'' then Some (getClock a0) else
        if f = ''systemLicense'' then Some (getLicense a0) else
        if f = ''scripts'' then Some (listScripts a0) else
        if f = ''schedulers'' then Some (listSchedulers a0) else
        if f = ''reportSellingToday'' then Some (getSellingToday a0) else
        if f = ''router'' then Some (getRouter a0) else
        if f = ''subscriptionsByDevice'' then Some (listSubscriptionsByDevice a0) else
        if f = ''invoice'' then Some (getInvoice a0) else
        if f = ''invoicePayments'' then Some (listPayments (Some ([(''invoice_id'', JNum (of_int a0))]))) else
        if f = ''portalSubscription'' then Some (getPortalSubscriptionStatus a0) else
        if f = ''portalInvoice'' then Some (getPortalInvoice a0) else
        if f = ''adminUser'' then Some (getAdminUser a0) else None
      | [KN a0, KS a1, KO a2] \<Rightarrow>
        if f = ''reportDaily'' then Some (getDailyReport a0 a1 (Some a2)) else None
      | [KN a0, KN a1, KN a2] \<Rightarrow>
        if f = ''reportMonthly'' then Some (getMonthlyReport a0 a1 a2) else None
      | [KN a0, KN a1] \<Rightarrow>
        if f = ''reportResume'' then Some (getResumeReport a0 a1) else None
      | [] \<Rightarrow>
        if f = ''routers'' then Some (listRouters) else
        if f = ''portalMe'' then Some (getPortalMe) else
        if f = ''portalSubscriptions'' then Some (listPortalSubscriptions) else
        if f = ''portalPayments'' then Some (listPortalPayments) else
        if f = ''adminUsers'' then Some (listAdminUsers) else
        if f = ''messageTemplates'' then Some (listMessageTemplates) else
        if f = ''whatsappStatus'' then Some (getWhatsAppStatus) else
        if f = ''whatsappQR'' then Some (getWhatsAppQR) else
        if f = ''whatsappContacts'' then Some (getWhatsAppContacts) else
        if f = ''whatsappGroups'' then Some (getWhatsAppGroups) else
        if f = ''notifEvents'' then Some (listNotifEvents) else None
      | [KO a0] \<Rightarrow>
        if f = ''customers'' then Some (listCustomers (Some a0)) else
        if f = ''subscriptions'' then Some (listSubscriptions (Some a0)) else
        if f = ''invoices'' then Some (listInvoices (Some a0)) else
        if f = ''payments'' then Some (listPayments (Some a0)) else
        if f = ''registrations'' then Some (listRegistrations (Some a0)) else
        if f = ''portalInvoices'' then Some (listPortalInvoices (Some a0)) else
        if f = ''notificationsLog'' then Some (listNotifications (Some a0)) else
        if f = ''auditLogs'' then Some (listAuditLogs (Some a0)) else None
      | [KS a0] \<Rightarrow>
        if f = ''publicPackages'' then Some (getPublicPackages None) else None
      | _ \<Rightarrow> None)"

definition service_for :: "qkey \<Rightarrow> service option" where
  "service_for k =
     (case query_of k of
        Some (f, xs) \<Rightarrow> service_of f xs
      | None \<Rightarrow>
          (case k of
             [KS a, KS b, KN rid] \<Rightarrow> (if a = ''log'' \<and> b = ''backlog'' then Some (listLogEntries rid) else None)
           | [KS a, KS b, KS c] \<Rightarrow>
               (if a = ''portal'' \<and> b = ''payment-gateway'' \<and> c = ''status'' then Some getPaymentGatewayStatus else None)
           | [KS a, KS b] \<Rightarrow> (if a = ''settings'' \<and> b = ''notification-group'' then Some getNotifSettings else None)
           | [KS a] \<Rightarrow> (if a = ''me'' then Some account_getMe else None)
           | _ \<Rightarrow> None))"

lemmas filter_service_defs =
  getDailyReport_def getHotspotUserCount_def getSelling_def getSellingSummary_def
  listAuditLogs_def listCustomers_def listHotspotDbProfiles_def listHotspotUsers_def
  listInvoices_def listNotifications_def listPayments_def listPortalInvoices_def
  listRegistrations_def listSubscriptions_def

lemma hook_service:
  "hook q \<Longrightarrow> q_key q \<noteq> qk_settings \<Longrightarrow> (\<forall>rid. q_key q \<noteq> qk_networkQueues rid) \<Longrightarrow>
   service_for (q_key q) = Some (q_fn q)"
  by (induction rule: hook.induct)
    (simp_all add: hook_defs qk_defs query_of_def service_for_def service_of_def filter_service_defs
      voucher_generate_listHotspotServers_def listHotspotServers_def hotspot_servers_base_def
      account_meKey_def whatsapp_getWhatsAppStatus_def getWhatsAppStatus_def whatsapp_getWhatsAppQR_def getWhatsAppQR_def
      split: option.split)



text \<open>
  The queue list has one key and two requests: the network page asks for static queues only,
  the traffic page for all of them, so whichever page loads first decides what both show.
\<close>

lemma queue_lists_collide:
  "q_key (useQueues rid) = q_key (traffic_useQueues rid)
   \<and> rq_url (q_fn (useQueues rid)) = rq_url (q_fn (traffic_useQueues rid))
   \<and> rq_params (q_fn (useQueues rid)) = [(''dynamic'', JStr ''false'')]
   \<and> rq_params (q_fn (traffic_useQueues rid)) = []"
  by (simp add: hook_defs listQueues_def traffic_listQueues_def network_base_def traffic_base_def)

text \<open>
  The settings list has one key and two meanings: the settings pages cache all settings
  under it, the WhatsApp page only those whose key begins with \<open>notification.\<close>, so after a
  visit to the latter the former can show a list with entries missing.
\<close>

lemma settings_lists_collide:
  "q_key useSystemSettings = q_key useNotificationSettings \<and>
   (\<exists>body a b. rq_result (q_fn useSystemSettings) body = Inr (JArr [a, b]) \<and>
      rq_result (q_fn useNotificationSettings) body = Inr (JArr [b]))"
proof
  show "q_key useSystemSettings = q_key useNotificationSettings" by (simp add: hook_defs)
  let ?a = "JObj [(''key'', JStr ''company_name'')]" and ?b = "JObj [(''key'', JStr ''notification.wa_enabled'')]"
  let ?body = "JObj [(''data'', JArr [?a, ?b]), (''error'', JNull)]"
  have "rq_result (q_fn useSystemSettings) ?body = Inr (JArr [?a, ?b])"
    by (simp add: hook_defs listSettings_def unwrap_def)
  moreover have "rq_result (q_fn useNotificationSettings) ?body = Inr (JArr [?b])"
    by (simp add: hook_defs getNotificationSettings_def then_result_def unwrap_def array_filter_def array_of_def
        key_where_def setting_key_def NOTIF_PREFIX_def)
  ultimately show "\<exists>body a b. rq_result (q_fn useSystemSettings) body = Inr (JArr [a, b]) \<and>
      rq_result (q_fn useNotificationSettings) body = Inr (JArr [b])" by blast
qed

text \<open>
  C. The two exceptions to a coherent cache. Under the key of the queue list the network page
  caches the static queues and the traffic page all of them, from the same address with
  different parameters; under the key of the settings the WhatsApp page caches only the
  settings whose key begins with \<open>notification.\<close> and the settings pages all of them. Whichever
  page loads first decides what the other shows.
\<close>

theorem shared_keys_collide:
  "q_key (useQueues rid) = q_key (traffic_useQueues rid)
   \<and> rq_url (q_fn (useQueues rid)) = rq_url (q_fn (traffic_useQueues rid))
   \<and> rq_params (q_fn (useQueues rid)) \<noteq> rq_params (q_fn (traffic_useQueues rid))
   \<and> q_key useSystemSettings = q_key useNotificationSettings
   \<and> (\<exists>body a b. rq_result (q_fn useSystemSettings) body = Inr (JArr [a, b]) \<and>
        rq_result (q_fn useNotificationSettings) body = Inr (JArr [b]))"
  using queue_lists_collide [of rid] settings_lists_collide by simp

section \<open>Writes\<close>

text \<open>A mutation, and a query that shows what it changes.\<close>

inductive writes :: "mutation \<Rightarrow> query_hook \<Rightarrow> bool" where
  "writes (useAddHotspotUser routerId payload) (useHotspotUsers routerId filters)"
| "writes (useAddHotspotUser routerId payload) (useHotspotUser routerId ident)"
| "writes (useUpdateHotspotUser routerId ident patch) (useHotspotUsers routerId filters)"
| "writes (useUpdateHotspotUser routerId ident patch) (useHotspotUser routerId ident')"
| "writes (useRemoveHotspotUser routerId ident) (useHotspotUsers routerId filters)"
| "writes (useRemoveHotspotUser routerId ident) (useHotspotUser routerId ident')"
| "writes (useResetHotspotUserCounters routerId ident) (useHotspotUsers routerId filters)"
| "writes (useResetHotspotUserCounters routerId ident) (useHotspotUser routerId ident')"
| "writes (useAddHotspotProfile routerId params) (useHotspotProfiles routerId)"
| "writes (useAddHotspotProfile routerId params) (useHotspotProfile routerId ident)"
| "writes (useUpdateHotspotProfile routerId ident params) (useHotspotProfiles routerId)"
| "writes (useUpdateHotspotProfile routerId ident params) (useHotspotProfile routerId ident')"
| "writes (useRemoveHotspotProfile routerId ident) (useHotspotProfiles routerId)"
| "writes (useRemoveHotspotProfile routerId ident) (useHotspotProfile routerId ident')"
| "writes (useSyncHotspotProfiles routerId) (useHotspotProfiles routerId)"
| "writes (useSyncHotspotProfiles routerId) (useHotspotProfile routerId ident)"
| "writes (useRemoveHotspotActive routerId ident) (useHotspotActive routerId)"
| "writes (useDisconnectHotspotUser routerId ident) (useHotspotActive routerId)"
| "writes (useDisconnectHotspotUser routerId ident) (useHotspotCookies routerId)"
| "writes (useRemoveHotspotCookie routerId ident) (useHotspotCookies routerId)"
| "writes (useRemoveHotspotHost routerId ident) (useHotspotHosts routerId)"
| "writes (useAddIPBinding routerId payload) (useHotspotBindings routerId)"
| "writes (useUpdateIPBinding routerId ident patch) (useHotspotBindings routerId)"
| "writes (useRemoveIPBinding routerId ident) (useHotspotBindings routerId)"
| "writes (useEnableIPBinding routerId ident) (useHotspotBindings routerId)"
| "writes (useDisableIPBinding routerId ident) (useHotspotBindings routerId)"
| "writes (useCreateHotspotDbProfile routerId payload) (useHotspotDbProfiles routerId filters)"
| "writes (useUpdateHotspotDbProfile routerId ident payload) (useHotspotDbProfiles routerId filters)"
| "writes (useRemoveHotspotDbProfile routerId ident) (useHotspotDbProfiles routerId filters)"
| "writes (useSyncHotspotDbProfiles routerId role) (useHotspotDbProfiles routerId filters)"
| "writes (useCreateQuickPrintPackage routerId body) (useQuickPrintPackages routerId)"
| "writes (useCreateQuickPrintPackage routerId body) (useQuickPrintPackage routerId name)"
| "writes (useUpdateQuickPrintPackage routerId name body) (useQuickPrintPackages routerId)"
| "writes (useUpdateQuickPrintPackage routerId name body) (useQuickPrintPackage routerId name')"
| "writes (useRemoveQuickPrintPackage routerId name) (useQuickPrintPackages routerId)"
| "writes (useRemoveQuickPrintPackage routerId name) (useQuickPrintPackage routerId name')"
| "writes (useRecordSale routerId params) (useDailyReport routerId date filters)"
| "writes (useRecordSale routerId params) (useMonthlyReport routerId year month)"
| "writes (useRecordSale routerId params) (useResumeReport routerId year)"
| "writes (useRecordSale routerId params) (useDashboardSummary routerId)"
| "writes (useRecordSale routerId params) (useSalesList routerId params')"
| "writes (useRecordSale routerId params) (useSellingToday routerId)"
| "writes (useRecordSale routerId params) (useSellingSummary routerId month)"
| "writes (useRecordSale routerId params) (useSelling routerId month)"
| "writes (useImportSales routerId) (useDailyReport routerId date filters)"
| "writes (useImportSales routerId) (useMonthlyReport routerId year month)"
| "writes (useImportSales routerId) (useResumeReport routerId year)"
| "writes (useImportSales routerId) (useDashboardSummary routerId)"
| "writes (useImportSales routerId) (useSalesList routerId params)"
| "writes (useImportSales routerId) (useSellingToday routerId)"
| "writes (useImportSales routerId) (useSellingSummary routerId month)"
| "writes (useImportSales routerId) (useSelling routerId month)"
| "writes (useAddPPPSecret routerId payload) (usePPPSecrets routerId)"
| "writes (useUpdatePPPSecret routerId ident patch) (usePPPSecrets routerId)"
| "writes (useSetPPPSecretDisabled routerId ident disabled) (usePPPSecrets routerId)"
| "writes (useRemovePPPSecret routerId ident) (usePPPSecrets routerId)"
| "writes (useBatchRemovePPPSecrets routerId ids) (usePPPSecrets routerId)"
| "writes (useDisconnectPPPActive routerId ident) (usePPPActive routerId)"
| "writes (useAddPPPProfile routerId payload) (usePPPProfiles routerId)"
| "writes (useUpdatePPPProfile routerId ident patch) (usePPPProfiles routerId)"
| "writes (useRemovePPPProfile routerId ident) (usePPPProfiles routerId)"
| "writes (useCreatePPPDbProfile routerId payload) (usePPPDbProfiles routerId)"
| "writes (useUpdatePPPDbProfile routerId ident payload) (usePPPDbProfiles routerId)"
| "writes (useRemovePPPDbProfile routerId ident) (usePPPDbProfiles routerId)"
| "writes (useSyncPPPDbProfiles routerId) (usePPPDbProfiles routerId)"
| "writes (useCreatePool routerId payload) (usePools routerId)"
| "writes (useDeletePool routerId ident) (usePools routerId)"
| "writes (useDeleteQueue routerId ident) (useQueues routerId)"
| "writes (useDeleteDHCPLease routerId ident) (useDHCPLeases routerId)"
| "writes (useCreateScript rid payload) (useScripts rid)"
| "writes (useDeleteScript rid ident) (useScripts rid)"
| "writes (useCreateScheduler rid payload) (useSchedulers rid)"
| "writes (useDeleteScheduler rid ident) (useSchedulers rid)"
| "writes (useCreateRouter body) (useRouters)"
| "writes (useCreateRouter body) (useRouter ident)"
| "writes (useUpdateRouter ident body) (useRouters)"
| "writes (useUpdateRouter ident body) (useRouter ident')"
| "writes (useDeleteRouter ident) (useRouters)"
| "writes (useDeleteRouter ident) (useRouter ident')"
| "writes (useCreateCustomer payload) (useCustomers filters)"
| "writes (useUpdateCustomer ident payload) (useCustomers filters)"
| "writes (useRemoveCustomer ident) (useCustomers filters)"
| "writes (useBatchRemoveCustomers ids) (useCustomers filters)"
| "writes (useCreateSubscription payload) (useSubscriptions filters)"
| "writes (useCreateSubscription payload) (useSubscriptionsByDevice deviceId)"
| "writes (useUpdateSubscription ident payload) (useSubscriptions filters)"
| "writes (useUpdateSubscription ident payload) (useSubscriptionsByDevice deviceId)"
| "writes (usePatchSubscriptionStatus ident status) (useSubscriptions filters)"
| "writes (usePatchSubscriptionStatus ident status) (useSubscriptionsByDevice deviceId)"
| "writes (useReconcileSubscription ident) (useSubscriptions filters)"
| "writes (useReconcileSubscription ident) (useSubscriptionsByDevice deviceId)"
| "writes (useRemoveSubscription ident) (useSubscriptions filters)"
| "writes (useRemoveSubscription ident) (useSubscriptionsByDevice deviceId)"
| "writes (useBatchRemoveSubscriptions ids) (useSubscriptions filters)"
| "writes (useBatchRemoveSubscriptions ids) (useSubscriptionsByDevice deviceId)"
| "writes (useGenerateInvoice payload) (useInvoices filters)"
| "writes (useGenerateInvoice payload) (useInvoice ident)"
| "writes (useCancelInvoice ident) (useInvoices filters)"
| "writes (useCancelInvoice ident) (useInvoice ident')"
| "writes (useCancelInvoice ident) (usePayments filters)"
| "writes (useCancelInvoice ident) (useInvoicePayments invoiceId)"
| "writes (useCreatePayment payload) (usePayments filters)"
| "writes (useCreatePayment payload) (useInvoicePayments invoiceId)"
| "writes (useConfirmPayment ident) (usePayments filters)"
| "writes (useConfirmPayment ident) (useInvoicePayments invoiceId)"
| "writes (useRejectPayment ident reason) (usePayments filters)"
| "writes (useRejectPayment ident reason) (useInvoicePayments invoiceId)"
| "writes (useCollectByCode payload) (usePayments filters)"
| "writes (useCollectByCode payload) (useInvoicePayments invoiceId)"
| "writes (useCreatePayment payload) (useInvoices filters)"
| "writes (useCreatePayment payload) (useInvoice ident)"
| "writes (useConfirmPayment ident) (useInvoices filters)"
| "writes (useConfirmPayment ident) (useInvoice ident')"
| "writes (useRejectPayment ident reason) (useInvoices filters)"
| "writes (useRejectPayment ident reason) (useInvoice ident')"
| "writes (useCollectByCode payload) (useInvoices filters)"
| "writes (useCollectByCode payload) (useInvoice ident)"
| "writes (useConfirmPayment ident) (useSubscriptions filters)"
| "writes (useConfirmPayment ident) (useSubscriptionsByDevice deviceId)"
| "writes (useCollectByCode payload) (useSubscriptions filters)"
| "writes (useCollectByCode payload) (useSubscriptionsByDevice deviceId)"
| "writes (useApproveRegistration ident payload) (useRegistrations filters)"
| "writes (useApproveRegistration ident payload) (useCustomers filters)"
| "writes (useApproveRegistration ident payload) (useSubscriptions filters)"
| "writes (useRejectRegistration ident payload) (useRegistrations filters)"
| "writes (useRejectRegistration ident payload) (useCustomers filters)"
| "writes (useRejectRegistration ident payload) (useSubscriptions filters)"
| "writes (useAssignRegistration ident payload) (useRegistrations filters)"
| "writes (useAssignRegistration ident payload) (useCustomers filters)"
| "writes (useAssignRegistration ident payload) (useSubscriptions filters)"
| "writes (useCompleteInstall ident payload) (useRegistrations filters)"
| "writes (useCompleteInstall ident payload) (useCustomers filters)"
| "writes (useCompleteInstall ident payload) (useSubscriptions filters)"
| "writes (useCreateAdminUser body) (useAdminUsers)"
| "writes (useCreateAdminUser body) (useAdminUser ident)"
| "writes (useUpdateAdminUser ident body) (useAdminUsers)"
| "writes (useUpdateAdminUser ident body) (useAdminUser ident')"
| "writes (useDeleteAdminUser ident) (useAdminUsers)"
| "writes (useDeleteAdminUser ident) (useAdminUser ident')"
| "writes (useBatchDeleteAdminUsers ids) (useAdminUsers)"
| "writes (useBatchDeleteAdminUsers ids) (useAdminUser ident)"
| "writes (useUpdateMe payload) (useMe)"
| "writes (useUpdateSetting key value) (useSystemSettings)"
| "writes (useUpdateSetting key value) (useNotifSettings)"
| "writes (notification_center_useUpdateSetting key value) (useSystemSettings)"
| "writes (notification_center_useUpdateSetting key value) (useNotifSettings)"
| "writes (whatsapp_useUpdateSetting key value) (useSystemSettings)"
| "writes (whatsapp_useUpdateSetting key value) (useNotifSettings)"
| "writes (useUpdateMessageTemplate slug payload) (useMessageTemplates)"
| "writes (useUpdateNotifEvent event_name payload) (useNotifEvents)"
| "writes (useLogoutWhatsApp) (useWhatsAppStatus)"
| "writes (useLogoutWhatsApp) (useWhatsAppQR enabled)"
| "writes (useLogoutWhatsApp) (useWhatsAppContacts enabled)"
| "writes (useLogoutWhatsApp) (useWhatsAppGroups enabled)"
| "writes (useChangePortalPassword payload) (usePortalMe)"

lemmas prefix_defs =
  hotspot_users_usersPrefix_def hotspot_profiles_profilesPrefix_def
  hotspot_active_activePrefix_def hotspot_active_cookiesPrefix_def hotspot_hosts_hostsPrefix_def
  hotspot_cookies_cookiesPrefix_def hotspot_bindings_bindingsPrefix_def
  hotspot_billing_dbPrefix_def voucher_generate_voucherSessionPrefix_def
  voucher_print_packagesPrefix_def voucher_sales_reportPrefix_def
  voucher_sales_voucherSessionPrefix_def voucher_sales_salesListPrefix_def
  ppp_secrets_secretsPrefix_def ppp_active_activePrefix_def ppp_profiles_profilesPrefix_def
  ppp_billing_dbPrefix_def account_meKey_def voucher_sales_invalidateReports_def
  registrations_useInvalidate_def

lemmas mutation_defs =
  useAddHotspotUser_def useUpdateHotspotUser_def useRemoveHotspotUser_def
  useResetHotspotUserCounters_def useAddHotspotProfile_def useUpdateHotspotProfile_def
  useRemoveHotspotProfile_def useSyncHotspotProfiles_def useRemoveHotspotActive_def
  useDisconnectHotspotUser_def useRemoveHotspotHost_def useRemoveHotspotCookie_def
  useAddIPBinding_def useUpdateIPBinding_def useRemoveIPBinding_def useEnableIPBinding_def
  useDisableIPBinding_def useCreateHotspotDbProfile_def useUpdateHotspotDbProfile_def
  useRemoveHotspotDbProfile_def useSyncHotspotDbProfiles_def useGenerateVoucher_def
  useCreateQuickPrintPackage_def useUpdateQuickPrintPackage_def useRemoveQuickPrintPackage_def
  usePrintVouchers_def useRenderTemplate_def useRecordSale_def useImportSales_def
  useAddPPPSecret_def useUpdatePPPSecret_def useSetPPPSecretDisabled_def useRemovePPPSecret_def
  useBatchRemovePPPSecrets_def useDisconnectPPPActive_def useAddPPPProfile_def
  useUpdatePPPProfile_def useRemovePPPProfile_def useCreatePPPDbProfile_def
  useUpdatePPPDbProfile_def useRemovePPPDbProfile_def useSyncPPPDbProfiles_def useCreatePool_def
  useDeletePool_def useDeleteQueue_def useDeleteDHCPLease_def useReboot_def useShutdown_def
  useCreateScript_def useDeleteScript_def useCreateScheduler_def useDeleteScheduler_def
  useCreateRouter_def useUpdateRouter_def useDeleteRouter_def useCreateCustomer_def
  useUpdateCustomer_def useRemoveCustomer_def useBatchRemoveCustomers_def
  useCreateSubscription_def useUpdateSubscription_def usePatchSubscriptionStatus_def
  useReconcileSubscription_def useRemoveSubscription_def useBatchRemoveSubscriptions_def
  useGenerateInvoice_def useCancelInvoice_def useCreatePayment_def useConfirmPayment_def
  useRejectPayment_def useCollectByCode_def useApproveRegistration_def useRejectRegistration_def
  useAssignRegistration_def useCompleteInstall_def useSubmitRegistration_def
  useCustomerLogin_def useChangePortalPassword_def useInitiateOnlinePayment_def
  useUploadProof_def useCreatePortalPayment_def useCreateAdminUser_def useUpdateAdminUser_def
  useDeleteAdminUser_def useBatchDeleteAdminUsers_def useUpdateMe_def useUpdateSetting_def
  useTestPaymentGateway_def useUpdateMessageTemplate_def usePairWhatsAppPhone_def
  useLogoutWhatsApp_def useSendWhatsAppTest_def useUpdateNotifEvent_def
  notification_center_useUpdateSetting_def useSendTelegramTest_def
  whatsapp_useLogoutWhatsApp_def whatsapp_useSendWhatsAppTest_def whatsapp_useUpdateSetting_def
  useHotspotUsersStream_def useHotspotActiveStream_def usePPPActiveStream_def

lemma writes_refetch:
  assumes "writes w q" "prefix_matching m"
  shows "refetches m (q_key q) (m_success w d)"
proof -
  have sel: "m p k" if "prefix p k" for p k using prefix_selects [OF assms(2) that] .
  from assms(1) show ?thesis
    by (induction rule: writes.induct)
      (simp_all add: hook_defs mutation_defs prefix_defs qk_defs sel)
qed



text \<open>
  C. The user count is forgotten: after a user is added, changed or removed the cached count of
  users stays fresh, because its key has the word \<open>count\<close> where the prefix that the
  mutations invalidate (meant to cover any user-related query) has the router's number.
\<close>

theorem user_count_not_refreshed:
  assumes "primitive_matching m"
  shows "fresh (qk_hotspotUserCount rid profile) (run_ops m (m_success (useAddHotspotUser rid payload) d) c)
      = fresh (qk_hotspotUserCount rid profile) c
    \<and> fresh (qk_hotspotUserCount rid profile) (run_ops m (m_success (useRemoveHotspotUser rid ident) d) c)
      = fresh (qk_hotspotUserCount rid profile) c"
proof -
  have "\<not> m (hotspot_users_usersPrefix rid) (qk_hotspotUserCount rid profile)"
    by (rule primitive_spares [OF assms, of 2]) (simp_all add: prefix_defs qk_defs)
  then show ?thesis by (simp add: mutation_defs run_ops_def fresh_invalidate)
qed

theorem user_count_not_refreshed_witness:
  "fresh (qk_hotspotUserCount 1 None)
     (run_ops prefix (m_success (useRemoveHotspotUser 1 ''*1'') JUndef) [(qk_hotspotUserCount 1 None, JNum 3, False)])"
  using user_count_not_refreshed [OF prefix_is_matching(2), of 1 None _ _ "[(qk_hotspotUserCount 1 None, JNum 3, False)]"]
  by (auto simp: fresh_def)

text \<open>
  The seeded voucher batch is thrown away: the mutation stores the new batch in the cache
  so that the next read needs no request, and then invalidates a prefix that covers the entry
  it has just stored, so the next read fetches it again.
\<close>

theorem generated_batch_not_kept:
  assumes "prefix_matching m"
  shows "\<not> fresh (qk_voucherSession rid (str_of (js_optget d ''gencode''))) (run_ops m (m_success (useGenerateVoucher rid p) d) c)"
proof -
  have "m (voucher_generate_voucherSessionPrefix rid) (qk_voucherSession rid g)" for g
    by (rule prefix_selects [OF assms]) (simp add: prefix_defs qk_defs)
  then show ?thesis by (simp add: mutation_defs run_ops_def fresh_invalidate)
qed

theorem generated_batch_not_kept_witness:
  "\<not> fresh (qk_voucherSession 1 ''g'')
     (run_ops prefix (m_success (useGenerateVoucher 1 JUndef) (JObj [(''gencode'', JStr ''g'')])) [])"
  using generated_batch_not_kept [OF prefix_is_matching(1), of 1 "JObj [(''gencode'', JStr ''g'')]"] by simp

text \<open>
  Two caches of one table: the router's hotspot profiles and the billing page's hotspot
  profiles are the same endpoint under two keys, and a write through either leaves the list
  of the other as it is.
\<close>

theorem profile_lists_diverge:
  assumes "primitive_matching m"
  shows "rq_url (q_fn (useHotspotProfiles rid)) = rq_url (q_fn (useHotspotDbProfiles rid None))
    \<and> fresh (q_key (useHotspotDbProfiles rid f)) (run_ops m (m_success (useAddHotspotProfile rid p) d) c)
      = fresh (q_key (useHotspotDbProfiles rid f)) c
    \<and> fresh (q_key (useHotspotProfiles rid)) (run_ops m (m_success (useCreateHotspotDbProfile rid p) d) c)
      = fresh (q_key (useHotspotProfiles rid)) c"
proof -
  have "\<not> m (hotspot_profiles_profilesPrefix rid) (q_key (useHotspotDbProfiles rid f))"
    "\<not> m (hotspot_billing_dbPrefix rid) (q_key (useHotspotProfiles rid))"
    by (rule primitive_spares [OF assms, of 1], simp_all add: hook_defs prefix_defs qk_defs)+
  then show ?thesis
    by (simp add: mutation_defs run_ops_def fresh_invalidate)
      (simp add: hook_defs listHotspotProfiles_def listHotspotDbProfiles_def base_defs)
qed

theorem profile_lists_diverge_witness:
  "fresh (q_key (useHotspotProfiles 1))
     (run_ops prefix (m_success (useCreateHotspotDbProfile 1 JUndef) JUndef) [(qk_hotspotProfiles 1, JArr [], False)])"
  using profile_lists_diverge [OF prefix_is_matching(2), of 1 None JUndef JUndef "[(qk_hotspotProfiles 1, JArr [], False)]"]
  by (auto simp: fresh_def hook_defs)

end
