(* ===== verification/Table_State.thy ===== *)
theory Table_State
  imports Js_Json
begin

text \<open>
  Table state kept in the address bar: the hook \<open>useTableUrlState\<close> of
  \<^verbatim>\<open>web/src/hooks/use-table-url-state.ts\<close> and the page buttons \<open>getPageNumbers\<close> of
  \<^verbatim>\<open>web/src/lib/utils.ts\<close>. The search parameters are an object; navigating applies the updater
  to it (the router's part). A property set to \<open>undefined\<close> reads like an absent one.

  The theorems: what the user sets is what a reload of the address shows (page, page size,
  global filter, column filters), a page out of range is corrected in one step, and the shape
  of the page buttons.
\<close>

section \<open>Configuration and state\<close>

type_synonym search = "(string \<times> js) list"

definition param :: "search \<Rightarrow> string \<Rightarrow> js" where
  "param s k = (case map_of s k of None \<Rightarrow> JUndef | Some v \<Rightarrow> v)"

record pagination_cfg =
  cfg_pageKey :: "string option"
  cfg_pageSizeKey :: "string option"
  cfg_defaultPage :: "rat option"
  cfg_defaultPageSize :: "rat option"

record global_cfg =
  cfg_enabled :: "bool option"
  cfg_key :: "string option"
  cfg_trim :: "bool option"

record column_cfg =
  columnId :: string
  searchKey :: string
  col_type :: "string option"
  serialize :: "(js \<Rightarrow> js) option"
  deserialize :: "(js \<Rightarrow> js) option"

type_synonym column_filters = "(string \<times> js) list"

record table_cfg =
  pagination_part :: "pagination_cfg option"
  global_part :: "global_cfg option"
  columns :: "column_cfg list"

text \<open>The search parameters, and the two pieces of React state.\<close>

record table_state =
  search :: search
  columnFilters :: column_filters
  globalFilter :: "string option"

record pagination_state =
  pageIndex :: rat
  pageSize :: rat

definition pageKey :: "table_cfg \<Rightarrow> string" where
  "pageKey c = or_else (Option.bind (pagination_part c) cfg_pageKey) ''page''"

definition pageSizeKey :: "table_cfg \<Rightarrow> string" where
  "pageSizeKey c = or_else (Option.bind (pagination_part c) cfg_pageSizeKey) ''pageSize''"

definition defaultPage :: "table_cfg \<Rightarrow> rat" where
  "defaultPage c = or_else (Option.bind (pagination_part c) cfg_defaultPage) 1"

definition defaultPageSize :: "table_cfg \<Rightarrow> rat" where
  "defaultPageSize c = or_else (Option.bind (pagination_part c) cfg_defaultPageSize) 10"

definition globalFilterKey :: "table_cfg \<Rightarrow> string" where
  "globalFilterKey c = or_else (Option.bind (global_part c) cfg_key) ''filter''"

definition globalFilterEnabled :: "table_cfg \<Rightarrow> bool" where
  "globalFilterEnabled c = or_else (Option.bind (global_part c) cfg_enabled) True"

definition trimGlobal :: "table_cfg \<Rightarrow> bool" where
  "trimGlobal c = or_else (Option.bind (global_part c) cfg_trim) True"

section \<open>Reading the address\<close>

definition read_column :: "search \<Rightarrow> column_cfg \<Rightarrow> column_filters" where
  "read_column s cfg =
     (let v = or_else (deserialize cfg) (\<lambda>v. v) (param s (searchKey cfg)) in
      if col_type cfg = Some ''string'' then
        (case js_coalesce v (JStr []) of
           JStr t \<Rightarrow> (if js_trim t \<noteq> [] then [(columnId cfg, JStr t)] else [])
         | _ \<Rightarrow> [])
      else
        (case js_coalesce v (JArr []) of
           JArr xs \<Rightarrow> (if xs \<noteq> [] then [(columnId cfg, JArr xs)] else [])
         | _ \<Rightarrow> []))"

definition initialColumnFilters :: "table_cfg \<Rightarrow> search \<Rightarrow> column_filters" where
  "initialColumnFilters c s = concat (map (read_column s) (columns c))"

definition page_num :: "table_cfg \<Rightarrow> search \<Rightarrow> rat" where
  "page_num c s = (case param s (pageKey c) of JNum n \<Rightarrow> n | _ \<Rightarrow> defaultPage c)"

definition pagination :: "table_cfg \<Rightarrow> search \<Rightarrow> pagination_state" where
  "pagination c s =
     \<lparr>pageIndex = max 0 (page_num c s - 1),
      pageSize = (case param s (pageSizeKey c) of JNum n \<Rightarrow> n | _ \<Rightarrow> defaultPageSize c)\<rparr>"

definition initialGlobalFilter :: "table_cfg \<Rightarrow> search \<Rightarrow> string option" where
  "initialGlobalFilter c s =
     (if \<not> globalFilterEnabled c then None
      else Some (case param s (globalFilterKey c) of JStr t \<Rightarrow> t | _ \<Rightarrow> []))"

definition open_table :: "table_cfg \<Rightarrow> search \<Rightarrow> table_state" where
  "open_table c s =
     \<lparr>search = s, columnFilters = initialColumnFilters c s, globalFilter = initialGlobalFilter c s\<rparr>"

section \<open>Writing the address\<close>

definition onPaginationChange :: "table_cfg \<Rightarrow> (pagination_state \<Rightarrow> pagination_state) \<Rightarrow> table_state \<Rightarrow> table_state" where
  "onPaginationChange c updater t =
     (let next = updater (pagination c (search t)); nextPage = pageIndex next + 1 in
      t\<lparr>search := obj_spread (search t)
          [(pageKey c, if nextPage \<le> defaultPage c then JUndef else JNum nextPage),
           (pageSizeKey c, if pageSize next = defaultPageSize c then JUndef else JNum (pageSize next))]\<rparr>)"

text \<open>\<open>None\<close>: the handler is undefined because the global filter is disabled.\<close>

definition onGlobalFilterChange :: "table_cfg \<Rightarrow> (string \<Rightarrow> string) \<Rightarrow> table_state \<Rightarrow> table_state option" where
  "onGlobalFilterChange c updater t =
     (if \<not> globalFilterEnabled c then None
      else
        (let next = updater (or_else (globalFilter t) []);
             v = (if trimGlobal c then js_trim next else next)
         in Some (t\<lparr>globalFilter := Some v,
                    search := obj_spread (search t)
                      [(pageKey c, JUndef), (globalFilterKey c, if v \<noteq> [] then JStr v else JUndef)]\<rparr>)))"

definition write_column :: "column_filters \<Rightarrow> column_cfg \<Rightarrow> js" where
  "write_column next cfg =
     (let found = or_else (map_of next (columnId cfg)) JUndef; ser = or_else (serialize cfg) (\<lambda>v. v) in
      if col_type cfg = Some ''string'' then
        (case found of
           JStr t \<Rightarrow> (if js_trim t \<noteq> [] then ser (JStr t) else JUndef)
         | _ \<Rightarrow> JUndef)
      else
        (case found of
           JArr xs \<Rightarrow> (if xs \<noteq> [] then ser (JArr xs) else JUndef)
         | _ \<Rightarrow> JUndef))"

definition column_patch :: "table_cfg \<Rightarrow> column_filters \<Rightarrow> search" where
  "column_patch c next = obj_spread [] (map (\<lambda>cfg. (searchKey cfg, write_column next cfg)) (columns c))"

definition onColumnFiltersChange :: "table_cfg \<Rightarrow> (column_filters \<Rightarrow> column_filters) \<Rightarrow> table_state \<Rightarrow> table_state" where
  "onColumnFiltersChange c updater t =
     (let next = updater (columnFilters t) in
      t\<lparr>columnFilters := next,
        search := obj_spread (obj_spread (search t) [(pageKey c, JUndef)]) (column_patch c next)\<rparr>)"

definition ensurePageInRange :: "table_cfg \<Rightarrow> rat \<Rightarrow> bool \<Rightarrow> table_state \<Rightarrow> table_state" where
  "ensurePageInRange c pageCount reset_to_last t =
     (if 0 < pageCount \<and> pageCount < page_num c (search t)
      then t\<lparr>search := obj_spread (search t) [(pageKey c, if reset_to_last then JNum pageCount else JUndef)]\<rparr>
      else t)"

section \<open>Round trips\<close>

lemma param_spread: "param (obj_spread a b) k = (if k \<in> fst ` set b then param (rev b) k else param a k)"
proof -
  have "map_of (rev b) k = None \<longleftrightarrow> k \<notin> fst ` set b" by (simp add: map_of_eq_None_iff)
  then show ?thesis by (auto simp: param_def map_of_obj_spread split: option.split)
qed

lemma param_Cons [simp]: "param ((k', v) # s) k = (if k' = k then v else param s k)"
  by (simp add: param_def)

lemma param_Nil [simp]: "param [] k = JUndef"
  by (simp add: param_def)

text \<open>
  What the pager sets is what the address shows: after a page change the page index and the
  page size read back from the search parameters are the ones that were set, for every page
  not before the default page, and every other parameter is unchanged.
\<close>

theorem pagination_roundtrip:
  assumes "pageKey c \<noteq> pageSizeKey c"
    and "updater (pagination c (search t)) = \<lparr>pageIndex = i, pageSize = n\<rparr>"
    and "0 \<le> i" "defaultPage c \<le> i + 1"
  shows "pagination c (search (onPaginationChange c updater t)) = \<lparr>pageIndex = i, pageSize = n\<rparr>
    \<and> (\<forall>k. k \<noteq> pageKey c \<and> k \<noteq> pageSizeKey c \<longrightarrow>
         param (search (onPaginationChange c updater t)) k = param (search t) k)"
  using assms by (simp add: onPaginationChange_def pagination_def page_num_def param_spread Let_def)

theorem pagination_roundtrip_witness:
  "pagination \<lparr>pagination_part = None, global_part = None, columns = []\<rparr>
     (search (onPaginationChange \<lparr>pagination_part = None, global_part = None, columns = []\<rparr>
        (\<lambda>p. \<lparr>pageIndex = 2, pageSize = 20\<rparr>) (open_table \<lparr>pagination_part = None, global_part = None, columns = []\<rparr> [])))
   = \<lparr>pageIndex = 2, pageSize = 20\<rparr>"
  using pagination_roundtrip [of "\<lparr>pagination_part = None, global_part = None, columns = []\<rparr>"
      "\<lambda>p. \<lparr>pageIndex = 2, pageSize = 20\<rparr>" "open_table \<lparr>pagination_part = None, global_part = None, columns = []\<rparr> []" 2 20]
  by (simp add: pageKey_def pageSizeKey_def defaultPage_def)

text \<open>
  The global filter survives a reload: the table reopened at the new address has exactly the
  filter that was set (trimmed, when trimming is on) and shows the default page.
\<close>

theorem global_filter_roundtrip:
  assumes "globalFilterEnabled c" "globalFilterKey c \<noteq> pageKey c"
  shows "\<exists>t'. onGlobalFilterChange c updater t = Some t'
    \<and> initialGlobalFilter c (search t') = globalFilter t'
    \<and> globalFilter t' = Some ((if trimGlobal c then js_trim else id) (updater (or_else (globalFilter t) [])))
    \<and> page_num c (search t') = defaultPage c"
  using assms
  by (simp add: onGlobalFilterChange_def initialGlobalFilter_def page_num_def param_spread Let_def)

theorem global_filter_roundtrip_witness:
  "\<exists>t'. onGlobalFilterChange \<lparr>pagination_part = None, global_part = None, columns = []\<rparr> (\<lambda>_. '' ana '')
      (open_table \<lparr>pagination_part = None, global_part = None, columns = []\<rparr> [(''page'', JNum 4)]) = Some t' \<and>
     globalFilter t' = Some ''ana'' \<and> page_num \<lparr>pagination_part = None, global_part = None, columns = []\<rparr> (search t') = 1"
proof -
  have "js_trim '' ana '' = ''ana''" by code_simp
  then show ?thesis
    using global_filter_roundtrip [of "\<lparr>pagination_part = None, global_part = None, columns = []\<rparr>" "\<lambda>_. '' ana ''"
        "open_table \<lparr>pagination_part = None, global_part = None, columns = []\<rparr> [(''page'', JNum 4)]"]
    by (auto simp: globalFilterEnabled_def globalFilterKey_def pageKey_def trimGlobal_def defaultPage_def)
qed

text \<open>A value the column can hold: text that is not blank, or a non-empty list.\<close>

definition holds :: "column_cfg \<Rightarrow> js \<Rightarrow> bool" where
  "holds cfg v =
     (if col_type cfg = Some ''string'' then (case v of JStr t \<Rightarrow> js_trim t \<noteq> [] | _ \<Rightarrow> False)
      else (case v of JArr xs \<Rightarrow> xs \<noteq> [] | _ \<Rightarrow> False))"

definition kept :: "column_filters \<Rightarrow> column_cfg \<Rightarrow> column_filters" where
  "kept next cfg =
     (case map_of next (columnId cfg) of
        Some v \<Rightarrow> (if holds cfg v then [(columnId cfg, v)] else [])
      | None \<Rightarrow> [])"

text \<open>
  What the optional transformers of a column have to satisfy: what was serialised is read back
  as a non-null value, and an absent parameter is not turned into a filter.
\<close>

definition column_codec :: "column_cfg \<Rightarrow> bool" where
  "column_codec cfg =
     ((\<forall>v. holds cfg v \<longrightarrow>
         or_else (deserialize cfg) (\<lambda>v. v) (or_else (serialize cfg) (\<lambda>v. v) v) = v) \<and>
      nullish (or_else (deserialize cfg) (\<lambda>v. v) JUndef))"

lemma plain_column_codec: "serialize cfg = None \<Longrightarrow> deserialize cfg = None \<Longrightarrow> column_codec cfg"
  by (simp add: column_codec_def)

lemma column_roundtrip:
  assumes "column_codec cfg" "param s (searchKey cfg) = write_column next cfg"
  shows "read_column s cfg = kept next cfg"
proof -
  have [simp]: "js_trim [] = []" by (simp add: js_trim_def)
  have absent: "read_column s cfg = []" if "param s (searchKey cfg) = JUndef"
    using assms(1) that by (auto simp: read_column_def column_codec_def js_coalesce_def Let_def)
  have wr: "write_column next cfg =
      (case map_of next (columnId cfg) of
         Some v \<Rightarrow> (if holds cfg v then or_else (serialize cfg) (\<lambda>v. v) v else JUndef) | None \<Rightarrow> JUndef)"
    by (auto simp: write_column_def holds_def Let_def split: option.split js.split)
  show ?thesis
  proof (cases "\<exists>v. map_of next (columnId cfg) = Some v \<and> holds cfg v")
    case True
    then obtain v where v: "map_of next (columnId cfg) = Some v" "holds cfg v" by blast
    then have "or_else (deserialize cfg) (\<lambda>v. v) (param s (searchKey cfg)) = v"
      using assms wr by (simp add: column_codec_def)
    with v show ?thesis
      by (auto simp: read_column_def kept_def holds_def js_coalesce_def Let_def split: js.splits if_splits)
  next
    case False
    then have "write_column next cfg = JUndef" "kept next cfg = []"
      by (auto simp: wr kept_def split: option.split)
    with absent assms(2) show ?thesis by simp
  qed
qed

lemma param_patch:
  assumes "distinct (map searchKey (columns c))" "cfg \<in> set (columns c)"
  shows "param (obj_spread s (column_patch c next)) (searchKey cfg) = write_column next cfg"
proof -
  let ?kv = "map (\<lambda>cfg. (searchKey cfg, write_column next cfg)) (columns c)"
  have d: "distinct (map fst ?kv)" using assms(1) by (simp add: comp_def)
  then have "map_of ?kv (searchKey cfg) = Some (write_column next cfg)"
    using assms(2) by (intro map_of_is_SomeI) auto
  moreover have "map_of (column_patch c next) = map_of ?kv"
    by (rule ext) (simp add: column_patch_def map_of_obj_spread map_of_rev [OF d] split: option.split)
  moreover have "distinct (map fst (column_patch c next))"
    unfolding column_patch_def by (rule obj_spread_distinct) simp
  ultimately show ?thesis
    by (simp add: param_def map_of_obj_spread map_of_rev)
qed

lemma patch_keys: "fst ` set (column_patch c next) = searchKey ` set (columns c)"
  by (simp add: column_patch_def obj_spread_keys image_image)

text \<open>
  Column filters survive a reload: the table reopened at the new address has, in the order
  of the configured columns, exactly those of the chosen filters whose value the column can
  hold; the page goes back to the default and the page size stays.
\<close>

theorem column_filters_roundtrip:
  fixes updater :: "column_filters \<Rightarrow> column_filters" and t :: table_state
  assumes "distinct (map searchKey (columns c))" "\<forall>cfg \<in> set (columns c). column_codec cfg"
    and "pageKey c \<notin> searchKey ` set (columns c)" "pageSizeKey c \<notin> insert (pageKey c) (searchKey ` set (columns c))"
  defines "t' \<equiv> onColumnFiltersChange c updater t"
  shows "initialColumnFilters c (search t') = concat (map (kept (updater (columnFilters t))) (columns c))
    \<and> page_num c (search t') = defaultPage c
    \<and> pageSize (pagination c (search t')) = pageSize (pagination c (search t))"
proof -
  let ?next = "updater (columnFilters t)"
  have s: "search t' = obj_spread (obj_spread (search t) [(pageKey c, JUndef)]) (column_patch c ?next)"
    by (simp add: t'_def onColumnFiltersChange_def Let_def)
  have "map (read_column (search t')) (columns c) = map (kept ?next) (columns c)"
    using assms(1,2) by (auto simp: s intro!: column_roundtrip param_patch)
  moreover have "param (search t') (pageKey c) = JUndef" "param (search t') (pageSizeKey c) = param (search t) (pageSizeKey c)"
    using assms(3,4) by (auto simp: s param_spread patch_keys)
  ultimately show ?thesis
    by (simp add: initialColumnFilters_def page_num_def pagination_def del: map_eq_conv)
qed

definition sample_table :: table_cfg where
  "sample_table = \<lparr>pagination_part = None, global_part = None,
     columns = [\<lparr>columnId = ''status'', searchKey = ''status'', col_type = Some ''array'', serialize = None, deserialize = None\<rparr>,
                \<lparr>columnId = ''name'', searchKey = ''q'', col_type = Some ''string'', serialize = None, deserialize = None\<rparr>]\<rparr>"

theorem column_filters_roundtrip_witness:
  "initialColumnFilters sample_table
     (search (onColumnFiltersChange sample_table (\<lambda>_. [(''name'', JStr ''x''), (''status'', JArr [JNum 1])])
        (open_table sample_table [(''page'', JNum 3)])))
   = [(''status'', JArr [JNum 1]), (''name'', JStr ''x'')]"
proof -
  have c: "distinct (map searchKey (columns sample_table))" "\<forall>cfg \<in> set (columns sample_table). column_codec cfg"
    "pageKey sample_table \<notin> searchKey ` set (columns sample_table)"
    "pageSizeKey sample_table \<notin> insert (pageKey sample_table) (searchKey ` set (columns sample_table))"
    by (simp_all add: sample_table_def pageKey_def pageSizeKey_def plain_column_codec)
  have "js_trim ''x'' = ''x''" by code_simp
  with column_filters_roundtrip [OF c, of "\<lambda>_. [(''name'', JStr ''x''), (''status'', JArr [JNum 1])]"
      "open_table sample_table [(''page'', JNum 3)]"]
  show ?thesis by (simp add: sample_table_def kept_def holds_def)
qed

text \<open>
  A column configured without a type, which the declared type presents as a text column, is
  treated as a list column: a text filter on it never reaches the address.
\<close>

lemma untyped_column_drops_text:
  assumes "col_type cfg = None"
  shows "map_of next (columnId cfg) = Some (JStr t) \<Longrightarrow> write_column next cfg = JUndef"
    and "deserialize cfg = None \<Longrightarrow> param s (searchKey cfg) = JStr t \<Longrightarrow> read_column s cfg = []"
  using assms by (simp_all add: write_column_def read_column_def js_coalesce_def Let_def)

text \<open>
  C33. A page out of range is corrected in one step: with a default page that exists, the page
  after \<open>ensurePageInRange\<close> is at most the number of pages, and calling it again (as the effect
  on every render does) changes nothing, so it cannot navigate in a loop.
\<close>

theorem page_in_range:
  assumes "0 < pageCount" "defaultPage c \<le> pageCount"
  shows "page_num c (search (ensurePageInRange c pageCount last_page t)) \<le> pageCount
    \<and> ensurePageInRange c pageCount last_page' (ensurePageInRange c pageCount last_page t)
      = ensurePageInRange c pageCount last_page t"
  using assms by (auto simp: ensurePageInRange_def page_num_def param_spread)

theorem page_in_range_witness:
  "page_num sample_table (search (ensurePageInRange sample_table 2 True (open_table sample_table [(''page'', JNum 9)]))) \<le> 2"
  using page_in_range [of 2 sample_table True "open_table sample_table [(''page'', JNum 9)]" True]
  by (simp add: sample_table_def defaultPage_def)

section \<open>Page buttons\<close>

datatype page_item = Page int | Dots

definition getPageNumbers :: "int \<Rightarrow> int \<Rightarrow> page_item list" where
  "getPageNumbers currentPage totalPages =
     (if totalPages \<le> 5 then map Page [1..totalPages]
      else
        Page 1 #
        (if currentPage \<le> 3 then map Page [2..4] @ [Dots, Page totalPages]
         else if totalPages - 2 \<le> currentPage then Dots # map Page [totalPages - 3..totalPages]
         else Dots # map Page [currentPage - 1..currentPage + 1] @ [Dots, Page totalPages]))"

text \<open>Numbers next to each other are consecutive, and dots stand for at least one page.\<close>

fun page_list :: "page_item list \<Rightarrow> bool" where
  "page_list [Page a] = True"
| "page_list (Page a # Page b # r) = (b = a + 1 \<and> page_list (Page b # r))"
| "page_list (Page a # Dots # Page b # r) = (a + 1 < b \<and> page_list (Page b # r))"
| "page_list _ = False"

lemma upto_4: "[a - 3..a] = [a - 3, a - 2, a - 1, a :: int]" and upto_3: "[b - 1..b + 1] = [b - 1, b, b + 1 :: int]"
  by (simp_all add: upto.simps)

text \<open>
  The page buttons: the list runs from page 1 to the last page, contains the current page,
  has at most seven entries, and an ellipsis stands exactly where pages are left out.
\<close>

theorem page_numbers_shape:
  assumes "1 \<le> cur" "cur \<le> pages"
  shows "page_list (getPageNumbers cur pages) \<and> hd (getPageNumbers cur pages) = Page 1
    \<and> last (getPageNumbers cur pages) = Page pages \<and> Page cur \<in> set (getPageNumbers cur pages)
    \<and> length (getPageNumbers cur pages) \<le> 7"
proof (cases "pages \<le> 5")
  case True
  then consider "pages = 1" | "pages = 2" | "pages = 3" | "pages = 4" | "pages = 5" using assms by linarith
  then show ?thesis using assms by cases (auto simp: getPageNumbers_def upto.simps)
next
  case False
  then show ?thesis using assms by (auto simp: getPageNumbers_def upto_3 upto_4 upto.simps [of 2 4] upto.simps [of 3 4] upto.simps [of 4 4])
qed

theorem page_numbers_shape_witness:
  "page_list (getPageNumbers 5 10) \<and> getPageNumbers 5 10 = [Page 1, Dots, Page 4, Page 5, Page 6, Dots, Page 10]"
  using page_numbers_shape [of 5 10] upto_3 [of 5] by (simp add: getPageNumbers_def)

text \<open>\<open>s.trim().split(/\s+/).filter(Boolean)\<close>: the maximal runs without white space.\<close>

fun js_words :: "string \<Rightarrow> string \<Rightarrow> string list" where
  "js_words acc [] = (if acc = [] then [] else [rev acc])"
| "js_words acc (c # cs) =
     (if is_ws c then (if acc = [] then js_words [] cs else rev acc # js_words [] cs)
      else js_words (c # acc) cs)"

definition getDisplayNameInitials :: "string \<Rightarrow> string" where
  "getDisplayNameInitials displayName =
     (case js_words [] (js_trim displayName) of
        [] \<Rightarrow> ''?''
      | [w] \<Rightarrow> toUpperCase (take 2 w)
      | w # ws \<Rightarrow> toUpperCase (take 1 w @ take 1 (last ws)))"

end
