(* ===== verification/Quick_Print.thy ===== *)
theory Quick_Print
  imports Browser Hotspot_Api "HOL-Library.Word"
begin

text \<open>
  Quick-print presets: the store of display metadata
  (\<^verbatim>\<open>web/src/stores/quick-print-presets-meta-store.ts\<close>), the mapping between presets and the
  all-strings records of the backend (\<^verbatim>\<open>web/src/features/voucher/print/lib/preset-mapping.ts\<close>),
  the dialog store, and the handlers that save and delete a preset
  (\<^verbatim>\<open>dialogs/preset-mutate-drawer.tsx\<close>, \<^verbatim>\<open>dialogs/preset-delete-dialog.tsx\<close>).

  A preset is kept in two places, the backend record and the local metadata under the same
  name. The theorems: a preset that was saved is shown as it was entered, also after a rename;
  what the mapping makes of any backend record is stable; the fallback colour is always one of
  the palette.

  The metadata object is a list of fields; names of members of \<open>Object.prototype\<close> are not
  looked up on the prototype. Persisting the store is the library's part.
\<close>

section \<open>Display metadata\<close>

datatype PresetColor = Blue | Indigo | Purple | Pink | Red | Amber | Green | Teal | Cyan | Sky

record PresetMeta =
  meta_color :: PresetColor
  packageLabel :: string

type_synonym meta_store = "(string \<times> PresetMeta) list"

definition meta_get :: "string \<Rightarrow> meta_store \<Rightarrow> PresetMeta option" where
  "meta_get name byName = map_of byName name"

definition meta_set :: "string \<Rightarrow> PresetMeta \<Rightarrow> meta_store \<Rightarrow> meta_store" where
  "meta_set name meta byName = obj_put byName name meta"

definition meta_remove :: "string \<Rightarrow> meta_store \<Rightarrow> meta_store" where
  "meta_remove name byName = filter (\<lambda>(k, _). k \<noteq> name) byName"

definition meta_rename :: "string \<Rightarrow> string \<Rightarrow> meta_store \<Rightarrow> meta_store" where
  "meta_rename oldName newName byName =
     (if oldName = newName then byName
      else
        (case meta_get oldName byName of
           None \<Rightarrow> byName
         | Some meta \<Rightarrow> obj_put (meta_remove oldName byName) newName meta))"

definition meta_clear :: "meta_store \<Rightarrow> meta_store" where
  "meta_clear byName = []"

section \<open>The fallback colour\<close>

definition COLOR_PALETTE :: "PresetColor list" where
  "COLOR_PALETTE = [Blue, Indigo, Purple, Pink, Red, Amber, Green, Teal, Cyan, Sky]"

text \<open>\<open>n | 0\<close>: the integer is reduced to 32 bits in two's complement.\<close>

definition to_int32 :: "int \<Rightarrow> int" where
  "to_int32 n = (n + 2 ^ 31) mod 2 ^ 32 - 2 ^ 31"

definition color_hash :: "string \<Rightarrow> int" where
  "color_hash name = foldl (\<lambda>hash c. to_int32 (hash * 31 + int (code_of c))) 0 name"

text \<open>\<open>None\<close> is the \<open>undefined\<close> an index out of range would give.\<close>

definition defaultColorFor :: "string \<Rightarrow> PresetColor option" where
  "defaultColorFor name =
     (let i = nat (\<bar>color_hash name\<bar> mod int (length COLOR_PALETTE)) in
      if i < length COLOR_PALETTE then Some (COLOR_PALETTE ! i) else None)"

section \<open>Presets and backend records\<close>

text \<open>
  \<open>userMode\<close>, \<open>charSet\<close> and \<open>dataLimitUnit\<close> are unions of string literals and stay strings, because
  the code tests unchecked strings against them. Numbers are exact.
\<close>

record QuickPrintPackage =
  pk_name :: string
  pk_server :: string
  user_mode :: string
  user_length :: string
  pk_prefix :: string
  char_mode :: string
  pk_profile :: string
  time_limit :: string
  data_limit :: string
  pk_comment :: string
  pk_validity :: string
  pk_price :: string
  selling_price :: string
  lock_user :: string

record preset_form =
  pf_name :: string
  pf_package :: string
  pf_color :: PresetColor
  pf_server :: string
  pf_profile :: string
  userMode :: string
  userLength :: rat
  charSet :: string
  pf_prefix :: string
  timeLimit :: string
  dataLimit :: rat
  dataLimitUnit :: string
  pf_validity :: string
  pf_price :: rat
  sellingPrice :: rat
  lockUser :: bool

text \<open>\<open>QuickPrintPreset\<close>: the fields of the form, and the identifier.\<close>

record QuickPrintPreset = preset_form +
  preset_id :: string

definition VALID_USER_MODES :: "string list" where
  "VALID_USER_MODES = [''vc'', ''up'']"

definition VALID_CHAR_SETS :: "string list" where
  "VALID_CHAR_SETS = [''lower'', ''upper'', ''mixed'', ''number'', ''lower_number'', ''upper_number'', ''mixed_number'']"

definition safeUserMode :: "string \<Rightarrow> string" where
  "safeUserMode s = (if s \<in> set VALID_USER_MODES then s else ''up'')"

definition safeCharSet :: "string \<Rightarrow> string" where
  "safeCharSet s = (if s \<in> set VALID_CHAR_SETS then s else ''lower_number'')"

definition parseInt0 :: "string \<Rightarrow> int" where
  "parseInt0 s = or_else (parseInt s) 0"

definition endsWith :: "string \<Rightarrow> string \<Rightarrow> bool" where
  "endsWith s t = (length t \<le> length s \<and> drop (length s - length t) s = t)"

definition parseDataLimit :: "string \<Rightarrow> int \<times> string" where
  "parseDataLimit s =
     (let trimmed = toUpperCase (js_trim s); body = take (length trimmed - 2) trimmed in
      if endsWith trimmed ''GB'' then (parseInt0 body, ''GB'')
      else if endsWith trimmed ''MB'' then (parseInt0 body, ''MB'')
      else
        (let bytes = parseInt0 trimmed in
         if 0 < bytes then (\<lfloor>(of_int bytes / 1048576 :: rat) + 1 / 2\<rfloor>, ''MB'') else (0, ''MB'')))"

definition apiToPreset :: "QuickPrintPackage \<Rightarrow> PresetMeta option \<Rightarrow> QuickPrintPreset option" where
  "apiToPreset api meta =
     (let (dl_value, dl_unit) = parseDataLimit (data_limit api) in
      map_option (\<lambda>color.
        \<lparr>pf_name = pk_name api,
         pf_package = or_else (map_option packageLabel meta) (pk_name api),
         pf_color = color,
         pf_server = (if pk_server api = [] then ''all'' else pk_server api),
         pf_profile = pk_profile api,
         userMode = safeUserMode (user_mode api),
         userLength = (if parseInt0 (user_length api) = 0 then 5 else of_int (parseInt0 (user_length api))),
         charSet = safeCharSet (char_mode api),
         pf_prefix = pk_prefix api,
         timeLimit = (if time_limit api = [] then ''0'' else time_limit api),
         dataLimit = of_int dl_value,
         dataLimitUnit = dl_unit,
         pf_validity = pk_validity api,
         pf_price = of_int (parseInt0 (pk_price api)),
         sellingPrice = of_int (parseInt0 (selling_price api)),
         lockUser = (lock_user api = ''1'' \<or> toLowerCase (lock_user api) = ''true''),
         preset_id = pk_name api\<rparr>)
        (case meta of Some m \<Rightarrow> Some (meta_color m) | None \<Rightarrow> defaultColorFor (pk_name api)))"

definition presetToApi :: "'a preset_form_scheme \<Rightarrow> QuickPrintPackage" where
  "presetToApi p =
     \<lparr>pk_name = pf_name p, pk_server = pf_server p, user_mode = userMode p,
      user_length = show_rat (userLength p), pk_prefix = pf_prefix p, char_mode = charSet p,
      pk_profile = pf_profile p, time_limit = timeLimit p,
      data_limit = (if 0 < dataLimit p then show_rat (dataLimit p) @ dataLimitUnit p else []),
      pk_comment = [], pk_validity = pf_validity p, pk_price = show_rat (pf_price p),
      selling_price = show_rat (sellingPrice p), lock_user = (if lockUser p then ''1'' else ''0'')\<rparr>"

definition useApiPresetsWithMeta :: "QuickPrintPackage list option \<Rightarrow> meta_store \<Rightarrow> QuickPrintPreset option list" where
  "useApiPresetsWithMeta apiPackages byName =
     (case apiPackages of
        None \<Rightarrow> []
      | Some ps \<Rightarrow> map (\<lambda>p. apiToPreset p (meta_get (pk_name p) byName)) ps)"

section \<open>Dialogs\<close>

datatype DialogMode = Add | Edit | Delete

text \<open>The dialog store, the metadata and the toasts shown, in order.\<close>

datatype toast = ToastError string "js option" | ToastSuccess string

record presets_page =
  mode :: "DialogMode option"
  target :: "QuickPrintPreset option"
  byName :: meta_store
  toasts :: "toast list"

definition open_dialog :: "DialogMode \<Rightarrow> QuickPrintPreset option \<Rightarrow> presets_page \<Rightarrow> presets_page" where
  "open_dialog m t s = s\<lparr>mode := Some m, target := t\<rparr>"

definition close_dialog :: "presets_page \<Rightarrow> presets_page" where
  "close_dialog s = s\<lparr>mode := None, target := None\<rparr>"

definition show_toast :: "toast \<Rightarrow> presets_page \<Rightarrow> presets_page" where
  "show_toast t s = s\<lparr>toasts := toasts s @ [t]\<rparr>"

definition error_message :: "thrown \<Rightarrow> js" where
  "error_message e =
     (case e of
        AxiosErr a \<Rightarrow> JStr (ax_message a)
      | NativeErr v \<Rightarrow> JStr (if v = JUndef then [] else js_String v)
      | Thrown v \<Rightarrow> js_optget v ''message'')"

definition quoted :: "string \<Rightarrow> string" where
  "quoted s = [char_of (39 :: nat)] @ s @ [char_of (39 :: nat)]"

text \<open>The request body: the record as an object.\<close>

definition js_of_package :: "QuickPrintPackage \<Rightarrow> js" where
  "js_of_package p =
     JObj [(''name'', JStr (pk_name p)), (''server'', JStr (pk_server p)), (''user_mode'', JStr (user_mode p)),
       (''user_length'', JStr (user_length p)), (''prefix'', JStr (pk_prefix p)), (''char_mode'', JStr (char_mode p)),
       (''profile'', JStr (pk_profile p)), (''time_limit'', JStr (time_limit p)), (''data_limit'', JStr (data_limit p)),
       (''comment'', JStr (pk_comment p)), (''validity'', JStr (pk_validity p)), (''price'', JStr (pk_price p)),
       (''selling_price'', JStr (selling_price p)), (''lock_user'', JStr (lock_user p))]"

text \<open>
  A handler that starts a mutation gives the page at once and the mutation with the callback
  that runs when it is settled, on the page as it is then.
\<close>

type_synonym pending_call = "mutation \<times> (thrown + js \<Rightarrow> presets_page \<Rightarrow> presets_page)"

definition preset_draft :: "QuickPrintPreset option \<Rightarrow> preset_form \<Rightarrow> QuickPrintPreset" where
  "preset_draft t v = preset_form.extend v \<lparr>preset_id = or_else (map_option preset_id t) []\<rparr>"

definition form_meta :: "preset_form \<Rightarrow> PresetMeta" where
  "form_meta v = \<lparr>meta_color = pf_color v, packageLabel = pf_package v\<rparr>"

definition onSubmit :: "int option \<Rightarrow> preset_form \<Rightarrow> presets_page \<Rightarrow> presets_page \<times> pending_call option" where
  "onSubmit routerId values s =
     (case routerId of
        None \<Rightarrow> (show_toast (ToastError ''Select a router first'' None) s, None)
      | Some rid \<Rightarrow>
          (let apiBody = presetToApi (preset_draft (target s) values); meta = form_meta values in
           case (mode s, target s) of
             (Some Add, _) \<Rightarrow>
               (s, Some (useCreateQuickPrintPackage rid (js_of_package apiBody),
                 \<lambda>r p. case r of
                   Inr _ \<Rightarrow> close_dialog (show_toast (ToastSuccess (''Preset '' @ quoted (pf_name values) @ '' ditambahkan''))
                     (p\<lparr>byName := meta_set (pf_name values) meta (byName p)\<rparr>))
                 | Inl e \<Rightarrow> show_toast (ToastError ''Gagal menambahkan preset'' (Some (error_message e))) p))
           | (Some Edit, Some t) \<Rightarrow>
               (s, Some (useUpdateQuickPrintPackage rid (pf_name t) (js_of_package apiBody),
                 \<lambda>r p. case r of
                   Inr _ \<Rightarrow>
                     (let p1 = (if pf_name t \<noteq> pf_name values
                                then p\<lparr>byName := meta_rename (pf_name t) (pf_name values) (byName p)\<rparr> else p)
                      in close_dialog (show_toast (ToastSuccess (''Preset '' @ quoted (pf_name values) @ '' diperbarui''))
                           (p1\<lparr>byName := meta_set (pf_name values) meta (byName p1)\<rparr>)))
                 | Inl e \<Rightarrow> show_toast (ToastError ''Gagal memperbarui preset'' (Some (error_message e))) p))
           | _ \<Rightarrow> (s, None)))"

definition handleConfirm :: "int option \<Rightarrow> presets_page \<Rightarrow> presets_page \<times> pending_call option" where
  "handleConfirm routerId s =
     (case target s of
        None \<Rightarrow> (close_dialog s, None)
      | Some t \<Rightarrow>
          (case routerId of
             None \<Rightarrow> (show_toast (ToastError ''Select a router first'' None) s, None)
           | Some rid \<Rightarrow>
               (s, Some (useRemoveQuickPrintPackage rid (pf_name t),
                 \<lambda>r p. case r of
                   Inr _ \<Rightarrow> close_dialog (show_toast (ToastSuccess (''Preset '' @ quoted (pf_name t) @ '' deleted''))
                     (p\<lparr>byName := meta_remove (pf_name t) (byName p)\<rparr>))
                 | Inl e \<Rightarrow> show_toast (ToastError ''Failed to delete preset'' (Some (error_message e))) p))))"

section \<open>Laws of the metadata store\<close>

interpretation meta: kv_store meta_get meta_set meta_remove "\<lambda>_. True" "\<lambda>_. True" "\<lambda>_. True"
proof
  show "meta_get j (meta_remove k st) = (if j = k then None else meta_get j st)" for j k st
    by (induction st) (auto simp: meta_get_def meta_remove_def)
qed (simp_all add: meta_get_def meta_set_def map_of_obj_put)

lemmas meta_simps [simp] =
  meta.get_put [OF TrueI TrueI TrueI TrueI] meta.get_del [OF TrueI TrueI TrueI]

lemma meta_get_rename:
  "meta_get j (meta_rename old new st) =
     (if old = new \<or> meta_get old st = None then meta_get j st
      else if j = new then meta_get old st else if j = old then None else meta_get j st)"
  by (auto simp: meta_rename_def meta_set_def [symmetric] split: option.split)

section \<open>The fallback colour\<close>

lemma to_int32_sint: "to_int32 n = sint (word_of_int n :: 32 word)"
proof -
  have "sint (word_of_int n :: 32 word) = signed_take_bit 31 n"
    by (simp add: signed_of_int)
  then show ?thesis by (simp add: to_int32_def signed_take_bit_eq_take_bit_shift take_bit_eq_mod)
qed

lemma color_hash_fold:
  "foldl (\<lambda>h c. to_int32 (h * 31 + int (code_of c))) (sint (w :: 32 word)) s =
     sint (foldl (\<lambda>h c. h * 31 + of_nat (code_of c)) w s)"
proof (induction s arbitrary: w)
  case (Cons c s)
  have "to_int32 (sint w * 31 + int (code_of c)) = sint (w * 31 + of_nat (code_of c))"
    by (simp add: to_int32_sint)
  with Cons show ?case by simp
qed simp

lemma color_hash_word: "color_hash name = sint (foldl (\<lambda>h c. h * 31 + of_nat (code_of c)) (0 :: 32 word) name)"
  using color_hash_fold [of 0 name] by (simp add: color_hash_def)

lemma defaultColorFor_palette: "\<exists>color \<in> set COLOR_PALETTE. defaultColorFor name = Some color"
proof -
  have "nat (\<bar>color_hash name\<bar> mod int (length COLOR_PALETTE)) < length COLOR_PALETTE"
    by (simp add: COLOR_PALETTE_def nat_less_iff)
  then show ?thesis unfolding defaultColorFor_def Let_def by (metis nth_mem)
qed

text \<open>
  C33. The fallback colour: the hash is the 32-bit word hash \<open>h * 31 + c\<close> read as a signed number,
  so it never leaves the range of a 32-bit integer, and the colour chosen by its absolute value
  is always one of the ten, also for the most negative hash.
\<close>

theorem default_color_total:
  "color_hash name = sint (foldl (\<lambda>h c. h * 31 + of_nat (code_of c)) (0 :: 32 word) name)
   \<and> - (2 ^ 31) \<le> color_hash name \<and> color_hash name < 2 ^ 31
   \<and> (\<exists>color \<in> set COLOR_PALETTE. defaultColorFor name = Some color)"
proof (intro conjI)
  show "- (2 ^ 31) \<le> color_hash name" "color_hash name < 2 ^ 31"
    unfolding color_hash_word using sint_range_size [of "foldl (\<lambda>h c. h * 31 + of_nat (code_of c)) (0 :: 32 word) name"]
    by (simp_all add: word_size)
qed (rule color_hash_word defaultColorFor_palette)+

section \<open>Round trips\<close>

lemma upper_digit: "is_digit c \<or> c = CHR ''-'' \<Longrightarrow> upper_char c = c"
  by (auto simp: upper_char_def is_digit_def code_of_def)

lemma upper_show_int: "toUpperCase (show_int i) = show_int i"
  by (simp add: toUpperCase_def map_idI upper_digit show_int_chars)

lemma no_ws_trim: "(\<And>c. c \<in> set s \<Longrightarrow> \<not> is_ws c) \<Longrightarrow> js_trim s = s"
  by (cases "s = []") (simp_all add: js_trim_def dropWhile_id dropWhile_rev_id)

lemma parseInt0_show [simp]: "parseInt0 (show_int i) = i"
  using parseInt_show [of "[]" i] by (simp add: parseInt0_def)

lemma parseDataLimit_show:
  assumes "u = ''GB'' \<or> u = ''MB''"
  shows "parseDataLimit (show_int i @ u) = (i, u)"
proof -
  have "c \<in> set (show_int i @ u) \<Longrightarrow> \<not> is_ws c" for c
    using assms show_int_chars [of c i] digit_not_ws [of c] by (auto simp: is_ws_def code_of_def)
  moreover have "toUpperCase u = u" using assms by (auto simp: toUpperCase_def upper_char_def code_of_def)
  ultimately have "toUpperCase (js_trim (show_int i @ u)) = show_int i @ u"
    using upper_show_int [of i] no_ws_trim [of "show_int i @ u"] by (simp add: toUpperCase_def)
  then show ?thesis
    using assms by (auto simp: parseDataLimit_def endsWith_def)
qed

lemma parseDataLimit_empty [simp]: "parseDataLimit [] = (0, ''MB'')"
  by code_simp

text \<open>What the form must hold for the backend record to keep it.\<close>

definition form_kept :: "'a preset_form_scheme \<Rightarrow> bool" where
  "form_kept v =
     (pf_server v \<noteq> [] \<and> timeLimit v \<noteq> [] \<and> userMode v \<in> set VALID_USER_MODES \<and> charSet v \<in> set VALID_CHAR_SETS \<and>
      userLength v \<in> \<int> \<and> userLength v \<noteq> 0 \<and> pf_price v \<in> \<int> \<and> sellingPrice v \<in> \<int> \<and> dataLimit v \<in> \<int> \<and>
      (0 < dataLimit v \<and> dataLimitUnit v \<in> {''MB'', ''GB''} \<or> dataLimit v = 0 \<and> dataLimitUnit v = ''MB''))"

lemma data_limit_kept:
  assumes "form_kept v"
  shows "parseDataLimit (data_limit (presetToApi v)) = (\<lfloor>dataLimit v\<rfloor>, dataLimitUnit v)"
  using assms by (auto simp: form_kept_def presetToApi_def parseDataLimit_show elim!: Ints_cases)

lemma preset_roundtrip_fields:
  assumes "form_kept (v :: preset_form)"
  shows "apiToPreset (presetToApi v) (Some (form_meta v)) = Some (preset_form.extend v \<lparr>preset_id = pf_name v\<rparr>)"
  using assms data_limit_kept [OF assms]
  by (auto simp: apiToPreset_def form_meta_def form_kept_def safeUserMode_def safeCharSet_def presetToApi_def
      preset_form.defs toLowerCase_def lower_char_def code_of_def elim!: Ints_cases)

lemma apiToPreset_Some: "\<exists>p. apiToPreset a m = Some p"
  using defaultColorFor_palette [of "pk_name a"]
  by (auto simp: apiToPreset_def split: option.split prod.split)

lemma apiToPreset_fields:
  assumes "apiToPreset a m = Some p"
  shows "pf_name p = pk_name a" "pf_server p = (if pk_server a = [] then ''all'' else pk_server a)"
    "pf_profile p = pk_profile a" "userMode p = safeUserMode (user_mode a)" "charSet p = safeCharSet (char_mode a)"
    "userLength p = of_int (if parseInt0 (user_length a) = 0 then 5 else parseInt0 (user_length a))"
    "pf_prefix p = pk_prefix a" "timeLimit p = (if time_limit a = [] then ''0'' else time_limit a)"
    "dataLimit p = of_int (fst (parseDataLimit (data_limit a)))" "dataLimitUnit p = snd (parseDataLimit (data_limit a))"
    "pf_validity p = pk_validity a" "pf_price p = of_int (parseInt0 (pk_price a))"
    "sellingPrice p = of_int (parseInt0 (selling_price a))"
    "lockUser p \<longleftrightarrow> lock_user a = ''1'' \<or> toLowerCase (lock_user a) = ''true''"
  using assms by (auto simp: apiToPreset_def split: prod.splits)

lemma presetToApi_fields [simp]:
  "pk_name (presetToApi p) = pf_name p" "pk_server (presetToApi p) = pf_server p" "user_mode (presetToApi p) = userMode p"
  "user_length (presetToApi p) = show_rat (userLength p)" "pk_prefix (presetToApi p) = pf_prefix p"
  "char_mode (presetToApi p) = charSet p" "pk_profile (presetToApi p) = pf_profile p" "time_limit (presetToApi p) = timeLimit p"
  "data_limit (presetToApi p) = (if 0 < dataLimit p then show_rat (dataLimit p) @ dataLimitUnit p else [])"
  "pk_comment (presetToApi p) = []" "pk_validity (presetToApi p) = pf_validity p" "pk_price (presetToApi p) = show_rat (pf_price p)"
  "selling_price (presetToApi p) = show_rat (sellingPrice p)" "lock_user (presetToApi p) = (if lockUser p then ''1'' else ''0'')"
  by (simp_all add: presetToApi_def)

lemma safe_idem [simp]: "safeUserMode (safeUserMode t) = safeUserMode t" "safeCharSet (safeCharSet t) = safeCharSet t"
  by (simp_all add: safeUserMode_def safeCharSet_def VALID_USER_MODES_def VALID_CHAR_SETS_def)

lemma unit_cases: "snd (parseDataLimit s) = ''GB'' \<or> snd (parseDataLimit s) = ''MB''"
  by (simp add: parseDataLimit_def Let_def)

lemma lock_digits [simp]: "toLowerCase ''1'' = ''1''" "toLowerCase ''0'' = ''0''"
  by (simp_all add: toLowerCase_def lower_char_def code_of_def)

text \<open>
  Reading and writing back is stable: whatever strings a backend record holds, it is read
  as a preset; writing that preset and reading it again, with any metadata, gives a preset that
  is written as the same record. One save normalises a record and the next changes nothing.
\<close>

theorem preset_normal_form:
  "\<exists>p q. apiToPreset a meta = Some p \<and> apiToPreset (presetToApi p) meta' = Some q \<and> presetToApi q = presetToApi p"
proof -
  obtain p q where p: "apiToPreset a meta = Some p" and q: "apiToPreset (presetToApi p) meta' = Some q"
    using apiToPreset_Some by blast
  note f = apiToPreset_fields [OF q] apiToPreset_fields [OF p]
  have "data_limit (presetToApi q) = data_limit (presetToApi p)"
    using parseDataLimit_show [OF unit_cases] by (simp add: f)
  moreover have "show_rat 5 = show_int 5" using show_rat_int [of 5] by simp
  ultimately have "presetToApi q = presetToApi p"
    by (intro QuickPrintPackage.equality) (simp_all add: f del: presetToApi_fields(9))
  with p q show ?thesis by blast
qed

section \<open>Saving and deleting\<close>

lemma submit_cases:
  assumes "onSubmit (Some rid) v s = (s', Some (m, k))"
  obtains "mode s = Some Add" "rq_body (m_fn m) = js_of_package (presetToApi v)"
      "\<And>r p. byName (k (Inr r) p) = meta_set (pf_name v) (form_meta v) (byName p)"
  | t where "mode s = Some Edit" "target s = Some t" "rq_body (m_fn m) = js_of_package (presetToApi v)"
      "\<And>r p. byName (k (Inr r) p) =
         meta_set (pf_name v) (form_meta v) (meta_rename (pf_name t) (pf_name v) (byName p))"
proof -
  have body: "presetToApi (preset_draft t v) = presetToApi v" for t
    by (simp add: presetToApi_def preset_draft_def preset_form.defs)
  have same: "meta_rename n n st = st" for n st by (simp add: meta_rename_def)
  show thesis
    using assms that body same
    by (auto simp: onSubmit_def Let_def useCreateQuickPrintPackage_def createQuickPrintPackage_def
        useUpdateQuickPrintPackage_def updateQuickPrintPackage_def close_dialog_def show_toast_def
        split: option.splits DialogMode.splits)
qed

lemma submit_settled:
  assumes "onSubmit (Some rid) v s = (s', Some (m, k))"
  shows "s' = s \<and> mode (k (Inr r) p) = None \<and> byName (k (Inl e) p) = byName p \<and> mode (k (Inl e) p) = mode p"
  using assms by (auto simp: onSubmit_def Let_def close_dialog_def show_toast_def split: option.splits DialogMode.splits)

lemma preset_shown:
  assumes "form_kept v" "meta_get (pf_name v) st = Some (form_meta v)" "presetToApi v \<in> set pkgs"
  shows "Some (preset_form.extend v \<lparr>preset_id = pf_name v\<rparr>) \<in> set (useApiPresetsWithMeta (Some pkgs) st)"
proof -
  have "pk_name (presetToApi v) = pf_name v" by (simp add: presetToApi_def)
  then have "apiToPreset (presetToApi v) (meta_get (pk_name (presetToApi v)) st) =
      Some (preset_form.extend v \<lparr>preset_id = pf_name v\<rparr>)"
    using preset_roundtrip_fields [OF assms(1)] assms(2) by simp
  then show ?thesis using assms(3) by (force simp: useApiPresetsWithMeta_def)
qed


definition sample_form :: preset_form where
  "sample_form =
     \<lparr>pf_name = ''QP2'', pf_package = ''1 Jam'', pf_color = Red, pf_server = ''all'', pf_profile = ''1h'',
      userMode = ''up'', userLength = 6, charSet = ''lower'', pf_prefix = [], timeLimit = ''1h'', dataLimit = 2,
      dataLimitUnit = ''GB'', pf_validity = ''1h'', pf_price = 1000, sellingPrice = 1500, lockUser = True\<rparr>"

definition sample_page :: presets_page where
  "sample_page =
     \<lparr>mode = Some Edit, target = Some (preset_form.extend (sample_form\<lparr>pf_name := ''QP1''\<rparr>) \<lparr>preset_id = ''QP1''\<rparr>),
      byName = [(''QP1'', \<lparr>meta_color = Blue, packageLabel = ''old''\<rparr>)], toasts = []\<rparr>"


text \<open>
  Deleting: after a successful request the metadata of the preset is gone and that of every
  other one is kept; a failed request changes none.
\<close>

lemma preset_deleted:
  assumes "handleConfirm (Some rid) s = (s', Some (m, k))"
  obtains t where "target s = Some t" "m = useRemoveQuickPrintPackage rid (pf_name t)"
    "\<And>r p j. meta_get j (byName (k (Inr r) p)) = (if j = pf_name t then None else meta_get j (byName p))"
    "\<And>e p. byName (k (Inl e) p) = byName p"
  using assms by (auto simp: handleConfirm_def close_dialog_def show_toast_def split: option.splits)

end
