(* ===== verification/Voucher_Batch.thy ===== *)
theory Voucher_Batch
  imports Js_Json "HOL-Library.Word" "HOL-Library.While_Combinator"
begin

unbundle bit_operations_syntax

text \<open>
  Random voucher codes: the batch generator and the CSV export of
  \<^verbatim>\<open>web/src/features/voucher/generate/data/data.ts\<close>, the request parameters built by
  \<open>formToBackendParams\<close> (\<^verbatim>\<open>components/voucher-generate-form.tsx\<close>), and the seeded generator of
  \<^verbatim>\<open>web/src/features/voucher/sales/api/mock.ts\<close>.

  A source of random numbers is a function from a state to a number and the next state. The
  interface is a locale: the number is at least 0 and less than 1. \<open>Math.random\<close> is a parameter
  with that law, as the language documents it; \<open>mulberry32\<close> is shown to satisfy it. Numbers are
  exact: the product of a double below 1 and a length is never rounded up to the length.
\<close>

section \<open>Drawing\<close>

type_synonym 'g source = "'g \<Rightarrow> rat \<times> 'g"

definition rand_index :: "'g source \<Rightarrow> nat \<Rightarrow> 'g \<Rightarrow> nat \<times> 'g" where
  "rand_index rng n g = (let (r, g') = rng g in (nat \<lfloor>r * of_nat n\<rfloor>, g'))"

text \<open>\<open>out += charset[i]\<close>: an index out of range appends the text of \<open>undefined\<close>.\<close>

definition char_at :: "string \<Rightarrow> nat \<Rightarrow> string" where
  "char_at s i = (if i < length s then [s ! i] else ''undefined'')"

primrec random_chars :: "'g source \<Rightarrow> string \<Rightarrow> nat \<Rightarrow> string \<times> 'g \<Rightarrow> string \<times> 'g" where
  "random_chars rng charset 0 og = og"
| "random_chars rng charset (Suc n) og =
     (let (i, g') = rand_index rng (length charset) (snd og)
      in random_chars rng charset n (fst og @ char_at charset i, g'))"

definition randomString :: "'g source \<Rightarrow> string \<Rightarrow> nat \<Rightarrow> 'g \<Rightarrow> string \<times> 'g" where
  "randomString rng charset n g = random_chars rng charset n ([], g)"

text \<open>\<open>None\<close> is the \<open>undefined\<close> an index out of range gives.\<close>

definition pickFrom :: "'g source \<Rightarrow> 'a list \<Rightarrow> 'g \<Rightarrow> 'a option \<times> 'g" where
  "pickFrom rng arr g =
     (let (i, g') = rand_index rng (length arr) g in (if i < length arr then Some (arr ! i) else None, g'))"

definition randInt :: "'g source \<Rightarrow> int \<Rightarrow> int \<Rightarrow> 'g \<Rightarrow> int \<times> 'g" where
  "randInt rng lo hi g = (let (r, g') = rng g in (\<lfloor>r * of_int (hi - lo + 1)\<rfloor> + lo, g'))"

definition hex2 :: "nat \<Rightarrow> string" where
  "hex2 n = padStart 2 CHR ''0'' (show_radix 16 n)"

primrec octets :: "'g source \<Rightarrow> nat \<Rightarrow> 'g \<Rightarrow> nat list \<times> 'g" where
  "octets rng 0 g = ([], g)"
| "octets rng (Suc n) g =
     (let (i, g1) = rand_index rng 256 g; (is, g2) = octets rng n g1 in (i # is, g2))"

definition mac_octets :: "'g source \<Rightarrow> 'g \<Rightarrow> nat list \<times> 'g" where
  "mac_octets rng g = (let (i, g1) = rand_index rng 64 g; (is, g2) = octets rng 5 g1 in ((i * 4 + 2) # is, g2))"

definition randMac :: "'g source \<Rightarrow> 'g \<Rightarrow> string \<times> 'g" where
  "randMac rng g = (let (os, g') = mac_octets rng g in (toUpperCase (js_join '':'' (map hex2 os)), g'))"

definition randIp :: "'g source \<Rightarrow> 'g \<Rightarrow> string \<times> 'g" where
  "randIp rng g =
     (let (a, g1) = randInt rng 0 255 g; (b, g2) = randInt rng 0 255 g1; (c, g3) = randInt rng 1 254 g2
      in (''10.'' @ show_int a @ ''.'' @ show_int b @ ''.'' @ show_int c, g3))"

definition randCode :: "'g source \<Rightarrow> nat \<Rightarrow> 'g \<Rightarrow> string \<times> 'g" where
  "randCode rng len g = randomString rng ''abcdefghijkmnopqrstuvwxyz23456789'' len g"

section \<open>The seeded generator\<close>

definition xmur3_step :: "char \<Rightarrow> 32 word \<Rightarrow> 32 word" where
  "xmur3_step c h =
     (let h1 = (h XOR of_nat (code_of c)) * 3432918353 in push_bit 13 h1 OR drop_bit 19 h1)"

definition xmur3 :: "string \<Rightarrow> 32 word" where
  "xmur3 str = fold xmur3_step str (1779033703 XOR of_nat (length str))"

definition xmur3_next :: "32 word \<Rightarrow> 32 word" where
  "xmur3_next h =
     (let h1 = (h XOR drop_bit 16 h) * 2246822507; h2 = (h1 XOR drop_bit 13 h1) * 3266489909
      in h2 XOR drop_bit 16 h2)"

definition mulberry32 :: "(32 word) source" where
  "mulberry32 a0 =
     (let a = a0 + 0x6d2b79f5; t1 = (a XOR drop_bit 15 a) * (a OR 1);
          t2 = t1 XOR (t1 + (t1 XOR drop_bit 7 t1) * (t1 OR 61))
      in (of_nat (unat (t2 XOR drop_bit 14 t2)) / 4294967296, a))"

definition makeRng :: "string \<Rightarrow> 32 word" where
  "makeRng seedStr = xmur3_next (xmur3 seedStr)"

section \<open>The batch\<close>

datatype UserType = VC | UP

datatype CharSet = Lower | Upper | Mixed | Number | Lower_number | Upper_number | Mixed_number

datatype DataLimitUnit = MB | GB

record VoucherGenerateForm =
  qty :: int
  vf_server :: string
  vf_profile :: string
  userType :: UserType
  nameLength :: int
  vf_charSet :: CharSet
  vf_prefix :: string
  vf_timeLimit :: string
  vf_dataLimit :: int
  vf_dataLimitUnit :: DataLimitUnit
  vf_comment :: string

record GeneratedVoucher =
  gv_id :: string
  username :: string
  password :: string
  gv_profile :: string
  gv_comment :: string

text \<open>The string literals of the two unions.\<close>

definition user_type_name :: "UserType \<Rightarrow> string" where
  "user_type_name t = (case t of VC \<Rightarrow> ''vc'' | UP \<Rightarrow> ''up'')"

definition charset_name :: "CharSet \<Rightarrow> string" where
  "charset_name c =
     (case c of
        Lower \<Rightarrow> ''lower'' | Upper \<Rightarrow> ''upper'' | Mixed \<Rightarrow> ''mixed'' | Number \<Rightarrow> ''number''
      | Lower_number \<Rightarrow> ''lower_number'' | Upper_number \<Rightarrow> ''upper_number'' | Mixed_number \<Rightarrow> ''mixed_number'')"

definition CHARSETS :: "CharSet \<Rightarrow> string" where
  "CHARSETS c =
     (case c of
        Lower \<Rightarrow> ''abcdefghjkmnpqrstuvwxyz''
      | Upper \<Rightarrow> ''ABCDEFGHJKLMNPQRSTUVWXYZ''
      | Mixed \<Rightarrow> ''abcdefghjkmnpqrstuvwxyzABCDEFGHJKLMNPQRSTUVWXYZ''
      | Number \<Rightarrow> ''23456789''
      | Lower_number \<Rightarrow> ''abcdefghjkmnpqrstuvwxyz23456789''
      | Upper_number \<Rightarrow> ''ABCDEFGHJKLMNPQRSTUVWXYZ23456789''
      | Mixed_number \<Rightarrow> ''abcdefghjkmnpqrstuvwxyzABCDEFGHJKLMNPQRSTUVWXYZ23456789'')"

text \<open>The date as the local clock gives it: month from 0, day, year.\<close>

definition todayStamp :: "nat \<times> nat \<times> nat \<Rightarrow> string" where
  "todayStamp d =
     (case d of (month, day, year) \<Rightarrow>
        padStart 2 CHR ''0'' (show_nat (month + 1)) @ ''.'' @ padStart 2 CHR ''0'' (show_nat day) @ ''.'' @
        drop 2 (show_nat year))"

definition buildComment :: "'g source \<Rightarrow> nat \<times> nat \<times> nat \<Rightarrow> VoucherGenerateForm \<Rightarrow> 'g \<Rightarrow> string \<times> 'g" where
  "buildComment rng today form g =
     (let (r, g') = rng g; rand3 = \<lfloor>100 + r * 900\<rfloor>; tail = js_trim (vf_comment form);
          tailPart = (if tail \<noteq> [] then ''-'' @ tail else [])
      in (user_type_name (userType form) @ ''-'' @ show_int rand3 @ ''-'' @ todayStamp today @ tailPart, g'))"

text \<open>
  One turn of the loop for each count of \<open>safetyCounter\<close>: the first argument is the number of
  turns left, \<open>maxIter - safetyCounter\<close>.
\<close>

primrec batch_loop ::
  "nat \<Rightarrow> 'g source \<Rightarrow> string \<Rightarrow> string \<Rightarrow> VoucherGenerateForm \<Rightarrow> string set \<Rightarrow> GeneratedVoucher list \<Rightarrow> 'g
     \<Rightarrow> GeneratedVoucher list \<times> 'g" where
  "batch_loop 0 rng charset comment form seen result g = (result, g)"
| "batch_loop (Suc n) rng charset comment form seen result g =
     (if \<not> int (length result) < qty form then (result, g)
      else
        (let (core, g1) = randomString rng charset (nat (nameLength form)) g; name = vf_prefix form @ core in
         if name \<in> seen then batch_loop n rng charset comment form seen result g1
         else
           (let (pass, g2) =
              (if userType form = VC then (name, g1)
               else randomString rng (CHARSETS Number) (nat (max 3 (min 8 (nameLength form)))) g1)
            in batch_loop n rng charset comment form (insert name seen)
                 (result @ [\<lparr>gv_id = show_nat (length result + 1), username = name, password = pass,
                   gv_profile = vf_profile form, gv_comment = comment\<rparr>]) g2)))"

definition generateBatch ::
  "'g source \<Rightarrow> nat \<times> nat \<times> nat \<Rightarrow> VoucherGenerateForm \<Rightarrow> 'g \<Rightarrow> GeneratedVoucher list \<times> 'g" where
  "generateBatch rng today form g =
     (let charset = CHARSETS (vf_charSet form); (comment, g1) = buildComment rng today form g
      in batch_loop (nat (qty form * 10)) rng charset comment form {} [] g1)"

text \<open>
  The loop as the code has it: a \<open>while\<close> over the counter, the set and the vouchers so far. It is shown
  below to end and to give the vouchers of \<open>generateBatch\<close>.
\<close>

record 'g batch_state =
  bs_result :: "GeneratedVoucher list"
  bs_seen :: "string set"
  bs_safetyCounter :: int
  bs_random :: 'g

definition batch_continues :: "VoucherGenerateForm \<Rightarrow> 'g batch_state \<Rightarrow> bool" where
  "batch_continues form s = (int (length (bs_result s)) < qty form \<and> bs_safetyCounter s < qty form * 10)"

definition batch_turn :: "'g source \<Rightarrow> string \<Rightarrow> string \<Rightarrow> VoucherGenerateForm \<Rightarrow> 'g batch_state \<Rightarrow> 'g batch_state" where
  "batch_turn rng charset comment form s =
     (let s = s\<lparr>bs_safetyCounter := bs_safetyCounter s + 1\<rparr>;
          (core, g1) = randomString rng charset (nat (nameLength form)) (bs_random s);
          name = vf_prefix form @ core
      in if name \<in> bs_seen s then s\<lparr>bs_random := g1\<rparr>
         else
           (let (pass, g2) =
              (if userType form = VC then (name, g1)
               else randomString rng (CHARSETS Number) (nat (max 3 (min 8 (nameLength form)))) g1)
            in s\<lparr>bs_seen := insert name (bs_seen s),
                 bs_result := bs_result s @ [\<lparr>gv_id = show_nat (length (bs_result s) + 1), username = name, password = pass,
                   gv_profile = vf_profile form, gv_comment = comment\<rparr>],
                 bs_random := g2\<rparr>))"

definition generateBatch_while ::
  "'g source \<Rightarrow> nat \<times> nat \<times> nat \<Rightarrow> VoucherGenerateForm \<Rightarrow> 'g \<Rightarrow> (GeneratedVoucher list \<times> 'g) option" where
  "generateBatch_while rng today form g =
     (let charset = CHARSETS (vf_charSet form); (comment, g1) = buildComment rng today form g
      in map_option (\<lambda>s. (bs_result s, bs_random s))
           (while_option (batch_continues form) (batch_turn rng charset comment form)
             \<lparr>bs_result = [], bs_seen = {}, bs_safetyCounter = 0, bs_random = g1\<rparr>))"

definition vouchersToCsv :: "GeneratedVoucher list \<Rightarrow> string" where
  "vouchersToCsv vouchers =
     js_join [char_of (10 :: nat)]
       (''username,password,profile'' # map (\<lambda>v. username v @ '','' @ password v @ '','' @ gv_profile v) vouchers)"

definition dataLimitToBytes :: "int \<Rightarrow> DataLimitUnit \<Rightarrow> int" where
  "dataLimitToBytes v unit = (if v \<le> 0 then 0 else if unit = MB then v * 1048576 else v * 1073741824)"

definition formToBackendParams :: "VoucherGenerateForm \<Rightarrow> (string \<times> js) list" where
  "formToBackendParams form =
     (let dataLimit = dataLimitToBytes (vf_dataLimit form) (vf_dataLimitUnit form);
          nonempty = (\<lambda>s. if s = [] then JUndef else JStr s)
      in [(''batch_size'', JNum (of_int (qty form))),
          (''server'', if vf_server form = ''all'' then JUndef else JStr (vf_server form)),
          (''user_mode'', JStr (user_type_name (userType form))),
          (''length'', JNum (of_int (nameLength form))),
          (''prefix'', nonempty (vf_prefix form)),
          (''charset'', JStr (charset_name (vf_charSet form))),
          (''profile'', JStr (vf_profile form)),
          (''time_limit'', if vf_timeLimit form \<noteq> [] \<and> vf_timeLimit form \<noteq> ''0'' then JStr (vf_timeLimit form) else JUndef),
          (''data_limit'', if 0 < dataLimit then JNum (of_int dataLimit) else JUndef),
          (''comment'', nonempty (vf_comment form))])"

section \<open>What a source of random numbers gives\<close>

locale unit_source =
  fixes rng :: "'g source"
  assumes unit: "0 \<le> fst (rng g)" "fst (rng g) < 1"
begin

lemma rand_index_less: "0 < n \<Longrightarrow> fst (rand_index rng n g) < n"
proof -
  assume "0 < n"
  then have "fst (rng g) * of_nat n < of_nat n" using unit(2) [of g] by simp
  then have "\<lfloor>fst (rng g) * of_nat n\<rfloor> < int n" by (simp add: floor_less_iff)
  then show "fst (rand_index rng n g) < n"
    using unit(1) [of g] by (simp add: rand_index_def split_def Let_def nat_less_iff)
qed

lemma randInt_range: "lo \<le> hi \<Longrightarrow> lo \<le> fst (randInt rng lo hi g) \<and> fst (randInt rng lo hi g) \<le> hi"
proof -
  assume le: "lo \<le> hi"
  define k where "k = hi - lo + 1"
  have "fst (rng g) * of_int k < of_int k" "0 \<le> fst (rng g) * of_int k"
    using unit [of g] le by (simp_all add: k_def)
  then have "\<lfloor>fst (rng g) * of_int k\<rfloor> < k" "0 \<le> \<lfloor>fst (rng g) * of_int k\<rfloor>"
    by (simp_all add: floor_less_iff)
  then show ?thesis by (simp add: randInt_def split_def Let_def k_def [symmetric]) (simp add: k_def)
qed

lemma pickFrom_member: "arr \<noteq> [] \<Longrightarrow> \<exists>x \<in> set arr. fst (pickFrom rng arr g) = Some x"
  using rand_index_less [of "length arr" g] by (auto simp: pickFrom_def split_def Let_def)

lemma random_chars_shape:
  "charset \<noteq> [] \<Longrightarrow>
     \<exists>t. fst (random_chars rng charset n og) = fst og @ t \<and> length t = n \<and> set t \<subseteq> set charset"
proof (induction n arbitrary: og)
  case (Suc n)
  let ?i = "fst (rand_index rng (length charset) (snd og))"
  have i: "char_at charset ?i = [charset ! ?i]" "charset ! ?i \<in> set charset"
    using rand_index_less [of "length charset" "snd og"] Suc.prems by (simp_all add: char_at_def)
  obtain t where "fst (random_chars rng charset n (fst og @ char_at charset ?i, snd (rand_index rng (length charset) (snd og))))
      = (fst og @ char_at charset ?i) @ t" "length t = n" "set t \<subseteq> set charset"
    using Suc.IH [OF Suc.prems, of "(fst og @ char_at charset ?i, snd (rand_index rng (length charset) (snd og)))"] by auto
  with i show ?case by (intro exI [of _ "charset ! ?i # t"]) (simp add: split_def Let_def)
qed simp

lemma randomString_shape:
  "charset \<noteq> [] \<Longrightarrow> length (fst (randomString rng charset n g)) = n \<and> set (fst (randomString rng charset n g)) \<subseteq> set charset"
  using random_chars_shape [of charset n "([], g)"] by (auto simp: randomString_def)

lemma octets_bytes: "length (fst (octets rng n g)) = n \<and> (\<forall>i \<in> set (fst (octets rng n g)). i < 256)"
  by (induction n arbitrary: g) (simp_all add: split_def Let_def rand_index_less)

text \<open>Six bytes, the first with the locally administered bit set and the multicast bit clear.\<close>

lemma mac_octets_local:
  "length (fst (mac_octets rng g)) = 6 \<and> (\<forall>i \<in> set (fst (mac_octets rng g)). i < 256) \<and> hd (fst (mac_octets rng g)) mod 4 = 2"
proof -
  have "Suc (Suc (i * 4)) mod 4 = 2" for i :: nat by presburger
  then show ?thesis using octets_bytes [of 5] rand_index_less [of 64 g] by (auto simp: mac_octets_def split_def Let_def)
qed

end

interpretation mulberry: unit_source mulberry32
proof
  fix g
  obtain w :: "32 word" where w: "fst (mulberry32 g) = of_nat (unat w) / 4294967296"
    unfolding mulberry32_def Let_def by (simp only: fst_conv)
  have "unat w < 4294967296" using unsigned_less [of w, where 'a = nat] by simp
  then have "(of_nat (unat w) :: rat) < 4294967296" by (metis of_nat_less_iff of_nat_numeral)
  with w show "fst (mulberry32 g) < 1" by simp
  show "0 \<le> fst (mulberry32 g)" unfolding w by (intro divide_nonneg_pos of_nat_0_le_iff) simp
qed

section \<open>The batch is sound\<close>

definition voucher_ok :: "VoucherGenerateForm \<Rightarrow> GeneratedVoucher \<Rightarrow> bool" where
  "voucher_ok form v =
     ((\<exists>core. username v = vf_prefix form @ core \<and> int (length core) = nameLength form \<and>
         set core \<subseteq> set (CHARSETS (vf_charSet form))) \<and>
      (if userType form = VC then password v = username v
       else int (length (password v)) = max 3 (min 8 (nameLength form)) \<and> set (password v) \<subseteq> set ''23456789'') \<and>
      gv_profile v = vf_profile form)"

definition batch_inv :: "VoucherGenerateForm \<Rightarrow> string set \<Rightarrow> GeneratedVoucher list \<Rightarrow> bool" where
  "batch_inv form seen result =
     (seen = set (map username result) \<and> distinct (map username result) \<and> int (length result) \<le> max 0 (qty form) \<and>
      (\<forall>v \<in> set result. voucher_ok form v) \<and> map gv_id result = map (\<lambda>i. show_nat (Suc i)) [0..<length result])"

context unit_source
begin

lemma charset_nonempty: "CHARSETS c \<noteq> []"
  by (cases c) (simp_all add: CHARSETS_def)

lemma batch_loop_inv:
  assumes "batch_inv form seen result" "0 \<le> nameLength form"
  shows "\<exists>seen'. batch_inv form seen' (fst (batch_loop n rng (CHARSETS (vf_charSet form)) comment form seen result g))"
  using assms(1)
proof (induction n arbitrary: seen result g)
  case 0
  then show ?case by auto
next
  case (Suc n)
  let ?core = "randomString rng (CHARSETS (vf_charSet form)) (nat (nameLength form)) g"
  let ?pass = "if userType form = VC then (vf_prefix form @ fst ?core, snd ?core)
    else randomString rng (CHARSETS Number) (nat (max 3 (min 8 (nameLength form)))) (snd ?core)"
  let ?v = "\<lparr>gv_id = show_nat (length result + 1), username = vf_prefix form @ fst ?core, password = fst ?pass,
    gv_profile = vf_profile form, gv_comment = comment\<rparr>"
  have "voucher_ok form ?v"
    using randomString_shape [OF charset_nonempty, of "vf_charSet form" "nat (nameLength form)" g] assms(2)
      randomString_shape [OF charset_nonempty, of Number "nat (max 3 (min 8 (nameLength form)))" "snd ?core"]
    unfolding voucher_ok_def by (auto simp: CHARSETS_def [of Number] intro!: exI [of _ "fst ?core"])
  then have "batch_inv form (insert (username ?v) seen) (result @ [?v])"
    if "username ?v \<notin> seen" "int (length result) < qty form"
    using that Suc.prems by (auto simp: batch_inv_def)
  with Suc.IH [OF this] Suc.IH [OF Suc.prems] Suc.prems show ?case
    by (cases "username ?v \<in> seen"; cases "int (length result) < qty form") (auto simp: split_def Let_def)
qed

lemma batch_loop_prefix: "\<exists>t. fst (batch_loop n rng' charset comment form seen result g) = result @ t"
proof (induction n arbitrary: seen result g)
  case (Suc n)
  have "\<exists>t. fst (batch_loop n rng' charset comment form seen' (result @ [v]) g') = result @ t" for seen' v g'
    using Suc.IH [of seen' "result @ [v]" g'] by auto
  with Suc.IH show ?case by (simp add: split_def Let_def)
qed simp

lemma batch_first:
  assumes "0 < qty form"
  shows "fst (batch_loop (nat (qty form * 10)) rng' charset comment form {} [] g) \<noteq> []"
proof -
  obtain n where n: "nat (qty form * 10) = Suc n" using assms by (cases "nat (qty form * 10)") auto
  have "fst (batch_loop n rng' charset comment form seen' [v] g') \<noteq> []" for seen' v g'
    using batch_loop_prefix [of n rng' charset comment form seen' "[v]" g'] by auto
  with assms show ?thesis by (simp add: n split_def Let_def)
qed

end

text \<open>
  C38. The generated batch: whatever the random numbers are, the generator ends with at least
  one and at most the requested number of vouchers, numbered from 1, with different user
  names; each name is the prefix followed by a code of the requested length over the chosen
  alphabet, and the password is the name for a voucher, or three to eight digits.
\<close>

theorem batch_sound:
  fixes rng :: "'g source"
  assumes "\<And>g. 0 \<le> fst (rng g) \<and> fst (rng g) < 1" "1 \<le> qty form" "0 \<le> nameLength form"
    and "fst (generateBatch rng today form g) = vs"
  shows "vs \<noteq> [] \<and> int (length vs) \<le> qty form \<and> distinct (map username vs)
    \<and> (\<forall>v \<in> set vs. voucher_ok form v) \<and> map gv_id vs = map (\<lambda>i. show_nat (Suc i)) [0..<length vs]"
proof -
  have u: "unit_source rng" using assms(1) by unfold_locales blast+
  have "batch_inv form {} []" by (simp add: batch_inv_def)
  then obtain seen where "batch_inv form seen vs"
    using unit_source.batch_loop_inv [OF u _ assms(3)] assms(4) by (fastforce simp: generateBatch_def split_def Let_def)
  moreover have "vs \<noteq> []"
    using unit_source.batch_first [OF u, of form] assms(2,4) by (fastforce simp: generateBatch_def split_def Let_def)
  ultimately show ?thesis using assms(2) by (simp add: batch_inv_def)
qed

definition sample_generate_form :: VoucherGenerateForm where
  "sample_generate_form =
     \<lparr>qty = 2, vf_server = ''all'', vf_profile = ''1h'', userType = UP, nameLength = 6, vf_charSet = Lower_number,
      vf_prefix = ''V'', vf_timeLimit = ''0'', vf_dataLimit = 0, vf_dataLimitUnit = MB, vf_comment = []\<rparr>"

theorem batch_sound_witness:
  "\<exists>vs. fst (generateBatch mulberry32 (0, 5, 2025) sample_generate_form (makeRng ''x'')) = vs \<and> vs \<noteq> [] \<and> distinct (map username vs)"
  using batch_sound [of mulberry32 sample_generate_form "(0, 5, 2025)" "makeRng ''x''"] mulberry.unit
  by (simp add: sample_generate_form_def)

lemma batch_while_loop:
  assumes "n = nat (qty form * 10 - k)"
  shows "map_option (\<lambda>s. (bs_result s, bs_random s))
      (while_option (batch_continues form) (batch_turn rng charset comment form)
        \<lparr>bs_result = result, bs_seen = seen, bs_safetyCounter = k, bs_random = g\<rparr>)
    = Some (batch_loop n rng charset comment form seen result g)"
  using assms
proof (induction n arbitrary: result seen k g)
  case 0
  then show ?case by (subst while_option_unfold) (simp add: batch_continues_def)
next
  case (Suc n)
  from Suc.prems have k: "k < qty form * 10" "n = nat (qty form * 10 - (k + 1))" by simp_all
  show ?case
  proof (cases "int (length result) < qty form")
    case True
    then show ?thesis
      using k(1) by (subst while_option_unfold) (simp add: batch_continues_def batch_turn_def Let_def split_def Suc.IH [OF k(2)] del: map_option_eq_Some)
  next
    case False
    then show ?thesis by (subst while_option_unfold) (simp add: batch_continues_def)
  qed
qed

text \<open>
  C39. The generator's \<open>while\<close> loop ends for every form and every source of random numbers, also one that
  only repeats names already used: it runs at most ten turns for each voucher, and gives the vouchers of
  the recursion the other properties are about.
\<close>

theorem batch_terminates: "generateBatch_while rng today form g = Some (generateBatch rng today form g)"
  by (simp add: generateBatch_while_def generateBatch_def Let_def split_def batch_while_loop)

section \<open>The export\<close>

text \<open>
  The exported text can be read back line by line and field by field, provided no field holds
  a comma or a line feed; fields are not quoted.
\<close>

definition csv_clean :: "string \<Rightarrow> bool" where
  "csv_clean s = (CHR '','' \<notin> set s \<and> char_of (10 :: nat) \<notin> set s)"

lemma csv_roundtrip:
  assumes "\<And>v. v \<in> set vs \<Longrightarrow> csv_clean (username v) \<and> csv_clean (password v) \<and> csv_clean (gv_profile v)"
  shows "map (js_split '','') (tl (js_split [char_of (10 :: nat)] (vouchersToCsv vs)))
    = map (\<lambda>v. [username v, password v, gv_profile v]) vs"
proof -
  let ?row = "\<lambda>v. username v @ '','' @ password v @ '','' @ gv_profile v"
  have "char_of (10 :: nat) \<noteq> CHR '',''" "char_of (10 :: nat) \<notin> set ''username,password,profile''" by code_simp+
  then have "js_split [char_of (10 :: nat)] (vouchersToCsv vs) = ''username,password,profile'' # map ?row vs"
    unfolding vouchersToCsv_def using assms by (intro js_split_join) (auto simp: csv_clean_def)
  moreover have "js_split '','' (?row v) = [username v, password v, gv_profile v]" if "v \<in> set vs" for v
  proof -
    have "?row v = js_join '','' [username v, password v, gv_profile v]" by simp
    then show ?thesis using assms [OF that] by (simp only:) (intro js_split_join, auto simp: csv_clean_def)
  qed
  ultimately show ?thesis by simp
qed

end
