(* ===== verification/Voucher_Print.thy ===== *)
theory Voucher_Print
  imports Voucher_Batch
begin

text \<open>
  Printed vouchers: the HTML documents built by
  \<^verbatim>\<open>web/src/features/voucher/print-render/templates/html-builder.ts\<close> with the helpers of
  \<^verbatim>\<open>template-shared.ts\<close>, and the print store. \<open>rupiah\<close> (\<open>Intl.NumberFormat\<close>) and the localised
  time stamp are parameters.

  User names, passwords, comments and settings are data from outside, put into markup. The
  theorems: escaping is one pass over the text although it is written as five, it loses
  nothing, and the markup characters of a printed page are the template's own: no data can add,
  remove or move a tag or a quote.
\<close>

section \<open>Escaping\<close>

definition NL :: string where
  "NL = [CHR 0x0A]"

definition SQ :: string where
  "SQ = [CHR 0x27]"

text \<open>The em dash, in UTF-8.\<close>

definition EMDASH :: string where
  "EMDASH = [CHR 0xE2, CHR 0x80, CHR 0x94]"

text \<open>\<open>s.replace(/c/g, r)\<close> for a single character without special meaning.\<close>

definition replace_char :: "char \<Rightarrow> string \<Rightarrow> string \<Rightarrow> string" where
  "replace_char c r s = concat (map (\<lambda>x. if x = c then r else [x]) s)"

definition escapeHtml :: "string \<Rightarrow> string" where
  "escapeHtml s =
     replace_char CHR 0x27 ''&#039;''
       (replace_char CHR 0x22 ''&quot;''
         (replace_char CHR ''>'' ''&gt;''
           (replace_char CHR ''<'' ''&lt;''
             (replace_char CHR ''&'' ''&amp;'' s))))"

definition qrImageUrl :: "string \<Rightarrow> nat \<Rightarrow> string" where
  "qrImageUrl d sz =
     ''https://api.qrserver.com/v1/create-qr-code/?size='' @ show_nat sz @ ''x'' @ show_nat sz @
     ''&data='' @ encodeURIComponent d"

definition unit_name :: "char \<Rightarrow> string option" where
  "unit_name c = map_of [(CHR ''d'', ''hari''), (CHR ''h'', ''jam''), (CHR ''w'', ''minggu''), (CHR ''m'', ''bulan'')] c"

definition humanizeValidity :: "string \<Rightarrow> string" where
  "humanizeValidity v =
     (let s = js_trim v in
      if s = [] then []
      else
        (case unit_name (last s) of
           Some u \<Rightarrow> (if butlast s \<noteq> [] \<and> list_all is_digit (butlast s) then butlast s @ '' '' @ u else s)
         | None \<Rightarrow> s))"

section \<open>Print jobs\<close>

datatype PrintTemplate = Default | Small | Thermal

record print_meta =
  pm_profile :: string
  pm_server :: string
  pm_validity :: string
  pm_sellingPrice :: rat
  pm_note :: "string option"
  pm_title :: "string option"
  pm_hotspotName :: "string option"
  pm_loginUrl :: "string option"
  pm_timeLimit :: "string option"
  pm_dataLimit :: "string option"

record PrintJob =
  job_template :: PrintTemplate
  job_vouchers :: "GeneratedVoucher list"
  job_meta :: print_meta

type_synonym print_store = "PrintJob option"

definition print_open :: "PrintJob \<Rightarrow> print_store \<Rightarrow> print_store" where
  "print_open job s = Some job"

definition print_close :: "print_store \<Rightarrow> print_store" where
  "print_close s = None"

section \<open>The document\<close>

definition SHARED_CSS :: string where
  "SHARED_CSS =
     NL @ ''  body {'' @ NL @ ''    color: #000;'' @ NL @ ''    background: #fff;'' @ NL @ ''    font-size: 14px;'' @
     NL @ ''    font-family: '' @ SQ @ ''Helvetica'' @ SQ @ '', Arial, sans-serif;'' @ NL @ ''    margin: 0;'' @ NL @
     ''    padding: 8px;'' @ NL @ ''    -webkit-print-color-adjust: exact;'' @ NL @
     ''    print-color-adjust: exact;'' @ NL @ ''  }'' @ NL @ ''  table.voucher {'' @ NL @
     ''    display: inline-block;'' @ NL @ ''    border: 2px solid #000;'' @ NL @ ''    margin: 2px;'' @ NL @
     ''    vertical-align: top;'' @ NL @ ''    border-collapse: collapse;'' @ NL @ ''  }'' @ NL @
     ''  table.voucher td, table.voucher th { padding: 2px 4px; }'' @ NL @
     ''  .num { float: right; display: inline-block; }'' @ NL @
     ''  .rotate { max-width: 15px; white-space: nowrap; vertical-align: bottom; padding-right: 5px; }'' @ NL @
     ''  .rotate > div { transform: rotate(-90deg); }'' @ NL @ ''  .qrcode { height: 60px; width: 60px; }'' @ NL @
     ''  @page { size: auto; margin: 8mm 3mm 3mm 7mm; }'' @ NL @ ''  @media print {'' @ NL @
     ''    body { padding: 0; }'' @ NL @ ''    table { page-break-after: auto }'' @ NL @
     ''    tr { page-break-inside: avoid; page-break-after: auto }'' @ NL @
     ''    td { page-break-inside: avoid; page-break-after: auto }'' @ NL @ ''  }'' @ NL"

definition wrapDocument :: "string \<Rightarrow> string \<Rightarrow> string \<Rightarrow> string" where
  "wrapDocument title css body =
     ''<!DOCTYPE html>'' @ NL @ ''<html lang=\"id\">'' @ NL @ ''<head>'' @ NL @ ''<meta charset=\"utf-8\" />'' @ NL @
     ''<title>'' @ escapeHtml title @ ''</title>'' @ NL @ ''<style>'' @ SHARED_CSS @ css @ ''</style>'' @ NL @
     ''</head>'' @ NL @ ''<body>'' @ NL @ body @ NL @ ''</body>'' @ NL @ ''</html>''"

text \<open>The escaped fields all templates show.\<close>

definition priceStr :: "(rat \<Rightarrow> string) \<Rightarrow> print_meta \<Rightarrow> string" where
  "priceStr rupiah m = ''Rp '' @ rupiah (pm_sellingPrice m)"

definition validity :: "print_meta \<Rightarrow> string" where
  "validity m = escapeHtml (humanizeValidity (pm_validity m))"

definition timeLimit :: "print_meta \<Rightarrow> string" where
  "timeLimit m = escapeHtml (or_else (pm_timeLimit m) [])"

definition dataLimit :: "print_meta \<Rightarrow> string" where
  "dataLimit m = escapeHtml (or_else (pm_dataLimit m) [])"

definition hotspotName :: "print_meta \<Rightarrow> string" where
  "hotspotName m =
     escapeHtml (if or_else (pm_hotspotName m) [] \<noteq> [] then or_else (pm_hotspotName m) []
       else if or_else (pm_title m) [] \<noteq> [] then or_else (pm_title m) [] else pm_profile m)"

definition loginUrl :: "print_meta \<Rightarrow> string" where
  "loginUrl m = escapeHtml (or_else (pm_loginUrl m) [])"

definition isVoucher :: "GeneratedVoucher \<Rightarrow> bool" where
  "isVoucher v = (username v = password v)"

definition qr_src :: "GeneratedVoucher \<Rightarrow> nat \<Rightarrow> string" where
  "qr_src v sz = escapeHtml (qrImageUrl (if isVoucher v then username v else username v @ '':'' @ password v) sz)"

section \<open>The default template\<close>

definition default_creds :: "GeneratedVoucher \<Rightarrow> string" where
  "default_creds v =
     (if isVoucher v
      then ''<td class=\"vc\">'' @ escapeHtml (username v) @ ''</td>''
      else ''<td class=\"up\">User: '' @ escapeHtml (username v) @ ''<br>Pass: '' @ escapeHtml (password v) @ ''</td>'')"

definition default_login :: "print_meta \<Rightarrow> nat \<Rightarrow> string" where
  "default_login m i =
     (if loginUrl m \<noteq> []
      then ''<td colspan=\"3\" style=\"font-size:10px;\">Login: http://'' @ loginUrl m @ '' <span class=\"num\">['' @
        show_nat (i + 1) @ '']</span></td>''
      else ''<td colspan=\"3\" style=\"font-size:10px;\"><span class=\"num\">['' @ show_nat (i + 1) @ '']</span></td>'')"

definition default_card :: "(rat \<Rightarrow> string) \<Rightarrow> print_meta \<Rightarrow> GeneratedVoucher \<times> nat \<Rightarrow> string" where
  "default_card rupiah m vi = (case vi of (v, i) \<Rightarrow>
     NL @ ''      <table class=\"voucher\" style=\"width:230px;\">'' @ NL @ ''        <tbody>'' @ NL @
     ''          <tr>'' @ NL @
     ''            <td style=\"font-weight:bold;border-right:2px dashed #000;\" class=\"rotate\" rowspan=\"4\"><div>'' @
     escapeHtml (priceStr rupiah m) @ ''</div></td>'' @ NL @
     ''            <td style=\"font-weight:bold;\" colspan=\"2\">'' @ hotspotName m @ ''</td>'' @ NL @
     ''            <td rowspan=\"3\"><img class=\"qrcode\" src=\"'' @ qr_src v 60 @ ''\" alt=\"qr\"></td>'' @ NL @
     ''          </tr>'' @ NL @ ''          <tr>'' @ default_creds v @ ''</tr>'' @ NL @ ''          <tr>'' @ NL @
     ''            <td style=\"font-size:10px;\">'' @ validity m @ '' '' @ timeLimit m @ '' '' @ dataLimit m @
     ''</td>'' @ NL @ ''          </tr>'' @ NL @ ''          <tr>'' @ default_login m i @ ''</tr>'' @ NL @
     ''        </tbody>'' @ NL @ ''      </table>'')"

definition renderDefault :: "(rat \<Rightarrow> string) \<Rightarrow> PrintJob \<Rightarrow> string" where
  "renderDefault rupiah job =
     wrapDocument (''Voucher '' @ EMDASH @ '' Default'')
       (NL @ ''    .vc { width:100%; font-weight:bold; font-size:18px; text-align:center; }'' @ NL @
     ''    .up { width:100%; font-weight:bold; font-size:13px; text-align:left; }'' @ NL @
     ''    .qrcode { height:60px; width:60px; }'' @ NL @ ''  '')
       (concat (map (default_card rupiah (job_meta job)) (zip (job_vouchers job) [0..<length (job_vouchers job)])))"

section \<open>The small template\<close>

definition small_head :: "GeneratedVoucher \<Rightarrow> string" where
  "small_head v =
     (if isVoucher v
      then ''<td colspan=\"2\" style=\"font-size:10px;\">Voucher</td>''
      else ''<td style=\"font-size:10px;\">Username</td><td style=\"font-size:10px;\">Password</td>'')"

definition small_creds :: "GeneratedVoucher \<Rightarrow> string" where
  "small_creds v =
     (if isVoucher v
      then ''<td colspan=\"2\" style=\"border:1px solid #000;font-weight:bold;\">'' @ escapeHtml (username v) @ ''</td>''
      else ''<td style=\"border:1px solid #000;font-weight:bold;\">'' @ escapeHtml (username v) @
        ''</td><td style=\"border:1px solid #000;font-weight:bold;\">'' @ escapeHtml (password v) @ ''</td>'')"

definition small_card :: "(rat \<Rightarrow> string) \<Rightarrow> print_meta \<Rightarrow> GeneratedVoucher \<times> nat \<Rightarrow> string" where
  "small_card rupiah m vi = (case vi of (v, i) \<Rightarrow>
     NL @ ''      <table class=\"voucher\" style=\"width:140px;\">'' @ NL @ ''        <thead>'' @ NL @
     ''          <tr>'' @ NL @
     ''            <th colspan=\"2\" style=\"width:100%;text-align:left;font-size:12px;font-weight:bold;border-bottom:1px solid #000;\">'' @
     hotspotName m @ ''<span class=\"num\">'' @ show_nat (i + 1) @ ''</span></th>'' @ NL @ ''          </tr>'' @ NL @
     ''        </thead>'' @ NL @ ''        <tbody>'' @ NL @
     ''          <tr style=\"font-size:10px;text-align:center;\">'' @ small_head v @ ''</tr>'' @ NL @
     ''          <tr style=\"font-size:12px;text-align:center;\">'' @ small_creds v @ ''</tr>'' @ NL @
     ''        </tbody>'' @ NL @ ''        <tfoot>'' @ NL @
     ''          <tr style=\"font-size:10px;text-align:center;\">'' @ NL @ ''            <th colspan=\"2\">'' @
     validity m @ '' '' @ timeLimit m @ '' '' @ dataLimit m @ '' '' @ escapeHtml (priceStr rupiah m) @ ''</th>'' @
     NL @ ''          </tr>'' @ NL @ ''        </tfoot>'' @ NL @ ''      </table>'')"

definition renderSmall :: "(rat \<Rightarrow> string) \<Rightarrow> PrintJob \<Rightarrow> string" where
  "renderSmall rupiah job =
     wrapDocument (''Voucher '' @ EMDASH @ '' Small'') []
       (concat (map (small_card rupiah (job_meta job)) (zip (job_vouchers job) [0..<length (job_vouchers job)])))"

section \<open>The thermal template\<close>

definition thermal_creds :: "GeneratedVoucher \<Rightarrow> string" where
  "thermal_creds v =
     (if isVoucher v
      then ''<tr><td style=\"font-size:12px;\">Kode Voucher</td></tr>'' @ NL @
     ''           <tr><td style=\"border:1px solid #000;font-weight:bold;font-size:16px;\">'' @
     escapeHtml (username v) @ ''</td></tr>''
      else ''<tr><td style=\"width:50%;\">Username</td><td>Password</td></tr>'' @ NL @
     ''           <tr style=\"font-size:14px;\"><td style=\"border:1px solid #000;font-weight:bold;\">'' @
     escapeHtml (username v) @ ''</td><td style=\"border:1px solid #000;font-weight:bold;\">'' @
     escapeHtml (password v) @ ''</td></tr>'')"

definition thermal_login :: "print_meta \<Rightarrow> string" where
  "thermal_login m =
     (if loginUrl m \<noteq> []
      then ''<tr><td colspan=\"2\" style=\"font-weight:bold;font-size:12px;\">Login: http://'' @ loginUrl m @
        ''</td></tr>''
      else [])"

definition thermal_card :: "(rat \<Rightarrow> string) \<Rightarrow> string \<Rightarrow> print_meta \<Rightarrow> GeneratedVoucher \<Rightarrow> string" where
  "thermal_card rupiah stamp m v =
     NL @ ''      <table class=\"voucher\" style=\"width:180px;\">'' @ NL @ ''        <tbody>'' @ NL @
     ''          <tr><td style=\"text-align:center;font-size:14px;font-weight:bold;\">'' @ hotspotName m @
     ''</td></tr>'' @ NL @
     ''          <tr><td style=\"text-align:center;font-size:12px;border-bottom:1px solid #000;\"><span>'' @
     escapeHtml stamp @ ''</span></td></tr>'' @ NL @ ''          <tr>'' @ NL @ ''            <td>'' @ NL @
     ''              <table style=\"text-align:center;width:170px;font-size:12px;\">'' @ NL @
     ''                <tbody>'' @ NL @ ''                  <tr><td><table style=\"width:100%;\"><tbody>'' @
     thermal_creds v @ ''</tbody></table></td></tr>'' @ NL @
     ''                  <tr><td colspan=\"2\" style=\"border-top:1px solid #000;font-weight:bold;font-size:14px;\">'' @
     validity m @ '' '' @ timeLimit m @ '' '' @ dataLimit m @ ''</td></tr>'' @ NL @
     ''                  <tr><td><span class=\"price\">'' @ escapeHtml (priceStr rupiah m) @ ''</span></td></tr>'' @
     NL @
     ''                  <tr><td colspan=\"2\"><img class=\"qrcode\" style=\"height:100px;width:100px;\" src=\"'' @
     qr_src v 100 @ ''\" alt=\"qr\"><br>'' @ escapeHtml (gv_comment v) @ ''</td></tr>'' @ NL @
     ''                  '' @ thermal_login m @ NL @ ''                </tbody>'' @ NL @ ''              </table>'' @
     NL @ ''            </td>'' @ NL @ ''          </tr>'' @ NL @ ''        </tbody>'' @ NL @ ''      </table>''"

definition renderThermal :: "(rat \<Rightarrow> string) \<Rightarrow> string \<Rightarrow> PrintJob \<Rightarrow> string" where
  "renderThermal rupiah stamp job =
     wrapDocument (''Voucher '' @ EMDASH @ '' Thermal'')
       (NL @ ''    .price { font-size: 20px; }'' @ NL @ ''    .qrcode { height:100px; width:100px; }'' @ NL @ ''  '')
       (concat (map (thermal_card rupiah stamp (job_meta job)) (job_vouchers job)))"

definition buildPrintHtml :: "(rat \<Rightarrow> string) \<Rightarrow> string \<Rightarrow> PrintJob \<Rightarrow> string" where
  "buildPrintHtml rupiah stamp job =
     (case job_template job of
        Default \<Rightarrow> renderDefault rupiah job
      | Small \<Rightarrow> renderSmall rupiah job
      | Thermal \<Rightarrow> renderThermal rupiah stamp job)"

section \<open>Escaping is a code\<close>

definition html_delimiter :: "char \<Rightarrow> bool" where
  "html_delimiter c = (c = CHR ''<'' \<or> c = CHR ''>'' \<or> c = CHR 0x22 \<or> c = CHR 0x27)"

definition html_char :: "char \<Rightarrow> string" where
  "html_char c =
     (if c = CHR ''&'' then ''&amp;'' else if c = CHR ''<'' then ''&lt;'' else if c = CHR ''>'' then ''&gt;''
      else if c = CHR 0x22 then ''&quot;'' else if c = CHR 0x27 then ''&#039;'' else [c])"

lemma escapeHtml_one_pass: "escapeHtml s = concat (map html_char s)"
  by (induction s) (simp_all add: escapeHtml_def replace_char_def html_char_def)

interpretation html: prefix_code html_char
proof
  show "prefix (html_char x) (html_char y @ u) \<Longrightarrow> x = y" for x y u
    by (auto simp: html_char_def split: if_splits)
qed (simp add: html_char_def)

interpretation html: clean_code html_char html_delimiter
  by unfold_locales (auto simp: html_char_def html_delimiter_def split: if_splits)

lemma escapeHtml_inj: "escapeHtml s = escapeHtml t \<Longrightarrow> s = t"
  unfolding escapeHtml_one_pass by (rule html.code_concat_inj)

lemma escapeHtml_empty [simp]: "escapeHtml s = [] \<longleftrightarrow> s = []"
  by (cases s) (auto simp: escapeHtml_one_pass html.code_nonempty)

section \<open>Data cannot change the markup\<close>

text \<open>The markup delimiters of a text, in order.\<close>

definition delims :: "string \<Rightarrow> string" where
  "delims s = filter html_delimiter s"

lemma delims_append: "delims (s @ t) = delims s @ delims t"
  by (simp add: delims_def)

lemma delims_escape: "delims (escapeHtml s) = []"
  unfolding delims_def escapeHtml_one_pass using html.code_concat_clean [of _ s] by (auto simp: filter_empty_conv)

lemma delims_show_nat: "delims (show_nat n) = []"
proof -
  have "is_digit c \<Longrightarrow> \<not> html_delimiter c" for c by (auto simp: is_digit_def html_delimiter_def code_of_def)
  then show ?thesis using show_nat_is_digit [of _ n] by (auto simp: delims_def filter_empty_conv)
qed

lemma delims_concat: "delims (concat xs) = concat (map delims xs)"
  by (induction xs) (simp_all add: delims_append delims_def)

text \<open>Every field of the data is shown escaped.\<close>

lemma delims_fields:
  "delims (validity m) = []" "delims (timeLimit m) = []" "delims (dataLimit m) = []" "delims (hotspotName m) = []"
  "delims (loginUrl m) = []" "delims (qr_src v n) = []"
  by (simp_all add: validity_def timeLimit_def dataLimit_def hotspotName_def loginUrl_def qr_src_def delims_escape)

lemmas delims_rules = delims_append delims_escape delims_show_nat delims_fields prod.case append_Nil if_distrib [of delims]

lemma delims_cards:
  assumes "isVoucher v = isVoucher w" "(loginUrl m = []) = (loginUrl m' = [])"
  shows "delims (default_card r m (v, i)) = delims (default_card r' m' (w, i))"
    and "delims (small_card r m (v, i)) = delims (small_card r' m' (w, i))"
    and "delims (thermal_card r t m v) = delims (thermal_card r' t' m' w)"
  by (simp_all only: default_card_def default_creds_def default_login_def small_card_def small_head_def small_creds_def
      thermal_card_def thermal_creds_def thermal_login_def delims_rules assms)

lemma delims_wrap: "delims body = delims body' \<Longrightarrow> delims (wrapDocument t css body) = delims (wrapDocument t css body')"
  by (simp only: wrapDocument_def delims_rules)

text \<open>
  Two jobs with the same layout: the same template, vouchers of the same kinds, and both with
  or both without a login address.
\<close>

definition same_layout :: "PrintJob \<Rightarrow> PrintJob \<Rightarrow> bool" where
  "same_layout j k =
     (job_template j = job_template k \<and> list_all2 (\<lambda>v w. isVoucher v = isVoucher w) (job_vouchers j) (job_vouchers k) \<and>
      (or_else (pm_loginUrl (job_meta j)) [] = []) = (or_else (pm_loginUrl (job_meta k)) [] = []))"

lemma delims_zip:
  assumes "list_all2 R xs ys" "\<And>x y i. R x y \<Longrightarrow> delims (f (x, i)) = delims (g (y, i))"
  shows "delims (concat (map f (zip xs (map h [0..<length xs])))) = delims (concat (map g (zip ys (map h [0..<length ys]))))"
  using assms(1)
proof (induction arbitrary: h rule: list_all2_induct)
  case (Cons x xs y ys)
  have "map h [0..<Suc n] = h 0 # map (\<lambda>i. h (Suc i)) [0..<n]" for n
    by (simp only: upt_conv_Cons map_Suc_upt [symmetric] list.map map_map comp_def zero_less_Suc)
  then show ?case
    using Cons.IH [of "\<lambda>i. h (Suc i)"] assms(2) [OF Cons.hyps(1), of "h 0"]
    by (simp only: length_Cons zip_Cons_Cons list.map concat.simps delims_append)
qed simp

lemmas delims_list = delims_zip [where h = "\<lambda>i. i", unfolded list.map_ident]

lemma delims_each:
  assumes "list_all2 R xs ys" "\<And>x y. R x y \<Longrightarrow> delims (f x) = delims (g y)"
  shows "delims (concat (map f xs)) = delims (concat (map g ys))"
  using assms(1) by (induction rule: list_all2_induct) (simp_all add: delims_append assms(2))

text \<open>
  C36. No data becomes markup: two print jobs with the same layout give pages with the same
  sequence of markup characters (angle brackets and quotes), whatever the user names,
  passwords, comments, profile and hotspot names, login addresses, prices and time stamps
  are. A name such as \<open><script>\<close> can neither open a tag nor close an attribute.
\<close>

theorem print_no_injection:
  assumes "same_layout j k"
  shows "delims (buildPrintHtml rupiah stamp j) = delims (buildPrintHtml rupiah' stamp' k)"
proof -
  have R: "list_all2 (\<lambda>v w. isVoucher v = isVoucher w) (job_vouchers j) (job_vouchers k)"
    and l: "(loginUrl (job_meta j) = []) = (loginUrl (job_meta k) = [])" and t: "job_template j = job_template k"
    using assms by (simp_all add: same_layout_def loginUrl_def)
  have d: "delims (renderDefault rupiah j) = delims (renderDefault rupiah' k)"
    unfolding renderDefault_def by (rule delims_wrap, rule delims_list [OF R], rule delims_cards(1) [OF _ l])
  have s: "delims (renderSmall rupiah j) = delims (renderSmall rupiah' k)"
    unfolding renderSmall_def by (rule delims_wrap, rule delims_list [OF R], rule delims_cards(2) [OF _ l])
  have th: "delims (renderThermal rupiah stamp j) = delims (renderThermal rupiah' stamp' k)"
    unfolding renderThermal_def by (rule delims_wrap, rule delims_each [OF R], rule delims_cards(3) [OF _ l])
  show ?thesis using d s th t by (cases "job_template k") (simp_all add: buildPrintHtml_def)
qed

definition sample_job :: "string \<Rightarrow> string \<Rightarrow> PrintJob" where
  "sample_job n p =
     \<lparr>job_template = Thermal,
      job_vouchers = [\<lparr>gv_id = ''1'', username = n, password = n, gv_profile = p, gv_comment = p\<rparr>],
      job_meta = \<lparr>pm_profile = p, pm_server = ''all'', pm_validity = ''1d'', pm_sellingPrice = 5000, pm_note = None,
        pm_title = None, pm_hotspotName = Some n, pm_loginUrl = None, pm_timeLimit = None, pm_dataLimit = None\<rparr>\<rparr>"

theorem print_no_injection_witness:
  "delims (buildPrintHtml (\<lambda>_. ''5.000'') ''now'' (sample_job ''<script>alert(1)</script>'' ''<b>''))
   = delims (buildPrintHtml (\<lambda>_. ''5.000'') ''now'' (sample_job ''ab12'' ''1d''))"
  by (rule print_no_injection) (simp add: same_layout_def sample_job_def isVoucher_def)

end
