(* ===== verification/Traffic_Live.thy ===== *)
theory Traffic_Live
  imports Api_Request
begin

text \<open>
  The live traffic grid: \<open>useLiveTraffic\<close>, \<open>extract\<close> and \<open>splitPair\<close> of
  \<^verbatim>\<open>web/src/features/traffic/api/queries.ts\<close> and the conversions of
  \<^verbatim>\<open>web/src/features/traffic/data/data.ts\<close>. Events carry cumulative byte counters; the hook turns
  them into rates and keeps a ring buffer of the last thirty points of each interface or queue.

  The specification is declarative: the samples of one key among all the events, the rate
  between each sample and the one before it, and the last thirty of these. The theorem shows
  that the incremental state machine computes exactly that.
\<close>

section \<open>Events\<close>

datatype LiveKind = Interfaces | Parents | Queues

definition SSE_PATH :: "LiveKind \<Rightarrow> int \<Rightarrow> string" where
  "SSE_PATH kind rid =
     ''/devices/'' @ show_int rid @
     (case kind of
        Interfaces \<Rightarrow> ''/stream/network/interfaces/stats?interval=1s&type=ether''
      | Parents \<Rightarrow> ''/stream/network/queues/parents/stats?interval=1s''
      | Queues \<Rightarrow> ''/stream/network/queues/stats?interval=1s'')"

definition SPARK_MAX :: nat where
  "SPARK_MAX = 30"

text \<open>\<open>Number(v) || 0\<close>\<close>

definition number_or_0 :: "js \<Rightarrow> rat" where
  "number_or_0 v = or_else (js_Number v) 0"

definition splitPair :: "js \<Rightarrow> thrown + rat \<times> rat" where
  "splitPair s =
     (if \<not> truthy s then Inr (0, 0)
      else
        (case s of
           JStr t \<Rightarrow>
             (let parts = js_split ''/'' t in
              Inr (number_or_0 (JStr (hd parts)),
                   number_or_0 (if 1 < length parts then JStr (parts ! 1) else JUndef)))
         | _ \<Rightarrow> Inl (NativeErr (JStr ''s.split is not a function''))))"

record Extracted =
  x_key :: js
  x_title :: js
  x_subtitle :: js
  x_running :: bool
  x_disabled :: bool
  rxBytes :: rat
  txBytes :: rat
  x_maxLimit :: js
  x_parent :: js

text \<open>\<open>Inr None\<close> is the null result: the event is ignored.\<close>

definition extract_event :: "LiveKind \<Rightarrow> js \<Rightarrow> thrown + Extracted option" where
  "extract_event kind e =
     (if \<not> truthy (js_optget e ''name'') then Inr None
      else if kind = Interfaces then
        (if js_optget e ''type'' \<noteq> JStr ''ether'' then Inr None
         else Inr (Some
           \<lparr>x_key = js_optget e ''name'', x_title = js_optget e ''name'', x_subtitle = js_optget e ''type'',
            x_running = truthy (js_optget e ''running''), x_disabled = truthy (js_optget e ''disabled''),
            rxBytes = number_or_0 (js_optget e ''rx_byte''), txBytes = number_or_0 (js_optget e ''tx_byte''),
            x_maxLimit = JUndef, x_parent = JUndef\<rparr>))
      else
        (case splitPair (js_optget e ''bytes'') of
           Inl err \<Rightarrow> Inl err
         | Inr (up, down) \<Rightarrow> Inr (Some
             \<lparr>x_key = js_optget e ''name'', x_title = js_optget e ''name'',
              x_subtitle = js_or (js_optget e ''target'') (JStr []),
              x_running = (\<not> truthy (js_optget e ''disabled'')), x_disabled = truthy (js_optget e ''disabled''),
              rxBytes = down, txBytes = up,
              x_maxLimit = js_optget e ''max_limit'', x_parent = js_optget e ''parent''\<rparr>)))"

section \<open>The accumulator\<close>

record LiveSpark =
  sp_t :: rat
  sp_rx :: rat
  sp_tx :: rat

record LiveEntity =
  le_key :: js
  le_title :: js
  le_subtitle :: js
  le_running :: bool
  le_disabled :: bool
  rxBps :: rat
  txBps :: rat
  le_maxLimit :: js
  le_parent :: js
  spark :: "LiveSpark list"

record prev_sample =
  prev_rx :: rat
  prev_tx :: rat
  prev_t :: rat

record live =
  entities :: "(js \<times> LiveEntity) list"
  prevRef :: "(js \<times> prev_sample) list"

definition slice_last :: "nat \<Rightarrow> 'a list \<Rightarrow> 'a list" where
  "slice_last n xs = drop (length xs - n) xs"

definition onEvent :: "LiveKind \<Rightarrow> rat \<Rightarrow> js \<Rightarrow> live \<Rightarrow> live" where
  "onEvent kind now raw s =
     (case extract_event kind raw of
        Inr (Some x) \<Rightarrow>
          (let (rx, tx) =
             (case map_of (prevRef s) (x_key x) of
                None \<Rightarrow> (0, 0)
              | Some prev \<Rightarrow>
                  (if prev_t prev < now then
                     (let dt = (now - prev_t prev) / 1000 in
                      (max 0 (rxBytes x - prev_rx prev) * 8 / dt, max 0 (txBytes x - prev_tx prev) * 8 / dt))
                   else (0, 0)));
             ex = map_of (entities s) (x_key x);
             sparks = slice_last SPARK_MAX (or_else (map_option spark ex) [] @ [\<lparr>sp_t = now, sp_rx = rx, sp_tx = tx\<rparr>])
           in s\<lparr>prevRef := obj_put (prevRef s) (x_key x) \<lparr>prev_rx = rxBytes x, prev_tx = txBytes x, prev_t = now\<rparr>,
                entities := obj_put (entities s) (x_key x)
                  \<lparr>le_key = x_key x, le_title = x_title x, le_subtitle = x_subtitle x, le_running = x_running x,
                   le_disabled = x_disabled x, rxBps = rx, txBps = tx, le_maxLimit = x_maxLimit x,
                   le_parent = x_parent x, spark = sparks\<rparr>\<rparr>)
      | _ \<Rightarrow> s)"

definition live_start :: live where
  "live_start = \<lparr>entities = [], prevRef = []\<rparr>"

definition live_path :: "LiveKind \<Rightarrow> int \<Rightarrow> string option" where
  "live_path kind routerId = (if 0 < routerId then Some (SSE_PATH kind routerId) else None)"

definition live_run :: "LiveKind \<Rightarrow> (rat \<times> js) list \<Rightarrow> live" where
  "live_run kind evs = foldl (\<lambda>s (now, raw). onEvent kind now raw s) live_start evs"

definition useLiveTraffic :: "LiveKind \<Rightarrow> (rat \<times> js) list \<Rightarrow> LiveEntity list" where
  "useLiveTraffic kind evs = map snd (entities (live_run kind evs))"

section \<open>The other conversions\<close>

record NetInterface =
  ni_id :: js
  ni_name :: js
  ni_type :: js
  ni_mtu :: js
  macAddress :: js
  ni_running :: bool
  ni_disabled :: bool
  ni_comment :: js

definition interfaceToNetInterface :: "js \<Rightarrow> NetInterface" where
  "interfaceToNetInterface r =
     \<lparr>ni_id = js_optget r ''.id'', ni_name = js_coalesce (js_optget r ''name'') (JStr []),
      ni_type = js_coalesce (js_optget r ''type'') (JStr []), ni_mtu = js_coalesce (js_optget r ''mtu'') (JStr []),
      macAddress = js_optget r ''mac-address'', ni_running = (js_optget r ''running'' = JStr ''true''),
      ni_disabled = (js_optget r ''disabled'' = JStr ''true''), ni_comment = js_coalesce (js_optget r ''comment'') (JStr [])\<rparr>"

section \<open>Specification\<close>

text \<open>The samples of a key among the events, oldest first.\<close>

definition sample_of :: "LiveKind \<Rightarrow> js \<Rightarrow> rat \<times> js \<Rightarrow> prev_sample list" where
  "sample_of kind k ev =
     (case extract_event kind (snd ev) of
        Inr (Some x) \<Rightarrow>
          (if x_key x = k then [\<lparr>prev_rx = rxBytes x, prev_tx = txBytes x, prev_t = fst ev\<rparr>] else [])
      | _ \<Rightarrow> [])"

definition samples :: "LiveKind \<Rightarrow> js \<Rightarrow> (rat \<times> js) list \<Rightarrow> prev_sample list" where
  "samples kind k evs = concat (map (sample_of kind k) evs)"

text \<open>Bits per second between two samples, never negative, zero when the clock did not advance.\<close>

definition bps :: "rat \<Rightarrow> rat \<Rightarrow> rat \<Rightarrow> rat \<Rightarrow> rat" where
  "bps t0 b0 t1 b1 = (if t0 < t1 \<and> b0 < b1 then 8000 * (b1 - b0) / (t1 - t0) else 0)"

definition point :: "prev_sample \<Rightarrow> prev_sample \<Rightarrow> LiveSpark" where
  "point a b =
     \<lparr>sp_t = prev_t b, sp_rx = bps (prev_t a) (prev_rx a) (prev_t b) (prev_rx b),
      sp_tx = bps (prev_t a) (prev_tx a) (prev_t b) (prev_tx b)\<rparr>"

definition points :: "prev_sample list \<Rightarrow> LiveSpark list" where
  "points xs = map2 point (take 1 xs @ butlast xs) xs"

section \<open>The accumulator implements the specification\<close>

lemma points_snoc: "points (xs @ [x]) = points xs @ [point (if xs = [] then x else last xs) x]"
proof (cases "xs = []")
  case False
  then have "take 1 (xs @ [x]) @ butlast (xs @ [x]) = (take 1 xs @ butlast xs) @ [last xs]"
    by (cases xs) (simp_all add: butlast_append)
  moreover have "length (take 1 xs @ butlast xs) = length xs" using False by (cases xs) simp_all
  ultimately show ?thesis using False unfolding points_def by (simp only: zip_append) simp
qed (simp add: points_def)

lemma points_simps [simp]: "points [] = []" "points [x] = [point x x]"
  by (simp_all add: points_def)

lemma samples_snoc: "samples kind k (evs @ [ev]) = samples kind k evs @ sample_of kind k ev"
  by (simp add: samples_def)

lemma slice_last_snoc: "0 < n \<Longrightarrow> slice_last n (slice_last n xs @ [x]) = slice_last n (xs @ [x])"
  by (cases "n \<le> length xs") (simp_all add: slice_last_def Suc_diff_le)

lemma bps_max: "t0 < t1 \<Longrightarrow> max 0 (b1 - b0) * 8 / ((t1 - t0) / 1000) = bps t0 b0 t1 b1"
  by (simp add: bps_def max_def)

lemma live_run_snoc: "live_run kind (evs @ [(now, raw)]) = onEvent kind now raw (live_run kind evs)"
  by (simp add: live_run_def)

text \<open>The relation between the accumulator and the samples seen so far of one key.\<close>

definition tracks :: "js \<Rightarrow> live \<Rightarrow> prev_sample list \<Rightarrow> bool" where
  "tracks k s xs =
     (if xs = [] then map_of (prevRef s) k = None \<and> map_of (entities s) k = None
      else map_of (prevRef s) k = Some (last xs) \<and>
        (\<exists>e. map_of (entities s) k = Some e \<and> le_key e = k \<and> spark e = slice_last SPARK_MAX (points xs) \<and>
           rxBps e = sp_rx (last (points xs)) \<and> txBps e = sp_tx (last (points xs))))"

lemma onEvent_tracks:
  assumes "tracks k s xs"
  shows "tracks k (onEvent kind now raw s) (xs @ sample_of kind k (now, raw))"
proof (cases "\<exists>x. extract_event kind raw = Inr (Some x) \<and> x_key x = k")
  case False
  then show ?thesis
    using assms
    by (auto simp: tracks_def onEvent_def sample_of_def Let_def map_of_obj_put split: sum.splits option.splits prod.splits)
next
  case True
  then obtain x where x: "extract_event kind raw = Inr (Some x)" "x_key x = k" by blast
  let ?b = "\<lparr>prev_rx = rxBytes x, prev_tx = txBytes x, prev_t = now\<rparr>"
  have sm: "sample_of kind k (now, raw) = [?b]" using x by (simp add: sample_of_def)
  have "SPARK_MAX > 0" by (simp add: SPARK_MAX_def)
  note slice = slice_last_snoc [OF this]
  show ?thesis
  proof (cases "xs = []")
    case True
    with assms x show ?thesis
      by (simp add: tracks_def onEvent_def sm Let_def map_of_obj_put points_snoc point_def bps_def)
  next
    case False
    with assms x show ?thesis
      by (auto simp: tracks_def onEvent_def sm Let_def map_of_obj_put points_snoc point_def bps_max slice)
         (simp_all add: bps_def)
  qed
qed

lemma live_run_tracks: "tracks k (live_run kind evs) (samples kind k evs)"
proof (induction evs rule: rev_induct)
  case Nil
  then show ?case by (simp add: tracks_def live_run_def live_start_def samples_def)
next
  case (snoc ev evs)
  then show ?case by (cases ev) (simp add: live_run_snoc samples_snoc onEvent_tracks)
qed

lemma live_keys_distinct: "distinct (map fst (entities (live_run kind evs)))"
proof (induction evs rule: rev_induct)
  case Nil
  then show ?case by (simp add: live_run_def live_start_def)
next
  case (snoc ev evs)
  then show ?case
    by (cases ev)
       (auto simp: live_run_snoc onEvent_def Let_def obj_put_distinct split: sum.splits option.splits prod.splits)
qed

lemma filter_map_of:
  assumes "distinct (map fst al)" "\<And>k e. map_of al k = Some e \<Longrightarrow> f e = k" "map_of al k = Some e"
  shows "filter (\<lambda>e. f e = k) (map snd al) = [e]"
proof -
  obtain us vs where al: "al = us @ (k, e) # vs" using map_of_SomeD [OF assms(3)] by (meson split_list)
  have "f (snd p) \<noteq> k" if "p \<in> set us \<union> set vs" for p
  proof -
    have "p \<in> set al" using that al by auto
    then have "f (snd p) = fst p" using assms(1) by (intro assms(2)) simp
    moreover have "fst p \<noteq> k" using that al assms(1) by auto
    ultimately show ?thesis by simp
  qed
  moreover have "f e = k" using assms(2,3) by blast
  ultimately show ?thesis by (simp add: al filter_empty_conv)
qed

lemma points_nonneg: "p \<in> set (points xs) \<Longrightarrow> 0 \<le> sp_rx p \<and> 0 \<le> sp_tx p"
  by (auto simp: points_def point_def bps_def)

lemma set_slice_last: "p \<in> set (slice_last n xs) \<Longrightarrow> p \<in> set xs" and length_slice_last: "length (slice_last n xs) = min n (length xs)"
  by (auto simp: slice_last_def dest: in_set_dropD)

text \<open>
  C37. The live grid shows the traffic: for every interface or queue that reported at least one
  sample there is exactly one row; its current rates and its sparkline are the rates between
  consecutive samples of that key alone, the sparkline being the last thirty of them; no rate
  is negative, also after a counter reset or a clock that went back; and there is no row
  without a sample.
\<close>

theorem live_traffic_refines:
  assumes "samples kind k evs \<noteq> []"
  shows "\<exists>e. filter (\<lambda>e. le_key e = k) (useLiveTraffic kind evs) = [e]
      \<and> spark e = slice_last 30 (points (samples kind k evs)) \<and> length (spark e) \<le> 30
      \<and> rxBps e = sp_rx (last (points (samples kind k evs))) \<and> txBps e = sp_tx (last (points (samples kind k evs)))
      \<and> (\<forall>p \<in> set (spark e). 0 \<le> sp_rx p \<and> 0 \<le> sp_tx p)
    \<and> (\<forall>e \<in> set (useLiveTraffic kind evs). samples kind (le_key e) evs \<noteq> [])"
proof -
  let ?al = "entities (live_run kind evs)"
  have row: "le_key e = j \<and> samples kind j evs \<noteq> []" if "map_of ?al j = Some e" for j e
    using live_run_tracks [of j kind evs] that by (auto simp: tracks_def split: if_splits)
  have listed: "\<exists>j. map_of ?al j = Some e" if "e \<in> set (useLiveTraffic kind evs)" for e
    using that map_of_is_SomeI [OF live_keys_distinct] by (fastforce simp: useLiveTraffic_def)
  obtain e where e: "map_of ?al k = Some e" "spark e = slice_last SPARK_MAX (points (samples kind k evs))"
      "rxBps e = sp_rx (last (points (samples kind k evs)))" "txBps e = sp_tx (last (points (samples kind k evs)))"
    using live_run_tracks [of k kind evs] assms by (auto simp: tracks_def)
  have "filter (\<lambda>e. le_key e = k) (useLiveTraffic kind evs) = [e]"
    unfolding useLiveTraffic_def using filter_map_of [OF live_keys_distinct _ e(1)] row by blast
  moreover have "\<forall>p \<in> set (spark e). 0 \<le> sp_rx p \<and> 0 \<le> sp_tx p"
    using e(2) points_nonneg set_slice_last by metis
  ultimately show ?thesis using e row listed by (fastforce simp: SPARK_MAX_def length_slice_last)
qed

definition sample_event :: "string \<Rightarrow> js" where
  "sample_event b = JObj [(''name'', JStr ''q1''), (''bytes'', JStr b), (''disabled'', JBool False)]"

lemma sample_event_samples:
  "samples Queues (JStr ''q1'') [(1000, sample_event ''100/200''), (2000, sample_event ''150/260''), (3000, sample_event ''10/20'')]
   = [\<lparr>prev_rx = 200, prev_tx = 100, prev_t = 1000\<rparr>, \<lparr>prev_rx = 260, prev_tx = 150, prev_t = 2000\<rparr>,
      \<lparr>prev_rx = 20, prev_tx = 10, prev_t = 3000\<rparr>]"
  by code_simp

theorem live_traffic_refines_witness:
  "\<exists>e. filter (\<lambda>e. le_key e = JStr ''q1'')
         (useLiveTraffic Queues [(1000, sample_event ''100/200''), (2000, sample_event ''150/260''), (3000, sample_event ''10/20'')]) = [e]
     \<and> map sp_rx (spark e) = [0, 480, 0] \<and> map sp_tx (spark e) = [0, 400, 0]"
proof -
  let ?evs = "[(1000, sample_event ''100/200''), (2000, sample_event ''150/260''), (3000, sample_event ''10/20'')]"
  have "samples Queues (JStr ''q1'') ?evs \<noteq> []" by (simp add: sample_event_samples)
  from live_traffic_refines [OF this] show ?thesis
    by (auto simp: sample_event_samples points_def point_def bps_def slice_last_def)
qed

end
