(* ===== verification/Session.thy ===== *)
theory Session
  imports Auth_Store Admin_Api
begin

text \<open>
  The staff session in the application: the hooks of \<^verbatim>\<open>web/src/features/auth/api/queries.ts\<close>, the
  sign-in form's handler (\<^verbatim>\<open>features/auth/sign-in/components/user-auth-form.tsx\<close>), the sign-out
  dialog (\<^verbatim>\<open>components/sign-out-dialog.tsx\<close>), the route guards
  (\<^verbatim>\<open>routes/_authenticated/route.tsx\<close>, \<^verbatim>\<open>admin/route.tsx\<close>, \<^verbatim>\<open>registrations/route.tsx\<close>,
  \<^verbatim>\<open>routes/portal/_app/route.tsx\<close>) and the default handlers of the query client (\<^verbatim>\<open>main.tsx\<close>).

  The state is the auth store, the query cache and the list of what the user sees happen:
  messages and navigations, in order. The router nests the guards: a page below
  \<^verbatim>\<open>/admin\<close> is loaded after the guard of \<open>_authenticated\<close> and its own.
\<close>

section \<open>State\<close>

datatype app_event = Toast string "js option" | Navigate string "(string \<times> string) list"

record app =
  app_auth :: auth_state
  app_cache :: cache
  app_events :: "app_event list"

definition emit :: "app_event \<Rightarrow> app \<Rightarrow> app" where
  "emit e a = a\<lparr>app_events := app_events a @ [e]\<rparr>"

record LoginResult =
  access_token :: string
  refresh_token :: string
  expires_in :: int
  lr_user :: auth_user

definition js_of_user :: "auth_user \<Rightarrow> js" where
  "js_of_user u = JObj [(''id'', user_id u), (''username'', username u), (''role'', role u)]"

section \<open>Signing in\<close>

definition hydrateSession :: "string \<Rightarrow> string \<Rightarrow> auth_user \<Rightarrow> auth_state \<Rightarrow> auth_state" where
  "hydrateSession access refresh u s = setUser (Some u) (setRefreshToken refresh (setAccessToken access s))"

definition clearSession :: "auth_state \<Rightarrow> auth_state" where
  "clearSession s = reset s"

definition useLogin_success :: "LoginResult \<Rightarrow> app \<Rightarrow> app" where
  "useLogin_success d a =
     a\<lparr>app_auth := hydrateSession (access_token d) (refresh_token d) (lr_user d) (app_auth a),
       app_cache := setQueryData qk_currentUser (js_of_user (lr_user d)) (app_cache a)\<rparr>"

text \<open>Where the form goes after a successful sign-in.\<close>

definition login_target :: "string option \<Rightarrow> js \<Rightarrow> string" where
  "login_target redirectTo r =
     (let t0 = (if or_else redirectTo [] \<noteq> [] then or_else redirectTo [] else ''/dashboard'');
          t1 = (if js_includes t0 ''/admin'' \<and> r \<noteq> JStr ''admin'' then ''/dashboard'' else t0)
      in if js_includes t1 ''/registrations'' \<and> r \<noteq> JStr ''admin'' \<and> r \<noteq> JStr ''operator'' then ''/dashboard'' else t1)"

text \<open>
  \<open>defaultOptions.mutations.onError\<close> runs for a mutation hook without an \<open>onError\<close> of its own,
  before the callback given to \<open>mutate\<close>.
\<close>

definition error_status :: "thrown \<Rightarrow> nat option" where
  "error_status e = (case e of AxiosErr a \<Rightarrow> map_option resp_status (ax_response a) | _ \<Rightarrow> None)"

definition mutation_on_error :: "thrown \<Rightarrow> app \<Rightarrow> app" where
  "mutation_on_error e a =
     (let a1 = emit (Toast (handleServerError e) None) a
      in if error_status e = Some 304 then emit (Toast ''Content not modified!'' None) a1 else a1)"

definition login_submit :: "string option \<Rightarrow> thrown + LoginResult \<Rightarrow> app \<Rightarrow> app" where
  "login_submit redirectTo r a =
     (case r of
        Inr d \<Rightarrow> emit (Navigate (login_target redirectTo (role (lr_user d))) []) (useLogin_success d a)
      | Inl e \<Rightarrow> emit (Toast ''Sign in failed'' (Some (parseAPIError e))) (mutation_on_error e a))"

section \<open>Signing out\<close>

definition useLogout_settled :: "(qkey \<Rightarrow> qkey \<Rightarrow> bool) \<Rightarrow> app \<Rightarrow> app" where
  "useLogout_settled m a =
     a\<lparr>app_auth := clearSession (app_auth a), app_cache := removeQueries m [KS ''auth'', KS ''me''] (app_cache a)\<rparr>"

definition handleSignOut :: "string \<Rightarrow> app \<Rightarrow> app \<times> service" where
  "handleSignOut currentPath a =
     (let safeRedirect = (if js_includes currentPath ''/admin'' then ''/dashboard'' else currentPath);
          rt = auth_state.refreshToken (app_auth a)
      in (emit (Navigate ''/sign-in'' [(''redirect'', safeRedirect)]) a,
          logout (if rt = [] then None else Some rt)))"

definition useCurrentUser :: "auth_state \<Rightarrow> query_hook" where
  "useCurrentUser s =
     \<lparr>q_key = qk_currentUser, q_fn = getMe, q_enabled = truthy (accessToken s), q_options = [(''staleTime'', JNum 60000)]\<rparr>"

section \<open>Guards\<close>

text \<open>A guard lets the navigation pass (\<open>None\<close>) or redirects it.\<close>

type_synonym redirect = "string \<times> (string \<times> string) list"

definition authenticated_guard :: "auth_state \<Rightarrow> string \<Rightarrow> redirect option" where
  "authenticated_guard s href =
     (if \<not> truthy (accessToken s) then Some (''/sign-in'', [(''redirect'', href)]) else None)"

definition user_role :: "auth_state \<Rightarrow> js" where
  "user_role s = (case user s of None \<Rightarrow> JUndef | Some u \<Rightarrow> role u)"

definition admin_guard :: "auth_state \<Rightarrow> redirect option" where
  "admin_guard s = (if user_role s \<noteq> JStr ''admin'' then Some (''/403'', []) else None)"

definition registrations_guard :: "auth_state \<Rightarrow> redirect option" where
  "registrations_guard s =
     (if user_role s \<noteq> JStr ''admin'' \<and> user_role s \<noteq> JStr ''operator'' then Some (''/403'', []) else None)"

definition portal_guard :: "portal_state \<Rightarrow> redirect option" where
  "portal_guard s = (if customerToken s = [] then Some (''/portal/login'', []) else None)"

text \<open>The page at an address lies in a section of the site.\<close>

definition in_section :: "string \<Rightarrow> string \<Rightarrow> bool" where
  "in_section base href = (href = base \<or> (\<exists>c \<in> set ''/?#''. prefix (base @ [c]) href))"

definition staff_guards :: "auth_state \<Rightarrow> string \<Rightarrow> redirect option" where
  "staff_guards s href =
     (case authenticated_guard s href of
        Some r \<Rightarrow> Some r
      | None \<Rightarrow>
          (if in_section ''/admin'' href then admin_guard s
           else if in_section ''/registrations'' href then registrations_guard s else None))"

section \<open>Failed queries\<close>

definition query_on_error :: "bool \<Rightarrow> string \<Rightarrow> thrown \<Rightarrow> app \<Rightarrow> app" where
  "query_on_error production href e a =
     (let a1 = (if error_status e = Some 401
                then emit (Navigate ''/sign-in'' [(''redirect'', href)]) (emit (Toast ''Session expired!'' None) a) else a)
      in if error_status e = Some 500
         then (let a2 = emit (Toast ''Internal Server Error!'' None) a1 in if production then emit (Navigate ''/500'' []) a2 else a2)
         else a1)"

text \<open>\<open>retry\<close>: in development never, in production at most four times and not for 401 and 403.\<close>

definition query_retry :: "bool \<Rightarrow> bool \<Rightarrow> int \<Rightarrow> thrown \<Rightarrow> bool" where
  "query_retry development production failureCount e =
     (if 0 \<le> failureCount \<and> development then False
      else if 3 < failureCount \<and> production then False
      else \<not> (case e of AxiosErr a \<Rightarrow> or_else (map_option resp_status (ax_response a)) 0 \<in> {401, 403} | _ \<Rightarrow> False))"

section \<open>Lemmas\<close>

lemma in_section_includes: "in_section base href \<Longrightarrow> js_includes href base"
  unfolding in_section_def js_includes_iff prefix_def by (metis append_Nil append_Nil2 append_assoc)

text \<open>The redirect after signing in never leads to a page whose guard refuses the user.\<close>

lemma login_target_sections:
  "in_section ''/admin'' (login_target redirectTo r) \<Longrightarrow> r = JStr ''admin''"
  "in_section ''/registrations'' (login_target redirectTo r) \<Longrightarrow> r = JStr ''admin'' \<or> r = JStr ''operator''"
proof -
  have d: "\<not> js_includes ''/dashboard'' ''/admin''" "\<not> js_includes ''/dashboard'' ''/registrations''" by code_simp+
  show "in_section ''/admin'' (login_target redirectTo r) \<Longrightarrow> r = JStr ''admin''"
    using d in_section_includes [of "''/admin''" "login_target redirectTo r"]
    by (auto simp: login_target_def Let_def split: if_splits)
  show "in_section ''/registrations'' (login_target redirectTo r) \<Longrightarrow> r = JStr ''admin'' \<or> r = JStr ''operator''"
    using d in_section_includes [of "''/registrations''" "login_target redirectTo r"]
    by (auto simp: login_target_def Let_def split: if_splits)
qed

lemma hydrated:
  "accessToken (hydrateSession x y u s) = JStr x" "auth_state.refreshToken (hydrateSession x y u s) = y"
  "user (hydrateSession x y u s) = Some u"
  by (simp_all add: hydrateSession_def setUser_def setAccessToken_def setRefreshToken_def)

lemma hydrate_run: "token_ok x \<Longrightarrow> auth_step\<^sup>*\<^sup>* s (hydrateSession x y u s)"
  unfolding hydrateSession_def
  by (meson auth_step.set_access auth_step.set_refresh auth_step.set_user rtranclp.rtrancl_into_rtrancl rtranclp.rtrancl_refl)

lemma fresh_logout:
  "fresh k (app_cache (useLogout_settled m a)) \<longleftrightarrow> fresh k (app_cache a) \<and> \<not> m [KS ''auth'', KS ''me''] k"
  by (simp add: useLogout_settled_def fresh_remove)

section \<open>A first sign-in\<close>

definition sample_app :: app where
  "sample_app =
     \<lparr>app_auth = \<lparr>doc = Some [], ls = [], user = None, accessToken = JStr [], refreshToken = []\<rparr>,
      app_cache = [], app_events = []\<rparr>"

definition sample_login :: LoginResult where
  "sample_login =
     \<lparr>access_token = ''t'', refresh_token = ''r'', expires_in = 900,
      lr_user = \<lparr>user_id = JNum 2, username = JStr ''ana'', role = JStr ''viewer''\<rparr>\<rparr>"

lemma sample_app_ok: "persisted (app_auth sample_app)" "token_ok (access_token sample_login)" "access_token sample_login \<noteq> []"
proof -
  have "wf_document (doc (app_auth sample_app))" "initToken (doc (app_auth sample_app)) = Some (accessToken (app_auth sample_app))"
    "auth_state.refreshToken (app_auth sample_app) = or_else (getItem REFRESH_TOKEN_KEY (ls (app_auth sample_app))) []"
    by code_simp+
  then show "persisted (app_auth sample_app)" by (simp add: persisted_iff)
  show "token_ok (access_token sample_login)" "access_token sample_login \<noteq> []" by code_simp+
qed

end
