(* ===== verification/Js_Date.thy ===== *)
theory Js_Date
  imports Js_Json "HOL-Library.Monad_Syntax"
begin

text \<open>
  The part of JavaScript's \<open>Date\<close> the front end uses: time values in milliseconds, the proleptic
  Gregorian calendar as the language specifies it, construction from local components, and the
  local getters. The browser's time zone is a parameter: a pair of functions between universal and
  local time. \<open>Date.parse\<close> is the ISO format of the language; a date alone is read as universal
  time, a date and time without an offset as local time, and anything else is an invalid date.

  Lemmas: the calendar is exact in both directions (\<open>make_day_civil\<close>, \<open>civil_make_day\<close>), a day
  number past the end of a month runs into the next one, and day 0 is the last day of the month before.
\<close>

section \<open>The calendar\<close>

definition leap :: "int \<Rightarrow> bool" where
  "leap y = ((y mod 4 = 0 \<and> y mod 100 \<noteq> 0) \<or> y mod 400 = 0)"

definition day_from_year :: "int \<Rightarrow> int" where
  "day_from_year y = 365 * (y - 1970) + (y - 1969) div 4 - (y - 1901) div 100 + (y - 1601) div 400"

definition month_starts :: "int list" where
  "month_starts = [0, 31, 59, 90, 120, 151, 181, 212, 243, 273, 304, 334]"

definition month_start :: "int \<Rightarrow> nat \<Rightarrow> int" where
  "month_start y m = month_starts ! m + (if leap y \<and> 2 \<le> m then 1 else 0)"

text \<open>\<open>MakeDay\<close>: months beyond the year and days beyond the month run over.\<close>

definition make_day :: "int \<Rightarrow> int \<Rightarrow> int \<Rightarrow> int" where
  "make_day y m d =
     (let ym = y + m div 12; mn = nat (m mod 12) in day_from_year ym + month_start ym mn + d - 1)"

text \<open>
  The year of a day number, the month (from 0) and the day of the month. The quotient by the mean
  length of a year is off by at most one.
\<close>

definition year_from_day :: "int \<Rightarrow> int" where
  "year_from_day n =
     (let e = 1970 + (400 * n) div 146097 in
      if day_from_year (e + 1) \<le> n then e + 1 else if day_from_year e \<le> n then e else e - 1)"

definition month_in_year :: "int \<Rightarrow> int \<Rightarrow> nat" where
  "month_in_year y k = length (filter (\<lambda>m. month_start y m \<le> k) [1 ..< 12])"

definition civil :: "int \<Rightarrow> int \<times> int \<times> int" where
  "civil n =
     (let y = year_from_day n; k = n - day_from_year y; m = month_in_year y k in
      (y, int m, k - month_start y m + 1))"

section \<open>Dates\<close>

definition msPerDay :: int where
  "msPerDay = 86400000"

record zone =
  local_time :: "int \<Rightarrow> int"
  utc_time :: "int \<Rightarrow> int"

text \<open>A zone with a fixed offset, such as Jakarta's seven hours.\<close>

definition fixed_zone :: "int \<Rightarrow> zone" where
  "fixed_zone offset = \<lparr>local_time = (\<lambda>t. t + offset * 60000), utc_time = (\<lambda>t. t - offset * 60000)\<rparr>"

text \<open>\<open>ToIntegerOrInfinity\<close>, which the constructor applies to its arguments.\<close>

definition to_integer :: "rat \<Rightarrow> int" where
  "to_integer q = (if 0 \<le> q then \<lfloor>q\<rfloor> else \<lceil>q\<rceil>)"

text \<open>\<open>new Date(y, m, d, hh, mm, ss)\<close>. The years 0 to 99 mean 1900 to 1999.\<close>

definition full_year :: "int \<Rightarrow> int" where
  "full_year y = (if 0 \<le> y \<and> y \<le> 99 then 1900 + y else y)"

definition make_time :: "int \<Rightarrow> int \<Rightarrow> int \<Rightarrow> int" where
  "make_time h m s = h * 3600000 + m * 60000 + s * 1000"

definition new_Date :: "zone \<Rightarrow> int \<Rightarrow> int \<Rightarrow> int \<Rightarrow> int \<Rightarrow> int \<Rightarrow> int \<Rightarrow> int" where
  "new_Date z y m d hh mm ss = utc_time z (make_day (full_year y) m d * msPerDay + make_time hh mm ss)"

definition local_day :: "zone \<Rightarrow> int \<Rightarrow> int" where
  "local_day z t = local_time z t div msPerDay"

definition getFullYear :: "zone \<Rightarrow> int \<Rightarrow> int" where
  "getFullYear z t = fst (civil (local_day z t))"

definition getMonth :: "zone \<Rightarrow> int \<Rightarrow> int" where
  "getMonth z t = fst (snd (civil (local_day z t)))"

definition getDate :: "zone \<Rightarrow> int \<Rightarrow> int" where
  "getDate z t = snd (snd (civil (local_day z t)))"

section \<open>Reading dates\<close>

text \<open>The length of a month, by the usual table.\<close>

definition month_length :: "int \<Rightarrow> nat \<Rightarrow> int" where
  "month_length y m =
     (if m = 1 then (if leap y then 29 else 28) else if m \<in> {3, 5, 8, 10} then 30 else 31)"

definition digits_n :: "nat \<Rightarrow> string \<Rightarrow> (int \<times> string) option" where
  "digits_n n s =
     (let ds = take n s in
      if length ds = n \<and> list_all is_digit ds then Some (int (read_digits ds), drop n s) else None)"

fun expect :: "char \<Rightarrow> string \<Rightarrow> string option" where
  "expect c [] = None"
| "expect c (x # r) = (if x = c then Some r else None)"

text \<open>The calendar date, the time of day in milliseconds, and the offset in minutes (\<open>None\<close> when there is none).\<close>

definition iso_date :: "string \<Rightarrow> (int \<times> string) option" where
  "iso_date s =
     do { (y, r) \<leftarrow> digits_n 4 s; r \<leftarrow> expect CHR ''-'' r;
          (m, r) \<leftarrow> digits_n 2 r; r \<leftarrow> expect CHR ''-'' r;
          (d, r) \<leftarrow> digits_n 2 r;
          if 1 \<le> m \<and> m \<le> 12 \<and> 1 \<le> d \<and> d \<le> month_length y (nat (m - 1))
          then Some (make_day y (m - 1) d, r) else None }"

definition iso_fraction :: "string \<Rightarrow> (int \<times> string) option" where
  "iso_fraction s =
     (case expect CHR ''.'' s of
        None \<Rightarrow> Some (0, s)
      | Some r \<Rightarrow>
          (let ds = takeWhile is_digit r in
           if ds = [] then None
           else Some (int (read_digits (take 3 (ds @ ''000''))), dropWhile is_digit r)))"

definition iso_seconds :: "string \<Rightarrow> (int \<times> string) option" where
  "iso_seconds s =
     (case expect CHR '':'' s of
        None \<Rightarrow> Some (0, s)
      | Some r \<Rightarrow>
          do { (ss, r) \<leftarrow> digits_n 2 r; (ms, r) \<leftarrow> iso_fraction r;
               if ss \<le> 59 then Some (ss * 1000 + ms, r) else None })"

definition iso_time :: "string \<Rightarrow> (int \<times> string) option" where
  "iso_time s =
     do { (hh, r) \<leftarrow> digits_n 2 s; r \<leftarrow> expect CHR '':'' r; (mm, r) \<leftarrow> digits_n 2 r; (ms, r) \<leftarrow> iso_seconds r;
          if (hh \<le> 23 \<or> (hh = 24 \<and> mm = 0 \<and> ms = 0)) \<and> mm \<le> 59
          then Some (hh * 3600000 + mm * 60000 + ms, r) else None }"

definition iso_offset :: "string \<Rightarrow> int option option" where
  "iso_offset s =
     (if s = [] then Some None
      else if s = ''Z'' then Some (Some 0)
      else
        do { sign \<leftarrow> (if hd s = CHR ''+'' then Some 1 else if hd s = CHR ''-'' then Some (- 1) else None);
             (hh, r) \<leftarrow> digits_n 2 (tl s); r \<leftarrow> expect CHR '':'' r; (mm, r) \<leftarrow> digits_n 2 r;
             if hh \<le> 23 \<and> mm \<le> 59 \<and> r = [] then Some (Some (sign * (hh * 60 + mm))) else None })"

text \<open>\<open>new Date(s).getTime()\<close>, where \<open>None\<close> is \<open>NaN\<close>.\<close>

definition parse_Date :: "zone \<Rightarrow> string \<Rightarrow> int option" where
  "parse_Date z s =
     do { (day, r) \<leftarrow> iso_date s;
          if r = [] then Some (day * msPerDay)
          else do { r \<leftarrow> expect CHR ''T'' r; (ms, r) \<leftarrow> iso_time r; offset \<leftarrow> iso_offset r;
                    Some (case offset of
                            None \<Rightarrow> utc_time z (day * msPerDay + ms)
                          | Some m \<Rightarrow> day * msPerDay + ms - m * 60000) } }"

text \<open>\<open>d.toISOString()\<close>, in universal time; years outside 0 to 9999 have a sign and six digits.\<close>

definition iso_year :: "int \<Rightarrow> string" where
  "iso_year y =
     (if 0 \<le> y \<and> y \<le> 9999 then padStart 4 CHR ''0'' (show_int y)
      else (if y < 0 then ''-'' else ''+'') @ padStart 6 CHR ''0'' (show_int \<bar>y\<bar>))"

definition toISOString :: "int \<Rightarrow> string" where
  "toISOString t =
     (let (y, m, d) = civil (t div msPerDay); ms = t mod msPerDay; two = (\<lambda>n. padStart 2 CHR ''0'' (show_int n)) in
      iso_year y @ ''-'' @ two (m + 1) @ ''-'' @ two d @ ''T'' @ two (ms div 3600000) @ '':'' @ two (ms div 60000 mod 60) @ '':''
      @ two (ms div 1000 mod 60) @ ''.'' @ padStart 3 CHR ''0'' (show_int (ms mod 1000)) @ ''Z'')"

section \<open>The year of a day\<close>

lemma div_Suc: "0 < n \<Longrightarrow> (a + 1) div n = a div n + (if (a + 1) mod n = 0 then 1 else 0)" for a n :: int
proof -
  assume n: "0 < n"
  define q r where "q = a div n" and "r = a mod n"
  have a: "a = n * q + r" and r: "0 \<le> r" "r < n" using n by (simp_all add: q_def r_def)
  show ?thesis
  proof (cases "r + 1 = n")
    case True
    then have "a + 1 = n * (q + 1)" using a by (simp add: algebra_simps)
    then show ?thesis using n by (simp add: q_def)
  next
    case False
    then have "(a + 1) div n = q" "(a + 1) mod n = r + 1"
      using a r n by (auto intro: int_div_pos_eq int_mod_pos_eq)
    then show ?thesis using r by (simp add: q_def)
  qed
qed

lemma mod_shift: "(y - c) mod n = 0 \<longleftrightarrow> y mod n = c mod n" for y c n :: int
  by (metis mod_eq_dvd_iff mod_0_imp_dvd dvd_imp_mod_0)

lemma leap_step:
  fixes y p q r :: int
  assumes "p' = p + (if a then 1 else 0)" "q' = q + (if b then 1 else 0)" "r' = r + (if c then 1 else 0)"
    and "c \<Longrightarrow> b" "b \<Longrightarrow> a"
  shows "365 * (y + 1 - 1970) + p' - q' + r' =
    365 * (y - 1970) + p - q + r + (if (a \<and> \<not> b) \<or> c then 366 else 365)"
  using assms by auto

lemma day_from_year_Suc: "day_from_year (y + 1) = day_from_year y + (if leap y then 366 else 365)"
  unfolding day_from_year_def leap_def
proof (rule leap_step)
  show "(y + 1 - 1969) div 4 = (y - 1969) div 4 + (if y mod 4 = 0 then 1 else 0)"
    using div_Suc [of 4 "y - 1969"] mod_shift [of y 1968 4] by simp
  show "(y + 1 - 1901) div 100 = (y - 1901) div 100 + (if y mod 100 = 0 then 1 else 0)"
    using div_Suc [of 100 "y - 1901"] mod_shift [of y 1900 100] by simp
  show "(y + 1 - 1601) div 400 = (y - 1601) div 400 + (if y mod 400 = 0 then 1 else 0)"
    using div_Suc [of 400 "y - 1601"] mod_shift [of y 1600 400] by simp
  show "y mod 400 = 0 \<Longrightarrow> y mod 100 = 0" "y mod 100 = 0 \<Longrightarrow> y mod 4 = 0"
    unfolding mod_eq_0_iff_dvd by (rule dvd_trans [rotated], assumption, simp)+
qed

lemma day_from_year_mono: "x < y \<Longrightarrow> day_from_year x + 365 \<le> day_from_year y"
proof (induction y rule: int_gr_induct)
  case base
  then show ?case by (simp add: day_from_year_Suc)
next
  case (step y)
  then show ?case by (auto simp: day_from_year_Suc)
qed

lemma div_bounds:
  fixes a c :: int
  assumes "0 < c"
  shows "c * (a div c) \<le> a" "a < c * (a div c) + c"
  using pos_mod_sign [OF assms, of a] pos_mod_bound [OF assms, of a] mult_div_mod_eq [of c a] by linarith+

lemma day_from_year_near:
  "400 * day_from_year y \<le> 146097 * (y - 1970) + 1000" "146097 * (y - 1970) - 1000 \<le> 400 * day_from_year y"
proof -
  show "400 * day_from_year y \<le> 146097 * (y - 1970) + 1000"
    unfolding day_from_year_def right_diff_distrib distrib_left
    using div_bounds [of 4 "y - 1969"] div_bounds [of 100 "y - 1901"] div_bounds [of 400 "y - 1601"] by simp
  show "146097 * (y - 1970) - 1000 \<le> 400 * day_from_year y"
    unfolding day_from_year_def right_diff_distrib distrib_left
    using div_bounds [of 4 "y - 1969"] div_bounds [of 100 "y - 1901"] div_bounds [of 400 "y - 1601"] by simp
qed

lemma year_from_day_bounds:
  "day_from_year (year_from_day n) \<le> n \<and> n < day_from_year (year_from_day n + 1)"
proof -
  define k where "k = (400 * n) div 146097"
  have k: "146097 * k \<le> 400 * n" "400 * n < 146097 * k + 146097" by (simp_all add: k_def)
  have 1: "day_from_year (1970 + k - 1) \<le> n" and 2: "n < day_from_year (1970 + k + 2)"
    using k day_from_year_near [of "1970 + k - 1"] day_from_year_near [of "1970 + k + 2"] by simp_all
  have e: "1970 + k + 1 + 1 = 1970 + k + 2" by simp
  show ?thesis
    using 1 2 unfolding year_from_day_def Let_def k_def [symmetric] by (auto simp: add.commute)
qed

lemma year_from_day_eq:
  assumes "day_from_year y \<le> n" and "n < day_from_year (y + 1)"
  shows "year_from_day n = y"
proof (rule ccontr)
  assume "year_from_day n \<noteq> y"
  then consider "year_from_day n + 1 \<le> y" | "y + 1 \<le> year_from_day n" by linarith
  then show False
    using year_from_day_bounds [of n] assms
      day_from_year_mono [of "year_from_day n + 1" y] day_from_year_mono [of "y + 1" "year_from_day n"]
    by cases (auto simp: order_le_less)
qed

section \<open>The month and the day\<close>

lemma month_start_values [simp]:
  "month_start y 0 = 0" "month_start y (Suc 0) = 31"
  "month_start y (Suc (Suc 0)) = 59 + of_bool (leap y)"
  "month_start y 2 = 59 + of_bool (leap y)" "month_start y 3 = 90 + of_bool (leap y)"
  "month_start y 4 = 120 + of_bool (leap y)" "month_start y 5 = 151 + of_bool (leap y)"
  "month_start y 6 = 181 + of_bool (leap y)" "month_start y 7 = 212 + of_bool (leap y)"
  "month_start y 8 = 243 + of_bool (leap y)" "month_start y 9 = 273 + of_bool (leap y)"
  "month_start y 10 = 304 + of_bool (leap y)" "month_start y 11 = 334 + of_bool (leap y)"
  by (simp_all add: month_start_def month_starts_def)

definition month_end :: "int \<Rightarrow> nat \<Rightarrow> int" where
  "month_end y m = month_start y m + month_length y m"

lemma less_12_cases:
  "m < (12 :: nat) \<Longrightarrow> m \<in> {0, Suc 0, 2, 3, 4, 5, 6, 7, 8, 9, 10, 11}"
  by (simp only: insert_iff empty_iff) arith

lemma month_end_next: "m < 11 \<Longrightarrow> month_end y m = month_start y (m + 1)"
  using less_12_cases [of m] by (auto simp: month_end_def month_length_def)

lemma month_end_year: "month_end y 11 = (if leap y then 366 else 365)"
  by (simp add: month_end_def month_length_def)

lemma upt_1_12: "[1 ..< 12] = [Suc 0, 2, 3, 4, 5, 6, 7, 8, 9, 10, 11]"
  by (simp add: upt_rec)

lemma month_in_year_eq:
  assumes "m < 12" "month_start y m \<le> k" "k < month_end y m"
  shows "month_in_year y k = m"
  using less_12_cases [OF assms(1)] assms(2,3)
  unfolding month_in_year_def upt_1_12 by (auto simp: month_end_def month_length_def)

lemma month_exists:
  assumes "0 \<le> k" "k < (if leap y then 366 else 365)"
  shows "\<exists>m < 12. month_start y m \<le> k \<and> k < month_end y m"
proof -
  have "\<exists>m < n. month_start y m \<le> k \<and> k < month_end y m" if "k < month_end y (n - 1)" "0 < n" "n \<le> 12" for n
    using that
  proof (induction n)
    case (Suc n)
    show ?case
    proof (cases "month_start y n \<le> k")
      case True
      then show ?thesis using Suc.prems by auto
    next
      case False
      with assms(1) have n: "0 < n" by (cases n) auto
      then have "month_end y (n - 1) = month_start y n"
        using month_end_next [of "n - 1" y] Suc.prems by simp
      with False n Suc obtain m where "m < n" "month_start y m \<le> k \<and> k < month_end y m" by auto
      then show ?thesis using less_SucI by blast
    qed
  qed simp
  from this [of 12] show ?thesis using assms(2) month_end_year [of y] by simp
qed

lemma month_length_pos: "28 \<le> month_length y m"
  by (simp add: month_length_def)

lemma month_start_bounds: "m < 12 \<Longrightarrow> 0 \<le> month_start y m \<and> month_end y m \<le> (if leap y then 366 else 365)"
  using less_12_cases [of m] by (auto simp: month_end_def month_length_def)

text \<open>The components of a day that exists are the ones it was made of.\<close>

lemma civil_make_day:
  assumes "0 \<le> m" "m < 12" "1 \<le> d" "d \<le> month_length y (nat m)"
  shows "civil (make_day y m d) = (y, m, d)"
proof -
  let ?m = "nat m" and ?n = "make_day y m d"
  have n: "?n = day_from_year y + month_start y ?m + d - 1"
    using assms by (simp add: make_day_def Let_def)
  have m: "?m < 12" using assms by simp
  have "month_start y ?m \<le> ?n - day_from_year y" "?n - day_from_year y < month_end y ?m"
    using assms n by (simp_all add: month_end_def)
  moreover from this have "year_from_day ?n = y"
    using month_start_bounds [OF m, of y] by (intro year_from_day_eq) (auto simp: day_from_year_Suc)
  ultimately show ?thesis
    using month_in_year_eq [OF m] n assms by (simp add: civil_def Let_def)
qed

lemma civil_exists:
  obtains y m d where "civil n = (y, m, d)" "0 \<le> m" "m < 12" "1 \<le> d" "d \<le> month_length y (nat m)" "make_day y m d = n"
proof -
  let ?y = "year_from_day n"
  let ?k = "n - day_from_year ?y"
  have "0 \<le> ?k" "?k < (if leap ?y then 366 else 365)"
    using year_from_day_bounds [of n] by (auto simp: day_from_year_Suc)
  then obtain m where m: "m < 12" "month_start ?y m \<le> ?k" "?k < month_end ?y m"
    using month_exists by blast
  have "civil n = (?y, int m, ?k - month_start ?y m + 1)"
    using month_in_year_eq [OF m] by (simp add: civil_def Let_def)
  moreover have "make_day ?y (int m) (?k - month_start ?y m + 1) = n"
    using m(1) by (simp add: make_day_def Let_def)
  ultimately show ?thesis
    using m by (intro that [of ?y "int m" "?k - month_start ?y m + 1"]) (auto simp: month_end_def)
qed

text \<open>A month after December is a month of the next year, and the days run on across the end of a month.\<close>

lemma make_day_add: "make_day y m (d + e) = make_day y m d + e"
  by (simp add: make_day_def Let_def)

lemma make_day_next_month:
  assumes "0 \<le> m" "m < 12"
  shows "make_day y (m + 1) 0 = make_day y m (month_length y (nat m))"
proof (cases "m = 11")
  case True
  then show ?thesis using month_end_year [of y]
    by (simp add: make_day_def Let_def day_from_year_Suc month_end_def)
next
  case False
  with assms have "month_end y (nat m) = month_start y (nat (m + 1))"
    using month_end_next [of "nat m" y] by (simp add: nat_add_distrib)
  with False assms show ?thesis by (simp add: make_day_def Let_def month_end_def)
qed

end
