(* ===== verification/Formats.thy ===== *)
theory Formats
  imports Js_Date
begin

text \<open>
  The pure helpers that turn numbers, dates and RouterOS strings into what the pages show:
  \<^verbatim>\<open>web/src/lib/format.ts\<close>, \<^verbatim>\<open>features/hotspot/_shared/{format,derive}.ts\<close>,
  \<^verbatim>\<open>features/customer-portal/_shared/format.ts\<close>, \<^verbatim>\<open>features/report/_shared/format.ts\<close> and
  the relative time of \<^verbatim>\<open>features/routers/components/view-model.ts\<close>.

  Numbers are exact rationals. The locale data of \<open>Intl\<close> is a parameter: a formatter for the locale
  and the options. Names that two files share carry the file's feature in front.

  Theorems: the relative times stay within the range of their unit; a duration is the mixed-radix
  reading of its minutes; the unit of a byte count is the largest that fits; the expiry written in
  a voucher comment is read back; the length of a month is the calendar's.
\<close>

section \<open>Numbers\<close>

definition js_round :: "rat \<Rightarrow> int" where
  "js_round x = \<lfloor>x + 1 / 2\<rfloor>"

text \<open>\<open>x.toFixed(f)\<close>: the nearest multiple of \<open>10 ^ -f\<close>, the larger one in a tie, with \<open>f\<close> decimals.\<close>

definition toFixed :: "nat \<Rightarrow> rat \<Rightarrow> string" where
  "toFixed f x =
     (let n = nat (js_round (\<bar>x\<bar> * 10 ^ f)); sign = (if x < 0 then ''-'' else []) in
      if f = 0 then sign @ show_nat n
      else
        (let m = padStart (f + 1) CHR ''0'' (show_nat n) in
         sign @ take (length m - f) m @ ''.'' @ drop (length m - f) m))"

record intl =
  number_format :: "string \<Rightarrow> (string \<times> js) list \<Rightarrow> rat \<Rightarrow> string"
  date_format :: "string \<Rightarrow> (string \<times> js) list \<Rightarrow> int \<Rightarrow> string"

section \<open>lib/format.ts\<close>

definition lib_formatBytes :: "rat \<Rightarrow> string" where
  "lib_formatBytes bytes =
     (if bytes < 1024 then show_rat bytes @ '' B''
      else if bytes < 1048576 then toFixed 1 (bytes / 1024) @ '' KB''
      else if bytes < 1073741824 then toFixed 1 (bytes / 1048576) @ '' MB''
      else if bytes < 1099511627776 then toFixed 2 (bytes / 1073741824) @ '' GB''
      else toFixed 2 (bytes / 1099511627776) @ '' TB'')"

definition formatBitsPerSecond :: "rat \<Rightarrow> string" where
  "formatBitsPerSecond bps =
     (if bps < 1000 then show_rat bps @ '' bps''
      else if bps < 1000000 then toFixed 1 (bps / 1000) @ '' Kbps''
      else if bps < 1000000000 then toFixed 1 (bps / 1000000) @ '' Mbps''
      else toFixed 2 (bps / 1000000000) @ '' Gbps'')"

definition formatPacketsPerSecond :: "rat \<Rightarrow> string" where
  "formatPacketsPerSecond pps =
     (if pps < 1000 then show_rat pps @ '' p/s''
      else if pps < 1000000 then toFixed 1 (pps / 1000) @ '' Kp/s''
      else toFixed 1 (pps / 1000000) @ '' Mp/s'')"

text \<open>\<open>Math.round(n / k)\<close> for integers.\<close>

definition round_div :: "int \<Rightarrow> int \<Rightarrow> int" where
  "round_div n k = js_round (of_int n / of_int k)"

definition formatRelativeTime :: "int \<Rightarrow> int \<Rightarrow> string" where
  "formatRelativeTime date now =
     (let diffMs = now - date; diffSec = round_div diffMs 1000 in
      if diffSec < 5 then ''just now''
      else if diffSec < 60 then show_int diffSec @ ''s ago''
      else
        (let diffMin = round_div diffSec 60 in
         if diffMin < 60 then show_int diffMin @ ''m ago''
         else
           (let diffHr = round_div diffMin 60 in
            if diffHr < 24 then show_int diffHr @ ''h ago''
            else
              (let diffDay = round_div diffHr 24 in
               if diffDay < 30 then show_int diffDay @ ''d ago''
               else
                 (let diffMon = round_div diffDay 30 in
                  if diffMon < 12 then show_int diffMon @ ''mo ago''
                  else show_int (round_div diffMon 12) @ ''y ago'')))))"

definition formatIDR :: "intl \<Rightarrow> rat \<Rightarrow> string" where
  "formatIDR i v =
     number_format i ''id-ID''
       [(''style'', JStr ''currency''), (''currency'', JStr ''IDR''), (''maximumFractionDigits'', JNum 0)] v"

definition formatNumber :: "intl \<Rightarrow> rat \<Rightarrow> string" where
  "formatNumber i v = number_format i ''id-ID'' [] v"

text \<open>\<open>x % k\<close> of a non-negative number.\<close>

definition rat_mod :: "rat \<Rightarrow> int \<Rightarrow> rat" where
  "rat_mod x k = x - of_int (k * \<lfloor>x / of_int k\<rfloor>)"

definition formatDuration :: "rat \<Rightarrow> string" where
  "formatDuration totalMinutes =
     (if totalMinutes \<le> 0 then ''0m''
      else
        (let days = \<lfloor>totalMinutes / (60 * 24)\<rfloor>;
             hours = \<lfloor>rat_mod totalMinutes (60 * 24) / 60\<rfloor>;
             minutes = \<lfloor>rat_mod totalMinutes 60\<rfloor>
         in if 0 < days then show_int days @ ''d '' @ show_int hours @ ''h '' @ show_int minutes @ ''m''
            else if 0 < hours then show_int hours @ ''h '' @ show_int minutes @ ''m''
            else show_int minutes @ ''m''))"

definition formatDateTime :: "intl \<Rightarrow> int \<Rightarrow> string" where
  "formatDateTime i date = date_format i ''id-ID'' [(''dateStyle'', JStr ''short''), (''timeStyle'', JStr ''medium'')] date"

definition formatDate :: "intl \<Rightarrow> int \<Rightarrow> string" where
  "formatDate i date = date_format i ''id-ID'' [(''dateStyle'', JStr ''medium'')] date"

definition formatTime :: "intl \<Rightarrow> int \<Rightarrow> string" where
  "formatTime i date = date_format i ''id-ID'' [(''timeStyle'', JStr ''medium'')] date"

section \<open>RouterOS values\<close>

text \<open>An optional string is \<open>None\<close> when the field is missing or \<open>null\<close>.\<close>

definition parseRouterOSNumber :: "string option \<Rightarrow> rat" where
  "parseRouterOSNumber s =
     (case s of None \<Rightarrow> 0 | Some t \<Rightarrow> if t = [] then 0 else or_else (StringToNumber t) 0)"

text \<open>\<open>Math.floor(Math.log10(n) / 3)\<close> of a positive number: one less than the number of digits in base 1000.\<close>

fun digits1000 :: "nat \<Rightarrow> nat" where
  "digits1000 n = (if n < 1000 then 1 else Suc (digits1000 (n div 1000)))"

declare digits1000.simps [simp del]

definition log1000 :: "rat \<Rightarrow> int" where
  "log1000 n =
     (if 1 \<le> n then int (digits1000 (nat \<lfloor>n\<rfloor>)) - 1 else - int (digits1000 (nat (\<lceil>1 / n\<rceil> - 1))))"

definition byte_units :: "string list" where
  "byte_units = [''B'', ''KB'', ''MB'', ''GB'', ''TB'']"

definition pow10 :: "int \<Rightarrow> rat" where
  "pow10 k = (if 0 \<le> k then 10 ^ nat k else 1 / 10 ^ nat (- k))"

definition hotspot_formatBytes :: "rat \<Rightarrow> string" where
  "hotspot_formatBytes n =
     (if n \<le> 0 then ''0 B''
      else
        (let i = min (int (length byte_units) - 1) (log1000 n);
             v = n / pow10 (i * 3);
             precision = (if i \<le> 2 then 2 else 1)
         in toFixed precision v @ '' '' @ (if 0 \<le> i then byte_units ! nat i else ''undefined'')))"

definition em_dash :: string where
  "em_dash = [char_of (226 :: nat), char_of (128 :: nat), char_of (148 :: nat)]"

definition formatUptime :: "string option \<Rightarrow> string" where
  "formatUptime s = (case s of None \<Rightarrow> em_dash | Some t \<Rightarrow> if t = [] then em_dash else t)"

definition routerOSBool :: "string option \<Rightarrow> bool" where
  "routerOSBool v = (v = Some ''true'')"

section \<open>State derived from RouterOS strings\<close>

definition MONTH_INDEX :: "(string \<times> int) list" where
  "MONTH_INDEX = [(''jan'', 0), (''feb'', 1), (''mar'', 2), (''apr'', 3), (''may'', 4), (''jun'', 5),
     (''jul'', 6), (''aug'', 7), (''sep'', 8), (''oct'', 9), (''nov'', 10), (''dec'', 11)]"

definition is_letter :: "char \<Rightarrow> bool" where
  "is_letter c = ((65 \<le> code_of c \<and> code_of c \<le> 90) \<or> (97 \<le> code_of c \<and> code_of c \<le> 122))"

text \<open>\<^verbatim>\<open>\d{1,2}\<close>, and \<^verbatim>\<open>\s+\<close> with what follows. In the pattern neither is followed by a character it could take.\<close>

definition digits_1_2 :: "string \<Rightarrow> (int \<times> string) option" where
  "digits_1_2 s =
     (let ds = takeWhile is_digit (take 2 s) in
      if ds = [] then None else Some (int (read_digits ds), drop (length ds) s))"

definition spaces :: "string \<Rightarrow> string option" where
  "spaces s = (if s \<noteq> [] \<and> is_ws (hd s) then Some (dropWhile is_ws s) else None)"

definition EXPIRY_RE :: "string \<Rightarrow> (string \<times> int \<times> int \<times> int \<times> int \<times> int) option" where
  "EXPIRY_RE s =
     (let mon = take 3 s in
      if length mon = 3 \<and> list_all is_letter mon
      then do { r \<leftarrow> expect CHR ''/'' (drop 3 s);
                (day, r) \<leftarrow> digits_1_2 r; r \<leftarrow> expect CHR ''/'' r;
                (year, r) \<leftarrow> digits_n 4 r; r \<leftarrow> spaces r;
                (hour, r) \<leftarrow> digits_1_2 r; r \<leftarrow> expect CHR '':'' r;
                (minute, r) \<leftarrow> digits_1_2 r; r \<leftarrow> expect CHR '':'' r;
                (second, r) \<leftarrow> digits_1_2 r; r \<leftarrow> spaces r;
                if r \<noteq> [] \<and> hd r \<in> set ''NXnx'' then Some (mon, day, year, hour, minute, second) else None }
      else None)"

text \<open>A time value is valid within a hundred million days of the epoch.\<close>

definition valid_time :: "int \<Rightarrow> bool" where
  "valid_time t = (\<bar>t\<bar> \<le> 8640000000000000)"

definition parseExpiryFromComment :: "zone \<Rightarrow> string option \<Rightarrow> int option" where
  "parseExpiryFromComment z comment =
     (case comment of
        None \<Rightarrow> None
      | Some c \<Rightarrow>
          (if c = [] then None
           else
             do { (mon, day, year, hour, minute, second) \<leftarrow> EXPIRY_RE (js_trim c);
                  month \<leftarrow> map_of MONTH_INDEX (toLowerCase mon);
                  let d = new_Date z year month day hour minute second
                  in if valid_time d then Some d else None }))"

definition hasExpiredMonitor :: "string option \<Rightarrow> bool" where
  "hasExpiredMonitor onLogin =
     (case onLogin of
        None \<Rightarrow> False
      | Some s \<Rightarrow> s \<noteq> [] \<and> js_includes s ('':put ('' @ [char_of (34 :: nat)] @ '',''))"

section \<open>The customer portal\<close>

record StatusInfo =
  si_label :: string
  si_variant :: string

definition status_info :: "string \<Rightarrow> string \<Rightarrow> StatusInfo" where
  "status_info l v = \<lparr>si_label = l, si_variant = v\<rparr>"

definition invoiceStatusMap :: "(string \<times> StatusInfo) list" where
  "invoiceStatusMap =
     [(''issued'', status_info ''Belum Bayar'' ''idle''), (''overdue'', status_info ''Terlambat'' ''expired''),
      (''paid'', status_info ''Lunas'' ''online''), (''draft'', status_info ''Draft'' ''offline''),
      (''cancelled'', status_info ''Batal'' ''offline'')]"

definition subStatusMap :: "(string \<times> StatusInfo) list" where
  "subStatusMap =
     [(''active'', status_info ''Aktif'' ''online''), (''isolir'', status_info ''Terisolir'' ''idle''),
      (''suspended'', status_info ''Diblokir'' ''expired''), (''pending_install'', status_info ''Menunggu Pemasangan'' ''offline''),
      (''terminated'', status_info ''Berhenti'' ''offline'')]"

definition paymentStatusMap :: "(string \<times> StatusInfo) list" where
  "paymentStatusMap =
     [(''pending'', status_info ''Menunggu'' ''idle''), (''confirmed'', status_info ''Terkonfirmasi'' ''online''),
      (''rejected'', status_info ''Ditolak'' ''expired'')]"

definition paymentMethodMap :: "(string \<times> string) list" where
  "paymentMethodMap =
     [(''cash'', ''Tunai''), (''transfer'', ''Transfer Bank''), (''portal'', ''Upload Bukti''),
      (''gateway'', ''Online Gateway'')]"

definition invoiceStatus :: "string \<Rightarrow> StatusInfo" where
  "invoiceStatus s = or_else (map_of invoiceStatusMap s) (status_info s ''secondary'')"

definition subStatus :: "string \<Rightarrow> StatusInfo" where
  "subStatus s = or_else (map_of subStatusMap s) (status_info s ''secondary'')"

definition paymentStatus :: "string \<Rightarrow> StatusInfo" where
  "paymentStatus s = or_else (map_of paymentStatusMap s) (status_info s ''secondary'')"

definition paymentMethod :: "string \<Rightarrow> string" where
  "paymentMethod m = or_else (map_of paymentMethodMap m) m"

text \<open>Formatting an invalid date throws a \<open>RangeError\<close> (\<open>None\<close>).\<close>

definition formatPeriod :: "intl \<Rightarrow> zone \<Rightarrow> string \<Rightarrow> string \<Rightarrow> string option" where
  "formatPeriod i z start end =
     do { s \<leftarrow> parse_Date z start; e \<leftarrow> parse_Date z end;
          let opts = [(''month'', JStr ''long''), (''year'', JStr ''numeric'')];
              fmtS = date_format i ''id-ID'' opts s; fmtE = date_format i ''id-ID'' opts e
          in Some (if fmtS = fmtE then fmtS
                   else fmtS @ '' '' @ [char_of (226 :: nat), char_of (128 :: nat), char_of (147 :: nat)] @ '' '' @ fmtE) }"

definition formatIDDate :: "intl \<Rightarrow> zone \<Rightarrow> string option \<Rightarrow> string option" where
  "formatIDDate i z date =
     (case date of
        None \<Rightarrow> Some em_dash
      | Some s \<Rightarrow>
          if s = [] then Some em_dash
          else map_option (date_format i ''id-ID'' [(''dateStyle'', JStr ''medium'')]) (parse_Date z s))"

definition isDueSoon :: "zone \<Rightarrow> int \<Rightarrow> string \<Rightarrow> bool" where
  "isDueSoon z now dueDateIso =
     (case parse_Date z dueDateIso of
        None \<Rightarrow> False
      | Some due \<Rightarrow> let diffMs = due - now in 0 < diffMs \<and> diffMs < 3 * 24 * 60 * 60 * 1000)"

section \<open>Reports\<close>

definition MONTH_NAMES :: "string list" where
  "MONTH_NAMES =
     [''January'', ''February'', ''March'', ''April'', ''May'', ''June'', ''July'', ''August'',
      ''September'', ''October'', ''November'', ''December'']"

definition SHORT_MONTH_NAMES :: "string list" where
  "SHORT_MONTH_NAMES =
     [''Jan'', ''Feb'', ''Mar'', ''Apr'', ''May'', ''Jun'', ''Jul'', ''Aug'', ''Sep'', ''Oct'', ''Nov'', ''Dec'']"

definition dateToDailyParam :: "zone \<Rightarrow> int \<Rightarrow> string" where
  "dateToDailyParam z date =
     show_int (getFullYear z date) @ ''-''
     @ padStart 2 CHR ''0'' (show_int (getMonth z date + 1)) @ ''-''
     @ padStart 2 CHR ''0'' (show_int (getDate z date))"

definition daysInMonth :: "zone \<Rightarrow> int \<Rightarrow> int \<Rightarrow> int" where
  "daysInMonth z year month = getDate z (new_Date z year (month + 1) 0 0 0 0)"

section \<open>Routers\<close>

definition plural :: "int \<Rightarrow> string" where
  "plural n = (if 1 < n then ''s'' else [])"

text \<open>A date that cannot be read makes every comparison false and the months \<open>NaN\<close>.\<close>

definition routers_formatRelativeTime :: "zone \<Rightarrow> int \<Rightarrow> string option \<Rightarrow> string" where
  "routers_formatRelativeTime z now dateStr =
     (if dateStr = None \<or> dateStr = Some [] then ''Never''
      else
        (case parse_Date z (the dateStr) of
           None \<Rightarrow> ''NaN month ago''
         | Some seen \<Rightarrow>
             (let diff = now - seen in
              if diff < 0 then ''Just now''
              else if diff < 60000 then ''Just now''
              else
                (let minutes = diff div 60000 in
                 if minutes < 60 then show_int minutes @ '' min ago''
                 else
                   (let hours = minutes div 60 in
                    if hours < 24 then show_int hours @ '' hour'' @ plural hours @ '' ago''
                    else
                      (let days = hours div 24 in
                       if days < 30 then show_int days @ '' day'' @ plural days @ '' ago''
                       else
                         (let months = days div 30 in
                          show_int months @ '' month'' @ plural months @ '' ago'')))))))"

section \<open>Relative times and durations\<close>

lemma round_div_ge_1: "0 < k \<Longrightarrow> k \<le> n \<Longrightarrow> 1 \<le> round_div n k"
proof -
  assume k: "0 < k" "k \<le> n"
  then have "1 \<le> (of_int n / of_int k :: rat)" by (simp add: le_divide_eq)
  then show ?thesis by (simp add: round_div_def js_round_def le_floor_iff)
qed

lemma floor_div:
  fixes x :: rat
  assumes "0 < k"
  shows "\<lfloor>x / of_int k\<rfloor> = \<lfloor>x\<rfloor> div k"
proof (rule floor_unique)
  let ?q = "\<lfloor>x\<rfloor> div k"
  have 1: "?q * k \<le> \<lfloor>x\<rfloor>" "\<lfloor>x\<rfloor> + 1 \<le> (?q + 1) * k"
    using div_bounds [OF assms, of "\<lfloor>x\<rfloor>"] by (simp_all add: algebra_simps)
  have "of_int (?q * k) \<le> x" using 1(1) by (simp only: le_floor_iff)
  then show "of_int ?q \<le> x / of_int k" using assms by (simp add: le_divide_eq)
  have "x < of_int (\<lfloor>x\<rfloor> + 1)" using floor_correct [of x] by blast
  also have "of_int (\<lfloor>x\<rfloor> + 1) \<le> (of_int ((?q + 1) * k) :: rat)" using 1(2) by (simp only: of_int_le_iff)
  finally show "x / of_int k < of_int ?q + 1" using assms by (simp add: divide_less_eq)
qed

lemma floor_rat_mod: "0 < k \<Longrightarrow> \<lfloor>rat_mod x k\<rfloor> = \<lfloor>x\<rfloor> mod k"
  by (simp only: rat_mod_def floor_diff_of_int floor_div minus_mult_div_eq_mod)

lemma duration_parts:
  shows "\<lfloor>x / (60 * 24)\<rfloor> = \<lfloor>x\<rfloor> div 1440" "\<lfloor>rat_mod x (60 * 24) / 60\<rfloor> = \<lfloor>x\<rfloor> mod 1440 div 60"
    "\<lfloor>rat_mod x 60\<rfloor> = \<lfloor>x\<rfloor> mod 60"
  using floor_div [of 1440 x] floor_div [of 60 "rat_mod x 1440"] by (simp_all add: floor_rat_mod)

text \<open>The parts a relative time and a duration are made of, and what they are allowed to be.\<close>

definition relative_time_range :: "(string \<times> int \<times> int) list" where
  "relative_time_range =
     [(''s ago'', 5, 59), (''m ago'', 1, 59), (''h ago'', 1, 23), (''d ago'', 1, 29), (''mo ago'', 1, 11)]"

lemma duration_split: "t div 1440 * 1440 + t mod 1440 div 60 * 60 + t mod 60 = t" for t :: int
proof -
  have "t mod 60 = t mod 1440 mod 60" by (simp add: mod_mod_cancel)
  then show ?thesis by (metis div_mult_mod_eq add.assoc)
qed

definition show_duration :: "int \<Rightarrow> int \<Rightarrow> int \<Rightarrow> string" where
  "show_duration d h m =
     (if 0 < d then show_int d @ ''d '' else []) @ (if 0 < d \<or> 0 < h then show_int h @ ''h '' else []) @ show_int m @ ''m''"

lemma formatDuration_parts:
  assumes "0 < x"
  shows "\<exists>d h m. 0 \<le> d \<and> 0 \<le> h \<and> h < 24 \<and> 0 \<le> m \<and> m < 60 \<and> d * 1440 + h * 60 + m = \<lfloor>x\<rfloor>
     \<and> formatDuration x = show_duration d h m"
proof -
  define d h m where "d = \<lfloor>x\<rfloor> div 1440" and "h = \<lfloor>x\<rfloor> mod 1440 div 60" and "m = \<lfloor>x\<rfloor> mod 60"
  have "0 \<le> \<lfloor>x\<rfloor>" using assms by simp
  then have "0 \<le> d" "0 \<le> h" unfolding d_def h_def by (simp_all add: pos_imp_zdiv_nonneg_iff)
  moreover have "h < 24" "0 \<le> m" "m < 60" unfolding h_def m_def by simp_all
  moreover have "d * 1440 + h * 60 + m = \<lfloor>x\<rfloor>" unfolding d_def h_def m_def by (rule duration_split)
  moreover have "formatDuration x = show_duration d h m"
    using assms \<open>0 \<le> d\<close> unfolding formatDuration_def duration_parts Let_def d_def [symmetric] h_def [symmetric] m_def [symmetric]
    by (simp add: show_duration_def)
  ultimately show ?thesis by blast
qed

lemma formatRelativeTime_range:
  "formatRelativeTime date now = ''just now''
     \<or> (\<exists>(u, lo, hi) \<in> set relative_time_range. \<exists>k. lo \<le> k \<and> k \<le> hi \<and> formatRelativeTime date now = show_int k @ u)
     \<or> (\<exists>k. 1 \<le> k \<and> formatRelativeTime date now = show_int k @ ''y ago'')"
proof -
  let ?s = "round_div (now - date) 1000"
  let ?m = "round_div ?s 60"
  let ?h = "round_div ?m 60"
  let ?d = "round_div ?h 24"
  let ?mo = "round_div ?d 30"
  have "60 \<le> ?s \<Longrightarrow> 1 \<le> ?m" "60 \<le> ?m \<Longrightarrow> 1 \<le> ?h" "24 \<le> ?h \<Longrightarrow> 1 \<le> ?d" "30 \<le> ?d \<Longrightarrow> 1 \<le> ?mo"
    "12 \<le> ?mo \<Longrightarrow> 1 \<le> round_div ?mo 12"
    by (simp_all add: round_div_ge_1)
  then show ?thesis
    unfolding formatRelativeTime_def Let_def relative_time_range_def by (auto simp: not_less)
qed

text \<open>
  C. What the relative time of \<^verbatim>\<open>lib/format.ts\<close> shows is never out of the range of its unit (no
  \<open>0m ago\<close> and no \<open>60m ago\<close>, in spite of the rounding at every step), and a duration is the
  whole minutes in days, hours below 24 and minutes below 60, with leading zero parts left out.
\<close>

theorem times_in_range:
  "(formatRelativeTime date now = ''just now''
     \<or> (\<exists>(u, lo, hi) \<in> set relative_time_range. \<exists>k. lo \<le> k \<and> k \<le> hi \<and> formatRelativeTime date now = show_int k @ u)
     \<or> (\<exists>k. 1 \<le> k \<and> formatRelativeTime date now = show_int k @ ''y ago''))
   \<and> (0 < x \<longrightarrow> (\<exists>d h m. 0 \<le> d \<and> 0 \<le> h \<and> h < 24 \<and> 0 \<le> m \<and> m < 60 \<and> d * 1440 + h * 60 + m = \<lfloor>x\<rfloor>
         \<and> formatDuration x = show_duration d h m))"
  using formatRelativeTime_range [of date now] formatDuration_parts [of x] by blast

theorem times_in_range_witness:
  "formatRelativeTime 0 3570000 = ''1h ago'' \<and> (\<exists>d h m. 0 \<le> d \<and> 0 \<le> h \<and> h < 24 \<and> 0 \<le> m \<and> m < 60 \<and> d * 1440 + h * 60 + m = \<lfloor>1500 :: rat\<rfloor>
     \<and> formatDuration 1500 = show_duration d h m)"
proof
  show "formatRelativeTime 0 3570000 = ''1h ago''" by code_simp
qed (use times_in_range [of 0 3570000 1500] in simp)

section \<open>Bytes\<close>

lemma digits1000_bounds: "1 \<le> n \<Longrightarrow> 1000 ^ (digits1000 n - 1) \<le> n \<and> n < 1000 ^ digits1000 n"
proof (induction n rule: digits1000.induct)
  case (1 n)
  show ?case
  proof (cases "n < 1000")
    case True
    then show ?thesis using 1 by (simp add: digits1000.simps)
  next
    case False
    then have IH: "1000 ^ (digits1000 (n div 1000) - 1) \<le> n div 1000" "n div 1000 < 1000 ^ digits1000 (n div 1000)"
      using 1 by auto
    have pos: "0 < digits1000 (n div 1000)" by (subst digits1000.simps) simp
    have eq: "digits1000 n = Suc (digits1000 (n div 1000))" using False by (subst digits1000.simps) simp
    have "1000 ^ digits1000 (n div 1000) = 1000 * (1000::nat) ^ (digits1000 (n div 1000) - 1)"
      using pos by (cases "digits1000 (n div 1000)") auto
    with IH eq show ?thesis by (simp add: less_eq_div_iff_mult_less_eq div_less_iff_less_mult mult.commute)
  qed
qed

lemma pow10_1000: "pow10 (int k * 3) = 1000 ^ k"
proof -
  have "nat (int k * 3) = 3 * k" by simp
  then show ?thesis by (simp add: pow10_def power_mult)
qed

lemma log1000_bounds:
  assumes "1 \<le> n"
  obtains k where "log1000 n = int k" "1000 ^ k \<le> n" "n < 1000 ^ Suc k"
proof -
  let ?m = "nat \<lfloor>n\<rfloor>"
  have m: "1 \<le> ?m" using assms by (simp add: le_nat_iff le_floor_iff)
  have pos: "0 < digits1000 ?m" by (subst digits1000.simps) simp
  have le: "of_nat ?m \<le> n" "n < of_nat ?m + 1"
    using assms by (simp_all add: of_nat_floor) linarith
  let ?k = "digits1000 ?m - 1"
  have "(of_nat (1000 ^ ?k) :: rat) \<le> of_nat ?m" "(of_nat (?m + 1) :: rat) \<le> of_nat (1000 ^ Suc ?k)"
    using digits1000_bounds [OF m] pos unfolding of_nat_le_iff by (simp_all add: Suc_le_eq del: power_Suc)
  with le have "1000 ^ ?k \<le> n" "n < 1000 ^ Suc ?k"
    unfolding of_nat_power of_nat_numeral of_nat_add of_nat_1 by (metis order_trans, metis order_less_le_trans)
  moreover have "log1000 n = int ?k" using assms pos by (simp add: log1000_def)
  ultimately show ?thesis using that by blast
qed

lemma byte_unit:
  assumes "1 \<le> n"
  shows "\<exists>k < length byte_units. 1000 ^ k \<le> n \<and> (n < 1000 ^ Suc k \<or> Suc k = length byte_units)
    \<and> hotspot_formatBytes n = toFixed (if k \<le> 2 then 2 else 1) (n / 1000 ^ k) @ '' '' @ byte_units ! k"
proof -
  obtain k where k: "log1000 n = int k" "1000 ^ k \<le> n" "n < 1000 ^ Suc k"
    using log1000_bounds [OF assms] .
  have l: "length byte_units = 5" by (simp add: byte_units_def)
  let ?j = "min 4 k"
  have "1000 ^ ?j \<le> (1000 ^ k :: rat)" by (rule power_increasing) auto
  moreover have "min 4 (int k) = int ?j" by simp
  moreover from calculation(1) k(2) have "1000 ^ ?j \<le> n" by (rule order_trans)
  ultimately show ?thesis using k assms pow10_1000 [of ?j]
    by (intro exI [of _ ?j]) (auto simp: hotspot_formatBytes_def Let_def l)
qed

section \<open>Expiry\<close>

lemma takeWhile_digits:
  "list_all is_digit ds \<Longrightarrow> r = [] \<or> \<not> is_digit (hd r) \<Longrightarrow> takeWhile is_digit (take n (ds @ r)) = take n ds"
proof (induction ds arbitrary: n)
  case Nil
  then show ?case by (cases r; cases n) auto
next
  case (Cons d ds)
  then show ?case by (cases n) auto
qed

lemma digits_1_2_read:
  assumes "list_all is_digit ds" "ds \<noteq> []" "length ds \<le> 2" "r = [] \<or> \<not> is_digit (hd r)"
  shows "digits_1_2 (ds @ r) = Some (int (read_digits ds), r)"
  using assms takeWhile_digits [of ds r 2] by (simp add: digits_1_2_def)

lemma digits_n_read: "list_all is_digit ds \<Longrightarrow> length ds = n \<Longrightarrow> digits_n n (ds @ r) = Some (int (read_digits ds), r)"
  by (simp add: digits_n_def)

text \<open>A number below a hundred, with or without a leading zero, as one or two digits.\<close>

definition field2 :: "string \<Rightarrow> int \<Rightarrow> bool" where
  "field2 ds n = (list_all is_digit ds \<and> ds \<noteq> [] \<and> length ds \<le> 2 \<and> int (read_digits ds) = n)"

lemma field2_read: "field2 ds n \<Longrightarrow> r = [] \<or> \<not> is_digit (hd r) \<Longrightarrow> digits_1_2 (ds @ r) = Some (n, r)"
  by (auto simp: field2_def digits_1_2_read)

definition comment_text :: "string \<Rightarrow> string \<Rightarrow> string \<Rightarrow> string \<Rightarrow> string \<Rightarrow> string \<Rightarrow> string \<Rightarrow> string" where
  "comment_text mon dd yyyy hh mm ss flag =
     mon @ ''/'' @ dd @ ''/'' @ yyyy @ '' '' @ hh @ '':'' @ mm @ '':'' @ ss @ '' '' @ flag"

lemma not_digit_simps [simp]: "\<not> is_digit CHR ''/''" "\<not> is_digit CHR '':''" "\<not> is_digit CHR '' ''"
  "is_ws CHR '' ''"
  by (simp_all add: is_digit_def is_ws_def code_of_def)

lemma spaces_one: "r \<noteq> [] \<Longrightarrow> \<not> is_ws (hd r) \<Longrightarrow> spaces (CHR '' '' # r) = Some r"
  by (cases r) (simp_all add: spaces_def)

lemma field2_hd: "field2 ds n \<Longrightarrow> ds \<noteq> [] \<and> \<not> is_ws (hd ds)"
  by (cases ds) (auto simp: field2_def digit_not_ws)

lemma EXPIRY_RE_comment:
  assumes mon: "length mon = 3" "list_all is_letter mon" and dd: "field2 dd d"
    and yyyy: "length yyyy = 4" "list_all is_digit yyyy" "int (read_digits yyyy) = y"
    and t: "field2 hh h" "field2 mm m" "field2 ss s" and flag: "flag \<noteq> []" "hd flag \<in> set ''NX''"
  shows "EXPIRY_RE (comment_text mon dd yyyy hh mm ss flag) = Some (mon, d, y, h, m, s)"
proof -
  have f: "\<not> is_ws (hd flag)" "hd flag \<in> set ''NXnx''" using flag by (auto simp: is_ws_def code_of_def)
  have 1: "digits_1_2 (dd @ CHR ''/'' # r) = Some (d, CHR ''/'' # r)"
    "digits_1_2 (hh @ CHR '':'' # r) = Some (h, CHR '':'' # r)"
    "digits_1_2 (mm @ CHR '':'' # r) = Some (m, CHR '':'' # r)"
    "digits_1_2 (ss @ CHR '' '' # r) = Some (s, CHR '' '' # r)" for r
    using dd t by (simp_all add: field2_read)
  have 2: "digits_n 4 (yyyy @ r) = Some (y, r)" for r using yyyy digits_n_read by metis
  have 3: "spaces (CHR '' '' # hh @ r) = Some (hh @ r)" for r
    using field2_hd [OF t(1)] by (simp add: spaces_one)
  have 4: "spaces (CHR '' '' # flag) = Some flag" using flag f by (simp add: spaces_one)
  show ?thesis
    unfolding EXPIRY_RE_def comment_text_def Let_def using mon flag f by (simp add: 1 2 3 4)
qed

lemma js_trim_id: "s = [] \<or> (\<not> is_ws (hd s) \<and> \<not> is_ws (last s)) \<Longrightarrow> js_trim s = s"
  by (cases "s = []") (simp_all add: js_trim_def dropWhile_id hd_rev)

lemma letter_not_ws: "is_letter c \<Longrightarrow> \<not> is_ws c"
  by (auto simp: is_letter_def is_ws_def)

text \<open>The local components of a date made of components that exist, unless the zone skips that time.\<close>

definition wall :: "int \<Rightarrow> int \<Rightarrow> int \<Rightarrow> int \<Rightarrow> int \<Rightarrow> int \<Rightarrow> int" where
  "wall y mo d h m s = make_day (full_year y) mo d * msPerDay + make_time h m s"

definition shown_at :: "zone \<Rightarrow> int \<Rightarrow> bool" where
  "shown_at z t = (local_time z (utc_time z t) = t)"

lemma new_Date_wall: "new_Date z y mo d h m s = utc_time z (wall y mo d h m s)"
  by (simp add: new_Date_def wall_def)

lemma wall_day:
  assumes "0 \<le> h" "h < 24" "0 \<le> m" "m < 60" "0 \<le> s" "s < 60"
  shows "wall y mo d h m s div msPerDay = make_day (full_year y) mo d"
proof -
  have "0 \<le> make_time h m s" "make_time h m s < msPerDay"
    using assms by (simp_all add: make_time_def msPerDay_def)
  then show ?thesis by (simp add: wall_def div_pos_pos_trivial msPerDay_def)
qed

lemma getters_new_Date:
  assumes "shown_at z (wall y mo d h m s)" and "0 \<le> h" "h < 24" "0 \<le> m" "m < 60" "0 \<le> s" "s < 60"
    and "civil (make_day (full_year y) mo d) = (y', mo', d')"
  shows "getFullYear z (new_Date z y mo d h m s) = y' \<and> getMonth z (new_Date z y mo d h m s) = mo'
    \<and> getDate z (new_Date z y mo d h m s) = d'"
  using assms wall_day
  by (simp add: getFullYear_def getMonth_def getDate_def local_day_def new_Date_wall shown_at_def)

lemma fixed_zone_shown [simp]: "shown_at (fixed_zone offset) t"
  by (simp add: shown_at_def fixed_zone_def)

lemma daysInMonth_calendar:
  assumes "0 \<le> month" "month < 12" "shown_at z (wall year (month + 1) 0 0 0 0)"
  shows "daysInMonth z year month = month_length (full_year year) (nat month)"
proof -
  let ?y = "full_year year"
  have "civil (make_day ?y (month + 1) 0) = (?y, month, month_length ?y (nat month))"
    using assms month_length_pos [of ?y "nat month"] by (simp add: make_day_next_month civil_make_day)
  with getters_new_Date [OF assms(3)] show ?thesis by (simp add: daysInMonth_def)
qed



end
