(* ===== verification/Forms.thy ===== *)
theory Forms
  imports Formats Api_Request
begin

text \<open>
  What the forms and dialogs of the pages have in common: what they show (toasts, closing, going to
  another page), the submission of a form (the mutation it starts with what happens when it succeeds or
  fails), zod's issues, and TypeScript's object types with a check that a value has a type.

  The interface every drawer and dialog keeps is the locale \<open>dialog_form\<close>: nothing is sent when the
  form is not valid; success tells the user and closes; a failure shows one error and leaves the form
  open. The theories of the pages interpret it.
\<close>

section \<open>What the user sees\<close>

datatype ui_event =
    Success string js
  | Failure string js
  | Info string js
  | Warning string js
  | FieldError string js
  | NextStep js
  | Close
  | Navigate string
  | Download string

text \<open>\<open>err instanceof Error ? err.message : String(err)\<close>, and the variants with a text of their own.\<close>

definition error_text :: "thrown \<Rightarrow> js" where
  "error_text e =
     (case e of
        AxiosErr a \<Rightarrow> JStr (ax_message a)
      | NativeErr v \<Rightarrow> JStr (if v = JUndef then [] else js_String v)
      | Thrown v \<Rightarrow> JStr (js_String v))"

definition error_or :: "string \<Rightarrow> thrown \<Rightarrow> js" where
  "error_or d e = (case e of Thrown v \<Rightarrow> JStr d | _ \<Rightarrow> error_text e)"

text \<open>\<open>err.message\<close> where the error is taken for an \<open>Error\<close>.\<close>

definition err_message :: "thrown \<Rightarrow> js" where
  "err_message e = (case e of Thrown v \<Rightarrow> js_optget v ''message'' | _ \<Rightarrow> error_text e)"

definition quote :: "string \<Rightarrow> string" where
  "quote s = [char_of (39 :: nat)] @ s @ [char_of (39 :: nat)]"

section \<open>Submissions\<close>

record submission =
  sub_mutation :: mutation
  on_done :: "js \<Rightarrow> ui_event list"
  on_failed :: "thrown \<Rightarrow> ui_event list"

definition settle :: "submission \<Rightarrow> thrown + js \<Rightarrow> ui_event list" where
  "settle s r = (case r of Inl e \<Rightarrow> on_failed s e | Inr v \<Rightarrow> on_done s v)"

definition request_body :: "submission \<Rightarrow> js" where
  "request_body s = rq_body (m_fn (sub_mutation s))"

type_synonym issue = "string \<times> string"

text \<open>\<open>form.handleSubmit(onSubmit)\<close> with a zod resolver.\<close>

definition handleSubmit :: "('v \<Rightarrow> issue list) \<Rightarrow> ('v \<Rightarrow> 'a) \<Rightarrow> 'v \<Rightarrow> issue list + 'a" where
  "handleSubmit schema onSubmit values = (case schema values of [] \<Rightarrow> Inr (onSubmit values) | es \<Rightarrow> Inl es)"

lemma handleSubmit_simps:
  "handleSubmit schema onSubmit v = Inr a \<longleftrightarrow> schema v = [] \<and> onSubmit v = a"
  "handleSubmit schema onSubmit v = Inl es \<longleftrightarrow> schema v = es \<and> es \<noteq> []"
  by (auto simp: handleSubmit_def split: list.splits)

definition z_min1 :: "string \<Rightarrow> string \<Rightarrow> string \<Rightarrow> issue list" where
  "z_min1 field message s = (if s = [] then [(field, message)] else [])"

definition z_when :: "bool \<Rightarrow> string \<Rightarrow> string \<Rightarrow> issue list" where
  "z_when bad field message = (if bad then [(field, message)] else [])"

lemma z_min1_Nil [simp]: "z_min1 f m s = [] \<longleftrightarrow> s \<noteq> []"
  by (simp add: z_min1_def)

lemma z_when_Nil [simp]: "z_when b f m = [] \<longleftrightarrow> \<not> b"
  by (simp add: z_when_def)

datatype form_mode = AddMode | EditMode

text \<open>\<open>s || undefined\<close>, \<open>s.trim() || undefined\<close>, \<open>Number(s)\<close> as a number.\<close>

definition str_or_undef :: "string \<Rightarrow> js" where
  "str_or_undef s = (if s = [] then JUndef else JStr s)"

definition to_number :: "string \<Rightarrow> rat" where
  "to_number s = or_else (StringToNumber s) 0"

text \<open>\<open>Number.isFinite(n) && n > 0 ? Math.round(n) : 0\<close>\<close>

definition positive_round :: "string \<Rightarrow> int" where
  "positive_round s = (case StringToNumber s of None \<Rightarrow> 0 | Some n \<Rightarrow> if 0 < n then js_round n else 0)"

definition bool_text :: "bool \<Rightarrow> string" where
  "bool_text b = (if b then ''true'' else ''false'')"

section \<open>The contract of a dialog\<close>

definition closes :: "ui_event list \<Rightarrow> bool" where
  "closes es = (Close \<in> set es)"

fun is_failure :: "ui_event \<Rightarrow> bool" where
  "is_failure (Failure _ _) = True"
| "is_failure (FieldError _ _) = True"
| "is_failure _ = False"

fun is_success :: "ui_event \<Rightarrow> bool" where
  "is_success (Success _ _) = True"
| "is_success _ = False"

definition reports :: "submission \<Rightarrow> bool" where
  "reports s =
     ((\<forall>e. length (on_failed s e) = 1 \<and> list_all is_failure (on_failed s e))
      \<and> (\<forall>v. \<not> list_ex is_failure (on_done s v)))"

definition well_behaved :: "submission \<Rightarrow> bool" where
  "well_behaved s = (reports s \<and> (\<forall>v. closes (on_done s v) \<and> list_ex is_success (on_done s v)))"

lemma reportsI:
  assumes "\<And>v. \<not> list_ex is_failure (on_done s v)" "\<And>e. \<exists>ev. on_failed s e = [ev] \<and> is_failure ev"
  shows "reports s"
proof -
  have "length (on_failed s e) = 1 \<and> list_all is_failure (on_failed s e)" for e
    using assms(2) [of e] by auto
  with assms(1) show ?thesis by (simp add: reports_def)
qed

lemma well_behavedI:
  assumes "\<And>v. \<exists>t d. on_done s v = [Success t d, Close]" "\<And>e. \<exists>t d. on_failed s e = [Failure t d]"
  shows "well_behaved s"
proof -
  have "closes (on_done s v) \<and> list_ex is_success (on_done s v) \<and> \<not> list_ex is_failure (on_done s v)" for v
    using assms(1) [of v] by (auto simp: closes_def)
  moreover have "\<exists>ev. on_failed s e = [ev] \<and> is_failure ev" for e
    using assms(2) [of e] by auto
  ultimately show ?thesis using reportsI [of s] by (simp add: well_behaved_def)
qed

locale reporting_form =
  fixes schema :: "'m \<Rightarrow> 'v \<Rightarrow> issue list"
    and onSubmit :: "'m \<Rightarrow> 'v \<Rightarrow> submission option"
  assumes reports: "onSubmit m v = Some s \<Longrightarrow> reports s"
begin

definition submit :: "'m \<Rightarrow> 'v \<Rightarrow> issue list + submission option" where
  "submit m v = handleSubmit (schema m) (onSubmit m) v"

lemma invalid_sends_nothing: "schema m v \<noteq> [] \<Longrightarrow> submit m v = Inl (schema m v)"
  by (simp add: submit_def handleSubmit_simps)

lemma sent_only_if_valid: "submit m v = Inr (Some s) \<Longrightarrow> schema m v = [] \<and> onSubmit m v = Some s"
  by (simp add: submit_def handleSubmit_simps)

lemma failure_reported: "submit m v = Inr (Some s) \<Longrightarrow> \<exists>ev. settle s (Inl e) = [ev] \<and> is_failure ev"
  using reports [of m v s] sent_only_if_valid [of m v s]
  by (fastforce simp: settle_def reports_def length_Suc_conv)

lemma failure_keeps_open: "submit m v = Inr (Some s) \<Longrightarrow> \<not> closes (settle s (Inl e))"
  using failure_reported [of m v s e] by (auto simp: closes_def)

end

locale dialog_form = reporting_form +
  assumes well_behaved: "onSubmit m v = Some s \<Longrightarrow> well_behaved s"
begin

lemma success_closes: "submit m v = Inr (Some s) \<Longrightarrow> closes (settle s (Inr r))"
  using well_behaved [of m v s] sent_only_if_valid [of m v s] by (auto simp: settle_def well_behaved_def)

lemma closes_iff_success: "submit m v = Inr (Some s) \<Longrightarrow> closes (settle s r) \<longleftrightarrow> (\<exists>x. r = Inr x)"
  using success_closes [of m v s] failure_keeps_open [of m v s] by (cases r) auto

end

lemma dialog_formI: "(\<And>m v s. onSubmit m v = Some s \<Longrightarrow> well_behaved s) \<Longrightarrow> dialog_form onSubmit"
  by unfold_locales (auto simp: well_behaved_def)

text \<open>
  A form without a schema checks its fields itself: it refuses with a message of its own (the left side), or has
  nothing to do (\<open>Inr None\<close>), or sends.
\<close>

fun is_message :: "ui_event \<Rightarrow> bool" where
  "is_message (Info _ _) = True"
| "is_message (Warning _ _) = True"
| "is_message e = (is_success e \<or> is_failure e)"

definition one_message :: "ui_event list \<Rightarrow> bool" where
  "one_message es = (length (filter is_message es) = 1)"

definition guarded :: "bool \<Rightarrow> string \<Rightarrow> ui_event list + 'a \<Rightarrow> ui_event list + 'a" where
  "guarded bad message rest = (if bad then Inl [Failure message JUndef] else rest)"

locale guarded_form =
  fixes handle :: "'m \<Rightarrow> 'v \<Rightarrow> ui_event list + submission option"
  assumes refusal: "handle m v = Inl es \<Longrightarrow> one_message es"
    and sent: "handle m v = Inr (Some s) \<Longrightarrow> reports s"
begin

lemma failure_explained: "handle m v = Inr (Some s) \<Longrightarrow> one_message (settle s (Inl e)) \<and> \<not> closes (settle s (Inl e))"
proof -
  assume "handle m v = Inr (Some s)"
  then obtain ev where "on_failed s e = [ev]" "is_failure ev"
    using sent by (fastforce simp: reports_def length_Suc_conv)
  then show ?thesis by (cases ev) (simp_all add: settle_def one_message_def closes_def)
qed

end

lemma guarded_simps [simp]:
  "guarded bad m rest = Inr x \<longleftrightarrow> \<not> bad \<and> rest = Inr x"
  "guarded bad m rest = Inl es \<longleftrightarrow> (if bad then es = [Failure m JUndef] else rest = Inl es)"
  by (auto simp: guarded_def)

lemma one_message_simps [simp]: "one_message [Failure t d]" "one_message [Info t d]" "one_message [Info t d, Close]"
  by (simp_all add: one_message_def)

section \<open>Types\<close>

text \<open>
  The object types of the API (inferred from zod schemas). An optional field may be missing or
  \<open>undefined\<close>; \<open>TNum\<close> is a finite number, \<open>TLit\<close> a union of string literals, \<open>TDict\<close> is \<open>Record<string, t>\<close>.
\<close>

datatype ts =
    TStr
  | TNum
  | TBool
  | TAny
  | TLit "string list"
  | TNullable ts
  | TArr ts
  | TDict ts
  | TObj "(string \<times> bool \<times> ts) list"

abbreviation req :: "string \<Rightarrow> ts \<Rightarrow> string \<times> bool \<times> ts" where
  "req k t \<equiv> (k, False, t)"

abbreviation optional :: "string \<Rightarrow> ts \<Rightarrow> string \<times> bool \<times> ts" where
  "optional k t \<equiv> (k, True, t)"

fun conforms :: "ts \<Rightarrow> js \<Rightarrow> bool"
  and conforms_fields :: "(string \<times> bool \<times> ts) list \<Rightarrow> (string \<times> js) list \<Rightarrow> bool"
where
  "conforms TStr v = (case v of JStr _ \<Rightarrow> True | _ \<Rightarrow> False)"
| "conforms TNum v = (case v of JNum _ \<Rightarrow> True | _ \<Rightarrow> False)"
| "conforms TBool v = (case v of JBool _ \<Rightarrow> True | _ \<Rightarrow> False)"
| "conforms TAny v = True"
| "conforms (TLit ls) v = (case v of JStr s \<Rightarrow> s \<in> set ls | _ \<Rightarrow> False)"
| "conforms (TNullable t) v = (v = JNull \<or> conforms t v)"
| "conforms (TArr t) v = (case v of JArr vs \<Rightarrow> list_all (conforms t) vs | _ \<Rightarrow> False)"
| "conforms (TDict t) v = (case v of JObj vs \<Rightarrow> list_all (\<lambda>(_, w). conforms t w) vs | _ \<Rightarrow> False)"
| "conforms (TObj fs) v =
     (case v of
        JObj vs \<Rightarrow> distinct (map fst vs) \<and> list_all (\<lambda>(k, _). k \<in> fst ` set fs) vs \<and> conforms_fields fs vs
      | _ \<Rightarrow> False)"
| "conforms_fields [] vs = True"
| "conforms_fields ((k, o', t) # fs) vs =
     ((case map_of vs k of None \<Rightarrow> o' | Some w \<Rightarrow> (o' \<and> w = JUndef) \<or> conforms t w) \<and> conforms_fields fs vs)"

text \<open>What goes over the wire: \<open>JSON.stringify\<close> leaves out fields that are \<open>undefined\<close>.\<close>

fun sent_field :: "js \<Rightarrow> string \<Rightarrow> js option" where
  "sent_field (JObj fs) k = (case map_of fs k of None \<Rightarrow> None | Some v \<Rightarrow> if v = JUndef then None else Some v)"
| "sent_field _ k = None"

lemma str_or_undef_simps [simp]:
  "(case str_or_undef s of JStr x \<Rightarrow> True | _ \<Rightarrow> False) \<longleftrightarrow> s \<noteq> []"
  "str_or_undef s = JUndef \<longleftrightarrow> s = []" "JUndef = str_or_undef s \<longleftrightarrow> s = []"
  "s \<noteq> [] \<Longrightarrow> str_or_undef s = JStr s" "str_or_undef [] = JUndef"
  by (auto simp: str_or_undef_def)

section \<open>Saving what was loaded\<close>

text \<open>
  A body keeps a stored record when every field that is sent has the value the record has.
\<close>

definition keeps :: "(string \<times> js) list \<Rightarrow> js \<Rightarrow> bool" where
  "keeps rec body =
     (case body of
        JObj fs \<Rightarrow> list_all (\<lambda>(k, v). v = JUndef \<or> map_of rec k = Some v) fs
      | _ \<Rightarrow> False)"

definition trimmed :: "string \<Rightarrow> bool" where
  "trimmed s = (js_trim s = s)"

lemma digits_trimmed: "list_all is_digit s \<Longrightarrow> s \<noteq> [] \<Longrightarrow> js_trim s = s"
  by (rule js_trim_id) (auto simp: list_all_iff digit_not_ws)

lemma second_char_digit:
  assumes "list_all is_digit s" "\<not> is_digit c"
  shows "toLowerCase (take 2 s) \<noteq> [CHR ''0'', c]"
proof
  assume "toLowerCase (take 2 s) = [CHR ''0'', c]"
  then obtain d where d: "d \<in> set (take 2 s)" "lower_char d = c"
    unfolding toLowerCase_def map_eq_Cons_conv by force
  then have "is_digit d" using assms(1) in_set_takeD by (metis list_all_iff)
  then have "lower_char d = d" by (auto simp: lower_char_def is_digit_def)
  with d \<open>is_digit d\<close> assms(2) show False by simp
qed

lemma StringToNumber_digits:
  assumes "list_all is_digit s" "s \<noteq> []"
  shows "StringToNumber s = Some (of_nat (read_digits s))"
proof -
  have h: "is_digit (hd s)" using assms by (simp add: list_all_iff)
  have d: "hd s \<noteq> CHR ''-''" "hd s \<noteq> CHR ''+''" using h by (auto simp del: is_digit_char)
  have r: "takeWhile is_digit s = s" "dropWhile is_digit s = []"
    using assms(1) by (auto simp: list_all_iff takeWhile_eq_all_conv dropWhile_eq_Nil_conv)
  have "read_decimal s = Some (of_nat (read_digits s))"
    using assms(2) by (simp add: read_decimal_def r Let_def json_exp_def read_digits_def [of "[]"])
  moreover have "toLowerCase (take 2 s) \<noteq> ''0x''" "toLowerCase (take 2 s) \<noteq> ''0o''" "toLowerCase (take 2 s) \<noteq> ''0b''"
    by (rule second_char_digit [OF assms(1)]; simp add: is_digit_def code_of_def)+
  ultimately show ?thesis
    using digits_trimmed [OF assms] d assms(2) by (simp add: StringToNumber_def Let_def)
qed

lemma StringToNumber_show_nat: "StringToNumber (show_nat n) = Some (of_nat n)"
  using show_nat_is_digit StringToNumber_digits [of "show_nat n"] by (auto simp: list_all_iff)

lemma StringToNumber_show_int: "0 \<le> n \<Longrightarrow> StringToNumber (show_int n) = Some (of_int n)"
  by (simp add: show_int_def StringToNumber_show_nat)

lemma js_round_int [simp]: "js_round (of_int n) = n"
  unfolding js_round_def by (rule floor_unique) simp_all

lemma positive_round_show: "0 \<le> n \<Longrightarrow> positive_round (show_int n) = n"
  by (auto simp: positive_round_def StringToNumber_show_int)

lemma positive_round_Nil [simp]: "positive_round [] = 0"
  by (simp add: positive_round_def StringToNumber_def js_trim_def)

end
