(* ===== verification/View_Models.thy ===== *)
theory View_Models
  imports Formats
begin

text \<open>
  The read models of the tables: \<^verbatim>\<open>features/hotspot/{users,profiles,active,hosts}/components/view-model.ts\<close>
  and \<^verbatim>\<open>features/routers/components/view-model.ts\<close>, over the records the API declares
  (\<^verbatim>\<open>api/schema.ts\<close> of each feature). A field that may be missing is an option.

\<close>

section \<open>Hotspot users\<close>

record HotspotUserRecord =
  hu_id :: string
  hu_name :: "string option"
  hu_password :: "string option"
  hu_profile :: "string option"
  hu_server :: "string option"
  hu_mac_address :: "string option"
  hu_limit_uptime :: "string option"
  hu_limit_bytes_total :: "string option"
  hu_bytes_in :: "string option"
  hu_bytes_out :: "string option"
  hu_uptime :: "string option"
  hu_disabled :: "string option"
  hu_comment :: "string option"

datatype enabled_status = Enabled | Disabled

record HotspotUserViewModel =
  uv_id :: string
  uv_name :: string
  uv_password :: string
  uv_profile :: string
  uv_macAddress :: string
  uv_server :: string
  uv_uptime :: string
  uv_bytesIn :: rat
  uv_bytesOut :: rat
  uv_enabledStatus :: enabled_status
  uv_expiry :: "(int \<times> bool) option"
  uv_comment :: string
  uv_raw :: HotspotUserRecord

definition toUserViewModel :: "zone \<Rightarrow> int \<Rightarrow> HotspotUserRecord \<Rightarrow> HotspotUserViewModel" where
  "toUserViewModel z now raw =
     (let expAt = parseExpiryFromComment z (hu_comment raw) in
      \<lparr>uv_id = hu_id raw,
       uv_name = or_else (hu_name raw) [],
       uv_password = or_else (hu_password raw) [],
       uv_profile = or_else (hu_profile raw) [],
       uv_macAddress = or_else (hu_mac_address raw) [],
       uv_server = or_else (hu_server raw) [],
       uv_uptime = or_else (hu_uptime raw) [],
       uv_bytesIn = parseRouterOSNumber (hu_bytes_in raw),
       uv_bytesOut = parseRouterOSNumber (hu_bytes_out raw),
       uv_enabledStatus = (if routerOSBool (hu_disabled raw) then Disabled else Enabled),
       uv_expiry = map_option (\<lambda>t. (t, t < now)) expAt,
       uv_comment = or_else (hu_comment raw) [],
       uv_raw = raw\<rparr>)"

section \<open>Hotspot profiles\<close>

record ProfileWithMeta =
  pm_id :: string
  pm_name :: string
  pm_role :: "string option"
  pm_address_pool :: "string option"
  pm_rate_limit :: "string option"
  pm_shared_users :: "string option"
  pm_status_autorefresh :: "string option"
  pm_on_login :: "string option"
  pm_on_logout :: "string option"
  pm_parent_queue :: "string option"
  pm_exp_mode :: "string option"
  pm_price :: "string option"
  pm_selling_price :: "string option"
  pm_validity :: "string option"
  pm_no_expiry :: "bool option"
  pm_lock_user :: "string option"
  pm_lock_server :: "string option"

record HotspotProfileViewModel =
  pv_id :: string
  pv_name :: string
  pv_role :: "string option"
  pv_rateLimit :: string
  pv_sharedUsers :: string
  pv_addressPool :: string
  pv_parentQueue :: string
  pv_validity :: string
  pv_expMode :: string
  pv_price :: rat
  pv_sellingPrice :: rat
  pv_lockUser :: bool
  pv_lockServer :: bool
  pv_noExpiry :: bool
  pv_hasExpiredMonitor :: bool
  pv_raw :: ProfileWithMeta

definition toProfileViewModel :: "ProfileWithMeta \<Rightarrow> HotspotProfileViewModel" where
  "toProfileViewModel raw =
     \<lparr>pv_id = pm_id raw,
      pv_name = pm_name raw,
      pv_role = pm_role raw,
      pv_rateLimit = or_else (pm_rate_limit raw) [],
      pv_sharedUsers = or_else (pm_shared_users raw) [],
      pv_addressPool = or_else (pm_address_pool raw) [],
      pv_parentQueue = or_else (pm_parent_queue raw) [],
      pv_validity = or_else (pm_validity raw) [],
      pv_expMode = (if or_else (pm_exp_mode raw) [] = [] then ''none'' else or_else (pm_exp_mode raw) []),
      pv_price = parseRouterOSNumber (pm_price raw),
      pv_sellingPrice = parseRouterOSNumber (pm_selling_price raw),
      pv_lockUser = routerOSBool (pm_lock_user raw),
      pv_lockServer = routerOSBool (pm_lock_server raw),
      pv_noExpiry = or_else (pm_no_expiry raw) False,
      pv_hasExpiredMonitor = hasExpiredMonitor (pm_on_login raw),
      pv_raw = raw\<rparr>"

section \<open>Active sessions and hosts\<close>

record HotspotActiveRecord =
  ha_id :: string
  ha_user :: "string option"
  ha_address :: "string option"
  ha_mac_address :: "string option"
  ha_server :: "string option"
  ha_uptime :: "string option"
  ha_session_time_left :: "string option"
  ha_keepalive_timeout :: "string option"
  ha_login_by :: "string option"
  ha_comment :: "string option"

record HotspotActiveViewModel =
  av_id :: string
  av_user :: string
  av_address :: string
  av_macAddress :: string
  av_server :: string
  av_uptime :: string
  av_sessionTimeLeft :: string
  av_loginBy :: string
  av_comment :: string
  av_raw :: HotspotActiveRecord

definition toActiveViewModel :: "HotspotActiveRecord \<Rightarrow> HotspotActiveViewModel" where
  "toActiveViewModel raw =
     \<lparr>av_id = ha_id raw, av_user = or_else (ha_user raw) [], av_address = or_else (ha_address raw) [],
      av_macAddress = or_else (ha_mac_address raw) [], av_server = or_else (ha_server raw) [],
      av_uptime = or_else (ha_uptime raw) [], av_sessionTimeLeft = or_else (ha_session_time_left raw) [],
      av_loginBy = or_else (ha_login_by raw) [], av_comment = or_else (ha_comment raw) [], av_raw = raw\<rparr>"

record HotspotHostRecord =
  hh_id :: string
  hh_mac_address :: "string option"
  hh_address :: "string option"
  hh_server :: "string option"
  hh_to_address :: "string option"
  hh_authorized :: "string option"
  hh_comment :: "string option"

record HotspotHostViewModel =
  hv_id :: string
  hv_macAddress :: string
  hv_address :: string
  hv_toAddress :: string
  hv_server :: string
  hv_authorized :: bool
  hv_comment :: string
  hv_raw :: HotspotHostRecord

definition toHostViewModel :: "HotspotHostRecord \<Rightarrow> HotspotHostViewModel" where
  "toHostViewModel raw =
     \<lparr>hv_id = hh_id raw, hv_macAddress = or_else (hh_mac_address raw) [], hv_address = or_else (hh_address raw) [],
      hv_toAddress = or_else (hh_to_address raw) [], hv_server = or_else (hh_server raw) [],
      hv_authorized = routerOSBool (hh_authorized raw), hv_comment = or_else (hh_comment raw) [], hv_raw = raw\<rparr>"

section \<open>Routers\<close>

text \<open>The schema's \<open>catch('unknown')\<close> is not run on replies, so a status outside the five is possible and has no entry.\<close>

record RouterPublicView =
  rv_id :: int
  rv_display_name :: string
  rv_host :: string
  rv_port :: int
  rv_username :: string
  rv_use_tls :: "bool option"
  rv_status :: string
  rv_last_seen :: "string option"
  rv_last_error :: "string option"
  rv_expiry_check_interval :: "string option"
  rv_time_zone :: "string option"
  rv_active :: "bool option"
  rv_created_at :: "string option"

record RouterViewModel =
  rm_id :: int
  rm_name :: string
  rm_host :: string
  rm_port :: int
  rm_username :: string
  rm_status :: string
  rm_statusLabel :: string
  rm_lastSeenAt :: string

definition routerStatusConfig :: "(string \<times> string \<times> string \<times> string) list" where
  "routerStatusConfig =
     [(''connected'', ''Connected'', ''text-emerald-500'', ''online''),
      (''connecting'', ''Connecting'', ''text-blue-500'', ''default''),
      (''unknown'', ''Unknown'', ''text-gray-500'', ''secondary''),
      (''disconnected'', ''Disconnected'', ''text-amber-500'', ''idle''),
      (''error'', ''Error'', ''text-red-500'', ''destructive'')]"

definition toRouterViewModel :: "zone \<Rightarrow> int \<Rightarrow> RouterPublicView \<Rightarrow> RouterViewModel" where
  "toRouterViewModel z now router =
     \<lparr>rm_id = rv_id router, rm_name = rv_display_name router, rm_host = rv_host router, rm_port = rv_port router,
      rm_username = rv_username router, rm_status = rv_status router,
      rm_statusLabel = or_else (map_option fst (map_of routerStatusConfig (rv_status router))) ''Unknown'',
      rm_lastSeenAt = routers_formatRelativeTime z now (rv_last_seen router)\<rparr>"

end
