(* ===== verification/Hotspot_Forms.thy ===== *)
theory Hotspot_Forms
  imports Forms View_Models Hotspot_Api
begin

text \<open>
  The drawers that add and edit hotspot users, router profiles and billing profiles:
  \<^verbatim>\<open>features/hotspot/users/dialogs/user-mutate-drawer.tsx\<close>,
  \<^verbatim>\<open>features/hotspot/profiles/dialogs/profile-mutate-drawer.tsx\<close> and
  \<^verbatim>\<open>features/hotspot/billing/dialogs/mutate-drawer.tsx\<close>, each with its values, validation, default
  values and submission, and the declared types of the requests.

  The fields on the page are in \<open>Hotspot_Views\<close>; a field that is a selection holds one of its options.
\<close>

section \<open>Users\<close>

record UserFormValues =
  uf_name :: string
  uf_password :: string
  uf_profile :: string
  uf_server :: string
  uf_mac_address :: string
  uf_comment :: string
  uf_disabled :: string

definition user_baseSchema :: "UserFormValues \<Rightarrow> issue list" where
  "user_baseSchema v =
     z_min1 ''name'' ''Username wajib diisi'' (uf_name v)
     @ z_when (uf_disabled v \<notin> {''true'', ''false''}) ''disabled'' ''Invalid option''"

definition user_addSchema :: "UserFormValues \<Rightarrow> issue list" where
  "user_addSchema v =
     z_min1 ''name'' ''Username wajib diisi'' (uf_name v)
     @ z_min1 ''password'' ''Password wajib diisi'' (uf_password v)
     @ z_when (uf_disabled v \<notin> {''true'', ''false''}) ''disabled'' ''Invalid option''"

definition user_schema :: "form_mode \<times> HotspotUserViewModel option \<Rightarrow> UserFormValues \<Rightarrow> issue list" where
  "user_schema = (\<lambda>(mode, _). if mode = EditMode then user_baseSchema else user_addSchema)"

definition user_defaultValues :: "HotspotUserViewModel option \<Rightarrow> string \<Rightarrow> UserFormValues" where
  "user_defaultValues target profileFallback =
     \<lparr>uf_name = or_else (map_option uv_name target) [],
      uf_password = or_else (map_option uv_password target) [],
      uf_profile = or_else (map_option uv_profile target) profileFallback,
      uf_server = or_else (map_option uv_server target) ''all'',
      uf_mac_address = or_else (map_option uv_macAddress target) [],
      uf_comment = or_else (map_option uv_comment target) [],
      uf_disabled = (if map_option uv_enabledStatus target = Some Disabled then ''true'' else ''false'')\<rparr>"

definition user_payload :: "UserFormValues \<Rightarrow> (string \<times> js) list" where
  "user_payload v =
     [(''name'', JStr (js_trim (uf_name v))), (''password'', JStr (uf_password v)), (''profile'', JStr (uf_profile v)),
      (''server'', JStr (uf_server v)), (''disabled'', JStr (uf_disabled v))]
     @ (if js_trim (uf_mac_address v) = [] then [] else [(''mac-address'', JStr (js_trim (uf_mac_address v)))])
     @ (if js_trim (uf_comment v) = [] then [] else [(''comment'', JStr (js_trim (uf_comment v)))])"

definition user_onSubmit :: "int \<Rightarrow> form_mode \<times> HotspotUserViewModel option \<Rightarrow> UserFormValues \<Rightarrow> submission option" where
  "user_onSubmit routerId = (\<lambda>(mode, target) v.
     (let payload = JObj (user_payload v) in
      if mode = AddMode then
        Some \<lparr>sub_mutation = useAddHotspotUser routerId payload,
              on_done = (\<lambda>_. [Success (''User '' @ quote (uf_name v) @ '' ditambahkan'') JUndef, Close]),
              on_failed = (\<lambda>err. [Failure ''Gagal menambahkan user'' (error_text err)])\<rparr>
      else
        (case target of
           None \<Rightarrow> None
         | Some t \<Rightarrow>
             Some \<lparr>sub_mutation = useUpdateHotspotUser routerId (uv_id t) payload,
                   on_done = (\<lambda>_. [Success (''User '' @ quote (uf_name v) @ '' diperbarui'') JUndef, Close]),
                   on_failed = (\<lambda>err. [Failure ''Gagal memperbarui user'' (error_text err)])\<rparr>)))"

definition HotspotUserMutation :: ts where
  "HotspotUserMutation = TDict TStr"

section \<open>Profiles on the router\<close>

record HotspotProfileFormValues =
  pf_name :: string
  pf_role :: string
  pf_rate_limit :: string
  pf_shared_users :: string
  pf_parent_queue :: string
  pf_address_pool :: string
  pf_validity :: string
  pf_expire_mode :: string
  pf_price :: string
  pf_selling_price :: string
  pf_lock_user :: string
  pf_lock_server :: string

definition profile_addSchema :: "HotspotProfileFormValues \<Rightarrow> issue list" where
  "profile_addSchema v = z_min1 ''name'' ''Profile name wajib diisi'' (pf_name v)"

definition profile_schema :: "form_mode \<times> HotspotProfileViewModel option \<Rightarrow> HotspotProfileFormValues \<Rightarrow> issue list" where
  "profile_schema = (\<lambda>(mode, _) v. if mode = EditMode then [] else profile_addSchema v)"

definition profile_defaultValues :: "HotspotProfileViewModel option \<Rightarrow> HotspotProfileFormValues" where
  "profile_defaultValues target =
     \<lparr>pf_name = or_else (map_option pv_name target) [],
      pf_role = or_else (Option.bind target pv_role) ''voucher'',
      pf_rate_limit = or_else (map_option pv_rateLimit target) ''1M/1M'',
      pf_shared_users = or_else (map_option pv_sharedUsers target) ''1'',
      pf_parent_queue = or_else (map_option pv_parentQueue target) ''none'',
      pf_address_pool = or_else (map_option pv_addressPool target) [],
      pf_validity = or_else (map_option pv_validity target) ''1h'',
      pf_expire_mode = or_else (map_option pv_expMode target) ''rem'',
      pf_price = (case target of Some t \<Rightarrow> show_rat (pv_price t) | None \<Rightarrow> ''0''),
      pf_selling_price = (case target of Some t \<Rightarrow> show_rat (pv_sellingPrice t) | None \<Rightarrow> ''0''),
      pf_lock_user = (case target of Some t \<Rightarrow> if pv_lockUser t then ''enable'' else ''disable'' | None \<Rightarrow> ''disable''),
      pf_lock_server = (case target of Some t \<Rightarrow> if pv_lockServer t then ''enable'' else ''disable'' | None \<Rightarrow> ''disable'')\<rparr>"

definition profile_toNum :: "string \<Rightarrow> rat" where
  "profile_toNum s = max 0 (to_number s)"

definition profile_params :: "HotspotProfileFormValues \<Rightarrow> js" where
  "profile_params v =
     JObj
       [(''name'', JStr (js_trim (pf_name v))), (''role'', JStr (pf_role v)),
        (''rate_limit'', str_or_undef (pf_rate_limit v)), (''shared_users'', str_or_undef (pf_shared_users v)),
        (''parent_queue'', str_or_undef (pf_parent_queue v)), (''address_pool'', JStr (js_trim (pf_address_pool v))),
        (''validity'', str_or_undef (pf_validity v)), (''expire_mode'', str_or_undef (pf_expire_mode v)),
        (''price'', JNum (profile_toNum (pf_price v))), (''selling_price'', JNum (profile_toNum (pf_selling_price v))),
        (''lock_user'', str_or_undef (pf_lock_user v)), (''lock_server'', str_or_undef (pf_lock_server v))]"

definition profile_onSubmit ::
  "int \<Rightarrow> form_mode \<times> HotspotProfileViewModel option \<Rightarrow> HotspotProfileFormValues \<Rightarrow> submission option" where
  "profile_onSubmit routerId = (\<lambda>(mode, target) v.
     (if mode = AddMode then
        Some \<lparr>sub_mutation = useAddHotspotProfile routerId (profile_params v),
              on_done = (\<lambda>_. [Success (''Profile '' @ quote (pf_name v) @ '' ditambahkan'') JUndef, Close]),
              on_failed = (\<lambda>err. [Failure ''Gagal menambahkan profile'' (error_text err)])\<rparr>
      else
        (case target of
           None \<Rightarrow> None
         | Some t \<Rightarrow>
             Some \<lparr>sub_mutation = useUpdateHotspotProfile routerId (pv_id t) (profile_params v),
                   on_done = (\<lambda>_. [Success (''Profile '' @ quote (pf_name v) @ '' diperbarui'') JUndef, Close]),
                   on_failed = (\<lambda>err. [Failure ''Gagal memperbarui profile'' (error_text err)])\<rparr>)))"

definition HotspotProfileParams :: ts where
  "HotspotProfileParams =
     TObj [optional ''name'' TStr, optional ''role'' TStr, optional ''rate_limit'' TStr, optional ''address_pool'' TStr,
       optional ''shared_users'' TStr, optional ''parent_queue'' TStr, optional ''price'' TNum,
       optional ''selling_price'' TNum, optional ''validity'' TStr, optional ''expire_mode'' TStr,
       optional ''lock_user'' TStr, optional ''lock_server'' TStr]"

section \<open>Billing profiles\<close>

record HotspotDbProfile =
  hd_id :: int
  hd_device_id :: int
  hd_name :: string
  hd_role :: string
  hd_rate_limit :: string
  hd_address_pool :: string
  hd_shared_users :: rat
  hd_status_autorefresh :: string
  hd_parent_queue :: string
  hd_price_monthly :: "rat option"
  hd_expiry_mode :: "string option"
  hd_validity :: "string option"
  hd_price :: "rat option"
  hd_sell_price :: "rat option"
  hd_lock_mac :: "bool option"
  hd_description :: string
  hd_active :: bool
  hd_is_public :: bool
  hd_created_at :: string
  hd_updated_at :: string

record HsDbProfileFormValues =
  bf_name :: string
  bf_role :: string
  bf_rate_limit :: string
  bf_address_pool :: string
  bf_shared_users :: string
  bf_status_autorefresh :: string
  bf_parent_queue :: string
  bf_description :: string
  bf_active :: string
  bf_price_monthly :: string
  bf_is_public :: bool
  bf_expiry_mode :: string
  bf_validity :: string
  bf_price :: string
  bf_sell_price :: string
  bf_lock_mac :: string

definition EXPIRY_MODES :: "string list" where
  "EXPIRY_MODES = [''0'', ''rem'', ''ntf'', ''remc'', ''ntfc'']"

definition hsDbProfileSchema :: "HsDbProfileFormValues \<Rightarrow> issue list" where
  "hsDbProfileSchema v =
     z_when (bf_active v \<notin> {''true'', ''false''}) ''active'' ''Invalid option''
     @ z_when (bf_lock_mac v \<notin> {''true'', ''false''}) ''lock_mac'' ''Invalid option''"

definition billing_schema :: "form_mode \<times> HotspotDbProfile option \<Rightarrow> HsDbProfileFormValues \<Rightarrow> issue list" where
  "billing_schema = (\<lambda>(mode, _) v.
     (if mode = EditMode then [] else z_min1 ''name'' ''Name wajib diisi'' (bf_name v)) @ hsDbProfileSchema v)"

text \<open>\<open>n ? String(n) : d\<close> for an optional number.\<close>

definition num_text :: "rat option \<Rightarrow> string \<Rightarrow> string" where
  "num_text n d = (case n of Some r \<Rightarrow> if r = 0 then d else show_rat r | None \<Rightarrow> d)"

definition billing_defaultValues :: "HotspotDbProfile option \<Rightarrow> HsDbProfileFormValues" where
  "billing_defaultValues target =
     \<lparr>bf_name = or_else (map_option hd_name target) [],
      bf_role = or_else (map_option hd_role target) ''voucher'',
      bf_rate_limit = or_else (map_option hd_rate_limit target) [],
      bf_address_pool = or_else (map_option hd_address_pool target) [],
      bf_shared_users = num_text (map_option hd_shared_users target) ''1'',
      bf_status_autorefresh = or_else (map_option hd_status_autorefresh target) ''1m'',
      bf_parent_queue = or_else (map_option hd_parent_queue target) [],
      bf_description = or_else (map_option hd_description target) [],
      bf_active = bool_text (or_else (map_option hd_active target) False),
      bf_price_monthly = num_text (Option.bind target hd_price_monthly) [],
      bf_is_public = or_else (map_option hd_is_public target) False,
      bf_expiry_mode = or_else (Option.bind target hd_expiry_mode) ''0'',
      bf_validity = or_else (Option.bind target hd_validity) [],
      bf_price = num_text (Option.bind target hd_price) [],
      bf_sell_price = num_text (Option.bind target hd_sell_price) [],
      bf_lock_mac = bool_text (or_else (Option.bind target hd_lock_mac) False)\<rparr>"

definition billing_mikrotik :: "HsDbProfileFormValues \<Rightarrow> (string \<times> js) list" where
  "billing_mikrotik v =
     [(''rate_limit'', JStr (js_trim (bf_rate_limit v))), (''address_pool'', JStr (js_trim (bf_address_pool v))),
      (''shared_users'', JNum (if positive_round (bf_shared_users v) = 0 then 1 else of_int (positive_round (bf_shared_users v)))),
      (''status_autorefresh'',
         JStr (if js_trim (bf_status_autorefresh v) = [] then ''1m'' else js_trim (bf_status_autorefresh v))),
      (''parent_queue'', JStr (js_trim (bf_parent_queue v))), (''description'', JStr (js_trim (bf_description v))),
      (''active'', JBool (bf_active v = ''true''))]"

definition billing_fields :: "HsDbProfileFormValues \<Rightarrow> (string \<times> js) list" where
  "billing_fields v =
     (if bf_role v = ''permanent''
      then [(''price_monthly'', JNum (of_int (positive_round (bf_price_monthly v)))), (''is_public'', JBool (bf_is_public v))]
      else [(''expiry_mode'', JStr (bf_expiry_mode v)), (''validity'', JStr (js_trim (bf_validity v))),
            (''price'', JNum (of_int (positive_round (bf_price v)))), (''sell_price'', JNum (of_int (positive_round (bf_sell_price v)))),
            (''lock_mac'', JBool (bf_lock_mac v = ''true''))])"

definition billing_onSubmit ::
  "int \<Rightarrow> form_mode \<times> HotspotDbProfile option \<Rightarrow> HsDbProfileFormValues \<Rightarrow> submission option" where
  "billing_onSubmit routerId = (\<lambda>(mode, target) v.
     (if mode = AddMode then
        Some \<lparr>sub_mutation = useCreateHotspotDbProfile routerId
                (JObj ([(''name'', JStr (js_trim (bf_name v))), (''role'', JStr (bf_role v))] @ billing_mikrotik v @ billing_fields v)),
              on_done = (\<lambda>res. [Success (''Profile '' @ quote (bf_name v) @ '' dibuat'') (js_optget res ''warning''), Close]),
              on_failed = (\<lambda>err. [Failure ''Gagal membuat profile'' (parseAPIError err)])\<rparr>
      else
        (case target of
           None \<Rightarrow> None
         | Some t \<Rightarrow>
             Some \<lparr>sub_mutation = useUpdateHotspotDbProfile routerId (hd_id t) (JObj (billing_mikrotik v @ billing_fields v)),
                   on_done = (\<lambda>res. [Success (''Profile '' @ quote (bf_name v) @ '' diperbarui'') (js_optget res ''warning''), Close]),
                   on_failed = (\<lambda>err. [Failure ''Gagal memperbarui profile'' (parseAPIError err)])\<rparr>)))"

definition hotspot_db_fields :: "(string \<times> bool \<times> ts) list" where
  "hotspot_db_fields =
     [optional ''rate_limit'' TStr, optional ''address_pool'' TStr, optional ''shared_users'' TNum,
      optional ''status_autorefresh'' TStr, optional ''parent_queue'' TStr, optional ''price_monthly'' TNum,
      optional ''expiry_mode'' (TLit [''0'', ''rem'', ''ntf'', ''remc'', ''ntfc'']), optional ''validity'' TStr,
      optional ''price'' TNum, optional ''sell_price'' TNum, optional ''lock_mac'' TBool,
      optional ''description'' TStr, optional ''active'' TBool, optional ''is_public'' TBool]"

definition HotspotDbProfileCreateInput :: ts where
  "HotspotDbProfileCreateInput =
     TObj ([req ''name'' TStr, req ''role'' (TLit [''permanent'', ''voucher''])] @ hotspot_db_fields)"

definition HotspotDbProfileUpdateInput :: ts where
  "HotspotDbProfileUpdateInput = TObj hotspot_db_fields"

section \<open>The contract of the drawers\<close>

interpretation hotspot_user: dialog_form user_schema "user_onSubmit routerId" for routerId
  by (rule dialog_formI) (auto simp: user_onSubmit_def Let_def intro!: well_behavedI split: if_splits option.splits)

interpretation hotspot_profile: dialog_form profile_schema "profile_onSubmit routerId" for routerId
  by (rule dialog_formI) (auto simp: profile_onSubmit_def intro!: well_behavedI split: if_splits option.splits)

interpretation hotspot_billing: dialog_form billing_schema "billing_onSubmit routerId" for routerId
  by (rule dialog_formI) (auto simp: billing_onSubmit_def intro!: well_behavedI split: if_splits option.splits)

section \<open>Types\<close>

lemma user_payload_type: "conforms HotspotUserMutation (JObj (user_payload v))"
  by (simp add: HotspotUserMutation_def user_payload_def)

lemma profile_params_type: "conforms HotspotProfileParams (profile_params v)"
  by (simp add: HotspotProfileParams_def profile_params_def)

lemma billing_update_type:
  assumes "bf_expiry_mode v \<in> set EXPIRY_MODES"
  shows "conforms HotspotDbProfileUpdateInput (JObj (billing_mikrotik v @ billing_fields v))"
  using assms by (simp add: HotspotDbProfileUpdateInput_def hotspot_db_fields_def billing_mikrotik_def billing_fields_def EXPIRY_MODES_def)

lemma billing_create_type:
  assumes "bf_expiry_mode v \<in> set EXPIRY_MODES" "bf_role v \<in> {''permanent'', ''voucher''}"
  shows "conforms HotspotDbProfileCreateInput
    (JObj ([(''name'', JStr (js_trim (bf_name v))), (''role'', JStr (bf_role v))] @ billing_mikrotik v @ billing_fields v))"
proof -
  consider "bf_role v = ''permanent''" | "bf_role v = ''voucher''" using assms(2) by blast
  then show ?thesis
    using assms(1) by cases (simp_all add: HotspotDbProfileCreateInput_def hotspot_db_fields_def billing_mikrotik_def billing_fields_def EXPIRY_MODES_def)
qed

section \<open>Saving what was loaded\<close>

text \<open>The stored billing profile as the backend sends it.\<close>

definition opt_num :: "rat option \<Rightarrow> js" where
  "opt_num x = (case x of None \<Rightarrow> JUndef | Some n \<Rightarrow> JNum n)"

definition hotspot_db_record :: "HotspotDbProfile \<Rightarrow> (string \<times> js) list" where
  "hotspot_db_record t =
     [(''id'', JNum (of_int (hd_id t))), (''name'', JStr (hd_name t)), (''role'', JStr (hd_role t)), (''rate_limit'', JStr (hd_rate_limit t)),
      (''address_pool'', JStr (hd_address_pool t)), (''shared_users'', JNum (hd_shared_users t)),
      (''status_autorefresh'', JStr (hd_status_autorefresh t)), (''parent_queue'', JStr (hd_parent_queue t)),
      (''price_monthly'', opt_num (hd_price_monthly t)), (''expiry_mode'', opt_str (hd_expiry_mode t)),
      (''validity'', opt_str (hd_validity t)), (''price'', opt_num (hd_price t)), (''sell_price'', opt_num (hd_sell_price t)),
      (''lock_mac'', case hd_lock_mac t of None \<Rightarrow> JUndef | Some b \<Rightarrow> JBool b), (''description'', JStr (hd_description t)),
      (''active'', JBool (hd_active t)), (''is_public'', JBool (hd_is_public t))]"

text \<open>A record as the backend keeps it: no stray white space, whole amounts, the fields of its role present.\<close>

definition hotspot_db_clean :: "HotspotDbProfile \<Rightarrow> bool" where
  "hotspot_db_clean t =
     (list_all trimmed [hd_rate_limit t, hd_address_pool t, hd_status_autorefresh t, hd_parent_queue t, hd_description t]
      \<and> hd_status_autorefresh t \<noteq> [] \<and> (\<exists>n > 0. hd_shared_users t = of_int n)
      \<and> (if hd_role t = ''permanent'' then \<exists>n \<ge> 0. hd_price_monthly t = Some (of_int n)
         else (\<exists>n \<ge> 0. hd_price t = Some (of_int n)) \<and> (\<exists>n \<ge> 0. hd_sell_price t = Some (of_int n))
              \<and> hd_expiry_mode t \<noteq> None \<and> hd_lock_mac t \<noteq> None \<and> (\<exists>s. hd_validity t = Some s \<and> trimmed s)))"

lemma num_text_round: "0 \<le> n \<Longrightarrow> positive_round (num_text (Some (of_int n)) []) = n"
  by (simp add: num_text_def positive_round_show)

lemma shared_users_round: "0 < n \<Longrightarrow> positive_round (num_text (Some (of_int n)) d) = n"
  by (simp add: num_text_def positive_round_show)

lemma bool_text_true [simp]: "bool_text b = ''true'' \<longleftrightarrow> b"
  by (simp add: bool_text_def)

lemma billing_edit_keeps:
  assumes "hotspot_db_clean t" "billing_onSubmit routerId (EditMode, Some t) (billing_defaultValues (Some t)) = Some s"
  shows "keeps (hotspot_db_record t) (request_body s)"
proof (cases "hd_role t = ''permanent''")
  case True
  with assms show ?thesis
    by (auto simp: hotspot_db_clean_def trimmed_def billing_onSubmit_def billing_defaultValues_def request_body_def
        useUpdateHotspotDbProfile_def updateHotspotDbProfile_def billing_mikrotik_def billing_fields_def keeps_def
        hotspot_db_record_def opt_num_def num_text_round shared_users_round)
next
  case False
  with assms show ?thesis
    by (auto simp: hotspot_db_clean_def trimmed_def billing_onSubmit_def billing_defaultValues_def request_body_def
        useUpdateHotspotDbProfile_def updateHotspotDbProfile_def billing_mikrotik_def billing_fields_def keeps_def
        hotspot_db_record_def opt_num_def num_text_round shared_users_round)
qed

text \<open>The user drawer: what is stored comes back, but a comment or MAC address cannot be emptied.\<close>

definition hotspot_user_record :: "HotspotUserRecord \<Rightarrow> (string \<times> js) list" where
  "hotspot_user_record r =
     [(''name'', opt_str (hu_name r)), (''password'', opt_str (hu_password r)), (''profile'', opt_str (hu_profile r)),
      (''server'', opt_str (hu_server r)), (''mac-address'', opt_str (hu_mac_address r)), (''disabled'', opt_str (hu_disabled r)),
      (''comment'', opt_str (hu_comment r))]"

definition hotspot_user_clean :: "HotspotUserRecord \<Rightarrow> bool" where
  "hotspot_user_clean r =
     (hu_password r \<noteq> None \<and> hu_profile r \<noteq> None \<and> hu_server r \<noteq> None \<and> hu_disabled r \<in> {Some ''true'', Some ''false''}
      \<and> (\<exists>n. hu_name r = Some n \<and> trimmed n) \<and> list_all trimmed [or_else (hu_mac_address r) [], or_else (hu_comment r) []])"

lemma user_payload_keeps:
  assumes "map_of rec ''name'' = Some (JStr (js_trim (uf_name v)))" "map_of rec ''password'' = Some (JStr (uf_password v))"
    "map_of rec ''profile'' = Some (JStr (uf_profile v))" "map_of rec ''server'' = Some (JStr (uf_server v))"
    "map_of rec ''disabled'' = Some (JStr (uf_disabled v))"
    "js_trim (uf_mac_address v) \<noteq> [] \<Longrightarrow> map_of rec ''mac-address'' = Some (JStr (js_trim (uf_mac_address v)))"
    "js_trim (uf_comment v) \<noteq> [] \<Longrightarrow> map_of rec ''comment'' = Some (JStr (js_trim (uf_comment v)))"
  shows "keeps rec (JObj (user_payload v))"
  using assms by (simp add: keeps_def user_payload_def)

lemma user_edit_keeps:
  assumes "hotspot_user_clean r"
    "user_onSubmit routerId (EditMode, Some (toUserViewModel z now r)) (user_defaultValues (Some (toUserViewModel z now r)) d) = Some s"
  shows "keeps (hotspot_user_record r) (request_body s)"
proof -
  let ?v = "user_defaultValues (Some (toUserViewModel z now r)) d"
  obtain n where n: "hu_name r = Some n" "js_trim n = n" using assms(1) by (auto simp: hotspot_user_clean_def trimmed_def)
  have v: "uf_name ?v = n" "uf_password ?v = or_else (hu_password r) []" "uf_profile ?v = or_else (hu_profile r) []"
    "uf_server ?v = or_else (hu_server r) []" "uf_mac_address ?v = or_else (hu_mac_address r) []"
    "uf_comment ?v = or_else (hu_comment r) []" "uf_disabled ?v = (if hu_disabled r = Some ''true'' then ''true'' else ''false'')"
    using n by (simp_all add: user_defaultValues_def toUserViewModel_def Let_def routerOSBool_def)
  have "request_body s = JObj (user_payload ?v)"
    using assms(2) by (auto simp: user_onSubmit_def Let_def request_body_def useUpdateHotspotUser_def updateHotspotUser_def)
  moreover have "keeps (hotspot_user_record r) (JObj (user_payload ?v))"
    using assms(1) n unfolding hotspot_user_clean_def trimmed_def
    by (intro user_payload_keeps; cases "hu_mac_address r"; cases "hu_comment r"; simp add: v hotspot_user_record_def) auto
  ultimately show ?thesis by simp
qed

text \<open>A row of the profile list as the typed record the page works on.\<close>

definition field_str :: "js \<Rightarrow> string \<Rightarrow> string option" where
  "field_str v k = (case js_optget v k of JStr s \<Rightarrow> Some s | _ \<Rightarrow> None)"

definition profile_of_js :: "js \<Rightarrow> ProfileWithMeta" where
  "profile_of_js r =
     \<lparr>pm_id = or_else (field_str r ''id'') [], pm_name = or_else (field_str r ''name'') [], pm_role = field_str r ''role'',
      pm_address_pool = field_str r ''address_pool'', pm_rate_limit = field_str r ''rate_limit'',
      pm_shared_users = field_str r ''shared_users'', pm_status_autorefresh = field_str r ''status_autorefresh'',
      pm_on_login = field_str r ''on_login'', pm_on_logout = field_str r ''on_logout'', pm_parent_queue = field_str r ''parent_queue'',
      pm_exp_mode = field_str r ''exp_mode'', pm_price = field_str r ''price'', pm_selling_price = field_str r ''selling_price'',
      pm_validity = field_str r ''validity'',
      pm_no_expiry = (case js_optget r ''no_expiry'' of JBool b \<Rightarrow> Some b | _ \<Rightarrow> None),
      pm_lock_user = field_str r ''lock_user'', pm_lock_server = field_str r ''lock_server''\<rparr>"

lemma profile_read_model:
  "pv_lockUser (toProfileViewModel (profile_of_js r)) = routerOSBool (field_str r ''lock_user'')"
  "pv_role (toProfileViewModel (profile_of_js r)) = field_str r ''role''"
  by (simp_all add: toProfileViewModel_def profile_of_js_def)

lemma profile_row_fields:
  assumes "profile_row p = Inr r"
  shows "field_str r ''lock_user'' \<noteq> Some ''true''" "field_str r ''role'' = None"
proof -
  have np: "\<not> nullish p" using assms by (auto simp: profile_row_def)
  note r = assms [unfolded profile_row_def Let_def if_not_P [OF np] sum.inject, symmetric]
  show "field_str r ''lock_user'' \<noteq> Some ''true''" "field_str r ''role'' = None"
    unfolding r field_str_def by simp_all
qed

lemma profile_edit_body:
  "profile_onSubmit routerId (EditMode, Some t) v = Some s \<Longrightarrow> request_body s = profile_payload (js_optget (profile_params v) ''role'') (profile_params v)"
  by (auto simp: profile_onSubmit_def request_body_def useUpdateHotspotProfile_def updateHotspotProfile_def)

lemma profile_params_get:
  "js_optget (profile_params v) ''role'' = JStr (pf_role v)" "js_optget (profile_params v) ''lock_user'' = str_or_undef (pf_lock_user v)"
  by (simp_all add: profile_params_def)

lemma profile_payload_sent:
  "sent_field (profile_payload (JStr role) params) ''role'' = Some (JStr role)"
  "js_optget params ''lock_user'' = JStr ''disable'' \<Longrightarrow> sent_field (profile_payload role_field params) ''lock_mac'' = Some (JBool False)"
  by (simp_all add: profile_payload_def Let_def)

text \<open>
  C. Saving a hotspot profile without a change is not harmless: whatever the backend sent, the edit form
  is filled with the lock off and the role \<open>voucher\<close> (the list drops the role and writes the lock as
  \<open>enable\<close>, which the view model reads as off), and that is what the update sends.
\<close>

theorem profile_edit_resets_lock_and_role:
  assumes "profile_row p = Inr r"
    and "profile_onSubmit routerId (EditMode, Some (toProfileViewModel (profile_of_js r)))
           (profile_defaultValues (Some (toProfileViewModel (profile_of_js r)))) = Some s"
  shows "sent_field (request_body s) ''lock_mac'' = Some (JBool False)
    \<and> sent_field (request_body s) ''role'' = Some (JStr ''voucher'')"
proof -
  let ?t = "toProfileViewModel (profile_of_js r)" and ?v = "profile_defaultValues (Some (toProfileViewModel (profile_of_js r)))"
  have "\<not> pv_lockUser ?t" "pv_role ?t = None"
    using profile_row_fields [OF assms(1)] by (simp_all add: profile_read_model routerOSBool_def)
  then have "pf_lock_user ?v = ''disable''" "pf_role ?v = ''voucher''"
    by (simp_all add: profile_defaultValues_def)
  then show ?thesis
    unfolding profile_edit_body [OF assms(2)] by (simp add: profile_params_get profile_payload_sent)
qed

theorem profile_edit_resets_lock_and_role_witness:
  "\<exists>r s. profile_row (JObj [(''id'', JNum 7), (''name'', JStr ''1day''), (''role'', JStr ''permanent''), (''lock_mac'', JBool True)]) = Inr r
    \<and> profile_onSubmit 3 (EditMode, Some (toProfileViewModel (profile_of_js r)))
        (profile_defaultValues (Some (toProfileViewModel (profile_of_js r)))) = Some s
    \<and> sent_field (request_body s) ''lock_mac'' = Some (JBool False)"
proof -
  obtain r where r: "profile_row (JObj [(''id'', JNum 7), (''name'', JStr ''1day''), (''role'', JStr ''permanent''), (''lock_mac'', JBool True)]) = Inr r"
    by (simp add: profile_row_def Let_def)
  obtain s where s: "profile_onSubmit 3 (EditMode, Some (toProfileViewModel (profile_of_js r)))
      (profile_defaultValues (Some (toProfileViewModel (profile_of_js r)))) = Some s"
    by (simp add: profile_onSubmit_def)
  from profile_edit_resets_lock_and_role [OF r s] r s show ?thesis by blast
qed

end
