(* ===== verification/Ppp_Forms.thy ===== *)
theory Ppp_Forms
  imports Forms Device_Api
begin

text \<open>
  The drawers that add and edit PPP secrets, PPP profiles on the router and PPP billing profiles:
  \<^verbatim>\<open>features/ppp/secrets/dialogs/secret-mutate-drawer.tsx\<close>,
  \<^verbatim>\<open>features/ppp/profiles/dialogs/profile-mutate-drawer.tsx\<close> and
  \<^verbatim>\<open>features/ppp/billing/dialogs/db-profile-mutate-drawer.tsx\<close>, with the declared types of
  their requests.
\<close>

section \<open>Secrets\<close>

record PPPSecret =
  ps_id :: string
  ps_name :: string
  ps_service :: "string option"
  ps_profile :: "string option"
  ps_local_address :: "string option"
  ps_remote_address :: "string option"
  ps_limit_bytes_in :: "rat option"
  ps_limit_bytes_out :: "rat option"
  ps_last_logged_out :: "string option"
  ps_last_caller_id :: "string option"
  ps_last_disconnect_reason :: "string option"
  ps_disabled :: bool
  ps_comment :: "string option"

record SecretFormValues =
  sf_name :: string
  sf_password :: string
  sf_service :: string
  sf_profile :: string
  sf_local_address :: string
  sf_remote_address :: string
  sf_comment :: string

definition PPP_SERVICES :: "string list" where
  "PPP_SERVICES = [''any'', ''pppoe'', ''pptp'', ''l2tp'', ''ovpn'', ''sstp'']"

definition secret_baseSchema :: "SecretFormValues \<Rightarrow> issue list" where
  "secret_baseSchema v = z_min1 ''name'' ''Username wajib diisi'' (sf_name v)"

definition secret_addSchema :: "SecretFormValues \<Rightarrow> issue list" where
  "secret_addSchema v = secret_baseSchema v @ z_min1 ''password'' ''Password wajib diisi'' (sf_password v)"

definition secret_schema :: "form_mode \<times> PPPSecret option \<Rightarrow> SecretFormValues \<Rightarrow> issue list" where
  "secret_schema = (\<lambda>(mode, _). if mode = EditMode then secret_baseSchema else secret_addSchema)"

definition secret_defaultValues :: "PPPSecret option \<Rightarrow> SecretFormValues" where
  "secret_defaultValues target =
     \<lparr>sf_name = or_else (map_option ps_name target) [],
      sf_password = [],
      sf_service = or_else (Option.bind target ps_service) ''any'',
      sf_profile = or_else (Option.bind target ps_profile) [],
      sf_local_address = or_else (Option.bind target ps_local_address) [],
      sf_remote_address = or_else (Option.bind target ps_remote_address) [],
      sf_comment = or_else (Option.bind target ps_comment) []\<rparr>"

definition if_text :: "string \<Rightarrow> string \<Rightarrow> (string \<times> js) list" where
  "if_text k s = (if js_trim s = [] then [] else [(k, JStr (js_trim s))])"

definition secret_payload :: "SecretFormValues \<Rightarrow> (string \<times> js) list" where
  "secret_payload v =
     [(''name'', JStr (js_trim (sf_name v))), (''password'', JStr (sf_password v)), (''service'', JStr (sf_service v))]
     @ if_text ''profile'' (sf_profile v) @ if_text ''local_address'' (sf_local_address v)
     @ if_text ''remote_address'' (sf_remote_address v)"

definition secret_patch :: "SecretFormValues \<Rightarrow> (string \<times> js) list" where
  "secret_patch v =
     [(''name'', JStr (js_trim (sf_name v))), (''service'', JStr (sf_service v)), (''profile'', JStr (js_trim (sf_profile v))),
      (''local_address'', JStr (js_trim (sf_local_address v))), (''remote_address'', JStr (js_trim (sf_remote_address v))),
      (''comment'', JStr (js_trim (sf_comment v)))]
     @ if_text ''password'' (sf_password v)"

definition secret_onSubmit :: "int \<Rightarrow> form_mode \<times> PPPSecret option \<Rightarrow> SecretFormValues \<Rightarrow> submission option" where
  "secret_onSubmit routerId = (\<lambda>(mode, target) v.
     (if mode = AddMode then
        Some \<lparr>sub_mutation = useAddPPPSecret routerId (JObj (secret_payload v)),
              on_done = (\<lambda>_. [Success (''Secret '' @ quote (sf_name v) @ '' ditambahkan'') JUndef, Close]),
              on_failed = (\<lambda>err. [Failure ''Gagal menambahkan secret'' (parseAPIError err)])\<rparr>
      else
        (case target of
           None \<Rightarrow> None
         | Some t \<Rightarrow>
             Some \<lparr>sub_mutation = useUpdatePPPSecret routerId (ps_id t) (JObj (secret_patch v)),
                   on_done = (\<lambda>_. [Success (''Secret '' @ quote (sf_name v) @ '' diperbarui'') JUndef, Close]),
                   on_failed = (\<lambda>err. [Failure ''Gagal memperbarui secret'' (parseAPIError err)])\<rparr>)))"

definition PPPSecretCreateInput :: ts where
  "PPPSecretCreateInput =
     TObj [req ''name'' TStr, optional ''password'' TStr, optional ''service'' TStr, optional ''profile'' TStr,
       optional ''local_address'' TStr, optional ''remote_address'' TStr, optional ''limit_bytes_in'' TNum, optional ''limit_bytes_out'' TNum]"

definition PPPSecretUpdateInput :: ts where
  "PPPSecretUpdateInput =
     TObj [optional ''name'' TStr, optional ''password'' TStr, optional ''service'' TStr, optional ''profile'' TStr,
       optional ''local_address'' TStr, optional ''remote_address'' TStr, optional ''limit_bytes_in'' TNum, optional ''limit_bytes_out'' TNum,
       optional ''comment'' TStr]"

section \<open>Profiles on the router\<close>

record RouterPPPProfile =
  rp_id :: string
  rp_name :: string
  rp_local_address :: "string option"
  rp_remote_address :: "string option"
  rp_rate_limit :: "string option"
  rp_session_timeout :: "string option"
  rp_idle_timeout :: "string option"
  rp_parent_queue :: "string option"
  rp_on_up :: "string option"
  rp_on_down :: "string option"
  rp_disabled :: bool
  rp_comment :: "string option"

text \<open>The optional values of the form are always set by the default values, so they are strings here.\<close>

record ProfileFormValues =
  rf_name :: string
  rf_rate_limit :: string
  rf_local_address :: string
  rf_remote_address :: string
  rf_session_timeout :: string
  rf_idle_timeout :: string
  rf_parent_queue :: string
  rf_comment :: string
  rf_disabled :: string

definition profileFormSchema :: "ProfileFormValues \<Rightarrow> issue list" where
  "profileFormSchema v =
     z_min1 ''name'' ''Name wajib diisi'' (rf_name v)
     @ z_when (rf_disabled v \<notin> {''true'', ''false''}) ''disabled'' ''Invalid option''"

definition ppp_profile_defaultValues :: "RouterPPPProfile option \<Rightarrow> ProfileFormValues" where
  "ppp_profile_defaultValues target =
     \<lparr>rf_name = or_else (map_option rp_name target) [],
      rf_rate_limit = or_else (Option.bind target rp_rate_limit) [],
      rf_local_address = or_else (Option.bind target rp_local_address) [],
      rf_remote_address = or_else (Option.bind target rp_remote_address) [],
      rf_session_timeout = or_else (Option.bind target rp_session_timeout) [],
      rf_idle_timeout = or_else (Option.bind target rp_idle_timeout) [],
      rf_parent_queue = or_else (Option.bind target rp_parent_queue) [],
      rf_comment = or_else (Option.bind target rp_comment) [],
      rf_disabled = (if or_else (map_option rp_disabled target) False then ''true'' else ''false'')\<rparr>"

definition ppp_profile_body :: "ProfileFormValues \<Rightarrow> (string \<times> js) list" where
  "ppp_profile_body v =
     [(''name'', JStr (js_trim (rf_name v))),
      (''local_address'', JStr (js_trim (rf_local_address v))), (''remote_address'', JStr (js_trim (rf_remote_address v))),
      (''rate_limit'', str_or_undef (js_trim (rf_rate_limit v))), (''session_timeout'', str_or_undef (js_trim (rf_session_timeout v))),
      (''idle_timeout'', str_or_undef (js_trim (rf_idle_timeout v))), (''parent_queue'', str_or_undef (js_trim (rf_parent_queue v))),
      (''comment'', str_or_undef (js_trim (rf_comment v))), (''disabled'', JBool (rf_disabled v = ''true''))]"

definition ppp_profile_onSubmit :: "int \<Rightarrow> form_mode \<times> RouterPPPProfile option \<Rightarrow> ProfileFormValues \<Rightarrow> submission option" where
  "ppp_profile_onSubmit routerId = (\<lambda>(mode, target) v.
     (if mode = AddMode then
        Some \<lparr>sub_mutation = useAddPPPProfile routerId (JObj (ppp_profile_body v)),
              on_done = (\<lambda>_. [Success (''Profile '' @ quote (rf_name v) @ '' berhasil ditambahkan'') JUndef, Close]),
              on_failed = (\<lambda>err. [Failure ''Gagal menambahkan profile'' (parseAPIError err)])\<rparr>
      else
        (case target of
           None \<Rightarrow> None
         | Some t \<Rightarrow>
             Some \<lparr>sub_mutation = useUpdatePPPProfile routerId (rp_id t) (JObj (ppp_profile_body v)),
                   on_done = (\<lambda>_. [Success (''Profile '' @ quote (rf_name v) @ '' berhasil diperbarui'') JUndef, Close]),
                   on_failed = (\<lambda>err. [Failure ''Gagal memperbarui profile'' (parseAPIError err)])\<rparr>)))"

definition ppp_profile_types :: "(string \<times> bool \<times> ts) list" where
  "ppp_profile_types =
     [optional ''local_address'' TStr, optional ''remote_address'' TStr, optional ''rate_limit'' TStr,
      optional ''session_timeout'' TStr, optional ''idle_timeout'' TStr, optional ''parent_queue'' TStr,
      optional ''disabled'' TBool, optional ''comment'' TStr]"

definition RouterPPPProfileCreateInput :: ts where
  "RouterPPPProfileCreateInput = TObj (req ''name'' TStr # ppp_profile_types)"

definition RouterPPPProfileUpdateInput :: ts where
  "RouterPPPProfileUpdateInput = TObj (optional ''name'' TStr # ppp_profile_types)"

section \<open>Billing profiles\<close>

record PPPDbProfile =
  pd_id :: int
  pd_device_id :: int
  pd_name :: string
  pd_rate_limit :: string
  pd_local_address :: string
  pd_remote_address :: string
  pd_session_timeout :: string
  pd_idle_timeout :: string
  pd_parent_queue :: string
  pd_price_monthly :: rat
  pd_description :: string
  pd_active :: bool
  pd_is_public :: bool
  pd_created_at :: string
  pd_updated_at :: string

record DbProfileFormValues =
  db_name :: string
  db_rate_limit :: string
  db_price_monthly :: string
  db_local_address :: string
  db_remote_address :: string
  db_session_timeout :: string
  db_idle_timeout :: string
  db_parent_queue :: string
  db_description :: string
  db_active :: string
  db_is_public :: bool

definition dbProfileFormSchema :: "DbProfileFormValues \<Rightarrow> issue list" where
  "dbProfileFormSchema v = z_when (db_active v \<notin> {''true'', ''false''}) ''active'' ''Invalid option''"

definition ppp_billing_schema :: "form_mode \<times> PPPDbProfile option \<Rightarrow> DbProfileFormValues \<Rightarrow> issue list" where
  "ppp_billing_schema = (\<lambda>(mode, _) v.
     (if mode = EditMode then [] else z_min1 ''name'' ''Name wajib diisi'' (db_name v)) @ dbProfileFormSchema v)"

definition ppp_billing_defaultValues :: "PPPDbProfile option \<Rightarrow> DbProfileFormValues" where
  "ppp_billing_defaultValues target =
     \<lparr>db_name = or_else (map_option pd_name target) [],
      db_rate_limit = or_else (map_option pd_rate_limit target) [],
      db_price_monthly = (case target of Some t \<Rightarrow> if pd_price_monthly t = 0 then [] else show_rat (pd_price_monthly t) | None \<Rightarrow> []),
      db_local_address = or_else (map_option pd_local_address target) [],
      db_remote_address = or_else (map_option pd_remote_address target) [],
      db_session_timeout = or_else (map_option pd_session_timeout target) [],
      db_idle_timeout = or_else (map_option pd_idle_timeout target) [],
      db_parent_queue = or_else (map_option pd_parent_queue target) [],
      db_description = or_else (map_option pd_description target) [],
      db_active = (if or_else (map_option pd_active target) False then ''true'' else ''false''),
      db_is_public = or_else (map_option pd_is_public target) False\<rparr>"

definition ppp_billing_common :: "DbProfileFormValues \<Rightarrow> (string \<times> js) list" where
  "ppp_billing_common v =
     [(''rate_limit'', JStr (js_trim (db_rate_limit v))), (''local_address'', JStr (js_trim (db_local_address v))),
      (''remote_address'', JStr (js_trim (db_remote_address v))), (''session_timeout'', JStr (js_trim (db_session_timeout v))),
      (''idle_timeout'', JStr (js_trim (db_idle_timeout v))), (''parent_queue'', JStr (js_trim (db_parent_queue v))),
      (''description'', JStr (js_trim (db_description v))), (''price_monthly'', JNum (of_int (positive_round (db_price_monthly v)))),
      (''active'', JBool (db_active v = ''true'')), (''is_public'', JBool (db_is_public v))]"

definition ppp_billing_onSubmit :: "int \<Rightarrow> form_mode \<times> PPPDbProfile option \<Rightarrow> DbProfileFormValues \<Rightarrow> submission option" where
  "ppp_billing_onSubmit routerId = (\<lambda>(mode, target) v.
     (if mode = AddMode then
        Some \<lparr>sub_mutation = useCreatePPPDbProfile routerId (JObj ((''name'', JStr (js_trim (db_name v))) # ppp_billing_common v)),
              on_done = (\<lambda>res. [Success (''Profile '' @ quote (db_name v) @ '' dibuat'') (js_optget res ''warning''), Close]),
              on_failed = (\<lambda>err. [Failure ''Gagal membuat profile'' (parseAPIError err)])\<rparr>
      else
        (case target of
           None \<Rightarrow> None
         | Some t \<Rightarrow>
             Some \<lparr>sub_mutation = useUpdatePPPDbProfile routerId (pd_id t) (JObj (ppp_billing_common v)),
                   on_done = (\<lambda>res. [Success (''Profile '' @ quote (db_name v) @ '' diperbarui'') (js_optget res ''warning''), Close]),
                   on_failed = (\<lambda>err. [Failure ''Gagal memperbarui profile'' (parseAPIError err)])\<rparr>)))"

definition ppp_db_types :: "(string \<times> bool \<times> ts) list" where
  "ppp_db_types =
     [optional ''rate_limit'' TStr, optional ''local_address'' TStr, optional ''remote_address'' TStr,
      optional ''session_timeout'' TStr, optional ''idle_timeout'' TStr, optional ''parent_queue'' TStr,
      optional ''price_monthly'' TNum, optional ''description'' TStr, optional ''active'' TBool, optional ''is_public'' TBool]"

definition PPPDbProfileCreateInput :: ts where
  "PPPDbProfileCreateInput = TObj (req ''name'' TStr # ppp_db_types)"

definition PPPDbProfileUpdateInput :: ts where
  "PPPDbProfileUpdateInput = TObj ppp_db_types"

section \<open>The contract of the drawers\<close>

interpretation ppp_secret: dialog_form secret_schema "secret_onSubmit routerId" for routerId
  by (rule dialog_formI) (auto simp: secret_onSubmit_def intro!: well_behavedI split: if_splits option.splits)

interpretation ppp_profile: dialog_form "\<lambda>_. profileFormSchema" "ppp_profile_onSubmit routerId" for routerId
  by (rule dialog_formI) (auto simp: ppp_profile_onSubmit_def intro!: well_behavedI split: if_splits option.splits)

interpretation ppp_billing: dialog_form ppp_billing_schema "ppp_billing_onSubmit routerId" for routerId
  by (rule dialog_formI) (auto simp: ppp_billing_onSubmit_def intro!: well_behavedI split: if_splits option.splits)

section \<open>Types\<close>

lemma secret_payload_type: "conforms PPPSecretCreateInput (JObj (secret_payload v))"
  by (simp add: PPPSecretCreateInput_def secret_payload_def if_text_def)

lemma secret_patch_type: "conforms PPPSecretUpdateInput (JObj (secret_patch v))"
  by (simp add: PPPSecretUpdateInput_def secret_patch_def if_text_def)

lemma ppp_profile_create_type: "conforms RouterPPPProfileCreateInput (JObj (ppp_profile_body v))"
  by (simp add: RouterPPPProfileCreateInput_def ppp_profile_types_def ppp_profile_body_def)

lemma ppp_profile_update_type: "conforms RouterPPPProfileUpdateInput (JObj (ppp_profile_body v))"
  by (simp add: RouterPPPProfileUpdateInput_def ppp_profile_types_def ppp_profile_body_def)

lemma ppp_billing_create_type: "conforms PPPDbProfileCreateInput (JObj ((''name'', JStr n) # ppp_billing_common v))"
  by (simp add: PPPDbProfileCreateInput_def ppp_db_types_def ppp_billing_common_def)

lemma ppp_billing_update_type: "conforms PPPDbProfileUpdateInput (JObj (ppp_billing_common v))"
  by (simp add: PPPDbProfileUpdateInput_def ppp_db_types_def ppp_billing_common_def)

section \<open>Saving what was loaded\<close>

definition ppp_db_record :: "PPPDbProfile \<Rightarrow> (string \<times> js) list" where
  "ppp_db_record t =
     [(''rate_limit'', JStr (pd_rate_limit t)), (''local_address'', JStr (pd_local_address t)), (''remote_address'', JStr (pd_remote_address t)),
      (''session_timeout'', JStr (pd_session_timeout t)), (''idle_timeout'', JStr (pd_idle_timeout t)),
      (''parent_queue'', JStr (pd_parent_queue t)), (''description'', JStr (pd_description t)), (''price_monthly'', JNum (pd_price_monthly t)),
      (''active'', JBool (pd_active t)), (''is_public'', JBool (pd_is_public t))]"

definition ppp_db_clean :: "PPPDbProfile \<Rightarrow> bool" where
  "ppp_db_clean t =
     (list_all trimmed [pd_rate_limit t, pd_local_address t, pd_remote_address t, pd_session_timeout t, pd_idle_timeout t,
        pd_parent_queue t, pd_description t] \<and> (\<exists>n \<ge> 0. pd_price_monthly t = of_int n))"

lemma ppp_billing_edit_keeps:
  assumes "ppp_db_clean t" "ppp_billing_onSubmit routerId (EditMode, Some t) (ppp_billing_defaultValues (Some t)) = Some s"
  shows "keeps (ppp_db_record t) (request_body s)"
proof -
  let ?v = "ppp_billing_defaultValues (Some t)"
  have "request_body s = JObj (ppp_billing_common ?v)"
    using assms(2) by (auto simp: ppp_billing_onSubmit_def request_body_def useUpdatePPPDbProfile_def updatePPPDbProfile_def)
  moreover have "of_int (positive_round (db_price_monthly ?v)) = pd_price_monthly t"
    using assms(1) by (auto simp: ppp_db_clean_def ppp_billing_defaultValues_def positive_round_show)
  ultimately show ?thesis
    using assms(1) by (simp add: ppp_db_clean_def trimmed_def keeps_def ppp_billing_common_def ppp_db_record_def)
      (simp add: ppp_billing_defaultValues_def)
qed

definition ppp_secret_record :: "PPPSecret \<Rightarrow> (string \<times> js) list" where
  "ppp_secret_record t =
     [(''name'', JStr (ps_name t)), (''service'', opt_str (ps_service t)), (''profile'', opt_str (ps_profile t)),
      (''local_address'', opt_str (ps_local_address t)), (''remote_address'', opt_str (ps_remote_address t)), (''comment'', opt_str (ps_comment t))]"

definition ppp_secret_clean :: "PPPSecret \<Rightarrow> bool" where
  "ppp_secret_clean t =
     (trimmed (ps_name t) \<and> ps_service t \<noteq> None
      \<and> list_all (\<lambda>x. case x of None \<Rightarrow> False | Some s \<Rightarrow> trimmed s) [ps_profile t, ps_local_address t, ps_remote_address t, ps_comment t])"

lemma secret_edit_keeps:
  assumes "ppp_secret_clean t" "secret_onSubmit routerId (EditMode, Some t) (secret_defaultValues (Some t)) = Some s"
  shows "keeps (ppp_secret_record t) (request_body s)"
proof -
  have "request_body s = JObj (secret_patch (secret_defaultValues (Some t)))"
    using assms(2) by (auto simp: secret_onSubmit_def request_body_def useUpdatePPPSecret_def updatePPPSecret_def)
  then show ?thesis
    using assms(1)
    by (auto simp: ppp_secret_clean_def trimmed_def keeps_def secret_patch_def ppp_secret_record_def if_text_def secret_defaultValues_def
        js_trim_def [of "[]"] split: option.splits)
qed

text \<open>A PPP secret is created without the comment that was entered, and the optional fields of a profile cannot be emptied.\<close>

lemma secret_comment_not_sent: "sent_field (JObj (secret_payload v)) ''comment'' = None"
  by (simp add: secret_payload_def if_text_def)

lemma ppp_profile_blank_not_sent:
  assumes "js_trim (rf_comment v) = []"
  shows "sent_field (JObj (ppp_profile_body v)) ''comment'' = None"
  using assms by (simp add: ppp_profile_body_def)

end
