(* ===== verification/Billing_Forms.thy ===== *)
theory Billing_Forms
  imports Forms Billing_Api
begin

text \<open>
  The forms and dialogs of the billing pages: the customer drawer with its second step and the
  subscription drawer (\<^verbatim>\<open>features/customers/components\<close>, \<^verbatim>\<open>features/subscriptions/components\<close>), the
  delete and status dialogs, the invoice and payment dialogs (\<^verbatim>\<open>features/invoices/components\<close>,
  \<^verbatim>\<open>features/payments/components\<close>) and the actions on a registration
  (\<^verbatim>\<open>features/registrations/dialogs\<close>).

  The second step of the customer drawer and the code dialog do not close on success but go on to a
  next step; they interpret only the weaker contract of a form that reports its failures.
\<close>

text \<open>\<open>Number(s) || undefined\<close>, \<open>s ? Number(s) : undefined\<close>\<close>

definition num_or_undef :: "string \<Rightarrow> js" where
  "num_or_undef s = (case StringToNumber s of None \<Rightarrow> JUndef | Some n \<Rightarrow> if n = 0 then JUndef else JNum n)"

definition if_number :: "string \<Rightarrow> js" where
  "if_number s = (if s = [] then JUndef else js_num (JStr s))"

definition numeric :: "string \<Rightarrow> bool" where
  "numeric s = (StringToNumber s \<noteq> None)"

section \<open>Customers\<close>

record Customer =
  cu_id :: int
  cu_full_name :: string
  cu_phone :: string
  cu_address :: string
  cu_area :: string
  cu_notes :: string
  cu_status :: string
  cu_created_at :: string
  cu_updated_at :: string

record CustomerFormValues =
  cf_full_name :: string
  cf_phone :: string
  cf_area :: string
  cf_address :: string
  cf_notes :: string
  cf_status :: string

definition customerSchema :: "CustomerFormValues \<Rightarrow> issue list" where
  "customerSchema v =
     z_min1 ''full_name'' ''Nama wajib diisi'' (cf_full_name v) @ z_min1 ''phone'' ''Nomor telepon wajib diisi'' (cf_phone v)
     @ z_when (cf_status v \<notin> {''aktif'', ''nonaktif''}) ''status'' ''Invalid option''"

definition defaultCustomer :: "Customer option \<Rightarrow> CustomerFormValues" where
  "defaultCustomer target =
     \<lparr>cf_full_name = or_else (map_option cu_full_name target) [],
      cf_phone = or_else (map_option cu_phone target) [],
      cf_area = or_else (map_option cu_area target) [],
      cf_address = or_else (map_option cu_address target) [],
      cf_notes = or_else (map_option cu_notes target) [],
      cf_status = or_else (map_option cu_status target) ''aktif''\<rparr>"

definition customer_payload :: "CustomerFormValues \<Rightarrow> (string \<times> js) list" where
  "customer_payload v =
     [(''full_name'', JStr (js_trim (cf_full_name v))), (''phone'', JStr (js_trim (cf_phone v))), (''address'', JStr (js_trim (cf_address v))),
      (''area'', JStr (js_trim (cf_area v))), (''notes'', JStr (js_trim (cf_notes v))), (''status'', JStr (cf_status v))]"

definition customer_onSubmit :: "form_mode \<times> Customer option \<Rightarrow> CustomerFormValues \<Rightarrow> submission option" where
  "customer_onSubmit = (\<lambda>(mode, target) v.
     (if mode = EditMode then
        (case target of
           None \<Rightarrow> None
         | Some t \<Rightarrow>
             Some \<lparr>sub_mutation = useUpdateCustomer (cu_id t) (JObj (customer_payload v)),
                   on_done = (\<lambda>_. [Success (''Customer '' @ quote (cf_full_name v) @ '' diperbarui'') JUndef, Close]),
                   on_failed = (\<lambda>err. [Failure ''Gagal memperbarui customer'' (parseAPIError err)])\<rparr>)
      else
        Some \<lparr>sub_mutation = useCreateCustomer (JObj (customer_payload v)),
              on_done = (\<lambda>created. [Success (''Customer '' @ quote (js_String (js_optget created ''full_name'')) @ '' berhasil dibuat'') JUndef, NextStep created]),
              on_failed = (\<lambda>err. [Failure ''Gagal membuat customer'' (parseAPIError err)])\<rparr>))"

definition CustomerCreateInput :: ts where
  "CustomerCreateInput =
     TObj [req ''full_name'' TStr, req ''phone'' TStr, optional ''address'' TStr, optional ''area'' TStr, optional ''notes'' TStr,
       optional ''status'' (TLit [''aktif'', ''nonaktif''])]"

definition CustomerUpdateInput :: ts where
  "CustomerUpdateInput =
     TObj [optional ''full_name'' TStr, optional ''phone'' TStr, optional ''address'' TStr, optional ''area'' TStr, optional ''notes'' TStr,
       optional ''status'' (TLit [''aktif'', ''nonaktif''])]"

text \<open>The second step.\<close>

record StepFormValues =
  st_device_id :: string
  st_service_type :: string
  st_profile_id :: string
  st_mikrotik_username :: string
  st_mikrotik_password :: string

definition subscriptionSchema :: "StepFormValues \<Rightarrow> issue list" where
  "subscriptionSchema v =
     z_min1 ''device_id'' ''Pilih device terlebih dahulu'' (st_device_id v)
     @ z_when (st_service_type v \<notin> {''pppoe'', ''hotspot''}) ''service_type'' ''Invalid option''
     @ z_min1 ''profile_id'' ''Pilih paket terlebih dahulu'' (st_profile_id v)
     @ z_min1 ''mikrotik_username'' ''Username wajib diisi'' (st_mikrotik_username v)
     @ z_min1 ''mikrotik_password'' ''Password wajib diisi'' (st_mikrotik_password v)"

definition step_defaultValues :: StepFormValues where
  "step_defaultValues =
     \<lparr>st_device_id = [], st_service_type = ''pppoe'', st_profile_id = [], st_mikrotik_username = [], st_mikrotik_password = []\<rparr>"

definition profile_field :: "string \<Rightarrow> js \<Rightarrow> (string \<times> js) list" where
  "profile_field service_type v = (if service_type = ''pppoe'' then [(''ppp_profile_id'', v)] else [(''hotspot_profile_id'', v)])"

definition step_payload :: "js \<Rightarrow> StepFormValues \<Rightarrow> (string \<times> js) list" where
  "step_payload customer v =
     [(''customer_id'', js_optget customer ''id''), (''device_id'', js_num (JStr (st_device_id v))),
      (''service_type'', JStr (st_service_type v)), (''mikrotik_username'', JStr (js_trim (st_mikrotik_username v))),
      (''mikrotik_password'', JStr (st_mikrotik_password v))]
     @ profile_field (st_service_type v) (num_or_undef (st_profile_id v))"

definition step_onSubmit :: "js \<Rightarrow> StepFormValues \<Rightarrow> submission option" where
  "step_onSubmit customer v =
     Some \<lparr>sub_mutation = useCreateSubscription (JObj (step_payload customer v)),
           on_done = (\<lambda>res. [Success ''Subscription berhasil dibuat'' (js_optget res ''warning''), Close]),
           on_failed = (\<lambda>err. [Failure ''Gagal membuat subscription'' (parseAPIError err)])\<rparr>"

text \<open>Choosing another service type clears the package.\<close>

definition step_setServiceType :: "string \<Rightarrow> StepFormValues \<Rightarrow> StepFormValues" where
  "step_setServiceType t v = v\<lparr>st_service_type := t, st_profile_id := []\<rparr>"

text \<open>The two steps as a machine: the state of the form component and its events.\<close>

datatype wizard = StepOne | StepTwo js | WizardClosed

fun wizard_event :: "ui_event \<Rightarrow> wizard \<Rightarrow> wizard" where
  "wizard_event (NextStep created) StepOne = (if truthy created then StepTwo created else StepOne)"
| "wizard_event Close w = WizardClosed"
| "wizard_event _ w = w"

definition wizard_run :: "ui_event list \<Rightarrow> wizard \<Rightarrow> wizard" where
  "wizard_run es w = fold wizard_event es w"

section \<open>Subscriptions\<close>

record Subscription =
  sb_id :: int
  sb_customer_id :: int
  sb_device_id :: int
  sb_ppp_profile_id :: "int option"
  sb_hotspot_profile_id :: "int option"
  sb_service_type :: string
  sb_mikrotik_username :: string
  sb_status :: string
  sb_sync_status :: string
  sb_sync_notes :: "string option"
  sb_notes :: string
  sb_billing_day :: "int option"
  sb_next_invoice_date :: "string option"
  sb_activated_at :: "string option"
  sb_terminated_at :: "string option"
  sb_created_at :: string
  sb_updated_at :: string

record SubscriptionFormValues =
  su_customer_id :: string
  su_device_id :: string
  su_service_type :: string
  su_user_mode :: string
  su_profile_id :: string
  su_mikrotik_username :: string
  su_mikrotik_password :: string
  su_billing_day :: string
  su_notes :: string

definition sub_baseSchema :: "SubscriptionFormValues \<Rightarrow> issue list" where
  "sub_baseSchema v =
     z_when (su_service_type v \<notin> {''pppoe'', ''hotspot''}) ''service_type'' ''Invalid option''
     @ z_when (su_user_mode v \<notin> {''up'', ''vc''}) ''user_mode'' ''Invalid option''"

text \<open>The refinement is skipped when a field has not its type (here, is not one of its literals); a string that is too short does not stop it.\<close>

definition sub_addSchema :: "SubscriptionFormValues \<Rightarrow> issue list" where
  "sub_addSchema v =
     (let es = z_min1 ''customer_id'' ''Customer wajib dipilih'' (su_customer_id v) @ z_min1 ''device_id'' ''Device wajib dipilih'' (su_device_id v)
               @ sub_baseSchema v @ z_min1 ''mikrotik_username'' ''Username wajib diisi'' (su_mikrotik_username v);
          usernameOnly = (su_service_type v = ''hotspot'' \<and> su_user_mode v = ''vc'')
      in if sub_baseSchema v \<noteq> [] then es
         else es @ z_when (\<not> usernameOnly \<and> su_mikrotik_password v = []) ''mikrotik_password'' ''Password wajib diisi'')"

definition sub_schema :: "form_mode \<times> Subscription option \<Rightarrow> SubscriptionFormValues \<Rightarrow> issue list" where
  "sub_schema = (\<lambda>(mode, _). if mode = EditMode then sub_baseSchema else sub_addSchema)"

text \<open>The random words are an argument: \<open>crypto.getRandomValues\<close> fills the array.\<close>

definition code_chars :: string where
  "code_chars = ''abcdefghijklmnopqrstuvwxyz0123456789''"

definition generateHotspotCode :: "nat list \<Rightarrow> string" where
  "generateHotspotCode arr = foldl (\<lambda>out w. out @ [code_chars ! (w mod length code_chars)]) [] arr"

definition sub_defaultValues :: "Subscription option \<Rightarrow> int option \<Rightarrow> SubscriptionFormValues" where
  "sub_defaultValues target activeRouterId =
     \<lparr>su_customer_id = (case target of Some t \<Rightarrow> show_int (sb_customer_id t) | None \<Rightarrow> []),
      su_device_id = (case target of
          Some t \<Rightarrow> show_int (sb_device_id t)
        | None \<Rightarrow> (case activeRouterId of Some r \<Rightarrow> if r = 0 then [] else show_int r | None \<Rightarrow> [])),
      su_service_type = or_else (map_option sb_service_type target) ''pppoe'',
      su_user_mode = ''up'',
      su_profile_id = (case target of
          Some t \<Rightarrow> (case sb_ppp_profile_id t of Some p \<Rightarrow> show_int p
                     | None \<Rightarrow> (case sb_hotspot_profile_id t of Some p \<Rightarrow> show_int p | None \<Rightarrow> []))
        | None \<Rightarrow> []),
      su_mikrotik_username = or_else (map_option sb_mikrotik_username target) [],
      su_mikrotik_password = [],
      su_billing_day = (case Option.bind target sb_billing_day of Some d \<Rightarrow> if d = 0 then [] else show_int d | None \<Rightarrow> []),
      su_notes = or_else (map_option sb_notes target) []\<rparr>"

definition sub_setServiceType :: "string \<Rightarrow> SubscriptionFormValues \<Rightarrow> SubscriptionFormValues" where
  "sub_setServiceType t v =
     (let w = v\<lparr>su_service_type := t, su_profile_id := []\<rparr> in if t = ''pppoe'' then w\<lparr>su_user_mode := ''up''\<rparr> else w)"

definition sub_payload :: "SubscriptionFormValues \<Rightarrow> (string \<times> js) list" where
  "sub_payload v =
     (let user = js_trim (su_mikrotik_username v);
          pass = (if su_service_type v = ''hotspot'' \<and> su_user_mode v = ''vc'' then user else su_mikrotik_password v)
      in [(''customer_id'', js_num (JStr (su_customer_id v))), (''device_id'', js_num (JStr (su_device_id v))),
          (''service_type'', JStr (su_service_type v)), (''mikrotik_username'', JStr user), (''mikrotik_password'', JStr pass),
          (''billing_day'', if_number (su_billing_day v)), (''notes'', str_or_undef (js_trim (su_notes v)))]
         @ profile_field (su_service_type v) (num_or_undef (su_profile_id v)))"

definition sub_patch :: "Subscription \<Rightarrow> SubscriptionFormValues \<Rightarrow> (string \<times> js) list" where
  "sub_patch t v =
     [(''notes'', JStr (js_trim (su_notes v))), (''mikrotik_password'', str_or_undef (js_trim (su_mikrotik_password v))),
      (''billing_day'', if_number (su_billing_day v))]
     @ profile_field (sb_service_type t) (num_or_undef (su_profile_id v))"

definition sub_onSubmit :: "form_mode \<times> Subscription option \<Rightarrow> SubscriptionFormValues \<Rightarrow> submission option" where
  "sub_onSubmit = (\<lambda>(mode, target) v.
     (if mode = AddMode then
        Some \<lparr>sub_mutation = useCreateSubscription (JObj (sub_payload v)),
              on_done = (\<lambda>res. [Success ''Subscription dibuat'' (js_optget res ''warning''), Close]),
              on_failed = (\<lambda>err. [Failure ''Gagal membuat subscription'' (parseAPIError err)])\<rparr>
      else
        (case target of
           None \<Rightarrow> None
         | Some t \<Rightarrow>
             Some \<lparr>sub_mutation = useUpdateSubscription (sb_id t) (JObj (sub_patch t v)),
                   on_done = (\<lambda>res. [Success ''Subscription diperbarui'' (js_optget res ''warning''), Close]),
                   on_failed = (\<lambda>err. [Failure ''Gagal memperbarui subscription'' (parseAPIError err)])\<rparr>)))"

definition SubscriptionCreateInput :: ts where
  "SubscriptionCreateInput =
     TObj [req ''customer_id'' TNum, req ''device_id'' TNum, optional ''ppp_profile_id'' TNum, optional ''hotspot_profile_id'' TNum,
       req ''service_type'' (TLit [''pppoe'', ''hotspot'']), req ''mikrotik_username'' TStr, req ''mikrotik_password'' TStr,
       optional ''billing_day'' TNum, optional ''notes'' TStr]"

definition SubscriptionUpdateInput :: ts where
  "SubscriptionUpdateInput =
     TObj [optional ''ppp_profile_id'' TNum, optional ''hotspot_profile_id'' TNum, optional ''mikrotik_password'' TStr,
       optional ''billing_day'' TNum, optional ''notes'' TStr]"

section \<open>Status and deletion\<close>

definition QUICK_ACTIONS :: "(string \<times> string list) list" where
  "QUICK_ACTIONS =
     [(''active'', [''isolir'', ''suspended'']), (''isolir'', [''active'', ''suspended'']), (''suspended'', [''active'']),
      (''pending_install'', []), (''terminated'', [])]"

definition SUBSCRIPTION_STATUSES :: "string list" where
  "SUBSCRIPTION_STATUSES = [''pending_install'', ''active'', ''isolir'', ''suspended'', ''terminated'']"

definition quickActions :: "Subscription option \<Rightarrow> string list" where
  "quickActions currentRow = or_else (map_of QUICK_ACTIONS (or_else (map_option sb_status currentRow) [])) []"

definition handleQuickAction :: "Subscription option \<Rightarrow> string \<Rightarrow> submission option" where
  "handleQuickAction currentRow targetStatus =
     map_option (\<lambda>r.
       \<lparr>sub_mutation = usePatchSubscriptionStatus (sb_id r) targetStatus,
        on_done = (\<lambda>res. [Success (''Status diubah ke '' @ targetStatus) (js_optget res ''warning''), Close]),
        on_failed = (\<lambda>err. [Failure ''Gagal mengubah status'' (parseAPIError err)])\<rparr>) currentRow"

definition status_handleConfirm :: "Subscription option \<Rightarrow> string \<Rightarrow> submission option" where
  "status_handleConfirm currentRow status =
     map_option (\<lambda>r.
       \<lparr>sub_mutation = usePatchSubscriptionStatus (sb_id r) status,
        on_done = (\<lambda>res. [Success ''Status updated'' (js_optget res ''warning''), Close]),
        on_failed = (\<lambda>err. [Failure ''Failed to update status'' (parseAPIError err)])\<rparr>) currentRow"

definition customers_handleDelete :: "Customer \<Rightarrow> string \<Rightarrow> submission option" where
  "customers_handleDelete currentRow v =
     (if js_trim v \<noteq> cu_full_name currentRow then None
      else Some \<lparr>sub_mutation = useRemoveCustomer (cu_id currentRow),
                 on_done = (\<lambda>_. [Success (''Customer '' @ quote (cu_full_name currentRow) @ '' removed'') JUndef, Close]),
                 on_failed = (\<lambda>err. [Failure ''Failed to remove customer'' (parseAPIError err)])\<rparr>)"

definition subscriptions_handleDelete :: "Subscription \<Rightarrow> string \<Rightarrow> submission option" where
  "subscriptions_handleDelete currentRow v =
     (if js_trim v \<noteq> sb_mikrotik_username currentRow then None
      else Some \<lparr>sub_mutation = useRemoveSubscription (sb_id currentRow),
                 on_done = (\<lambda>_. [Success ''Subscription removed'' JUndef, Close]),
                 on_failed = (\<lambda>err. [Failure ''Failed to remove'' (parseAPIError err)])\<rparr>)"

definition CONFIRM_WORD :: string where
  "CONFIRM_WORD = ''DELETE''"

text \<open>
  The batch dialogs: what happens at once, and the mutation. The dialog closes before the reply; the
  selection is cleared only on success.
\<close>

definition multi_delete ::
  "string \<Rightarrow> (int list \<Rightarrow> mutation) \<Rightarrow> string \<Rightarrow> int list \<Rightarrow> ui_event list \<times> submission option" where
  "multi_delete what batch v selected =
     (if js_trim v \<noteq> CONFIRM_WORD
      then ([Failure (''Please type '' @ [char_of (34 :: nat)] @ CONFIRM_WORD @ [char_of (34 :: nat)] @ '' to confirm.'') JUndef], None)
      else
        (let ids = filter (\<lambda>i. i \<noteq> 0) selected in
         if ids = [] then ([], None)
         else ([Close],
               Some \<lparr>sub_mutation = batch ids,
                     on_done = (\<lambda>n. [Success (''Deleted '' @ js_String n @ '' '' @ what @ (if js_Number n \<noteq> None \<and> 1 < the (js_Number n) then ''s'' else [])) JUndef]),
                     on_failed = (\<lambda>err. [Failure (''Failed to delete '' @ what @ ''s'') (error_text err)])\<rparr>)))"

definition customers_multi_delete :: "string \<Rightarrow> int list \<Rightarrow> ui_event list \<times> submission option" where
  "customers_multi_delete = multi_delete ''customer'' useBatchRemoveCustomers"

definition subscriptions_multi_delete :: "string \<Rightarrow> int list \<Rightarrow> ui_event list \<times> submission option" where
  "subscriptions_multi_delete = multi_delete ''subscription'' useBatchRemoveSubscriptions"

section \<open>Invoices and payments\<close>

record invoice_form =
  if_subscription_id :: string
  if_amount :: string
  if_period_start :: "int option"
  if_due_days :: string

definition all_digits :: "string \<Rightarrow> bool" where
  "all_digits s = (s \<noteq> [] \<and> list_all is_digit s)"

definition positive_text :: "string \<Rightarrow> bool" where
  "positive_text s = (all_digits s \<and> 0 < to_number s)"

definition invoice_schema :: "invoice_form \<Rightarrow> issue list" where
  "invoice_schema v =
     z_min1 ''subscription_id'' ''Pilih langganan'' (if_subscription_id v)
     @ z_when (if_amount v \<noteq> [] \<and> \<not> positive_text (if_amount v)) ''amount'' ''Jumlah harus angka > 0''
     @ z_when (if_period_start v = None) ''period_start'' ''Pilih tanggal mulai''"

text \<open>\<open>format\<close> is date-fns's; the subscription is looked up by its number, with customer 0 when there is none.\<close>

definition invoice_onSubmit :: "(int \<Rightarrow> string \<Rightarrow> string) \<Rightarrow> Subscription list \<Rightarrow> invoice_form \<Rightarrow> submission option" where
  "invoice_onSubmit fmt subs v =
     (let sub = find (\<lambda>s. Some (of_int (sb_id s)) = StringToNumber (if_subscription_id v)) subs in
      Some \<lparr>sub_mutation = useGenerateInvoice (JObj
              [(''subscription_id'', js_num (JStr (if_subscription_id v))),
               (''customer_id'', JNum (of_int (or_else (map_option sb_customer_id sub) 0))),
               (''amount'', if_number (if_amount v)),
               (''period_start'', case if_period_start v of Some d \<Rightarrow> JStr (fmt d ''yyyy-MM-dd'') | None \<Rightarrow> JUndef),
               (''due_days'', if_number (if_due_days v))]),
            on_done = (\<lambda>inv. [Success (''Invoice '' @ js_String (js_optget inv ''invoice_number'') @ '' berhasil dibuat'') JUndef, Close]),
            on_failed = (\<lambda>err. [Failure ''Gagal membuat invoice'' (err_message err)])\<rparr>)"

definition GenerateInvoiceInput :: ts where
  "GenerateInvoiceInput =
     TObj [req ''subscription_id'' TNum, req ''customer_id'' TNum, optional ''amount'' TNum, req ''period_start'' TStr, optional ''due_days'' TNum]"

record payment_form =
  py_method :: string
  py_amount :: string
  py_reference_number :: string
  py_bank_name :: string

definition payment_schema :: "payment_form \<Rightarrow> issue list" where
  "payment_schema v =
     z_when (py_method v \<notin> {''cash'', ''transfer''}) ''method'' ''Invalid option''
     @ (if \<not> all_digits (py_amount v) then [(''amount'', ''Harus angka'')] else [])
     @ z_when (\<not> 0 < to_number (py_amount v)) ''amount'' ''Jumlah harus > 0''"

definition payment_defaultValues :: "rat \<Rightarrow> payment_form" where
  "payment_defaultValues defaultAmount =
     \<lparr>py_method = ''cash'', py_amount = show_rat defaultAmount, py_reference_number = [], py_bank_name = []\<rparr>"

definition payment_onSubmit :: "int \<times> int \<times> string \<Rightarrow> payment_form \<Rightarrow> submission option" where
  "payment_onSubmit = (\<lambda>(invoiceId, customerId, invoiceNumber) v.
     Some \<lparr>sub_mutation = useCreatePayment (JObj
             [(''invoice_id'', JNum (of_int invoiceId)), (''customer_id'', JNum (of_int customerId)),
              (''amount'', js_num (JStr (py_amount v))), (''method'', JStr (py_method v)),
              (''reference_number'', str_or_undef (py_reference_number v)), (''bank_name'', str_or_undef (py_bank_name v))]),
           on_done = (\<lambda>_. [Success (''Pembayaran '' @ (if py_method v = ''cash'' then ''tunai'' else ''transfer'') @ '' '' @ invoiceNumber @ '' berhasil dicatat'') JUndef, Close]),
           on_failed = (\<lambda>err. [Failure ''Gagal mencatat pembayaran'' (err_message err)])\<rparr>)"

definition CreatePaymentInput :: ts where
  "CreatePaymentInput =
     TObj [req ''invoice_id'' TNum, req ''customer_id'' TNum, req ''amount'' TNum, req ''method'' (TLit [''cash'', ''transfer'']),
       optional ''reference_number'' TStr, optional ''bank_name'' TStr, optional ''proof_url'' TStr]"

definition collect_schema :: "string \<Rightarrow> issue list" where
  "collect_schema code = z_when (length code < 4) ''code'' ''Masukkan kode bayar yang valid''"

definition collect_onSubmit :: "string \<Rightarrow> submission option" where
  "collect_onSubmit code =
     Some \<lparr>sub_mutation = useCollectByCode (JObj [(''code'', JStr (toUpperCase (js_trim code))), (''method'', JStr ''cash'')]),
           on_done = (\<lambda>data. [NextStep data]),
           on_failed = (\<lambda>err. [FieldError ''code'' (err_message err)])\<rparr>"

definition CollectByCodeInput :: ts where
  "CollectByCodeInput = TObj [req ''code'' TStr, optional ''method'' TStr]"

datatype payment_mode = ConfirmMode | RejectMode

text \<open>The dialog keeps the reason it was last given.\<close>

definition handleAction :: "payment_mode \<Rightarrow> int option \<Rightarrow> string \<Rightarrow> submission option" where
  "handleAction mode payment reason =
     (case payment of
        None \<Rightarrow> None
      | Some ident \<Rightarrow>
          (case mode of
             ConfirmMode \<Rightarrow>
               Some \<lparr>sub_mutation = useConfirmPayment ident,
                     on_done = (\<lambda>_. [Success (''Pembayaran #'' @ show_int ident @ '' dikonfirmasi'') JUndef, Close]),
                     on_failed = (\<lambda>err. [Failure ''Gagal konfirmasi'' (err_message err)])\<rparr>
           | RejectMode \<Rightarrow>
               Some \<lparr>sub_mutation = useRejectPayment ident (if reason = [] then None else Some reason),
                     on_done = (\<lambda>_. [Success (''Pembayaran #'' @ show_int ident @ '' ditolak'') JUndef, Close]),
                     on_failed = (\<lambda>err. [Failure ''Gagal menolak'' (err_message err)])\<rparr>))"

definition proofUrl :: "string \<Rightarrow> string option \<Rightarrow> string \<Rightarrow> string option" where
  "proofUrl API_BASE proof_url token =
     (case proof_url of
        None \<Rightarrow> None
      | Some u \<Rightarrow> if u = [] then None else Some (API_BASE @ u @ ''?access_token='' @ encodeURIComponent token))"

section \<open>Registrations\<close>

record Registration =
  rg_id :: int
  rg_full_name :: string
  rg_phone :: string
  rg_address :: string
  rg_area :: string
  rg_notes :: string
  rg_service_type :: string
  rg_ppp_profile_id :: "int option"
  rg_hotspot_profile_id :: "int option"
  rg_device_id :: "int option"
  rg_status :: string
  rg_rejection_reason :: string
  rg_reviewed_by :: "int option"
  rg_reviewed_at :: "string option"
  rg_assigned_to :: "int option"
  rg_scheduled_at :: "string option"
  rg_installed_at :: "string option"
  rg_customer_id :: "int option"
  rg_created_at :: string
  rg_updated_at :: string

definition toISO :: "zone \<Rightarrow> string \<Rightarrow> js" where
  "toISO z s =
     (if s = [] then JNull
      else (case parse_Date z s of None \<Rightarrow> JNull | Some t \<Rightarrow> JStr (toISOString t)))"

definition approve_confirm :: "zone \<Rightarrow> Registration option \<Rightarrow> string \<Rightarrow> submission option" where
  "approve_confirm z target schedule =
     map_option (\<lambda>t.
       \<lparr>sub_mutation = useApproveRegistration (rg_id t) (JObj [(''scheduled_at'', toISO z schedule)]),
        on_done = (\<lambda>_. [Success (''Approved '' @ quote (rg_full_name t) @ '' '' @ em_dash @ '' customer created'') JUndef, Close]),
        on_failed = (\<lambda>err. [Failure ''Approve failed'' (parseAPIError err)])\<rparr>) target"

text \<open>A refusal without a reason shows an error and sends nothing.\<close>

definition reject_confirm :: "Registration option \<Rightarrow> string \<Rightarrow> ui_event list + submission option" where
  "reject_confirm target reason =
     (case target of
        None \<Rightarrow> Inr None
      | Some t \<Rightarrow>
          if js_trim reason = [] then Inl [Failure ''A reason is required'' JUndef]
          else Inr (Some
            \<lparr>sub_mutation = useRejectRegistration (rg_id t) (JObj [(''reason'', JStr (js_trim reason))]),
             on_done = (\<lambda>_. [Success (''Rejected '' @ quote (rg_full_name t)) JUndef, Close]),
             on_failed = (\<lambda>err. [Failure ''Reject failed'' (parseAPIError err)])\<rparr>))"

definition assign_confirm :: "zone \<Rightarrow> Registration option \<Rightarrow> string \<Rightarrow> string \<Rightarrow> ui_event list + submission option" where
  "assign_confirm z target assignedTo schedule =
     (case target of
        None \<Rightarrow> Inr None
      | Some t \<Rightarrow>
          if to_number assignedTo = 0 then Inl [Failure ''Pick a technician'' JUndef]
          else Inr (Some
            \<lparr>sub_mutation = useAssignRegistration (rg_id t)
               (JObj [(''assigned_to'', JNum (to_number assignedTo)), (''scheduled_at'', toISO z schedule)]),
             on_done = (\<lambda>_. [Success ''Technician assigned'' JUndef, Close]),
             on_failed = (\<lambda>err. [Failure ''Assign failed'' (parseAPIError err)])\<rparr>))"

record InstallFormValues =
  in_device_id :: string
  in_service_type :: string
  in_profile_id :: string
  in_mikrotik_username :: string
  in_mikrotik_password :: string
  in_billing_day :: string

definition installFormSchema :: "InstallFormValues \<Rightarrow> issue list" where
  "installFormSchema v =
     z_min1 ''device_id'' ''Pilih device terlebih dahulu'' (in_device_id v)
     @ z_when (in_service_type v \<notin> {''pppoe'', ''hotspot''}) ''service_type'' ''Invalid option''
     @ z_min1 ''profile_id'' ''Pilih paket terlebih dahulu'' (in_profile_id v)
     @ z_min1 ''mikrotik_username'' ''Username wajib diisi'' (in_mikrotik_username v)
     @ z_min1 ''mikrotik_password'' ''Password wajib diisi'' (in_mikrotik_password v)"

definition id_text :: "int option \<Rightarrow> string" where
  "id_text i = (case i of Some n \<Rightarrow> if n = 0 then [] else show_int n | None \<Rightarrow> [])"

definition install_defaultValues :: "Registration \<Rightarrow> InstallFormValues" where
  "install_defaultValues target =
     (let service = (if rg_service_type target = ''hotspot'' then ''hotspot'' else ''pppoe'') in
      \<lparr>in_device_id = id_text (rg_device_id target), in_service_type = service,
       in_profile_id = (if service = ''pppoe'' then id_text (rg_ppp_profile_id target) else id_text (rg_hotspot_profile_id target)),
       in_mikrotik_username = [], in_mikrotik_password = [], in_billing_day = []\<rparr>)"

definition install_payload :: "InstallFormValues \<Rightarrow> (string \<times> js) list" where
  "install_payload v =
     [(''device_id'', js_num (JStr (in_device_id v))), (''service_type'', JStr (in_service_type v)),
      (''mikrotik_username'', JStr (js_trim (in_mikrotik_username v))), (''mikrotik_password'', JStr (js_trim (in_mikrotik_password v)))]
     @ profile_field (in_service_type v) (js_num (JStr (in_profile_id v)))
     @ (if in_billing_day v = [] then [] else [(''billing_day'', js_num (JStr (in_billing_day v)))])"

definition install_onSubmit :: "Registration \<Rightarrow> InstallFormValues \<Rightarrow> submission option" where
  "install_onSubmit target v =
     Some \<lparr>sub_mutation = useCompleteInstall (rg_id target) (JObj (install_payload v)),
           on_done = (\<lambda>_. [Success (''Installed '' @ em_dash @ '' subscription + first invoice created'') JUndef, Close]),
           on_failed = (\<lambda>err. [Failure ''Install failed'' (parseAPIError err)])\<rparr>"

definition CompleteInstallInput :: ts where
  "CompleteInstallInput =
     TObj [req ''device_id'' TNum, req ''service_type'' (TLit [''pppoe'', ''hotspot'']), optional ''ppp_profile_id'' TNum,
       optional ''hotspot_profile_id'' TNum, req ''mikrotik_username'' TStr, req ''mikrotik_password'' TStr, optional ''billing_day'' TNum]"

section \<open>The contracts\<close>

interpretation customer: reporting_form "\<lambda>_. customerSchema" customer_onSubmit
  by unfold_locales (auto simp: customer_onSubmit_def intro!: reportsI split: if_splits option.splits)

interpretation subscription_step: dialog_form "\<lambda>_. subscriptionSchema" step_onSubmit
  by (rule dialog_formI) (auto simp: step_onSubmit_def intro!: well_behavedI)

interpretation subscription: dialog_form sub_schema sub_onSubmit
  by (rule dialog_formI) (auto simp: sub_onSubmit_def intro!: well_behavedI split: if_splits option.splits)

interpretation subscription_status: dialog_form "\<lambda>_ _. []" status_handleConfirm
  by (rule dialog_formI) (auto simp: status_handleConfirm_def intro!: well_behavedI)

interpretation subscription_quick_action: dialog_form "\<lambda>_ _. []" handleQuickAction
  by (rule dialog_formI) (auto simp: handleQuickAction_def intro!: well_behavedI)

interpretation customer_delete: dialog_form "\<lambda>_ _. []" customers_handleDelete
  by (rule dialog_formI) (auto simp: customers_handleDelete_def intro!: well_behavedI split: if_splits)

interpretation subscription_delete: dialog_form "\<lambda>_ _. []" subscriptions_handleDelete
  by (rule dialog_formI) (auto simp: subscriptions_handleDelete_def intro!: well_behavedI split: if_splits)

interpretation generate_invoice: dialog_form "\<lambda>_. invoice_schema" "invoice_onSubmit fmt" for fmt
  by (rule dialog_formI) (auto simp: invoice_onSubmit_def intro!: well_behavedI)

interpretation record_payment: dialog_form "\<lambda>_. payment_schema" payment_onSubmit
  by (rule dialog_formI) (auto simp: payment_onSubmit_def intro!: well_behavedI)

interpretation collect: reporting_form "\<lambda>_ :: unit. collect_schema" "\<lambda>_. collect_onSubmit"
  by unfold_locales (auto simp: collect_onSubmit_def intro!: reportsI)

interpretation payment_action: dialog_form "\<lambda>_ _. []" "handleAction mode" for mode
  by (rule dialog_formI) (auto simp: handleAction_def intro!: well_behavedI split: option.splits payment_mode.splits)

interpretation approve: dialog_form "\<lambda>_ _. []" "approve_confirm z" for z
  by (rule dialog_formI) (auto simp: approve_confirm_def intro!: well_behavedI)

interpretation complete_install: dialog_form "\<lambda>_. installFormSchema" install_onSubmit
  by (rule dialog_formI) (auto simp: install_onSubmit_def intro!: well_behavedI)

lemma reject_confirm_contract: "reject_confirm target reason = Inr (Some s) \<Longrightarrow> well_behaved s"
  by (auto simp: reject_confirm_def intro!: well_behavedI split: option.splits if_splits)

lemma assign_confirm_contract: "assign_confirm z target i reason = Inr (Some s) \<Longrightarrow> well_behaved s"
  by (auto simp: assign_confirm_def intro!: well_behavedI split: option.splits if_splits)

section \<open>Types\<close>

lemma number_values [simp]:
  "numeric s \<Longrightarrow> \<exists>n. js_num (JStr s) = JNum n"
  "(case num_or_undef s of JNum x \<Rightarrow> True | _ \<Rightarrow> False) \<longleftrightarrow> num_or_undef s \<noteq> JUndef"
  by (auto simp: numeric_def js_num_def num_or_undef_def split: option.split)

lemma js_num_numeric: "numeric s \<Longrightarrow> (case js_num (JStr s) of JNum x \<Rightarrow> True | _ \<Rightarrow> False)"
  by (auto simp: numeric_def js_num_def split: option.split)

lemma if_number_type: "s = [] \<or> numeric s \<Longrightarrow> if_number s = JUndef \<or> (case if_number s of JNum x \<Rightarrow> True | _ \<Rightarrow> False)"
  by (auto simp: if_number_def js_num_numeric)

lemma customer_create_type: "customerSchema v = [] \<Longrightarrow> conforms CustomerCreateInput (JObj (customer_payload v))"
  by (auto simp: CustomerCreateInput_def customer_payload_def customerSchema_def)

lemma customer_update_type: "customerSchema v = [] \<Longrightarrow> conforms CustomerUpdateInput (JObj (customer_payload v))"
  by (auto simp: CustomerUpdateInput_def customer_payload_def customerSchema_def)

lemma sub_create_type:
  assumes "sub_addSchema v = []" "numeric (su_customer_id v)" "numeric (su_device_id v)" "su_billing_day v = [] \<or> numeric (su_billing_day v)"
  shows "conforms SubscriptionCreateInput (JObj (sub_payload v))"
proof -
  have "su_service_type v = ''pppoe'' \<or> su_service_type v = ''hotspot''"
    using assms(1) by (auto simp: sub_addSchema_def sub_baseSchema_def Let_def split: if_splits)
  then show ?thesis
    using assms(2-) if_number_type [OF assms(4)]
    by (elim disjE [of "su_service_type v = _"])
      (simp_all add: SubscriptionCreateInput_def sub_payload_def profile_field_def Let_def js_num_numeric)
qed

lemma sub_update_type:
  assumes "su_billing_day v = [] \<or> numeric (su_billing_day v)"
  shows "conforms SubscriptionUpdateInput (JObj (sub_patch t v))"
  using if_number_type [OF assms] by (simp add: SubscriptionUpdateInput_def sub_patch_def profile_field_def)

lemma step_create_type:
  assumes "subscriptionSchema v = []" "numeric (st_device_id v)" "js_optget customer ''id'' = JNum i"
  shows "conforms SubscriptionCreateInput (JObj (step_payload customer v))"
proof -
  have "st_service_type v = ''pppoe'' \<or> st_service_type v = ''hotspot''"
    using assms(1) by (auto simp: subscriptionSchema_def)
  then show ?thesis
    using assms(2-) by (elim disjE) (simp_all add: SubscriptionCreateInput_def step_payload_def profile_field_def js_num_numeric)
qed

lemma install_type:
  assumes "installFormSchema v = []" "numeric (in_device_id v)" "numeric (in_profile_id v)" "in_billing_day v = [] \<or> numeric (in_billing_day v)"
  shows "conforms CompleteInstallInput (JObj (install_payload v))"
proof -
  have "in_service_type v = ''pppoe'' \<or> in_service_type v = ''hotspot''"
    using assms(1) by (auto simp: installFormSchema_def)
  then show ?thesis
    using assms(2-)
    by (elim disjE [of "in_service_type v = _"]; cases "in_billing_day v = []")
      (simp_all add: CompleteInstallInput_def install_payload_def profile_field_def js_num_numeric)
qed

lemma digits_number: "all_digits s \<Longrightarrow> js_num (JStr s) = JNum (of_nat (read_digits s))"
  by (simp add: all_digits_def js_num_def StringToNumber_digits)

lemma payment_type:
  assumes "payment_schema v = []" "payment_onSubmit (i, c, n) v = Some s"
  shows "conforms CreatePaymentInput (request_body s)"
proof -
  have "all_digits (py_amount v)" "py_method v = ''cash'' \<or> py_method v = ''transfer''"
    using assms(1) by (auto simp: payment_schema_def split: if_splits)
  then show ?thesis
    using assms(2)
    by (elim disjE) (auto simp: payment_onSubmit_def request_body_def useCreatePayment_def createPayment_def CreatePaymentInput_def digits_number)
qed

lemma invoice_type:
  assumes "invoice_schema v = []" "numeric (if_subscription_id v)" "if_due_days v = [] \<or> numeric (if_due_days v)"
    and "invoice_onSubmit fmt subs v = Some s"
  shows "conforms GenerateInvoiceInput (request_body s)"
proof -
  have "if_amount v = [] \<or> numeric (if_amount v)" and p: "if_period_start v \<noteq> None"
    using assms(1) by (auto simp: invoice_schema_def positive_text_def all_digits_def numeric_def StringToNumber_digits)
  note t = if_number_type [OF this(1)] if_number_type [OF assms(3)]
  have "request_body s = JObj
      [(''subscription_id'', js_num (JStr (if_subscription_id v))),
       (''customer_id'', JNum (of_int (or_else (map_option sb_customer_id
          (find (\<lambda>s. Some (of_int (sb_id s)) = StringToNumber (if_subscription_id v)) subs)) 0))),
       (''amount'', if_number (if_amount v)), (''period_start'', JStr (fmt (the (if_period_start v)) ''yyyy-MM-dd'')),
       (''due_days'', if_number (if_due_days v))]"
    using assms(4) p by (auto simp: invoice_onSubmit_def Let_def request_body_def useGenerateInvoice_def generateInvoice_def)
  then show ?thesis using t js_num_numeric [OF assms(2)] by (simp add: GenerateInvoiceInput_def)
qed

section \<open>The two steps\<close>



section \<open>Saving what was loaded\<close>

definition customer_record :: "Customer \<Rightarrow> (string \<times> js) list" where
  "customer_record c =
     [(''id'', JNum (of_int (cu_id c))), (''full_name'', JStr (cu_full_name c)), (''phone'', JStr (cu_phone c)), (''address'', JStr (cu_address c)),
      (''area'', JStr (cu_area c)), (''notes'', JStr (cu_notes c)), (''status'', JStr (cu_status c))]"

definition customer_clean :: "Customer \<Rightarrow> bool" where
  "customer_clean c = list_all trimmed [cu_full_name c, cu_phone c, cu_address c, cu_area c, cu_notes c]"

lemma customer_edit_keeps:
  assumes "customer_clean c" "customer_onSubmit (EditMode, Some c) (defaultCustomer (Some c)) = Some s"
  shows "keeps (customer_record c) (request_body s)"
  using assms
  by (auto simp: customer_clean_def trimmed_def customer_onSubmit_def defaultCustomer_def request_body_def useUpdateCustomer_def
      updateCustomer_def customer_payload_def keeps_def customer_record_def)

definition subscription_record :: "Subscription \<Rightarrow> (string \<times> js) list" where
  "subscription_record t =
     [(''ppp_profile_id'', case sb_ppp_profile_id t of None \<Rightarrow> JNull | Some p \<Rightarrow> JNum (of_int p)),
      (''hotspot_profile_id'', case sb_hotspot_profile_id t of None \<Rightarrow> JNull | Some p \<Rightarrow> JNum (of_int p)),
      (''notes'', JStr (sb_notes t)), (''billing_day'', case sb_billing_day t of None \<Rightarrow> JNull | Some d \<Rightarrow> JNum (of_int d))]"

text \<open>A subscription has a profile of its own service type only.\<close>

definition subscription_clean :: "Subscription \<Rightarrow> bool" where
  "subscription_clean t =
     (trimmed (sb_notes t) \<and> (\<forall>d \<in> set_option (sb_billing_day t). 0 < d)
      \<and> (\<forall>p \<in> set_option (sb_ppp_profile_id t). 0 < p) \<and> (\<forall>p \<in> set_option (sb_hotspot_profile_id t). 0 < p)
      \<and> (if sb_service_type t = ''pppoe'' then sb_hotspot_profile_id t = None else sb_ppp_profile_id t = None))"

lemma num_or_undef_show: "0 < n \<Longrightarrow> num_or_undef (show_int n) = JNum (of_int n)"
  by (simp add: num_or_undef_def StringToNumber_show_int)

lemma num_or_undef_Nil [simp]: "num_or_undef [] = JUndef"
  by (simp add: num_or_undef_def StringToNumber_def js_trim_def)

lemma if_number_show: "0 < n \<Longrightarrow> if_number (show_int n) = JNum (of_int n)"
  by (simp add: if_number_def js_num_def StringToNumber_show_int)

lemma subscription_edit_keeps:
  assumes "subscription_clean t" "sub_onSubmit (EditMode, Some t) (sub_defaultValues (Some t) r) = Some s"
  shows "keeps (subscription_record t) (request_body s)"
proof -
  let ?v = "sub_defaultValues (Some t) r"
  have b: "request_body s = JObj (sub_patch t ?v)"
    using assms(2) by (auto simp: sub_onSubmit_def request_body_def useUpdateSubscription_def updateSubscription_def)
  have "su_notes ?v = sb_notes t" "su_mikrotik_password ?v = []"
    by (simp_all add: sub_defaultValues_def)
  moreover have "if_number (su_billing_day ?v) = (case sb_billing_day t of None \<Rightarrow> JUndef | Some d \<Rightarrow> JNum (of_int d))"
    using assms(1) by (auto simp: subscription_clean_def sub_defaultValues_def if_number_show if_number_def [of "[]"] split: option.split)
  moreover have "num_or_undef (su_profile_id ?v) = (case (if sb_service_type t = ''pppoe'' then sb_ppp_profile_id t else sb_hotspot_profile_id t) of
      None \<Rightarrow> JUndef | Some d \<Rightarrow> JNum (of_int d))"
    using assms(1) by (auto simp: subscription_clean_def sub_defaultValues_def num_or_undef_show split: option.split if_splits)
  ultimately show ?thesis
    using assms(1) unfolding b
    by (auto simp: subscription_clean_def trimmed_def sub_patch_def profile_field_def keeps_def subscription_record_def js_trim_def [of "[]"]
        split: option.split if_splits)
qed

section \<open>Deleting by name\<close>

text \<open>
  The delete dialogs compare the trimmed input with the stored name, so a name with white space at
  its ends can never be confirmed; any other is confirmed by typing it, with or without such white space.
\<close>

lemma dropWhile_head: "dropWhile P xs \<noteq> [] \<Longrightarrow> \<not> P (hd (dropWhile P xs))"
  by (induction xs) auto

lemma dropWhile_last: "dropWhile P xs \<noteq> [] \<Longrightarrow> last (dropWhile P xs) = last xs"
  by (induction xs) auto

lemma js_trim_ends: "js_trim s \<noteq> [] \<Longrightarrow> \<not> is_ws (hd (js_trim s)) \<and> \<not> is_ws (last (js_trim s))"
  unfolding js_trim_def hd_rev last_rev
  using dropWhile_head [of is_ws "rev (dropWhile is_ws s)"] dropWhile_last [of is_ws "rev (dropWhile is_ws s)"]
    dropWhile_head [of is_ws s] by (cases "dropWhile is_ws s = []") (auto simp: last_rev)

lemma js_trim_trimmed: "trimmed (js_trim s)"
  unfolding trimmed_def by (rule js_trim_id) (use js_trim_ends [of s] in blast)

lemma ex_js_trim: "(\<exists>v. js_trim v = s) \<longleftrightarrow> trimmed s"
  using js_trim_trimmed unfolding trimmed_def by metis

lemma delete_confirmed:
  "(\<exists>v. customers_handleDelete c v \<noteq> None) \<longleftrightarrow> trimmed (cu_full_name c)"
  "(\<exists>v. subscriptions_handleDelete r v \<noteq> None) \<longleftrightarrow> trimmed (sb_mikrotik_username r)"
  unfolding customers_handleDelete_def subscriptions_handleDelete_def by (simp_all add: ex_js_trim)

end
