(* ===== verification/Settings_Forms.thy ===== *)
theory Settings_Forms
  imports Forms Admin_Api
begin

text \<open>
  The settings pages (\<^verbatim>\<open>features/settings\<close>: general, billing, notifications, payment gateway, backup,
  account), the cards of the notification centre and the WhatsApp page that write the same settings, and
  the template drawer.

  A settings form loads its fields from a list of key and value pairs and writes one request per key. The
  locale \<open>settings_form\<close> is what each of them keeps: the keys are different, saving a form nobody touched
  writes back what is stored, and a secret the server has masked is not written.
\<close>

section \<open>Settings\<close>

record SystemSetting =
  sg_key :: string
  sg_value :: string
  sg_value_type :: string
  sg_description :: "string option"
  sg_group_name :: "string option"

text \<open>\<open>for (const s of settings) map[s.key] = s.value\<close>\<close>

definition settings_map :: "SystemSetting list \<Rightarrow> string \<Rightarrow> string option" where
  "settings_map settings = fold (\<lambda>s m. m(sg_key s \<mapsto> sg_value s)) settings Map.empty"

definition bullet :: string where
  "bullet = [char_of (226 :: nat), char_of (128 :: nat), char_of (162 :: nat)]"

definition isMasked :: "string \<Rightarrow> bool" where
  "isMasked value = prefix (bullet @ bullet) value"

definition unmasked :: "string option \<Rightarrow> string" where
  "unmasked value = (if isMasked (or_else value []) then [] else or_else value [])"

lemma bool_text_stored: "v \<in> {''true'', ''false''} \<Longrightarrow> bool_text (v = ''true'') = v"
  by (auto simp: bool_text_def)

type_synonym updates = "(string \<times> string) list"

section \<open>General\<close>

record GeneralValues =
  gs_company_name :: string
  gs_hotspot_login_url :: string

definition general_schema :: "GeneralValues \<Rightarrow> issue list" where
  "general_schema v =
     z_when (100 < length (gs_company_name v)) ''company_name'' ''Too big''
     @ z_when (255 < length (gs_hotspot_login_url v)) ''hotspot_login_url'' ''Too big''"

definition general_load :: "(string \<Rightarrow> string option) \<Rightarrow> GeneralValues" where
  "general_load m =
     \<lparr>gs_company_name = or_else (m ''general.company_name'') [], gs_hotspot_login_url = or_else (m ''general.hotspot_login_url'') []\<rparr>"

definition general_updates :: "GeneralValues \<Rightarrow> updates" where
  "general_updates v =
     [(''general.company_name'', gs_company_name v), (''general.hotspot_login_url'', gs_hotspot_login_url v)]"

section \<open>Billing\<close>

record BillingValues =
  bs_default_billing_day :: string
  bs_invoice_due_days :: string
  bs_isolir_after_days :: string
  bs_hard_suspend_after_days :: string
  bs_isolir_profile_name :: string

definition digits_field :: "string \<Rightarrow> (rat \<Rightarrow> bool) \<Rightarrow> string \<Rightarrow> string \<Rightarrow> issue list" where
  "digits_field field ok message s =
     z_when (s = [] \<or> \<not> list_all is_digit s) field ''Harus berupa angka''
     @ z_when (\<not> (case StringToNumber s of None \<Rightarrow> False | Some n \<Rightarrow> ok n)) field message"

definition billing_config_schema :: "BillingValues \<Rightarrow> issue list" where
  "billing_config_schema v =
     digits_field ''default_billing_day'' (\<lambda>n. 1 \<le> n \<and> n \<le> 28) ''Harus antara 1-28'' (bs_default_billing_day v)
     @ digits_field ''invoice_due_days'' (\<lambda>n. 1 \<le> n) ''Minimal 1 hari'' (bs_invoice_due_days v)
     @ digits_field ''isolir_after_days'' (\<lambda>n. 0 \<le> n) ''Minimal 0 hari'' (bs_isolir_after_days v)
     @ digits_field ''hard_suspend_after_days'' (\<lambda>n. 1 \<le> n) ''Minimal 1 hari'' (bs_hard_suspend_after_days v)
     @ z_min1 ''isolir_profile_name'' ''Wajib diisi'' (bs_isolir_profile_name v)"

definition billing_config_load :: "(string \<Rightarrow> string option) \<Rightarrow> BillingValues" where
  "billing_config_load m =
     \<lparr>bs_default_billing_day = or_else (m ''billing.default_billing_day'') ''1'',
      bs_invoice_due_days = or_else (m ''billing.invoice_due_days'') ''7'',
      bs_isolir_after_days = or_else (m ''billing.isolir_after_days'') ''3'',
      bs_hard_suspend_after_days = or_else (m ''billing.hard_suspend_after_days'') ''14'',
      bs_isolir_profile_name = or_else (m ''billing.isolir_profile_name'') ''isolir''\<rparr>"

definition billing_config_updates :: "BillingValues \<Rightarrow> updates" where
  "billing_config_updates v =
     [(''billing.default_billing_day'', bs_default_billing_day v), (''billing.invoice_due_days'', bs_invoice_due_days v),
      (''billing.isolir_after_days'', bs_isolir_after_days v), (''billing.hard_suspend_after_days'', bs_hard_suspend_after_days v),
      (''billing.isolir_profile_name'', bs_isolir_profile_name v)]"

section \<open>Notifications\<close>

record NotificationValues =
  ns_wa_enabled :: bool
  ns_admin_phone :: string
  ns_telegram_enabled :: bool
  ns_telegram_bot_token :: string
  ns_telegram_chat_id :: string

definition notification_load :: "(string \<Rightarrow> string option) \<Rightarrow> NotificationValues" where
  "notification_load m =
     \<lparr>ns_wa_enabled = (m ''notification.wa_enabled'' = Some ''true''),
      ns_admin_phone = or_else (m ''notification.admin_phone'') [],
      ns_telegram_enabled = (m ''notification.telegram_enabled'' = Some ''true''),
      ns_telegram_bot_token = unmasked (m ''notification.telegram_bot_token''),
      ns_telegram_chat_id = or_else (m ''notification.telegram_chat_id'') []\<rparr>"

definition notification_updates :: "NotificationValues \<Rightarrow> updates" where
  "notification_updates v =
     [(''notification.wa_enabled'', bool_text (ns_wa_enabled v)), (''notification.admin_phone'', ns_admin_phone v),
      (''notification.telegram_enabled'', bool_text (ns_telegram_enabled v)), (''notification.telegram_chat_id'', ns_telegram_chat_id v)]
     @ (if js_trim (ns_telegram_bot_token v) \<noteq> [] then [(''notification.telegram_bot_token'', ns_telegram_bot_token v)] else [])"

section \<open>Payment gateway\<close>

record PaymentValues =
  pg_xendit_enabled :: bool
  pg_xendit_secret_key :: string
  pg_xendit_webhook_token :: string
  pg_xendit_invoice_duration :: string
  pg_app_url :: string

definition payment_gateway_schema :: "PaymentValues \<Rightarrow> issue list" where
  "payment_gateway_schema v =
     digits_field ''xendit_invoice_duration'' (\<lambda>n. 300 \<le> n) ''Minimal 300 detik (5 menit)'' (pg_xendit_invoice_duration v)
     @ z_when (\<not> (pg_app_url v = [] \<or> prefix ''http://'' (pg_app_url v) \<or> prefix ''https://'' (pg_app_url v))) ''app_url''
         ''Harus URL valid (diawali http:// atau https://)''"

definition payment_gateway_load :: "(string \<Rightarrow> string option) \<Rightarrow> PaymentValues" where
  "payment_gateway_load m =
     \<lparr>pg_xendit_enabled = (m ''payment.xendit_enabled'' = Some ''true''),
      pg_xendit_secret_key = unmasked (m ''payment.xendit_secret_key''),
      pg_xendit_webhook_token = unmasked (m ''payment.xendit_webhook_token''),
      pg_xendit_invoice_duration = (let d = or_else (m ''payment.xendit_invoice_duration'') [] in if d = [] then ''86400'' else d),
      pg_app_url = or_else (m ''payment.app_url'') []\<rparr>"

definition payment_gateway_updates :: "PaymentValues \<Rightarrow> updates" where
  "payment_gateway_updates v =
     [(''payment.xendit_enabled'', bool_text (pg_xendit_enabled v)),
      (''payment.xendit_invoice_duration'', pg_xendit_invoice_duration v), (''payment.app_url'', pg_app_url v)]
     @ (if js_trim (pg_xendit_secret_key v) \<noteq> [] then [(''payment.xendit_secret_key'', pg_xendit_secret_key v)] else [])
     @ (if js_trim (pg_xendit_webhook_token v) \<noteq> [] then [(''payment.xendit_webhook_token'', pg_xendit_webhook_token v)] else [])"

text \<open>The connection test: its status and message.\<close>

datatype test_status = Test_idle | Test_success | Test_error

definition handleTestConnection :: "thrown + js \<Rightarrow> test_status \<times> js" where
  "handleTestConnection r =
     (case r of
        Inr result \<Rightarrow> (if truthy (js_optget result ''success'') then Test_success else Test_error, js_optget result ''message'')
      | Inl _ \<Rightarrow> (Test_error, JStr ''Gagal menghubungi server. Coba lagi.''))"

section \<open>Backup\<close>

record BackupValues =
  bk_enabled :: bool
  bk_path :: string
  bk_retention_days :: string

definition backup_schema :: "BackupValues \<Rightarrow> issue list" where
  "backup_schema v =
     z_min1 ''path'' ''Wajib diisi'' (bk_path v)
     @ digits_field ''retention_days'' (\<lambda>n. 1 \<le> n) ''Minimal 1 hari'' (bk_retention_days v)"

definition backup_load :: "(string \<Rightarrow> string option) \<Rightarrow> BackupValues" where
  "backup_load m =
     \<lparr>bk_enabled = (m ''backup.enabled'' = Some ''true''), bk_path = or_else (m ''backup.path'') ''./backups'',
      bk_retention_days = or_else (m ''backup.retention_days'') ''7''\<rparr>"

definition backup_updates :: "BackupValues \<Rightarrow> updates" where
  "backup_updates v =
     [(''backup.enabled'', bool_text (bk_enabled v)), (''backup.path'', bk_path v), (''backup.retention_days'', bk_retention_days v)]"

section \<open>The contract of a settings form\<close>

text \<open>What the server stores after the requests of a form.\<close>

definition stored_after :: "updates \<Rightarrow> (string \<Rightarrow> string option) \<Rightarrow> string \<Rightarrow> string option" where
  "stored_after us m = fold (\<lambda>(k, v) m. m(k \<mapsto> v)) us m"

definition flags_stored :: "string list \<Rightarrow> (string \<Rightarrow> string option) \<Rightarrow> bool" where
  "flags_stored ks m = list_all (\<lambda>k. m k \<in> {None, Some ''true'', Some ''false''}) ks"

lemma stored_after_Nil [simp]: "stored_after [] m = m"
  by (simp add: stored_after_def)

lemma stored_after_Cons [simp]: "stored_after ((k, v) # us) m = stored_after us (m(k \<mapsto> v))"
  by (simp add: stored_after_def)

lemma stored_after_other: "k \<notin> fst ` set us \<Longrightarrow> stored_after us m k = m k"
  by (induction us arbitrary: m) auto

lemma stored_after_in: "distinct (map fst us) \<Longrightarrow> (k, v) \<in> set us \<Longrightarrow> stored_after us m k = Some v"
proof (induction us arbitrary: m)
  case (Cons u us)
  then show ?case by (cases u) (auto simp: stored_after_other)
qed simp

lemma unmasked_simps: "isMasked v \<Longrightarrow> unmasked (Some v) = []" "\<not> isMasked v \<Longrightarrow> unmasked (Some v) = v" "unmasked None = []"
  by (auto simp: unmasked_def)

locale settings_form =
  fixes load :: "(string \<Rightarrow> string option) \<Rightarrow> 'v"
    and updates :: "'v \<Rightarrow> updates"
    and flags secrets :: "string list"
  assumes distinct_keys: "distinct (map fst (updates v))"
    and writes_back: "flags_stored flags m \<Longrightarrow> m k = Some s \<Longrightarrow> s \<noteq> [] \<Longrightarrow> (k, w) \<in> set (updates (load m)) \<Longrightarrow> w = s"
    and masked_kept: "k \<in> set secrets \<Longrightarrow> m k = Some s \<Longrightarrow> isMasked s \<Longrightarrow> k \<notin> fst ` set (updates (load m))"
begin

lemma untouched_keeps:
  assumes "flags_stored flags m" "m k = Some s" "s \<noteq> []"
  shows "stored_after (updates (load m)) m k = Some s"
proof (cases "k \<in> fst ` set (updates (load m))")
  case True
  then obtain v where "(k, v) \<in> set (updates (load m))" by auto
  with stored_after_in [OF distinct_keys] writes_back [of m k s, OF assms] show ?thesis by blast
next
  case False
  then show ?thesis by (simp add: stored_after_other assms)
qed

lemma masked_never_written:
  assumes "k \<in> set secrets" "m k = Some s" "isMasked s"
  shows "stored_after (updates (load m)) m k = Some s"
  using masked_kept [of k m s, OF assms] by (simp add: stored_after_other assms(2))

end

interpretation general: settings_form general_load general_updates "[]" "[]"
  by unfold_locales (auto simp: general_load_def general_updates_def)

interpretation billing_config: settings_form billing_config_load billing_config_updates "[]" "[]"
  by unfold_locales (auto simp: billing_config_load_def billing_config_updates_def)

interpretation backup: settings_form backup_load backup_updates "[''backup.enabled'']" "[]"
  by unfold_locales (auto simp: backup_load_def backup_updates_def flags_stored_def bool_text_def)

interpretation notification_config: settings_form notification_load notification_updates
    "[''notification.wa_enabled'', ''notification.telegram_enabled'']" "[''notification.telegram_bot_token'']"
  by unfold_locales
    (auto simp: notification_load_def notification_updates_def flags_stored_def bool_text_def unmasked_def js_trim_def [of "[]"] split: if_splits)

interpretation payment_gateway: settings_form payment_gateway_load payment_gateway_updates
    "[''payment.xendit_enabled'']" "[''payment.xendit_secret_key'', ''payment.xendit_webhook_token'']"
  by unfold_locales
    (auto simp: payment_gateway_load_def payment_gateway_updates_def flags_stored_def bool_text_def unmasked_def js_trim_def [of "[]"] Let_def split: if_splits)

section \<open>Saving\<close>

text \<open>
  \<open>mutate\<close> is called once for each key on one mutation hook; the callbacks given to it count the requests that have
  succeeded. \<open>fires i\<close> says whether the callbacks of the \<open>i\<close>-th call run, \<open>order\<close> is the order in which the
  requests settle.
\<close>

definition settings_requests :: "updates \<Rightarrow> mutation list" where
  "settings_requests us = map (\<lambda>(k, v). useUpdateSetting k v) us"

fun save_events ::
  "(nat \<Rightarrow> bool) \<Rightarrow> updates \<Rightarrow> string \<Rightarrow> (string \<Rightarrow> string) \<Rightarrow> (nat \<Rightarrow> thrown + js) \<Rightarrow> nat \<Rightarrow> nat list \<Rightarrow> ui_event list"
where
  "save_events fires us ok bad r done_count [] = []"
| "save_events fires us ok bad r done_count (i # order) =
     (if \<not> fires i then save_events fires us ok bad r done_count order
      else (case r i of
          Inr _ \<Rightarrow> (if done_count + 1 = length us then [Success ok JUndef] else []) @ save_events fires us ok bad r (done_count + 1) order
        | Inl _ \<Rightarrow> Failure (bad (fst (us ! i))) JUndef # save_events fires us ok bad r done_count order))"

definition saved_key :: "string \<Rightarrow> string" where
  "saved_key key = ''Gagal menyimpan '' @ [char_of (34 :: nat)] @ key @ [char_of (34 :: nat)]"

definition saved_pengaturan :: "string \<Rightarrow> string" where
  "saved_pengaturan key = ''Gagal menyimpan pengaturan '' @ [char_of (34 :: nat)] @ key @ [char_of (34 :: nat)]"

definition billing_config_save :: "(nat \<Rightarrow> bool) \<Rightarrow> BillingValues \<Rightarrow> (nat \<Rightarrow> thrown + js) \<Rightarrow> nat list \<Rightarrow> ui_event list" where
  "billing_config_save fires v = (\<lambda>r. save_events fires (billing_config_updates v) ''Konfigurasi billing berhasil disimpan.'' saved_key r 0)"

definition notification_save :: "(nat \<Rightarrow> bool) \<Rightarrow> NotificationValues \<Rightarrow> (nat \<Rightarrow> thrown + js) \<Rightarrow> nat list \<Rightarrow> ui_event list" where
  "notification_save fires v = (\<lambda>r. save_events fires (notification_updates v) ''Konfigurasi notifikasi berhasil disimpan.'' saved_key r 0)"

definition payment_gateway_save :: "(nat \<Rightarrow> bool) \<Rightarrow> PaymentValues \<Rightarrow> (nat \<Rightarrow> thrown + js) \<Rightarrow> nat list \<Rightarrow> ui_event list" where
  "payment_gateway_save fires v = (\<lambda>r. save_events fires (payment_gateway_updates v) ''Konfigurasi payment gateway berhasil disimpan.'' saved_pengaturan r 0)"

definition backup_save :: "(nat \<Rightarrow> bool) \<Rightarrow> BackupValues \<Rightarrow> (nat \<Rightarrow> thrown + js) \<Rightarrow> nat list \<Rightarrow> ui_event list" where
  "backup_save fires v = (\<lambda>r. save_events fires (backup_updates v) ''Konfigurasi backup berhasil disimpan.'' saved_key r 0)"

text \<open>The general form shows at most one error, and no success after it.\<close>

fun general_events :: "(nat \<Rightarrow> bool) \<Rightarrow> nat \<Rightarrow> (nat \<Rightarrow> thrown + js) \<Rightarrow> nat \<Rightarrow> bool \<Rightarrow> nat list \<Rightarrow> ui_event list" where
  "general_events fires n r done_count failed [] = []"
| "general_events fires n r done_count failed (i # order) =
     (if \<not> fires i then general_events fires n r done_count failed order
      else (case r i of
          Inr _ \<Rightarrow> (if done_count + 1 = n \<and> \<not> failed then [Success ''Pengaturan umum berhasil disimpan.'' JUndef] else [])
                   @ general_events fires n r (done_count + 1) failed order
        | Inl _ \<Rightarrow> (if failed then [] else [Failure ''Gagal menyimpan pengaturan.'' JUndef]) @ general_events fires n r done_count True order))"

definition general_save :: "(nat \<Rightarrow> bool) \<Rightarrow> GeneralValues \<Rightarrow> (nat \<Rightarrow> thrown + js) \<Rightarrow> nat list \<Rightarrow> ui_event list" where
  "general_save fires v = (\<lambda>r. general_events fires (length (general_updates v)) r 0 False)"

text \<open>
  With callbacks for every call, as the code counts on, success is shown exactly when every request succeeds.
\<close>

lemma save_events_success:
  assumes "fires = (\<lambda>_. True)" "d + length order = length us"
  shows "list_ex is_success (save_events fires us ok bad r d order) \<longleftrightarrow> order \<noteq> [] \<and> (\<forall>i \<in> set order. \<not> isl (r i))"
  using assms(2)
proof (induction order arbitrary: d)
  case (Cons i order)
  have less: "\<not> list_ex is_success (save_events fires us ok bad r d' xs)" if "d' + length xs < length us" for d' xs
    using that assms(1) by (induction xs arbitrary: d') (auto split: sum.split)
  show ?case
  proof (cases "r i")
    case (Inl e)
    then show ?thesis using Cons.prems less [of d order] assms(1) by simp
  next
    case (Inr x)
    have "d + 1 = length us \<longleftrightarrow> order = []" using Cons.prems by (cases order) auto
    with Inr show ?thesis using Cons.prems Cons.IH [of "d + 1"] assms(1) by (cases "order = []") simp_all
  qed
qed simp

text \<open>
  TanStack Query runs the callbacks given to \<open>mutate\<close> only for the latest call on a hook. Only one request is counted then.
\<close>

lemma save_events_none: "\<forall>i \<in> set order. \<not> fires i \<Longrightarrow> save_events fires us ok bad r d order = []"
  by (induction order) auto

lemma save_events_last:
  assumes "\<And>i. fires i \<longleftrightarrow> Suc i = n" "distinct order" "Suc l = n" "l \<in> set order" "2 \<le> length us"
  shows "save_events fires us ok bad r 0 order = (case r l of Inr _ \<Rightarrow> [] | Inl _ \<Rightarrow> [Failure (bad (fst (us ! l))) JUndef])"
  using assms(2,4)
proof (induction order)
  case (Cons i order)
  have f: "fires i \<longleftrightarrow> i = l" for i using assms(1,3) by auto
  show ?case
  proof (cases "i = l")
    case True
    then have "\<forall>j \<in> set order. \<not> fires j" using Cons.prems(1) f by auto
    then show ?thesis using True f assms(5) by (auto simp: save_events_none split: sum.split)
  next
    case False
    then show ?thesis using Cons f by auto
  qed
qed simp

lemma general_events_none: "\<forall>i \<in> set order. \<not> fires i \<Longrightarrow> general_events fires n r d b order = []"
  by (induction order) auto

lemma general_events_last:
  assumes "\<And>i. fires i \<longleftrightarrow> Suc i = n" "distinct order" "Suc l = n" "l \<in> set order" "2 \<le> n"
  shows "general_events fires n r 0 False order = (case r l of Inr _ \<Rightarrow> [] | Inl _ \<Rightarrow> [Failure ''Gagal menyimpan pengaturan.'' JUndef])"
  using assms(2,4)
proof (induction order)
  case (Cons i order)
  have f: "fires i \<longleftrightarrow> i = l" for i using assms(1,3) by auto
  show ?case
  proof (cases "i = l")
    case True
    then have "\<forall>j \<in> set order. \<not> fires j" using Cons.prems(1) f by auto
    then show ?thesis using True f assms(5) by (auto simp: general_events_none split: sum.split)
  next
    case False
    then show ?thesis using Cons f by auto
  qed
qed simp





section \<open>The cards of the notification pages\<close>

text \<open>
  The cards write only what differs from the stored value, with \<open>mutateAsync\<close> and \<open>Promise.all\<close>: it fails with the first
  request that fails. A field that was not touched is \<open>None\<close>.
\<close>

definition find_setting :: "string \<Rightarrow> SystemSetting list \<Rightarrow> string option" where
  "find_setting key settings = map_option sg_value (find (\<lambda>s. sg_key s = key) settings)"

definition if_changed :: "string \<Rightarrow> string option \<Rightarrow> string \<Rightarrow> updates" where
  "if_changed key stored value = (case stored of None \<Rightarrow> [] | Some v \<Rightarrow> if value \<noteq> v then [(key, value)] else [])"

definition wa_card_ops :: "SystemSetting list \<Rightarrow> bool option \<Rightarrow> string option \<Rightarrow> updates" where
  "wa_card_ops settings enabled phone =
     (let waEnabled = find_setting ''notification.wa_enabled'' settings;
          adminPhone = find_setting ''notification.admin_phone'' settings
      in if_changed ''notification.wa_enabled'' waEnabled (bool_text (or_else enabled (waEnabled = Some ''true'')))
         @ if_changed ''notification.admin_phone'' adminPhone (or_else phone (or_else adminPhone [])))"

definition telegram_card_ops :: "SystemSetting list \<Rightarrow> bool option \<Rightarrow> string option \<Rightarrow> string option \<Rightarrow> updates" where
  "telegram_card_ops settings enabled token chatID =
     (let tgEnabled = find_setting ''notification.telegram_enabled'' settings;
          tgChatID = find_setting ''notification.telegram_chat_id'' settings;
          tokenVal = js_trim (or_else token [])
      in if_changed ''notification.telegram_enabled'' tgEnabled (bool_text (or_else enabled (tgEnabled = Some ''true'')))
         @ (if tokenVal \<noteq> [] then [(''notification.telegram_bot_token'', tokenVal)] else [])
         @ if_changed ''notification.telegram_chat_id'' tgChatID (or_else chatID (or_else tgChatID [])))"

definition whatsapp_page_ops :: "string option \<Rightarrow> string option \<Rightarrow> bool \<Rightarrow> string \<Rightarrow> updates" where
  "whatsapp_page_ops waEnabled adminPhone enabled phone =
     if_changed ''notification.wa_enabled'' waEnabled (bool_text enabled)
     @ if_changed ''notification.admin_phone'' adminPhone (js_trim phone)"

fun promise_all :: "(nat \<Rightarrow> thrown + js) \<Rightarrow> nat list \<Rightarrow> thrown option" where
  "promise_all r [] = None"
| "promise_all r (i # order) = (case r i of Inl e \<Rightarrow> Some e | Inr _ \<Rightarrow> promise_all r order)"

definition card_save :: "(string \<Rightarrow> string \<Rightarrow> mutation) \<Rightarrow> string \<Rightarrow> string \<Rightarrow> string \<Rightarrow> updates \<Rightarrow> (nat \<Rightarrow> thrown + js) \<Rightarrow> nat list \<Rightarrow> mutation list \<times> ui_event list" where
  "card_save hook none ok bad ops r order =
     (if ops = [] then ([], [Info none JUndef])
      else (map (\<lambda>(k, v). hook k v) ops,
            [case promise_all r order of None \<Rightarrow> Success ok JUndef | Some err \<Rightarrow> Failure bad (parseAPIError err)]))"

definition wa_card_save :: "updates \<Rightarrow> (nat \<Rightarrow> thrown + js) \<Rightarrow> nat list \<Rightarrow> mutation list \<times> ui_event list" where
  "wa_card_save = card_save notification_center_useUpdateSetting ''Tidak ada perubahan'' ''Pengaturan disimpan'' ''Gagal menyimpan''"

definition telegram_card_save :: "updates \<Rightarrow> (nat \<Rightarrow> thrown + js) \<Rightarrow> nat list \<Rightarrow> mutation list \<times> ui_event list" where
  "telegram_card_save = card_save notification_center_useUpdateSetting ''Tidak ada perubahan'' ''Konfigurasi Telegram disimpan'' ''Gagal menyimpan''"

definition whatsapp_page_save :: "updates \<Rightarrow> (nat \<Rightarrow> thrown + js) \<Rightarrow> nat list \<Rightarrow> mutation list \<times> ui_event list" where
  "whatsapp_page_save = card_save whatsapp_useUpdateSetting ''Nothing to save'' ''Settings saved'' ''Failed to save settings''"

lemma promise_all_None: "promise_all r order = None \<longleftrightarrow> (\<forall>i \<in> set order. \<not> isl (r i))"
  by (induction order) (auto split: sum.split)

lemma card_reports:
  assumes "ops \<noteq> []" "set order = {..<length ops}"
  shows "\<exists>m. snd (card_save hook none ok bad ops r order) = [m] \<and> (is_success m \<longleftrightarrow> (\<forall>i < length ops. \<not> isl (r i))) \<and> (is_failure m \<longleftrightarrow> \<not> is_success m)"
  using assms promise_all_None [of r order] by (auto simp: card_save_def lessThan_iff split: option.split)

lemma wa_card_untouched:
  assumes "find_setting ''notification.wa_enabled'' settings \<in> {None, Some ''true'', Some ''false''}"
  shows "wa_card_ops settings None None = []" "telegram_card_ops settings None None None = [] \<longleftrightarrow>
    find_setting ''notification.telegram_enabled'' settings \<in> {None, Some ''true'', Some ''false''}"
  using assms by (auto simp: wa_card_ops_def telegram_card_ops_def if_changed_def bool_text_def js_trim_def Let_def split: option.splits if_splits)

text \<open>Test messages.\<close>

definition wa_test_send :: "string \<Rightarrow> string \<Rightarrow> ui_event list + submission option" where
  "wa_test_send phone message =
     (if js_trim phone = [] \<or> js_trim message = [] then Inl [Failure ''Nomor dan pesan wajib diisi'' JUndef]
      else Inr (Some
        \<lparr>sub_mutation = useSendWhatsAppTest (JObj [(''phone'', JStr (js_trim phone)), (''message'', JStr (js_trim message))]),
         on_done = (\<lambda>_. [Success ''Pesan uji terkirim'' JUndef]),
         on_failed = (\<lambda>err. [Failure ''Gagal mengirim'' (parseAPIError err)])\<rparr>))"

definition telegram_test_send :: "string \<Rightarrow> ui_event list + submission option" where
  "telegram_test_send message =
     (if js_trim message = [] then Inl [Failure ''Pesan wajib diisi'' JUndef]
      else Inr (Some
        \<lparr>sub_mutation = useSendTelegramTest (JObj [(''message'', JStr (js_trim message))]),
         on_done = (\<lambda>_. [Success ''Pesan uji terkirim ke Telegram'' JUndef]),
         on_failed = (\<lambda>err. [Failure ''Gagal mengirim'' (parseAPIError err)])\<rparr>))"

definition whatsapp_test_send :: "string \<Rightarrow> string \<Rightarrow> ui_event list + submission option" where
  "whatsapp_test_send phone message =
     (if js_trim phone = [] \<or> js_trim message = [] then Inl [Failure ''Phone and message are required'' JUndef]
      else Inr (Some
        \<lparr>sub_mutation = whatsapp_useSendWhatsAppTest (JObj [(''phone'', JStr (js_trim phone)), (''message'', JStr (js_trim message))]),
         on_done = (\<lambda>_. [Success ''Test message sent'' JUndef]),
         on_failed = (\<lambda>err. [Failure ''Failed to send'' (parseAPIError err)])\<rparr>))"

section \<open>Routing tokens\<close>

datatype TargetToken = Wa_admin | Tg_admin | Wa_group string | Wa_number string

definition parseToken :: "string \<Rightarrow> TargetToken" where
  "parseToken t =
     (if t = ''wa_admin'' then Wa_admin
      else if t = ''tg_admin'' then Tg_admin
      else if prefix ''wa_group:'' t then Wa_group (drop 9 t)
      else if prefix ''wa_number:'' t then Wa_number (drop 10 t)
      else Wa_admin)"

definition tokenToString :: "TargetToken \<Rightarrow> string" where
  "tokenToString t =
     (case t of
        Wa_admin \<Rightarrow> ''wa_admin''
      | Tg_admin \<Rightarrow> ''tg_admin''
      | Wa_group jid \<Rightarrow> ''wa_group:'' @ jid
      | Wa_number phone \<Rightarrow> ''wa_number:'' @ phone)"

record WhatsAppContactItem =
  wc_jid :: string
  wc_name :: string
  wc_type :: string

definition tokenLabel :: "TargetToken \<Rightarrow> WhatsAppContactItem list \<Rightarrow> string" where
  "tokenLabel t groups =
     (case t of
        Wa_admin \<Rightarrow> ''Admin WA''
      | Tg_admin \<Rightarrow> ''Admin Telegram''
      | Wa_group jid \<Rightarrow> (case find (\<lambda>x. wc_jid x = jid) groups of Some g \<Rightarrow> ''Grup: '' @ wc_name g | None \<Rightarrow> ''Grup: '' @ jid)
      | Wa_number phone \<Rightarrow> ''Nomor: '' @ phone)"

definition toggleToken :: "TargetToken \<Rightarrow> string list \<Rightarrow> string list" where
  "toggleToken t value =
     (let str = tokenToString t in if str \<in> set value then filter (\<lambda>v. v \<noteq> str) value else value @ [str])"

definition addManualPhone :: "string \<Rightarrow> string list \<Rightarrow> string list" where
  "addManualPhone manualPhone value =
     (let phone = js_trim manualPhone; token = tokenToString (Wa_number phone) in
      if phone = [] then value else if token \<notin> set value then value @ [token] else value)"

definition removeToken :: "string \<Rightarrow> string list \<Rightarrow> string list" where
  "removeToken str value = filter (\<lambda>v. v \<noteq> str) value"

lemma parse_token: "parseToken (tokenToString t) = t"
  by (cases t) (simp_all add: parseToken_def tokenToString_def prefix_def)

lemma token_string_inj: "tokenToString t = tokenToString u \<longleftrightarrow> t = u"
  by (metis parse_token)

lemma tokens_distinct:
  assumes "distinct value"
  shows "distinct (toggleToken t value)" "distinct (addManualPhone p value)" "distinct (removeToken s value)"
  using assms by (auto simp: toggleToken_def addManualPhone_def removeToken_def Let_def)

lemma toggle_token: "tokenToString u \<in> set (toggleToken t value) \<longleftrightarrow> (if u = t then tokenToString t \<notin> set value else tokenToString u \<in> set value)"
  by (auto simp: toggleToken_def Let_def token_string_inj)

section \<open>Message templates\<close>

record MessageTemplate =
  mt_id :: int
  mt_slug :: string
  mt_name :: string
  mt_body :: string
  mt_variables :: string
  mt_active :: bool
  mt_created_at :: string
  mt_updated_at :: string

text \<open>The variables are the words between white space and commas.\<close>

definition template_vars :: "string \<Rightarrow> string list" where
  "template_vars variables =
     filter (\<lambda>v. v \<noteq> []) (map js_trim (js_split '','' (map (\<lambda>c. if is_ws c then CHR '','' else c) variables)))"

definition template_handleSubmit :: "MessageTemplate \<Rightarrow> string \<times> string \<times> bool \<Rightarrow> ui_event list + submission option" where
  "template_handleSubmit target = (\<lambda>(name, body, active).
     guarded (js_trim name = [] \<or> js_trim body = []) ''Name and body are required'' (Inr (Some
       \<lparr>sub_mutation = useUpdateMessageTemplate (mt_slug target)
          (JObj [(''name'', JStr (js_trim name)), (''body'', JStr body), (''active'', JBool active)]),
        on_done = (\<lambda>_. [Success (''Template '' @ quote (mt_slug target) @ '' saved'') JUndef, Close]),
        on_failed = (\<lambda>err. [Failure ''Failed to save template'' (parseAPIError err)])\<rparr>)))"

definition MessageTemplateUpdateInput :: ts where
  "MessageTemplateUpdateInput = TObj [optional ''name'' TStr, optional ''body'' TStr, optional ''variables'' TStr, optional ''active'' TBool]"

section \<open>The account page\<close>

record AccountValues =
  ac_email :: string
  ac_current_password :: string
  ac_new_password :: string
  ac_confirm_password :: string

text \<open>Zod's e-mail test is a parameter. The refinements are not run when the e-mail is refused.\<close>

definition account_schema :: "(string \<Rightarrow> bool) \<Rightarrow> AccountValues \<Rightarrow> issue list" where
  "account_schema is_email v =
     (if \<not> is_email (ac_email v) \<and> ac_email v \<noteq> [] then [(''email'', ''Email tidak valid'')]
      else
        z_when (ac_new_password v \<noteq> [] \<and> ac_current_password v = []) ''current_password'' ''Password lama wajib diisi untuk mengganti password''
        @ z_when (ac_new_password v \<noteq> [] \<and> ac_new_password v \<noteq> ac_confirm_password v) ''confirm_password'' ''Konfirmasi password tidak cocok''
        @ z_when (ac_new_password v \<noteq> [] \<and> length (ac_new_password v) < 8) ''new_password'' ''Password minimal 8 karakter'')"

definition account_payload :: "string \<Rightarrow> AccountValues \<Rightarrow> (string \<times> js) list" where
  "account_payload email v =
     (if ac_email v \<noteq> email then [(''email'', str_or_undef (ac_email v))] else [])
     @ (if ac_new_password v \<noteq> [] then
          [(''current_password'', JStr (ac_current_password v)), (''new_password'', JStr (ac_new_password v))]
        else [])"

definition account_failed :: "thrown \<Rightarrow> ui_event list" where
  "account_failed err =
     (let msg = error_or ''Terjadi kesalahan.'' err;
          low = toLowerCase (case msg of JStr s \<Rightarrow> s | _ \<Rightarrow> [])
      in if js_includes low ''invalid'' \<or> js_includes low ''credentials'' then [FieldError ''current_password'' (JStr ''Password lama salah.'')]
         else [Failure ''Gagal memperbarui profil.'' msg])"

text \<open>\<open>email\<close> is the stored address, or empty.\<close>

definition account_onSubmit :: "string \<Rightarrow> AccountValues \<Rightarrow> ui_event list + submission option" where
  "account_onSubmit email v =
     (let payload = account_payload email v in
      if sent_field (JObj payload) ''email'' = None \<and> sent_field (JObj payload) ''new_password'' = None
      then Inl [Info ''Tidak ada perubahan yang perlu disimpan.'' JUndef]
      else Inr (Some
        \<lparr>sub_mutation = useUpdateMe (JObj payload),
         on_done = (\<lambda>_. [Success ''Profil berhasil diperbarui.'' JUndef]),
         on_failed = account_failed\<rparr>))"

definition account_form_submit :: "(string \<Rightarrow> bool) \<Rightarrow> string \<Rightarrow> AccountValues \<Rightarrow> issue list + (ui_event list + submission option)" where
  "account_form_submit is_email email v = handleSubmit (account_schema is_email) (account_onSubmit email) v"

interpretation wa_test: guarded_form wa_test_send
  by unfold_locales (auto simp: wa_test_send_def intro!: reportsI split: if_splits)

interpretation telegram_test: guarded_form "\<lambda>_ :: unit. telegram_test_send"
  by unfold_locales (auto simp: telegram_test_send_def intro!: reportsI split: if_splits)

interpretation whatsapp_test: guarded_form whatsapp_test_send
  by unfold_locales (auto simp: whatsapp_test_send_def intro!: reportsI split: if_splits)

interpretation template: guarded_form template_handleSubmit
  by unfold_locales (auto simp: template_handleSubmit_def intro!: reportsI split: if_splits)

interpretation account: guarded_form account_onSubmit
  by unfold_locales (auto simp: account_onSubmit_def account_failed_def Let_def intro!: reportsI split: if_splits)

text \<open>
  A valid account form: the new password is only ever sent together with the current one, is at least eight
  characters long and was typed twice. But the e-mail address cannot be removed: clearing it sends nothing, and
  the page says there is nothing to save.
\<close>

theorem account_password_change:
  assumes "account_form_submit is_email email v = Inr (Inr (Some s))" "sent_field (request_body s) ''new_password'' = Some p"
  shows "p = JStr (ac_new_password v) \<and> sent_field (request_body s) ''current_password'' = Some (JStr (ac_current_password v))
    \<and> ac_current_password v \<noteq> [] \<and> 8 \<le> length (ac_new_password v) \<and> ac_confirm_password v = ac_new_password v
    \<and> account_onSubmit email (v\<lparr>ac_email := [], ac_new_password := []\<rparr>) = Inl [Info ''Tidak ada perubahan yang perlu disimpan.'' JUndef]"
proof -
  have v: "account_schema is_email v = []" and s: "account_onSubmit email v = Inr (Some s)"
    using assms(1) by (auto simp: account_form_submit_def handleSubmit_simps)
  then have b: "request_body s = JObj (account_payload email v)"
    by (auto simp: account_onSubmit_def Let_def request_body_def useUpdateMe_def updateMe_def split: if_splits)
  have n: "ac_new_password v \<noteq> []"
    using assms(2) unfolding b by (auto simp: account_payload_def split: if_splits)
  have "account_onSubmit email (v\<lparr>ac_email := [], ac_new_password := []\<rparr>) = Inl [Info ''Tidak ada perubahan yang perlu disimpan.'' JUndef]"
    by (simp add: account_onSubmit_def account_payload_def Let_def)
  then show ?thesis
    using assms(2) v n unfolding b by (auto simp: account_payload_def account_schema_def split: if_splits)
qed

theorem account_password_change_witness:
  "let v = \<lparr>ac_email = ''a@b.id'', ac_current_password = ''old'', ac_new_password = ''12345678'', ac_confirm_password = ''12345678''\<rparr>
   in \<exists>s. account_form_submit (\<lambda>_. True) ''a@b.id'' v = Inr (Inr (Some s))
      \<and> sent_field (request_body s) ''current_password'' = Some (JStr ''old'')"
proof -
  let ?v = "\<lparr>ac_email = ''a@b.id'', ac_current_password = ''old'', ac_new_password = ''12345678'', ac_confirm_password = ''12345678''\<rparr>"
  obtain s where s: "account_form_submit (\<lambda>_. True) ''a@b.id'' ?v = Inr (Inr (Some s))" "sent_field (request_body s) ''new_password'' = Some (JStr ''12345678'')"
    by (simp add: account_form_submit_def handleSubmit_simps account_schema_def account_onSubmit_def account_payload_def request_body_def
        useUpdateMe_def updateMe_def)
  from account_password_change [OF s] show ?thesis using s by (simp add: Let_def)
qed

end
