(* ===== verification/Dialogs.thy ===== *)
theory Dialogs
  imports Hotspot_Forms Ppp_Forms Billing_Forms Admin_Api
begin

text \<open>
  Which dialog a page shows, and for which row.

  The pages of the routers' features keep this in a zustand store per page (\<^verbatim>\<open>features/**/store/*.ts\<close>):
  every store is an interpretation of the locale \<open>dialog_store\<close>. The customer and subscription pages keep
  it in a React context (\<^verbatim>\<open>hooks/use-dialog-state.tsx\<close>, the two providers and the components that open
  and close their dialogs), where a dialog that is closed forgets its row half a second later; that one is
  a step relation over the state of the context and its pending timers. Then the dialogs that delete,
  disconnect or bind a selection with one request per row (locale \<open>bulk_dialog\<close>), and the registration
  dialogs, which keep what was typed into them.
\<close>

section \<open>The stores\<close>

text \<open>
  \<open>set\<close> merges the fields it is given into the state. A mode is \<open>None\<close> for \<open>null\<close>.
\<close>

record 't dialog =
  dg_mode :: "string option"
  dg_target :: "'t option"

record 't ids_dialog = "'t dialog" +
  dg_ids :: "string list"

record hosts_dialog = "HotspotHostViewModel ids_dialog" +
  dg_bulk :: "string \<Rightarrow> HotspotHostViewModel option"

record AdminUser =
  au_id :: int
  au_username :: string
  au_role :: string
  au_active :: bool
  au_last_login_at :: "string option"
  au_created_at :: string
  au_updated_at :: string

definition adminUsers_open :: "string \<Rightarrow> AdminUser option \<Rightarrow> AdminUser dialog \<Rightarrow> AdminUser dialog" where
  "adminUsers_open mode target s = s\<lparr>dg_mode := Some mode, dg_target := target\<rparr>"

definition adminUsers_close :: "AdminUser dialog \<Rightarrow> AdminUser dialog" where
  "adminUsers_close s = s\<lparr>dg_mode := None, dg_target := None\<rparr>"

definition pppProfiles_open :: "string \<Rightarrow> RouterPPPProfile option \<Rightarrow> RouterPPPProfile dialog \<Rightarrow> RouterPPPProfile dialog" where
  "pppProfiles_open mode target s = s\<lparr>dg_mode := Some mode, dg_target := target\<rparr>"

definition pppProfiles_close :: "RouterPPPProfile dialog \<Rightarrow> RouterPPPProfile dialog" where
  "pppProfiles_close s = s\<lparr>dg_mode := None, dg_target := None\<rparr>"

definition pppBilling_open :: "string \<Rightarrow> PPPDbProfile option \<Rightarrow> PPPDbProfile dialog \<Rightarrow> PPPDbProfile dialog" where
  "pppBilling_open mode target s = s\<lparr>dg_mode := Some mode, dg_target := target\<rparr>"

definition pppBilling_close :: "PPPDbProfile dialog \<Rightarrow> PPPDbProfile dialog" where
  "pppBilling_close s = s\<lparr>dg_mode := None, dg_target := None\<rparr>"

definition hotspotBilling_open :: "string \<Rightarrow> HotspotDbProfile option \<Rightarrow> HotspotDbProfile dialog \<Rightarrow> HotspotDbProfile dialog" where
  "hotspotBilling_open mode target s = s\<lparr>dg_mode := Some mode, dg_target := target\<rparr>"

definition hotspotBilling_close :: "HotspotDbProfile dialog \<Rightarrow> HotspotDbProfile dialog" where
  "hotspotBilling_close s = s\<lparr>dg_mode := None, dg_target := None\<rparr>"

definition registrations_open :: "string \<Rightarrow> Registration \<Rightarrow> Registration dialog \<Rightarrow> Registration dialog" where
  "registrations_open mode target s = s\<lparr>dg_mode := Some mode, dg_target := Some target\<rparr>"

definition registrations_close :: "Registration dialog \<Rightarrow> Registration dialog" where
  "registrations_close s = s\<lparr>dg_mode := None, dg_target := None\<rparr>"

text \<open>The routers' store has a mode of its own for "closed".\<close>

record routers_dialog =
  rd_mode :: string
  rd_selectedRouter :: "RouterPublicView option"

definition routers_open :: "string \<Rightarrow> RouterPublicView option \<Rightarrow> routers_dialog \<Rightarrow> routers_dialog" where
  "routers_open mode router s = s\<lparr>rd_mode := mode, rd_selectedRouter := router\<rparr>"

definition routers_close :: "routers_dialog \<Rightarrow> routers_dialog" where
  "routers_close s = s\<lparr>rd_mode := ''closed'', rd_selectedRouter := None\<rparr>"

definition sales_open :: "string \<Rightarrow> string option \<Rightarrow> string option" where
  "sales_open kind s = Some kind"

definition sales_close :: "string option \<Rightarrow> string option" where
  "sales_close s = None"

definition secrets_open :: "string \<Rightarrow> PPPSecret option \<Rightarrow> string list option \<Rightarrow> PPPSecret ids_dialog \<Rightarrow> PPPSecret ids_dialog" where
  "secrets_open mode target ids s = s\<lparr>dg_mode := Some mode, dg_target := target, dg_ids := or_else ids []\<rparr>"

definition secrets_close :: "PPPSecret ids_dialog \<Rightarrow> PPPSecret ids_dialog" where
  "secrets_close s = s\<lparr>dg_mode := None, dg_target := None, dg_ids := []\<rparr>"

definition users_open :: "string \<Rightarrow> HotspotUserViewModel option \<Rightarrow> string list option \<Rightarrow> HotspotUserViewModel ids_dialog \<Rightarrow> HotspotUserViewModel ids_dialog" where
  "users_open mode target ids s = s\<lparr>dg_mode := Some mode, dg_target := target, dg_ids := or_else ids []\<rparr>"

definition users_close :: "HotspotUserViewModel ids_dialog \<Rightarrow> HotspotUserViewModel ids_dialog" where
  "users_close s = s\<lparr>dg_mode := None, dg_target := None, dg_ids := []\<rparr>"

definition profiles_open :: "string \<Rightarrow> HotspotProfileViewModel option \<Rightarrow> string list option \<Rightarrow> HotspotProfileViewModel ids_dialog \<Rightarrow> HotspotProfileViewModel ids_dialog" where
  "profiles_open mode target ids s = s\<lparr>dg_mode := Some mode, dg_target := target, dg_ids := or_else ids []\<rparr>"

definition profiles_close :: "HotspotProfileViewModel ids_dialog \<Rightarrow> HotspotProfileViewModel ids_dialog" where
  "profiles_close s = s\<lparr>dg_mode := None, dg_target := None, dg_ids := []\<rparr>"

definition active_open :: "string \<Rightarrow> HotspotActiveViewModel option \<Rightarrow> string list option \<Rightarrow> HotspotActiveViewModel ids_dialog \<Rightarrow> HotspotActiveViewModel ids_dialog" where
  "active_open mode target ids s = s\<lparr>dg_mode := Some mode, dg_target := target, dg_ids := or_else ids []\<rparr>"

definition active_close :: "HotspotActiveViewModel ids_dialog \<Rightarrow> HotspotActiveViewModel ids_dialog" where
  "active_close s = s\<lparr>dg_mode := None, dg_target := None, dg_ids := []\<rparr>"

text \<open>\<open>Object.fromEntries\<close>: of two entries with one key the later one stays.\<close>

definition hosts_open ::
  "string \<Rightarrow> HotspotHostViewModel option \<Rightarrow> string list option \<Rightarrow> HotspotHostViewModel list option \<Rightarrow> hosts_dialog \<Rightarrow> hosts_dialog"
where
  "hosts_open mode target ids bulk s =
     s\<lparr>dg_mode := Some mode, dg_target := target, dg_ids := or_else ids [],
       dg_bulk := map_of (rev (map (\<lambda>h. (hv_id h, h)) (or_else bulk [])))\<rparr>"

definition hosts_close :: "hosts_dialog \<Rightarrow> hosts_dialog" where
  "hosts_close s = s\<lparr>dg_mode := None, dg_target := None, dg_ids := [], dg_bulk := Map.empty\<rparr>"

text \<open>
  The interface: a store that is closed is as it was created, and an open store shows what it was opened
  with, whatever it was before.
\<close>

locale dialog_store =
  fixes initial :: 's
    and opens :: "'a \<Rightarrow> 's \<Rightarrow> 's"
    and shuts :: "'s \<Rightarrow> 's"
  assumes shuts_initial: "shuts s = initial"
    and opens_fresh: "opens a s = opens a initial"
begin

definition run :: "'a option list \<Rightarrow> 's \<Rightarrow> 's" where
  "run ops = fold (case_option shuts opens) ops"

lemma run_last: "run (ops @ [op]) s = (case op of None \<Rightarrow> initial | Some a \<Rightarrow> opens a initial)"
  by (cases op) (simp_all add: run_def shuts_initial opens_fresh [of _ "fold (case_option shuts opens) ops s"])

end

definition no_dialog :: "'t dialog" where
  "no_dialog = \<lparr>dg_mode = None, dg_target = None\<rparr>"

definition no_ids_dialog :: "'t ids_dialog" where
  "no_ids_dialog = \<lparr>dg_mode = None, dg_target = None, dg_ids = []\<rparr>"

definition no_hosts_dialog :: hosts_dialog where
  "no_hosts_dialog = \<lparr>dg_mode = None, dg_target = None, dg_ids = [], dg_bulk = Map.empty\<rparr>"

definition no_routers_dialog :: routers_dialog where
  "no_routers_dialog = \<lparr>rd_mode = ''closed'', rd_selectedRouter = None\<rparr>"

lemmas store_defs =
  no_dialog_def no_ids_dialog_def no_hosts_dialog_def no_routers_dialog_def
  adminUsers_open_def adminUsers_close_def pppProfiles_open_def pppProfiles_close_def pppBilling_open_def pppBilling_close_def
  hotspotBilling_open_def hotspotBilling_close_def registrations_open_def registrations_close_def
  routers_open_def routers_close_def sales_open_def sales_close_def secrets_open_def secrets_close_def
  users_open_def users_close_def profiles_open_def profiles_close_def active_open_def active_close_def
  hosts_open_def hosts_close_def

interpretation adminUsers: dialog_store no_dialog "\<lambda>(mode, target). adminUsers_open mode target" adminUsers_close
  by unfold_locales (auto simp: store_defs)

interpretation pppProfiles: dialog_store no_dialog "\<lambda>(mode, target). pppProfiles_open mode target" pppProfiles_close
  by unfold_locales (auto simp: store_defs)

interpretation pppBilling: dialog_store no_dialog "\<lambda>(mode, target). pppBilling_open mode target" pppBilling_close
  by unfold_locales (auto simp: store_defs)

interpretation hotspotBilling: dialog_store no_dialog "\<lambda>(mode, target). hotspotBilling_open mode target" hotspotBilling_close
  by unfold_locales (auto simp: store_defs)

interpretation registrations: dialog_store no_dialog "\<lambda>(mode, target). registrations_open mode target" registrations_close
  by unfold_locales (auto simp: store_defs)

interpretation routers_store: dialog_store no_routers_dialog "\<lambda>(mode, router). routers_open mode router" routers_close
  by unfold_locales (auto simp: store_defs)

interpretation sales_store: dialog_store None sales_open sales_close
  by unfold_locales (auto simp: store_defs)

interpretation secrets: dialog_store no_ids_dialog "\<lambda>(mode, target, ids). secrets_open mode target ids" secrets_close
  by unfold_locales (auto simp: store_defs)

interpretation users: dialog_store no_ids_dialog "\<lambda>(mode, target, ids). users_open mode target ids" users_close
  by unfold_locales (auto simp: store_defs)

interpretation profiles: dialog_store no_ids_dialog "\<lambda>(mode, target, ids). profiles_open mode target ids" profiles_close
  by unfold_locales (auto simp: store_defs)

interpretation active: dialog_store no_ids_dialog "\<lambda>(mode, target, ids). active_open mode target ids" active_close
  by unfold_locales (auto simp: store_defs)

interpretation hosts: dialog_store no_hosts_dialog "\<lambda>(mode, target, ids, bulk). hosts_open mode target ids bulk" hosts_close
  by unfold_locales (auto simp: store_defs)

section \<open>The row of a dialog\<close>

text \<open>
  The context of the customer and subscription pages: the dialog that is open, the row it is about, and
  for each timer that is still to fire the milliseconds left.
\<close>

record 'r rows =
  rw_open :: "string option"
  rw_row :: "'r option"
  rw_timers :: "int list"

definition initial_rows :: "'r rows" where
  "initial_rows = \<lparr>rw_open = None, rw_row = None, rw_timers = []\<rparr>"

text \<open>\<open>useDialogState\<close>: setting the state it already has sets \<open>null\<close>.\<close>

definition setOpen :: "string option \<Rightarrow> 'r rows \<Rightarrow> 'r rows" where
  "setOpen str s = s\<lparr>rw_open := (if rw_open s = str then None else str)\<rparr>"

definition setCurrentRow :: "'r option \<Rightarrow> 'r rows \<Rightarrow> 'r rows" where
  "setCurrentRow r s = s\<lparr>rw_row := r\<rparr>"

definition onClose :: "'r rows \<Rightarrow> 'r rows" where
  "onClose s = (let s = setOpen None s in s\<lparr>rw_timers := rw_timers s @ [500]\<rparr>)"

definition row_action :: "'r \<Rightarrow> string \<Rightarrow> 'r rows \<Rightarrow> 'r rows" where
  "row_action r m s = setOpen (Some m) (setCurrentRow (Some r) s)"

definition add_action :: "'r rows \<Rightarrow> 'r rows" where
  "add_action s = setOpen (Some ''add'') s"

text \<open>Time passes: the timers that are due run \<open>setCurrentRow(null)\<close>.\<close>

definition elapse :: "int \<Rightarrow> 'r rows \<Rightarrow> 'r rows" where
  "elapse d s =
     (let left = map (\<lambda>t. t - d) (rw_timers s) in
      s\<lparr>rw_timers := filter (\<lambda>t. 0 < t) left, rw_row := if list_ex (\<lambda>t. t \<le> 0) left then None else rw_row s\<rparr>)"

text \<open>
  A drawer shows whenever its mode is open; the other dialogs are only rendered while there is a row.
  A dialog that shows covers the page, so the table can be used only while none does.
\<close>

definition customer_drawers :: "string list" where
  "customer_drawers = [''add'', ''edit'']"

definition customer_row_modes :: "string list" where
  "customer_row_modes = [''edit'', ''password'', ''delete'']"

definition subscription_drawers :: "string list" where
  "subscription_drawers = [''add'', ''edit'', ''status'']"

definition subscription_row_modes :: "string list" where
  "subscription_row_modes = [''edit'', ''status'', ''password'', ''delete'']"

text \<open>What the menu of a row offers to a role.\<close>

definition customer_rowActions :: "string option \<Rightarrow> string list" where
  "customer_rowActions role =
     (if role = Some ''viewer'' then []
      else [''edit''] @ (if role = Some ''admin'' \<or> role = Some ''operator'' then [''password''] else []) @ [''delete''])"

definition subscription_rowActions :: "string option \<Rightarrow> string list" where
  "subscription_rowActions role =
     (if role = Some ''viewer'' then []
      else [''edit'', ''status''] @ (if role = Some ''admin'' \<or> role = Some ''operator'' then [''password''] else []) @ [''delete''])"

definition handleReconcile :: "Subscription \<Rightarrow> submission" where
  "handleReconcile sub =
     \<lparr>sub_mutation = useReconcileSubscription (sb_id sub),
      on_done = (\<lambda>res. [Success (''Reconciled '' @ quote (sb_mikrotik_username sub)) (js_optget res ''warning'')]),
      on_failed = (\<lambda>err. [Failure ''Reconcile failed'' (parseAPIError err)])\<rparr>"

lemma row_actions_modes:
  "set (customer_rowActions role) \<subseteq> set customer_row_modes"
  "set (subscription_rowActions role) \<subseteq> set subscription_row_modes"
  by (auto simp: customer_rowActions_def subscription_rowActions_def customer_row_modes_def subscription_row_modes_def)

definition is_shown :: "string list \<Rightarrow> 'r rows \<Rightarrow> bool" where
  "is_shown drawers s = (case rw_open s of None \<Rightarrow> False | Some m \<Rightarrow> m \<in> set drawers \<or> rw_row s \<noteq> None)"

text \<open>The steps of a page. With \<open>patient\<close> the user opens a dialog only when no timer is pending.\<close>

inductive rows_step :: "bool \<Rightarrow> string list \<Rightarrow> string list \<Rightarrow> 'r rows \<Rightarrow> 'r rows \<Rightarrow> bool"
  for patient :: bool and drawers modes :: "string list"
where
  Add: "\<not> is_shown drawers s \<Longrightarrow> patient \<longrightarrow> rw_timers s = [] \<Longrightarrow> rows_step patient drawers modes s (add_action s)"
| Row: "\<not> is_shown drawers s \<Longrightarrow> patient \<longrightarrow> rw_timers s = [] \<Longrightarrow> m \<in> set modes \<Longrightarrow>
    rows_step patient drawers modes s (row_action r m s)"
| Dismiss: "is_shown drawers s \<Longrightarrow> rows_step patient drawers modes s (onClose s)"
| Elapse: "0 < d \<Longrightarrow> rows_step patient drawers modes s (elapse d s)"

definition reaches :: "bool \<Rightarrow> string list \<Rightarrow> string list \<Rightarrow> 'r rows \<Rightarrow> bool" where
  "reaches patient drawers modes s = (rows_step patient drawers modes)\<^sup>*\<^sup>* initial_rows s"

lemmas rows_defs = setOpen_def setCurrentRow_def onClose_def row_action_def add_action_def elapse_def is_shown_def

definition rows_ok :: "string list \<Rightarrow> 'r rows \<Rightarrow> bool" where
  "rows_ok modes s =
     (case rw_open s of
        None \<Rightarrow> rw_timers s = [] \<longrightarrow> rw_row s = None
      | Some m \<Rightarrow> rw_timers s = [] \<and> (if m = ''add'' then rw_row s = None else m \<in> set modes \<and> rw_row s \<noteq> None))"

lemma not_shown: "rows_ok modes s \<Longrightarrow> ''add'' \<in> set drawers \<Longrightarrow> \<not> is_shown drawers s \<Longrightarrow> rw_open s = None"
  by (auto simp: rows_ok_def is_shown_def split: option.splits if_splits)

lemma elapsed_timers:
  assumes "0 < (d :: int)" "filter (\<lambda>t. 0 < t) (map (\<lambda>t. t - d) ts) = []" "ts \<noteq> []"
  shows "list_ex (\<lambda>t. t \<le> 0) (map (\<lambda>t. t - d) ts)"
  using assms by (cases ts) (auto simp: filter_empty_conv split: if_splits)

lemma rows_ok_step:
  assumes "rows_step True drawers modes s s'" "rows_ok modes s" "''add'' \<in> set drawers" "''add'' \<notin> set modes"
  shows "rows_ok modes s'"
  using assms
proof (cases rule: rows_step.cases)
  case Add
  with not_shown [OF assms(2,3)] assms(2) show ?thesis by (auto simp: rows_ok_def rows_defs)
next
  case (Row m r)
  with not_shown [OF assms(2,3)] assms(4) show ?thesis by (auto simp: rows_ok_def rows_defs)
next
  case Dismiss
  then show ?thesis by (simp add: rows_ok_def rows_defs Let_def)
next
  case (Elapse d)
  with assms(2) show ?thesis
    by (cases "rw_timers s = []")
      (auto simp: rows_ok_def rows_defs Let_def split: option.splits dest: elapsed_timers [OF Elapse(2)])
qed

lemma rows_ok_reaches:
  assumes "reaches True drawers modes s" "''add'' \<in> set drawers" "''add'' \<notin> set modes"
  shows "rows_ok modes s"
  using assms(1) unfolding reaches_def
proof (induction rule: rtranclp_induct)
  case base
  then show ?case by (simp add: rows_ok_def initial_rows_def)
next
  case (step s s')
  then show ?case using rows_ok_step assms(2,3) by blast
qed

text \<open>
  A user who waits for the timer never meets a dialog without its row, and the row stays while it is open.
\<close>

lemma patient_row:
  assumes "reaches True drawers modes s" "rw_open s = Some m" "m \<noteq> ''add''" "''add'' \<in> set drawers" "''add'' \<notin> set modes"
  shows "\<exists>r. rw_row s = Some r \<and> (\<forall>d. rw_row (elapse d s) = Some r)"
  using rows_ok_reaches [OF assms(1,4,5)] assms(2,3) by (auto simp: rows_ok_def elapse_def)

text \<open>A dialog opened with a timer pending loses its row when the timer fires, and only then.\<close>

lemma row_lost_iff:
  "rw_row (elapse d (row_action r m s)) = None \<longleftrightarrow> (\<exists>t \<in> set (rw_timers s). t \<le> d)"
  by (auto simp: rows_defs Let_def list_ex_iff)

text \<open>
  C28. On the customer and the subscription page, for a user who opens a dialog only when no timer of an
  earlier one is pending: a dialog about a row (edit, password, status, delete) has its row, and keeps it
  however long it is open.
\<close>

theorem row_dialog_keeps_row:
  assumes "reaches True drawers modes s" "rw_open s = Some m" "m \<noteq> ''add''"
    "(drawers, modes) \<in> {(customer_drawers, customer_row_modes), (subscription_drawers, subscription_row_modes)}"
  shows "\<exists>r. rw_row s = Some r \<and> (\<forall>d. rw_row (elapse d s) = Some r)"
  using patient_row [OF assms(1-3)] assms(4)
  by (auto simp: customer_drawers_def customer_row_modes_def subscription_drawers_def subscription_row_modes_def)

theorem row_dialog_keeps_row_witness:
  "rw_row (row_action (7 :: int) ''edit'' initial_rows) = Some 7
   \<and> (\<exists>r. rw_row (row_action (7 :: int) ''edit'' initial_rows) = Some r
        \<and> (\<forall>d. rw_row (elapse d (row_action (7 :: int) ''edit'' initial_rows)) = Some r))"
proof -
  let ?s = "row_action (7 :: int) ''edit'' initial_rows"
  have "rows_step True customer_drawers customer_row_modes initial_rows ?s"
    by (rule rows_step.Row) (simp_all add: is_shown_def initial_rows_def customer_row_modes_def)
  then have "reaches True customer_drawers customer_row_modes ?s"
    unfolding reaches_def by (rule r_into_rtranclp)
  moreover have "rw_open ?s = Some ''edit''" "rw_row ?s = Some 7" by (simp_all add: rows_defs initial_rows_def)
  ultimately show ?thesis
    using row_dialog_keeps_row [of customer_drawers customer_row_modes ?s "''edit''"] by simp
qed

text \<open>The states of a user who does not wait: a row is edited, the drawer closed, and a second row is opened at once.\<close>

definition hurried :: "string \<Rightarrow> 'r \<Rightarrow> 'r \<Rightarrow> 'r rows" where
  "hurried m a b = elapse 500 (row_action b m (onClose (row_action a ''edit'' initial_rows)))"

lemma hurried_reaches:
  assumes "(drawers, modes) \<in> {(customer_drawers, customer_row_modes), (subscription_drawers, subscription_row_modes)}" "m \<in> set modes"
  shows "reaches False drawers modes (hurried m a b)"
proof -
  let ?R = "rows_step False drawers modes"
  let ?s1 = "row_action a ''edit'' initial_rows"
  let ?s2 = "onClose ?s1"
  let ?s3 = "row_action b m ?s2"
  have e: "''edit'' \<in> set modes" "''edit'' \<in> set drawers"
    using assms(1) by (auto simp: customer_drawers_def customer_row_modes_def subscription_drawers_def subscription_row_modes_def)
  have "?R initial_rows ?s1" by (rule rows_step.Row) (use e in \<open>simp_all add: is_shown_def initial_rows_def\<close>)
  moreover have "?R ?s1 ?s2" by (rule rows_step.Dismiss) (use e in \<open>simp add: rows_defs initial_rows_def\<close>)
  moreover have "?R ?s2 ?s3" by (rule rows_step.Row) (use assms(2) in \<open>simp_all add: rows_defs initial_rows_def\<close>)
  moreover have "?R ?s3 (elapse 500 ?s3)" by (rule rows_step.Elapse) simp
  ultimately show ?thesis
    unfolding reaches_def hurried_def by (meson rtranclp.rtrancl_into_rtrancl rtranclp.rtrancl_refl)
qed

lemma hurried_simps:
  "rw_open (hurried m a b) = Some m" "rw_row (hurried m a b) = None" "rw_timers (hurried m a b) = []"
  by (simp_all add: hurried_def rows_defs initial_rows_def)

text \<open>
  A user who opens a second row within half a second of closing the first: its timer takes the row
  from the dialog that is open. An edit drawer stays on the screen and saving does nothing, and says
  nothing; a delete dialog disappears but remains the open mode, so the next click on Delete opens nothing.
\<close>

theorem row_dialog_race:
  fixes a b :: Customer and c d :: Subscription
  shows "reaches False customer_drawers customer_row_modes (hurried ''edit'' a b)
    \<and> is_shown customer_drawers (hurried ''edit'' a b)
    \<and> (\<forall>v. customer_onSubmit (EditMode, rw_row (hurried ''edit'' a b)) v = None)
    \<and> reaches False subscription_drawers subscription_row_modes (hurried ''edit'' c d)
    \<and> (\<forall>v. sub_onSubmit (EditMode, rw_row (hurried ''edit'' c d)) v = None)
    \<and> reaches False customer_drawers customer_row_modes (hurried ''delete'' a b)
    \<and> \<not> is_shown customer_drawers (hurried ''delete'' a b)
    \<and> rw_open (row_action b ''delete'' (hurried ''delete'' a b)) = None"
  by (auto simp: hurried_simps is_shown_def customer_onSubmit_def sub_onSubmit_def setOpen_def setCurrentRow_def row_action_def
      customer_drawers_def customer_row_modes_def subscription_row_modes_def intro!: hurried_reaches [unfolded customer_drawers_def customer_row_modes_def subscription_row_modes_def])

section \<open>One request per row\<close>

text \<open>
  The requests a dialog starts, and what it shows when they have settled; the outcome of the requests is
  an argument, by their position.
\<close>

type_synonym run = "mutation list \<times> ui_event list"

definition plural_of :: "nat \<Rightarrow> string" where
  "plural_of n = (if 1 < n then ''s'' else [])"

text \<open>The summary of \<open>Promise.allSettled\<close>, from the words of the dialog.\<close>

definition settled :: "string \<Rightarrow> string \<Rightarrow> string \<Rightarrow> string \<Rightarrow> (thrown + js) list \<Rightarrow> ui_event" where
  "settled did act good bad results =
     (let failed = length (filter isl results);
          ok = length results - failed
      in if failed = 0 then Success (did @ '' '' @ show_nat ok @ '' '' @ good @ plural_of ok) JUndef
         else if ok = 0 then Failure (''Failed to '' @ act @ '' '' @ show_nat failed @ '' '' @ bad @ plural_of failed) JUndef
         else Warning (did @ '' '' @ show_nat ok @ '', failed '' @ show_nat failed @ '' of '' @ show_nat (length results) @ '' '' @ bad @ ''s'') JUndef)"

definition outcomes :: "(nat \<Rightarrow> thrown + js) \<Rightarrow> 'a list \<Rightarrow> (thrown + js) list" where
  "outcomes r xs = map r [0..<length xs]"

definition users_handleConfirm :: "int \<Rightarrow> HotspotUserViewModel ids_dialog \<Rightarrow> (nat \<Rightarrow> thrown + js) \<Rightarrow> run" where
  "users_handleConfirm routerId s r =
     (if dg_mode s = Some ''delete'' \<and> dg_target s \<noteq> None then
        (let target = the (dg_target s) in
         ([useRemoveHotspotUser routerId (uv_id target)],
          [case r 0 of
             Inr _ \<Rightarrow> Success (''User '' @ quote (uv_name target) @ '' removed'') JUndef
           | Inl err \<Rightarrow> Failure ''Failed to remove user'' (error_text err), Close]))
      else if dg_mode s = Some ''multi-delete'' \<and> dg_ids s \<noteq> [] then
        (map (useRemoveHotspotUser routerId) (dg_ids s),
         [settled ''Removed'' ''remove'' ''user'' ''user'' (outcomes r (dg_ids s)), Close])
      else ([], []))"

definition profiles_handleConfirm :: "int \<Rightarrow> HotspotProfileViewModel ids_dialog \<Rightarrow> (nat \<Rightarrow> thrown + js) \<Rightarrow> run" where
  "profiles_handleConfirm routerId s r =
     (if dg_mode s = Some ''delete'' \<and> dg_target s \<noteq> None then
        (let target = the (dg_target s) in
         ([useRemoveHotspotProfile routerId (pv_id target)],
          [case r 0 of
             Inr _ \<Rightarrow> Success (''Profile '' @ quote (pv_name target) @ '' deleted'') JUndef
           | Inl err \<Rightarrow> Failure ''Failed to delete profile'' (error_text err), Close]))
      else if dg_mode s = Some ''multi-delete'' \<and> dg_ids s \<noteq> [] then
        (map (useRemoveHotspotProfile routerId) (dg_ids s),
         [settled ''Deleted'' ''delete'' ''profile'' ''profile'' (outcomes r (dg_ids s)), Close])
      else ([], []))"

definition hosts_handleConfirm :: "int \<Rightarrow> hosts_dialog \<Rightarrow> (nat \<Rightarrow> thrown + js) \<Rightarrow> run" where
  "hosts_handleConfirm routerId s r =
     (if dg_mode s = Some ''delete'' \<and> dg_target s \<noteq> None then
        (let target = the (dg_target s) in
         ([useRemoveHotspotHost routerId (hv_id target)],
          [case r 0 of
             Inr _ \<Rightarrow> Success (''Host '' @ (if hv_macAddress target \<noteq> [] then hv_macAddress target else hv_id target) @ '' removed'') JUndef
           | Inl err \<Rightarrow> Failure ''Failed to remove host'' (error_text err), Close]))
      else if dg_mode s = Some ''multi-delete'' \<and> dg_ids s \<noteq> [] then
        (map (useRemoveHotspotHost routerId) (dg_ids s),
         [settled ''Removed'' ''remove'' ''host'' ''host'' (outcomes r (dg_ids s)), Close])
      else ([], []))"

text \<open>"Disconnect all" takes the sessions from the cached list.\<close>

definition disconnect_handleConfirm ::
  "int \<Rightarrow> HotspotActiveRecord list option \<Rightarrow> HotspotActiveViewModel ids_dialog \<Rightarrow> (nat \<Rightarrow> thrown + js) \<Rightarrow> run"
where
  "disconnect_handleConfirm routerId activeQuery s r =
     (if dg_mode s = Some ''disconnect'' \<and> dg_target s \<noteq> None then
        (let target = the (dg_target s) in
         ([useDisconnectHotspotUser routerId (av_id target)],
          [case r 0 of
             Inr _ \<Rightarrow> Success ((if av_user target \<noteq> [] then av_user target else ''session'') @ '' disconnected'') JUndef
           | Inl err \<Rightarrow> Failure ''Failed to disconnect'' (error_text err), Close]))
      else
        (let targetIds = (if dg_mode s = Some ''disconnect-all'' then map ha_id (or_else activeQuery []) else dg_ids s) in
         if targetIds = [] then ([], [Close])
         else (map (useDisconnectHotspotUser routerId) targetIds,
               [settled ''Disconnected'' ''disconnect'' ''session'' ''session'' (outcomes r targetIds), Close])))"

text \<open>PPP secrets have a request of their own for a selection.\<close>

definition secrets_handleConfirm :: "int \<Rightarrow> PPPSecret ids_dialog \<Rightarrow> thrown + js \<Rightarrow> run" where
  "secrets_handleConfirm routerId s r =
     (if dg_mode s = Some ''delete'' \<and> dg_target s \<noteq> None then
        (let target = the (dg_target s) in
         ([useRemovePPPSecret routerId (ps_id target)],
          [case r of
             Inr _ \<Rightarrow> Success (''Secret '' @ quote (ps_name target) @ '' removed'') JUndef
           | Inl err \<Rightarrow> Failure ''Failed to remove secret'' (parseAPIError err), Close]))
      else if dg_mode s = Some ''multi-delete'' \<and> dg_ids s \<noteq> [] then
        ([useBatchRemovePPPSecrets routerId (dg_ids s)],
         [case r of
            Inr n \<Rightarrow> Success (''Removed '' @ js_String n @ '' secret'' @ (case js_Number n of Some k \<Rightarrow> if 1 < k then ''s'' else [] | None \<Rightarrow> [])) JUndef
          | Inl err \<Rightarrow> Failure ''Failed to remove secrets'' (parseAPIError err), Close])
      else ([], []))"

definition pppProfiles_handleConfirm :: "int \<Rightarrow> RouterPPPProfile dialog \<Rightarrow> thrown + js \<Rightarrow> run" where
  "pppProfiles_handleConfirm routerId s r =
     (case dg_target s of
        None \<Rightarrow> ([], [])
      | Some target \<Rightarrow>
          ([useRemovePPPProfile routerId (rp_id target)],
           [case r of
              Inr _ \<Rightarrow> Success (''Profile '' @ quote (rp_name target) @ '' removed'') JUndef
            | Inl err \<Rightarrow> Failure ''Failed to remove profile'' (parseAPIError err), Close]))"

definition pppBilling_handleConfirm :: "int \<Rightarrow> PPPDbProfile dialog \<Rightarrow> thrown + js \<Rightarrow> run" where
  "pppBilling_handleConfirm routerId s r =
     (case dg_target s of
        None \<Rightarrow> ([], [])
      | Some target \<Rightarrow>
          ([useRemovePPPDbProfile routerId (pd_id target)],
           [case r of
              Inr _ \<Rightarrow> Success (''Profile '' @ quote (pd_name target) @ '' removed'') JUndef
            | Inl err \<Rightarrow> Failure ''Failed to remove profile'' (parseAPIError err), Close]))"

definition adminUsers_handleConfirm :: "AdminUser dialog \<Rightarrow> submission option" where
  "adminUsers_handleConfirm s =
     map_option (\<lambda>target.
       \<lparr>sub_mutation = useDeleteAdminUser (au_id target),
        on_done = (\<lambda>_. [Success (''User '' @ quote (au_username target) @ '' deleted'') JUndef, Close]),
        on_failed = (\<lambda>err. [Failure ''Failed to delete user'' (parseAPIError err)])\<rparr>) (dg_target s)"

text \<open>The confirm button of one's own account is disabled.\<close>

definition adminUsers_isSelf :: "int option \<Rightarrow> AdminUser dialog \<Rightarrow> bool" where
  "adminUsers_isSelf currentUserId s =
     (dg_mode s = Some ''delete'' \<and> (case dg_target s of None \<Rightarrow> False | Some t \<Rightarrow> Some (au_id t) = currentUserId))"

definition routers_handleConfirm :: "routers_dialog \<Rightarrow> submission option" where
  "routers_handleConfirm s =
     map_option (\<lambda>selectedRouter.
       \<lparr>sub_mutation = useDeleteRouter (rv_id selectedRouter),
        on_done = (\<lambda>_. [Success (''Router '' @ quote (rv_display_name selectedRouter) @ '' deleted'') JUndef, Close]),
        on_failed = (\<lambda>err. [Failure ''Failed to delete router'' (err_message err)])\<rparr>) (rd_selectedRouter s)"

interpretation admin_user_delete: dialog_form "\<lambda>_ (_ :: unit). []" "\<lambda>s _. adminUsers_handleConfirm s"
  by (rule dialog_formI) (auto simp: adminUsers_handleConfirm_def intro!: well_behavedI)

interpretation router_delete: dialog_form "\<lambda>_ (_ :: unit). []" "\<lambda>s _. routers_handleConfirm s"
  by (rule dialog_formI) (auto simp: routers_handleConfirm_def intro!: well_behavedI)

section \<open>Making IP bindings\<close>

record BindingFormValues =
  bi_mac :: string
  bi_address :: string
  bi_toAddress :: string
  bi_server :: string
  bi_type :: string
  bi_comment :: string

definition BINDING_TYPES :: "(string \<times> string) list" where
  "BINDING_TYPES = [(''bypassed'', ''Bypassed''), (''regular'', ''Regular''), (''blocked'', ''Blocked'')]"

definition bindingSchema :: "BindingFormValues \<Rightarrow> issue list" where
  "bindingSchema v = z_when (bi_type v \<notin> {''bypassed'', ''regular'', ''blocked''}) ''type'' ''Invalid option''"

definition singleSchema :: "BindingFormValues \<Rightarrow> issue list" where
  "singleSchema v = z_min1 ''mac'' ''MAC address wajib diisi'' (bi_mac v) @ bindingSchema v"

definition binding_defaultValues :: "hosts_dialog \<Rightarrow> BindingFormValues" where
  "binding_defaultValues s =
     (let isBulk = (dg_mode s = Some ''bind-many'');
          field = (\<lambda>get. if isBulk then [] else or_else (map_option get (dg_target s)) [])
      in \<lparr>bi_mac = field hv_macAddress, bi_address = field hv_address, bi_toAddress = field hv_toAddress, bi_server = field hv_server,
          bi_type = ''bypassed'', bi_comment = field hv_comment\<rparr>)"

definition compactPayload :: "(string \<times> string) list \<Rightarrow> js" where
  "compactPayload input = JObj (map (\<lambda>(k, v). (k, JStr v)) (filter (\<lambda>(k, v). v \<noteq> []) input))"

definition single_binding :: "BindingFormValues \<Rightarrow> js" where
  "single_binding v = compactPayload
     [(''mac-address'', js_trim (bi_mac v)), (''address'', js_trim (bi_address v)), (''to-address'', js_trim (bi_toAddress v)),
      (''type'', bi_type v), (''comment'', bi_comment v), (''server'', bi_server v)]"

definition host_binding :: "BindingFormValues \<Rightarrow> HotspotHostViewModel \<Rightarrow> js" where
  "host_binding v h = compactPayload
     [(''mac-address'', hv_macAddress h), (''address'', hv_address h), (''to-address'', hv_toAddress h),
      (''type'', bi_type v), (''comment'', bi_comment v), (''server'', hv_server h)]"

definition selected_hosts :: "hosts_dialog \<Rightarrow> HotspotHostViewModel list" where
  "selected_hosts s = List.map_filter (dg_bulk s) (dg_ids s)"

definition binding_onSubmit :: "int \<Rightarrow> hosts_dialog \<Rightarrow> BindingFormValues \<Rightarrow> (nat \<Rightarrow> thrown + js) \<Rightarrow> run" where
  "binding_onSubmit routerId s v r =
     (if dg_mode s \<noteq> Some ''bind-many'' then
        ([useAddIPBinding routerId (single_binding v)],
         case r 0 of
           Inr _ \<Rightarrow> [Success (''IP binding created for '' @ bi_mac v) JUndef, Close]
         | Inl err \<Rightarrow> [Failure ''Failed to create binding'' (error_text err)])
      else
        (let targets = selected_hosts s in
         if targets = [] then ([], [Failure ''No hosts selected'' JUndef])
         else (map (\<lambda>h. useAddIPBinding routerId (host_binding v h)) targets,
               [settled ''Created'' ''create'' ''IP binding'' ''binding'' (outcomes r targets), Close])))"

definition IPBindingMutation :: ts where
  "IPBindingMutation = TDict TStr"

lemma compactPayload_type: "conforms IPBindingMutation (compactPayload fs)"
  by (auto simp: IPBindingMutation_def compactPayload_def list_all_iff)

text \<open>The dialog keeps a snapshot of the selected hosts: every one of them gets a binding of its own.\<close>

lemma selected_hosts_open:
  assumes "distinct (map hv_id hs)"
  shows "selected_hosts (hosts_open m t (Some (map hv_id hs)) (Some hs) s) = hs"
proof -
  let ?bulk = "map_of (rev (map (\<lambda>h. (hv_id h, h)) hs))"
  have d: "distinct (map fst (rev (map (\<lambda>h. (hv_id h, h)) hs)))"
    using assms by (simp add: comp_def rev_map [symmetric])
  have "?bulk (hv_id h) = Some h" if "h \<in> set hs" for h
    using d that by (auto intro: map_of_is_SomeI)
  moreover have "List.map_filter g (map hv_id xs) = xs" if "\<forall>h \<in> set xs. g (hv_id h) = Some h" for g :: "string \<Rightarrow> HotspotHostViewModel option" and xs
    using that by (induction xs) (simp_all add: List.map_filter_simps)
  ultimately show ?thesis by (simp add: selected_hosts_def hosts_open_def)
qed

section \<open>The contract of a dialog for a selection\<close>

text \<open>
  A selection is handed to \<open>confirm\<close> with one request per item: all of them are started, and the dialog
  closes with one summary, the three forms of which say whether all, some or none failed.
\<close>

locale bulk_dialog =
  fixes confirm :: "'i list \<Rightarrow> (nat \<Rightarrow> thrown + js) \<Rightarrow> run"
    and request :: "'i \<Rightarrow> mutation"
    and did act good bad :: string
  assumes started: "xs \<noteq> [] \<Longrightarrow> fst (confirm xs r) = map request xs"
    and summary: "xs \<noteq> [] \<Longrightarrow> snd (confirm xs r) = [settled did act good bad (outcomes r xs), Close]"
begin

definition verdict :: "'i list \<Rightarrow> (nat \<Rightarrow> thrown + js) \<Rightarrow> ui_event" where
  "verdict xs r = hd (snd (confirm xs r))"

lemma one_request_each: "xs \<noteq> [] \<Longrightarrow> length (fst (confirm xs r)) = length xs"
  by (simp add: started)

lemma verdict_settled: "xs \<noteq> [] \<Longrightarrow> verdict xs r = settled did act good bad (outcomes r xs)"
  by (simp add: verdict_def summary)

lemma always_closes: "xs \<noteq> [] \<Longrightarrow> closes (snd (confirm xs r))"
  by (simp add: summary closes_def)

lemma verdict_is:
  assumes "xs \<noteq> []"
  shows "is_success (verdict xs r) \<longleftrightarrow> (\<forall>i < length xs. \<not> isl (r i))"
    and "is_failure (verdict xs r) \<longleftrightarrow> (\<forall>i < length xs. isl (r i))"
proof -
  let ?f = "filter isl (outcomes r xs)"
  have n: "length (outcomes r xs) = length xs" by (simp add: outcomes_def)
  have none: "length ?f = 0 \<longleftrightarrow> (\<forall>i < length xs. \<not> isl (r i))"
    by (auto simp: outcomes_def filter_empty_conv)
  have "length ?f \<le> length xs" using length_filter_le [of isl "outcomes r xs"] n by simp
  moreover have "length ?f = length (outcomes r xs) \<longleftrightarrow> (\<forall>x \<in> set (outcomes r xs). isl x)"
    using length_filter_less [of _ "outcomes r xs" isl] by (metis filter_True less_irrefl)
  ultimately have every: "length xs - length ?f = 0 \<longleftrightarrow> (\<forall>i < length xs. isl (r i))"
    using n by (auto simp: outcomes_def)
  show "is_success (verdict xs r) \<longleftrightarrow> (\<forall>i < length xs. \<not> isl (r i))"
    using none by (auto simp: verdict_settled [OF assms] settled_def Let_def n)
  show "is_failure (verdict xs r) \<longleftrightarrow> (\<forall>i < length xs. isl (r i))"
    using none every assms by (auto simp: verdict_settled [OF assms] settled_def Let_def n)
qed

end

interpretation users_bulk:
  bulk_dialog "\<lambda>ids. users_handleConfirm routerId (users_open ''multi-delete'' None (Some ids) s)" "useRemoveHotspotUser routerId"
    "''Removed''" "''remove''" "''user''" "''user''" for routerId s
  by unfold_locales (simp_all add: users_handleConfirm_def users_open_def)

interpretation profiles_bulk:
  bulk_dialog "\<lambda>ids. profiles_handleConfirm routerId (profiles_open ''multi-delete'' None (Some ids) s)" "useRemoveHotspotProfile routerId"
    "''Deleted''" "''delete''" "''profile''" "''profile''" for routerId s
  by unfold_locales (simp_all add: profiles_handleConfirm_def profiles_open_def)

interpretation hosts_bulk:
  bulk_dialog "\<lambda>ids. hosts_handleConfirm routerId (hosts_open ''multi-delete'' None (Some ids) None s)" "useRemoveHotspotHost routerId"
    "''Removed''" "''remove''" "''host''" "''host''" for routerId s
  by unfold_locales (simp_all add: hosts_handleConfirm_def hosts_open_def)

interpretation active_bulk:
  bulk_dialog "\<lambda>ids. disconnect_handleConfirm routerId q (active_open ''disconnect-many'' None (Some ids) s)" "useDisconnectHotspotUser routerId"
    "''Disconnected''" "''disconnect''" "''session''" "''session''" for routerId q s
  by unfold_locales (simp_all add: disconnect_handleConfirm_def active_open_def Let_def)

interpretation active_all:
  bulk_dialog "\<lambda>rs. disconnect_handleConfirm routerId (Some rs) (active_open ''disconnect-all'' None None s)"
    "\<lambda>a. useDisconnectHotspotUser routerId (ha_id a)" "''Disconnected''" "''disconnect''" "''session''" "''session''" for routerId s
  by unfold_locales (simp_all add: disconnect_handleConfirm_def active_open_def Let_def outcomes_def comp_def)



section \<open>Registrations: what a dialog remembers\<close>

text \<open>
  The approve, reject and assign dialogs are always mounted; what is typed into them is state of their
  own that neither opening nor closing resets.
\<close>

record registrations_page =
  rp_dialog :: "Registration dialog"
  rp_schedule :: string
  rp_reason :: string
  rp_assignedTo :: string
  rp_assignSchedule :: string

definition initial_registrations :: registrations_page where
  "initial_registrations =
     \<lparr>rp_dialog = no_dialog, rp_schedule = [], rp_reason = [], rp_assignedTo = [], rp_assignSchedule = []\<rparr>"

datatype registrations_event =
    OpenAction string Registration
  | CloseAction
  | TypeSchedule string
  | TypeReason string

fun registrations_apply :: "registrations_event \<Rightarrow> registrations_page \<Rightarrow> registrations_page" where
  "registrations_apply (OpenAction m t) s = s\<lparr>rp_dialog := registrations_open m t (rp_dialog s)\<rparr>"
| "registrations_apply CloseAction s = s\<lparr>rp_dialog := registrations_close (rp_dialog s)\<rparr>"
| "registrations_apply (TypeSchedule v) s = s\<lparr>rp_schedule := v\<rparr>"
| "registrations_apply (TypeReason v) s = s\<lparr>rp_reason := v\<rparr>"

definition approve_clicked :: "zone \<Rightarrow> registrations_page \<Rightarrow> submission option" where
  "approve_clicked z s = approve_confirm z (dg_target (rp_dialog s)) (rp_schedule s)"

definition reject_clicked :: "registrations_page \<Rightarrow> ui_event list + submission option" where
  "reject_clicked s = reject_confirm (dg_target (rp_dialog s)) (rp_reason s)"

definition registrations_run :: "registrations_event list \<Rightarrow> registrations_page" where
  "registrations_run es = fold registrations_apply es initial_registrations"

text \<open>
  Approving or rejecting a registration leaves the installation date and the reason in the dialog: the
  next registration that is opened and confirmed at once is approved with the date of the one before, or
  rejected with its reason.
\<close>

theorem registration_dialogs_remember:
  fixes z :: zone and a b :: Registration and d :: string
  defines "approving \<equiv> registrations_run [OpenAction ''approve'' a, TypeSchedule d, CloseAction, OpenAction ''approve'' b]"
    and "rejecting \<equiv> registrations_run [OpenAction ''reject'' a, TypeReason d, CloseAction, OpenAction ''reject'' b]"
  shows "map_option request_body (approve_clicked z approving) = Some (JObj [(''scheduled_at'', toISO z d)])
    \<and> approve_clicked z approving = approve_confirm z (Some b) d
    \<and> reject_clicked rejecting = reject_confirm (Some b) d"
  by (simp add: assms registrations_run_def initial_registrations_def no_dialog_def registrations_open_def registrations_close_def
      approve_clicked_def approve_confirm_def reject_clicked_def request_body_def useApproveRegistration_def approveRegistration_def)

end
