(* ===== verification/Staff_Forms.thy ===== *)
theory Staff_Forms
  imports Dialogs
begin

text \<open>
  Forms that check their fields themselves: the router and staff account dialogs
  (\<^verbatim>\<open>features/routers/dialogs\<close>, \<^verbatim>\<open>features/admin/users/dialogs\<close>), recording and importing sales
  (\<^verbatim>\<open>features/voucher/sales/dialogs\<close>), IP pools, schedulers and scripts (\<^verbatim>\<open>features/network\<close>,
  \<^verbatim>\<open>features/system\<close>). Each interprets the locale \<open>guarded_form\<close>; the two edit dialogs send only the
  fields that differ from the stored record.
\<close>

section \<open>Routers\<close>

record RouterDraft =
  rt_display_name :: string
  rt_host :: string
  rt_port :: "rat option"
  rt_username :: string
  rt_password :: string
  rt_use_tls :: string

definition router_draft :: "form_mode \<Rightarrow> RouterPublicView option \<Rightarrow> RouterDraft" where
  "router_draft mode selectedRouter =
     (case (mode, selectedRouter) of
        (EditMode, Some r) \<Rightarrow>
          \<lparr>rt_display_name = rv_display_name r, rt_host = rv_host r, rt_port = Some (of_int (rv_port r)),
           rt_username = rv_username r, rt_password = [], rt_use_tls = bool_text (rv_use_tls r = Some True)\<rparr>
      | _ \<Rightarrow>
          \<lparr>rt_display_name = [], rt_host = [], rt_port = Some 8728, rt_username = ''admin'', rt_password = [], rt_use_tls = ''false''\<rparr>)"

definition setPort :: "string \<Rightarrow> RouterDraft \<Rightarrow> RouterDraft" where
  "setPort value d = d\<lparr>rt_port := StringToNumber value\<rparr>"

text \<open>
  The fields a body has when they differ from the stored record. A port that is not a number never reaches a body.
\<close>

definition if_diff :: "bool \<Rightarrow> string \<Rightarrow> js \<Rightarrow> (string \<times> js) list" where
  "if_diff changed key value = (if changed then [(key, value)] else [])"

definition router_create_body :: "RouterDraft \<Rightarrow> (string \<times> js) list" where
  "router_create_body d =
     [(''display_name'', JStr (js_trim (rt_display_name d))), (''host'', JStr (js_trim (rt_host d))),
      (''port'', JNum (or_else (rt_port d) 0)), (''username'', JStr (js_trim (rt_username d))),
      (''password'', JStr (rt_password d)), (''use_tls'', JBool (rt_use_tls d = ''true''))]"

definition router_update_body :: "RouterPublicView \<Rightarrow> RouterDraft \<Rightarrow> (string \<times> js) list" where
  "router_update_body r d =
     if_diff (js_trim (rt_display_name d) \<noteq> rv_display_name r) ''display_name'' (JStr (js_trim (rt_display_name d)))
     @ if_diff (js_trim (rt_host d) \<noteq> rv_host r) ''host'' (JStr (js_trim (rt_host d)))
     @ if_diff (rt_port d \<noteq> Some (of_int (rv_port r))) ''port'' (JNum (or_else (rt_port d) 0))
     @ if_diff (js_trim (rt_username d) \<noteq> rv_username r) ''username'' (JStr (js_trim (rt_username d)))
     @ if_diff (rt_password d \<noteq> []) ''password'' (JStr (rt_password d))
     @ if_diff ((rt_use_tls d = ''true'') \<noteq> (rv_use_tls r = Some True)) ''use_tls'' (JBool (rt_use_tls d = ''true''))"

definition router_handleSubmit :: "form_mode \<times> RouterPublicView option \<Rightarrow> RouterDraft \<Rightarrow> ui_event list + submission option" where
  "router_handleSubmit = (\<lambda>(mode, selectedRouter) d.
     guarded (js_trim (rt_display_name d) = []) ''Name is required'' (
     guarded (js_trim (rt_host d) = []) ''Host is required'' (
     guarded (case rt_port d of None \<Rightarrow> True | Some p \<Rightarrow> p = 0 \<or> p < 1 \<or> 65535 < p) ''Port must be between 1 and 65535'' (
     guarded (js_trim (rt_username d) = []) ''Username is required'' (
       if mode = AddMode then
         guarded (rt_password d = []) ''Password is required'' (Inr (Some
           \<lparr>sub_mutation = useCreateRouter (JObj (router_create_body d)),
            on_done = (\<lambda>_. [Success (''Router '' @ quote (js_trim (rt_display_name d)) @ '' added'') JUndef, Close]),
            on_failed = (\<lambda>err. [Failure ''Failed to add router'' (parseAPIError err)])\<rparr>))
       else
         (case selectedRouter of
            None \<Rightarrow> Inr None
          | Some r \<Rightarrow>
              if router_update_body r d = [] then Inl [Info ''No changes to save'' JUndef, Close]
              else Inr (Some
                \<lparr>sub_mutation = useUpdateRouter (rv_id r) (JObj (router_update_body r d)),
                 on_done = (\<lambda>_. [Success (''Router '' @ quote (rv_display_name r) @ '' updated'') JUndef, Close]),
                 on_failed = (\<lambda>err. [Failure ''Failed to update router'' (parseAPIError err)])\<rparr>)))))))"

definition CreateRouterRequest :: ts where
  "CreateRouterRequest =
     TObj [req ''display_name'' TStr, req ''host'' TStr, req ''port'' TNum, req ''username'' TStr, req ''password'' TStr,
       optional ''use_tls'' TBool, optional ''expiry_check_interval'' TStr]"

definition UpdateRouterRequest :: ts where
  "UpdateRouterRequest =
     TObj [optional ''display_name'' TStr, optional ''host'' TStr, optional ''port'' TNum, optional ''username'' TStr,
       optional ''password'' TStr, optional ''use_tls'' TBool, optional ''active'' TBool]"

section \<open>Staff accounts\<close>

record AdminUserDraft =
  ad_username :: string
  ad_password :: string
  ad_role :: string
  ad_active :: bool

definition admin_user_draft :: "form_mode \<Rightarrow> AdminUser option \<Rightarrow> AdminUserDraft" where
  "admin_user_draft mode target =
     (case (mode, target) of
        (EditMode, Some t) \<Rightarrow> \<lparr>ad_username = au_username t, ad_password = [], ad_role = au_role t, ad_active = au_active t\<rparr>
      | _ \<Rightarrow> \<lparr>ad_username = [], ad_password = [], ad_role = ''operator'', ad_active = True\<rparr>)"

definition admin_user_create_body :: "AdminUserDraft \<Rightarrow> (string \<times> js) list" where
  "admin_user_create_body d =
     [(''username'', JStr (js_trim (ad_username d))), (''password'', JStr (ad_password d)), (''role'', JStr (ad_role d))]"

definition admin_user_update_body :: "AdminUser \<Rightarrow> AdminUserDraft \<Rightarrow> (string \<times> js) list" where
  "admin_user_update_body t d =
     if_diff (js_trim (ad_username d) \<noteq> au_username t) ''username'' (JStr (js_trim (ad_username d)))
     @ if_diff (0 < length (ad_password d)) ''password'' (JStr (ad_password d))
     @ if_diff (ad_role d \<noteq> au_role t) ''role'' (JStr (ad_role d))
     @ if_diff (ad_active d \<noteq> au_active t) ''active'' (JBool (ad_active d))"

definition admin_user_handleSubmit :: "form_mode \<times> AdminUser option \<Rightarrow> AdminUserDraft \<Rightarrow> ui_event list + submission option" where
  "admin_user_handleSubmit = (\<lambda>(mode, target) d.
     guarded (js_trim (ad_username d) = []) ''Username is required'' (
     guarded (mode = AddMode \<and> length (ad_password d) < 8) ''Password must be at least 8 characters'' (
     guarded (mode = EditMode \<and> 0 < length (ad_password d) \<and> length (ad_password d) < 8)
       ''New password must be at least 8 characters (or leave blank)'' (
       if mode = AddMode then
         Inr (Some
           \<lparr>sub_mutation = useCreateAdminUser (JObj (admin_user_create_body d)),
            on_done = (\<lambda>_. [Success (''User '' @ quote (js_trim (ad_username d)) @ '' created'') JUndef, Close]),
            on_failed = (\<lambda>err. [Failure ''Failed to create user'' (parseAPIError err)])\<rparr>)
       else
         (case target of
            None \<Rightarrow> Inr None
          | Some t \<Rightarrow>
              if admin_user_update_body t d = [] then Inl [Info ''No changes to save'' JUndef, Close]
              else Inr (Some
                \<lparr>sub_mutation = useUpdateAdminUser (au_id t) (JObj (admin_user_update_body t d)),
                 on_done = (\<lambda>_. [Success (''User '' @ quote (js_trim (ad_username d)) @ '' updated'') JUndef, Close]),
                 on_failed = (\<lambda>err. [Failure ''Failed to update user'' (parseAPIError err)])\<rparr>))))))"

definition CreateAdminUserRequest :: ts where
  "CreateAdminUserRequest =
     TObj [req ''username'' TStr, req ''password'' TStr, req ''role'' (TLit [''admin'', ''operator'', ''viewer''])]"

definition UpdateAdminUserRequest :: ts where
  "UpdateAdminUserRequest =
     TObj [optional ''username'' TStr, optional ''password'' TStr, optional ''role'' (TLit [''admin'', ''operator'', ''viewer'']),
       optional ''active'' TBool]"

section \<open>Sales\<close>

record SaleForm =
  sf_username :: string
  sf_profile_name :: string
  sf_server :: string
  sf_price :: string
  sf_sold_at :: string

definition EMPTY_SALE :: SaleForm where
  "EMPTY_SALE = \<lparr>sf_username = [], sf_profile_name = [], sf_server = [], sf_price = [], sf_sold_at = []\<rparr>"

definition localToIso :: "zone \<Rightarrow> string \<Rightarrow> js" where
  "localToIso z value =
     (if value = [] then JUndef else (case parse_Date z value of None \<Rightarrow> JUndef | Some t \<Rightarrow> JStr (toISOString t)))"

definition sale_params :: "zone \<Rightarrow> SaleForm \<Rightarrow> (string \<times> js) list" where
  "sale_params z f =
     [(''username'', JStr (js_trim (sf_username f))), (''profile_name'', str_or_undef (js_trim (sf_profile_name f))),
      (''server'', str_or_undef (js_trim (sf_server f))),
      (''price'', if 0 < length (js_trim (sf_price f)) then (case StringToNumber (sf_price f) of None \<Rightarrow> JUndef | Some n \<Rightarrow> JNum n) else JUndef),
      (''sold_at'', localToIso z (sf_sold_at f))]"

definition record_sale_handleSubmit :: "zone \<Rightarrow> int option \<Rightarrow> SaleForm \<Rightarrow> ui_event list + submission option" where
  "record_sale_handleSubmit z routerId f =
     (case routerId of
        None \<Rightarrow> Inl [Failure ''Select a router first'' JUndef]
      | Some rid \<Rightarrow>
          guarded (js_trim (sf_username f) = []) ''Username is required'' (Inr (Some
            \<lparr>sub_mutation = useRecordSale rid (JObj (sale_params z f)),
             on_done = (\<lambda>_. [Success ''Sale recorded'' (JStr (js_trim (sf_username f))), Close]),
             on_failed = (\<lambda>err. [Failure ''Failed to record sale'' (err_message err)])\<rparr>)))"

definition RecordSaleParams :: ts where
  "RecordSaleParams =
     TObj [req ''username'' TStr, optional ''profile_name'' TStr, optional ''price'' TNum, optional ''validity'' TStr, optional ''server'' TStr,
       optional ''ip_address'' TStr, optional ''mac_address'' TStr, optional ''sold_at'' TStr]"

text \<open>The import dialog: what it shows after the reply, and the result it keeps until it closes or opens again.\<close>

record import_dialog =
  im_result :: "js option"
  im_pending :: bool
  im_prevOpen :: bool

definition import_render :: "bool \<Rightarrow> import_dialog \<Rightarrow> import_dialog" where
  "import_render opened s =
     (if opened \<noteq> im_prevOpen s then s\<lparr>im_prevOpen := opened, im_result := (if opened then None else im_result s)\<rparr> else s)"

definition middle_dot :: string where
  "middle_dot = [char_of (194 :: nat), char_of (183 :: nat)]"

definition import_events :: "js \<Rightarrow> ui_event list" where
  "import_events res =
     (let field = (\<lambda>k. js_String (js_optget res k));
          counts = field ''imported'' @ ''/'' @ field ''total'' @ '' imported''
      in case js_Number (js_optget res ''errors'') of
           Some n \<Rightarrow> if 0 < n then [Warning ''Import finished with errors'' (JStr (counts @ '' '' @ middle_dot @ '' '' @ field ''errors'' @ '' errors''))]
                     else [Success ''Import finished'' (JStr counts)]
         | None \<Rightarrow> [Success ''Import finished'' (JStr counts)])"

definition handleImport :: "int option \<Rightarrow> ui_event list + submission option" where
  "handleImport routerId =
     (case routerId of
        None \<Rightarrow> Inl [Failure ''Select a router first'' JUndef]
      | Some rid \<Rightarrow>
          Inr (Some \<lparr>sub_mutation = useImportSales rid, on_done = import_events,
                     on_failed = (\<lambda>err. [Failure ''Import failed'' (err_message err)])\<rparr>))"

definition import_settled :: "thrown + js \<Rightarrow> import_dialog \<Rightarrow> import_dialog" where
  "import_settled r s = (case r of Inr res \<Rightarrow> s\<lparr>im_pending := False, im_result := Some res\<rparr> | Inl _ \<Rightarrow> s\<lparr>im_pending := False\<rparr>)"

text \<open>Closing is ignored while the import runs; \<open>True\<close> says that the store is closed.\<close>

definition import_handleClose :: "import_dialog \<Rightarrow> import_dialog \<times> bool" where
  "import_handleClose s = (if im_pending s then (s, False) else (s\<lparr>im_result := None\<rparr>, True))"

section \<open>Pools, schedulers, scripts\<close>

record PoolForm =
  pl_name :: string
  pl_ranges :: string
  pl_nextPool :: string

definition pool_handleSubmit :: "int \<Rightarrow> PoolForm \<Rightarrow> ui_event list + submission option" where
  "pool_handleSubmit routerId f =
     guarded (js_trim (pl_name f) = [] \<or> js_trim (pl_ranges f) = []) ''Name and ranges are required'' (Inr (Some
       \<lparr>sub_mutation = useCreatePool routerId (JObj
          [(''name'', JStr (js_trim (pl_name f))), (''ranges'', JStr (js_trim (pl_ranges f))), (''next_pool'', str_or_undef (js_trim (pl_nextPool f)))]),
        on_done = (\<lambda>_. [Success (''Pool '' @ quote (pl_name f) @ '' created'') JUndef, Close]),
        on_failed = (\<lambda>err. [Failure ''Failed to create pool'' (parseAPIError err)])\<rparr>))"

record SchedulerForm =
  sd_name :: string
  sd_interval :: string
  sd_onEvent :: string

definition scheduler_handleSubmit :: "int \<Rightarrow> SchedulerForm \<Rightarrow> ui_event list + submission option" where
  "scheduler_handleSubmit routerId f =
     guarded (js_trim (sd_name f) = []) ''Name is required'' (Inr (Some
       \<lparr>sub_mutation = useCreateScheduler routerId (JObj
          [(''name'', JStr (js_trim (sd_name f))), (''interval'', str_or_undef (js_trim (sd_interval f))),
           (''on_event'', str_or_undef (js_trim (sd_onEvent f)))]),
        on_done = (\<lambda>_. [Success (''Scheduler '' @ quote (sd_name f) @ '' created'') JUndef, Close]),
        on_failed = (\<lambda>err. [Failure ''Failed to create scheduler'' (parseAPIError err)])\<rparr>))"

definition script_handleSubmit :: "int \<Rightarrow> string \<times> string \<Rightarrow> ui_event list + submission option" where
  "script_handleSubmit routerId = (\<lambda>(name, source).
     guarded (js_trim name = [] \<or> js_trim source = []) ''Name and source are required'' (Inr (Some
       \<lparr>sub_mutation = useCreateScript routerId (JObj [(''name'', JStr (js_trim name)), (''source'', JStr (js_trim source))]),
        on_done = (\<lambda>_. [Success (''Script '' @ quote name @ '' created'') JUndef, Close]),
        on_failed = (\<lambda>err. [Failure ''Failed to create script'' (parseAPIError err)])\<rparr>)))"

definition IPPoolCreateInput :: ts where
  "IPPoolCreateInput = TObj [req ''name'' TStr, req ''ranges'' TStr, optional ''next_pool'' TStr, optional ''comment'' TStr]"

definition SchedulerCreateInput :: ts where
  "SchedulerCreateInput =
     TObj [req ''name'' TStr, optional ''on_event'' TStr, optional ''start_time'' TStr, optional ''interval'' TStr, optional ''comment'' TStr]"

definition ScriptCreateInput :: ts where
  "ScriptCreateInput = TObj [req ''name'' TStr, req ''source'' TStr, optional ''comment'' TStr, optional ''policy'' TStr]"

text \<open>
  The confirm button of a row: the request and its message; the dialog closes either way.
\<close>

definition confirm_delete :: "mutation \<Rightarrow> ui_event \<Rightarrow> string \<Rightarrow> thrown + js \<Rightarrow> run" where
  "confirm_delete m ok bad r = ([m], [case r of Inr _ \<Rightarrow> ok | Inl err \<Rightarrow> Failure bad (parseAPIError err), Close])"

definition pool_delete :: "int \<Rightarrow> string \<Rightarrow> string \<Rightarrow> thrown + js \<Rightarrow> run" where
  "pool_delete routerId ident name =
     confirm_delete (useDeletePool routerId ident) (Success (''Pool '' @ quote name @ '' removed'') JUndef) ''Failed to remove pool''"

definition queue_delete :: "int \<Rightarrow> string \<Rightarrow> string \<Rightarrow> thrown + js \<Rightarrow> run" where
  "queue_delete routerId ident name =
     confirm_delete (useDeleteQueue routerId ident) (Success (''Queue '' @ quote name @ '' removed'') JUndef) ''Failed to remove queue''"

definition lease_delete :: "int \<Rightarrow> string \<Rightarrow> thrown + js \<Rightarrow> run" where
  "lease_delete routerId ident =
     confirm_delete (useDeleteDHCPLease routerId ident) (Success ''Lease removed'' JUndef) ''Failed to remove lease''"

definition scheduler_delete :: "int \<Rightarrow> string \<Rightarrow> string \<Rightarrow> thrown + js \<Rightarrow> run" where
  "scheduler_delete routerId ident name =
     confirm_delete (useDeleteScheduler routerId ident) (Success (''Scheduler '' @ quote name @ '' removed'') JUndef) ''Failed to remove scheduler''"

definition script_delete :: "int \<Rightarrow> string \<Rightarrow> string \<Rightarrow> thrown + js \<Rightarrow> run" where
  "script_delete routerId ident name =
     confirm_delete (useDeleteScript routerId ident) (Success (''Script '' @ quote name @ '' removed'') JUndef) ''Failed to remove script''"

definition hotspot_billing_delete :: "int \<Rightarrow> HotspotDbProfile \<Rightarrow> thrown + js \<Rightarrow> run" where
  "hotspot_billing_delete routerId p =
     confirm_delete (useRemoveHotspotDbProfile routerId (hd_id p)) (Success (''Profile '' @ quote (hd_name p) @ '' removed'') JUndef)
       ''Failed to remove profile''"

definition reboot_confirmed :: "int \<Rightarrow> thrown + js \<Rightarrow> run" where
  "reboot_confirmed routerId = confirm_delete (useReboot routerId) (Success ''Reboot issued'' JUndef) ''Failed to reboot''"

definition shutdown_confirmed :: "int \<Rightarrow> thrown + js \<Rightarrow> run" where
  "shutdown_confirmed routerId = confirm_delete (useShutdown routerId) (Success ''Shutdown issued'' JUndef) ''Failed to shut down''"

section \<open>The contracts\<close>

interpretation router_form: guarded_form router_handleSubmit
  by unfold_locales (auto simp: router_handleSubmit_def intro!: reportsI split: if_splits option.splits)

interpretation admin_user_form: guarded_form admin_user_handleSubmit
  by unfold_locales (auto simp: admin_user_handleSubmit_def intro!: reportsI split: if_splits option.splits)

interpretation record_sale: guarded_form "record_sale_handleSubmit z" for z
  by unfold_locales (auto simp: record_sale_handleSubmit_def intro!: reportsI split: if_splits option.splits)

interpretation import_sales: guarded_form "\<lambda>rid (_ :: unit). handleImport rid"
  by unfold_locales (auto simp: handleImport_def import_events_def Let_def intro!: reportsI split: if_splits option.splits)

interpretation pool_form: guarded_form pool_handleSubmit
  by unfold_locales (auto simp: pool_handleSubmit_def intro!: reportsI split: if_splits)

interpretation scheduler_form: guarded_form scheduler_handleSubmit
  by unfold_locales (auto simp: scheduler_handleSubmit_def intro!: reportsI split: if_splits)

interpretation script_form: guarded_form script_handleSubmit
  by unfold_locales (auto simp: script_handleSubmit_def intro!: reportsI split: if_splits)

section \<open>Partial updates\<close>

text \<open>The server's side of a partial update: the fields that are sent replace the stored ones.\<close>

definition patched :: "(string \<times> js) list \<Rightarrow> (string \<times> js) list \<Rightarrow> string \<Rightarrow> js option" where
  "patched stored body k = (case map_of body k of Some v \<Rightarrow> Some v | None \<Rightarrow> map_of stored k)"

definition admin_user_stored :: "AdminUser \<Rightarrow> (string \<times> js) list" where
  "admin_user_stored t = [(''username'', JStr (au_username t)), (''role'', JStr (au_role t)), (''active'', JBool (au_active t))]"

definition router_stored :: "RouterPublicView \<Rightarrow> (string \<times> js) list" where
  "router_stored r =
     [(''display_name'', JStr (rv_display_name r)), (''host'', JStr (rv_host r)), (''port'', JNum (of_int (rv_port r))),
      (''username'', JStr (rv_username r)), (''use_tls'', JBool (rv_use_tls r = Some True))]"

lemma if_diff_simps [simp]:
  "map_of (if_diff c k v) = (if c then [k \<mapsto> v] else Map.empty)"
  "if_diff c k v = [] \<longleftrightarrow> \<not> c"
  by (simp_all add: if_diff_def)

lemma admin_user_patched:
  "patched (admin_user_stored t) (admin_user_update_body t d) ''username'' = Some (JStr (js_trim (ad_username d)))"
  "patched (admin_user_stored t) (admin_user_update_body t d) ''role'' = Some (JStr (ad_role d))"
  "patched (admin_user_stored t) (admin_user_update_body t d) ''active'' = Some (JBool (ad_active d))"
  "patched (admin_user_stored t) (admin_user_update_body t d) ''password'' = (if ad_password d = [] then None else Some (JStr (ad_password d)))"
  by (simp_all add: patched_def admin_user_stored_def admin_user_update_body_def map_add_def)

lemma router_patched:
  "patched (router_stored r) (router_update_body r d) ''display_name'' = Some (JStr (js_trim (rt_display_name d)))"
  "patched (router_stored r) (router_update_body r d) ''host'' = Some (JStr (js_trim (rt_host d)))"
  "rt_port d = Some p \<Longrightarrow> patched (router_stored r) (router_update_body r d) ''port'' = Some (JNum p)"
  "patched (router_stored r) (router_update_body r d) ''username'' = Some (JStr (js_trim (rt_username d)))"
  "patched (router_stored r) (router_update_body r d) ''use_tls'' = Some (JBool (rt_use_tls d = ''true''))"
  "patched (router_stored r) (router_update_body r d) ''password'' = (if rt_password d = [] then None else Some (JStr (rt_password d)))"
  by (auto simp: patched_def router_stored_def router_update_body_def map_add_def)

definition only_changes :: "(string \<times> js) list \<Rightarrow> (string \<times> js) list \<Rightarrow> bool" where
  "only_changes stored body = list_all (\<lambda>(k, v). map_of stored k \<noteq> Some v) body"

lemma only_changes_simps [simp]:
  "only_changes stored (xs @ ys) \<longleftrightarrow> only_changes stored xs \<and> only_changes stored ys"
  "only_changes stored (if_diff c k v) \<longleftrightarrow> (c \<longrightarrow> map_of stored k \<noteq> Some v)"
  by (simp_all add: only_changes_def if_diff_def)

lemma admin_user_edit:
  "case admin_user_handleSubmit (EditMode, Some t) d of
     Inl es \<Rightarrow> (\<exists>m. es = [Failure m JUndef])
       \<or> (es = [Info ''No changes to save'' JUndef, Close]
          \<and> js_trim (ad_username d) = au_username t \<and> ad_role d = au_role t \<and> ad_active d = au_active t \<and> ad_password d = [])
   | Inr None \<Rightarrow> False
   | Inr (Some s) \<Rightarrow> request_body s = JObj (admin_user_update_body t d)"
  by (auto simp: admin_user_handleSubmit_def guarded_def request_body_def useUpdateAdminUser_def updateAdminUser_def admin_user_update_body_def
      split: option.splits sum.splits)

lemma router_edit:
  "case router_handleSubmit (EditMode, Some r) d of
     Inl es \<Rightarrow> (\<exists>m. es = [Failure m JUndef])
       \<or> (es = [Info ''No changes to save'' JUndef, Close] \<and> router_update_body r d = [])
   | Inr None \<Rightarrow> False
   | Inr (Some s) \<Rightarrow> request_body s = JObj (router_update_body r d)"
  by (auto simp: router_handleSubmit_def guarded_def request_body_def useUpdateRouter_def updateRouter_def split: option.splits sum.splits)

lemma router_sent_port:
  assumes "router_handleSubmit m d = Inr (Some s)"
  shows "\<exists>p. rt_port d = Some p \<and> 1 \<le> p \<and> p \<le> 65535"
  using assms by (cases m) (auto simp: router_handleSubmit_def not_less split: option.splits)

text \<open>What the body of an edit must be, given the stored record and the form.\<close>

definition admin_user_edited :: "AdminUser \<Rightarrow> AdminUserDraft \<Rightarrow> (string \<times> js) list \<Rightarrow> bool" where
  "admin_user_edited t d body =
     (only_changes (admin_user_stored t) body
      \<and> patched (admin_user_stored t) body ''username'' = Some (JStr (js_trim (ad_username d)))
      \<and> patched (admin_user_stored t) body ''role'' = Some (JStr (ad_role d))
      \<and> patched (admin_user_stored t) body ''active'' = Some (JBool (ad_active d))
      \<and> map_of body ''password'' = (if ad_password d = [] then None else Some (JStr (ad_password d))))"

definition router_edited :: "RouterPublicView \<Rightarrow> RouterDraft \<Rightarrow> (string \<times> js) list \<Rightarrow> bool" where
  "router_edited r d body =
     (only_changes (router_stored r) body
      \<and> patched (router_stored r) body ''display_name'' = Some (JStr (js_trim (rt_display_name d)))
      \<and> patched (router_stored r) body ''host'' = Some (JStr (js_trim (rt_host d)))
      \<and> patched (router_stored r) body ''port'' = map_option JNum (rt_port d)
      \<and> patched (router_stored r) body ''username'' = Some (JStr (js_trim (rt_username d)))
      \<and> patched (router_stored r) body ''use_tls'' = Some (JBool (rt_use_tls d = ''true''))
      \<and> map_of body ''password'' = (if rt_password d = [] then None else Some (JStr (rt_password d))))"

lemma admin_user_body_edited: "admin_user_edited t d (admin_user_update_body t d)"
proof -
  have "only_changes (admin_user_stored t) (admin_user_update_body t d)"
    by (simp add: admin_user_update_body_def admin_user_stored_def)
  moreover have "map_of (admin_user_update_body t d) ''password'' = (if ad_password d = [] then None else Some (JStr (ad_password d)))"
    by (simp add: admin_user_update_body_def map_add_def)
  ultimately show ?thesis by (simp add: admin_user_edited_def admin_user_patched)
qed

lemma router_body_edited:
  assumes "rt_port d = Some p"
  shows "router_edited r d (router_update_body r d)"
proof -
  have "only_changes (router_stored r) (router_update_body r d)"
    using assms by (auto simp: router_update_body_def router_stored_def)
  moreover have "map_of (router_update_body r d) ''password'' = (if rt_password d = [] then None else Some (JStr (rt_password d)))"
    by (simp add: router_update_body_def map_add_def)
  ultimately show ?thesis using assms by (simp add: router_edited_def router_patched)
qed

text \<open>
  C15. Editing a staff account or a router sends a partial update. When something is sent, it is exactly what
  differs from the stored record: every field that is sent has another value there, and the server's record
  with these fields replaced has the values of the form (texts trimmed); a blank password is not sent, and the
  port is between 1 and 65535.
\<close>

theorem edit_sends_difference:
  assumes "admin_user_handleSubmit (EditMode, Some t) d = Inr (Some s)" "router_handleSubmit (EditMode, Some r) e = Inr (Some q)"
  shows "(\<exists>body. request_body s = JObj body \<and> body \<noteq> [] \<and> admin_user_edited t d body)
    \<and> (\<exists>body p. request_body q = JObj body \<and> body \<noteq> [] \<and> router_edited r e body \<and> rt_port e = Some p \<and> 1 \<le> p \<and> p \<le> 65535)"
proof -
  obtain p where p: "rt_port e = Some p" "1 \<le> p" "p \<le> 65535" using router_sent_port [OF assms(2)] by blast
  have "admin_user_update_body t d \<noteq> []" "router_update_body r e \<noteq> []"
    using assms by (auto simp: admin_user_handleSubmit_def router_handleSubmit_def split: if_splits)
  moreover have "request_body s = JObj (admin_user_update_body t d)" using admin_user_edit [where t = t and d = d] assms(1) by simp
  moreover have "request_body q = JObj (router_update_body r e)" using router_edit [where r = r and d = e] assms(2) by simp
  ultimately show ?thesis using admin_user_body_edited router_body_edited [OF p(1)] p by blast
qed

definition sample_router :: RouterPublicView where
  "sample_router =
     \<lparr>rv_id = 1, rv_display_name = ''Core'', rv_host = ''10.0.0.1'', rv_port = 8728, rv_username = ''admin'', rv_use_tls = None,
      rv_status = ''online'', rv_last_seen = None, rv_last_error = None, rv_expiry_check_interval = None, rv_time_zone = None,
      rv_active = None, rv_created_at = None\<rparr>"

definition sample_admin :: AdminUser where
  "sample_admin =
     \<lparr>au_id = 2, au_username = ''rina'', au_role = ''viewer'', au_active = True, au_last_login_at = None, au_created_at = [], au_updated_at = []\<rparr>"

theorem edit_sends_difference_witness:
  "\<exists>s q. admin_user_handleSubmit (EditMode, Some sample_admin) ((admin_user_draft EditMode (Some sample_admin))\<lparr>ad_role := ''admin''\<rparr>) = Inr (Some s)
     \<and> router_handleSubmit (EditMode, Some sample_router) ((router_draft EditMode (Some sample_router))\<lparr>rt_password := ''new''\<rparr>) = Inr (Some q)
     \<and> (\<exists>body. request_body s = JObj body \<and> patched (admin_user_stored sample_admin) body ''role'' = Some (JStr ''admin''))"
proof -
  let ?d = "(admin_user_draft EditMode (Some sample_admin))\<lparr>ad_role := ''admin''\<rparr>"
  let ?e = "(router_draft EditMode (Some sample_router))\<lparr>rt_password := ''new''\<rparr>"
  obtain s where s: "admin_user_handleSubmit (EditMode, Some sample_admin) ?d = Inr (Some s)"
    by (simp add: admin_user_handleSubmit_def admin_user_draft_def sample_admin_def admin_user_update_body_def js_trim_def is_ws_def code_of_def)
  obtain q where q: "router_handleSubmit (EditMode, Some sample_router) ?e = Inr (Some q)"
    by (simp add: router_handleSubmit_def router_draft_def sample_router_def router_update_body_def js_trim_def is_ws_def code_of_def)
  obtain body where "request_body s = JObj body" "admin_user_edited sample_admin ?d body"
    using edit_sends_difference [OF s q] by blast
  then show ?thesis using s q by (auto simp: admin_user_edited_def)
qed

end
