(* ===== verification/Portal_Forms.thy ===== *)
theory Portal_Forms
  imports Forms Billing_Api
begin

text \<open>
  The pages a customer uses: the public registration form (\<^verbatim>\<open>features/public-register\<close>), signing in and
  changing the password (\<^verbatim>\<open>features/customer-portal/auth\<close>, \<^verbatim>\<open>profile\<close>), the home page and the invoices with
  their payment (\<^verbatim>\<open>home\<close>, \<^verbatim>\<open>invoices\<close>).
\<close>

section \<open>Registration\<close>

record PublicPackage =
  pk_id :: int
  pk_service_type :: string
  pk_name :: string
  pk_price :: rat
  pk_rate_limit :: string
  pk_description :: string
  pk_device_id :: int

record RegisterForm =
  rf_service :: string
  rf_packageId :: "int option"
  rf_fullName :: string
  rf_phone :: string
  rf_address :: string
  rf_area :: string
  rf_notes :: string

definition initial_register :: RegisterForm where
  "initial_register =
     \<lparr>rf_service = ''pppoe'', rf_packageId = None, rf_fullName = [], rf_phone = [], rf_address = [], rf_area = [], rf_notes = []\<rparr>"

definition pppoePackages :: "PublicPackage list \<Rightarrow> PublicPackage list" where
  "pppoePackages packages = filter (\<lambda>p. pk_service_type p = ''pppoe'') packages"

definition selectedPkg :: "PublicPackage list \<Rightarrow> RegisterForm \<Rightarrow> PublicPackage option" where
  "selectedPkg packages f = find (\<lambda>p. Some (pk_id p) = rf_packageId f) packages"

definition selectService :: "string \<Rightarrow> RegisterForm \<Rightarrow> RegisterForm" where
  "selectService s f = f\<lparr>rf_service := s, rf_packageId := None\<rparr>"

definition register_body :: "PublicPackage list \<Rightarrow> RegisterForm \<Rightarrow> (string \<times> js) list" where
  "register_body packages f =
     [(''full_name'', JStr (js_trim (rf_fullName f))), (''phone'', JStr (js_trim (rf_phone f))), (''address'', JStr (js_trim (rf_address f))),
      (''area'', str_or_undef (js_trim (rf_area f))), (''notes'', str_or_undef (js_trim (rf_notes f))),
      (''service_type'', JStr (rf_service f))]
     @ (if rf_service f = ''pppoe'' then
          (case selectedPkg packages f of
             None \<Rightarrow> []
           | Some p \<Rightarrow> [(''ppp_profile_id'', JNum (of_int (pk_id p))), (''device_id'', JNum (of_int (pk_device_id p)))])
        else [])"

text \<open>On success the page shows its thanks in place of the form.\<close>

definition register_submit :: "PublicPackage list \<Rightarrow> RegisterForm \<Rightarrow> ui_event list + submission option" where
  "register_submit packages f =
     guarded (js_trim (rf_fullName f) = [] \<or> js_trim (rf_phone f) = [] \<or> js_trim (rf_address f) = []) ''Nama, nomor HP, dan alamat wajib diisi'' (
     guarded (rf_service f = ''pppoe'' \<and> 0 < length (pppoePackages packages) \<and> selectedPkg packages f = None)
       ''Silakan pilih paket PPPoE terlebih dahulu'' (Inr (Some
       \<lparr>sub_mutation = useSubmitRegistration (JObj (register_body packages f)),
        on_done = (\<lambda>res. [NextStep (js_optget res ''id'')]),
        on_failed = (\<lambda>err. [Failure ''Gagal mengirim pendaftaran'' (parseAPIError err)])\<rparr>)))"

definition RegistrationSubmitInput :: ts where
  "RegistrationSubmitInput =
     TObj [req ''full_name'' TStr, req ''phone'' TStr, req ''address'' TStr, optional ''area'' TStr, optional ''notes'' TStr,
       req ''service_type'' (TLit [''pppoe'', ''hotspot'']), optional ''ppp_profile_id'' TNum, optional ''hotspot_profile_id'' TNum,
       optional ''device_id'' TNum]"

section \<open>Signing in, changing the password\<close>

definition portal_login_submit :: "string \<Rightarrow> string \<Rightarrow> submission" where
  "portal_login_submit phone password =
     \<lparr>sub_mutation = useCustomerLogin (JObj [(''phone'', JStr phone), (''password'', JStr password)]),
      on_done = (\<lambda>d. [Success (''Selamat datang, '' @ js_String (js_optget (js_optget d ''customer'') ''full_name'') @ ''!'') JUndef, Navigate ''/portal'']),
      on_failed = (\<lambda>_. [FieldError ''error'' (JStr ''Nomor HP atau password salah.'')])\<rparr>"

definition handlePasswordSubmit :: "string \<times> string \<times> string \<Rightarrow> issue list + submission" where
  "handlePasswordSubmit = (\<lambda>(oldPw, newPw, confirmPw).
     (if length newPw < 8 then Inl [(''pwError'', ''Password baru minimal 8 karakter.'')]
      else if newPw \<noteq> confirmPw then Inl [(''pwError'', ''Konfirmasi password tidak cocok.'')]
      else Inr
        \<lparr>sub_mutation = useChangePortalPassword (JObj [(''old_password'', JStr oldPw), (''new_password'', JStr newPw)]),
         on_done = (\<lambda>_. [Success ''Password berhasil diperbarui'' JUndef, Close]),
         on_failed = (\<lambda>_. [FieldError ''pwError'' (JStr ''Password lama salah atau terjadi kesalahan.'')])\<rparr>))"

section \<open>Invoices\<close>

record PortalInvoice =
  pi_id :: int
  pi_invoice_number :: string
  pi_customer_id :: int
  pi_subscription_id :: int
  pi_amount :: rat
  pi_period_start :: string
  pi_period_end :: string
  pi_due_date :: string
  pi_status :: string
  pi_issued_at :: "string option"
  pi_paid_at :: "string option"
  pi_notes :: string
  pi_payment_code :: "string option"
  pi_qr_content :: "string option"
  pi_created_at :: string
  pi_updated_at :: string

record PortalPayment =
  pp_id :: int
  pp_invoice_id :: int
  pp_customer_id :: int
  pp_amount :: rat
  pp_method :: string
  pp_status :: string
  pp_confirmed_at :: "string option"
  pp_reference_number :: "string option"
  pp_proof_url :: "string option"
  pp_bank_name :: "string option"
  pp_rejection_reason :: "string option"
  pp_gateway_name :: "string option"
  pp_invoice_url :: "string option"
  pp_expires_at :: "string option"
  pp_created_at :: string
  pp_updated_at :: "string option"

definition invoicePayments :: "int \<Rightarrow> PortalPayment list option \<Rightarrow> PortalPayment list" where
  "invoicePayments invoiceId payments = filter (\<lambda>p. pp_invoice_id p = invoiceId) (or_else payments [])"

definition pendingPayment :: "int \<Rightarrow> PortalPayment list option \<Rightarrow> PortalPayment option" where
  "pendingPayment invoiceId payments = find (\<lambda>p. pp_status p = ''pending'') (invoicePayments invoiceId payments)"

definition rejectedPayment :: "int \<Rightarrow> PortalPayment list option \<Rightarrow> PortalPayment option" where
  "rejectedPayment invoiceId payments = find (\<lambda>p. pp_status p = ''rejected'') (invoicePayments invoiceId payments)"

definition isUnpaid :: "PortalInvoice \<Rightarrow> bool" where
  "isUnpaid i = (pi_status i = ''issued'' \<or> pi_status i = ''overdue'')"

text \<open>The card with what can be done about the invoice.\<close>

datatype pay_way = Gateway_loading | Pay_online | Upload_proof

datatype invoice_card =
    Paid_card
  | Pending_card PortalPayment
  | Pay_card "PortalPayment option" pay_way
  | No_card

definition pay_method :: "bool \<Rightarrow> bool option \<Rightarrow> pay_way" where
  "pay_method isGatewayLoading gatewayStatus =
     (if isGatewayLoading then Gateway_loading else if or_else gatewayStatus False then Pay_online else Upload_proof)"

definition payment_card :: "bool \<Rightarrow> bool option \<Rightarrow> PortalInvoice \<Rightarrow> PortalPayment list option \<Rightarrow> invoice_card" where
  "payment_card isGatewayLoading gatewayStatus invoice payments =
     (if pi_status invoice = ''paid'' then Paid_card
      else case pendingPayment (pi_id invoice) payments of
        Some p \<Rightarrow> Pending_card p
      | None \<Rightarrow>
          if isUnpaid invoice then Pay_card (rejectedPayment (pi_id invoice) payments) (pay_method isGatewayLoading gatewayStatus)
          else No_card)"

definition shows_pay_code :: "PortalInvoice \<Rightarrow> bool" where
  "shows_pay_code i = (or_else (pi_qr_content i) [] \<noteq> [] \<and> or_else (pi_payment_code i) [] \<noteq> [])"

text \<open>\<open>match(/.{1,4}/g)\<close> (a code has no line break) joined by spaces.\<close>

fun groups_of_four :: "string \<Rightarrow> string list" where
  "groups_of_four [] = []"
| "groups_of_four (a # b # c # d # rest) = [a, b, c, d] # groups_of_four rest"
| "groups_of_four s = [s]"

definition formattedCode :: "string option \<Rightarrow> string" where
  "formattedCode code = (case code of None \<Rightarrow> [] | Some s \<Rightarrow> js_join '' '' (groups_of_four s))"

definition pay_failed :: "thrown \<Rightarrow> ui_event" where
  "pay_failed err =
     (let msg = error_or ''Gagal membuat link pembayaran. Coba lagi.'' err; m = (case msg of JStr s \<Rightarrow> s | _ \<Rightarrow> []) in
      if js_includes m ''503'' \<or> js_includes m ''SERVICE_UNAVAILABLE''
        then Failure ''Pembayaran online belum tersedia. Silakan bayar via kasir atau transfer.'' JUndef
      else if js_includes m ''CONFLICT'' \<or> js_includes m ''lunas'' then Info ''Tagihan ini sudah lunas.'' JUndef
      else Failure m JUndef)"

text \<open>A new window is opened for the payment page.\<close>

definition handlePayOnline :: "int \<Rightarrow> submission" where
  "handlePayOnline invoiceId =
     \<lparr>sub_mutation = useInitiateOnlinePayment invoiceId,
      on_done = (\<lambda>result. [Success ''Mengarahkan ke halaman pembayaran...'' JUndef, Navigate (js_String (js_optget result ''invoice_url''))]),
      on_failed = (\<lambda>err. [pay_failed err])\<rparr>"

text \<open>The proof of a transfer: the file is uploaded, then the payment is created with its address.\<close>

record proof_form =
  pr_bankName :: string
  pr_referenceNumber :: string
  pr_selectedFile :: "js option"
  pr_previewUrl :: "string option"

definition empty_proof :: proof_form where
  "empty_proof = \<lparr>pr_bankName = [], pr_referenceNumber = [], pr_selectedFile = None, pr_previewUrl = None\<rparr>"

definition handleFileChange :: "js option \<Rightarrow> string \<Rightarrow> proof_form \<Rightarrow> proof_form" where
  "handleFileChange f url s = (case f of None \<Rightarrow> s | Some file_obj \<Rightarrow> s\<lparr>pr_selectedFile := Some file_obj, pr_previewUrl := Some url\<rparr>)"

definition handleClearFile :: "proof_form \<Rightarrow> proof_form" where
  "handleClearFile s = s\<lparr>pr_selectedFile := None, pr_previewUrl := None\<rparr>"

definition err_or_message :: "thrown \<Rightarrow> string" where
  "err_or_message err =
     (let m = err_message err in if truthy m then js_String m else (case err of Thrown v \<Rightarrow> js_String v | _ \<Rightarrow> ''Error''))"

definition proof_payment :: "int \<Rightarrow> proof_form \<Rightarrow> js \<Rightarrow> submission" where
  "proof_payment invoiceId f uploadRes =
     \<lparr>sub_mutation = useCreatePortalPayment invoiceId (JObj
        [(''proof_url'', js_optget uploadRes ''url''), (''bank_name'', JStr (pr_bankName f)), (''reference_number'', JStr (pr_referenceNumber f))]),
      on_done = (\<lambda>_. [Success ''Bukti pembayaran berhasil dikirim untuk verifikasi admin'' JUndef]),
      on_failed = (\<lambda>err. [Failure (''Gagal mengirim data pembayaran: '' @ err_or_message err) JUndef])\<rparr>"

definition proof_invalidations :: "int \<Rightarrow> qkey list" where
  "proof_invalidations invoiceId = [qk_portalInvoice invoiceId, qk_portalInvoices None, qk_portalPayments]"

definition proof_upload :: "js \<Rightarrow> submission" where
  "proof_upload file_obj =
     \<lparr>sub_mutation = useUploadProof file_obj, on_done = (\<lambda>_. []),
      on_failed = (\<lambda>err. [Failure (''Gagal mengunggah file bukti transfer: '' @ err_or_message err) JUndef])\<rparr>"

text \<open>
  The whole submission, for the outcome of the upload and of the payment: the requests that are sent, what
  the user sees, and the form afterwards.
\<close>

definition handleUploadAndSubmit :: "int \<Rightarrow> proof_form \<Rightarrow> thrown + js \<Rightarrow> thrown + js \<Rightarrow> submission list \<times> ui_event list \<times> proof_form" where
  "handleUploadAndSubmit invoiceId f upload payment =
     (case pr_selectedFile f of
        None \<Rightarrow> ([], [Failure ''Nama bank dan file bukti transfer wajib diisi'' JUndef], f)
      | Some file_obj \<Rightarrow>
          if js_trim (pr_bankName f) = [] then ([], [Failure ''Nama bank dan file bukti transfer wajib diisi'' JUndef], f)
          else (case upload of
              Inl e \<Rightarrow> ([proof_upload file_obj], on_failed (proof_upload file_obj) e, f)
            | Inr res \<Rightarrow>
                (let q = proof_payment invoiceId f res in
                 ([proof_upload file_obj, q], settle q payment, case payment of Inr _ \<Rightarrow> empty_proof | Inl _ \<Rightarrow> f))))"

section \<open>Home, invoice list\<close>

definition allUnpaid :: "PortalInvoice list \<Rightarrow> PortalInvoice list \<Rightarrow> PortalInvoice list" where
  "allUnpaid overdueInvoices unpaidInvoices = overdueInvoices @ unpaidInvoices"

definition topInvoice :: "PortalInvoice list \<Rightarrow> PortalInvoice list \<Rightarrow> PortalInvoice option" where
  "topInvoice overdueInvoices unpaidInvoices =
     (case allUnpaid overdueInvoices unpaidInvoices of [] \<Rightarrow> None | i # _ \<Rightarrow> Some i)"

definition invoice_filters :: "(string \<times> string) list" where
  "invoice_filters = [(''Semua'', ''all''), (''Belum Bayar'', ''issued''), (''Terlambat'', ''overdue''), (''Lunas'', ''paid'')]"

definition displayed :: "PortalInvoice list \<Rightarrow> PortalInvoice list \<Rightarrow> PortalInvoice list \<Rightarrow> PortalInvoice list \<Rightarrow> string \<Rightarrow> PortalInvoice list" where
  "displayed allInvoices issuedInvoices overdueInvoices paidInvoices activeFilter =
     or_else (map_of [(''all'', allInvoices), (''issued'', issuedInvoices), (''overdue'', overdueInvoices), (''paid'', paidInvoices)] activeFilter)
       allInvoices"

definition unpaidCount :: "PortalInvoice list \<Rightarrow> PortalInvoice list \<Rightarrow> nat" where
  "unpaidCount issuedInvoices overdueInvoices = length issuedInvoices + length overdueInvoices"

section \<open>What the pages show\<close>

lemma register_reports: "register_submit packages f = Inr (Some s) \<Longrightarrow> reports s"
  by (auto simp: register_submit_def intro!: reportsI)

lemma register_refusal: "register_submit packages f = Inl es \<Longrightarrow> one_message es"
  by (auto simp: register_submit_def split: if_splits)

interpretation register: guarded_form register_submit
  by unfold_locales (simp_all add: register_reports register_refusal)

lemma portal_login_reports: "reports (portal_login_submit phone password)"
  by (auto simp: portal_login_submit_def intro!: reportsI)

lemma portal_password_reports: "handlePasswordSubmit v = Inr s \<Longrightarrow> reports s"
  by (auto simp: handlePasswordSubmit_def split: prod.splits if_splits intro!: reportsI)

lemma pay_failed_message: "is_message (pay_failed e)"
  by (simp add: pay_failed_def Let_def)

lemma proof_payment_reports: "reports (proof_payment i f res)"
  by (auto simp: proof_payment_def intro!: reportsI)

lemma register_type:
  assumes "register_submit packages f = Inr (Some s)" "rf_service f \<in> {''pppoe'', ''hotspot''}"
  shows "conforms RegistrationSubmitInput (request_body s)"
  using assms
  by (auto simp: register_submit_def request_body_def register_body_def RegistrationSubmitInput_def useSubmitRegistration_def submitRegistration_def
      split: option.splits)

text \<open>
  Packages of the two services are rows of different tables and can have the same id. The service lists the PPPoE
  packages first, so that the search by id finds the chosen one.
\<close>

lemma register_package:
  assumes "packages = ps @ hs" "\<forall>p \<in> set ps. pk_service_type p = ''pppoe''" "\<forall>p \<in> set hs. pk_service_type p \<noteq> ''pppoe''"
    and "rf_packageId f \<in> {None} \<union> (\<lambda>p. Some (pk_id p)) ` set (pppoePackages packages)"
  shows "selectedPkg packages f = find (\<lambda>p. Some (pk_id p) = rf_packageId f) (pppoePackages packages)"
    and "selectedPkg packages f = None \<longleftrightarrow> rf_packageId f = None"
proof -
  have e: "pppoePackages packages = ps" using assms(1-3) by (simp add: pppoePackages_def)
  have f: "find P (xs @ ys) = (case find P xs of None \<Rightarrow> find P ys | Some x \<Rightarrow> Some x)" for P and xs ys :: "PublicPackage list"
    by (induction xs) auto
  have n: "find (\<lambda>p. Some (pk_id p) = rf_packageId f) ps = None \<longleftrightarrow> rf_packageId f = None"
    using assms(4) by (auto simp: e find_None_iff)
  show "selectedPkg packages f = None \<longleftrightarrow> rf_packageId f = None"
    using n by (auto simp: selectedPkg_def assms(1) f find_None_iff find_Some_iff split: option.splits)
  have z: "find (\<lambda>_. False) xs = None" for xs :: "PublicPackage list"
    by (induction xs) auto
  show "selectedPkg packages f = find (\<lambda>p. Some (pk_id p) = rf_packageId f) (pppoePackages packages)"
    unfolding selectedPkg_def e unfolding assms(1) f using n by (auto simp: z split: option.splits)
qed

lemma groups_of_four_concat: "concat (groups_of_four s) = s"
  by (induction s rule: groups_of_four.induct) simp_all

lemma groups_of_four_short: "g \<in> set (groups_of_four s) \<Longrightarrow> 0 < length g \<and> length g \<le> 4"
  by (induction s rule: groups_of_four.induct) auto

text \<open>
  Axios gives an error answered by the server the message \<open>Request failed with status code n\<close>. A conflict is then never
  told as a paid invoice, whatever the answer of the server says.
\<close>

definition status_error :: "nat \<Rightarrow> string" where
  "status_error n = ''Request failed with status code '' @ show_nat n"

lemma pendingPayment_None:
  "pendingPayment n ps = None \<longleftrightarrow> (\<forall>p \<in> set (or_else ps []). pp_invoice_id p = n \<longrightarrow> pp_status p \<noteq> ''pending'')"
  by (auto simp: pendingPayment_def invoicePayments_def find_None_iff)

lemma payment_card_cases:
  "payment_card l g i ps = Pay_card r m \<longleftrightarrow>
     isUnpaid i \<and> pendingPayment (pi_id i) ps = None \<and> r = rejectedPayment (pi_id i) ps \<and> m = pay_method l g"
  by (auto simp: payment_card_def isUnpaid_def split: option.splits)

lemma pending_card_iff:
  "(\<exists>p. payment_card l g i ps = Pending_card p) \<longleftrightarrow> pi_status i \<noteq> ''paid'' \<and> pendingPayment (pi_id i) ps \<noteq> None"
  by (auto simp: payment_card_def split: option.splits)

text \<open>
  The invoice page. A way to pay is offered exactly when the invoice is issued or overdue and none of its own
  payments is pending, whatever payments other invoices have. A payment that was only started at the gateway is
  pending too: from then on the page, whose card says that a proof of transfer was sent, offers no payment, and the
  address of the gateway's page, which the payment holds, is on it nowhere.
\<close>

theorem invoice_payment_offered:
  fixes i :: PortalInvoice and p :: PortalPayment
  defines "offered \<equiv> \<lambda>l g ps. (\<exists>r m. payment_card l g i ps = Pay_card r m)"
  shows "(offered l g ps \<longleftrightarrow>
            isUnpaid i \<and> (\<forall>q \<in> set (or_else ps []). pp_invoice_id q = pi_id i \<longrightarrow> pp_status q \<noteq> ''pending''))
    \<and> offered l g (Some (filter (\<lambda>q. pp_invoice_id q = pi_id i) (or_else ps []))) = offered l g ps
    \<and> (isUnpaid i \<longrightarrow>
         payment_card l g i (Some [p\<lparr>pp_invoice_id := pi_id i, pp_status := ''pending'', pp_proof_url := None\<rparr>])
         = Pending_card (p\<lparr>pp_invoice_id := pi_id i, pp_status := ''pending'', pp_proof_url := None\<rparr>))"
proof -
  have 1: "offered l g ps \<longleftrightarrow> isUnpaid i \<and> pendingPayment (pi_id i) ps = None" for ps
    by (simp add: offered_def payment_card_cases)
  have 2: "pendingPayment (pi_id i) (Some (filter (\<lambda>q. pp_invoice_id q = pi_id i) (or_else ps []))) = pendingPayment (pi_id i) ps"
    by (simp add: pendingPayment_def invoicePayments_def or_else_def)
  show ?thesis
    by (simp add: 1 2 pendingPayment_None [symmetric]) (auto simp: payment_card_def pendingPayment_def invoicePayments_def isUnpaid_def or_else_def)
qed

definition sample_invoice :: PortalInvoice where
  "sample_invoice = \<lparr>pi_id = 4, pi_invoice_number = ''INV-4'', pi_customer_id = 1, pi_subscription_id = 2, pi_amount = 150000,
     pi_period_start = ''2026-06-01'', pi_period_end = ''2026-06-30'', pi_due_date = ''2026-06-10'', pi_status = ''issued'',
     pi_issued_at = None, pi_paid_at = None, pi_notes = [], pi_payment_code = None, pi_qr_content = None, pi_created_at = [], pi_updated_at = []\<rparr>"

definition sample_payment :: PortalPayment where
  "sample_payment = \<lparr>pp_id = 9, pp_invoice_id = 4, pp_customer_id = 1, pp_amount = 150000, pp_method = ''gateway'', pp_status = ''pending'',
     pp_confirmed_at = None, pp_reference_number = None, pp_proof_url = None, pp_bank_name = None, pp_rejection_reason = None,
     pp_gateway_name = Some ''xendit'', pp_invoice_url = Some ''https://pay/9'', pp_expires_at = None, pp_created_at = [], pp_updated_at = None\<rparr>"

theorem invoice_payment_offered_witness:
  "(\<exists>r m. payment_card False None sample_invoice None = Pay_card r m)
   \<and> payment_card False None sample_invoice (Some [sample_payment]) = Pending_card sample_payment"
  using invoice_payment_offered [where i = sample_invoice and p = sample_payment and l = False and g = None and ps = None]
  by (simp add: sample_invoice_def sample_payment_def isUnpaid_def pendingPayment_def invoicePayments_def or_else_def)



text \<open>
  Paying online. A server that has no gateway answers 503 and the page sends the customer to the cashier. The
  answer for an invoice that was paid meanwhile (a conflict) is not recognised, whatever the server says in it: the
  page shows the text of the HTTP library.
\<close>

theorem conflict_not_recognised:
  "pay_failed (AxiosErr (e\<lparr>ax_message := status_error 503\<rparr>))
     = Failure ''Pembayaran online belum tersedia. Silakan bayar via kasir atau transfer.'' JUndef
   \<and> pay_failed (AxiosErr (e\<lparr>ax_message := status_error 409\<rparr>)) = Failure ''Request failed with status code 409'' JUndef"
proof -
  have s: "status_error 503 = ''Request failed with status code 503''" "status_error 409 = ''Request failed with status code 409''"
    by code_simp+
  have c: "js_includes ''Request failed with status code 503'' ''503'' \<and>
      \<not> js_includes ''Request failed with status code 409'' ''503'' \<and>
      \<not> js_includes ''Request failed with status code 409'' ''SERVICE_UNAVAILABLE'' \<and>
      \<not> js_includes ''Request failed with status code 409'' ''CONFLICT'' \<and>
      \<not> js_includes ''Request failed with status code 409'' ''lunas''"
    by code_simp
  show ?thesis by (simp add: pay_failed_def error_or_def error_text_def s c)
qed

end
