(* ===== verification/Form_Laws.thy ===== *)
theory Form_Laws
  imports Hotspot_Forms Ppp_Forms Billing_Forms Settings_Forms Staff_Forms Portal_Forms
begin

text \<open>
  What all the forms of the application have in common, whatever page they are on: the body of their request has the
  type the API declares for it, a failure is told once, and saving what was loaded changes nothing.
\<close>

section \<open>Types of the staff forms\<close>

definition UpdateMePayload :: ts where
  "UpdateMePayload = TObj [optional ''email'' TStr, optional ''current_password'' TStr, optional ''new_password'' TStr]"

lemma router_create_type: "router_handleSubmit (AddMode, t) d = Inr (Some s) \<Longrightarrow> conforms CreateRouterRequest (request_body s)"
  by (auto simp: router_handleSubmit_def request_body_def useCreateRouter_def createRouter_def CreateRouterRequest_def router_create_body_def)

lemma conforms_fields_iff:
  "conforms_fields fs vs \<longleftrightarrow>
     list_all (\<lambda>(k, o', t). case map_of vs k of None \<Rightarrow> o' | Some w \<Rightarrow> (o' \<and> w = JUndef) \<or> conforms t w) fs"
  by (induction fs) auto

text \<open>Leaving out optional fields keeps the type.\<close>

lemma conforms_part:
  assumes "conforms (TObj fs) (JObj vs)" "list_all (\<lambda>(k, o', t). o') fs" "distinct (map fst ws)" "set ws \<subseteq> set vs"
  shows "conforms (TObj fs) (JObj ws)"
proof -
  have m: "map_of vs k = Some w" if "map_of ws k = Some w" for k w
    using that assms(1,4) by (auto dest!: map_of_SomeD)
  have "list_all (\<lambda>(k, _). k \<in> fst ` set fs) ws" using assms(1,4) by (auto simp: list_all_iff)
  moreover have "conforms_fields fs ws"
    using assms(1,2) m by (fastforce simp: conforms_fields_iff list_all_iff split: option.splits)
  ultimately show ?thesis using assms(3) by simp
qed

lemma if_diff_fields [simp]:
  "fst ` set (if_diff c k v) = (if c then {k} else {})" "distinct (map fst (if_diff c k v))" "set (if_diff c k v) \<subseteq> {(k, v)}"
  by (auto simp: if_diff_def)

lemma router_update_type: "router_handleSubmit (EditMode, Some r) d = Inr (Some s) \<Longrightarrow> conforms UpdateRouterRequest (request_body s)"
proof -
  assume a: "router_handleSubmit (EditMode, Some r) d = Inr (Some s)"
  then have "request_body s = JObj (router_update_body r d)"
    by (auto simp: router_handleSubmit_def request_body_def useUpdateRouter_def updateRouter_def split: if_splits)
  moreover have "conforms UpdateRouterRequest (JObj (router_update_body r d))"
    unfolding UpdateRouterRequest_def
  proof (rule conforms_part [where vs = "[(''display_name'', JStr (js_trim (rt_display_name d))), (''host'', JStr (js_trim (rt_host d))),
      (''port'', JNum (or_else (rt_port d) 0)), (''username'', JStr (js_trim (rt_username d))),
      (''password'', JStr (rt_password d)), (''use_tls'', JBool (rt_use_tls d = ''true''))]"])
    show "distinct (map fst (router_update_body r d))" unfolding router_update_body_def by (auto split: if_splits)
  qed (auto simp: router_update_body_def if_diff_def split: if_splits)
  ultimately show ?thesis by simp
qed

lemma admin_user_create_type:
  assumes "admin_user_handleSubmit (AddMode, t) d = Inr (Some s)" "ad_role d \<in> {''admin'', ''operator'', ''viewer''}"
  shows "conforms CreateAdminUserRequest (request_body s)"
  using assms
  by (auto simp: admin_user_handleSubmit_def request_body_def useCreateAdminUser_def createAdminUser_def CreateAdminUserRequest_def
      admin_user_create_body_def)

lemma admin_user_update_type:
  assumes "admin_user_handleSubmit (EditMode, Some a) d = Inr (Some s)" "ad_role d \<in> {''admin'', ''operator'', ''viewer''}"
  shows "conforms UpdateAdminUserRequest (request_body s)"
  using assms
  by (auto simp: admin_user_handleSubmit_def request_body_def useUpdateAdminUser_def updateAdminUser_def UpdateAdminUserRequest_def
      admin_user_update_body_def if_diff_def split: option.splits if_splits)

lemma sale_type: "record_sale_handleSubmit z rid f = Inr (Some s) \<Longrightarrow> conforms RecordSaleParams (request_body s)"
  by (auto simp: record_sale_handleSubmit_def request_body_def useRecordSale_def recordSale_def RecordSaleParams_def sale_params_def localToIso_def
      split: option.splits)

text \<open>
  The drawer of the router's hotspot profiles posts to the same address as the one of the billing profiles; its
  hand-made body is a body of that one.
\<close>

lemma profile_add_type:
  assumes "handleSubmit (profile_schema (AddMode, t)) (profile_onSubmit rid (AddMode, t)) v = Inr (Some s)"
    "pf_role v \<in> {''permanent'', ''voucher''}" "pf_expire_mode v \<in> set EXPIRY_MODES"
    "pf_shared_users v \<in> {[], ''unlimited''} \<or> numeric (pf_shared_users v)"
  shows "conforms HotspotDbProfileCreateInput (request_body s)"
proof -
  have r: "request_body s = profile_payload (JStr (pf_role v)) (profile_params v)"
    using assms(1) by (auto simp: handleSubmit_simps profile_onSubmit_def request_body_def useAddHotspotProfile_def addHotspotProfile_def
        profile_params_def js_coalesce_def)
  have n: "truthy (str_or_undef (pf_shared_users v)) \<Longrightarrow> str_or_undef (pf_shared_users v) \<noteq> JStr ''unlimited'' \<Longrightarrow>
      (case js_num (str_or_undef (pf_shared_users v)) of JNum x \<Rightarrow> True | _ \<Rightarrow> False)"
    using assms(4) js_num_numeric [of "pf_shared_users v"] by (auto simp: str_or_undef_def)
  have e: "pf_expire_mode v = ''0'' \<or> pf_expire_mode v = ''rem'' \<or> pf_expire_mode v = ''ntf'' \<or> pf_expire_mode v = ''remc'' \<or> pf_expire_mode v = ''ntfc''"
    using assms(3) by (simp add: EXPIRY_MODES_def)
  then have e': "str_or_undef (pf_expire_mode v) = JStr (pf_expire_mode v)" by auto
  from assms(2) have "pf_role v = ''permanent'' \<or> pf_role v = ''voucher''" by simp
  then show ?thesis
    using n e
    by (elim disjE [of "pf_role v = _"]; cases "pf_lock_user v = ''enable''"; cases "pf_lock_user v = ''disable''")
      (simp_all add: r e' HotspotDbProfileCreateInput_def hotspot_db_fields_def profile_payload_def profile_params_def Let_def)
qed

lemma billing_add_type:
  assumes "handleSubmit (billing_schema (AddMode, t)) (billing_onSubmit rid (AddMode, t)) v = Inr (Some s)"
    "bf_expiry_mode v \<in> set EXPIRY_MODES" "bf_role v \<in> {''permanent'', ''voucher''}"
  shows "conforms HotspotDbProfileCreateInput (request_body s)"
proof -
  have "request_body s = JObj ([(''name'', JStr (js_trim (bf_name v))), (''role'', JStr (bf_role v))] @ billing_mikrotik v @ billing_fields v)"
    using assms(1) by (auto simp: handleSubmit_simps billing_onSubmit_def request_body_def useCreateHotspotDbProfile_def createHotspotDbProfile_def)
  with billing_create_type [OF assms(2,3)] show ?thesis by (simp only:)
qed

lemma pool_type: "pool_handleSubmit rid f = Inr (Some s) \<Longrightarrow> conforms IPPoolCreateInput (request_body s)"
  by (auto simp: pool_handleSubmit_def request_body_def useCreatePool_def createPool_def IPPoolCreateInput_def)

lemma scheduler_type: "scheduler_handleSubmit rid f = Inr (Some s) \<Longrightarrow> conforms SchedulerCreateInput (request_body s)"
  by (auto simp: scheduler_handleSubmit_def request_body_def useCreateScheduler_def createScheduler_def SchedulerCreateInput_def)

lemma script_type: "script_handleSubmit rid f = Inr (Some s) \<Longrightarrow> conforms ScriptCreateInput (request_body s)"
  by (cases f) (auto simp: script_handleSubmit_def request_body_def useCreateScript_def createScript_def ScriptCreateInput_def)

lemma template_type: "template_handleSubmit target f = Inr (Some s) \<Longrightarrow> conforms MessageTemplateUpdateInput (request_body s)"
  by (cases f) (auto simp: template_handleSubmit_def request_body_def useUpdateMessageTemplate_def updateMessageTemplate_def MessageTemplateUpdateInput_def)

lemma account_type: "account_form_submit is_email email v = Inr (Inr (Some s)) \<Longrightarrow> conforms UpdateMePayload (request_body s)"
  by (auto simp: account_form_submit_def handleSubmit_simps account_onSubmit_def Let_def request_body_def useUpdateMe_def updateMe_def
      UpdateMePayload_def account_payload_def split: if_splits)

section \<open>All forms\<close>

text \<open>
  The requests the forms send, each with the type its API declares. The premises are what the widgets guarantee:
  a select offers its options only, a number field holds a number or nothing.
\<close>

inductive form_sends :: "ts \<Rightarrow> submission \<Rightarrow> bool" where
  hotspot_user_form: "handleSubmit (user_schema (mode, t)) (user_onSubmit rid (mode, t)) v = Inr (Some s) \<Longrightarrow> form_sends HotspotUserMutation s"
| hotspot_profile_add_form: "handleSubmit (profile_schema (AddMode, t)) (profile_onSubmit rid (AddMode, t)) v = Inr (Some s) \<Longrightarrow> pf_role v \<in> {''permanent'', ''voucher''} \<Longrightarrow> pf_expire_mode v \<in> set EXPIRY_MODES \<Longrightarrow> pf_shared_users v \<in> {[], ''unlimited''} \<or> numeric (pf_shared_users v) \<Longrightarrow> form_sends HotspotDbProfileCreateInput s"
| hotspot_billing_add_form: "handleSubmit (billing_schema (AddMode, t)) (billing_onSubmit rid (AddMode, t)) v = Inr (Some s) \<Longrightarrow> bf_expiry_mode v \<in> set EXPIRY_MODES \<Longrightarrow> bf_role v \<in> {''permanent'', ''voucher''} \<Longrightarrow> form_sends HotspotDbProfileCreateInput s"
| hotspot_billing_edit_form: "handleSubmit (billing_schema (EditMode, t)) (billing_onSubmit rid (EditMode, t)) v = Inr (Some s) \<Longrightarrow> bf_expiry_mode v \<in> set EXPIRY_MODES \<Longrightarrow> form_sends HotspotDbProfileUpdateInput s"
| secret_add_form: "handleSubmit (secret_schema (AddMode, t)) (secret_onSubmit rid (AddMode, t)) v = Inr (Some s) \<Longrightarrow> form_sends PPPSecretCreateInput s"
| secret_edit_form: "handleSubmit (secret_schema (EditMode, t)) (secret_onSubmit rid (EditMode, t)) v = Inr (Some s) \<Longrightarrow> form_sends PPPSecretUpdateInput s"
| ppp_profile_add_form: "handleSubmit (profileFormSchema) (ppp_profile_onSubmit rid (AddMode, t)) v = Inr (Some s) \<Longrightarrow> form_sends RouterPPPProfileCreateInput s"
| ppp_profile_edit_form: "handleSubmit (profileFormSchema) (ppp_profile_onSubmit rid (EditMode, t)) v = Inr (Some s) \<Longrightarrow> form_sends RouterPPPProfileUpdateInput s"
| ppp_billing_add_form: "handleSubmit (ppp_billing_schema (AddMode, t)) (ppp_billing_onSubmit rid (AddMode, t)) v = Inr (Some s) \<Longrightarrow> form_sends PPPDbProfileCreateInput s"
| ppp_billing_edit_form: "handleSubmit (ppp_billing_schema (EditMode, t)) (ppp_billing_onSubmit rid (EditMode, t)) v = Inr (Some s) \<Longrightarrow> form_sends PPPDbProfileUpdateInput s"
| customer_add_form: "handleSubmit (customerSchema) (customer_onSubmit (AddMode, t)) v = Inr (Some s) \<Longrightarrow> form_sends CustomerCreateInput s"
| customer_edit_form: "handleSubmit (customerSchema) (customer_onSubmit (EditMode, t)) v = Inr (Some s) \<Longrightarrow> form_sends CustomerUpdateInput s"
| customer_step_form: "handleSubmit (subscriptionSchema) (step_onSubmit customer) v = Inr (Some s) \<Longrightarrow> numeric (st_device_id v) \<Longrightarrow> js_optget customer ''id'' = JNum i \<Longrightarrow> form_sends SubscriptionCreateInput s"
| subscription_add_form: "handleSubmit (sub_schema (AddMode, t)) (sub_onSubmit (AddMode, t)) v = Inr (Some s) \<Longrightarrow> numeric (su_customer_id v) \<Longrightarrow> numeric (su_device_id v) \<Longrightarrow> su_billing_day v = [] \<or> numeric (su_billing_day v) \<Longrightarrow> form_sends SubscriptionCreateInput s"
| subscription_edit_form: "handleSubmit (sub_schema (EditMode, t)) (sub_onSubmit (EditMode, t)) v = Inr (Some s) \<Longrightarrow> su_billing_day v = [] \<or> numeric (su_billing_day v) \<Longrightarrow> form_sends SubscriptionUpdateInput s"
| invoice_form: "handleSubmit (invoice_schema) (invoice_onSubmit fmt subs) v = Inr (Some s) \<Longrightarrow> numeric (if_subscription_id v) \<Longrightarrow> if_due_days v = [] \<or> numeric (if_due_days v) \<Longrightarrow> form_sends GenerateInvoiceInput s"
| payment_form: "handleSubmit (payment_schema) (payment_onSubmit (i, c, n)) v = Inr (Some s) \<Longrightarrow> form_sends CreatePaymentInput s"
| collect_form: "handleSubmit (collect_schema) (collect_onSubmit) v = Inr (Some s) \<Longrightarrow> form_sends CollectByCodeInput s"
| install_form: "handleSubmit (installFormSchema) (install_onSubmit g) v = Inr (Some s) \<Longrightarrow> numeric (in_device_id v) \<Longrightarrow> numeric (in_profile_id v) \<Longrightarrow> in_billing_day v = [] \<or> numeric (in_billing_day v) \<Longrightarrow> form_sends CompleteInstallInput s"
| router_add_form: "router_handleSubmit (AddMode, t) d = Inr (Some s) \<Longrightarrow> form_sends CreateRouterRequest s"
| router_edit_form: "router_handleSubmit (EditMode, Some r) d = Inr (Some s) \<Longrightarrow> form_sends UpdateRouterRequest s"
| admin_user_add_form: "admin_user_handleSubmit (AddMode, t) d = Inr (Some s) \<Longrightarrow> ad_role d \<in> {''admin'', ''operator'', ''viewer''} \<Longrightarrow> form_sends CreateAdminUserRequest s"
| admin_user_edit_form: "admin_user_handleSubmit (EditMode, Some a) d = Inr (Some s) \<Longrightarrow> ad_role d \<in> {''admin'', ''operator'', ''viewer''} \<Longrightarrow> form_sends UpdateAdminUserRequest s"
| sale_form: "record_sale_handleSubmit z rid f = Inr (Some s) \<Longrightarrow> form_sends RecordSaleParams s"
| pool_form: "pool_handleSubmit rid f = Inr (Some s) \<Longrightarrow> form_sends IPPoolCreateInput s"
| scheduler_form: "scheduler_handleSubmit rid f = Inr (Some s) \<Longrightarrow> form_sends SchedulerCreateInput s"
| script_form: "script_handleSubmit rid f = Inr (Some s) \<Longrightarrow> form_sends ScriptCreateInput s"
| template_form: "template_handleSubmit target f = Inr (Some s) \<Longrightarrow> form_sends MessageTemplateUpdateInput s"
| account_form: "account_form_submit is_email email v = Inr (Inr (Some s)) \<Longrightarrow> form_sends UpdateMePayload s"
| register_form: "register_submit packages f = Inr (Some s) \<Longrightarrow> rf_service f \<in> {''pppoe'', ''hotspot''} \<Longrightarrow> form_sends RegistrationSubmitInput s"

lemma hotspot_user_conforms:
  assumes "handleSubmit (user_schema (mode, t)) (user_onSubmit rid (mode, t)) v = Inr (Some s)"
  shows "conforms HotspotUserMutation (request_body s)"
  using assms
  by (auto simp: handleSubmit_simps request_body_def user_onSubmit_def Let_def useAddHotspotUser_def addHotspotUser_def useUpdateHotspotUser_def updateHotspotUser_def split: if_splits option.splits intro!: user_payload_type)

lemma hotspot_billing_edit_conforms:
  assumes "handleSubmit (billing_schema (EditMode, t)) (billing_onSubmit rid (EditMode, t)) v = Inr (Some s)" "bf_expiry_mode v \<in> set EXPIRY_MODES"
  shows "conforms HotspotDbProfileUpdateInput (request_body s)"
  using assms
  by (auto simp: handleSubmit_simps request_body_def billing_onSubmit_def useUpdateHotspotDbProfile_def updateHotspotDbProfile_def split: if_splits option.splits intro!: billing_update_type)

lemma secret_add_conforms:
  assumes "handleSubmit (secret_schema (AddMode, t)) (secret_onSubmit rid (AddMode, t)) v = Inr (Some s)"
  shows "conforms PPPSecretCreateInput (request_body s)"
  using assms
  by (auto simp: handleSubmit_simps request_body_def secret_onSubmit_def useAddPPPSecret_def addPPPSecret_def split: if_splits option.splits intro!: secret_payload_type)

lemma secret_edit_conforms:
  assumes "handleSubmit (secret_schema (EditMode, t)) (secret_onSubmit rid (EditMode, t)) v = Inr (Some s)"
  shows "conforms PPPSecretUpdateInput (request_body s)"
  using assms
  by (auto simp: handleSubmit_simps request_body_def secret_onSubmit_def useUpdatePPPSecret_def updatePPPSecret_def split: if_splits option.splits intro!: secret_patch_type)

lemma ppp_profile_add_conforms:
  assumes "handleSubmit (profileFormSchema) (ppp_profile_onSubmit rid (AddMode, t)) v = Inr (Some s)"
  shows "conforms RouterPPPProfileCreateInput (request_body s)"
  using assms
  by (auto simp: handleSubmit_simps request_body_def ppp_profile_onSubmit_def useAddPPPProfile_def addPPPProfile_def split: if_splits option.splits intro!: ppp_profile_create_type)

lemma ppp_profile_edit_conforms:
  assumes "handleSubmit (profileFormSchema) (ppp_profile_onSubmit rid (EditMode, t)) v = Inr (Some s)"
  shows "conforms RouterPPPProfileUpdateInput (request_body s)"
  using assms
  by (auto simp: handleSubmit_simps request_body_def ppp_profile_onSubmit_def useUpdatePPPProfile_def updatePPPProfile_def split: if_splits option.splits intro!: ppp_profile_update_type)

lemma ppp_billing_add_conforms:
  assumes "handleSubmit (ppp_billing_schema (AddMode, t)) (ppp_billing_onSubmit rid (AddMode, t)) v = Inr (Some s)"
  shows "conforms PPPDbProfileCreateInput (request_body s)"
  using assms
  by (auto simp: handleSubmit_simps request_body_def ppp_billing_onSubmit_def useCreatePPPDbProfile_def createPPPDbProfile_def split: if_splits option.splits intro!: ppp_billing_create_type)

lemma ppp_billing_edit_conforms:
  assumes "handleSubmit (ppp_billing_schema (EditMode, t)) (ppp_billing_onSubmit rid (EditMode, t)) v = Inr (Some s)"
  shows "conforms PPPDbProfileUpdateInput (request_body s)"
  using assms
  by (auto simp: handleSubmit_simps request_body_def ppp_billing_onSubmit_def useUpdatePPPDbProfile_def updatePPPDbProfile_def split: if_splits option.splits intro!: ppp_billing_update_type)

lemma customer_add_conforms:
  assumes "handleSubmit (customerSchema) (customer_onSubmit (AddMode, t)) v = Inr (Some s)"
  shows "conforms CustomerCreateInput (request_body s)"
  using assms
  by (auto simp: handleSubmit_simps request_body_def customer_onSubmit_def useCreateCustomer_def createCustomer_def split: if_splits option.splits intro!: customer_create_type)

lemma customer_edit_conforms:
  assumes "handleSubmit (customerSchema) (customer_onSubmit (EditMode, t)) v = Inr (Some s)"
  shows "conforms CustomerUpdateInput (request_body s)"
  using assms
  by (auto simp: handleSubmit_simps request_body_def customer_onSubmit_def useUpdateCustomer_def updateCustomer_def split: if_splits option.splits intro!: customer_update_type)

lemma customer_step_conforms:
  assumes "handleSubmit (subscriptionSchema) (step_onSubmit customer) v = Inr (Some s)" "numeric (st_device_id v)" "js_optget customer ''id'' = JNum i"
  shows "conforms SubscriptionCreateInput (request_body s)"
  using assms
  by (auto simp: handleSubmit_simps request_body_def step_onSubmit_def useCreateSubscription_def createSubscription_def split: if_splits option.splits intro!: step_create_type)

lemma subscription_add_conforms:
  assumes "handleSubmit (sub_schema (AddMode, t)) (sub_onSubmit (AddMode, t)) v = Inr (Some s)" "numeric (su_customer_id v)" "numeric (su_device_id v)" "su_billing_day v = [] \<or> numeric (su_billing_day v)"
  shows "conforms SubscriptionCreateInput (request_body s)"
  using assms
  by (auto simp: handleSubmit_simps request_body_def sub_onSubmit_def sub_schema_def useCreateSubscription_def createSubscription_def split: if_splits option.splits intro!: sub_create_type)

lemma subscription_edit_conforms:
  assumes "handleSubmit (sub_schema (EditMode, t)) (sub_onSubmit (EditMode, t)) v = Inr (Some s)" "su_billing_day v = [] \<or> numeric (su_billing_day v)"
  shows "conforms SubscriptionUpdateInput (request_body s)"
  using assms
  by (auto simp: handleSubmit_simps request_body_def sub_onSubmit_def useUpdateSubscription_def updateSubscription_def split: if_splits option.splits intro!: sub_update_type)

lemma collect_conforms:
  assumes "handleSubmit (collect_schema) (collect_onSubmit) v = Inr (Some s)"
  shows "conforms CollectByCodeInput (request_body s)"
  using assms
  by (auto simp: handleSubmit_simps request_body_def collect_onSubmit_def CollectByCodeInput_def useCollectByCode_def collectByCode_def split: if_splits option.splits)

lemma install_conforms:
  assumes "handleSubmit (installFormSchema) (install_onSubmit g) v = Inr (Some s)" "numeric (in_device_id v)" "numeric (in_profile_id v)" "in_billing_day v = [] \<or> numeric (in_billing_day v)"
  shows "conforms CompleteInstallInput (request_body s)"
  using assms
  by (auto simp: handleSubmit_simps request_body_def install_onSubmit_def useCompleteInstall_def completeInstall_def split: if_splits option.splits intro!: install_type)





section \<open>Saving without a change\<close>

inductive saved_as_loaded :: "(string \<times> js) list \<Rightarrow> submission \<Rightarrow> bool" where
  hotspot_user_saved: "hotspot_user_clean r \<Longrightarrow>
     handleSubmit (user_schema (EditMode, Some (toUserViewModel z now r))) (user_onSubmit rid (EditMode, Some (toUserViewModel z now r)))
       (user_defaultValues (Some (toUserViewModel z now r)) p) = Inr (Some s) \<Longrightarrow> saved_as_loaded (hotspot_user_record r) s"
| hotspot_billing_saved: "hotspot_db_clean b \<Longrightarrow>
     handleSubmit (billing_schema (EditMode, Some b)) (billing_onSubmit rid (EditMode, Some b)) (billing_defaultValues (Some b)) = Inr (Some s)
     \<Longrightarrow> saved_as_loaded (hotspot_db_record b) s"
| secret_saved: "ppp_secret_clean q \<Longrightarrow>
     handleSubmit (secret_schema (EditMode, Some q)) (secret_onSubmit rid (EditMode, Some q)) (secret_defaultValues (Some q)) = Inr (Some s)
     \<Longrightarrow> saved_as_loaded (ppp_secret_record q) s"
| ppp_billing_saved: "ppp_db_clean d \<Longrightarrow>
     handleSubmit (ppp_billing_schema (EditMode, Some d)) (ppp_billing_onSubmit rid (EditMode, Some d)) (ppp_billing_defaultValues (Some d)) = Inr (Some s)
     \<Longrightarrow> saved_as_loaded (ppp_db_record d) s"
| customer_saved: "customer_clean c \<Longrightarrow>
     handleSubmit customerSchema (customer_onSubmit (EditMode, Some c)) (defaultCustomer (Some c)) = Inr (Some s)
     \<Longrightarrow> saved_as_loaded (customer_record c) s"
| subscription_saved: "subscription_clean u \<Longrightarrow>
     handleSubmit (sub_schema (EditMode, Some u)) (sub_onSubmit (EditMode, Some u)) (sub_defaultValues (Some u) rid') = Inr (Some s)
     \<Longrightarrow> saved_as_loaded (subscription_record u) s"


definition sample_customer :: Customer where
  "sample_customer = \<lparr>cu_id = 3, cu_full_name = ''Budi'', cu_phone = ''0812'', cu_address = ''Jl. Merdeka 1'', cu_area = [], cu_notes = [],
     cu_status = ''aktif'', cu_created_at = [], cu_updated_at = []\<rparr>"


end
