(* ===== verification/Report.thy ===== *)
theory Report
  imports Forms Hotspot_Api
begin

text \<open>
  The logic of the report pages (\<^verbatim>\<open>web/src/features/report/daily\<close>, \<^verbatim>\<open>report/monthly\<close>) and of the
  voucher sales page (\<^verbatim>\<open>features/voucher/sales/index.tsx\<close>, its range, filters, pagination, address
  parameters and exports; \<^verbatim>\<open>routes/_authenticated/voucher/sales.tsx\<close>).

  Theorems: the month grid has one row per calendar day and books every entry on its local day; the
  yearly chart has twelve months; the best day is the earliest of the greatest; the state of the sales
  page survives a reload of its address; and the day the monthly report links to is the day the daily
  report opens exactly where the zone is not west of Greenwich.
\<close>

section \<open>The monthly report\<close>

record MonthlyChartRow =
  row_date :: int
  row_count :: rat
  row_total :: rat

record YearlySummaryRow =
  yr_month :: int
  yr_count :: rat
  yr_total :: rat

record DailySummaryRow =
  ds_date :: string
  ds_count :: rat
  ds_sum :: rat

record ResumeRow =
  rs_month :: int
  rs_count :: rat
  rs_sum :: rat

definition empty_row :: "zone \<Rightarrow> int \<Rightarrow> int \<Rightarrow> int \<Rightarrow> MonthlyChartRow" where
  "empty_row z year monthIndex day =
     \<lparr>row_date = new_Date z year monthIndex day 0 0 0, row_count = 0, row_total = 0\<rparr>"

text \<open>\<open>rows[day - 1]\<close> is \<open>undefined\<close> out of range, and for the day of an invalid date.\<close>

definition book_entry :: "zone \<Rightarrow> DailySummaryRow \<Rightarrow> MonthlyChartRow list \<Rightarrow> MonthlyChartRow list" where
  "book_entry z entry rows =
     (case parse_Date z (ds_date entry) of
        None \<Rightarrow> rows
      | Some dt \<Rightarrow>
          (let i = getDate z dt - 1 in
           if 0 \<le> i \<and> i < int (length rows)
           then rows[nat i := (rows ! nat i)\<lparr>row_count := row_count (rows ! nat i) + ds_count entry,
                                            row_total := row_total (rows ! nat i) + ds_sum entry\<rparr>]
           else rows))"

definition densifyMonth :: "zone \<Rightarrow> int \<Rightarrow> int \<Rightarrow> DailySummaryRow list \<Rightarrow> MonthlyChartRow list" where
  "densifyMonth z year monthIndex daily =
     (let total = daysInMonth z year monthIndex in
      fold (book_entry z) daily (map (empty_row z year monthIndex) [1..total]))"

definition put_month :: "ResumeRow \<Rightarrow> YearlySummaryRow list \<Rightarrow> YearlySummaryRow list" where
  "put_month r out =
     (let idx = rs_month r - 1 in
      if 0 \<le> idx \<and> idx < 12
      then out[nat idx := \<lparr>yr_month = idx, yr_count = rs_count r, yr_total = rs_sum r\<rparr>] else out)"

definition padYearly :: "ResumeRow list \<Rightarrow> YearlySummaryRow list" where
  "padYearly rows =
     fold put_month rows (map (\<lambda>m. \<lparr>yr_month = int m, yr_count = 0, yr_total = 0\<rparr>) [0..<12])"

definition bestDay :: "MonthlyChartRow list \<Rightarrow> int option \<times> rat" where
  "bestDay rows =
     (let best = fold (\<lambda>r best. case best of
                          None \<Rightarrow> Some r
                        | Some b \<Rightarrow> if row_total r > row_total b then Some r else Some b) rows None
      in (case best of Some b \<Rightarrow> if 0 < row_total b then Some (row_date b) else None | None \<Rightarrow> None,
          or_else (map_option row_total best) 0))"

text \<open>The page: the month shown, its range for the exports, and the link to a day.\<close>

record monthly_page =
  mp_year :: int
  mp_month :: int
  showResume :: bool

definition MonthlyReport_init :: "zone \<Rightarrow> int \<Rightarrow> monthly_page" where
  "MonthlyReport_init z today = \<lparr>mp_year = getFullYear z today, mp_month = getMonth z today, showResume = True\<rparr>"

definition monthly_query :: "int option \<Rightarrow> monthly_page \<Rightarrow> query_hook" where
  "monthly_query routerId p = useMonthlyReport (or_else routerId 0) (mp_year p) (mp_month p + 1)"

definition resume_query :: "int option \<Rightarrow> monthly_page \<Rightarrow> query_hook" where
  "resume_query routerId p = useResumeReport (or_else routerId 0) (mp_year p)"

definition month_range :: "zone \<Rightarrow> monthly_page \<Rightarrow> string \<times> string" where
  "month_range z p =
     (let lastDay = daysInMonth z (mp_year p) (mp_month p) in
      (dateToDailyParam z (new_Date z (mp_year p) (mp_month p) 1 0 0 0),
       dateToDailyParam z (new_Date z (mp_year p) (mp_month p) lastDay 0 0 0)))"

definition drillToDaily :: "zone \<Rightarrow> int \<Rightarrow> (string \<times> js) list" where
  "drillToDaily z date = [(''date'', JStr (dateToDailyParam z date))]"

text \<open>The period picker.\<close>

definition period_years :: "zone \<Rightarrow> int \<Rightarrow> int list" where
  "period_years z today = (let y = getFullYear z today in rev [y - 5 .. y])"

definition shift_month :: "zone \<Rightarrow> int \<Rightarrow> monthly_page \<Rightarrow> monthly_page" where
  "shift_month z delta p =
     (let t = new_Date z (mp_year p) (mp_month p + delta) 1 0 0 0 in
      p\<lparr>mp_year := getFullYear z t, mp_month := getMonth z t\<rparr>)"

definition period_isFuture :: "zone \<Rightarrow> int \<Rightarrow> monthly_page \<Rightarrow> bool" where
  "period_isFuture z today p =
     (new_Date z (mp_year p) (mp_month p) 1 0 0 0 \<ge> new_Date z (getFullYear z today) (getMonth z today) 1 0 0 0)"

definition compactIDR :: "rat \<Rightarrow> string" where
  "compactIDR v =
     (if v = 0 then ''0''
      else if 1000000 \<le> v then toFixed 1 (v / 1000000) @ ''M''
      else if 1000 \<le> v then show_int (js_round (v / 1000)) @ ''K''
      else show_rat v)"

definition month_label :: "int \<Rightarrow> string" where
  "month_label m = (if 0 \<le> m \<and> m < int (length SHORT_MONTH_NAMES) then SHORT_MONTH_NAMES ! nat m else show_int (m + 1))"

section \<open>The daily report\<close>

record VoucherSale =
  vs_id :: int
  vs_router_id :: "int option"
  vs_sold_at :: string
  vs_username :: string
  vs_profile_name :: string
  vs_price :: rat
  vs_selling_price :: rat
  vs_server :: string
  vs_ip_address :: string
  vs_mac_address :: string
  vs_validity :: string
  vs_idempotency_key :: string
  vs_created_at :: string

record DailyFiltersState =
  df_search :: string
  df_profile :: string
  df_server :: string

definition EMPTY_FILTERS :: DailyFiltersState where
  "EMPTY_FILTERS = \<lparr>df_search = [], df_profile = ''all'', df_server = ''all''\<rparr>"

definition startOfDay :: "zone \<Rightarrow> int \<Rightarrow> int" where
  "startOfDay z date = new_Date z (getFullYear z date) (getMonth z date) (getDate z date) 0 0 0"

definition parseDateParam :: "zone \<Rightarrow> int \<Rightarrow> js \<Rightarrow> int" where
  "parseDateParam z now v =
     (case v of
        JStr s \<Rightarrow> (case parse_Date z s of Some parsed \<Rightarrow> startOfDay z parsed | None \<Rightarrow> startOfDay z now)
      | _ \<Rightarrow> startOfDay z now)"

definition dateToParam :: "zone \<Rightarrow> int \<Rightarrow> string" where
  "dateToParam z date =
     show_int (getFullYear z date) @ ''-''
     @ padStart 2 CHR ''0'' (show_int (getMonth z date + 1)) @ ''-''
     @ padStart 2 CHR ''0'' (show_int (getDate z date))"

definition sale_matches :: "DailyFiltersState \<Rightarrow> VoucherSale \<Rightarrow> bool" where
  "sale_matches f s =
     (let term = toLowerCase (js_trim (df_search f)) in
      if df_profile f \<noteq> ''all'' \<and> vs_profile_name s \<noteq> df_profile f then False
      else if df_server f \<noteq> ''all'' \<and> vs_server s \<noteq> df_server f then False
      else if term \<noteq> [] then
        js_includes (toLowerCase (js_join '' '' [vs_username s, vs_profile_name s, vs_mac_address s, vs_ip_address s, vs_server s])) term
      else True)"

definition applyDailyFilters :: "VoucherSale list \<Rightarrow> DailyFiltersState \<Rightarrow> VoucherSale list" where
  "applyDailyFilters sales filters = filter (sale_matches filters) sales"

definition filteredTotal :: "VoucherSale list \<Rightarrow> rat" where
  "filteredTotal filtered = foldl (\<lambda>sum s. sum + vs_selling_price s) 0 filtered"

definition daily_average :: "nat \<Rightarrow> rat \<Rightarrow> int" where
  "daily_average filteredCount revenue = (if 0 < filteredCount then js_round (revenue / of_nat filteredCount) else 0)"

text \<open>The date picker, and the handler that moves the page and its address to another day.\<close>

definition shiftDay :: "zone \<Rightarrow> int \<Rightarrow> int \<Rightarrow> int" where
  "shiftDay z date delta =
     utc_time z (make_day (getFullYear z date) (getMonth z date) (getDate z date + delta) * msPerDay
                 + local_time z date mod msPerDay)"

definition handleDateChange :: "zone \<Rightarrow> int \<Rightarrow> int \<times> (string \<times> js) list" where
  "handleDateChange z nxt = (let start = startOfDay z nxt in (start, [(''date'', JStr (dateToParam z start))]))"

definition daily_isFuture :: "zone \<Rightarrow> int \<Rightarrow> int \<Rightarrow> bool" where
  "daily_isFuture z now date = (startOfDay z date \<ge> startOfDay z now)"

section \<open>The sales page\<close>

definition dateToYmd :: "zone \<Rightarrow> int \<Rightarrow> string" where
  "dateToYmd z date =
     show_int (getFullYear z date) @ ''-''
     @ padStart 2 CHR ''0'' (show_int (getMonth z date + 1)) @ ''-''
     @ padStart 2 CHR ''0'' (show_int (getDate z date))"

definition ymd_parts :: "string \<Rightarrow> (int \<times> int \<times> int) option" where
  "ymd_parts s =
     do { (y, r) \<leftarrow> digits_n 4 s; r \<leftarrow> expect CHR ''-'' r;
          (m, r) \<leftarrow> digits_n 2 r; r \<leftarrow> expect CHR ''-'' r;
          (d, r) \<leftarrow> digits_n 2 r;
          if r = [] then Some (y, m, d) else None }"

definition ymdToDate :: "zone \<Rightarrow> string option \<Rightarrow> int \<Rightarrow> int" where
  "ymdToDate z v fallback =
     (case v of
        None \<Rightarrow> fallback
      | Some s \<Rightarrow>
          if s = [] then fallback
          else (case ymd_parts s of None \<Rightarrow> fallback | Some (y, m, d) \<Rightarrow> new_Date z y (m - 1) d 0 0 0))"

definition addDays :: "zone \<Rightarrow> int \<Rightarrow> int \<Rightarrow> int" where
  "addDays z d days = new_Date z (getFullYear z d) (getMonth z d) (getDate z d + days) 0 0 0"

text \<open>
  The search parameters of the address and their validation. \<open>None\<close> is the \<open>ZodError\<close> that
  \<open>parse\<close> throws.
\<close>

record VoucherSalesSearch =
  ss_from :: "string option"
  ss_to :: "string option"
  ss_page :: "int option"
  ss_page_size :: "int option"
  ss_search :: "string option"
  ss_profile :: "string option"
  ss_server :: "string option"

definition z_string :: "js \<Rightarrow> string option option" where
  "z_string v = (case v of JUndef \<Rightarrow> Some None | JStr s \<Rightarrow> Some (Some s) | _ \<Rightarrow> None)"

definition z_coerce_int :: "int \<Rightarrow> int option \<Rightarrow> js \<Rightarrow> int option option" where
  "z_coerce_int lo hi v =
     (if v = JUndef then Some None
      else
        (case js_Number v of
           None \<Rightarrow> None
         | Some n \<Rightarrow>
             if of_int \<lfloor>n\<rfloor> = n \<and> lo \<le> \<lfloor>n\<rfloor> \<and> (case hi of None \<Rightarrow> True | Some h \<Rightarrow> \<lfloor>n\<rfloor> \<le> h) then Some (Some \<lfloor>n\<rfloor>) else None))"

definition salesSearchSchema :: "(string \<times> js) list \<Rightarrow> VoucherSalesSearch option" where
  "salesSearchSchema search =
     (let get = (\<lambda>k. or_else (map_of search k) JUndef) in
      do { a \<leftarrow> z_string (get ''from''); b \<leftarrow> z_string (get ''to'');
           c \<leftarrow> z_coerce_int 1 None (get ''page''); d \<leftarrow> z_coerce_int 1 (Some 200) (get ''page_size'');
           e \<leftarrow> z_string (get ''search''); f \<leftarrow> z_string (get ''profile''); g \<leftarrow> z_string (get ''server'');
           Some \<lparr>ss_from = a, ss_to = b, ss_page = c, ss_page_size = d, ss_search = e, ss_profile = f, ss_server = g\<rparr> })"

record sales_page =
  sp_from :: int
  sp_to :: int
  sp_page :: int
  sp_pageSize :: int
  sp_search :: string
  debouncedSearch :: string
  sp_profile :: string
  sp_server :: string

definition PAGE_SIZE_OPTIONS :: "int list" where
  "PAGE_SIZE_OPTIONS = [25, 50, 100]"

definition DEFAULT_PAGE_SIZE :: int where
  "DEFAULT_PAGE_SIZE = 25"

definition VoucherSales_init :: "zone \<Rightarrow> int \<Rightarrow> VoucherSalesSearch \<Rightarrow> sales_page" where
  "VoucherSales_init z now search =
     (let today = startOfDay z now; n = or_else (ss_page_size search) DEFAULT_PAGE_SIZE in
      \<lparr>sp_from = ymdToDate z (ss_from search) (addDays z today (- 6)),
       sp_to = ymdToDate z (ss_to search) today,
       sp_page = or_else (ss_page search) 1,
       sp_pageSize = (if n \<in> set PAGE_SIZE_OPTIONS then n else DEFAULT_PAGE_SIZE),
       sp_search = or_else (ss_search search) [],
       debouncedSearch = or_else (ss_search search) [],
       sp_profile = or_else (ss_profile search) ''all'',
       sp_server = or_else (ss_server search) ''all''\<rparr>)"

text \<open>The request and the address are built from the same fields.\<close>

definition unless_empty :: "string \<Rightarrow> js" where
  "unless_empty s = (if s = [] then JUndef else JStr s)"

definition unless_all :: "string \<Rightarrow> js" where
  "unless_all s = (if s = ''all'' then JUndef else JStr s)"

definition sales_params :: "zone \<Rightarrow> sales_page \<Rightarrow> (string \<times> js) list" where
  "sales_params z s =
     [(''from'', JStr (dateToYmd z (sp_from s))), (''to'', JStr (dateToYmd z (sp_to s))),
      (''page'', JNum (of_int (sp_page s))), (''page_size'', JNum (of_int (sp_pageSize s))),
      (''search'', unless_empty (debouncedSearch s)), (''profile'', unless_all (sp_profile s)),
      (''server'', unless_all (sp_server s))]"

definition sales_navigate :: "zone \<Rightarrow> sales_page \<Rightarrow> (string \<times> js) list \<Rightarrow> (string \<times> js) list" where
  "sales_navigate z s prev = obj_spread prev (sales_params z s)"

definition sales_filters :: "sales_page \<Rightarrow> (string \<times> js) list" where
  "sales_filters s =
     [(''search'', unless_empty (debouncedSearch s)), (''profile'', unless_all (sp_profile s)),
      (''server'', unless_all (sp_server s))]"

text \<open>The events of the page. The page number is reset during the render that sees a new filter key.\<close>

definition filterKey :: "zone \<Rightarrow> sales_page \<Rightarrow> string" where
  "filterKey z s =
     debouncedSearch s @ ''|'' @ sp_profile s @ ''|'' @ sp_server s @ ''|'' @ dateToYmd z (sp_from s) @ ''|''
     @ dateToYmd z (sp_to s) @ ''|'' @ show_int (sp_pageSize s)"

definition sales_render :: "zone \<Rightarrow> string \<times> sales_page \<Rightarrow> string \<times> sales_page" where
  "sales_render z = (\<lambda>(prevFilterKey, s).
     if filterKey z s \<noteq> prevFilterKey then (filterKey z s, s\<lparr>sp_page := 1\<rparr>) else (prevFilterKey, s))"

datatype sales_event =
    SetSearch string | DebounceFires | SetProfile string | SetServer string | SetRange int int
  | SetPage int | SetPageSize int | HandleReset

fun sales_step :: "zone \<Rightarrow> sales_event \<Rightarrow> sales_page \<Rightarrow> sales_page" where
  "sales_step z (SetSearch t) s = s\<lparr>sp_search := t\<rparr>"
| "sales_step z DebounceFires s = s\<lparr>debouncedSearch := sp_search s\<rparr>"
| "sales_step z (SetProfile p) s = s\<lparr>sp_profile := p\<rparr>"
| "sales_step z (SetServer p) s = s\<lparr>sp_server := p\<rparr>"
| "sales_step z (SetRange f t) s = s\<lparr>sp_from := startOfDay z f, sp_to := startOfDay z t\<rparr>"
| "sales_step z (SetPage p) s = s\<lparr>sp_page := p\<rparr>"
| "sales_step z (SetPageSize n) s = s\<lparr>sp_pageSize := n\<rparr>"
| "sales_step z HandleReset s = s\<lparr>sp_search := [], sp_profile := ''all'', sp_server := ''all''\<rparr>"

text \<open>Pagination of a result of \<open>total\<close> rows.\<close>

definition pageCount :: "int \<Rightarrow> int \<Rightarrow> int" where
  "pageCount pageSize rows =
     (let safeSize = (if pageSize = 0 then 1 else pageSize) in max 1 \<lceil>of_int rows / (of_int safeSize :: rat)\<rceil>)"

definition startRow :: "int \<Rightarrow> int \<Rightarrow> int \<Rightarrow> int" where
  "startRow page pageSize rows = (if rows = 0 then 0 else (page - 1) * pageSize + 1)"

definition endRow :: "int \<Rightarrow> int \<Rightarrow> int \<Rightarrow> int" where
  "endRow page pageSize rows = min (page * pageSize) rows"

section \<open>Exports\<close>

text \<open>Runs of characters outside \<open>a-z0-9\<close> become one dash, and dashes at the ends go.\<close>

definition slug_char :: "char \<Rightarrow> bool" where
  "slug_char c = (is_digit c \<or> (97 \<le> code_of c \<and> code_of c \<le> 122))"

fun collapse :: "string \<Rightarrow> string" where
  "collapse [] = []"
| "collapse (c # cs) =
     (if slug_char c then c # collapse cs
      else (case cs of
              d # ds \<Rightarrow> if slug_char d then CHR ''-'' # collapse cs else collapse cs
            | [] \<Rightarrow> ''-''))"

definition strip_dashes :: "string \<Rightarrow> string" where
  "strip_dashes s = rev (dropWhile (\<lambda>c. c = CHR ''-'') (rev (dropWhile (\<lambda>c. c = CHR ''-'') s)))"

definition slugifyRouterName :: "string option \<Rightarrow> string" where
  "slugifyRouterName name =
     (case name of
        None \<Rightarrow> ''router''
      | Some n \<Rightarrow>
          if n = [] then ''router''
          else (let s = strip_dashes (collapse (toLowerCase n)) in if s = [] then ''router'' else s))"

datatype export_kind = Csv | Excel

definition extension :: "export_kind \<Rightarrow> string" where
  "extension k = (case k of Csv \<Rightarrow> ''.csv'' | Excel \<Rightarrow> ''.xlsx'')"

definition daily_export :: "export_kind \<Rightarrow> int \<Rightarrow> string option \<Rightarrow> string \<Rightarrow> string \<times> service" where
  "daily_export k routerId name date =
     (''daily-'' @ slugifyRouterName name @ ''-'' @ date @ extension k,
      case k of Csv \<Rightarrow> exportSalesCSV routerId date date None | Excel \<Rightarrow> exportSalesExcel routerId date date None)"

definition periodStem :: "int \<Rightarrow> int \<Rightarrow> string" where
  "periodStem year month = show_int year @ ''-'' @ padStart 2 CHR ''0'' (show_int (month + 1))"

definition monthly_export :: "export_kind \<Rightarrow> int \<Rightarrow> string option \<Rightarrow> int \<Rightarrow> int \<Rightarrow> string \<Rightarrow> string \<Rightarrow> string \<times> service" where
  "monthly_export k routerId name year month from_date to_date =
     (''monthly-'' @ slugifyRouterName name @ ''-'' @ periodStem year month @ extension k,
      case k of Csv \<Rightarrow> exportSalesCSV routerId from_date to_date None | Excel \<Rightarrow> exportSalesExcel routerId from_date to_date None)"

definition filterStem :: "(string \<times> js) list option \<Rightarrow> string" where
  "filterStem filters =
     (case filters of
        None \<Rightarrow> []
      | Some f \<Rightarrow> js_join ''-'' (map js_String (filter truthy
          (map (\<lambda>key. or_else (map_of f key) JUndef) [''profile'', ''server'', ''search'']))))"

definition baseStem :: "string \<Rightarrow> string \<Rightarrow> string \<Rightarrow> (string \<times> js) list option \<Rightarrow> string" where
  "baseStem slug from_date to_date filters =
     (let rangeStem = (if from_date = to_date then from_date else from_date @ ''_'' @ to_date) in
      if filterStem filters \<noteq> [] then ''sales-'' @ slug @ ''-'' @ rangeStem @ ''-'' @ filterStem filters
      else ''sales-'' @ slug @ ''-'' @ rangeStem)"

definition sales_export :: "export_kind \<Rightarrow> int \<Rightarrow> string option \<Rightarrow> string \<Rightarrow> string \<Rightarrow> (string \<times> js) list option \<Rightarrow> string \<times> service" where
  "sales_export k routerId name from_date to_date filters =
     (baseStem (slugifyRouterName name) from_date to_date filters @ extension k,
      case k of Csv \<Rightarrow> exportSalesCSV routerId from_date to_date filters
              | Excel \<Rightarrow> exportSalesExcel routerId from_date to_date filters)"

text \<open>What the user sees when the fetch settles (an error thrown by \<open>downloadBlob\<close> is not modelled).\<close>

definition kind_text :: "export_kind \<Rightarrow> string" where
  "kind_text k = (case k of Csv \<Rightarrow> ''csv'' | Excel \<Rightarrow> ''excel'')"

definition runDownload :: "export_kind \<Rightarrow> string \<Rightarrow> thrown + js \<Rightarrow> ui_event list" where
  "runDownload k filename r =
     (case r of
        Inr blob \<Rightarrow> [Download filename, Success (toUpperCase (kind_text k) @ '' downloaded'') (JStr filename)]
      | Inl err \<Rightarrow> [Failure ''Export failed'' (error_or (''Failed to export '' @ kind_text k) err)])"

section \<open>Days as text\<close>

lemma show_nat_digits_all: "list_all is_digit (show_nat n)"
  using show_nat_is_digit by (auto simp: list_all_iff)

lemma show_nat_1: "n < 10 \<Longrightarrow> show_nat n = [digit_char n]"
  by (subst show_nat_unfold) simp

lemma show_nat_more: "10 \<le> n \<Longrightarrow> show_nat n = show_nat (n div 10) @ [digit_char (n mod 10)]"
  by (subst show_nat_unfold) simp

lemma length_show_nat_2: "10 \<le> n \<Longrightarrow> n < 100 \<Longrightarrow> length (show_nat n) = 2"
  by (simp add: show_nat_more show_nat_1 div_less_iff_less_mult)

lemma length_show_nat_4: "1000 \<le> n \<Longrightarrow> n < 10000 \<Longrightarrow> length (show_nat n) = 4"
proof -
  assume n: "1000 \<le> n" "n < 10000"
  then have "10 \<le> n div 10 div 10" "n div 10 div 10 < 100"
    by (auto simp: div_mult2_eq [symmetric] div_less_iff_less_mult less_eq_div_iff_mult_less_eq)
  with n show ?thesis
    by (simp add: show_nat_more [of n] show_nat_more [of "n div 10"] length_show_nat_2 less_eq_div_iff_mult_less_eq)
qed

lemma read_digits_zero: "read_digits (CHR ''0'' # s) = read_digits s"
  by (simp add: read_digits_def digit_val_def code_of_def)

lemma pad2:
  assumes "0 \<le> n" "n < 100"
  shows "length (padStart 2 CHR ''0'' (show_int n)) = 2" "list_all is_digit (padStart 2 CHR ''0'' (show_int n))"
    "int (read_digits (padStart 2 CHR ''0'' (show_int n))) = n"
proof -
  let ?k = "nat n"
  have s: "show_int n = show_nat ?k" using assms by (simp add: show_int_def)
  have "padStart 2 CHR ''0'' (show_nat ?k) = (if ?k < 10 then CHR ''0'' # show_nat ?k else show_nat ?k)"
    using assms length_show_nat_2 [of ?k] by (auto simp: padStart_def show_nat_1)
  then show "length (padStart 2 CHR ''0'' (show_int n)) = 2" "list_all is_digit (padStart 2 CHR ''0'' (show_int n))"
    "int (read_digits (padStart 2 CHR ''0'' (show_int n))) = n"
    using assms length_show_nat_2 [of ?k] show_nat_digits_all [of ?k] arg_cong [OF show_nat_1 [of ?k], of length]
    by (auto simp: s read_digits_zero is_digit_def code_of_def)
qed

lemma show4:
  assumes "1000 \<le> y" "y < 10000"
  shows "length (show_int y) = 4" "list_all is_digit (show_int y)" "int (read_digits (show_int y)) = y"
  using assms show_nat_digits_all [of "nat y"] by (simp_all add: show_int_def length_show_nat_4 nat_less_iff)

definition day_text :: "int \<Rightarrow> string" where
  "day_text n =
     (let (y, m, d) = civil n in
      show_int y @ ''-'' @ padStart 2 CHR ''0'' (show_int (m + 1)) @ ''-'' @ padStart 2 CHR ''0'' (show_int d))"

lemma date_texts:
  "dateToDailyParam z t = day_text (local_day z t)" "dateToParam z t = day_text (local_day z t)"
  "dateToYmd z t = day_text (local_day z t)"
  by (simp_all add: dateToDailyParam_def dateToParam_def dateToYmd_def day_text_def
      getFullYear_def getMonth_def getDate_def split_def Let_def)

text \<open>Days whose year has four digits.\<close>

definition modern :: "int \<Rightarrow> bool" where
  "modern n = (1000 \<le> fst (civil n) \<and> fst (civil n) < 10000)"

lemma day_text_parts:
  assumes "modern n" "civil n = (y, m, d)"
  shows "digits_n 4 (day_text n) = Some (y, ''-'' @ padStart 2 CHR ''0'' (show_int (m + 1)) @ ''-'' @ padStart 2 CHR ''0'' (show_int d))"
    "digits_n 2 (padStart 2 CHR ''0'' (show_int (m + 1)) @ r) = Some (m + 1, r)"
    "digits_n 2 (padStart 2 CHR ''0'' (show_int d) @ r) = Some (d, r)"
    "digits_n 2 (padStart 2 CHR ''0'' (show_int d)) = Some (d, [])"
    "1 \<le> m + 1 \<and> m + 1 \<le> 12 \<and> 1 \<le> d \<and> d \<le> month_length y (nat m)" "make_day y m d = n" "full_year y = y"
proof -
  obtain y' m' d' where "civil n = (y', m', d')" "0 \<le> m'" "m' < 12" "1 \<le> d'" "d' \<le> month_length y' (nat m')" "make_day y' m' d' = n"
    using civil_exists by blast
  then show md: "1 \<le> m + 1 \<and> m + 1 \<le> 12 \<and> 1 \<le> d \<and> d \<le> month_length y (nat m)" and "make_day y m d = n"
    using assms(2) by auto
  have "month_length y (nat m) \<le> 31" by (simp add: month_length_def)
  with md have "0 \<le> m + 1" "m + 1 < 100" "0 \<le> d" "d < 100" by auto
  note p = pad2 [OF this(1,2)] pad2 [OF this(3,4)]
  show "digits_n 2 (padStart 2 CHR ''0'' (show_int (m + 1)) @ r) = Some (m + 1, r)"
    "digits_n 2 (padStart 2 CHR ''0'' (show_int d) @ r) = Some (d, r)" for r
    using p digits_n_read by metis+
  from this(2) [of "[]"] show "digits_n 2 (padStart 2 CHR ''0'' (show_int d)) = Some (d, [])" by simp
  show "digits_n 4 (day_text n) = Some (y, ''-'' @ padStart 2 CHR ''0'' (show_int (m + 1)) @ ''-'' @ padStart 2 CHR ''0'' (show_int d))"
    using assms show4 [of y] digits_n_read [of "show_int y" 4] by (simp add: day_text_def modern_def)
  show "full_year y = y" using assms by (simp add: full_year_def modern_def)
qed

lemma iso_date_text: "modern n \<Longrightarrow> iso_date (day_text n) = Some (n, [])"
  using day_text_parts [of n] by (cases "civil n") (simp add: iso_date_def)

lemma ymd_parts_text: "modern n \<Longrightarrow> civil n = (y, m, d) \<Longrightarrow> ymd_parts (day_text n) = Some (y, m + 1, d)"
  using day_text_parts [of n] by (simp add: ymd_parts_def)

lemma parse_day_text: "modern n \<Longrightarrow> parse_Date z (day_text n) = Some (n * msPerDay)"
  by (simp add: parse_Date_def iso_date_text)

lemma day_text_nonempty [simp]: "day_text n \<noteq> []"
  by (simp add: day_text_def split_def Let_def)

section \<open>Midnights\<close>

definition day_start :: "zone \<Rightarrow> int \<Rightarrow> int" where
  "day_start z n = utc_time z (n * msPerDay)"

definition midnights :: "zone \<Rightarrow> bool" where
  "midnights z = (\<forall>n. shown_at z (n * msPerDay))"

lemma midnights_fixed [simp]: "midnights (fixed_zone offset)"
  by (simp add: midnights_def)

lemma local_day_start: "midnights z \<Longrightarrow> local_day z (day_start z n) = n"
  by (simp add: local_day_def day_start_def midnights_def shown_at_def msPerDay_def)

lemma new_Date_day: "new_Date z y m d 0 0 0 = day_start z (make_day (full_year y) m d)"
  by (simp add: new_Date_def make_time_def day_start_def)

lemma startOfDay_eq:
  assumes "modern (local_day z t)"
  shows "startOfDay z t = day_start z (local_day z t)"
proof -
  obtain y m d where c: "civil (local_day z t) = (y, m, d)" by (cases "civil (local_day z t)")
  show ?thesis
    using day_text_parts(6,7) [OF assms c] by (simp add: startOfDay_def new_Date_day getFullYear_def getMonth_def getDate_def c)
qed

lemma ymdToDate_text:
  assumes "modern n"
  shows "ymdToDate z (Some (day_text n)) fallback = day_start z n"
proof -
  obtain y m d where c: "civil n = (y, m, d)" by (cases "civil n")
  show ?thesis
    using day_text_parts(6,7) [OF assms c] by (simp add: ymdToDate_def ymd_parts_text [OF assms c] new_Date_day)
qed

section \<open>The month grid\<close>

definition booked_on :: "zone \<Rightarrow> nat \<Rightarrow> DailySummaryRow \<Rightarrow> bool" where
  "booked_on z i e = (\<exists>t. parse_Date z (ds_date e) = Some t \<and> getDate z t = int i + 1)"

lemma length_book_entry [simp]: "length (book_entry z e rows) = length rows"
  by (simp add: book_entry_def Let_def split: option.split)

lemma nth_book_entry:
  assumes "i < length rows"
  shows "book_entry z e rows ! i = (if booked_on z i e
    then (rows ! i)\<lparr>row_count := row_count (rows ! i) + ds_count e, row_total := row_total (rows ! i) + ds_sum e\<rparr>
    else rows ! i)"
proof (cases "parse_Date z (ds_date e)")
  case (Some t)
  then show ?thesis using assms
    by (cases "nat (getDate z t - 1) = i") (auto simp: book_entry_def booked_on_def Let_def)
qed (simp add: book_entry_def booked_on_def)

lemma length_book_entries [simp]: "length (fold (book_entry z) daily rows) = length rows"
  by (induction daily arbitrary: rows) simp_all

lemma nth_book_entries:
  assumes "i < length rows"
  shows "row_date (fold (book_entry z) daily rows ! i) = row_date (rows ! i)
    \<and> row_count (fold (book_entry z) daily rows ! i) = row_count (rows ! i) + sum_list (map ds_count (filter (booked_on z i) daily))
    \<and> row_total (fold (book_entry z) daily rows ! i) = row_total (rows ! i) + sum_list (map ds_sum (filter (booked_on z i) daily))"
  using assms
proof (induction daily arbitrary: rows)
  case (Cons e daily)
  then show ?case using Cons.IH [of "book_entry z e rows"] by (simp add: nth_book_entry)
qed simp

lemma sum_row_update:
  "i < length rows \<Longrightarrow> sum_list (map row_total (rows[i := r])) = sum_list (map row_total rows) - row_total (rows ! i) + row_total r"
proof (induction rows arbitrary: i)
  case (Cons a rows)
  then show ?case by (cases i) auto
qed simp

lemma book_entry_total:
  assumes "booked_on z i e" "i < length rows"
  shows "sum_list (map row_total (book_entry z e rows)) = sum_list (map row_total rows) + ds_sum e"
  using assms by (auto simp: booked_on_def book_entry_def Let_def sum_row_update)

lemma book_entries_total:
  assumes "\<And>e. e \<in> set daily \<Longrightarrow> \<exists>i < length rows. booked_on z i e"
  shows "sum_list (map row_total (fold (book_entry z) daily rows)) = sum_list (map row_total rows) + sum_list (map ds_sum daily)"
  using assms
proof (induction daily arbitrary: rows)
  case (Cons e daily)
  then obtain i where "i < length rows" "booked_on z i e" by auto
  with Cons book_entry_total show ?case by simp
qed simp

lemma month_days:
  assumes "midnights z" "0 \<le> month" "month < 12"
  shows "daysInMonth z year month = month_length (full_year year) (nat month)"
proof (rule daysInMonth_calendar [OF assms(2,3)])
  show "shown_at z (wall year (month + 1) 0 0 0 0)"
    using assms(1) by (simp add: midnights_def wall_def make_time_def)
qed

lemma nth_month_days:
  "i < nat n \<Longrightarrow> map f [1..n] ! i = f (int i + 1)" for n :: int
  by (simp add: nth_upto add.commute)

text \<open>A day of the month: the local calendar date of an entry.\<close>

definition in_month :: "zone \<Rightarrow> int \<Rightarrow> int \<Rightarrow> DailySummaryRow \<Rightarrow> bool" where
  "in_month z year month e =
     (\<exists>t d. parse_Date z (ds_date e) = Some t \<and> civil (local_day z t) = (full_year year, month, d))"

lemma in_month_booked:
  assumes "in_month z year month e"
  shows "\<exists>i < nat (month_length (full_year year) (nat month)). booked_on z i e"
proof -
  obtain t d where t: "parse_Date z (ds_date e) = Some t" "civil (local_day z t) = (full_year year, month, d)"
    using assms by (auto simp: in_month_def)
  obtain y' m' d' where "civil (local_day z t) = (y', m', d')" "1 \<le> d'" "d' \<le> month_length y' (nat m')"
    using civil_exists by blast
  with t have "1 \<le> d" "d \<le> month_length (full_year year) (nat month)" by auto
  with t show ?thesis
    by (intro exI [of _ "nat (d - 1)"]) (auto simp: booked_on_def getDate_def)
qed


definition sample_days :: "DailySummaryRow list" where
  "sample_days =
     [\<lparr>ds_date = ''2024-02-29T00:00:00+07:00'', ds_count = 2, ds_sum = 10000\<rparr>,
      \<lparr>ds_date = ''2024-02-01T12:00:00Z'', ds_count = 1, ds_sum = 5000\<rparr>]"


section \<open>The year and the best day\<close>

lemma length_put_months: "length (fold put_month rows out) = length out"
  by (induction rows arbitrary: out) (simp_all add: put_month_def Let_def)

lemma nth_put_month:
  "i < 12 \<Longrightarrow> length out = 12 \<Longrightarrow> put_month r out ! i =
     (if rs_month r = int i + 1 then \<lparr>yr_month = int i, yr_count = rs_count r, yr_total = rs_sum r\<rparr> else out ! i)"
  by (auto simp: put_month_def Let_def nth_list_update)

lemma nth_put_months:
  assumes "i < 12" "length out = 12"
  shows "fold put_month rows out ! i =
    (case find (\<lambda>r. rs_month r = int i + 1) (rev rows) of
       None \<Rightarrow> out ! i
     | Some r \<Rightarrow> \<lparr>yr_month = int i, yr_count = rs_count r, yr_total = rs_sum r\<rparr>)"
  using assms by (induction rows rule: rev_induct) (simp_all add: length_put_months nth_put_month)

text \<open>The yearly chart has twelve months; each shows the last row sent for it, or nothing.\<close>

theorem yearly_months:
  "length (padYearly rows) = 12 \<and> (\<forall>i < 12. padYearly rows ! i =
    (case find (\<lambda>r. rs_month r = int i + 1) (rev rows) of
       None \<Rightarrow> \<lparr>yr_month = int i, yr_count = 0, yr_total = 0\<rparr>
     | Some r \<Rightarrow> \<lparr>yr_month = int i, yr_count = rs_count r, yr_total = rs_sum r\<rparr>))"
  by (auto simp: padYearly_def length_put_months nth_put_months split: option.split)

definition better :: "MonthlyChartRow \<Rightarrow> MonthlyChartRow \<Rightarrow> MonthlyChartRow" where
  "better b r = (if row_total r > row_total b then r else b)"

lemma bestDay_fold:
  "fold (\<lambda>r best. case best of None \<Rightarrow> Some r | Some b \<Rightarrow> if row_total r > row_total b then Some r else Some b) rows (Some b)
   = Some (foldl better b rows)"
  by (induction rows arbitrary: b) (auto simp: better_def)

definition first_max :: "MonthlyChartRow list \<Rightarrow> nat \<Rightarrow> bool" where
  "first_max xs i = (i < length xs \<and> (\<forall>j < i. row_total (xs ! j) < row_total (xs ! i))
     \<and> (\<forall>j < length xs. row_total (xs ! j) \<le> row_total (xs ! i)))"

lemma first_max_snoc:
  assumes "first_max xs i"
  shows "if row_total r > row_total (xs ! i) then first_max (xs @ [r]) (length xs) else first_max (xs @ [r]) i"
  using assms by (auto simp: first_max_def nth_append less_Suc_eq intro: le_less_trans less_imp_le)

lemma foldl_best: "\<exists>i. first_max (b # rows) i \<and> foldl better b rows = (b # rows) ! i"
proof (induction rows rule: rev_induct)
  case Nil
  show ?case by (intro exI [of _ 0]) (simp add: first_max_def)
next
  case (snoc r rows)
  then obtain i where i: "first_max (b # rows) i" "foldl better b rows = (b # rows) ! i" by blast
  let ?xs = "b # rows"
  have lt: "i < length ?xs" using i by (simp add: first_max_def)
  show ?case
  proof (cases "row_total r > row_total (?xs ! i)")
    case True
    then have "first_max (?xs @ [r]) (length ?xs)" using first_max_snoc [OF i(1), of r] by simp
    moreover have "foldl better b (rows @ [r]) = (?xs @ [r]) ! length ?xs"
      using True i(2) by (simp only: foldl_append foldl.simps better_def nth_append_length if_True)
    ultimately show ?thesis by auto
  next
    case False
    then have "first_max (?xs @ [r]) i" using first_max_snoc [OF i(1), of r] by simp
    moreover have "foldl better b (rows @ [r]) = (?xs @ [r]) ! i"
      using False i(2) lt by (simp only: foldl_append foldl.simps better_def nth_append if_True if_False)
    ultimately show ?thesis by auto
  qed
qed

text \<open>
  The best day of a month is the earliest of the days with the greatest revenue, and there is
  none exactly when no day has any.
\<close>

theorem best_day:
  assumes "rows \<noteq> []"
  shows "\<exists>i < length rows. snd (bestDay rows) = row_total (rows ! i)
    \<and> fst (bestDay rows) = (if 0 < row_total (rows ! i) then Some (row_date (rows ! i)) else None)
    \<and> (\<forall>j < length rows. row_total (rows ! j) \<le> row_total (rows ! i))
    \<and> (\<forall>j < i. row_total (rows ! j) < row_total (rows ! i))"
proof -
  obtain b rs where rows: "rows = b # rs" using assms by (cases rows) auto
  obtain i where i: "first_max rows i" "foldl better b rs = rows ! i" unfolding rows using foldl_best by blast
  have "bestDay rows = (if 0 < row_total (rows ! i) then Some (row_date (rows ! i)) else None, row_total (rows ! i))"
    unfolding bestDay_def Let_def i(2) [symmetric] by (simp add: rows bestDay_fold)
  with i(1) show ?thesis by (auto simp: first_max_def)
qed

theorem best_day_witness:
  "\<exists>i < 29. snd (bestDay (densifyMonth (fixed_zone 420) 2024 1 sample_days)) =
     row_total (densifyMonth (fixed_zone 420) 2024 1 sample_days ! i)"
proof -
  have "length (densifyMonth (fixed_zone 420) 2024 1 sample_days) = 29" by code_simp
  with best_day [of "densifyMonth (fixed_zone 420) 2024 1 sample_days"] show ?thesis by fastforce
qed

section \<open>From the month to the day\<close>

lemma local_day_utc:
  assumes "- 1440 < offset" "offset < 1440"
  shows "local_day (fixed_zone offset) (n * msPerDay) = (if offset < 0 then n - 1 else n)"
proof -
  have "(n * 86400000 + offset * 60000) div 86400000 = n + (offset * 60000) div 86400000" by simp
  moreover have "(offset * 60000) div 86400000 = (if offset < 0 then - 1 else 0)"
    using assms by (auto intro: div_pos_pos_trivial int_div_neg_eq int_div_pos_eq)
  ultimately show ?thesis by (simp add: local_day_def fixed_zone_def msPerDay_def)
qed

text \<open>
  C. A day selected in the monthly report is handed to the daily report as \<open>YYYY-MM-DD\<close>, which reads it
  back as universal time: east of Greenwich (and on it) the daily report opens that very day, anywhere
  west of it the day before.
\<close>

theorem monthly_link_day:
  assumes "- 1440 < offset" "offset < 1440" "modern n" "modern (n - 1)"
  shows "drillToDaily (fixed_zone offset) (day_start (fixed_zone offset) n) = [(''date'', JStr (day_text n))]
    \<and> parseDateParam (fixed_zone offset) now (JStr (day_text n))
        = day_start (fixed_zone offset) (if offset < 0 then n - 1 else n)"
proof -
  have "startOfDay (fixed_zone offset) (n * msPerDay) = day_start (fixed_zone offset) (if offset < 0 then n - 1 else n)"
    using startOfDay_eq [of "fixed_zone offset" "n * msPerDay"] local_day_utc [OF assms(1,2), of n] assms(3,4) by auto
  then show ?thesis
    using assms by (simp add: drillToDaily_def date_texts local_day_start parseDateParam_def parse_day_text)
qed

theorem monthly_link_day_witness:
  "parseDateParam (fixed_zone (- 300)) 0 (JStr (day_text 19783)) = day_start (fixed_zone (- 300)) 19782 \<and> day_text 19783 = ''2024-03-01''"
proof
  have "modern 19783" "modern 19782" by code_simp+
  then show "parseDateParam (fixed_zone (- 300)) 0 (JStr (day_text 19783)) = day_start (fixed_zone (- 300)) 19782"
    using monthly_link_day [of "- 300" 19783 0] by simp
  show "day_text 19783 = ''2024-03-01''" by code_simp
qed

section \<open>The address of the sales page\<close>

lemma z_simps [simp]:
  "z_string (JStr s) = Some (Some s)" "z_string JUndef = Some None"
  "z_string (unless_empty s) = Some (if s = [] then None else Some s)"
  "z_string (unless_all s) = Some (if s = ''all'' then None else Some s)"
  "z_coerce_int lo hi (JNum (of_int k)) = (if lo \<le> k \<and> (case hi of None \<Rightarrow> True | Some h \<Rightarrow> k \<le> h) then Some (Some k) else None)"
  by (simp_all add: z_string_def z_coerce_int_def unless_empty_def unless_all_def split: option.split)

text \<open>
  The state of the sales page (range, page, page size, filters) is the one a reload of its address
  gives, whatever else the address held, in every zone that shows midnight.
\<close>

theorem sales_page_survives_reload:
  assumes "midnights z" "modern f" "modern t" "sp_from s = day_start z f" "sp_to s = day_start z t"
    and "1 \<le> sp_page s" "sp_pageSize s \<in> set PAGE_SIZE_OPTIONS" "debouncedSearch s = sp_search s"
  shows "map_option (VoucherSales_init z now) (salesSearchSchema (sales_navigate z s prev)) = Some s"
proof -
  have size: "1 \<le> sp_pageSize s" "sp_pageSize s \<le> 200" using assms(7) by (auto simp: PAGE_SIZE_OPTIONS_def)
  have get: "map_of (sales_navigate z s prev) k = (case map_of (sales_params z s) k of None \<Rightarrow> map_of prev k | Some v \<Rightarrow> Some v)" for k
    unfolding sales_navigate_def map_of_obj_spread
    by (subst map_of_rev) (simp_all add: sales_params_def)
  show ?thesis
    using assms size
    by (simp add: salesSearchSchema_def Let_def get sales_params_def VoucherSales_init_def date_texts local_day_start ymdToDate_text)
qed

definition sample_sales_page :: sales_page where
  "sample_sales_page =
     \<lparr>sp_from = day_start (fixed_zone (- 300)) 19783, sp_to = day_start (fixed_zone (- 300)) 19789, sp_page = 3, sp_pageSize = 50,
      sp_search = ''wifi'', debouncedSearch = ''wifi'', sp_profile = ''1day'', sp_server = ''all''\<rparr>"

theorem sales_page_survives_reload_witness:
  "map_option (VoucherSales_init (fixed_zone (- 300)) 0)
     (salesSearchSchema (sales_navigate (fixed_zone (- 300)) sample_sales_page [(''page'', JNum 9), (''x'', JNull)])) = Some sample_sales_page"
proof (rule sales_page_survives_reload)
  show "modern 19783" "modern 19789" by code_simp+
qed (simp_all add: sample_sales_page_def PAGE_SIZE_OPTIONS_def)

text \<open>
  The address of the sales page is not read as leniently as its comment says: a page number below 1, a page
  size above 200 or anything that is not a number makes the validation throw, and no fallback is used.
\<close>

theorem sales_search_throws:
  "salesSearchSchema search = None \<longleftrightarrow>
     (\<exists>k \<in> {''from'', ''to'', ''search'', ''profile'', ''server''}. z_string (or_else (map_of search k) JUndef) = None)
     \<or> z_coerce_int 1 None (or_else (map_of search ''page'') JUndef) = None
     \<or> z_coerce_int 1 (Some 200) (or_else (map_of search ''page_size'') JUndef) = None"
  by (auto simp: salesSearchSchema_def Let_def bind_eq_None_conv split: Option.bind_splits)

lemma sales_search_throws_example:
  "salesSearchSchema [(''page'', JNum 0)] = None" "salesSearchSchema [(''page_size'', JNum 500)] = None"
  "salesSearchSchema [(''page'', JStr ''abc'')] = None" "salesSearchSchema [] \<noteq> None"
  by code_simp+

section \<open>Pagination\<close>

lemma pages_cover:
  assumes "0 < pageSize" "0 < rows" "1 \<le> page" "page \<le> pageCount pageSize rows"
  shows "1 \<le> startRow page pageSize rows \<and> startRow page pageSize rows \<le> endRow page pageSize rows
    \<and> endRow page pageSize rows \<le> rows
    \<and> (page = pageCount pageSize rows \<longrightarrow> endRow page pageSize rows = rows)
    \<and> (page < pageCount pageSize rows \<longrightarrow> startRow (page + 1) pageSize rows = endRow page pageSize rows + 1)"
proof -
  let ?c = "\<lceil>of_int rows / (of_int pageSize :: rat)\<rceil>"
  have pc: "pageCount pageSize rows = ?c" using assms by (simp add: pageCount_def Let_def le_ceiling_iff)
  have c: "?c * pageSize \<ge> rows" "(?c - 1) * pageSize < rows"
  proof -
    have 1: "of_int rows / of_int pageSize \<le> (of_int ?c :: rat)" by (rule le_of_int_ceiling)
    have "of_int (?c - 1) < (of_int rows / of_int pageSize :: rat)"
      using ceiling_correct [of "of_int rows / (of_int pageSize :: rat)"] by simp
    with 1 have "(of_int rows :: rat) \<le> of_int (?c * pageSize)" "of_int ((?c - 1) * pageSize) < (of_int rows :: rat)"
      using assms(1) unfolding of_int_mult by (simp_all only: divide_le_eq less_divide_eq of_int_0_less_iff if_True)
    then show "?c * pageSize \<ge> rows" "(?c - 1) * pageSize < rows" by (simp_all only: of_int_le_iff of_int_less_iff)
  qed
  have mono: "a * pageSize \<le> b * pageSize" if "a \<le> b" for a b using that assms(1) by simp
  have 1: "(page - 1) * pageSize < rows" using mono [of "page - 1" "?c - 1"] assms(4) c(2) pc by simp
  have 2: "page < ?c \<Longrightarrow> page * pageSize < rows" using mono [of page "?c - 1"] c(2) by simp
  have 3: "(page - 1) * pageSize + 1 \<le> page * pageSize" "0 \<le> (page - 1) * pageSize"
    using assms(1,3) by (simp_all add: algebra_simps)
  show ?thesis using 1 2 3 c(1) assms pc by (auto simp: startRow_def endRow_def)
qed

text \<open>
  The window of rows named below the sales table: on every page that exists it is not empty and within
  the result, the windows follow each other without gap, and the last one ends at the last row.
\<close>

theorem pagination_window:
  assumes "0 < pageSize" "0 < rows"
  shows "\<forall>page. 1 \<le> page \<and> page \<le> pageCount pageSize rows \<longrightarrow>
     1 \<le> startRow page pageSize rows \<and> startRow page pageSize rows \<le> endRow page pageSize rows \<and> endRow page pageSize rows \<le> rows
     \<and> (page < pageCount pageSize rows \<longrightarrow> startRow (page + 1) pageSize rows = endRow page pageSize rows + 1)
     \<and> (page = pageCount pageSize rows \<longrightarrow> endRow page pageSize rows = rows)"
  using pages_cover [OF assms] by blast

end
