(* ===== verification/Routes.thy ===== *)
theory Routes
  imports Session
begin

text \<open>
  The routes of the application (\<^verbatim>\<open>routeTree.gen.ts\<close>, generated from the files under \<^verbatim>\<open>routes\<close>): the
  nodes of the tree with their paths and parents, the layouts with their children, the addresses the router
  declares. A layout may guard its children (\<^verbatim>\<open>beforeLoad\<close>).
\<close>

section \<open>The tree\<close>

datatype layout = Root | Authenticated | PortalApp | Settings | Registrations | Admin

text \<open>A node: the constant it is bound to, its id, its path (a layout without one adds nothing) and its parent.\<close>

type_synonym node = "string \<times> string \<times> string option \<times> layout"

definition route_nodes_1 :: "node list" where
  "route_nodes_1 =
    [(''AuthenticatedRouteRoute'', ''/_authenticated'', None, Root), (''IndexRoute'', ''/'', Some ''/'', Root),
     (''PortalLoginRoute'', ''/portal/login'', Some ''/portal/login'', Root),
     (''AuthenticatedDashboardRoute'', ''/dashboard'', Some ''/dashboard'', Authenticated),
     (''publicRegisterRoute'', ''/(public)/register'', Some ''/register'', Root),
     (''errors503Route'', ''/(errors)/503'', Some ''/503'', Root), (''errors500Route'', ''/(errors)/500'', Some ''/500'', Root),
     (''errors404Route'', ''/(errors)/404'', Some ''/404'', Root), (''errors403Route'', ''/(errors)/403'', Some ''/403'', Root),
     (''errors401Route'', ''/(errors)/401'', Some ''/401'', Root),
     (''authSignIn2Route'', ''/(auth)/sign-in-2'', Some ''/sign-in-2'', Root),
     (''authSignInRoute'', ''/(auth)/sign-in'', Some ''/sign-in'', Root), (''authOtpRoute'', ''/(auth)/otp'', Some ''/otp'', Root),
     (''authForgotPasswordRoute'', ''/(auth)/forgot-password'', Some ''/forgot-password'', Root),
     (''PortalAppRouteRoute'', ''/portal/_app'', Some ''/portal'', Root),
     (''AuthenticatedSettingsRouteRoute'', ''/settings'', Some ''/settings'', Authenticated),
     (''AuthenticatedRegistrationsRouteRoute'', ''/registrations'', Some ''/registrations'', Authenticated),
     (''AuthenticatedAdminRouteRoute'', ''/admin'', Some ''/admin'', Authenticated),
     (''PortalAppIndexRoute'', ''/'', Some ''/'', PortalApp),
     (''AuthenticatedVoucherIndexRoute'', ''/voucher/'', Some ''/voucher/'', Authenticated),
     (''AuthenticatedUsersIndexRoute'', ''/users/'', Some ''/users/'', Authenticated),
     (''AuthenticatedTrafficIndexRoute'', ''/traffic/'', Some ''/traffic/'', Authenticated),
     (''AuthenticatedTasksIndexRoute'', ''/tasks/'', Some ''/tasks/'', Authenticated),
     (''AuthenticatedSystemIndexRoute'', ''/system/'', Some ''/system/'', Authenticated),
     (''AuthenticatedSubscriptionsIndexRoute'', ''/subscriptions/'', Some ''/subscriptions/'', Authenticated),
     (''AuthenticatedSettingsIndexRoute'', ''/'', Some ''/'', Settings),
     (''AuthenticatedReportsIndexRoute'', ''/reports/'', Some ''/reports/'', Authenticated),
     (''AuthenticatedRegistrationsIndexRoute'', ''/'', Some ''/'', Registrations)]"

definition route_nodes_2 :: "node list" where
  "route_nodes_2 =
    [(''AuthenticatedPenggunaIndexRoute'', ''/pengguna/'', Some ''/pengguna/'', Authenticated),
     (''AuthenticatedPaymentsIndexRoute'', ''/payments/'', Some ''/payments/'', Authenticated),
     (''AuthenticatedNetworkIndexRoute'', ''/network/'', Some ''/network/'', Authenticated),
     (''AuthenticatedLogIndexRoute'', ''/log/'', Some ''/log/'', Authenticated),
     (''AuthenticatedInvoicesIndexRoute'', ''/invoices/'', Some ''/invoices/'', Authenticated),
     (''AuthenticatedHotspotIndexRoute'', ''/hotspot/'', Some ''/hotspot/'', Authenticated),
     (''AuthenticatedHelpCenterIndexRoute'', ''/help-center/'', Some ''/help-center/'', Authenticated),
     (''AuthenticatedCustomersIndexRoute'', ''/customers/'', Some ''/customers/'', Authenticated),
     (''PortalAppTicketsRoute'', ''/tickets'', Some ''/tickets'', PortalApp),
     (''PortalAppSubscriptionsRoute'', ''/subscriptions'', Some ''/subscriptions'', PortalApp),
     (''PortalAppProfileRoute'', ''/profile'', Some ''/profile'', PortalApp),
     (''PortalAppPaymentsRoute'', ''/payments'', Some ''/payments'', PortalApp),
     (''AuthenticatedVoucherSalesRoute'', ''/voucher/sales'', Some ''/voucher/sales'', Authenticated),
     (''AuthenticatedVoucherPrintRoute'', ''/voucher/print'', Some ''/voucher/print'', Authenticated),
     (''AuthenticatedVoucherGenerateRoute'', ''/voucher/generate'', Some ''/voucher/generate'', Authenticated),
     (''AuthenticatedSubscriptionsMonitoringRoute'', ''/subscriptions/monitoring'', Some ''/subscriptions/monitoring'', Authenticated),
     (''AuthenticatedSettingsWhatsappRoute'', ''/whatsapp'', Some ''/whatsapp'', Settings),
     (''AuthenticatedSettingsTelegramRoute'', ''/telegram'', Some ''/telegram'', Settings),
     (''AuthenticatedSettingsPaymentGatewayRoute'', ''/payment-gateway'', Some ''/payment-gateway'', Settings),
     (''AuthenticatedSettingsNotificationsRoute'', ''/notifications'', Some ''/notifications'', Settings),
     (''AuthenticatedSettingsNotificationConfigRoute'', ''/notification-config'', Some ''/notification-config'', Settings),
     (''AuthenticatedSettingsGeneralRoute'', ''/general'', Some ''/general'', Settings),
     (''AuthenticatedSettingsDisplayRoute'', ''/display'', Some ''/display'', Settings),
     (''AuthenticatedSettingsBillingRoute'', ''/billing'', Some ''/billing'', Settings),
     (''AuthenticatedSettingsBackupRoute'', ''/backup'', Some ''/backup'', Settings)]"

definition route_nodes_3 :: "node list" where
  "route_nodes_3 =
    [(''AuthenticatedSettingsAppearanceRoute'', ''/appearance'', Some ''/appearance'', Settings),
     (''AuthenticatedSettingsAccountRoute'', ''/account'', Some ''/account'', Settings),
     (''AuthenticatedReportMonthlyRoute'', ''/report/monthly'', Some ''/report/monthly'', Authenticated),
     (''AuthenticatedReportDailyRoute'', ''/report/daily'', Some ''/report/daily'', Authenticated),
     (''AuthenticatedPppSecretsRoute'', ''/ppp/secrets'', Some ''/ppp/secrets'', Authenticated),
     (''AuthenticatedPppProfilesRoute'', ''/ppp/profiles'', Some ''/ppp/profiles'', Authenticated),
     (''AuthenticatedPppBillingRoute'', ''/ppp/billing'', Some ''/ppp/billing'', Authenticated),
     (''AuthenticatedPppActiveRoute'', ''/ppp/active'', Some ''/ppp/active'', Authenticated),
     (''AuthenticatedHotspotUsersRoute'', ''/hotspot/users'', Some ''/hotspot/users'', Authenticated),
     (''AuthenticatedHotspotProfilesRoute'', ''/hotspot/profiles'', Some ''/hotspot/profiles'', Authenticated),
     (''AuthenticatedHotspotHostsRoute'', ''/hotspot/hosts'', Some ''/hotspot/hosts'', Authenticated),
     (''AuthenticatedHotspotBillingRoute'', ''/hotspot/billing'', Some ''/hotspot/billing'', Authenticated),
     (''AuthenticatedHotspotActiveRoute'', ''/hotspot/active'', Some ''/hotspot/active'', Authenticated),
     (''AuthenticatedErrorsErrorRoute'', ''/errors/$error'', Some ''/errors/$error'', Authenticated),
     (''PortalAppInvoicesIndexRoute'', ''/invoices/'', Some ''/invoices/'', PortalApp),
     (''AuthenticatedAdminWhatsappIndexRoute'', ''/whatsapp/'', Some ''/whatsapp/'', Admin),
     (''AuthenticatedAdminUsersIndexRoute'', ''/users/'', Some ''/users/'', Admin),
     (''AuthenticatedAdminRoutersIndexRoute'', ''/routers/'', Some ''/routers/'', Admin),
     (''AuthenticatedAdminNotificationsIndexRoute'', ''/notifications/'', Some ''/notifications/'', Admin),
     (''AuthenticatedAdminNotificationCenterIndexRoute'', ''/notification-center/'', Some ''/notification-center/'', Admin),
     (''AuthenticatedAdminMessageTemplatesIndexRoute'', ''/message-templates/'', Some ''/message-templates/'', Admin),
     (''AuthenticatedAdminAuditLogsIndexRoute'', ''/audit-logs/'', Some ''/audit-logs/'', Admin),
     (''PortalAppInvoicesIdRoute'', ''/invoices/$id'', Some ''/invoices/$id'', PortalApp)]"

definition route_nodes :: "node list" where
  "route_nodes = route_nodes_1 @ route_nodes_2 @ route_nodes_3"

definition FileRoutesByFullPath :: "string list" where
  "FileRoutesByFullPath =
    [''/'', ''/admin'', ''/registrations'', ''/settings'', ''/portal'', ''/forgot-password'', ''/otp'', ''/sign-in'', ''/sign-in-2'',
     ''/401'', ''/403'', ''/404'', ''/500'', ''/503'', ''/register'', ''/dashboard'', ''/portal/login'', ''/errors/$error'',
     ''/hotspot/active'', ''/hotspot/billing'', ''/hotspot/hosts'', ''/hotspot/profiles'', ''/hotspot/users'', ''/ppp/active'',
     ''/ppp/billing'', ''/ppp/profiles'', ''/ppp/secrets'', ''/report/daily'', ''/report/monthly'', ''/settings/account'',
     ''/settings/appearance'', ''/settings/backup'', ''/settings/billing'', ''/settings/display'', ''/settings/general'',
     ''/settings/notification-config'', ''/settings/notifications'', ''/settings/payment-gateway'', ''/settings/telegram'',
     ''/settings/whatsapp'', ''/subscriptions/monitoring'', ''/voucher/generate'', ''/voucher/print'', ''/voucher/sales'',
     ''/portal/payments'', ''/portal/profile'', ''/portal/subscriptions'', ''/portal/tickets'', ''/customers/'', ''/help-center/'',
     ''/hotspot/'', ''/invoices/'', ''/log/'', ''/network/'', ''/payments/'', ''/pengguna/'', ''/registrations/'', ''/reports/'',
     ''/settings/'', ''/subscriptions/'', ''/system/'', ''/tasks/'', ''/traffic/'', ''/users/'', ''/voucher/'', ''/portal/'',
     ''/portal/invoices/$id'', ''/admin/audit-logs/'', ''/admin/message-templates/'', ''/admin/notification-center/'',
     ''/admin/notifications/'', ''/admin/routers/'', ''/admin/users/'', ''/admin/whatsapp/'', ''/portal/invoices/'']"

definition FileRoutesByTo :: "string list" where
  "FileRoutesByTo =
    [''/'', ''/admin'', ''/forgot-password'', ''/otp'', ''/sign-in'', ''/sign-in-2'', ''/401'', ''/403'', ''/404'', ''/500'',
     ''/503'', ''/register'', ''/dashboard'', ''/portal/login'', ''/errors/$error'', ''/hotspot/active'', ''/hotspot/billing'',
     ''/hotspot/hosts'', ''/hotspot/profiles'', ''/hotspot/users'', ''/ppp/active'', ''/ppp/billing'', ''/ppp/profiles'',
     ''/ppp/secrets'', ''/report/daily'', ''/report/monthly'', ''/settings/account'', ''/settings/appearance'', ''/settings/backup'',
     ''/settings/billing'', ''/settings/display'', ''/settings/general'', ''/settings/notification-config'',
     ''/settings/notifications'', ''/settings/payment-gateway'', ''/settings/telegram'', ''/settings/whatsapp'',
     ''/subscriptions/monitoring'', ''/voucher/generate'', ''/voucher/print'', ''/voucher/sales'', ''/portal/payments'',
     ''/portal/profile'', ''/portal/subscriptions'', ''/portal/tickets'', ''/customers'', ''/help-center'', ''/hotspot'',
     ''/invoices'', ''/log'', ''/network'', ''/payments'', ''/pengguna'', ''/registrations'', ''/reports'', ''/settings'',
     ''/subscriptions'', ''/system'', ''/tasks'', ''/traffic'', ''/users'', ''/voucher'', ''/portal'', ''/portal/invoices/$id'',
     ''/admin/audit-logs'', ''/admin/message-templates'', ''/admin/notification-center'', ''/admin/notifications'',
     ''/admin/routers'', ''/admin/users'', ''/admin/whatsapp'', ''/portal/invoices'']"

definition AuthenticatedAdminRouteRouteChildren :: "string list" where
  "AuthenticatedAdminRouteRouteChildren =
    [''AuthenticatedAdminAuditLogsIndexRoute'', ''AuthenticatedAdminMessageTemplatesIndexRoute'',
     ''AuthenticatedAdminNotificationCenterIndexRoute'', ''AuthenticatedAdminNotificationsIndexRoute'',
     ''AuthenticatedAdminRoutersIndexRoute'', ''AuthenticatedAdminUsersIndexRoute'', ''AuthenticatedAdminWhatsappIndexRoute'']"

definition AuthenticatedRegistrationsRouteRouteChildren :: "string list" where
  "AuthenticatedRegistrationsRouteRouteChildren =
    [''AuthenticatedRegistrationsIndexRoute'']"

definition AuthenticatedSettingsRouteRouteChildren :: "string list" where
  "AuthenticatedSettingsRouteRouteChildren =
    [''AuthenticatedSettingsAccountRoute'', ''AuthenticatedSettingsAppearanceRoute'', ''AuthenticatedSettingsBackupRoute'',
     ''AuthenticatedSettingsBillingRoute'', ''AuthenticatedSettingsDisplayRoute'', ''AuthenticatedSettingsGeneralRoute'',
     ''AuthenticatedSettingsNotificationConfigRoute'', ''AuthenticatedSettingsNotificationsRoute'',
     ''AuthenticatedSettingsPaymentGatewayRoute'', ''AuthenticatedSettingsTelegramRoute'', ''AuthenticatedSettingsWhatsappRoute'',
     ''AuthenticatedSettingsIndexRoute'']"

definition AuthenticatedRouteRouteChildren :: "string list" where
  "AuthenticatedRouteRouteChildren =
    [''AuthenticatedAdminRouteRoute'', ''AuthenticatedRegistrationsRouteRoute'', ''AuthenticatedSettingsRouteRoute'',
     ''AuthenticatedDashboardRoute'', ''AuthenticatedErrorsErrorRoute'', ''AuthenticatedHotspotActiveRoute'',
     ''AuthenticatedHotspotBillingRoute'', ''AuthenticatedHotspotHostsRoute'', ''AuthenticatedHotspotProfilesRoute'',
     ''AuthenticatedHotspotUsersRoute'', ''AuthenticatedPppActiveRoute'', ''AuthenticatedPppBillingRoute'',
     ''AuthenticatedPppProfilesRoute'', ''AuthenticatedPppSecretsRoute'', ''AuthenticatedReportDailyRoute'',
     ''AuthenticatedReportMonthlyRoute'', ''AuthenticatedSubscriptionsMonitoringRoute'', ''AuthenticatedVoucherGenerateRoute'',
     ''AuthenticatedVoucherPrintRoute'', ''AuthenticatedVoucherSalesRoute'', ''AuthenticatedCustomersIndexRoute'',
     ''AuthenticatedHelpCenterIndexRoute'', ''AuthenticatedHotspotIndexRoute'', ''AuthenticatedInvoicesIndexRoute'',
     ''AuthenticatedLogIndexRoute'', ''AuthenticatedNetworkIndexRoute'', ''AuthenticatedPaymentsIndexRoute'',
     ''AuthenticatedPenggunaIndexRoute'', ''AuthenticatedReportsIndexRoute'', ''AuthenticatedSubscriptionsIndexRoute'',
     ''AuthenticatedSystemIndexRoute'', ''AuthenticatedTasksIndexRoute'', ''AuthenticatedTrafficIndexRoute'',
     ''AuthenticatedUsersIndexRoute'', ''AuthenticatedVoucherIndexRoute'']"

definition PortalAppRouteRouteChildren :: "string list" where
  "PortalAppRouteRouteChildren =
    [''PortalAppPaymentsRoute'', ''PortalAppProfileRoute'', ''PortalAppSubscriptionsRoute'', ''PortalAppTicketsRoute'',
     ''PortalAppIndexRoute'', ''PortalAppInvoicesIdRoute'', ''PortalAppInvoicesIndexRoute'']"

definition rootRouteChildren :: "string list" where
  "rootRouteChildren =
    [''IndexRoute'', ''AuthenticatedRouteRoute'', ''PortalAppRouteRoute'', ''authForgotPasswordRoute'', ''authOtpRoute'',
     ''authSignInRoute'', ''authSignIn2Route'', ''errors401Route'', ''errors403Route'', ''errors404Route'', ''errors500Route'',
     ''errors503Route'', ''publicRegisterRoute'', ''PortalLoginRoute'']"

fun layout_children :: "layout \<Rightarrow> string list" where
  "layout_children Root = rootRouteChildren"
| "layout_children Authenticated = AuthenticatedRouteRouteChildren"
| "layout_children PortalApp = PortalAppRouteRouteChildren"
| "layout_children Settings = AuthenticatedSettingsRouteRouteChildren"
| "layout_children Registrations = AuthenticatedRegistrationsRouteRouteChildren"
| "layout_children Admin = AuthenticatedAdminRouteRouteChildren"

section \<open>Addresses\<close>

text \<open>The constant of a layout, and the address of a node: the address of its parent followed by its path.\<close>

fun layout_name :: "layout \<Rightarrow> string" where
  "layout_name Root = ''rootRoute''"
| "layout_name Authenticated = ''AuthenticatedRouteRoute''"
| "layout_name PortalApp = ''PortalAppRouteRoute''"
| "layout_name Settings = ''AuthenticatedSettingsRouteRoute''"
| "layout_name Registrations = ''AuthenticatedRegistrationsRouteRoute''"
| "layout_name Admin = ''AuthenticatedAdminRouteRoute''"

text \<open>The layouts that are nodes themselves, and the path each adds.\<close>

fun layout_path :: "layout \<Rightarrow> string" where
  "layout_path PortalApp = ''/portal''"
| "layout_path Settings = ''/settings''"
| "layout_path Registrations = ''/registrations''"
| "layout_path Admin = ''/admin''"
| "layout_path _ = []"

fun layout_parent :: "layout \<Rightarrow> layout option" where
  "layout_parent Root = None"
| "layout_parent Authenticated = Some Root"
| "layout_parent PortalApp = Some Root"
| "layout_parent _ = Some Authenticated"

definition address :: "node \<Rightarrow> string" where
  "address = (\<lambda>(n, i, p, l). layout_path l @ or_else p [])"

text \<open>The address without the slash an index route ends in.\<close>

definition strip_slash :: "string \<Rightarrow> string" where
  "strip_slash a = (if 1 < length a \<and> last a = CHR ''/'' then butlast a else a)"

section \<open>Guards along the tree\<close>

text \<open>The \<open>beforeLoad\<close> of each layout; a layout without one lets everything pass.\<close>

fun layout_guard :: "auth_state \<Rightarrow> portal_state \<Rightarrow> string \<Rightarrow> layout \<Rightarrow> redirect option" where
  "layout_guard s ps href Root = None"
| "layout_guard s ps href Authenticated = authenticated_guard s href"
| "layout_guard s ps href PortalApp = portal_guard ps"
| "layout_guard s ps href Settings = None"
| "layout_guard s ps href Registrations = registrations_guard s"
| "layout_guard s ps href Admin = admin_guard s"

function ancestors :: "layout \<Rightarrow> layout list" where
  "ancestors l = (case layout_parent l of None \<Rightarrow> [] | Some p \<Rightarrow> ancestors p) @ [l]"
  by auto
termination
  by (relation "measure (\<lambda>l. case l of Root \<Rightarrow> 0 | Authenticated \<Rightarrow> 1 | PortalApp \<Rightarrow> 1 | _ \<Rightarrow> 2)")
     (auto split: layout.splits elim: layout_parent.elims)

declare ancestors.simps [simp del]

definition all_layouts :: "layout list" where
  "all_layouts = [Root, Authenticated, PortalApp, Settings, Registrations, Admin]"

text \<open>The layouts a navigation to a node runs through, from the root: those above it, and the node itself when it is one.\<close>

definition node_layouts :: "node \<Rightarrow> layout list" where
  "node_layouts = (\<lambda>(n, i, p, l). ancestors l @ filter (\<lambda>k. layout_name k = n) all_layouts)"

fun first_redirect :: "redirect option list \<Rightarrow> redirect option" where
  "first_redirect [] = None"
| "first_redirect (None # rs) = first_redirect rs"
| "first_redirect (Some r # rs) = Some r"

definition load_node :: "auth_state \<Rightarrow> portal_state \<Rightarrow> string \<Rightarrow> node \<Rightarrow> redirect option" where
  "load_node s ps href nd = first_redirect (map (layout_guard s ps href) (node_layouts nd))"

section \<open>Lemmas\<close>

lemma ancestors_eq:
  "ancestors Root = [Root]" "ancestors Authenticated = [Root, Authenticated]" "ancestors PortalApp = [Root, PortalApp]"
  "ancestors Settings = [Root, Authenticated, Settings]" "ancestors Registrations = [Root, Authenticated, Registrations]"
  "ancestors Admin = [Root, Authenticated, Admin]"
  by (simp_all add: ancestors.simps)

lemma layout_tables:
  "list_all (\<lambda>l. set (map fst (filter (\<lambda>(n, i, p, q). q = l) route_nodes)) = set (layout_children l)) all_layouts"
  by code_simp

lemma declared_addresses: "set (map address (filter (\<lambda>(n, i, p, q). p \<noteq> None) route_nodes)) = set FileRoutesByFullPath"
  by code_simp

lemma link_addresses: "set FileRoutesByTo = set (map strip_slash FileRoutesByFullPath)"
  by code_simp

text \<open>What the guards see of a node: the sections its address lies in are the guarded layouts above it.\<close>

definition sections_agree :: "node \<Rightarrow> bool" where
  "sections_agree nd =
     (let ls = node_layouts nd; a = address nd in
      (Admin \<in> set ls \<longleftrightarrow> in_section ''/admin'' a) \<and> (Registrations \<in> set ls \<longleftrightarrow> in_section ''/registrations'' a) \<and>
      (case ls of
         Root # Authenticated # ks \<Rightarrow> ks \<in> set [[], [Settings], [Registrations], [Admin]]
       | Root # PortalApp # ks \<Rightarrow> ks = []
       | _ \<Rightarrow> ls = [Root]))"

lemma tree_sections: "list_all (\<lambda>nd. fst (snd (snd nd)) = None \<or> sections_agree nd) route_nodes"
  by code_simp

lemma in_section_suffix:
  assumes "suf = [] \<or> hd suf \<in> set ''?#''" "\<forall>c \<in> set ''?#''. c \<notin> set a \<and> c \<notin> set base"
  shows "in_section base (a @ suf) \<longleftrightarrow> in_section base a"
proof
  assume "in_section base a"
  then show "in_section base (a @ suf)"
  proof (cases "a = base")
    case True
    then show ?thesis using assms(1) by (cases suf) (auto simp: in_section_def)
  qed (auto simp: in_section_def prefix_def)
next
  assume "in_section base (a @ suf)"
  then consider "a @ suf = base" | c where "c \<in> set ''/?#''" "prefix (base @ [c]) (a @ suf)" by (auto simp: in_section_def)
  then show "in_section base a"
  proof cases
    case 1
    then have "suf = []" using assms by (cases suf) auto
    then show ?thesis using 1 by (simp add: in_section_def)
  next
    case 2
    show ?thesis
    proof (cases "prefix (base @ [c]) a")
      case False
      then obtain t where t: "base @ [c] = a @ t" "t \<noteq> []" "prefix t suf"
        using 2(2) by (auto simp: prefix_append)
      then obtain u where "base = a @ u" "t = u @ [c]" by (cases t rule: rev_cases) auto
      moreover have "u = []" using t assms calculation by (cases u; cases suf) (auto simp: prefix_Cons)
      ultimately show ?thesis by (simp add: in_section_def)
    qed (use 2(1) in \<open>auto simp: in_section_def\<close>)
  qed
qed

lemma plain_addresses: "list_all (\<lambda>nd. CHR ''?'' \<notin> set (address nd) \<and> CHR ''#'' \<notin> set (address nd)) route_nodes"
  by code_simp

text \<open>
  C19. The guards of the tree are the ones of the model of the session: for every page of the tree, at its address with
  any query string or fragment, the guards of the layouts above it, run from the root, let the staff session pass or
  redirect it exactly as \<open>staff_guards\<close> says when the page lies below the staff layout, ask the portal session when it
  lies below the portal's, and never redirect otherwise.
\<close>

theorem guards_of_tree:
  assumes "nd \<in> set route_nodes" "fst (snd (snd nd)) \<noteq> None" "suf = [] \<or> hd suf \<in> set ''?#''"
  shows "load_node s ps (address nd @ suf) nd =
    (if Authenticated \<in> set (node_layouts nd) then staff_guards s (address nd @ suf)
     else if PortalApp \<in> set (node_layouts nd) then portal_guard ps else None)"
proof -
  let ?h = "address nd @ suf"
  have ok: "sections_agree nd" using tree_sections assms(1,2) by (auto simp: list_all_iff)
  have sec: "in_section b ?h \<longleftrightarrow> in_section b (address nd)" if "b = ''/admin'' \<or> b = ''/registrations''" for b
    using that plain_addresses assms(1,3) by (intro in_section_suffix) (auto simp: list_all_iff)
  have guards: "first_redirect [x, y] = (case x of None \<Rightarrow> y | Some r \<Rightarrow> Some r)" "first_redirect [x] = x" for x y
    by (cases x; cases y; simp)+
  consider ks where "node_layouts nd = Root # Authenticated # ks" "ks \<in> set [[], [Settings], [Registrations], [Admin]]"
    | "node_layouts nd = [Root, PortalApp]" | "node_layouts nd = [Root]"
    using ok unfolding sections_agree_def Let_def by (auto split: list.splits layout.splits)
  then show ?thesis
  proof cases
    case 1
    have "Admin \<in> set ks \<longleftrightarrow> in_section ''/admin'' ?h" "Registrations \<in> set ks \<longleftrightarrow> in_section ''/registrations'' ?h"
      using ok 1(1) sec by (simp_all add: sections_agree_def Let_def)
    then show ?thesis
      using 1 by (auto simp: load_node_def staff_guards_def guards split: option.splits)
  qed (simp_all add: load_node_def guards)
qed

theorem guards_of_tree_witness:
  "load_node \<lparr>doc = Some [], ls = [], user = None, accessToken = JStr [], refreshToken = []\<rparr> \<lparr>portal_ls = [], customerToken = [], customerUser = None\<rparr>
     (''/dashboard?tab=1'') (''AuthenticatedDashboardRoute'', ''/dashboard'', Some ''/dashboard'', Authenticated)
   = Some (''/sign-in'', [(''redirect'', ''/dashboard?tab=1'')])"
proof -
  let ?n = "(''AuthenticatedDashboardRoute'', ''/dashboard'', Some ''/dashboard'', Authenticated)"
  have "?n \<in> set route_nodes" by (simp add: route_nodes_def route_nodes_1_def)
  moreover have "address ?n = ''/dashboard''" "Authenticated \<in> set (node_layouts ?n)"
    by (simp_all add: address_def node_layouts_def ancestors_eq)
  ultimately show ?thesis
    using guards_of_tree [of ?n "''?tab=1''"] by (simp add: staff_guards_def authenticated_guard_def)
qed

text \<open>
  The generated tables agree: each layout's list of children is exactly the set of nodes that name it as their
  parent, the declared addresses are exactly the ones the tree gives its pages, and the addresses a link may name are
  the declared ones without the slash of an index page.
\<close>

theorem routes_consistent:
  "(\<forall>l. set (map fst (filter (\<lambda>(n, i, p, q). q = l) route_nodes)) = set (layout_children l)) \<and>
   set (map address (filter (\<lambda>(n, i, p, q). p \<noteq> None) route_nodes)) = set FileRoutesByFullPath \<and>
   set FileRoutesByTo = set (map strip_slash FileRoutesByFullPath)"
proof -
  have "set (map fst (filter (\<lambda>(n, i, p, q). q = l) route_nodes)) = set (layout_children l)" for l
  proof -
    have "l \<in> set all_layouts" by (cases l) (simp_all add: all_layouts_def)
    then show ?thesis using layout_tables unfolding list_all_iff by blast
  qed
  then show ?thesis using declared_addresses link_addresses by blast
qed

end
