(* ===== verification/Preferences.thy ===== *)
theory Preferences
  imports Session Forms
begin

text \<open>
  What the browser remembers of the user's choices: the look of the pages (\<^verbatim>\<open>context/direction-provider.tsx\<close>,
  \<^verbatim>\<open>font-provider.tsx\<close>, \<^verbatim>\<open>layout-provider.tsx\<close>, \<^verbatim>\<open>theme-provider.tsx\<close>) in cookies, the bottom bar of the phone layout
  (\<^verbatim>\<open>context/mobile-nav-store.tsx\<close>) and the selected router (\<^verbatim>\<open>stores/active-router-store.ts\<close>,
  \<^verbatim>\<open>components/layout/router-switcher.tsx\<close>) in \<open>localStorage\<close>; and the simulated ping (\<^verbatim>\<open>hooks/use-ping.ts\<close>).
\<close>

section \<open>Look\<close>

definition fonts :: "string list" where
  "fonts = [''inter'', ''manrope'', ''system'']"

definition THEME_CLASSES :: "string list" where
  "THEME_CLASSES = [''light'', ''dark'', ''blue'', ''green'', ''pink'', ''roslib-dark'', ''roslib-light'']"

definition ACCENT_CLASSES :: "string list" where
  "ACCENT_CLASSES = [''accent-roslib'', ''accent-tech'', ''accent-sunset'', ''accent-corporate'', ''accent-natural'']"

definition DEFAULT_THEME :: string where
  "DEFAULT_THEME = ''system''"

definition DEFAULT_ACCENT :: string where
  "DEFAULT_ACCENT = ''accent-roslib''"

definition THEME_COOKIE_NAME :: string where
  "THEME_COOKIE_NAME = ''vite-ui-theme''"

definition ACCENT_COOKIE_NAME :: string where
  "ACCENT_COOKIE_NAME = ''vite-ui-accent''"

definition THEME_COOKIE_MAX_AGE :: nat where
  "THEME_COOKIE_MAX_AGE = 60 * 60 * 24 * 365"

definition FONT_COOKIE_NAME :: string where
  "FONT_COOKIE_NAME = ''font''"

definition FONT_COOKIE_MAX_AGE :: nat where
  "FONT_COOKIE_MAX_AGE = 60 * 60 * 24 * 365"

definition DEFAULT_DIRECTION :: string where
  "DEFAULT_DIRECTION = ''ltr''"

definition DIRECTION_COOKIE_NAME :: string where
  "DIRECTION_COOKIE_NAME = ''dir''"

definition DIRECTION_COOKIE_MAX_AGE :: nat where
  "DIRECTION_COOKIE_MAX_AGE = 60 * 60 * 24 * 365"

definition LAYOUT_COLLAPSIBLE_COOKIE_NAME :: string where
  "LAYOUT_COLLAPSIBLE_COOKIE_NAME = ''layout_collapsible''"

definition LAYOUT_VARIANT_COOKIE_NAME :: string where
  "LAYOUT_VARIANT_COOKIE_NAME = ''layout_variant''"

definition LAYOUT_COOKIE_MAX_AGE :: nat where
  "LAYOUT_COOKIE_MAX_AGE = 60 * 60 * 24 * 7"

definition DEFAULT_VARIANT :: string where
  "DEFAULT_VARIANT = ''inset''"

definition DEFAULT_COLLAPSIBLE :: string where
  "DEFAULT_COLLAPSIBLE = ''icon''"

text \<open>\<open>saved || default\<close>\<close>

definition or_default :: "string \<Rightarrow> string option \<Rightarrow> string" where
  "or_default d v = (case v of None \<Rightarrow> d | Some s \<Rightarrow> if s = [] then d else s)"

definition isAccent :: "string option \<Rightarrow> bool" where
  "isAccent value = (case value of None \<Rightarrow> False | Some s \<Rightarrow> s \<noteq> [] \<and> s \<in> set ACCENT_CLASSES)"

text \<open>The four providers share the document's cookies; \<open>mount\<close> is the state they start with.\<close>

record prefs =
  pf_doc :: "jar option"
  pf_dir :: string
  pf_font :: string
  pf_collapsible :: string
  pf_variant :: string
  pf_theme :: string
  pf_accent :: string

definition DirectionProvider_init :: "jar option \<Rightarrow> string" where
  "DirectionProvider_init d = or_default DEFAULT_DIRECTION (getCookie DIRECTION_COOKIE_NAME d)"

definition FontProvider_init :: "jar option \<Rightarrow> string" where
  "FontProvider_init d =
     (case getCookie FONT_COOKIE_NAME d of
        None \<Rightarrow> hd fonts
      | Some savedFont \<Rightarrow> if savedFont \<in> set fonts then savedFont else hd fonts)"

definition collapsible_init :: "jar option \<Rightarrow> string" where
  "collapsible_init d = or_default DEFAULT_COLLAPSIBLE (getCookie LAYOUT_COLLAPSIBLE_COOKIE_NAME d)"

definition variant_init :: "jar option \<Rightarrow> string" where
  "variant_init d = or_default DEFAULT_VARIANT (getCookie LAYOUT_VARIANT_COOKIE_NAME d)"

definition theme_init :: "jar option \<Rightarrow> string" where
  "theme_init d = or_default DEFAULT_THEME (getCookie THEME_COOKIE_NAME d)"

definition accent_init :: "jar option \<Rightarrow> string" where
  "accent_init d = (let stored = getCookie ACCENT_COOKIE_NAME d in if isAccent stored then the stored else DEFAULT_ACCENT)"

definition mount :: "jar option \<Rightarrow> prefs" where
  "mount d =
     \<lparr>pf_doc = d, pf_dir = DirectionProvider_init d, pf_font = FontProvider_init d, pf_collapsible = collapsible_init d,
      pf_variant = variant_init d, pf_theme = theme_init d, pf_accent = accent_init d\<rparr>"

definition setDir :: "string \<Rightarrow> prefs \<Rightarrow> prefs" where
  "setDir v s = s\<lparr>pf_dir := v, pf_doc := setCookie DIRECTION_COOKIE_NAME v DIRECTION_COOKIE_MAX_AGE (pf_doc s)\<rparr>"

definition resetDir :: "prefs \<Rightarrow> prefs" where
  "resetDir s = s\<lparr>pf_dir := DEFAULT_DIRECTION, pf_doc := removeCookie DIRECTION_COOKIE_NAME (pf_doc s)\<rparr>"

definition setFont :: "string \<Rightarrow> prefs \<Rightarrow> prefs" where
  "setFont v s = s\<lparr>pf_doc := setCookie FONT_COOKIE_NAME v FONT_COOKIE_MAX_AGE (pf_doc s), pf_font := v\<rparr>"

definition resetFont :: "prefs \<Rightarrow> prefs" where
  "resetFont s = s\<lparr>pf_doc := removeCookie FONT_COOKIE_NAME (pf_doc s), pf_font := hd fonts\<rparr>"

definition setCollapsible :: "string \<Rightarrow> prefs \<Rightarrow> prefs" where
  "setCollapsible v s =
     s\<lparr>pf_collapsible := v, pf_doc := setCookie LAYOUT_COLLAPSIBLE_COOKIE_NAME v LAYOUT_COOKIE_MAX_AGE (pf_doc s)\<rparr>"

definition setVariant :: "string \<Rightarrow> prefs \<Rightarrow> prefs" where
  "setVariant v s = s\<lparr>pf_variant := v, pf_doc := setCookie LAYOUT_VARIANT_COOKIE_NAME v LAYOUT_COOKIE_MAX_AGE (pf_doc s)\<rparr>"

definition resetLayout :: "prefs \<Rightarrow> prefs" where
  "resetLayout s = setVariant DEFAULT_VARIANT (setCollapsible DEFAULT_COLLAPSIBLE s)"

definition setTheme :: "string \<Rightarrow> prefs \<Rightarrow> prefs" where
  "setTheme v s = s\<lparr>pf_doc := setCookie THEME_COOKIE_NAME v THEME_COOKIE_MAX_AGE (pf_doc s), pf_theme := v\<rparr>"

definition setAccent :: "string \<Rightarrow> prefs \<Rightarrow> prefs" where
  "setAccent v s = s\<lparr>pf_doc := setCookie ACCENT_COOKIE_NAME v THEME_COOKIE_MAX_AGE (pf_doc s), pf_accent := v\<rparr>"

definition resetTheme :: "prefs \<Rightarrow> prefs" where
  "resetTheme s =
     s\<lparr>pf_doc := removeCookie ACCENT_COOKIE_NAME (removeCookie THEME_COOKIE_NAME (pf_doc s)),
       pf_theme := DEFAULT_THEME, pf_accent := DEFAULT_ACCENT\<rparr>"

text \<open>The values the types allow, and the operations of the providers as steps.\<close>

definition Themes :: "string list" where
  "Themes = ''system'' # THEME_CLASSES"

inductive pref_step :: "prefs \<Rightarrow> prefs \<Rightarrow> bool" where
  set_dir: "v \<in> {''ltr'', ''rtl''} \<Longrightarrow> pref_step s (setDir v s)"
| reset_dir: "pref_step s (resetDir s)"
| set_font: "v \<in> set fonts \<Longrightarrow> pref_step s (setFont v s)"
| reset_font: "pref_step s (resetFont s)"
| set_collapsible: "v \<in> {''offcanvas'', ''icon'', ''none''} \<Longrightarrow> pref_step s (setCollapsible v s)"
| set_variant: "v \<in> {''inset'', ''sidebar'', ''floating''} \<Longrightarrow> pref_step s (setVariant v s)"
| reset_layout: "pref_step s (resetLayout s)"
| set_theme: "v \<in> set Themes \<Longrightarrow> pref_step s (setTheme v s)"
| set_accent: "v \<in> set ACCENT_CLASSES \<Longrightarrow> pref_step s (setAccent v s)"
| reset_theme: "pref_step s (resetTheme s)"

lemmas pref_names = THEME_COOKIE_NAME_def ACCENT_COOKIE_NAME_def FONT_COOKIE_NAME_def DIRECTION_COOKIE_NAME_def
  LAYOUT_COLLAPSIBLE_COOKIE_NAME_def LAYOUT_VARIANT_COOKIE_NAME_def

lemmas pref_ages = THEME_COOKIE_MAX_AGE_def FONT_COOKIE_MAX_AGE_def DIRECTION_COOKIE_MAX_AGE_def LAYOUT_COOKIE_MAX_AGE_def

lemmas pref_ops = setDir_def resetDir_def setFont_def resetFont_def setCollapsible_def setVariant_def resetLayout_def
  setTheme_def setAccent_def resetTheme_def

lemma cookie_set:
  assumes "wf_document d" "ok_name n" "ok_value v" "0 < a"
  shows "wf_document (setCookie n v a d)"
    and "ok_name k \<Longrightarrow> getCookie k (setCookie n v a d) = (if k = n then Some v else getCookie k d)"
  using assms by (auto simp: wf_document_def setCookie_ok getCookie_lookup wf_obj_put store_simps ok_name_def split: option.splits)

text \<open>The names and the values are words of printable characters.\<close>

definition word_char :: "char \<Rightarrow> bool" where
  "word_char c = (32 < code_of c \<and> code_of c < 127 \<and> code_of c \<noteq> 59 \<and> code_of c \<noteq> 61)"

lemma word_ok:
  assumes "list_all word_char s" "s \<noteq> []"
  shows "ok_name s" "ok_value s"
proof -
  have c: "word_char c" if "c \<in> set s" for c using assms(1) that by (auto simp: list_all_iff)
  have "CHR '';'' \<notin> set s" "CHR ''='' \<notin> set s" using c [of "CHR '';''"] c [of "CHR ''=''"] by (auto simp: word_char_def code_of_def)
  moreover have "\<not> list_ex is_ctl s" using c by (force simp: list_ex_iff is_ctl_def word_char_def)
  moreover have "word_char (hd s)" "word_char (last s)" using c assms(2) by auto
  then have "\<not> is_wsp (hd s)" "\<not> is_wsp (last s)" by (auto simp: word_char_def is_wsp_def)
  ultimately show "ok_name s" "ok_value s" using assms(2) by (simp_all add: ok_name_def ok_value_def)
qed

lemma pref_names_ok:
  "ok_name THEME_COOKIE_NAME" "ok_name ACCENT_COOKIE_NAME" "ok_name FONT_COOKIE_NAME" "ok_name DIRECTION_COOKIE_NAME"
  "ok_name LAYOUT_COLLAPSIBLE_COOKIE_NAME" "ok_name LAYOUT_VARIANT_COOKIE_NAME"
  by (rule word_ok(1); simp add: pref_names word_char_def code_of_def)+

lemma pref_names_differ:
  "THEME_COOKIE_NAME \<noteq> ACCENT_COOKIE_NAME" "THEME_COOKIE_NAME \<noteq> FONT_COOKIE_NAME" "THEME_COOKIE_NAME \<noteq> DIRECTION_COOKIE_NAME" "THEME_COOKIE_NAME \<noteq> LAYOUT_COLLAPSIBLE_COOKIE_NAME" "THEME_COOKIE_NAME \<noteq> LAYOUT_VARIANT_COOKIE_NAME"
  "ACCENT_COOKIE_NAME \<noteq> FONT_COOKIE_NAME" "ACCENT_COOKIE_NAME \<noteq> DIRECTION_COOKIE_NAME" "ACCENT_COOKIE_NAME \<noteq> LAYOUT_COLLAPSIBLE_COOKIE_NAME" "ACCENT_COOKIE_NAME \<noteq> LAYOUT_VARIANT_COOKIE_NAME"
  "FONT_COOKIE_NAME \<noteq> DIRECTION_COOKIE_NAME" "FONT_COOKIE_NAME \<noteq> LAYOUT_COLLAPSIBLE_COOKIE_NAME" "FONT_COOKIE_NAME \<noteq> LAYOUT_VARIANT_COOKIE_NAME"
  "DIRECTION_COOKIE_NAME \<noteq> LAYOUT_COLLAPSIBLE_COOKIE_NAME" "DIRECTION_COOKIE_NAME \<noteq> LAYOUT_VARIANT_COOKIE_NAME"
  "LAYOUT_COLLAPSIBLE_COOKIE_NAME \<noteq> LAYOUT_VARIANT_COOKIE_NAME"
  by (simp_all add: pref_names)

definition pref_values :: "string list" where
  "pref_values = [''ltr'', ''rtl'', ''offcanvas'', ''icon'', ''none'', ''inset'', ''sidebar'', ''floating''] @ fonts @ Themes @ ACCENT_CLASSES"

lemma pref_values_ok: "v \<in> set pref_values \<Longrightarrow> ok_value v \<and> v \<noteq> []"
proof -
  have "list_all (\<lambda>v. list_all word_char v \<and> v \<noteq> []) pref_values"
    by (simp add: pref_values_def fonts_def Themes_def THEME_CLASSES_def ACCENT_CLASSES_def word_char_def code_of_def)
  then show "v \<in> set pref_values \<Longrightarrow> ok_value v \<and> v \<noteq> []" by (auto simp: list_all_iff intro: word_ok)
qed

definition look_kept :: "prefs \<Rightarrow> bool" where
  "look_kept s = (wf_document (pf_doc s) \<and> mount (pf_doc s) = s)"

text \<open>What a change of one cookie does to the other settings: nothing.\<close>

lemmas look_defs = mount_def DirectionProvider_init_def FontProvider_init_def collapsible_init_def variant_init_def theme_init_def
  accent_init_def

lemma pref_step_keeps:
  assumes "pref_step s t" "look_kept s"
  shows "look_kept t"
proof -
  have wf: "wf_document (pf_doc s)" and m: "mount (pf_doc s) = s" using assms(2) by (simp_all add: look_kept_def)
  have f: "pf_dir s = DirectionProvider_init (pf_doc s)" "pf_font s = FontProvider_init (pf_doc s)"
    "pf_collapsible s = collapsible_init (pf_doc s)" "pf_variant s = variant_init (pf_doc s)"
    "pf_theme s = theme_init (pf_doc s)" "pf_accent s = accent_init (pf_doc s)"
    using arg_cong [OF m, of pf_dir] arg_cong [OF m, of pf_font] arg_cong [OF m, of pf_collapsible] arg_cong [OF m, of pf_variant]
      arg_cong [OF m, of pf_theme] arg_cong [OF m, of pf_accent] by (simp_all add: mount_def)
  have pos: "0 < THEME_COOKIE_MAX_AGE" "0 < FONT_COOKIE_MAX_AGE" "0 < DIRECTION_COOKIE_MAX_AGE" "0 < LAYOUT_COOKIE_MAX_AGE"
    by (simp_all add: pref_ages)
  have put: "wf_document (setCookie n v a (pf_doc s)) \<and>
      (\<forall>k. ok_name k \<longrightarrow> getCookie k (setCookie n v a (pf_doc s)) = (if k = n then Some v else getCookie k (pf_doc s)))"
    if "ok_name n" "v \<in> set pref_values" "0 < a" for n v a
    using cookie_set [OF wf that(1) _ that(3)] pref_values_ok [OF that(2)] by simp
  note simps = look_kept_def pref_names_ok pref_names_differ pref_names_differ [symmetric] pos
  from assms(1) show ?thesis
  proof cases
    case (set_dir v)
    then have "v \<in> set pref_values" "v \<noteq> []" by (auto simp: pref_values_def)
    then show ?thesis using f set_dir(1) put [of DIRECTION_COOKIE_NAME v DIRECTION_COOKIE_MAX_AGE]
      by (simp add: simps setDir_def look_defs or_default_def)
  next
    case (set_font v)
    then have "v \<in> set pref_values" "v \<noteq> []" using pref_values_ok [of v] by (auto simp: pref_values_def)
    then show ?thesis using f set_font put [of FONT_COOKIE_NAME v FONT_COOKIE_MAX_AGE]
      by (simp add: simps setFont_def look_defs or_default_def)
  next
    case (set_collapsible v)
    then have "v \<in> set pref_values" "v \<noteq> []" by (auto simp: pref_values_def)
    then show ?thesis using f set_collapsible(1) put [of LAYOUT_COLLAPSIBLE_COOKIE_NAME v LAYOUT_COOKIE_MAX_AGE]
      by (simp add: simps setCollapsible_def look_defs or_default_def)
  next
    case (set_variant v)
    then have "v \<in> set pref_values" "v \<noteq> []" by (auto simp: pref_values_def)
    then show ?thesis using f set_variant(1) put [of LAYOUT_VARIANT_COOKIE_NAME v LAYOUT_COOKIE_MAX_AGE]
      by (simp add: simps setVariant_def look_defs or_default_def)
  next
    case (set_theme v)
    then have "v \<in> set pref_values" "v \<noteq> []" using pref_values_ok [of v] by (auto simp: pref_values_def)
    then show ?thesis using f set_theme(1) put [of THEME_COOKIE_NAME v THEME_COOKIE_MAX_AGE]
      by (simp add: simps setTheme_def look_defs or_default_def)
  next
    case (set_accent v)
    then have "v \<in> set pref_values" "v \<noteq> []" using pref_values_ok [of v] by (auto simp: pref_values_def)
    then show ?thesis using f set_accent put [of ACCENT_COOKIE_NAME v THEME_COOKIE_MAX_AGE]
      by (simp add: simps setAccent_def look_defs or_default_def isAccent_def)
  next
    case reset_layout
    have d: "DEFAULT_COLLAPSIBLE \<in> set pref_values" "DEFAULT_VARIANT \<in> set pref_values" "DEFAULT_COLLAPSIBLE \<noteq> []" "DEFAULT_VARIANT \<noteq> []"
      by (simp_all add: pref_values_def DEFAULT_COLLAPSIBLE_def DEFAULT_VARIANT_def)
    show ?thesis using f reset_layout d put [of LAYOUT_COLLAPSIBLE_COOKIE_NAME DEFAULT_COLLAPSIBLE LAYOUT_COOKIE_MAX_AGE]
        cookie_set [of _ LAYOUT_VARIANT_COOKIE_NAME DEFAULT_VARIANT LAYOUT_COOKIE_MAX_AGE] pref_values_ok
      by (simp add: simps resetLayout_def setVariant_def setCollapsible_def look_defs or_default_def)
  qed (use f wf in \<open>simp_all add: pref_ops simps look_defs or_default_def isAccent_def cookies.get_del cookies.wf_del\<close>)
qed

interpretation look: inductive_invariant "\<lambda>s. \<exists>d. wf_document d \<and> s = mount d" pref_step look_kept
proof
  fix s t
  show "\<exists>d. wf_document d \<and> s = mount d \<Longrightarrow> look_kept s" by (auto simp: look_kept_def mount_def)
  show "pref_step s t \<Longrightarrow> look_kept s \<Longrightarrow> look_kept t" by (rule pref_step_keeps)
qed

text \<open>
  The look survives a reload: from a page loaded on a well-formed cookie jar, after any sequence of changes and
  resets of direction, font, layout, theme and accent, a page loaded on the cookies left behind starts with exactly
  the same direction, font, layout, theme and accent, and the jar is still well formed.
\<close>

theorem look_survives_reload:
  assumes "wf_document d" "pref_step\<^sup>*\<^sup>* (mount d) s"
  shows "mount (pf_doc s) = s \<and> wf_document (pf_doc s)"
proof -
  have "look_kept s" using assms by (blast intro: look.inv_reachable)
  then show ?thesis by (simp add: look_kept_def)
qed

theorem look_survives_reload_witness:
  "mount (pf_doc (resetTheme (setTheme ''dark'' (mount (Some []))))) = resetTheme (setTheme ''dark'' (mount (Some [])))"
proof -
  have 1: "pref_step (mount (Some [])) (setTheme ''dark'' (mount (Some [])))"
    by (rule pref_step.set_theme) (simp add: Themes_def THEME_CLASSES_def)
  have 2: "pref_step (setTheme ''dark'' (mount (Some []))) (resetTheme (setTheme ''dark'' (mount (Some []))))"
    by (rule pref_step.reset_theme)
  have w: "wf_document (Some [])" by (simp add: wf_document_def wf_jar_def)
  show ?thesis
    using look_survives_reload [OF w converse_rtranclp_into_rtranclp [where r = pref_step, OF 1 r_into_rtranclp [where r = pref_step, OF 2]]] by simp
qed

section \<open>Classes of the root element\<close>

text \<open>
  The class list of \<open>document.documentElement\<close> is an ordered set of tokens. \<open>forEach\<close> on it goes by index over the
  list as it is at each turn, so removing the entry at hand makes it skip the next one.
\<close>

definition classList_add :: "string \<Rightarrow> string list \<Rightarrow> string list" where
  "classList_add c cs = (if c \<in> set cs then cs else cs @ [c])"

definition classList_remove :: "string \<Rightarrow> string list \<Rightarrow> string list" where
  "classList_remove c cs = filter (\<lambda>x. x \<noteq> c) cs"

function drop_fonts :: "nat \<Rightarrow> string list \<Rightarrow> string list" where
  "drop_fonts i cs =
     (if i < length cs
      then drop_fonts (Suc i) (if prefix ''font-'' (cs ! i) then classList_remove (cs ! i) cs else cs)
      else cs)"
  by auto

lemma length_remove_le: "length (classList_remove c cs) \<le> length cs"
  by (simp add: classList_remove_def)

termination drop_fonts
  by (relation "measure (\<lambda>(i, cs). length cs - i)")
     (auto simp: length_remove_le intro!: diff_less_mono2 intro: le_less_trans [OF diff_le_mono [OF length_remove_le]])

definition applyFont :: "string \<Rightarrow> string list \<Rightarrow> string list" where
  "applyFont font cs = classList_add (''font-'' @ font) (drop_fonts 0 cs)"

definition resolveThemeClass :: "bool \<Rightarrow> string \<Rightarrow> string" where
  "resolveThemeClass dark theme = (if theme = ''system'' then if dark then ''dark'' else ''light'' else theme)"

definition applyTheme :: "string \<Rightarrow> string list \<Rightarrow> string list" where
  "applyTheme currentTheme cs = classList_add currentTheme (fold classList_remove THEME_CLASSES cs)"

definition applyAccent :: "string \<Rightarrow> string list \<Rightarrow> string list" where
  "applyAccent accent cs = classList_add accent (fold classList_remove ACCENT_CLASSES cs)"

text \<open>
  The media query reports a change of the system's colour scheme (\<open>dark\<close>): only the theme \<open>system\<close> follows it.
\<close>

definition handleChange :: "bool \<Rightarrow> string \<Rightarrow> string list \<Rightarrow> string list" where
  "handleChange dark theme cs = (if theme = ''system'' then applyTheme (resolveThemeClass dark ''system'') cs else cs)"

text \<open>The effects of the three providers, in the order they are mounted.\<close>

definition apply_look :: "string \<Rightarrow> bool \<Rightarrow> string \<Rightarrow> string \<Rightarrow> string list \<Rightarrow> string list" where
  "apply_look font dark theme accent cs =
     applyAccent accent (applyTheme (resolveThemeClass dark theme) (applyFont font cs))"

declare drop_fonts.simps [simp del]

lemma drop_fonts_single:
  assumes "\<forall>x \<in> set cs. \<forall>y \<in> set cs. prefix ''font-'' x \<longrightarrow> prefix ''font-'' y \<longrightarrow> x = y"
    and "\<forall>j < min i (length cs). \<not> prefix ''font-'' (cs ! j)"
  shows "drop_fonts i cs = filter (\<lambda>c. \<not> prefix ''font-'' c) cs"
  using assms
proof (induction i cs rule: drop_fonts.induct)
  case (1 i cs)
  let ?F = "prefix ''font-''"
  show ?case
  proof (cases "i < length cs")
    case False
    then have "\<forall>c \<in> set cs. \<not> ?F c" using 1(3) by (auto simp: in_set_conv_nth)
    then show ?thesis using False by (simp add: drop_fonts.simps [of i])
  next
    case in_range: True
    show ?thesis
    proof (cases "?F (cs ! i)")
      case True
      let ?r = "classList_remove (cs ! i) cs"
      have "c = cs ! i" if "c \<in> set cs" "?F c" for c using 1(2) True in_range that nth_mem by blast
      then have free: "\<forall>c \<in> set ?r. \<not> ?F c" by (auto simp only: classList_remove_def set_filter)
      have a: "\<forall>x \<in> set ?r. \<forall>y \<in> set ?r. ?F x \<longrightarrow> ?F y \<longrightarrow> x = y" using free by blast
      have b: "\<forall>j < min (Suc i) (length ?r). \<not> ?F (?r ! j)" using free by (meson min_less_iff_conj nth_mem)
      have "drop_fonts (Suc i) ?r = filter (\<lambda>c. \<not> ?F c) ?r"
        by (rule 1(1) [OF in_range, unfolded if_P [OF True], OF a b])
      also have "\<dots> = filter (\<lambda>c. \<not> ?F c) cs" unfolding classList_remove_def filter_filter
        by (rule filter_cong) (use True in auto)
      finally show ?thesis using in_range True by (simp only: drop_fonts.simps [of i] if_True)
    next
      case False
      have "\<forall>j < min (Suc i) (length cs). \<not> ?F (cs ! j)" using 1(3) False by (auto simp: less_Suc_eq)
      then have "drop_fonts (Suc i) cs = filter (\<lambda>c. \<not> ?F c) cs" using 1(1) [OF in_range] 1(2) False by simp
      then show ?thesis using in_range False by (simp add: drop_fonts.simps [of i])
    qed
  qed
qed

lemma set_fold_remove: "set (fold classList_remove ds cs) = set cs - set ds"
  by (induction ds arbitrary: cs) (auto simp: classList_remove_def)

lemma set_classList_add: "set (classList_add c cs) = insert c (set cs)"
  by (auto simp: classList_add_def)

text \<open>
  The three effects on the root element, in any state where at most one font class is present: afterwards the root
  has exactly the class of the chosen font, exactly the class of the resolved theme and exactly the class of the
  accent, and every other class is as before.
\<close>

theorem root_classes:
  assumes font: "\<forall>x \<in> set cs. \<forall>y \<in> set cs. prefix ''font-'' x \<longrightarrow> prefix ''font-'' y \<longrightarrow> x = y"
    and chosen: "theme \<in> set Themes" "accent \<in> set ACCENT_CLASSES"
  shows "{c \<in> set (apply_look f dark theme accent cs). prefix ''font-'' c} = {''font-'' @ f} \<and>
    set (apply_look f dark theme accent cs) \<inter> set THEME_CLASSES = {resolveThemeClass dark theme} \<and>
    set (apply_look f dark theme accent cs) \<inter> set ACCENT_CLASSES = {accent} \<and>
    (\<forall>c. \<not> prefix ''font-'' c \<and> c \<notin> set THEME_CLASSES \<and> c \<notin> set ACCENT_CLASSES \<longrightarrow>
      (c \<in> set (apply_look f dark theme accent cs) \<longleftrightarrow> c \<in> set cs))"
proof -
  have f: "set (applyFont f cs) = insert (''font-'' @ f) {c \<in> set cs. \<not> prefix ''font-'' c}"
    using font by (simp add: applyFont_def set_classList_add drop_fonts_single)
  have t: "resolveThemeClass dark theme \<in> set THEME_CLASSES"
    using chosen(1) by (auto simp: resolveThemeClass_def Themes_def THEME_CLASSES_def)
  have after: "set (apply_look f dark theme accent cs) = insert accent (insert (resolveThemeClass dark theme)
      (insert (''font-'' @ f) {c \<in> set cs. \<not> prefix ''font-'' c} - set THEME_CLASSES) - set ACCENT_CLASSES)"
    by (simp add: apply_look_def applyAccent_def applyTheme_def set_classList_add set_fold_remove f)
  have d1: "c \<in> set THEME_CLASSES \<Longrightarrow> \<not> prefix ''font-'' c \<and> c \<notin> set ACCENT_CLASSES" for c
    by (auto simp: THEME_CLASSES_def ACCENT_CLASSES_def)
  have d2: "c \<in> set ACCENT_CLASSES \<Longrightarrow> \<not> prefix ''font-'' c" for c by (auto simp: ACCENT_CLASSES_def)
  have d3: "prefix ''font-'' (''font-'' @ f)" by simp
  have d4: "''font-'' @ f \<notin> set THEME_CLASSES" "''font-'' @ f \<notin> set ACCENT_CLASSES" using d1 d2 d3 by blast+
  show ?thesis unfolding after using t chosen(2) d1 d2 d3 d4 by blast
qed

theorem root_classes_witness:
  "set (apply_look ''inter'' True ''system'' ''accent-tech'' [''light'', ''font-system'', ''h-full''])
     \<inter> set THEME_CLASSES = {''dark''}"
  using root_classes [where cs = "[''light'', ''font-system'', ''h-full'']" and theme = "''system''" and accent = "''accent-tech''"
      and dark = True and f = "''inter''"]
  by (simp add: resolveThemeClass_def Themes_def ACCENT_CLASSES_def)

end
