(* ===== verification/Shell_State.thy ===== *)
theory Shell_State
  imports Preferences View_Models
begin

text \<open>
  What the staff layout keeps in \<open>localStorage\<close>: the entries of the bottom bar of the phone layout
  (\<^verbatim>\<open>context/mobile-nav-store.tsx\<close>, edited in \<^verbatim>\<open>features/settings/display/display-form.tsx\<close>, shown by
  \<^verbatim>\<open>components/layout/mobile-bottom-nav.tsx\<close>), the selected router (\<^verbatim>\<open>stores/active-router-store.ts\<close>) and its
  switcher (\<^verbatim>\<open>components/layout/router-switcher.tsx\<close>); and the simulated ping of the header
  (\<^verbatim>\<open>hooks/use-ping.ts\<close>, \<^verbatim>\<open>components/ping-indicator.tsx\<close>).
\<close>

section \<open>Arrays of strings as JSON\<close>

definition JSON_strings :: "string list \<Rightarrow> string" where
  "JSON_strings xs = ''['' @ js_join '','' (map json_quote xs) @ '']''"

lemma js_join_cons_if: "js_join sep (x # xs) = (if xs = [] then x else x @ sep @ js_join sep xs)"
  by (cases xs) simp_all

lemma json_elements_quotes:
  "length xs < n \<Longrightarrow> xs \<noteq> [] \<Longrightarrow>
   json_elements (Suc n) (js_join '','' (map json_quote xs) @ CHR '']'' # r) = Some (map JStr xs, r)"
proof (induction xs arbitrary: n)
  case (Cons x xs)
  then obtain m where n: "n = Suc m" by (cases n) auto
  show ?case
  proof (cases "xs = []")
    case True
    have "skip_ws (CHR '']'' # r) = CHR '']'' # r" by (simp add: skip_ws_def json_ws_def code_of_def)
    then show ?thesis by (simp add: True n json_elements.simps json_value_quote)
  next
    case False
    let ?t = "js_join '','' (map json_quote xs) @ CHR '']'' # r"
    have "skip_ws (CHR '','' # ?t) = CHR '','' # ?t" by (simp add: skip_ws_def json_ws_def code_of_def)
    moreover have "json_elements (Suc m) ?t = Some (map JStr xs, r)" using Cons False n by simp
    ultimately show ?thesis
      using False by (simp add: n json_elements.simps(2) [of "Suc m"] js_join_cons_if json_value_quote [where n = m])
  qed
qed simp

lemma length_quotes: "length xs \<le> length (js_join '','' (map json_quote xs))"
  by (induction xs) (auto simp: js_join_cons_if json_quote_def)

lemma JSON_parse_strings: "JSON_parse (JSON_strings xs) = Some (JArr (map JStr xs))"
proof (cases "xs = []")
  case True
  have "JSON_parse ''[]'' = Some (JArr [])" by code_simp
  then show ?thesis by (simp add: True JSON_strings_def)
next
  case False
  let ?b = "js_join '','' (map json_quote xs) @ '']''"
  obtain n where n: "2 * length (JSON_strings xs) + 2 = Suc (Suc n)" "length xs < n"
    using length_quotes [of xs] by (auto simp: JSON_strings_def)
  obtain y ys where "xs = y # ys" using False by (cases xs) auto
  then obtain d ds where d: "?b = d # ds" "d = char_of (34::nat)" by (cases "?b") (auto simp: js_join_cons_if json_quote_def split: if_splits)
  have s: "skip_ws (JSON_strings xs) = CHR ''['' # ?b"
    by (simp add: JSON_strings_def skip_ws_def json_ws_def code_of_def)
  have q: "char_of (34::nat) \<noteq> CHR '']''" by code_simp
  then have b: "skip_ws ?b = ?b" "d \<noteq> CHR '']''" using d by (simp_all add: skip_ws_def json_ws_def)
  have e: "json_elements (Suc n) ?b = Some (map JStr xs, [])" using json_elements_quotes [OF n(2) False, of "[]"] by simp
  have "json_value (Suc (Suc n)) (JSON_strings xs) = Some (JArr (map JStr xs), [])"
    using b e d by (simp add: json_value.simps s code_of_def)
  then show ?thesis unfolding JSON_parse_def n(1) by (simp add: skip_ws_def)
qed

section \<open>The bottom bar\<close>

definition STORAGE_KEY :: string where
  "STORAGE_KEY = ''mikhmon-mobile-nav''"

definition MAX_ITEMS :: nat where
  "MAX_ITEMS = 5"

definition DEFAULT_MOBILE_NAV_ITEMS :: "string list" where
  "DEFAULT_MOBILE_NAV_ITEMS = [''dashboard'', ''hotspot'', ''voucher'', ''traffic'', ''settings'']"

definition MobileNavItemId :: "string list" where
  "MobileNavItemId = [''dashboard'', ''hotspot'', ''voucher'', ''traffic'', ''log'', ''report'', ''settings'', ''help-center'']"

text \<open>The entries are what the stored array holds, of whatever type.\<close>

definition loadItems :: "storage \<Rightarrow> js list" where
  "loadItems st =
     (case getItem STORAGE_KEY st of
        None \<Rightarrow> map JStr DEFAULT_MOBILE_NAV_ITEMS
      | Some raw \<Rightarrow>
          (if raw = [] then map JStr DEFAULT_MOBILE_NAV_ITEMS
           else
             (case JSON_parse raw of
                Some (JArr parsed) \<Rightarrow> if 0 < length parsed then parsed else map JStr DEFAULT_MOBILE_NAV_ITEMS
              | _ \<Rightarrow> map JStr DEFAULT_MOBILE_NAV_ITEMS)))"

text \<open>\<open>JSON.stringify\<close> of a value; in an array an undefined entry is null.\<close>

fun JSON_stringify :: "js \<Rightarrow> string" where
  "JSON_stringify JUndef = ''null''"
| "JSON_stringify JNull = ''null''"
| "JSON_stringify (JBool b) = (if b then ''true'' else ''false'')"
| "JSON_stringify (JNum n) = show_rat n"
| "JSON_stringify (JStr s) = json_quote s"
| "JSON_stringify (JArr vs) = ''['' @ js_join '','' (map JSON_stringify vs) @ '']''"
| "JSON_stringify (JObj fs) =
     ''{'' @ js_join '','' (map (\<lambda>(k, v). json_quote k @ '':'' @ JSON_stringify v) (filter (\<lambda>(k, v). v \<noteq> JUndef) fs)) @ ''}''"

record mobile_nav =
  mn_items :: "js list"
  mn_store :: storage

definition MobileNavProvider_init :: "storage \<Rightarrow> mobile_nav" where
  "MobileNavProvider_init st = \<lparr>mn_items = loadItems st, mn_store = st\<rparr>"

definition mn_persist :: "js list \<Rightarrow> mobile_nav \<Rightarrow> mobile_nav" where
  "mn_persist next s = s\<lparr>mn_items := next, mn_store := setItem STORAGE_KEY (JSON_stringify (JArr next)) (mn_store s)\<rparr>"

definition mn_add :: "string \<Rightarrow> mobile_nav \<Rightarrow> mobile_nav" where
  "mn_add i s =
     (let prev = mn_items s in
      if JStr i \<in> set prev \<or> MAX_ITEMS \<le> length prev then s else mn_persist (prev @ [JStr i]) s)"

definition mn_remove :: "string \<Rightarrow> mobile_nav \<Rightarrow> mobile_nav" where
  "mn_remove i s = mn_persist (filter (\<lambda>x. x \<noteq> JStr i) (mn_items s)) s"

text \<open>\<open>indexOf\<close>: -1 is \<open>None\<close>.\<close>

fun index_of :: "'a \<Rightarrow> 'a list \<Rightarrow> nat option" where
  "index_of x [] = None"
| "index_of x (y # ys) = (if y = x then Some 0 else map_option Suc (index_of x ys))"

definition mn_moveUp :: "string \<Rightarrow> mobile_nav \<Rightarrow> mobile_nav" where
  "mn_moveUp i s =
     (let prev = mn_items s in
      case index_of (JStr i) prev of
        None \<Rightarrow> s
      | Some idx \<Rightarrow>
          (if idx = 0 then s else mn_persist (prev[idx - 1 := prev ! idx, idx := prev ! (idx - 1)]) s))"

definition mn_moveDown :: "string \<Rightarrow> mobile_nav \<Rightarrow> mobile_nav" where
  "mn_moveDown i s =
     (let prev = mn_items s in
      case index_of (JStr i) prev of
        None \<Rightarrow> s
      | Some idx \<Rightarrow>
          (if length prev - 1 \<le> idx then s
           else mn_persist (prev[idx := prev ! (idx + 1), idx + 1 := prev ! idx]) s))"

definition move_item :: "nat \<Rightarrow> nat \<Rightarrow> 'a list \<Rightarrow> 'a list" where
  "move_item from to xs =
     (let rest = take from xs @ drop (Suc from) xs in take to rest @ [xs ! from] @ drop to rest)"

definition mn_reorder :: "string \<Rightarrow> string \<Rightarrow> mobile_nav \<Rightarrow> mobile_nav" where
  "mn_reorder activeId overId s =
     (if activeId = overId then s
      else
        (let prev = mn_items s in
         case index_of (JStr activeId) prev of
           None \<Rightarrow> s
         | Some from \<Rightarrow>
             (case index_of (JStr overId) prev of
                None \<Rightarrow> s
              | Some to \<Rightarrow> mn_persist (move_item from to prev) s)))"

definition mn_reset :: "mobile_nav \<Rightarrow> mobile_nav" where
  "mn_reset s = mn_persist (map JStr DEFAULT_MOBILE_NAV_ITEMS) s"

inductive mn_step :: "mobile_nav \<Rightarrow> mobile_nav \<Rightarrow> bool" where
  add: "i \<in> set MobileNavItemId \<Longrightarrow> mn_step s (mn_add i s)"
| remove: "mn_step s (mn_remove i s)"
| up: "mn_step s (mn_moveUp i s)"
| down: "mn_step s (mn_moveDown i s)"
| reorder: "mn_step s (mn_reorder i j s)"
| reset: "mn_step s (mn_reset s)"

text \<open>
  The bar holds different entries, five at most, all of them known, and the storage gives them back -- or the
  defaults, when the bar is empty.
\<close>

definition mn_ok :: "mobile_nav \<Rightarrow> bool" where
  "mn_ok s =
     (distinct (mn_items s) \<and> length (mn_items s) \<le> MAX_ITEMS \<and> set (mn_items s) \<subseteq> JStr ` set MobileNavItemId \<and>
      loadItems (mn_store s) = (if mn_items s = [] then map JStr DEFAULT_MOBILE_NAV_ITEMS else mn_items s))"

lemma index_of_Some: "index_of x xs = Some i \<Longrightarrow> i < length xs \<and> xs ! i = x"
  by (induction xs arbitrary: i) (auto split: if_splits)

lemma index_of_less: "index_of x xs = Some i \<Longrightarrow> i < length xs"
  by (simp add: index_of_Some)

lemma index_of_None: "index_of x xs = None \<longleftrightarrow> x \<notin> set xs"
  by (induction xs) auto

lemma mset_move_item:
  assumes "from < length xs"
  shows "mset (move_item from to xs) = mset xs"
proof -
  let ?rest = "take from xs @ drop (Suc from) xs"
  have 1: "mset (take to ?rest) + mset (drop to ?rest) = mset ?rest" by (metis append_take_drop_id mset_append)
  have "mset (move_item from to xs) = add_mset (xs ! from) (mset (take to ?rest) + mset (drop to ?rest))"
    unfolding move_item_def Let_def mset_append by simp
  also have "\<dots> = mset (take from xs @ xs ! from # drop (Suc from) xs)" unfolding 1 by simp
  also have "\<dots> = mset xs" by (simp only: id_take_nth_drop [OF assms, symmetric])
  finally show ?thesis .
qed

lemma stringify_strings: "JSON_stringify (JArr (map JStr xs)) = JSON_strings xs"
  by (simp add: JSON_strings_def comp_def)

lemma mn_persist_ok:
  assumes "distinct next" "length next \<le> MAX_ITEMS" "set next \<subseteq> JStr ` set MobileNavItemId"
  shows "mn_ok (mn_persist next s)"
proof -
  have "\<exists>xs. next = map JStr xs" unfolding ex_map_conv using assms(3) by auto
  then obtain xs where xs: "next = map JStr xs" ..
  have "JSON_strings xs \<noteq> []" by (simp add: JSON_strings_def)
  then show ?thesis
    using assms unfolding mn_ok_def xs mn_persist_def
    by (simp only: stringify_strings) (auto simp: loadItems_def store_simps JSON_parse_strings)
qed

lemma mn_permuted:
  assumes "mn_ok s" "mset next = mset (mn_items s)"
  shows "mn_ok (mn_persist next s)"
  by (rule mn_persist_ok)
    (use assms mset_eq_setD [OF assms(2)] mset_eq_length [OF assms(2)] mset_eq_imp_distinct_iff [OF assms(2)] in \<open>auto simp: mn_ok_def\<close>)

lemma mn_step_ok: "mn_step s t \<Longrightarrow> mn_ok s \<Longrightarrow> mn_ok t"
proof (induction rule: mn_step.induct)
  case (add i s)
  then show ?case
    by (auto simp: mn_add_def Let_def intro!: mn_persist_ok) (auto simp: mn_ok_def)
next
  case (remove s i)
  then show ?case
    unfolding mn_remove_def by (intro mn_persist_ok) (auto simp: mn_ok_def intro: le_trans [OF length_filter_le])
next
  case (up s i)
  then show ?case
    by (auto simp: mn_moveUp_def Let_def mset_swap intro!: mn_permuted dest!: index_of_less split: option.split)
next
  case (down s i)
  then show ?case
    by (auto simp: mn_moveDown_def Let_def mset_swap intro!: mn_permuted dest!: index_of_less split: option.split)
next
  case (reorder s i j)
  then show ?case
    by (auto simp: mn_reorder_def Let_def mset_move_item intro!: mn_permuted dest!: index_of_less split: option.split)
next
  case (reset s)
  show ?case
    unfolding mn_reset_def by (rule mn_persist_ok) (simp_all add: DEFAULT_MOBILE_NAV_ITEMS_def MobileNavItemId_def MAX_ITEMS_def)
qed

lemma mn_init_ok: "getItem STORAGE_KEY st = None \<Longrightarrow> mn_ok (MobileNavProvider_init st)"
  by (simp add: mn_ok_def MobileNavProvider_init_def loadItems_def DEFAULT_MOBILE_NAV_ITEMS_def MobileNavItemId_def MAX_ITEMS_def)

interpretation bar: inductive_invariant "\<lambda>s. \<exists>st. getItem STORAGE_KEY st = None \<and> s = MobileNavProvider_init st" mn_step mn_ok
  by unfold_locales (auto intro: mn_init_ok mn_step_ok)

text \<open>
  The bottom bar, from the first visit on (nothing stored) and through any sequence of additions, removals, moves
  and resets: it never holds an entry twice or more than five entries, and a reload shows the same bar -- except that
  an emptied bar comes back as the five default entries, because an empty stored array counts as no array.
\<close>

theorem mobile_bar_kept:
  assumes "getItem STORAGE_KEY st = None" "mn_step\<^sup>*\<^sup>* (MobileNavProvider_init st) s"
  shows "distinct (mn_items s) \<and> length (mn_items s) \<le> 5 \<and>
    mn_items (MobileNavProvider_init (mn_store s)) =
      (if mn_items s = [] then map JStr DEFAULT_MOBILE_NAV_ITEMS else mn_items s)"
proof -
  have "mn_ok s" using assms by (blast intro: bar.inv_reachable)
  then show ?thesis by (simp add: mn_ok_def MobileNavProvider_init_def MAX_ITEMS_def)
qed

theorem mobile_bar_kept_witness:
  "mn_items (MobileNavProvider_init (mn_store (mn_remove ''traffic'' (MobileNavProvider_init [])))) =
     map JStr [''dashboard'', ''hotspot'', ''voucher'', ''settings'']"
  using mobile_bar_kept [of "[]" "mn_remove ''traffic'' (MobileNavProvider_init [])"] mn_step.remove [of "MobileNavProvider_init []" "''traffic''"]
  by (simp add: getItem_def mn_remove_def mn_persist_def MobileNavProvider_init_def [of "[]"] loadItems_def [of "[]"]
    DEFAULT_MOBILE_NAV_ITEMS_def r_into_rtranclp)

text \<open>A drag puts the entry at the place of the one it is dropped on; the others keep their order.\<close>

lemma move_item_place:
  assumes "from < length xs" "to < length xs"
  shows "move_item from to xs ! to = xs ! from"
    and "distinct xs \<Longrightarrow> filter (\<lambda>y. y \<noteq> xs ! from) (move_item from to xs) = filter (\<lambda>y. y \<noteq> xs ! from) xs"
proof -
  let ?rest = "take from xs @ drop (Suc from) xs"
  have "to \<le> length ?rest" using assms by simp
  then have "length (take to ?rest) = to" by (simp only: length_take min_absorb2)
  then show "move_item from to xs ! to = xs ! from"
    using nth_append_length [of "take to ?rest" "xs ! from" "drop to ?rest"] unfolding move_item_def Let_def
    by (simp only: append_Cons append_Nil)
  have "filter (\<lambda>y. y \<noteq> xs ! from) (move_item from to xs) = filter (\<lambda>y. y \<noteq> xs ! from) (take to ?rest @ drop to ?rest)"
    unfolding move_item_def Let_def filter_append by simp
  also have "\<dots> = filter (\<lambda>y. y \<noteq> xs ! from) ?rest" by (simp only: append_take_drop_id)
  also have "\<dots> = filter (\<lambda>y. y \<noteq> xs ! from) (take from xs @ xs ! from # drop (Suc from) xs)" by simp
  also have "\<dots> = filter (\<lambda>y. y \<noteq> xs ! from) xs" by (simp only: id_take_nth_drop [OF assms(1), symmetric])
  finally show "filter (\<lambda>y. y \<noteq> xs ! from) (move_item from to xs) = filter (\<lambda>y. y \<noteq> xs ! from) xs" .
qed

text \<open>
  Dragging one entry of the bar onto another: the dragged entry takes exactly the place of the other, nothing is
  lost, and the remaining entries keep their order.
\<close>

theorem reorder_drops_on_place:
  assumes "index_of (JStr a) (mn_items s) = Some from" "index_of (JStr b) (mn_items s) = Some to" "a \<noteq> b"
  shows "mn_items (mn_reorder a b s) ! to = JStr a \<and> mset (mn_items (mn_reorder a b s)) = mset (mn_items s) \<and>
    (distinct (mn_items s) \<longrightarrow>
      filter (\<lambda>y. y \<noteq> JStr a) (mn_items (mn_reorder a b s)) = filter (\<lambda>y. y \<noteq> JStr a) (mn_items s))"
proof -
  have f: "from < length (mn_items s)" "mn_items s ! from = JStr a" "to < length (mn_items s)"
    using assms(1,2) by (simp_all add: index_of_Some)
  have r: "mn_items (mn_reorder a b s) = move_item from to (mn_items s)"
    using assms by (simp add: mn_reorder_def mn_persist_def Let_def)
  show ?thesis
    unfolding r using mset_move_item [OF f(1), of to] move_item_place [OF f(1,3)] f(2) by simp
qed

theorem reorder_drops_on_place_witness:
  "mn_items (mn_reorder ''settings'' ''hotspot'' (MobileNavProvider_init [])) ! 1 = JStr ''settings''"
  using reorder_drops_on_place [of "''settings''" "MobileNavProvider_init []" 4 "''hotspot''" 1]
  by (simp add: MobileNavProvider_init_def loadItems_def getItem_def DEFAULT_MOBILE_NAV_ITEMS_def)

section \<open>The bar on the page and its editor\<close>

record nav_item =
  ni_id :: string
  ni_title :: string
  ni_url :: "string option"
  ni_children :: "(string \<times> string) list option"

definition NAV_ITEMS :: "nav_item list" where
  "NAV_ITEMS =
     [\<lparr>ni_id = ''dashboard'', ni_title = ''Dashboard'', ni_url = Some ''/'', ni_children = None\<rparr>,
      \<lparr>ni_id = ''hotspot'', ni_title = ''Hotspot'', ni_url = None,
        ni_children = Some [(''Users'', ''/hotspot/users''), (''Profiles'', ''/hotspot/profiles''),
          (''Active'', ''/hotspot/active''), (''Hosts'', ''/hotspot/hosts'')]\<rparr>,
      \<lparr>ni_id = ''voucher'', ni_title = ''Voucher'', ni_url = None,
        ni_children = Some [(''Generate'', ''/voucher/generate''), (''Print Queue'', ''/voucher/print''),
          (''Sales'', ''/voucher/sales'')]\<rparr>,
      \<lparr>ni_id = ''traffic'', ni_title = ''Traffic'', ni_url = Some ''/traffic'', ni_children = None\<rparr>,
      \<lparr>ni_id = ''log'', ni_title = ''Log'', ni_url = Some ''/log'', ni_children = None\<rparr>,
      \<lparr>ni_id = ''report'', ni_title = ''Report'', ni_url = None,
        ni_children = Some [(''Daily'', ''/report/daily''), (''Monthly'', ''/report/monthly'')]\<rparr>,
      \<lparr>ni_id = ''settings'', ni_title = ''Settings'', ni_url = None,
        ni_children = Some [(''Profile'', ''/settings''), (''Account'', ''/settings/account''),
          (''Appearance'', ''/settings/appearance''), (''Display'', ''/settings/display''),
          (''Notifications'', ''/settings/notifications'')]\<rparr>,
      \<lparr>ni_id = ''help-center'', ni_title = ''Help Center'', ni_url = Some ''/help-center'', ni_children = None\<rparr>]"

definition getItemById :: "js \<Rightarrow> nav_item option" where
  "getItemById i = find (\<lambda>n. JStr (ni_id n) = i) NAV_ITEMS"

definition visibleItems :: "js list \<Rightarrow> nav_item list" where
  "visibleItems items = List.map_filter getItemById items"

definition isItemActive :: "string \<Rightarrow> nav_item \<Rightarrow> bool" where
  "isItemActive pathname item =
     (case ni_url item of
        Some (c # cs) \<Rightarrow> pathname = c # cs
      | _ \<Rightarrow> (case ni_children item of None \<Rightarrow> False | Some ch \<Rightarrow> list_ex (\<lambda>c. pathname = snd c) ch))"

text \<open>A tap: an entry with children opens its sheet (the new \<open>sheetItem\<close>), the others are links.\<close>

datatype tap = OpenSheet nav_item | FollowLink string

definition bar_tap :: "nav_item \<Rightarrow> tap" where
  "bar_tap item = (case ni_children item of Some _ \<Rightarrow> OpenSheet item | None \<Rightarrow> FollowLink (the (ni_url item)))"

definition AVAILABLE_ITEMS :: "(string \<times> string \<times> string list) list" where
  "AVAILABLE_ITEMS =
     [(''dashboard'', ''Dashboard'', []), (''hotspot'', ''Hotspot'', [''Users'', ''Profiles'', ''Active'', ''Hosts'']),
      (''voucher'', ''Voucher'', [''Generate'', ''Print Queue'']), (''traffic'', ''Traffic'', []), (''log'', ''Log'', []),
      (''report'', ''Report'', [''Daily'', ''Monthly'']),
      (''settings'', ''Settings'', [''Profile'', ''Account'', ''Appearance'', ''Display'', ''Notifications'']),
      (''help-center'', ''Help Center'', [])]"

record display_form =
  df_nav :: mobile_nav
  df_activeId :: "string option"

definition df_isFull :: "display_form \<Rightarrow> bool" where
  "df_isFull s = (MAX_ITEMS \<le> length (mn_items (df_nav s)))"

definition df_selectedItems :: "display_form \<Rightarrow> (string \<times> string \<times> string list) list" where
  "df_selectedItems s = List.map_filter (\<lambda>i. find (\<lambda>a. JStr (fst a) = i) AVAILABLE_ITEMS) (mn_items (df_nav s))"

definition df_availableItems :: "display_form \<Rightarrow> (string \<times> string \<times> string list) list" where
  "df_availableItems s = filter (\<lambda>a. JStr (fst a) \<notin> set (mn_items (df_nav s))) AVAILABLE_ITEMS"

definition df_dragStart :: "string \<Rightarrow> display_form \<Rightarrow> display_form" where
  "df_dragStart i s = s\<lparr>df_activeId := Some i\<rparr>"

definition df_dragEnd :: "string \<Rightarrow> string option \<Rightarrow> display_form \<Rightarrow> display_form" where
  "df_dragEnd active over s =
     (let s1 = s\<lparr>df_activeId := None\<rparr> in
      case over of
        None \<Rightarrow> s1
      | Some o' \<Rightarrow> if active = o' then s1 else s1\<lparr>df_nav := mn_reorder active o' (df_nav s)\<rparr>)"

definition df_dragCancel :: "display_form \<Rightarrow> display_form" where
  "df_dragCancel s = s\<lparr>df_activeId := None\<rparr>"

text \<open>Ticking the box of an available entry, which a full bar disables.\<close>

definition df_check :: "string \<Rightarrow> bool \<Rightarrow> display_form \<Rightarrow> display_form" where
  "df_check i checked s = (if \<not> df_isFull s \<and> checked then s\<lparr>df_nav := mn_add i (df_nav s)\<rparr> else s)"

lemma find_nav: "i \<in> set MobileNavItemId \<Longrightarrow>
  (\<exists>n. getItemById (JStr i) = Some n \<and> ni_id n = i) \<and> (\<exists>a. find (\<lambda>a. JStr (fst a) = JStr i) AVAILABLE_ITEMS = Some a \<and> fst a = i)"
  by (auto simp: MobileNavItemId_def getItemById_def NAV_ITEMS_def AVAILABLE_ITEMS_def)

lemma map_filter_found: "(\<And>x. x \<in> set xs \<Longrightarrow> \<exists>y. f x = Some y \<and> g y = x) \<Longrightarrow> map g (List.map_filter f xs) = xs"
  by (induction xs) (force simp: List.map_filter_simps split: option.split)+

text \<open>Every entry of a well-formed bar is shown, in order, on the bar and in the editor.\<close>

lemma all_entries_shown:
  assumes "mn_ok (df_nav s)"
  shows "map (\<lambda>n. JStr (ni_id n)) (visibleItems (mn_items (df_nav s))) = mn_items (df_nav s)"
    and "map (\<lambda>a. JStr (fst a)) (df_selectedItems s) = mn_items (df_nav s)"
  using assms find_nav
  by (auto simp: visibleItems_def df_selectedItems_def mn_ok_def intro!: map_filter_found dest!: subsetD)

text \<open>The boxes that can be ticked: exactly those of the known entries the bar does not hold, and only below five.\<close>

lemma editor_partition:
  assumes "mn_ok (df_nav s)"
  shows "set (map fst (df_availableItems s)) = set MobileNavItemId - {i. JStr i \<in> set (mn_items (df_nav s))}"
    and "\<not> df_isFull s \<Longrightarrow> i \<in> set (map fst (df_availableItems s)) \<Longrightarrow>
      mn_items (df_nav (df_check i True s)) = mn_items (df_nav s) @ [JStr i]"
    and "df_isFull s \<Longrightarrow> df_check i c s = s"
proof -
  have "set MobileNavItemId = fst ` set AVAILABLE_ITEMS" by (simp add: AVAILABLE_ITEMS_def MobileNavItemId_def)
  then show "set (map fst (df_availableItems s)) = set MobileNavItemId - {i. JStr i \<in> set (mn_items (df_nav s))}"
    by (auto simp: df_availableItems_def)
  show "\<not> df_isFull s \<Longrightarrow> i \<in> set (map fst (df_availableItems s)) \<Longrightarrow>
      mn_items (df_nav (df_check i True s)) = mn_items (df_nav s) @ [JStr i]"
    by (auto simp: df_check_def df_isFull_def df_availableItems_def mn_add_def mn_persist_def Let_def)
  show "df_isFull s \<Longrightarrow> df_check i c s = s" by (simp add: df_check_def)
qed

section \<open>The selected router\<close>

text \<open>
  zustand's \<open>persist\<close> writes the state after every \<open>set\<close>; how it is written (\<open>ser\<close>) and read back on start (\<open>de\<close>) is the
  library's.
\<close>

record active_router =
  ar_routerId :: "int option"
  ar_store :: storage

definition ACTIVE_ROUTER_KEY :: string where
  "ACTIVE_ROUTER_KEY = ''roskit-active-router''"

definition setRouterId :: "(int option \<Rightarrow> string) \<Rightarrow> int option \<Rightarrow> active_router \<Rightarrow> active_router" where
  "setRouterId ser i s = s\<lparr>ar_routerId := i, ar_store := setItem ACTIVE_ROUTER_KEY (ser i) (ar_store s)\<rparr>"

definition clear_router :: "(int option \<Rightarrow> string) \<Rightarrow> active_router \<Rightarrow> active_router" where
  "clear_router ser s = s\<lparr>ar_routerId := None, ar_store := setItem ACTIVE_ROUTER_KEY (ser None) (ar_store s)\<rparr>"

definition useActiveRouterStore_init :: "(string \<Rightarrow> int option option) \<Rightarrow> storage \<Rightarrow> active_router" where
  "useActiveRouterStore_init de st =
     \<lparr>ar_routerId = (case getItem ACTIVE_ROUTER_KEY st of None \<Rightarrow> None | Some raw \<Rightarrow> or_else (de raw) None), ar_store = st\<rparr>"

text \<open>The effect of the switcher; \<open>routers\<close> is undefined until the list has been loaded.\<close>

definition switcher_effect :: "(int option \<Rightarrow> string) \<Rightarrow> RouterPublicView list option \<Rightarrow> active_router \<Rightarrow> active_router" where
  "switcher_effect ser routers s =
     (let routerId = ar_routerId s;
          s1 = (case routers of
                  Some (r # rs) \<Rightarrow> if routerId = None then setRouterId ser (Some (rv_id r)) s else s
                | _ \<Rightarrow> s)
      in (case routers of
            Some (r # rs) \<Rightarrow>
              if routerId \<noteq> None \<and> \<not> list_ex (\<lambda>x. Some (rv_id x) = routerId) (r # rs)
              then setRouterId ser (Some (rv_id r)) s1 else s1
          | _ \<Rightarrow> s1))"

definition switcher_active :: "RouterPublicView list option \<Rightarrow> active_router \<Rightarrow> RouterPublicView option" where
  "switcher_active routers s = find (\<lambda>r. Some (rv_id r) = ar_routerId s) (or_else routers [])"

datatype switcher_shown = SwitcherLoading | SwitcherFailed | SwitcherEmpty | SwitcherMenu string string "string list"

definition statusDotClass :: "(string \<times> string) list" where
  "statusDotClass =
     [(''connected'', ''bg-emerald-500''), (''connecting'', ''bg-blue-500''), (''unknown'', ''bg-zinc-400''),
      (''disconnected'', ''bg-amber-500''), (''error'', ''bg-red-500'')]"

definition statusLabel :: "RouterPublicView \<Rightarrow> string" where
  "statusLabel r =
     (let status = toUpperCase (take 1 (rv_status r)) @ drop 1 (rv_status r)
      in rv_host r @ '':'' @ show_int (rv_port r) @ '' '' @ em_dash @ '' '' @ status)"

definition switcher_view :: "bool \<Rightarrow> bool \<Rightarrow> RouterPublicView list option \<Rightarrow> active_router \<Rightarrow> switcher_shown" where
  "switcher_view isLoading isError routers s =
     (if isLoading then SwitcherLoading
      else if isError then SwitcherFailed
      else if or_else routers [] = [] then SwitcherEmpty
      else
        (let active = switcher_active routers s in
         SwitcherMenu (case active of None \<Rightarrow> ''Select router'' | Some r \<Rightarrow> rv_display_name r)
           (case active of None \<Rightarrow> ''No router selected'' | Some r \<Rightarrow> statusLabel r)
           (map rv_display_name (or_else routers []))))"

text \<open>A click on the entry at position \<open>index\<close>.\<close>

definition switcher_click :: "(int option \<Rightarrow> string) \<Rightarrow> RouterPublicView list \<Rightarrow> nat \<Rightarrow> active_router \<Rightarrow> active_router" where
  "switcher_click ser routers index s =
     (if index < length routers then setRouterId ser (Some (rv_id (routers ! index))) s else s)"

text \<open>
  Once a non-empty list of routers is loaded, one run of the switcher's effect selects a router of the list: the
  selection is kept when it is in the list and becomes the first router otherwise; a second run changes nothing; and a
  page opened later on the same storage starts with that router.
\<close>

theorem switcher_settles:
  assumes "rs \<noteq> []" "\<And>i. de (ser i) = Some i"
  shows "(\<exists>r \<in> set rs. ar_routerId (switcher_effect ser (Some rs) s) = Some (rv_id r)) \<and>
    ((\<exists>r \<in> set rs. ar_routerId s = Some (rv_id r)) \<longrightarrow> switcher_effect ser (Some rs) s = s) \<and>
    ((\<forall>r \<in> set rs. ar_routerId s \<noteq> Some (rv_id r)) \<longrightarrow>
      ar_routerId (switcher_effect ser (Some rs) s) = Some (rv_id (hd rs)) \<and>
      ar_routerId (useActiveRouterStore_init de (ar_store (switcher_effect ser (Some rs) s))) = Some (rv_id (hd rs))) \<and>
    switcher_effect ser (Some rs) (switcher_effect ser (Some rs) s) = switcher_effect ser (Some rs) s"
proof -
  obtain r rs' where rs: "rs = r # rs'" using assms(1) by (cases rs) auto
  show ?thesis
  proof (cases "\<exists>x \<in> set rs. ar_routerId s = Some (rv_id x)")
    case True
    then have "switcher_effect ser (Some rs) s = s"
      by (auto simp: rs switcher_effect_def Let_def list_ex_iff)
    then show ?thesis using True by auto
  next
    case False
    then have e: "switcher_effect ser (Some rs) s = setRouterId ser (Some (rv_id r)) s"
      by (cases "ar_routerId s") (auto simp: rs switcher_effect_def Let_def list_ex_iff)
    then have "switcher_effect ser (Some rs) (switcher_effect ser (Some rs) s) = switcher_effect ser (Some rs) s"
      by (simp add: rs switcher_effect_def Let_def setRouterId_def)
    then show ?thesis
      using False e assms(2) by (simp add: rs setRouterId_def useActiveRouterStore_init_def store_simps)
  qed
qed

text \<open>An instance of the law: the id in decimal, or \<open>null\<close>.\<close>

definition id_text_null :: "int option \<Rightarrow> string" where
  "id_text_null i = (case i of None \<Rightarrow> ''null'' | Some n \<Rightarrow> show_int n)"

definition text_null_id :: "string \<Rightarrow> int option option" where
  "text_null_id s = (if s = ''null'' then Some None else map_option Some (parseInt s))"

lemma text_null_id_text: "text_null_id (id_text_null i) = Some i"
proof (cases i)
  case (Some n)
  have p: "parseInt (show_int n) = Some n" using parseInt_show [of "[]" n] by simp
  have "parseInt ''null'' = None" by code_simp
  then have "show_int n \<noteq> ''null''" using p by auto
  then show ?thesis using p by (simp add: text_null_id_def id_text_null_def Some)
qed (simp add: text_null_id_def id_text_null_def)

theorem switcher_settles_witness:
  "ar_routerId (switcher_effect id_text_null
     (Some [\<lparr>rv_id = 7, rv_display_name = ''Core'', rv_host = ''10.0.0.1'', rv_port = 8728, rv_username = ''admin'', rv_use_tls = None,
        rv_status = ''connected'', rv_last_seen = None, rv_last_error = None, rv_expiry_check_interval = None, rv_time_zone = None,
        rv_active = None, rv_created_at = None\<rparr>]) \<lparr>ar_routerId = Some 3, ar_store = []\<rparr>) = Some 7"
  using switcher_settles [where de = text_null_id and ser = id_text_null and s = "\<lparr>ar_routerId = Some 3, ar_store = []\<rparr>" and
      rs = "[\<lparr>rv_id = 7, rv_display_name = ''Core'', rv_host = ''10.0.0.1'', rv_port = 8728, rv_username = ''admin'', rv_use_tls = None,
        rv_status = ''connected'', rv_last_seen = None, rv_last_error = None, rv_expiry_check_interval = None, rv_time_zone = None,
        rv_active = None, rv_created_at = None\<rparr>]"]
  by (simp add: text_null_id_text)

text \<open>When the last router is gone the list is empty, and the id that was selected stays selected.\<close>

lemma stale_router_kept: "switcher_effect ser (Some []) s = s \<and> switcher_effect ser None s = s"
  by (simp add: switcher_effect_def Let_def)

section \<open>The simulated ping\<close>

definition getStatus :: "int option \<Rightarrow> string" where
  "getStatus ms =
     (case ms of
        None \<Rightarrow> ''timeout''
      | Some n \<Rightarrow> if n < 30 then ''excellent'' else if n < 80 then ''good'' else ''high'')"

record ping_state =
  pg_base :: rat
  pg_ms :: "int option"
  pg_status :: string
  pg_cancelled :: bool

definition usePing_init :: ping_state where
  "usePing_init = \<lparr>pg_base = 18, pg_ms = None, pg_status = ''timeout'', pg_cancelled = False\<rparr>"

text \<open>
  One tick after its delay; the five arguments are the values \<open>Math.random()\<close> gives in the order of the source (the
  fourth is drawn on a spike only).
\<close>

definition ping_tick :: "rat \<Rightarrow> rat \<Rightarrow> rat \<Rightarrow> rat \<Rightarrow> rat \<Rightarrow> ping_state \<Rightarrow> ping_state" where
  "ping_tick u v w x y s =
     (if pg_cancelled s then s
      else if u < 4 / 100 then s\<lparr>pg_ms := None, pg_status := ''timeout''\<rparr>
      else
        (let ms0 = pg_base s + (v - 4 / 10) * 12;
             ms1 = (if w < 8 / 100 then ms0 + 60 + x * 80 else ms0);
             ms = max 1 (js_round ms1)
         in s\<lparr>pg_ms := Some ms, pg_status := getStatus (Some ms), pg_base := max 5 (min 40 (pg_base s + (y - 1 / 2) * 3))\<rparr>))"

definition ping_unmount :: "ping_state \<Rightarrow> ping_state" where
  "ping_unmount s = s\<lparr>pg_cancelled := True\<rparr>"

definition ping_label :: "ping_state \<Rightarrow> string" where
  "ping_label s = (case pg_ms s of None \<Rightarrow> ''timeout'' | Some n \<Rightarrow> show_int n @ '' ms'')"

definition ping_animated :: "ping_state \<Rightarrow> bool" where
  "ping_animated s = (pg_status s \<noteq> ''timeout'')"

inductive ping_step :: "ping_state \<Rightarrow> ping_state \<Rightarrow> bool" where
  tick: "\<lbrakk>0 \<le> u; u < 1; 0 \<le> v; v < 1; 0 \<le> w; w < 1; 0 \<le> x; x < 1; 0 \<le> y; y < 1\<rbrakk> \<Longrightarrow> ping_step s (ping_tick u v w x y s)"
| unmount: "ping_step s (ping_unmount s)"

definition ping_ok :: "ping_state \<Rightarrow> bool" where
  "ping_ok s =
     (5 \<le> pg_base s \<and> pg_base s \<le> 40 \<and> pg_status s = getStatus (pg_ms s) \<and>
      (case pg_ms s of None \<Rightarrow> True | Some n \<Rightarrow> 1 \<le> n \<and> n \<le> 187))"

lemma ping_step_ok: "ping_step s t \<Longrightarrow> ping_ok s \<Longrightarrow> ping_ok t"
proof (induction rule: ping_step.induct)
  case (tick u v w x y s)
  let ?ms0 = "pg_base s + (v - 4 / 10) * 12"
  let ?ms1 = "if w < 8 / 100 then ?ms0 + 60 + x * 80 else ?ms0"
  have "?ms1 < 188 - 1 / 2" using tick by (auto simp: ping_ok_def algebra_simps)
  then have "js_round ?ms1 \<le> 187" unfolding js_round_def by linarith
  then show ?case using tick(11) by (auto simp: ping_tick_def ping_ok_def Let_def getStatus_def)
qed (simp add: ping_unmount_def ping_ok_def)

lemma ping_init_ok: "ping_ok usePing_init"
  by (simp add: usePing_init_def ping_ok_def getStatus_def)

interpretation ping: inductive_invariant "\<lambda>s. s = usePing_init" ping_step ping_ok
  by unfold_locales (auto intro: ping_step_ok ping_init_ok)

text \<open>
  The simulated ping, whatever the random draws: a shown time is a whole number of milliseconds from 1 to 187, the
  colour is the one of the shown time, and the base it wanders around stays between 5 and 40.
\<close>

theorem ping_bounds:
  assumes "ping_step\<^sup>*\<^sup>* usePing_init s"
  shows "5 \<le> pg_base s \<and> pg_base s \<le> 40 \<and> pg_status s = getStatus (pg_ms s) \<and>
    (pg_ms s = None \<or> (\<exists>n. pg_ms s = Some n \<and> 1 \<le> n \<and> n \<le> 187)) \<and> (ping_animated s \<longleftrightarrow> pg_ms s \<noteq> None)"
proof -
  have "ping_ok s" using assms by (blast intro: ping.inv_reachable)
  then show ?thesis by (cases "pg_ms s") (auto simp: ping_ok_def ping_animated_def getStatus_def)
qed

theorem ping_bounds_witness: "pg_ms (ping_tick (1/2) (1/2) (1/2) 0 (1/2) usePing_init) = Some 19 \<and>
  pg_base (ping_tick (1/2) (1/2) (1/2) 0 (1/2) usePing_init) \<le> 40"
  using ping_bounds [of "ping_tick (1/2) (1/2) (1/2) 0 (1/2) usePing_init"]
    ping_step.tick [of "1/2" "1/2" "1/2" 0 "1/2" usePing_init]
  by (simp add: r_into_rtranclp ping_tick_def usePing_init_def js_round_def Let_def floor_eq_iff)

end
