(* ===== verification/Navigation.thy ===== *)
theory Navigation
  imports Routes Shell_State
begin

text \<open>
  How the staff finds its way: the sidebar (\<^verbatim>\<open>components/layout/data/sidebar-data.ts\<close>,
  \<^verbatim>\<open>data/use-sidebar-data.ts\<close>, \<^verbatim>\<open>nav-group.tsx\<close>, \<^verbatim>\<open>components/ui/sidebar.tsx\<close>,
  \<^verbatim>\<open>authenticated-layout.tsx\<close>, \<^verbatim>\<open>nav-user.tsx\<close>), the command menu (\<^verbatim>\<open>components/command-menu.tsx\<close>,
  \<^verbatim>\<open>context/search-provider.tsx\<close>) and the bottom bar, against the routes and their guards. Icons are left out.
\<close>

section \<open>The entries\<close>

record nav_sub =
  ns_title :: string
  ns_url :: string

datatype NavItem =
    NavLink (ni_label: string) (ni_to: string) (ni_badge: "string option")
  | NavCollapsible (ni_label: string) (ni_subs: "nav_sub list") (ni_badge: "string option")

record NavGroup =
  ng_title :: string
  ng_items :: "NavItem list"

definition sub :: "string \<Rightarrow> string \<Rightarrow> nav_sub" where
  "sub t u = \<lparr>ns_title = t, ns_url = u\<rparr>"

definition navGroups_main :: NavGroup where
  "navGroups_main =
     \<lparr>ng_title = ''Main'', ng_items =
       [NavLink ''Dashboard'' ''/dashboard'' None,
        NavCollapsible ''Hotspot''
          [sub ''Users'' ''/hotspot/users'', sub ''Profiles'' ''/hotspot/profiles'', sub ''Billing'' ''/hotspot/billing'',
           sub ''Active'' ''/hotspot/active''] None,
        NavCollapsible ''PPP''
          [sub ''Secrets'' ''/ppp/secrets'', sub ''Profiles'' ''/ppp/profiles'', sub ''Active'' ''/ppp/active'',
           sub ''Billing'' ''/ppp/billing''] None,
        NavCollapsible ''Voucher''
          [sub ''Generate'' ''/voucher/generate'', sub ''Print Queue'' ''/voucher/print'', sub ''Sales'' ''/voucher/sales''] None]\<rparr>"

definition navGroups_billing :: NavGroup where
  "navGroups_billing =
     \<lparr>ng_title = ''Billing'', ng_items =
       [NavLink ''Customers'' ''/customers'' None,
        NavCollapsible ''Subscriptions''
          [sub ''Management'' ''/subscriptions'', sub ''Monitoring'' ''/subscriptions/monitoring''] None,
        NavLink ''Invoices'' ''/invoices'' None, NavLink ''Payments'' ''/payments'' None,
        NavLink ''Registrations'' ''/registrations'' None, NavLink ''Reports'' ''/reports'' None]\<rparr>"

definition navGroups_rest :: "NavGroup list" where
  "navGroups_rest =
     [\<lparr>ng_title = ''Communications'', ng_items =
        [NavLink ''Message Templates'' ''/admin/message-templates'' None, NavLink ''Notifications'' ''/admin/notifications'' None]\<rparr>,
      \<lparr>ng_title = ''Monitor'', ng_items =
        [NavLink ''Traffic'' ''/traffic'' None, NavLink ''Network'' ''/network'' None, NavLink ''System'' ''/system'' None,
         NavLink ''Log'' ''/log'' None]\<rparr>,
      \<lparr>ng_title = ''Admin'', ng_items =
        [NavLink ''Users'' ''/admin/users'' None, NavLink ''Routers'' ''/admin/routers'' None,
         NavLink ''Audit Logs'' ''/admin/audit-logs'' None]\<rparr>,
      \<lparr>ng_title = ''Other'', ng_items =
        [NavCollapsible ''Settings''
          [sub ''Tampilan'' ''/settings/appearance'', sub ''Umum'' ''/settings/general'', sub ''Billing'' ''/settings/billing'',
           sub ''WhatsApp'' ''/settings/whatsapp'', sub ''Telegram'' ''/settings/telegram'',
           sub ''Payment Gateway'' ''/settings/payment-gateway'', sub ''Backup'' ''/settings/backup''] None]\<rparr>]"

definition sidebar_navGroups :: "NavGroup list" where
  "sidebar_navGroups = navGroups_main # navGroups_billing # navGroups_rest"

record nav_user =
  nu_name :: js
  nu_email :: string
  nu_avatar :: string
  nu_role :: js

definition sidebarData_user :: nav_user where
  "sidebarData_user =
     \<lparr>nu_name = JStr ''admin'', nu_email = ''admin@mikhmon.local'', nu_avatar = ''/avatars/shadcn.jpg'', nu_role = JUndef\<rparr>"

section \<open>The sidebar of a user\<close>

text \<open>\<open>currentUser || storedUser\<close>, and the fields of a user that may be missing.\<close>

definition shown_user :: "auth_user option \<Rightarrow> auth_user option \<Rightarrow> auth_user option" where
  "shown_user currentUser storedUser = (case currentUser of Some u \<Rightarrow> Some u | None \<Rightarrow> storedUser)"

definition role_of :: "auth_user option \<Rightarrow> js" where
  "role_of u = (case u of None \<Rightarrow> JUndef | Some v \<Rightarrow> role v)"

definition currentRole :: "auth_user option \<Rightarrow> js" where
  "currentRole u = js_coalesce (role_of u) (JStr ''admin'')"

definition formattedUser :: "auth_user option \<Rightarrow> nav_user" where
  "formattedUser u =
     \<lparr>nu_name = js_coalesce (case u of None \<Rightarrow> JUndef | Some v \<Rightarrow> username v) (nu_name sidebarData_user),
      nu_email = (if truthy (role_of u) then ''Role: '' @ js_String (role_of u) else nu_email sidebarData_user),
      nu_avatar = ''/avatars/01.png'', nu_role = currentRole u\<rparr>"

definition item_shown :: "js \<Rightarrow> NavItem \<Rightarrow> bool" where
  "item_shown r item =
     (case item of
        NavCollapsible t ss b \<Rightarrow> True
      | NavLink t url b \<Rightarrow>
          (if prefix ''/admin'' url \<and> r \<noteq> JStr ''admin'' then False
           else if url = ''/registrations'' \<and> r = JStr ''viewer'' then False
           else True))"

definition hotspot_badge :: "nat \<Rightarrow> string \<Rightarrow> NavItem \<Rightarrow> NavItem" where
  "hotspot_badge n grp item =
     (case item of
        NavCollapsible t ss b \<Rightarrow>
          (if grp = ''Main'' \<and> t = ''Hotspot'' then NavCollapsible t ss (if 0 < n then Some (show_nat n) else None) else item)
      | _ \<Rightarrow> item)"

definition useSidebarData :: "'a list option \<Rightarrow> auth_user option \<Rightarrow> NavGroup list" where
  "useSidebarData active u =
     (let activeSessions = length (or_else active []) in
      filter (\<lambda>g. 0 < length (ng_items g))
        (map (\<lambda>g. g\<lparr>ng_items := map (hotspot_badge activeSessions (ng_title g)) (filter (item_shown (currentRole u)) (ng_items g))\<rparr>)
           sidebar_navGroups))"

fun item_links :: "NavItem \<Rightarrow> string list" where
  "item_links (NavLink t url b) = [url]"
| "item_links (NavCollapsible t ss b) = map ns_url ss"

definition group_links :: "NavGroup list \<Rightarrow> string list" where
  "group_links gs = concat (map item_links (concat (map ng_items gs)))"

section \<open>The entry of the page\<close>

definition js_path :: "string \<Rightarrow> string" where
  "js_path href = hd (js_split ''?'' href)"

text \<open>\<open>href.split('/')[1]\<close>.\<close>

definition first_segment :: "string \<Rightarrow> string option" where
  "first_segment href = (case js_split ''/'' href of x # y # zs \<Rightarrow> Some y | _ \<Rightarrow> None)"

definition checkIsActive :: "string \<Rightarrow> string option \<Rightarrow> nav_sub list option \<Rightarrow> bool \<Rightarrow> bool" where
  "checkIsActive href url items mainNav =
     (Some href = url \<or> Some (js_path href) = url \<or>
      0 < length (filter (\<lambda>i. ns_url i = href) (or_else items [])) \<or>
      (mainNav \<and> first_segment href \<noteq> Some [] \<and> first_segment href = Option.bind url first_segment))"

definition item_active :: "string \<Rightarrow> NavItem \<Rightarrow> bool \<Rightarrow> bool" where
  "item_active href item mainNav =
     (case item of
        NavLink t url b \<Rightarrow> checkIsActive href (Some url) None mainNav
      | NavCollapsible t ss b \<Rightarrow> checkIsActive href None (Some ss) mainNav)"

text \<open>How the sidebar shows an entry.\<close>

datatype nav_view =
    SidebarMenuLink string bool
  | SidebarMenuCollapsedDropdown string bool "(string \<times> bool) list"
  | SidebarMenuCollapsible string bool "(string \<times> bool) list"

definition nav_item_view :: "string \<Rightarrow> bool \<Rightarrow> string \<Rightarrow> NavItem \<Rightarrow> nav_view" where
  "nav_item_view state isMobile href item =
     (case item of
        NavLink t url b \<Rightarrow> SidebarMenuLink t (checkIsActive href (Some url) None False)
      | NavCollapsible t ss b \<Rightarrow>
          (let subs = map (\<lambda>s. (ns_title s, checkIsActive href (Some (ns_url s)) None False)) ss in
           if state = ''collapsed'' \<and> \<not> isMobile
           then SidebarMenuCollapsedDropdown t (checkIsActive href None (Some ss) False) subs
           else SidebarMenuCollapsible t (checkIsActive href None (Some ss) True) subs))"

section \<open>The command menu\<close>

text \<open>An entry: the value it is found by, the text shown, and the address it leads to.\<close>

fun command_item :: "NavItem \<Rightarrow> (string \<times> string) list" where
  "command_item (NavLink t url b) = [(t, url)]"
| "command_item (NavCollapsible t ss b) = map (\<lambda>s. (t @ ''-'' @ ns_url s, ns_url s)) ss"

definition command_entries :: "NavGroup list \<Rightarrow> (string \<times> string) list" where
  "command_entries gs = concat (map (\<lambda>g. concat (map command_item (ng_items g))) gs)"

text \<open>The entries of the theme group have no value of their own: the menu library takes their text.\<close>

definition theme_entries :: "(string \<times> string) list" where
  "theme_entries = [(''Light'', ''light''), (''Dark'', ''dark''), (''System'', ''system'')]"

datatype command = GoTo string | SetTheme string

record command_menu =
  cm_open :: bool
  cm_prefs :: prefs
  cm_events :: "app_event list"

definition runCommand :: "command \<Rightarrow> command_menu \<Rightarrow> command_menu" where
  "runCommand c s =
     (let s1 = s\<lparr>cm_open := False\<rparr> in
      case c of
        GoTo url \<Rightarrow> s1\<lparr>cm_events := cm_events s @ [app_event.Navigate url []]\<rparr>
      | SetTheme t \<Rightarrow> s1\<lparr>cm_prefs := setTheme t (cm_prefs s)\<rparr>)"

text \<open>The search provider listens for the key \<open>k\<close> with the command or control key held.\<close>

definition search_key :: "string \<Rightarrow> bool \<Rightarrow> bool \<Rightarrow> command_menu \<Rightarrow> command_menu" where
  "search_key key meta ctrl s = (if key = ''k'' \<and> (meta \<or> ctrl) then s\<lparr>cm_open := \<not> cm_open s\<rparr> else s)"

section \<open>The sidebar's own state\<close>

definition SIDEBAR_COOKIE_NAME :: string where
  "SIDEBAR_COOKIE_NAME = ''sidebar_state''"

definition SIDEBAR_COOKIE_MAX_AGE :: nat where
  "SIDEBAR_COOKIE_MAX_AGE = 60 * 60 * 24 * 7"

definition SIDEBAR_KEYBOARD_SHORTCUT :: string where
  "SIDEBAR_KEYBOARD_SHORTCUT = ''b''"

record sidebar_state =
  sb_open :: bool
  sb_openMobile :: bool
  sb_isMobile :: bool
  sb_doc :: "jar option"

definition sidebar_cookie :: "bool \<Rightarrow> jar option \<Rightarrow> jar option" where
  "sidebar_cookie v d =
     map_option (cookie_assign (SIDEBAR_COOKIE_NAME @ ''='' @ bool_text v @ ''; path=/; max-age='' @ show_nat SIDEBAR_COOKIE_MAX_AGE)) d"

definition sidebar_setOpen :: "bool \<Rightarrow> sidebar_state \<Rightarrow> sidebar_state" where
  "sidebar_setOpen v s = s\<lparr>sb_open := v, sb_doc := sidebar_cookie v (sb_doc s)\<rparr>"

definition toggleSidebar :: "sidebar_state \<Rightarrow> sidebar_state" where
  "toggleSidebar s =
     (if sb_isMobile s then s\<lparr>sb_openMobile := \<not> sb_openMobile s\<rparr> else sidebar_setOpen (\<not> sb_open s) s)"

definition sidebar_key :: "string \<Rightarrow> bool \<Rightarrow> bool \<Rightarrow> sidebar_state \<Rightarrow> sidebar_state" where
  "sidebar_key key meta ctrl s = (if key = SIDEBAR_KEYBOARD_SHORTCUT \<and> (meta \<or> ctrl) then toggleSidebar s else s)"

definition sidebar_label :: "sidebar_state \<Rightarrow> string" where
  "sidebar_label s = (if sb_open s then ''expanded'' else ''collapsed'')"

text \<open>The layout opens the sidebar unless the cookie says \<open>false\<close>.\<close>

definition AuthenticatedLayout_open :: "jar option \<Rightarrow> bool" where
  "AuthenticatedLayout_open d = (getCookie ''sidebar_state'' d \<noteq> Some ''false'')"

definition SidebarProvider_init :: "bool \<Rightarrow> jar option \<Rightarrow> sidebar_state" where
  "SidebarProvider_init mobile d =
     \<lparr>sb_open = AuthenticatedLayout_open d, sb_openMobile = False, sb_isMobile = mobile, sb_doc = d\<rparr>"

inductive sidebar_step :: "sidebar_state \<Rightarrow> sidebar_state \<Rightarrow> bool" where
  key: "sidebar_step s (sidebar_key k m c s)"
| toggle: "sidebar_step s (toggleSidebar s)"
| resize: "sidebar_step s (s\<lparr>sb_isMobile := b\<rparr>)"
| close_mobile: "sidebar_step s (s\<lparr>sb_openMobile := False\<rparr>)"

section \<open>Lemmas: links\<close>

lemma js_path_takeWhile: "js_path href = takeWhile (\<lambda>c. c \<noteq> CHR ''?'') href"
proof -
  have "hd (split_acc ''?'' acc s) = rev acc @ takeWhile (\<lambda>c. c \<noteq> CHR ''?'') s" for acc s
    by (induction "''?''" acc s rule: split_acc.induct) auto
  then show ?thesis by (simp add: js_path_def js_split_def)
qed

lemma js_path_query: "CHR ''?'' \<notin> set url \<Longrightarrow> qs = [] \<or> hd qs = CHR ''?'' \<Longrightarrow> js_path (url @ qs) = url"
proof -
  assume u: "CHR ''?'' \<notin> set url" and q: "qs = [] \<or> hd qs = CHR ''?''"
  have "takeWhile (\<lambda>c. c \<noteq> CHR ''?'') (url @ qs) = url @ takeWhile (\<lambda>c. c \<noteq> CHR ''?'') qs"
    by (rule takeWhile_append2) (use u in blast)
  also have "takeWhile (\<lambda>c. c \<noteq> CHR ''?'') qs = []" using q by (cases qs) auto
  finally show ?thesis by (simp add: js_path_takeWhile)
qed

lemma link_active_iff:
  assumes "CHR ''?'' \<notin> set url"
  shows "checkIsActive href (Some url) None False \<longleftrightarrow> js_path href = url"
proof -
  have "js_path url = url" unfolding js_path_takeWhile takeWhile_eq_all_conv using assms by blast
  then have "href = url \<Longrightarrow> js_path href = url" by (simp only:)
  moreover have "checkIsActive href (Some url) None False \<longleftrightarrow> href = url \<or> js_path href = url" by (simp add: checkIsActive_def)
  ultimately show ?thesis by blast
qed

text \<open>The addresses of the sidebar, in order.\<close>

lemma sidebar_addresses:
  "group_links sidebar_navGroups =
    [''/dashboard'', ''/hotspot/users'', ''/hotspot/profiles'', ''/hotspot/billing'', ''/hotspot/active'', ''/ppp/secrets'',
     ''/ppp/profiles'', ''/ppp/active'', ''/ppp/billing'', ''/voucher/generate'', ''/voucher/print'',
     ''/voucher/sales'', ''/customers'', ''/subscriptions'', ''/subscriptions/monitoring'', ''/invoices'',
     ''/payments'', ''/registrations'', ''/reports'', ''/admin/message-templates'', ''/admin/notifications'',
     ''/traffic'', ''/network'', ''/system'', ''/log'', ''/admin/users'', ''/admin/routers'', ''/admin/audit-logs'',
     ''/settings/appearance'', ''/settings/general'', ''/settings/billing'', ''/settings/whatsapp'',
     ''/settings/telegram'', ''/settings/payment-gateway'', ''/settings/backup'']"
  by (simp add: group_links_def sidebar_navGroups_def navGroups_main_def navGroups_billing_def navGroups_rest_def sub_def)

lemma sidebar_links:
  "distinct (group_links sidebar_navGroups)"
  "u \<in> set (group_links sidebar_navGroups) \<Longrightarrow> CHR ''?'' \<notin> set u"
  "u \<in> set (group_links sidebar_navGroups) \<Longrightarrow> u \<in> set FileRoutesByTo"
proof -
  show "distinct (group_links sidebar_navGroups)" unfolding sidebar_addresses by simp
  have "list_all (\<lambda>u. CHR ''?'' \<notin> set u) (group_links sidebar_navGroups)" unfolding sidebar_addresses by simp
  then show "u \<in> set (group_links sidebar_navGroups) \<Longrightarrow> CHR ''?'' \<notin> set u" by (simp add: list_all_iff)
  have "list_all (\<lambda>u. u \<in> set FileRoutesByTo) (group_links sidebar_navGroups)" unfolding sidebar_addresses by code_simp
  then show "u \<in> set (group_links sidebar_navGroups) \<Longrightarrow> u \<in> set FileRoutesByTo" by (simp add: list_all_iff)
qed

lemma sidebar_sections:
  "list_all (\<lambda>u. in_section ''/admin'' u = prefix ''/admin'' u \<and> in_section ''/registrations'' u = (u = ''/registrations''))
     (group_links sidebar_navGroups)"
  unfolding sidebar_addresses by (simp add: in_section_def)

text \<open>No page under a collapsible entry lies in a guarded section.\<close>

lemma sidebar_subs:
  "list_all (\<lambda>item. case item of NavLink t url b \<Rightarrow> True
     | NavCollapsible t ss b \<Rightarrow> list_all (\<lambda>x. \<not> prefix ''/admin'' (ns_url x) \<and> ns_url x \<noteq> ''/registrations'') ss)
     (concat (map ng_items sidebar_navGroups))"
  by (simp add: sidebar_navGroups_def navGroups_main_def navGroups_billing_def navGroups_rest_def sub_def)

definition link_allowed :: "js \<Rightarrow> string \<Rightarrow> bool" where
  "link_allowed r url = ((prefix ''/admin'' url \<longrightarrow> r = JStr ''admin'') \<and> (url = ''/registrations'' \<longrightarrow> r \<noteq> JStr ''viewer''))"

lemma item_links_badge [simp]: "item_links (hotspot_badge n g item) = item_links item"
  by (cases item) (simp_all add: hotspot_badge_def)

lemma set_group_links: "url \<in> set (group_links gs) \<longleftrightarrow> (\<exists>item \<in> set (concat (map ng_items gs)). url \<in> set (item_links item))"
  by (auto simp: group_links_def)

lemma shown_items:
  "set (concat (map ng_items (useSidebarData a u))) =
   (\<Union>g \<in> set sidebar_navGroups. hotspot_badge (length (or_else a [])) (ng_title g) `
      {item \<in> set (ng_items g). item_shown (currentRole u) item})"
proof -
  have "set (concat (map ng_items (filter (\<lambda>g. 0 < length (ng_items g)) gs))) = (\<Union>g \<in> set gs. set (ng_items g))" for gs :: "NavGroup list"
    by (induction gs) auto
  then have "set (concat (map ng_items (useSidebarData a u))) = (\<Union>g \<in> set (map (\<lambda>g. g\<lparr>ng_items :=
      map (hotspot_badge (length (or_else a [])) (ng_title g)) (filter (item_shown (currentRole u)) (ng_items g))\<rparr>) sidebar_navGroups).
      set (ng_items g))"
    unfolding useSidebarData_def Let_def by blast
  then show ?thesis by simp
qed

lemma sidebar_shows:
  "url \<in> set (group_links (useSidebarData a u)) \<longleftrightarrow>
   url \<in> set (group_links sidebar_navGroups) \<and> link_allowed (currentRole u) url"
proof -
  have "item_shown r item \<longleftrightarrow> link_allowed r url" if "item \<in> set (concat (map ng_items sidebar_navGroups))" "url \<in> set (item_links item)" for r item
  proof (cases item)
    case (NavCollapsible t ss b)
    then show ?thesis using sidebar_subs that by (fastforce simp: list_all_iff item_shown_def link_allowed_def)
  qed (use that in \<open>auto simp: item_shown_def link_allowed_def\<close>)
  then show ?thesis unfolding set_group_links shown_items by (auto simp: image_iff) blast+
qed



text \<open>
  Outside those three roles the two disagree: without a user the sidebar assumes the role \<open>admin\<close>, and a role the
  interface does not know sees the registrations.
\<close>

lemma sidebar_without_user:
  assumes "user s = None" "truthy (accessToken s)"
  shows "''/admin/users'' \<in> set (group_links (useSidebarData active (shown_user None (user s)))) \<and>
    staff_guards s ''/admin/users'' = Some (''/403'', [])"
proof -
  have "in_section ''/admin'' ''/admin/users''" by (simp add: in_section_def)
  then show ?thesis
    using assms unfolding sidebar_shows sidebar_addresses
    by (simp add: shown_user_def currentRole_def role_of_def js_coalesce_def link_allowed_def staff_guards_def
      authenticated_guard_def admin_guard_def user_role_def)
qed

lemma sidebar_unknown_role:
  assumes "user s = Some u" "truthy (accessToken s)" "role u = JStr ''support''"
  shows "''/registrations'' \<in> set (group_links (useSidebarData active (Some u))) \<and>
    staff_guards s ''/registrations'' = Some (''/403'', [])"
proof -
  have "in_section ''/registrations'' ''/registrations''" "\<not> in_section ''/admin'' ''/registrations''" by (simp_all add: in_section_def)
  then show ?thesis
    using assms unfolding sidebar_shows sidebar_addresses
    by (simp add: currentRole_def role_of_def js_coalesce_def link_allowed_def staff_guards_def
      authenticated_guard_def registrations_guard_def user_role_def)
qed

section \<open>Lemmas: the entry of the page\<close>

lemma group_active_iff:
  "item_active href (NavCollapsible t ss b) m \<longleftrightarrow> href \<in> set (map ns_url ss) \<or> m \<and> first_segment href \<noteq> Some [] \<and> first_segment href = None"
  by (auto simp: item_active_def checkIsActive_def filter_empty_conv)

text \<open>
  A group is open on arrival only when the address is exactly one of its pages: the test on the first segment compares
  with the address of the group, which has none.
\<close>

lemma group_open_iff: "CHR ''/'' \<in> set href \<Longrightarrow> item_active href (NavCollapsible t ss b) m \<longleftrightarrow> href \<in> set (map ns_url ss)"
proof -
  assume "CHR ''/'' \<in> set href"
  then obtain u v where "href = u @ ''/'' @ v" "CHR ''/'' \<notin> set u" by (metis append_Cons append_Nil split_list_first)
  then have "js_split ''/'' href = u # js_split ''/'' v" using js_split_first [of "''/''" u v] by simp
  then have "first_segment href \<noteq> None" by (cases "js_split ''/'' v") (auto simp: first_segment_def dest: arg_cong [of _ _ "\<lambda>x. x = []"])
  then show ?thesis by (auto simp: group_active_iff)
qed

text \<open>
  On the page of any entry of the sidebar, whatever its query string, exactly that entry's link is highlighted; and the
  group it belongs to opens on arrival if and only if the address carries no query string.
\<close>

theorem page_highlighted:
  assumes "url \<in> set (group_links sidebar_navGroups)" "qs = [] \<or> hd qs = CHR ''?''"
    and "NavCollapsible t ss b \<in> set (concat (map ng_items sidebar_navGroups))"
  shows "(\<forall>other \<in> set (group_links sidebar_navGroups). checkIsActive (url @ qs) (Some other) None False \<longleftrightarrow> other = url) \<and>
    (url \<in> set (map ns_url ss) \<longrightarrow> (item_active (url @ qs) (NavCollapsible t ss b) True \<longleftrightarrow> qs = []))"
proof -
  have "js_path (url @ qs) = url" using assms(2) sidebar_links(2) [OF assms(1)] by (rule js_path_query [rotated])
  then have links: "\<forall>other \<in> set (group_links sidebar_navGroups). checkIsActive (url @ qs) (Some other) None False \<longleftrightarrow> other = url"
    using sidebar_links(2) by (auto simp: link_active_iff)
  have slash: "CHR ''/'' \<in> set (url @ qs)" using assms(1) unfolding sidebar_addresses by auto
  have q: "url @ qs \<notin> set (map ns_url ss)" if "qs \<noteq> []"
  proof -
    have "set (map ns_url ss) \<subseteq> set (group_links sidebar_navGroups)" unfolding subset_iff set_group_links
      using assms(3) by (intro allI impI bexI [of _ "NavCollapsible t ss b"]) simp_all
    moreover have "CHR ''?'' \<in> set (url @ qs)" using that assms(2) by (cases qs) auto
    ultimately show ?thesis using sidebar_links(2) by blast
  qed
  show ?thesis using links q group_open_iff [OF slash] by auto
qed

theorem page_highlighted_witness:
  "\<not> item_active ''/subscriptions?page=2'' (NavCollapsible ''Subscriptions''
     [sub ''Management'' ''/subscriptions'', sub ''Monitoring'' ''/subscriptions/monitoring''] None) True"
proof -
  let ?ss = "[sub ''Management'' ''/subscriptions'', sub ''Monitoring'' ''/subscriptions/monitoring'']"
  have 1: "''/subscriptions'' \<in> set (group_links sidebar_navGroups)" unfolding sidebar_addresses by simp
  have 2: "NavCollapsible ''Subscriptions'' ?ss None \<in> set (concat (map ng_items sidebar_navGroups))"
    by (simp add: sidebar_navGroups_def navGroups_billing_def)
  have 3: "''?page=2'' = [] \<or> hd ''?page=2'' = CHR ''?''" by simp
  show ?thesis using page_highlighted [OF 1 3 2] by (simp add: sub_def)
qed

section \<open>Lemmas: the command menu\<close>

lemma command_links: "map snd (command_entries gs) = group_links gs"
proof -
  have "map snd (command_item item) = item_links item" for item by (cases item) simp_all
  moreover have "group_links gs = concat (map (\<lambda>g. concat (map item_links (ng_items g))) gs)"
    by (induction gs) (simp_all add: group_links_def)
  ultimately show ?thesis by (simp add: command_entries_def map_concat comp_def)
qed

text \<open>The menu is built from all entries: it offers a viewer pages the guards refuse.\<close>

lemma command_menu_unfiltered:
  assumes "user s = Some u" "truthy (accessToken s)" "role u = JStr ''viewer''"
  shows "''/admin/users'' \<in> set (map snd (command_entries sidebar_navGroups)) \<and>
    ''/admin/users'' \<notin> set (group_links (useSidebarData active (Some u))) \<and> staff_guards s ''/admin/users'' = Some (''/403'', [])"
proof -
  have "in_section ''/admin'' ''/admin/users''" by (simp add: in_section_def)
  then show ?thesis
    using assms unfolding command_links sidebar_shows sidebar_addresses
    by (simp add: currentRole_def role_of_def js_coalesce_def link_allowed_def staff_guards_def authenticated_guard_def
      admin_guard_def user_role_def)
qed

text \<open>The page System and the theme System are found by the same value.\<close>

lemma command_values_clash:
  "(''System'', ''/system'') \<in> set (command_entries sidebar_navGroups) \<and> (''System'', ''system'') \<in> set theme_entries"
  by (simp add: command_entries_def theme_entries_def sidebar_navGroups_def navGroups_rest_def)

lemma runCommand_closes:
  "\<not> cm_open (runCommand c s)"
  "runCommand (GoTo url) s = s\<lparr>cm_open := False, cm_events := cm_events s @ [app_event.Navigate url []]\<rparr>"
  "cm_events (runCommand (SetTheme t) s) = cm_events s"
  by (cases c) (simp_all add: runCommand_def Let_def)

section \<open>Lemmas: the sidebar's state\<close>

definition sidebar_kept :: "sidebar_state \<Rightarrow> bool" where
  "sidebar_kept s = (wf_document (sb_doc s) \<and> AuthenticatedLayout_open (sb_doc s) = sb_open s)"

lemma sidebar_cookie_set:
  assumes "wf_document d"
  shows "wf_document (sidebar_cookie v d)" and "AuthenticatedLayout_open (sidebar_cookie v d) = v"
    and "ok_name k \<Longrightarrow> k \<noteq> ''sidebar_state'' \<Longrightarrow> getCookie k (sidebar_cookie v d) = getCookie k d"
proof -
  have c: "sidebar_cookie v d = setCookie SIDEBAR_COOKIE_NAME (bool_text v) SIDEBAR_COOKIE_MAX_AGE d"
    by (simp add: sidebar_cookie_def setCookie_def)
  have ok: "ok_name SIDEBAR_COOKIE_NAME" "ok_value (bool_text v)" "0 < SIDEBAR_COOKIE_MAX_AGE"
    by (auto intro!: word_ok simp: SIDEBAR_COOKIE_NAME_def bool_text_def word_char_def code_of_def SIDEBAR_COOKIE_MAX_AGE_def)
  note set = cookie_set [OF assms ok]
  show "wf_document (sidebar_cookie v d)" unfolding c by (rule set)
  have g: "ok_name k \<Longrightarrow> getCookie k (sidebar_cookie v d) = (if k = SIDEBAR_COOKIE_NAME then Some (bool_text v) else getCookie k d)" for k
    unfolding c by (rule set)
  show "AuthenticatedLayout_open (sidebar_cookie v d) = v"
    using g [OF ok(1)] by (simp add: AuthenticatedLayout_open_def SIDEBAR_COOKIE_NAME_def bool_text_def)
  show "ok_name k \<Longrightarrow> k \<noteq> ''sidebar_state'' \<Longrightarrow> getCookie k (sidebar_cookie v d) = getCookie k d"
    using g [of k] by (simp add: SIDEBAR_COOKIE_NAME_def)
qed

lemma sidebar_setOpen_kept: "sidebar_kept s \<Longrightarrow> sidebar_kept (sidebar_setOpen v s) \<and> sb_open (sidebar_setOpen v s) = v"
  by (simp add: sidebar_kept_def sidebar_setOpen_def sidebar_cookie_set)

lemma toggle_kept: "sidebar_kept s \<Longrightarrow> sidebar_kept (toggleSidebar s)"
proof (cases "sb_isMobile s")
  case True
  then show "sidebar_kept s \<Longrightarrow> ?thesis" by (simp add: toggleSidebar_def sidebar_kept_def)
next
  case False
  then show "sidebar_kept s \<Longrightarrow> ?thesis" using sidebar_setOpen_kept by (simp add: toggleSidebar_def)
qed

lemma sidebar_step_kept: "sidebar_step s t \<Longrightarrow> sidebar_kept s \<Longrightarrow> sidebar_kept t"
  by (induction rule: sidebar_step.induct) (auto simp: sidebar_key_def toggle_kept, auto simp: sidebar_kept_def)

lemma sidebar_init_kept: "wf_document d \<Longrightarrow> sidebar_kept (SidebarProvider_init m d)"
  by (simp add: sidebar_kept_def SidebarProvider_init_def)

interpretation sidebar: inductive_invariant
  "\<lambda>s. \<exists>m d. wf_document d \<and> s = SidebarProvider_init m d" sidebar_step sidebar_kept
  by unfold_locales (auto intro: sidebar_step_kept sidebar_init_kept)

text \<open>
  The sidebar survives a reload: from a page loaded on a well-formed cookie jar, after any toggles, shortcuts and changes
  of the window's width, a page loaded on the cookies left behind opens the sidebar exactly if it was open; the sheet of
  the phone layout is always closed then.
\<close>

theorem sidebar_survives_reload:
  assumes "wf_document d" "sidebar_step\<^sup>*\<^sup>* (SidebarProvider_init m d) s"
  shows "sb_open (SidebarProvider_init m' (sb_doc s)) = sb_open s \<and> \<not> sb_openMobile (SidebarProvider_init m' (sb_doc s))"
proof -
  have "sidebar_kept s" using assms by (blast intro: sidebar.inv_reachable)
  then show ?thesis by (simp add: sidebar_kept_def SidebarProvider_init_def)
qed

theorem sidebar_survives_reload_witness:
  "\<not> sb_open (SidebarProvider_init False (sb_doc (sidebar_key ''b'' False True (SidebarProvider_init False (Some [])))))"
proof -
  have w: "wf_document (Some [])" by (simp add: wf_document_def wf_jar_def)
  have "getCookie ''sidebar_state'' (Some []) = None" by code_simp
  then show ?thesis
    using sidebar_survives_reload [OF w r_into_rtranclp [where r = sidebar_step, OF sidebar_step.key [of "SidebarProvider_init False (Some [])" "''b''" False True]], of False]
    by (simp add: sidebar_key_def toggleSidebar_def sidebar_setOpen_def SidebarProvider_init_def SIDEBAR_KEYBOARD_SHORTCUT_def AuthenticatedLayout_open_def)
qed

section \<open>Lemmas: the bottom bar's links\<close>

definition bar_links :: "string list" where
  "bar_links = concat (map (\<lambda>n. case ni_url n of Some u \<Rightarrow> [u] | None \<Rightarrow> map snd (or_else (ni_children n) [])) NAV_ITEMS)"

lemma bar_links_declared: "list_all (\<lambda>u. u \<in> set FileRoutesByTo \<and> \<not> in_section ''/admin'' u \<and> \<not> in_section ''/registrations'' u) bar_links"
  by code_simp

text \<open>
  The bar's entry Dashboard leads to the root page, which is outside the staff layout; it is not the address of the
  dashboard, so the entry is not highlighted there.
\<close>

lemma bar_dashboard:
  "map_option ni_url (getItemById (JStr ''dashboard'')) = Some (Some ''/'') \<and>
   (''IndexRoute'', ''/'', Some ''/'', Root) \<in> set route_nodes \<and>
   Authenticated \<notin> set (node_layouts (''IndexRoute'', ''/'', Some ''/'', Root)) \<and>
   (\<forall>n. getItemById (JStr ''dashboard'') = Some n \<longrightarrow> \<not> isItemActive ''/dashboard'' n)"
  by (simp add: getItemById_def NAV_ITEMS_def route_nodes_def route_nodes_1_def node_layouts_def ancestors_eq all_layouts_def
    isItemActive_def)

end
