(* ===== verification/Appearance.thy ===== *)
theory Appearance
  imports Navigation
begin

text \<open>
  The controls of the look: the settings drawer (\<^verbatim>\<open>components/config-drawer.tsx\<close>), the theme menu of the header
  (\<^verbatim>\<open>components/theme-switch.tsx\<close>) and the appearance page (\<^verbatim>\<open>features/settings/appearance/appearance-form.tsx\<close>).
  All of them write the cookies of the same document, the sidebar's among them.
\<close>

section \<open>State and operations\<close>

record look_config =
  cf_prefs :: prefs
  cf_open :: bool

definition config_mount :: "jar option \<Rightarrow> look_config" where
  "config_mount d = \<lparr>cf_prefs = mount d, cf_open = AuthenticatedLayout_open d\<rparr>"

definition on_prefs :: "(prefs \<Rightarrow> prefs) \<Rightarrow> look_config \<Rightarrow> look_config" where
  "on_prefs f c = c\<lparr>cf_prefs := f (cf_prefs c)\<rparr>"

definition config_setOpen :: "bool \<Rightarrow> look_config \<Rightarrow> look_config" where
  "config_setOpen v c = (on_prefs (\<lambda>p. p\<lparr>pf_doc := sidebar_cookie v (pf_doc p)\<rparr>) c)\<lparr>cf_open := v\<rparr>"

text \<open>The button Reset.\<close>

definition handleReset :: "look_config \<Rightarrow> look_config" where
  "handleReset c = on_prefs resetLayout (on_prefs resetTheme (on_prefs resetDir (config_setOpen True c)))"

definition radioState :: "look_config \<Rightarrow> string" where
  "radioState c = (if cf_open c then ''default'' else pf_collapsible (cf_prefs c))"

definition layout_reset :: "look_config \<Rightarrow> look_config" where
  "layout_reset c = on_prefs (setCollapsible DEFAULT_COLLAPSIBLE) (config_setOpen True c)"

definition layout_pick :: "string \<Rightarrow> look_config \<Rightarrow> look_config" where
  "layout_pick v c =
     (if v = ''default'' then config_setOpen True c else on_prefs (setCollapsible v) (config_setOpen False c))"

text \<open>Which sections offer their own reset.\<close>

definition show_resets :: "look_config \<Rightarrow> bool list" where
  "show_resets c =
     [pf_theme (cf_prefs c) \<noteq> DEFAULT_THEME, DEFAULT_VARIANT \<noteq> pf_variant (cf_prefs c), radioState c \<noteq> ''default'',
      DEFAULT_DIRECTION \<noteq> pf_dir (cf_prefs c)]"

section \<open>The theme menu\<close>

definition switch_themes :: "(string \<times> string) list" where
  "switch_themes =
     [(''light'', ''Light''), (''dark'', ''Dark''), (''blue'', ''Ocean Blue''), (''green'', ''Forest Green''), (''pink'', ''Rose Pink'')]"

definition themeColors :: "(string \<times> string) list" where
  "themeColors =
     [(''dark'', ''#020817''), (''light'', ''#fff''), (''blue'', ''#0369a1''), (''green'', ''#065f46''), (''pink'', ''#9d174d'')]"

definition meta_theme_color :: "string \<Rightarrow> string" where
  "meta_theme_color theme =
     (let resolved = (if theme = ''system'' then ''light'' else theme) in or_default ''#fff'' (map_of themeColors resolved))"

definition isLight :: "bool \<Rightarrow> string \<Rightarrow> bool" where
  "isLight prefers_dark theme =
     ((if theme = ''system'' then if prefers_dark then ''dark'' else ''light'' else theme) \<notin> set [''dark'', ''blue'', ''green'', ''pink''])"

text \<open>The icons shown: sun, moon, palette.\<close>

definition switch_icons :: "bool \<Rightarrow> string \<Rightarrow> bool \<times> bool \<times> bool" where
  "switch_icons prefers_dark theme =
     (isLight prefers_dark theme, theme = ''dark'', theme \<in> set [''blue'', ''green'', ''pink''])"

section \<open>The appearance page\<close>

definition themeOptions :: "string list" where
  "themeOptions = [''light'', ''dark'', ''blue'', ''green'', ''pink'', ''roslib-dark'', ''roslib-light'']"

definition accentOptions :: "string list" where
  "accentOptions = [''accent-roslib'', ''accent-tech'', ''accent-sunset'', ''accent-corporate'', ''accent-natural'']"

record appearance_values =
  av_theme :: string
  av_font :: string
  av_accent :: string

definition appearance_schema :: "appearance_values \<Rightarrow> bool" where
  "appearance_schema v = (av_theme v \<in> set themeOptions \<and> av_font v \<in> set fonts \<and> av_accent v \<in> set accentOptions)"

definition appearance_defaults :: "prefs \<Rightarrow> appearance_values" where
  "appearance_defaults p =
     \<lparr>av_theme = (if pf_theme p = ''system'' then ''light'' else pf_theme p), av_font = pf_font p, av_accent = pf_accent p\<rparr>"

text \<open>The submit handler, run on data the schema has accepted; the form is not sent otherwise.\<close>

definition appearance_onSubmit :: "appearance_values \<Rightarrow> prefs \<Rightarrow> prefs" where
  "appearance_onSubmit d p =
     (let p1 = (if av_font d \<noteq> pf_font p then setFont (av_font d) p else p);
          p2 = (if av_theme d \<noteq> pf_theme p then setTheme (av_theme d) p1 else p1)
      in if av_accent d \<noteq> pf_accent p then setAccent (av_accent d) p2 else p2)"

definition appearance_submit :: "appearance_values \<Rightarrow> prefs \<Rightarrow> prefs" where
  "appearance_submit d p = (if appearance_schema d then appearance_onSubmit d p else p)"

section \<open>Steps\<close>

inductive config_step :: "look_config \<Rightarrow> look_config \<Rightarrow> bool" where
  pref: "pref_step (cf_prefs c) p \<Longrightarrow> config_step c (c\<lparr>cf_prefs := p\<rparr>)"
| open_close: "config_step c (config_setOpen v c)"
| reset: "config_step c (handleReset c)"
| layout_reset: "config_step c (layout_reset c)"
| layout: "v \<in> {''default'', ''icon'', ''offcanvas''} \<Longrightarrow> config_step c (layout_pick v c)"
| appearance: "config_step c (on_prefs (appearance_submit d) c)"

section \<open>Lemmas\<close>

definition config_kept :: "look_config \<Rightarrow> bool" where
  "config_kept c = (look_kept (cf_prefs c) \<and> AuthenticatedLayout_open (pf_doc (cf_prefs c)) = cf_open c)"

lemma sidebar_name: "ok_name ''sidebar_state''"
  by (rule word_ok(1)) (simp_all add: word_char_def code_of_def)

lemma pref_names_sidebar:
  "''sidebar_state'' \<noteq> THEME_COOKIE_NAME" "''sidebar_state'' \<noteq> ACCENT_COOKIE_NAME" "''sidebar_state'' \<noteq> FONT_COOKIE_NAME"
  "''sidebar_state'' \<noteq> DIRECTION_COOKIE_NAME" "''sidebar_state'' \<noteq> LAYOUT_COLLAPSIBLE_COOKIE_NAME"
  "''sidebar_state'' \<noteq> LAYOUT_VARIANT_COOKIE_NAME"
  by (simp_all add: pref_names)

lemma pref_step_sidebar:
  assumes "pref_step s t" "wf_document (pf_doc s)"
  shows "getCookie ''sidebar_state'' (pf_doc t) = getCookie ''sidebar_state'' (pf_doc s)"
proof -
  have pos: "0 < THEME_COOKIE_MAX_AGE" "0 < FONT_COOKIE_MAX_AGE" "0 < DIRECTION_COOKIE_MAX_AGE" "0 < LAYOUT_COOKIE_MAX_AGE"
    by (simp_all add: pref_ages)
  have set: "getCookie ''sidebar_state'' (setCookie n v a d) = getCookie ''sidebar_state'' d \<and> wf_document (setCookie n v a d)"
    if "wf_document d" "ok_name n" "v \<in> set pref_values" "0 < a" "''sidebar_state'' \<noteq> n" for n v a d
    using cookie_set [of d n v a] pref_values_ok [OF that(3)] that sidebar_name by simp
  have vals: "v = ''ltr'' \<or> v = ''rtl'' \<Longrightarrow> v \<in> set pref_values" "v \<in> set fonts \<Longrightarrow> v \<in> set pref_values"
    "v = ''offcanvas'' \<or> v = ''icon'' \<or> v = ''none'' \<Longrightarrow> v \<in> set pref_values"
    "v = ''inset'' \<or> v = ''sidebar'' \<or> v = ''floating'' \<Longrightarrow> v \<in> set pref_values"
    "v \<in> set Themes \<Longrightarrow> v \<in> set pref_values" "v \<in> set ACCENT_CLASSES \<Longrightarrow> v \<in> set pref_values"
    "DEFAULT_COLLAPSIBLE \<in> set pref_values" "DEFAULT_VARIANT \<in> set pref_values" for v
    by (auto simp: pref_values_def DEFAULT_COLLAPSIBLE_def DEFAULT_VARIANT_def)
  from assms(1) show ?thesis
    by cases (simp_all add: pref_ops set cookies.get_del cookies.wf_del vals assms(2) pos pref_names_ok pref_names_sidebar sidebar_name)
qed

text \<open>Opening or closing the sidebar leaves the look alone.\<close>

lemma look_sidebar: "wf_document (pf_doc p) \<Longrightarrow> look_kept p \<Longrightarrow> look_kept (p\<lparr>pf_doc := sidebar_cookie v (pf_doc p)\<rparr>)"
proof -
  assume wf: "wf_document (pf_doc p)" and k: "look_kept p"
  have "mount (sidebar_cookie v (pf_doc p)) = (mount (pf_doc p))\<lparr>pf_doc := sidebar_cookie v (pf_doc p)\<rparr>"
    using wf pref_names_ok pref_names_sidebar by (simp add: look_defs sidebar_cookie_set)
  then show ?thesis using k wf by (simp add: look_kept_def sidebar_cookie_set)
qed

lemma config_prefs_kept: "config_kept c \<Longrightarrow> pref_step (cf_prefs c) (f (cf_prefs c)) \<Longrightarrow> config_kept (on_prefs f c)"
  using pref_step_keeps pref_step_sidebar
  by (simp add: config_kept_def on_prefs_def look_kept_def AuthenticatedLayout_open_def)

lemma config_open_kept: "config_kept c \<Longrightarrow> config_kept (config_setOpen v c)"
  using look_sidebar [of "cf_prefs c" v] by (simp add: config_kept_def config_setOpen_def on_prefs_def look_kept_def sidebar_cookie_set)

text \<open>Submitting the appearance page is a few of the steps of the providers.\<close>

lemma appearance_steps: "pref_step\<^sup>*\<^sup>* p (appearance_submit d p)"
proof (cases "appearance_schema d")
  case True
  have v: "av_font d \<in> set fonts" "av_theme d \<in> set Themes" "av_accent d \<in> set ACCENT_CLASSES"
    using True by (auto simp: appearance_schema_def Themes_def THEME_CLASSES_def themeOptions_def accentOptions_def ACCENT_CLASSES_def)
  have opt: "pref_step\<^sup>*\<^sup>* x y \<Longrightarrow> pref_step y z \<Longrightarrow> pref_step\<^sup>*\<^sup>* x (if b then z else y)" for x y z b by (auto intro: rtranclp.rtrancl_into_rtrancl)
  show ?thesis
    using True unfolding appearance_submit_def appearance_onSubmit_def Let_def
    by (simp only: if_True) (intro opt pref_step.set_accent pref_step.set_theme pref_step.set_font v rtranclp.rtrancl_refl)
qed (simp add: appearance_submit_def)

lemma config_run_kept:
  assumes "pref_step\<^sup>*\<^sup>* (cf_prefs c) p" "config_kept c"
  shows "config_kept (c\<lparr>cf_prefs := p\<rparr>)"
  using assms
proof (induction rule: rtranclp_induct)
  case (step y z)
  then show ?case using config_prefs_kept [of "c\<lparr>cf_prefs := y\<rparr>" "\<lambda>_. z"] by (simp add: on_prefs_def)
qed simp

lemma config_step_kept: "config_step c c' \<Longrightarrow> config_kept c \<Longrightarrow> config_kept c'"
proof (induction rule: config_step.induct)
  case (pref c p)
  then show ?case using config_run_kept [of c p] by blast
next
  case (open_close c v)
  then show ?case by (rule config_open_kept)
next
  case (reset c)
  then show ?case
    unfolding handleReset_def by (intro config_prefs_kept config_open_kept pref_step.intros)
next
  case (layout_reset c)
  have "DEFAULT_COLLAPSIBLE \<in> {''offcanvas'', ''icon'', ''none''}" by (simp add: DEFAULT_COLLAPSIBLE_def)
  then show ?case
    unfolding layout_reset_def using layout_reset by (intro config_prefs_kept config_open_kept pref_step.set_collapsible)
next
  case (layout v c)
  then show ?case
    by (auto simp: layout_pick_def intro!: config_prefs_kept config_open_kept pref_step.set_collapsible)
next
  case (appearance c d)
  then show ?case using config_run_kept [OF appearance_steps] by (simp add: on_prefs_def)
qed

lemma config_mount_kept: "wf_document d \<Longrightarrow> config_kept (config_mount d)"
  by (simp add: config_kept_def config_mount_def look_kept_def) (simp add: mount_def)

interpretation config: inductive_invariant "\<lambda>c. \<exists>d. wf_document d \<and> c = config_mount d" config_step config_kept
  by unfold_locales (auto intro: config_step_kept config_mount_kept)

text \<open>
  C20. The look survives a reload: from a page loaded on a well-formed cookie jar, after any sequence of changes and resets
  of direction, font, layout, theme and accent, of openings and closings of the sidebar, and of submissions of the settings
  drawer and the appearance page, a page loaded on the cookies left behind starts with exactly the same settings.
\<close>

theorem settings_survive_reload:
  assumes "wf_document d" "config_step\<^sup>*\<^sup>* (config_mount d) c"
  shows "config_mount (pf_doc (cf_prefs c)) = c \<and> wf_document (pf_doc (cf_prefs c))"
proof -
  have "config_kept c" using assms by (blast intro: config.inv_reachable)
  then show ?thesis by (simp add: config_kept_def look_kept_def config_mount_def)
qed

theorem settings_survive_reload_witness:
  "config_mount (pf_doc (cf_prefs (layout_pick ''offcanvas'' (config_mount (Some []))))) = layout_pick ''offcanvas'' (config_mount (Some []))"
proof -
  have w: "wf_document (Some [])" by (simp add: wf_document_def wf_jar_def)
  have 1: "config_step (config_mount (Some [])) (layout_pick ''offcanvas'' (config_mount (Some [])))"
    by (rule config_step.layout) simp
  show ?thesis using settings_survive_reload [OF w r_into_rtranclp [where r = config_step, OF 1]] by simp
qed

text \<open>
  After Reset in the settings drawer every setting of the drawer has its default, whatever was chosen before, no
  section offers its own reset any more, and only the font is as it was.
\<close>

theorem reset_restores_defaults:
  "radioState (handleReset c) = ''default'' \<and> list_all Not (show_resets (handleReset c)) \<and>
   cf_prefs (handleReset c) =
     (cf_prefs c)\<lparr>pf_dir := ''ltr'', pf_theme := ''system'', pf_accent := ''accent-roslib'', pf_collapsible := ''icon'',
       pf_variant := ''inset'', pf_doc := pf_doc (cf_prefs (handleReset c))\<rparr>"
  by (simp add: handleReset_def on_prefs_def config_setOpen_def pref_ops radioState_def show_resets_def DEFAULT_DIRECTION_def
    DEFAULT_THEME_def DEFAULT_ACCENT_def DEFAULT_COLLAPSIBLE_def DEFAULT_VARIANT_def)

text \<open>
  Someone who follows the system's colour scheme and changes only the font on the appearance page is switched to the light
  theme: the page shows \<open>light\<close> for \<open>system\<close> and compares what is submitted with the theme itself.
\<close>

lemma font_change_drops_system:
  assumes "pf_theme p = ''system''" "pf_font p = ''inter''" "pf_accent p \<in> set ACCENT_CLASSES"
  shows "pf_theme (appearance_submit ((appearance_defaults p)\<lparr>av_font := ''manrope''\<rparr>) p) = ''light''"
proof -
  have "set accentOptions = set ACCENT_CLASSES" by (simp add: accentOptions_def ACCENT_CLASSES_def)
  then show ?thesis
    using assms by (simp add: appearance_submit_def appearance_schema_def appearance_defaults_def appearance_onSubmit_def Let_def
      themeOptions_def fonts_def setFont_def setTheme_def)
qed

text \<open>The header treats the dark theme of the brand as a light one, and colours the browser's bar white on dark systems.\<close>

lemma brand_dark_is_light: "switch_icons d ''roslib-dark'' = (True, False, False) \<and> meta_theme_color ''system'' = ''#fff''"
  by (simp add: switch_icons_def isLight_def meta_theme_color_def themeColors_def or_default_def)

end
