(* ===== verification/Log_Page.thy ===== *)
theory Log_Page
  imports Forms Device_Api
begin

text \<open>
  The log of a router (\<^verbatim>\<open>features/log\<close>): a page with the newest entries, filled once from the router's buffer and
  then by the live stream, at most 500 of them, filtered by topics and text (\<^verbatim>\<open>index.tsx\<close>,
  \<^verbatim>\<open>data/data.ts\<close>, \<^verbatim>\<open>api/queries.ts\<close>, \<^verbatim>\<open>components/log-table.tsx\<close>,
  \<^verbatim>\<open>components/log-toolbar.tsx\<close>). How the browser's \<open>Date\<close> reads a text that is not in the language's format
  is its own, so reading dates is a parameter (\<open>dp\<close>), as are the formatters of the \<open>Intl\<close> library.
\<close>

section \<open>Entries\<close>

record LogEvent =
  ev_message :: string
  ev_topics :: string
  ev_time :: string

record RestLogEntry =
  re_id :: string
  re_time :: "string option"
  re_topics :: "string option"
  re_message :: string

text \<open>\<open>None\<close> for the time is an invalid date.\<close>

record LogEntry =
  le_id :: string
  le_time :: "int option"
  le_topics :: "string list"
  le_message :: string

definition LOG_MAX_ENTRIES :: nat where
  "LOG_MAX_ENTRIES = 500"

definition LOG_TOPICS :: "string list" where
  "LOG_TOPICS =
     [''hotspot'', ''info'', ''debug'', ''warning'', ''error'', ''system'', ''firewall'', ''wireless'', ''dhcp'', ''pppoe'']"

definition TOPIC_COLORS :: "(string \<times> string) list" where
  "TOPIC_COLORS =
     [(''hotspot'', ''bg-sky-500/10 text-sky-700 dark:text-sky-400''),
      (''info'', ''bg-emerald-500/10 text-emerald-700 dark:text-emerald-400''),
      (''debug'', ''bg-muted text-muted-foreground''),
      (''warning'', ''bg-amber-500/10 text-amber-700 dark:text-amber-400''),
      (''error'', ''bg-red-500/10 text-red-700 dark:text-red-400''),
      (''system'', ''bg-violet-500/10 text-violet-700 dark:text-violet-400''),
      (''firewall'', ''bg-rose-500/10 text-rose-700 dark:text-rose-400''),
      (''wireless'', ''bg-indigo-500/10 text-indigo-700 dark:text-indigo-400''),
      (''dhcp'', ''bg-teal-500/10 text-teal-700 dark:text-teal-400''),
      (''pppoe'', ''bg-fuchsia-500/10 text-fuchsia-700 dark:text-fuchsia-400'')]"

definition topicColor :: "string \<Rightarrow> string" where
  "topicColor topic = or_else (map_of TOPIC_COLORS topic) ''bg-muted text-muted-foreground''"

definition filterLogs :: "LogEntry list \<Rightarrow> string \<Rightarrow> string list \<Rightarrow> LogEntry list" where
  "filterLogs entries search selectedTopics =
     (let term = toLowerCase (js_trim search) in
      filter (\<lambda>e.
        if 0 < length selectedTopics \<and> \<not> list_ex (\<lambda>t. t \<in> set selectedTopics) (le_topics e) then False
        else if term \<noteq> [] \<and> \<not> js_includes (toLowerCase (le_message e)) term then False
        else True) entries)"

section \<open>The time of an entry\<close>

definition LOG_MONTHS :: "(string \<times> int) list" where
  "LOG_MONTHS =
     [(''jan'', 0), (''feb'', 1), (''mar'', 2), (''apr'', 3), (''may'', 4), (''jun'', 5), (''jul'', 6), (''aug'', 7),
      (''sep'', 8), (''oct'', 9), (''nov'', 10), (''dec'', 11)]"

text \<open>The element of an array at an index, and the integer a number is cut to by the \<open>Date\<close> constructor.\<close>

definition elem_at :: "'a list \<Rightarrow> nat \<Rightarrow> 'a option" where
  "elem_at xs i = (if i < length xs then Some (xs ! i) else None)"

text \<open>\<open>h || 0\<close> for a number that may be missing or \<open>NaN\<close>.\<close>

definition log_number :: "string option \<Rightarrow> int" where
  "log_number s = (case Option.bind s StringToNumber of None \<Rightarrow> 0 | Some q \<Rightarrow> to_integer q)"

text \<open>\<open>d.setFullYear(y)\<close> keeps the month, the day and the time of day as the calendar of the zone shows them.\<close>

definition setFullYear :: "zone \<Rightarrow> int \<Rightarrow> int \<Rightarrow> int" where
  "setFullYear z t y = utc_time z (make_day y (getMonth z t) (getDate z t) * msPerDay + local_time z t mod msPerDay)"

definition parseLogTime :: "zone \<Rightarrow> (string \<Rightarrow> int option) \<Rightarrow> int \<Rightarrow> string \<Rightarrow> int option" where
  "parseLogTime z dp now timeStr =
     (case dp timeStr of
        Some v \<Rightarrow> Some v
      | None \<Rightarrow>
          (let parts = js_split '' '' timeStr;
               datePart = elem_at parts 0; timePart = elem_at parts 1;
               ds = js_split ''/'' (or_else datePart []);
               monthStr = elem_at ds 0; dayStr = elem_at ds 1;
               hms = js_split '':'' (or_else timePart []);
               month = or_else (map_of LOG_MONTHS (toLowerCase (or_else monthStr []))) 0
           in (case Option.bind dayStr StringToNumber of
                 None \<Rightarrow> None
               | Some dn \<Rightarrow>
                   (let d = new_Date z (getFullYear z now) month (to_integer dn)
                              (log_number (elem_at hms 0)) (log_number (elem_at hms 1)) (log_number (elem_at hms 2))
                    in if \<not> valid_time d then None
                       else if 86400000 < d - now then Some (setFullYear z d (getFullYear z d - 1))
                       else Some d))))"

text \<open>The module's counter of entries is passed along.\<close>

definition split_topics :: "string \<Rightarrow> string list" where
  "split_topics s = filter (\<lambda>t. t \<noteq> []) (map js_trim (js_split '','' s))"

definition sseLogToLogEntry :: "zone \<Rightarrow> (string \<Rightarrow> int option) \<Rightarrow> int \<Rightarrow> LogEvent \<Rightarrow> nat \<Rightarrow> LogEntry \<times> nat" where
  "sseLogToLogEntry z dp now event n =
     (\<lparr>le_id = ''sse-'' @ show_nat (n + 1), le_time = parseLogTime z dp now (ev_time event), le_topics = split_topics (ev_topics event),
       le_message = ev_message event\<rparr>, n + 1)"

definition restLogToLogEntry :: "zone \<Rightarrow> (string \<Rightarrow> int option) \<Rightarrow> int \<Rightarrow> RestLogEntry \<Rightarrow> nat \<Rightarrow> LogEntry \<times> nat" where
  "restLogToLogEntry z dp now r n =
     (\<lparr>le_id = (if re_id r \<noteq> [] then re_id r else ''rest-'' @ show_nat (n + 1)),
       le_time = parseLogTime z dp now (or_else (re_time r) []), le_topics = split_topics (or_else (re_topics r) []),
       le_message = re_message r\<rparr>, if re_id r \<noteq> [] then n else n + 1)"

fun map_rest :: "zone \<Rightarrow> (string \<Rightarrow> int option) \<Rightarrow> int \<Rightarrow> RestLogEntry list \<Rightarrow> nat \<Rightarrow> LogEntry list \<times> nat" where
  "map_rest z dp now [] n = ([], n)"
| "map_rest z dp now (r # rs) n =
     (let (e, n1) = restLogToLogEntry z dp now r n; (es, n2) = map_rest z dp now rs n1 in (e # es, n2))"

section \<open>The table\<close>

text \<open>The formatters of \<open>Intl\<close> throw a \<open>RangeError\<close> for an invalid date.\<close>

definition format_date :: "(int \<Rightarrow> string) \<Rightarrow> int option \<Rightarrow> string result" where
  "format_date f t = (case t of None \<Rightarrow> Inl ''RangeError: date value is not finite'' | Some v \<Rightarrow> Inr (f v))"

definition same_day :: "zone \<Rightarrow> int option \<Rightarrow> int \<Rightarrow> bool" where
  "same_day z t now =
     (case t of
        None \<Rightarrow> False
      | Some v \<Rightarrow> getFullYear z v = getFullYear z now \<and> getMonth z v = getMonth z now \<and> getDate z v = getDate z now)"

definition formatLogTime :: "zone \<Rightarrow> (int \<Rightarrow> string) \<Rightarrow> (int \<Rightarrow> string) \<Rightarrow> int \<Rightarrow> int option \<Rightarrow> string result" where
  "formatLogTime z dateF timeF now date =
     (if same_day z date now then format_date timeF date
      else
        (case format_date dateF date of
           Inl e \<Rightarrow> Inl e
         | Inr d \<Rightarrow> (case format_date timeF date of Inl e \<Rightarrow> Inl e | Inr t \<Rightarrow> Inr (d @ '' '' @ t))))"

text \<open>The rows of the table; an exception in one of them is an exception of the whole table.\<close>

type_synonym log_row = "string \<times> string \<times> (string \<times> string) list \<times> string"

fun LogTable :: "zone \<Rightarrow> (int \<Rightarrow> string) \<Rightarrow> (int \<Rightarrow> string) \<Rightarrow> int \<Rightarrow> LogEntry list \<Rightarrow> log_row list result" where
  "LogTable z dateF timeF now [] = Inr []"
| "LogTable z dateF timeF now (e # es) =
     (case formatLogTime z dateF timeF now (le_time e) of
        Inl x \<Rightarrow> Inl x
      | Inr t \<Rightarrow>
          (case LogTable z dateF timeF now es of
             Inl x \<Rightarrow> Inl x
           | Inr rows \<Rightarrow> Inr ((le_id e, t, map (\<lambda>p. (p, topicColor p)) (le_topics e), le_message e) # rows)))"

section \<open>The page\<close>

definition useLogStream :: "int \<Rightarrow> stream_hook" where
  "useLogStream routerId =
     \<lparr>s_path = (if 0 < routerId then Some (''/devices/'' @ show_int routerId @ ''/stream/log'') else None),
      s_events = [''log''], s_event = []\<rparr>"

definition log_statusConfig :: "(string \<times> string) list" where
  "log_statusConfig =
     [(''idle'', ''No router''), (''connecting'', ''Connecting'' @ [char_of (226::nat), char_of (128::nat), char_of (166::nat)]),
      (''open'', ''Live''), (''closed'', ''Reconnecting'' @ [char_of (226::nat), char_of (128::nat), char_of (166::nat)])]"

text \<open>
  The state; \<open>lp_seeded\<close> is the identity of the buffer the entries were last filled from, and \<open>lp_pausedRef\<close> the value
  the stream's callback sees, which follows \<open>lp_paused\<close> when the effects run.
\<close>

record log_page =
  lp_routerId :: int
  lp_entries :: "LogEntry list"
  lp_search :: string
  lp_topics :: "string list"
  lp_paused :: bool
  lp_pausedRef :: bool
  lp_seeded :: "nat option"
  lp_counter :: nat

definition Log_init :: "int \<Rightarrow> nat \<Rightarrow> log_page" where
  "Log_init routerId n =
     \<lparr>lp_routerId = routerId, lp_entries = [], lp_search = [], lp_topics = [], lp_paused = False, lp_pausedRef = False,
      lp_seeded = None, lp_counter = n\<rparr>"

text \<open>A rendering: a buffer other than the one last used (the data of the query, by reference) replaces the entries.\<close>

definition log_seed :: "zone \<Rightarrow> (string \<Rightarrow> int option) \<Rightarrow> int \<Rightarrow> (nat \<times> RestLogEntry list) option \<Rightarrow> log_page \<Rightarrow> log_page" where
  "log_seed z dp now backlog s =
     (case backlog of
        None \<Rightarrow> s
      | Some (ref, data) \<Rightarrow>
          (if Some ref \<noteq> lp_seeded s
           then (let (es, n) = map_rest z dp now data (lp_counter s)
                 in s\<lparr>lp_seeded := Some ref, lp_entries := take LOG_MAX_ENTRIES es, lp_counter := n\<rparr>)
           else s))"

text \<open>An event of the stream: the callback converts it first, then asks whether the page is paused.\<close>

definition log_onEntry :: "LogEntry \<Rightarrow> log_page \<Rightarrow> log_page" where
  "log_onEntry entry s =
     (if lp_pausedRef s then s
      else
        (let next = entry # lp_entries s
         in s\<lparr>lp_entries := (if LOG_MAX_ENTRIES < length next then take LOG_MAX_ENTRIES next else next)\<rparr>))"

definition log_event :: "zone \<Rightarrow> (string \<Rightarrow> int option) \<Rightarrow> int \<Rightarrow> LogEvent \<Rightarrow> log_page \<Rightarrow> log_page" where
  "log_event z dp now event s =
     (let (entry, n) = sseLogToLogEntry z dp now event (lp_counter s) in log_onEntry entry (s\<lparr>lp_counter := n\<rparr>))"

definition toggle_topic :: "string \<Rightarrow> string list \<Rightarrow> string list" where
  "toggle_topic topic selectedTopics =
     (if topic \<in> set selectedTopics then filter (\<lambda>t. t \<noteq> topic) selectedTopics else selectedTopics @ [topic])"

datatype log_action =
    Render int "(nat \<times> RestLogEntry list) option"
  | Effects
  | Live int LogEvent
  | TogglePause
  | Clear
  | SetSearch string
  | ToggleTopic string
  | ClearTopics
  | ResetFilters
  | SetRouter int

fun log_act :: "zone \<Rightarrow> (string \<Rightarrow> int option) \<Rightarrow> log_action \<Rightarrow> log_page \<Rightarrow> log_page" where
  "log_act z dp (Render now backlog) s = log_seed z dp now backlog s"
| "log_act z dp Effects s = s\<lparr>lp_pausedRef := lp_paused s\<rparr>"
| "log_act z dp (Live now event) s = log_event z dp now event s"
| "log_act z dp TogglePause s = s\<lparr>lp_paused := \<not> lp_paused s\<rparr>"
| "log_act z dp Clear s = s\<lparr>lp_entries := []\<rparr>"
| "log_act z dp (SetSearch q) s = s\<lparr>lp_search := q\<rparr>"
| "log_act z dp (ToggleTopic t) s = s\<lparr>lp_topics := toggle_topic t (lp_topics s)\<rparr>"
| "log_act z dp ClearTopics s = s\<lparr>lp_topics := []\<rparr>"
| "log_act z dp ResetFilters s = s\<lparr>lp_search := [], lp_topics := []\<rparr>"
| "log_act z dp (SetRouter r) s = s\<lparr>lp_routerId := r\<rparr>"

definition log_shown :: "log_page \<Rightarrow> LogEntry list" where
  "log_shown s = filterLogs (lp_entries s) (lp_search s) (lp_topics s)"

text \<open>The counts under the table, and whether the filters can be reset.\<close>

definition log_counts :: "log_page \<Rightarrow> nat \<times> nat \<times> bool" where
  "log_counts s = (length (log_shown s), length (lp_entries s), lp_search s \<noteq> [] \<or> 0 < length (lp_topics s))"

section \<open>What the page promises: the newest entries\<close>

text \<open>The specification keeps every entry since the last buffer or clearing.\<close>

fun log_spec :: "zone \<Rightarrow> (string \<Rightarrow> int option) \<Rightarrow> log_action \<Rightarrow> log_page \<Rightarrow> log_page" where
  "log_spec z dp (Render now backlog) s =
     (case backlog of
        Some (ref, data) \<Rightarrow>
          if lp_seeded s = Some ref then s
          else s\<lparr>lp_seeded := Some ref, lp_entries := fst (map_rest z dp now data (lp_counter s)),
                 lp_counter := snd (map_rest z dp now data (lp_counter s))\<rparr>
      | None \<Rightarrow> s)"
| "log_spec z dp (Live now event) s =
     (let e = sseLogToLogEntry z dp now event (lp_counter s)
      in s\<lparr>lp_counter := snd e, lp_entries := (if lp_pausedRef s then lp_entries s else fst e # lp_entries s)\<rparr>)"
| "log_spec z dp a s = log_act z dp a s"

definition log_sim :: "log_page \<Rightarrow> log_page \<Rightarrow> bool" where
  "log_sim c s = (c = s\<lparr>lp_entries := take LOG_MAX_ENTRIES (lp_entries s)\<rparr>)"

lemma take_Cons_take: "take n (x # take n xs) = take n (x # xs)"
  by (cases n) (simp_all add: min_def)

lemma log_act_sim: "log_sim c s \<Longrightarrow> log_sim (log_act z dp a c) (log_spec z dp a s)"
proof (cases a)
  case (Render now backlog)
  then show "log_sim c s \<Longrightarrow> ?thesis"
    by (auto simp: log_sim_def log_seed_def case_prod_beta split: option.split)
next
  case (Live now event)
  have t: "(if LOG_MAX_ENTRIES < length ys then take LOG_MAX_ENTRIES ys else ys) = take LOG_MAX_ENTRIES ys" for ys :: "LogEntry list"
    by simp
  show "log_sim c s \<Longrightarrow> ?thesis"
    unfolding log_sim_def Live log_act.simps log_spec.simps log_event_def log_onEntry_def Let_def case_prod_beta t
    by (simp add: take_Cons_take del: take_Suc_Cons)
qed (simp_all add: log_sim_def)

text \<open>
  C21. The log page shows the newest 500 entries: after any interleaving of renderings with new buffers, stream events,
  pauses, clearings, filter changes and changes of the router, its entries are exactly the first 500 of the list a page
  without a bound would hold, and everything else is the same.
\<close>

theorem log_newest:
  "fold (log_act z dp) as (Log_init r n) =
     (fold (log_spec z dp) as (Log_init r n))\<lparr>lp_entries := take 500 (lp_entries (fold (log_spec z dp) as (Log_init r n)))\<rparr>"
proof -
  have "log_sim (Log_init r n) (Log_init r n)" by (simp add: log_sim_def Log_init_def)
  moreover have "log_sim c s \<Longrightarrow> log_sim (fold (log_act z dp) as c) (fold (log_spec z dp) as s)" for c s
    by (induction as arbitrary: c s) (simp_all add: log_act_sim)
  ultimately show ?thesis unfolding log_sim_def LOG_MAX_ENTRIES_def by blast
qed

section \<open>Different keys\<close>

text \<open>The rows of the table are told apart by their ids, which React requires to be different.\<close>

definition log_keys_ok :: "log_page \<Rightarrow> bool" where
  "log_keys_ok s =
     (distinct (map le_id (lp_entries s)) \<and>
      (\<forall>e \<in> set (lp_entries s). prefix ''sse-'' (le_id e) \<longrightarrow> (\<exists>k \<le> lp_counter s. le_id e = ''sse-'' @ show_nat k)))"

definition backlog_ok :: "RestLogEntry list \<Rightarrow> bool" where
  "backlog_ok rs = (distinct (map re_id rs) \<and> (\<forall>r \<in> set rs. re_id r \<noteq> [] \<and> \<not> prefix ''sse-'' (re_id r)))"

lemma map_rest_ids: "(\<forall>r \<in> set rs. re_id r \<noteq> []) \<Longrightarrow> map le_id (fst (map_rest z dp now rs n)) = map re_id rs \<and> snd (map_rest z dp now rs n) = n"
  by (induction rs arbitrary: n) (auto simp: restLogToLogEntry_def Let_def case_prod_beta)

lemma log_keys_act:
  assumes "log_keys_ok s" "\<And>now ref rs. a = Render now (Some (ref, rs)) \<Longrightarrow> backlog_ok rs"
  shows "log_keys_ok (log_act z dp a s)"
proof (cases a)
  case (Render now backlog)
  show ?thesis
  proof (cases backlog)
    case (Some b)
    then obtain ref rs where b: "backlog = Some (ref, rs)" by (cases b) auto
    then have ok: "backlog_ok rs" using assms(2) Render by blast
    let ?es = "fst (map_rest z dp now rs (lp_counter s))"
    have ids: "map le_id ?es = map re_id rs" using ok map_rest_ids by (simp add: backlog_ok_def)
    then have "distinct (map le_id (take LOG_MAX_ENTRIES ?es))" using ok by (simp add: backlog_ok_def take_map [symmetric] del: take_map)
    moreover have "\<not> prefix ''sse-'' (le_id e)" if "e \<in> set (take LOG_MAX_ENTRIES ?es)" for e
    proof -
      have "le_id e \<in> set (map le_id ?es)" using that by (auto dest: in_set_takeD)
      then show ?thesis using ok unfolding ids by (auto simp: backlog_ok_def)
    qed
    ultimately show ?thesis using assms(1) by (auto simp: Render b log_seed_def log_keys_ok_def case_prod_beta)
  qed (simp add: Render log_seed_def assms(1))
next
  case (Live now event)
  let ?e = "fst (sseLogToLogEntry z dp now event (lp_counter s))"
  have i: "le_id ?e = ''sse-'' @ show_nat (lp_counter s + 1)" by (simp add: sseLogToLogEntry_def)
  have fresh: "le_id ?e \<notin> set (map le_id (lp_entries s))"
  proof
    assume "le_id ?e \<in> set (map le_id (lp_entries s))"
    then obtain e where e: "e \<in> set (lp_entries s)" "le_id e = ''sse-'' @ show_nat (lp_counter s + 1)" using i by auto
    then have "prefix ''sse-'' (le_id e)" by (simp only: prefixI)
    then obtain k where k: "k \<le> lp_counter s" "le_id e = ''sse-'' @ show_nat k" using e(1) assms(1) by (auto simp: log_keys_ok_def)
    then have "show_nat k = show_nat (lp_counter s + 1)" using e(2) by (metis same_append_eq)
    then show False using k(1) by simp
  qed
  have *: "log_keys_ok (s\<lparr>lp_counter := lp_counter s + 1, lp_entries := take m (?e # lp_entries s)\<rparr>)" for m
  proof -
    have d: "distinct (map le_id (?e # lp_entries s))" using fresh assms(1) by (simp add: log_keys_ok_def)
    have "distinct (map le_id (take m (?e # lp_entries s)))" using distinct_take [OF d, of m] by (simp only: take_map)
    moreover have "\<exists>k \<le> lp_counter s + 1. le_id e = ''sse-'' @ show_nat k"
      if "e \<in> set (take m (?e # lp_entries s))" "prefix ''sse-'' (le_id e)" for e
    proof -
      have "e = ?e \<or> e \<in> set (lp_entries s)" using in_set_takeD [OF that(1)] by auto
      then show ?thesis using i assms(1) that(2) by (fastforce simp: log_keys_ok_def intro: le_SucI)
    qed
    ultimately show ?thesis by (simp add: log_keys_ok_def)
  qed
  have "log_keys_ok (s\<lparr>lp_counter := lp_counter s + 1\<rparr>)" using assms(1) by (fastforce simp: log_keys_ok_def intro: le_SucI)
  then show ?thesis
    using * [of LOG_MAX_ENTRIES] * [of "length (?e # lp_entries s)"]
    by (auto simp: Live log_event_def log_onEntry_def Let_def case_prod_beta sseLogToLogEntry_def)
qed (use assms(1) in \<open>simp_all add: log_keys_ok_def\<close>)

fun action_ok :: "log_action \<Rightarrow> bool" where
  "action_ok (Render now (Some (ref, rs))) = backlog_ok rs"
| "action_ok _ = True"

inductive log_step :: "zone \<Rightarrow> (string \<Rightarrow> int option) \<Rightarrow> log_page \<Rightarrow> log_page \<Rightarrow> bool" for z dp where
  "action_ok a \<Longrightarrow> log_step z dp s (log_act z dp a s)"

lemma log_step_keys: "log_step z dp s t \<Longrightarrow> log_keys_ok s \<Longrightarrow> log_keys_ok t"
  by (induction rule: log_step.induct) (auto intro!: log_keys_act)

lemma Log_init_keys: "log_keys_ok (Log_init r n)"
  by (simp add: Log_init_def log_keys_ok_def)

interpretation log: inductive_invariant "\<lambda>s. \<exists>r n. s = Log_init r n" "log_step z dp" log_keys_ok for z dp
  by unfold_locales (auto intro: log_step_keys Log_init_keys)

text \<open>
  The rows of the log keep different keys: as long as the router's buffers name their entries by different ids that do
  not look like those of the stream, no two entries on the page have the same id, however buffers, stream events,
  clearings and pauses follow each other.
\<close>

theorem log_keys_differ:
  assumes "(log_step z dp)\<^sup>*\<^sup>* (Log_init r n) s"
  shows "distinct (map le_id (lp_entries s))"
proof -
  have "log_keys_ok s" using assms by (blast intro: log.inv_reachable)
  then show ?thesis by (simp add: log_keys_ok_def)
qed

theorem log_keys_differ_witness:
  "distinct (map le_id (lp_entries (log_act (fixed_zone 420) (parse_Date (fixed_zone 420))
     (Live 0 \<lparr>ev_message = ''up'', ev_topics = ''system,info'', ev_time = ''2024-05-01T10:00:00Z''\<rparr>) (Log_init 1 0))))"
  by (rule log_keys_differ [OF r_into_rtranclp [where r = "log_step (fixed_zone 420) (parse_Date (fixed_zone 420))", OF log_step.intros]]) simp

text \<open>When the router changes, the entries of the one before stay until a new buffer has come.\<close>

lemma router_change_keeps_entries:
  "lp_entries (log_act z dp (Render now None) (log_act z dp (SetRouter r) s)) = lp_entries s"
  by (simp add: log_seed_def)

section \<open>The table and invalid dates\<close>

text \<open>
  The table of the log throws exactly when one of the entries has an invalid time; otherwise it shows one row for each
  entry, in order, with its message and its topics.
\<close>

theorem log_table_fails:
  "(case LogTable z dateF timeF now es of
      Inl x \<Rightarrow> \<exists>e \<in> set es. le_time e = None
    | Inr rows \<Rightarrow> (\<forall>e \<in> set es. le_time e \<noteq> None) \<and> map fst rows = map le_id es \<and>
        map (\<lambda>r. snd (snd (snd r))) rows = map le_message es \<and>
        map (\<lambda>r. map fst (fst (snd (snd r)))) rows = map le_topics es)"
proof (induction es)
  case (Cons e es)
  have f: "(\<exists>x. formatLogTime z dateF timeF now (le_time e) = Inl x) \<longleftrightarrow> le_time e = None"
    by (auto simp: formatLogTime_def format_date_def same_day_def split: option.splits)
  show ?case
  proof (cases "formatLogTime z dateF timeF now (le_time e)")
    case (Inl x)
    then show ?thesis using f by auto
  next
    case (Inr t)
    then have "le_time e \<noteq> None" using f by force
    then show ?thesis using Cons Inr by (cases "LogTable z dateF timeF now es") (auto simp: comp_def)
  qed
qed simp

text \<open>
  An entry of the buffer without a time (the back end leaves an empty one out) or with the time of day alone, as RouterOS
  writes the entries of today, has an invalid date, so one of them takes the table down.
\<close>

lemma log_time_missing:
  assumes "dp [] = None" "dp ''10:11:12'' = None"
  shows "le_time (fst (restLogToLogEntry z dp now \<lparr>re_id = i, re_time = None, re_topics = t, re_message = m\<rparr> n)) = None"
    and "le_time (fst (restLogToLogEntry z dp now \<lparr>re_id = i, re_time = Some ''10:11:12'', re_topics = t, re_message = m\<rparr> n)) = None"
proof -
  have s1: "js_split '' '' [] = [[]]" "js_split ''/'' [] = [[]]" by code_simp+
  have s2: "js_split '' '' ''10:11:12'' = [''10:11:12'']" "js_split ''/'' ''10:11:12'' = [''10:11:12'']" by code_simp+
  show "le_time (fst (restLogToLogEntry z dp now \<lparr>re_id = i, re_time = None, re_topics = t, re_message = m\<rparr> n)) = None"
    using assms by (simp add: restLogToLogEntry_def parseLogTime_def Let_def s1 elem_at_def)
  show "le_time (fst (restLogToLogEntry z dp now \<lparr>re_id = i, re_time = Some ''10:11:12'', re_topics = t, re_message = m\<rparr> n)) = None"
    using assms by (simp add: restLogToLogEntry_def parseLogTime_def Let_def s2 elem_at_def)
qed

section \<open>Short times are read back\<close>

text \<open>The short format of RouterOS: month name, day, and time of day.\<close>

definition short_time :: "string \<Rightarrow> string \<Rightarrow> string \<Rightarrow> string \<Rightarrow> string \<Rightarrow> string" where
  "short_time mon dd hh mm ss = mon @ ''/'' @ dd @ '' '' @ hh @ '':'' @ mm @ '':'' @ ss"

lemma field2_number: "field2 ds n \<Longrightarrow> StringToNumber ds = Some (of_int n)"
  using StringToNumber_digits [of ds] by (auto simp: field2_def)

lemma field2_clean: "field2 ds n \<Longrightarrow> \<not> is_digit c \<Longrightarrow> c \<notin> set ds"
  by (auto simp: field2_def list_all_iff)

lemma log_number_field [simp]: "field2 ds n \<Longrightarrow> log_number (Some ds) = n"
  by (simp add: log_number_def field2_number to_integer_def)

lemma short_time_parts:
  assumes "list_all is_letter mon" "field2 dd d" "field2 hh h" "field2 mm m" "field2 ss s"
  shows "js_split '' '' (short_time mon dd hh mm ss) = [mon @ ''/'' @ dd, hh @ '':'' @ mm @ '':'' @ ss]"
    and "js_split ''/'' (mon @ ''/'' @ dd) = [mon, dd]"
    and "js_split '':'' (hh @ '':'' @ mm @ '':'' @ ss) = [hh, mm, ss]"
proof -
  have nd: "\<not> is_digit CHR '' ''" "\<not> is_digit CHR ''/''" "\<not> is_digit CHR '':''"
    "\<not> is_letter CHR '' ''" "\<not> is_letter CHR ''/''" by (simp_all add: is_digit_def is_letter_def code_of_def)
  have l: "c \<notin> set mon" if "\<not> is_letter c" for c using assms(1) that by (auto simp: list_all_iff)
  note c = field2_clean [OF assms(2)] field2_clean [OF assms(3)] field2_clean [OF assms(4)] field2_clean [OF assms(5)]
  show "js_split '' '' (short_time mon dd hh mm ss) = [mon @ ''/'' @ dd, hh @ '':'' @ mm @ '':'' @ ss]"
    using js_split_first [of "'' ''" "mon @ ''/'' @ dd" "hh @ '':'' @ mm @ '':'' @ ss"]
      js_split_clean [of "'' ''" "hh @ '':'' @ mm @ '':'' @ ss"] l c nd
    by (simp add: short_time_def)
  show "js_split ''/'' (mon @ ''/'' @ dd) = [mon, dd]"
    using js_split_first [of "''/''" mon dd] js_split_clean [of "''/''" dd] l c nd by simp
  show "js_split '':'' (hh @ '':'' @ mm @ '':'' @ ss) = [hh, mm, ss]"
    using js_split_first [of "'':''" hh "mm @ '':'' @ ss"] js_split_first [of "'':''" mm ss] js_split_clean [of "'':''" ss] c nd by simp
qed

lemma make_day_simple: "0 \<le> m \<Longrightarrow> m < 12 \<Longrightarrow> make_day y m d = day_from_year y + month_start y (nat m) + d - 1"
  by (simp add: make_day_def Let_def div_pos_pos_trivial mod_pos_pos_trivial)

lemma make_day_next_year: "0 \<le> m \<Longrightarrow> m < 12 \<Longrightarrow> make_day y m d + 365 \<le> make_day (y + 1) m d"
  by (simp add: make_day_simple day_from_year_Suc month_start_def)

lemma year_of_day:
  assumes "0 \<le> m" "m < 12" "1 \<le> d" "d \<le> month_length y (nat m)"
  shows "day_from_year y \<le> make_day y m d" "make_day y m d < day_from_year (y + 1)"
proof -
  have "civil (make_day y m d) = (y, m, d)" using assms by (rule civil_make_day)
  then have "year_from_day (make_day y m d) = y" by (simp add: civil_def Let_def)
  then show "day_from_year y \<le> make_day y m d" "make_day y m d < day_from_year (y + 1)"
    using year_from_day_bounds [of "make_day y m d"] by simp_all
qed

text \<open>A moment less than 365 days ago lies in this year or the last one.\<close>

lemma this_or_last_year:
  assumes "0 \<le> m" "m < 12" "1 \<le> d" "d \<le> month_length y (nat m)" "make_day y m d \<le> n" "n \<le> make_day y m d + 364"
  shows "year_from_day n = y \<or> year_from_day n = y + 1"
proof (cases "n < day_from_year (y + 1)")
  case True
  then have "year_from_day n = y" using year_of_day [OF assms(1-4)] assms(5) by (intro year_from_day_eq) auto
  then show ?thesis ..
next
  case False
  have "n < day_from_year (y + 1) + 365" using year_of_day(2) [OF assms(1-4)] assms(6) by linarith
  then have "n < day_from_year (y + 1 + 1)" using day_from_year_Suc [of "y + 1"] by (simp split: if_splits)
  then have "year_from_day n = y + 1" using False by (intro year_from_day_eq) auto
  then show ?thesis ..
qed

lemma setFullYear_back:
  fixes off :: int
  assumes "0 \<le> mo" "mo < 12" "1 \<le> d" "d \<le> month_length (y + 1) (nat mo)" "0 \<le> k" "k < msPerDay"
  defines "c \<equiv> make_day (y + 1) mo d * msPerDay + k - off * 60000"
  shows "setFullYear (fixed_zone off) c (getFullYear (fixed_zone off) c - 1) = make_day y mo d * msPerDay + k - off * 60000"
proof -
  have l: "local_time (fixed_zone off) c = make_day (y + 1) mo d * msPerDay + k" by (simp add: fixed_zone_def c_def)
  then have ld: "local_day (fixed_zone off) c = make_day (y + 1) mo d" "local_time (fixed_zone off) c mod msPerDay = k"
    using assms by (simp_all add: local_day_def msPerDay_def)
  have "civil (make_day (y + 1) mo d) = (y + 1, mo, d)" using assms by (intro civil_make_day)
  then have "getFullYear (fixed_zone off) c = y + 1" "getMonth (fixed_zone off) c = mo" "getDate (fixed_zone off) c = d"
    by (simp_all add: getFullYear_def getMonth_def getDate_def ld)
  then show ?thesis by (simp add: setFullYear_def ld) (simp add: fixed_zone_def)
qed

text \<open>
  The time of a log entry: a moment of the last 364 days, written in the short format of RouterOS (which names no year) in
  the browser's zone, is read back as that moment -- the year is this one, or the last one when the date would lie more
  than a day ahead -- unless it is the 29th of February of the year before.
\<close>

theorem log_time_read_back:
  assumes "dp (short_time mon dd hh mm ss) = None" "list_all is_letter mon" "map_of LOG_MONTHS (toLowerCase mon) = Some mo"
    and "field2 dd d" "1 \<le> d" "d \<le> month_length y (nat mo)" "100 \<le> y"
    and "field2 hh h" "h < 24" "field2 mm m" "m < 60" "field2 ss s" "s < 60"
    and z: "z = fixed_zone off"
    and "new_Date z y mo d h m s \<le> now" "now - 364 * msPerDay < new_Date z y mo d h m s"
    and "\<bar>now\<bar> + 400 * msPerDay \<le> 8640000000000000" "getFullYear z now = y \<or> mo \<noteq> 1 \<or> d < 29"
  shows "parseLogTime z dp now (short_time mon dd hh mm ss) = Some (new_Date z y mo d h m s)"
proof -
  have mo: "0 \<le> mo" "mo < 12" using assms(3) by (auto simp: LOG_MONTHS_def split: if_splits)
  have t: "0 \<le> h" "0 \<le> m" "0 \<le> s" using assms by (auto simp: field2_def)
  have mt: "0 \<le> make_time h m s" "make_time h m s < msPerDay" using t assms by (simp_all add: make_time_def msPerDay_def)
  let ?D = "make_day y mo d" and ?T = "new_Date z y mo d h m s" and ?N = "now + off * 60000"
  have T: "?T = ?D * msPerDay + make_time h m s - off * 60000"
    using assms(7) by (simp add: new_Date_def z fixed_zone_def full_year_def)
  have "?D * msPerDay \<le> ?N" "?N < ?D * msPerDay + make_time h m s + 364 * msPerDay" using assms(15,16) T mt by linarith+
  then have D: "?D \<le> ?N div msPerDay" "?N div msPerDay \<le> ?D + 364"
    using mt by (simp_all add: msPerDay_def)
  define Y where "Y = getFullYear z now"
  have Yn: "Y = year_from_day (?N div msPerDay)" by (simp add: Y_def getFullYear_def local_day_def z fixed_zone_def civil_def Let_def)
  have Y: "Y = y \<or> Y = y + 1" unfolding Yn by (rule this_or_last_year [OF mo assms(5,6) D])
  let ?C = "new_Date z Y mo d h m s"
  note parts = short_time_parts [OF assms(2,4,8,10,12)]
  have "valid_time ?C \<Longrightarrow> parseLogTime z dp now (short_time mon dd hh mm ss) =
      (if 86400000 < ?C - now then Some (setFullYear z ?C (getFullYear z ?C - 1)) else Some ?C)"
    using assms(1,3,4,8,10,12) by (simp add: parseLogTime_def parts [simplified] elem_at_def Let_def field2_number to_integer_def Y_def [symmetric])
  note read = this
  from Y show ?thesis
  proof
    assume "Y = y"
    then have c: "?C = ?T" by simp
    have "valid_time ?T" using assms(15,16,17) by (simp add: valid_time_def msPerDay_def)
    then show ?thesis using read assms(15) unfolding c by simp
  next
    assume Yy: "Y = y + 1"
    have ml: "d \<le> month_length (y + 1) (nat mo)"
      using assms(6,18) Yy unfolding Y_def [symmetric] by (auto simp: month_length_def split: if_splits)
    have C: "?C = make_day (y + 1) mo d * msPerDay + make_time h m s - off * 60000"
      using assms(7) by (simp add: new_Date_def z fixed_zone_def full_year_def Yy)
    have le: "?D + 365 \<le> make_day (y + 1) mo d" by (rule make_day_next_year [OF mo])
    have up: "make_day (y + 1) mo d \<le> ?D + 366" using mo by (simp add: make_day_simple day_from_year_Suc month_start_def)
    have "?C - now > 86400000" using le C T assms(16) by (simp add: msPerDay_def)
    moreover have "valid_time ?C" using le up C T assms(15,16,17) by (simp add: valid_time_def msPerDay_def abs_le_iff)
    moreover have "setFullYear z ?C (getFullYear z ?C - 1) = ?T"
      unfolding T using setFullYear_back [OF mo assms(5) ml mt, of off] C by (simp add: z)
    ultimately show ?thesis using read by simp
  qed
qed

theorem log_time_read_back_witness:
  "parseLogTime (fixed_zone 420) (parse_Date (fixed_zone 420)) 1704067200000 (short_time ''dec'' ''31'' ''23'' ''59'' ''58'') =
     Some (new_Date (fixed_zone 420) 2023 11 31 23 59 58)"
  by (rule log_time_read_back [where off = 420]; (rule refl | code_simp | simp))

text \<open>An entry of the 29th of February, read in the year after, moves to the 1st of March.\<close>

lemma leap_day_moves:
  "getFullYear (fixed_zone 420) 1736467200000 = 2025 \<and>
   parseLogTime (fixed_zone 420) (parse_Date (fixed_zone 420)) 1736467200000 ''feb/29 10:00:00'' =
     Some (new_Date (fixed_zone 420) 2024 2 1 10 0 0)"
  by (rule conjI; code_simp)

end
