(* ===== verification/Date_Range.thy ===== *)
theory Date_Range
  imports Formats
begin

text \<open>
  Picking dates: the range picker with its presets and its comparison (\<^verbatim>\<open>components/date-range-picker.tsx\<close>), the
  three fields of a date (\<^verbatim>\<open>components/ui/date-input.tsx\<close>) and the range picker of the sales page
  (\<^verbatim>\<open>features/voucher/sales/components/sales-range-picker.tsx\<close>). The calendar widget is the environment that picks
  dates; the present moment is an argument. Ranges hold valid dates: a text that is no date makes the initial state
  undefined here.
\<close>

section \<open>Setters of dates\<close>

definition setDate :: "zone \<Rightarrow> int \<Rightarrow> int \<Rightarrow> int" where
  "setDate z t d = utc_time z (make_day (getFullYear z t) (getMonth z t) d * msPerDay + local_time z t mod msPerDay)"

definition setMonth :: "zone \<Rightarrow> int \<Rightarrow> int \<Rightarrow> int" where
  "setMonth z t m = utc_time z (make_day (getFullYear z t) m (getDate z t) * msPerDay + local_time z t mod msPerDay)"

definition setHours :: "zone \<Rightarrow> int \<Rightarrow> int \<Rightarrow> int \<Rightarrow> int \<Rightarrow> int \<Rightarrow> int" where
  "setHours z t h m s ms = utc_time z (local_day z t * msPerDay + make_time h m s + ms)"

definition getDay :: "zone \<Rightarrow> int \<Rightarrow> int" where
  "getDay z t = (local_day z t + 4) mod 7"

section \<open>Presets\<close>

record date_range =
  dr_from :: int
  dr_to :: "int option"

definition PRESETS :: "(string \<times> string) list" where
  "PRESETS =
     [(''today'', ''Today''), (''yesterday'', ''Yesterday''), (''last7'', ''Last 7 days''), (''last14'', ''Last 14 days''),
      (''last30'', ''Last 30 days''), (''thisWeek'', ''This Week''), (''lastWeek'', ''Last Week''), (''thisMonth'', ''This Month''),
      (''lastMonth'', ''Last Month'')]"

definition at_midnight :: "zone \<Rightarrow> int \<Rightarrow> int" where
  "at_midnight z t = setHours z t 0 0 0 0"

definition at_day_end :: "zone \<Rightarrow> int \<Rightarrow> int" where
  "at_day_end z t = setHours z t 23 59 59 999"

definition getPresetRange :: "zone \<Rightarrow> int \<Rightarrow> string \<Rightarrow> string + date_range" where
  "getPresetRange z now name =
     (if name \<notin> set (map fst PRESETS) then Inl (''Unknown date range preset: '' @ name)
      else
        (let first = getDate z now - getDay z now;
             span = (\<lambda>from to. \<lparr>dr_from = at_midnight z from, dr_to = Some (at_day_end z to)\<rparr>)
         in Inr
           (if name = ''today'' then span now now
            else if name = ''yesterday'' then span (setDate z now (getDate z now - 1)) (setDate z now (getDate z now - 1))
            else if name = ''last7'' then span (setDate z now (getDate z now - 6)) now
            else if name = ''last14'' then span (setDate z now (getDate z now - 13)) now
            else if name = ''last30'' then span (setDate z now (getDate z now - 29)) now
            else if name = ''thisWeek'' then span (setDate z now first) now
            else if name = ''lastWeek'' then
              span (setDate z now (getDate z now - 7 - getDay z now)) (setDate z now (getDate z now - getDay z now - 1))
            else if name = ''thisMonth'' then span (setDate z now 1) now
            else span (setDate z (setMonth z now (getMonth z now - 1)) 1) (setDate z now 0))))"

text \<open>The same dates a year before.\<close>

definition year_before :: "zone \<Rightarrow> int \<Rightarrow> int" where
  "year_before z t = new_Date z (getFullYear z t - 1) (getMonth z t) (getDate z t) 0 0 0"

definition same_dates :: "zone \<Rightarrow> date_range \<Rightarrow> date_range \<Rightarrow> bool" where
  "same_dates z a b =
     (at_midnight z (dr_from a) = at_midnight z (dr_from b) \<and>
      at_midnight z (or_else (dr_to a) 0) = (case dr_to b of None \<Rightarrow> 0 | Some t \<Rightarrow> at_midnight z t))"

definition checkPreset :: "zone \<Rightarrow> int \<Rightarrow> date_range \<Rightarrow> string option" where
  "checkPreset z now rng =
     find (\<lambda>name. case getPresetRange z now name of Inl _ \<Rightarrow> False | Inr r \<Rightarrow> same_dates z rng r) (map fst PRESETS)"

section \<open>The picker\<close>

datatype date_input = DateIn int | TextIn string

definition getDateAdjustedForTimezone :: "zone \<Rightarrow> date_input \<Rightarrow> int option" where
  "getDateAdjustedForTimezone z d =
     (case d of
        DateIn t \<Rightarrow> Some t
      | TextIn s \<Rightarrow>
          (case map parseInt (js_split ''-'' s) of
             Some y # Some m # Some dd # _ \<Rightarrow> Some (new_Date z y (m - 1) dd 0 0 0)
           | _ \<Rightarrow> None))"

text \<open>A prop that is not given, or empty.\<close>

definition given_date :: "date_input option \<Rightarrow> date_input option" where
  "given_date d = (if d = Some (TextIn []) then None else d)"

record picker_props =
  initialDateFrom :: date_input
  initialDateTo :: "date_input option"
  initialCompareFrom :: "date_input option"
  initialCompareTo :: "date_input option"

record picker =
  pk_isOpen :: bool
  pk_range :: date_range
  pk_compare :: "date_range option"
  pk_openedRange :: "date_range option"
  pk_openedCompare :: "date_range option"
  pk_updates :: "(date_range \<times> date_range option) list"

definition initial_range :: "zone \<Rightarrow> picker_props \<Rightarrow> date_range option" where
  "initial_range z p =
     (case getDateAdjustedForTimezone z (initialDateFrom p) of
        None \<Rightarrow> None
      | Some f \<Rightarrow>
          (case getDateAdjustedForTimezone z (or_else (given_date (initialDateTo p)) (initialDateFrom p)) of
             None \<Rightarrow> None
           | Some t \<Rightarrow> Some \<lparr>dr_from = f, dr_to = Some t\<rparr>))"

text \<open>\<open>new Date(x)\<close> for a date or a text.\<close>

definition date_of :: "zone \<Rightarrow> date_input \<Rightarrow> int option" where
  "date_of z d = (case d of DateIn t \<Rightarrow> Some t | TextIn s \<Rightarrow> parse_Date z s)"

text \<open>The comparison a picker starts with, and the one a reset restores.\<close>

definition compare_with :: "(date_input \<Rightarrow> int option) \<Rightarrow> picker_props \<Rightarrow> date_range option option" where
  "compare_with f p =
     (case given_date (initialCompareFrom p) of
        None \<Rightarrow> Some None
      | Some a \<Rightarrow>
          (case f a of
             None \<Rightarrow> None
           | Some from \<Rightarrow>
               (case f (or_else (given_date (initialCompareTo p)) a) of
                  None \<Rightarrow> None
                | Some to \<Rightarrow> Some (Some \<lparr>dr_from = from, dr_to = Some to\<rparr>))))"

definition initial_compare :: "zone \<Rightarrow> picker_props \<Rightarrow> date_range option option" where
  "initial_compare z p = compare_with (\<lambda>d. map_option (at_midnight z) (date_of z d)) p"

definition reset_compare :: "zone \<Rightarrow> picker_props \<Rightarrow> date_range option option" where
  "reset_compare z p = compare_with (getDateAdjustedForTimezone z) p"

definition picker_init :: "zone \<Rightarrow> picker_props \<Rightarrow> picker option" where
  "picker_init z p =
     (case initial_range z p of
        None \<Rightarrow> None
      | Some r \<Rightarrow>
          map_option (\<lambda>c. \<lparr>pk_isOpen = False, pk_range = r, pk_compare = c, pk_openedRange = None, pk_openedCompare = None,
            pk_updates = []\<rparr>) (initial_compare z p))"

definition resetValues :: "zone \<Rightarrow> picker_props \<Rightarrow> picker \<Rightarrow> picker option" where
  "resetValues z p s =
     (case initial_range z p of
        None \<Rightarrow> None
      | Some r \<Rightarrow> map_option (\<lambda>c. s\<lparr>pk_range := r, pk_compare := c\<rparr>) (reset_compare z p))"

text \<open>Opening remembers what is shown; closing by clicking elsewhere, and Cancel, restore the initial values.\<close>

definition picker_open :: "picker \<Rightarrow> picker" where
  "picker_open s = s\<lparr>pk_isOpen := True, pk_openedRange := Some (pk_range s), pk_openedCompare := pk_compare s\<rparr>"

definition picker_close :: "zone \<Rightarrow> picker_props \<Rightarrow> picker \<Rightarrow> picker option" where
  "picker_close z p s = map_option (\<lambda>s'. s'\<lparr>pk_isOpen := False\<rparr>) (resetValues z p s)"

definition areRangesEqual :: "date_range option \<Rightarrow> date_range option \<Rightarrow> bool" where
  "areRangesEqual a b =
     (case (a, b) of
        (Some x, Some y) \<Rightarrow> dr_from x = dr_from y \<and> (dr_to x = None \<or> dr_to y = None \<or> dr_to x = dr_to y)
      | _ \<Rightarrow> a = b)"

definition picker_update :: "picker \<Rightarrow> picker" where
  "picker_update s =
     (let s1 = s\<lparr>pk_isOpen := False\<rparr> in
      if \<not> areRangesEqual (Some (pk_range s)) (pk_openedRange s) \<or> \<not> areRangesEqual (pk_compare s) (pk_openedCompare s)
      then s1\<lparr>pk_updates := pk_updates s @ [(pk_range s, pk_compare s)]\<rparr> else s1)"

text \<open>A preset also moves a comparison; the presets offered are known names.\<close>

definition setPreset :: "zone \<Rightarrow> int \<Rightarrow> string \<Rightarrow> picker \<Rightarrow> picker" where
  "setPreset z now name s =
     (case getPresetRange z now name of
        Inl _ \<Rightarrow> s
      | Inr r \<Rightarrow>
          s\<lparr>pk_range := r,
            pk_compare := map_option (\<lambda>_. \<lparr>dr_from = year_before z (dr_from r), dr_to = map_option (year_before z) (dr_to r)\<rparr>)
              (pk_compare s)\<rparr>)"

definition compare_switch :: "zone \<Rightarrow> bool \<Rightarrow> picker \<Rightarrow> picker" where
  "compare_switch z checked s =
     (if checked
      then
        (let r = pk_range s;
             s1 = (if dr_to r = None then s\<lparr>pk_range := \<lparr>dr_from = dr_from r, dr_to = Some (dr_from r)\<rparr>\<rparr> else s)
         in s1\<lparr>pk_compare := Some
              \<lparr>dr_from = new_Date z (getFullYear z (dr_from r)) (getMonth z (dr_from r)) (getDate z (dr_from r) - 365) 0 0 0,
               dr_to = Some (year_before z (or_else (dr_to r) (dr_from r)))\<rparr>\<rparr>)
      else s\<lparr>pk_compare := None\<rparr>)"

definition edit_from :: "int \<Rightarrow> date_range \<Rightarrow> date_range" where
  "edit_from d r = \<lparr>dr_from = d, dr_to = Some (case dr_to r of None \<Rightarrow> d | Some t \<Rightarrow> if t < d then d else t)\<rparr>"

definition edit_to :: "int \<Rightarrow> date_range \<Rightarrow> date_range" where
  "edit_to d r = \<lparr>dr_from = (if d < dr_from r then d else dr_from r), dr_to = Some d\<rparr>"

definition picker_from :: "int \<Rightarrow> picker \<Rightarrow> picker" where
  "picker_from d s = s\<lparr>pk_range := edit_from d (pk_range s)\<rparr>"

definition picker_to :: "int \<Rightarrow> picker \<Rightarrow> picker" where
  "picker_to d s = s\<lparr>pk_range := edit_to d (pk_range s)\<rparr>"

definition picker_compare_from :: "int \<Rightarrow> int \<Rightarrow> picker \<Rightarrow> picker" where
  "picker_compare_from now d s =
     s\<lparr>pk_compare := Some (case pk_compare s of None \<Rightarrow> \<lparr>dr_from = d, dr_to = Some now\<rparr> | Some c \<Rightarrow> edit_from d c)\<rparr>"

definition picker_compare_to :: "int \<Rightarrow> picker \<Rightarrow> picker" where
  "picker_compare_to d s = s\<lparr>pk_compare := map_option (edit_to d) (pk_compare s)\<rparr>"

text \<open>The calendar reports the days picked so far.\<close>

definition picker_select :: "int option \<Rightarrow> int option \<Rightarrow> picker \<Rightarrow> picker" where
  "picker_select from to s = (case from of None \<Rightarrow> s | Some f \<Rightarrow> s\<lparr>pk_range := \<lparr>dr_from = f, dr_to = to\<rparr>\<rparr>)"

text \<open>The button shows the range, and below it the comparison.\<close>

definition formatDate_short :: "zone \<Rightarrow> int \<Rightarrow> string" where
  "formatDate_short z t =
     SHORT_MONTH_NAMES ! nat (getMonth z t) @ '' '' @ show_int (getDate z t) @ '', '' @ show_int (getFullYear z t)"

definition range_label :: "zone \<Rightarrow> date_range \<Rightarrow> string" where
  "range_label z r =
     formatDate_short z (dr_from r) @ (case dr_to r of None \<Rightarrow> [] | Some t \<Rightarrow> '' - '' @ formatDate_short z t)"

definition picker_label :: "zone \<Rightarrow> picker \<Rightarrow> string \<times> string option" where
  "picker_label z s = (range_label z (pk_range s), map_option (\<lambda>c. ''vs. '' @ range_label z c) (pk_compare s))"

section \<open>The fields of a date\<close>

text \<open>
  A field holds a number, nothing (\<open>''\<close>, which counts as 0 in arithmetic and to which adding 1 gives the text
  \<open>1\<close>, read as 1 by the date made of it), or \<open>NaN\<close>.
\<close>

datatype part = Num rat | Blank | NotNumber

datatype date_field = DayField | MonthField | YearField

record date_parts =
  dp_day :: part
  dp_month :: part
  dp_year :: part

record date_fields =
  df_shown :: date_parts
  df_initial :: date_parts

fun part_num :: "part \<Rightarrow> rat option" where
  "part_num (Num r) = Some r"
| "part_num Blank = Some 0"
| "part_num NotNumber = None"

fun get_part :: "date_field \<Rightarrow> date_parts \<Rightarrow> part" where
  "get_part DayField p = dp_day p"
| "get_part MonthField p = dp_month p"
| "get_part YearField p = dp_year p"

fun set_part :: "date_field \<Rightarrow> part \<Rightarrow> date_parts \<Rightarrow> date_parts" where
  "set_part DayField v p = p\<lparr>dp_day := v\<rparr>"
| "set_part MonthField v p = p\<lparr>dp_month := v\<rparr>"
| "set_part YearField v p = p\<lparr>dp_year := v\<rparr>"

definition parts_of :: "zone \<Rightarrow> int \<Rightarrow> date_parts" where
  "parts_of z t =
     \<lparr>dp_day = Num (of_int (getDate z t)), dp_month = Num (of_int (getMonth z t + 1)),
      dp_year = Num (of_int (getFullYear z t))\<rparr>"

text \<open>\<open>new Date(year, month + shift, day)\<close>; undefined for an invalid date.\<close>

definition date_at :: "zone \<Rightarrow> part \<Rightarrow> part \<Rightarrow> rat \<Rightarrow> part \<Rightarrow> int option" where
  "date_at z y m shift d =
     do {
       yr \<leftarrow> part_num y;
       mr \<leftarrow> part_num m;
       dr \<leftarrow> part_num d;
       let t = new_Date z (to_integer yr) (to_integer (mr + shift)) (to_integer dr) 0 0 0;
       if valid_time t then Some t else None
     }"

definition parts_date :: "zone \<Rightarrow> date_parts \<Rightarrow> int option" where
  "parts_date z p = date_at z (dp_year p) (dp_month p) (- 1) (dp_day p)"

definition date_fields_init :: "zone \<Rightarrow> int \<Rightarrow> int option \<Rightarrow> date_fields" where
  "date_fields_init z now value = \<lparr>df_shown = parts_of z (or_else value now), df_initial = parts_of z (or_else value now)\<rparr>"

text \<open>A new value is shown.\<close>

definition date_fields_value :: "zone \<Rightarrow> int \<Rightarrow> int option \<Rightarrow> date_fields \<Rightarrow> date_fields" where
  "date_fields_value z now value s = s\<lparr>df_shown := parts_of z (or_else value now)\<rparr>"

definition field_range :: "date_field \<Rightarrow> rat \<times> rat" where
  "field_range f = (case f of DayField \<Rightarrow> (1, 31) | MonthField \<Rightarrow> (1, 12) | YearField \<Rightarrow> (1000, 9999))"

definition validateDate :: "zone \<Rightarrow> date_field \<Rightarrow> rat option \<Rightarrow> date_parts \<Rightarrow> bool" where
  "validateDate z f v s =
     (case v of
        None \<Rightarrow> False
      | Some r \<Rightarrow>
          if r < fst (field_range f) \<or> snd (field_range f) < r then False
          else
            (let p = set_part f (Num r) s in
             case parts_date z p of None \<Rightarrow> False | Some t \<Rightarrow> parts_of z t = p))"

definition typed_part :: "string \<Rightarrow> part" where
  "typed_part text =
     (if text = [] then Blank else (case StringToNumber text of None \<Rightarrow> NotNumber | Some r \<Rightarrow> Num r))"

text \<open>What a handler reports: nothing, or the date it calls back with (undefined for an invalid one).\<close>

definition handleInputChange :: "zone \<Rightarrow> date_field \<Rightarrow> string \<Rightarrow> date_fields \<Rightarrow> date_fields \<times> int option option" where
  "handleInputChange z f text s =
     (let p = set_part f (typed_part text) (df_shown s) in
      (s\<lparr>df_shown := p\<rparr>,
       if text \<noteq> [] \<and> validateDate z f (StringToNumber text) (df_shown s) then Some (parts_date z p) else None))"

definition handleBlur :: "zone \<Rightarrow> date_field \<Rightarrow> string \<Rightarrow> date_fields \<Rightarrow> date_fields" where
  "handleBlur z f text s =
     (if text = [] \<or> \<not> validateDate z f (StringToNumber text) (df_shown s) then s\<lparr>df_shown := df_initial s\<rparr>
      else s\<lparr>df_initial := set_part f (typed_part text) (df_shown s)\<rparr>)"

fun part_up :: "part \<Rightarrow> part" where
  "part_up (Num r) = Num (r + 1)"
| "part_up Blank = Num 1"
| "part_up NotNumber = NotNumber"

definition part_down :: "part \<Rightarrow> part" where
  "part_down p = (case part_num p of None \<Rightarrow> NotNumber | Some r \<Rightarrow> Num (r - 1))"

text \<open>The number of the last day of a month, \<open>new Date(year, month, 0).getDate()\<close>.\<close>

definition last_day_part :: "zone \<Rightarrow> part \<Rightarrow> part \<Rightarrow> part" where
  "last_day_part z y m =
     (case date_at z y m 0 (Num 0) of None \<Rightarrow> NotNumber | Some t \<Rightarrow> Num (of_int (getDate z t)))"

definition month_after :: "part \<Rightarrow> part" where
  "month_after m =
     (case part_num m of None \<Rightarrow> NotNumber | Some r \<Rightarrow> Num (r - 12 * of_int (to_integer (r / 12)) + 1))"

text \<open>\<open>NaN\<close> equals nothing.\<close>

definition arrow_up :: "zone \<Rightarrow> date_field \<Rightarrow> date_parts \<Rightarrow> date_parts" where
  "arrow_up z f p =
     (case f of
        DayField \<Rightarrow>
          if dp_day p = last_day_part z (dp_year p) (dp_month p) \<and> dp_day p \<noteq> NotNumber
          then
            (let q = p\<lparr>dp_day := Num 1, dp_month := month_after (dp_month p)\<rparr> in
             if dp_month q = Num 1 then q\<lparr>dp_year := part_up (dp_year q)\<rparr> else q)
          else p\<lparr>dp_day := part_up (dp_day p)\<rparr>
      | MonthField \<Rightarrow>
          if dp_month p = Num 12 then p\<lparr>dp_month := Num 1, dp_year := part_up (dp_year p)\<rparr>
          else p\<lparr>dp_month := part_up (dp_month p)\<rparr>
      | YearField \<Rightarrow> p\<lparr>dp_year := part_up (dp_year p)\<rparr>)"

definition arrow_down :: "zone \<Rightarrow> date_field \<Rightarrow> date_parts \<Rightarrow> date_parts" where
  "arrow_down z f p =
     (case f of
        DayField \<Rightarrow>
          if dp_day p = Num 1
          then
            (let q = p\<lparr>dp_month := part_down (dp_month p)\<rparr>;
                 q' = (if dp_month q = Num 0 then q\<lparr>dp_month := Num 12, dp_year := part_down (dp_year q)\<rparr> else q)
             in q'\<lparr>dp_day := last_day_part z (dp_year q') (dp_month q')\<rparr>)
          else p\<lparr>dp_day := part_down (dp_day p)\<rparr>
      | MonthField \<Rightarrow>
          if dp_month p = Num 1 then p\<lparr>dp_month := Num 12, dp_year := part_down (dp_year p)\<rparr>
          else p\<lparr>dp_month := part_down (dp_month p)\<rparr>
      | YearField \<Rightarrow> p\<lparr>dp_year := part_down (dp_year p)\<rparr>)"

definition key_blocked :: "bool \<Rightarrow> string \<Rightarrow> bool" where
  "key_blocked modified key =
     (\<not> modified \<and> \<not> (length key = 1 \<and> list_all is_digit key)
      \<and> key \<notin> {''ArrowUp'', ''ArrowDown'', ''ArrowLeft'', ''ArrowRight'', ''Delete'', ''Tab'', ''Backspace'', ''Enter''})"

definition handleKeyDown :: "zone \<Rightarrow> date_field \<Rightarrow> bool \<Rightarrow> string \<Rightarrow> date_fields \<Rightarrow> date_fields \<times> int option option" where
  "handleKeyDown z f modified key s =
     (if modified \<or> key \<notin> {''ArrowUp'', ''ArrowDown''} then (s, None)
      else
        (let p = (if key = ''ArrowUp'' then arrow_up z f (df_shown s) else arrow_down z f (df_shown s)) in
         (s\<lparr>df_shown := p\<rparr>, Some (parts_date z p))))"

text \<open>The field the focus moves to: month, day, year from left to right.\<close>

definition key_focus :: "date_field \<Rightarrow> bool \<Rightarrow> string \<Rightarrow> nat \<Rightarrow> nat \<Rightarrow> nat \<Rightarrow> date_field option" where
  "key_focus f modified key selectionStart selectionEnd len =
     (if modified then None
      else if key = ''ArrowRight'' \<and> (selectionStart = len \<or> selectionStart = 0 \<and> selectionEnd = len)
      then (case f of MonthField \<Rightarrow> Some DayField | DayField \<Rightarrow> Some YearField | YearField \<Rightarrow> None)
      else if key = ''ArrowLeft'' \<and> selectionStart = 0
      then (case f of DayField \<Rightarrow> Some MonthField | YearField \<Rightarrow> Some DayField | MonthField \<Rightarrow> None)
      else None)"

text \<open>The parent takes over a date that is reported, and the fields show it.\<close>

definition report_taken :: "zone \<Rightarrow> int \<Rightarrow> date_fields \<times> int option option \<Rightarrow> date_fields" where
  "report_taken z now r = (case snd r of Some (Some t) \<Rightarrow> date_fields_value z now (Some t) (fst r) | _ \<Rightarrow> fst r)"

section \<open>The range of the sales page\<close>

text \<open>A range is committed when both ends have been picked.\<close>

definition sales_select :: "(int option \<times> int option) option \<Rightarrow> int \<times> int \<Rightarrow> int \<times> int" where
  "sales_select rng current = (case rng of Some (Some f, Some t) \<Rightarrow> (f, t) | _ \<Rightarrow> current)"

definition sales_day_disabled :: "int \<Rightarrow> int \<Rightarrow> bool" where
  "sales_day_disabled now date = (now < date \<or> date < make_day 2020 0 1 * msPerDay)"

text \<open>One day is shown once; the arrow between two days is left out of the two parts.\<close>

definition fmtRange :: "zone \<Rightarrow> int \<Rightarrow> int \<Rightarrow> string \<times> string option" where
  "fmtRange z from to =
     (if getFullYear z from = getFullYear z to \<and> getMonth z from = getMonth z to \<and> getDate z from = getDate z to
      then (formatDate_short z from, None) else (formatDate_short z from, Some (formatDate_short z to)))"

section \<open>Laws of the presets\<close>

text \<open>A zone that skips no time.\<close>

definition gapless :: "zone \<Rightarrow> bool" where
  "gapless z = (\<forall>t. shown_at z t)"

lemma gapless_fixed [simp]: "gapless (fixed_zone offset)"
  by (simp add: gapless_def)

lemma gapless_local: "gapless z \<Longrightarrow> local_time z (utc_time z t) = t"
  by (simp add: gapless_def shown_at_def)

lemma day_time [simp]:
  assumes "0 \<le> k" "k < msPerDay"
  shows "(n * msPerDay + k) div msPerDay = n" "(n * msPerDay + k) mod msPerDay = k"
  using assms by (simp_all add: msPerDay_def)

lemma day_of_mod: "0 \<le> t mod msPerDay" "t mod msPerDay < msPerDay"
  by (simp_all add: msPerDay_def)

lemma civil_parts:
  "make_day (getFullYear z t) (getMonth z t) (getDate z t) = local_day z t"
  "0 \<le> getMonth z t" "getMonth z t < 12" "1 \<le> getDate z t"
  "getDate z t \<le> month_length (getFullYear z t) (nat (getMonth z t))"
proof -
  obtain y m d where "civil (local_day z t) = (y, m, d)" "0 \<le> m" "m < 12" "1 \<le> d" "d \<le> month_length y (nat m)"
    "make_day y m d = local_day z t"
    using civil_exists by metis
  then show "make_day (getFullYear z t) (getMonth z t) (getDate z t) = local_day z t"
    "0 \<le> getMonth z t" "getMonth z t < 12" "1 \<le> getDate z t"
    "getDate z t \<le> month_length (getFullYear z t) (nat (getMonth z t))"
    by (simp_all add: getFullYear_def getMonth_def getDate_def)
qed

lemma setDate_day:
  assumes "gapless z"
  shows "local_day z (setDate z t d) = local_day z t + (d - getDate z t)"
proof -
  have "make_day (getFullYear z t) (getMonth z t) d = local_day z t + (d - getDate z t)"
    using make_day_add [of "getFullYear z t" "getMonth z t" "getDate z t" "d - getDate z t"] civil_parts(1) [of z t] by simp
  then show ?thesis
    using gapless_local [OF assms] day_of_mod by (simp add: setDate_def local_day_def)
qed

lemma setMonth_day:
  assumes "gapless z"
  shows "local_day z (setMonth z t m) = make_day (getFullYear z t) m (getDate z t)"
  using gapless_local [OF assms] day_of_mod by (simp add: setMonth_def local_day_def)

lemma midnight_day:
  assumes "gapless z"
  shows "local_day z (at_midnight z t) = local_day z t" "local_time z (at_midnight z t) = local_day z t * msPerDay"
  using gapless_local [OF assms] by (simp_all add: at_midnight_def setHours_def make_time_def local_day_def msPerDay_def)

lemma day_end_day:
  assumes "gapless z"
  shows "local_day z (at_day_end z t) = local_day z t"
    "local_time z (at_day_end z t) = local_day z t * msPerDay + (msPerDay - 1)"
  using gapless_local [OF assms] by (simp_all add: at_day_end_def setHours_def make_time_def local_day_def msPerDay_def)

text \<open>The days a preset means, as day numbers.\<close>

definition preset_days :: "zone \<Rightarrow> int \<Rightarrow> string \<Rightarrow> int \<times> int" where
  "preset_days z now name =
     (let t = local_day z now; w = getDay z now; y = getFullYear z now; m = getMonth z now in
      the (map_of
        [(''today'', (t, t)), (''yesterday'', (t - 1, t - 1)), (''last7'', (t - 6, t)), (''last14'', (t - 13, t)),
         (''last30'', (t - 29, t)), (''thisWeek'', (t - w, t)), (''lastWeek'', (t - w - 7, t - w - 1)),
         (''thisMonth'', (make_day y m 1, t)), (''lastMonth'', (make_day y (m - 1) 1, make_day y m 0))] name))"

text \<open>The year and the month (from 0) before the present one.\<close>

definition month_before :: "zone \<Rightarrow> int \<Rightarrow> int \<times> int" where
  "month_before z now = (getFullYear z now + (getMonth z now - 1) div 12, (getMonth z now - 1) mod 12)"

definition length_before :: "zone \<Rightarrow> int \<Rightarrow> int" where
  "length_before z now = (case month_before z now of (y, m) \<Rightarrow> month_length y (nat m))"

lemma make_day_before: "make_day (getFullYear z now) (getMonth z now - 1) d
    = make_day (fst (month_before z now)) (snd (month_before z now)) d"
  by (simp add: make_day_def Let_def month_before_def)

lemma getters_of_day:
  assumes "local_day z t = make_day y m d" "0 \<le> m" "m < 12" "1 \<le> d" "d \<le> month_length y (nat m)"
  shows "getFullYear z t = y" "getMonth z t = m" "getDate z t = d"
  using civil_make_day [OF assms(2-5)] assms(1) by (simp_all add: getFullYear_def getMonth_def getDate_def)

lemma first_of_month: "make_day (getFullYear z t) (getMonth z t) 1 = local_day z t + (1 - getDate z t)"
  "make_day (getFullYear z t) (getMonth z t) 0 = local_day z t - getDate z t"
  using make_day_add [of "getFullYear z t" "getMonth z t" "getDate z t" "1 - getDate z t"]
    make_day_add [of "getFullYear z t" "getMonth z t" "getDate z t" "- getDate z t"] civil_parts(1) [of z t] by simp_all

lemma month_before_end: "make_day (getFullYear z now) (getMonth z now) 0
    = make_day (fst (month_before z now)) (snd (month_before z now)) (length_before z now)"
proof -
  let ?y = "fst (month_before z now)" and ?m = "snd (month_before z now)"
  have "make_day ?y (?m + 1) 0 = make_day ?y ?m (length_before z now)"
    using make_day_next_month [of ?m ?y] by (simp add: length_before_def month_before_def)
  moreover have "make_day ?y (?m + 1) 0 = make_day (getFullYear z now) (getMonth z now) 0"
  proof (cases "getMonth z now = 0")
    case True
    then show ?thesis by (simp add: month_before_def make_day_def Let_def)
  next
    case False
    then have "1 \<le> getMonth z now" "getMonth z now < 12" using civil_parts(2,3) [of z now] by simp_all
    then show ?thesis by (simp add: month_before_def)
  qed
  ultimately show ?thesis by simp
qed

lemma month_before_bounds: "0 \<le> snd (month_before z now)" "snd (month_before z now) < 12"
  by (simp_all add: month_before_def)

text \<open>The month of a day shifted by one month, when that month has the day and when it does not.\<close>

lemma lastMonth_from:
  assumes "gapless z"
  shows "local_day z (setDate z (setMonth z now (getMonth z now - 1)) 1) =
    (if getDate z now \<le> length_before z now then make_day (getFullYear z now) (getMonth z now - 1) 1
     else make_day (getFullYear z now) (getMonth z now) 1)"
proof -
  let ?t = "setMonth z now (getMonth z now - 1)" and ?y = "fst (month_before z now)" and ?m = "snd (month_before z now)"
  have day: "local_day z ?t = make_day ?y ?m (getDate z now)"
    using setMonth_day [OF assms] make_day_before by simp
  have first: "local_day z (setDate z ?t 1) = make_day (getFullYear z ?t) (getMonth z ?t) 1"
    using setDate_day [OF assms] first_of_month(1) by simp
  show ?thesis
  proof (cases "getDate z now \<le> length_before z now")
    case True
    then have "getDate z now \<le> month_length ?y (nat ?m)" by (simp add: length_before_def split_beta)
    from getters_of_day [OF day month_before_bounds civil_parts(4) this] first True show ?thesis
      by (simp add: make_day_before)
  next
    case False
    let ?d = "getDate z now - length_before z now"
    have "make_day ?y ?m (getDate z now) = make_day (getFullYear z now) (getMonth z now) ?d"
      using make_day_add [of ?y ?m "length_before z now" ?d] month_before_end [of z now]
        make_day_add [of "getFullYear z now" "getMonth z now" 0 ?d] by simp
    with day have d: "local_day z ?t = make_day (getFullYear z now) (getMonth z now) ?d" by simp
    have "28 \<le> length_before z now" "getDate z now \<le> 31" 
      using month_length_pos civil_parts(5) [of z now] by (auto simp: length_before_def split_beta month_length_def split: if_splits)
    then have "1 \<le> ?d" "?d \<le> month_length (getFullYear z now) (nat (getMonth z now))"
      using False month_length_pos [of "getFullYear z now" "nat (getMonth z now)"] by simp_all
    from getters_of_day [OF d civil_parts(2,3) this] first False show ?thesis by simp
  qed
qed

text \<open>The same with day numbers relative to the shifted date.\<close>

lemma month_shift:
  assumes "gapless z"
  shows "local_day z (setMonth z now (getMonth z now - 1)) =
    getDate z (setMonth z now (getMonth z now - 1)) - 1
    + (if getDate z now \<le> length_before z now then make_day (getFullYear z now) (getMonth z now - 1) 1
       else make_day (getFullYear z now) (getMonth z now) 1)"
  using lastMonth_from [OF assms, of now] setDate_day [OF assms, of "setMonth z now (getMonth z now - 1)" 1] by simp

lemmas preset_edges = midnight_day day_end_day setDate_day month_shift first_of_month

lemma preset_names: "name \<in> set (map fst PRESETS) \<Longrightarrow>
    name = ''today'' \<or> name = ''yesterday'' \<or> name = ''last7'' \<or> name = ''last14'' \<or> name = ''last30''
    \<or> name = ''thisWeek'' \<or> name = ''lastWeek'' \<or> name = ''thisMonth'' \<or> name = ''lastMonth''"
  by (simp add: PRESETS_def)

lemma preset_range_days:
  assumes "gapless z" "name \<in> set (map fst PRESETS)" "name = ''lastMonth'' \<Longrightarrow> getDate z now \<le> length_before z now"
  shows "\<exists>from to. getPresetRange z now name = Inr \<lparr>dr_from = from, dr_to = Some to\<rparr>
    \<and> local_time z from = fst (preset_days z now name) * msPerDay
    \<and> local_time z to = snd (preset_days z now name) * msPerDay + (msPerDay - 1)"
  using preset_names [OF assms(2)] assms(3)
  by (elim disjE)
    (simp_all add: getPresetRange_def PRESETS_def preset_days_def Let_def preset_edges assms(1) algebra_simps)

text \<open>
  When the month before has no such day (the 31st, or the last days of March), the preset for the last month starts on the
  first of the present month and ends a day earlier.
\<close>

lemma last_month_inverted:
  assumes "gapless z" "length_before z now < getDate z now"
  shows "\<exists>from to. getPresetRange z now ''lastMonth'' = Inr \<lparr>dr_from = from, dr_to = Some to\<rparr>
    \<and> local_day z from = make_day (getFullYear z now) (getMonth z now) 1 \<and> local_day z to = local_day z from - 1"
  using assms by (simp add: getPresetRange_def PRESETS_def Let_def preset_edges)

text \<open>Two ranges have the same dates when they cover the same local days.\<close>

lemma same_dates_days:
  assumes "gapless z" "dr_to a = Some t" "dr_to b = Some u"
  shows "same_dates z a b \<longleftrightarrow> local_day z (dr_from a) = local_day z (dr_from b) \<and> local_day z t = local_day z u"
proof -
  have "at_midnight z x = at_midnight z y \<longleftrightarrow> local_day z x = local_day z y" for x y
    using midnight_day(1) [OF assms(1)] by (metis at_midnight_def setHours_def)
  with assms(2,3) show ?thesis by (simp add: same_dates_def or_else_def)
qed

text \<open>The preset marked as chosen has the dates of the range, and some preset is marked for the range of a preset.\<close>

lemma find_hit: "find P xs = Some x \<Longrightarrow> P x \<and> x \<in> set xs"
  by (induction xs) (auto split: if_splits)

lemma checkPreset_dates:
  assumes "checkPreset z now r = Some n"
  shows "n \<in> set (map fst PRESETS)" "\<exists>r'. getPresetRange z now n = Inr r' \<and> same_dates z r r'"
proof -
  from find_hit [OF assms [unfolded checkPreset_def]]
  have hit: "case getPresetRange z now n of Inl _ \<Rightarrow> False | Inr r' \<Rightarrow> same_dates z r r'" and n: "n \<in> set (map fst PRESETS)"
    by blast+
  from n show "n \<in> set (map fst PRESETS)" .
  from hit show "\<exists>r'. getPresetRange z now n = Inr r' \<and> same_dates z r r'"
    by (metis sum.case_eq_if sum.collapse(2))
qed

lemma preset_known: "getPresetRange z now name = Inr r \<Longrightarrow> name \<in> set (map fst PRESETS)"
  unfolding getPresetRange_def by (cases "name \<in> set (map fst PRESETS)") simp_all

lemma preset_to:
  assumes "getPresetRange z now name = Inr r"
  shows "\<exists>t. dr_to r = Some t"
  using preset_names [OF preset_known [OF assms]] assms
  by (elim disjE) (auto simp: getPresetRange_def PRESETS_def Let_def)

lemma checkPreset_finds:
  assumes "getPresetRange z now name = Inr r"
  shows "\<exists>n. checkPreset z now r = Some n"
proof (rule ccontr)
  assume "\<not> ?thesis"
  then have "checkPreset z now r = None" by simp
  moreover have "name \<in> set (map fst PRESETS)" by (rule preset_known [OF assms])
  ultimately have "\<not> (case getPresetRange z now name of Inl _ \<Rightarrow> False | Inr r' \<Rightarrow> same_dates z r r')"
    unfolding checkPreset_def find_None_iff by blast
  moreover obtain t where "dr_to r = Some t" using preset_to [OF assms] by blast
  ultimately show False using assms by (simp add: same_dates_def or_else_def)
qed

section \<open>Laws of the picker\<close>

definition ordered_range :: "date_range \<Rightarrow> bool" where
  "ordered_range r = (case dr_to r of None \<Rightarrow> True | Some t \<Rightarrow> dr_from r \<le> t)"

definition ordered_picker :: "picker \<Rightarrow> bool" where
  "ordered_picker s = (ordered_range (pk_range s) \<and> (case pk_compare s of None \<Rightarrow> True | Some c \<Rightarrow> ordered_range c))"

lemma edits_ordered:
  "ordered_range (edit_from d r)" "ordered_range (edit_to d r)"
  by (auto simp: ordered_range_def edit_from_def edit_to_def split: option.splits)

lemma picker_edits_ordered:
  assumes "ordered_picker s"
  shows "ordered_picker (picker_from d s)" "ordered_picker (picker_to d s)" "ordered_picker (picker_compare_to d s)"
    "d \<le> now \<or> pk_compare s \<noteq> None \<Longrightarrow> ordered_picker (picker_compare_from now d s)"
    "(\<And>f t. from = Some f \<Longrightarrow> to = Some t \<Longrightarrow> f \<le> t) \<Longrightarrow> ordered_picker (picker_select from to s)"
    "ordered_picker (picker_open s)" "ordered_picker (picker_update s)"
  using assms edits_ordered
  by (auto simp: ordered_picker_def picker_from_def picker_to_def picker_compare_to_def picker_compare_from_def
      picker_select_def picker_open_def picker_update_def Let_def split: option.splits)
    (cases to; simp add: ordered_range_def)+

text \<open>
  A range is reported once, when it or the comparison changed since the picker was opened. A range without an end counts
  as equal to every range with the same start.
\<close>

lemma areRangesEqual_refl: "areRangesEqual a a"
  by (cases a) (simp_all add: areRangesEqual_def)

lemma areRangesEqual_full:
  assumes "dr_to a \<noteq> None" "dr_to b \<noteq> None"
  shows "areRangesEqual (Some a) (Some b) \<longleftrightarrow> a = b"
  using assms by (cases a; cases b) (auto simp: areRangesEqual_def)

lemma update_reports:
  assumes "dr_to (pk_range s) \<noteq> None" "pk_openedRange s = Some r" "dr_to r \<noteq> None"
    "pk_compare s = None \<and> pk_openedCompare s = None"
  shows "pk_updates (picker_update s) =
    (if pk_range s = r then pk_updates s else pk_updates s @ [(pk_range s, pk_compare s)])"
  using assms areRangesEqual_full [of "pk_range s" r]
  by (simp add: picker_update_def Let_def areRangesEqual_refl)

lemma open_update_silent: "pk_updates (picker_update (picker_open s)) = pk_updates s"
  by (simp add: picker_update_def picker_open_def Let_def areRangesEqual_refl)

lemma half_range_lost:
  "pk_openedRange s = Some r \<Longrightarrow> pk_compare s = pk_openedCompare s
    \<Longrightarrow> pk_updates (picker_update (picker_select (Some (dr_from r)) None s)) = pk_updates s"
  by (simp add: picker_update_def picker_select_def Let_def areRangesEqual_refl)
    (simp add: areRangesEqual_def)

text \<open>
  Turning the comparison on goes back 365 days with the start and a calendar year with the end: for the first of January
  2025 the comparison runs from the second to the first of January 2024.
\<close>

lemma compare_switch_inverted:
  "pk_compare (compare_switch (fixed_zone 0) True
      \<lparr>pk_isOpen = True, pk_range = \<lparr>dr_from = 1735689600000, dr_to = Some 1735689600000\<rparr>, pk_compare = None,
       pk_openedRange = None, pk_openedCompare = None, pk_updates = []\<rparr>)
    = Some \<lparr>dr_from = 1704153600000, dr_to = Some 1704067200000\<rparr>"
  by code_simp

text \<open>
  A comparison given as a date text starts on the day before west of Greenwich, and on the day itself after a reset.
\<close>

lemma initial_compare_shifts:
  "initial_compare (fixed_zone (- 300)) \<lparr>initialDateFrom = TextIn ''2025-03-01'', initialDateTo = None,
       initialCompareFrom = Some (TextIn ''2024-03-01''), initialCompareTo = None\<rparr>
     = Some (Some \<lparr>dr_from = 1709182800000, dr_to = Some 1709182800000\<rparr>)
   \<and> reset_compare (fixed_zone (- 300)) \<lparr>initialDateFrom = TextIn ''2025-03-01'', initialDateTo = None,
       initialCompareFrom = Some (TextIn ''2024-03-01''), initialCompareTo = None\<rparr>
     = Some (Some \<lparr>dr_from = 1709269200000, dr_to = Some 1709269200000\<rparr>)"
  by code_simp

section \<open>Laws of the fields\<close>

text \<open>A zone less than a day away from universal time; its dates of the years 100 to 10000 are valid.\<close>

definition near_utc :: "zone \<Rightarrow> bool" where
  "near_utc z = (\<forall>t. \<bar>utc_time z t - t\<bar> \<le> msPerDay)"

lemma near_fixed: "\<bar>offset\<bar> \<le> 1440 \<Longrightarrow> near_utc (fixed_zone offset)"
  by (simp add: near_utc_def fixed_zone_def msPerDay_def)

lemma year_near: "100 \<le> y \<Longrightarrow> y \<le> 10001 \<Longrightarrow> \<bar>day_from_year y\<bar> \<le> 4000000"
  using day_from_year_mono [of 100 y] day_from_year_mono [of y 10001]
  by (cases "y = 100"; cases "y = 10001") (simp_all add: day_from_year_def [of 100] day_from_year_def [of 10001])

lemma valid_near:
  assumes "near_utc z" "100 \<le> y" "y \<le> 10000" "0 \<le> m" "m \<le> 12" "0 \<le> d" "d \<le> 31"
  shows "valid_time (new_Date z y m d 0 0 0)"
proof -
  let ?n = "make_day y m d"
  have full: "full_year y = y" using assms(2) by (simp add: full_year_def)
  have "m div 12 = 0 \<or> m div 12 = 1" using assms(4,5) by auto
  then have y': "100 \<le> y + m div 12" "y + m div 12 \<le> 10001" using assms(2,3) by auto
  have "\<bar>day_from_year (y + m div 12)\<bar> \<le> 4000000"
    by (rule year_near [OF y'])
  moreover have "0 \<le> month_start (y + m div 12) (nat (m mod 12)) \<and> month_start (y + m div 12) (nat (m mod 12)) \<le> 366"
    using month_start_bounds [of "nat (m mod 12)" "y + m div 12"] month_length_pos [of "y + m div 12" "nat (m mod 12)"]
    by (simp add: month_end_def nat_less_iff split: if_splits)
  ultimately have "\<bar>?n\<bar> \<le> 4001000" using assms(6,7) by (simp add: make_day_def Let_def) linarith
  moreover have "\<bar>utc_time z (?n * msPerDay) - ?n * msPerDay\<bar> \<le> msPerDay"
    using assms(1) by (simp add: near_utc_def)
  ultimately show ?thesis
    by (simp add: valid_time_def new_Date_def full make_time_def msPerDay_def)
qed

lemma to_integer_of_int [simp]: "to_integer (of_int n) = n"
  by (simp add: to_integer_def)

lemma date_at_ints:
  "date_at z (Num (of_int y)) (Num (of_int m)) 0 (Num (of_int d)) =
     (if valid_time (new_Date z y m d 0 0 0) then Some (new_Date z y m d 0 0 0) else None)"
  "date_at z (Num (of_int y)) (Num (of_int m)) (- 1) (Num (of_int d)) =
     (if valid_time (new_Date z y (m - 1) d 0 0 0) then Some (new_Date z y (m - 1) d 0 0 0) else None)"
proof -
  have "to_integer (of_int m + - 1) = m - 1" using to_integer_of_int [of "m - 1"] by simp
  then show "date_at z (Num (of_int y)) (Num (of_int m)) 0 (Num (of_int d)) =
     (if valid_time (new_Date z y m d 0 0 0) then Some (new_Date z y m d 0 0 0) else None)"
  "date_at z (Num (of_int y)) (Num (of_int m)) (- 1) (Num (of_int d)) =
     (if valid_time (new_Date z y (m - 1) d 0 0 0) then Some (new_Date z y (m - 1) d 0 0 0) else None)"
    by (simp_all add: date_at_def Let_def)
qed

text \<open>The fields of three whole numbers, the month counted from 1.\<close>

definition int_parts :: "int \<Rightarrow> int \<Rightarrow> int \<Rightarrow> date_parts" where
  "int_parts y m d = \<lparr>dp_day = Num (of_int d), dp_month = Num (of_int m), dp_year = Num (of_int y)\<rparr>"

lemma parts_of_int: "parts_of z t = int_parts (getFullYear z t) (getMonth z t + 1) (getDate z t)"
  by (simp add: parts_of_def int_parts_def)

lemma parts_date_int:
  assumes "near_utc z" "100 \<le> y" "y \<le> 10000" "1 \<le> m" "m \<le> 12" "0 \<le> d" "d \<le> 31"
  shows "parts_date z (int_parts y m d) = Some (new_Date z y (m - 1) d 0 0 0)"
  using valid_near [of z y "m - 1" d] assms by (simp add: parts_date_def int_parts_def date_at_ints)

lemma new_Date_local:
  "gapless z \<Longrightarrow> 100 \<le> y \<Longrightarrow> local_day z (new_Date z y m d 0 0 0) = make_day y m d"
  by (simp add: local_day_def new_Date_def gapless_local make_time_def full_year_def msPerDay_def)

lemma last_day_int:
  assumes "gapless z" "near_utc z" "100 \<le> y" "y \<le> 10000" "1 \<le> m" "m \<le> 12"
  shows "last_day_part z (Num (of_int y)) (Num (of_int m)) = Num (of_int (month_length y (nat (m - 1))))"
proof -
  have "getDate z (new_Date z y m 0 0 0 0) = month_length y (nat (m - 1))"
    using daysInMonth_calendar [of "m - 1" z y] assms by (simp add: daysInMonth_def gapless_def full_year_def)
  moreover have "valid_time (new_Date z y m 0 0 0 0)" by (rule valid_near) (use assms in simp_all)
  ultimately show ?thesis
    using date_at_ints(1) [of z y m 0] by (simp add: last_day_part_def)
qed

lemma month_after_int: "1 \<le> m \<Longrightarrow> m \<le> 12 \<Longrightarrow> month_after (Num (of_int m)) = Num (of_int (if m = 12 then 1 else m + 1))"
proof -
  assume m: "1 \<le> m" "m \<le> 12"
  have "to_integer (of_int m / 12) = (if m = 12 then 1 else 0)"
    using m by (auto simp: to_integer_def floor_eq_iff)
  then show ?thesis by (simp add: month_after_def)
qed

text \<open>The arrow keys on the day: the next calendar day, and the one before.\<close>

definition arrow_range :: "zone \<Rightarrow> int \<Rightarrow> bool" where
  "arrow_range z t = (101 \<le> getFullYear z t \<and> getFullYear z t \<le> 9999)"

lemma day_up:
  assumes "gapless z" "near_utc z" "arrow_range z t"
  shows "\<exists>t'. parts_date z (arrow_up z DayField (parts_of z t)) = Some t' \<and> local_day z t' = local_day z t + 1"
proof -
  define y m d where "y = getFullYear z t" and "m = getMonth z t" and "d = getDate z t"
  have b: "0 \<le> m" "m < 12" "1 \<le> d" "d \<le> month_length y (nat m)" "make_day y m d = local_day z t" "101 \<le> y" "y \<le> 9999"
    using civil_parts [of z t] assms(3) by (simp_all add: y_def m_def d_def arrow_range_def)
  have len: "month_length y (nat m) \<le> 31" by (simp add: month_length_def)
  have last: "last_day_part z (Num (of_int y)) (Num (of_int (m + 1))) = Num (of_int (month_length y (nat m)))"
    using last_day_int [OF assms(1,2), of y "m + 1"] b by simp
  have parts: "parts_of z t = int_parts y (m + 1) d" by (simp add: parts_of_int y_def m_def d_def)
  show ?thesis
  proof (cases "d = month_length y (nat m)")
    case False
    then have "arrow_up z DayField (parts_of z t) = int_parts y (m + 1) (d + 1)"
      using last by (simp add: parts int_parts_def arrow_up_def)
    then show ?thesis
      using parts_date_int [OF assms(2), of y "m + 1" "d + 1"] False b len make_day_add [of y m d 1] assms(1)
      by (simp add: new_Date_local)
  next
    case True
    then have next_day: "local_day z t + 1 = make_day y (m + 1) 1"
      using make_day_next_month [of m y] b make_day_add [of y "m + 1" 0 1] by simp
    show ?thesis
    proof (cases "m = 11")
      case True
      with \<open>d = month_length y (nat m)\<close> have "arrow_up z DayField (parts_of z t) = int_parts (y + 1) 1 1"
        using last month_after_int [of "m + 1"] by (simp add: parts int_parts_def arrow_up_def Let_def)
      moreover have "make_day (y + 1) 0 1 = make_day y 12 1" by (simp add: make_day_def)
      ultimately show ?thesis
        using parts_date_int [OF assms(2), of "y + 1" 1 1] next_day True b assms(1) by (simp add: new_Date_local)
    next
      case False
      with \<open>d = month_length y (nat m)\<close> have "arrow_up z DayField (parts_of z t) = int_parts y (m + 2) 1"
        using last month_after_int [of "m + 1"] b by (simp add: parts int_parts_def arrow_up_def Let_def)
      then show ?thesis
        using parts_date_int [OF assms(2), of y "m + 2" 1] next_day False b assms(1)
        by (simp add: new_Date_local add.commute)
    qed
  qed
qed

lemma day_down:
  assumes "gapless z" "near_utc z" "arrow_range z t"
  shows "\<exists>t'. parts_date z (arrow_down z DayField (parts_of z t)) = Some t' \<and> local_day z t' = local_day z t - 1"
proof -
  define y m d where "y = getFullYear z t" and "m = getMonth z t" and "d = getDate z t"
  have b: "0 \<le> m" "m < 12" "1 \<le> d" "d \<le> month_length y (nat m)" "make_day y m d = local_day z t" "101 \<le> y" "y \<le> 9999"
    using civil_parts [of z t] assms(3) by (simp_all add: y_def m_def d_def arrow_range_def)
  have len: "month_length k i \<le> 31" for k i by (simp add: month_length_def)
  have parts: "parts_of z t = int_parts y (m + 1) d" by (simp add: parts_of_int y_def m_def d_def)
  show ?thesis
  proof (cases "d = 1")
    case False
    then have "arrow_down z DayField (parts_of z t) = int_parts y (m + 1) (d - 1)"
      by (simp add: parts int_parts_def arrow_down_def part_down_def)
    then show ?thesis
      using parts_date_int [OF assms(2), of y "m + 1" "d - 1"] False b len [of y "nat m"] make_day_add [of y m d "- 1"] assms(1)
      by (simp add: new_Date_local)
  next
    case True
    then have before: "local_day z t - 1 = make_day y m 0"
      using b make_day_add [of y m 1 "- 1"] by simp
    show ?thesis
    proof (cases "m = 0")
      case True
      with \<open>d = 1\<close> have "arrow_down z DayField (parts_of z t) = int_parts (y - 1) 12 31"
        using last_day_int [OF assms(1,2), of "y - 1" 12] b
        by (simp add: parts int_parts_def arrow_down_def part_down_def Let_def month_length_def)
      moreover have "make_day (y - 1) 11 31 = make_day y 0 0"
        using make_day_next_month [of 11 "y - 1"] by (simp add: make_day_def month_length_def)
      ultimately show ?thesis
        using parts_date_int [OF assms(2), of "y - 1" 12 31] before True b assms(1) by (simp add: new_Date_local)
    next
      case False
      with \<open>d = 1\<close> have "arrow_down z DayField (parts_of z t) = int_parts y m (month_length y (nat (m - 1)))"
        using last_day_int [OF assms(1,2), of y m] b
        by (simp add: parts int_parts_def arrow_down_def part_down_def Let_def)
      moreover have "make_day y (m - 1) (month_length y (nat (m - 1))) = make_day y m 0"
        using make_day_next_month [of "m - 1" y] False b by simp
      ultimately show ?thesis
        using parts_date_int [OF assms(2), of y m "month_length y (nat (m - 1))"] before False b len [of y "nat (m - 1)"]
          month_length_pos [of y "nat (m - 1)"] assms(1)
        by (simp add: new_Date_local)
    qed
  qed
qed

text \<open>An entry is accepted exactly when it makes a date of the calendar.\<close>

lemma validate_calendar:
  assumes "gapless z" "near_utc z" "set_part f (Num (of_int v)) s = int_parts y m d" "100 \<le> y" "y \<le> 9999" "1 \<le> m" "m \<le> 12"
    "0 \<le> d" "d \<le> 31"
  shows "validateDate z f (Some (of_int v)) s \<longleftrightarrow>
    (f = YearField \<longrightarrow> 1000 \<le> y) \<and> 1 \<le> d \<and> d \<le> month_length y (nat (m - 1))"
proof -
  let ?t = "new_Date z y (m - 1) d 0 0 0"
  have t: "parts_date z (int_parts y m d) = Some ?t" using parts_date_int [OF assms(2), of y m d] assms(4-9) by simp
  have day: "local_day z ?t = make_day y (m - 1) d" using new_Date_local [OF assms(1,4)] by simp
  have cal: "parts_of z ?t = int_parts y m d \<longleftrightarrow> 1 \<le> d \<and> d \<le> month_length y (nat (m - 1))"
  proof
    assume "parts_of z ?t = int_parts y m d"
    then have "getFullYear z ?t = y" "getMonth z ?t = m - 1" "getDate z ?t = d" by (auto simp: parts_of_int int_parts_def)
    then show "1 \<le> d \<and> d \<le> month_length y (nat (m - 1))" using civil_parts(4,5) [of z ?t] by simp
  next
    assume "1 \<le> d \<and> d \<le> month_length y (nat (m - 1))"
    then show "parts_of z ?t = int_parts y m d"
      using getters_of_day [OF day] assms(6,7) by (simp add: parts_of_int)
  qed
  have "v = (case f of DayField \<Rightarrow> d | MonthField \<Rightarrow> m | YearField \<Rightarrow> y)"
    using assms(3) by (cases f; cases s) (auto simp: int_parts_def)
  moreover have "validateDate z f (Some (of_int v)) s \<longleftrightarrow>
      \<not> (of_int v < fst (field_range f) \<or> snd (field_range f) < of_int v) \<and> 1 \<le> d \<and> d \<le> month_length y (nat (m - 1))"
    by (simp add: validateDate_def Let_def assms(3) t cal)
  ultimately show ?thesis
    using assms(4-9) by (cases f) (auto simp: field_range_def)
qed

lemma blur_stale:
  "handleBlur z f [] (date_fields_value z now v (date_fields_init z now w)) = date_fields_init z now w"
  by (simp add: handleBlur_def date_fields_value_def date_fields_init_def)

text \<open>The down arrow on an empty day goes to two days before the end of the month before.\<close>

lemma empty_day_down:
  "map_option (dateToDailyParam (fixed_zone 0)) (parts_date (fixed_zone 0)
     (arrow_down (fixed_zone 0) DayField ((int_parts 2024 3 15)\<lparr>dp_day := Blank\<rparr>))) = Some ''2024-02-28''"
  by code_simp

text \<open>The up arrow on the month runs past a short month: the fields say 2/31 and the date reported is in March.\<close>

lemma month_up_overflow:
  "arrow_up (fixed_zone 0) MonthField (int_parts 2025 1 31) = int_parts 2025 2 31"
  "map_option (dateToDailyParam (fixed_zone 0)) (parts_date (fixed_zone 0) (int_parts 2025 2 31)) = Some ''2025-03-03''"
  by code_simp+

end
