(* ===== verification/Data_Table.thy ===== *)
theory Data_Table
  imports View_Models Table_State "HOL-Library.List_Lexorder" "HOL-Library.Char_ord"
begin

text \<open>
  The shared parts of the tables (\<^verbatim>\<open>components/data-table\<close>): toolbar, faceted filter, column header and menu, pages,
  the bar of actions on a selection, the cards of phones and the simple table.

  The table library (TanStack Table) is a parameter: what its commands make of the table's state and which rows it lets
  through. The components are functions from that state to what is shown and to the commands their controls give. The law
  \<open>table_library\<close> states what the library documents: the rows that pass are those on which every filter holds, in
  their order and under their index in the data, which is a row's key unless the program gives another. A column without
  a filter of its own has one that the library chooses by the data. The law is about the filters of columns; only the
  payments have a box for the global search, and nothing is stated of their rows.
\<close>

section \<open>Columns, state and library\<close>

text \<open>
  A column with its identifier, title, accessor, filter, flags, and the texts its cell shows, undefined where rendering the
  cell throws (a date that cannot be read). \<open>cl_menu\<close> says that the header is the component with the sorting menu and not
  a plain text.
\<close>

record 'r column =
  cl_id :: string
  cl_title :: "string option"
  cl_menu :: bool
  cl_value :: "('r \<Rightarrow> js) option"
  cl_filter :: "('r \<Rightarrow> js \<Rightarrow> bool) option"
  cl_sorting :: bool
  cl_hiding :: bool
  cl_cell :: "'r \<Rightarrow> string list option"

record tstate =
  ts_filters :: column_filters
  ts_global :: string
  ts_sorting :: "(string \<times> bool) list"
  ts_hidden :: "string list"
  ts_selection :: "nat list"
  ts_page :: int
  ts_size :: int

datatype table_cmd =
    SetFilterValue string js
  | SetGlobalFilter string
  | ResetColumnFilters
  | SetPageSize rat
  | SetPageIndex int
  | PreviousPage
  | NextPage
  | ToggleSorting string bool
  | ToggleVisibility string bool
  | ResetRowSelection
  | ToggleSelected nat bool
  | ToggleAllPageRowsSelected bool

record 'r table_lib =
  lib_run :: "table_cmd \<Rightarrow> tstate \<Rightarrow> tstate"
  lib_auto :: "'r list \<Rightarrow> 'r column \<Rightarrow> js \<Rightarrow> js \<Rightarrow> bool"
  lib_filtered :: "'r column list \<Rightarrow> column_filters \<Rightarrow> 'r list \<Rightarrow> (nat \<times> 'r) list"

definition run_cmds :: "'r table_lib \<Rightarrow> table_cmd list \<Rightarrow> tstate \<Rightarrow> tstate" where
  "run_cmds lib cmds s = fold (lib_run lib) cmds s"

text \<open>The rows that are selected and pass the filters, \<open>table.getFilteredSelectedRowModel().rows\<close>, by their data.\<close>

definition selected_rows :: "'r table_lib \<Rightarrow> 'r column list \<Rightarrow> 'r list \<Rightarrow> tstate \<Rightarrow> 'r list" where
  "selected_rows lib cols data s =
     map snd (filter (\<lambda>(i, r). i \<in> set (ts_selection s)) (lib_filtered lib cols (ts_filters s) data))"

definition shown_rows :: "'r table_lib \<Rightarrow> 'r column list \<Rightarrow> 'r list \<Rightarrow> tstate \<Rightarrow> 'r list" where
  "shown_rows lib cols data s = map snd (lib_filtered lib cols (ts_filters s) data)"

section \<open>Filters\<close>

text \<open>\<open>value.includes(x)\<close> of an array, or of a text with a text; nothing else is given to a filter.\<close>

definition includes_value :: "js \<Rightarrow> js \<Rightarrow> bool" where
  "includes_value filter_value x =
     (case filter_value of
        JArr vs \<Rightarrow> x \<in> set vs
      | JStr t \<Rightarrow> js_includes t (js_String x)
      | _ \<Rightarrow> False)"

definition key_column :: "string \<Rightarrow> string \<Rightarrow> ('r \<Rightarrow> js) \<Rightarrow> ('r \<Rightarrow> string list option) \<Rightarrow> 'r column" where
  "key_column key title value cell =
     \<lparr>cl_id = key, cl_title = Some title, cl_menu = True, cl_value = Some value, cl_filter = None,
      cl_sorting = True, cl_hiding = True, cl_cell = cell\<rparr>"

definition list_filter :: "'r column \<Rightarrow> 'r column" where
  "list_filter c = c\<lparr>cl_filter := map_option (\<lambda>v r f. includes_value f (v r)) (cl_value c)\<rparr>"

definition fixed_column :: "'r column \<Rightarrow> 'r column" where
  "fixed_column c = c\<lparr>cl_hiding := False\<rparr>"

text \<open>A header that is a plain text, a column that cannot be sorted, a column without data of its own.\<close>

definition plain_header :: "'r column \<Rightarrow> 'r column" where
  "plain_header c = c\<lparr>cl_menu := False\<rparr>"

definition unsorted_column :: "'r column \<Rightarrow> 'r column" where
  "unsorted_column c = c\<lparr>cl_sorting := False\<rparr>"

definition display_column :: "string \<Rightarrow> string option \<Rightarrow> ('r \<Rightarrow> string list option) \<Rightarrow> 'r column" where
  "display_column key title cell =
     \<lparr>cl_id = key, cl_title = title, cl_menu = False, cl_value = None, cl_filter = None,
      cl_sorting = True, cl_hiding = True, cl_cell = cell\<rparr>"

definition texts :: "('r \<Rightarrow> string list) \<Rightarrow> 'r \<Rightarrow> string list option" where
  "texts f r = Some (f r)"

text \<open>\<open>s || '-'\<close> for a text, with the dash of the tables.\<close>

definition or_dash :: "string \<Rightarrow> string" where
  "or_dash s = (if s = [] then em_dash else s)"

text \<open>A key that may be missing, and its text in a cell.\<close>

definition js_opt :: "string option \<Rightarrow> js" where
  "js_opt s = (case s of None \<Rightarrow> JUndef | Some t \<Rightarrow> JStr t)"

definition opt_dash :: "string option \<Rightarrow> string" where
  "opt_dash s = or_dash (or_else s [])"

text \<open>The checkboxes in front of a row, and the row's menu behind it.\<close>

definition select_column :: "'r column" where
  "select_column =
     \<lparr>cl_id = ''select'', cl_title = None, cl_menu = False, cl_value = None, cl_filter = None,
      cl_sorting = False, cl_hiding = False, cl_cell = (\<lambda>_. Some [])\<rparr>"

definition actions_column :: "'r column" where
  "actions_column =
     \<lparr>cl_id = ''actions'', cl_title = None, cl_menu = False, cl_value = None, cl_filter = None,
      cl_sorting = True, cl_hiding = True, cl_cell = (\<lambda>_. Some [])\<rparr>"

datatype check = Checked | Unchecked | Indeterminate

definition select_all_check :: "bool \<Rightarrow> bool \<Rightarrow> check" where
  "select_all_check all_rows some_rows = (if all_rows then Checked else if some_rows then Indeterminate else Unchecked)"

section \<open>Faceted filter\<close>

text \<open>\<open>new Set(column.getFilterValue())\<close>: a text is taken apart into its characters.\<close>

definition selectedValues :: "js \<Rightarrow> string list" where
  "selectedValues v =
     (case v of
        JArr vs \<Rightarrow> remdups (map js_String vs)
      | JStr t \<Rightarrow> remdups (map (\<lambda>c. [c]) t)
      | _ \<Rightarrow> [])"

definition filter_value :: "tstate \<Rightarrow> string \<Rightarrow> js" where
  "filter_value s c = or_else (map_of (ts_filters s) c) JUndef"

definition facet_toggle :: "string \<Rightarrow> string \<Rightarrow> js \<Rightarrow> table_cmd" where
  "facet_toggle column option_value current =
     (let vs = selectedValues current;
          vs' = (if option_value \<in> set vs then filter (\<lambda>v. v \<noteq> option_value) vs else vs @ [option_value])
      in SetFilterValue column (if vs' = [] then JUndef else JArr (map JStr vs')))"

definition facet_clear :: "string \<Rightarrow> table_cmd" where
  "facet_clear column = SetFilterValue column JUndef"

text \<open>The badges on the button: a count for phones, and on wide screens a count or the labels.\<close>

definition facet_badges :: "(string \<times> string) list \<Rightarrow> js \<Rightarrow> (string \<times> string list) option" where
  "facet_badges options current =
     (let vs = selectedValues current in
      if vs = [] then None
      else Some (show_nat (length vs),
        if 2 < length vs then [show_nat (length vs) @ '' selected'']
        else map fst (filter (\<lambda>(label, v). v \<in> set vs) options)))"

text \<open>The rows of the list: chosen or not, the label, and how often the value occurs.\<close>

definition facet_items :: "(string \<Rightarrow> nat option) \<Rightarrow> (string \<times> string) list \<Rightarrow> js \<Rightarrow> (bool \<times> string \<times> string) list" where
  "facet_items facets options current =
     map (\<lambda>(label, v). (v \<in> set (selectedValues current), label,
       case facets v of None \<Rightarrow> [] | Some n \<Rightarrow> if n = 0 then [] else show_nat n)) options"

text \<open>Options taken from the data: \<open>Array.from(set).sort()\<close> over the values that are not empty.\<close>

definition data_options :: "('r \<Rightarrow> string) \<Rightarrow> 'r list \<Rightarrow> (string \<times> string) list" where
  "data_options value data = map (\<lambda>v. (v, v)) (sort (remdups (filter (\<lambda>v. v \<noteq> []) (map value data))))"

section \<open>Toolbar, header, columns\<close>

record facet =
  fc_column :: string
  fc_title :: string
  fc_options :: "(string \<times> string) list"

definition search_text :: "string option \<Rightarrow> tstate \<Rightarrow> js" where
  "search_text key s =
     (case key of
        None \<Rightarrow> JStr (ts_global s)
      | Some c \<Rightarrow> (case filter_value s c of JUndef \<Rightarrow> JStr [] | JNull \<Rightarrow> JStr [] | v \<Rightarrow> v))"

definition search_typed :: "'r column list \<Rightarrow> string option \<Rightarrow> string \<Rightarrow> table_cmd list" where
  "search_typed cols key text =
     (case key of
        None \<Rightarrow> [SetGlobalFilter text]
      | Some c \<Rightarrow> if c \<in> set (map cl_id cols) then [SetFilterValue c (JStr text)] else [])"

definition toolbar_facets :: "'r column list \<Rightarrow> facet list \<Rightarrow> facet list" where
  "toolbar_facets cols fs = filter (\<lambda>f. fc_column f \<in> set (map cl_id cols)) fs"

definition isFiltered :: "tstate \<Rightarrow> bool" where
  "isFiltered s = (ts_filters s \<noteq> [] \<or> ts_global s \<noteq> [])"

definition toolbar_reset :: "table_cmd list" where
  "toolbar_reset = [ResetColumnFilters, SetGlobalFilter []]"

datatype sort_icon = SortUp | SortDown | SortNone

definition header_icon :: "tstate \<Rightarrow> string \<Rightarrow> sort_icon" where
  "header_icon s c = (case map_of (ts_sorting s) c of None \<Rightarrow> SortNone | Some True \<Rightarrow> SortDown | Some False \<Rightarrow> SortUp)"

text \<open>The entries of a header's menu; a column that cannot be sorted has a plain title. Display columns cannot.\<close>

definition header_menu :: "'r column \<Rightarrow> (string \<times> table_cmd) list" where
  "header_menu c =
     (if cl_menu c \<and> cl_sorting c \<and> cl_value c \<noteq> None
      then [(''Asc'', ToggleSorting (cl_id c) False), (''Desc'', ToggleSorting (cl_id c) True)]
        @ (if cl_hiding c then [(''Hide'', ToggleVisibility (cl_id c) False)] else [])
      else [])"

definition view_options :: "'r column list \<Rightarrow> tstate \<Rightarrow> (string \<times> bool) list" where
  "view_options cols s =
     map (\<lambda>c. (cl_id c, cl_id c \<notin> set (ts_hidden s))) (filter (\<lambda>c. cl_value c \<noteq> None \<and> cl_hiding c) cols)"

section \<open>Pages\<close>

definition page_sizes :: "int list" where
  "page_sizes = [10, 20, 30, 40, 50]"

definition page_label :: "tstate \<Rightarrow> int \<Rightarrow> string" where
  "page_label s totalPages = ''Page '' @ show_int (ts_page s + 1) @ '' of '' @ show_int totalPages"

definition page_buttons :: "tstate \<Rightarrow> int \<Rightarrow> (page_item \<times> table_cmd option) list" where
  "page_buttons s totalPages =
     map (\<lambda>p. (p, case p of Page n \<Rightarrow> Some (SetPageIndex (n - 1)) | Dots \<Rightarrow> None)) (getPageNumbers (ts_page s + 1) totalPages)"

definition page_arrows :: "int \<Rightarrow> (string \<times> table_cmd) list" where
  "page_arrows totalPages =
     [(''Go to first page'', SetPageIndex 0), (''Go to previous page'', PreviousPage),
      (''Go to next page'', NextPage), (''Go to last page'', SetPageIndex (totalPages - 1))]"

section \<open>Actions on a selection\<close>

definition bulk_label :: "string \<Rightarrow> nat \<Rightarrow> string" where
  "bulk_label entityName n = show_nat n @ '' '' @ entityName @ (if 1 < n then ''s'' else [])"

definition bulk_announcement :: "string \<Rightarrow> nat \<Rightarrow> string option" where
  "bulk_announcement entityName n =
     (if n = 0 then None else Some (bulk_label entityName n @ '' selected. Bulk actions toolbar is available.''))"

text \<open>The keys of the bar; a position without a button focuses nothing.\<close>

datatype bulk_key = FocusButton int | ClearSelection | NoEffect

definition bulk_keydown :: "string \<Rightarrow> int \<Rightarrow> int \<Rightarrow> bool \<Rightarrow> bulk_key" where
  "bulk_keydown key current buttons from_dropdown =
     (if key = ''ArrowRight'' then FocusButton ((current + 1) mod buttons)
      else if key = ''ArrowLeft'' then FocusButton (if current = 0 then buttons - 1 else current - 1)
      else if key = ''Home'' then FocusButton 0
      else if key = ''End'' then FocusButton (buttons - 1)
      else if key = ''Escape'' then (if from_dropdown then NoEffect else ClearSelection)
      else NoEffect)"

section \<open>Cards\<close>

record card =
  cd_primary :: "string list"
  cd_meta :: string
  cd_details :: "(string \<times> string list) list"

definition mobile_cards :: "('r \<Rightarrow> card) \<Rightarrow> string option \<Rightarrow> 'r list \<Rightarrow> string + card list" where
  "mobile_cards render emptyState rows = (if rows = [] then Inl (or_else emptyState ''No results.'') else Inr (map render rows))"

section \<open>A table\<close>

record 'r table_def =
  td_columns :: "'r column list"
  td_search :: "string option"
  td_placeholder :: string
  td_facets :: "'r list \<Rightarrow> facet list"
  td_hidden :: "string list"
  td_empty :: string
  td_size :: int

definition table_init :: "'r table_def \<Rightarrow> tstate" where
  "table_init t =
     \<lparr>ts_filters = [], ts_global = [], ts_sorting = [], ts_hidden = td_hidden t, ts_selection = [], ts_page = 0,
      ts_size = td_size t\<rparr>"

text \<open>A list view without selection; the toolbar is left out when there is nothing to search by.\<close>

definition simple_table ::
  "'r column list \<Rightarrow> string option \<Rightarrow> string option \<Rightarrow> ('r list \<Rightarrow> facet list) option \<Rightarrow> string option \<Rightarrow> int option \<Rightarrow> 'r table_def"
where
  "simple_table cols key placeholder facets emptyMessage per_page =
     \<lparr>td_columns = cols, td_search = key, td_placeholder = or_else placeholder ''Search...'',
      td_facets = or_else facets (\<lambda>_. []), td_hidden = [], td_empty = or_else emptyMessage ''No results.'', td_size = or_else per_page 10\<rparr>"

definition simple_toolbar :: "string option \<Rightarrow> ('r list \<Rightarrow> facet list) option \<Rightarrow> bool" where
  "simple_toolbar key facets = ((key \<noteq> None \<and> key \<noteq> Some []) \<or> facets \<noteq> None)"

text \<open>The body of the table: the texts of the visible cells, or one message. One cell that throws takes the page with it.\<close>

definition row_texts :: "'r table_def \<Rightarrow> tstate \<Rightarrow> 'r \<Rightarrow> string list list option" where
  "row_texts t s r = those (map (\<lambda>c. cl_cell c r) (filter (\<lambda>c. cl_id c \<notin> set (ts_hidden s)) (td_columns t)))"

definition table_body :: "'r table_def \<Rightarrow> tstate \<Rightarrow> 'r list \<Rightarrow> (string + string list list list) option" where
  "table_body t s rows =
     (if rows = [] then Some (Inl (td_empty t)) else map_option Inr (those (map (row_texts t s) rows)))"

section \<open>The law of the library\<close>

definition column_passes :: "('r column \<Rightarrow> js \<Rightarrow> js \<Rightarrow> bool) \<Rightarrow> 'r column \<Rightarrow> js \<Rightarrow> 'r \<Rightarrow> bool" where
  "column_passes auto_filter c v r =
     (case cl_filter c of
        Some f \<Rightarrow> f r v
      | None \<Rightarrow> auto_filter c (case cl_value c of None \<Rightarrow> JUndef | Some g \<Rightarrow> g r) v)"

definition row_passes :: "('r column \<Rightarrow> js \<Rightarrow> js \<Rightarrow> bool) \<Rightarrow> 'r column list \<Rightarrow> column_filters \<Rightarrow> 'r \<Rightarrow> bool" where
  "row_passes auto_filter cols fs r =
     list_all (\<lambda>(k, v). case find (\<lambda>c. cl_id c = k) cols of None \<Rightarrow> True | Some c \<Rightarrow> column_passes auto_filter c v r) fs"

definition removed_value :: "js \<Rightarrow> bool" where
  "removed_value v = (v = JUndef \<or> v = JStr [])"

definition table_library :: "'r table_lib \<Rightarrow> bool" where
  "table_library lib =
     ((\<forall>cols fs data. lib_filtered lib cols fs data = filter (\<lambda>(i, r). row_passes (lib_auto lib data) cols fs r) (enumerate 0 data))
      \<and> (\<forall>s c v. set (ts_filters (lib_run lib (SetFilterValue c v) s)) =
           {f \<in> set (ts_filters s). fst f \<noteq> c} \<union> (if removed_value v then {} else {(c, v)}))
      \<and> (\<forall>s. ts_filters (lib_run lib ResetColumnFilters s) = [])
      \<and> (\<forall>s t. ts_global (lib_run lib (SetGlobalFilter t) s) = t \<and> ts_filters (lib_run lib (SetGlobalFilter t) s) = ts_filters s)
      \<and> (\<forall>s. lib_run lib ResetRowSelection s = s\<lparr>ts_selection := []\<rparr>))"

lemma library_filtered:
  "table_library lib \<Longrightarrow> lib_filtered lib cols fs data = filter (\<lambda>(i, r). row_passes (lib_auto lib data) cols fs r) (enumerate 0 data)"
  and library_set_filter:
  "table_library lib \<Longrightarrow> set (ts_filters (lib_run lib (SetFilterValue c v) s)) =
     {f \<in> set (ts_filters s). fst f \<noteq> c} \<union> (if removed_value v then {} else {(c, v)})"
  and library_resets:
  "table_library lib \<Longrightarrow> ts_filters (lib_run lib ResetColumnFilters s) = []"
  "table_library lib \<Longrightarrow> ts_global (lib_run lib (SetGlobalFilter t) s) = t"
  "table_library lib \<Longrightarrow> ts_filters (lib_run lib (SetGlobalFilter t) s) = ts_filters s"
  "table_library lib \<Longrightarrow> lib_run lib ResetRowSelection s = s\<lparr>ts_selection := []\<rparr>"
  by (simp_all add: table_library_def)

text \<open>A library that keeps the law, to evaluate examples with.\<close>

fun model_run :: "table_cmd \<Rightarrow> tstate \<Rightarrow> tstate" where
  "model_run (SetFilterValue c v) s =
     s\<lparr>ts_filters := filter (\<lambda>f. fst f \<noteq> c) (ts_filters s) @ (if removed_value v then [] else [(c, v)])\<rparr>"
| "model_run (SetGlobalFilter t) s = s\<lparr>ts_global := t\<rparr>"
| "model_run ResetColumnFilters s = s\<lparr>ts_filters := []\<rparr>"
| "model_run (SetPageSize n) s = s\<lparr>ts_size := \<lfloor>n\<rfloor>\<rparr>"
| "model_run (SetPageIndex n) s = s\<lparr>ts_page := n\<rparr>"
| "model_run PreviousPage s = s\<lparr>ts_page := ts_page s - 1\<rparr>"
| "model_run NextPage s = s\<lparr>ts_page := ts_page s + 1\<rparr>"
| "model_run (ToggleSorting c d) s = s\<lparr>ts_sorting := [(c, d)]\<rparr>"
| "model_run (ToggleVisibility c v) s = s\<lparr>ts_hidden := filter (\<lambda>h. h \<noteq> c) (ts_hidden s) @ (if v then [] else [c])\<rparr>"
| "model_run ResetRowSelection s = s\<lparr>ts_selection := []\<rparr>"
| "model_run (ToggleSelected i v) s = s\<lparr>ts_selection := filter (\<lambda>j. j \<noteq> i) (ts_selection s) @ (if v then [i] else [])\<rparr>"
| "model_run (ToggleAllPageRowsSelected v) s = s"

definition model_lib :: "'r table_lib" where
  "model_lib =
     \<lparr>lib_run = model_run,
      lib_auto = (\<lambda>_ _ x v. js_includes (toLowerCase (js_String x)) (toLowerCase (js_String v))),
      lib_filtered = (\<lambda>cols fs data.
        filter (\<lambda>(i, r). row_passes (\<lambda>_ x v. js_includes (toLowerCase (js_String x)) (toLowerCase (js_String v))) cols fs r)
          (enumerate 0 data))\<rparr>"

lemma model_library [simp]: "table_library model_lib"
  by (auto simp: table_library_def model_lib_def)

section \<open>Laws of the rows\<close>

lemma row_passes_iff:
  assumes "distinct (map cl_id cols)"
  shows "row_passes auto_filter cols fs r \<longleftrightarrow>
    (\<forall>(k, v) \<in> set fs. \<forall>c \<in> set cols. cl_id c = k \<longrightarrow> column_passes auto_filter c v r)"
proof -
  have found: "find (\<lambda>c. cl_id c = cl_id d) cols = Some d" if "d \<in> set cols" for d
    using assms that by (induction cols) auto
  have "(case find (\<lambda>c. cl_id c = k) cols of None \<Rightarrow> True | Some c \<Rightarrow> column_passes auto_filter c v r)
      \<longleftrightarrow> (\<forall>c \<in> set cols. cl_id c = k \<longrightarrow> column_passes auto_filter c v r)" for k v
  proof (cases "\<exists>d \<in> set cols. cl_id d = k")
    case True
    then obtain d where d: "d \<in> set cols" "cl_id d = k" by blast
    moreover have "c = d" if "c \<in> set cols" "cl_id c = k" for c
      using found [OF d(1)] found [OF that(1)] d(2) that(2) by simp
    moreover have "find (\<lambda>c. cl_id c = k) cols = Some d" using found [OF d(1)] d(2) by simp
    ultimately show ?thesis by (metis option.simps(5))
  next
    case False
    then have "find (\<lambda>c. cl_id c = k) cols = None" by (auto simp: find_None_iff)
    with False show ?thesis by simp
  qed
  then show ?thesis by (auto simp: row_passes_def list_all_iff)
qed

lemma shown_rows_filter:
  assumes "table_library lib"
  shows "shown_rows lib cols data s = filter (row_passes (lib_auto lib data) cols (ts_filters s)) data"
proof -
  have "map snd (filter (\<lambda>(i, r). P r) (enumerate n xs)) = filter P xs" for P :: "'a \<Rightarrow> bool" and n xs
    by (induction xs arbitrary: n) auto
  then show ?thesis by (simp add: shown_rows_def library_filtered [OF assms])
qed

lemma selected_rows_set:
  assumes "table_library lib"
  shows "set (selected_rows lib cols data s) =
    {data ! i | i. i \<in> set (ts_selection s) \<and> i < length data \<and> row_passes (lib_auto lib data) cols (ts_filters s) (data ! i)}"
proof -
  have pairs: "set (enumerate 0 data) = (\<lambda>i. (i, data ! i)) ` {..<length data}"
    by (auto simp: in_set_enumerate_eq image_iff)
  show ?thesis
    unfolding selected_rows_def library_filtered [OF assms] set_map set_filter pairs
    by (auto intro!: image_eqI [where f = snd])
qed

text \<open>An action on a selection touches rows that are shown, and only ones with a selected index.\<close>

lemma selected_shown:
  assumes "table_library lib"
  shows "set (selected_rows lib cols data s) \<subseteq> set (shown_rows lib cols data s)"
  using selected_rows_set [OF assms] shown_rows_filter [OF assms] by (auto simp: in_set_conv_nth)

section \<open>Laws of the filters\<close>

lemma data_options_values:
  "set (map snd (data_options value data)) = {v. v \<noteq> [] \<and> v \<in> value ` set data}"
  "sorted (map snd (data_options value data))" "distinct (map snd (data_options value data))"
  by (auto simp: data_options_def comp_def)

lemma selectedValues_list [simp]: "selectedValues (JArr (map JStr vs)) = remdups vs" "selectedValues JUndef = []"
  by (simp_all add: selectedValues_def comp_def)

lemma facet_toggle_values:
  assumes "facet_toggle c v current = SetFilterValue c x"
  shows "set (selectedValues x) = (if v \<in> set (selectedValues current) then set (selectedValues current) - {v}
    else insert v (set (selectedValues current)))"
proof -
  define vs where "vs = (if v \<in> set (selectedValues current) then filter (\<lambda>w. w \<noteq> v) (selectedValues current)
    else selectedValues current @ [v])"
  have "x = (if vs = [] then JUndef else JArr (map JStr vs))"
    using assms by (simp only: facet_toggle_def Let_def vs_def table_cmd.inject)
  then have "set (selectedValues x) = set vs" by (cases "vs = []") simp_all
  then show ?thesis by (auto simp: vs_def)
qed

text \<open>The value of a facet is never an empty list, which would show no row.\<close>

lemma facet_toggle_not_empty: "facet_toggle c v current \<noteq> SetFilterValue c (JArr [])"
  by (simp add: facet_toggle_def Let_def)

lemma reset_clears: "table_library lib \<Longrightarrow> \<not> isFiltered (run_cmds lib toolbar_reset s)"
  by (simp add: run_cmds_def toolbar_reset_def isFiltered_def library_resets)

section \<open>Laws of the controls\<close>

lemma page_numbers_range:
  "1 \<le> cur \<Longrightarrow> cur \<le> pages \<Longrightarrow> Page n \<in> set (getPageNumbers cur pages) \<Longrightarrow> 1 \<le> n \<and> n \<le> pages"
  by (auto simp: getPageNumbers_def split: if_splits)

lemma page_buttons_lead:
  assumes "0 \<le> ts_page s" "ts_page s < pages" "(p, Some cmd) \<in> set (page_buttons s pages)"
  shows "\<exists>n. cmd = SetPageIndex n \<and> 0 \<le> n \<and> n < pages"
proof -
  obtain k where k: "Page k \<in> set (getPageNumbers (ts_page s + 1) pages)" "cmd = SetPageIndex (k - 1)"
    using assms(3) by (auto simp: page_buttons_def split: page_item.splits)
  then have "1 \<le> k \<and> k \<le> pages" using page_numbers_range [OF _ _ k(1)] assms(1,2) by simp
  with k(2) show ?thesis by simp
qed

lemma bulk_focus_range:
  assumes "0 \<le> current" "current < buttons" "bulk_keydown key current buttons d = FocusButton i"
  shows "0 \<le> i \<and> i < buttons"
proof -
  have "0 \<le> (current + 1) mod buttons" "(current + 1) mod buttons < buttons" using assms(1,2) by simp_all
  with assms show ?thesis by (auto simp: bulk_keydown_def split: if_splits)
qed

section \<open>Well-formed tables\<close>

text \<open>
  A facet works on a column whose filter asks whether the cell's value is in a list; the search box on one without a filter
  of its own, or one that looks for the text in a text of the row.
\<close>

definition faceted :: "'r column \<Rightarrow> bool" where
  "faceted c = (cl_value c \<noteq> None \<and> (\<exists>v. cl_filter c = Some (\<lambda>r f. includes_value f (v r))))"

definition searchable :: "'r column \<Rightarrow> bool" where
  "searchable c =
     (cl_value c \<noteq> None \<and>
      (cl_filter c = None \<or>
       (\<exists>name. \<forall>r t. the (cl_filter c) r (JStr t) = js_includes (toLowerCase (name r)) (toLowerCase t))))"

definition table_ok :: "'r table_def \<Rightarrow> bool" where
  "table_ok t =
     (distinct (map cl_id (td_columns t))
      \<and> (case td_search t of None \<Rightarrow> True | Some k \<Rightarrow> list_ex (\<lambda>c. cl_id c = k \<and> searchable c) (td_columns t))
      \<and> (\<forall>data. list_all (\<lambda>f. list_ex (\<lambda>c. cl_id c = fc_column f \<and> faceted c) (td_columns t)
            \<and> distinct (map snd (fc_options f))) (td_facets t data))
      \<and> set (td_hidden t) \<subseteq> set (map cl_id (td_columns t)))"

lemma column_ids [simp]:
  "cl_id (key_column k t v c) = k" "cl_id (list_filter d) = cl_id d" "cl_id (fixed_column d) = cl_id d"
  "cl_id (unsorted_column d) = cl_id d" "cl_id (plain_header d) = cl_id d" "cl_id select_column = ''select''"
  "cl_id actions_column = ''actions''" "cl_id (display_column k u c) = k"
  by (simp_all add: key_column_def list_filter_def fixed_column_def unsorted_column_def plain_header_def
      select_column_def actions_column_def display_column_def)

lemma faceted_columns [simp]:
  "faceted (list_filter (key_column k t v c))" "faceted (fixed_column d) = faceted d"
  "faceted (unsorted_column d) = faceted d" "faceted (plain_header d) = faceted d" "faceted (d\<lparr>cl_title := u\<rparr>) = faceted d"
  "faceted (d\<lparr>cl_menu := b\<rparr>) = faceted d"
  by (auto simp: faceted_def key_column_def list_filter_def fixed_column_def unsorted_column_def plain_header_def)

lemma searchable_columns [simp]:
  "searchable (key_column k t v c)" "searchable (fixed_column d) = searchable d"
  "searchable (unsorted_column d) = searchable d" "searchable (plain_header d) = searchable d"
  by (simp_all add: searchable_def key_column_def fixed_column_def unsorted_column_def plain_header_def)

lemma column_values [simp]:
  "cl_value (key_column k t v c) = Some v" "cl_value (list_filter d) = cl_value d" "cl_value (fixed_column d) = cl_value d"
  "cl_value (unsorted_column d) = cl_value d" "cl_value (plain_header d) = cl_value d"
  by (simp_all add: key_column_def list_filter_def fixed_column_def unsorted_column_def plain_header_def)

text \<open>Columns with a filter written out: on a list of values, and on a text of the row.\<close>

lemma own_filters [simp]:
  "faceted (d\<lparr>cl_filter := Some (\<lambda>r f. includes_value f (v r))\<rparr>) \<longleftrightarrow> cl_value d \<noteq> None"
  "cl_value d \<noteq> None \<Longrightarrow>
    searchable (d\<lparr>cl_filter := Some (\<lambda>r f. js_includes (toLowerCase (name r)) (toLowerCase (js_String f)))\<rparr>)"
  by (auto simp: faceted_def searchable_def)

lemma options_distinct [simp]: "distinct (map snd (data_options value data))"
  by (rule data_options_values)

lemmas table_ok_simps = table_ok_def list_all_iff list_ex_iff

text \<open>A filter on one column alone shows the rows that pass it.\<close>

lemma one_filter_shows:
  assumes "table_library lib" "distinct (map cl_id cols)" "c \<in> set cols" "set (ts_filters s) = {(cl_id c, x)}"
  shows "shown_rows lib cols data s = filter (column_passes (lib_auto lib data) c x) data"
proof -
  have only: "d = c" if "d \<in> set cols" "cl_id d = cl_id c" for d
    using assms(2,3) that by (metis distinct_map inj_onD)
  have "row_passes (lib_auto lib data) cols (ts_filters s) r \<longleftrightarrow> column_passes (lib_auto lib data) c x r" for r
    using assms(3) only by (auto simp: row_passes_iff [OF assms(2)] assms(4))
  then have "filter (row_passes (lib_auto lib data) cols (ts_filters s)) data = filter (column_passes (lib_auto lib data) c x) data"
    by (intro filter_cong refl)
  then show ?thesis by (simp only: shown_rows_filter [OF assms(1)])
qed

lemma first_filter_shows:
  assumes "table_library lib" "distinct (map cl_id cols)" "c \<in> set cols" "ts_filters s = []" "\<not> removed_value x"
  shows "shown_rows lib cols data (lib_run lib (SetFilterValue (cl_id c) x) s) = filter (column_passes (lib_auto lib data) c x) data"
  using library_set_filter [OF assms(1)] assms(4,5) by (intro one_filter_shows assms(1-3)) simp

text \<open>In a well-formed table an option of a facet on its own shows the rows with that value and no other.\<close>

lemma faceted_shows:
  assumes "table_library lib" "distinct (map cl_id cols)" "c \<in> set cols" "cl_filter c = Some (\<lambda>r f. includes_value f (v r))" "ts_filters s = []"
  shows "shown_rows lib cols data (lib_run lib (facet_toggle (cl_id c) x (filter_value s (cl_id c))) s) = filter (\<lambda>r. v r = JStr x) data"
proof -
  have cmd: "facet_toggle (cl_id c) x (filter_value s (cl_id c)) = SetFilterValue (cl_id c) (JArr [JStr x])"
    using assms(5) by (simp add: facet_toggle_def filter_value_def)
  have "column_passes (lib_auto lib data) c (JArr [JStr x]) = (\<lambda>r. v r = JStr x)"
    using assms(4) by (auto simp: column_passes_def includes_value_def)
  then show ?thesis
    unfolding cmd using first_filter_shows [OF assms(1-3,5), of "JArr [JStr x]"] by (simp add: removed_value_def)
qed

text \<open>One cell that cannot be rendered takes the whole table down.\<close>

lemma those_None: "x \<in> set xs \<Longrightarrow> f x = None \<Longrightarrow> those (map f xs) = None"
  by (induction xs) (auto split: option.splits)

text \<open>A selected row is a place in the data: whatever is there when an action runs is acted on.\<close>

lemma selection_by_place:
  assumes "table_library lib" "ts_selection s = [i]" "ts_filters s = []" "i < length data"
  shows "selected_rows lib cols data s = [data ! i]"
proof -
  have "filter (\<lambda>(j, r). j = i) (enumerate n data) = (if n \<le> i \<and> i < n + length data then [(i, data ! (i - n))] else [])" for n
    by (induction data arbitrary: n) (auto simp: nth_Cons' less_Suc_eq_le not_less)
  from this [of 0] assms(2-4) show ?thesis
    by (simp add: selected_rows_def library_filtered [OF assms(1)] row_passes_def)
qed

end
