(* ===== verification/Hotspot_Tables.thy ===== *)
theory Hotspot_Tables
  imports Data_Table Dialogs
begin

text \<open>
  The four tables of the hotspot pages (\<^verbatim>\<open>features/hotspot/{users,hosts,profiles,active}/components\<close>): their columns, filters,
  cards, the menus of their rows and the actions on a selection. The number and date formats and the table library are
  parameters. In the texts a dot's tooltip stands for the dot.
\<close>

section \<open>Row menus and actions on a selection\<close>

datatype menu_effect =
    OpenDialog string
  | Mutates submission
  | CopyText string ui_event
  | Tell ui_event
  | Visit string

record menu_item =
  mi_label :: string
  mi_disabled :: bool
  mi_effect :: menu_effect

definition item :: "string \<Rightarrow> menu_effect \<Rightarrow> menu_item" where
  "item label effect = \<lparr>mi_label = label, mi_disabled = False, mi_effect = effect\<rparr>"

definition item_unless :: "bool \<Rightarrow> string \<Rightarrow> menu_effect \<Rightarrow> menu_item" where
  "item_unless off label effect = \<lparr>mi_label = label, mi_disabled = off, mi_effect = effect\<rparr>"

definition check_mark :: string where
  "check_mark = [char_of (226 :: nat), char_of (156 :: nat), char_of (147 :: nat)]"

definition traffic_text :: "rat \<Rightarrow> rat \<Rightarrow> string list" where
  "traffic_text bytesIn bytesOut =
     [[char_of (226 :: nat), char_of (134 :: nat), char_of (147 :: nat)] @ hotspot_formatBytes bytesIn,
      [char_of (226 :: nat), char_of (134 :: nat), char_of (145 :: nat)] @ hotspot_formatBytes bytesOut]"

text \<open>The identifiers of the selected rows that are shown; the selection is dropped when they are handed on.\<close>

definition selected_ids :: "'r table_lib \<Rightarrow> 'r column list \<Rightarrow> ('r \<Rightarrow> 'i) \<Rightarrow> 'r list \<Rightarrow> tstate \<Rightarrow> 'i list" where
  "selected_ids lib cols ident data s = map ident (selected_rows lib cols data s)"

section \<open>Users\<close>

definition enabled_text :: "enabled_status \<Rightarrow> string" where
  "enabled_text e = (case e of Enabled \<Rightarrow> ''enabled'' | Disabled \<Rightarrow> ''disabled'')"

definition enabled_dot :: "bool \<Rightarrow> string" where
  "enabled_dot enabled = (if enabled then ''Enabled'' else ''Disabled'')"

definition users_dateFmt :: "intl \<Rightarrow> int \<Rightarrow> string" where
  "users_dateFmt i t =
     date_format i ''en-US'' [(''month'', JStr ''short''), (''day'', JStr ''2-digit''), (''year'', JStr ''numeric'')] t"

definition ENABLED_OPTIONS :: "(string \<times> string) list" where
  "ENABLED_OPTIONS = [(''Enabled'', ''enabled''), (''Disabled'', ''disabled'')]"

definition users_columns :: "intl \<Rightarrow> HotspotUserViewModel column list" where
  "users_columns i =
     [select_column,
      fixed_column (unsorted_column (list_filter
        (key_column ''enabledStatus'' [] (\<lambda>u. JStr (enabled_text (uv_enabledStatus u)))
          (texts (\<lambda>u. [enabled_text (uv_enabledStatus u)])))))\<lparr>cl_title := None, cl_menu := False\<rparr>,
      fixed_column (key_column ''name'' ''Username'' (\<lambda>u. JStr (uv_name u))
        (texts (\<lambda>u. [enabled_dot (uv_enabledStatus u = Enabled), uv_name u]))),
      list_filter (key_column ''profile'' ''Profile'' (\<lambda>u. JStr (uv_profile u)) (texts (\<lambda>u. [or_dash (uv_profile u)]))),
      key_column ''macAddress'' ''MAC Address'' (\<lambda>u. JStr (uv_macAddress u)) (texts (\<lambda>u. [or_dash (uv_macAddress u)])),
      list_filter (key_column ''server'' ''Server'' (\<lambda>u. JStr (uv_server u)) (texts (\<lambda>u. [or_dash (uv_server u)]))),
      key_column ''uptime'' ''Uptime'' (\<lambda>u. JStr (uv_uptime u)) (texts (\<lambda>u. [or_dash (uv_uptime u)])),
      key_column ''expiry'' ''Expiry'' (\<lambda>u. JNum (case uv_expiry u of None \<Rightarrow> 0 | Some (t, _) \<Rightarrow> of_int t))
        (texts (\<lambda>u. case uv_expiry u of
           None \<Rightarrow> [em_dash]
         | Some (t, past) \<Rightarrow> users_dateFmt i t # (if past then [''Expired''] else []))),
      key_column ''bytesTotal'' ''Traffic'' (\<lambda>u. JNum (uv_bytesIn u + uv_bytesOut u))
        (texts (\<lambda>u. if uv_bytesIn u + uv_bytesOut u = 0 then [em_dash] else traffic_text (uv_bytesIn u) (uv_bytesOut u))),
      (key_column ''comment'' ''Comment'' (\<lambda>u. JStr (uv_comment u)) (texts (\<lambda>u. [or_dash (uv_comment u)])))
        \<lparr>cl_filter := Some (\<lambda>u f. js_includes (toLowerCase (uv_comment u)) (toLowerCase (js_String f)))\<rparr>,
      actions_column]"

definition users_table :: "intl \<Rightarrow> HotspotUserViewModel table_def" where
  "users_table i =
     \<lparr>td_columns = users_columns i, td_search = Some ''name'', td_placeholder = ''Search users...'',
      td_facets = (\<lambda>data.
        [\<lparr>fc_column = ''enabledStatus'', fc_title = ''Status'', fc_options = ENABLED_OPTIONS\<rparr>,
         \<lparr>fc_column = ''profile'', fc_title = ''Profile'', fc_options = data_options uv_profile data\<rparr>,
         \<lparr>fc_column = ''server'', fc_title = ''Server'', fc_options = data_options uv_server data\<rparr>]),
      td_hidden = [''enabledStatus''], td_empty = ''No results.'', td_size = 10\<rparr>"

definition users_card :: "(int \<Rightarrow> string) \<Rightarrow> HotspotUserViewModel \<Rightarrow> card" where
  "users_card toLocaleDateString u =
     \<lparr>cd_primary = [enabled_dot (uv_enabledStatus u = Enabled), uv_name u],
      cd_meta = or_dash (uv_profile u),
      cd_details =
        [(''MAC'', [or_dash (uv_macAddress u)]), (''Server'', [or_dash (uv_server u)]), (''Uptime'', [or_dash (uv_uptime u)]),
         (''Expiry'', case uv_expiry u of
            None \<Rightarrow> [em_dash]
          | Some (t, past) \<Rightarrow> toLocaleDateString t # (if past then [''Expired''] else [])),
         (''Traffic'', if 0 < uv_bytesIn u + uv_bytesOut u then traffic_text (uv_bytesIn u) (uv_bytesOut u) else [em_dash])]\<rparr>"

definition users_remove_selected ::
  "intl \<Rightarrow> HotspotUserViewModel table_lib \<Rightarrow> HotspotUserViewModel list \<Rightarrow> tstate \<times> HotspotUserViewModel ids_dialog
    \<Rightarrow> tstate \<times> HotspotUserViewModel ids_dialog"
where
  "users_remove_selected i lib data = (\<lambda>(s, d).
     (lib_run lib ResetRowSelection s,
      users_open ''multi-delete'' None (Some (selected_ids lib (users_columns i) uv_id data s)) d))"

definition users_comment_typed :: "string \<Rightarrow> table_cmd" where
  "users_comment_typed text = SetFilterValue ''comment'' (JStr text)"

text \<open>Printing takes every row the filters let through, selected or not, with the template of the menu's entry.\<close>

definition users_print_menu :: "(string \<times> string) list" where
  "users_print_menu =
     [(''Default Template'', ''default''), (''Thermal Template'', ''thermal''), (''Small Template'', ''small'')]"

definition users_print ::
  "intl \<Rightarrow> HotspotUserViewModel table_lib \<Rightarrow> HotspotUserViewModel list \<Rightarrow> tstate \<Rightarrow> string
    \<Rightarrow> HotspotUserViewModel list \<times> string"
where
  "users_print i lib data s template = (shown_rows lib (users_columns i) data s, template)"

definition users_toggle :: "int \<Rightarrow> HotspotUserViewModel \<Rightarrow> submission" where
  "users_toggle routerId u =
     \<lparr>sub_mutation = useUpdateHotspotUser routerId (uv_id u)
        (JObj [(''disabled'', JStr (if uv_enabledStatus u = Enabled then ''true'' else ''false''))]),
      on_done = (\<lambda>_. [Success (uv_name u @ (if uv_enabledStatus u = Enabled then '' disabled'' else '' enabled'')) JUndef]),
      on_failed = (\<lambda>err. [Failure ''Failed to update user'' (error_text err)])\<rparr>"

definition users_reset_counters :: "int \<Rightarrow> HotspotUserViewModel \<Rightarrow> submission" where
  "users_reset_counters routerId u =
     \<lparr>sub_mutation = useResetHotspotUserCounters routerId (uv_id u),
      on_done = (\<lambda>_. [Success (''Counters reset for '' @ uv_name u) JUndef]),
      on_failed = (\<lambda>err. [Failure ''Failed to reset counters'' (error_text err)])\<rparr>"

definition users_rowActions :: "string option \<Rightarrow> int option \<Rightarrow> bool \<Rightarrow> bool \<Rightarrow> HotspotUserViewModel \<Rightarrow> menu_item list" where
  "users_rowActions role activeRouter updating resetting u =
     (if role = Some ''viewer'' then []
      else
        (let routerId = or_else activeRouter 0 in
         [item ''Edit User'' (OpenDialog ''edit''),
          item ''Copy Credentials'' (CopyText (uv_name u @ [char_of (10 :: nat)] @ uv_password u)
            (Success ''Copied'' (JStr (uv_name u @ '' credentials copied''))))]
         @ (if role = Some ''admin'' \<or> role = Some ''operator'' then [item ''Lihat Password'' (OpenDialog ''password'')] else [])
         @ [item_unless updating (if uv_enabledStatus u = Enabled then ''Disable'' else ''Enable'') (Mutates (users_toggle routerId u)),
            item_unless resetting ''Reset Counters'' (Mutates (users_reset_counters routerId u)),
            item ''Remove User'' (OpenDialog ''delete'')]))"

section \<open>Hosts\<close>

definition hosts_columns :: "HotspotHostViewModel column list" where
  "hosts_columns =
     [select_column,
      unsorted_column (list_filter (key_column ''authorized'' ''Authorized'' (\<lambda>h. JStr (bool_text (hv_authorized h)))
        (texts (\<lambda>h. [if hv_authorized h then ''authorized'' else em_dash])))),
      fixed_column (key_column ''macAddress'' ''MAC Address'' (\<lambda>h. JStr (hv_macAddress h)) (texts (\<lambda>h. [or_dash (hv_macAddress h)]))),
      key_column ''address'' ''Address'' (\<lambda>h. JStr (hv_address h)) (texts (\<lambda>h. [or_dash (hv_address h)])),
      key_column ''toAddress'' ''To Address'' (\<lambda>h. JStr (hv_toAddress h)) (texts (\<lambda>h. [or_dash (hv_toAddress h)])),
      list_filter (key_column ''server'' ''Server'' (\<lambda>h. JStr (hv_server h)) (texts (\<lambda>h. [or_dash (hv_server h)]))),
      key_column ''comment'' ''Comment'' (\<lambda>h. JStr (hv_comment h)) (texts (\<lambda>h. [or_dash (hv_comment h)])),
      actions_column]"

text \<open>The tabs narrow the data before the table sees it.\<close>

definition FILTER_TABS :: "(string \<times> string) list" where
  "FILTER_TABS = [(''all'', ''All''), (''authorized'', ''Authorized''), (''unauthorized'', ''Unauthorized'')]"

definition hosts_filteredData :: "string \<Rightarrow> HotspotHostViewModel list \<Rightarrow> HotspotHostViewModel list" where
  "hosts_filteredData hostFilter data =
     (if hostFilter = ''authorized'' then filter hv_authorized data
      else if hostFilter = ''unauthorized'' then filter (\<lambda>h. \<not> hv_authorized h) data
      else data)"

definition hosts_table :: "HotspotHostViewModel table_def" where
  "hosts_table =
     \<lparr>td_columns = hosts_columns, td_search = Some ''macAddress'', td_placeholder = ''Search MAC or address...'',
      td_facets = (\<lambda>filteredData. [\<lparr>fc_column = ''server'', fc_title = ''Server'', fc_options = data_options hv_server filteredData\<rparr>]),
      td_hidden = [], td_empty = ''No hosts.'', td_size = 10\<rparr>"

record hosts_view =
  hs_table :: tstate
  hs_filter :: string
  hs_dialog :: hosts_dialog

definition hosts_init :: hosts_view where
  "hosts_init = \<lparr>hs_table = table_init hosts_table, hs_filter = ''all'', hs_dialog = no_hosts_dialog\<rparr>"

definition setHostFilter :: "string \<Rightarrow> hosts_view \<Rightarrow> hosts_view" where
  "setHostFilter tab v = v\<lparr>hs_filter := tab\<rparr>"

definition hosts_selected :: "HotspotHostViewModel table_lib \<Rightarrow> HotspotHostViewModel list \<Rightarrow> hosts_view \<Rightarrow> HotspotHostViewModel list" where
  "hosts_selected lib data v = selected_rows lib hosts_columns (hosts_filteredData (hs_filter v) data) (hs_table v)"

definition hosts_bind_selected :: "HotspotHostViewModel table_lib \<Rightarrow> HotspotHostViewModel list \<Rightarrow> hosts_view \<Rightarrow> hosts_view" where
  "hosts_bind_selected lib data v =
     (let selected = hosts_selected lib data v in
      v\<lparr>hs_table := lib_run lib ResetRowSelection (hs_table v),
        hs_dialog := hosts_open ''bind-many'' None (Some (map hv_id selected)) (Some selected) (hs_dialog v)\<rparr>)"

definition hosts_remove_selected :: "HotspotHostViewModel table_lib \<Rightarrow> HotspotHostViewModel list \<Rightarrow> hosts_view \<Rightarrow> hosts_view" where
  "hosts_remove_selected lib data v =
     v\<lparr>hs_table := lib_run lib ResetRowSelection (hs_table v),
       hs_dialog := hosts_open ''multi-delete'' None (Some (map hv_id (hosts_selected lib data v))) None (hs_dialog v)\<rparr>"

definition hosts_card :: "HotspotHostViewModel \<Rightarrow> card" where
  "hosts_card h =
     \<lparr>cd_primary = [or_dash (hv_macAddress h), if hv_authorized h then ''auth'' else em_dash],
      cd_meta = or_dash (hv_address h),
      cd_details =
        [(''Server'', [or_dash (hv_server h)]), (''To Address'', [or_dash (hv_toAddress h)]), (''Comment'', [or_dash (hv_comment h)])]\<rparr>"

definition hosts_rowActions :: "HotspotHostViewModel \<Rightarrow> menu_item list" where
  "hosts_rowActions h =
     [item_unless (hv_macAddress h = []) ''Copy MAC''
        (CopyText (hv_macAddress h) (Success ''Copied'' (JStr (''MAC '' @ hv_macAddress h @ '' copied'')))),
      item ''Make IP Binding'' (OpenDialog ''bind''),
      item ''Remove'' (OpenDialog ''delete'')]"

section \<open>Profiles\<close>

definition expModeLabels :: "(string \<times> string) list" where
  "expModeLabels =
     [(''rem'', ''Remove''), (''ntf'', ''Notice''), (''remc'', ''Remove & Record''), (''ntfc'', ''Notice & Record''), (''none'', ''None'')]"

definition expModeOptions :: "(string \<times> string) list" where
  "expModeOptions = map (\<lambda>(value, label). (label, value)) expModeLabels"

definition monitorOptions :: "(string \<times> string) list" where
  "monitorOptions = [(''Active'', ''true''), (''Inactive'', ''false'')]"

text \<open>\<open>value in expModeLabels\<close>, for names that are not members of every object.\<close>

definition labelForExpMode :: "string \<Rightarrow> string" where
  "labelForExpMode v = (case map_of expModeLabels v of Some label \<Rightarrow> label | None \<Rightarrow> or_dash v)"

definition monitor_dot :: "bool \<Rightarrow> string" where
  "monitor_dot active = (if active then ''Monitor active'' else ''Monitor inactive'')"

definition profiles_columns :: "intl \<Rightarrow> HotspotProfileViewModel column list" where
  "profiles_columns i =
     [select_column,
      fixed_column (key_column ''name'' ''Name'' (\<lambda>p. JStr (pv_name p)) (texts (\<lambda>p. [monitor_dot (pv_hasExpiredMonitor p), pv_name p]))),
      key_column ''sharedUsers'' ''Shared'' (\<lambda>p. JStr (pv_sharedUsers p)) (texts (\<lambda>p. [or_dash (pv_sharedUsers p)])),
      key_column ''rateLimit'' ''Rate Limit'' (\<lambda>p. JStr (pv_rateLimit p)) (texts (\<lambda>p. [or_dash (pv_rateLimit p)])),
      list_filter (key_column ''expMode'' ''Exp Mode'' (\<lambda>p. JStr (pv_expMode p)) (texts (\<lambda>p. [labelForExpMode (pv_expMode p)]))),
      key_column ''validity'' ''Validity'' (\<lambda>p. JStr (pv_validity p)) (texts (\<lambda>p. [or_dash (pv_validity p)])),
      key_column ''price'' ''Price'' (\<lambda>p. JNum (pv_price p)) (texts (\<lambda>p. [formatIDR i (pv_price p)])),
      key_column ''sellingPrice'' ''Selling Price'' (\<lambda>p. JNum (pv_sellingPrice p)) (texts (\<lambda>p. [formatIDR i (pv_sellingPrice p)])),
      key_column ''lockUser'' ''Lock User'' (\<lambda>p. JBool (pv_lockUser p)) (texts (\<lambda>p. [if pv_lockUser p then check_mark else em_dash])),
      list_filter (key_column ''hasExpiredMonitor'' ''Monitor'' (\<lambda>p. JStr (bool_text (pv_hasExpiredMonitor p)))
        (texts (\<lambda>p. [if pv_hasExpiredMonitor p then ''Active'' else ''Inactive'']))),
      actions_column]"

definition profiles_table :: "intl \<Rightarrow> HotspotProfileViewModel table_def" where
  "profiles_table i =
     \<lparr>td_columns = profiles_columns i, td_search = Some ''name'', td_placeholder = ''Search profiles...'',
      td_facets = (\<lambda>_.
        [\<lparr>fc_column = ''expMode'', fc_title = ''Exp Mode'', fc_options = expModeOptions\<rparr>,
         \<lparr>fc_column = ''hasExpiredMonitor'', fc_title = ''Monitor'', fc_options = monitorOptions\<rparr>]),
      td_hidden = [], td_empty = ''No results.'', td_size = 10\<rparr>"

definition profiles_card :: "intl \<Rightarrow> HotspotProfileViewModel \<Rightarrow> card" where
  "profiles_card i p =
     \<lparr>cd_primary = [pv_name p, labelForExpMode (pv_expMode p)],
      cd_meta = or_dash (pv_rateLimit p) @ '' '' @ [char_of (194 :: nat), char_of (183 :: nat)] @ '' '' @ or_dash (pv_validity p),
      cd_details =
        [(''Price'', [formatIDR i (pv_price p)]), (''Selling'', [formatIDR i (pv_sellingPrice p)]),
         (''Shared'', [or_dash (pv_sharedUsers p)]), (''Lock User'', [if pv_lockUser p then check_mark else em_dash])]\<rparr>"

definition profiles_remove_selected ::
  "intl \<Rightarrow> HotspotProfileViewModel table_lib \<Rightarrow> HotspotProfileViewModel list \<Rightarrow> tstate \<times> HotspotProfileViewModel ids_dialog
    \<Rightarrow> tstate \<times> HotspotProfileViewModel ids_dialog"
where
  "profiles_remove_selected i lib data = (\<lambda>(s, d).
     (lib_run lib ResetRowSelection s,
      profiles_open ''multi-delete'' None (Some (selected_ids lib (profiles_columns i) pv_id data s)) d))"

definition profiles_rowActions :: "string option \<Rightarrow> HotspotProfileViewModel \<Rightarrow> menu_item list" where
  "profiles_rowActions role p =
     (if role = Some ''viewer'' then []
      else
        [item ''Edit Profile'' (OpenDialog ''edit''),
         item ''View Users'' (Visit ''/hotspot/users''),
         item (if pv_hasExpiredMonitor p then ''Remove Monitor'' else ''Setup Monitor'')
           (Tell (Info ''Coming soon'' (JStr
             (if pv_hasExpiredMonitor p then ''Remove monitor wiring lands in Phase 8.''
              else ''Setup monitor wiring lands in Phase 8.'')))),
         item ''Delete'' (OpenDialog ''delete'')])"

section \<open>Active sessions\<close>

definition active_columns :: "HotspotActiveViewModel column list" where
  "active_columns =
     [select_column,
      list_filter (key_column ''server'' ''Server'' (\<lambda>a. JStr (av_server a)) (texts (\<lambda>a. [or_dash (av_server a)]))),
      fixed_column (key_column ''user'' ''User'' (\<lambda>a. JStr (av_user a)) (texts (\<lambda>a. [or_dash (av_user a)]))),
      key_column ''address'' ''Address'' (\<lambda>a. JStr (av_address a)) (texts (\<lambda>a. [or_dash (av_address a)])),
      key_column ''macAddress'' ''MAC'' (\<lambda>a. JStr (av_macAddress a)) (texts (\<lambda>a. [or_dash (av_macAddress a)])),
      key_column ''uptime'' ''Uptime'' (\<lambda>a. JStr (av_uptime a)) (texts (\<lambda>a. [or_dash (av_uptime a)])),
      key_column ''sessionTimeLeft'' ''Time Left'' (\<lambda>a. JStr (av_sessionTimeLeft a)) (texts (\<lambda>a. [or_dash (av_sessionTimeLeft a)])),
      list_filter (key_column ''loginBy'' ''Login By'' (\<lambda>a. JStr (av_loginBy a)) (texts (\<lambda>a. [or_dash (av_loginBy a)]))),
      actions_column]"

definition active_table :: "HotspotActiveViewModel table_def" where
  "active_table =
     \<lparr>td_columns = active_columns, td_search = Some ''user'', td_placeholder = ''Search user or address...'',
      td_facets = (\<lambda>data.
        [\<lparr>fc_column = ''server'', fc_title = ''Server'', fc_options = data_options av_server data\<rparr>,
         \<lparr>fc_column = ''loginBy'', fc_title = ''Login By'', fc_options = data_options av_loginBy data\<rparr>]),
      td_hidden = [], td_empty = ''No active sessions.'', td_size = 10\<rparr>"

definition active_card :: "HotspotActiveViewModel \<Rightarrow> card" where
  "active_card a =
     \<lparr>cd_primary = [or_dash (av_user a), or_dash (av_server a)], cd_meta = or_dash (av_address a),
      cd_details =
        [(''MAC'', [or_dash (av_macAddress a)]), (''Uptime'', [or_dash (av_uptime a)]),
         (''Time Left'', [or_dash (av_sessionTimeLeft a)]), (''Login By'', [or_dash (av_loginBy a)])]\<rparr>"

definition active_disconnect_selected ::
  "HotspotActiveViewModel table_lib \<Rightarrow> HotspotActiveViewModel list \<Rightarrow> tstate \<times> HotspotActiveViewModel ids_dialog
    \<Rightarrow> tstate \<times> HotspotActiveViewModel ids_dialog"
where
  "active_disconnect_selected lib data = (\<lambda>(s, d).
     (lib_run lib ResetRowSelection s,
      active_open ''disconnect-many'' None (Some (selected_ids lib active_columns av_id data s)) d))"

text \<open>Removing a session keeps the cookie, so the client comes back by itself; disconnecting does not.\<close>

definition active_remove :: "int \<Rightarrow> HotspotActiveViewModel \<Rightarrow> submission" where
  "active_remove routerId a =
     \<lparr>sub_mutation = useRemoveHotspotActive routerId (av_id a),
      on_done = (\<lambda>_. [Success (''Session for '' @ av_user a @ '' removed'')
        (JStr (''Cookie preserved '' @ em_dash @ '' user can re-auth silently.''))]),
      on_failed = (\<lambda>err. [Failure ''Failed to remove session'' (error_text err)])\<rparr>"

definition active_rowActions :: "string option \<Rightarrow> int option \<Rightarrow> bool \<Rightarrow> HotspotActiveViewModel \<Rightarrow> menu_item list" where
  "active_rowActions role activeRouter removing a =
     (if role = Some ''viewer'' then []
      else
        [item_unless (av_macAddress a = []) ''Copy MAC''
           (CopyText (av_macAddress a) (Success ''Copied'' (JStr (''MAC '' @ av_macAddress a @ '' copied'')))),
         item_unless removing ''Remove (keep cookie)'' (Mutates (active_remove (or_else activeRouter 0) a)),
         item ''Disconnect'' (OpenDialog ''disconnect'')])"

section \<open>Laws\<close>

lemma hotspot_tables_ok:
  "table_ok (users_table i)" "table_ok hosts_table" "table_ok (profiles_table i)" "table_ok active_table"
  by (simp_all add: table_ok_simps users_table_def users_columns_def hosts_table_def hosts_columns_def profiles_table_def
      profiles_columns_def active_table_def active_columns_def ENABLED_OPTIONS_def expModeOptions_def expModeLabels_def
      monitorOptions_def)

text \<open>
  Removing a selection of users: the confirmed dialog sends one request for every selected user that the filters show, in
  the order of the list, and for no other; the table has no selection left.
\<close>

theorem users_removal:
  assumes "table_library lib" "selected_rows lib (users_columns i) data s \<noteq> []"
    and "users_remove_selected i lib data (s, d) = (s', d')"
  shows "fst (users_handleConfirm routerId d' r) =
      map (\<lambda>u. useRemoveHotspotUser routerId (uv_id u)) (selected_rows lib (users_columns i) data s)
    \<and> set (selected_rows lib (users_columns i) data s) =
      {data ! k | k. k \<in> set (ts_selection s) \<and> k < length data \<and> row_passes (lib_auto lib data) (users_columns i) (ts_filters s) (data ! k)}
    \<and> ts_selection s' = []"
  using assms selected_rows_set [OF assms(1), of "users_columns i" data s]
  by (auto simp: users_remove_selected_def users_open_def users_handleConfirm_def selected_ids_def library_resets)

text \<open>Choosing a tab keeps the selected places, but the rows at these places change.\<close>

lemma tab_keeps_places:
  assumes "table_library lib" "ts_selection (hs_table v) = [k]" "ts_filters (hs_table v) = []"
    and "k < length (hosts_filteredData tab data)"
  shows "hosts_selected lib data (setHostFilter tab v) = [hosts_filteredData tab data ! k]"
  using selection_by_place [OF assms(1), of "hs_table v" k "hosts_filteredData tab data" hosts_columns] assms
  by (simp add: hosts_selected_def setHostFilter_def)

definition sample_host :: "string \<Rightarrow> bool \<Rightarrow> HotspotHostViewModel" where
  "sample_host ident auth =
     toHostViewModel \<lparr>hh_id = ident, hh_mac_address = Some ''02:00:00:00:00:01'', hh_address = None, hh_server = None,
       hh_to_address = None, hh_authorized = Some (bool_text auth), hh_comment = None\<rparr>"

text \<open>The first host is selected, the tab changed, and the removal is that of a host that was never selected.\<close>

lemma tab_moves_selection:
  "let hosts = [sample_host ''*1'' True, sample_host ''*2'' False];
       v = hosts_init\<lparr>hs_table := model_run (ToggleSelected 0 True) (hs_table hosts_init)\<rparr>
   in dg_ids (hs_dialog (hosts_remove_selected model_lib hosts v)) = [''*1'']
    \<and> dg_ids (hs_dialog (hosts_remove_selected model_lib hosts (setHostFilter ''unauthorized'' v))) = [''*2'']"
  by code_simp

text \<open>A user who appears at the top of the list while another is selected takes the selection over.\<close>

lemma arrival_takes_selection:
  assumes "table_library lib" "ts_selection s = [0]" "ts_filters s = []" "data \<noteq> []"
  shows "selected_rows lib (users_columns i) data s = [hd data] \<and> selected_rows lib (users_columns i) (u # data) s = [u]"
  using selection_by_place [OF assms(1-3)] assms(4) by (simp add: hd_conv_nth)

text \<open>The menus a viewer is not given; that of the hosts does not ask for the role.\<close>

lemma viewer_has_no_menu:
  "users_rowActions (Some ''viewer'') a b c u = []" "profiles_rowActions (Some ''viewer'') p = []"
  "active_rowActions (Some ''viewer'') a b s = []"
  by (simp_all add: users_rowActions_def profiles_rowActions_def active_rowActions_def)

lemma password_for_operators:
  "list_ex (\<lambda>m. mi_effect m = OpenDialog ''password'') (users_rowActions role a b c u) \<longleftrightarrow> role = Some ''admin'' \<or> role = Some ''operator''"
  by (auto simp: users_rowActions_def Let_def item_def item_unless_def)

text \<open>The requests of the menus report and stay open like every form's.\<close>

lemma menu_reports:
  "reports (users_toggle routerId u)" "reports (users_reset_counters routerId u)" "reports (active_remove routerId a)"
  by (simp_all add: reports_def users_toggle_def users_reset_counters_def active_remove_def)

end
