(* ===== verification/Ppp_Tables.thy ===== *)
theory Ppp_Tables
  imports Hotspot_Tables Staff_Forms
begin

text \<open>
  The tables of the PPP pages (\<^verbatim>\<open>features/ppp/*/components\<close>) with the menus of their rows, of the billing profiles of
  the hotspot (\<^verbatim>\<open>features/hotspot/billing\<close>), and of the network page (\<^verbatim>\<open>features/network/components\<close>) with the look-up
  of an ARP entry.
\<close>

section \<open>Secrets\<close>

definition status_facet :: "(string \<times> string) list \<Rightarrow> facet" where
  "status_facet options = \<lparr>fc_column = ''status'', fc_title = ''Status'', fc_options = options\<rparr>"

definition STATUS_OPTIONS :: "(string \<times> string) list" where
  "STATUS_OPTIONS = [(''Enabled'', ''enabled''), (''Disabled'', ''disabled'')]"

definition disabled_text :: "bool \<Rightarrow> string" where
  "disabled_text disabled = (if disabled then ''disabled'' else ''enabled'')"

definition secrets_columns :: "PPPSecret column list" where
  "secrets_columns =
     [select_column,
      fixed_column (unsorted_column (list_filter
        (key_column ''status'' [] (\<lambda>s. JStr (disabled_text (ps_disabled s))) (texts (\<lambda>s. [disabled_text (ps_disabled s)])))))
        \<lparr>cl_title := None, cl_menu := False\<rparr>,
      fixed_column (key_column ''name'' ''Username'' (\<lambda>s. JStr (ps_name s)) (texts (\<lambda>s. [enabled_dot (\<not> ps_disabled s), ps_name s]))),
      list_filter (key_column ''profile'' ''Profile'' (\<lambda>s. js_opt (ps_profile s)) (texts (\<lambda>s. [opt_dash (ps_profile s)]))),
      key_column ''service'' ''Service'' (\<lambda>s. js_opt (ps_service s))
        (texts (\<lambda>s. [if or_else (ps_service s) [] = [] then ''any'' else or_else (ps_service s) []])),
      key_column ''remote_address'' ''Remote Address'' (\<lambda>s. js_opt (ps_remote_address s)) (texts (\<lambda>s. [opt_dash (ps_remote_address s)])),
      key_column ''last_caller_id'' ''Last Caller'' (\<lambda>s. js_opt (ps_last_caller_id s)) (texts (\<lambda>s. [opt_dash (ps_last_caller_id s)])),
      actions_column]"

definition secrets_table :: "PPPSecret table_def" where
  "secrets_table =
     \<lparr>td_columns = secrets_columns, td_search = Some ''name'', td_placeholder = ''Search secrets...'',
      td_facets = (\<lambda>data.
        [status_facet STATUS_OPTIONS,
         \<lparr>fc_column = ''profile'', fc_title = ''Profile'', fc_options = data_options (\<lambda>s. or_else (ps_profile s) []) data\<rparr>]),
      td_hidden = [''status''], td_empty = ''No results.'', td_size = 10\<rparr>"

definition secrets_card :: "PPPSecret \<Rightarrow> card" where
  "secrets_card s =
     \<lparr>cd_primary = [enabled_dot (\<not> ps_disabled s), ps_name s], cd_meta = opt_dash (ps_profile s),
      cd_details =
        [(''Service'', [if or_else (ps_service s) [] = [] then ''any'' else or_else (ps_service s) []]),
         (''Remote'', [opt_dash (ps_remote_address s)]), (''Last Caller'', [opt_dash (ps_last_caller_id s)])]\<rparr>"

text \<open>The bar over the secrets opens the dialog and keeps the selection.\<close>

definition secrets_handleDelete ::
  "PPPSecret table_lib \<Rightarrow> PPPSecret list \<Rightarrow> tstate \<Rightarrow> PPPSecret ids_dialog \<Rightarrow> PPPSecret ids_dialog"
where
  "secrets_handleDelete lib data s d = secrets_open ''multi-delete'' None (Some (selected_ids lib secrets_columns ps_id data s)) d"

definition secrets_toggle :: "int \<Rightarrow> PPPSecret \<Rightarrow> submission" where
  "secrets_toggle routerId s =
     \<lparr>sub_mutation = useSetPPPSecretDisabled routerId (ps_id s) (\<not> ps_disabled s),
      on_done = (\<lambda>_. [Success (ps_name s @ (if \<not> ps_disabled s then '' disabled'' else '' enabled'')) JUndef]),
      on_failed = (\<lambda>err. [Failure ''Failed to update secret'' (parseAPIError err)])\<rparr>"

definition secrets_rowActions :: "string option \<Rightarrow> int option \<Rightarrow> bool \<Rightarrow> PPPSecret \<Rightarrow> menu_item list" where
  "secrets_rowActions role activeRouter updating s =
     (if role = Some ''viewer'' then []
      else
        [item ''Edit Secret'' (OpenDialog ''edit''),
         item_unless updating (if ps_disabled s then ''Enable'' else ''Disable'') (Mutates (secrets_toggle (or_else activeRouter 0) s))]
        @ (if role = Some ''admin'' \<or> role = Some ''operator'' then [item ''Lihat Password'' (OpenDialog ''password'')] else [])
        @ [item ''Remove Secret'' (OpenDialog ''delete'')])"

section \<open>Profiles\<close>

definition pppProfiles_columns :: "RouterPPPProfile column list" where
  "pppProfiles_columns =
     [(unsorted_column (list_filter
        (key_column ''status'' [] (\<lambda>p. JStr (disabled_text (rp_disabled p))) (texts (\<lambda>p. [disabled_text (rp_disabled p)])))))
        \<lparr>cl_title := None, cl_menu := False\<rparr>,
      fixed_column (key_column ''name'' ''Name'' (\<lambda>p. JStr (rp_name p)) (texts (\<lambda>p. [enabled_dot (\<not> rp_disabled p), rp_name p]))),
      key_column ''rate_limit'' ''Rate Limit'' (\<lambda>p. js_opt (rp_rate_limit p)) (texts (\<lambda>p. [opt_dash (rp_rate_limit p)])),
      key_column ''local_address'' ''Local'' (\<lambda>p. js_opt (rp_local_address p)) (texts (\<lambda>p. [opt_dash (rp_local_address p)])),
      key_column ''remote_address'' ''Remote'' (\<lambda>p. js_opt (rp_remote_address p)) (texts (\<lambda>p. [opt_dash (rp_remote_address p)])),
      key_column ''parent_queue'' ''Parent Queue'' (\<lambda>p. js_opt (rp_parent_queue p)) (texts (\<lambda>p. [opt_dash (rp_parent_queue p)])),
      actions_column]"

definition pppProfiles_table :: "RouterPPPProfile table_def" where
  "pppProfiles_table =
     \<lparr>td_columns = pppProfiles_columns, td_search = Some ''name'', td_placeholder = ''Search profiles...'',
      td_facets = (\<lambda>_. [status_facet STATUS_OPTIONS]), td_hidden = [''status''], td_empty = ''No profiles.'', td_size = 10\<rparr>"

definition pppProfiles_card :: "RouterPPPProfile \<Rightarrow> card" where
  "pppProfiles_card p =
     \<lparr>cd_primary = [enabled_dot (\<not> rp_disabled p), rp_name p], cd_meta = opt_dash (rp_rate_limit p),
      cd_details =
        [(''Local'', [opt_dash (rp_local_address p)]), (''Remote'', [opt_dash (rp_remote_address p)]),
         (''Parent Queue'', [opt_dash (rp_parent_queue p)])]\<rparr>"

definition pppProfiles_toggle :: "int \<Rightarrow> RouterPPPProfile \<Rightarrow> submission" where
  "pppProfiles_toggle routerId p =
     \<lparr>sub_mutation = useUpdatePPPProfile routerId (rp_id p) (JObj [(''disabled'', JBool (\<not> rp_disabled p))]),
      on_done = (\<lambda>_. [Success (rp_name p @ (if \<not> rp_disabled p then '' disabled'' else '' enabled'')) JUndef]),
      on_failed = (\<lambda>err. [Failure ''Failed to update profile'' (parseAPIError err)])\<rparr>"

definition pppProfiles_rowActions :: "string option \<Rightarrow> int option \<Rightarrow> bool \<Rightarrow> RouterPPPProfile \<Rightarrow> menu_item list" where
  "pppProfiles_rowActions role activeRouter updating p =
     (if role = Some ''viewer'' then []
      else
        [item ''Edit Profile'' (OpenDialog ''edit''),
         item_unless updating (if rp_disabled p then ''Enable'' else ''Disable'') (Mutates (pppProfiles_toggle (or_else activeRouter 0) p)),
         item ''Remove Profile'' (OpenDialog ''delete'')])"

section \<open>Active sessions\<close>

record PPPActive =
  pa_id :: string
  pa_name :: string
  pa_service :: "string option"
  pa_caller_id :: "string option"
  pa_address :: "string option"
  pa_uptime :: "string option"
  pa_limit_bytes_in :: "rat option"
  pa_limit_bytes_out :: "rat option"
  pa_comment :: "string option"

definition pppActive_columns :: "PPPActive column list" where
  "pppActive_columns =
     [fixed_column (key_column ''name'' ''Username'' (\<lambda>a. JStr (pa_name a)) (texts (\<lambda>a. [pa_name a]))),
      key_column ''service'' ''Service'' (\<lambda>a. js_opt (pa_service a)) (texts (\<lambda>a. [opt_dash (pa_service a)])),
      key_column ''address'' ''Address'' (\<lambda>a. js_opt (pa_address a)) (texts (\<lambda>a. [opt_dash (pa_address a)])),
      key_column ''caller_id'' ''Caller ID'' (\<lambda>a. js_opt (pa_caller_id a)) (texts (\<lambda>a. [opt_dash (pa_caller_id a)])),
      key_column ''uptime'' ''Uptime'' (\<lambda>a. js_opt (pa_uptime a)) (texts (\<lambda>a. [opt_dash (pa_uptime a)])),
      actions_column]"

definition pppActive_table :: "PPPActive table_def" where
  "pppActive_table =
     \<lparr>td_columns = pppActive_columns, td_search = Some ''name'', td_placeholder = ''Search sessions...'',
      td_facets = (\<lambda>_. []), td_hidden = [], td_empty = ''No active sessions.'', td_size = 10\<rparr>"

definition pppActive_card :: "PPPActive \<Rightarrow> card" where
  "pppActive_card a =
     \<lparr>cd_primary = [pa_name a], cd_meta = opt_dash (pa_address a),
      cd_details =
        [(''Service'', [opt_dash (pa_service a)]), (''Caller ID'', [opt_dash (pa_caller_id a)]), (''Uptime'', [opt_dash (pa_uptime a)])]\<rparr>"

text \<open>Disconnecting asks first; the question closes whatever the outcome. A viewer has no button.\<close>

definition pppActive_disconnect :: "int option \<Rightarrow> PPPActive \<Rightarrow> submission" where
  "pppActive_disconnect activeRouter a =
     \<lparr>sub_mutation = useDisconnectPPPActive (or_else activeRouter 0) (pa_id a),
      on_done = (\<lambda>_. [Success (''Disconnected '' @ quote (pa_name a)) JUndef, Close]),
      on_failed = (\<lambda>err. [Failure ''Failed to disconnect'' (parseAPIError err), Close])\<rparr>"

definition pppActive_question :: "PPPActive \<Rightarrow> string \<times> string" where
  "pppActive_question a =
     (''Disconnect session?'',
      ''Session '' @ quote (pa_name a) @ '' will be disconnected from RouterOS. The client may reconnect automatically.'')"

definition pppActive_rowActions :: "string option \<Rightarrow> int option \<Rightarrow> PPPActive \<Rightarrow> menu_item list" where
  "pppActive_rowActions role activeRouter a =
     (if role = Some ''viewer'' then [] else [item ''Disconnect'' (Mutates (pppActive_disconnect activeRouter a))])"

section \<open>Billing profiles\<close>

definition BILLING_STATUS_OPTIONS :: "(string \<times> string) list" where
  "BILLING_STATUS_OPTIONS = [(''Active'', ''active''), (''Inactive'', ''inactive'')]"

definition active_text :: "bool \<Rightarrow> string" where
  "active_text active = (if active then ''active'' else ''inactive'')"

definition positive_price :: "intl \<Rightarrow> rat \<Rightarrow> string" where
  "positive_price i v = (if 0 < v then formatIDR i v else em_dash)"

definition named_text :: "string \<Rightarrow> string \<Rightarrow> string list" where
  "named_text name description = name # (if description = [] then [] else [description])"

definition pppBilling_columns :: "intl \<Rightarrow> PPPDbProfile column list" where
  "pppBilling_columns i =
     [unsorted_column (list_filter (key_column ''status'' ''Status'' (\<lambda>p. JStr (active_text (pd_active p)))
        (texts (\<lambda>p. [active_text (pd_active p)])))),
      fixed_column (key_column ''name'' ''Name'' (\<lambda>p. JStr (pd_name p)) (texts (\<lambda>p. named_text (pd_name p) (pd_description p)))),
      key_column ''rate_limit'' ''Rate Limit'' (\<lambda>p. JStr (pd_rate_limit p)) (texts (\<lambda>p. [or_dash (pd_rate_limit p)])),
      key_column ''price_monthly'' ''Price / mo'' (\<lambda>p. JNum (pd_price_monthly p)) (texts (\<lambda>p. [positive_price i (pd_price_monthly p)])),
      key_column ''parent_queue'' ''Parent Queue'' (\<lambda>p. JStr (pd_parent_queue p)) (texts (\<lambda>p. [or_dash (pd_parent_queue p)])),
      actions_column]"

definition pppBilling_table :: "intl \<Rightarrow> PPPDbProfile table_def" where
  "pppBilling_table i =
     \<lparr>td_columns = pppBilling_columns i, td_search = Some ''name'', td_placeholder = ''Search billing profiles...'',
      td_facets = (\<lambda>_. [status_facet BILLING_STATUS_OPTIONS]), td_hidden = [],
      td_empty = ''No billing profiles. Use Sync to import from the router.'', td_size = 10\<rparr>"

definition pppBilling_card :: "intl \<Rightarrow> PPPDbProfile \<Rightarrow> card" where
  "pppBilling_card i p =
     \<lparr>cd_primary = [pd_name p, active_text (pd_active p)], cd_meta = or_dash (pd_rate_limit p),
      cd_details = [(''Price / mo'', [positive_price i (pd_price_monthly p)]), (''Parent Queue'', [or_dash (pd_parent_queue p)])]\<rparr>"

definition pppBilling_toggle :: "int \<Rightarrow> PPPDbProfile \<Rightarrow> submission" where
  "pppBilling_toggle routerId p =
     \<lparr>sub_mutation = useUpdatePPPDbProfile routerId (pd_id p) (JObj [(''active'', JBool (\<not> pd_active p))]),
      on_done = (\<lambda>_. [Success (pd_name p @ (if \<not> pd_active p then '' activated'' else '' deactivated'')) JUndef]),
      on_failed = (\<lambda>err. [Failure ''Failed to update profile'' (parseAPIError err)])\<rparr>"

definition pppBilling_rowActions :: "int option \<Rightarrow> bool \<Rightarrow> PPPDbProfile \<Rightarrow> menu_item list" where
  "pppBilling_rowActions activeRouter updating p =
     [item ''Edit Profile'' (OpenDialog ''edit''),
      item_unless updating (if pd_active p then ''Deactivate'' else ''Activate'') (Mutates (pppBilling_toggle (or_else activeRouter 0) p)),
      item ''Remove Profile'' (OpenDialog ''delete'')]"

text \<open>The price of a hotspot profile depends on its role; its column has no data, so it is not sorted by.\<close>

definition hotspotBilling_price :: "intl \<Rightarrow> HotspotDbProfile \<Rightarrow> string" where
  "hotspotBilling_price i p =
     (let permanent = (hd_role p = ''permanent'');
          value = (if permanent then or_else (hd_price_monthly p) 0 else or_else (hd_sell_price p) 0)
      in if 0 < value then formatIDR i value @ (if permanent then ''/mo'' else []) else em_dash)"

definition hotspotBilling_columns :: "intl \<Rightarrow> HotspotDbProfile column list" where
  "hotspotBilling_columns i =
     [key_column ''name'' ''Name'' (\<lambda>p. JStr (hd_name p)) (texts (\<lambda>p. named_text (hd_name p) (hd_description p))),
      plain_header (list_filter (key_column ''role'' ''Role'' (\<lambda>p. JStr (hd_role p)) (texts (\<lambda>p. [hd_role p])))),
      key_column ''rate_limit'' ''Rate Limit'' (\<lambda>p. JStr (hd_rate_limit p)) (texts (\<lambda>p. [or_dash (hd_rate_limit p)])),
      (display_column ''price'' (Some ''Price'') (texts (\<lambda>p. [hotspotBilling_price i p])))\<lparr>cl_menu := True\<rparr>,
      actions_column]"

definition hotspotBilling_facet :: facet where
  "hotspotBilling_facet =
     \<lparr>fc_column = ''role'', fc_title = ''Role'', fc_options = [(''Voucher'', ''voucher''), (''Permanent'', ''permanent'')]\<rparr>"

section \<open>The network page\<close>

record IPPool =
  ip_id :: string
  ip_name :: string
  ip_ranges :: "string option"
  ip_total :: int
  ip_used :: int
  ip_available :: int
  ip_next_pool :: "string option"
  ip_comment :: "string option"

record SimpleQueue =
  sq_id :: string
  sq_name :: string
  sq_target :: "string option"
  sq_max_limit :: "string option"
  sq_burst_limit :: "string option"
  sq_parent :: "string option"
  sq_disabled :: bool
  sq_dynamic :: bool
  sq_comment :: "string option"

record DHCPLease =
  dl_id :: string
  dl_address :: "string option"
  dl_mac_address :: "string option"
  dl_host_name :: "string option"
  dl_server :: "string option"
  dl_status :: "string option"
  dl_expires_after :: "string option"
  dl_dynamic :: bool
  dl_disabled :: bool
  dl_comment :: "string option"

record ARPEntry =
  ae_id :: string
  ae_address :: "string option"
  ae_mac_address :: "string option"
  ae_interface :: "string option"
  ae_dynamic :: bool
  ae_disabled :: bool
  ae_complete :: bool
  ae_comment :: "string option"

definition pools_table :: "IPPool table_def" where
  "pools_table = simple_table
     [key_column ''name'' ''Name'' (\<lambda>p. JStr (ip_name p)) (texts (\<lambda>p. [ip_name p])),
      key_column ''ranges'' ''Ranges'' (\<lambda>p. js_opt (ip_ranges p)) (texts (\<lambda>p. [opt_dash (ip_ranges p)])),
      (display_column ''usage'' (Some ''Usage'') (texts (\<lambda>p.
        [show_int (ip_used p) @ ''/'' @ show_int (ip_total p) @ '' ('' @ show_int (ip_available p) @ '' free)''])))\<lparr>cl_menu := True\<rparr>,
      actions_column]
     (Some ''name'') (Some ''Search pools...'') None (Some ''No IP pools.'') None"

definition queues_table :: "SimpleQueue table_def" where
  "queues_table = simple_table
     [key_column ''name'' ''Name'' (\<lambda>q. JStr (sq_name q)) (texts (\<lambda>q. [sq_name q])),
      key_column ''target'' ''Target'' (\<lambda>q. js_opt (sq_target q)) (texts (\<lambda>q. [opt_dash (sq_target q)])),
      key_column ''max_limit'' ''Max Limit'' (\<lambda>q. js_opt (sq_max_limit q)) (texts (\<lambda>q. [opt_dash (sq_max_limit q)])),
      display_column ''status'' (Some ''Status'') (texts (\<lambda>q. [disabled_text (sq_disabled q)])),
      actions_column]
     (Some ''name'') (Some ''Search queues...'') None (Some ''No static simple queues.'') None"

definition leases_table :: "DHCPLease table_def" where
  "leases_table = simple_table
     [key_column ''address'' ''Address'' (\<lambda>l. js_opt (dl_address l)) (texts (\<lambda>l. [opt_dash (dl_address l)])),
      key_column ''mac_address'' ''MAC'' (\<lambda>l. js_opt (dl_mac_address l)) (texts (\<lambda>l. [opt_dash (dl_mac_address l)])),
      key_column ''host_name'' ''Host'' (\<lambda>l. js_opt (dl_host_name l)) (texts (\<lambda>l. [opt_dash (dl_host_name l)])),
      display_column ''status'' (Some ''Status'')
        (texts (\<lambda>l. [if or_else (dl_status l) [] = [] then ''unknown'' else or_else (dl_status l) []])),
      actions_column]
     (Some ''address'') (Some ''Search by address...'') None (Some ''No DHCP leases.'') None"

definition arp_table :: "bool \<Rightarrow> ARPEntry table_def" where
  "arp_table isFetching = simple_table
     [key_column ''address'' ''Address'' (\<lambda>e. js_opt (ae_address e)) (texts (\<lambda>e. [opt_dash (ae_address e)])),
      key_column ''mac_address'' ''MAC'' (\<lambda>e. js_opt (ae_mac_address e)) (texts (\<lambda>e. [opt_dash (ae_mac_address e)])),
      key_column ''interface'' ''Interface'' (\<lambda>e. js_opt (ae_interface e)) (texts (\<lambda>e. [opt_dash (ae_interface e)])),
      display_column ''dynamic'' (Some ''Type'') (texts (\<lambda>e. [if ae_dynamic e then ''dynamic'' else ''static'']))]
     None None None
     (Some (if isFetching then ''Searching'' @ [char_of (226 :: nat), char_of (128 :: nat), char_of (166 :: nat)]
            else ''No ARP entries for that MAC.''))
     None"

text \<open>The look-up: the input is kept in capitals, and the address asked for is the trimmed one.\<close>

record arp_state =
  arp_input :: string
  arp_mac :: string

definition arp_typed :: "string \<Rightarrow> arp_state \<Rightarrow> arp_state" where
  "arp_typed text s = s\<lparr>arp_input := toUpperCase text\<rparr>"

definition arp_handleSearch :: "arp_state \<Rightarrow> arp_state" where
  "arp_handleSearch s = s\<lparr>arp_mac := js_trim (arp_input s)\<rparr>"

definition arp_body :: "ARPEntry table_lib \<Rightarrow> bool \<Rightarrow> ARPEntry list option \<Rightarrow> tstate \<Rightarrow> arp_state \<Rightarrow> (string + string list list list) option" where
  "arp_body lib isFetching answer t s =
     (if arp_mac s = [] then Some (Inl ''Enter a MAC address to look up its ARP entry.'')
      else table_body (arp_table isFetching) t (shown_rows lib (td_columns (arp_table isFetching)) (or_else answer []) t))"

section \<open>Laws\<close>

lemma ppp_tables_ok:
  "table_ok secrets_table" "table_ok pppProfiles_table" "table_ok pppActive_table" "table_ok (pppBilling_table i)"
  "table_ok (simple_table (hotspotBilling_columns i) (Some ''name'') (Some ''Search profiles...'') (Some (\<lambda>_. [hotspotBilling_facet])) m p)"
  by (simp_all add: table_ok_simps secrets_table_def secrets_columns_def pppProfiles_table_def pppProfiles_columns_def
      pppActive_table_def pppActive_columns_def pppBilling_table_def pppBilling_columns_def STATUS_OPTIONS_def
      BILLING_STATUS_OPTIONS_def status_facet_def simple_table_def hotspotBilling_columns_def hotspotBilling_facet_def)

lemma network_tables_ok: "table_ok pools_table" "table_ok queues_table" "table_ok leases_table" "table_ok (arp_table b)"
  by (simp_all add: table_ok_simps simple_table_def pools_table_def queues_table_def leases_table_def arp_table_def)

text \<open>The status facet of the secrets shows the enabled, or the disabled, ones.\<close>

lemma secrets_status_facet:
  assumes "table_library lib" "ts_filters s = []"
  shows "shown_rows lib secrets_columns data
      (lib_run lib (facet_toggle ''status'' ''disabled'' (filter_value s ''status'')) s) = filter ps_disabled data"
proof -
  let ?c = "(fixed_column (unsorted_column (list_filter (key_column ''status'' []
     (\<lambda>s. JStr (disabled_text (ps_disabled s))) (texts (\<lambda>s. [disabled_text (ps_disabled s)]))))))\<lparr>cl_title := None, cl_menu := False\<rparr>"
  have d: "distinct (map cl_id secrets_columns)" using ppp_tables_ok(1) by (simp add: table_ok_def secrets_table_def)
  have c: "?c \<in> set secrets_columns" by (simp add: secrets_columns_def)
  have v: "cl_filter ?c = Some (\<lambda>s f. includes_value f (JStr (disabled_text (ps_disabled s))))"
    by (simp add: fixed_column_def unsorted_column_def list_filter_def key_column_def)
  have "filter (\<lambda>r. JStr (disabled_text (ps_disabled r)) = JStr ''disabled'') data = filter ps_disabled data"
    by (simp add: disabled_text_def)
  then show ?thesis
    using faceted_shows [OF assms(1) d c v assms(2), of data "''disabled''"] by simp
qed

text \<open>A viewer has no menu in the PPP tables but the one of the billing profiles.\<close>

lemma viewer_ppp:
  "secrets_rowActions (Some ''viewer'') a b s = []" "pppProfiles_rowActions (Some ''viewer'') a b p = []"
  "pppActive_rowActions (Some ''viewer'') a x = []" "pppBilling_rowActions a b q \<noteq> []"
  by (simp_all add: secrets_rowActions_def pppProfiles_rowActions_def pppActive_rowActions_def pppBilling_rowActions_def)

lemma ppp_menu_reports:
  "reports (secrets_toggle r s)" "reports (pppProfiles_toggle r p)" "reports (pppBilling_toggle r q)"
  by (simp_all add: reports_def secrets_toggle_def pppProfiles_toggle_def pppBilling_toggle_def)

text \<open>The selection of secrets stays after the dialog was opened, whether or not the rows were removed.\<close>

lemma secrets_selection_kept:
  "dg_ids (secrets_handleDelete lib data s d) = selected_ids lib secrets_columns ps_id data s"
  by (simp add: secrets_handleDelete_def secrets_open_def)

end
