(* ===== verification/Billing_Tables.thy ===== *)
theory Billing_Tables
  imports Ppp_Tables Settings_Forms Report
begin

text \<open>
  The tables of the customers' side: customers and subscriptions (\<^verbatim>\<open>features/customers\<close>, \<^verbatim>\<open>features/subscriptions\<close>) with
  the live view of a router's subscriptions, invoices, payments, registrations, notifications, the audit log, message
  templates, sales, staff accounts and routers. Dates are written by a library; a date that cannot be read throws.

\<close>

section \<open>Shared texts\<close>

text \<open>\<open>map.get(id) ?? `#${id}`\<close> over the customers; of two with one number the later one counts.\<close>

definition customerName :: "Customer list option \<Rightarrow> int \<Rightarrow> string" where
  "customerName customers ident =
     (case map_of (rev (map (\<lambda>c. (cu_id c, cu_full_name c)) (or_else customers []))) ident of
        Some n \<Rightarrow> n
      | None \<Rightarrow> ''#'' @ show_int ident)"

text \<open>A date in a cell, with the library's writer as a parameter.\<close>

definition date_cell :: "zone \<Rightarrow> (int \<Rightarrow> string) \<Rightarrow> string \<Rightarrow> string list option" where
  "date_cell z write s = map_option (\<lambda>t. [write t]) (parse_Date z s)"

definition table_fmtDate :: "zone \<Rightarrow> (int \<Rightarrow> string) \<Rightarrow> string \<Rightarrow> string list option" where
  "table_fmtDate z write s = (if s = [] then Some [em_dash] else date_cell z write s)"

section \<open>Customers and subscriptions\<close>

definition customers_columns :: "Customer column list" where
  "customers_columns =
     [select_column,
      key_column ''full_name'' ''Name'' (\<lambda>c. JStr (cu_full_name c)) (texts (\<lambda>c. [cu_full_name c])),
      key_column ''phone'' ''Phone'' (\<lambda>c. JStr (cu_phone c)) (texts (\<lambda>c. [cu_phone c])),
      list_filter (key_column ''area'' ''Area'' (\<lambda>c. JStr (cu_area c)) (texts (\<lambda>c. [or_dash (cu_area c)]))),
      plain_header (list_filter (key_column ''status'' ''Status'' (\<lambda>c. JStr (cu_status c)) (texts (\<lambda>c. [cu_status c])))),
      actions_column]"

definition customers_table :: "Customer table_def" where
  "customers_table =
     \<lparr>td_columns = customers_columns, td_search = Some ''full_name'', td_placeholder = ''Search customers...'',
      td_facets = (\<lambda>data.
        [status_facet [(''Aktif'', ''aktif''), (''Nonaktif'', ''nonaktif'')],
         \<lparr>fc_column = ''area'', fc_title = ''Area'', fc_options = data_options cu_area data\<rparr>]),
      td_hidden = [], td_empty = ''No results.'', td_size = 10\<rparr>"

definition url_column :: "string \<Rightarrow> string \<Rightarrow> column_cfg" where
  "url_column c t = \<lparr>columnId = c, searchKey = c, col_type = Some t, serialize = None, deserialize = None\<rparr>"

definition url_table :: "column_cfg list \<Rightarrow> table_cfg" where
  "url_table cs =
     \<lparr>pagination_part = Some \<lparr>cfg_pageKey = None, cfg_pageSizeKey = None, cfg_defaultPage = Some 1, cfg_defaultPageSize = Some 10\<rparr>,
      global_part = Some \<lparr>cfg_enabled = Some False, cfg_key = None, cfg_trim = None\<rparr>,
      columns = cs\<rparr>"

definition customers_url :: table_cfg where
  "customers_url = url_table [url_column ''full_name'' ''string'', url_column ''status'' ''array'', url_column ''area'' ''array'']"

definition customers_card :: "Customer \<Rightarrow> card" where
  "customers_card c =
     \<lparr>cd_primary = [cu_full_name c, cu_status c], cd_meta = or_dash (cu_phone c),
      cd_details = [(''Area'', [or_dash (cu_area c)]), (''Address'', [or_dash (cu_address c)])]\<rparr>"

definition subscriptions_columns :: "(int \<Rightarrow> string) \<Rightarrow> Subscription column list" where
  "subscriptions_columns name =
     [select_column,
      key_column ''mikrotik_username'' ''Username'' (\<lambda>s. JStr (sb_mikrotik_username s))
        (texts (\<lambda>s. [sb_mikrotik_username s, name (sb_customer_id s)])),
      plain_header (list_filter (key_column ''service_type'' ''Service'' (\<lambda>s. JStr (sb_service_type s)) (texts (\<lambda>s. [sb_service_type s])))),
      plain_header (list_filter (key_column ''status'' ''Status'' (\<lambda>s. JStr (sb_status s)) (texts (\<lambda>s. [sb_status s])))),
      key_column ''sync_status'' ''Sync'' (\<lambda>s. JStr (sb_sync_status s)) (texts (\<lambda>s. [or_dash (sb_sync_status s)])),
      actions_column]"

definition subscription_status_options :: "(string \<times> string) list" where
  "subscription_status_options =
     [(''Active'', ''active''), (''Pending'', ''pending_install''), (''Isolir'', ''isolir''), (''Suspended'', ''suspended''),
      (''Terminated'', ''terminated'')]"

definition serviceTypeOptions :: "(string \<times> string) list" where
  "serviceTypeOptions = [(''PPPoE'', ''pppoe''), (''Hotspot'', ''hotspot'')]"

definition subscriptions_table :: "(int \<Rightarrow> string) \<Rightarrow> Subscription table_def" where
  "subscriptions_table name =
     \<lparr>td_columns = subscriptions_columns name, td_search = Some ''mikrotik_username'', td_placeholder = ''Search by username...'',
      td_facets = (\<lambda>_.
        [\<lparr>fc_column = ''service_type'', fc_title = ''Service'', fc_options = serviceTypeOptions\<rparr>,
         status_facet subscription_status_options]),
      td_hidden = [], td_empty = ''No results.'', td_size = 10\<rparr>"

definition subscriptions_url :: table_cfg where
  "subscriptions_url =
     url_table [url_column ''mikrotik_username'' ''string'', url_column ''service_type'' ''array'', url_column ''status'' ''array'']"

definition subscriptions_card :: "(int \<Rightarrow> string) \<Rightarrow> Subscription \<Rightarrow> card" where
  "subscriptions_card name s =
     \<lparr>cd_primary = [sb_mikrotik_username s, sb_status s], cd_meta = name (sb_customer_id s),
      cd_details = [(''Service'', [sb_service_type s]), (''Sync Status'', [or_dash (sb_sync_status s)])]\<rparr>"

section \<open>The live view of subscriptions\<close>

record LiveSession =
  ls_uptime :: "string option"
  ls_address :: "string option"
  ls_caller_id :: "string option"
  ls_bytes_in :: "rat option"
  ls_bytes_out :: "rat option"

record SubscriptionEnrichedItem =
  si_subscription :: Subscription
  si_session :: "LiveSession option"
  si_router_drift :: string

text \<open>\<open>Math.floor(Math.log(n) / Math.log(1024))\<close> for a count of at least one byte, without rounding.\<close>

fun log_1024 :: "nat \<Rightarrow> nat" where
  "log_1024 n = (if n < 1024 then 0 else Suc (log_1024 (n div 1024)))"

declare log_1024.simps [simp del]

definition monitor_formatBytes :: "rat \<Rightarrow> string" where
  "monitor_formatBytes bytes =
     (if bytes = 0 then ''0B''
      else
        (let i = log_1024 (nat \<lfloor>bytes\<rfloor>); sizes = [''B'', ''KB'', ''MB'', ''GB'']
         in show_rat (of_int (js_round (bytes / 1024 ^ i * 10)) / 10) @ (if i < 4 then sizes ! i else ''undefined'')))"

definition SessionCell :: "SubscriptionEnrichedItem \<Rightarrow> string list" where
  "SessionCell r =
     (case si_session r of
        None \<Rightarrow> [''offline'']
      | Some s \<Rightarrow>
          opt_dash (ls_uptime s)
          # filter (\<lambda>t. t \<noteq> []) [or_else (ls_address s) [], or_else (ls_caller_id s) []]
          @ (if ls_bytes_in s \<noteq> None \<or> ls_bytes_out s \<noteq> None
             then [[char_of (226 :: nat), char_of (134 :: nat), char_of (147 :: nat)] @ monitor_formatBytes (or_else (ls_bytes_in s) 0) @ '' ''
                   @ [char_of (226 :: nat), char_of (134 :: nat), char_of (145 :: nat)] @ monitor_formatBytes (or_else (ls_bytes_out s) 0)]
             else []))"

definition DriftBadge :: "string \<Rightarrow> string list" where
  "DriftBadge drift =
     (if drift = [] then []
      else [[char_of (226 :: nat), char_of (154 :: nat), char_of (160 :: nat)] @ '' ''
            @ (if drift = ''online_while_suspended'' then ''online/suspended''
               else if drift = ''online_while_terminated'' then ''online/terminated''
               else drift)])"

definition monitoring_columns :: "(int \<Rightarrow> string) \<Rightarrow> SubscriptionEnrichedItem column list" where
  "monitoring_columns name =
     [display_column ''online'' (Some ''Online'') (texts (\<lambda>_. [])),
      (key_column ''identity'' ''Username / Pelanggan'' (\<lambda>r. JStr (sb_mikrotik_username (si_subscription r)))
        (texts (\<lambda>r. [sb_mikrotik_username (si_subscription r), name (sb_customer_id (si_subscription r))])))
        \<lparr>cl_filter := Some (\<lambda>r f. js_includes (toLowerCase (sb_mikrotik_username (si_subscription r))) (toLowerCase (js_String f)))\<rparr>,
      plain_header (list_filter (key_column ''service_type'' ''Service'' (\<lambda>r. JStr (sb_service_type (si_subscription r)))
        (texts (\<lambda>r. [sb_service_type (si_subscription r)])))),
      plain_header (list_filter (key_column ''status'' ''DB Status'' (\<lambda>r. JStr (sb_status (si_subscription r)))
        (texts (\<lambda>r. [sb_status (si_subscription r)])))),
      (display_column ''session'' (Some ''Sesi Aktif'') (texts SessionCell))\<lparr>cl_menu := True\<rparr>,
      display_column ''drift'' (Some ''Drift'') (texts (\<lambda>r. DriftBadge (si_router_drift r))),
      plain_header (key_column ''sync'' ''Sync'' (\<lambda>r. JStr (sb_sync_status (si_subscription r)))
        (texts (\<lambda>r. [or_dash (sb_sync_status (si_subscription r))]))),
      actions_column]"

text \<open>Choosing in the two lists above the table rewrites the filters themselves.\<close>

definition monitoring_choose :: "string \<Rightarrow> string \<Rightarrow> column_filters \<Rightarrow> column_filters" where
  "monitoring_choose column val prev =
     (if val \<noteq> [] then filter (\<lambda>f. fst f \<noteq> column) prev @ [(column, JArr [JStr val])] else filter (\<lambda>f. fst f \<noteq> column) prev)"

text \<open>How many rows are online, offline, adrift.\<close>

definition monitoring_counts :: "SubscriptionEnrichedItem list \<Rightarrow> nat \<times> nat \<times> nat" where
  "monitoring_counts data =
     (let onlineCount = length (filter (\<lambda>d. si_session d \<noteq> None) data) in
      (onlineCount, length data - onlineCount, length (filter (\<lambda>d. si_router_drift d \<noteq> []) data)))"

definition monitoring_body ::
  "SubscriptionEnrichedItem table_lib \<Rightarrow> (int \<Rightarrow> string) \<Rightarrow> int option \<Rightarrow> bool \<Rightarrow> bool \<Rightarrow> SubscriptionEnrichedItem list option
    \<Rightarrow> column_filters \<Rightarrow> string + SubscriptionEnrichedItem list"
where
  "monitoring_body lib name routerId isError isLoading answer fs =
     (if routerId = None then Inl ''Tidak ada router dipilih''
      else if isError then Inl ''Gagal memuat data monitoring. Klik Refresh untuk coba lagi.''
      else
        (let rows = map snd (lib_filtered lib (monitoring_columns name) fs (or_else answer [])) in
         if rows = []
         then Inl (if isLoading then ''Memuat data'' @ [char_of (226 :: nat), char_of (128 :: nat), char_of (166 :: nat)]
                   else ''Tidak ada subscription untuk router ini.'')
         else Inr rows))"

section \<open>Invoices and payments\<close>

record Invoice =
  nv_id :: int
  nv_invoice_number :: string
  nv_customer_id :: int
  nv_subscription_id :: int
  nv_amount :: rat
  nv_period_start :: string
  nv_period_end :: string
  nv_due_date :: string
  nv_status :: string
  nv_issued_at :: "string option"
  nv_paid_at :: "string option"
  nv_notes :: string
  nv_payment_code :: "string option"
  nv_qr_content :: "string option"
  nv_created_at :: string
  nv_updated_at :: string

definition invoice_status_config :: "(string \<times> string) list" where
  "invoice_status_config =
     [(''draft'', ''Draft''), (''issued'', ''Belum Bayar''), (''paid'', ''Lunas''), (''overdue'', ''Terlambat''),
      (''cancelled'', ''Dibatalkan'')]"

definition invoiceStatusLabel :: "string \<Rightarrow> string" where
  "invoiceStatusLabel status = or_else (map_of invoice_status_config status) status"

definition invoices_columns :: "zone \<Rightarrow> intl \<Rightarrow> (int \<Rightarrow> string) \<Rightarrow> (int \<Rightarrow> string) \<Rightarrow> Invoice column list" where
  "invoices_columns z i write name =
     [key_column ''invoice_number'' ''No. Invoice'' (\<lambda>v. JStr (nv_invoice_number v)) (texts (\<lambda>v. [nv_invoice_number v])),
      (key_column ''customer'' ''Pelanggan'' (\<lambda>v. JNum (of_int (nv_customer_id v))) (texts (\<lambda>v. [name (nv_customer_id v)])))
        \<lparr>cl_filter := Some (\<lambda>v f. js_includes (toLowerCase (name (nv_customer_id v))) (toLowerCase (js_String f)))\<rparr>,
      key_column ''amount'' ''Jumlah'' (\<lambda>v. JNum (nv_amount v)) (texts (\<lambda>v. [formatIDR i (nv_amount v)])),
      key_column ''period_start'' ''Periode'' (\<lambda>v. JStr (nv_period_start v)) (\<lambda>v. table_fmtDate z write (nv_period_start v)),
      key_column ''due_date'' ''Jatuh Tempo'' (\<lambda>v. JStr (nv_due_date v)) (\<lambda>v. table_fmtDate z write (nv_due_date v)),
      list_filter (key_column ''status'' ''Status'' (\<lambda>v. JStr (nv_status v)) (texts (\<lambda>v. [invoiceStatusLabel (nv_status v)]))),
      actions_column]"

definition invoices_table :: "zone \<Rightarrow> intl \<Rightarrow> (int \<Rightarrow> string) \<Rightarrow> (int \<Rightarrow> string) \<Rightarrow> Invoice table_def" where
  "invoices_table z i write name =
     simple_table (invoices_columns z i write name) (Some ''customer'') (Some ''Cari nama pelanggan...'')
       (Some (\<lambda>_. [status_facet
          [(''Belum Bayar'', ''issued''), (''Terlambat'', ''overdue''), (''Lunas'', ''paid''), (''Draft'', ''draft''),
           (''Dibatalkan'', ''cancelled'')]]))
       (Some ''Belum ada invoice.'') None"

definition invoice_rowActions :: "Invoice \<Rightarrow> string list" where
  "invoice_rowActions v =
     ''Lihat Detail'' # (if nv_status v = ''issued'' \<or> nv_status v = ''overdue'' then [''Catat Pembayaran''] else [])"

text \<open>What the page asks the server for: a customer, and a month with its year.\<close>

definition invoices_asked :: "string \<Rightarrow> string \<Rightarrow> int \<Rightarrow> filters" where
  "invoices_asked customerId month year =
     (if customerId \<noteq> ''all'' then [(''customer_id'', JNum (to_number customerId))] else [])
     @ (if month \<noteq> ''all'' then [(''year'', JNum (of_int year)), (''month'', JNum (to_number month))] else [])"

record Payment =
  pt_id :: int
  pt_invoice_id :: int
  pt_customer_id :: int
  pt_amount :: rat
  pt_method :: string
  pt_reference_number :: "string option"
  pt_proof_url :: "string option"
  pt_bank_name :: "string option"
  pt_status :: string
  pt_confirmed_by :: "int option"
  pt_confirmed_at :: "string option"
  pt_rejection_reason :: "string option"
  pt_gateway_name :: "string option"
  pt_invoice_url :: "string option"
  pt_expires_at :: "string option"
  pt_created_at :: string
  pt_updated_at :: string

definition methodLabel :: "string \<Rightarrow> string" where
  "methodLabel m =
     or_else (map_of [(''cash'', ''Tunai''), (''transfer'', ''Transfer''), (''portal'', ''Portal''), (''gateway'', ''Online'')] m) m"

definition paymentStatusLabel :: "string \<Rightarrow> string" where
  "paymentStatusLabel s =
     or_else (map_of [(''pending'', ''Pending''), (''confirmed'', ''Dikonfirmasi''), (''rejected'', ''Ditolak'')] s) s"

text \<open>The link to a proof carries the access token of the session.\<close>

definition ProofLink :: "string \<Rightarrow> string \<Rightarrow> string \<Rightarrow> string" where
  "ProofLink base token link = base @ link @ ''?access_token='' @ encodeURIComponent token"

definition payments_columns :: "zone \<Rightarrow> intl \<Rightarrow> (int \<Rightarrow> string) \<Rightarrow> (int \<Rightarrow> string) \<Rightarrow> Payment column list" where
  "payments_columns z i write name =
     [key_column ''id'' ''#'' (\<lambda>p. JNum (of_int (pt_id p))) (texts (\<lambda>p. [''#'' @ show_int (pt_id p)])),
      key_column ''invoice_id'' ''Invoice'' (\<lambda>p. JNum (of_int (pt_invoice_id p))) (texts (\<lambda>p. [''#'' @ show_int (pt_invoice_id p)])),
      key_column ''customer'' ''Pelanggan'' (\<lambda>p. JNum (of_int (pt_customer_id p))) (texts (\<lambda>p. [name (pt_customer_id p)])),
      key_column ''amount'' ''Jumlah'' (\<lambda>p. JNum (pt_amount p)) (texts (\<lambda>p. [formatIDR i (pt_amount p)])),
      list_filter (key_column ''method'' ''Metode'' (\<lambda>p. JStr (pt_method p)) (texts (\<lambda>p. [methodLabel (pt_method p)]))),
      list_filter (key_column ''status'' ''Status'' (\<lambda>p. JStr (pt_status p)) (texts (\<lambda>p. [paymentStatusLabel (pt_status p)]))),
      display_column ''proof'' (Some ''Bukti'') (texts (\<lambda>p. [if or_else (pt_proof_url p) [] = [] then em_dash else ''Lihat''])),
      key_column ''created_at'' ''Tanggal'' (\<lambda>p. JStr (pt_created_at p)) (\<lambda>p. table_fmtDate z write (pt_created_at p)),
      actions_column]"

definition payments_table :: "zone \<Rightarrow> intl \<Rightarrow> (int \<Rightarrow> string) \<Rightarrow> (int \<Rightarrow> string) \<Rightarrow> Payment table_def" where
  "payments_table z i write name =
     simple_table (payments_columns z i write name) None None
       (Some (\<lambda>_.
         [status_facet [(''Pending'', ''pending''), (''Dikonfirmasi'', ''confirmed''), (''Ditolak'', ''rejected'')],
          \<lparr>fc_column = ''method'', fc_title = ''Metode'', fc_options =
             [(''Tunai'', ''cash''), (''Transfer'', ''transfer''), (''Portal'', ''portal''), (''Online'', ''gateway'')]\<rparr>]))
       (Some ''Belum ada transaksi pembayaran.'') None"

definition payment_rowActions :: "Payment \<Rightarrow> string list" where
  "payment_rowActions p = (if pt_status p \<noteq> ''pending'' then [] else [''Konfirmasi'', ''Tolak''])"

definition pendingCount :: "Payment list \<Rightarrow> nat" where
  "pendingCount data = length (filter (\<lambda>p. pt_status p = ''pending'') data)"

section \<open>Registrations, notifications, audit log, templates\<close>

definition regStatusVariant :: "string \<Rightarrow> string" where
  "regStatusVariant status =
     (if status = ''approved'' then ''online'' else if status = ''rejected'' then ''expired''
      else if status = ''cancelled'' then ''offline'' else ''idle'')"

definition notificationStatusVariant :: "string \<Rightarrow> string" where
  "notificationStatusVariant status =
     (if status = ''sent'' then ''online'' else if status = ''failed'' then ''expired''
      else if status = ''pending'' then ''idle'' else ''offline'')"

definition registrations_columns :: "zone \<Rightarrow> intl \<Rightarrow> Registration column list" where
  "registrations_columns z i =
     [key_column ''full_name'' ''Name'' (\<lambda>r. JStr (rg_full_name r)) (texts (\<lambda>r. [rg_full_name r])),
      plain_header (key_column ''phone'' ''Phone'' (\<lambda>r. JStr (rg_phone r)) (texts (\<lambda>r. [rg_phone r]))),
      plain_header (key_column ''area'' ''Area'' (\<lambda>r. JStr (rg_area r)) (texts (\<lambda>r. [or_dash (rg_area r)]))),
      plain_header (key_column ''service_type'' ''Service'' (\<lambda>r. JStr (rg_service_type r)) (texts (\<lambda>r. [or_dash (rg_service_type r)]))),
      plain_header (list_filter (key_column ''status'' ''Status'' (\<lambda>r. JStr (rg_status r)) (texts (\<lambda>r. [rg_status r])))),
      key_column ''created_at'' ''Submitted'' (\<lambda>r. JStr (rg_created_at r)) (\<lambda>r. date_cell z (formatDate i) (rg_created_at r)),
      actions_column]"

definition registrations_table :: "zone \<Rightarrow> intl \<Rightarrow> Registration table_def" where
  "registrations_table z i =
     simple_table (registrations_columns z i) (Some ''full_name'') (Some ''Search by name...'')
       (Some (\<lambda>_. [status_facet
          [(''Pending'', ''pending''), (''Approved'', ''approved''), (''Rejected'', ''rejected''), (''Cancelled'', ''cancelled'')]]))
       (Some ''No registrations yet.'') None"

text \<open>The buttons of a registration follow its way: reviewed, then installed.\<close>

definition registration_rowActions :: "Registration \<Rightarrow> (string \<times> string) list" where
  "registration_rowActions r =
     (if rg_status r = ''pending'' then [(''Approve'', ''approve''), (''Reject'', ''reject'')] else [])
     @ (if rg_status r = ''approved'' then [(''Assign technician'', ''assign''), (''Complete install'', ''complete'')] else [])"

record NotificationLog =
  nl_id :: int
  nl_customer_id :: "int option"
  nl_template_slug :: string
  nl_recipient_phone :: string
  nl_message_body :: string
  nl_status :: string
  nl_provider :: string
  nl_retry_count :: int
  nl_sent_at :: "string option"
  nl_next_retry_at :: "string option"
  nl_created_at :: string

definition notifications_columns :: "zone \<Rightarrow> intl \<Rightarrow> NotificationLog column list" where
  "notifications_columns z i =
     [key_column ''created_at'' ''When'' (\<lambda>n. JStr (nl_created_at n)) (\<lambda>n. date_cell z (formatDateTime i) (nl_created_at n)),
      list_filter (key_column ''template_slug'' ''Template'' (\<lambda>n. JStr (nl_template_slug n)) (texts (\<lambda>n. [nl_template_slug n]))),
      plain_header (key_column ''recipient_phone'' ''Recipient'' (\<lambda>n. JStr (nl_recipient_phone n)) (texts (\<lambda>n. [nl_recipient_phone n]))),
      plain_header (list_filter (key_column ''status'' ''Status'' (\<lambda>n. JStr (nl_status n)) (texts (\<lambda>n. [nl_status n])))),
      plain_header (key_column ''retry_count'' ''Retries'' (\<lambda>n. JNum (of_int (nl_retry_count n))) (texts (\<lambda>n. [show_int (nl_retry_count n)]))),
      actions_column]"

definition notifications_table :: "zone \<Rightarrow> intl \<Rightarrow> NotificationLog table_def" where
  "notifications_table z i =
     simple_table (notifications_columns z i) (Some ''recipient_phone'') (Some ''Search recipient...'')
       (Some (\<lambda>data.
         [status_facet [(''Sent'', ''sent''), (''Pending'', ''pending''), (''Failed'', ''failed'')],
          \<lparr>fc_column = ''template_slug'', fc_title = ''Template'', fc_options = data_options nl_template_slug data\<rparr>]))
       (Some ''No notifications sent yet.'') (Some 20)"

record AuditLog =
  al_id :: int
  al_user_id :: "int option"
  al_action :: string
  al_entity_type :: string
  al_entity_id :: "int option"
  al_old_values :: string
  al_new_values :: string
  al_ip_address :: string
  al_notes :: string
  al_created_at :: string

definition nonzero :: "int option \<Rightarrow> int option" where
  "nonzero n = (if n = Some 0 then None else n)"

definition audit_columns :: "zone \<Rightarrow> intl \<Rightarrow> AuditLog column list" where
  "audit_columns z i =
     [key_column ''created_at'' ''When'' (\<lambda>a. JStr (al_created_at a)) (\<lambda>a. date_cell z (formatDateTime i) (al_created_at a)),
      list_filter (key_column ''action'' ''Action'' (\<lambda>a. JStr (al_action a)) (texts (\<lambda>a. [al_action a]))),
      list_filter (key_column ''entity_type'' ''Entity'' (\<lambda>a. JStr (al_entity_type a))
        (texts (\<lambda>a. al_entity_type a # (case nonzero (al_entity_id a) of None \<Rightarrow> [] | Some n \<Rightarrow> ['' #'' @ show_int n])))),
      plain_header (unsorted_column (key_column ''user_id'' ''User''
        (\<lambda>a. case al_user_id a of None \<Rightarrow> JUndef | Some n \<Rightarrow> JNum (of_int n))
        (texts (\<lambda>a. [case nonzero (al_user_id a) of None \<Rightarrow> ''system'' | Some n \<Rightarrow> ''#'' @ show_int n])))),
      actions_column]"

definition audit_table :: "zone \<Rightarrow> intl \<Rightarrow> AuditLog table_def" where
  "audit_table z i =
     simple_table (audit_columns z i) (Some ''entity_type'') (Some ''Search entity...'')
       (Some (\<lambda>data.
         [\<lparr>fc_column = ''action'', fc_title = ''Action'', fc_options = data_options al_action data\<rparr>,
          \<lparr>fc_column = ''entity_type'', fc_title = ''Entity'', fc_options = data_options al_entity_type data\<rparr>]))
       (Some ''No audit entries yet.'') (Some 20)"

definition templates_columns :: "MessageTemplate column list" where
  "templates_columns =
     [key_column ''slug'' ''Slug'' (\<lambda>t. JStr (mt_slug t)) (texts (\<lambda>t. [mt_slug t])),
      key_column ''name'' ''Name'' (\<lambda>t. JStr (mt_name t)) (texts (\<lambda>t. [mt_name t])),
      plain_header (unsorted_column (key_column ''body'' ''Preview'' (\<lambda>t. JStr (mt_body t)) (texts (\<lambda>t. [mt_body t])))),
      (plain_header (key_column ''active'' ''Status'' (\<lambda>t. JBool (mt_active t)) (texts (\<lambda>t. [active_text (mt_active t)]))))
        \<lparr>cl_filter := Some (\<lambda>t f. includes_value f (JStr (bool_text (mt_active t))))\<rparr>,
      actions_column]"

definition templates_table :: "MessageTemplate table_def" where
  "templates_table =
     simple_table templates_columns (Some ''name'') (Some ''Search templates...'')
       (Some (\<lambda>_. [\<lparr>fc_column = ''active'', fc_title = ''Status'', fc_options = [(''Active'', ''true''), (''Inactive'', ''false'')]\<rparr>]))
       (Some ''No templates seeded.'') None"

section \<open>Plain tables\<close>

text \<open>The sales: an error first, then loading while nothing is there, then emptiness, then the rows.\<close>

definition sale_row :: "zone \<Rightarrow> intl \<Rightarrow> VoucherSale \<Rightarrow> string list option" where
  "sale_row z i sale =
     map_option (\<lambda>t.
       [date_format i ''id-ID'' [(''dateStyle'', JStr ''short''), (''timeStyle'', JStr ''short'')] t, vs_username sale,
        vs_profile_name sale, formatIDR i (vs_selling_price sale), vs_server sale, or_dash (vs_ip_address sale),
        or_dash (vs_mac_address sale)])
       (parse_Date z (vs_sold_at sale))"

definition SalesTable ::
  "zone \<Rightarrow> intl \<Rightarrow> VoucherSale list \<Rightarrow> bool \<Rightarrow> string option \<Rightarrow> (string + string list list) option"
where
  "SalesTable z i sales loading err =
     (case err of
        Some m \<Rightarrow> Some (Inl (''Failed to load sales'' @ (if m = [] then ''.'' else '': '' @ m)))
      | None \<Rightarrow>
          if loading \<and> sales = [] then Some (Inl (''Loading sales'' @ [char_of (226 :: nat), char_of (128 :: nat), char_of (166 :: nat)]))
          else if sales = [] then Some (Inl ''No sales match the current filters.'')
          else map_option Inr (those (map (sale_row z i) sales)))"

text \<open>Staff accounts: nobody can delete the account signed in with.\<close>

definition adminUsers_row :: "zone \<Rightarrow> intl \<Rightarrow> int option \<Rightarrow> AdminUser \<Rightarrow> string list option" where
  "adminUsers_row z i currentUserId u =
     (let fmt = (\<lambda>s. map_option (date_format i ''en-GB'' [(''dateStyle'', JStr ''short''), (''timeStyle'', JStr ''short'')]) (parse_Date z s)) in
      do {
        seen \<leftarrow> (case au_last_login_at u of None \<Rightarrow> Some em_dash | Some s \<Rightarrow> if s = [] then Some em_dash else fmt s);
        made \<leftarrow> fmt (au_created_at u);
        Some ([au_username u] @ (if currentUserId = Some (au_id u) then [''you''] else [])
          @ [au_role u, active_text (au_active u), seen, made])
      })"

definition adminUsers_rowActions :: "int option \<Rightarrow> AdminUser \<Rightarrow> (string \<times> bool) list" where
  "adminUsers_rowActions currentUserId u = [(''Edit'', False), (''Delete'', currentUserId = Some (au_id u))]"

definition routers_columns :: "zone \<Rightarrow> int \<Rightarrow> RouterPublicView column list" where
  "routers_columns z now =
     [plain_header (key_column ''display_name'' ''Name'' (\<lambda>r. JStr (rv_display_name r)) (texts (\<lambda>r. [rv_display_name r]))),
      display_column ''address'' (Some ''Address'') (texts (\<lambda>r. [rv_host r @ '':'' @ show_int (rv_port r)])),
      plain_header (key_column ''username'' ''Username'' (\<lambda>r. JStr (rv_username r)) (texts (\<lambda>r. [rv_username r]))),
      plain_header (key_column ''status'' ''Status'' (\<lambda>r. JStr (rv_status r))
        (texts (\<lambda>r. [or_else (map_option fst (map_of routerStatusConfig (rv_status r))) (rv_status r)]))),
      display_column ''lastSeenAt'' (Some ''Last Seen'') (texts (\<lambda>r. [rm_lastSeenAt (toRouterViewModel z now r)])),
      actions_column]"

definition routers_body :: "zone \<Rightarrow> int \<Rightarrow> RouterPublicView list \<Rightarrow> (string + string list list list) option" where
  "routers_body z now data =
     (if data = [] then Some (Inl (''No routers yet '' @ em_dash @ '' click '' @ [char_of (226 :: nat), char_of (128 :: nat), char_of (156 :: nat)]
        @ ''Add Router'' @ [char_of (226 :: nat), char_of (128 :: nat), char_of (157 :: nat)] @ '' to get started.''))
      else map_option Inr (those (map (\<lambda>r. those (map (\<lambda>c. cl_cell c r) (routers_columns z now))) data)))"

section \<open>Laws\<close>

lemma billing_tables_ok:
  "table_ok customers_table" "table_ok (subscriptions_table name)" "table_ok (payments_table z i write name)"
  "table_ok (registrations_table z i)" "table_ok (notifications_table z i)" "table_ok templates_table"
  "table_ok (invoices_table z i write name)"
  by (simp_all add: table_ok_simps invoices_table_def invoices_columns_def customers_table_def customers_columns_def subscriptions_table_def subscriptions_columns_def
      subscription_status_options_def serviceTypeOptions_def payments_table_def payments_columns_def registrations_table_def
      registrations_columns_def notifications_table_def notifications_columns_def templates_table_def templates_columns_def
      simple_table_def status_facet_def)

text \<open>
  The audit log is searched by a column whose filter asks for a list of values: a text is then searched for the cell
  instead of the cell for the text, so the beginning of a word finds nothing and a longer text finds the entry.
\<close>

definition sample_audit :: AuditLog where
  "sample_audit = \<lparr>al_id = 1, al_user_id = None, al_action = ''update'', al_entity_type = ''invoice'', al_entity_id = None,
     al_old_values = [], al_new_values = [], al_ip_address = [], al_notes = [],
     al_created_at = ''2026-01-05T10:00:00Z''\<rparr>"

definition no_filters :: tstate where
  "no_filters = \<lparr>ts_filters = [], ts_global = [], ts_sorting = [], ts_hidden = [], ts_selection = [], ts_page = 0, ts_size = 20\<rparr>"

lemma audit_search_reversed:
  assumes "table_library lib" "ts_filters s = []" "text \<noteq> []"
  shows "shown_rows lib (audit_columns z i) data (run_cmds lib (search_typed (audit_columns z i) (Some ''entity_type'') text) s)
    = filter (\<lambda>a. js_includes text (al_entity_type a)) data"
proof -
  let ?c = "audit_columns z i ! 2"
  have cols: "distinct (map cl_id (audit_columns z i))" "?c \<in> set (audit_columns z i)"
    by (simp_all add: audit_columns_def)
  have c: "cl_id ?c = ''entity_type''" "column_passes (lib_auto lib data) ?c (JStr text) = (\<lambda>a. js_includes text (al_entity_type a))"
    by (auto simp: audit_columns_def column_passes_def list_filter_def key_column_def includes_value_def)
  have cmd: "run_cmds lib (search_typed (audit_columns z i) (Some ''entity_type'') text) s = lib_run lib (SetFilterValue ''entity_type'' (JStr text)) s"
    by (simp add: search_typed_def run_cmds_def audit_columns_def)
  show ?thesis
    using first_filter_shows [OF assms(1) cols assms(2), of "JStr text"] assms(3) by (simp add: cmd c removed_value_def)
qed

lemma audit_prefix_missed: "\<not> js_includes ''inv'' (al_entity_type sample_audit)" "js_includes ''invoices'' (al_entity_type sample_audit)"
  by code_simp+

text \<open>Choosing a status in the live view leaves at most one filter on it and shows the subscriptions with that status.\<close>

lemma monitoring_choose_one: "length (filter (\<lambda>f. fst f = c) (monitoring_choose c v prev)) \<le> 1"
  by (simp add: monitoring_choose_def filter_filter comp_def)

lemma monitoring_status:
  assumes "table_library lib" "v \<noteq> []" "ts_filters s = monitoring_choose ''status'' v []"
  shows "shown_rows lib (monitoring_columns name) data s = filter (\<lambda>d. sb_status (si_subscription d) = v) data"
proof -
  let ?c = "monitoring_columns name ! 3"
  have cols: "distinct (map cl_id (monitoring_columns name))" "?c \<in> set (monitoring_columns name)"
    by (simp_all add: monitoring_columns_def)
  have c: "cl_id ?c = ''status''" "column_passes (lib_auto lib data) ?c (JArr [JStr v]) = (\<lambda>d. sb_status (si_subscription d) = v)"
    by (auto simp: monitoring_columns_def column_passes_def list_filter_def key_column_def plain_header_def includes_value_def)
  have "set (ts_filters s) = {(cl_id ?c, JArr [JStr v])}" using assms(2,3) c(1) by (simp add: monitoring_choose_def)
  from one_filter_shows [OF assms(1) cols this] show ?thesis by (simp add: c(2))
qed

text \<open>Byte counts of a tebibyte and more run off the list of units.\<close>

lemma log_1024_steps: "n < 1024 \<Longrightarrow> log_1024 n = 0" "1024 \<le> n \<Longrightarrow> log_1024 n = Suc (log_1024 (n div 1024))"
  by (subst log_1024.simps, simp)+

lemma log_1024_power: "log_1024 (1024 ^ k) = k"
  by (induction k) (simp_all add: log_1024_steps)

lemma monitor_bytes_power:
  "monitor_formatBytes (1024 ^ k) = ''1'' @ (if k < 4 then [''B'', ''KB'', ''MB'', ''GB''] ! k else ''undefined'')"
proof -
  have n: "nat (1024 ^ k) = 1024 ^ k" by (simp add: nat_power_eq)
  have r: "show_rat (of_int (js_round (1024 ^ k / 1024 ^ k * 10)) / 10) = ''1''"
  proof -
    have "(of_int (js_round (1024 ^ k / 1024 ^ k * 10)) / 10 :: rat) = of_int 1" by (simp add: js_round_def floor_eq_iff)
    then show ?thesis by (simp only: show_rat_int) code_simp
  qed
  have f: "\<lfloor>(1024 :: rat) ^ k\<rfloor> = 1024 ^ k" by simp
  have z: "(1024 :: rat) ^ k \<noteq> 0" by simp
  show ?thesis unfolding monitor_formatBytes_def Let_def f n log_1024_power r if_not_P [OF z] by simp
qed

text \<open>The buttons of a registration and of a payment follow their state: what is settled has none.\<close>

lemma settled_rows:
  "registration_rowActions r \<noteq> [] \<longleftrightarrow> rg_status r = ''pending'' \<or> rg_status r = ''approved''"
  "payment_rowActions p \<noteq> [] \<longleftrightarrow> pt_status p = ''pending''"
  by (simp_all add: registration_rowActions_def payment_rowActions_def)

text \<open>One invoice whose date cannot be read takes the whole table down.\<close>

lemma bad_date_fails:
  assumes "v \<in> set rows" "nv_due_date v \<noteq> []" "parse_Date z (nv_due_date v) = None" "''due_date'' \<notin> set (ts_hidden s)"
  shows "table_body (invoices_table z i write name) s rows = None"
proof -
  let ?c = "key_column ''due_date'' ''Jatuh Tempo'' (\<lambda>v. JStr (nv_due_date v)) (\<lambda>v. table_fmtDate z write (nv_due_date v))"
  let ?cs = "filter (\<lambda>c. cl_id c \<notin> set (ts_hidden s)) (td_columns (invoices_table z i write name))"
  have "?c \<in> set ?cs" using assms(4) by (simp add: invoices_table_def simple_table_def invoices_columns_def)
  moreover have "cl_cell ?c v = None" using assms(2,3) by (simp add: key_column_def table_fmtDate_def date_cell_def)
  ultimately have "row_texts (invoices_table z i write name) s v = None"
    unfolding row_texts_def by (rule those_None [where f = "\<lambda>c. cl_cell c v"])
  then have "those (map (row_texts (invoices_table z i write name) s) rows) = None" using those_None [OF assms(1)] by blast
  then show ?thesis using assms(1) by (cases rows) (auto simp: table_body_def)
qed

end
