(* ===== verification/Voucher_Pages.thy ===== *)
theory Voucher_Pages
  imports Voucher_Print Quick_Print Report Settings_Forms Dialogs Hotspot_Tables Routes
begin

text \<open>
  The pages of the vouchers (\<^verbatim>\<open>features/voucher\<close>): the overview, the page that generates a batch with its form and the table
  of the result, the cards of the quick-print presets, and the dialog that previews a print job. The number and date
  formats, the zone and the clock are parameters.
\<close>

section \<open>Overview\<close>

definition todayIsoDate :: "zone \<Rightarrow> int \<Rightarrow> string" where
  "todayIsoDate z now =
     show_int (getFullYear z now) @ ''-'' @ padStart 2 CHR ''0'' (show_int (getMonth z now + 1))
     @ ''-'' @ padStart 2 CHR ''0'' (show_int (getDate z now))"

definition overview_queries :: "zone \<Rightarrow> int \<Rightarrow> int option \<Rightarrow> query_hook list" where
  "overview_queries z now routerId =
     (let rid = or_else routerId 0 in
      [useDashboardSummary rid, useDailyReport rid (todayIsoDate z now) None, useQuickPrintPackages rid])"

record DashboardSummary =
  ds_today_count :: int
  ds_today_sum :: rat
  ds_month_count :: int
  ds_month_sum :: rat

definition no_summary :: DashboardSummary where
  "no_summary = \<lparr>ds_today_count = 0, ds_today_sum = 0, ds_month_count = 0, ds_month_sum = 0\<rparr>"

record kpi =
  kp_title :: string
  kp_value :: string
  kp_subtitle :: string
  kp_to :: string

definition overview_kpis :: "intl \<Rightarrow> DashboardSummary option \<Rightarrow> nat option \<Rightarrow> kpi list" where
  "overview_kpis i summary presets =
     (let s = or_else summary no_summary in
      [\<lparr>kp_title = ''Today'' @ [char_of (39 :: nat)] @ ''s Sales'', kp_value = show_int (ds_today_count s),
        kp_subtitle = formatIDR i (ds_today_sum s), kp_to = ''/voucher/generate''\<rparr>,
       \<lparr>kp_title = ''This Month'', kp_value = show_int (ds_month_count s), kp_subtitle = formatIDR i (ds_month_sum s),
        kp_to = ''/report/monthly''\<rparr>,
       \<lparr>kp_title = ''Today Revenue'', kp_value = formatIDR i (ds_today_sum s),
        kp_subtitle = show_int (ds_today_count s) @ '' voucher''
          @ (if map_option ds_today_count summary = Some 1 then [] else ''s''), kp_to = ''/report/daily''\<rparr>,
       \<lparr>kp_title = ''Quick Presets'', kp_value = show_nat (or_else presets 0), kp_subtitle = ''configured'', kp_to = ''/voucher/print''\<rparr>])"

definition overview_actions :: "(string \<times> string) list" where
  "overview_actions =
     [(''Generate Vouchers'', ''/voucher/generate''), (''Quick Print Presets'', ''/voucher/print''),
      (''Sales History'', ''/voucher/sales''), (''View Reports'', ''/report/daily''), (''View all'', ''/voucher/sales'')]"

definition RECENT_SALES_LIMIT :: nat where
  "RECENT_SALES_LIMIT = 10"

definition recent_sales :: "VoucherSale list option \<Rightarrow> VoucherSale list" where
  "recent_sales sales = take RECENT_SALES_LIMIT (or_else sales [])"

definition recent_row :: "zone \<Rightarrow> intl \<Rightarrow> VoucherSale \<Rightarrow> string list option" where
  "recent_row z i sale =
     map_option (\<lambda>t.
       [date_format i ''id-ID'' [(''dateStyle'', JStr ''short''), (''timeStyle'', JStr ''short'')] t, vs_username sale,
        vs_profile_name sale, formatIDR i (vs_selling_price sale), vs_server sale])
       (parse_Date z (vs_sold_at sale))"

text \<open>The table of today's sales: an error, nothing yet, or the rows; a date that cannot be read throws.\<close>

definition overview_sales :: "zone \<Rightarrow> intl \<Rightarrow> bool \<Rightarrow> bool \<Rightarrow> VoucherSale list option \<Rightarrow> (string + string list list) option" where
  "overview_sales z i isError isLoading sales =
     (if isError then Some (Inl ''Failed to load sales. Click Refresh to retry.'')
      else if recent_sales sales = []
      then Some (Inl (if isLoading then ''Loading'' @ [char_of (226 :: nat), char_of (128 :: nat), char_of (166 :: nat)] else ''No recent sales.''))
      else map_option Inr (those (map (recent_row z i) (recent_sales sales))))"

section \<open>The form that generates a batch\<close>

definition userTypeOptions :: "(string \<times> UserType) list" where
  "userTypeOptions = [(''User & Password'', UP), (''Username Only (Voucher)'', VC)]"

definition charSetOptions :: "(string \<times> CharSet) list" where
  "charSetOptions =
     [(''Huruf Kecil (abcd)'', Lower), (''Huruf Besar (ABCD)'', Upper), (''Huruf Besar+Kecil (aBcD)'', Mixed),
      (''Angka Saja (1234)'', Number), (''Angka+Huruf Kecil (5ab2c)'', Lower_number),
      (''Angka+Huruf Besar (5AB2C)'', Upper_number), (''Angka+Besar+Kecil (5aB2C)'', Mixed_number)]"

definition nameLengthOptions :: "(string \<times> int) list" where
  "nameLengthOptions = map (\<lambda>n. (show_int n, n)) [4, 5, 6, 7, 8, 10, 12]"

definition dataLimitUnitOptions :: "(string \<times> DataLimitUnit) list" where
  "dataLimitUnitOptions = [(''MB'', MB), (''GB'', GB)]"

definition defaultGenerateForm :: VoucherGenerateForm where
  "defaultGenerateForm =
     \<lparr>qty = 1, vf_server = ''all'', vf_profile = [], userType = UP, nameLength = 6, vf_charSet = Lower_number, vf_prefix = [],
      vf_timeLimit = ''0'', vf_dataLimit = 0, vf_dataLimitUnit = MB, vf_comment = []\<rparr>"

text \<open>
  The page: the fields (the two numbers as typed, whole or not), how many profiles the effect has seen, and the last batch.
\<close>

record generate_page =
  gp_form :: VoucherGenerateForm
  gp_qty :: rat
  gp_dataLimit :: rat
  gp_seen :: "nat option"
  gp_vouchers :: "GeneratedVoucher list"
  gp_resultProfile :: string
  gp_resultServer :: string

definition generate_init :: generate_page where
  "generate_init =
     \<lparr>gp_form = defaultGenerateForm, gp_qty = 1, gp_dataLimit = 0, gp_seen = None, gp_vouchers = [], gp_resultProfile = [],
      gp_resultServer = []\<rparr>"

text \<open>The typed numbers, \<open>Math.max(1, Math.min(500, +text || 1))\<close> and \<open>Math.max(0, +text || 0)\<close>.\<close>

definition qty_typed :: "string \<Rightarrow> rat" where
  "qty_typed text = max 1 (min 500 (if to_number text = 0 then 1 else to_number text))"

definition dataLimit_typed :: "string \<Rightarrow> rat" where
  "dataLimit_typed text = max 0 (to_number text)"

text \<open>The list of servers, with the choice of all of them in front; disabled ones are left out.\<close>

definition activeServers :: "(string \<times> bool) list option \<Rightarrow> string list" where
  "activeServers servers = ''all'' # map fst (filter (\<lambda>(name, disabled). \<not> disabled) (or_else servers []))"

text \<open>The effect over the profiles runs when their number changes and fills in the first when no profile is chosen.\<close>

definition profiles_effect :: "HotspotDbProfile list \<Rightarrow> generate_page \<Rightarrow> generate_page" where
  "profiles_effect profiles p =
     (if gp_seen p = Some (length profiles) then p
      else
        (let p' = p\<lparr>gp_seen := Some (length profiles)\<rparr> in
         if profiles \<noteq> [] \<and> vf_profile (gp_form p) = []
         then p'\<lparr>gp_form := (gp_form p)\<lparr>vf_profile := hd_name (hd profiles)\<rparr>\<rparr> else p'))"

definition generate_reset :: "generate_page \<Rightarrow> generate_page" where
  "generate_reset p = p\<lparr>gp_form := defaultGenerateForm, gp_qty := 1, gp_dataLimit := 0\<rparr>"

text \<open>What the schema lets through, with the numbers put into the form.\<close>

definition generate_schema :: "generate_page \<Rightarrow> VoucherGenerateForm option" where
  "generate_schema p =
     (if of_int \<lfloor>gp_qty p\<rfloor> = gp_qty p \<and> 1 \<le> gp_qty p \<and> gp_qty p \<le> 500 \<and> of_int \<lfloor>gp_dataLimit p\<rfloor> = gp_dataLimit p \<and> 0 \<le> gp_dataLimit p
         \<and> 4 \<le> nameLength (gp_form p) \<and> nameLength (gp_form p) \<le> 32
      then Some ((gp_form p)\<lparr>qty := \<lfloor>gp_qty p\<rfloor>, vf_dataLimit := \<lfloor>gp_dataLimit p\<rfloor>\<rparr>) else None)"

definition reply_list :: "js \<Rightarrow> string \<Rightarrow> js list" where
  "reply_list data key = (case js_optget data key of JArr vs \<Rightarrow> vs | _ \<Rightarrow> [])"

text \<open>The vouchers of a reply as the pages show and print them, with the comment that was asked for.\<close>

definition reply_vouchers :: "string \<Rightarrow> js \<Rightarrow> GeneratedVoucher list" where
  "reply_vouchers comment data =
     map (\<lambda>(k, v). \<lparr>gv_id = js_String (js_optget data ''gencode'') @ ''-'' @ show_nat (k + 1),
            username = str_of (js_optget v ''username''), password = str_of (js_optget v ''password''),
            gv_profile = str_of (js_optget data ''profile''), gv_comment = comment\<rparr>)
       (enumerate 0 (reply_list data ''vouchers''))"

definition generate_onSubmit :: "int \<Rightarrow> VoucherGenerateForm \<Rightarrow> submission" where
  "generate_onSubmit routerId form =
     \<lparr>sub_mutation = useGenerateVoucher routerId (JObj (formToBackendParams form)),
      on_done = (\<lambda>data.
        [Success (''Generated '' @ js_String (js_optget data ''count'') @ '' voucher'' @ (if 1 < or_else (js_Number (js_optget data ''count'')) 0 then ''s'' else []))
          (JStr (''Profile: '' @ js_String (js_optget data ''profile'') @ '' '' @ [char_of (194 :: nat), char_of (183 :: nat)]
             @ '' Gencode: '' @ js_String (js_optget data ''gencode'')))]),
      on_failed = (\<lambda>err. [Failure ''Failed to generate vouchers'' (err_message err)])\<rparr>"

text \<open>The page after the request of a form has come back; a failure leaves it as it is.\<close>

definition generate_done :: "VoucherGenerateForm \<Rightarrow> thrown + js \<Rightarrow> generate_page \<Rightarrow> generate_page" where
  "generate_done form answer p =
     (case answer of
        Inl _ \<Rightarrow> p
      | Inr data \<Rightarrow>
          p\<lparr>gp_vouchers := reply_vouchers (vf_comment form) data, gp_resultProfile := str_of (js_optget data ''profile''),
            gp_resultServer := vf_server form\<rparr>)"

definition generate_disabled :: "bool \<Rightarrow> int option \<Rightarrow> bool" where
  "generate_disabled isPending routerId = (isPending \<or> or_else routerId 0 = 0)"

section \<open>The table of the result\<close>

definition setting_value :: "SystemSetting list option \<Rightarrow> string \<Rightarrow> string" where
  "setting_value settings key = or_else (find_setting key (or_else settings [])) []"

definition result_copy :: "GeneratedVoucher list \<Rightarrow> menu_effect" where
  "result_copy vouchers =
     CopyText (vouchersToCsv vouchers) (Success (''Copied '' @ show_nat (length vouchers) @ '' vouchers to clipboard'') JUndef)"

text \<open>The validity and the price are those of the live profile of that name, if there is one.\<close>

definition result_print ::
  "ProfileWithMeta list option \<Rightarrow> SystemSetting list option \<Rightarrow> GeneratedVoucher list \<Rightarrow> string \<Rightarrow> string option \<Rightarrow> PrintTemplate \<Rightarrow> PrintJob option"
where
  "result_print profiles settings vouchers profile server template =
     (let profileItem = find (\<lambda>p. ProfileWithMeta.pm_name p = profile) (or_else profiles []);
          company = setting_value settings ''general.company_name''
      in if vouchers = [] then None
         else Some
           \<lparr>job_template = template, job_vouchers = vouchers,
            job_meta =
              \<lparr>pm_profile = profile, pm_server = or_else server ''all'',
               pm_validity = (case profileItem of None \<Rightarrow> em_dash | Some p \<Rightarrow> or_else (ProfileWithMeta.pm_validity p) em_dash),
               pm_sellingPrice = parseRouterOSNumber (case profileItem of None \<Rightarrow> None | Some p \<Rightarrow> pm_selling_price p),
               pm_note = None, pm_title = None, pm_hotspotName = Some (if company = [] then profile else company),
               pm_loginUrl = Some (setting_value settings ''general.hotspot_login_url''), pm_timeLimit = None, pm_dataLimit = None\<rparr>\<rparr>)"

definition result_body :: "GeneratedVoucher list \<Rightarrow> string \<Rightarrow> string + (string \<times> string \<times> string list list)" where
  "result_body vouchers profile =
     (if vouchers = [] then Inl ''Configure the form and click Generate to preview vouchers.''
      else Inr
        (''Generated '' @ [char_of (194 :: nat), char_of (183 :: nat)] @ '' '' @ show_nat (length vouchers) @ '' voucher''
           @ (if 1 < length vouchers then ''s'' else []),
         ''Profile: '' @ profile,
         map (\<lambda>(k, v). [show_nat (k + 1), GeneratedVoucher.username v, GeneratedVoucher.password v, gv_profile v, gv_comment v]) (enumerate 0 vouchers)))"

section \<open>Quick-print cards\<close>

definition SAMPLE_QTY :: nat where
  "SAMPLE_QTY = 5"

definition dataLimitBytes :: "QuickPrintPreset \<Rightarrow> rat" where
  "dataLimitBytes p =
     (if preset_form.dataLimit p \<le> 0 then 0
      else if preset_form.dataLimitUnit p = ''GB'' then preset_form.dataLimit p * 1073741824 else preset_form.dataLimit p * 1048576)"

definition card_params :: "QuickPrintPreset \<Rightarrow> (string \<times> js) list" where
  "card_params p =
     [(''batch_size'', JNum (of_nat SAMPLE_QTY)),
      (''server'', if preset_form.pf_server p = ''all'' then JUndef else JStr (preset_form.pf_server p)),
      (''user_mode'', JStr (preset_form.userMode p)), (''length'', JNum (preset_form.userLength p)), (''prefix'', str_or_undef (preset_form.pf_prefix p)),
      (''charset'', JStr (preset_form.charSet p)), (''profile'', JStr (preset_form.pf_profile p)), (''time_limit'', str_or_undef (preset_form.timeLimit p)),
      (''data_limit'', if dataLimitBytes p = 0 then JUndef else JNum (dataLimitBytes p)), (''comment'', JStr (preset_form.pf_name p))]"

definition card_job :: "SystemSetting list option \<Rightarrow> QuickPrintPreset \<Rightarrow> js \<Rightarrow> PrintJob" where
  "card_job settings p data =
     (let company = setting_value settings ''general.company_name'' in
      \<lparr>job_template = Default, job_vouchers = reply_vouchers (preset_form.pf_name p) data,
       job_meta =
         \<lparr>pm_profile = preset_form.pf_profile p, pm_server = preset_form.pf_server p, pm_validity = preset_form.pf_validity p, pm_sellingPrice = preset_form.sellingPrice p,
          pm_note = None, pm_title = Some (preset_form.pf_package p), pm_hotspotName = Some (if company = [] then preset_form.pf_package p else company),
          pm_loginUrl = Some (setting_value settings ''general.hotspot_login_url''),
          pm_timeLimit = Some (if preset_form.timeLimit p \<noteq> ''0'' then preset_form.timeLimit p else []), pm_dataLimit = None\<rparr>\<rparr>)"

text \<open>A click: without a router an error; otherwise the request, whose success opens the preview and tells nothing.\<close>

definition card_open :: "int option \<Rightarrow> QuickPrintPreset \<Rightarrow> ui_event list + submission" where
  "card_open routerId p =
     (case routerId of
        None \<Rightarrow> Inl [Failure ''Select a router first'' JUndef]
      | Some rid \<Rightarrow> Inr
          \<lparr>sub_mutation = useGenerateVoucher rid (JObj (card_params p)), on_done = (\<lambda>_. []),
           on_failed = (\<lambda>err. [Failure ''Failed to generate batch'' (err_message err)])\<rparr>)"

definition card_done :: "SystemSetting list option \<Rightarrow> QuickPrintPreset \<Rightarrow> thrown + js \<Rightarrow> print_store \<Rightarrow> print_store" where
  "card_done settings p answer s =
     (case answer of Inl _ \<Rightarrow> s | Inr data \<Rightarrow> print_open (card_job settings p data) s)"

definition quick_formatDataLimit :: "QuickPrintPreset \<Rightarrow> string" where
  "quick_formatDataLimit p =
     (if preset_form.dataLimit p \<le> 0 then ''Unlimited'' else show_rat (preset_form.dataLimit p) @ '' '' @ preset_form.dataLimitUnit p)"

definition quick_card :: "intl \<Rightarrow> QuickPrintPreset \<Rightarrow> (string \<times> string) list" where
  "quick_card i p =
     [(''package'', preset_form.pf_package p), (''name'', preset_form.pf_name p),
      (''place'', preset_form.pf_server p @ '' '' @ [char_of (194 :: nat), char_of (183 :: nat)] @ '' '' @ preset_form.pf_profile p),
      (''Time'', preset_form.timeLimit p), (''Data'', quick_formatDataLimit p), (''Validity'', preset_form.pf_validity p),
      (''Mode'', preset_form.userMode p), (''Selling Price'', formatIDR i (preset_form.sellingPrice p))]"

text \<open>The page of the presets: a hint without a router, then the counts and one message at most above the cards.\<close>

definition presets_count :: "bool \<Rightarrow> nat \<Rightarrow> string" where
  "presets_count isLoading n =
     (if isLoading then ''Loading'' @ [char_of (226 :: nat), char_of (128 :: nat), char_of (166 :: nat)]
      else show_nat n @ '' preset configuration'' @ (if n = 1 then [] else ''s''))"

definition presets_message :: "bool \<Rightarrow> bool \<Rightarrow> 'p list \<Rightarrow> string option" where
  "presets_message isError isLoading presets =
     (if isError then Some ''Failed to load presets. Click Refresh to try again.''
      else if \<not> isLoading \<and> presets = [] then Some ''No quick-print presets yet. Click Add Preset to create one.''
      else None)"

section \<open>The preview of a print job\<close>

text \<open>
  The store holds the job; the dialog keeps the template chosen in it and which job it has seen. Jobs are told apart as
  objects, so each carries the number of its opening.
\<close>

record preview =
  pv_job :: "(nat \<times> PrintJob) option"
  pv_opened :: nat
  pv_template :: PrintTemplate
  pv_seen :: "(nat \<times> PrintJob) option"

definition preview_init :: preview where
  "preview_init = \<lparr>pv_job = None, pv_opened = 0, pv_template = Default, pv_seen = None\<rparr>"

text \<open>Every rendering first takes over the template of a job it has not seen.\<close>

definition preview_render :: "preview \<Rightarrow> preview" where
  "preview_render s =
     (if pv_job s = pv_seen s then s
      else s\<lparr>pv_seen := pv_job s, pv_template := (case pv_job s of None \<Rightarrow> Default | Some (_, job) \<Rightarrow> job_template job)\<rparr>)"

datatype preview_event = OpenJob PrintJob | CloseJob | PickTemplate PrintTemplate

fun preview_step :: "preview_event \<Rightarrow> preview \<Rightarrow> preview" where
  "preview_step (OpenJob job) s = preview_render (s\<lparr>pv_job := Some (pv_opened s, job), pv_opened := pv_opened s + 1\<rparr>)"
| "preview_step CloseJob s = preview_render (s\<lparr>pv_job := None\<rparr>)"
| "preview_step (PickTemplate t) s = (if pv_job s = None then s else preview_render (s\<lparr>pv_template := t\<rparr>))"

definition preview_run :: "preview_event list \<Rightarrow> preview" where
  "preview_run evs = fold preview_step evs preview_init"

definition preview_html :: "(rat \<Rightarrow> string) \<Rightarrow> string \<Rightarrow> preview \<Rightarrow> string" where
  "preview_html rupiah now s =
     (case pv_job s of None \<Rightarrow> [] | Some (_, job) \<Rightarrow> buildPrintHtml rupiah now (job\<lparr>job_template := pv_template s\<rparr>))"

definition TEMPLATE_ORDER :: "(PrintTemplate \<times> string) list" where
  "TEMPLATE_ORDER = [(Default, ''Default''), (Small, ''Small''), (Thermal, ''Thermal'')]"

definition preview_title :: "PrintJob \<Rightarrow> string" where
  "preview_title job =
     (let dot = '' '' @ [char_of (194 :: nat), char_of (183 :: nat)] @ '' '' in
      show_nat (length (job_vouchers job)) @ '' voucher'' @ (if 1 < length (job_vouchers job) then ''s'' else [])
      @ dot @ pm_profile (job_meta job) @ dot @ print_meta.pm_validity (job_meta job))"

section \<open>Laws\<close>

text \<open>Every link of the overview is a declared page.\<close>

lemma overview_links: "set (map kp_to (overview_kpis i s n) @ map snd overview_actions) \<subseteq> set FileRoutesByTo"
  by (simp add: overview_kpis_def overview_actions_def Let_def) code_simp

lemma recent_bound: "length (recent_sales sales) \<le> 10" "set (recent_sales sales) \<subseteq> set (or_else sales [])"
  by (auto simp: recent_sales_def RECENT_SALES_LIMIT_def dest: in_set_takeD)

text \<open>What is typed is always within the bounds of the schema, so only a fraction can be refused.\<close>

lemma typed_bounds: "1 \<le> qty_typed t" "qty_typed t \<le> 500" "0 \<le> dataLimit_typed t"
  by (simp_all add: qty_typed_def dataLimit_typed_def)

lemma fraction_refused: "gp_qty p \<notin> \<int> \<Longrightarrow> generate_schema p = None"
  by (auto simp: generate_schema_def)

lemma generate_schema_fields:
  assumes "generate_schema p = Some f"
  shows "1 \<le> qty f \<and> qty f \<le> 500 \<and> of_int (qty f) = gp_qty p \<and> 0 \<le> vf_dataLimit f \<and> of_int (vf_dataLimit f) = gp_dataLimit p
    \<and> 4 \<le> nameLength f \<and> nameLength f \<le> 32 \<and> vf_profile f = vf_profile (gp_form p)"
  using assms by (auto simp: generate_schema_def le_floor_iff floor_le_iff split: if_splits)

text \<open>The first profile is filled in on arrival; after a reset the choice stays empty and the form can be sent without one.\<close>

lemma profile_filled:
  "profiles \<noteq> [] \<Longrightarrow> gp_seen p \<noteq> Some (length profiles) \<Longrightarrow> vf_profile (gp_form (profiles_effect profiles p)) \<noteq> []
    \<or> hd_name (hd profiles) = []"
  by (auto simp: profiles_effect_def Let_def)

lemma reset_loses_profile:
  "gp_seen p = Some (length profiles) \<Longrightarrow> vf_profile (gp_form (profiles_effect profiles (generate_reset p))) = []
    \<and> generate_schema (profiles_effect profiles (generate_reset p)) \<noteq> None"
  by (simp add: profiles_effect_def generate_reset_def generate_schema_def defaultGenerateForm_def)

text \<open>A profile that was chosen stays when another router's profiles arrive, whatever they are.\<close>

lemma router_keeps_profile:
  "vf_profile (gp_form p) \<noteq> [] \<Longrightarrow> vf_profile (gp_form (profiles_effect profiles p)) = vf_profile (gp_form p)"
  by (simp add: profiles_effect_def Let_def)

text \<open>The vouchers of a reply are shown one for one, in order, under different identifiers.\<close>

lemma map_enumerate:
  "map (\<lambda>x. g (snd x)) (enumerate n xs) = map g xs" "map (\<lambda>x. h (fst x)) (enumerate n xs) = map h [n ..< n + length xs]"
  by (simp_all add: map_map [symmetric, unfolded comp_def] map_fst_enumerate map_snd_enumerate del: map_map)

lemma reply_vouchers_shape:
  "length (reply_vouchers c data) = length (reply_list data ''vouchers'')"
  "map GeneratedVoucher.username (reply_vouchers c data) = map (\<lambda>v. str_of (js_optget v ''username'')) (reply_list data ''vouchers'')"
  "map GeneratedVoucher.password (reply_vouchers c data) = map (\<lambda>v. str_of (js_optget v ''password'')) (reply_list data ''vouchers'')"
  "distinct (map gv_id (reply_vouchers c data))"
  by (simp_all add: reply_vouchers_def case_prod_beta comp_def map_enumerate distinct_map inj_on_def
      map_enumerate(1) [where g = "\<lambda>v. str_of (js_optget v k)" for k]
      map_enumerate(2) [where h = "\<lambda>k. js_String (js_optget data ''gencode'') @ CHR ''-'' # show_nat (Suc k)"])

text \<open>
  A card asks for the same as the form would with the fields of the preset, but for the time limit: the card also sends
  the text 0, which stands for no limit and which the form leaves out.
\<close>

definition preset_as_form :: "QuickPrintPreset \<Rightarrow> UserType \<Rightarrow> CharSet \<Rightarrow> int \<Rightarrow> int \<Rightarrow> VoucherGenerateForm" where
  "preset_as_form p ut cs n dl =
     \<lparr>qty = int SAMPLE_QTY, vf_server = preset_form.pf_server p, vf_profile = preset_form.pf_profile p, userType = ut, nameLength = n, vf_charSet = cs,
      vf_prefix = preset_form.pf_prefix p, vf_timeLimit = preset_form.timeLimit p, vf_dataLimit = dl,
      vf_dataLimitUnit = (if preset_form.dataLimitUnit p = ''GB'' then GB else MB), vf_comment = preset_form.pf_name p\<rparr>"

lemma card_as_form:
  assumes "preset_form.userMode p = user_type_name ut" "preset_form.charSet p = charset_name cs" "preset_form.userLength p = of_int n" "preset_form.dataLimit p = of_int dl"
    and "preset_form.pf_name p \<noteq> []" "preset_form.timeLimit p \<noteq> ''0''"
  shows "card_params p = formToBackendParams (preset_as_form p ut cs n dl)"
  using assms by (auto simp: card_params_def formToBackendParams_def preset_as_form_def str_or_undef_def dataLimitBytes_def
      dataLimitToBytes_def Let_def SAMPLE_QTY_def)

lemma card_sends_zero: "preset_form.timeLimit p = ''0'' \<Longrightarrow> map_of (card_params p) ''time_limit'' = Some (JStr ''0'')"
  by (simp add: card_params_def str_or_undef_def)

lemma preset_without_limit: "time_limit api = [] \<Longrightarrow> apiToPreset api meta = Some p \<Longrightarrow> preset_form.timeLimit p = ''0''"
  by (auto simp: apiToPreset_def split: prod.splits)

text \<open>The preview shows the open job and nothing else; a new job starts with its own template.\<close>

definition preview_ok :: "preview \<Rightarrow> bool" where
  "preview_ok s = (pv_seen s = pv_job s \<and> (\<forall>k job. pv_job s = Some (k, job) \<longrightarrow> k < pv_opened s))"

lemma preview_step_ok: "preview_ok s \<Longrightarrow> preview_ok (preview_step e s)"
  by (cases e) (auto simp: preview_ok_def preview_render_def)

lemma preview_run_ok: "preview_ok (preview_run evs)"
proof -
  have "preview_ok (fold preview_step evs s)" if "preview_ok s" for s
    using that by (induction evs arbitrary: s) (simp_all add: preview_step_ok)
  then show ?thesis by (simp add: preview_run_def preview_init_def preview_ok_def)
qed

theorem preview_shows_job:
  "preview_html rupiah now (preview_step (OpenJob job) (preview_run evs)) = buildPrintHtml rupiah now job"
  "preview_html rupiah now (preview_step (PickTemplate t) (preview_step (OpenJob job) (preview_run evs))) =
     buildPrintHtml rupiah now (job\<lparr>job_template := t\<rparr>)"
proof -
  have "pv_seen (preview_run evs) \<noteq> Some (pv_opened (preview_run evs), job)"
    using preview_run_ok [of evs] by (auto simp: preview_ok_def)
  then show "preview_html rupiah now (preview_step (OpenJob job) (preview_run evs)) = buildPrintHtml rupiah now job"
    "preview_html rupiah now (preview_step (PickTemplate t) (preview_step (OpenJob job) (preview_run evs))) =
       buildPrintHtml rupiah now (job\<lparr>job_template := t\<rparr>)"
    by (auto simp: preview_html_def preview_render_def)
qed

lemma preview_closed: "preview_html rupiah now (preview_step CloseJob s) = []"
  by (simp add: preview_html_def preview_render_def)

end
