(* ===== verification/Traffic_Page.thy ===== *)
theory Traffic_Page
  imports Traffic_Live Sse_Client Device_Api Formats
begin

text \<open>
  The traffic page (\<^verbatim>\<open>features/traffic\<close>): the three tabs over the live grid, the cards, the dialog with the history of
  one interface or queue, and the samples of the charts. The grid itself is in theory Traffic_Live. How names are ordered
  for the reader (\<open>localeCompare\<close>) is a parameter \<open>rank\<close>, and so are the clock and the zone; the charts draw what the
  definitions give them.
\<close>

section \<open>Samples\<close>

record TrafficSample =
  tf_timestamp :: rat
  tf_rxBps :: rat
  tf_txBps :: rat
  tf_rxPps :: rat
  tf_txPps :: rat

definition emptySample :: "rat \<Rightarrow> TrafficSample" where
  "emptySample timestamp = \<lparr>tf_timestamp = timestamp, tf_rxBps = 0, tf_txBps = 0, tf_rxPps = 0, tf_txPps = 0\<rparr>"

text \<open>\<open>event.fields?.x ?? 0\<close> for a field that is a number when it is there.\<close>

definition field_number :: "js \<Rightarrow> string \<Rightarrow> rat" where
  "field_number event key = (case js_optget (js_optget event ''fields'') key of JNum n \<Rightarrow> n | _ \<Rightarrow> 0)"

definition telemetryToTrafficSample :: "zone \<Rightarrow> int \<Rightarrow> js \<Rightarrow> TrafficSample" where
  "telemetryToTrafficSample z now event =
     \<lparr>tf_timestamp = of_int (or_else (parse_Date z (js_String (js_optget event ''timestamp''))) now),
      tf_rxBps = field_number event ''rx_bits_per_second'', tf_txBps = field_number event ''tx_bits_per_second'',
      tf_rxPps = field_number event ''rx_packets_per_second'', tf_txPps = field_number event ''tx_packets_per_second''\<rparr>"

text \<open>The stream of one interface; its name goes into the path as it is.\<close>

definition traffic_stream_path :: "int \<Rightarrow> string \<Rightarrow> string option" where
  "traffic_stream_path routerId iface =
     (if 0 < routerId \<and> iface \<noteq> []
      then Some (''/devices/'' @ show_int routerId @ ''/stream/network/interfaces/'' @ iface @ ''/traffic'') else None)"

section \<open>The page\<close>

datatype HistoryKind = InterfaceHistory | QueueHistory

record traffic_tab =
  tt_value :: string
  tt_label :: string
  tt_kind :: LiveKind
  tt_historyKind :: HistoryKind
  tt_emptyHint :: string
  tt_excludeParents :: bool

definition traffic_tabs :: "traffic_tab list" where
  "traffic_tabs =
     [\<lparr>tt_value = ''interfaces'', tt_label = ''Interfaces'', tt_kind = Interfaces, tt_historyKind = InterfaceHistory,
       tt_emptyHint = ''Tidak ada interface ethernet aktif.'', tt_excludeParents = False\<rparr>,
      \<lparr>tt_value = ''parents'', tt_label = ''Parent Queues'', tt_kind = Parents, tt_historyKind = QueueHistory,
       tt_emptyHint = ''Tidak ada parent queue.'', tt_excludeParents = False\<rparr>,
      \<lparr>tt_value = ''queues'', tt_label = ''Queues'', tt_kind = Queues, tt_historyKind = QueueHistory,
       tt_emptyHint = ''Tidak ada queue (selain parent).'', tt_excludeParents = True\<rparr>]"

definition traffic_status :: "SSEStatus \<Rightarrow> string" where
  "traffic_status s =
     (case s of
        Idle \<Rightarrow> ''No router''
      | Connecting \<Rightarrow> ''Connecting'' @ [char_of (226 :: nat), char_of (128 :: nat), char_of (166 :: nat)]
      | Open \<Rightarrow> ''Live''
      | Closed \<Rightarrow> ''Reconnecting'' @ [char_of (226 :: nat), char_of (128 :: nat), char_of (166 :: nat)])"

text \<open>Without a router the page shows a hint; a tab shows every entity, or those that are nobody's parent.\<close>

definition parentNames :: "LiveEntity list \<Rightarrow> js list" where
  "parentNames xs = filter (\<lambda>p. truthy p \<and> p \<noteq> JStr ''none'' \<and> p \<noteq> JStr []) (map le_parent xs)"

definition tab_shown :: "bool \<Rightarrow> LiveEntity list \<Rightarrow> LiveEntity list" where
  "tab_shown excludeParents xs =
     (if \<not> excludeParents then xs else filter (\<lambda>e. le_key e \<notin> set (parentNames xs)) xs)"

text \<open>The grid: waiting, a hint, or the cards in the order of their titles.\<close>

definition StatsGrid :: "(string \<Rightarrow> rat) \<Rightarrow> SSEStatus \<Rightarrow> string \<Rightarrow> LiveEntity list \<Rightarrow> string + LiveEntity list" where
  "StatsGrid rank s emptyHint xs =
     (if xs = []
      then Inl (if s = Connecting \<or> s = Open
                then ''Menunggu data'' @ [char_of (226 :: nat), char_of (128 :: nat), char_of (166 :: nat)] else emptyHint)
      else Inr (sort_key (\<lambda>e. rank (js_String (le_title e))) xs))"

datatype card_dot = DotOff | DotRunning | DotDown

record traffic_card =
  tc_dot :: card_dot
  tc_title :: string
  tc_subtitle :: string
  tc_rx :: string
  tc_tx :: string
  tc_spark :: "LiveSpark list"
  tc_maxLimit :: "string option"

definition TrafficCard :: "LiveEntity \<Rightarrow> traffic_card" where
  "TrafficCard e =
     \<lparr>tc_dot = (if le_disabled e then DotOff else if le_running e then DotRunning else DotDown),
      tc_title = js_String (le_title e), tc_subtitle = js_String (le_subtitle e),
      tc_rx = formatBitsPerSecond (of_int (js_round (rxBps e))), tc_tx = formatBitsPerSecond (of_int (js_round (txBps e))),
      tc_spark = spark e,
      tc_maxLimit = (if truthy (le_maxLimit e) then Some (js_String (le_maxLimit e)) else None)\<rparr>"

definition TrafficTab ::
  "(string \<Rightarrow> rat) \<Rightarrow> traffic_tab \<Rightarrow> SSEStatus \<Rightarrow> LiveEntity list \<Rightarrow> string \<times> string \<times> (string + LiveEntity list)"
where
  "TrafficTab rank tab s xs =
     (let shown = tab_shown (tt_excludeParents tab) xs in
      (show_nat (length shown) @ '' item'', traffic_status s, StatsGrid rank s (tt_emptyHint tab) shown))"

section \<open>The history of one entity\<close>

record HistoryRangePreset =
  hr_label :: string
  hr_seconds :: int
  hr_interval :: string

definition HISTORY_RANGES :: "HistoryRangePreset list" where
  "HISTORY_RANGES =
     [\<lparr>hr_label = ''1 jam'', hr_seconds = 3600, hr_interval = ''30s''\<rparr>,
      \<lparr>hr_label = ''6 jam'', hr_seconds = 21600, hr_interval = ''2m''\<rparr>,
      \<lparr>hr_label = ''24 jam'', hr_seconds = 86400, hr_interval = ''10m''\<rparr>]"

text \<open>\<open>/^(\d+)([smh])$/\<close>, in seconds; a minute for anything else.\<close>

definition durationSeconds :: "string \<Rightarrow> rat" where
  "durationSeconds d =
     (if 2 \<le> length d \<and> list_all is_digit (butlast d) \<and> last d \<in> set ''smh''
      then of_nat (read_digits (butlast d)) * (if last d = CHR ''h'' then 3600 else if last d = CHR ''m'' then 60 else 1)
      else 60)"

text \<open>
  The time of a row: a number of nanoseconds (more than \<open>10\<^sup>15\<close>), of milliseconds, or a text; \<open>None\<close> is not a number.
\<close>

definition rowTimeMs :: "zone \<Rightarrow> js \<Rightarrow> rat option" where
  "rowTimeMs z v =
     (case js_Number v of
        Some n \<Rightarrow>
          if 0 < n then Some (if 1000000000000000 < n then of_int (js_round (n / 1000000)) else n)
          else map_option of_int (parse_Date z (js_String v))
      | None \<Rightarrow> map_option of_int (parse_Date z (js_String v)))"

text \<open>The dialog: which entity was clicked, and which of the ranges is chosen. Closing forgets the entity, not the range.\<close>

record history_dialog =
  hy_selected :: "LiveEntity option"
  hy_rangeIdx :: nat

definition history_init :: history_dialog where
  "history_init = \<lparr>hy_selected = None, hy_rangeIdx = 0\<rparr>"

definition history_select :: "LiveEntity \<Rightarrow> history_dialog \<Rightarrow> history_dialog" where
  "history_select e d = d\<lparr>hy_selected := Some e\<rparr>"

definition history_close :: "history_dialog \<Rightarrow> history_dialog" where
  "history_close d = d\<lparr>hy_selected := None\<rparr>"

definition history_pick :: "nat \<Rightarrow> history_dialog \<Rightarrow> history_dialog" where
  "history_pick i d = d\<lparr>hy_rangeIdx := i\<rparr>"

definition history_name :: "history_dialog \<Rightarrow> string" where
  "history_name d = (case hy_selected d of None \<Rightarrow> [] | Some e \<Rightarrow> js_String (le_key e))"

definition history_preset :: "history_dialog \<Rightarrow> HistoryRangePreset" where
  "history_preset d = HISTORY_RANGES ! hy_rangeIdx d"

definition history_range :: "int \<Rightarrow> history_dialog \<Rightarrow> js option" where
  "history_range now d =
     (if hy_selected d = None then None
      else Some (JObj
        [(''from'', JStr (toISOString (now - hr_seconds (history_preset d) * 1000))), (''to'', JStr (toISOString now)),
         (''interval'', JStr (hr_interval (history_preset d)))]))"

definition iface_query :: "HistoryKind \<Rightarrow> int \<Rightarrow> js option \<Rightarrow> query_hook" where
  "iface_query kind routerId period =
     useInterfaceHistory (if kind = InterfaceHistory then routerId else 0) (if kind = InterfaceHistory then period else None)"

definition queue_query :: "HistoryKind \<Rightarrow> int \<Rightarrow> js option \<Rightarrow> query_hook" where
  "queue_query kind routerId period =
     useQueueHistory (if kind = QueueHistory then routerId else 0) (if kind = QueueHistory then period else None)"

definition history_columns :: "HistoryKind \<Rightarrow> string \<times> string \<times> string" where
  "history_columns kind =
     (case kind of
        InterfaceHistory \<Rightarrow> (''iface'', ''rx_delta'', ''tx_delta'')
      | QueueHistory \<Rightarrow> (''queue'', ''bytes_in_delta'', ''bytes_out_delta''))"

definition row_named :: "HistoryKind \<Rightarrow> string \<Rightarrow> js \<Rightarrow> bool" where
  "row_named kind name row =
     (js_String (case js_optget row (fst (history_columns kind)) of JUndef \<Rightarrow> JStr [] | JNull \<Rightarrow> JStr [] | v \<Rightarrow> v) = name)"

definition row_sample :: "zone \<Rightarrow> HistoryKind \<Rightarrow> string \<Rightarrow> js \<Rightarrow> TrafficSample option" where
  "row_sample z kind interval row =
     (let (_, rxCol, txCol) = history_columns kind; intervalSec = durationSeconds interval in
      map_option (\<lambda>ts.
        \<lparr>tf_timestamp = ts, tf_rxBps = number_or_0 (js_optget row rxCol) * 8 / intervalSec,
         tf_txBps = number_or_0 (js_optget row txCol) * 8 / intervalSec, tf_rxPps = 0, tf_txPps = 0\<rparr>)
        (rowTimeMs z (js_optget row ''time'')))"

definition history_samples :: "zone \<Rightarrow> HistoryKind \<Rightarrow> string \<Rightarrow> string \<Rightarrow> js list \<Rightarrow> TrafficSample list" where
  "history_samples z kind interval name rows =
     sort_key tf_timestamp (List.map_filter (row_sample z kind interval) (filter (row_named kind name) rows))"

text \<open>What the dialog shows: a message, or the samples.\<close>

definition history_body :: "bool \<Rightarrow> thrown option \<Rightarrow> TrafficSample list \<Rightarrow> string + TrafficSample list" where
  "history_body isLoading err shown =
     (if isLoading then Inl (''Memuat histori'' @ [char_of (226 :: nat), char_of (128 :: nat), char_of (166 :: nat)])
      else
        (case err of
           Some e \<Rightarrow> Inl (if getAPIErrorCode e = JStr ''INFLUX_DISABLED'' then ''InfluxDB belum aktif'' else ''Gagal memuat histori.'')
         | None \<Rightarrow> if shown = [] then Inl ''Belum ada data pada rentang ini.'' else Inr shown))"

section \<open>The chart\<close>

datatype TrafficMode = LiveMode | HistoryMode

definition chart_data :: "TrafficSample list \<Rightarrow> (rat \<times> rat \<times> rat) list" where
  "chart_data shown = map (\<lambda>s. (tf_timestamp s, tf_rxBps s, tf_txBps s)) shown"

definition tickInterval :: "TrafficMode \<Rightarrow> nat \<Rightarrow> nat" where
  "tickInterval mode n = (if mode = LiveMode then 8 else n div 8)"

definition formatTick :: "intl \<Rightarrow> int \<Rightarrow> TrafficMode \<Rightarrow> string" where
  "formatTick i ts mode =
     date_format i ''id-ID''
       ([(''hour'', JStr ''2-digit''), (''minute'', JStr ''2-digit'')] @ (if mode = LiveMode then [(''second'', JStr ''2-digit'')] else [])) ts"

definition chart_tooltip :: "rat \<Rightarrow> string \<Rightarrow> string \<times> string" where
  "chart_tooltip v name = (formatBitsPerSecond v, if name = ''rx'' then ''RX'' else ''TX'')"

section \<open>Laws\<close>

text \<open>The tab of the queues shows an entity exactly when no entity of the stream names it as its parent.\<close>

lemma queues_tab:
  "e \<in> set (tab_shown True xs) \<longleftrightarrow>
     e \<in> set xs \<and> (\<forall>child \<in> set xs. le_parent child = le_key e \<longrightarrow> \<not> truthy (le_parent child) \<or> le_parent child = JStr ''none'')"
  by (force simp: tab_shown_def parentNames_def)

lemma StatsGrid_sorted:
  assumes "StatsGrid rank s h xs = Inr ys"
  shows "mset ys = mset xs" "sorted (map (\<lambda>e. rank (js_String (le_title e))) ys)"
  using assms by (auto simp: StatsGrid_def split: if_splits)

text \<open>The dialog asks for the history of its kind only, only while it is open, and of the router it was given.\<close>

lemma history_asks:
  "q_enabled (iface_query kind routerId (history_range now d)) \<longleftrightarrow> kind = InterfaceHistory \<and> 0 < routerId \<and> hy_selected d \<noteq> None"
  "q_enabled (queue_query kind routerId (history_range now d)) \<longleftrightarrow> kind = QueueHistory \<and> 0 < routerId \<and> hy_selected d \<noteq> None"
  by (auto simp: iface_query_def queue_query_def useInterfaceHistory_def useQueueHistory_def history_range_def)

lemma range_intervals:
  "map (\<lambda>r. of_int (hr_seconds r) / durationSeconds (hr_interval r)) HISTORY_RANGES = [120, 180, 144]"
  by (simp add: HISTORY_RANGES_def durationSeconds_def read_digits_def digit_val_def is_digit_def code_of_def)

lemma rowTimeMs_units:
  "1000000000 < t \<Longrightarrow> rowTimeMs z (JNum (of_int (t * 1000000))) = Some (of_int t)"
  "0 < n \<Longrightarrow> n \<le> 1000000000000000 \<Longrightarrow> rowTimeMs z (JNum n) = Some n"
  by (simp_all add: rowTimeMs_def js_round_def floor_eq_iff)

lemma rowTimeMs_text: "js_Number (JStr s) = None \<Longrightarrow> rowTimeMs z (JStr s) = map_option of_int (parse_Date z s)"
  by (simp add: rowTimeMs_def)

text \<open>The samples are in the order of time, one for each row of the entity whose time can be read.\<close>

lemma history_samples_spec:
  "sorted (map tf_timestamp (history_samples z kind interval name rows))"
  "mset (history_samples z kind interval name rows) =
     mset (List.map_filter (row_sample z kind interval) (filter (row_named kind name) rows))"
  by (simp_all add: history_samples_def)

lemma history_samples_rows:
  "s \<in> set (history_samples z kind interval name rows) \<longleftrightarrow>
     (\<exists>row \<in> set rows. row_named kind name row \<and> row_sample z kind interval row = Some s)"
  by (force simp: history_samples_def map_filter_def image_iff)

text \<open>
  The live counters of a queue are a text, the upload before the download, and the grid shows the download as received.
  The backend stores the first number as \<open>bytes_in\<close>, which the history shows as received: of the same traffic, 100 bytes
  up and 900 down, the grid and the history show the opposite.
\<close>

lemma directions_swapped:
  "let event = JObj [(''name'', JStr ''q''), (''bytes'', JStr ''100/900'')];
       row = JObj [(''time'', JNum 1767607200000), (''queue'', JStr ''q''), (''bytes_in_delta'', JNum 100), (''bytes_out_delta'', JNum 900)]
   in map_sum id (map_option (\<lambda>x. (rxBytes x, txBytes x))) (extract_event Queues event) = Inr (Some (900, 100))
    \<and> map (\<lambda>s. (tf_rxBps s, tf_txBps s)) (history_samples (fixed_zone 0) QueueHistory ''1s'' ''q'' [row]) = [(800, 7200)]"
  by code_simp

text \<open>The name of an interface is not encoded in the address of its stream.\<close>

lemma stream_path_raw: "traffic_stream_path 1 ''a/b?c'' = Some ''/devices/1/stream/network/interfaces/a/b?c/traffic''"
  by code_simp

end
