(* ===== verification/List_Pages.thy ===== *)
theory List_Pages
  imports Voucher_Pages Billing_Tables Sse_Client Staff_Forms
begin

text \<open>
  The pages around the tables: what stands above each table (counts, buttons, a failed load, a missing router) on the
  hotspot, PPP, router and staff pages, the synchronisation with the router, the printing of selected users, the hotspot
  overview, the dashboard and the system page with its tables. The number formats, zone and clock are parameters, and so
  is the order of names for the reader (\<open>rank\<close>).
\<close>

section \<open>Heads of pages\<close>

record page_head =
  ph_subtitle :: string
  ph_buttons :: "string list"
  ph_failed :: "string option"

text \<open>A page of one router: a hint where none is chosen.\<close>

definition router_hints :: "(string \<times> string) list" where
  "router_hints =
     [(''/hotspot'', ''view its hotspot status''), (''/hotspot/users'', ''view its hotspot users''),
      (''/hotspot/profiles'', ''view its hotspot profiles''), (''/hotspot/active'', ''view its active hotspot sessions''),
      (''/hotspot/hosts'', ''view its hotspot hosts''), (''/ppp/secrets'', ''view its PPP secrets''),
      (''/ppp/profiles'', ''view PPP profiles''), (''/ppp/active'', ''view active PPP sessions''),
      (''/ppp/billing'', ''manage billing profiles''), (''/system'', ''view system info''), (''/network'', ''view network resources''),
      (''/voucher'', ''view its voucher sales summary''), (''/voucher/print'', ''manage its quick-print presets'')]"

definition router_page :: "string \<Rightarrow> int option \<Rightarrow> 'p \<Rightarrow> string + 'p" where
  "router_page path routerId body =
     (case routerId of
        None \<Rightarrow> Inl (''Select a router from the sidebar switcher to '' @ or_else (map_of router_hints path) [] @ ''.'')
      | Some _ \<Rightarrow> Inr body)"

definition dots :: "string list \<Rightarrow> string" where
  "dots parts = js_join ('' '' @ [char_of (194 :: nat), char_of (183 :: nat)] @ '' '') parts"

definition counted :: "nat \<Rightarrow> string \<Rightarrow> string" where
  "counted n what = show_nat n @ '' '' @ what @ (if n = 1 then [] else ''s'')"

definition live_label :: "SSEStatus \<Rightarrow> string" where
  "live_label s = (if s = Open then ''live'' else if s = Connecting then ''connecting'' else ''offline'')"

definition overview_live_label :: "SSEStatus \<Rightarrow> string" where
  "overview_live_label s = (if s = Open then ''live'' else if s = Connecting then ''connecting'' else ''snapshot'')"

section \<open>Hotspot users\<close>

definition users_view :: "zone \<Rightarrow> int \<Rightarrow> HotspotUserRecord list option \<Rightarrow> HotspotUserViewModel list" where
  "users_view z now answer = map (toUserViewModel z now) (or_else answer [])"

definition disabledCount :: "HotspotUserViewModel list \<Rightarrow> nat" where
  "disabledCount us = length (filter (\<lambda>u. uv_enabledStatus u = Disabled) us)"

definition expiredCount :: "HotspotUserViewModel list \<Rightarrow> nat" where
  "expiredCount us = length (filter (\<lambda>u. case uv_expiry u of None \<Rightarrow> False | Some (_, past) \<Rightarrow> past) us)"

definition users_head :: "string option \<Rightarrow> bool \<Rightarrow> HotspotUserViewModel list \<Rightarrow> page_head" where
  "users_head viewer_role isError us =
     \<lparr>ph_subtitle = dots [show_nat (length us) @ '' total'', show_nat (disabledCount us) @ '' disabled'',
        show_nat (expiredCount us) @ '' expired''],
      ph_buttons = [''Refresh'', ''Export''] @ (if viewer_role = Some ''viewer'' then [] else [''Add User'']),
      ph_failed = (if isError then Some ''Failed to load hotspot users. Click Refresh to retry.'' else None)\<rparr>"

text \<open>The export takes every user; the file carries the day in universal time.\<close>

definition users_export :: "int option \<Rightarrow> int \<Rightarrow> (service \<times> (thrown + js \<Rightarrow> ui_event list)) option" where
  "users_export routerId now =
     map_option (\<lambda>rid.
       (exportHotspotUsersCSV rid None,
        \<lambda>answer. case answer of
          Inl e \<Rightarrow> [Failure ''Failed to export users'' (error_text e)]
        | Inr _ \<Rightarrow> [Download (''hotspot-users-'' @ show_int rid @ ''-'' @ take 10 (toISOString now) @ ''.csv''),
                    Success ''Exported hotspot users CSV'' JUndef]))
       routerId"

definition user_voucher :: "HotspotUserViewModel \<Rightarrow> GeneratedVoucher" where
  "user_voucher u =
     \<lparr>gv_id = uv_id u, username = uv_name u, password = uv_password u, gv_profile = uv_profile u, gv_comment = uv_comment u\<rparr>"

text \<open>A print of users: the profile, server, validity and price are those of the first.\<close>

definition users_handlePrint ::
  "ProfileWithMeta list option \<Rightarrow> SystemSetting list option \<Rightarrow> HotspotUserViewModel list \<Rightarrow> PrintTemplate \<Rightarrow> PrintJob option"
where
  "users_handlePrint profiles settings us template =
     (case us of
        [] \<Rightarrow> None
      | u # _ \<Rightarrow> result_print profiles settings (map user_voucher us) (uv_profile u) (Some (uv_server u)) template)"

section \<open>Other hotspot pages\<close>

definition sync_report :: "js \<Rightarrow> string" where
  "sync_report res =
     (let orphan = reply_list res ''orphan'' in
      dots ([show_nat (length (reply_list res ''synced'')) @ '' synced'', show_nat (length (reply_list res ''created'')) @ '' created'']
        @ (if orphan = [] then []
           else [show_nat (length orphan) @ '' orphan ('' @ js_join '', '' (map js_String orphan) @ '')''])))"

definition profiles_sync :: "int option \<Rightarrow> submission" where
  "profiles_sync routerId =
     \<lparr>sub_mutation = useSyncHotspotProfiles (or_else routerId 0),
      on_done = (\<lambda>res. [Success ''Profiles synced from RouterOS'' (JStr (sync_report res))]),
      on_failed = (\<lambda>err. [Failure ''Failed to sync profiles'' (error_text err)])\<rparr>"

definition profiles_head :: "string option \<Rightarrow> bool \<Rightarrow> HotspotProfileViewModel list \<Rightarrow> page_head" where
  "profiles_head viewer_role isError ps =
     \<lparr>ph_subtitle = dots [show_nat (length ps) @ '' profiles'',
        show_nat (length (filter pv_hasExpiredMonitor ps)) @ '' with active expired monitor''],
      ph_buttons = [''Refresh''] @ (if viewer_role = Some ''viewer'' then [] else [''Sync from RouterOS'', ''Add Profile'']),
      ph_failed = (if isError then Some ''Failed to load profiles. Click Refresh to retry.'' else None)\<rparr>"

definition active_head :: "bool \<Rightarrow> HotspotActiveViewModel list \<Rightarrow> page_head" where
  "active_head isError as =
     \<lparr>ph_subtitle = counted (length as) ''active session'',
      ph_buttons = [''Refresh''] @ (if as = [] then [] else [''Disconnect All'']),
      ph_failed = (if isError then Some ''Failed to load active sessions. Click Refresh to retry.'' else None)\<rparr>"

definition hosts_head :: "bool \<Rightarrow> HotspotHostViewModel list \<Rightarrow> page_head" where
  "hosts_head isError hs =
     \<lparr>ph_subtitle = dots [show_nat (length hs) @ '' total'', show_nat (length (filter hv_authorized hs)) @ '' authorized''],
      ph_buttons = [''Refresh'', ''Make IP Binding''],
      ph_failed = (if isError then Some ''Failed to load hosts. Click Refresh to retry.'' else None)\<rparr>"

text \<open>The synchronisation of the billing profiles: the button is off while it runs, whatever comes of it.\<close>

definition hotspotBilling_sync :: "int option \<Rightarrow> submission" where
  "hotspotBilling_sync routerId =
     \<lparr>sub_mutation = useSyncHotspotDbProfiles (or_else routerId 0) None,
      on_done = (\<lambda>res. [Success ''Sync complete'' (JStr (sync_report res))]),
      on_failed = (\<lambda>err. [Failure ''Sync failed'' (parseAPIError err)])\<rparr>"

definition hotspotBilling_head :: "bool \<Rightarrow> HotspotDbProfile list option \<Rightarrow> page_head" where
  "hotspotBilling_head isError answer =
     \<lparr>ph_subtitle = dots [counted (length (or_else answer [])) ''profile'', ''voucher & permanent plans''],
      ph_buttons = [''Sync from Router'', ''Add Profile''],
      ph_failed = (if isError then Some ''Failed to load hotspot billing profiles.'' else None)\<rparr>"

section \<open>PPP pages\<close>

definition secrets_head :: "string option \<Rightarrow> bool \<Rightarrow> PPPSecret list option \<Rightarrow> page_head" where
  "secrets_head viewer_role isError answer =
     (let secrets = or_else answer [] in
      \<lparr>ph_subtitle = dots [show_nat (length secrets) @ '' total'', show_nat (length (filter ps_disabled secrets)) @ '' disabled''],
       ph_buttons = [''Refresh''] @ (if viewer_role = Some ''viewer'' then [] else [''Add Secret'']),
       ph_failed = (if isError then Some ''Failed to load PPP secrets. Click Refresh to retry.'' else None)\<rparr>)"

definition pppProfiles_head :: "string option \<Rightarrow> bool \<Rightarrow> RouterPPPProfile list option \<Rightarrow> page_head" where
  "pppProfiles_head viewer_role isError answer =
     \<lparr>ph_subtitle = counted (length (or_else answer [])) ''profile'',
      ph_buttons = [''Refresh''] @ (if viewer_role = Some ''viewer'' then [] else [''Add Profile'']),
      ph_failed = (if isError then Some ''Failed to load PPP profiles. Click Refresh to retry.'' else None)\<rparr>"

definition pppActive_head :: "bool \<Rightarrow> PPPActive list option \<Rightarrow> page_head" where
  "pppActive_head isError answer =
     \<lparr>ph_subtitle = counted (length (or_else answer [])) ''active session'', ph_buttons = [''Refresh''],
      ph_failed = (if isError then Some ''Failed to load active sessions. Click Refresh to retry.'' else None)\<rparr>"

definition pppBilling_sync :: "int option \<Rightarrow> submission" where
  "pppBilling_sync routerId =
     \<lparr>sub_mutation = useSyncPPPDbProfiles (or_else routerId 0),
      on_done = (\<lambda>res. [Success ''Sync complete'' (JStr (dots
        [show_nat (length (reply_list res ''synced'')) @ '' synced'', show_nat (length (reply_list res ''created'')) @ '' created'',
         show_nat (length (reply_list res ''orphan'')) @ '' orphan'']))]),
      on_failed = (\<lambda>err. [Failure ''Sync failed'' (parseAPIError err)])\<rparr>"

definition pppBilling_head :: "bool \<Rightarrow> PPPDbProfile list option \<Rightarrow> page_head" where
  "pppBilling_head isError answer =
     \<lparr>ph_subtitle = dots [counted (length (or_else answer [])) ''profile'', ''priced PPPoE plans''],
      ph_buttons = [''Sync from Router'', ''Add Profile''],
      ph_failed = (if isError then Some ''Failed to load billing profiles. Retry from the sidebar.'' else None)\<rparr>"

section \<open>Routers and staff\<close>

text \<open>The two pages with summary cards: loading, a failure with its message, or the table.\<close>

definition summary_body :: "string \<Rightarrow> bool \<Rightarrow> string option \<Rightarrow> 'r list \<Rightarrow> string + 'r list" where
  "summary_body what isLoading err rows =
     (if isLoading then Inl (''Loading '' @ what @ [char_of (226 :: nat), char_of (128 :: nat), char_of (166 :: nat)])
      else
        (case err of
           Some m \<Rightarrow> Inl (''Failed to load '' @ what @ (if m = [] then ''.'' else '': '' @ m) @ '' Click Refresh to retry.'')
         | None \<Rightarrow> Inr rows))"

definition routers_summary :: "RouterPublicView list option \<Rightarrow> (string \<times> nat) list" where
  "routers_summary answer =
     (let routers = or_else answer [] in
      [(''Total'', length routers), (''Connected'', length (filter (\<lambda>r. rv_status r = ''connected'') routers)),
       (''Issues'', length (filter (\<lambda>r. rv_status r = ''error'' \<or> rv_status r = ''disconnected'') routers))])"

text \<open>Active accounts first, then by name: the sort keeps the order of what it compares as equal.\<close>

definition admins_sorted :: "(string \<Rightarrow> rat) \<Rightarrow> AdminUser list option \<Rightarrow> AdminUser list" where
  "admins_sorted rank answer =
     sort_key (\<lambda>u. if au_active u then 0 else (1 :: nat)) (sort_key (\<lambda>u. rank (au_username u)) (or_else answer []))"

definition admins_summary :: "AdminUser list \<Rightarrow> (string \<times> nat) list" where
  "admins_summary sorted_users =
     [(''Total'', length sorted_users), (''Admins'', length (filter (\<lambda>u. au_role u = ''admin'') sorted_users)),
      (''Active'', length (filter au_active sorted_users))]"

definition admins_buttons :: "string option \<Rightarrow> string list" where
  "admins_buttons viewer_role = [''Refresh''] @ (if viewer_role = Some ''admin'' then [''Add User''] else [])"

section \<open>Hotspot overview\<close>

record hotspot_stats =
  st_userCount :: nat
  st_disabledCount :: nat
  st_expiredCount :: nat
  st_profileCount :: nat
  st_monitorCount :: nat
  st_activeCount :: nat
  st_hostCount :: nat
  st_authorizedHosts :: nat

text \<open>Counted on the records as they come, not on the rows of the tables.\<close>

definition hotspot_stats_of ::
  "zone \<Rightarrow> int \<Rightarrow> HotspotUserRecord list option \<Rightarrow> ProfileWithMeta list option \<Rightarrow> HotspotActiveRecord list option
    \<Rightarrow> HotspotHostRecord list option \<Rightarrow> hotspot_stats"
where
  "hotspot_stats_of z now users profiles active hosts =
     \<lparr>st_userCount = length (or_else users []),
      st_disabledCount = length (filter (\<lambda>u. routerOSBool (hu_disabled u)) (or_else users [])),
      st_expiredCount = length (filter (\<lambda>u. case parseExpiryFromComment z (hu_comment u) of None \<Rightarrow> False | Some t \<Rightarrow> t < now) (or_else users [])),
      st_profileCount = length (or_else profiles []),
      st_monitorCount = length (filter (\<lambda>p. hasExpiredMonitor (pm_on_login p)) (or_else profiles [])),
      st_activeCount = length (or_else active []),
      st_hostCount = length (or_else hosts []),
      st_authorizedHosts = length (filter (\<lambda>h. routerOSBool (hh_authorized h)) (or_else hosts []))\<rparr>"

definition hotspot_kpis :: "SSEStatus \<Rightarrow> hotspot_stats \<Rightarrow> kpi list" where
  "hotspot_kpis status s =
     [\<lparr>kp_title = ''Hotspot Users'', kp_value = show_nat (st_userCount s),
       kp_subtitle = dots [show_nat (st_disabledCount s) @ '' disabled'', show_nat (st_expiredCount s) @ '' expired''], kp_to = ''/hotspot/users''\<rparr>,
      \<lparr>kp_title = ''Profiles'', kp_value = show_nat (st_profileCount s), kp_subtitle = show_nat (st_monitorCount s) @ '' monitor active'',
       kp_to = ''/hotspot/profiles''\<rparr>,
      \<lparr>kp_title = ''Active Sessions'', kp_value = show_nat (st_activeCount s), kp_subtitle = overview_live_label status, kp_to = ''/hotspot/active''\<rparr>,
      \<lparr>kp_title = ''Hosts'', kp_value = show_nat (st_hostCount s), kp_subtitle = show_nat (st_authorizedHosts s) @ '' authorized'',
       kp_to = ''/hotspot/hosts''\<rparr>]"

definition hotspot_setup_monitor :: ui_event where
  "hotspot_setup_monitor = Info ''Coming soon'' (JStr ''Bulk monitor setup wiring lands in Phase 8.'')"

section \<open>Dashboard\<close>

record Transaction =
  tn_id :: int
  tn_sale_date :: string
  tn_sale_time :: string
  tn_sale_month :: string
  tn_username :: string
  tn_price :: rat
  tn_sell_price :: rat
  tn_ip :: "string option"
  tn_mac :: "string option"
  tn_validity :: "string option"
  tn_profile :: "string option"
  tn_comment :: "string option"
  tn_created_at :: string

record ReportSummary =
  rs_count :: int
  rs_total_price :: rat
  rs_total_sell_price :: rat
  rs_profit :: rat
  rs_by_profile :: "(string \<times> rat) list option"
  rs_transactions :: "Transaction list option"

record stat_card =
  sc_label :: string
  sc_value :: string
  sc_sub :: string

definition todaysRevenue :: "Transaction list \<Rightarrow> rat" where
  "todaysRevenue sales = sum_list (map tn_sell_price sales)"

text \<open>Without a router (its number is 0) the figures of the router are dashes; customers and subscriptions have none.\<close>

definition kpiStats ::
  "intl \<Rightarrow> int \<Rightarrow> nat \<Rightarrow> nat \<Rightarrow> Transaction list \<Rightarrow> nat \<Rightarrow> nat \<Rightarrow> stat_card list"
where
  "kpiStats i routerId active users todaysSales customers subscriptions =
     (let of_router = (\<lambda>v. if routerId \<noteq> 0 then v else em_dash) in
      [\<lparr>sc_label = ''Active'', sc_value = of_router (show_nat active), sc_sub = ''Live hotspot sessions''\<rparr>,
       \<lparr>sc_label = ''Hotspot Users'', sc_value = of_router (show_nat users), sc_sub = ''On selected router''\<rparr>,
       \<lparr>sc_label = ''Income Today'', sc_value = of_router (formatIDR i (todaysRevenue todaysSales)),
        sc_sub = show_nat (length todaysSales) @ '' sales today''\<rparr>,
       \<lparr>sc_label = ''Customers'', sc_value = show_nat customers, sc_sub = ''Registered''\<rparr>,
       \<lparr>sc_label = ''Subscriptions'', sc_value = show_nat subscriptions, sc_sub = ''PPPoE + hotspot''\<rparr>])"

definition month_summary :: "intl \<Rightarrow> int \<Rightarrow> ReportSummary option \<Rightarrow> (string \<times> string) list" where
  "month_summary i routerId summary =
     (let of_router = (\<lambda>v. if routerId \<noteq> 0 then v else em_dash); s = (\<lambda>f. case summary of None \<Rightarrow> 0 | Some r \<Rightarrow> f r) in
      [(''Sales count'', of_router (show_int (case summary of None \<Rightarrow> 0 | Some r \<Rightarrow> rs_count r))),
       (''Revenue'', of_router (formatIDR i (s rs_total_sell_price))), (''Profit'', of_router (formatIDR i (s rs_profit)))])"

definition dashboard_recent :: "intl \<Rightarrow> int \<Rightarrow> Transaction list \<Rightarrow> string + (string \<times> string \<times> string) list" where
  "dashboard_recent i routerId todaysSales =
     (if todaysSales = [] then Inl (if routerId \<noteq> 0 then ''No sales today.'' else ''No router selected.'')
      else Inr (map (\<lambda>t. (tn_username t, dots [opt_dash (tn_profile t), tn_sale_time t], formatIDR i (tn_sell_price t))) (take 8 todaysSales)))"

section \<open>The system page\<close>

record SystemResource =
  sr_uptime :: "string option"
  sr_version :: "string option"
  sr_board_name :: "string option"
  sr_platform :: "string option"
  sr_cpu :: "string option"
  sr_cpu_count :: "rat option"
  sr_cpu_load :: rat
  sr_free_memory :: rat
  sr_total_memory :: rat
  sr_free_hdd_space :: rat
  sr_total_hdd_space :: rat
  sr_architecture_name :: "string option"

record SystemRouterboard =
  sb_routerboard :: bool
  sb_model :: "string option"
  sb_board_name :: "string option"
  sb_serial_number :: "string option"
  sb_current_firmware :: "string option"
  sb_upgrade_firmware :: "string option"

record SystemClock =
  sk_time :: "string option"
  sk_date :: "string option"
  sk_time_zone_name :: "string option"
  sk_gmt_offset :: "string option"

record SystemLicense =
  sn_software_id :: "string option"
  sn_n_level :: "string option"
  sn_features :: "string option"

definition sys_row :: "string \<Rightarrow> string option \<Rightarrow> string \<times> string" where
  "sys_row label v = (label, or_else v em_dash)"

definition resource_cards :: "string option \<Rightarrow> SystemResource option \<Rightarrow> (string \<times> (string \<times> string) list) list" where
  "resource_cards identity res =
     (let get = (\<lambda>f. case res of None \<Rightarrow> None | Some r \<Rightarrow> f r);
          used = (\<lambda>free all. map_option (\<lambda>r. lib_formatBytes (all r - free r) @ '' / '' @ lib_formatBytes (all r)) res)
      in [(or_else identity ''Identity'',
           [sys_row ''Board'' (get sr_board_name), sys_row ''Platform'' (get sr_platform), sys_row ''Version'' (get sr_version),
            sys_row ''Architecture'' (get sr_architecture_name), sys_row ''Uptime'' (get sr_uptime)]),
          (''Resource'',
           [sys_row ''CPU load'' (map_option (\<lambda>r. show_rat (sr_cpu_load r) @ ''%'') res), sys_row ''CPU'' (get sr_cpu),
            sys_row ''Memory'' (used sr_free_memory sr_total_memory), sys_row ''Disk'' (used sr_free_hdd_space sr_total_hdd_space)])])"

definition board_card :: "SystemRouterboard option \<Rightarrow> string \<times> (string \<times> string) list" where
  "board_card b =
     (''Routerboard'',
      [sys_row ''Model'' (Option.bind b sb_model), sys_row ''Serial'' (Option.bind b sb_serial_number),
       sys_row ''Firmware'' (Option.bind b sb_current_firmware), sys_row ''Upgrade'' (Option.bind b sb_upgrade_firmware)])"

definition clock_card :: "SystemClock option \<Rightarrow> string \<times> (string \<times> string) list" where
  "clock_card c =
     (''Clock'',
      [sys_row ''Date'' (Option.bind c sk_date), sys_row ''Time'' (Option.bind c sk_time),
       sys_row ''Timezone'' (Option.bind c sk_time_zone_name), sys_row ''GMT offset'' (Option.bind c sk_gmt_offset)])"

definition license_card :: "SystemLicense option \<Rightarrow> string \<times> (string \<times> string) list" where
  "license_card l =
     (''License'',
      [sys_row ''Software ID'' (Option.bind l sn_software_id), sys_row ''Level'' (Option.bind l sn_n_level),
       sys_row ''Features'' (Option.bind l sn_features)])"

text \<open>
  A button that asks before it acts: title, description, the text that confirms. Restarting and switching off are
  offered to administrators only. What a confirmation does is \<open>confirm_delete\<close>.
\<close>

record ask =
  ak_title :: string
  ak_description :: string
  ak_confirm :: string

definition asks :: "string \<Rightarrow> string \<Rightarrow> ask" where
  "asks title description = \<lparr>ak_title = title, ak_description = description, ak_confirm = ''Remove''\<rparr>"

definition power_card :: "string option \<Rightarrow> (string \<times> ask) list" where
  "power_card viewer_role =
     (if viewer_role = Some ''admin''
      then [(''Reboot'', \<lparr>ak_title = ''Reboot router?'',
               ak_description = ''The router will reboot and be unreachable for a minute or two.'', ak_confirm = ''Reboot''\<rparr>),
            (''Shutdown'', \<lparr>ak_title = ''Shut down router?'',
               ak_description = ''The router will power off and must be turned back on manually.'', ak_confirm = ''Shut down''\<rparr>)]
      else [])"

definition script_ask :: "string \<Rightarrow> ask" where
  "script_ask name = asks ''Remove script?'' (''Script '' @ quote name @ '' will be removed from RouterOS.'')"

definition scheduler_ask :: "string \<Rightarrow> ask" where
  "scheduler_ask name = asks ''Remove scheduler?'' (''Scheduler '' @ quote name @ '' will be removed from RouterOS.'')"

text \<open>
  The question a button asks: the state of \<open>ConfirmDeleteButton\<close>, and whether the action starts. The library closes
  the question when its action button is pressed and on the escape key; both buttons are off while an action is pending.
\<close>

datatype asking = Press | Cancelled | Escaped | Confirmed | Acted

fun asking_step :: "bool \<Rightarrow> asking \<Rightarrow> bool \<Rightarrow> bool \<times> bool" where
  "asking_step pending Press opened = (True, False)"
| "asking_step pending Cancelled opened = (pending \<and> opened, False)"
| "asking_step pending Escaped opened = (False, False)"
| "asking_step pending Confirmed opened = (pending \<and> opened, opened \<and> \<not> pending)"
| "asking_step pending Acted opened = (False, False)"

definition system_tabs :: "(string \<times> string) list" where
  "system_tabs = [(''overview'', ''Overview''), (''scripts'', ''Scripts''), (''schedulers'', ''Schedulers'')]"

definition network_tabs :: "(string \<times> string) list" where
  "network_tabs = [(''pools'', ''IP Pools''), (''queues'', ''Queues''), (''dhcp'', ''DHCP Leases''), (''arp'', ''ARP'')]"

record Script =
  sx_id :: string
  sx_name :: string
  sx_owner :: "string option"
  sx_source :: "string option"
  sx_comment :: "string option"
  sx_policy :: "string option"
  sx_run_count :: rat
  sx_last_started :: "string option"

record Scheduler =
  sh_id :: string
  sh_name :: string
  sh_start_time :: "string option"
  sh_interval :: "string option"
  sh_next_run :: "string option"
  sh_on_event :: "string option"
  sh_disabled :: bool
  sh_comment :: "string option"
  sh_run_count :: rat

definition scripts_table :: "Script table_def" where
  "scripts_table = simple_table
     [key_column ''name'' ''Name'' (\<lambda>s. JStr (sx_name s)) (texts (\<lambda>s. [sx_name s])),
      key_column ''owner'' ''Owner'' (\<lambda>s. js_opt (sx_owner s)) (texts (\<lambda>s. [opt_dash (sx_owner s)])),
      key_column ''run_count'' ''Runs'' (\<lambda>s. JNum (sx_run_count s)) (texts (\<lambda>s. [show_rat (sx_run_count s)])),
      actions_column]
     (Some ''name'') (Some ''Search scripts...'') None (Some ''No scripts.'') None"

definition schedulers_table :: "Scheduler table_def" where
  "schedulers_table = simple_table
     [key_column ''name'' ''Name'' (\<lambda>s. JStr (sh_name s)) (texts (\<lambda>s. [sh_name s])),
      key_column ''interval'' ''Interval'' (\<lambda>s. js_opt (sh_interval s)) (texts (\<lambda>s. [opt_dash (sh_interval s)])),
      key_column ''next_run'' ''Next Run'' (\<lambda>s. js_opt (sh_next_run s)) (texts (\<lambda>s. [opt_dash (sh_next_run s)])),
      display_column ''status'' (Some ''Status'') (texts (\<lambda>s. [disabled_text (sh_disabled s)])),
      actions_column]
     (Some ''name'') (Some ''Search schedulers...'') None (Some ''No schedulers.'') None"

section \<open>Laws\<close>

lemma system_tables_ok: "table_ok scripts_table" "table_ok schedulers_table"
  by (simp_all add: table_ok_simps scripts_table_def schedulers_table_def simple_table_def)

lemma hints_declared: "set (map fst router_hints) \<subseteq> set FileRoutesByTo"
  by code_simp

lemma kpis_declared: "set (map kp_to (hotspot_kpis status s)) \<subseteq> set FileRoutesByTo"
  by (simp add: hotspot_kpis_def) code_simp

lemma power_admins_only: "power_card viewer_role \<noteq> [] \<longleftrightarrow> viewer_role = Some ''admin''"
  by (simp add: power_card_def)

text \<open>An action starts only from an open question, and not while another runs; each question is answered once.\<close>

lemma asked_before_acting: "snd (asking_step pending e opened) \<Longrightarrow> e = Confirmed \<and> opened \<and> \<not> pending"
  by (cases e) auto

text \<open>The figures of the overview, counted on the records, are those the pages count on their rows.\<close>

lemma filter_map_length: "length (filter P (map f xs)) = length (filter (\<lambda>x. P (f x)) xs)"
  by (simp add: filter_map comp_def)

theorem overview_agrees:
  "hotspot_stats_of z now users profiles active hosts =
     \<lparr>st_userCount = length (users_view z now users), st_disabledCount = disabledCount (users_view z now users),
      st_expiredCount = expiredCount (users_view z now users),
      st_profileCount = length (map toProfileViewModel (or_else profiles [])),
      st_monitorCount = length (filter pv_hasExpiredMonitor (map toProfileViewModel (or_else profiles []))),
      st_activeCount = length (map toActiveViewModel (or_else active [])),
      st_hostCount = length (map toHostViewModel (or_else hosts [])),
      st_authorizedHosts = length (filter hv_authorized (map toHostViewModel (or_else hosts [])))\<rparr>"
  by (auto simp: hotspot_stats_of_def users_view_def disabledCount_def expiredCount_def filter_map_length toUserViewModel_def
      toProfileViewModel_def toHostViewModel_def Let_def intro!: arg_cong [where f = length] filter_cong split: option.split if_splits)

lemma routers_counts:
  "routers_summary answer = [(''Total'', t), (''Connected'', c), (''Issues'', k)] \<Longrightarrow> c + k \<le> t"
proof -
  have "length (filter P xs) + length (filter Q xs) \<le> length xs" if "\<And>x. P x \<Longrightarrow> \<not> Q x" for P Q :: "RouterPublicView \<Rightarrow> bool" and xs
    using that by (induction xs) auto
  from this [of "\<lambda>r. rv_status r = ''connected''" "\<lambda>r. rv_status r = ''error'' \<or> rv_status r = ''disconnected''"]
  show "routers_summary answer = [(''Total'', t), (''Connected'', c), (''Issues'', k)] \<Longrightarrow> c + k \<le> t"
    by (auto simp: routers_summary_def Let_def)
qed

text \<open>The accounts: nobody is lost, and no inactive one stands before an active one.\<close>

lemma admins_sorted_active:
  "mset (admins_sorted rank answer) = mset (or_else answer [])"
  "sorted (map (\<lambda>u. if au_active u then 0 else (1 :: nat)) (admins_sorted rank answer))"
  by (simp_all add: admins_sorted_def)

lemma admins_sorted_names:
  "sorted (map (\<lambda>u. rank (au_username u)) (filter au_active (admins_sorted rank answer)))"
proof -
  let ?by_name = "sort_key (\<lambda>u. rank (au_username u)) (or_else answer [])"
  have "filter (\<lambda>u. (if au_active u then 0 else (1 :: nat)) = 0) (admins_sorted rank answer) =
      filter (\<lambda>u. (if au_active u then 0 else (1 :: nat)) = 0) ?by_name"
    unfolding admins_sorted_def by (rule sort_key_stable)
  moreover have "filter (\<lambda>u. (if au_active u then 0 else (1 :: nat)) = 0) xs = filter au_active xs" for xs :: "AdminUser list"
    by (rule filter_cong) auto
  ultimately have "filter au_active (admins_sorted rank answer) = filter au_active ?by_name" by (simp only:)
  then show ?thesis by (simp add: sorted_filter)
qed

text \<open>The pages that do not ask for the role offer their buttons to a viewer.\<close>

lemma unguarded_buttons:
  "as \<noteq> [] \<Longrightarrow> ''Disconnect All'' \<in> set (ph_buttons (active_head isError as))"
  "''Make IP Binding'' \<in> set (ph_buttons (hosts_head isError hs))"
  "''Add Profile'' \<in> set (ph_buttons (pppBilling_head isError ps))" "''Add Profile'' \<in> set (ph_buttons (hotspotBilling_head isError ds))"
  by (simp_all add: active_head_def hosts_head_def pppBilling_head_def hotspotBilling_head_def)

text \<open>Printed together, users of different profiles all get the price and validity of the first.\<close>

lemma print_takes_first:
  assumes "users_handlePrint profiles settings (u # us) t = Some job"
  shows "job_vouchers job = map user_voucher (u # us)" "pm_profile (job_meta job) = uv_profile u"
    "pm_sellingPrice (job_meta job) =
      parseRouterOSNumber (Option.bind (find (\<lambda>p. ProfileWithMeta.pm_name p = uv_profile u) (or_else profiles [])) pm_selling_price)"
  using assms by (auto simp: users_handlePrint_def result_print_def Let_def split: option.splits)

lemma syncs_report: "reports (profiles_sync r)" "reports (hotspotBilling_sync r)" "reports (pppBilling_sync r)"
  by (simp_all add: reports_def profiles_sync_def hotspotBilling_sync_def pppBilling_sync_def)

end
