(* ===== verification/Form_View.thy ===== *)
theory Form_View
  imports Forms
begin

text \<open>
  What a form shows: its fields in the order of the page, each with its label, its control, whether it can be used, the
  value it shows and what its change handler does with an input. The fields may depend on the values (a field appears
  only for one kind of account) and on what the queries of the page have answered so far (the options of a select), so a form is a state machine: an input is taken by a field that is on the page, enabled
  and has a control that can give this input; the handler then computes the next values.

  The contract of a form over its schema is the locale \<open>form_view\<close>: the values reachable by hand keep an invariant,
  every complaint the schema can then make stands at a field of the page, and while there are complaints one of them
  stands at a field that can be used. The theories of the
  forms interpret it. That a select gives only values of its options and a disabled control gives none is the documented
  behaviour of the widgets.
\<close>

section \<open>Controls and fields\<close>

datatype control =
    Input string string
  | NumberInput string string
  | TextArea string nat
  | Select string "(string \<times> string) list" string
  | Combobox string "(string \<times> string) list" bool
  | Switch
  | Checkbox
  | Buttons "string list"
  | DatePick string
  | Skeleton

text \<open>
  The kind of an input and its placeholder; the attributes of a number and its placeholder; the placeholder, the options
  (value and text) and the text that stands for no options of a select; whether the options of a combobox are loading; the
  placeholder of a date, which is picked as the number of its moment.
\<close>

fun accepts :: "control \<Rightarrow> string \<Rightarrow> bool" where
  "accepts (NumberInput _ _) x = (x = [] \<or> StringToNumber x \<noteq> None)"
| "accepts (Select _ options _) x = (x \<in> fst ` set options)"
| "accepts Switch x = (x \<in> {''true'', ''false''})"
| "accepts Checkbox x = (x \<in> {''true'', ''false''})"
| "accepts (Buttons options) x = (x \<in> set options)"
| "accepts (DatePick _) x = (case parseInt x of Some n \<Rightarrow> x = show_int n | None \<Rightarrow> False)"
| "accepts Skeleton x = False"
| "accepts _ x = True"

record 'v field =
  fl_name :: string
  fl_label :: string
  fl_control :: control
  fl_help :: "string option"
  fl_enabled :: bool
  fl_get :: "'v \<Rightarrow> string"
  fl_set :: "string \<Rightarrow> 'v \<Rightarrow> 'v"

definition field :: "string \<Rightarrow> string \<Rightarrow> control \<Rightarrow> ('v \<Rightarrow> string) \<Rightarrow> (string \<Rightarrow> 'v \<Rightarrow> 'v) \<Rightarrow> 'v field" where
  "field name label control get put =
     \<lparr>fl_name = name, fl_label = label, fl_control = control, fl_help = None, fl_enabled = True, fl_get = get, fl_set = put\<rparr>"

definition helped :: "string \<Rightarrow> 'v field \<Rightarrow> 'v field" where
  "helped text f = f\<lparr>fl_help := Some text\<rparr>"

definition locked :: "bool \<Rightarrow> 'v field \<Rightarrow> 'v field" where
  "locked b f = f\<lparr>fl_enabled := \<not> b\<rparr>"

record 'v form_page =
  fp_title :: string
  fp_description :: string
  fp_cancel :: string
  fp_submit :: string
  fp_fields :: "'v \<Rightarrow> 'v field list"

section \<open>Filling in\<close>

definition usable :: "'v field list \<Rightarrow> string \<Rightarrow> 'v field option" where
  "usable fs name = (case find (\<lambda>f. fl_name f = name) fs of None \<Rightarrow> None | Some f \<Rightarrow> if fl_enabled f then Some f else None)"

definition enter :: "('v \<Rightarrow> 'v field list) \<Rightarrow> string \<times> string \<Rightarrow> 'v \<Rightarrow> 'v option" where
  "enter shown = (\<lambda>(name, x) v.
     (case usable (shown v) name of
        None \<Rightarrow> None
      | Some f \<Rightarrow> if accepts (fl_control f) x then Some (fl_set f x v) else None))"

primrec fill :: "('v \<Rightarrow> 'v field list) \<Rightarrow> (string \<times> string) list \<Rightarrow> 'v \<Rightarrow> 'v option" where
  "fill shown [] v = Some v"
| "fill shown (e # es) v = Option.bind (enter shown e v) (fill shown es)"

text \<open>One change by hand, with whatever answers (\<open>e\<close>) the page has at that moment.\<close>

inductive edit :: "('e \<Rightarrow> 'v \<Rightarrow> 'v field list) \<Rightarrow> 'v \<Rightarrow> 'v \<Rightarrow> bool" for shown where
  edit: "f \<in> set (shown e v) \<Longrightarrow> fl_enabled f \<Longrightarrow> accepts (fl_control f) x \<Longrightarrow> edit shown v (fl_set f x v)"

inductive_cases edit_elim: "edit shown v w"

lemma usable_Some:
  "usable fs name = Some f \<Longrightarrow> f \<in> set fs \<and> fl_enabled f \<and> fl_name f = name"
  by (auto simp: usable_def find_Some_iff split: option.splits if_splits)

lemma enter_edits: "enter (shown e) x v = Some w \<Longrightarrow> edit shown v w"
  by (auto simp: enter_def edit.simps dest!: usable_Some split: prod.splits option.splits if_splits)

lemma fill_edits: "fill (shown e) xs v = Some w \<Longrightarrow> (edit shown)\<^sup>*\<^sup>* v w"
proof (induction xs arbitrary: v)
  case (Cons x xs)
  then obtain u where "enter (shown e) x v = Some u" "fill (shown e) xs u = Some w"
    by (auto simp: bind_eq_Some_conv)
  with Cons.IH show ?case by (meson converse_rtranclp_into_rtranclp enter_edits)
qed simp

lemma find_distinct: "distinct (map g fs) \<Longrightarrow> f \<in> set fs \<Longrightarrow> find (\<lambda>h. g h = g f) fs = Some f"
  by (induction fs) auto

lemmas field_simps_page = field_def helped_def locked_def

section \<open>The contract of a form\<close>

locale form_view =
  fixes shown :: "'e \<Rightarrow> 'v \<Rightarrow> 'v field list"
    and schema :: "'v \<Rightarrow> issue list"
    and inv :: "'v \<Rightarrow> bool"
  assumes distinct_fields: "distinct (map fl_name (shown e v))"
    and inv_set: "inv v \<Longrightarrow> f \<in> set (shown e v) \<Longrightarrow> fl_enabled f \<Longrightarrow> accepts (fl_control f) x \<Longrightarrow> inv (fl_set f x v)"
    and issue_shown: "inv v \<Longrightarrow> (p, m) \<in> set (schema v) \<Longrightarrow> p \<in> set (map fl_name (shown e v))"
    and issue_usable: "inv v \<Longrightarrow> schema v \<noteq> [] \<Longrightarrow> \<exists>(p, m) \<in> set (schema v). \<exists>f \<in> set (shown e v). fl_name f = p \<and> fl_enabled f"
begin

sublocale edits: inductive_invariant inv "edit shown" inv
  by unfold_locales (auto elim: edit_elim intro: inv_set)

lemma find_field: "f \<in> set (shown e v) \<Longrightarrow> find (\<lambda>g. fl_name g = fl_name f) (shown e v) = Some f"
  using distinct_fields by (rule find_distinct)

lemma usable_field: "f \<in> set (shown e v) \<Longrightarrow> fl_enabled f \<Longrightarrow> usable (shown e v) (fl_name f) = Some f"
  by (simp add: usable_def find_field)

text \<open>Whatever is done by hand, a refused form shows each complaint at a field, and one of them can be worked on.\<close>

lemma complaint_correctable:
  assumes "inv v" "(edit shown)\<^sup>*\<^sup>* v w" "handleSubmit schema onSubmit w = Inl es"
  shows "fst ` set es \<subseteq> set (map fl_name (shown e w)) \<and> (\<exists>(p, m) \<in> set es. \<exists>f. usable (shown e w) p = Some f)"
proof -
  have i: "inv w" using assms(2,1) by (rule edits.inv_run)
  have es: "schema w = es" "es \<noteq> []" using assms(3) by (simp_all add: handleSubmit_simps)
  have "fst ` set es \<subseteq> set (map fl_name (shown e w))" using issue_shown [OF i] es(1) by (auto simp del: set_map)
  moreover have "\<exists>(p, m) \<in> set es. \<exists>f. usable (shown e w) p = Some f"
    using issue_usable [OF i, of e] es usable_field by (fastforce split: prod.splits)
  ultimately show ?thesis by blast
qed

text \<open>What is sent after editing by hand comes from values that keep the invariant.\<close>

lemma sent_keeps:
  assumes "inv v" "(edit shown)\<^sup>*\<^sup>* v w" "handleSubmit schema onSubmit w = Inr a"
  shows "inv w \<and> schema w = [] \<and> a = onSubmit w"
  using edits.inv_run [OF assms(2,1)] assms(3) by (simp add: handleSubmit_simps)

end

lemma form_viewI:
  assumes "\<And>e v. distinct (map fl_name (shown e v))"
    and "\<And>e v. I v \<Longrightarrow> list_all (\<lambda>f. fl_enabled f \<longrightarrow> (\<forall>x. accepts (fl_control f) x \<longrightarrow> I (fl_set f x v))) (shown e v)"
    and "\<And>e v. I v \<Longrightarrow> list_all (\<lambda>i. list_ex (\<lambda>f. fl_name f = fst i \<and> fl_enabled f) (shown e v)) (schema v)"
  shows "form_view shown schema I"
proof
  show "distinct (map fl_name (shown e v))" for e v by (rule assms(1))
  show "I (fl_set f x v)" if "I v" "f \<in> set (shown e v)" "fl_enabled f" "accepts (fl_control f) x" for e v f x
    using assms(2) [OF that(1), of e] that(2-) by (auto simp: list_all_iff)
  have shown_at: "\<exists>f \<in> set (shown e v). fl_name f = p \<and> fl_enabled f" if "I v" "(p, m) \<in> set (schema v)" for e v p m
    using assms(3) [OF that(1), of e] that(2) by (fastforce simp: list_all_iff list_ex_iff)
  then show "p \<in> set (map fl_name (shown e v))" if "I v" "(p, m) \<in> set (schema v)" for e v p m
    using that by (metis image_eqI image_set)
  show "\<exists>(p, m) \<in> set (schema v). \<exists>f \<in> set (shown e v). fl_name f = p \<and> fl_enabled f" if "I v" "schema v \<noteq> []" for e v
    using shown_at [OF that(1)] that(2) by (cases "schema v") auto
qed

lemma list_all_issues [simp]:
  "list_all P (z_min1 f m s) \<longleftrightarrow> (s = [] \<longrightarrow> P (f, m))" "list_all P (z_when b f m) \<longleftrightarrow> (b \<longrightarrow> P (f, m))"
  by (simp_all add: z_min1_def z_when_def)

text \<open>The values a field shows are those given to it: a handler that stores its input.\<close>

definition echoes :: "'v field \<Rightarrow> bool" where
  "echoes f = (\<forall>x v. accepts (fl_control f) x \<longrightarrow> fl_get f (fl_set f x v) = x)"

lemma echo_switch: "accepts Switch x \<Longrightarrow> bool_text (x = ''true'') = x" "accepts Checkbox x \<Longrightarrow> bool_text (x = ''true'') = x"
  by (auto simp: bool_text_def)

section \<open>Texts and options of several forms\<close>

definition mid_dot :: string where
  "mid_dot = '' '' @ [char_of (194 :: nat), char_of (183 :: nat)] @ '' ''"

definition en_dash :: string where
  "en_dash = [char_of (226 :: nat), char_of (128 :: nat), char_of (147 :: nat)]"

definition ellipsis :: string where
  "ellipsis = [char_of (226 :: nat), char_of (128 :: nat), char_of (166 :: nat)]"

definition bullets :: string where
  "bullets = concat (replicate 4 [char_of (226 :: nat), char_of (128 :: nat), char_of (162 :: nat)])"

definition addressPoolOptions :: "string list option \<Rightarrow> (string \<times> string) list" where
  "addressPoolOptions pools = ([], ''(Tanpa Pool / None)'') # map (\<lambda>p. (p, p)) (or_else pools [])"

end
