(* ===== verification/Hotspot_Views.thy ===== *)
theory Hotspot_Views
  imports Hotspot_Tables Form_View Hotspot_Forms Dialogs Voucher_Pages Form_Laws
begin

text \<open>
  The fields of the hotspot drawers and dialogs (\<^verbatim>\<open>features/hotspot/*/dialogs\<close>), each an instance of \<open>form_view\<close> over its schema. The
  answers a form depends on (profiles, servers, address pools) are the first argument of its fields.
\<close>

section \<open>Users\<close>

definition with_validity :: "string \<Rightarrow> string option \<Rightarrow> string" where
  "with_validity name period = name @ (if or_else period [] = [] then [] else mid_dot @ or_else period [])"

definition server_control :: "bool \<Rightarrow> (string \<times> bool) list option \<Rightarrow> control" where
  "server_control isLoading servers =
     (if isLoading then Skeleton else Select [] (map (\<lambda>s. (s, s)) (activeServers servers)) [])"

definition enabled_options :: "(string \<times> string) list" where
  "enabled_options = [(''false'', ''Enabled''), (''true'', ''Disabled'')]"

definition user_fields ::
  "ProfileWithMeta list option \<times> bool \<times> (string \<times> bool) list option \<Rightarrow> UserFormValues \<Rightarrow> UserFormValues field list"
where
  "user_fields = (\<lambda>(profiles, serversLoading, servers) v.
     [field ''name'' ''Username'' (Input ''text'' ''wifi-001'') uf_name (\<lambda>x v. v\<lparr>uf_name := x\<rparr>),
      field ''password'' ''Password'' (Input ''text'' bullets) uf_password (\<lambda>x v. v\<lparr>uf_password := x\<rparr>),
      field ''profile'' ''Profile''
        (Select ''Select a profile'' (map (\<lambda>p. (ProfileWithMeta.pm_name p, with_validity (ProfileWithMeta.pm_name p) (ProfileWithMeta.pm_validity p))) (or_else profiles []))
          ''No profiles available'')
        uf_profile (\<lambda>x v. v\<lparr>uf_profile := x\<rparr>),
      field ''server'' ''Server'' (server_control serversLoading servers) uf_server (\<lambda>x v. v\<lparr>uf_server := x\<rparr>),
      field ''mac_address'' ''MAC Address'' (Input ''text'' ''AA:BB:CC:DD:EE:FF'') uf_mac_address
        (\<lambda>x v. v\<lparr>uf_mac_address := toUpperCase x\<rparr>),
      field ''disabled'' ''Status'' (Select [] enabled_options []) uf_disabled (\<lambda>x v. v\<lparr>uf_disabled := x\<rparr>),
      field ''comment'' ''Comment'' (TextArea ''Catatan opsional...'' 2) uf_comment (\<lambda>x v. v\<lparr>uf_comment := x\<rparr>)])"

definition user_form_page ::
  "form_mode \<Rightarrow> ProfileWithMeta list option \<times> bool \<times> (string \<times> bool) list option \<Rightarrow> UserFormValues form_page"
where
  "user_form_page md answers =
     \<lparr>fp_title = (if md = AddMode then ''Add Hotspot User'' else ''Edit Hotspot User''),
      fp_description = ''Single hotspot user'' @ mid_dot @ ''credentials'' @ mid_dot @ ''profile'', fp_cancel = ''Cancel'',
      fp_submit = (if md = AddMode then ''Add User'' else ''Save Changes''), fp_fields = user_fields answers\<rparr>"

section \<open>Profiles on the router\<close>

definition SHARED_OPTIONS :: "string list" where
  "SHARED_OPTIONS = [''1'', ''2'', ''3'', ''5'', ''10'', ''unlimited'']"

definition PARENT_QUEUE_OPTIONS :: "string list" where
  "PARENT_QUEUE_OPTIONS = [''none'', ''global'', ''hs-parent'']"

definition same :: "string list \<Rightarrow> (string \<times> string) list" where
  "same = map (\<lambda>s. (s, s))"

definition lock_options :: "(string \<times> string) list" where
  "lock_options = [(''enable'', ''Enable''), (''disable'', ''Disable'')]"

definition profile_head_fields :: "form_mode \<Rightarrow> HotspotProfileFormValues field list" where
  "profile_head_fields md =
     [locked (md = EditMode) (field ''name'' ''Name'' (Input ''text'' ''1jam-1k'') pf_name (\<lambda>x v. v\<lparr>pf_name := x\<rparr>)),
      field ''role'' ''Role Profil'' (Select [] [(''voucher'', ''Voucher (Expiry)''), (''permanent'', ''Permanent (Bulanan)'')] [])
        pf_role (\<lambda>x v. v\<lparr>pf_role := x\<rparr>),
      field ''rate_limit'' ''Rate Limit'' (Input ''text'' ''1M/1M'') pf_rate_limit (\<lambda>x v. v\<lparr>pf_rate_limit := x\<rparr>),
      field ''validity'' ''Validity'' (Input ''text'' ''1h, 1d, 7d, 30d'') pf_validity (\<lambda>x v. v\<lparr>pf_validity := x\<rparr>),
      field ''price'' ''Price'' (NumberInput ''min=0'' []) pf_price (\<lambda>x v. v\<lparr>pf_price := x\<rparr>),
      field ''selling_price'' ''Selling Price'' (NumberInput ''min=0'' []) pf_selling_price (\<lambda>x v. v\<lparr>pf_selling_price := x\<rparr>)]"

definition profile_tail_fields :: "bool \<times> string list option \<Rightarrow> HotspotProfileFormValues field list" where
  "profile_tail_fields = (\<lambda>(poolsLoading, pools).
     [field ''shared_users'' ''Shared Users'' (Select [] (same SHARED_OPTIONS) []) pf_shared_users (\<lambda>x v. v\<lparr>pf_shared_users := x\<rparr>),
      field ''expire_mode'' ''Exp Mode'' (Select [] (map (\<lambda>(label, value). (value, label)) expModeOptions) []) pf_expire_mode (\<lambda>x v. v\<lparr>pf_expire_mode := x\<rparr>),
      field ''address_pool'' ''Address Pool'' (Combobox ''Pilih/ketik pool'' (addressPoolOptions pools) poolsLoading)
        pf_address_pool (\<lambda>x v. v\<lparr>pf_address_pool := x\<rparr>),
      field ''parent_queue'' ''Parent Queue'' (Select [] (same PARENT_QUEUE_OPTIONS) []) pf_parent_queue (\<lambda>x v. v\<lparr>pf_parent_queue := x\<rparr>),
      field ''lock_user'' ''Lock User'' (Select [] lock_options []) pf_lock_user (\<lambda>x v. v\<lparr>pf_lock_user := x\<rparr>),
      field ''lock_server'' ''Lock Server'' (Select [] lock_options []) pf_lock_server (\<lambda>x v. v\<lparr>pf_lock_server := x\<rparr>)])"

definition profile_fields ::
  "form_mode \<Rightarrow> bool \<times> string list option \<Rightarrow> HotspotProfileFormValues \<Rightarrow> HotspotProfileFormValues field list"
where
  "profile_fields md answers v = profile_head_fields md @ profile_tail_fields answers"

definition profile_form_page :: "form_mode \<Rightarrow> bool \<times> string list option \<Rightarrow> HotspotProfileFormValues form_page" where
  "profile_form_page md answers =
     \<lparr>fp_title = (if md = AddMode then ''Add Profile'' else ''Edit Profile''),
      fp_description = ''Hotspot user profile'' @ mid_dot @ ''pricing'' @ mid_dot @ ''rate-limit'', fp_cancel = ''Cancel'',
      fp_submit = (if md = AddMode then ''Add Profile'' else ''Save Changes''), fp_fields = profile_fields md answers\<rparr>"

section \<open>Billing profiles\<close>

definition expiry_options :: "(string \<times> string) list" where
  "expiry_options =
     [(''0'', ''No expiry''), (''rem'', ''Remove on expiry''), (''ntf'', ''Notify on expiry''), (''remc'', ''Remove + record''),
      (''ntfc'', ''Notify + record'')]"

definition active_options :: "(string \<times> string) list" where
  "active_options = [(''true'', ''Active''), (''false'', ''Inactive'')]"

definition billing_head_fields :: "form_mode \<Rightarrow> HsDbProfileFormValues field list" where
  "billing_head_fields md =
     [locked (md = EditMode) (field ''name'' ''Name'' (Input ''text'' ''1day'') bf_name (\<lambda>x v. v\<lparr>bf_name := x\<rparr>)),
      locked (md = EditMode) (field ''role'' ''Role'' (Select [] [(''voucher'', ''Voucher''), (''permanent'', ''Permanent'')] [])
        bf_role (\<lambda>x v. v\<lparr>bf_role := x\<rparr>)),
      field ''rate_limit'' ''Rate Limit (rx/tx)'' (Input ''text'' ''5M/5M'') bf_rate_limit (\<lambda>x v. v\<lparr>bf_rate_limit := x\<rparr>)]"

text \<open>The fields between depend on the role.\<close>

definition billing_role_fields :: "string \<Rightarrow> HsDbProfileFormValues field list" where
  "billing_role_fields role_value =
     (if role_value = ''permanent'' then
        [field ''price_monthly'' ''Price / bulan (IDR)'' (NumberInput ''min=0'' ''100000'') bf_price_monthly (\<lambda>x v. v\<lparr>bf_price_monthly := x\<rparr>),
         helped ''Show on the public registration page.''
           (field ''is_public'' ''Public package'' Switch (\<lambda>v. bool_text (bf_is_public v)) (\<lambda>x v. v\<lparr>bf_is_public := (x = ''true'')\<rparr>))]
      else
        [field ''expiry_mode'' ''Expiry Mode'' (Select [] expiry_options []) bf_expiry_mode (\<lambda>x v. v\<lparr>bf_expiry_mode := x\<rparr>),
         field ''validity'' ''Validity'' (Input ''text'' ''1d'') bf_validity (\<lambda>x v. v\<lparr>bf_validity := x\<rparr>),
         field ''price'' ''Cost (IDR)'' (NumberInput ''min=0'' ''3000'') bf_price (\<lambda>x v. v\<lparr>bf_price := x\<rparr>),
         field ''sell_price'' ''Sell Price (IDR)'' (NumberInput ''min=0'' ''5000'') bf_sell_price (\<lambda>x v. v\<lparr>bf_sell_price := x\<rparr>),
         field ''lock_mac'' ''Lock to MAC'' (Select [] [(''false'', ''No''), (''true'', ''Yes'')] []) bf_lock_mac (\<lambda>x v. v\<lparr>bf_lock_mac := x\<rparr>)])"

definition billing_tail_fields :: "bool \<times> string list option \<Rightarrow> HsDbProfileFormValues field list" where
  "billing_tail_fields = (\<lambda>(poolsLoading, pools).
     [field ''address_pool'' ''Address Pool'' (Combobox ''hs-pool'' (addressPoolOptions pools) poolsLoading) bf_address_pool
        (\<lambda>x v. v\<lparr>bf_address_pool := x\<rparr>),
      field ''shared_users'' ''Shared Users'' (NumberInput ''min=1'' []) bf_shared_users (\<lambda>x v. v\<lparr>bf_shared_users := x\<rparr>),
      field ''status_autorefresh'' ''Status Autorefresh'' (Input ''text'' ''1m'') bf_status_autorefresh (\<lambda>x v. v\<lparr>bf_status_autorefresh := x\<rparr>),
      field ''parent_queue'' ''Parent Queue'' (Input ''text'' ''queue name'') bf_parent_queue (\<lambda>x v. v\<lparr>bf_parent_queue := x\<rparr>),
      field ''description'' ''Description'' (TextArea ''1 day voucher'' 2) bf_description (\<lambda>x v. v\<lparr>bf_description := x\<rparr>),
      field ''active'' ''Status'' (Select [] active_options []) bf_active (\<lambda>x v. v\<lparr>bf_active := x\<rparr>)])"

definition hsBilling_fields ::
  "form_mode \<Rightarrow> bool \<times> string list option \<Rightarrow> HsDbProfileFormValues \<Rightarrow> HsDbProfileFormValues field list"
where
  "hsBilling_fields md answers v = billing_head_fields md @ billing_role_fields (bf_role v) @ billing_tail_fields answers"

definition hsBilling_form_page :: "form_mode \<Rightarrow> bool \<times> string list option \<Rightarrow> HsDbProfileFormValues form_page" where
  "hsBilling_form_page md answers =
     \<lparr>fp_title = (if md = AddMode then ''Add Hotspot Profile'' else ''Edit Hotspot Profile''),
      fp_description = ''DB-backed hotspot plan'' @ mid_dot @ ''synced to RouterOS best-effort'', fp_cancel = ''Cancel'',
      fp_submit = (if md = AddMode then ''Create Profile'' else ''Save Changes''), fp_fields = hsBilling_fields md answers\<rparr>"

section \<open>Bindings\<close>

text \<open>For several hosts the dialog lists them, at most fifty, and asks for the type and the comment only.\<close>

definition binding_many_hosts :: "HotspotHostViewModel list \<Rightarrow> string list" where
  "binding_many_hosts selection =
     map (\<lambda>h. hv_macAddress h @ mid_dot @ hv_address h) (take 50 selection)
     @ (if 50 < length selection
        then [''+'' @ show_nat (length selection - 50) @ '' more'' @ [char_of (226 :: nat), char_of (128 :: nat), char_of (166 :: nat)]] else [])"

definition binding_host_fields :: "BindingFormValues field list" where
  "binding_host_fields =
     [field ''mac'' ''MAC Address'' (Input ''text'' ''AA:BB:CC:DD:EE:FF'') bi_mac (\<lambda>x v. v\<lparr>bi_mac := toUpperCase x\<rparr>),
      field ''address'' ''Address'' (Input ''text'' ''192.168.10.10'') bi_address (\<lambda>x v. v\<lparr>bi_address := x\<rparr>),
      field ''toAddress'' ''To Address'' (Input ''text'' ''Optional'') bi_toAddress (\<lambda>x v. v\<lparr>bi_toAddress := x\<rparr>),
      field ''server'' ''Server'' (Input ''text'' ''Optional'') bi_server (\<lambda>x v. v\<lparr>bi_server := x\<rparr>)]"

definition binding_fields :: "bool \<Rightarrow> BindingFormValues \<Rightarrow> BindingFormValues field list" where
  "binding_fields isBulk v =
     (if isBulk then [] else binding_host_fields)
     @ [field ''type'' ''Type'' (Select [] BINDING_TYPES []) bi_type (\<lambda>x v. v\<lparr>bi_type := x\<rparr>),
        field ''comment'' ''Comment'' (TextArea ''Catatan opsional...'' 2) bi_comment (\<lambda>x v. v\<lparr>bi_comment := x\<rparr>)]"

definition binding_form_page :: "bool \<Rightarrow> string list \<Rightarrow> BindingFormValues form_page" where
  "binding_form_page isBulk idents =
     \<lparr>fp_title = (if isBulk then ''Make IP Binding for '' @ show_nat (length idents) @ '' hosts'' else ''Make IP Binding''),
      fp_description = (if isBulk then ''A binding will be created for each selected host with the chosen type.''
        else ''Bind this host so it skips hotspot login.''),
      fp_cancel = ''Cancel'', fp_submit = ''Create Binding'', fp_fields = binding_fields isBulk\<rparr>"

section \<open>The contract\<close>

lemmas hotspot_field_defs = user_fields_def profile_fields_def profile_head_fields_def profile_tail_fields_def hsBilling_fields_def billing_head_fields_def billing_role_fields_def
  billing_tail_fields_def enabled_options_def expModeOptions_def expModeLabels_def expiry_options_def active_options_def lock_options_def

lemmas hotspot_schema_defs = user_schema_def user_baseSchema_def user_addSchema_def profile_schema_def profile_addSchema_def
  billing_schema_def hsDbProfileSchema_def

interpretation user_view: form_view user_fields "user_schema (md, t)" "\<lambda>v. uf_disabled v \<in> {''true'', ''false''}" for md t
  by (rule form_viewI) (auto simp: hotspot_field_defs hotspot_schema_defs field_simps_page split: prod.splits)

text \<open>A new profile and an edited one start with the modes and roles of the selects, or with what the router has.\<close>

definition profile_inv :: "HotspotProfileFormValues \<Rightarrow> bool" where
  "profile_inv v = (pf_role v \<in> {''permanent'', ''voucher''} \<and> pf_expire_mode v \<in> fst ` set expModeLabels
     \<and> pf_shared_users v \<in> set SHARED_OPTIONS)"

interpretation profile_view: form_view "profile_fields md" "profile_schema (md, t)" profile_inv for md t
  by (rule form_viewI)
    (auto simp: hotspot_field_defs hotspot_schema_defs field_simps_page profile_inv_def same_def split: prod.splits)

definition hsBilling_inv :: "HsDbProfileFormValues \<Rightarrow> bool" where
  "hsBilling_inv v = (bf_role v \<in> {''permanent'', ''voucher''} \<and> bf_expiry_mode v \<in> set EXPIRY_MODES \<and> bf_active v \<in> {''true'', ''false''}
     \<and> bf_lock_mac v \<in> {''true'', ''false''})"

interpretation hsBilling_view: form_view "hsBilling_fields md" "billing_schema (md, t)" hsBilling_inv for md t
  by (rule form_viewI)
    (auto simp: hotspot_field_defs hotspot_schema_defs field_simps_page hsBilling_inv_def EXPIRY_MODES_def split: prod.splits)

text \<open>The schema of one host, and of several.\<close>

interpretation binding_view: form_view "\<lambda>_ :: unit. binding_fields isBulk" "if isBulk then bindingSchema else singleSchema"
  "\<lambda>v. bi_type v \<in> {''bypassed'', ''regular'', ''blocked''}" for isBulk
  by (rule form_viewI)
    (auto simp: binding_fields_def binding_host_fields_def bindingSchema_def singleSchema_def BINDING_TYPES_def field_simps_page)

section \<open>What can be sent by hand\<close>

text \<open>
  Whatever is chosen and typed, a new billing profile is sent with the type its API declares: the selects keep the mode,
  the role and the two switches among the values the type allows.
\<close>

lemma hsBilling_start: "hsBilling_inv (billing_defaultValues None)"
  by (simp add: hsBilling_inv_def billing_defaultValues_def EXPIRY_MODES_def bool_text_def)

theorem hsBilling_sent_typed:
  assumes "(edit (hsBilling_fields AddMode))\<^sup>*\<^sup>* (billing_defaultValues None) v"
    and "handleSubmit (billing_schema (AddMode, None)) (billing_onSubmit rid (AddMode, None)) v = Inr (Some s)"
  shows "conforms HotspotDbProfileCreateInput (request_body s)"
proof -
  have "hsBilling_inv v" using assms(1) hsBilling_start by (rule hsBilling_view.edits.inv_run)
  then show ?thesis using billing_add_type [OF assms(2)] by (simp add: hsBilling_inv_def)
qed

theorem hsBilling_sent_typed_witness:
  "\<exists>v s. (edit (hsBilling_fields AddMode))\<^sup>*\<^sup>* (billing_defaultValues None) v
     \<and> handleSubmit (billing_schema (AddMode, None)) (billing_onSubmit 1 (AddMode, None)) v = Inr (Some s)
     \<and> conforms HotspotDbProfileCreateInput (request_body s)"
proof -
  let ?v = "(billing_defaultValues None)\<lparr>bf_name := ''1day''\<rparr>"
  have v: "(edit (hsBilling_fields AddMode))\<^sup>*\<^sup>* (billing_defaultValues None) ?v"
    by (rule fill_edits [where e = "(False, None)" and xs = "[(''name'', ''1day'')]"])
      (simp add: enter_def usable_def hsBilling_fields_def billing_head_fields_def field_simps_page)
  obtain s where s: "handleSubmit (billing_schema (AddMode, None)) (billing_onSubmit 1 (AddMode, None)) ?v = Inr (Some s)"
    by (auto simp: handleSubmit_simps billing_schema_def hsDbProfileSchema_def billing_defaultValues_def bool_text_def billing_onSubmit_def)
  from v s hsBilling_sent_typed [OF v s] show ?thesis by blast
qed

text \<open>
  The drawer of the router's profiles offers an expiry mode its API does not declare, and a lock to the server that no
  request carries.
\<close>

lemma profile_none_untyped:
  "\<exists>v s. (edit (profile_fields AddMode))\<^sup>*\<^sup>* (profile_defaultValues None) v
     \<and> handleSubmit (profile_schema (AddMode, None)) (profile_onSubmit 1 (AddMode, None)) v = Inr (Some s)
     \<and> \<not> conforms HotspotDbProfileCreateInput (request_body s)"
proof -
  let ?v = "(profile_defaultValues None)\<lparr>pf_name := ''x'', pf_expire_mode := ''none''\<rparr>"
  have "(edit (profile_fields AddMode))\<^sup>*\<^sup>* (profile_defaultValues None) ?v"
    by (rule fill_edits [where e = "(False, None)" and xs = "[(''name'', ''x''), (''expire_mode'', ''none'')]"])
      (simp add: enter_def usable_def profile_fields_def profile_head_fields_def profile_tail_fields_def field_simps_page expModeOptions_def expModeLabels_def)
  moreover obtain s where "handleSubmit (profile_schema (AddMode, None)) (profile_onSubmit 1 (AddMode, None)) ?v = Inr (Some s)"
      "request_body s = profile_payload (JStr (pf_role ?v)) (profile_params ?v)"
    by (auto simp: handleSubmit_simps profile_schema_def profile_addSchema_def profile_defaultValues_def profile_onSubmit_def
        request_body_def useAddHotspotProfile_def addHotspotProfile_def profile_params_def js_coalesce_def)
  moreover have "\<not> conforms HotspotDbProfileCreateInput (profile_payload (JStr (pf_role ?v)) (profile_params ?v))"
    by (simp add: HotspotDbProfileCreateInput_def hotspot_db_fields_def profile_payload_def profile_params_def profile_defaultValues_def)
  ultimately show ?thesis by metis
qed

lemma lock_server_ignored:
  "request_body (the (profile_onSubmit rid (AddMode, t) (v\<lparr>pf_lock_server := x\<rparr>))) = request_body (the (profile_onSubmit rid (AddMode, t) v))"
  by (simp add: profile_onSubmit_def request_body_def useAddHotspotProfile_def addHotspotProfile_def profile_params_def profile_payload_def
      js_coalesce_def Let_def)

end
