(* ===== verification/Voucher_Views.thy ===== *)
theory Voucher_Views
  imports Hotspot_Views
begin

text \<open>
  The fields of the form that generates a batch of vouchers
  (\<^verbatim>\<open>features/voucher/generate/components/voucher-generate-form.tsx\<close>) and of the drawer of a quick-print preset
  (\<^verbatim>\<open>features/voucher/print/dialogs/preset-mutate-drawer.tsx\<close>) with its default values and the choice of a profile.
\<close>

text \<open>A select over values that are not texts: the text of a value, and the value of a text.\<close>

definition text_of :: "(string \<times> 'a) list \<Rightarrow> 'a \<Rightarrow> string" where
  "text_of table a = (case find (\<lambda>(_, b). b = a) table of Some (t, _) \<Rightarrow> t | None \<Rightarrow> [])"

definition pick :: "(string \<times> 'a) list \<Rightarrow> 'a \<Rightarrow> string \<Rightarrow> 'a" where
  "pick table old x = or_else (map_of table x) old"

section \<open>Generating a batch\<close>

definition charset_values :: "(string \<times> CharSet) list" where
  "charset_values = map (\<lambda>(label, c). (charset_name c, c)) charSetOptions"

definition usertype_values :: "(string \<times> UserType) list" where
  "usertype_values = map (\<lambda>(label, t). (user_type_name t, t)) userTypeOptions"

definition profile_label :: "intl \<Rightarrow> HotspotDbProfile \<Rightarrow> string" where
  "profile_label i p =
     hd_name p @ (if or_else (hd_sell_price p) 0 = 0 then [] else formatIDR i (or_else (hd_sell_price p) 0))
     @ (if or_else (hd_validity p) [] = [] then [] else mid_dot @ or_else (hd_validity p) [])"

definition generate_profile_control :: "intl \<Rightarrow> bool \<Rightarrow> HotspotDbProfile list option \<Rightarrow> control" where
  "generate_profile_control i isLoading profiles =
     (if isLoading then Skeleton
      else Select ''Pilih profile'' (map (\<lambda>p. (hd_name p, profile_label i p)) (or_else profiles [])) ''Belum ada profile voucher di router ini'')"

definition in_form :: "(VoucherGenerateForm \<Rightarrow> VoucherGenerateForm) \<Rightarrow> generate_page \<Rightarrow> generate_page" where
  "in_form f p = p\<lparr>gp_form := f (gp_form p)\<rparr>"

definition generate_head_fields ::
  "intl \<Rightarrow> (bool \<times> HotspotDbProfile list option) \<times> bool \<times> (string \<times> bool) list option \<Rightarrow> generate_page field list"
where
  "generate_head_fields i = (\<lambda>((profilesLoading, profiles), serversLoading, servers).
     [field ''qty'' ''Quantity'' (NumberInput ''min=1 max=500'' []) (\<lambda>p. show_rat (gp_qty p)) (\<lambda>x p. p\<lparr>gp_qty := qty_typed x\<rparr>),
      field ''server'' ''Server'' (server_control serversLoading servers) (\<lambda>p. vf_server (gp_form p)) (\<lambda>x. in_form (vf_server_update (\<lambda>_. x))),
      field ''profile'' ''Profile'' (generate_profile_control i profilesLoading profiles) (\<lambda>p. vf_profile (gp_form p))
        (\<lambda>x. in_form (vf_profile_update (\<lambda>_. x))),
      field ''userType'' ''User Mode'' (Select [] (map (\<lambda>(label, t). (user_type_name t, label)) userTypeOptions) [])
        (\<lambda>p. user_type_name (userType (gp_form p))) (\<lambda>x. in_form (userType_update (\<lambda>t. pick usertype_values t x))),
      field ''nameLength'' ''Name Length'' (Select [] (map (\<lambda>(label, n). (show_int n, label)) nameLengthOptions) [])
        (\<lambda>p. show_int (nameLength (gp_form p))) (\<lambda>x. in_form (nameLength_update (\<lambda>_. \<lfloor>to_number x\<rfloor>)))])"

definition generate_tail_fields :: "generate_page field list" where
  "generate_tail_fields =
     [field ''charSet'' ''Char Set'' (Select [] (map (\<lambda>(label, c). (charset_name c, label)) charSetOptions) [])
        (\<lambda>p. charset_name (vf_charSet (gp_form p))) (\<lambda>x. in_form (vf_charSet_update (\<lambda>c. pick charset_values c x))),
      field ''prefix'' ''Prefix'' (Input ''text'' ''Optional, e.g. wifi-'') (\<lambda>p. vf_prefix (gp_form p)) (\<lambda>x. in_form (vf_prefix_update (\<lambda>_. x))),
      field ''timeLimit'' ''Time Limit'' (Input ''text'' ''e.g. 1h, 30m, or 0 for unlimited'') (\<lambda>p. vf_timeLimit (gp_form p))
        (\<lambda>x. in_form (vf_timeLimit_update (\<lambda>_. x))),
      field ''dataLimit'' ''Data Limit'' (NumberInput ''min=0'' ''0 = unlimited'') (\<lambda>p. show_rat (gp_dataLimit p))
        (\<lambda>x p. p\<lparr>gp_dataLimit := dataLimit_typed x\<rparr>),
      field ''dataLimitUnit'' [] (Select [] (map (\<lambda>(label, u). (label, label)) dataLimitUnitOptions) [])
        (\<lambda>p. text_of dataLimitUnitOptions (vf_dataLimitUnit (gp_form p))) (\<lambda>x. in_form (vf_dataLimitUnit_update (\<lambda>u. pick dataLimitUnitOptions u x))),
      field ''comment'' ''Comment'' (Input ''text'' ''Optional batch comment'') (\<lambda>p. vf_comment (gp_form p)) (\<lambda>x. in_form (vf_comment_update (\<lambda>_. x)))]"

definition generate_fields ::
  "intl \<Rightarrow> (bool \<times> HotspotDbProfile list option) \<times> bool \<times> (string \<times> bool) list option \<Rightarrow> generate_page \<Rightarrow> generate_page field list"
where
  "generate_fields i answers p = generate_head_fields i answers @ generate_tail_fields"

definition generate_buttons :: "bool \<Rightarrow> int option \<Rightarrow> (string \<times> bool) list" where
  "generate_buttons isPending routerId =
     [(if isPending then ''Generating'' @ [char_of (226 :: nat), char_of (128 :: nat), char_of (166 :: nat)] else ''Generate'',
       generate_disabled isPending routerId),
      (''Reset'', isPending)]"

text \<open>What the schema complains of; the texts are the library's.\<close>

definition generate_issues :: "generate_page \<Rightarrow> issue list" where
  "generate_issues p =
     z_when (of_int \<lfloor>gp_qty p\<rfloor> \<noteq> gp_qty p) ''qty'' ''expected int''
     @ z_when (gp_qty p < 1) ''qty'' ''too small'' @ z_when (500 < gp_qty p) ''qty'' ''too big''
     @ z_when (nameLength (gp_form p) < 4) ''nameLength'' ''too small'' @ z_when (32 < nameLength (gp_form p)) ''nameLength'' ''too big''
     @ z_when (of_int \<lfloor>gp_dataLimit p\<rfloor> \<noteq> gp_dataLimit p) ''dataLimit'' ''expected int''
     @ z_when (gp_dataLimit p < 0) ''dataLimit'' ''too small''"

lemma generate_issues_schema: "generate_issues p = [] \<longleftrightarrow> (\<exists>f. generate_schema p = Some f)"
  by (auto simp: generate_issues_def generate_schema_def)

text \<open>By hand the numbers stay in their ranges; only a fraction can be refused.\<close>

definition generate_inv :: "generate_page \<Rightarrow> bool" where
  "generate_inv p =
     (1 \<le> gp_qty p \<and> gp_qty p \<le> 500 \<and> 0 \<le> gp_dataLimit p \<and> 4 \<le> nameLength (gp_form p) \<and> nameLength (gp_form p) \<le> 12)"

lemma nameLength_option:
  "x \<in> fst ` set (map (\<lambda>(label, n). (show_int n, label)) nameLengthOptions) \<Longrightarrow> 4 \<le> \<lfloor>to_number x\<rfloor> \<and> \<lfloor>to_number x\<rfloor> \<le> 12"
proof -
  assume "x \<in> fst ` set (map (\<lambda>(label, n). (show_int n, label)) nameLengthOptions)"
  then obtain n where "x = show_int n" "n \<in> {4, 5, 6, 7, 8, 10, 12}" by (auto simp: nameLengthOptions_def)
  moreover from this have "to_number (show_int n) = of_int n" by (auto simp: to_number_def StringToNumber_show_int)
  ultimately show ?thesis by auto
qed

interpretation generate_view: form_view "generate_fields i" generate_issues generate_inv for i
proof (rule form_viewI)
  fix e :: "(bool \<times> HotspotDbProfile list option) \<times> bool \<times> (string \<times> bool) list option" and p
  show "distinct (map fl_name (generate_fields i e p))"
    by (cases e) (simp add: generate_fields_def generate_head_fields_def generate_tail_fields_def field_simps_page split: prod.split)
  assume "generate_inv p"
  then show "list_all (\<lambda>f. fl_enabled f \<longrightarrow> (\<forall>x. accepts (fl_control f) x \<longrightarrow> generate_inv (fl_set f x p))) (generate_fields i e p)"
    using nameLength_option
    by (cases e) (auto simp: generate_fields_def generate_head_fields_def generate_tail_fields_def field_simps_page generate_inv_def in_form_def qty_typed_def dataLimit_typed_def split: prod.split)
  show "list_all (\<lambda>c. list_ex (\<lambda>f. fl_name f = fst c \<and> fl_enabled f) (generate_fields i e p)) (generate_issues p)"
    by (cases e) (simp add: generate_fields_def generate_head_fields_def generate_tail_fields_def field_simps_page generate_issues_def split: prod.split)
qed

lemma generate_start: "generate_inv generate_init" "generate_inv (generate_reset p)" "generate_inv p \<Longrightarrow> generate_inv (profiles_effect ps p)"
  by (auto simp: generate_inv_def generate_init_def generate_reset_def defaultGenerateForm_def profiles_effect_def Let_def)

lemma generate_only_fractions:
  assumes "(edit (generate_fields i))\<^sup>*\<^sup>* generate_init p"
  shows "(\<exists>f. generate_schema p = Some f) \<longleftrightarrow> gp_qty p \<in> \<int> \<and> gp_dataLimit p \<in> \<int>"
proof -
  have "generate_inv p" using assms generate_start(1) by (rule generate_view.edits.inv_run)
  moreover have "(of_int \<lfloor>q\<rfloor> = q) = (q \<in> \<int>)" for q :: rat by (auto elim: Ints_cases intro: Ints_of_int simp: Ints_def)
  ultimately show ?thesis by (auto simp: generate_schema_def generate_inv_def)
qed

section \<open>A quick-print preset\<close>

text \<open>
  The values of the drawer; the data limit apart, because \<open>parseInt\<close> of what is typed can fail
  (\<open>None\<close> is not-a-number).
\<close>

record preset_page =
  pp_form :: preset_form
  pp_dataLimit :: "rat option"

definition preset_defaultValues :: "string \<Rightarrow> QuickPrintPreset option \<Rightarrow> preset_form" where
  "preset_defaultValues profileFallback tgt =
     (case tgt of
        Some t \<Rightarrow> preset_form.truncate t
      | None \<Rightarrow>
          \<lparr>preset_form.pf_name = ''QPNew'', pf_package = ''New Package'', pf_color = Blue, pf_server = ''all'', pf_profile = profileFallback,
           userMode = ''up'', userLength = 6, charSet = ''lower_number'', pf_prefix = [], timeLimit = ''1h'', dataLimit = 0,
           dataLimitUnit = ''MB'', pf_validity = ''1h'', pf_price = 0, sellingPrice = 0, lockUser = True\<rparr>)"

text \<open>The first of the profiles is preset; when none has arrived yet the text is empty.\<close>

definition preset_start :: "ProfileWithMeta list option \<Rightarrow> QuickPrintPreset option \<Rightarrow> preset_page" where
  "preset_start profiles tgt =
     (let fallback = (case or_else profiles [] of [] \<Rightarrow> [] | p # _ \<Rightarrow> ProfileWithMeta.pm_name p);
          v = preset_defaultValues fallback tgt
      in \<lparr>pp_form = v, pp_dataLimit = Some (preset_form.dataLimit v)\<rparr>)"

definition in_preset :: "(preset_form \<Rightarrow> preset_form) \<Rightarrow> preset_page \<Rightarrow> preset_page" where
  "in_preset f p = p\<lparr>pp_form := f (pp_form p)\<rparr>"

definition handleProfileChange :: "ProfileWithMeta list option \<Rightarrow> string \<Rightarrow> preset_form \<Rightarrow> preset_form" where
  "handleProfileChange profiles name v =
     (let w = preset_form.pf_profile_update (\<lambda>_. name) v; given = (\<lambda>t. or_else t [] \<noteq> []) in
      case find (\<lambda>p. ProfileWithMeta.pm_name p = name) (or_else profiles []) of
        None \<Rightarrow> w
      | Some p \<Rightarrow>
          (let a = (if given (ProfileWithMeta.pm_validity p) then preset_form.pf_validity_update (\<lambda>_. or_else (ProfileWithMeta.pm_validity p) []) w else w);
               b = (if given (pm_price p) then preset_form.pf_price_update (\<lambda>_. parseRouterOSNumber (pm_price p)) a else a)
           in if given (pm_selling_price p) then preset_form.sellingPrice_update (\<lambda>_. parseRouterOSNumber (pm_selling_price p)) b else b))"

definition PRESET_COLORS :: "(string \<times> PresetColor) list" where
  "PRESET_COLORS =
     [(''blue'', Blue), (''indigo'', Indigo), (''purple'', Purple), (''pink'', Pink), (''red'', Red), (''amber'', Amber), (''green'', Green),
      (''teal'', Teal), (''cyan'', Cyan), (''sky'', Sky)]"

definition CHAR_SETS :: "(string \<times> string) list" where
  "CHAR_SETS = map (\<lambda>(label, c). (charset_name c, label)) charSetOptions"

definition USER_LENGTHS :: "int list" where
  "USER_LENGTHS = [4, 5, 6, 7, 8, 10, 12]"

definition DATA_UNITS :: "string list" where
  "DATA_UNITS = [''MB'', ''GB'']"

definition preset_head_fields ::
  "ProfileWithMeta list option \<Rightarrow> bool \<Rightarrow> (string \<times> bool) list option \<Rightarrow> preset_page \<Rightarrow> preset_page field list"
where
  "preset_head_fields profiles serversLoading servers p =
     (let profile_field = field ''profile'' ''Profile''
        (Select ''Select profile'' (map (\<lambda>q. (ProfileWithMeta.pm_name q, ProfileWithMeta.pm_name q @ mid_dot @ or_else (ProfileWithMeta.pm_validity q) [])) (or_else profiles [])) [])
        (\<lambda>p. preset_form.pf_profile (pp_form p)) (\<lambda>x. in_preset (handleProfileChange profiles x))
      in
     [field ''name'' ''Internal Name'' (Input ''text'' ''QP1'') (\<lambda>p. preset_form.pf_name (pp_form p))
        (\<lambda>x. in_preset (preset_form.pf_name_update (\<lambda>_. x))),
      field ''package'' ''Display Label'' (Input ''text'' ''1Jam-1K'') (\<lambda>p. pf_package (pp_form p)) (\<lambda>x. in_preset (pf_package_update (\<lambda>_. x))),
      field ''color'' ''Color'' (Buttons (map fst PRESET_COLORS)) (\<lambda>p. text_of PRESET_COLORS (pf_color (pp_form p)))
        (\<lambda>x. in_preset (pf_color_update (\<lambda>c. pick PRESET_COLORS c x))),
      field ''server'' ''Server'' (server_control serversLoading servers) (\<lambda>p. preset_form.pf_server (pp_form p))
        (\<lambda>x. in_preset (preset_form.pf_server_update (\<lambda>_. x))),
      if find (\<lambda>q. ProfileWithMeta.pm_name q = preset_form.pf_profile (pp_form p)) (or_else profiles []) = None then profile_field
      else helped ''Selling price syncs from selected profile.'' profile_field])"

definition preset_tail_fields :: "preset_page field list" where
  "preset_tail_fields =
     [field ''userMode'' ''User Mode'' (Select [] [(''up'', ''User & Password''), (''vc'', ''Voucher Code'')] [])
        (\<lambda>p. userMode (pp_form p)) (\<lambda>x. in_preset (userMode_update (\<lambda>_. x))),
      field ''userLength'' ''User Length'' (Select [] (map (\<lambda>n. (show_int n, show_int n)) USER_LENGTHS) [])
        (\<lambda>p. show_rat (userLength (pp_form p))) (\<lambda>x. in_preset (userLength_update (\<lambda>_. to_number x))),
      field ''charSet'' ''Char Set'' (Select [] CHAR_SETS []) (\<lambda>p. charSet (pp_form p)) (\<lambda>x. in_preset (charSet_update (\<lambda>_. x))),
      field ''prefix'' ''Prefix'' (Input ''text'' ''Optional, e.g. wifi-'') (\<lambda>p. pf_prefix (pp_form p)) (\<lambda>x. in_preset (pf_prefix_update (\<lambda>_. x))),
      field ''timeLimit'' ''Time Limit'' (Input ''text'' ''1h, 30m, 1d, 0 = unlimited'') (\<lambda>p. preset_form.timeLimit (pp_form p))
        (\<lambda>x. in_preset (preset_form.timeLimit_update (\<lambda>_. x))),
      field ''dataLimit'' ''Data Limit'' (NumberInput ''min=0'' [])
        (\<lambda>p. case pp_dataLimit p of Some n \<Rightarrow> show_rat n | None \<Rightarrow> ''NaN'')
        (\<lambda>x p. p\<lparr>pp_dataLimit := map_option (\<lambda>n. of_int (max 0 n)) (parseInt (if x = [] then ''0'' else x))\<rparr>),
      field ''dataLimitUnit'' ''Unit'' (Select [] (same DATA_UNITS) []) (\<lambda>p. dataLimitUnit (pp_form p)) (\<lambda>x. in_preset (dataLimitUnit_update (\<lambda>_. x))),
      helped ''Bind voucher to first device that signs in.''
        (field ''lockUser'' ''Lock User'' Switch (\<lambda>p. bool_text (lockUser (pp_form p))) (\<lambda>x. in_preset (lockUser_update (\<lambda>_. x = ''true''))))]"

definition preset_fields ::
  "ProfileWithMeta list option \<times> bool \<times> (string \<times> bool) list option \<Rightarrow> preset_page \<Rightarrow> preset_page field list"
where
  "preset_fields = (\<lambda>(profiles, serversLoading, servers) p. preset_head_fields profiles serversLoading servers p @ preset_tail_fields)"

definition preset_form_page ::
  "bool \<Rightarrow> ProfileWithMeta list option \<times> bool \<times> (string \<times> bool) list option \<Rightarrow> preset_page form_page"
where
  "preset_form_page add answers =
     \<lparr>fp_title = (if add then ''Add Quick-Print Preset'' else ''Edit Preset''),
      fp_description = ''Configure how a one-tap print batch is generated.'', fp_cancel = ''Cancel'',
      fp_submit = (if add then ''Add Preset'' else ''Save Changes''), fp_fields = preset_fields answers\<rparr>"

definition presetFormSchema :: "preset_page \<Rightarrow> issue list" where
  "presetFormSchema p =
     (let v = pp_form p in
      z_min1 ''name'' ''Internal name wajib diisi'' (preset_form.pf_name v) @ z_min1 ''package'' ''Display label wajib diisi'' (pf_package v)
      @ z_when (userMode v \<notin> {''up'', ''vc''}) ''userMode'' ''Invalid option''
      @ z_when (charSet v \<notin> set VALID_CHAR_SETS) ''charSet'' ''Invalid option''
      @ z_when (pp_dataLimit p = None) ''dataLimit'' ''Invalid input''
      @ z_when (dataLimitUnit v \<notin> set DATA_UNITS) ''dataLimitUnit'' ''Invalid option'')"

definition preset_inv :: "preset_page \<Rightarrow> bool" where
  "preset_inv p =
     (userMode (pp_form p) \<in> {''up'', ''vc''} \<and> charSet (pp_form p) \<in> set VALID_CHAR_SETS \<and> dataLimitUnit (pp_form p) \<in> set DATA_UNITS
      \<and> (case pp_dataLimit p of Some n \<Rightarrow> 0 \<le> n | None \<Rightarrow> True))"

lemma handleProfileChange_keeps:
  "userMode (handleProfileChange ps x v) = userMode v" "charSet (handleProfileChange ps x v) = charSet v"
  "dataLimitUnit (handleProfileChange ps x v) = dataLimitUnit v" "preset_form.pf_name (handleProfileChange ps x v) = preset_form.pf_name v"
  "preset_form.pf_profile (handleProfileChange ps x v) = x"
  by (simp_all add: handleProfileChange_def Let_def split: option.split)

interpretation preset_view: form_view preset_fields presetFormSchema preset_inv
proof (rule form_viewI)
  fix e :: "ProfileWithMeta list option \<times> bool \<times> (string \<times> bool) list option" and p
  show "distinct (map fl_name (preset_fields e p))"
    by (cases e) (simp add: preset_fields_def preset_head_fields_def preset_tail_fields_def field_simps_page Let_def)
  assume "preset_inv p"
  then show "list_all (\<lambda>f. fl_enabled f \<longrightarrow> (\<forall>x. accepts (fl_control f) x \<longrightarrow> preset_inv (fl_set f x p))) (preset_fields e p)"
    by (cases e)
      (auto simp: preset_fields_def preset_head_fields_def preset_tail_fields_def field_simps_page preset_inv_def in_preset_def
        handleProfileChange_keeps CHAR_SETS_def VALID_CHAR_SETS_def charSetOptions_def charset_name_def same_def Let_def split: option.split)
  from \<open>preset_inv p\<close> show "list_all (\<lambda>c. list_ex (\<lambda>f. fl_name f = fst c \<and> fl_enabled f) (preset_fields e p)) (presetFormSchema p)"
    by (cases e)
      (simp add: preset_fields_def preset_head_fields_def preset_tail_fields_def field_simps_page presetFormSchema_def preset_inv_def Let_def)
qed

text \<open>
  The drawer has no field for the price and the validity: they come from the profile, but only when it is chosen. A new
  preset sent with the profile that is filled in has the price nought, whatever that profile costs; and the text beside
  it says that the price was taken over.
\<close>

lemma preset_price_not_synced:
  assumes "or_else profiles [] = p # ps"
  shows "preset_form.pf_profile (pp_form (preset_start profiles None)) = ProfileWithMeta.pm_name p"
    "preset_form.pf_price (pp_form (preset_start profiles None)) = 0" "sellingPrice (pp_form (preset_start profiles None)) = 0"
    "\<exists>f \<in> set (preset_fields (profiles, b, sv) (preset_start profiles None)). fl_name f = ''profile'' \<and> fl_help f = Some ''Selling price syncs from selected profile.''"
    "presetFormSchema (preset_start profiles None) = []"
  using assms
  by (simp_all add: preset_start_def preset_defaultValues_def preset_fields_def preset_head_fields_def field_simps_page Let_def
      presetFormSchema_def VALID_CHAR_SETS_def DATA_UNITS_def)

text \<open>Choosing a profile takes over what it has; a price that was there before stays when the profile has none.\<close>

lemma profile_chosen:
  assumes "find (\<lambda>p. ProfileWithMeta.pm_name p = name) (or_else profiles []) = Some p"
  shows "or_else (pm_selling_price p) [] \<noteq> [] \<Longrightarrow> sellingPrice (handleProfileChange profiles name v) = parseRouterOSNumber (pm_selling_price p)"
    "or_else (pm_selling_price p) [] = [] \<Longrightarrow> sellingPrice (handleProfileChange profiles name v) = sellingPrice v"
  using assms by (simp_all add: handleProfileChange_def Let_def)

end
