(* ===== verification/Ppp_Views.thy ===== *)
theory Ppp_Views
  imports Form_View Form_Laws
begin

text \<open>
  The fields of the three PPP drawers (\<^verbatim>\<open>features/ppp/*/dialogs\<close>), each an instance of \<open>form_view\<close> over its schema, and
  what follows for the requests: whatever is done by hand, the body has its declared type.
\<close>

section \<open>Secrets\<close>

definition poolOptions :: "string list option \<Rightarrow> (string \<times> string) list" where
  "poolOptions pools = map (\<lambda>p. (p, p)) (or_else pools [])"

definition secret_fields :: "form_mode \<Rightarrow> bool \<times> string list option \<Rightarrow> SecretFormValues \<Rightarrow> SecretFormValues field list" where
  "secret_fields md = (\<lambda>(poolsLoading, pools) v.
     [field ''name'' ''Username'' (Input ''text'' ''pppoe-001'') sf_name (\<lambda>x v. v\<lparr>sf_name := x\<rparr>),
      field ''password'' (if md = EditMode then ''Password (kosongkan = tetap)'' else ''Password'') (Input ''text'' bullets)
        sf_password (\<lambda>x v. v\<lparr>sf_password := x\<rparr>),
      field ''service'' ''Service'' (Select [] (map (\<lambda>s. (s, s)) PPP_SERVICES) []) sf_service (\<lambda>x v. v\<lparr>sf_service := x\<rparr>),
      field ''profile'' ''Profile'' (Input ''text'' ''default'') sf_profile (\<lambda>x v. v\<lparr>sf_profile := x\<rparr>),
      field ''local_address'' ''Local Address'' (Combobox ''10.0.0.1'' (poolOptions pools) poolsLoading) sf_local_address
        (\<lambda>x v. v\<lparr>sf_local_address := x\<rparr>),
      field ''remote_address'' ''Remote Address'' (Combobox ''10.0.0.2 / pool'' (poolOptions pools) poolsLoading) sf_remote_address
        (\<lambda>x v. v\<lparr>sf_remote_address := x\<rparr>)]
     @ (if md = EditMode then [field ''comment'' ''Comment'' (TextArea ''Catatan opsional...'' 2) sf_comment (\<lambda>x v. v\<lparr>sf_comment := x\<rparr>)]
        else []))"

definition secret_form_page :: "form_mode \<Rightarrow> bool \<times> string list option \<Rightarrow> SecretFormValues form_page" where
  "secret_form_page md answers =
     \<lparr>fp_title = (if md = AddMode then ''Add PPP Secret'' else ''Edit PPP Secret''),
      fp_description = ''PPPoE / PPP credential'' @ mid_dot @ ''profile'' @ mid_dot @ ''addresses'', fp_cancel = ''Cancel'',
      fp_submit = (if md = AddMode then ''Add Secret'' else ''Save Changes''), fp_fields = secret_fields md answers\<rparr>"

section \<open>Profiles\<close>

definition ppp_status_options :: "(string \<times> string) list" where
  "ppp_status_options = [(''false'', ''Enabled''), (''true'', ''Disabled'')]"

definition pppProfile_head_fields :: "bool \<times> string list option \<Rightarrow> ProfileFormValues field list" where
  "pppProfile_head_fields = (\<lambda>(poolsLoading, pools).
     [field ''name'' ''Name'' (Input ''text'' ''default'') rf_name (\<lambda>x v. v\<lparr>rf_name := x\<rparr>),
      helped (''Format: rx/tx '' @ em_dash @ '' contoh 10M/10M atau 5M/2M'')
        (field ''rate_limit'' ''Rate Limit'' (Input ''text'' ''10M/10M'') rf_rate_limit (\<lambda>x v. v\<lparr>rf_rate_limit := x\<rparr>)),
      helped ''IP address gateway''
        (field ''local_address'' ''Local Address'' (Combobox ''IP atau pool...'' (addressPoolOptions pools) poolsLoading) rf_local_address
          (\<lambda>x v. v\<lparr>rf_local_address := x\<rparr>)),
      helped ''IP atau nama pool client''
        (field ''remote_address'' ''Remote Address'' (Combobox ''IP atau pool...'' (addressPoolOptions pools) poolsLoading) rf_remote_address
          (\<lambda>x v. v\<lparr>rf_remote_address := x\<rparr>))])"

definition pppProfile_tail_fields :: "ProfileFormValues field list" where
  "pppProfile_tail_fields =
     [field ''session_timeout'' ''Session Timeout'' (Input ''text'' ''1h30m'') rf_session_timeout (\<lambda>x v. v\<lparr>rf_session_timeout := x\<rparr>),
      field ''idle_timeout'' ''Idle Timeout'' (Input ''text'' ''10m'') rf_idle_timeout (\<lambda>x v. v\<lparr>rf_idle_timeout := x\<rparr>),
      field ''parent_queue'' ''Parent Queue'' (Input ''text'' ''nama queue (opsional)'') rf_parent_queue (\<lambda>x v. v\<lparr>rf_parent_queue := x\<rparr>),
      field ''disabled'' ''Status'' (Select [] ppp_status_options []) rf_disabled (\<lambda>x v. v\<lparr>rf_disabled := x\<rparr>),
      field ''comment'' ''Comment'' (TextArea ''Catatan opsional...'' 2) rf_comment (\<lambda>x v. v\<lparr>rf_comment := x\<rparr>)]"

definition pppProfile_fields :: "bool \<times> string list option \<Rightarrow> ProfileFormValues \<Rightarrow> ProfileFormValues field list" where
  "pppProfile_fields answers v = pppProfile_head_fields answers @ pppProfile_tail_fields"

definition pppProfile_form_page :: "form_mode \<Rightarrow> bool \<times> string list option \<Rightarrow> ProfileFormValues form_page" where
  "pppProfile_form_page md answers =
     \<lparr>fp_title = (if md = AddMode then ''Tambah PPP Profile'' else ''Edit PPP Profile''),
      fp_description = ''RouterOS /ppp/profile'' @ mid_dot @ ''addresses'' @ mid_dot @ ''rate limit'', fp_cancel = ''Batal'',
      fp_submit = (if md = AddMode then ''Tambah Profile'' else ''Simpan Perubahan''), fp_fields = pppProfile_fields answers\<rparr>"

section \<open>Billing profiles\<close>

definition pppBilling_head_fields :: "form_mode \<Rightarrow> bool \<times> string list option \<Rightarrow> DbProfileFormValues field list" where
  "pppBilling_head_fields md = (\<lambda>(poolsLoading, pools).
     [locked (md = EditMode) (field ''name'' ''Name'' (Input ''text'' ''paket-10M'') db_name (\<lambda>x v. v\<lparr>db_name := x\<rparr>)),
      field ''rate_limit'' ''Rate Limit (rx/tx)'' (Input ''text'' ''10M/10M'') db_rate_limit (\<lambda>x v. v\<lparr>db_rate_limit := x\<rparr>),
      field ''price_monthly'' ''Price / bulan (IDR)'' (NumberInput ''min=0'' ''150000'') db_price_monthly (\<lambda>x v. v\<lparr>db_price_monthly := x\<rparr>),
      field ''local_address'' ''Local Address'' (Combobox ''10.0.0.1'' (addressPoolOptions pools) poolsLoading) db_local_address
        (\<lambda>x v. v\<lparr>db_local_address := x\<rparr>),
      field ''remote_address'' ''Remote Address'' (Combobox ''pool name / IP'' (addressPoolOptions pools) poolsLoading) db_remote_address
        (\<lambda>x v. v\<lparr>db_remote_address := x\<rparr>)])"

definition pppBilling_tail_fields :: "DbProfileFormValues field list" where
  "pppBilling_tail_fields =
     [field ''session_timeout'' ''Session Timeout'' (Input ''text'' ''1h30m'') db_session_timeout (\<lambda>x v. v\<lparr>db_session_timeout := x\<rparr>),
      field ''idle_timeout'' ''Idle Timeout'' (Input ''text'' ''10m'') db_idle_timeout (\<lambda>x v. v\<lparr>db_idle_timeout := x\<rparr>),
      field ''parent_queue'' ''Parent Queue'' (Input ''text'' ''queue name'') db_parent_queue (\<lambda>x v. v\<lparr>db_parent_queue := x\<rparr>),
      field ''description'' ''Description'' (TextArea ''Home 10 Mbps plan'' 2) db_description (\<lambda>x v. v\<lparr>db_description := x\<rparr>),
      field ''active'' ''Status'' (Select [] [(''true'', ''Active''), (''false'', ''Inactive'')] []) db_active (\<lambda>x v. v\<lparr>db_active := x\<rparr>),
      helped ''Show on the public registration page.''
        (field ''is_public'' ''Public package'' Switch (\<lambda>v. bool_text (db_is_public v)) (\<lambda>x v. v\<lparr>db_is_public := (x = ''true'')\<rparr>))]"

definition pppBilling_fields :: "form_mode \<Rightarrow> bool \<times> string list option \<Rightarrow> DbProfileFormValues \<Rightarrow> DbProfileFormValues field list" where
  "pppBilling_fields md answers v = pppBilling_head_fields md answers @ pppBilling_tail_fields"

definition pppBilling_form_page :: "form_mode \<Rightarrow> bool \<times> string list option \<Rightarrow> DbProfileFormValues form_page" where
  "pppBilling_form_page md answers =
     \<lparr>fp_title = (if md = AddMode then ''Add Billing Profile'' else ''Edit Billing Profile''),
      fp_description = ''DB-backed PPP plan'' @ mid_dot @ ''synced to RouterOS best-effort'', fp_cancel = ''Cancel'',
      fp_submit = (if md = AddMode then ''Create Profile'' else ''Save Changes''), fp_fields = pppBilling_fields md answers\<rparr>"

section \<open>The contract\<close>

interpretation secret_view: form_view "secret_fields md" "secret_schema (md, t)" "\<lambda>v. sf_service v \<in> set PPP_SERVICES" for md t
  by (rule form_viewI)
    (auto simp: secret_fields_def secret_schema_def secret_baseSchema_def secret_addSchema_def field_simps_page split: prod.splits)

interpretation pppProfile_view: form_view pppProfile_fields profileFormSchema "\<lambda>v. rf_disabled v \<in> {''true'', ''false''}"
  by (rule form_viewI) (auto simp: pppProfile_fields_def pppProfile_head_fields_def pppProfile_tail_fields_def profileFormSchema_def ppp_status_options_def field_simps_page split: prod.splits)

interpretation pppBilling_view: form_view "pppBilling_fields md" "ppp_billing_schema (md, t)" "\<lambda>v. db_active v \<in> {''true'', ''false''}" for md t
  by (rule form_viewI)
    (auto simp: pppBilling_fields_def pppBilling_head_fields_def pppBilling_tail_fields_def ppp_billing_schema_def dbProfileFormSchema_def field_simps_page split: prod.splits)

text \<open>The starting values keep the invariants, a secret's as long as the router knows its service.\<close>

lemma ppp_start:
  "rf_disabled (ppp_profile_defaultValues t) \<in> {''true'', ''false''}" "db_active (ppp_billing_defaultValues t') \<in> {''true'', ''false''}"
  "or_else (Option.bind t'' ps_service) ''any'' \<in> set PPP_SERVICES \<Longrightarrow> sf_service (secret_defaultValues t'') \<in> set PPP_SERVICES"
  by (auto simp: ppp_profile_defaultValues_def ppp_billing_defaultValues_def secret_defaultValues_def bool_text_def)

text \<open>A new secret keeps no comment: there is no field for it, and none is sent.\<close>

interpretation new_secret: inductive_invariant "\<lambda>v. sf_comment v = []" "edit (secret_fields AddMode)" "\<lambda>v. sf_comment v = []"
  by unfold_locales (auto elim!: edit_elim simp: secret_fields_def field_simps_page split: prod.splits)

lemma new_secret_no_comment:
  assumes "(edit (secret_fields AddMode))\<^sup>*\<^sup>* (secret_defaultValues None) v"
  shows "sf_comment v = []"
  using new_secret.inv_run [OF assms] by (simp add: secret_defaultValues_def)

end
