(* ===== verification/Billing_Views.thy ===== *)
theory Billing_Views
  imports Form_View Dialogs Form_Laws
begin

text \<open>
  The fields of the forms of the billing pages: the customer drawer with its second step, the subscription drawer, the
  installation of a registration, invoices and payments, the decisions on a registration and the public form of
  registration. Each form with a schema is an instance of \<open>form_view\<close>; for the others, which check their fields when
  they are sent, it is shown that they can be completed.
\<close>

section \<open>Customers\<close>

definition StepIndicator :: "nat \<Rightarrow> (string \<times> string \<times> bool) list" where
  "StepIndicator step =
     [(if step = 1 then ''1'' else ''done'', ''Informasi Customer'', step = 1), (''2'', ''Buat Subscription'', step = 2)]"

definition customer_fields :: "CustomerFormValues \<Rightarrow> CustomerFormValues field list" where
  "customer_fields v =
     [field ''full_name'' ''Full Name'' (Input ''text'' ''Budi Santoso'') cf_full_name (\<lambda>x v. v\<lparr>cf_full_name := x\<rparr>),
      field ''phone'' ''Phone'' (Input ''tel'' ''0812xxxxxxx'') cf_phone (\<lambda>x v. v\<lparr>cf_phone := x\<rparr>),
      field ''area'' ''Area'' (Input ''text'' ''Blok A'') cf_area (\<lambda>x v. v\<lparr>cf_area := x\<rparr>),
      field ''address'' ''Address'' (TextArea [] 2) cf_address (\<lambda>x v. v\<lparr>cf_address := x\<rparr>),
      field ''notes'' ''Notes'' (TextArea [] 2) cf_notes (\<lambda>x v. v\<lparr>cf_notes := x\<rparr>),
      field ''status'' ''Status'' (Select [] [(''aktif'', ''Aktif''), (''nonaktif'', ''Nonaktif'')] []) cf_status (\<lambda>x v. v\<lparr>cf_status := x\<rparr>)]"

definition customer_form_page :: "form_mode \<Rightarrow> CustomerFormValues form_page" where
  "customer_form_page md =
     \<lparr>fp_title = (if md = AddMode then ''Add Customer'' else ''Edit Customer''),
      fp_description = (if md = EditMode then ''Update data kontak dan status pelanggan.'' else []), fp_cancel = ''Cancel'',
      fp_submit = (if md = AddMode then ''Buat Customer'' else ''Save Changes''), fp_fields = customer_fields\<rparr>"

text \<open>The answers of the second step: the routers, the PPP plans and the hotspot plans of the chosen device.\<close>

type_synonym plan_answers = "RouterPublicView list option \<times> PPPDbProfile list option \<times> HotspotDbProfile list option"

definition router_options :: "RouterPublicView list option \<Rightarrow> (string \<times> string) list" where
  "router_options routers = map (\<lambda>r. (show_int (rv_id r), rv_display_name r)) (or_else routers [])"

definition deviceId :: "string \<Rightarrow> rat" where
  "deviceId s = to_number s"

text \<open>The queries run for the kind of service that is chosen; a plan may carry its rate as a second text.\<close>

definition plan_options ::
  "(PPPDbProfile \<Rightarrow> string) \<Rightarrow> string \<Rightarrow> PPPDbProfile list option \<Rightarrow> HotspotDbProfile list option \<Rightarrow> (string \<times> string) list"
where
  "plan_options label service ppps hss =
     (if service = ''pppoe'' then map (\<lambda>p. (show_int (pd_id p), label p)) (or_else ppps [])
      else map (\<lambda>p. (show_int (hd_id p), hd_name p)) (or_else hss []))"

definition service_options :: "(string \<times> string) list" where
  "service_options = [(''pppoe'', ''PPPoE''), (''hotspot'', ''Hotspot'')]"

definition step_fields :: "plan_answers \<Rightarrow> StepFormValues \<Rightarrow> StepFormValues field list" where
  "step_fields = (\<lambda>(routers, ppps, hss) v.
     (let none = (if deviceId (st_device_id v) = 0 then ''Pilih device terlebih dahulu'' else ''Belum ada profile untuk device ini'') in
     [field ''device_id'' ''Device / Router'' (Select ''Select a router'' (router_options routers) []) st_device_id
        (\<lambda>x v. v\<lparr>st_device_id := x\<rparr>),
      field ''service_type'' ''Service Type'' (Select [] service_options []) st_service_type step_setServiceType,
      locked (deviceId (st_device_id v) = 0) (field ''profile_id'' ''Billing Profile''
        (Select (if deviceId (st_device_id v) = 0 then ''Pilih device terlebih dahulu'' else ''Pilih paket'')
          (plan_options (\<lambda>p. pd_name p @ (if pd_rate_limit p = [] then [] else pd_rate_limit p)) (st_service_type v) ppps hss) none)
        st_profile_id (\<lambda>x v. v\<lparr>st_profile_id := x\<rparr>)),
      field ''mikrotik_username'' ''MikroTik Username'' (Input ''text'' ''pppoe-budi'') st_mikrotik_username
        (\<lambda>x v. v\<lparr>st_mikrotik_username := x\<rparr>),
      field ''mikrotik_password'' ''MikroTik Password'' (Input ''text'' []) st_mikrotik_password (\<lambda>x v. v\<lparr>st_mikrotik_password := x\<rparr>)]))"

definition step_form_page :: "plan_answers \<Rightarrow> StepFormValues form_page" where
  "step_form_page answers =
     \<lparr>fp_title = ''Buat Subscription'', fp_description = [], fp_cancel = ''Lewati'', fp_submit = ''Buat Subscription'',
      fp_fields = step_fields answers\<rparr>"

section \<open>Subscriptions\<close>

definition USER_MODE_OPTIONS :: "(string \<times> string) list" where
  "USER_MODE_OPTIONS = [(''up'', ''User & Password''), (''vc'', ''Username Only (Voucher)'')]"

type_synonym sub_answers = "Customer list option \<times> plan_answers"

definition sub_head_fields :: "form_mode \<Rightarrow> sub_answers \<Rightarrow> SubscriptionFormValues \<Rightarrow> SubscriptionFormValues field list" where
  "sub_head_fields md = (\<lambda>(customers, routers, ppps, hss) v.
     (let isEdit = (md = EditMode) in
     [locked isEdit (field ''customer_id'' ''Customer''
        (Select ''Select customer'' (map (\<lambda>c. (show_int (cu_id c), cu_full_name c)) (or_else customers [])) []) su_customer_id
        (\<lambda>x v. v\<lparr>su_customer_id := x\<rparr>))]
     @ (if isEdit then [locked isEdit (field ''device_id'' ''Device'' (Select ''Select device'' (router_options routers) []) su_device_id
          (\<lambda>x v. v\<lparr>su_device_id := x\<rparr>))] else [])
     @ [locked isEdit (field ''service_type'' ''Service Type'' (Select [] service_options []) su_service_type sub_setServiceType)]
     @ (if \<not> isEdit \<and> su_service_type v = ''hotspot'' then
          [field ''user_mode'' ''User Mode'' (Select [] USER_MODE_OPTIONS []) su_user_mode (\<lambda>x v. v\<lparr>su_user_mode := x\<rparr>)] else [])
     @ [locked (deviceId (su_device_id v) = 0) (field ''profile_id'' ''Billing Profile''
        (Select (if deviceId (su_device_id v) = 0 then ''Select a device first'' else ''Select profile'')
          (plan_options pd_name (su_service_type v) ppps hss) ''No profiles for this device'')
        su_profile_id (\<lambda>x v. v\<lparr>su_profile_id := x\<rparr>))]))"

text \<open>A voucher account has its name as password, so only the name is asked for.\<close>

definition sub_account_fields :: "form_mode \<Rightarrow> SubscriptionFormValues \<Rightarrow> SubscriptionFormValues field list" where
  "sub_account_fields md v =
     (let isEdit = (md = EditMode) in
      if su_service_type v = ''hotspot'' \<and> su_user_mode v = ''vc'' then
        [helped ''Password otomatis sama dengan username (mode voucher).'' (locked isEdit
          (field ''mikrotik_username'' ''Username / Kode'' (Input ''text'' ''kode voucher'') su_mikrotik_username
            (\<lambda>x v. v\<lparr>su_mikrotik_username := x\<rparr>)))]
      else
        [locked isEdit (field ''mikrotik_username'' ''MikroTik Username'' (Input ''text'' ''pppoe-budi'') su_mikrotik_username
           (\<lambda>x v. v\<lparr>su_mikrotik_username := x\<rparr>)),
         field ''mikrotik_password'' (if isEdit then ''Password (blank = keep)'' else ''MikroTik Password'') (Input ''text'' bullets)
           su_mikrotik_password (\<lambda>x v. v\<lparr>su_mikrotik_password := x\<rparr>)])"

definition sub_tail_fields :: "SubscriptionFormValues field list" where
  "sub_tail_fields =
     [field ''billing_day'' (''Tanggal Tagih (1'' @ en_dash @ ''28, opsional)'') (NumberInput ''min=1 max=28'' ''Kosong = default global'')
        su_billing_day (\<lambda>x v. v\<lparr>su_billing_day := x\<rparr>),
      field ''notes'' ''Notes'' (TextArea [] 2) su_notes (\<lambda>x v. v\<lparr>su_notes := x\<rparr>)]"

definition sub_fields :: "form_mode \<Rightarrow> sub_answers \<Rightarrow> SubscriptionFormValues \<Rightarrow> SubscriptionFormValues field list" where
  "sub_fields md answers v = sub_head_fields md answers v @ sub_account_fields md v @ sub_tail_fields"

text \<open>The button beside the name of a voucher account fills in a random code.\<close>

definition sub_generate :: "nat list \<Rightarrow> SubscriptionFormValues \<Rightarrow> SubscriptionFormValues" where
  "sub_generate arr v = v\<lparr>su_mikrotik_username := generateHotspotCode arr\<rparr>"

text \<open>Without a router the drawer of a new subscription shows a hint in place of the form.\<close>

definition sub_form_page ::
  "form_mode \<Rightarrow> int option \<Rightarrow> sub_answers \<Rightarrow> string + SubscriptionFormValues form_page"
where
  "sub_form_page md activeRouterId answers =
     (if md = AddMode \<and> or_else activeRouterId 0 = 0 then Inl ''Please select a router from the sidebar switcher first.''
      else Inr
        \<lparr>fp_title = (if md = EditMode then ''Edit Subscription'' else ''New Subscription''),
         fp_description = ''Links a customer to a device profile and provisions the MikroTik secret/user.'', fp_cancel = ''Cancel'',
         fp_submit = (if md = EditMode then ''Save Changes'' else ''Create''), fp_fields = sub_fields md answers\<rparr>)"

section \<open>Installing a registration\<close>

definition install_fields :: "plan_answers \<Rightarrow> InstallFormValues \<Rightarrow> InstallFormValues field list" where
  "install_fields = (\<lambda>(routers, ppps, hss) v.
     [field ''device_id'' ''Device / Router'' (Select ''Select a router'' (router_options routers) []) in_device_id
        (\<lambda>x v. v\<lparr>in_device_id := x\<rparr>),
      field ''service_type'' ''Service type'' (Select [] service_options []) in_service_type
        (\<lambda>x v. v\<lparr>in_service_type := x, in_profile_id := []\<rparr>),
      locked (deviceId (in_device_id v) = 0) (field ''profile_id'' ''Package''
        (Select (if deviceId (in_device_id v) = 0 then ''Pick a device first'' else ''Select a package'')
          (plan_options pd_name (in_service_type v) ppps (map_option (filter (\<lambda>p. hd_role p = ''permanent'')) hss)) [])
        in_profile_id (\<lambda>x v. v\<lparr>in_profile_id := x\<rparr>)),
      field ''mikrotik_username'' ''MikroTik Username'' (Input ''text'' ''budi-001'') in_mikrotik_username
        (\<lambda>x v. v\<lparr>in_mikrotik_username := x\<rparr>),
      field ''mikrotik_password'' ''MikroTik Password'' (Input ''text'' []) in_mikrotik_password (\<lambda>x v. v\<lparr>in_mikrotik_password := x\<rparr>),
      field ''billing_day'' (''Billing day (optional, 1'' @ en_dash @ ''28)'') (NumberInput ''min=1 max=28'' ''e.g. 1'') in_billing_day
        (\<lambda>x v. v\<lparr>in_billing_day := x\<rparr>)])"

definition install_form_page :: "plan_answers \<Rightarrow> Registration \<Rightarrow> InstallFormValues form_page" where
  "install_form_page answers r =
     \<lparr>fp_title = ''Complete installation'',
      fp_description = ''Provision '' @ quote (rg_full_name r) @ [char_of (32 :: nat), char_of (226 :: nat), char_of (134 :: nat), char_of (146 :: nat)]
        @ '' creates an active subscription (synced to the router) + first invoice.'',
      fp_cancel = ''Cancel'', fp_submit = ''Install'', fp_fields = install_fields answers\<rparr>"

section \<open>The contracts\<close>

interpretation customer_view: form_view "\<lambda>_ :: unit. customer_fields" customerSchema "\<lambda>v. cf_status v \<in> {''aktif'', ''nonaktif''}"
  by (rule form_viewI) (auto simp: customer_fields_def customerSchema_def field_simps_page)

text \<open>
  A package waits for its device: as long as none is chosen the complaint that can be worked on is the device's. The
  identifiers of routers are positive (\<open>known\<close> leaves out what is not).
\<close>

definition known :: "plan_answers \<Rightarrow> plan_answers" where
  "known = (\<lambda>(routers, plans). (map_option (filter (\<lambda>r. 0 < rv_id r)) routers, plans))"

lemma known_device: "x \<in> fst ` set (router_options (fst (known a))) \<Longrightarrow> deviceId x \<noteq> 0"
  by (cases "fst a") (auto simp: known_def router_options_def deviceId_def to_number_def StringToNumber_show_int split: prod.splits)

definition device_chosen :: "string \<Rightarrow> bool" where
  "device_chosen s = (s = [] \<or> deviceId s \<noteq> 0)"

interpretation step_view: form_view "\<lambda>e. step_fields (known e)" subscriptionSchema
  "\<lambda>v. st_service_type v \<in> {''pppoe'', ''hotspot''} \<and> device_chosen (st_device_id v)"
proof
  fix e v
  obtain routers plans where e: "known e = (routers, plans)" by (cases "known e")
  obtain ppps hss where p: "plans = (ppps, hss)" by (cases plans)
  note d = known_device [where a = e, unfolded e fst_conv]
  note defs = e p step_fields_def field_simps_page Let_def
  show "distinct (map fl_name (step_fields (known e) v))" by (simp add: defs)
  assume i: "st_service_type v \<in> {''pppoe'', ''hotspot''} \<and> device_chosen (st_device_id v)"
  show "st_service_type (fl_set f x v) \<in> {''pppoe'', ''hotspot''} \<and> device_chosen (st_device_id (fl_set f x v))"
    if "f \<in> set (step_fields (known e) v)" "fl_enabled f" "accepts (fl_control f) x" for f x
    using that i d by (auto simp: defs step_setServiceType_def service_options_def device_chosen_def)
  show "q \<in> set (map fl_name (step_fields (known e) v))" if "(q, m) \<in> set (subscriptionSchema v)" for q m
    using that i by (auto simp: defs subscriptionSchema_def z_min1_def z_when_def split: if_splits)
  assume n: "subscriptionSchema v \<noteq> []"
  show "\<exists>(q, m) \<in> set (subscriptionSchema v). \<exists>f \<in> set (step_fields (known e) v). fl_name f = q \<and> fl_enabled f"
    using n i by (auto simp: defs subscriptionSchema_def z_min1_def z_when_def device_chosen_def split: if_splits)
qed

interpretation install_view: form_view "\<lambda>e. install_fields (known e)" installFormSchema
  "\<lambda>v. in_service_type v \<in> {''pppoe'', ''hotspot''} \<and> device_chosen (in_device_id v)"
proof
  fix e v
  obtain routers plans where e: "known e = (routers, plans)" by (cases "known e")
  obtain ppps hss where p: "plans = (ppps, hss)" by (cases plans)
  note d = known_device [where a = e, unfolded e fst_conv]
  note defs = e p install_fields_def field_simps_page Let_def
  show "distinct (map fl_name (install_fields (known e) v))" by (simp add: defs)
  assume i: "in_service_type v \<in> {''pppoe'', ''hotspot''} \<and> device_chosen (in_device_id v)"
  show "in_service_type (fl_set f x v) \<in> {''pppoe'', ''hotspot''} \<and> device_chosen (in_device_id (fl_set f x v))"
    if "f \<in> set (install_fields (known e) v)" "fl_enabled f" "accepts (fl_control f) x" for f x
    using that i d by (auto simp: defs service_options_def device_chosen_def)
  show "q \<in> set (map fl_name (install_fields (known e) v))" if "(q, m) \<in> set (installFormSchema v)" for q m
    using that i by (auto simp: defs installFormSchema_def z_min1_def z_when_def split: if_splits)
  assume n: "installFormSchema v \<noteq> []"
  show "\<exists>(q, m) \<in> set (installFormSchema v). \<exists>f \<in> set (install_fields (known e) v). fl_name f = q \<and> fl_enabled f"
    using n i by (auto simp: defs installFormSchema_def z_min1_def z_when_def device_chosen_def split: if_splits)
qed

text \<open>
  The drawer of a new subscription has no field for the device: it is the selected router, without which the form is not
  shown. Editing asks for nothing.
\<close>

definition sub_inv :: "form_mode \<Rightarrow> SubscriptionFormValues \<Rightarrow> bool" where
  "sub_inv md v =
     (su_service_type v \<in> {''pppoe'', ''hotspot''} \<and> su_user_mode v \<in> {''up'', ''vc''} \<and> (md = AddMode \<longrightarrow> su_device_id v \<noteq> []))"

lemmas sub_field_defs = sub_fields_def sub_head_fields_def sub_account_fields_def sub_tail_fields_def service_options_def
  USER_MODE_OPTIONS_def

interpretation sub_view: form_view "sub_fields md" "sub_schema (md, t)" "sub_inv md" for md t
proof (rule form_viewI)
  fix e :: sub_answers and v
  show "distinct (map fl_name (sub_fields md e v))"
    by (cases e) (auto simp: sub_field_defs field_simps_page Let_def)
  assume i: "sub_inv md v"
  then show "list_all (\<lambda>f. fl_enabled f \<longrightarrow> (\<forall>x. accepts (fl_control f) x \<longrightarrow> sub_inv md (fl_set f x v))) (sub_fields md e v)"
    by (cases e) (auto simp: sub_field_defs field_simps_page sub_inv_def sub_setServiceType_def Let_def)
  from i show "list_all (\<lambda>c. list_ex (\<lambda>f. fl_name f = fst c \<and> fl_enabled f) (sub_fields md e v)) (sub_schema (md, t) v)"
    by (cases e; cases md) (auto simp: sub_field_defs field_simps_page sub_inv_def sub_schema_def sub_baseSchema_def sub_addSchema_def Let_def)
qed

lemma billing_starts:
  "cf_status (defaultCustomer None) \<in> {''aktif'', ''nonaktif''}"
  "st_service_type step_defaultValues \<in> {''pppoe'', ''hotspot''} \<and> device_chosen (st_device_id step_defaultValues)"
  "or_else activeRouterId 0 \<noteq> 0 \<Longrightarrow> sub_inv AddMode (sub_defaultValues None activeRouterId)"
  by (auto simp: defaultCustomer_def step_defaultValues_def device_chosen_def sub_inv_def sub_defaultValues_def show_int_def or_else_def split: option.splits if_splits)

text \<open>A new account of a voucher customer has its name as password, however the form got there.\<close>

lemma voucher_password:
  assumes "su_service_type v = ''hotspot''" "su_user_mode v = ''vc''"
  shows "map_of (sub_payload v) ''mikrotik_password'' = map_of (sub_payload v) ''mikrotik_username''"
    "\<not> list_ex (\<lambda>f. fl_name f = ''mikrotik_password'') (sub_fields md e v)"
  using assms by (cases e; auto simp: sub_payload_def sub_field_defs field_simps_page Let_def)+

section \<open>What stays behind\<close>

text \<open>
  Choosing another device keeps the plan that was chosen for the one before, in the second step of the customer drawer
  and in the installation drawer; choosing another kind of service clears it.
\<close>

lemma device_keeps_plan:
  "enter (step_fields a) (''device_id'', d) v = Some w \<Longrightarrow> st_profile_id w = st_profile_id v"
  "enter (install_fields a) (''device_id'', d) u = Some z \<Longrightarrow> in_profile_id z = in_profile_id u"
  "enter (step_fields a) (''service_type'', k) v = Some w \<Longrightarrow> st_profile_id w = []"
  "enter (install_fields a) (''service_type'', k) u = Some z \<Longrightarrow> in_profile_id z = []"
  by (cases a; auto simp: enter_def usable_def step_fields_def install_fields_def field_simps_page step_setServiceType_def Let_def split: if_splits)+

definition sample_device_router :: "int \<Rightarrow> RouterPublicView" where
  "sample_device_router n =
     \<lparr>rv_id = n, rv_display_name = ''R'', rv_host = ''h'', rv_port = 8728, rv_username = ''u'', rv_use_tls = None, rv_status = ''connected'',
      rv_last_seen = None, rv_last_error = None, rv_expiry_check_interval = None, rv_time_zone = None, rv_active = None, rv_created_at = None\<rparr>"

definition sample_plan :: "int \<Rightarrow> int \<Rightarrow> PPPDbProfile" where
  "sample_plan n device =
     \<lparr>pd_id = n, pd_device_id = device, pd_name = ''P'', pd_rate_limit = [], pd_local_address = [], pd_remote_address = [],
      pd_session_timeout = [], pd_idle_timeout = [], pd_parent_queue = [], pd_price_monthly = 0, pd_description = [], pd_active = True,
      pd_is_public = False, pd_created_at = [], pd_updated_at = []\<rparr>"

text \<open>So a plan of the first router can be sent for the second one.\<close>

lemma foreign_plan_sent:
  "\<exists>v w. fill (step_fields (Some [sample_device_router 1, sample_device_router 2], Some [sample_plan 7 1], None))
       [(''device_id'', ''1''), (''profile_id'', ''7''), (''mikrotik_username'', ''u''), (''mikrotik_password'', ''p'')] step_defaultValues = Some v
     \<and> fill (step_fields (Some [sample_device_router 1, sample_device_router 2], Some [], None)) [(''device_id'', ''2'')] v = Some w
     \<and> subscriptionSchema w = [] \<and> st_device_id w = ''2'' \<and> st_profile_id w = ''7''"
proof -
  have digits: "show_int 1 = ''1''" "show_int 2 = ''2''" "show_int 7 = ''7''" by code_simp+
  then have "deviceId ''1'' = 1" "deviceId ''2'' = 2"
    using StringToNumber_show_int [of 1] StringToNumber_show_int [of 2] by (simp_all add: deviceId_def to_number_def)
  then show ?thesis
    by (simp add: enter_def usable_def step_fields_def field_simps_page Let_def step_defaultValues_def router_options_def plan_options_def
        sample_device_router_def sample_plan_def subscriptionSchema_def digits)
qed

end
