(* ===== verification/Payment_Views.thy ===== *)
theory Payment_Views
  imports Billing_Views Billing_Tables
begin

text \<open>
  The dialogs of invoices and payments, the decisions on a registration, the status of a subscription and the public form
  of registration: their fields and texts, as instances of \<open>form_view\<close> where they have a schema.
\<close>

section \<open>Invoices and payments\<close>

definition subscription_label :: "Customer list option \<Rightarrow> Subscription \<Rightarrow> string" where
  "subscription_label customers s =
     or_else (map_of (rev (map (\<lambda>c. (cu_id c, cu_full_name c)) (or_else customers []))) (sb_customer_id s)) (''#'' @ show_int (sb_customer_id s))
     @ '' '' @ em_dash @ '' '' @ sb_mikrotik_username s @ '' ('' @ (if sb_service_type s = ''pppoe'' then ''PPPoE'' else ''Hotspot'') @ '')''"

definition invoice_fields :: "bool \<times> Subscription list option \<times> Customer list option \<Rightarrow> invoice_form \<Rightarrow> invoice_form field list" where
  "invoice_fields = (\<lambda>(isLoading, subs, customers) v.
     [field ''subscription_id'' ''Pelanggan / Langganan''
        (if isLoading then Skeleton
         else Select ''Pilih pelanggan...'' (map (\<lambda>s. (show_int (sb_id s), subscription_label customers s)) (or_else subs [])) ''Belum ada langganan aktif'')
        if_subscription_id (\<lambda>x v. v\<lparr>if_subscription_id := x\<rparr>),
      helped ''Kosongkan untuk memakai harga paket langganan. Isi hanya untuk tagihan nominal khusus.''
        (field ''amount'' ''Jumlah (Rp)'' (NumberInput ''min=1'' ''Kosongkan = harga paket otomatis'') if_amount (\<lambda>x v. v\<lparr>if_amount := x\<rparr>)),
      helped ''Tanggal awal periode tagihan.''
        (field ''period_start'' ''Mulai Periode'' (DatePick ''Pilih tanggal'') (\<lambda>v. case if_period_start v of Some n \<Rightarrow> show_int n | None \<Rightarrow> [])
          (\<lambda>x v. v\<lparr>if_period_start := parseInt x\<rparr>)),
      helped ''Dari tanggal invoice. Default 7 hari.''
        (field ''due_days'' ''Jatuh Tempo (hari)'' (NumberInput ''min=1 max=90'' []) if_due_days (\<lambda>x v. v\<lparr>if_due_days := x\<rparr>))])"

definition invoice_defaultValues :: invoice_form where
  "invoice_defaultValues = \<lparr>if_subscription_id = [], if_amount = [], if_period_start = None, if_due_days = ''7''\<rparr>"

definition invoice_form_page :: "bool \<times> Subscription list option \<times> Customer list option \<Rightarrow> invoice_form form_page" where
  "invoice_form_page answers =
     \<lparr>fp_title = ''Buat Invoice'', fp_description = [], fp_cancel = ''Batal'', fp_submit = ''Buat Invoice'', fp_fields = invoice_fields answers\<rparr>"

text \<open>The bank and the reference are asked for a transfer only; what was typed stays when the method changes back.\<close>

definition payment_fields :: "payment_form \<Rightarrow> payment_form field list" where
  "payment_fields v =
     [field ''method'' ''Metode Pembayaran''
        (Select [] [(''cash'', ''Tunai (Cash) '' @ em_dash @ '' langsung dikonfirmasi''), (''transfer'', ''Transfer Bank '' @ em_dash @ '' langsung dikonfirmasi'')] [])
        py_method (\<lambda>x v. v\<lparr>py_method := x\<rparr>),
      field ''amount'' ''Jumlah (Rp)'' (NumberInput ''min=1'' []) py_amount (\<lambda>x v. v\<lparr>py_amount := x\<rparr>)]
     @ (if py_method v = ''transfer'' then
          [field ''bank_name'' ''Nama Bank'' (Input ''text'' ''BCA, Mandiri, BRI...'') py_bank_name (\<lambda>x v. v\<lparr>py_bank_name := x\<rparr>),
           field ''reference_number'' ''No. Referensi'' (Input ''text'' ''Nomor bukti transfer (opsional)'') py_reference_number
             (\<lambda>x v. v\<lparr>py_reference_number := x\<rparr>)]
        else [])"

definition payment_form_page :: "intl \<Rightarrow> string \<Rightarrow> rat \<Rightarrow> payment_form form_page" where
  "payment_form_page i invoiceNumber defaultAmount =
     \<lparr>fp_title = ''Catat Pembayaran'', fp_description = ''Invoice '' @ invoiceNumber @ '' '' @ em_dash @ '' '' @ formatIDR i defaultAmount,
      fp_cancel = ''Batal'', fp_submit = ''Simpan & Konfirmasi'', fp_fields = payment_fields\<rparr>"

definition collect_fields :: "string \<Rightarrow> string field list" where
  "collect_fields v =
     [helped ''Kode ditemukan di invoice cetak atau portal pelanggan.''
        (field ''code'' ''Kode Bayar'' (Input ''text'' ''Contoh: ABC12345'') (\<lambda>v. v) (\<lambda>x v. toUpperCase x))]"

definition collect_form_page :: "string form_page" where
  "collect_form_page =
     \<lparr>fp_title = ''Terima Pembayaran'', fp_description = ''Masukkan kode bayar dari invoice pelanggan.'', fp_cancel = ''Batal'',
      fp_submit = ''Konfirmasi'', fp_fields = collect_fields\<rparr>"

text \<open>The dialog that accepts or refuses a payment, with the proof of a transfer where there is one.\<close>

record decide_dialog =
  dd_title :: string
  dd_description :: "string list"
  dd_proof :: "(string \<times> bool) option"
  dd_reason :: bool
  dd_action :: string

definition decide_method :: "string \<Rightarrow> string" where
  "decide_method m = (if m = ''cash'' then ''Tunai'' else if m = ''transfer'' then ''Transfer'' else if m = ''portal'' then ''Portal'' else ''Online'')"

definition decide_view :: "intl \<Rightarrow> string \<Rightarrow> string \<Rightarrow> payment_mode \<Rightarrow> Payment option \<Rightarrow> decide_dialog" where
  "decide_view i api_base token md pay =
     (let given = (\<lambda>f. case pay of None \<Rightarrow> [] | Some p \<Rightarrow> or_else (f p) []);
          proof_path = Option.bind pay pt_proof_url;
          isPdf = (case proof_path of None \<Rightarrow> False | Some u \<Rightarrow> suffix ''.pdf'' (toLowerCase u)) in
      \<lparr>dd_title = (if md = ConfirmMode then ''Konfirmasi Pembayaran'' else ''Tolak Pembayaran''),
       dd_description = (case pay of
           None \<Rightarrow> []
         | Some p \<Rightarrow> [formatIDR i (pt_amount p) @ mid_dot @ decide_method (pt_method p)
             @ (if given pt_bank_name = [] then [] else mid_dot @ given pt_bank_name)]
             @ (if given pt_reference_number = [] then [] else [''#'' @ given pt_reference_number])),
       dd_proof = map_option (\<lambda>url. (url, isPdf)) (proofUrl api_base proof_path token),
       dd_reason = (md = RejectMode), dd_action = (if md = ConfirmMode then ''Konfirmasi'' else ''Tolak'')\<rparr>)"

section \<open>Registrations\<close>

definition schedule_field :: "('v \<Rightarrow> string) \<Rightarrow> (string \<Rightarrow> 'v \<Rightarrow> 'v) \<Rightarrow> 'v field" where
  "schedule_field get put = field ''scheduled_at'' ''Scheduled at (optional)'' (Input ''datetime-local'' []) get put"

definition approve_form_page :: "Registration \<Rightarrow> string form_page" where
  "approve_form_page r =
     \<lparr>fp_title = ''Approve registration'',
      fp_description = ''Creates (or links) a customer for '' @ quote (rg_full_name r) @ '' and sends a confirmation. Set an optional install schedule.'',
      fp_cancel = ''Cancel'', fp_submit = ''Approve'', fp_fields = (\<lambda>v. [schedule_field (\<lambda>v. v) (\<lambda>x v. x)])\<rparr>"

definition reject_form_page :: "string form_page" where
  "reject_form_page =
     \<lparr>fp_title = ''Reject registration'', fp_description = ''The applicant is notified with the reason below.'', fp_cancel = ''Cancel'',
      fp_submit = ''Reject'',
      fp_fields = (\<lambda>v. [field ''reason'' ''Reason''
        (TextArea (''Area belum tercover jaringan'' @ [char_of (226 :: nat), char_of (128 :: nat), char_of (166 :: nat)]) 3) (\<lambda>v. v) (\<lambda>x v. x)])\<rparr>"

text \<open>Technicians are operators and administrators.\<close>

definition candidates :: "AdminUser list option \<Rightarrow> AdminUser list" where
  "candidates users = filter (\<lambda>u. au_role u = ''operator'' \<or> au_role u = ''admin'') (or_else users [])"

definition assign_fields :: "AdminUser list option \<Rightarrow> string \<times> string \<Rightarrow> (string \<times> string) field list" where
  "assign_fields users v =
     [field ''assigned_to'' ''Technician''
        (Select ''Select a user'' (map (\<lambda>u. (show_int (au_id u), au_username u @ '' ('' @ au_role u @ '')'')) (candidates users)) [])
        fst (\<lambda>x (a, s). (x, s)),
      schedule_field snd (\<lambda>x (a, s). (a, x))]"

definition assign_form_page :: "AdminUser list option \<Rightarrow> Registration \<Rightarrow> (string \<times> string) form_page" where
  "assign_form_page users r =
     \<lparr>fp_title = ''Assign technician'', fp_description = ''Assign an operator to install '' @ quote (rg_full_name r) @ ''.'',
      fp_cancel = ''Cancel'', fp_submit = ''Assign'', fp_fields = assign_fields users\<rparr>"

section \<open>The status of a subscription\<close>

definition STATUS_IMPACT :: "(string \<times> string \<times> string \<times> string) list" where
  "STATUS_IMPACT =
     [(''isolir'', ''Isolir'', ''Koneksi dibatasi ke profil kecepatan rendah (throttle). Pelanggan masih bisa connect tapi kecepatan sangat terbatas.'', ''default''),
      (''suspended'', ''Suspend Keras'', ''PPPoE secret di-disable di router. Pelanggan tidak bisa connect sama sekali sampai status dipulihkan.'', ''destructive''),
      (''active'', ''Aktifkan'', ''Pulihkan koneksi ke profil normal. Outbox akan push perubahan ke router secara background.'', ''outline'')]"

definition quick_buttons :: "Subscription option \<Rightarrow> (string \<times> string) list" where
  "quick_buttons currentRow =
     List.map_filter (\<lambda>s. map_option (\<lambda>(label, desc, variant). (s, label)) (map_of STATUS_IMPACT s)) (quickActions currentRow)"

definition override_control :: control where
  "override_control = Select [] (map (\<lambda>s. (s, s)) SUBSCRIPTION_STATUSES) []"

definition override_disabled :: "bool \<Rightarrow> Subscription option \<Rightarrow> string \<Rightarrow> bool" where
  "override_disabled isPending currentRow chosen = (isPending \<or> chosen = or_else (map_option sb_status currentRow) [])"

section \<open>The public form of registration\<close>

definition ServiceButtons :: "(string \<times> string \<times> string) list" where
  "ServiceButtons =
     [(''pppoe'', ''PPPoE'', ''Internet rumahan dengan paket bulanan''), (''hotspot'', ''Hotspot'', ''Pemasangan akses point / RT-RW'')]"

text \<open>The card of a package: name, price a month, and the rate and description where it has them.\<close>

definition PackageCard :: "intl \<Rightarrow> PublicPackage \<Rightarrow> string list" where
  "PackageCard i p =
     [pk_name p, formatIDR i (pk_price p) @ ''/bln''] @ (if pk_rate_limit p = [] then [] else [pk_rate_limit p])
     @ (if pk_description p = [] then [] else [pk_description p])"

definition package_notice :: "bool \<Rightarrow> PublicPackage list \<Rightarrow> RegisterForm \<Rightarrow> string option" where
  "package_notice isLoading packages f =
     (if rf_service f = ''hotspot'' then
        Some (''Pendaftaran pemasangan Hotspot tidak memerlukan pilihan paket. Isi data kontak di bawah '' @ em_dash
          @ '' admin akan menghubungi Anda untuk konfirmasi lokasi dan konfigurasi.'')
      else if isLoading then Some (''Memuat paket'' @ [char_of (226 :: nat), char_of (128 :: nat), char_of (166 :: nat)])
      else if pppoePackages packages = [] then
        Some ''Paket PPPoE belum tersedia saat ini. Admin akan menghubungi Anda untuk menentukan paket setelah pendaftaran.''
      else None)"

definition register_fields :: "bool \<times> PublicPackage list \<Rightarrow> RegisterForm \<Rightarrow> RegisterForm field list" where
  "register_fields = (\<lambda>(isLoading, packages) f.
     [field ''service'' ''Jenis layanan'' (Buttons (map fst ServiceButtons)) rf_service selectService]
     @ (if rf_service f = ''pppoe'' \<and> package_notice isLoading packages f = None then
          [field ''package'' ''Pilih paket *'' (Buttons (map (\<lambda>p. show_int (pk_id p)) (pppoePackages packages)))
             (\<lambda>f. case rf_packageId f of Some n \<Rightarrow> show_int n | None \<Rightarrow> []) (\<lambda>x f. f\<lparr>rf_packageId := parseInt x\<rparr>)]
        else [])
     @ [field ''fullName'' ''Nama lengkap *'' (Input ''text'' ''Budi Santoso'') rf_fullName (\<lambda>x f. f\<lparr>rf_fullName := x\<rparr>),
        field ''phone'' ''Nomor HP / WhatsApp *'' (Input ''tel'' ''08123456789'') rf_phone (\<lambda>x f. f\<lparr>rf_phone := x\<rparr>),
        field ''address'' ''Alamat pemasangan *'' (TextArea ''Jl. Mawar No. 1, RT01/RW02'' 2) rf_address (\<lambda>x f. f\<lparr>rf_address := x\<rparr>),
        field ''area'' ''Area / Blok (opsional)'' (Input ''text'' ''Blok A'') rf_area (\<lambda>x f. f\<lparr>rf_area := x\<rparr>),
        field ''notes'' ''Catatan (opsional)'' (Input ''text'' ''Patokan rumah, dll.'') rf_notes (\<lambda>x f. f\<lparr>rf_notes := x\<rparr>)])"

text \<open>After a success the thanks take the place of the form.\<close>

definition register_page :: "int option \<Rightarrow> 'f \<Rightarrow> string + 'f" where
  "register_page doneId form =
     (case doneId of
        Some n \<Rightarrow> Inl (''Terima kasih. Pengajuan Anda (No. #'' @ show_int n @ '') sedang ditinjau admin. Kami akan menghubungi Anda via WhatsApp untuk penjadwalan pemasangan.'')
      | None \<Rightarrow> Inr form)"

section \<open>The contracts\<close>

interpretation invoice_view: form_view invoice_fields invoice_schema "\<lambda>_. True"
  by unfold_locales
    (auto simp: invoice_fields_def invoice_schema_def field_simps_page z_min1_def z_when_def split: prod.splits if_splits)

interpretation payment_view: form_view "\<lambda>_ :: unit. payment_fields" payment_schema "\<lambda>v. py_method v \<in> {''cash'', ''transfer''}"
  by (rule form_viewI) (auto simp: payment_fields_def payment_schema_def field_simps_page)

interpretation collect_view: form_view "\<lambda>_ :: unit. collect_fields" collect_schema "\<lambda>_. True"
  by (rule form_viewI) (auto simp: collect_fields_def collect_schema_def field_simps_page)

section \<open>Laws\<close>

text \<open>The button of a proof opens the payment's own file, with the token as a parameter, and only when there is one.\<close>

lemma decide_proof:
  "dd_proof (decide_view i base token md (Some p)) =
     (if or_else (pt_proof_url p) [] = [] then None
      else Some (base @ or_else (pt_proof_url p) [] @ ''?access_token='' @ encodeURIComponent token, suffix ''.pdf'' (toLowerCase (or_else (pt_proof_url p) []))))"
  by (auto simp: decide_view_def proofUrl_def Let_def split: option.split)

text \<open>Every quick action has its explanation, and none leads to the status a subscription already has.\<close>

lemma quick_actions_explained:
  "map fst (quick_buttons currentRow) = quickActions currentRow"
  "r = Some s \<Longrightarrow> sb_status s \<notin> set (map fst (quick_buttons r))"
proof -
  have q: "map_of QUICK_ACTIONS s = Some l \<Longrightarrow> s \<notin> set l \<and> map fst (List.map_filter (\<lambda>s. map_option (\<lambda>(label, desc, variant). (s, label)) (map_of STATUS_IMPACT s)) l) = l"
    for s l
    by (auto simp: QUICK_ACTIONS_def STATUS_IMPACT_def List.map_filter_simps split: if_splits)
  then show *: "map fst (quick_buttons currentRow) = quickActions currentRow" for currentRow
    by (cases "map_of QUICK_ACTIONS (or_else (map_option sb_status currentRow) [])")
      (auto simp: quick_buttons_def quickActions_def List.map_filter_simps)
  show "sb_status s \<notin> set (map fst (quick_buttons r))" if "r = Some s"
    using q [of "sb_status s"] that by (cases "map_of QUICK_ACTIONS (sb_status s)") (auto simp: * quickActions_def simp del: set_map)
qed

text \<open>The public form can always be completed, whatever has been typed before and whether packages have come or not.\<close>

theorem register_completable:
  "\<exists>w s. fill (register_fields a) [(''service'', ''hotspot''), (''fullName'', ''Budi''), (''phone'', ''0812''), (''address'', ''Jl. Mawar'')] f = Some w
     \<and> register_submit (snd a) w = Inr (Some s) \<and> conforms RegistrationSubmitInput (request_body s)"
proof -
  have t: "js_trim ''Budi'' = ''Budi''" "js_trim ''0812'' = ''0812''" "js_trim ''Jl. Mawar'' = ''Jl. Mawar''"
    by (rule js_trim_id, simp add: is_ws_def code_of_def)+
  let ?w = "(selectService ''hotspot'' f)\<lparr>rf_fullName := ''Budi'', rf_phone := ''0812'', rf_address := ''Jl. Mawar''\<rparr>"
  have "fill (register_fields a) [(''service'', ''hotspot''), (''fullName'', ''Budi''), (''phone'', ''0812''), (''address'', ''Jl. Mawar'')] f = Some ?w"
    by (cases a) (simp add: enter_def usable_def register_fields_def field_simps_page ServiceButtons_def selectService_def package_notice_def)
  moreover obtain s where "register_submit (snd a) ?w = Inr (Some s)" "request_body s = JObj (register_body (snd a) ?w)"
    by (simp add: register_submit_def selectService_def t request_body_def useSubmitRegistration_def submitRegistration_def)
  moreover have "conforms RegistrationSubmitInput (JObj (register_body (snd a) ?w))"
    by (simp add: register_body_def selectService_def RegistrationSubmitInput_def)
  ultimately show ?thesis by metis
qed

lemma assign_completable:
  assumes "u \<in> set (candidates users)" "0 < au_id u"
  shows "\<exists>w s. fill (assign_fields users) [(''assigned_to'', show_int (au_id u))] v = Some w \<and> assign_confirm z (Some r) (fst w) (snd w) = Inr (Some s)"
  using assms by (cases v) (auto simp: enter_def usable_def assign_fields_def field_simps_page assign_confirm_def to_number_def StringToNumber_show_int image_image)

end
