(* ===== verification/Staff_Views.thy ===== *)
theory Staff_Views
  imports Form_View Form_Laws
begin

text \<open>
  The dialogs of forms that check their fields themselves: routers, staff accounts, sales, pools, schedulers, scripts and
  the template drawer. Their contract is \<open>completable_form\<close>: whatever has been typed, the form can still be completed
  and sent.
\<close>

section \<open>The contract\<close>

locale completable_form =
  fixes shown :: "'v \<Rightarrow> 'v field list"
    and submit :: "'v \<Rightarrow> ui_event list + submission option"
    and inv :: "'v \<Rightarrow> bool"
    and example :: "(string \<times> string) list"
  assumes keeps: "inv v \<Longrightarrow> f \<in> set (shown v) \<Longrightarrow> fl_enabled f \<Longrightarrow> accepts (fl_control f) x \<Longrightarrow> inv (fl_set f x v)"
    and completes: "inv v \<Longrightarrow> \<exists>w s. fill shown example v = Some w \<and> submit w = Inr (Some s)"
begin

sublocale edits: inductive_invariant inv "edit (\<lambda>_ :: unit. shown)" inv
  by unfold_locales (auto elim: edit_elim intro: keeps)

lemma never_stuck:
  assumes "inv v" "(edit (\<lambda>_ :: unit. shown))\<^sup>*\<^sup>* v w"
  shows "\<exists>u s. fill shown example w = Some u \<and> submit u = Inr (Some s)"
  using completes edits.inv_run [OF assms(2,1)] by blast

end

section \<open>Routers\<close>

definition tls_options :: "(string \<times> string) list" where
  "tls_options = [(''false'', ''No (api 8728)''), (''true'', ''Yes (api-ssl 8729)'')]"

definition router_fields :: "form_mode \<Rightarrow> bool \<Rightarrow> RouterDraft \<Rightarrow> RouterDraft field list" where
  "router_fields md isPending d =
     [locked isPending (field ''display_name'' ''Name'' (Input ''text maxLength=128'' ''Office Router'') rt_display_name
        (\<lambda>x d. d\<lparr>rt_display_name := x\<rparr>)),
      locked isPending (field ''host'' ''Host'' (Input ''text'' ''192.168.1.1'') rt_host (\<lambda>x d. d\<lparr>rt_host := x\<rparr>)),
      locked isPending (field ''port'' ''Port'' (NumberInput ''min=1 max=65535'' ''8728'')
        (\<lambda>d. case rt_port d of Some n \<Rightarrow> show_rat n | None \<Rightarrow> ''NaN'') setPort),
      locked isPending (field ''username'' ''Username'' (Input ''text'' ''admin'') rt_username (\<lambda>x d. d\<lparr>rt_username := x\<rparr>)),
      locked isPending (field ''password'' (''Password'' @ (if md = EditMode then ''(optional '' @ em_dash @ '' blank to keep)'' else []))
        (Input ''password'' (if md = EditMode then ''Leave blank to keep'' else [])) rt_password (\<lambda>x d. d\<lparr>rt_password := x\<rparr>)),
      field ''use_tls'' ''Use TLS'' (Select [] tls_options []) rt_use_tls (\<lambda>x d. d\<lparr>rt_use_tls := x\<rparr>)]"

definition router_form_page :: "form_mode \<Rightarrow> RouterPublicView option \<Rightarrow> bool \<Rightarrow> RouterDraft form_page" where
  "router_form_page md selectedRouter isPending =
     \<lparr>fp_title = (if md = AddMode then ''Add Router'' else ''Edit '' @ quote (case selectedRouter of Some r \<Rightarrow> rv_display_name r | None \<Rightarrow> ''undefined'')),
      fp_description = (if md = AddMode then ''Add a new MikroTik router. The connection is tested before saving.''
        else ''Update router details. Leave password blank to keep the current one.''),
      fp_cancel = ''Cancel'', fp_submit = (if md = AddMode then ''Add Router'' else ''Save changes''), fp_fields = router_fields md isPending\<rparr>"

section \<open>Staff accounts\<close>

definition role_options :: "(string \<times> string) list" where
  "role_options =
     [(''admin'', ''Admin '' @ em_dash @ '' full access''), (''operator'', ''Operator '' @ em_dash @ '' manage & assign''),
      (''viewer'', ''Viewer '' @ em_dash @ '' read-only'')]"

definition admin_user_fields :: "form_mode \<Rightarrow> bool \<Rightarrow> AdminUserDraft \<Rightarrow> AdminUserDraft field list" where
  "admin_user_fields md isPending d =
     map (locked isPending)
       ([field ''username'' ''Username'' (Input ''text minLength=3 maxLength=64'' []) ad_username (\<lambda>x d. d\<lparr>ad_username := x\<rparr>),
         field ''password'' (if md = AddMode then ''Password'' else ''New password(optional)'')
           (Input (if md = AddMode then ''password minLength=8 maxLength=128'' else ''password minLength=0 maxLength=128'')
             (if md = EditMode then ''Leave blank to keep'' else [])) ad_password (\<lambda>x d. d\<lparr>ad_password := x\<rparr>),
         field ''role'' ''Role'' (Select [] role_options []) ad_role (\<lambda>x d. d\<lparr>ad_role := x\<rparr>)]
        @ (if md = EditMode then
             [helped ''Inactive users cannot sign in.''
               (field ''active'' ''Active'' Switch (\<lambda>d. bool_text (ad_active d)) (\<lambda>x d. d\<lparr>ad_active := (x = ''true'')\<rparr>))]
           else []))"

definition admin_user_form_page :: "form_mode \<Rightarrow> AdminUser option \<Rightarrow> bool \<Rightarrow> AdminUserDraft form_page" where
  "admin_user_form_page md tgt isPending =
     \<lparr>fp_title = (if md = AddMode then ''Add admin user'' else ''Edit '' @ quote (case tgt of Some t \<Rightarrow> au_username t | None \<Rightarrow> ''undefined'')),
      fp_description = (if md = AddMode then ''Create a new admin or staff account. Username must be unique.''
        else ''Update account details. Leave password blank to keep the current one.''),
      fp_cancel = ''Cancel'', fp_submit = (if md = AddMode then ''Create user'' else ''Save changes''), fp_fields = admin_user_fields md isPending\<rparr>"

section \<open>Sales\<close>

definition sale_fields :: "SaleForm \<Rightarrow> SaleForm field list" where
  "sale_fields f =
     [field ''username'' ''Username *'' (Input ''text required'' ''vc-abc123'') sf_username (\<lambda>x f. f\<lparr>sf_username := x\<rparr>),
      field ''profile_name'' ''Profile'' (Input ''text'' ''voucher-1d'') sf_profile_name (\<lambda>x f. f\<lparr>sf_profile_name := x\<rparr>),
      field ''server'' ''Server'' (Input ''text'' ''hotspot1'') sf_server (\<lambda>x f. f\<lparr>sf_server := x\<rparr>),
      field ''price'' ''Price (IDR)'' (NumberInput ''min=0 step=500'' ''10000'') sf_price (\<lambda>x f. f\<lparr>sf_price := x\<rparr>),
      field ''sold_at'' ''Sold At'' (Input ''datetime-local'' []) sf_sold_at (\<lambda>x f. f\<lparr>sf_sold_at := x\<rparr>)]"

definition sale_form_page :: "SaleForm form_page" where
  "sale_form_page =
     \<lparr>fp_title = ''Record Sale'',
      fp_description = ''Manually log a voucher sale. Only username is required '' @ em_dash @ '' other fields default to whatever RouterOS provides.'',
      fp_cancel = ''Cancel'', fp_submit = ''Record Sale'', fp_fields = sale_fields\<rparr>"

text \<open>Closing empties the form; a dialog that sends cannot be dismissed.\<close>

definition sale_dismiss :: "bool \<Rightarrow> SaleForm \<Rightarrow> SaleForm option" where
  "sale_dismiss isPending f = (if isPending then None else Some EMPTY_SALE)"

text \<open>The import: its two views, with the rows of the result (label, value, tone).\<close>

definition StatRow :: "string \<Rightarrow> js \<Rightarrow> string \<Rightarrow> string \<times> string \<times> string" where
  "StatRow label value tone =
     (label, js_String value,
      if tone = ''success'' then ''text-emerald-600'' else if tone = ''warn'' then ''text-amber-600'' else if tone = ''danger'' then ''text-destructive''
      else if tone = ''muted'' then ''text-muted-foreground'' else [])"

definition import_rows :: "js \<Rightarrow> (string \<times> string \<times> string) list" where
  "import_rows res =
     [StatRow ''Total records'' (js_optget res ''total'') ''muted'', StatRow ''Imported'' (js_optget res ''imported'') ''success'',
      StatRow ''Skipped (duplicates)'' (js_optget res ''skipped'') ''warn'',
      StatRow ''Errors'' (js_optget res ''errors'')
        (case js_Number (js_optget res ''errors'') of Some n \<Rightarrow> if 0 < n then ''danger'' else ''muted'' | None \<Rightarrow> ''muted'')]"

record import_view =
  iv_title :: string
  iv_description :: string
  iv_rows :: "(string \<times> string \<times> string) list"
  iv_buttons :: "(string \<times> bool) list"

definition import_dialog_view :: "import_dialog \<Rightarrow> import_view" where
  "import_dialog_view s =
     (case im_result s of
        Some res \<Rightarrow>
          \<lparr>iv_title = ''Import Complete'', iv_description = ''Sales records have been synced. The page will refresh shortly.'',
           iv_rows = import_rows res, iv_buttons = [(''Close'', False)]\<rparr>
      | None \<Rightarrow>
          \<lparr>iv_title = ''Import Sales from RouterOS'',
           iv_description = ''Pull sales records written by on-login scripts in `/system/script` into the database. Duplicates are skipped automatically.'',
           iv_rows = [], iv_buttons = [(''Cancel'', im_pending s), (''Import Now'', im_pending s)]\<rparr>)"

section \<open>Pools, schedulers, scripts, templates\<close>

definition pool_fields :: "PoolForm \<Rightarrow> PoolForm field list" where
  "pool_fields f =
     [field ''name'' ''Name'' (Input ''text'' ''hs-pool'') pl_name (\<lambda>x f. f\<lparr>pl_name := x\<rparr>),
      field ''ranges'' ''Ranges'' (Input ''text'' ''10.0.0.2-10.0.0.254'') pl_ranges (\<lambda>x f. f\<lparr>pl_ranges := x\<rparr>),
      field ''nextPool'' ''Next Pool (optional)'' (Input ''text'' ''none'') pl_nextPool (\<lambda>x f. f\<lparr>pl_nextPool := x\<rparr>)]"

definition pool_form_page :: "PoolForm form_page" where
  "pool_form_page =
     \<lparr>fp_title = ''Add IP Pool'', fp_description = ''Create a RouterOS /ip/pool used by PPP / hotspot profiles.'', fp_cancel = ''Cancel'',
      fp_submit = ''Create'', fp_fields = pool_fields\<rparr>"

definition scheduler_fields :: "SchedulerForm \<Rightarrow> SchedulerForm field list" where
  "scheduler_fields f =
     [field ''name'' ''Name'' (Input ''text'' ''nightly-task'') sd_name (\<lambda>x f. f\<lparr>sd_name := x\<rparr>),
      field ''interval'' ''Interval'' (Input ''text'' ''1d 00:00:00'') sd_interval (\<lambda>x f. f\<lparr>sd_interval := x\<rparr>),
      field ''onEvent'' ''On Event'' (TextArea ''/system script run my-script'' 4) sd_onEvent (\<lambda>x f. f\<lparr>sd_onEvent := x\<rparr>)]"

definition scheduler_form_page :: "SchedulerForm form_page" where
  "scheduler_form_page =
     \<lparr>fp_title = ''Add Scheduler'', fp_description = ''Create a RouterOS /system/scheduler entry.'', fp_cancel = ''Cancel'',
      fp_submit = ''Create'', fp_fields = scheduler_fields\<rparr>"

definition script_fields :: "string \<times> string \<Rightarrow> (string \<times> string) field list" where
  "script_fields f =
     [field ''name'' ''Name'' (Input ''text'' ''my-script'') fst (\<lambda>x (name, source). (x, source)),
      field ''source'' ''Source'' (TextArea ('':log info '' @ [char_of (34 :: nat)] @ ''hello'' @ [char_of (34 :: nat)]) 6) snd
        (\<lambda>x (name, source). (name, x))]"

definition script_form_page :: "(string \<times> string) form_page" where
  "script_form_page =
     \<lparr>fp_title = ''Add Script'', fp_description = ''Create a RouterOS /system/script entry.'', fp_cancel = ''Cancel'', fp_submit = ''Create'',
      fp_fields = script_fields\<rparr>"

definition template_fields :: "string \<times> string \<times> bool \<Rightarrow> (string \<times> string \<times> bool) field list" where
  "template_fields f =
     [field ''name'' ''Name'' (Input ''text'' []) fst (\<lambda>x (name, body, active). (x, body, active)),
      field ''body'' ''Body'' (TextArea [] 8) (\<lambda>(name, body, active). body) (\<lambda>x (name, body, active). (name, x, active)),
      helped ''Inactive templates are skipped when sending.''
        (field ''active'' ''Active'' Switch (\<lambda>(name, body, active). bool_text active) (\<lambda>x (name, body, active). (name, body, x = ''true'')))]"

definition template_start :: "MessageTemplate \<Rightarrow> string \<times> string \<times> bool" where
  "template_start t = (mt_name t, mt_body t, mt_active t)"

text \<open>The variables as the text that stands for them in a body; the list is left out when there are none.\<close>

definition template_chips :: "MessageTemplate \<Rightarrow> string list" where
  "template_chips t = map (\<lambda>v. ''{{.'' @ v @ ''}}'') (template_vars (mt_variables t))"

definition template_form_page :: "MessageTemplate \<Rightarrow> (string \<times> string \<times> bool) form_page" where
  "template_form_page t =
     \<lparr>fp_title = ''Edit Template'', fp_description = mt_slug t @ '' '' @ em_dash @ '' WhatsApp message template.'', fp_cancel = ''Cancel'',
      fp_submit = ''Save Changes'', fp_fields = template_fields\<rparr>"

section \<open>Every form can be completed\<close>

lemma sample_texts [simp]:
  "js_trim ''core'' = ''core''" "js_trim ''10.0.0.1'' = ''10.0.0.1''" "js_trim ''staff'' = ''staff''" "js_trim ''body'' = ''body''"
  by (rule js_trim_id, simp add: is_ws_def code_of_def)+

lemma sample_numbers: "StringToNumber ''8728'' = Some 8728"
  by (subst StringToNumber_digits) (simp_all add: read_digits_def is_digit_def code_of_def digit_val_def)

interpretation router_view: completable_form "router_fields AddMode False" "router_handleSubmit (AddMode, t)" "\<lambda>_. True"
  "[(''display_name'', ''core''), (''host'', ''10.0.0.1''), (''port'', ''8728''), (''username'', ''staff''), (''password'', ''core'')]" for t
  by unfold_locales
    (auto simp: enter_def usable_def router_fields_def field_simps_page setPort_def sample_numbers router_handleSubmit_def)

interpretation admin_user_view: completable_form "admin_user_fields AddMode False" "admin_user_handleSubmit (AddMode, t)" "\<lambda>_. True"
  "[(''username'', ''staff''), (''password'', ''12345678'')]" for t
  by unfold_locales (auto simp: enter_def usable_def admin_user_fields_def field_simps_page admin_user_handleSubmit_def)

interpretation sale_view: completable_form sale_fields "record_sale_handleSubmit z (Some rid)" "\<lambda>_. True" "[(''username'', ''staff'')]" for z rid
  by unfold_locales (auto simp: enter_def usable_def sale_fields_def field_simps_page record_sale_handleSubmit_def)

interpretation pool_view: completable_form pool_fields "pool_handleSubmit rid" "\<lambda>_. True" "[(''name'', ''core''), (''ranges'', ''10.0.0.1'')]" for rid
  by unfold_locales (auto simp: enter_def usable_def pool_fields_def field_simps_page pool_handleSubmit_def)

interpretation scheduler_view: completable_form scheduler_fields "scheduler_handleSubmit rid" "\<lambda>_. True" "[(''name'', ''core'')]" for rid
  by unfold_locales (auto simp: enter_def usable_def scheduler_fields_def field_simps_page scheduler_handleSubmit_def)

interpretation script_view: completable_form script_fields "script_handleSubmit rid" "\<lambda>_. True" "[(''name'', ''core''), (''source'', ''body'')]" for rid
  by unfold_locales (auto simp: enter_def usable_def script_fields_def field_simps_page script_handleSubmit_def split: prod.splits)

interpretation template_view: completable_form template_fields "template_handleSubmit t" "\<lambda>_. True" "[(''name'', ''core''), (''body'', ''body'')]" for t
  by unfold_locales (auto simp: enter_def usable_def template_fields_def field_simps_page template_handleSubmit_def split: prod.splits)

section \<open>Laws\<close>

text \<open>The option that names the port of the encrypted service leaves the port as it is.\<close>

lemma tls_keeps_port:
  "enter (router_fields md False) (''use_tls'', ''true'') d = Some e \<Longrightarrow> rt_use_tls e = ''true'' \<and> rt_port e = rt_port d"
  by (auto simp: enter_def usable_def router_fields_def field_simps_page tls_options_def)

text \<open>While a request runs only the switch to TLS can be changed.\<close>

lemma pending_locked:
  "f \<in> set (router_fields md True d) \<Longrightarrow> fl_enabled f \<longleftrightarrow> fl_name f = ''use_tls''"
  "g \<in> set (admin_user_fields md True e) \<Longrightarrow> \<not> fl_enabled g"
  by (auto simp: router_fields_def admin_user_fields_def field_simps_page)

text \<open>A result is shown until the dialog is opened again; an import that runs has both buttons locked.\<close>

lemma import_result_kept:
  "iv_rows (import_dialog_view (import_settled (Inr res) s)) = import_rows res"
  "iv_rows (import_dialog_view (import_render True (s\<lparr>im_prevOpen := False\<rparr>))) = []"
  "im_pending s \<Longrightarrow> im_result s = None \<Longrightarrow> list_all snd (iv_buttons (import_dialog_view s))"
  by (simp_all add: import_dialog_view_def import_settled_def import_render_def)

end
