(* ===== verification/Settings_Views.thy ===== *)
theory Settings_Views
  imports Form_View Form_Laws
begin

text \<open>
  What the settings pages show (\<^verbatim>\<open>features/settings\<close>: general, billing, notifications, payment gateway, backup, account):
  fields with their explanations, the placeholder of a stored secret, the test of the payment gateway, and the section
  of the account page that hides its password fields. Each form is an instance of \<open>form_view\<close> over its schema.
\<close>

section \<open>Pages that load\<close>

definition while_loading :: "bool \<Rightarrow> nat \<Rightarrow> 'p \<Rightarrow> nat + 'p" where
  "while_loading isLoading skeletons page = (if isLoading then Inl skeletons else Inr page)"

text \<open>A settings form has a button to save and no other.\<close>

definition settings_page :: "string \<Rightarrow> ('v \<Rightarrow> 'v field list) \<Rightarrow> 'v form_page" where
  "settings_page submit shown = \<lparr>fp_title = [], fp_description = [], fp_cancel = [], fp_submit = submit, fp_fields = shown\<rparr>"

definition right_arrow :: string where
  "right_arrow = [char_of (226 :: nat), char_of (134 :: nat), char_of (146 :: nat)]"

definition in_double_quotes :: "string \<Rightarrow> string" where
  "in_double_quotes s = [char_of (34 :: nat)] @ s @ [char_of (34 :: nat)]"

section \<open>General, billing, backup\<close>

definition general_fields :: "GeneralValues \<Rightarrow> GeneralValues field list" where
  "general_fields v =
     [helped ''Nama ISP atau perusahaan Anda. Ditampilkan di invoice dan notifikasi pelanggan.''
        (field ''company_name'' ''Nama Perusahaan'' (Input ''text'' ''PT. Internet Nusantara'') gs_company_name (\<lambda>x v. v\<lparr>gs_company_name := x\<rparr>)),
      helped (''Dicetak di voucher sebagai '' @ in_double_quotes (''Login: http://'' @ ellipsis) @ ''. Kosongkan jika tidak perlu.'')
        (field ''hotspot_login_url'' ''URL Login Hotspot'' (Input ''text'' ''wifi.example.com'') gs_hotspot_login_url
          (\<lambda>x v. v\<lparr>gs_hotspot_login_url := x\<rparr>))]"

definition billing_config_fields :: "BillingValues \<Rightarrow> BillingValues field list" where
  "billing_config_fields v =
     [helped (''Tanggal setiap bulan (1'' @ en_dash @ ''28) saat tagihan baru dibuat secara otomatis.'')
        (field ''default_billing_day'' ''Tanggal Tagihan Default'' (NumberInput ''min=1 max=28'' []) bs_default_billing_day
          (\<lambda>x v. v\<lparr>bs_default_billing_day := x\<rparr>)),
      helped ''Jumlah hari dari tanggal tagihan sampai invoice jatuh tempo.''
        (field ''invoice_due_days'' ''Jatuh Tempo Invoice (hari)'' (NumberInput ''min=1'' []) bs_invoice_due_days
          (\<lambda>x v. v\<lparr>bs_invoice_due_days := x\<rparr>)),
      helped ''Hari setelah jatuh tempo saat koneksi pelanggan di-isolir. 0 = isolir langsung.''
        (field ''isolir_after_days'' ''Isolir Setelah (hari)'' (NumberInput ''min=0'' []) bs_isolir_after_days
          (\<lambda>x v. v\<lparr>bs_isolir_after_days := x\<rparr>)),
      helped ''Hari setelah jatuh tempo saat akun pelanggan di-disable sepenuhnya di router.''
        (field ''hard_suspend_after_days'' ''Suspend Penuh Setelah (hari)'' (NumberInput ''min=1'' []) bs_hard_suspend_after_days
          (\<lambda>x v. v\<lparr>bs_hard_suspend_after_days := x\<rparr>)),
      helped ''Nama profil MikroTik yang dipakai saat pelanggan di-isolir (profil harus sudah ada di router).''
        (field ''isolir_profile_name'' ''Nama Profil Isolir'' (Input ''text'' ''isolir'') bs_isolir_profile_name
          (\<lambda>x v. v\<lparr>bs_isolir_profile_name := x\<rparr>))]"

definition BILLING_KEYS :: "string list" where
  "BILLING_KEYS =
     [''billing.default_billing_day'', ''billing.invoice_due_days'', ''billing.isolir_after_days'', ''billing.hard_suspend_after_days'',
      ''billing.isolir_profile_name'']"

definition backup_fields :: "BackupValues \<Rightarrow> BackupValues field list" where
  "backup_fields v =
     [helped ''Backup konfigurasi router dan database dilakukan setiap hari pukul 03.00.''
        (field ''enabled'' ''Aktifkan Backup Otomatis'' Switch (\<lambda>v. bool_text (bk_enabled v)) (\<lambda>x v. v\<lparr>bk_enabled := (x = ''true'')\<rparr>)),
      helped ''Path direktori tempat file backup disimpan di server. Pastikan direktori dapat ditulis.''
        (field ''path'' ''Direktori Output Backup'' (Input ''text'' ''./backups'') bk_path (\<lambda>x v. v\<lparr>bk_path := x\<rparr>)),
      helped ''File backup lebih lama dari nilai ini akan dihapus otomatis.''
        (field ''retention_days'' ''Retensi Backup (hari)'' (NumberInput ''min=1'' []) bk_retention_days (\<lambda>x v. v\<lparr>bk_retention_days := x\<rparr>))]"

definition BACKUP_KEYS :: "string list" where
  "BACKUP_KEYS = [''backup.enabled'', ''backup.path'', ''backup.retention_days'']"

definition general_page :: "bool \<Rightarrow> nat + GeneralValues form_page" where
  "general_page isLoading = while_loading isLoading 2 (settings_page ''Simpan'' general_fields)"

definition billing_config_page :: "bool \<Rightarrow> nat + BillingValues form_page" where
  "billing_config_page isLoading = while_loading isLoading (length BILLING_KEYS) (settings_page ''Simpan'' billing_config_fields)"

definition backup_page :: "bool \<Rightarrow> nat + BackupValues form_page" where
  "backup_page isLoading = while_loading isLoading (length BACKUP_KEYS) (settings_page ''Simpan'' backup_fields)"

section \<open>Notifications\<close>

text \<open>A stored secret comes masked: its field stays empty and says that something is stored.\<close>

definition stored_placeholder :: string where
  "stored_placeholder = concat (replicate 8 bullet) @ ''  (tersimpan, kosongkan untuk tidak mengubah)''"

definition secret_placeholder :: "string \<Rightarrow> string \<Rightarrow> SystemSetting list option \<Rightarrow> string" where
  "secret_placeholder key otherwise settings =
     (case Option.bind settings (find_setting key) of Some s \<Rightarrow> if isMasked s then stored_placeholder else otherwise | None \<Rightarrow> otherwise)"

definition getBotTokenPlaceholder :: "SystemSetting list option \<Rightarrow> string" where
  "getBotTokenPlaceholder = secret_placeholder ''notification.telegram_bot_token'' ''1234567890:ABCdefGhIJKlmNoPQRsTUVwxYZ''"

definition notification_fields :: "SystemSetting list option \<Rightarrow> NotificationValues \<Rightarrow> NotificationValues field list" where
  "notification_fields settings v =
     [helped ''Kirim notifikasi jatuh tempo dan status layanan via WhatsApp.''
        (field ''wa_enabled'' ''Aktifkan WhatsApp'' Switch (\<lambda>v. bool_text (ns_wa_enabled v)) (\<lambda>x v. v\<lparr>ns_wa_enabled := (x = ''true'')\<rparr>)),
      helped ''Nomor WhatsApp admin (format internasional tanpa +). Menerima alert internal seperti eskalasi outbox.''
        (field ''admin_phone'' ''Nomor Admin'' (Input ''text'' ''628123456789'') ns_admin_phone (\<lambda>x v. v\<lparr>ns_admin_phone := x\<rparr>)),
      helped ''Kirim notifikasi ke Telegram Bot. Bot token dan Chat ID harus sudah diisi.''
        (field ''telegram_enabled'' ''Aktifkan Telegram'' Switch (\<lambda>v. bool_text (ns_telegram_enabled v))
          (\<lambda>x v. v\<lparr>ns_telegram_enabled := (x = ''true'')\<rparr>)),
      helped ''Token dari @BotFather. Kosongkan jika tidak ingin mengubah nilai yang tersimpan.''
        (field ''telegram_bot_token'' ''Bot Token'' (Input ''password'' (getBotTokenPlaceholder settings)) ns_telegram_bot_token
          (\<lambda>x v. v\<lparr>ns_telegram_bot_token := x\<rparr>)),
      helped ''ID grup atau channel Telegram tujuan notifikasi. Gunakan @userinfobot untuk mengetahui ID.''
        (field ''telegram_chat_id'' ''Chat ID'' (Input ''text'' ''-100123456789'') ns_telegram_chat_id (\<lambda>x v. v\<lparr>ns_telegram_chat_id := x\<rparr>))]"

definition NOTIF_KEYS :: "string list" where
  "NOTIF_KEYS =
     [''notification.wa_enabled'', ''notification.admin_phone'', ''notification.telegram_enabled'', ''notification.telegram_bot_token'',
      ''notification.telegram_chat_id'']"

definition notification_page :: "bool \<Rightarrow> SystemSetting list option \<Rightarrow> nat + NotificationValues form_page" where
  "notification_page isLoading settings = while_loading isLoading (length NOTIF_KEYS) (settings_page ''Simpan'' (notification_fields settings))"

section \<open>Payment gateway\<close>

definition XENDIT_KEYS :: "string list" where
  "XENDIT_KEYS =
     [''payment.xendit_enabled'', ''payment.xendit_secret_key'', ''payment.xendit_webhook_token'', ''payment.xendit_invoice_duration'',
      ''payment.app_url'']"

text \<open>The settings of the page are those with its keys.\<close>

definition payment_gateway_reset :: "SystemSetting list \<Rightarrow> PaymentValues" where
  "payment_gateway_reset settings = payment_gateway_load (settings_map (filter (\<lambda>s. sg_key s \<in> set XENDIT_KEYS) settings))"

definition isConfigured :: "SystemSetting list option \<Rightarrow> bool" where
  "isConfigured settings = list_ex (\<lambda>s. sg_key s = ''payment.xendit_secret_key'' \<and> isMasked (sg_value s)) (or_else settings [])"

definition payment_gateway_badge :: "SystemSetting list option \<Rightarrow> string" where
  "payment_gateway_badge settings = (if isConfigured settings then ''Terkonfigurasi'' else ''Belum Dikonfigurasi'')"

definition xendit_dashboard :: string where
  "xendit_dashboard = ''Xendit Dashboard '' @ right_arrow @ '' ''"

definition payment_gateway_fields :: "SystemSetting list option \<Rightarrow> PaymentValues \<Rightarrow> PaymentValues field list" where
  "payment_gateway_fields settings v =
     [helped (''Tampilkan tombol '' @ in_double_quotes ''Bayar Online'' @ '' di portal pelanggan. Secret key harus sudah diisi sebelum mengaktifkan.'')
        (field ''xendit_enabled'' ''Aktifkan Xendit'' Switch (\<lambda>v. bool_text (pg_xendit_enabled v)) (\<lambda>x v. v\<lparr>pg_xendit_enabled := (x = ''true'')\<rparr>)),
      helped (''Dari '' @ xendit_dashboard @ ''API Keys. Kosongkan jika tidak ingin mengubah nilai yang tersimpan.'')
        (field ''xendit_secret_key'' ''API Secret Key''
          (Input ''password'' (secret_placeholder ''payment.xendit_secret_key'' ''xnd_production_xxxxx...'' settings))
          pg_xendit_secret_key (\<lambda>x v. v\<lparr>pg_xendit_secret_key := x\<rparr>)),
      helped (''Token untuk memvalidasi bahwa webhook berasal dari Xendit. Dari '' @ xendit_dashboard @ ''Webhooks.'')
        (field ''xendit_webhook_token'' ''X-CALLBACK-TOKEN''
          (Input ''password'' (secret_placeholder ''payment.xendit_webhook_token'' (''Token dari Xendit Settings '' @ right_arrow @ '' Webhooks'') settings))
          pg_xendit_webhook_token (\<lambda>x v. v\<lparr>pg_xendit_webhook_token := x\<rparr>)),
      helped ''Berapa lama link checkout Xendit berlaku. 86400 = 24 jam, 3600 = 1 jam.''
        (field ''xendit_invoice_duration'' ''Durasi Link Pembayaran (detik)'' (NumberInput ''min=300 max=86400'' []) pg_xendit_invoice_duration
          (\<lambda>x v. v\<lparr>pg_xendit_invoice_duration := x\<rparr>)),
      helped ''URL yang dipakai untuk redirect setelah pembayaran. Contoh: https://billing.myisp.co.id. Untuk dev lokal, gunakan ngrok.''
        (field ''app_url'' ''URL Publik Aplikasi'' (Input ''url'' ''https://isp.example.com'') pg_app_url (\<lambda>x v. v\<lparr>pg_app_url := x\<rparr>))]"

definition webhook_url :: "PaymentValues \<Rightarrow> string" where
  "webhook_url v = (if pg_app_url v = [] then ''https://isp.example.com'' else pg_app_url v) @ ''/api/v1/public/webhooks/xendit''"

text \<open>The result of the test: \<open>None\<close> while there is none, else whether it went well and what it says.\<close>

definition test_alert :: "test_status \<times> js \<Rightarrow> (bool \<times> js) option" where
  "test_alert = (\<lambda>(status, message). if status = Test_idle then None else Some (status = Test_success, message))"

definition test_started :: "test_status \<times> js \<Rightarrow> test_status \<times> js" where
  "test_started _ = (Test_idle, JStr [])"

definition payment_gateway_buttons :: "bool \<Rightarrow> bool \<Rightarrow> (string \<times> bool) list" where
  "payment_gateway_buttons isSaving isTesting = [(''Simpan Pengaturan'', isSaving), (''Test Koneksi Xendit'', isTesting \<or> isSaving)]"

definition payment_gateway_page :: "bool \<Rightarrow> SystemSetting list option \<Rightarrow> nat + PaymentValues form_page" where
  "payment_gateway_page isLoading settings = while_loading isLoading 4 (settings_page ''Simpan Pengaturan'' (payment_gateway_fields settings))"

section \<open>The account page\<close>

text \<open>The values, and whether the section of the password is open; closing it empties its fields.\<close>

record account_page =
  ap_values :: AccountValues
  ap_shown :: bool

definition account_reset :: "string \<Rightarrow> AccountValues" where
  "account_reset email = \<lparr>ac_email = email, ac_current_password = [], ac_new_password = [], ac_confirm_password = []\<rparr>"

definition account_start :: account_page where
  "account_start = \<lparr>ap_values = account_reset [], ap_shown = False\<rparr>"

text \<open>The effect when the account has arrived (again).\<close>

definition account_loaded :: "string option \<Rightarrow> account_page \<Rightarrow> account_page" where
  "account_loaded email p = p\<lparr>ap_values := account_reset (or_else email [])\<rparr>"

definition account_toggle :: "account_page \<Rightarrow> account_page" where
  "account_toggle p =
     (if ap_shown p then
        p\<lparr>ap_shown := False, ap_values := (ap_values p)\<lparr>ac_current_password := [], ac_new_password := [], ac_confirm_password := []\<rparr>\<rparr>
      else p\<lparr>ap_shown := True\<rparr>)"

definition account_toggle_label :: "account_page \<Rightarrow> string" where
  "account_toggle_label p = (if ap_shown p then ''Batal'' else ''Ubah Password'')"

definition in_account :: "(AccountValues \<Rightarrow> AccountValues) \<Rightarrow> account_page \<Rightarrow> account_page" where
  "in_account f p = p\<lparr>ap_values := f (ap_values p)\<rparr>"

definition account_password_fields :: "account_page field list" where
  "account_password_fields =
     [field ''current_password'' ''Password Lama'' (Input ''password'' ''Password saat ini'') (\<lambda>p. ac_current_password (ap_values p))
        (\<lambda>x. in_account (ac_current_password_update (\<lambda>_. x))),
      field ''new_password'' ''Password Baru'' (Input ''password'' ''Minimal 8 karakter'') (\<lambda>p. ac_new_password (ap_values p))
        (\<lambda>x. in_account (ac_new_password_update (\<lambda>_. x))),
      field ''confirm_password'' ''Konfirmasi Password Baru'' (Input ''password'' ''Ulangi password baru'') (\<lambda>p. ac_confirm_password (ap_values p))
        (\<lambda>x. in_account (ac_confirm_password_update (\<lambda>_. x)))]"

definition account_fields :: "account_page \<Rightarrow> account_page field list" where
  "account_fields p =
     helped ''Email opsional. Digunakan untuk notifikasi sistem.''
       (field ''email'' ''Email'' (Input ''email'' ''email@example.com'') (\<lambda>p. ac_email (ap_values p)) (\<lambda>x. in_account (ac_email_update (\<lambda>_. x))))
     # (if ap_shown p then account_password_fields else [])"

definition account_form_page :: "bool \<Rightarrow> nat + account_page form_page" where
  "account_form_page isLoading = while_loading isLoading 3 (settings_page ''Simpan Perubahan'' account_fields)"

text \<open>After a success the fields show the address that was sent, else the stored one, and the section closes.\<close>

definition account_saved :: "string option \<Rightarrow> js \<Rightarrow> account_page" where
  "account_saved email payload =
     \<lparr>ap_values = account_reset (case sent_field payload ''email'' of Some (JStr e) \<Rightarrow> e | _ \<Rightarrow> or_else email []), ap_shown = False\<rparr>"

section \<open>The contracts\<close>

lemma list_all_digits [simp]:
  "list_all P (digits_field f ok m s) \<longleftrightarrow> ((s = [] \<or> \<not> list_all is_digit s) \<longrightarrow> P (f, ''Harus berupa angka''))
     \<and> (\<not> (case StringToNumber s of None \<Rightarrow> False | Some n \<Rightarrow> ok n) \<longrightarrow> P (f, m))"
  by (simp add: digits_field_def)

interpretation general_view: form_view "\<lambda>_ :: unit. general_fields" general_schema "\<lambda>_. True"
  by (rule form_viewI) (auto simp: general_fields_def general_schema_def field_simps_page)

interpretation billing_config_view: form_view "\<lambda>_ :: unit. billing_config_fields" billing_config_schema "\<lambda>_. True"
  by (rule form_viewI) (simp_all add: billing_config_fields_def billing_config_schema_def field_simps_page)

interpretation backup_view: form_view "\<lambda>_ :: unit. backup_fields" backup_schema "\<lambda>_. True"
  by (rule form_viewI) (simp_all add: backup_fields_def backup_schema_def field_simps_page)

interpretation payment_gateway_view: form_view payment_gateway_fields payment_gateway_schema "\<lambda>_. True"
  by (rule form_viewI) (simp_all add: payment_gateway_fields_def payment_gateway_schema_def field_simps_page)

text \<open>What is hidden is empty, so no complaint of the schema is hidden; the button and the replies keep it so.\<close>

definition account_inv :: "account_page \<Rightarrow> bool" where
  "account_inv p =
     (ap_shown p \<or> ac_current_password (ap_values p) = [] \<and> ac_new_password (ap_values p) = [] \<and> ac_confirm_password (ap_values p) = [])"

interpretation account_view: form_view "\<lambda>_ :: unit. account_fields" "\<lambda>p. account_schema is_email (ap_values p)" account_inv for is_email
proof (rule form_viewI)
  fix p and e :: unit
  show "distinct (map fl_name (account_fields p))"
    by (cases "ap_shown p") (simp_all add: account_fields_def account_password_fields_def field_simps_page)
  assume i: "account_inv p"
  from i show "list_all (\<lambda>f. fl_enabled f \<longrightarrow> (\<forall>x. accepts (fl_control f) x \<longrightarrow> account_inv (fl_set f x p))) (account_fields p)"
    by (simp add: account_fields_def account_password_fields_def field_simps_page account_inv_def in_account_def)
  from i show "list_all (\<lambda>c. list_ex (\<lambda>f. fl_name f = fst c \<and> fl_enabled f) (account_fields p)) (account_schema is_email (ap_values p))"
    by (cases "ap_shown p")
      (simp_all add: account_fields_def account_password_fields_def field_simps_page account_inv_def account_schema_def)
qed

lemma account_inv_kept:
  "account_inv account_start" "account_inv (account_toggle p)" "account_inv (account_loaded e p)" "account_inv (account_saved e r)"
  by (simp_all add: account_inv_def account_start_def account_reset_def account_toggle_def account_loaded_def account_saved_def)

section \<open>Laws\<close>

text \<open>The page of the gateway reads the same settings as a page that does not filter them.\<close>

lemma settings_map_last:
  "settings_map settings k = map_option sg_value (find (\<lambda>s. sg_key s = k) (rev settings))"
proof (induction settings rule: rev_induct)
  case (snoc s settings)
  then show ?case by (simp add: settings_map_def)
qed (simp add: settings_map_def)

lemma payment_gateway_filter: "payment_gateway_reset settings = payment_gateway_load (settings_map settings)"
proof -
  have f: "find (\<lambda>s. sg_key s = k) (filter (\<lambda>s. sg_key s \<in> set XENDIT_KEYS) xs) = find (\<lambda>s. sg_key s = k) xs" if "k \<in> set XENDIT_KEYS" for k xs
    using that by (induction xs) auto
  then have "settings_map (filter (\<lambda>s. sg_key s \<in> set XENDIT_KEYS) settings) k = settings_map settings k" if "k \<in> set XENDIT_KEYS" for k
    using f [OF that, of "rev settings"] by (simp add: settings_map_last rev_filter)
  then show ?thesis by (simp add: payment_gateway_reset_def payment_gateway_load_def XENDIT_KEYS_def)
qed

text \<open>
  A stored secret shows as stored, its field is empty, and saving without typing one keeps it (with the law of the
  settings forms).
\<close>

lemma stored_secret_shown:
  assumes "find_setting k settings = Some s" "isMasked s"
  shows "secret_placeholder k d (Some settings) = stored_placeholder" "unmasked (Some s) = []"
  using assms by (simp_all add: secret_placeholder_def unmasked_def)

text \<open>
  The page asks to fill in the secret before the gateway is switched on, and accepts the switch without one: on a
  server that stores nothing, switching on and saving sends no key.
\<close>

lemma enabled_without_key:
  "\<exists>w. fill (payment_gateway_fields None) [(''xendit_enabled'', ''true'')] (payment_gateway_load Map.empty) = Some w
     \<and> payment_gateway_schema w = []
     \<and> (''payment.xendit_enabled'', ''true'') \<in> set (payment_gateway_updates w)
     \<and> ''payment.xendit_secret_key'' \<notin> fst ` set (payment_gateway_updates w)"
proof -
  have "StringToNumber ''86400'' = Some 86400"
    by (subst StringToNumber_digits) (simp_all add: read_digits_def is_digit_def code_of_def digit_val_def)
  moreover have "js_trim [] = []" by (simp add: js_trim_def)
  ultimately show ?thesis
    by (simp add: enter_def usable_def payment_gateway_fields_def field_simps_page payment_gateway_load_def payment_gateway_schema_def
        payment_gateway_updates_def digits_field_def bool_text_def unmasked_def z_when_def is_digit_def code_of_def)
qed

text \<open>Suspension can be set before isolation: the days are not compared.\<close>

lemma suspend_before_isolir:
  "billing_config_schema (billing_config_load [''billing.isolir_after_days'' \<mapsto> ''9'', ''billing.hard_suspend_after_days'' \<mapsto> ''2'']) = []"
proof -
  have "show_int 1 = ''1''" "show_int 2 = ''2''" "show_int 7 = ''7''" "show_int 9 = ''9''" by code_simp+
  then have "StringToNumber ''1'' = Some 1" "StringToNumber ''2'' = Some 2" "StringToNumber ''7'' = Some 7" "StringToNumber ''9'' = Some 9"
    using StringToNumber_show_int [of 1] StringToNumber_show_int [of 2] StringToNumber_show_int [of 7] StringToNumber_show_int [of 9] by simp_all
  then show ?thesis
    by (simp add: billing_config_schema_def billing_config_load_def digits_field_def z_when_def z_min1_def is_digit_def code_of_def)
qed

text \<open>
  A refusal that says ''invalid'' is blamed on the old password, also when only the address was changed: the section is
  closed then, no field of that name is on the page, and nothing is shown.
\<close>

lemma refusal_hidden:
  assumes "\<not> ap_shown p" "error_or ''Terjadi kesalahan.'' err = JStr m" "js_includes (toLowerCase m) ''invalid''"
  shows "account_failed err = [FieldError ''current_password'' (JStr ''Password lama salah.'')]"
    "usable (account_fields p) ''current_password'' = None"
  using assms by (simp_all add: account_failed_def Let_def usable_def account_fields_def field_simps_page)

end
