(* ===== verification/Messaging_Pages.thy ===== *)
theory Messaging_Pages
  imports Staff_Views Settings_Views "HOL-Library.List_Lexorder" "HOL-Library.Char_ord"
begin

text \<open>
  The pages of the message gateways (\<^verbatim>\<open>features/whatsapp\<close>, \<^verbatim>\<open>features/notification-center\<close>): the connection card and
  the connect window with the pairing of a phone, the settings and test cards of WhatsApp and Telegram, and the table
  that routes events to their targets. The answers of the status and QR queries are what the environment gives.
\<close>

section \<open>Pairing\<close>

record wa_status =
  ws_connected :: bool
  ws_jid :: string

record qr_answer =
  qr_loading :: bool
  qr_code :: string
  qr_error :: "thrown option"

definition is_connected :: "wa_status option \<Rightarrow> bool" where
  "is_connected st = (case st of None \<Rightarrow> False | Some s \<Rightarrow> ws_connected s)"

definition jid_of :: "wa_status option \<Rightarrow> string" where
  "jid_of st = (case st of None \<Rightarrow> [] | Some s \<Rightarrow> ws_jid s)"

datatype qr_view = Qr_spinner | Qr_image string | Qr_text js

definition qr_shown :: "string \<Rightarrow> qr_answer \<Rightarrow> qr_view" where
  "qr_shown waiting q =
     (if qr_loading q then Qr_spinner
      else if qr_code q \<noteq> [] then Qr_image (qr_code q)
      else Qr_text (case qr_error q of Some e \<Rightarrow> parseAPIError e | None \<Rightarrow> JStr waiting))"

text \<open>The connection card: whether pairing was asked for is its only state.\<close>

datatype card_content = Card_online | Card_qr qr_view | Card_idle

datatype card_button = Logout_button | Refresh_button | Connect_button

definition pairing_enabled :: "bool \<Rightarrow> wa_status option \<Rightarrow> bool" where
  "pairing_enabled pairing st = (pairing \<and> \<not> is_connected st)"

definition ConnectionCard :: "bool \<Rightarrow> wa_status option \<Rightarrow> qr_answer \<Rightarrow> card_content \<times> card_button" where
  "ConnectionCard pairing st q =
     (if is_connected st then (Card_online, Logout_button)
      else if pairing then (Card_qr (qr_shown (''Waiting for QR'' @ ellipsis) q), Refresh_button)
      else (Card_idle, Connect_button))"

definition connection_description :: "wa_status option \<Rightarrow> string" where
  "connection_description st =
     (if is_connected st then ''Paired as '' @ (if jid_of st = [] then ''unknown'' else jid_of st)
      else ''Not paired. Scan the QR with WhatsApp '' @ right_arrow @ '' Linked devices.'')"

text \<open>The card of the notification centre: badge, description, content and buttons.\<close>

definition tab_whatsapp_card :: "wa_status option \<Rightarrow> nat \<Rightarrow> string \<times> string \<times> string list \<times> string list" where
  "tab_whatsapp_card st groups =
     (if is_connected st then
        (''Connected'', ''Terpasang sebagai '' @ (if jid_of st = [] then ''unknown'' else jid_of st), [''Gateway aktif'', jid_of st],
         [''Cabut Perangkat'', show_nat groups @ '' grup''])
      else
        (''Disconnected'', ''Belum terpasang. Klik Connect untuk scan QR.'', [''Koneksi belum aktif. Notifikasi WA tidak akan terkirim.''],
         [''Hubungkan'']))"

text \<open>The events of the connection card: the button, and a new answer of the status query.\<close>

inductive card_step :: "bool \<times> wa_status option \<Rightarrow> bool \<times> wa_status option \<Rightarrow> bool" where
  connect: "snd (ConnectionCard p st q) = Connect_button \<Longrightarrow> card_step (p, st) (True, st)"
| status: "card_step (p, st) (p, st')"

inductive_cases card_step_elim: "card_step s t"

definition card_logout :: "thrown + js \<Rightarrow> ui_event list" where
  "card_logout r = (case r of Inr _ \<Rightarrow> [Success ''Logged out'' JUndef] | Inl err \<Rightarrow> [Failure ''Logout failed'' (parseAPIError err)])"

text \<open>The connect window of the notification centre: by QR code or by a code for a telephone number.\<close>

datatype pair_method = By_qr | By_phone

record wa_modal =
  wm_open :: bool
  wm_method :: pair_method
  wm_phone :: string
  wm_code :: string

definition wa_modal_init :: wa_modal where
  "wa_modal_init = \<lparr>wm_open = False, wm_method = By_qr, wm_phone = [], wm_code = []\<rparr>"

definition modal_onOpenChange :: "bool \<Rightarrow> wa_modal \<Rightarrow> wa_modal" where
  "modal_onOpenChange v m = (if v then m\<lparr>wm_open := True\<rparr> else wa_modal_init)"

definition modal_toggle :: "wa_modal \<Rightarrow> wa_modal" where
  "modal_toggle m = m\<lparr>wm_method := (if wm_method m = By_qr then By_phone else By_qr), wm_code := []\<rparr>"

definition pair_disabled :: "bool \<Rightarrow> wa_modal \<Rightarrow> bool" where
  "pair_disabled isPending m = (wm_phone m = [] \<or> isPending)"

definition pair_settled :: "thrown + js \<Rightarrow> wa_modal \<Rightarrow> wa_modal \<times> ui_event list" where
  "pair_settled r m =
     (case r of
        Inr res \<Rightarrow> (m\<lparr>wm_code := js_String (js_optget res ''code'')\<rparr>, [])
      | Inl err \<Rightarrow> (m, [Failure ''Gagal mendapatkan kode'' (parseAPIError err)]))"

definition modal_logout :: "thrown + js \<Rightarrow> ui_event list" where
  "modal_logout r =
     (case r of Inr _ \<Rightarrow> [Success ''Berhasil logout dari WhatsApp'' JUndef] | Inl err \<Rightarrow> [Failure ''Gagal logout'' (parseAPIError err)])"

definition modal_qr_enabled :: "wa_modal \<Rightarrow> wa_status option \<Rightarrow> bool" where
  "modal_qr_enabled m st = (wm_open m \<and> \<not> is_connected st)"

datatype modal_body = Modal_online | Modal_phone "string option" | Modal_qr qr_view

definition modal_content :: "wa_modal \<Rightarrow> wa_status option \<Rightarrow> qr_answer \<Rightarrow> modal_body option" where
  "modal_content m st q =
     (if \<not> wm_open m then None
      else Some (if is_connected st then Modal_online
        else if wm_method m = By_phone then Modal_phone (if wm_code m = [] then None else Some (wm_code m))
        else Modal_qr (qr_shown (''Menunggu QR'' @ ellipsis) q)))"

definition modal_title :: "wa_status option \<Rightarrow> string \<times> string" where
  "modal_title st =
     (if is_connected st then (''WhatsApp Terhubung'', ''Akun terpasang: '' @ jid_of st)
      else (''Hubungkan WhatsApp'', ''Scan QR code dengan WhatsApp '' @ right_arrow @ '' Perangkat Tertaut '' @ right_arrow @ '' Tautkan Perangkat''))"

definition modal_switch :: "wa_modal \<Rightarrow> wa_status option \<Rightarrow> string option" where
  "modal_switch m st =
     (if is_connected st then None
      else Some (if wm_method m = By_qr then ''Gunakan Tautkan dengan Nomor Telepon'' else ''Gunakan QR Code''))"

text \<open>The window's events; a code may arrive at any time after it was asked for (\<open>asked\<close>), also when the window is closed again.\<close>

inductive modal_step :: "wa_modal \<times> bool \<Rightarrow> wa_modal \<times> bool \<Rightarrow> bool" where
  opened: "modal_step (m, asked) (modal_onOpenChange v m, asked)"
| toggled: "wm_open m \<Longrightarrow> modal_step (m, asked) (modal_toggle m, asked)"
| typed: "wm_open m \<Longrightarrow> wm_method m = By_phone \<Longrightarrow> modal_step (m, asked) (m\<lparr>wm_phone := x\<rparr>, asked)"
| asked: "wm_open m \<Longrightarrow> wm_method m = By_phone \<Longrightarrow> \<not> pair_disabled asked m \<Longrightarrow> modal_step (m, asked) (m, True)"
| answered: "modal_step (m, True) (fst (pair_settled r m), False)"

inductive_cases modal_step_elim: "modal_step s t"

section \<open>The cards of WhatsApp and Telegram\<close>

text \<open>The answers of a card: its settings, and whether they are loading.\<close>

type_synonym card_answers = "SystemSetting list \<times> bool"

definition wa_card_fields :: "card_answers \<Rightarrow> bool option \<times> string option \<Rightarrow> (bool option \<times> string option) field list" where
  "wa_card_fields = (\<lambda>(settings, isLoading) v.
     (let waEnabled = find_setting ''notification.wa_enabled'' settings; adminPhone = find_setting ''notification.admin_phone'' settings in
     [helped ''Jika off, semua notifikasi dilewati (tetap dicatat).'' (locked (waEnabled = None \<or> isLoading)
        (field ''enabled'' ''Aktifkan WhatsApp'' Switch (\<lambda>v. bool_text (or_else (fst v) (waEnabled = Some ''true'')))
          (\<lambda>x (en, ph). (Some (x = ''true''), ph)))),
      helped ''Menerima alert sistem (eskalasi, registrasi baru).'' (locked (adminPhone = None \<or> isLoading)
        (field ''phone'' ''Nomor Admin (format: 628xxx)'' (Input ''text'' ''628123456789'') (\<lambda>v. or_else (snd v) (or_else adminPhone []))
          (\<lambda>x (en, ph). (en, Some x))))]))"

text \<open>A card forgets what was typed when all is saved.\<close>

definition wa_card_settled :: "updates \<Rightarrow> (nat \<Rightarrow> thrown + js) \<Rightarrow> nat list \<Rightarrow> bool option \<times> string option \<Rightarrow> bool option \<times> string option" where
  "wa_card_settled ops r order v = (if ops \<noteq> [] \<and> promise_all r order = None then (None, None) else v)"

type_synonym telegram_values = "bool option \<times> string option \<times> string option"

definition tokenPlaceholder :: "SystemSetting list \<Rightarrow> string" where
  "tokenPlaceholder settings =
     (if isMasked (or_else (find_setting ''notification.telegram_bot_token'' settings) [])
      then concat (replicate 8 bullet) @ '' (tersimpan '' @ em_dash @ '' kosongkan untuk tidak mengubah)''
      else ''1234567890:ABCdefGhIJKlmNoPQRsTUVwxYZ'')"

definition telegram_card_fields :: "card_answers \<Rightarrow> telegram_values \<Rightarrow> telegram_values field list" where
  "telegram_card_fields = (\<lambda>(settings, isLoading) v.
     (let tgEnabled = find_setting ''notification.telegram_enabled'' settings; tgChatID = find_setting ''notification.telegram_chat_id'' settings in
     [helped ''Kirim notifikasi admin via Telegram Bot.'' (locked (tgEnabled = None \<or> isLoading)
        (field ''enabled'' ''Aktifkan Telegram'' Switch (\<lambda>(en, t, c). bool_text (or_else en (tgEnabled = Some ''true'')))
          (\<lambda>x (en, t, c). (Some (x = ''true''), t, c)))),
      helped ''Dari @BotFather. Kosongkan untuk tidak mengubah token yang tersimpan.'' (locked isLoading
        (field ''token'' ''Bot Token'' (Input ''password'' (tokenPlaceholder settings)) (\<lambda>(en, t, c). or_else t [])
          (\<lambda>x (en, t, c). (en, Some x, c)))),
      helped ''ID grup/channel/user Telegram. Gunakan @userinfobot untuk mengetahui ID.'' (locked isLoading
        (field ''chatID'' ''Chat ID'' (Input ''text'' ''-100123456789'') (\<lambda>(en, t, c). or_else c (or_else tgChatID []))
          (\<lambda>x (en, t, c). (en, t, Some x))))]))"

definition telegram_complete :: "SystemSetting list \<Rightarrow> telegram_values \<Rightarrow> bool" where
  "telegram_complete settings = (\<lambda>(en, t, c).
     or_else en (find_setting ''notification.telegram_enabled'' settings = Some ''true'')
     \<and> (or_else (find_setting ''notification.telegram_bot_token'' settings) [] \<noteq> [] \<or> or_else t [] \<noteq> [])
     \<and> or_else c (or_else (find_setting ''notification.telegram_chat_id'' settings) []) \<noteq> [])"

definition telegram_card_settled :: "updates \<Rightarrow> (nat \<Rightarrow> thrown + js) \<Rightarrow> nat list \<Rightarrow> telegram_values \<Rightarrow> telegram_values" where
  "telegram_card_settled ops r order v = (if ops \<noteq> [] \<and> promise_all r order = None then (None, None, None) else v)"

text \<open>The test cards: number and message, or the message alone. That of WhatsApp is locked until the gateway is connected.\<close>

definition bell :: string where
  "bell = [char_of (240 :: nat), char_of (159 :: nat), char_of (148 :: nat), char_of (148 :: nat)]"

definition wa_test_start :: "string \<times> string" where
  "wa_test_start = ([], ''Ini adalah pesan uji dari Rosmon. '' @ bell)"

definition wa_test_fields :: "bool \<Rightarrow> string \<times> string \<Rightarrow> (string \<times> string) field list" where
  "wa_test_fields is_online v =
     [locked (\<not> is_online) (field ''phone'' ''Nomor tujuan (format: 628xxx)'' (Input ''text'' ''628123456789'') fst (\<lambda>x (p, m). (x, m))),
      locked (\<not> is_online) (field ''message'' ''Pesan'' (TextArea [] 3) snd (\<lambda>x (p, m). (p, x)))]"

definition wa_test_note :: "bool \<Rightarrow> string" where
  "wa_test_note is_online =
     ''Kirim pesan langsung ke nomor tertentu (bypass template).''
     @ (if is_online then [] else ''WhatsApp belum terhubung '' @ em_dash @ '' hubungkan terlebih dahulu.'')"

definition telegram_test_start :: string where
  "telegram_test_start = ''Ini adalah pesan uji dari Rosmon via Telegram. '' @ bell"

definition telegram_test_fields :: "string \<Rightarrow> string field list" where
  "telegram_test_fields v = [field ''message'' ''Pesan'' (TextArea [] 4) (\<lambda>v. v) (\<lambda>x v. x)]"

definition whatsapp_test_fields :: "string \<times> string \<Rightarrow> (string \<times> string) field list" where
  "whatsapp_test_fields v =
     [field ''phone'' ''Phone'' (Input ''text'' ''08123456789'') fst (\<lambda>x (p, m). (x, m)),
      field ''message'' ''Message'' (TextArea [] 3) snd (\<lambda>x (p, m). (p, x))]"

text \<open>The settings card of the WhatsApp page waits for the settings and then keeps its own values.\<close>

definition whatsapp_settings_start :: "SystemSetting list \<Rightarrow> bool \<times> string" where
  "whatsapp_settings_start settings =
     (find_setting ''notification.wa_enabled'' settings = Some ''true'', or_else (find_setting ''notification.admin_phone'' settings) [])"

definition whatsapp_settings_fields :: "SystemSetting list \<Rightarrow> bool \<times> string \<Rightarrow> (bool \<times> string) field list" where
  "whatsapp_settings_fields settings v =
     [helped ''When off, all notifications are skipped (still logged).'' (locked (find_setting ''notification.wa_enabled'' settings = None)
        (field ''enabled'' ''Enable WhatsApp'' Switch (\<lambda>(en, ph). bool_text en) (\<lambda>x (en, ph). (x = ''true'', ph)))),
      locked (find_setting ''notification.admin_phone'' settings = None)
        (field ''phone'' ''Admin phone'' (Input ''text'' ''08123456789'') snd (\<lambda>x (en, ph). (en, x)))]"

definition NotificationSettingsCard :: "bool \<Rightarrow> SystemSetting list option \<Rightarrow> string + (bool \<times> string) form_page" where
  "NotificationSettingsCard isLoading data =
     (case data of
        Some settings \<Rightarrow>
          if isLoading then Inl (''Loading'' @ ellipsis)
          else Inr \<lparr>fp_title = ''Notification settings'', fp_description = ''Toggle WhatsApp delivery and set the admin alert number.'',
                    fp_cancel = [], fp_submit = ''Save'', fp_fields = whatsapp_settings_fields settings\<rparr>
      | None \<Rightarrow> Inl (''Loading'' @ ellipsis))"

section \<open>Routing of events\<close>

definition FIXED_OPTIONS :: "(TargetToken \<times> string) list" where
  "FIXED_OPTIONS = [(Wa_admin, ''Admin WA (nomor admin)''), (Tg_admin, ''Admin Telegram (chat ID)'')]"

text \<open>The chips of a value (text, and the token its cross removes) and the choices of the menu (token, text, whether it is chosen).\<close>

definition target_chips :: "WhatsAppContactItem list \<Rightarrow> string list \<Rightarrow> (string \<times> string) list" where
  "target_chips groups value = map (\<lambda>t. (tokenLabel t groups, tokenToString t)) (map parseToken value)"

definition target_options :: "bool \<Rightarrow> WhatsAppContactItem list \<Rightarrow> string list \<Rightarrow> (TargetToken \<times> string \<times> bool) list" where
  "target_options is_online groups value =
     map (\<lambda>(t, label). (t, label, tokenToString t \<in> set value)) FIXED_OPTIONS
     @ (if is_online \<and> groups \<noteq> [] then map (\<lambda>g. (Wa_group (wc_jid g), wc_name g, tokenToString (Wa_group (wc_jid g)) \<in> set value)) groups else [])"

type_synonym drafts = "string \<rightharpoonup> string list"

definition getTargets :: "drafts \<Rightarrow> string \<Rightarrow> string list \<Rightarrow> string list" where
  "getTargets drafts event targets = or_else (drafts event) targets"

definition setTargets :: "string \<Rightarrow> string list \<Rightarrow> drafts \<Rightarrow> drafts" where
  "setTargets event targets drafts = drafts(event \<mapsto> targets)"

text \<open>Looking whether a row is changed sorts the draft, in place.\<close>

definition isDirty :: "string \<Rightarrow> string list \<Rightarrow> drafts \<Rightarrow> bool \<times> drafts" where
  "isDirty event targets drafts =
     (case drafts event of None \<Rightarrow> (False, drafts) | Some d \<Rightarrow> (sort d \<noteq> sort targets, drafts(event \<mapsto> sort d)))"

definition routing_save :: "string \<Rightarrow> drafts \<Rightarrow> mutation" where
  "routing_save event drafts = useUpdateNotifEvent event (JObj [(''targets'', JArr (map JStr (or_else (drafts event) [])))])"

definition routing_settled :: "string \<Rightarrow> thrown + js \<Rightarrow> drafts \<Rightarrow> drafts \<times> ui_event list" where
  "routing_settled event r drafts =
     (case r of
        Inr _ \<Rightarrow> (drafts(event := None), [Success ''Konfigurasi disimpan'' JUndef])
      | Inl err \<Rightarrow> (drafts, [Failure ''Gagal menyimpan'' (parseAPIError err)]))"

section \<open>Laws\<close>

text \<open>The QR code is asked for exactly while it is shown.\<close>

lemma qr_polled_when_shown:
  "pairing_enabled p st \<longleftrightarrow> (\<exists>v. fst (ConnectionCard p st q) = Card_qr v)"
  "(\<exists>v. modal_content m st q = Some (Modal_qr v)) \<longrightarrow> modal_qr_enabled m st"
  by (auto simp: pairing_enabled_def ConnectionCard_def modal_content_def modal_qr_enabled_def)

text \<open>
  Pairing never ends: once asked for, whatever the status has been meanwhile, a disconnected card shows the code and not the
  button that asks for it; a logout starts the next pairing by itself.
\<close>

interpretation pairing_kept: inductive_invariant "\<lambda>s. fst s" card_step "\<lambda>s. fst s"
  by unfold_locales (auto elim: card_step_elim)

lemma logout_pairs_again:
  assumes "card_step\<^sup>*\<^sup>* (True, st) (p, st')" "\<not> is_connected st'"
  shows "pairing_enabled p st' \<and> snd (ConnectionCard p st' q) = Refresh_button"
  using pairing_kept.inv_run [OF assms(1)] assms(2) by (simp add: pairing_enabled_def ConnectionCard_def)

text \<open>A window that is closed is back at the QR code with no number; what it shows when it is opened or changed has no code.\<close>

interpretation modal_closed: inductive_invariant "\<lambda>s. s = (wa_modal_init, False)" modal_step
  "\<lambda>(m, asked). \<not> wm_open m \<longrightarrow> wm_method m = By_qr \<and> wm_phone m = []"
  by unfold_locales
    (auto elim!: modal_step_elim simp: wa_modal_init_def modal_onOpenChange_def modal_toggle_def pair_settled_def split: sum.splits)

lemma modal_no_stale_code:
  "modal_step\<^sup>*\<^sup>* (wa_modal_init, False) (m, asked) \<Longrightarrow> \<not> wm_open m \<Longrightarrow>
    modal_content (modal_onOpenChange True m) st q \<in> {Some Modal_online, Some (Modal_qr (qr_shown (''Menunggu QR'' @ ellipsis) q))}"
  "modal_content (modal_toggle m) st q \<noteq> Some (Modal_phone (Some c))"
  using modal_closed.inv_run [of "(wa_modal_init, False)" "(m, asked)"]
  by (auto simp: modal_content_def modal_onOpenChange_def modal_toggle_def wa_modal_init_def)

text \<open>The QR query runs also while the number is asked for.\<close>

lemma phone_polls_qr: "wm_open m \<Longrightarrow> \<not> is_connected st \<Longrightarrow> modal_qr_enabled (m\<lparr>wm_method := By_phone\<rparr>) st"
  by (simp add: modal_qr_enabled_def)

text \<open>
  The field of the chat is open even when the server has no such setting: what is typed there is never sent, and the card
  says that the configuration looks complete.
\<close>

lemma chat_id_dropped:
  assumes "find_setting ''notification.telegram_chat_id'' settings = None"
  shows "\<exists>v. enter (telegram_card_fields (settings, False)) (''chatID'', ''-100'') (None, None, None) = Some v
     \<and> (case v of (en, t, c) \<Rightarrow> c = Some ''-100'' \<and> ''notification.telegram_chat_id'' \<notin> fst ` set (telegram_card_ops settings en t c))"
  using assms
  by (auto simp: enter_def usable_def telegram_card_fields_def field_simps_page telegram_card_ops_def if_changed_def Let_def split: option.splits)

text \<open>With settings for all of its fields, a card locked or loaded shows what is stored until something is typed.\<close>

lemma card_shows_stored:
  "list_all (\<lambda>f. fl_name f = ''phone'' \<longrightarrow> fl_get f (None, None) = or_else (find_setting ''notification.admin_phone'' settings) []) (wa_card_fields (settings, l) v)"
  by (simp add: wa_card_fields_def field_simps_page Let_def)

text \<open>A row counts as changed when its targets are others than the stored ones, whatever their order.\<close>

lemma dirty_multiset: "fst (isDirty e targets drafts) \<longleftrightarrow> (\<exists>d. drafts e = Some d \<and> mset d \<noteq> mset targets)"
  by (auto simp: isDirty_def split: option.split) (metis mset_sort, metis properties_for_sort mset_sort sorted_sort)

text \<open>The cross of a chip removes its target; but a target the page does not know is shown as the administrator, and its cross
  removes the administrator instead.\<close>

lemma chip_removes:
  assumes "i < length targets"
  shows "tokenToString u \<in> set (removeToken (snd (target_chips groups (map tokenToString targets) ! i)) (map tokenToString targets))
    \<longleftrightarrow> u \<in> set targets \<and> u \<noteq> targets ! i"
  using assms by (auto simp: target_chips_def removeToken_def parse_token token_string_inj)

lemma unknown_target_stays:
  "target_chips groups [''sms'', ''wa_admin''] = [(''Admin WA'', ''wa_admin''), (''Admin WA'', ''wa_admin'')]"
  "removeToken (snd (target_chips groups [''sms'', ''wa_admin''] ! 0)) [''sms'', ''wa_admin''] = [''sms'']"
  by (simp_all add: target_chips_def removeToken_def parseToken_def tokenToString_def tokenLabel_def)

section \<open>Every test can be sent\<close>

interpretation wa_test_view: completable_form "wa_test_fields True" "\<lambda>(p, m). wa_test_send p m" "\<lambda>_. True" "[(''phone'', ''core''), (''message'', ''body'')]"
  by unfold_locales (auto simp: enter_def usable_def wa_test_fields_def field_simps_page wa_test_send_def split: prod.splits)

interpretation telegram_test_view: completable_form telegram_test_fields telegram_test_send "\<lambda>_. True" "[(''message'', ''body'')]"
  by unfold_locales (auto simp: enter_def usable_def telegram_test_fields_def field_simps_page telegram_test_send_def)

interpretation whatsapp_test_view: completable_form whatsapp_test_fields "\<lambda>(p, m). whatsapp_test_send p m" "\<lambda>_. True" "[(''phone'', ''core''), (''message'', ''body'')]"
  by unfold_locales (auto simp: enter_def usable_def whatsapp_test_fields_def field_simps_page whatsapp_test_send_def split: prod.splits)

end
