(* ===== verification/View_Laws.thy ===== *)
theory View_Laws
  imports Voucher_Views Ppp_Views Payment_Views Messaging_Pages
begin

text \<open>
  What holds of the forms as the user meets them, field by field: a refusal can always be worked on, and the dialogs that
  send through a condition of their own can always be brought to send. Both rest on the instances of the contracts
  \<open>form_view\<close> and \<open>completable_form\<close> in the theories of the pages.
\<close>

section \<open>Refusals\<close>

text \<open>
  From the values a form starts with, whatever is typed and chosen by hand and whatever the queries of the page have
  answered by then: when the schema has complaints, each names a field that is on the page, and one of these fields can
  be used. So no form ends up refusing for a reason that is not shown, or that the user cannot change.
\<close>

definition correctable :: "('e \<Rightarrow> 'v \<Rightarrow> 'v field list) \<Rightarrow> ('v \<Rightarrow> issue list) \<Rightarrow> 'v \<Rightarrow> bool" where
  "correctable shown schema start =
     (\<forall>v e. (edit shown)\<^sup>*\<^sup>* start v \<longrightarrow> schema v \<noteq> [] \<longrightarrow>
        fst ` set (schema v) \<subseteq> set (map fl_name (shown e v)) \<and> (\<exists>(p, m) \<in> set (schema v). \<exists>f. usable (shown e v) p = Some f))"

lemma form_correctable:
  assumes "form_view shown schema I" "I start"
  shows "correctable shown schema start"
  unfolding correctable_def
proof (intro allI impI)
  fix v e assume v: "(edit shown)\<^sup>*\<^sup>* start v" "schema v \<noteq> []"
  then have "handleSubmit schema (\<lambda>_. ()) v = Inl (schema v)" by (simp add: handleSubmit_simps)
  then show "fst ` set (schema v) \<subseteq> set (map fl_name (shown e v)) \<and> (\<exists>(p, m) \<in> set (schema v). \<exists>f. usable (shown e v) p = Some f)"
    by (rule form_view.complaint_correctable [OF assms v(1)])
qed

lemma form_starts:
  "uf_disabled (user_defaultValues t d) \<in> {''true'', ''false''}"
  "profile_inv (profile_defaultValues None)"
  "sf_service (secret_defaultValues None) \<in> set PPP_SERVICES"
  "py_method (payment_defaultValues a) \<in> {''cash'', ''transfer''}"
  "preset_inv (preset_start ps None)"
  by (simp_all add: user_defaultValues_def profile_inv_def profile_defaultValues_def expModeLabels_def SHARED_OPTIONS_def
      secret_defaultValues_def PPP_SERVICES_def payment_defaultValues_def preset_inv_def preset_start_def preset_defaultValues_def
      VALID_CHAR_SETS_def DATA_UNITS_def Let_def)

definition registered_at :: "nat option \<Rightarrow> Registration \<Rightarrow> Registration" where
  "registered_at device g = g\<lparr>rg_device_id := map_option int device\<rparr>"

lemma install_start:
  "in_service_type (install_defaultValues (registered_at k g)) \<in> {''pppoe'', ''hotspot''}
     \<and> device_chosen (in_device_id (install_defaultValues (registered_at k g)))"
  by (simp add: install_defaultValues_def registered_at_def Let_def id_text_def device_chosen_def deviceId_def to_number_def
      StringToNumber_show_int split: option.split)

lemma sub_start: "sub_inv AddMode (sub_defaultValues None (Some (int (Suc n))))"
  by (rule billing_starts) simp

lemma user_correctable: "correctable user_fields (user_schema (md, t)) (user_defaultValues t d)"
  by (rule form_correctable [OF user_view.form_view_axioms]) (simp only: form_starts(1))

lemma profile_correctable: "correctable (profile_fields md) (profile_schema (md, u)) (profile_defaultValues None)"
  by (rule form_correctable [OF profile_view.form_view_axioms]) (simp only: form_starts(2))

lemma hsBilling_correctable: "correctable (hsBilling_fields md) (billing_schema (md, b)) (billing_defaultValues None)"
  by (rule form_correctable [OF hsBilling_view.form_view_axioms]) (simp only: hsBilling_start)

lemma secret_correctable: "correctable (secret_fields md) (secret_schema (md, c)) (secret_defaultValues None)"
  by (rule form_correctable [OF secret_view.form_view_axioms]) (simp only: form_starts(3))

lemma pppProfile_correctable: "correctable pppProfile_fields profileFormSchema (ppp_profile_defaultValues q)"
  by (rule form_correctable [OF pppProfile_view.form_view_axioms]) (simp only: ppp_start(1))

lemma pppBilling_correctable: "correctable (pppBilling_fields md) (ppp_billing_schema (md, r)) (ppp_billing_defaultValues r)"
  by (rule form_correctable [OF pppBilling_view.form_view_axioms]) (simp only: ppp_start(2))

lemma customer_correctable: "correctable (\<lambda>_ :: unit. customer_fields) customerSchema (defaultCustomer None)"
  by (rule form_correctable [OF customer_view.form_view_axioms]) (simp only: billing_starts(1))

lemma step_correctable: "correctable (\<lambda>e. step_fields (known e)) subscriptionSchema step_defaultValues"
  by (rule form_correctable [OF step_view.form_view_axioms]) (simp only: billing_starts(2))

lemma install_correctable: "correctable (\<lambda>e. install_fields (known e)) installFormSchema (install_defaultValues (registered_at k g))"
  by (rule form_correctable [OF install_view.form_view_axioms]) (simp only: install_start)

lemma sub_correctable: "correctable (sub_fields AddMode) (sub_schema (AddMode, None)) (sub_defaultValues None (Some (int (Suc n))))"
  by (rule form_correctable [OF sub_view.form_view_axioms]) (simp only: sub_start)

lemma invoice_correctable: "correctable invoice_fields invoice_schema invoice_defaultValues"
  by (rule form_correctable [OF invoice_view.form_view_axioms TrueI])

lemma payment_correctable: "correctable (\<lambda>_ :: unit. payment_fields) payment_schema (payment_defaultValues a)"
  by (rule form_correctable [OF payment_view.form_view_axioms]) (simp only: form_starts(4))

lemma collect_correctable: "correctable (\<lambda>_ :: unit. collect_fields) collect_schema []"
  by (rule form_correctable [OF collect_view.form_view_axioms TrueI])

lemma generate_correctable: "correctable (generate_fields i) generate_issues generate_init"
  by (rule form_correctable [OF generate_view.form_view_axioms]) (simp only: generate_start(1))

lemma preset_correctable: "correctable preset_fields presetFormSchema (preset_start ps None)"
  by (rule form_correctable [OF preset_view.form_view_axioms]) (simp only: form_starts(5))

lemma general_correctable: "correctable (\<lambda>_ :: unit. general_fields) general_schema (general_load st)"
  by (rule form_correctable [OF general_view.form_view_axioms TrueI])

lemma billing_config_correctable: "correctable (\<lambda>_ :: unit. billing_config_fields) billing_config_schema (billing_config_load st)"
  by (rule form_correctable [OF billing_config_view.form_view_axioms TrueI])

lemma backup_correctable: "correctable (\<lambda>_ :: unit. backup_fields) backup_schema (backup_load st)"
  by (rule form_correctable [OF backup_view.form_view_axioms TrueI])

lemma payment_gateway_correctable: "correctable payment_gateway_fields payment_gateway_schema (payment_gateway_load st)"
  by (rule form_correctable [OF payment_gateway_view.form_view_axioms TrueI])

lemma account_correctable: "correctable (\<lambda>_ :: unit. account_fields) (\<lambda>p. account_schema is_email (ap_values p)) account_start"
  by (rule form_correctable [OF account_view.form_view_axioms]) (simp only: account_inv_kept(1))


section \<open>Dialogs that can always be sent\<close>

text \<open>Whatever the fields hold, there are inputs by which the dialog sends its request: none of them ends up stuck.\<close>

definition completable :: "('v \<Rightarrow> 'v field list) \<Rightarrow> ('v \<Rightarrow> ui_event list + submission option) \<Rightarrow> 'v \<Rightarrow> bool" where
  "completable shown submit v = (\<exists>xs w s. fill shown xs v = Some w \<and> submit w = Inr (Some s))"

lemma form_completable: "completable_form shown submit (\<lambda>_. True) example \<Longrightarrow> completable shown submit v"
  unfolding completable_def by (rule exI) (rule completable_form.completes, assumption, rule TrueI)

lemma dialogs_completable:
  "completable (router_fields AddMode False) (router_handleSubmit (AddMode, tr)) vr"
  "completable (admin_user_fields AddMode False) (admin_user_handleSubmit (AddMode, ta)) va"
  "completable sale_fields (record_sale_handleSubmit z (Some rid)) vs"
  "completable pool_fields (pool_handleSubmit rid) vp"
  "completable scheduler_fields (scheduler_handleSubmit rid) vd"
  "completable script_fields (script_handleSubmit rid) vc"
  "completable template_fields (template_handleSubmit tt) vt"
  "completable (wa_test_fields True) (\<lambda>(p, m). wa_test_send p m) vw"
  "completable telegram_test_fields telegram_test_send vg"
  "completable whatsapp_test_fields (\<lambda>(p, m). whatsapp_test_send p m) vx"
  by (rule form_completable [OF router_view.completable_form_axioms] form_completable [OF admin_user_view.completable_form_axioms]
      form_completable [OF sale_view.completable_form_axioms] form_completable [OF pool_view.completable_form_axioms]
      form_completable [OF scheduler_view.completable_form_axioms] form_completable [OF script_view.completable_form_axioms]
      form_completable [OF template_view.completable_form_axioms] form_completable [OF wa_test_view.completable_form_axioms]
      form_completable [OF telegram_test_view.completable_form_axioms] form_completable [OF whatsapp_test_view.completable_form_axioms])+

end
