(* ===== verification/Portal_Pages.thy ===== *)
theory Portal_Pages
  imports Staff_Views Preferences
begin

text \<open>
  What the pages of the customer portal show (\<^verbatim>\<open>features/customer-portal\<close>): the tab bar, sign-in, home, subscriptions,
  invoices, one invoice with its ways to pay, payments, tickets and the account with its password sheet. A text that is
  formatted from a date can fail (\<open>None\<close>), as in \<open>Formats\<close>; the data are the answers of the queries so far.
\<close>

section \<open>The frame\<close>

text \<open>A tab: address, text, and whether the whole address has to match.\<close>

definition portal_tabs :: "(string \<times> string \<times> bool) list" where
  "portal_tabs =
     [(''/portal'', ''Beranda'', True), (''/portal/invoices'', ''Tagihan'', False), (''/portal/subscriptions'', ''Langganan'', False),
      (''/portal/profile'', ''Akun'', False)]"

definition tab_active :: "string \<Rightarrow> string \<times> string \<times> bool \<Rightarrow> bool" where
  "tab_active pathname = (\<lambda>(href, label, exact). if exact then pathname = href else prefix href pathname)"

definition tab_badge :: "string \<Rightarrow> nat \<Rightarrow> string option" where
  "tab_badge label unpaid = (if label = ''Tagihan'' \<and> 0 < unpaid then Some (if 9 < unpaid then ''9+'' else show_nat unpaid) else None)"

definition BottomTabBar :: "string \<Rightarrow> PortalInvoice list option \<Rightarrow> PortalInvoice list option \<Rightarrow> (string \<times> bool \<times> string option) list" where
  "BottomTabBar pathname issued overdue =
     map (\<lambda>t. (fst (snd t), tab_active pathname t, tab_badge (fst (snd t)) (unpaidCount (or_else issued []) (or_else overdue [])))) portal_tabs"

definition PortalHeader :: "string \<Rightarrow> bool \<Rightarrow> string list" where
  "PortalHeader title showBack = (if showBack then [''Kembali''] else []) @ [title]"

definition or_em_dash :: "string \<Rightarrow> string" where
  "or_em_dash s = (if s = [] then em_dash else s)"

type_synonym info_row = "string \<times> string option"

text \<open>A page fails when the text of one of its rows does.\<close>

definition rows_fail :: "info_row list \<Rightarrow> bool" where
  "rows_fail rows = list_ex (\<lambda>(label, value). value = None) rows"

section \<open>Signing in\<close>

record portal_login =
  pl_phone :: string
  pl_password :: string
  pl_showPassword :: bool
  pl_error :: string

definition portal_login_fields :: "portal_login \<Rightarrow> portal_login field list" where
  "portal_login_fields v =
     [field ''phone'' ''Nomor HP'' (Input ''tel required'' ''08xx-xxxx-xxxx'') pl_phone (\<lambda>x v. v\<lparr>pl_phone := x\<rparr>),
      field ''password'' ''Password'' (Input (if pl_showPassword v then ''text required'' else ''password required'') (bullets @ bullets)) pl_password
        (\<lambda>x v. v\<lparr>pl_password := x\<rparr>)]"

definition portal_login_sent :: "portal_login \<Rightarrow> portal_login \<times> submission" where
  "portal_login_sent v = (v\<lparr>pl_error := []\<rparr>, portal_login_submit (pl_phone v) (pl_password v))"

definition portal_login_settled :: "thrown + js \<Rightarrow> portal_login \<Rightarrow> portal_login" where
  "portal_login_settled r v = (case r of Inl _ \<Rightarrow> v\<lparr>pl_error := ''Nomor HP atau password salah.''\<rparr> | Inr _ \<Rightarrow> v)"

section \<open>Home\<close>

record PortalMe =
  me_id :: int
  me_full_name :: string
  me_phone :: string
  me_address :: string
  me_area :: string
  me_status :: string

record PortalSubscription =
  ps_id :: int
  ps_customer_id :: int
  ps_service_type :: string
  ps_mikrotik_username :: string
  ps_status :: string
  ps_sync_status :: string
  ps_next_invoice_date :: "string option"
  ps_billing_day :: int
  ps_activated_at :: "string option"
  ps_device_id :: "int option"
  ps_ppp_profile_id :: "int option"
  ps_hotspot_profile_id :: "int option"
  ps_created_at :: string
  ps_updated_at :: string

definition home_greeting :: "bool \<Rightarrow> PortalMe option \<Rightarrow> (string \<times> string option) option" where
  "home_greeting meLoading me =
     (if meLoading then None
      else Some (case me of
          None \<Rightarrow> (em_dash, None)
        | Some m \<Rightarrow> (me_full_name m, if me_status m = [] then None else Some (if me_status m = ''active'' then ''Aktif'' else me_status m))))"

definition service_name :: "string \<Rightarrow> string" where
  "service_name s = (if s = ''pppoe'' then ''PPPoE'' else ''Hotspot'')"

definition activeSub :: "PortalSubscription list option \<Rightarrow> PortalSubscription option" where
  "activeSub subs = (case or_else subs [] of [] \<Rightarrow> None | s # _ \<Rightarrow> Some s)"

datatype service_card = Service_loading | Service_of string StatusInfo | No_service

definition home_service :: "bool \<Rightarrow> PortalSubscription list option \<Rightarrow> service_card" where
  "home_service subLoading subs =
     (if subLoading then Service_loading
      else case activeSub subs of Some s \<Rightarrow> Service_of (or_em_dash (ps_mikrotik_username s)) (subStatus (ps_status s)) | None \<Rightarrow> No_service)"

datatype invoice_hero = Hero_loading | Hero string StatusInfo string "string option" | Hero_clear

definition home_invoices :: "intl \<Rightarrow> zone \<Rightarrow> bool \<Rightarrow> PortalInvoice list option \<Rightarrow> PortalInvoice list option \<Rightarrow> invoice_hero" where
  "home_invoices i z invLoading unpaid overdue =
     (let all_unpaid = allUnpaid (or_else overdue []) (or_else unpaid []) in
      if invLoading then Hero_loading
      else case topInvoice (or_else overdue []) (or_else unpaid []) of
        Some bill \<Rightarrow>
          Hero (if 1 < length all_unpaid then show_nat (length all_unpaid) @ '' Tagihan Belum Lunas'' else ''Tagihan Belum Lunas'')
            (invoiceStatus (pi_status bill)) (formatIDR i (pi_amount bill)) (formatIDDate i z (Some (pi_due_date bill)))
      | None \<Rightarrow> Hero_clear)"

text \<open>The summary of the first subscription, under the heading of an active package.\<close>

definition home_package :: "intl \<Rightarrow> zone \<Rightarrow> PortalSubscription list option \<Rightarrow> info_row list option" where
  "home_package i z subs =
     map_option (\<lambda>s.
       [(''Paket Aktif'', Some (service_name (ps_service_type s) @ mid_dot @ ps_mikrotik_username s))]
       @ (if or_else (ps_next_invoice_date s) [] = [] then [] else [(''Tagihan berikutnya'', formatIDDate i z (ps_next_invoice_date s))]))
       (activeSub subs)"

definition home_links :: "PortalInvoice list option \<Rightarrow> PortalInvoice list option \<Rightarrow> (string \<times> string \<times> string option) list" where
  "home_links unpaid overdue =
     (let n = length (allUnpaid (or_else overdue []) (or_else unpaid [])) in
      [(''/portal/invoices'', ''Tagihan'', if 0 < n then Some (show_nat n @ '' belum lunas'') else None),
       (''/portal/payments'', ''Riwayat Bayar'', None)])"

section \<open>Subscriptions\<close>

record subscription_card =
  sc_title :: string
  sc_status :: StatusInfo
  sc_rows :: "info_row list"
  sc_notes :: "string list"

definition portal_subscription_card :: "intl \<Rightarrow> zone \<Rightarrow> PortalSubscription \<Rightarrow> subscription_card" where
  "portal_subscription_card i z s =
     \<lparr>sc_title = service_name (ps_service_type s), sc_status = subStatus (ps_status s),
      sc_rows =
        [(''Username'', Some (ps_mikrotik_username s)), (''Tipe Koneksi'', Some (service_name (ps_service_type s))),
         (''Tagihan Berikutnya'', if or_else (ps_next_invoice_date s) [] = [] then Some em_dash else formatIDDate i z (ps_next_invoice_date s))]
        @ (if 0 < ps_billing_day s then [(''Hari Tagih'', Some (''Tgl '' @ show_int (ps_billing_day s)))] else [])
        @ (if or_else (ps_activated_at s) [] = [] then [] else [(''Aktif Sejak'', formatIDDate i z (ps_activated_at s))]),
      sc_notes =
        (if ps_sync_status s \<noteq> [] \<and> ps_sync_status s \<noteq> ''synced'' then [''Perubahan sedang diproses ke jaringan'' @ ellipsis] else [])
        @ (if ps_status s = ''isolir''
           then [''Layanan diisolir karena tagihan belum dibayar. Segera lunasi tagihan agar layanan aktif kembali.'']
           else if ps_status s = ''suspended'' then [''Layanan diblokir. Hubungi admin untuk informasi lebih lanjut.''] else [])\<rparr>"

datatype 'c cards_shown = Cards_loading nat | Cards_none string string | Cards "'c list"

definition card_list :: "bool \<Rightarrow> nat \<Rightarrow> string \<times> string \<Rightarrow> ('a \<Rightarrow> 'c) \<Rightarrow> 'a list \<Rightarrow> 'c cards_shown" where
  "card_list isLoading n none f xs =
     (if isLoading then Cards_loading n else if xs = [] then Cards_none (fst none) (snd none) else Cards (map f xs))"

definition PortalSubscriptions :: "intl \<Rightarrow> zone \<Rightarrow> bool \<Rightarrow> PortalSubscription list option \<Rightarrow> subscription_card cards_shown \<times> string list" where
  "PortalSubscriptions i z isLoading subs =
     (card_list isLoading 2 (''Tidak ada langganan'', ''Hubungi admin untuk informasi lebih lanjut'') (portal_subscription_card i z) (or_else subs []),
      [''Untuk perubahan paket atau informasi lebih lanjut, hubungi admin Anda.'']
      @ (if or_else subs [] = [] then [] else [''Tagihan dihasilkan otomatis setiap bulan sesuai tanggal tagih paket Anda.'']))"

section \<open>Invoices\<close>

record portal_invoice_card =
  ic_href :: string
  ic_number :: string
  ic_status :: StatusInfo
  ic_period :: "string option"
  ic_amount :: string
  ic_struck :: bool
  ic_due :: "string option"

definition InvoiceCard :: "intl \<Rightarrow> zone \<Rightarrow> PortalInvoice \<Rightarrow> portal_invoice_card" where
  "InvoiceCard i z bill =
     \<lparr>ic_href = ''/portal/invoices/'' @ show_int (pi_id bill), ic_number = pi_invoice_number bill, ic_status = invoiceStatus (pi_status bill),
      ic_period = formatPeriod i z (pi_period_start bill) (pi_period_end bill), ic_amount = formatIDR i (pi_amount bill),
      ic_struck = (pi_status bill = ''paid''),
      ic_due = (if pi_status bill = ''paid'' then map_option (\<lambda>d. ''Lunas '' @ d) (formatIDDate i z (pi_paid_at bill))
        else map_option (\<lambda>d. ''Jatuh tempo '' @ d) (formatIDDate i z (Some (pi_due_date bill))))\<rparr>"

definition party :: string where
  "party = [char_of (240 :: nat), char_of (159 :: nat), char_of (142 :: nat), char_of (137 :: nat)]"

definition invoice_chips :: "nat \<Rightarrow> string \<Rightarrow> (string \<times> bool \<times> string option) list" where
  "invoice_chips unpaid activeFilter =
     map (\<lambda>(label, v). (label, activeFilter = v, if v = ''all'' \<and> 0 < unpaid then Some (show_nat unpaid) else None)) invoice_filters"

definition InvoiceList ::
  "intl \<Rightarrow> zone \<Rightarrow> bool \<Rightarrow> PortalInvoice list option \<Rightarrow> PortalInvoice list option \<Rightarrow> PortalInvoice list option \<Rightarrow> PortalInvoice list option
    \<Rightarrow> string \<Rightarrow> portal_invoice_card cards_shown"
where
  "InvoiceList i z isLoading allInv issued overdue paid activeFilter =
     card_list isLoading 3 (''Tidak ada tagihan'', if activeFilter = ''paid'' then ''Belum ada pembayaran'' else ''Semua tagihan sudah lunas '' @ party)
       (InvoiceCard i z) (displayed (or_else allInv []) (or_else issued []) (or_else overdue []) (or_else paid []) activeFilter)"

section \<open>One invoice\<close>

definition invoice_rows :: "intl \<Rightarrow> zone \<Rightarrow> PortalInvoice \<Rightarrow> info_row list" where
  "invoice_rows i z bill =
     [(''Periode'', formatPeriod i z (pi_period_start bill) (pi_period_end bill)), (''Jatuh Tempo'', formatIDDate i z (Some (pi_due_date bill)))]
     @ (if or_else (pi_paid_at bill) [] = [] then [] else [(''Tanggal Lunas'', formatIDDate i z (pi_paid_at bill))])
     @ (if pi_notes bill = [] then [] else [(''Catatan'', Some (pi_notes bill))])"

definition pending_rows :: "intl \<Rightarrow> PortalPayment \<Rightarrow> info_row list" where
  "pending_rows i p =
     [(''Bank Pengirim'', Some (or_em_dash (or_else (pp_bank_name p) []))), (''No. Referensi'', Some (or_em_dash (or_else (pp_reference_number p) []))),
      (''Jumlah'', Some (formatIDR i (pp_amount p)))]"

definition ProofImage :: "string \<Rightarrow> string \<Rightarrow> string \<Rightarrow> string" where
  "ProofImage base token proof_path = base @ proof_path @ ''?access_token='' @ encodeURIComponent token"

definition pending_proof :: "string \<Rightarrow> string \<Rightarrow> PortalPayment \<Rightarrow> string option" where
  "pending_proof base token p =
     (if or_else (pp_proof_url p) [] = [] then None else Some (ProofImage base token (or_else (pp_proof_url p) [])))"

definition rejection_text :: "PortalPayment \<Rightarrow> string" where
  "rejection_text p =
     ''Alasan: '' @ (if or_else (pp_rejection_reason p) [] = [] then ''Bukti transfer tidak valid/jelas'' else or_else (pp_rejection_reason p) [])"

definition online_button :: "bool \<Rightarrow> string \<times> bool" where
  "online_button isInitiating = (if isInitiating then ''Menyiapkan pembayaran...'' else ''Bayar Sekarang'', isInitiating)"

text \<open>Where to transfer to; the account is part of the program.\<close>

definition transfer_notes :: "intl \<Rightarrow> PortalInvoice \<Rightarrow> string list" where
  "transfer_notes i bill =
     [''Silakan transfer sebesar '' @ formatIDR i (pi_amount bill) @ '' ke salah satu rekening berikut:'', ''Bank Mandiri'',
      ''No. Rekening: 131-00-1234567-8'', ''Atas Nama: PT Antigravity ISP Indonesia'']"

text \<open>The form for the proof of a transfer; the file has a control of its own.\<close>

definition proof_fields :: "proof_form \<Rightarrow> proof_form field list" where
  "proof_fields f =
     [field ''bank-name'' ''Nama Bank / Dompet Pengirim *'' (Input ''text'' ''BCA, Mandiri, BRI, GoPay, OVO, dll.'') pr_bankName
        (\<lambda>x f. f\<lparr>pr_bankName := x\<rparr>),
      field ''ref-number'' ''Nomor Referensi / ID Transaksi'' (Input ''text'' ''1234567890 (opsional)'') pr_referenceNumber
        (\<lambda>x f. f\<lparr>pr_referenceNumber := x\<rparr>)]"

datatype file_control = Pick_file string string | Picked_file bool string string

definition file_size_text :: "js \<Rightarrow> string" where
  "file_size_text f = (case js_Number (js_optget f ''size'') of Some n \<Rightarrow> toFixed 2 (n / 1024 / 1024) @ '' MB'' | None \<Rightarrow> ''NaN MB'')"

definition proof_file :: "proof_form \<Rightarrow> file_control" where
  "proof_file f =
     (if or_else (pr_previewUrl f) [] = [] then Pick_file ''image/*,.pdf'' ''PNG, JPG, JPEG atau PDF (maks. 5MB)''
      else case pr_selectedFile f of
        None \<Rightarrow> Picked_file False [] []
      | Some x \<Rightarrow> Picked_file (prefix ''image/'' (js_String (js_optget x ''type''))) (js_String (js_optget x ''name'')) (file_size_text x))"

definition proof_button :: "bool \<Rightarrow> bool \<Rightarrow> proof_form \<Rightarrow> string \<times> bool" where
  "proof_button isUploading isSubmitting f =
     (if isUploading then ''Mengunggah file...'' else if isSubmitting then ''Mengirim data...'' else ''Kirim Bukti Pembayaran'',
      isUploading \<or> isSubmitting \<or> js_trim (pr_bankName f) = [] \<or> pr_selectedFile f = None)"

definition pay_code :: "PortalInvoice \<Rightarrow> (string \<times> string) option" where
  "pay_code bill = (if shows_pay_code bill then Some (or_else (pi_qr_content bill) [], formattedCode (pi_payment_code bill)) else None)"

definition copy_label :: "bool \<Rightarrow> string" where
  "copy_label copied = (if copied then ''Tersalin!'' else ''Salin Kode'')"

datatype invoice_page = Invoice_loading | Invoice_missing | Invoice_shown string StatusInfo string "info_row list" invoice_card "(string \<times> string) option"

text \<open>The code for the cashier stands below the ways to pay, where there is one.\<close>

definition InvoiceDetail ::
  "intl \<Rightarrow> zone \<Rightarrow> bool \<Rightarrow> bool \<Rightarrow> bool \<Rightarrow> bool option \<Rightarrow> PortalInvoice option \<Rightarrow> PortalPayment list option \<Rightarrow> invoice_page"
where
  "InvoiceDetail i z isInvoiceLoading isPaymentsLoading isGatewayLoading gateway invoice payments =
     (if isInvoiceLoading \<or> isPaymentsLoading then Invoice_loading
      else case invoice of
        None \<Rightarrow> Invoice_missing
      | Some bill \<Rightarrow>
          (let c = payment_card isGatewayLoading gateway bill payments in
           Invoice_shown (pi_invoice_number bill) (invoiceStatus (pi_status bill)) (formatIDR i (pi_amount bill)) (invoice_rows i z bill) c
             (case c of
                Pay_card _ _ \<Rightarrow> pay_code bill
              | _ \<Rightarrow> None)))"

text \<open>Copying the code; the mark goes away with the first timer that runs out.\<close>

definition handleCopy :: "PortalInvoice option \<Rightarrow> bool \<Rightarrow> bool \<times> nat \<Rightarrow> (bool \<times> nat) \<times> ui_event list" where
  "handleCopy invoice written = (\<lambda>(copied, timers).
     if or_else (Option.bind invoice pi_payment_code) [] = [] then ((copied, timers), [])
     else if written then ((True, Suc timers), [Success ''Kode disalin!'' JUndef])
     else ((copied, timers), [Failure ''Gagal menyalin kode'' JUndef]))"

definition copy_timer :: "bool \<times> nat \<Rightarrow> bool \<times> nat" where
  "copy_timer = (\<lambda>(copied, timers). if timers = 0 then (copied, 0) else (False, timers - 1))"

section \<open>Payments, tickets\<close>

record payment_line =
  pe_bar :: string
  pe_amount :: string
  pe_status :: StatusInfo
  pe_method :: "string option"
  pe_invoice :: string

definition payment_entry :: "intl \<Rightarrow> zone \<Rightarrow> PortalPayment \<Rightarrow> payment_line" where
  "payment_entry i z p =
     \<lparr>pe_bar = (if pp_status p = ''confirmed'' then ''bg-emerald-500'' else if pp_status p = ''rejected'' then ''bg-destructive'' else ''bg-amber-400''),
      pe_amount = formatIDR i (pp_amount p), pe_status = paymentStatus (pp_status p),
      pe_method = (if or_else (pp_confirmed_at p) [] = [] then Some (paymentMethod (pp_method p))
        else map_option (\<lambda>d. paymentMethod (pp_method p) @ mid_dot @ d) (formatIDDate i z (pp_confirmed_at p))),
      pe_invoice = ''Invoice #'' @ show_int (pp_invoice_id p)\<rparr>"

definition PaymentHistory :: "intl \<Rightarrow> zone \<Rightarrow> bool \<Rightarrow> PortalPayment list option \<Rightarrow> payment_line cards_shown" where
  "PaymentHistory i z isLoading payments =
     card_list isLoading 4 (''Belum ada pembayaran'', ''Riwayat pembayaran Anda akan muncul di sini'') (payment_entry i z) (or_else payments [])"

datatype ticket_status = Ticket_open | Ticket_in_progress | Ticket_resolved

record MockTicket =
  tk_id :: int
  tk_code :: string
  tk_title :: string
  tk_preview :: string
  tk_status :: ticket_status
  tk_createdAt :: string
  tk_replyCount :: nat

definition MOCK_TICKETS :: "MockTicket list" where
  "MOCK_TICKETS =
     [\<lparr>tk_id = 1, tk_code = ''TKT-001'', tk_title = ''Koneksi internet lambat di sore hari'',
       tk_preview = ''Setiap sore sekitar jam 4-8 malam, koneksi internet saya sangat lambat...'', tk_status = Ticket_in_progress,
       tk_createdAt = ''3 Jun 2026'', tk_replyCount = 2\<rparr>,
      \<lparr>tk_id = 2, tk_code = ''TKT-002'', tk_title = ''Router tidak bisa connect'',
       tk_preview = ''Router saya tidak bisa terkoneksi ke internet sejak tadi pagi...'', tk_status = Ticket_resolved,
       tk_createdAt = ''28 Mei 2026'', tk_replyCount = 5\<rparr>]"

definition ticket_statusMap :: "ticket_status \<Rightarrow> StatusInfo" where
  "ticket_statusMap s =
     (case s of Ticket_open \<Rightarrow> status_info ''Menunggu'' ''idle'' | Ticket_in_progress \<Rightarrow> status_info ''Diproses'' ''default''
      | Ticket_resolved \<Rightarrow> status_info ''Selesai'' ''online'')"

definition ticket_filters :: "(string \<times> string) list" where
  "ticket_filters = [(''Semua'', ''all''), (''Terbuka'', ''open''), (''Selesai'', ''resolved'')]"

definition displayed_tickets :: "string \<Rightarrow> MockTicket list \<Rightarrow> MockTicket list" where
  "displayed_tickets f =
     filter (\<lambda>t. if f = ''all'' then True else if f = ''open'' then tk_status t \<noteq> Ticket_resolved else tk_status t = Ticket_resolved)"

definition ticket_card :: "MockTicket \<Rightarrow> string list" where
  "ticket_card t =
     [tk_code t, si_label (ticket_statusMap (tk_status t)), tk_title t, tk_preview t, tk_createdAt t, show_nat (tk_replyCount t) @ '' balasan'']"

definition PortalTickets :: "string \<Rightarrow> string list cards_shown" where
  "PortalTickets f = card_list False 0 (''Tidak ada tiket'', []) ticket_card (displayed_tickets f MOCK_TICKETS)"

section \<open>The account\<close>

definition initials_of :: "PortalMe option \<Rightarrow> string" where
  "initials_of me =
     (case me of None \<Rightarrow> ''?'' | Some m \<Rightarrow> toUpperCase (concat (map (take 1) (take 2 (js_split '' '' (me_full_name m))))))"

definition profile_rows :: "PortalMe option \<Rightarrow> (string \<times> string) list" where
  "profile_rows me =
     (let get = (\<lambda>f. case me of None \<Rightarrow> [] | Some m \<Rightarrow> f m) in
      [(''Nama Lengkap'', or_em_dash (get me_full_name)), (''Nomor HP'', or_em_dash (get me_phone)), (''Alamat'', or_em_dash (get me_address)),
       (''Area'', or_em_dash (get me_area))])"

text \<open>The switch of the dark mode.\<close>

definition dark_checked :: "prefs \<Rightarrow> bool" where
  "dark_checked s = (pf_theme s = ''dark'')"

definition dark_switch :: "bool \<Rightarrow> prefs \<Rightarrow> prefs" where
  "dark_switch v = setTheme (if v then ''dark'' else ''light'')"

record password_sheet =
  sh_open :: bool
  sh_old :: string
  sh_new :: string
  sh_confirm :: string
  sh_showOld :: bool
  sh_showNew :: bool
  sh_error :: string

definition sheet_onOpenChange :: "bool \<Rightarrow> password_sheet \<Rightarrow> password_sheet" where
  "sheet_onOpenChange v s = s\<lparr>sh_open := v\<rparr>"

definition sheet_fields :: "password_sheet \<Rightarrow> password_sheet field list" where
  "sheet_fields s =
     [field ''old-pw'' ''Password Lama'' (Input (if sh_showOld s then ''text required'' else ''password required'') (bullets @ bullets)) sh_old
        (\<lambda>x s. s\<lparr>sh_old := x\<rparr>),
      field ''new-pw'' ''Password Baru (min. 8 karakter)'' (Input (if sh_showNew s then ''text required'' else ''password required'') (bullets @ bullets))
        sh_new (\<lambda>x s. s\<lparr>sh_new := x\<rparr>),
      field ''confirm-pw'' ''Konfirmasi Password Baru'' (Input ''password required'' (bullets @ bullets)) sh_confirm (\<lambda>x s. s\<lparr>sh_confirm := x\<rparr>)]"

definition sheet_submit :: "password_sheet \<Rightarrow> password_sheet \<times> submission option" where
  "sheet_submit s =
     (case handlePasswordSubmit (sh_old s, sh_new s, sh_confirm s) of
        Inl es \<Rightarrow> (s\<lparr>sh_error := (case es of [] \<Rightarrow> [] | e # _ \<Rightarrow> snd e)\<rparr>, None)
      | Inr q \<Rightarrow> (s\<lparr>sh_error := []\<rparr>, Some q))"

definition sheet_settled :: "thrown + js \<Rightarrow> password_sheet \<Rightarrow> password_sheet" where
  "sheet_settled r s =
     (case r of
        Inr _ \<Rightarrow> s\<lparr>sh_open := False, sh_old := [], sh_new := [], sh_confirm := []\<rparr>
      | Inl _ \<Rightarrow> s\<lparr>sh_error := ''Password lama salah atau terjadi kesalahan.''\<rparr>)"

section \<open>Laws\<close>

text \<open>At most one tab is marked, whatever the address.\<close>

lemma one_tab: "length (filter (tab_active pathname) portal_tabs) \<le> 1"
proof -
  have x: "\<not> (prefix a pathname \<and> prefix b pathname)" if "\<not> prefix a b" "\<not> prefix b a" for a b :: string
    using that prefix_same_cases by blast
  show ?thesis
    using x [of "''/portal/invoices''" "''/portal/subscriptions''"] x [of "''/portal/invoices''" "''/portal/profile''"]
      x [of "''/portal/subscriptions''" "''/portal/profile''"]
    by (auto simp: portal_tabs_def tab_active_def)
qed

text \<open>The counts of the tab bar, of the home page and of the list of invoices agree, and a count is shown unless it is nought.\<close>

lemma unpaid_counts_agree:
  "unpaidCount (or_else issued []) (or_else overdue []) = length (allUnpaid (or_else overdue []) (or_else issued []))"
  "snd (snd (hd (home_links issued overdue))) = None \<longleftrightarrow> tab_badge ''Tagihan'' (unpaidCount (or_else issued []) (or_else overdue [])) = None"
  by (auto simp: unpaidCount_def allUnpaid_def home_links_def tab_badge_def Let_def)

text \<open>
  The button of the proof is open exactly when the handler sends something.
\<close>

lemma proof_button_sends:
  "\<not> snd (proof_button False False f) \<longleftrightarrow> fst (handleUploadAndSubmit invoiceId f u p) \<noteq> []"
  by (auto simp: proof_button_def handleUploadAndSubmit_def Let_def split: option.split sum.split)

text \<open>A way to pay is on the page exactly for an unpaid invoice that has no payment waiting.\<close>

lemma pay_offered:
  "(\<exists>a b c d e f g. InvoiceDetail i z False False gl gw (Some bill) payments = Invoice_shown a b c d (Pay_card e f) g)
    \<longleftrightarrow> isUnpaid bill \<and> pendingPayment (pi_id bill) payments = None"
  by (auto simp: InvoiceDetail_def payment_card_def isUnpaid_def Let_def split: option.split)

text \<open>
  While the overdue invoices are not there yet, a customer without other unpaid ones reads that all is paid; and the list of
  those issued says so whenever it is empty, also for a customer with overdue ones.
\<close>

lemma all_paid_too_early: "home_invoices i z False (Some []) None = Hero_clear"
  by (simp add: home_invoices_def topInvoice_def allUnpaid_def Let_def)

lemma empty_filter_says_paid:
  "InvoiceList i z False (Some [bill]) (Some []) (Some [bill]) (Some []) ''issued'' = Cards_none ''Tidak ada tagihan'' (''Semua tagihan sudah lunas '' @ party)"
  by (simp add: InvoiceList_def displayed_def card_list_def)

text \<open>The state of an active customer is stored as \<open>aktif\<close>; the greeting looks for another word and shows the stored one.\<close>

lemma greeting_raw_status: "me_status m = ''aktif'' \<Longrightarrow> home_greeting False (Some m) = Some (me_full_name m, Some ''aktif'')"
  by (simp add: home_greeting_def)

text \<open>A subscription that has ended is summed up as the active package.\<close>

lemma ended_package_active:
  "ps_status s = ''terminated'' \<Longrightarrow> ps_next_invoice_date s = None
    \<Longrightarrow> home_package i z (Some [s]) = Some [(''Paket Aktif'', Some (service_name (ps_service_type s) @ mid_dot @ ps_mikrotik_username s))]"
  by (simp add: home_package_def activeSub_def)

text \<open>The two filters of the tickets divide them.\<close>

lemma tickets_divided:
  "mset (displayed_tickets ''open'' ts) + mset (displayed_tickets ''resolved'' ts) = mset (displayed_tickets ''all'' ts)"
  by (induction ts) (auto simp: displayed_tickets_def)

text \<open>Copying twice: the timer of the first takes the mark of the second away.\<close>

lemma copied_twice:
  assumes "or_else (Option.bind invoice pi_payment_code) [] \<noteq> []"
  shows "copy_timer (fst (handleCopy invoice True (fst (handleCopy invoice True (False, 0))))) = (False, 1)"
  using assms by (simp add: handleCopy_def copy_timer_def)

text \<open>The sheet keeps what was typed when it is closed, until a change succeeds.\<close>

lemma sheet_keeps:
  "sheet_onOpenChange True (sheet_onOpenChange False s) = s\<lparr>sh_open := True\<rparr>"
  "sheet_settled (Inr r) s = s\<lparr>sh_open := False, sh_old := [], sh_new := [], sh_confirm := []\<rparr>"
  by (simp_all add: sheet_onOpenChange_def sheet_settled_def)

text \<open>The password form is sent exactly when the new password is long enough and typed twice.\<close>

lemma sheet_sends:
  "(\<exists>q. snd (sheet_submit s) = Some q) \<longleftrightarrow> 8 \<le> length (sh_new s) \<and> sh_new s = sh_confirm s"
  "snd (sheet_submit s) = None \<Longrightarrow> sh_error (fst (sheet_submit s)) \<noteq> []"
  by (auto simp: sheet_submit_def handlePasswordSubmit_def split: if_splits)

text \<open>The switch of the dark mode shows what it set; a theme that follows the system shows as off.\<close>

lemma dark_switch_shown: "dark_checked (dark_switch v s) = v" "pf_theme s = ''system'' \<Longrightarrow> \<not> dark_checked s"
  by (simp_all add: dark_checked_def dark_switch_def setTheme_def)

end
