(* ===== verification/Billing_Pages.thy ===== *)
theory Billing_Pages
  imports List_Pages Payment_Views
begin

text \<open>
  The pages of customers, subscriptions, invoices, payments and registrations around their tables
  (\<^verbatim>\<open>features/invoices\<close>, \<^verbatim>\<open>features/payments\<close>, \<^verbatim>\<open>features/customers\<close>, \<^verbatim>\<open>features/subscriptions\<close>,
  \<^verbatim>\<open>features/registrations\<close>, \<^verbatim>\<open>features/audit-logs\<close>, \<^verbatim>\<open>features/notifications\<close>): heads, filters that ask the server, the
  dialog of one invoice, the collection by code as a step relation, and the drawers that show an entry of a log.
\<close>

section \<open>Heads\<close>

definition list_page :: "string \<Rightarrow> string \<Rightarrow> string list \<Rightarrow> bool \<Rightarrow> string \<Rightarrow> string \<times> page_head" where
  "list_page title subtitle buttons isError failure =
     (title, \<lparr>ph_subtitle = subtitle, ph_buttons = buttons, ph_failed = (if isError then Some failure else None)\<rparr>)"

definition staff_only :: "string option \<Rightarrow> string list \<Rightarrow> string list" where
  "staff_only viewer_role buttons = (if viewer_role = Some ''viewer'' then [] else buttons)"

definition customers_head :: "string option \<Rightarrow> bool \<Rightarrow> string \<times> page_head" where
  "customers_head viewer_role isError =
     list_page ''Customers'' ''Manage your customers here.'' (staff_only viewer_role [''Add Customer'']) isError ''Failed to load customers.''"

definition subscriptions_head :: "string option \<Rightarrow> bool \<Rightarrow> string \<times> page_head" where
  "subscriptions_head viewer_role isError =
     list_page ''Subscriptions'' ''Manage your subscriptions here.'' (staff_only viewer_role [''New Subscription'']) isError
       ''Failed to load subscriptions.''"

definition registrations_head :: "bool \<Rightarrow> Registration list option \<Rightarrow> string \<times> page_head" where
  "registrations_head isError answer =
     (let pending = length (filter (\<lambda>r. rg_status r = ''pending'') (or_else answer [])) in
      list_page ''Registrations''
        (''Installation requests from the public form. '' @ show_nat pending @ '' pending review.'') [] isError ''Failed to load registrations.'')"

definition notifications_head :: "bool \<Rightarrow> string \<times> page_head" where
  "notifications_head isError =
     list_page ''Notification Log'' ''Every WhatsApp message the system sent, with delivery + retry status.'' [] isError
       ''Failed to load notifications.''"

definition audit_head :: "bool \<Rightarrow> string \<times> page_head" where
  "audit_head isError =
     list_page ''Audit Logs'' ''Who changed what, and when. Newest first.'' [] isError ''Failed to load audit logs.''"

definition templates_head :: "bool \<Rightarrow> string \<times> page_head" where
  "templates_head isError =
     list_page ''Message Templates'' ''WhatsApp notification templates. Edit the wording; the slug is fixed.'' [] isError
       ''Failed to load templates.''"

definition payments_head :: "bool \<Rightarrow> Payment list option \<Rightarrow> string \<times> page_head" where
  "payments_head isError answer =
     (let data = or_else answer []; waiting = pendingCount data in
      list_page ''Pembayaran''
        (show_nat (length data) @ '' transaksi'' @ (if 0 < waiting then '' '' @ show_nat waiting @ '' menunggu konfirmasi'' else []))
        [''Terima Pembayaran''] isError ''Gagal memuat data pembayaran.'')"

definition invoices_head :: "bool \<Rightarrow> Invoice list option \<Rightarrow> string \<times> page_head" where
  "invoices_head isError answer =
     list_page ''Invoices'' (show_nat (length (or_else answer [])) @ '' tagihan'') [''Buat Invoice''] isError ''Gagal memuat invoice.''"

text \<open>The monitoring page: its head counts, its toolbar counts again and warns of differences with the router.\<close>

definition monitoring_head :: "SubscriptionEnrichedItem list option \<Rightarrow> string \<times> string list" where
  "monitoring_head answer =
     (let data = or_else answer []; (online, offline, drift) = monitoring_counts data in
      (show_nat (length data) @ '' subscription'',
       (if 0 < online then [show_nat online @ '' online''] else []) @ (if 0 < offline then [show_nat offline @ '' offline''] else [])
       @ [''(auto-refresh 30s)'']))"

definition monitoring_badges :: "SubscriptionEnrichedItem list option \<Rightarrow> string list" where
  "monitoring_badges answer =
     (let (online, offline, drift) = monitoring_counts (or_else answer []) in
      [show_nat online @ '' online'', show_nat offline @ '' offline'']
      @ (if 0 < drift then [[char_of (226 :: nat), char_of (154 :: nat), char_of (160 :: nat)] @ '' '' @ show_nat drift @ '' drift''] else []))"

definition monitoring_status_options :: "(string \<times> string) list" where
  "monitoring_status_options =
     [([], ''Semua status''), (''active'', ''Active''), (''isolir'', ''Isolir''), (''suspended'', ''Suspended''),
      (''terminated'', ''Terminated''), (''pending_install'', ''Pending Install'')]"

definition monitoring_service_options :: "(string \<times> string) list" where
  "monitoring_service_options = [([], ''Semua service''), (''pppoe'', ''PPPoE''), (''hotspot'', ''Hotspot'')]"

definition monitoring_refresh :: "bool \<Rightarrow> bool \<times> ui_event list" where
  "monitoring_refresh isFetching = (\<not> isFetching, [Info (''Memuat ulang data monitoring'' @ ellipsis) JUndef])"

section \<open>The invoices page\<close>

definition MONTHS :: "string list" where
  "MONTHS =
     [''Januari'', ''Februari'', ''Maret'', ''April'', ''Mei'', ''Juni'', ''Juli'', ''Agustus'', ''September'', ''Oktober'',
      ''November'', ''Desember'']"

definition YEARS :: "int \<Rightarrow> int list" where
  "YEARS currentYear = [currentYear, currentYear - 1, currentYear - 2]"

record invoices_page =
  ip_month :: string
  ip_year :: int
  ip_customer :: string
  ip_detail :: "int option"
  ip_generate :: bool
  ip_payment :: "Invoice option"

definition Invoices_init :: "int \<Rightarrow> invoices_page" where
  "Invoices_init currentYear =
     \<lparr>ip_month = ''all'', ip_year = currentYear, ip_customer = ''all'', ip_detail = None, ip_generate = False, ip_payment = None\<rparr>"

text \<open>The filters above the table; the year waits for a month. A value of the year is the text of a number.\<close>

definition invoices_fields :: "int \<Rightarrow> Customer list option \<Rightarrow> invoices_page \<Rightarrow> invoices_page field list" where
  "invoices_fields currentYear customers p =
     [field ''customer'' []
        (Select ''Semua pelanggan'' ((''all'', ''Semua pelanggan'') # map (\<lambda>c. (show_int (cu_id c), cu_full_name c)) (or_else customers [])) [])
        ip_customer (\<lambda>x p. p\<lparr>ip_customer := x\<rparr>),
      field ''month'' []
        (Select ''Semua bulan'' ((''all'', ''Semua bulan'') # map (\<lambda>k. (show_int (int k + 1), MONTHS ! k)) [0..<length MONTHS]) [])
        ip_month (\<lambda>x p. p\<lparr>ip_month := x\<rparr>),
      locked (ip_month p = ''all'')
        (field ''year'' [] (Select [] (map (\<lambda>y. (show_int y, show_int y)) (YEARS currentYear)) []) (\<lambda>p. show_int (ip_year p))
          (\<lambda>x p. p\<lparr>ip_year := \<lfloor>to_number x\<rfloor>\<rparr>))]"

definition invoices_query :: "invoices_page \<Rightarrow> query_hook" where
  "invoices_query p = useInvoices (Some (invoices_asked (ip_customer p) (ip_month p) (ip_year p)))"

definition onDetail :: "Invoice \<Rightarrow> invoices_page \<Rightarrow> invoices_page" where
  "onDetail v p = p\<lparr>ip_detail := Some (nv_id v)\<rparr>"

definition detail_onClose :: "invoices_page \<Rightarrow> invoices_page" where
  "detail_onClose p = p\<lparr>ip_detail := None\<rparr>"

definition onRecordPayment :: "Invoice \<Rightarrow> invoices_page \<Rightarrow> invoices_page" where
  "onRecordPayment v p = p\<lparr>ip_payment := Some v\<rparr>"

definition payment_onOpenChange :: "bool \<Rightarrow> invoices_page \<Rightarrow> invoices_page" where
  "payment_onOpenChange shown p = (if shown then p else p\<lparr>ip_payment := None\<rparr>)"

section \<open>One invoice\<close>

definition fmt_day :: "zone \<Rightarrow> (int \<Rightarrow> string) \<Rightarrow> string option \<Rightarrow> string option" where
  "fmt_day z write s = (if or_else s [] = [] then Some em_dash else map_option write (parse_Date z (or_else s [])))"

definition canCancel :: "Invoice \<Rightarrow> bool" where
  "canCancel v = (nv_status v = ''issued'' \<or> nv_status v = ''draft'')"

definition canPay :: "Invoice \<Rightarrow> bool" where
  "canPay v = (nv_status v = ''issued'' \<or> nv_status v = ''overdue'')"

definition cancel_invoice :: "Invoice option \<Rightarrow> submission option" where
  "cancel_invoice = map_option (\<lambda>v.
     \<lparr>sub_mutation = useCancelInvoice (nv_id v),
      on_done = (\<lambda>_. [Success (''Invoice '' @ nv_invoice_number v @ '' dibatalkan'') JUndef, Close]),
      on_failed = (\<lambda>err. [Failure ''Gagal membatalkan invoice'' (err_message err)])\<rparr>)"

text \<open>
  The clipboard: missing on a page that was not loaded safely (the access throws, \<open>None\<close>), or there, and then it takes
  the text or refuses it. The answer is not awaited.
\<close>

datatype clipboard = No_clipboard | Clipboard bool

definition copyCode :: "clipboard \<Rightarrow> Invoice option \<Rightarrow> ui_event list option" where
  "copyCode c v =
     (if or_else (Option.bind v nv_payment_code) [] = [] then Some []
      else case c of No_clipboard \<Rightarrow> None | Clipboard taken \<Rightarrow> Some [Success ''Kode bayar disalin'' JUndef])"

record payment_row =
  pr_method :: string
  pr_day :: string
  pr_amount :: string
  pr_status :: string

definition payment_row_of :: "zone \<Rightarrow> intl \<Rightarrow> (int \<Rightarrow> string) \<Rightarrow> Payment \<Rightarrow> payment_row option" where
  "payment_row_of z i write p =
     map_option (\<lambda>day.
       \<lparr>pr_method = methodLabel (pt_method p), pr_day = day, pr_amount = formatIDR i (pt_amount p),
        pr_status = (if pt_status p = ''confirmed'' then ''Dikonfirmasi'' else if pt_status p = ''rejected'' then ''Ditolak'' else ''Pending'')\<rparr>)
       (fmt_day z write (if or_else (pt_confirmed_at p) [] \<noteq> [] then pt_confirmed_at p else Some (pt_created_at p)))"

record invoice_detail =
  id_status :: string
  id_amount :: string
  id_rows :: "(string \<times> string) list"
  id_code :: "string option"
  id_payments :: "payment_row list"
  id_buttons :: "(string \<times> bool) list"

definition invoice_info :: "zone \<Rightarrow> (int \<Rightarrow> string) \<Rightarrow> Customer list option \<Rightarrow> Invoice \<Rightarrow> (string \<times> string) list option" where
  "invoice_info z write customers v =
     do {
       from \<leftarrow> fmt_day z write (Some (nv_period_start v));
       until \<leftarrow> fmt_day z write (Some (nv_period_end v));
       due \<leftarrow> fmt_day z write (Some (nv_due_date v));
       paid \<leftarrow> fmt_day z write (nv_paid_at v);
       Some ([(''Pelanggan'', case find (\<lambda>c. cu_id c = nv_customer_id v) (or_else customers []) of
                                 Some c \<Rightarrow> cu_full_name c | None \<Rightarrow> ''#'' @ show_int (nv_customer_id v)),
              (''Periode'', from @ '' '' @ en_dash @ '' '' @ until), (''Jatuh Tempo'', due)]
             @ (if or_else (nv_paid_at v) [] = [] then [] else [(''Dibayar'', paid)])
             @ (if nv_notes v = [] then [] else [(''Catatan'', nv_notes v)]))
     }"

definition invoice_buttons :: "bool \<Rightarrow> Invoice \<Rightarrow> (string \<times> bool) list" where
  "invoice_buttons cancelling v =
     (if canPay v then [(''Catat Pembayaran'', True)] else []) @ (if canCancel v then [(''Batalkan Invoice'', \<not> cancelling)] else [])
     @ [(''Tutup'', True)]"

text \<open>The code is for the cashier, so it is shown while the invoice can be paid. \<open>None\<close> is a date that cannot be read.\<close>

definition invoice_detail_of ::
  "zone \<Rightarrow> intl \<Rightarrow> (int \<Rightarrow> string) \<Rightarrow> bool \<Rightarrow> Customer list option \<Rightarrow> Payment list option \<Rightarrow> Invoice \<Rightarrow> invoice_detail option"
where
  "invoice_detail_of z i write cancelling customers payments v =
     do {
       rows \<leftarrow> invoice_info z write customers v;
       paid \<leftarrow> those (map (payment_row_of z i write) (or_else payments []));
       Some \<lparr>id_status = invoiceStatusLabel (nv_status v), id_amount = formatIDR i (nv_amount v), id_rows = rows,
             id_code = (if or_else (nv_payment_code v) [] \<noteq> [] \<and> canPay v then nv_payment_code v else None),
             id_payments = paid, id_buttons = invoice_buttons cancelling v\<rparr>
     }"

definition InvoiceDetailDialog ::
  "zone \<Rightarrow> intl \<Rightarrow> (int \<Rightarrow> string) \<Rightarrow> bool \<Rightarrow> bool \<Rightarrow> Customer list option \<Rightarrow> Payment list option \<Rightarrow> Invoice option
    \<Rightarrow> string \<times> (nat + (string + invoice_detail)) option"
where
  "InvoiceDetailDialog z i write isLoading cancelling customers payments v =
     (if isLoading then ''Memuat...'' else or_else (map_option nv_invoice_number v) ''Detail Invoice'',
      if isLoading then Some (Inl 4)
      else case v of
        None \<Rightarrow> Some (Inr (Inl ''Invoice tidak ditemukan.''))
      | Some v \<Rightarrow> map_option (\<lambda>d. Inr (Inr d)) (invoice_detail_of z i write cancelling customers payments v))"

section \<open>Collecting by code\<close>

text \<open>
  The dialog of the cashier: whether it is open, the code, whether a collection is under way that the form still waits for,
  and the receipt. Closing the dialog resets the mutation, which documents that its callbacks do not run any more.
\<close>

record receipt =
  rc_invoice :: string
  rc_amount :: rat

record collecting =
  co_open :: bool
  co_code :: string
  co_waiting :: bool
  co_receipt :: "receipt option"

definition collect_init :: collecting where
  "collect_init = \<lparr>co_open = False, co_code = [], co_waiting = False, co_receipt = None\<rparr>"

definition collect_handleClose :: "collecting \<Rightarrow> collecting" where
  "collect_handleClose s = collect_init"

definition collect_settled :: "thrown + receipt \<Rightarrow> collecting \<Rightarrow> collecting \<times> ui_event list" where
  "collect_settled r s =
     (if co_waiting s then
        (case r of
           Inr data \<Rightarrow> (s\<lparr>co_waiting := False, co_receipt := Some data\<rparr>, [])
         | Inl err \<Rightarrow> (s\<lparr>co_waiting := False\<rparr>, [FieldError ''code'' (err_message err)]))
      else (s, []))"

definition collect_view :: "intl \<Rightarrow> collecting \<Rightarrow> (string \<times> string) + string form_page" where
  "collect_view i s =
     (case co_receipt s of Some r \<Rightarrow> Inl (rc_invoice r, formatIDR i (rc_amount r)) | None \<Rightarrow> Inr collect_form_page)"

inductive collect_step :: "collecting \<Rightarrow> collecting \<Rightarrow> bool" where
  show_collect: "collect_step s (s\<lparr>co_open := True\<rparr>)"
| typed: "co_open s \<Longrightarrow> co_receipt s = None \<Longrightarrow> collect_step s (s\<lparr>co_code := toUpperCase x\<rparr>)"
| sent: "co_open s \<Longrightarrow> co_receipt s = None \<Longrightarrow> \<not> co_waiting s \<Longrightarrow> collect_schema (co_code s) = [] \<Longrightarrow> collect_step s (s\<lparr>co_waiting := True\<rparr>)"
| settled: "collect_step s (fst (collect_settled r s))"
| closed: "collect_step s (collect_handleClose s)"

inductive_cases collect_step_elim: "collect_step s t"

section \<open>Entries of the logs\<close>

text \<open>
  \<open>JSON.stringify(v, null, 2)\<close> of what \<open>JSON.parse\<close> gives; the number is the depth. A text that is no JSON is shown as
  it is.
\<close>

definition json_line :: "nat \<Rightarrow> string \<Rightarrow> string" where
  "json_line d s = [char_of (10 :: nat)] @ replicate (2 * d) CHR '' '' @ s"

fun pretty_json :: "nat \<Rightarrow> js \<Rightarrow> string"
and pretty_items :: "nat \<Rightarrow> js list \<Rightarrow> string"
and pretty_entries :: "nat \<Rightarrow> (string \<times> js) list \<Rightarrow> string" where
  "pretty_json d (JStr s) = json_quote s"
| "pretty_json d (JArr []) = ''[]''"
| "pretty_json d (JArr (v # vs)) = ''['' @ json_line (Suc d) (pretty_json (Suc d) v) @ pretty_items d vs @ json_line d '']''"
| "pretty_json d (JObj []) = ''{}''"
| "pretty_json d (JObj ((k, v) # kvs)) =
     ''{'' @ json_line (Suc d) (json_quote k @ '': '' @ pretty_json (Suc d) v) @ pretty_entries d kvs @ json_line d ''}''"
| "pretty_json d v = js_String v"
| "pretty_items d [] = []"
| "pretty_items d (v # vs) = '','' @ json_line (Suc d) (pretty_json (Suc d) v) @ pretty_items d vs"
| "pretty_entries d [] = []"
| "pretty_entries d ((k, v) # kvs) = '','' @ json_line (Suc d) (json_quote k @ '': '' @ pretty_json (Suc d) v) @ pretty_entries d kvs"

definition pretty :: "string \<Rightarrow> string" where
  "pretty raw = (if raw = [] then em_dash else case JSON_parse raw of Some v \<Rightarrow> pretty_json 0 v | None \<Rightarrow> raw)"

definition audit_detail :: "intl \<Rightarrow> zone \<Rightarrow> AuditLog \<Rightarrow> (string list \<times> string \<times> (string \<times> string) list) option" where
  "audit_detail i z l =
     map_option (\<lambda>t.
       ([al_action l, al_entity_type l @ (case nonzero (al_entity_id l) of None \<Rightarrow> [] | Some n \<Rightarrow> '' #'' @ show_int n)],
        formatDateTime i t @ mid_dot @ (case nonzero (al_user_id l) of None \<Rightarrow> ''system'' | Some n \<Rightarrow> ''user #'' @ show_int n)
          @ (if al_ip_address l = [] then [] else mid_dot @ al_ip_address l),
        (if al_notes l = [] then [] else [(''Notes'', al_notes l)])
          @ [(''Old values'', pretty (al_old_values l)), (''New values'', pretty (al_new_values l))]))
       (parse_Date z (al_created_at l))"

definition stamp :: "intl \<Rightarrow> zone \<Rightarrow> string option \<Rightarrow> string option" where
  "stamp i z s = (if or_else s [] = [] then Some em_dash else map_option (formatDateTime i) (parse_Date z (or_else s [])))"

definition notification_detail :: "intl \<Rightarrow> zone \<Rightarrow> NotificationLog \<Rightarrow> (string list \<times> string \<times> (string \<times> string) list) option" where
  "notification_detail i z l =
     do {
       made \<leftarrow> map_option (formatDateTime i) (parse_Date z (nl_created_at l));
       sent \<leftarrow> stamp i z (nl_sent_at l);
       again \<leftarrow> stamp i z (nl_next_retry_at l);
       Some ([nl_template_slug l, nl_status l], ''To '' @ nl_recipient_phone l @ mid_dot @ made,
             [(''Message'', or_dash (nl_message_body l)), (''Provider'', or_dash (nl_provider l)), (''Retries'', show_int (nl_retry_count l)),
              (''Sent at'', sent), (''Next retry'', again)])
     }"

section \<open>Laws\<close>

text \<open>The year is asked for exactly with a month, and can be chosen exactly then.\<close>

lemma year_with_month:
  "''year'' \<in> fst ` set (invoices_asked c m y) \<longleftrightarrow> ''month'' \<in> fst ` set (invoices_asked c m y)"
  "usable (invoices_fields cy cs p) ''year'' = None \<longleftrightarrow> ip_month p = ''all''"
  by (cases "m = ''all''"; cases "c = ''all''"; simp add: invoices_asked_def) (simp add: usable_def invoices_fields_def field_simps_page)

text \<open>The table and the dialog offer a payment for the same invoices; a settled one can only be closed.\<close>

lemma payment_offered_alike: "''Catat Pembayaran'' \<in> set (invoice_rowActions v) \<longleftrightarrow> ''Catat Pembayaran'' \<in> fst ` set (invoice_buttons b v)"
  by (auto simp: invoice_rowActions_def invoice_buttons_def canPay_def)

lemma settled_only_closes:
  "nv_status v = ''paid'' \<or> nv_status v = ''cancelled'' \<Longrightarrow> invoice_buttons b v = [(''Tutup'', True)]"
  by (auto simp: invoice_buttons_def canPay_def canCancel_def)

lemma code_while_payable: "invoice_detail_of z i w b cs ps v = Some d \<Longrightarrow> id_code d \<noteq> None \<Longrightarrow> canPay v"
  by (auto simp: invoice_detail_of_def bind_eq_Some_conv split: if_splits)

text \<open>The copy is reported whether the clipboard took the code or not.\<close>

lemma copy_told_anyway:
  "or_else (nv_payment_code v) [] \<noteq> [] \<Longrightarrow> copyCode (Clipboard False) (Some v) = Some [Success ''Kode bayar disalin'' JUndef]"
  by (simp add: copyCode_def)

text \<open>The counts of the monitoring page add up.\<close>

lemma monitoring_adds_up: "monitoring_counts data = (online, offline, drift) \<Longrightarrow> online + offline = length data"
  by (auto simp: monitoring_counts_def Let_def)

text \<open>A receipt stands only in an open dialog whose collection has succeeded; a dialog that is closed holds nothing.\<close>

interpretation collecting_kept: inductive_invariant "\<lambda>s. s = collect_init" collect_step
  "\<lambda>s. (\<not> co_open s \<longrightarrow> s = collect_init) \<and> (co_receipt s \<noteq> None \<longrightarrow> \<not> co_waiting s)"
  by unfold_locales
    (auto elim!: collect_step_elim simp: collect_init_def collect_handleClose_def collect_settled_def split: sum.splits if_splits)

lemma closed_collect_empty:
  "collect_step\<^sup>*\<^sup>* collect_init s \<Longrightarrow> \<not> co_open s \<Longrightarrow> s = collect_init"
  using collecting_kept.inv_reachable by blast

text \<open>
  A collection whose dialog was closed before the reply succeeds without a word: no receipt and no message tell the cashier
  that the payment was taken.
\<close>

lemma closed_collect_silent: "collect_settled (Inr r) (collect_handleClose s) = (collect_init, [])"
  by (simp add: collect_settled_def collect_handleClose_def collect_init_def)

text \<open>A text that was logged as JSON is shown as it was logged.\<close>

lemma pretty_text: "pretty (json_quote s) = json_quote s"
  by (simp add: pretty_def JSON_parse_quote)

lemma pretty_raw: "raw \<noteq> [] \<Longrightarrow> JSON_parse raw = None \<Longrightarrow> pretty raw = raw"
  by (simp add: pretty_def)

end
