(* ===== verification/Confirm_Views.thy ===== *)
theory Confirm_Views
  imports Billing_Pages Settings_Views
begin

text \<open>
  The questions before something is removed (the dialogs \<^verbatim>\<open>*-delete-dialog.tsx\<close>, \<^verbatim>\<open>components/confirm-dialog.tsx\<close>, the
  disconnection of sessions) as the user reads them, and the dialog that reveals a password
  (\<^verbatim>\<open>components/password-reveal-dialog.tsx\<close>). What their buttons do is in \<^verbatim>\<open>Dialogs\<close> and \<^verbatim>\<open>Billing_Forms\<close>.
\<close>

section \<open>Questions\<close>

record question =
  qn_open :: bool
  qn_title :: string
  qn_text :: string
  qn_cancel :: "string \<times> bool"
  qn_action :: "(string \<times> bool) option"

definition asks_first :: "bool \<Rightarrow> string \<Rightarrow> string \<Rightarrow> string \<Rightarrow> bool \<Rightarrow> question" where
  "asks_first opened title text action pending =
     \<lparr>qn_open = opened, qn_title = title, qn_text = text, qn_cancel = (''Cancel'', \<not> pending), qn_action = Some (action, \<not> pending)\<rparr>"

definition how_many :: "'a list \<Rightarrow> string \<Rightarrow> string" where
  "how_many xs what = show_nat (length xs) @ '' '' @ what @ (if 1 < length xs then ''s'' else [])"

definition about :: "'t option \<Rightarrow> ('t \<Rightarrow> string) \<Rightarrow> string \<Rightarrow> string" where
  "about tgt text none = (case tgt of Some t \<Rightarrow> text t | None \<Rightarrow> none)"

definition delete_modes :: "string option \<Rightarrow> bool" where
  "delete_modes md = (md = Some ''delete'' \<or> md = Some ''multi-delete'')"

definition users_question :: "HotspotUserViewModel ids_dialog \<Rightarrow> bool \<Rightarrow> question" where
  "users_question s = asks_first (delete_modes (dg_mode s))
     (if dg_mode s = Some ''multi-delete'' then ''Remove '' @ how_many (dg_ids s) ''user'' @ ''?'' else ''Remove user?'')
     (if dg_mode s = Some ''multi-delete'' then ''Selected users will be permanently removed from RouterOS.''
      else about (dg_target s) (\<lambda>t. ''User '' @ quote (uv_name t) @ '' will be permanently removed from RouterOS.'') ''This user will be removed.'')
     ''Remove''"

definition profiles_question :: "HotspotProfileViewModel ids_dialog \<Rightarrow> bool \<Rightarrow> question" where
  "profiles_question s = asks_first (delete_modes (dg_mode s))
     (if dg_mode s = Some ''multi-delete'' then ''Delete '' @ how_many (dg_ids s) ''profile'' @ ''?'' else ''Delete profile?'')
     (if dg_mode s = Some ''multi-delete''
      then ''Selected profiles will be permanently removed. Existing users on these profiles will be orphaned.''
      else about (dg_target s) (\<lambda>t. ''Profile '' @ quote (pv_name t) @ '' will be permanently removed.'') ''This profile will be removed.'')
     ''Delete''"

definition hosts_question :: "hosts_dialog \<Rightarrow> bool \<Rightarrow> question" where
  "hosts_question s = asks_first (delete_modes (dg_mode s))
     (if dg_mode s = Some ''multi-delete'' then ''Remove '' @ how_many (dg_ids s) ''host'' @ ''?'' else ''Remove host entry?'')
     (if dg_mode s = Some ''multi-delete''
      then ''Selected host entries will be removed from the cache. RouterOS will re-learn them on the next packet.''
      else about (dg_target s)
        (\<lambda>t. ''Host '' @ (if hv_macAddress t \<noteq> [] then hv_macAddress t else hv_id t) @ '' (''
           @ (if hv_address t \<noteq> [] then hv_address t else ''no address'') @ '') will be removed from the cache.'')
        ''This host will be removed.'')
     ''Remove''"

definition secrets_question :: "PPPSecret ids_dialog \<Rightarrow> bool \<Rightarrow> question" where
  "secrets_question s = asks_first (delete_modes (dg_mode s))
     (if dg_mode s = Some ''multi-delete'' then ''Remove '' @ how_many (dg_ids s) ''secret'' @ ''?'' else ''Remove PPP secret?'')
     (if dg_mode s = Some ''multi-delete'' then ''Selected secrets will be permanently removed from RouterOS.''
      else about (dg_target s) (\<lambda>t. ''Secret '' @ quote (ps_name t) @ '' will be permanently removed from RouterOS.'') ''This secret will be removed.'')
     ''Remove''"

definition pppProfiles_question :: "RouterPPPProfile dialog \<Rightarrow> bool \<Rightarrow> question" where
  "pppProfiles_question s = asks_first (dg_mode s = Some ''delete'') ''Remove PPP profile?''
     (about (dg_target s) (\<lambda>t. ''Profile '' @ quote (rp_name t) @ '' will be removed from RouterOS. Secrets using it must be reassigned.'')
        ''This profile will be removed.'')
     ''Remove''"

definition pppBilling_question :: "PPPDbProfile dialog \<Rightarrow> bool \<Rightarrow> question" where
  "pppBilling_question s = asks_first (dg_mode s = Some ''delete'') ''Remove billing profile?''
     (about (dg_target s) (\<lambda>t. ''Profile '' @ quote (pd_name t) @ '' will be removed. Subscriptions using it must be reassigned first.'')
        ''This profile will be removed.'')
     ''Remove''"

text \<open>Nobody is asked to delete the account signed in with: the question says why and has no such button.\<close>

definition adminUsers_question :: "int option \<Rightarrow> AdminUser dialog \<Rightarrow> bool \<Rightarrow> question" where
  "adminUsers_question currentUserId s pending =
     (let isSelf = adminUsers_isSelf currentUserId s in
      \<lparr>qn_open = (dg_mode s = Some ''delete''),
       qn_title = (if isSelf then ''Cannot delete your own account''
                   else ''Delete '' @ quote (about (dg_target s) au_username ''undefined'') @ ''?''),
       qn_text = (if isSelf then ''You are signed in as this user. Switch to another admin account first.''
                  else ''This user will be soft-deleted. The username becomes available again, but historical audit logs keep the original reference.''),
       qn_cancel = (if isSelf then ''OK'' else ''Cancel'', \<not> pending),
       qn_action = (if isSelf then None else Some (''Delete'', \<not> pending))\<rparr>)"

definition curly :: "string \<Rightarrow> string" where
  "curly s = map char_of [226 :: nat, 128, 152] @ s @ map char_of [226 :: nat, 128, 153]"

definition routers_question :: "routers_dialog \<Rightarrow> bool \<Rightarrow> question" where
  "routers_question s = asks_first (rd_mode s = ''delete'')
     (''Delete '' @ curly (about (rd_selectedRouter s) rv_display_name []) @ ''?'')
     ''This will soft-delete the router. Voucher sales associated with this router will be orphaned. This action cannot be undone.''
     ''Delete''"

definition preset_question :: "string option \<Rightarrow> QuickPrintPreset option \<Rightarrow> bool \<Rightarrow> question" where
  "preset_question md tgt = asks_first (md = Some ''delete'') ''Delete preset?''
     (about tgt (\<lambda>t. ''Preset '' @ quote (preset_form.pf_name t) @ '' ('' @ pf_package t @ '') will be permanently removed.'')
        ''This preset will be removed.'' @ '' This action cannot be undone.'')
     ''Delete''"

text \<open>Disconnecting: the sessions of the list as it is cached, those selected, or one.\<close>

definition disconnect_count :: "nat option \<Rightarrow> HotspotActiveViewModel ids_dialog \<Rightarrow> nat" where
  "disconnect_count sessions s =
     (if dg_mode s = Some ''disconnect-all'' then or_else sessions 0
      else if dg_mode s = Some ''disconnect-many'' then length (dg_ids s) else 1)"

definition disconnect_question :: "nat option \<Rightarrow> HotspotActiveViewModel ids_dialog \<Rightarrow> bool \<Rightarrow> question" where
  "disconnect_question sessions s pending =
     (asks_first (dg_mode s \<in> {Some ''disconnect'', Some ''disconnect-many'', Some ''disconnect-all''})
        (if dg_mode s = Some ''disconnect-all'' then ''Disconnect all '' @ show_nat (or_else sessions 0) @ '' sessions?''
         else if dg_mode s = Some ''disconnect-many'' then ''Disconnect '' @ how_many (dg_ids s) ''session'' @ ''?''
         else ''Disconnect session?'')
        (if dg_mode s = Some ''disconnect-all'' then ''Every active hotspot session will be terminated. Connected users must log in again.''
         else if dg_mode s = Some ''disconnect-many'' then ''Selected sessions will be terminated. Affected users must log in again.''
         else about (dg_target s)
           (\<lambda>t. ''Session for '' @ (if av_user t \<noteq> [] then av_user t else ''this user'') @ '' (''
              @ (if av_address t \<noteq> [] then av_address t else ''no address'') @ '') will be terminated.'')
           ''This session will be terminated.'')
        ''Disconnect'' pending)
      \<lparr>qn_action := Some (''Disconnect'', disconnect_count sessions s \<noteq> 0 \<and> \<not> pending)\<rparr>"

section \<open>Confirmed by typing\<close>

text \<open>The shared dialog: its buttons and what locks them.\<close>

definition ConfirmDialog :: "bool \<Rightarrow> string \<Rightarrow> string \<Rightarrow> string option \<Rightarrow> string option \<Rightarrow> bool \<Rightarrow> bool \<Rightarrow> question" where
  "ConfirmDialog opened title desc cancelBtnText confirmText isLoading disabled =
     \<lparr>qn_open = opened, qn_title = title, qn_text = desc, qn_cancel = (or_else cancelBtnText ''Cancel'', \<not> isLoading),
      qn_action = Some (or_else confirmText ''Continue'', \<not> (disabled \<or> isLoading))\<rparr>"

definition typed_warning :: "string \<times> string" where
  "typed_warning = (''Warning!'', ''Please be careful, this operation can not be rolled back.'')"

definition typed_field :: "string \<Rightarrow> string \<Rightarrow> string field" where
  "typed_field label placeholder = field ''value'' label (Input ''text'' placeholder) (\<lambda>v. v) (\<lambda>x v. x)"

definition customers_question :: "bool \<Rightarrow> Customer \<Rightarrow> string \<Rightarrow> bool \<Rightarrow> question \<times> string field" where
  "customers_question opened currentRow value pending =
     (ConfirmDialog opened ''Remove Customer''
        (''Are you sure you want to remove '' @ cu_full_name currentRow
         @ ''? This action will permanently remove the customer. Active subscriptions must be removed first. This cannot be undone.'')
        None (Some ''Remove'') False (js_trim value \<noteq> cu_full_name currentRow \<or> pending),
      typed_field ''Name:'' ''Enter customer name to confirm deletion.'')"

definition subscriptions_question :: "bool \<Rightarrow> Subscription \<Rightarrow> string \<Rightarrow> bool \<Rightarrow> question \<times> string field" where
  "subscriptions_question opened currentRow value pending =
     (ConfirmDialog opened ''Remove Subscription''
        (''Are you sure you want to remove the subscription for '' @ sb_mikrotik_username currentRow
         @ ''? This will permanently delete it. This cannot be undone.'')
        None (Some ''Remove'') False (js_trim value \<noteq> sb_mikrotik_username currentRow \<or> pending),
      typed_field ''Username:'' ''Enter Mikrotik username to confirm deletion.'')"

definition multi_question :: "string \<Rightarrow> bool \<Rightarrow> 'r list \<Rightarrow> string \<Rightarrow> question \<times> string field" where
  "multi_question what opened selectedRows value =
     (ConfirmDialog opened (''Delete '' @ how_many selectedRows what)
        (''Are you sure you want to delete the selected '' @ what @ ''s? This action cannot be undone.'')
        None (Some ''Delete'') False (js_trim value \<noteq> CONFIRM_WORD),
      typed_field (''Confirm by typing '' @ in_double_quotes CONFIRM_WORD @ '':'') (''Type '' @ in_double_quotes CONFIRM_WORD @ '' to confirm.''))"

definition customers_multi_question :: "bool \<Rightarrow> 'r list \<Rightarrow> string \<Rightarrow> question \<times> string field" where
  "customers_multi_question = multi_question ''customer''"

definition subscriptions_multi_question :: "bool \<Rightarrow> 'r list \<Rightarrow> string \<Rightarrow> question \<times> string field" where
  "subscriptions_multi_question = multi_question ''subscription''"

text \<open>The word that was typed stays until a deletion succeeds; closing the dialog does not clear it.\<close>

datatype word_event = Word_typed string | Word_closed | Batch_settled "thrown + js"

fun word_step :: "word_event \<Rightarrow> string \<Rightarrow> string" where
  "word_step (Word_typed x) v = x"
| "word_step Word_closed v = v"
| "word_step (Batch_settled r) v = (case r of Inr _ \<Rightarrow> [] | Inl _ \<Rightarrow> v)"

section \<open>Revealing a password\<close>

record reveal_answer =
  ra_data :: "string option"
  ra_fetching :: bool
  ra_error :: "thrown option"

record reveal_view =
  rl_value :: string
  rl_copy :: bool
  rl_notes :: "string list"
  rl_reset :: "(string \<times> bool) option"

definition reveal_key :: "string \<Rightarrow> qkey" where
  "reveal_key title = [KS ''password-reveal'', KS title]"

definition PasswordRevealDialog :: "reveal_answer \<Rightarrow> string option \<Rightarrow> bool \<Rightarrow> reveal_view" where
  "PasswordRevealDialog a reset_label resetting =
     (let value = or_else (ra_data a) []; loading = ra_fetching a in
      \<lparr>rl_value = (if loading then ''Memuat'' @ ellipsis else value),
       rl_copy = (\<not> loading \<and> value \<noteq> []),
       rl_notes = (case ra_error a of Some err \<Rightarrow> [js_String (parseAPIError err)] | None \<Rightarrow> [])
         @ (if \<not> loading \<and> ra_error a = None \<and> value = [] then [''Belum ada password yang di-set.''] else []),
       rl_reset = map_option (\<lambda>label. (label, \<not> resetting)) reset_label\<rparr>)"

definition reveal_copy :: "clipboard \<Rightarrow> reveal_answer \<Rightarrow> ui_event list" where
  "reveal_copy c a =
     (if or_else (ra_data a) [] = [] then []
      else if c = Clipboard True then [Success ''Password disalin'' JUndef] else [Failure ''Gagal menyalin'' JUndef])"

definition reveal_reset :: "thrown + string \<Rightarrow> reveal_answer \<Rightarrow> reveal_answer \<times> ui_event list" where
  "reveal_reset r a =
     (case r of
        Inr pw \<Rightarrow> (a\<lparr>ra_data := Some pw, ra_error := None\<rparr>, [Success ''Password baru dibuat'' JUndef])
      | Inl err \<Rightarrow> (a, [Failure ''Gagal reset password'' (parseAPIError err)]))"

text \<open>What the pages reveal: the title, the explanation, the call, and the call that makes a new one.\<close>

definition customer_reveal :: "Customer \<Rightarrow> string \<times> string \<times> service \<times> service option" where
  "customer_reveal r =
     (''Password portal '' @ em_dash @ '' '' @ cu_full_name r, ''Kredensial login customer portal (nomor HP + password).'',
      revealPortalPassword (cu_id r), Some (resetPortalPassword (cu_id r)))"

definition subscription_reveal :: "Subscription \<Rightarrow> string \<times> string \<times> service \<times> service option" where
  "subscription_reveal r =
     (''Password MikroTik '' @ em_dash @ '' '' @ sb_mikrotik_username r,
      ''Password PPPoE/hotspot pelanggan. Untuk mengubah, gunakan menu Edit.'', revealSubscriptionPassword (sb_id r), None)"

definition secret_reveal :: "int option \<Rightarrow> PPPSecret \<Rightarrow> string \<times> string \<times> service \<times> service option" where
  "secret_reveal routerId t =
     (''Password PPP secret '' @ em_dash @ '' '' @ ps_name t,
      ''Password /ppp/secret langsung di MikroTik. Untuk mengubah, gunakan Edit.'', revealPPPSecretPassword (or_else routerId 0) (ps_id t), None)"

definition user_reveal :: "int option \<Rightarrow> HotspotUserViewModel \<Rightarrow> string \<times> string \<times> service \<times> service option" where
  "user_reveal routerId t =
     (''Password hotspot user '' @ em_dash @ '' '' @ uv_name t,
      ''Password /ip/hotspot/user langsung di MikroTik. Untuk mengubah, gunakan Edit.'', revealHotspotUserPassword (or_else routerId 0) (uv_id t), None)"

definition input_type :: "bool \<Rightarrow> string" where
  "input_type showPassword = (if showPassword then ''text'' else ''password'')"

definition eye_label :: "bool \<Rightarrow> string" where
  "eye_label showPassword = (if showPassword then ''Hide password'' else ''Show password'')"

section \<open>Laws\<close>

text \<open>The button is free exactly when pressing it sends the request.\<close>

lemma typed_button:
  "qn_action (fst (customers_question b c v False)) = Some (''Remove'', customers_handleDelete c v \<noteq> None)"
  "qn_action (fst (subscriptions_question b s v False)) = Some (''Remove'', subscriptions_handleDelete s v \<noteq> None)"
  by (simp_all add: customers_question_def subscriptions_question_def ConfirmDialog_def customers_handleDelete_def subscriptions_handleDelete_def)

lemma multi_button:
  assumes "\<exists>i \<in> set selected. i \<noteq> 0"
  shows "qn_action (fst (multi_question what b selected v)) = Some (''Delete'', snd (multi_delete what batch v selected) \<noteq> None)"
  using assms by (auto simp: multi_question_def ConfirmDialog_def multi_delete_def Let_def filter_empty_conv)

text \<open>
  Closing the dialog keeps the word, so another selection later can be deleted with one click; only a success clears it.
\<close>

lemma word_stays:
  "qn_action (fst (multi_question what True rows (word_step Word_closed (word_step (Word_typed ''DELETE'') v)))) = Some (''Delete'', True)"
  "word_step (Batch_settled (Inl err)) v = v" "word_step (Batch_settled (Inr r)) v = []"
  by (simp_all add: multi_question_def ConfirmDialog_def CONFIRM_WORD_def js_trim_id is_ws_def code_of_def)

text \<open>One's own account has no button that deletes it, everybody else's has.\<close>

lemma own_account_safe:
  "dg_mode s = Some ''delete'' \<Longrightarrow> dg_target s = Some t
    \<Longrightarrow> qn_action (adminUsers_question me s p) = None \<longleftrightarrow> me = Some (au_id t)"
  by (auto simp: adminUsers_question_def adminUsers_isSelf_def Let_def)

text \<open>The sessions announced are those disconnected, and none is announced with the button free.\<close>

lemma disconnect_announced:
  assumes "dg_mode s \<in> {Some ''disconnect-many'', Some ''disconnect-all''}"
  shows "length (fst (disconnect_handleConfirm rid active s r)) = disconnect_count (map_option length active) s"
  using assms by (cases active) (auto simp: disconnect_handleConfirm_def disconnect_count_def Let_def)

lemma disconnect_nothing: "disconnect_count n s = 0 \<Longrightarrow> qn_action (disconnect_question n s p) = Some (''Disconnect'', False)"
  by (simp add: disconnect_question_def)

text \<open>While a password is fetched nothing of it is shown and it cannot be copied; what is copied is what is shown.\<close>

lemma reveal_hidden: "ra_fetching a \<Longrightarrow> rl_value (PasswordRevealDialog a l b) = ''Memuat'' @ ellipsis \<and> \<not> rl_copy (PasswordRevealDialog a l b)"
  by (simp add: PasswordRevealDialog_def Let_def)

lemma reveal_copied: "reveal_copy c a = [Success m d] \<Longrightarrow> c = Clipboard True \<and> or_else (ra_data a) [] \<noteq> []"
  by (auto simp: reveal_copy_def split: if_splits)

lemma reset_shown: "\<not> ra_fetching a \<Longrightarrow> rl_value (PasswordRevealDialog (fst (reveal_reset (Inr pw) a)) l b) = pw"
  by (simp add: PasswordRevealDialog_def reveal_reset_def Let_def)

text \<open>Two customers of one name share the entry of the cache: it is keyed by the title, which has the name only.\<close>

lemma reveal_key_shared: "cu_full_name a = cu_full_name b \<Longrightarrow> reveal_key (fst (customer_reveal a)) = reveal_key (fst (customer_reveal b))"
  by (simp add: customer_reveal_def)

end
