(* ===== verification/Report_Pages.thy ===== *)
theory Report_Pages
  imports Report Date_Range List_Pages Settings_Views
begin

text \<open>
  What the report pages show (\<^verbatim>\<open>features/report/daily\<close>, \<^verbatim>\<open>features/report/monthly\<close>, \<^verbatim>\<open>features/voucher/sales\<close>,
  \<^verbatim>\<open>features/reports\<close>) around the aggregations of \<^verbatim>\<open>Report\<close>: cards, the data and handlers of the charts, tables, pickers,
  filters, the position in the pages, the export menu as a step relation. Drawing the charts is the chart library's.
\<close>

section \<open>Queries and selects\<close>

text \<open>What a page knows of a query: whether the first answer is awaited, the message of a failure, the data.\<close>

record 'a answered =
  an_loading :: bool
  an_error :: "string option"
  an_data :: "'a option"

definition load_failure :: "string \<Rightarrow> string \<Rightarrow> string" where
  "load_failure what m = ''Failed to load '' @ what @ (if m = [] then ''.'' else '': '' @ m)"

text \<open>The library of the selects throws for an option whose value is the empty text, and with it the page fails.\<close>

definition select_throws :: "string list \<Rightarrow> bool" where
  "select_throws options = ([] \<in> set options)"

text \<open>\<open>Array.from(new Set(xs)).sort()\<close>\<close>

definition sorted_set :: "string list \<Rightarrow> string list" where
  "sorted_set xs = sort (remdups xs)"

lemma set_sorted_set [simp]: "set (sorted_set xs) = set xs"
  by (simp add: sorted_set_def)

lemma distinct_sorted_set [simp]: "distinct (sorted_set xs)"
  by (simp add: sorted_set_def)

definition all_or :: "string \<Rightarrow> string list \<Rightarrow> (string \<times> string) list" where
  "all_or what xs = (''all'', ''All '' @ what) # map (\<lambda>x. (x, x)) xs"

section \<open>The export menu\<close>

text \<open>
  The menu of the three pages: the kind of export that is prepared, and the downloads under way with the names their
  files were given when they were asked for. A download can be asked for while its item can be used; it settles once.
\<close>

definition export_trigger :: "bool \<Rightarrow> export_kind option \<Rightarrow> bool" where
  "export_trigger disabled pending = (\<not> disabled \<and> pending = None)"

definition export_items :: "export_kind option \<Rightarrow> (string \<times> bool) list" where
  "export_items pending = [(''Export CSV'', pending = None), (''Export Excel'', pending = None), (''Print'', True)]"

definition export_label :: "export_kind \<Rightarrow> string" where
  "export_label k = (case k of Csv \<Rightarrow> ''Export CSV'' | Excel \<Rightarrow> ''Export Excel'')"

type_synonym exporting = "export_kind option \<times> (export_kind \<times> string) list"

inductive export_step :: "exporting \<Rightarrow> ui_event list \<Rightarrow> exporting \<Rightarrow> bool" where
  asked: "(export_label k, True) \<in> set (export_items pending)
    \<Longrightarrow> export_step (pending, running) [] (Some k, (k, filename) # running)"
| settled: "(k, filename) \<in> set running
    \<Longrightarrow> export_step (pending, running) (runDownload k filename r) (None, remove1 (k, filename) running)"

inductive_cases export_step_elim: "export_step s shown t"

section \<open>The monthly report\<close>

definition month_name :: "int \<Rightarrow> string" where
  "month_name m = (if 0 \<le> m \<and> m < int (length MONTH_NAMES) then MONTH_NAMES ! nat m else ''undefined'')"

definition day_format :: "intl \<Rightarrow> int \<Rightarrow> string" where
  "day_format i = date_format i ''id-ID'' [(''weekday'', JStr ''short''), (''day'', JStr ''2-digit''), (''month'', JStr ''short'')]"

definition MonthlySummaryCards :: "intl \<Rightarrow> int \<Rightarrow> rat \<Rightarrow> int option \<Rightarrow> rat \<Rightarrow> stat_card list" where
  "MonthlySummaryCards i sold revenue bestDate bestTotal =
     [\<lparr>sc_label = ''Total Sales'', sc_value = show_int sold, sc_sub = ''vouchers sold this month''\<rparr>,
      \<lparr>sc_label = ''Total Revenue'', sc_value = formatIDR i revenue, sc_sub = ''after selling price''\<rparr>,
      \<lparr>sc_label = ''Best Day'',
        sc_value = (case bestDate of Some d \<Rightarrow> day_format i d | None \<Rightarrow> em_dash),
        sc_sub = (case bestDate of Some d \<Rightarrow> formatIDR i bestTotal | None \<Rightarrow> ''no sales'')\<rparr>]"

text \<open>The bars of the days: a bar is labelled with the day of the month and opens that day.\<close>

record ChartDatum =
  cd_day :: int
  cd_total :: rat
  cd_count :: rat
  cd_date :: int

definition month_chart :: "zone \<Rightarrow> MonthlyChartRow list \<Rightarrow> ChartDatum list" where
  "month_chart z rows =
     map (\<lambda>r. \<lparr>cd_day = getDate z (row_date r), cd_total = row_total r, cd_count = row_count r, cd_date = row_date r\<rparr>) rows"

definition bar_tooltip :: "intl \<Rightarrow> rat \<Rightarrow> string \<Rightarrow> string \<times> string" where
  "bar_tooltip i value name = (if name = ''total'' then (formatIDR i value, ''Revenue'') else (show_rat value, ''Count''))"

definition month_chart_label :: "string \<Rightarrow> string" where
  "month_chart_label label = ''Day '' @ label"

definition month_chart_click :: "zone \<Rightarrow> ChartDatum option \<Rightarrow> (string \<times> js) list option" where
  "month_chart_click z payload = map_option (\<lambda>d. drillToDaily z (cd_date d)) payload"

text \<open>The table of the days: the texts of a row and where a click leads, nowhere on a day without sales.\<close>

definition month_day_row :: "intl \<Rightarrow> zone \<Rightarrow> MonthlyChartRow \<Rightarrow> string list \<times> (string \<times> js) list option" where
  "month_day_row i z r =
     ([day_format i (row_date r), show_rat (row_count r), if 0 < row_total r then formatIDR i (row_total r) else em_dash],
      if row_count r = 0 then None else Some (drillToDaily z (row_date r)))"

text \<open>The bars of the year: the selected month stands out, a click selects another.\<close>

record year_bar =
  yb_label :: string
  yb_index :: int
  yb_total :: rat
  yb_count :: rat
  yb_selected :: bool

definition year_chart :: "YearlySummaryRow list \<Rightarrow> int \<Rightarrow> year_bar list" where
  "year_chart rows selectedMonth =
     map (\<lambda>r. \<lparr>yb_label = month_label (yr_month r), yb_index = yr_month r, yb_total = yr_total r, yb_count = yr_count r,
               yb_selected = (yr_month r = selectedMonth)\<rparr>) rows"

definition year_chart_click :: "year_bar option \<Rightarrow> monthly_page \<Rightarrow> monthly_page" where
  "year_chart_click payload p = (case payload of Some b \<Rightarrow> p\<lparr>mp_month := yb_index b\<rparr> | None \<Rightarrow> p)"

text \<open>The picker of the month.\<close>

definition month_options :: "(string \<times> string) list" where
  "month_options = map (\<lambda>m. (show_int (int m), MONTH_NAMES ! m)) [0..<length MONTH_NAMES]"

definition year_options :: "zone \<Rightarrow> int \<Rightarrow> (string \<times> string) list" where
  "year_options z today = map (\<lambda>y. (show_int y, show_int y)) (period_years z today)"

definition period_isCurrent :: "zone \<Rightarrow> int \<Rightarrow> monthly_page \<Rightarrow> bool" where
  "period_isCurrent z today p = (mp_year p = getFullYear z today \<and> mp_month p = getMonth z today)"

datatype period_event = Month_back | Month_forth | Pick_month int | Pick_year int | This_month

definition period_offers :: "zone \<Rightarrow> int \<Rightarrow> monthly_page \<Rightarrow> period_event \<Rightarrow> bool" where
  "period_offers z today p e =
     (case e of
        Month_back \<Rightarrow> True
      | Month_forth \<Rightarrow> \<not> period_isFuture z today p
      | Pick_month m \<Rightarrow> 0 \<le> m \<and> m < int (length MONTH_NAMES)
      | Pick_year y \<Rightarrow> y \<in> set (period_years z today)
      | This_month \<Rightarrow> \<not> period_isCurrent z today p)"

fun period_step :: "zone \<Rightarrow> int \<Rightarrow> period_event \<Rightarrow> monthly_page \<Rightarrow> monthly_page" where
  "period_step z today Month_back p = shift_month z (- 1) p"
| "period_step z today Month_forth p = shift_month z 1 p"
| "period_step z today (Pick_month m) p = p\<lparr>mp_month := m\<rparr>"
| "period_step z today (Pick_year y) p = p\<lparr>mp_year := y\<rparr>"
| "period_step z today This_month p = p\<lparr>mp_year := getFullYear z today, mp_month := getMonth z today\<rparr>"

text \<open>The page. A failed report takes the picker with it; the year has a section of its own that can be hidden.\<close>

record month_answer =
  ma_daily :: "DailySummaryRow list"
  ma_total :: rat
  ma_count :: int

record month_body =
  mb_cards :: "stat_card list"
  mb_chart_title :: string
  mb_chart :: "ChartDatum list"
  mb_year_title :: string
  mb_year_toggle :: string
  mb_year :: "(string + year_bar list) option"
  mb_table :: "(string list \<times> (string \<times> js) list option) list"

record month_view =
  mv_subtitle :: string
  mv_export_disabled :: bool
  mv_export_range :: "string \<times> string"
  mv_body :: "string + month_body"

definition resume_section :: "ResumeRow list answered \<Rightarrow> monthly_page \<Rightarrow> (string + year_bar list) option" where
  "resume_section resume p =
     (if showResume p then
        Some (if an_error resume \<noteq> None then Inl ''Failed to load year overview.''
              else if an_loading resume then Inl (''Loading'' @ ellipsis)
              else Inr (year_chart (padYearly (or_else (an_data resume) [])) (mp_month p)))
      else None)"

definition toggleResume :: "monthly_page \<Rightarrow> monthly_page" where
  "toggleResume p = p\<lparr>showResume := \<not> showResume p\<rparr>"

definition MonthlyReport ::
  "intl \<Rightarrow> zone \<Rightarrow> int option \<Rightarrow> month_answer answered \<Rightarrow> ResumeRow list answered \<Rightarrow> monthly_page \<Rightarrow> string + month_view"
where
  "MonthlyReport i z routerId monthly resume p =
     (if routerId = None then Inl ''Select a router from the sidebar switcher to view its monthly sales report.''
      else case an_error monthly of
        Some m \<Rightarrow> Inl (load_failure ''monthly report'' m)
      | None \<Rightarrow>
          (let rows = densifyMonth z (mp_year p) (mp_month p) (or_else (map_option ma_daily (an_data monthly)) []);
               best = bestDay rows;
               revenue = or_else (map_option ma_total (an_data monthly)) 0;
               sold = or_else (map_option ma_count (an_data monthly)) 0
           in Inr
             \<lparr>mv_subtitle = month_name (mp_month p) @ '' '' @ show_int (mp_year p) @ mid_dot @ ''daily breakdown and yearly trend'',
              mv_export_disabled = (an_loading monthly \<or> sold = 0),
              mv_export_range = month_range z p,
              mv_body =
                (if an_loading monthly then Inl (''Loading monthly report'' @ ellipsis)
                 else Inr
                   \<lparr>mb_cards = MonthlySummaryCards i sold revenue (fst best) (snd best),
                    mb_chart_title = month_name (mp_month p) @ '' Revenue by Day'',
                    mb_chart = month_chart z rows,
                    mb_year_title = show_int (mp_year p) @ '' Year Overview'',
                    mb_year_toggle = (if showResume p then ''Hide'' else ''Show''),
                    mb_year = resume_section resume p,
                    mb_table = map (month_day_row i z) rows\<rparr>)\<rparr>))"

section \<open>The daily report\<close>

definition DailySummaryCards :: "intl \<Rightarrow> rat \<Rightarrow> int \<Rightarrow> nat \<Rightarrow> rat \<Rightarrow> stat_card list" where
  "DailySummaryCards i revenue sold filteredCount filteredRevenue =
     (let isFiltered = (int filteredCount \<noteq> sold) in
      [\<lparr>sc_label = ''Sales Count'', sc_value = show_nat filteredCount,
        sc_sub = (if isFiltered then ''of '' @ show_int sold @ '' on date'' else ''vouchers sold'')\<rparr>,
       \<lparr>sc_label = ''Total Revenue'', sc_value = formatIDR i filteredRevenue,
        sc_sub = (if isFiltered then ''of '' @ formatIDR i revenue @ '' on date'' else ''after selling price'')\<rparr>,
       \<lparr>sc_label = ''Avg Per Voucher'', sc_value = formatIDR i (of_int (daily_average filteredCount filteredRevenue)),
        sc_sub = ''across selection''\<rparr>])"

text \<open>The options come from all sales of the day, so they stay as the filters narrow the rows.\<close>

definition daily_profiles :: "VoucherSale list \<Rightarrow> string list" where
  "daily_profiles sales = sorted_set (map vs_profile_name sales)"

definition daily_servers :: "VoucherSale list \<Rightarrow> string list" where
  "daily_servers sales = sorted_set (map vs_server sales)"

definition daily_filter_fields :: "VoucherSale list \<Rightarrow> DailyFiltersState \<Rightarrow> DailyFiltersState field list" where
  "daily_filter_fields sales f =
     [field ''search'' [] (Input ''text'' ''Search username, MAC, IP...'') df_search (\<lambda>x f. f\<lparr>df_search := x\<rparr>),
      field ''profile'' [] (Select ''Profile'' (all_or ''profiles'' (daily_profiles sales)) []) df_profile (\<lambda>x f. f\<lparr>df_profile := x\<rparr>),
      field ''server'' [] (Select ''Server'' (all_or ''servers'' (daily_servers sales)) []) df_server (\<lambda>x f. f\<lparr>df_server := x\<rparr>)]"

definition daily_reset :: "DailyFiltersState \<Rightarrow> DailyFiltersState option" where
  "daily_reset f = (if df_search f \<noteq> [] \<or> df_profile f \<noteq> ''all'' \<or> df_server f \<noteq> ''all'' then Some EMPTY_FILTERS else None)"

definition time_format :: "intl \<Rightarrow> int \<Rightarrow> string" where
  "time_format i =
     date_format i ''id-ID'' [(''hour'', JStr ''2-digit''), (''minute'', JStr ''2-digit''), (''second'', JStr ''2-digit''), (''hour12'', JBool False)]"

definition daily_row :: "intl \<Rightarrow> zone \<Rightarrow> VoucherSale \<Rightarrow> string list option" where
  "daily_row i z s =
     map_option (\<lambda>t. [time_format i t, vs_username s, vs_profile_name s, formatIDR i (vs_selling_price s), vs_validity s, vs_server s,
                       vs_ip_address s, vs_mac_address s])
       (parse_Date z (vs_sold_at s))"

definition daily_card :: "intl \<Rightarrow> zone \<Rightarrow> VoucherSale \<Rightarrow> string list option" where
  "daily_card i z s =
     map_option (\<lambda>t. [vs_username s, formatIDR i (vs_selling_price s), time_format i t @ mid_dot @ vs_server s, vs_profile_name s,
                       vs_ip_address s @ mid_dot @ vs_mac_address s])
       (parse_Date z (vs_sold_at s))"

definition daily_columns :: "string list" where
  "daily_columns = [''Time'', ''Username'', ''Profile'', ''Price'', ''Validity'', ''Server'', ''IP'', ''MAC'']"

text \<open>The table and the cards of phones are both rendered; \<open>None\<close> is a page that fails.\<close>

definition DailySalesTable ::
  "intl \<Rightarrow> zone \<Rightarrow> VoucherSale list \<Rightarrow> VoucherSale list \<Rightarrow> (string + string list list \<times> string list list) option"
where
  "DailySalesTable i z sales filtered =
     (if select_throws (daily_profiles sales) \<or> select_throws (daily_servers sales) then None
      else if filtered = [] then Some (Inl ''No sales for the current filter.'')
      else do { rows \<leftarrow> those (map (daily_row i z) filtered); cards \<leftarrow> those (map (daily_card i z) filtered); Some (Inr (rows, cards)) })"

text \<open>The picker of the day.\<close>

datatype day_event = Day_back | Day_forth | Pick_day int | Today_button

definition daily_isToday :: "zone \<Rightarrow> int \<Rightarrow> int \<Rightarrow> bool" where
  "daily_isToday z now date = (startOfDay z date = startOfDay z now)"

definition day_offers :: "zone \<Rightarrow> int \<Rightarrow> int \<Rightarrow> day_event \<Rightarrow> bool" where
  "day_offers z now date e =
     (case e of
        Day_back \<Rightarrow> True
      | Day_forth \<Rightarrow> \<not> daily_isFuture z now date
      | Pick_day d \<Rightarrow> d \<le> startOfDay z now
      | Today_button \<Rightarrow> \<not> daily_isToday z now date)"

definition day_picked :: "zone \<Rightarrow> int \<Rightarrow> int \<Rightarrow> day_event \<Rightarrow> int" where
  "day_picked z now date e =
     (case e of Day_back \<Rightarrow> shiftDay z date (- 1) | Day_forth \<Rightarrow> shiftDay z date 1 | Pick_day d \<Rightarrow> d | Today_button \<Rightarrow> startOfDay z now)"

definition day_button :: "intl \<Rightarrow> int \<Rightarrow> string" where
  "day_button i =
     date_format i ''id-ID'' [(''weekday'', JStr ''short''), (''day'', JStr ''2-digit''), (''month'', JStr ''short''), (''year'', JStr ''numeric'')]"

record day_answer =
  da_sales :: "VoucherSale list"
  da_total :: rat
  da_count :: int

record day_view =
  dv_date :: string
  dv_export_disabled :: bool
  dv_body :: "string + stat_card list \<times> (string + string list list \<times> string list list) option"

definition DailyReport ::
  "intl \<Rightarrow> zone \<Rightarrow> int option \<Rightarrow> day_answer answered \<Rightarrow> int \<Rightarrow> DailyFiltersState \<Rightarrow> string + day_view"
where
  "DailyReport i z routerId report date filters =
     (if routerId = None then Inl ''Select a router from the sidebar switcher to view its daily sales report.''
      else
        (let sales = or_else (map_option da_sales (an_data report)) []; filtered = applyDailyFilters sales filters in
         Inr
           \<lparr>dv_date = day_button i date,
            dv_export_disabled = (an_loading report \<or> sales = []),
            dv_body =
              (case an_error report of
                 Some m \<Rightarrow> Inl (load_failure ''daily report'' m)
               | None \<Rightarrow>
                   if an_loading report then Inl (''Loading daily report'' @ ellipsis)
                   else Inr (DailySummaryCards i (or_else (map_option da_total (an_data report)) 0)
                               (or_else (map_option da_count (an_data report)) 0) (length filtered) (filteredTotal filtered),
                             DailySalesTable i z sales filtered))\<rparr>))"

section \<open>The sales page\<close>

text \<open>The options are the values of the page that is shown and the filter that is set; empty ones are left out.\<close>

definition sales_options :: "(VoucherSale \<Rightarrow> string) \<Rightarrow> VoucherSale list \<Rightarrow> string \<Rightarrow> string list" where
  "sales_options get items chosen =
     sorted_set (filter (\<lambda>v. v \<noteq> []) (map get items) @ (if chosen \<noteq> ''all'' then [chosen] else []))"

definition sales_filter_fields :: "bool \<Rightarrow> VoucherSale list \<Rightarrow> sales_page \<Rightarrow> sales_page field list" where
  "sales_filter_fields disabled items s =
     [locked disabled (field ''search'' [] (Input ''text'' (''Search username, profile, MAC'' @ ellipsis)) sp_search (\<lambda>x s. s\<lparr>sp_search := x\<rparr>)),
      locked disabled (field ''profile'' [] (Select ''Profile'' (all_or ''profiles'' (sales_options vs_profile_name items (sp_profile s))) [])
        sp_profile (\<lambda>x s. s\<lparr>sp_profile := x\<rparr>)),
      locked disabled (field ''server'' [] (Select ''Server'' (all_or ''servers'' (sales_options vs_server items (sp_server s))) [])
        sp_server (\<lambda>x s. s\<lparr>sp_server := x\<rparr>))]"

definition hasFilters :: "sales_page \<Rightarrow> bool" where
  "hasFilters s = (0 < length (sp_search s) \<or> sp_profile s \<noteq> ''all'' \<or> sp_server s \<noteq> ''all'')"

definition SalesSummary :: "intl \<Rightarrow> int \<Rightarrow> rat \<Rightarrow> bool \<Rightarrow> stat_card list" where
  "SalesSummary i sold revenue loading =
     [\<lparr>sc_label = ''Total Sales'', sc_value = (if loading then ellipsis else show_int sold),
       sc_sub = (if sold = 1 then ''voucher in range'' else ''vouchers in range'')\<rparr>,
      \<lparr>sc_label = ''Total Revenue'', sc_value = (if loading then ellipsis else formatIDR i revenue), sc_sub = ''sum of selling prices''\<rparr>]"

record sales_position =
  po_shown :: string
  po_page :: string
  po_prev :: "int option"
  po_next :: "int option"

definition SalesPagination :: "bool \<Rightarrow> int \<Rightarrow> int \<Rightarrow> int \<Rightarrow> sales_position" where
  "SalesPagination disabled page per_page rows =
     \<lparr>po_shown = (if rows = 0 then ''No records''
                  else ''Showing '' @ show_int (startRow page per_page rows) @ en_dash @ show_int (endRow page per_page rows) @ '' of '' @ show_int rows),
      po_page = ''Page '' @ show_int page @ '' of '' @ show_int (pageCount per_page rows),
      po_prev = (if 1 < page \<and> \<not> disabled then Some (page - 1) else None),
      po_next = (if page < pageCount per_page rows \<and> \<not> disabled then Some (page + 1) else None)\<rparr>"

definition size_options :: "(string \<times> string) list" where
  "size_options = map (\<lambda>n. (show_int n, show_int n)) PAGE_SIZE_OPTIONS"

text \<open>One sale; a text that is no date is shown as it is.\<close>

definition fmtIso :: "intl \<Rightarrow> zone \<Rightarrow> string \<Rightarrow> string" where
  "fmtIso i z v =
     (case parse_Date z v of None \<Rightarrow> v | Some t \<Rightarrow> date_format i ''id-ID'' [(''dateStyle'', JStr ''full''), (''timeStyle'', JStr ''medium'')] t)"

definition SalesDetailDialog :: "intl \<Rightarrow> zone \<Rightarrow> VoucherSale option \<Rightarrow> (string \<times> string) list option" where
  "SalesDetailDialog i z sale =
     map_option (\<lambda>s.
       [(''ID'', show_int (vs_id s)), (''Sold At'', fmtIso i z (vs_sold_at s)), (''Username'', vs_username s),
        (''Profile'', or_dash (vs_profile_name s)), (''Selling Price'', formatIDR i (vs_selling_price s))]
       @ (if vs_price s \<noteq> vs_selling_price s then [(''Base Price'', formatIDR i (vs_price s))] else [])
       @ [(''Validity'', or_dash (vs_validity s)), (''Server'', or_dash (vs_server s)), (''IP'', or_dash (vs_ip_address s)),
          (''MAC'', or_dash (vs_mac_address s)), (''Created At'', fmtIso i z (vs_created_at s)), (''Idempotency'', vs_idempotency_key s)])
       sale"

definition sales_range_text :: "zone \<Rightarrow> int \<Rightarrow> int \<Rightarrow> string" where
  "sales_range_text z from to = (case fmtRange z from to of (a, None) \<Rightarrow> a | (a, Some b) \<Rightarrow> a @ '' '' @ right_arrow @ '' '' @ b)"

record sales_answer =
  sa_items :: "VoucherSale list"
  sa_total :: int
  sa_total_revenue :: rat

record sales_view =
  sv_range :: string
  sv_buttons :: "(string \<times> string) list"
  sv_export :: "bool \<times> (string \<times> string) \<times> (string \<times> js) list"
  sv_summary :: "stat_card list"
  sv_filters :: "sales_page field list"
  sv_reset :: bool
  sv_table :: "(string + string list list) option"
  sv_position :: sales_position
  sv_detail :: "(string \<times> string) list option"

definition VoucherSales ::
  "intl \<Rightarrow> zone \<Rightarrow> int option \<Rightarrow> sales_answer answered \<Rightarrow> bool \<Rightarrow> VoucherSale option \<Rightarrow> sales_page \<Rightarrow> string + sales_view"
where
  "VoucherSales i z routerId answer isFetching selected s =
     (if routerId = None then Inl ''Select a router from the sidebar switcher to view its voucher sales history.''
      else
        (let items = or_else (map_option sa_items (an_data answer)) [];
             total = or_else (map_option sa_total (an_data answer)) 0;
             revenue = or_else (map_option sa_total_revenue (an_data answer)) 0;
             loading = an_loading answer
         in Inr
           \<lparr>sv_range = sales_range_text z (sp_from s) (sp_to s),
            sv_buttons = [(''Record Sale'', ''record''), (''Import'', ''import'')],
            sv_export = (loading \<or> total = 0, (dateToYmd z (sp_from s), dateToYmd z (sp_to s)), sales_filters s),
            sv_summary = SalesSummary i total revenue loading,
            sv_filters = sales_filter_fields loading items s,
            sv_reset = hasFilters s,
            sv_table = SalesTable z i items (loading \<or> isFetching) (an_error answer),
            sv_position = SalesPagination loading (sp_page s) (sp_pageSize s) total,
            sv_detail = SalesDetailDialog i z selected\<rparr>))"

section \<open>The overview of the reports\<close>

definition reports_table :: "intl \<Rightarrow> Transaction table_def" where
  "reports_table i = simple_table
     [key_column ''username'' ''Voucher'' (\<lambda>t. JStr (tn_username t)) (texts (\<lambda>t. [tn_username t])),
      key_column ''profile'' ''Profile'' (\<lambda>t. js_opt (tn_profile t)) (texts (\<lambda>t. [opt_dash (tn_profile t)])),
      key_column ''sell_price'' ''Price'' (\<lambda>t. JNum (tn_sell_price t)) (texts (\<lambda>t. [formatIDR i (tn_sell_price t)])),
      key_column ''sale_date'' ''Date'' (\<lambda>t. JStr (tn_sale_date t)) (texts (\<lambda>t. [tn_sale_date t @ '' '' @ tn_sale_time t]))]
     (Some ''username'') (Some ''Search voucher...'') None (Some ''No sales today.'') None"

text \<open>A hint that is empty is left out.\<close>

definition unless_none :: "string option \<Rightarrow> string option" where
  "unless_none hint = (if or_else hint [] = [] then None else hint)"

definition reports_cards :: "intl \<Rightarrow> (string \<times> int) option \<Rightarrow> ReportSummary option \<Rightarrow> (string \<times> string \<times> string option) list" where
  "reports_cards i today s =
     [(''Today'' @ [char_of (39 :: nat)] @ ''s Sales'', show_int (or_else (map_option snd today) 0), unless_none (map_option fst today)),
      (''Month Count'', show_int (or_else (map_option rs_count s) 0), None),
      (''Month Revenue'', formatIDR i (or_else (map_option rs_total_sell_price s) 0), None),
      (''Month Profit'', formatIDR i (or_else (map_option rs_profit s) 0), None)]"

definition Reports ::
  "intl \<Rightarrow> int option \<Rightarrow> (string \<times> int \<times> Transaction list) option \<Rightarrow> ReportSummary option
    \<Rightarrow> string + (string \<times> string \<times> string option) list \<times> Transaction list"
where
  "Reports i routerId today s =
     (if routerId = None then Inl ''Select a router from the sidebar switcher to view sales reports.''
      else Inr (reports_cards i (map_option (\<lambda>(d, n, ts). (d, n)) today) s, or_else (map_option (\<lambda>(d, n, ts). ts) today) []))"

section \<open>Laws\<close>

text \<open>
  One download at a time, from whatever was clicked; what is announced at the end is the file that was asked for, though
  the page may show another period by then.
\<close>

interpretation one_export: inductive_invariant "\<lambda>s. s = (None, [])" "\<lambda>s t. \<exists>shown. export_step s shown t"
  "\<lambda>(pending, running). map fst running = (case pending of None \<Rightarrow> [] | Some k \<Rightarrow> [k])"
  by unfold_locales
    (auto elim!: export_step_elim simp: export_items_def export_label_def split: export_kind.splits option.splits if_splits)

lemma one_download:
  assumes "(\<lambda>s t. \<exists>shown. export_step s shown t)\<^sup>*\<^sup>* (None, []) (pending, running)"
  shows "length running \<le> 1" "running = [] \<longleftrightarrow> pending = None"
proof -
  have i: "map fst running = (case pending of None \<Rightarrow> [] | Some k \<Rightarrow> [k])"
    using one_export.inv_reachable [OF _ assms] by simp
  then have "length running = length (case pending of None \<Rightarrow> [] | Some k \<Rightarrow> [k])" by (metis length_map)
  then show "length running \<le> 1" "running = [] \<longleftrightarrow> pending = None" by (auto split: option.splits)
qed

lemma announced_as_asked:
  assumes "export_step (pending, [(k, filename)]) shown (None, [])"
  shows "\<exists>r. shown = runDownload k filename r"
  using assms by (auto elim!: export_step_elim)

text \<open>The month shown is always one of the twelve.\<close>

lemma getMonth_range: "0 \<le> getMonth z t" "getMonth z t < 12"
proof -
  have m: "month_in_year y k < 12" for y k
    unfolding month_in_year_def by (rule le_less_trans [OF length_filter_le]) simp
  show "0 \<le> getMonth z t" "getMonth z t < 12"
    by (simp_all add: getMonth_def civil_def Let_def m)
qed

lemma year_months: "map yr_month (padYearly rows) = map int [0..<12]"
  by (rule nth_equalityI) (use yearly_months [of rows] in \<open>auto split: option.split\<close>)

lemma bars_in_year: "b \<in> set (year_chart (padYearly rows) m) \<Longrightarrow> 0 \<le> yb_index b \<and> yb_index b < 12"
proof -
  assume "b \<in> set (year_chart (padYearly rows) m)"
  then have "yb_index b \<in> set (map yr_month (padYearly rows))" by (auto simp: year_chart_def)
  then show ?thesis by (auto simp: year_months)
qed

interpretation month_kept: inductive_invariant "\<lambda>p. p = MonthlyReport_init z today"
  "\<lambda>p q. (\<exists>e. period_offers z today p e \<and> q = period_step z today e p)
       \<or> (\<exists>rows b. b \<in> set (year_chart (padYearly rows) (mp_month p)) \<and> q = year_chart_click (Some b) p) \<or> q = toggleResume p"
  "\<lambda>p. 0 \<le> mp_month p \<and> mp_month p < 12" for z today
proof (unfold_locales, goal_cases)
  case (1 p)
  then show ?case by (simp add: MonthlyReport_init_def getMonth_range)
next
  case (2 p q)
  have MONTHS: "length MONTH_NAMES = 12" by (simp add: MONTH_NAMES_def)
  from 2 show ?case
  proof (elim disjE exE conjE)
    fix e assume "period_offers z today p e" "q = period_step z today e p"
    with 2(2) MONTHS show ?thesis by (cases e) (auto simp: period_offers_def shift_month_def Let_def getMonth_range)
  next
    fix rows b assume "b \<in> set (year_chart (padYearly rows) (mp_month p))" "q = year_chart_click (Some b) p"
    then show ?thesis using bars_in_year by (auto simp: year_chart_click_def)
  qed (simp add: toggleResume_def)
qed


text \<open>One bar of the year is the month shown.\<close>

lemma one_bar_selected:
  assumes "0 \<le> m" "m < 12"
  shows "length (filter yb_selected (year_chart (padYearly rows) m)) = 1"
proof -
  have "length (filter yb_selected (year_chart (padYearly rows) m)) = length (filter (\<lambda>k. k = m) (map yr_month (padYearly rows)))"
    by (simp add: year_chart_def filter_map comp_def)
  also have "\<dots> = length (filter (\<lambda>k. int k = m) [0..<12])" by (simp add: year_months filter_map comp_def)
  also have "filter (\<lambda>k. int k = m) [0..<12] = [nat m]" proof -
    have "filter (\<lambda>k. int k = m) [0..<n] = (if nat m < n then [nat m] else [])" for n
      using assms(1) by (induction n) auto
    then show ?thesis using assms by simp
  qed
  finally show ?thesis by simp
qed

text \<open>The bars of a month are labelled with its days in order, each once.\<close>

lemma bars_in_order:
  assumes "midnights z" "0 \<le> month" "month < 12" "i < length (densifyMonth z year month daily)"
  shows "cd_day (month_chart z (densifyMonth z year month daily) ! i) = int i + 1"
proof -
  let ?n = "month_length (full_year year) (nat month)" and ?rows = "densifyMonth z year month daily"
  have rows: "?rows = fold (book_entry z) daily (map (empty_row z year month) [1..?n])"
    using month_days [OF assms(1-3)] by (simp add: densifyMonth_def)
  with assms(4) have i: "i < nat ?n" by simp
  then have "row_date (?rows ! i) = row_date (empty_row z year month (int i + 1))"
    unfolding rows using nth_book_entries(1) [of i "map (empty_row z year month) [1..?n]" z daily]
    by (simp add: nth_month_days [OF i])
  also have "civil (local_day z \<dots>) = (full_year year, month, int i + 1)"
    using i assms(1-3) by (simp add: empty_row_def new_Date_day local_day_start civil_make_day)
  finally have "civil (local_day z (row_date (?rows ! i))) = (full_year year, month, int i + 1)" .
  then show ?thesis using assms(4) by (simp add: month_chart_def getDate_def)
qed

text \<open>A day that can be opened has sales, and the address opened is that of the day report.\<close>

lemma day_link: "snd (month_day_row i z r) = (if row_count r = 0 then None else Some [(''date'', JStr (dateToDailyParam z (row_date r)))])"
  by (simp add: month_day_row_def drillToDaily_def)

text \<open>
  The arrow back has no end, while the select of the year has six: before that it shows nothing. The arrow forth stops at
  the present month, which the select of the month does not.
\<close>

lemma year_leaves_options:
  assumes "mp_year p < getFullYear z today - 5"
  shows "show_int (mp_year p) \<notin> fst ` set (year_options z today)" "period_offers z today p Month_back"
  using assms by (auto simp: year_options_def period_years_def period_offers_def Let_def)

lemma future_month_offered: "period_offers z today p (Pick_month 11)"
  by (simp add: period_offers_def MONTH_NAMES_def)

section \<open>The filters of a day\<close>

lemma only_profile: "sale_matches (EMPTY_FILTERS\<lparr>df_profile := p\<rparr>) s \<longleftrightarrow> p = ''all'' \<or> vs_profile_name s = p"
  by (simp add: EMPTY_FILTERS_def sale_matches_def js_trim_def toLowerCase_def Let_def)

text \<open>An option of the table shows at least one sale, and the profiles divide the revenue of the day.\<close>

lemma option_shows_sale:
  assumes "p \<in> set (daily_profiles sales)"
  shows "applyDailyFilters sales (EMPTY_FILTERS\<lparr>df_profile := p\<rparr>) \<noteq> []"
  using assms by (auto simp: daily_profiles_def applyDailyFilters_def only_profile filter_empty_conv)

lemma sum_over_groups:
  fixes f :: "'a \<Rightarrow> rat"
  assumes "finite P" "g ` set xs \<subseteq> P"
  shows "(\<Sum>p \<in> P. sum_list (map f (filter (\<lambda>x. g x = p) xs))) = sum_list (map f xs)"
  using assms(2)
proof (induction xs)
  case (Cons x xs)
  have "(\<Sum>p \<in> P. sum_list (map f (filter (\<lambda>y. g y = p) (x # xs))))
      = (\<Sum>p \<in> P. (if g x = p then f x else 0) + sum_list (map f (filter (\<lambda>y. g y = p) xs)))"
    by (rule sum.cong) auto
  also have "\<dots> = f x + sum_list (map f xs)"
    using Cons assms(1) by (simp add: sum.distrib sum.delta)
  finally show ?case by simp
qed simp

lemma filteredTotal_sum: "filteredTotal sales = sum_list (map vs_selling_price sales)"
proof -
  have "foldl (\<lambda>sum s. sum + vs_selling_price s) a sales = a + sum_list (map vs_selling_price sales)" for a
    by (induction sales arbitrary: a) (simp_all add: algebra_simps)
  then show ?thesis by (simp add: filteredTotal_def)
qed

lemma profiles_divide_revenue:
  assumes "''all'' \<notin> set (daily_profiles sales)"
  shows "(\<Sum>p \<leftarrow> daily_profiles sales. filteredTotal (applyDailyFilters sales (EMPTY_FILTERS\<lparr>df_profile := p\<rparr>))) = filteredTotal sales"
proof -
  let ?P = "set (daily_profiles sales)"
  have "applyDailyFilters sales (EMPTY_FILTERS\<lparr>df_profile := p\<rparr>) = filter (\<lambda>s. vs_profile_name s = p) sales" if "p \<in> ?P" for p
    using that assms by (auto simp: applyDailyFilters_def only_profile intro!: filter_cong)
  then have "(\<Sum>p \<leftarrow> daily_profiles sales. filteredTotal (applyDailyFilters sales (EMPTY_FILTERS\<lparr>df_profile := p\<rparr>)))
      = (\<Sum>p \<in> ?P. sum_list (map vs_selling_price (filter (\<lambda>s. vs_profile_name s = p) sales)))"
    by (subst sum_list_distinct_conv_sum_set) (simp_all add: daily_profiles_def filteredTotal_sum)
  also have "\<dots> = filteredTotal sales"
    by (simp add: sum_over_groups daily_profiles_def filteredTotal_sum)
  finally show ?thesis .
qed

text \<open>Without a filter the cards show the figures of the day; the button that resets is there exactly while a filter is set.\<close>

lemma unfiltered_all: "applyDailyFilters sales EMPTY_FILTERS = sales"
proof -
  have "EMPTY_FILTERS = EMPTY_FILTERS\<lparr>df_profile := ''all''\<rparr>" by (simp add: EMPTY_FILTERS_def)
  then show ?thesis by (metis (no_types, lifting) applyDailyFilters_def filter_True only_profile)
qed

lemma reset_offered: "daily_reset f = None \<longleftrightarrow> f = EMPTY_FILTERS"
  by (cases f) (auto simp: daily_reset_def EMPTY_FILTERS_def)

text \<open>
  The options of the servers keep empty names, for which the select throws. The backend's daily report
  (\<^verbatim>\<open>api/handler/report.go\<close>, \<open>toVoucherSale\<close>) gives every sale an empty server: a day with a sale takes the page down.
\<close>

lemma daily_report_fails:
  assumes "sales \<noteq> []" "\<forall>s \<in> set sales. vs_server s = []"
  shows "DailySalesTable i z sales filtered = None"
  using assms by (cases sales) (auto simp: DailySalesTable_def select_throws_def daily_servers_def)

text \<open>The sales page leaves empty names out; there the filter of the address is the only way to an empty option.\<close>

lemma sales_options_throw: "select_throws (sales_options get items chosen) \<longleftrightarrow> chosen = []"
  by (auto simp: select_throws_def sales_options_def)

text \<open>A filter that is set is an option, whatever the page shows.\<close>

lemma filter_among_options: "chosen \<in> fst ` set (all_or what (sales_options get items chosen))"
  by (cases "chosen = ''all''") (auto simp: all_or_def sales_options_def image_def)

text \<open>A page past the end, as the address may name one, counts backwards; the arrow back leads out of it.\<close>

lemma past_the_end:
  assumes "0 < rows" "0 < per_page" "pageCount per_page rows < page"
  shows "endRow page per_page rows < startRow page per_page rows" "po_next (SalesPagination False page per_page rows) = None"
    "po_prev (SalesPagination False page per_page rows) = Some (page - 1)"
proof -
  have "rat_of_int rows / rat_of_int per_page \<le> of_int (pageCount per_page rows)"
    using assms(2) le_of_int_ceiling [of "rat_of_int rows / rat_of_int per_page"] by (simp add: pageCount_def Let_def of_int_max le_max_iff_disj)
  also have "\<dots> \<le> of_int (page - 1)" using assms(3) by simp
  finally have "rat_of_int rows \<le> of_int ((page - 1) * per_page)" using assms(2) by (simp add: pos_divide_le_eq)
  then have "rows \<le> (page - 1) * per_page" by (simp only: of_int_le_iff)
  then show "endRow page per_page rows < startRow page per_page rows" using assms(1) by (simp add: endRow_def startRow_def)
  have "1 \<le> pageCount per_page rows" by (simp add: pageCount_def Let_def)
  then show "po_next (SalesPagination False page per_page rows) = None"
    "po_prev (SalesPagination False page per_page rows) = Some (page - 1)"
    using assms(3) by (simp_all add: SalesPagination_def)
qed

lemma reports_table_ok: "table_ok (reports_table i)"
  by (simp add: table_ok_simps reports_table_def simple_table_def)

end
