(* ===== verification/Shell_Views.thy ===== *)
theory Shell_Views
  imports Appearance Confirm_Views Report_Pages Log_Page
begin

text \<open>
  The widgets of the shell and of several pages: the combobox that takes any text (\<^verbatim>\<open>components/input-combobox.tsx\<close>) as a
  step relation, the sections of the settings drawer (\<^verbatim>\<open>components/config-drawer.tsx\<close>) over the contract of a chooser,
  the rows of the sidebar and of the bottom bar, the two user menus, the navigation of the settings, the sign-in form, the
  appearance and display pages, the tools of the log, a card of a phone table and the bar over a selection.
\<close>

section \<open>The combobox\<close>

text \<open>
  The options are pairs of value and label. The value belongs to the form, which adopts what it is told; the text is the
  component's own. Whether the input has the focus matters because it opens the list when it gets it.
\<close>

record combo =
  cb_open :: bool
  cb_text :: string
  cb_given :: string
  cb_focused :: bool

record combo_props =
  cb_options :: "(string \<times> string) list"
  cb_disabled :: bool
  cb_loading :: bool
  cb_group :: string
  cb_loadingText :: string
  cb_emptyText :: "string option"

definition InputCombobox_init :: "string \<Rightarrow> combo" where
  "InputCombobox_init v = \<lparr>cb_open = False, cb_text = v, cb_given = v, cb_focused = False\<rparr>"

text \<open>The effect that follows the value, and the two ways in which the value changes.\<close>

definition combo_given :: "string \<Rightarrow> combo \<Rightarrow> combo" where
  "combo_given v s = (if v = cb_given s then s else s\<lparr>cb_given := v, cb_text := v\<rparr>)"

definition combo_told :: "string \<Rightarrow> combo \<Rightarrow> combo" where
  "combo_told v s = combo_given v (s\<lparr>cb_text := v\<rparr>)"

definition filteredOptions :: "(string \<times> string) list \<Rightarrow> string \<Rightarrow> (string \<times> string) list" where
  "filteredOptions options inputValue =
     (if inputValue = [] then options
      else
        (let lower = toLowerCase inputValue in
         filter (\<lambda>(v, l). js_includes (toLowerCase l) lower \<or> js_includes (toLowerCase v) lower) options))"

definition combo_change :: "string \<Rightarrow> combo \<Rightarrow> combo" where
  "combo_change v s = (combo_told v s)\<lparr>cb_open := True\<rparr>"

definition combo_focus :: "combo \<Rightarrow> combo" where
  "combo_focus s = (if cb_focused s then s else s\<lparr>cb_focused := True, cb_open := True\<rparr>)"

definition combo_select :: "string \<Rightarrow> combo \<Rightarrow> combo" where
  "combo_select v s = combo_focus ((combo_told v s)\<lparr>cb_open := False\<rparr>)"

definition combo_clear :: "combo \<Rightarrow> combo" where
  "combo_clear s = (combo_told [] s)\<lparr>cb_open := False\<rparr>"

definition combo_keydown :: "string \<Rightarrow> combo \<Rightarrow> combo" where
  "combo_keydown key s =
     (if key = ''Escape'' then s\<lparr>cb_open := False\<rparr>
      else if key = ''ArrowDown'' \<or> key = ''ArrowUp'' then s\<lparr>cb_open := True\<rparr>
      else s)"

definition combo_toggle :: "combo \<Rightarrow> combo" where
  "combo_toggle s = s\<lparr>cb_open := \<not> cb_open s\<rparr>"

definition combo_usable :: "combo_props \<Rightarrow> bool" where
  "combo_usable p = (\<not> cb_disabled p \<and> \<not> cb_loading p)"

definition combo_clearable :: "combo_props \<Rightarrow> combo \<Rightarrow> bool" where
  "combo_clearable p s = (cb_text s \<noteq> [] \<and> combo_usable p)"

definition resolvedEmptyText :: "combo_props \<Rightarrow> string \<Rightarrow> string" where
  "resolvedEmptyText p inputValue =
     (case cb_emptyText p of
        Some (c # cs) \<Rightarrow> c # cs
      | _ \<Rightarrow> if inputValue \<noteq> [] then ''Gunakan '' @ in_double_quotes inputValue @ '' sebagai nilai custom'' else ''Tidak ada pilihan tersedia'')"

text \<open>The open list: a note, or the heading over the options with their mark, their label and, where it differs, their value.\<close>

definition combo_list :: "combo_props \<Rightarrow> combo \<Rightarrow> string + string \<times> (bool \<times> string \<times> string option) list" where
  "combo_list p s =
     (let shown = filteredOptions (cb_options p) (cb_text s) in
      if cb_loading p then Inl (cb_loadingText p)
      else if shown = [] then Inl (resolvedEmptyText p (cb_text s))
      else Inr (cb_group p, map (\<lambda>(v, l). (v = cb_given s, l, if l \<noteq> v then Some v else None)) shown))"

text \<open>
  The steps of the user and the page. The loading flag and the options come with the properties \<open>p\<close> of the moment; the
  focus moves elsewhere by itself, and the form may give another value.
\<close>

inductive combo_step :: "combo \<Rightarrow> combo \<Rightarrow> bool" where
  typed: "combo_usable p \<Longrightarrow> combo_step s (combo_change x s)"
| chosen: "cb_open s \<Longrightarrow> \<not> cb_loading (p :: combo_props) \<Longrightarrow> v \<in> fst ` set (filteredOptions (cb_options p) (cb_text s)) \<Longrightarrow> combo_step s (combo_select v s)"
| cleared: "combo_clearable p s \<Longrightarrow> combo_step s (combo_clear s)"
| pressed: "combo_step s (combo_keydown k s)"
| toggled: "combo_usable p \<Longrightarrow> combo_step s (combo_toggle s)"
| focused: "combo_usable p \<Longrightarrow> combo_step s (combo_focus s)"
| blurred: "combo_step s (s\<lparr>cb_focused := False\<rparr>)"
| outside: "combo_step s (s\<lparr>cb_open := False\<rparr>)"
| given: "combo_step s (combo_given v s)"

inductive_cases combo_step_elim: "combo_step s t"

lemmas combo_defs = combo_given_def combo_told_def combo_change_def combo_focus_def combo_select_def combo_clear_def
  combo_keydown_def combo_toggle_def

lemma combo_told_simps [simp]: "cb_text (combo_told v s) = v" "cb_given (combo_told v s) = v" "cb_focused (combo_told v s) = cb_focused s"
  by (simp_all add: combo_told_def combo_given_def)

text \<open>The text that is read is always the value of the form, whatever is typed, chosen, cleared or reset.\<close>

interpretation combo: inductive_invariant "\<lambda>s. \<exists>v. s = InputCombobox_init v" combo_step "\<lambda>s. cb_text s = cb_given s"
  by unfold_locales (auto elim!: combo_step_elim simp: InputCombobox_init_def combo_defs)

lemma combo_shows_value: "combo_step\<^sup>*\<^sup>* (InputCombobox_init v) s \<Longrightarrow> cb_text s = cb_given s"
  using combo.inv_reachable by blast

text \<open>An empty text offers everything; what is offered contains the text; the chosen option stays on offer.\<close>

lemma filteredOptions_sound:
  "(v, l) \<in> set (filteredOptions options x) \<longleftrightarrow>
   (v, l) \<in> set options \<and> (x = [] \<or> js_includes (toLowerCase l) (toLowerCase x) \<or> js_includes (toLowerCase v) (toLowerCase x))"
  by (auto simp: filteredOptions_def Let_def)

lemma js_includes_refl: "js_includes x x"
  by (cases x) (simp_all add: js_includes.simps)

lemma chosen_on_offer: "(v, l) \<in> set options \<Longrightarrow> (v, l) \<in> set (filteredOptions options (cb_text (combo_select v s)))"
  by (simp add: filteredOptions_sound combo_defs js_includes_refl)

text \<open>A text that matches nothing is kept as it is, and the list says so.\<close>

lemma free_text_kept:
  assumes "x \<noteq> []" "filteredOptions (cb_options p) x = []" "\<not> cb_loading p" "cb_emptyText p = None"
  shows "cb_given (combo_change x s) = x"
    "combo_list p (combo_change x s) = Inl (''Gunakan '' @ in_double_quotes x @ '' sebagai nilai custom'')"
  using assms by (cases x; simp add: combo_change_def combo_list_def resolvedEmptyText_def Let_def)+

text \<open>
  Choosing closes the list only while the input has the focus. Pressing an option with the mouse takes the focus to the
  list first; giving it back to the input then opens the list again.
\<close>

lemma choosing_reopens: "cb_open (combo_select v s) \<longleftrightarrow> \<not> cb_focused s"
  by (simp add: combo_defs)

section \<open>The settings drawer\<close>

text \<open>A section: its title, its own reset (the label and whether it is offered), the description, the options, the value.\<close>

record 'c chooser_view =
  ch_title :: string
  ch_resetLabel :: string
  ch_showReset :: bool
  ch_onReset :: "'c \<Rightarrow> 'c"
  ch_label :: string
  ch_description :: string
  ch_options :: "(string \<times> string) list"
  ch_value :: string
  ch_onPick :: "string \<Rightarrow> 'c \<Rightarrow> 'c"

definition option_labels :: "string \<times> string \<Rightarrow> string list" where
  "option_labels = (\<lambda>(v, l). [''Select '' @ toLowerCase l, v @ ''-description'', l @ '' option preview'', l])"

definition ThemeConfig :: "look_config \<Rightarrow> look_config chooser_view" where
  "ThemeConfig c =
     \<lparr>ch_title = ''Theme'', ch_resetLabel = ''Reset theme preference to default'', ch_showReset = (pf_theme (cf_prefs c) \<noteq> DEFAULT_THEME),
      ch_onReset = on_prefs (setTheme DEFAULT_THEME), ch_label = ''Select theme preference'',
      ch_description = ''Choose between system preference, light mode, or dark mode'',
      ch_options = [(''system'', ''System''), (''light'', ''Light''), (''dark'', ''Dark'')], ch_value = pf_theme (cf_prefs c),
      ch_onPick = (\<lambda>v. on_prefs (setTheme v))\<rparr>"

definition SidebarConfig :: "look_config \<Rightarrow> look_config chooser_view" where
  "SidebarConfig c =
     \<lparr>ch_title = ''Sidebar'', ch_resetLabel = ''Reset sidebar style to default'', ch_showReset = (DEFAULT_VARIANT \<noteq> pf_variant (cf_prefs c)),
      ch_onReset = on_prefs (setVariant DEFAULT_VARIANT), ch_label = ''Select sidebar style'',
      ch_description = ''Choose between inset, floating, or standard sidebar layout'',
      ch_options = [(''inset'', ''Inset''), (''floating'', ''Floating''), (''sidebar'', ''Sidebar'')], ch_value = pf_variant (cf_prefs c),
      ch_onPick = (\<lambda>v. on_prefs (setVariant v))\<rparr>"

definition LayoutConfig :: "look_config \<Rightarrow> look_config chooser_view" where
  "LayoutConfig c =
     \<lparr>ch_title = ''Layout'', ch_resetLabel = ''Reset layout options to default'', ch_showReset = (radioState c \<noteq> ''default''),
      ch_onReset = layout_reset, ch_label = ''Select layout style'',
      ch_description = ''Choose between default expanded, compact icon-only, or full layout mode'',
      ch_options = [(''default'', ''Default''), (''icon'', ''Compact''), (''offcanvas'', ''Full layout'')], ch_value = radioState c,
      ch_onPick = layout_pick\<rparr>"

definition DirConfig :: "look_config \<Rightarrow> look_config chooser_view" where
  "DirConfig c =
     \<lparr>ch_title = ''Direction'', ch_resetLabel = ''Reset text direction to default'', ch_showReset = (DEFAULT_DIRECTION \<noteq> pf_dir (cf_prefs c)),
      ch_onReset = on_prefs (setDir DEFAULT_DIRECTION), ch_label = ''Select site direction'',
      ch_description = ''Choose between left-to-right or right-to-left site direction'',
      ch_options = [(''ltr'', ''Left to Right''), (''rtl'', ''Right to Left'')], ch_value = pf_dir (cf_prefs c),
      ch_onPick = (\<lambda>v. on_prefs (setDir v))\<rparr>"

definition ConfigDrawer :: "look_config \<Rightarrow> (string \<times> string) \<times> look_config chooser_view list \<times> (string \<times> string)" where
  "ConfigDrawer c =
     ((''Theme Settings'', ''Adjust the appearance and layout to suit your preferences.''),
      [ThemeConfig c, SidebarConfig c, LayoutConfig c, DirConfig c], (''Reset'', ''Reset all settings to default values''))"

text \<open>The contract of a section: what is picked is what is marked, and its reset takes itself off the page.\<close>

locale chooser =
  fixes sec :: "'c \<Rightarrow> 'c chooser_view"
  assumes picked: "v \<in> fst ` set (ch_options (sec c)) \<Longrightarrow> ch_value (sec (ch_onPick (sec c) v c)) = v"
    and reset_gone: "\<not> ch_showReset (sec (ch_onReset (sec c) c))"
    and same_options: "ch_options (sec c) = ch_options (sec d)"
    and distinct_options: "distinct (map fst (ch_options (sec c)))"
begin

lemma one_marked:
  assumes "v \<in> fst ` set (ch_options (sec c))"
  shows "filter (\<lambda>(w, l). w = ch_value (sec (ch_onPick (sec c) v c))) (ch_options (sec (ch_onPick (sec c) v c))) =
    [(v, the (map_of (ch_options (sec c)) v))]"
proof -
  have "distinct (map fst xs) \<Longrightarrow> v \<in> fst ` set xs \<Longrightarrow> filter (\<lambda>(w, l). w = v) xs = [(v, the (map_of xs v))]" for xs :: "(string \<times> string) list"
  proof (induction xs)
    case (Cons x xs)
    have "fst x \<notin> fst ` set xs \<Longrightarrow> filter (\<lambda>(w, l). w = fst x) xs = []" by (auto simp: filter_empty_conv intro: rev_image_eqI)
    then show ?case using Cons by (cases x) auto
  qed simp
  then show ?thesis
    unfolding picked [OF assms] same_options [of "ch_onPick (sec c) v c" c] using assms distinct_options by blast
qed

end

lemmas config_sections = ThemeConfig_def SidebarConfig_def LayoutConfig_def DirConfig_def on_prefs_def pref_ops

interpretation theme_section: chooser ThemeConfig
  by unfold_locales (auto simp: config_sections)

interpretation sidebar_section: chooser SidebarConfig
  by unfold_locales (auto simp: config_sections)

interpretation layout_section: chooser LayoutConfig
  by unfold_locales (auto simp: config_sections layout_reset_def layout_pick_def config_setOpen_def radioState_def)

interpretation dir_section: chooser DirConfig
  by unfold_locales (auto simp: config_sections)

text \<open>The buttons are those of \<open>show_resets\<close>. A theme of the other menus has no option here, so nothing is marked.\<close>

lemma drawer_resets: "map ch_showReset (fst (snd (ConfigDrawer c))) = show_resets c"
  by (simp add: ConfigDrawer_def show_resets_def config_sections)

lemma colour_theme_unmarked:
  "pf_theme (cf_prefs c) \<in> {''blue'', ''green'', ''pink'', ''roslib-dark'', ''roslib-light''}
    \<Longrightarrow> ch_value (ThemeConfig c) \<notin> fst ` set (ch_options (ThemeConfig c))"
  by (auto simp: ThemeConfig_def)

section \<open>The sidebar\<close>

record nav_row =
  nr_title :: string
  nr_url :: "string option"
  nr_badge :: "string option"
  nr_active :: bool

definition shown_badge :: "string option \<Rightarrow> string option" where
  "shown_badge b = (if or_else b [] = [] then None else b)"

definition nav_key :: "NavItem \<Rightarrow> string" where
  "nav_key it = ni_label it @ ''-'' @ (case it of NavLink t url b \<Rightarrow> url | NavCollapsible t ss b \<Rightarrow> ''undefined'')"

definition sub_row :: "string \<Rightarrow> nav_sub \<Rightarrow> nav_row" where
  "sub_row href s = \<lparr>nr_title = ns_title s, nr_url = Some (ns_url s), nr_badge = None, nr_active = checkIsActive href (Some (ns_url s)) None False\<rparr>"

text \<open>A link; an entry that unfolds, open at first or not; an entry with a menu and the menu's heading.\<close>

datatype sidebar_entry =
    Row_link nav_row
  | Row_unfolds nav_row bool "nav_row list"
  | Row_menu nav_row string "nav_row list"

definition link_row :: "string \<Rightarrow> string \<Rightarrow> string \<Rightarrow> string option \<Rightarrow> nav_row" where
  "link_row href t url b = \<lparr>nr_title = t, nr_url = Some url, nr_badge = shown_badge b, nr_active = checkIsActive href (Some url) None False\<rparr>"

definition unfolding_row :: "string \<Rightarrow> string \<Rightarrow> nav_sub list \<Rightarrow> string option \<Rightarrow> sidebar_entry" where
  "unfolding_row href t ss b =
     Row_unfolds \<lparr>nr_title = t, nr_url = None, nr_badge = shown_badge b, nr_active = False\<rparr> (checkIsActive href None (Some ss) True)
       (map (sub_row href) ss)"

definition menu_row :: "string \<Rightarrow> string \<Rightarrow> nav_sub list \<Rightarrow> string option \<Rightarrow> sidebar_entry" where
  "menu_row href t ss b =
     Row_menu \<lparr>nr_title = t, nr_url = None, nr_badge = shown_badge b, nr_active = checkIsActive href None (Some ss) False\<rparr>
       (t @ '' '' @ (case shown_badge b of Some n \<Rightarrow> ''('' @ n @ '')'' | None \<Rightarrow> [])) (map (sub_row href) ss)"

definition sidebar_row :: "sidebar_state \<Rightarrow> string \<Rightarrow> NavItem \<Rightarrow> sidebar_entry" where
  "sidebar_row s href it =
     (case it of
        NavLink t url b \<Rightarrow> Row_link (link_row href t url b)
      | NavCollapsible t ss b \<Rightarrow> if sidebar_label s = ''collapsed'' \<and> \<not> sb_isMobile s then menu_row href t ss b else unfolding_row href t ss b)"

definition NavGroup_rows :: "sidebar_state \<Rightarrow> string \<Rightarrow> NavGroup \<Rightarrow> string \<times> (string \<times> sidebar_entry) list" where
  "NavGroup_rows s href g = (ng_title g, map (\<lambda>it. (nav_key it, sidebar_row s href it)) (ng_items g))"

text \<open>Following a link or a subentry closes the sidebar of a phone.\<close>

definition row_followed :: "sidebar_state \<Rightarrow> sidebar_state" where
  "row_followed s = s\<lparr>sb_openMobile := False\<rparr>"

text \<open>Entries of a group have different keys, for every role and every count of sessions.\<close>

lemma hotspot_badge_key: "nav_key (hotspot_badge n t it) = nav_key it"
  by (cases it) (simp_all add: hotspot_badge_def nav_key_def)

lemma group_keys: "list_all (\<lambda>g. distinct (map nav_key (ng_items g))) sidebar_navGroups"
  by (simp add: sidebar_navGroups_def navGroups_main_def navGroups_billing_def navGroups_rest_def nav_key_def sub_def)

lemma sidebar_keys_distinct:
  assumes "g \<in> set (useSidebarData active u)"
  shows "distinct (map fst (snd (NavGroup_rows s href g)))"
proof -
  obtain h where h: "h \<in> set sidebar_navGroups"
      "ng_items g = map (hotspot_badge (length (or_else active [])) (ng_title h)) (filter (item_shown (currentRole u)) (ng_items h))"
    using assms by (auto simp: useSidebarData_def Let_def)
  then have "distinct (map nav_key (ng_items h))" using group_keys by (simp add: list_all_iff)
  then show ?thesis by (simp add: NavGroup_rows_def comp_def h(2) hotspot_badge_key distinct_map_filter)
qed

text \<open>
  A page with a query in its address is marked among the subentries, but its entry starts folded and its menu unmarked: the
  entry compares the whole address.
\<close>

lemma query_leaves_folded:
  assumes "CHR ''?'' \<notin> set (ns_url s)" "qs \<noteq> []" "hd qs = CHR ''?''" "list_all (\<lambda>x. CHR ''?'' \<notin> set (ns_url x)) ss"
  shows "nr_active (sub_row (ns_url s @ qs) s)" "\<not> checkIsActive (ns_url s @ qs) None (Some ss) False"
proof -
  show "nr_active (sub_row (ns_url s @ qs) s)" using assms(1-3) by (simp add: sub_row_def link_active_iff js_path_query)
  have "CHR ''?'' \<in> set (ns_url s @ qs)" using assms(2,3) by (cases qs) auto
  then have "filter (\<lambda>i. ns_url i = ns_url s @ qs) ss = []" using assms(4) by (auto simp: filter_empty_conv list_all_iff)
  then show "\<not> checkIsActive (ns_url s @ qs) None (Some ss) False" by (simp add: checkIsActive_def)
qed

section \<open>The bottom bar\<close>

record bar_button =
  bb_id :: string
  bb_title :: string
  bb_active :: bool
  bb_tap :: tap

definition bar_buttons :: "string \<Rightarrow> js list \<Rightarrow> bar_button list" where
  "bar_buttons pathname items =
     map (\<lambda>it. \<lparr>bb_id = ni_id it, bb_title = ni_title it, bb_active = isItemActive pathname it, bb_tap = bar_tap it\<rparr>)
       (visibleItems items)"

text \<open>The sheet over an entry with children: the title and the links with the mark of the page.\<close>

definition SubMenuSheet :: "string \<Rightarrow> nav_item option \<Rightarrow> (string \<times> (string \<times> string \<times> bool) list) option" where
  "SubMenuSheet activePath sheetItem =
     Option.bind sheetItem (\<lambda>it.
       map_option (\<lambda>children. (ni_title it, map (\<lambda>(t, url). (t, url, activePath = url)) children)) (ni_children it))"

datatype sheet_event = Button_tapped nav_item | Sheet_link | Sheet_closed

definition sheet_step :: "sheet_event \<Rightarrow> nav_item option \<Rightarrow> nav_item option" where
  "sheet_step x sheetItem =
     (case x of
        Button_tapped it \<Rightarrow> (case bar_tap it of OpenSheet i \<Rightarrow> Some i | FollowLink url \<Rightarrow> sheetItem)
      | Sheet_link \<Rightarrow> None
      | Sheet_closed \<Rightarrow> None)"

text \<open>Each tap opens a sheet or follows an address; an entry is marked exactly when the page is its own or one of its sheet.\<close>

lemma every_tap_leads:
  assumes "it \<in> set NAV_ITEMS"
  shows "(\<exists>url. bar_tap it = FollowLink url \<and> ni_url it = Some url \<and> (isItemActive p it \<longleftrightarrow> p = url)) \<or>
    (\<exists>t rows. SubMenuSheet p (sheet_step (Button_tapped it) None) = Some (t, rows) \<and> t = ni_title it \<and>
      (isItemActive p it \<longleftrightarrow> (\<exists>(t, url, here) \<in> set rows. here)))"
  using assms by (auto simp: NAV_ITEMS_def bar_tap_def sheet_step_def SubMenuSheet_def isItemActive_def)

section \<open>The menus of the user\<close>

text \<open>\<open>x.charAt(0).toUpperCase()\<close> of a value whose type says that it is a text; another value throws.\<close>

definition first_letter :: "js \<Rightarrow> string option" where
  "first_letter x = (case x of JStr s \<Rightarrow> Some (toUpperCase (take 1 s)) | _ \<Rightarrow> None)"

record user_menu =
  um_initials :: string
  um_name :: js
  um_line :: string
  um_side :: string
  um_entries :: "(string \<times> string) list"

definition NavUser :: "bool \<Rightarrow> nav_user \<Rightarrow> user_menu option" where
  "NavUser isMobile u =
     map_option (\<lambda>initials.
       \<lparr>um_initials = initials, um_name = nu_name u,
        um_line = (if truthy (nu_role u) then ''Role: '' @ js_String (nu_role u) else nu_email u),
        um_side = (if isMobile then ''bottom'' else ''right''),
        um_entries = [(''Profil Saya'', ''/settings''), (''Pengaturan Sistem'', ''/settings/general''), (''Tampilan'', ''/settings/appearance'')]\<rparr>)
       (if truthy (nu_name u) then first_letter (nu_name u) else Some ''U'')"

text \<open>The menu of the header: an entry has its text, its address and the keys written beside it.\<close>

datatype profile_head = Profile_loading | Profile_user js string | Profile_none

definition profile_entries :: "(string \<times> string \<times> string list) list" where
  "profile_entries =
     [(''Profil Saya'', ''/settings'', [''shift'', ''cmd'', ''P'']), (''Billing Config'', ''/settings/billing'', [''cmd'', ''B'']),
      (''Pengaturan Sistem'', ''/settings/general'', [''cmd'', ''S'']), (''Tampilan'', ''/settings/appearance'', [])]"

definition ProfileDropdown :: "auth_user option \<Rightarrow> auth_user option \<Rightarrow> bool \<Rightarrow> (js \<times> string \<times> profile_head) option" where
  "ProfileDropdown currentUser storedUser userLoading =
     (case shown_user currentUser storedUser of
        None \<Rightarrow> Some (JStr ''@user'', ''?'', if userLoading then Profile_loading else Profile_none)
      | Some u \<Rightarrow>
          map_option (\<lambda>letter. (js_coalesce (auth_user.username u) (JStr ''@user''), letter, Profile_user (auth_user.username u) (''Role: '' @ js_String (auth_user.role u))))
            (first_letter (auth_user.username u)))"

text \<open>The state of the dialog that signs out, as \<open>useDialogState\<close> keeps it: asking for the state it has sets \<open>null\<close>.\<close>

definition toggle_dialog :: "bool \<Rightarrow> bool option \<Rightarrow> bool option" where
  "toggle_dialog x s = (if s = Some x then None else Some x)"

definition sign_out_open :: "bool option \<Rightarrow> bool" where
  "sign_out_open s = (s = Some True)"

definition SignOutDialog :: "bool option \<Rightarrow> question" where
  "SignOutDialog s =
     ConfirmDialog (sign_out_open s) ''Sign out''
       ''Are you sure you want to sign out? You will need to sign in again to access your account.'' None (Some ''Sign out'') True False"

lemma sign_out_asked: "\<not> sign_out_open s \<Longrightarrow> sign_out_open (toggle_dialog True s)" "sign_out_open s \<Longrightarrow> \<not> sign_out_open (toggle_dialog False s)"
  by (auto simp: sign_out_open_def toggle_dialog_def)

text \<open>Both menus lead to declared pages that the guards open to everybody who is signed in.\<close>

lemma menu_pages_open:
  assumes "user s = Some u" "truthy (accessToken s)"
    "url \<in> set (map (\<lambda>(t, url, k). url) profile_entries) \<or> (\<exists>m n. NavUser m n = Some d \<and> url \<in> snd ` set (um_entries d))"
  shows "staff_guards s url = None" "url \<in> set FileRoutesByTo"
proof -
  have url: "url \<in> {''/settings'', ''/settings/general'', ''/settings/appearance'', ''/settings/billing''}"
    using assms(3) by (auto simp: profile_entries_def NavUser_def)
  have "\<forall>u \<in> {''/settings'', ''/settings/general'', ''/settings/appearance'', ''/settings/billing''}.
      \<not> in_section ''/admin'' u \<and> \<not> in_section ''/registrations'' u"
    by (simp add: in_section_def)
  then have "\<not> in_section ''/admin'' url \<and> \<not> in_section ''/registrations'' url" using url by (rule bspec)
  then show "staff_guards s url = None"
    using assms(1,2) by (simp add: staff_guards_def authenticated_guard_def)
  have "list_all (\<lambda>u. u \<in> set FileRoutesByTo) [''/settings'', ''/settings/general'', ''/settings/appearance'', ''/settings/billing'']"
    by code_simp
  then have "\<forall>u \<in> {''/settings'', ''/settings/general'', ''/settings/appearance'', ''/settings/billing''}. u \<in> set FileRoutesByTo"
    by (simp only: list_all_iff list.set)
  then show "url \<in> set FileRoutesByTo" using url by (rule bspec)
qed

text \<open>The keys beside Billing Config fold the sidebar instead; no key of the menu is listened to.\<close>

lemma billing_keys_fold_sidebar: "sidebar_key ''b'' True False s = toggleSidebar s"
  by (simp add: sidebar_key_def SIDEBAR_KEYBOARD_SHORTCUT_def)

section \<open>The navigation of the settings\<close>

definition sidebarNavItems :: "(string \<times> string) list" where
  "sidebarNavItems =
     [(''/settings'', ''Profil Saya''), (''/settings/appearance'', ''Tampilan''), (''/settings/general'', ''Umum''),
      (''/settings/billing'', ''Billing''), (''/settings/whatsapp'', ''WhatsApp''), (''/settings/telegram'', ''Telegram''),
      (''/settings/payment-gateway'', ''Payment Gateway''), (''/settings/backup'', ''Backup'')]"

record settings_nav =
  sn_path :: string
  sn_val :: string

definition SidebarNav_init :: "string \<Rightarrow> settings_nav" where
  "SidebarNav_init pathname = \<lparr>sn_path = pathname, sn_val = pathname\<rparr>"

text \<open>The select of a phone keeps the address it was given and goes there; every other navigation changes the path only.\<close>

datatype settings_move = Section_selected string | Path_changed string

definition settings_moved :: "settings_move \<Rightarrow> settings_nav \<Rightarrow> settings_nav" where
  "settings_moved x s = (case x of Section_selected e \<Rightarrow> \<lparr>sn_path = e, sn_val = e\<rparr> | Path_changed p \<Rightarrow> s\<lparr>sn_path := p\<rparr>)"

definition select_text :: "settings_nav \<Rightarrow> string" where
  "select_text s = or_else (map_of sidebarNavItems (sn_val s)) ''Theme''"

definition link_marks :: "settings_nav \<Rightarrow> (string \<times> bool) list" where
  "link_marks s = map (\<lambda>(href, title). (title, sn_path s = href)) sidebarNavItems"

lemma settings_pages_declared: "list_all (\<lambda>(href, t). href \<in> set FileRoutesByTo) sidebarNavItems" "distinct (map fst sidebarNavItems)"
  by code_simp+

text \<open>The links follow the path. The select does not: after a navigation by other means it names the section left behind.\<close>

lemma links_follow:
  assumes "(p, t) \<in> set sidebarNavItems"
  shows "filter snd (link_marks (settings_moved (Path_changed p) s)) = [(t, True)]"
  using assms by (auto simp: link_marks_def settings_moved_def sidebarNavItems_def)

lemma select_stays: "select_text (settings_moved (Path_changed p) s) = select_text s"
  by (simp add: select_text_def settings_moved_def)

section \<open>Signing in\<close>

record signin_values =
  si_username :: string
  si_password :: string

definition signin_defaults :: signin_values where
  "signin_defaults = \<lparr>si_username = [], si_password = []\<rparr>"

definition signin_schema :: "signin_values \<Rightarrow> issue list" where
  "signin_schema v =
     z_min1 ''username'' ''Please enter your username.'' (si_username v)
     @ z_when (64 < length (si_username v)) ''username'' ''Username is too long.''
     @ z_min1 ''password'' ''Please enter your password.'' (si_password v)
     @ z_when (length (si_password v) < 7) ''password'' ''Password must be at least 7 characters long.''"

definition signin_fields :: "signin_values \<Rightarrow> signin_values field list" where
  "signin_fields v =
     [field ''username'' ''Username'' (Input ''text'' ''admin'') si_username (\<lambda>x v. v\<lparr>si_username := x\<rparr>),
      field ''password'' ''Password'' (Input ''password'' ''********'') si_password (\<lambda>x v. v\<lparr>si_password := x\<rparr>)]"

definition signin_page :: "bool \<Rightarrow> string \<times> (string \<times> bool)" where
  "signin_page pending = (''Sign in to Rosmon'', ''Sign in'', \<not> pending)"

interpretation signin_view: form_view "\<lambda>_ :: unit. signin_fields" signin_schema "\<lambda>_. True"
  by (rule form_viewI) (auto simp: signin_fields_def signin_schema_def field_simps_page)

text \<open>Every name and password the administration accepts for an account is accepted here.\<close>

lemma created_can_sign_in:
  "si_username v \<noteq> [] \<Longrightarrow> length (si_username v) \<le> 64 \<Longrightarrow> 8 \<le> length (si_password v) \<Longrightarrow> signin_schema v = []"
  by (auto simp: signin_schema_def z_min1_def z_when_def)

section \<open>The appearance page\<close>

record theme_preview =
  tp_label :: string
  tp_bg :: string
  tp_card :: string
  tp_bar :: string
  tp_sidebar :: string

definition theme_look :: "string \<Rightarrow> string \<Rightarrow> string \<Rightarrow> string \<Rightarrow> string \<Rightarrow> theme_preview" where
  "theme_look l bg crd bar side = \<lparr>tp_label = l, tp_bg = bg, tp_card = crd, tp_bar = bar, tp_sidebar = side\<rparr>"

definition themePreviews :: "(string \<times> theme_preview) list" where
  "themePreviews =
     [(''light'', theme_look ''Light'' ''#ecedef'' ''#ffffff'' ''#ecedef'' ''#ffffff''),
      (''dark'', theme_look ''Dark'' ''#020617'' ''#1e293b'' ''#475569'' ''#0f172a''),
      (''blue'', theme_look ''Ocean Blue'' ''#e0f2fe'' ''#ffffff'' ''#bae6fd'' ''#0369a1''),
      (''green'', theme_look ''Forest Green'' ''#d1fae5'' ''#ffffff'' ''#a7f3d0'' ''#065f46''),
      (''pink'', theme_look ''Rose Pink'' ''#fce7f3'' ''#ffffff'' ''#fbcfe8'' ''#9d174d''),
      (''roslib-dark'', theme_look ''Roslib Dark'' ''#0B1220'' ''#131D36'' ''#22D3EE'' ''#0E162A''),
      (''roslib-light'', theme_look ''Roslib Light'' ''#F4F6FB'' ''#FFFFFF'' ''#8B5CF6'' ''#FFFFFF'')]"

definition accentPreviews :: "(string \<times> string \<times> string list) list" where
  "accentPreviews =
     [(''accent-roslib'', ''Roslib'', [''#22D3EE'', ''#8B5CF6'', ''#A3E635'']),
      (''accent-tech'', ''Tech'', [''#3B82F6'', ''#06B6D4'', ''#10B981'']),
      (''accent-sunset'', ''Sunset'', [''#F97316'', ''#FACC15'', ''#EF4444'']),
      (''accent-corporate'', ''Corporate'', [''#1E40AF'', ''#0EA5E9'', ''#64748B'']),
      (''accent-natural'', ''Natural'', [''#84CC16'', ''#14B8A6'', ''#E7E5E4''])]"

text \<open>The picture of a theme: the ground and three blocks, each with its ground and the colours of its parts.\<close>

definition ThemePreview :: "string \<Rightarrow> (string \<times> (string \<times> string list) list) option" where
  "ThemePreview themeKey =
     map_option (\<lambda>p. (tp_bg p, [(tp_card p, [tp_bar p, tp_bar p]), (tp_card p, [tp_sidebar p, tp_bar p]), (tp_card p, [tp_sidebar p, tp_bar p])]))
       (map_of themePreviews themeKey)"

text \<open>The swatch of an accent: the label, the description and the title it carries, its three colours.\<close>

definition accent_swatch :: "string \<Rightarrow> (string \<times> string \<times> string \<times> string list) option" where
  "accent_swatch key = map_option (\<lambda>(l, colors). (l, js_join '', '' colors, js_join mid_dot colors, colors)) (map_of accentPreviews key)"

definition appearance_fields :: "appearance_values field list" where
  "appearance_fields =
     [helped ''Set the font you want to use in the dashboard.''
        (field ''font'' ''Font'' (Select [] (map (\<lambda>f. (f, f)) fonts) []) av_font (\<lambda>x v. v\<lparr>av_font := x\<rparr>)),
      helped ''Select the theme for the dashboard.'' (field ''theme'' ''Theme'' (Buttons themeOptions) av_theme (\<lambda>x v. v\<lparr>av_theme := x\<rparr>)),
      helped ''Pick a brand color trio (applies to Roslib themes).''
        (field ''accent'' ''Accent palette'' (Buttons accentOptions) av_accent (\<lambda>x v. v\<lparr>av_accent := x\<rparr>))]"

text \<open>Every choice has its picture and its label.\<close>

lemma previews_complete:
  "map fst themePreviews = themeOptions" "map fst accentPreviews = accentOptions"
  "list_all (\<lambda>(k, l, cs). length cs = 3) accentPreviews"
  by (simp_all add: themePreviews_def themeOptions_def accentPreviews_def accentOptions_def)

text \<open>
  The form opens with values its schema accepts, whatever the look is, and every change by hand keeps them accepted: it can
  always be sent.
\<close>

lemma appearance_opens_valid:
  "pf_theme p \<in> set Themes \<Longrightarrow> pf_font p \<in> set fonts \<Longrightarrow> pf_accent p \<in> set ACCENT_CLASSES \<Longrightarrow> appearance_schema (appearance_defaults p)"
  by (auto simp: appearance_schema_def appearance_defaults_def Themes_def THEME_CLASSES_def themeOptions_def ACCENT_CLASSES_def accentOptions_def)

interpretation appearance_view: form_view "\<lambda>(_ :: unit) _. appearance_fields"
  "\<lambda>v. z_when (\<not> appearance_schema v) ''theme'' []" appearance_schema
proof (rule form_viewI)
  show "list_all (\<lambda>f. fl_enabled f \<longrightarrow> (\<forall>x. accepts (fl_control f) x \<longrightarrow> appearance_schema (fl_set f x v))) appearance_fields"
    if "appearance_schema v" for v
    using that by (simp add: appearance_fields_def field_simps_page appearance_schema_def image_image)
  show "distinct (map fl_name appearance_fields)" by (simp add: appearance_fields_def field_simps_page)
  show "list_all (\<lambda>i. list_ex (\<lambda>f. fl_name f = fst i \<and> fl_enabled f) appearance_fields) (z_when (\<not> appearance_schema v) ''theme'' [])"
    if "appearance_schema v" for v
    using that by simp
qed

lemma appearance_always_sent:
  assumes "pf_theme p \<in> set Themes" "pf_font p \<in> set fonts" "pf_accent p \<in> set ACCENT_CLASSES"
    "(edit (\<lambda>(_ :: unit) _. appearance_fields))\<^sup>*\<^sup>* (appearance_defaults p) v"
  shows "appearance_submit v p = appearance_onSubmit v p"
  using appearance_view.edits.inv_run [OF assms(4) appearance_opens_valid [OF assms(1-3)]] by (simp add: appearance_submit_def)

section \<open>The display page\<close>

record display_view =
  dv_intro :: string
  dv_count :: string
  dv_empty :: "string option"
  dv_selected :: "(string \<times> string \<times> string list) list"
  dv_overlay :: "(string \<times> string \<times> string list) option"
  dv_all_used :: "string option"
  dv_available :: "(string \<times> string \<times> bool) list"
  dv_hint :: "string option"

text \<open>An entry of the bar has the labels of its buttons and its children; an available one the label of its box and whether it is free.\<close>

definition navItem_row :: "string \<times> string \<times> string list \<Rightarrow> string \<times> string \<times> string list" where
  "navItem_row = (\<lambda>(i, title, children). (title, ''Remove '' @ title, children))"

definition DisplayForm :: "display_form \<Rightarrow> display_view" where
  "DisplayForm s =
     (let n = length (mn_items (df_nav s)); full = df_isFull s; available = df_availableItems s in
      \<lparr>dv_intro = ''Choose which items appear in the bottom navigation bar on mobile devices. Up to '' @ show_nat MAX_ITEMS @ '' items.'',
       dv_count = ''('' @ show_nat n @ ''/'' @ show_nat MAX_ITEMS @ '')'',
       dv_empty = (if df_selectedItems s = [] then Some ''No items selected. Pick from the list below.'' else None),
       dv_selected = map navItem_row (df_selectedItems s),
       dv_overlay = map_option navItem_row (Option.bind (df_activeId s) (\<lambda>i. find (\<lambda>a. fst a = i) AVAILABLE_ITEMS)),
       dv_all_used = (if available = [] then Some ''All items are already in the bottom nav.'' else None),
       dv_available = map (\<lambda>(i, title, children). (title, ''Add '' @ title, \<not> full)) available,
       dv_hint = (if full \<and> available \<noteq> [] then Some ''Remove an item from the selected list to add a new one.'' else None)\<rparr>)"

text \<open>The bar is never so small that no entry is left to add: there are more entries than places.\<close>

lemma display_never_all_used:
  assumes "mn_ok (df_nav s)"
  shows "dv_all_used (DisplayForm s) = None" "dv_hint (DisplayForm s) = None \<longleftrightarrow> \<not> df_isFull s"
proof -
  let ?items = "mn_items (df_nav s)"
  have d: "distinct (map (\<lambda>a. JStr (fst a)) AVAILABLE_ITEMS)" "length AVAILABLE_ITEMS = 8" by (simp_all add: AVAILABLE_ITEMS_def)
  have "df_availableItems s \<noteq> []"
  proof
    assume "df_availableItems s = []"
    then have "set (map (\<lambda>a. JStr (fst a)) AVAILABLE_ITEMS) \<subseteq> set ?items" by (auto simp: df_availableItems_def filter_empty_conv)
    then have "card (set (map (\<lambda>a. JStr (fst a)) AVAILABLE_ITEMS)) \<le> card (set ?items)" by (rule card_mono [OF finite_set])
    also have "\<dots> \<le> length ?items" by (rule card_length)
    finally show False using assms distinct_card [OF d(1)] d(2) by (simp add: mn_ok_def MAX_ITEMS_def)
  qed
  then show "dv_all_used (DisplayForm s) = None" "dv_hint (DisplayForm s) = None \<longleftrightarrow> \<not> df_isFull s" by (simp_all add: DisplayForm_def Let_def)
qed

section \<open>The tools of the log\<close>

record log_tools =
  lt_badge :: "nat option"
  lt_topics :: "(string \<times> bool) list"
  lt_clear :: bool
  lt_reset :: bool
  lt_showing :: string

definition LogToolbar :: "string \<Rightarrow> string list \<Rightarrow> nat \<Rightarrow> nat \<Rightarrow> log_tools" where
  "LogToolbar x selectedTopics totalShown totalAll =
     (let some = 0 < length selectedTopics in
      \<lparr>lt_badge = (if some then Some (length selectedTopics) else None),
       lt_topics = map (\<lambda>topic. (topic, topic \<in> set selectedTopics)) LOG_TOPICS, lt_clear = some, lt_reset = (x \<noteq> [] \<or> some),
       lt_showing = ''Showing '' @ show_nat totalShown @ '' of '' @ show_nat totalAll\<rparr>)"

definition log_reset :: "string \<times> string list" where
  "log_reset = ([], [])"

text \<open>Pressing a topic turns its mark and leaves the others; the reset leaves no mark, no badge and no reset.\<close>

lemma topic_toggles:
  "t \<in> set (toggle_topic topic xs) \<longleftrightarrow> (if t = topic then topic \<notin> set xs else t \<in> set xs)"
  by (auto simp: toggle_topic_def)

lemma log_reset_clears:
  "LogToolbar (fst log_reset) (snd log_reset) n m =
    \<lparr>lt_badge = None, lt_topics = map (\<lambda>t. (t, False)) LOG_TOPICS, lt_clear = False, lt_reset = False,
     lt_showing = ''Showing '' @ show_nat n @ '' of '' @ show_nat m\<rparr>"
  by (simp add: LogToolbar_def log_reset_def)

section \<open>A card of a phone table, and the bar over a selection\<close>

record mobile_card =
  mc_selected :: bool
  mc_checkbox :: "(string \<times> bool) option"
  mc_trigger :: string
  mc_primary :: "string list"
  mc_meta :: "string option"
  mc_details :: "(string \<times> string \<times> string list) list option"

definition MobileCard :: "bool \<Rightarrow> bool \<Rightarrow> bool \<Rightarrow> bool \<Rightarrow> card \<Rightarrow> mobile_card" where
  "MobileCard opened selected enableSelection canSelect c =
     \<lparr>mc_selected = selected, mc_checkbox = (if enableSelection \<and> canSelect then Some (''Select row'', selected) else None),
      mc_trigger = (if opened then ''Collapse details'' else ''Expand details''), mc_primary = cd_primary c,
      mc_meta = (if cd_meta c = [] then None else Some (cd_meta c)),
      mc_details = (if opened then Some (map (\<lambda>(i, (l, v)). (l @ ''-'' @ show_nat i, l, v)) (enumerate 0 (cd_details c))) else None)\<rparr>"

text \<open>Two details of a card may share their label: the position keeps the keys apart.\<close>

lemma detail_keys_distinct:
  assumes "mc_details (MobileCard b sel en can c) = Some ds" "list_all (\<lambda>(l, v). CHR ''-'' \<notin> set l) (cd_details c)"
  shows "distinct (map fst ds)"
proof -
  let ?key = "\<lambda>(i, (l :: string, v :: string list)). l @ ''-'' @ show_nat i"
  have inj: "inj_on ?key (set (enumerate 0 (cd_details c)))"
  proof (rule inj_onI)
    fix x y
    assume xy: "x \<in> set (enumerate 0 (cd_details c))" "y \<in> set (enumerate 0 (cd_details c))" "?key x = ?key y"
    obtain i l v j k w where x: "x = (i, l, v)" and y: "y = (j, k, w)" by (cases x, cases y)
    note in_set = xy(1,2) [unfolded x y]
    have eq: "l @ ''-'' @ show_nat i = k @ ''-'' @ show_nat j" using xy(3) by (simp add: x y)
    have "(l, v) \<in> set (cd_details c)" "(k, w) \<in> set (cd_details c)"
      using in_set nth_mem [of i "cd_details c"] nth_mem [of j "cd_details c"] by (auto simp: in_set_enumerate_eq)
    then have no: "CHR ''-'' \<notin> set l" "CHR ''-'' \<notin> set k" using assms(2) by (auto simp: list_all_iff)
    have "l = takeWhile (\<lambda>c. c \<noteq> CHR ''-'') (l @ ''-'' @ show_nat i)" using no(1) by (subst takeWhile_append2) auto
    also have "\<dots> = k" unfolding eq using no(2) by (subst takeWhile_append2) auto
    finally have lk: "l = k" .
    then have "i = j" using eq by (simp add: show_nat_inj)
    then show "x = y" using lk in_set by (simp add: x y in_set_enumerate_eq)
  qed
  have "distinct (enumerate 0 (cd_details c))" by simp
  then have "distinct (map ?key (enumerate 0 (cd_details c)))" using inj by (simp add: distinct_map)
  moreover have "map fst ds = map ?key (enumerate 0 (cd_details c))"
    using assms(1) by (auto simp: MobileCard_def split: if_splits)
  ultimately show ?thesis by simp
qed

record bulk_toolbar =
  bt_label :: string
  bt_badge :: "string \<times> string"
  bt_text :: string
  bt_clear :: "string \<times> string"

definition BulkActions_view :: "string \<Rightarrow> nat \<Rightarrow> bulk_toolbar option" where
  "BulkActions_view entityName n =
     (if n = 0 then None
      else Some
        \<lparr>bt_label = ''Bulk actions for '' @ show_nat n @ '' selected '' @ entityName @ (if 1 < n then ''s'' else []),
         bt_badge = (show_nat n, show_nat n @ '' selected''), bt_text = entityName @ (if 1 < n then ''s'' else []) @ '' selected'',
         bt_clear = (''Clear selection'', ''Clear selection (Escape)'')\<rparr>)"

text \<open>The announcement is cleared three seconds later; a new count in between starts the time again.\<close>

record announcer =
  an_text :: string
  an_timer :: "nat option"

datatype announcer_event = Count_changed nat | Microtask string | Timer_due

definition announced :: "string \<Rightarrow> announcer_event \<Rightarrow> announcer \<Rightarrow> announcer" where
  "announced entityName x s =
     (case x of
        Count_changed n \<Rightarrow> s\<lparr>an_timer := (if 0 < n then Some 3000 else None)\<rparr>
      | Microtask message \<Rightarrow> s\<lparr>an_text := message\<rparr>
      | Timer_due \<Rightarrow> if an_timer s = None then s else s\<lparr>an_text := [], an_timer := None\<rparr>)"

text \<open>
  A selection that is given up before the time is over takes the timer with it: the announcement is kept, and the region
  that comes back with the next selection starts with it.
\<close>

lemma announcement_stays:
  assumes "0 < n" "bulk_announcement e n = Some message"
  shows "announced e Timer_due (announced e (Count_changed 0) (announced e (Microtask message) (announced e (Count_changed n) \<lparr>an_text = [], an_timer = None\<rparr>)))
    = \<lparr>an_text = message, an_timer = None\<rparr>"
  by (simp add: announced_def)

section \<open>The overview of the hotspot\<close>

definition hotspot_page :: "int option \<Rightarrow> bool list \<Rightarrow> SSEStatus \<Rightarrow> hotspot_stats \<Rightarrow> (string \<times> string) + (string \<times> string \<times> bool) \<times> kpi list" where
  "hotspot_page routerId fetching status stats =
     (case routerId of
        None \<Rightarrow> Inl (''No router selected'', ''Select a router from the sidebar switcher to view its hotspot status.'')
      | Some r \<Rightarrow>
          Inr ((''Hotspot Overview'', ''Real-time monitoring of all hotspot resources'', \<not> list_ex id fetching), hotspot_kpis status stats))"

definition hotspot_queries :: "int option \<Rightarrow> query_hook list" where
  "hotspot_queries routerId =
     (let rid = or_else routerId 0 in
      [useHotspotUsers rid None, useHotspotProfiles rid, useHotspotActive rid, useHotspotHosts rid])"

text \<open>The refresh asks for each query again, ready or not, and says so.\<close>

definition hotspot_refresh :: "int option \<Rightarrow> qkey list \<times> ui_event" where
  "hotspot_refresh routerId = (map q_key (hotspot_queries routerId), Info (''Refreshing hotspot resources'' @ ellipsis) JUndef)"

text \<open>The button that refreshes is on the page only with a router, so no query runs without one.\<close>

lemma refresh_has_router:
  assumes "hotspot_page routerId fetching status stats = Inr p" "\<forall>r. routerId = Some r \<longrightarrow> 0 < r"
  shows "list_all q_enabled (hotspot_queries routerId)"
  using assms by (auto simp: hotspot_page_def hotspot_queries_def Let_def useHotspotUsers_def useHotspotProfiles_def useHotspotActive_def
      useHotspotHosts_def split: option.splits)

definition hotspot_quick_actions :: "bool \<Rightarrow> (string \<times> bool) list" where
  "hotspot_quick_actions isFetching = [(''Generate Vouchers'', True), (''Setup Expired Monitor'', True), (''Refresh All'', \<not> isFetching)]"

end
