(* ===== verification/Spec2Isabelle.thy ===== *)
theory Spec2Isabelle
  imports Api_Client Sse_Client Api_Laws Table_State Quick_Print Voucher_Print Traffic_Live Session Form_Laws Report
    Appearance Log_Page Date_Range Billing_Tables Voucher_Pages Traffic_Page
    List_Pages Voucher_Views Ppp_Views Payment_Views View_Laws Portal_Pages
    Shell_Views
begin

text \<open>
  \<^bold>\<open>Rosmon web front end\<close>

  Rosmon manages MikroTik routers and the customers behind them: hotspot and PPP accounts,
  vouchers, subscriptions, invoices, messages. This library models its browser front end, the
  TypeScript program under \<^verbatim>\<open>src/web/src\<close>. The Go backend, the browser's network stack and the
  third-party packages (axios, TanStack Query and Router, zustand, zod) are the environment:
  what the code relies on of them is a parameter with a named hypothesis, or the choice of
  the next event.

  \<^bold>\<open>The program and the theories\<close>

  The front end keeps a staff session and a portal session, sends every request through one
  of two HTTP clients, caches replies under structured keys, receives live data over
  server-sent events, and renders pages. The theories follow these parts, from the bottom.

  \<^item> \<^verbatim>\<open>Prelude\<close>: interfaces and lemmas used throughout: the locale of inductive invariants of a
    step relation, codes that are injective and free of delimiters.
  \<^item> \<^verbatim>\<open>Js_Text\<close>, \<^verbatim>\<open>Js_Json\<close>: the parts of the language's standard library the code calls: strings,
    \<open>parseInt\<close>, \<open>encodeURIComponent\<close>, values with truthiness, objects, \<open>JSON.parse\<close>, \<open>atob\<close>, \<open>Number\<close>.
  \<^item> \<^verbatim>\<open>Browser\<close>: cookies (with \<^verbatim>\<open>lib/cookies.ts\<close>) and \<open>localStorage\<close>, both as instances of one
    key-value interface.
  \<^item> \<^verbatim>\<open>Auth_Store\<close>: \<^verbatim>\<open>stores/auth-store.ts\<close> and \<^verbatim>\<open>stores/portal-auth-store.ts\<close>.
  \<^item> \<^verbatim>\<open>Api_Envelope\<close>: \<^verbatim>\<open>lib/api/types.ts\<close>, \<^verbatim>\<open>unwrap.ts\<close>, \<^verbatim>\<open>errors.ts\<close>, \<^verbatim>\<open>lib/handle-server-error.ts\<close>.
  \<^item> \<^verbatim>\<open>Api_Client\<close>: \<^verbatim>\<open>lib/api/client.ts\<close>, the state machine that refreshes the access token on a 401
    and replays the calls that failed meanwhile, and \<^verbatim>\<open>lib/api/portal-client.ts\<close>.
  \<^item> \<^verbatim>\<open>Sse_Client\<close>: \<^verbatim>\<open>lib/api/sse.ts\<close>, the state machine of one event stream.
  \<^item> \<^verbatim>\<open>Query_Keys\<close>: \<^verbatim>\<open>lib/api/query-keys.ts\<close> and the cache of the query client.
  \<^item> \<^verbatim>\<open>Api_Request\<close>, then \<^verbatim>\<open>Hotspot_Api\<close>, \<^verbatim>\<open>Device_Api\<close>, \<^verbatim>\<open>Billing_Api\<close>, \<^verbatim>\<open>Admin_Api\<close>: every
    function of \<^verbatim>\<open>features/*/api/service.ts\<close> as the request it sends and what it makes of the
    reply, and every hook of \<^verbatim>\<open>features/*/api/queries.ts\<close> as its key, call, condition and cache
    operations. \<^verbatim>\<open>Api_Laws\<close> states what holds of all of them.
  \<^item> \<^verbatim>\<open>Table_State\<close>: \<^verbatim>\<open>hooks/use-table-url-state.ts\<close> and the page buttons of \<^verbatim>\<open>lib/utils.ts\<close>.
  \<^item> \<^verbatim>\<open>Quick_Print\<close>: quick-print presets, from the form to the backend record and back.
  \<^item> \<^verbatim>\<open>Voucher_Batch\<close>, \<^verbatim>\<open>Voucher_Print\<close>: voucher generation and the printed HTML pages.
  \<^item> \<^verbatim>\<open>Traffic_Live\<close>: the live traffic grid.
  \<^item> \<^verbatim>\<open>Js_Date\<close>: the calendar of \<open>Date\<close>, local time included: a zone is a parameter, the offset of each moment.
    \<^verbatim>\<open>Formats\<close>: \<^verbatim>\<open>lib/format.ts\<close>, the format helpers of the features, voucher expiries. \<^verbatim>\<open>View_Models\<close>: the
    rows of the tables. \<^verbatim>\<open>Report\<close>: \<^verbatim>\<open>features/report\<close> and the sales page.
  \<^item> \<^verbatim>\<open>Forms\<close>: the contract of a form or dialog (locales \<open>reporting_form\<close>, \<open>dialog_form\<close>, \<open>guarded_form\<close>), what the
    user sees as events, TypeScript's object types. \<^verbatim>\<open>Hotspot_Forms\<close>, \<^verbatim>\<open>Ppp_Forms\<close>, \<^verbatim>\<open>Billing_Forms\<close>,
    \<^verbatim>\<open>Settings_Forms\<close>, \<^verbatim>\<open>Staff_Forms\<close>, \<^verbatim>\<open>Portal_Forms\<close>: the forms of the pages, each an instance of the
    contract; \<^verbatim>\<open>Form_Laws\<close> states what holds of all of them.
  \<^item> \<^verbatim>\<open>Form_View\<close>: the fields of a form, what an input by hand does to its values, and the contract between fields and schema
    (locale \<open>form_view\<close>). \<^verbatim>\<open>Hotspot_Views\<close>, \<^verbatim>\<open>Voucher_Views\<close>, \<^verbatim>\<open>Ppp_Views\<close>, \<^verbatim>\<open>Billing_Views\<close>, \<^verbatim>\<open>Payment_Views\<close>: the fields of
    the drawers and dialogs, each an instance of it. \<^verbatim>\<open>Settings_Views\<close>, \<^verbatim>\<open>Staff_Views\<close>: those of the settings, the account
    page and the staff dialogs. \<^verbatim>\<open>Messaging_Pages\<close>: the gateways of WhatsApp and Telegram with the pairing of a phone.
    \<^verbatim>\<open>View_Laws\<close> states what holds of all of them. \<^verbatim>\<open>Portal_Pages\<close>: the pages of the customer portal.
  \<^item> \<^verbatim>\<open>Dialogs\<close>: the stores that say which dialog is open on which row (locale \<open>dialog_store\<close>), the rows of
    the customer and subscription pages with their timers, actions on a selection (locale \<open>bulk_dialog\<close>).
  \<^item> \<^verbatim>\<open>Session\<close>: sign-in, sign-out, route guards and the query client's error handlers; the
    properties that join it to the other components are in this theory.
  \<^item> \<^verbatim>\<open>Routes\<close>: the generated route tree with the guards along it. \<^verbatim>\<open>Preferences\<close>, \<^verbatim>\<open>Appearance\<close>: the
    cookie-backed look (\<^verbatim>\<open>context\<close>) and its controls. \<^verbatim>\<open>Shell_State\<close>: the bottom bar of phones, the selected
    router, the ping. \<^verbatim>\<open>Navigation\<close>: the sidebar, the command menu. \<^verbatim>\<open>Log_Page\<close>: the log of a router.
    \<^verbatim>\<open>Date_Range\<close>: the pickers of dates and ranges.
  \<^item> \<^verbatim>\<open>Data_Table\<close>: the shared parts of the tables (\<^verbatim>\<open>components/data-table\<close>) over a table library that is a
    parameter. \<^verbatim>\<open>Hotspot_Tables\<close>, \<^verbatim>\<open>Ppp_Tables\<close>, \<^verbatim>\<open>Billing_Tables\<close>: the tables of the pages, each with its
    columns, filters, cards, menus and actions on a selection.
  \<^item> \<^verbatim>\<open>Voucher_Pages\<close>: the overview of the vouchers, the page that generates batches, the quick-print cards and the
    preview. \<^verbatim>\<open>Traffic_Page\<close>: the tabs over the live grid and the history of an interface or queue.
    \<^verbatim>\<open>List_Pages\<close>: what stands around the tables, the overviews, the dashboard and the system page.
    \<^verbatim>\<open>Report_Pages\<close>: the report and sales pages around the aggregations of \<^verbatim>\<open>Report\<close>. \<^verbatim>\<open>Billing_Pages\<close>: those of customers,
    invoices and payments. \<^verbatim>\<open>Confirm_Views\<close>: the questions before something is removed, and the revealed passwords.
    \<^verbatim>\<open>Shell_Views\<close>: the widgets of the shell (locale \<open>chooser\<close> for the sections of the settings drawer), the sign-in form.

  \<^bold>\<open>Conventions\<close>

  Definitions keep the names of the code; a name used by several modules carries the module's
  name in front (\<open>traffic_useQueues\<close>), and a record field that would clash carries a short
  prefix. A struct is a record, a union of literals a datatype (or a string where the code
  tests unchecked strings), a dynamic value the type \<open>js\<close>. An exception is a value: \<open>Inl\<close> of a
  \<open>thrown\<close>, or \<open>None\<close> where only one can occur. Strings are lists of characters with codes below
  256, standing for the UTF-8 text; case conversion is that of ASCII. Numbers are exact
  rationals or integers: not-a-number is \<open>None\<close>, and infinities and rounding do not occur in the
  code modelled here. 32-bit arithmetic (\<open>| 0\<close>, \<open>Math.imul\<close>, shifts) is on words.

  Stateful modules are records passed through their operations; concurrency is the order of
  events. The staff client and the event stream are inductive step relations in which the
  environment picks the next reply, timer or action, so the invariants hold for every
  interleaving. The matching of cache keys is a parameter \<open>m\<close> with the documented law that a key
  matches its extensions; random numbers are a parameter with the documented range; number and
  date formatting for print are parameters without any law. Local time is a parameter too: a zone gives
  the offset of every moment, and what is proved assumes at most that the clock shows the midnights in
  question. The callbacks a form gives to \<open>mutate\<close> run for the latest call only, as the library documents;
  in the dialogs that send one request this is the call, in the settings forms a parameter \<open>fires\<close> says it.

  No definition runs on fuel except the JSON parser, whose bound is the length of the text
  (each level consumes a character), and the voucher loop, whose counter is the program's
  own; printing a fraction looks for at most twenty decimals, more than any amount has. Every other recursion is structural or has a termination proof.

  \<^bold>\<open>What is proved\<close>

  \<^item> The staff client: from any reachable state all traffic comes to rest; each call is
    answered exactly once; at most one refresh runs; its success replays every waiting call
    with the new token, its failure rejects them all and resets the session; other failures
    pass through.
  \<^item> Sessions: a reload finds what was stored, a reset leaves nothing; signing in leads to a
    page the guards let through, signing out closes every page.
  \<^item> Requests: every function addresses the router it was given and keeps identifiers inside
    their path segment; hooks that share a key make the same request; no query runs without a
    router; after a write no cached query shows what it changed.
  \<^item> Streams: one connection at a time, silence after clean-up, bounded doubling back-off.
  \<^item> Pages: table state survives a reload, saved presets are shown as entered, printed data
    cannot become markup, the live grid equals its declarative specification, generated
    vouchers are distinct and well formed.
  \<^item> Forms: the body of every request has the type its API declares; saving what was loaded changes nothing;
    partial updates send exactly the difference; a failure is told once and leaves the form open; the customer
    wizard and the proof of a transfer keep their two requests in order; a form that refuses always says why at a
    field that is on the page.
  \<^item> Dialogs: an open dialog has its row when the timers of the one before have run out; an action on a
    selection handles every row and sums up with one message.
  \<^item> Dates: an expiry comment is read as it was written, the month grid has every day once and loses no sale.
  \<^item> The shell: the sidebar shows a role exactly the pages the guards let through, and the guards found along the
    generated tree are those of \<open>Session\<close>; every look setting survives a reload; the bottom bar and the selected
    router are kept well formed; the log shows the newest entries and reads their times back.
  \<^item> Tables: every facet and search box works on a column made for it; an option shows exactly the rows with its
    value; an action on a selection reaches exactly the ticked places that are shown.
  \<^item> Termination: the voucher generator's loop ends whatever the random numbers are.
  \<^item> Exceptions found while stating these: the properties from the masked 401 on give the
    inputs on which the code departs from its comments or from the general law.

  \<^bold>\<open>Not modelled\<close>

  Markup and styling of the React components: of a component the theories keep the texts, the fields, what is locked and
  what its handlers do. The vendored UI primitives (but for the sidebar's state), the pages kept from the admin template
  (tasks, users, the demo settings), the landing page, icons and the drawing of charts hold no logic of the program. Dead
  code (the sample sales, the sample packages) is left out. Zod's test of an e-mail address is a parameter.

  \<^bold>\<open>Plan\<close>

  What is left is glue: the index pages that pass a query's data to a table.
\<close>
section \<open>The session across components\<close>





text \<open>
  C40. What a masked 401 does to the user. When a call is answered with 401 and no refresh token
  is stored, the client hands over its own error instead of the server's. On the sign-in
  page a wrong password is therefore reported as \<open>No refresh token\<close>, not with the server's
  message; and a query that fails this way neither announces that the session has expired nor
  goes to the sign-in page, but is retried, although the session has been reset.
\<close>

theorem masked_401:
  assumes "cfg_caller c = App n" "\<not> cfg_retry c" "\<forall>u. cfg_url c = Some u \<longrightarrow> \<not> js_includes u ''/auth/refresh''"
    and "map_option resp_status (ax_response e) = Some 401"
    and "\<not> isRefreshing s" "failedQueue s = []" "auth_state.refreshToken (store s) = []" "refresher s = None"
  shows "\<exists>err. client.settled (on_error c e s) = client.settled s @ [(n, Rejected err)] \<and> store (on_error c e s) = reset (store s)
    \<and> last (app_events (login_submit redirectTo (Inl err) a)) = Toast ''Sign in failed'' (Some (JStr ''No refresh token''))
    \<and> app_events (query_on_error production href err a) = app_events a
    \<and> query_retry False True 0 err
    \<and> app_events (query_on_error production href (AxiosErr e) a) =
        app_events a @ [Toast ''Session expired!'' None, app_event.Navigate ''/sign-in'' [(''redirect'', href)]]"
  using no_refresh_token [OF assms] assms(4)
  by (auto simp: login_submit_def emit_def parseAPIError_def query_on_error_def error_status_def query_retry_def)

theorem masked_401_witness:
  "\<exists>err. client.settled (on_error (sample_call 1 ''/auth/login'') sample_401 (sample_idle\<lparr>store := reset sample_store\<rparr>)) = [(1, Rejected err)]
     \<and> last (app_events (login_submit None (Inl err) sample_app)) = Toast ''Sign in failed'' (Some (JStr ''No refresh token''))"
proof -
  have "\<not> js_includes ''/auth/login'' ''/auth/refresh''" by code_simp
  with masked_401 [of "sample_call 1 ''/auth/login''" 1 sample_401 "sample_idle\<lparr>store := reset sample_store\<rparr>" None sample_app]
  show ?thesis by (auto simp: sample_call_def sample_idle_def sample_401_def reset_def)
qed

end
